(* ===== verification/Den_Prelude.thy ===== *)
theory Den_Prelude
  imports Main "HOL-Library.Word" "HOL-Library.Multiset" "HOL-Library.Sublist"
begin

section \<open>Shared vocabulary of the Den development\<close>

text \<open>
  What every component theory uses: the proof collections, Rust's machine integers with
  saturating and overflow-checked arithmetic, panics as values, results as sums, the
  combinators of \<open>Option\<close> and of iterators that the sources call.
\<close>

named_theorems den_simps \<open>equations of helper definitions that proofs about their callers unfold\<close>

subsection \<open>Machine integers\<close>

type_synonym u8 = "8 word"
type_synonym u32 = "32 word"
type_synonym u64 = "64 word"

text \<open>
  \<open>a.saturating_add(b)\<close>, \<open>a.saturating_sub(b)\<close> and \<open>a.saturating_mul(b)\<close>: the value \<open>-1\<close>
  is the all-ones word, Rust's \<open>MAX\<close>.
\<close>

definition sat_add :: "'a::len word \<Rightarrow> 'a word \<Rightarrow> 'a word" where
  "sat_add a b = (if unat a + unat b < 2 ^ LENGTH('a) then a + b else - 1)"

definition sat_sub :: "'a::len word \<Rightarrow> 'a word \<Rightarrow> 'a word" where
  "sat_sub a b = (if b \<le> a then a - b else 0)"

definition sat_mul :: "'a::len word \<Rightarrow> 'a word \<Rightarrow> 'a word" where
  "sat_mul a b = (if unat a * unat b < 2 ^ LENGTH('a) then a * b else - 1)"

text \<open>
  Plain \<open>a + b\<close>: with overflow checks on, an overflow panics. A panic is a value, so that
  its absence can be a theorem. \<open>DebugAssertion\<close> is a failed \<open>debug_assert!\<close>, checked in the
  same builds.
\<close>

datatype panic = AddOverflow | DebugAssertion

definition add_chk :: "'a::len word \<Rightarrow> 'a word \<Rightarrow> panic + 'a word" where
  "add_chk a b = (if unat a + unat b < 2 ^ LENGTH('a) then Inr (a + b) else Inl AddOverflow)"

lemma unat_minus_one_max: "unat (- 1 :: 'a::len word) = 2 ^ LENGTH('a) - 1"
  by (simp add: unsigned_minus_1_eq_mask mask_eq_exp_minus_1)

lemma unat_sat_add: "unat (sat_add a b) = min (unat a + unat b) (2 ^ LENGTH('a) - 1)"
  for a b :: "'a::len word"
proof (cases "unat a + unat b < 2 ^ LENGTH('a)")
  case True
  then have "unat (a + b) = unat a + unat b" by (simp add: unat_word_ariths)
  with True show ?thesis by (simp add: sat_add_def)
next
  case False
  then show ?thesis by (simp add: sat_add_def unat_minus_one_max)
qed

lemma unat_sat_sub: "unat (sat_sub a b) = unat a - unat b"
  by (auto simp: sat_sub_def unat_sub word_le_nat_alt)

lemma unat_sat_mul: "unat (sat_mul a b) = min (unat a * unat b) (2 ^ LENGTH('a) - 1)"
  for a b :: "'a::len word"
proof (cases "unat a * unat b < 2 ^ LENGTH('a)")
  case True
  then have "unat (a * b) = unat a * unat b" by (simp add: unat_word_ariths)
  with True show ?thesis by (simp add: sat_mul_def)
next
  case False
  then show ?thesis by (simp add: sat_mul_def unat_minus_one_max)
qed

lemma sat_add_ge_left: "a \<le> sat_add a b"
proof -
  have "unat a < 2 ^ LENGTH('a)" for a :: "'a::len word" by (rule unsigned_less)
  then have "unat a \<le> 2 ^ LENGTH('a) - 1" for a :: "'a word"
    by (metis One_nat_def Suc_pred zero_less_numeral zero_less_power less_Suc_eq_le)
  then show ?thesis by (simp add: word_le_nat_alt unat_sat_add)
qed

lemma sat_sub_le: "sat_sub a b \<le> a"
  by (simp add: word_le_nat_alt unat_sat_sub)

text \<open>Below a strict bound, an increment is exact: no saturation and no overflow.\<close>

lemma less_imp_add_one_exact:
  fixes a b :: "'a::len word"
  assumes "a < b"
  shows "unat a + unat (1 :: 'a word) < 2 ^ LENGTH('a)"
proof -
  have "unat b < 2 ^ LENGTH('a)" by (rule unsigned_less)
  moreover have "unat a < unat b" using assms by (simp add: word_less_nat_alt)
  ultimately have "unat a + 1 < 2 ^ LENGTH('a)" by linarith
  then show ?thesis by simp
qed

lemma add_chk_one_ok: "a < b \<Longrightarrow> add_chk a 1 = Inr (a + 1)"
  using less_imp_add_one_exact [of a b] by (simp add: add_chk_def)

lemma sat_add_one_ok: "a < b \<Longrightarrow> sat_add a 1 = a + 1"
  using less_imp_add_one_exact [of a b] by (simp add: sat_add_def)

subsection \<open>Results\<close>

text \<open>\<open>Result<T, E>\<close> is the sum \<open>'e + 'a\<close> with \<open>Inl\<close> the error; \<open>bindR\<close> is the \<open>?\<close> operator.\<close>

fun bindR :: "'e + 'a \<Rightarrow> ('a \<Rightarrow> 'e + 'b) \<Rightarrow> 'e + 'b" where
  "bindR (Inl e) f = Inl e"
| "bindR (Inr a) f = f a"

lemma bindR_Inr_iff: "bindR r f = Inr b \<longleftrightarrow> (\<exists>a. r = Inr a \<and> f a = Inr b)"
  by (cases r) auto

lemma bindR_Inl_iff: "bindR r f = Inl e \<longleftrightarrow> r = Inl e \<or> (\<exists>a. r = Inr a \<and> f a = Inl e)"
  by (cases r) auto

text \<open>\<open>iter().find(p)\<close> is \<open>List.find\<close>; \<open>find_map\<close> is the first defined image.\<close>

fun find_map :: "('a \<Rightarrow> 'b option) \<Rightarrow> 'a list \<Rightarrow> 'b option" where
  "find_map f [] = None"
| "find_map f (x # xs) = (case f x of Some y \<Rightarrow> Some y | None \<Rightarrow> find_map f xs)"

definition unwrap_or :: "'a option \<Rightarrow> 'a \<Rightarrow> 'a" where
  "unwrap_or x d = (case x of Some y \<Rightarrow> y | None \<Rightarrow> d)"

definition or_else :: "'a option \<Rightarrow> 'a option \<Rightarrow> 'a option" where
  "or_else x y = (case x of Some _ \<Rightarrow> x | None \<Rightarrow> y)"

definition is_some_and :: "'a option \<Rightarrow> ('a \<Rightarrow> bool) \<Rightarrow> bool" where
  "is_some_and x p = (case x of Some y \<Rightarrow> p y | None \<Rightarrow> False)"

definition filter_opt :: "('a \<Rightarrow> bool) \<Rightarrow> 'a option \<Rightarrow> 'a option" where
  "filter_opt p x = (case x of Some y \<Rightarrow> if p y then x else None | None \<Rightarrow> None)"

lemma unwrap_or_simps [simp]: "unwrap_or (Some x) d = x" "unwrap_or None d = d"
  by (simp_all add: unwrap_or_def)

lemma or_else_simps [simp]: "or_else (Some x) y = Some x" "or_else None y = y"
  by (simp_all add: or_else_def)

lemma is_some_and_simps [simp]: "is_some_and (Some x) p = p x" "is_some_and None p = False"
  by (simp_all add: is_some_and_def)

lemma filter_opt_simps [simp]:
  "filter_opt p (Some x) = (if p x then Some x else None)" "filter_opt p None = None"
  by (simp_all add: filter_opt_def)

lemma find_Some_set: "List.find p xs = Some x \<Longrightarrow> x \<in> set xs \<and> p x"
  by (induction xs) (auto split: if_splits)

lemma find_None_all: "List.find p xs = None \<longleftrightarrow> (\<forall>x \<in> set xs. \<not> p x)"
  by (induction xs) auto

text \<open>Sorting by a key that identifies the elements does not depend on their order.\<close>

lemma sort_key_mset_eq:
  fixes f :: "'a \<Rightarrow> 'b::linorder"
  assumes "mset xs = mset ys" and "inj_on f (set xs)"
  shows "sort_key f xs = sort_key f ys"
  using assms by (intro sort_key_inj_key_eq) simp_all

text \<open>Searching and sorting lists of rows.\<close>

lemma find_append: "List.find P (xs @ ys) = (case List.find P xs of None \<Rightarrow> List.find P ys | Some x \<Rightarrow> Some x)"
  by (induction xs) auto

lemma find_unique:
  assumes "x \<in> set xs" "P x" "\<And>y. y \<in> set xs \<Longrightarrow> P y \<Longrightarrow> y = x"
  shows "List.find P xs = Some x"
proof (cases "List.find P xs")
  case None
  then show ?thesis using assms(1,2) by (auto simp: find_None_all)
next
  case (Some y)
  then show ?thesis using assms(3) find_Some_set by fastforce
qed

lemma find_distinct_rev:
  assumes "distinct (map key rows)"
  shows "List.find (\<lambda>r. key r = k) (rev rows) = List.find (\<lambda>r. key r = k) rows"
proof (cases "List.find (\<lambda>r. key r = k) rows")
  case None
  then have "List.find (\<lambda>r. key r = k) (rev rows) = None" by (simp add: find_None_all)
  with None show ?thesis by simp
next
  case (Some r)
  then have r: "r \<in> set rows" "key r = k" by (auto dest: find_Some_set)
  show ?thesis
  proof (cases "List.find (\<lambda>r. key r = k) (rev rows)")
    case None
    then show ?thesis using r by (auto simp: find_None_all)
  next
    case (Some r')
    then have "r' \<in> set rows" "key r' = k" by (auto dest: find_Some_set)
    then have "r' = r" using assms r by (auto simp: distinct_map inj_on_def)
    then show ?thesis using Some \<open>List.find (\<lambda>r. key r = k) rows = Some r\<close> by simp
  qed
qed

lemma same_rows_same_lookup:
  assumes "mset rows = mset rows'" and "distinct (map key rows)"
  shows "List.find (\<lambda>r. key r = k) rows = List.find (\<lambda>r. key r = k) rows'"
proof (cases "List.find (\<lambda>r. key r = k) rows")
  case None
  then have "List.find (\<lambda>r. key r = k) rows' = None"
    using mset_eq_setD [OF assms(1)] by (simp add: find_None_all)
  with None show ?thesis by simp
next
  case (Some r)
  then have r: "r \<in> set rows" "key r = k" by (auto dest: find_Some_set)
  have "set rows' = set rows" using mset_eq_setD [OF assms(1)] by simp
  then obtain r' where r': "List.find (\<lambda>r. key r = k) rows' = Some r'"
    using r by (cases "List.find (\<lambda>r. key r = k) rows'") (auto simp: find_None_all)
  then have "r' \<in> set rows" "key r' = k" using \<open>set rows' = set rows\<close> by (auto dest: find_Some_set)
  then show ?thesis using assms(2) r r' Some by (auto simp: distinct_map inj_on_def)
qed

lemma sort_key_map: "sort_key f (map g xs) = map g (sort_key (\<lambda>x. f (g x)) xs)"
proof (induction xs)
  case (Cons x xs)
  have "insort_key f (g y) (map g ys) = map g (insort_key (\<lambda>x. f (g x)) y ys)" for y ys by (induction ys) simp_all
  with Cons show ?case by simp
qed simp

lemma sorted_subseq: "subseq xs ys \<Longrightarrow> sorted ys \<Longrightarrow> sorted xs"
proof (induction rule: list_emb.induct)
  case (list_emb_Cons2 x y xs ys)
  then show ?case using list_emb_set [OF list_emb_Cons2.hyps(2)] by fastforce
qed simp_all

end
