(* ===== verification/Rust_String.thy ===== *)
theory Rust_String
  imports Den_Prelude "HOL-Library.Char_ord" "HOL-Library.List_Lexorder"
begin

section \<open>Rust strings and JSON values\<close>

text \<open>
  A Rust \<open>String\<close> is its UTF-8 encoding, so it is modelled by the list of its bytes
  (\<open>string\<close>, one \<open>char\<close> per byte). Literals of the sources are ASCII except where the bytes
  are written out. \<open>str::len\<close> is \<open>length\<close>, \<open>str::contains\<close>, \<open>starts_with\<close> and equality are
  the operations on byte lists, and the order on \<open>str\<close> is the lexicographic order of the
  bytes. Whitespace is Unicode's \<open>White_Space\<close>, whose code points beyond ASCII have two or
  three bytes; UTF-8 is self-synchronising, so matching their encodings on bytes is exact.
\<close>

subsection \<open>Whitespace\<close>

definition ascii_ws :: "char \<Rightarrow> bool" where
  "ascii_ws c \<longleftrightarrow> c = CHR 0x20 \<or> c = CHR 0x09 \<or> c = CHR 0x0A \<or> c = CHR 0x0B
     \<or> c = CHR 0x0C \<or> c = CHR 0x0D"

definition ws2 :: "char \<Rightarrow> char \<Rightarrow> bool" where
  "ws2 a b \<longleftrightarrow> a = CHR 0xC2 \<and> (b = CHR 0x85 \<or> b = CHR 0xA0)"

definition ws3 :: "char \<Rightarrow> char \<Rightarrow> char \<Rightarrow> bool" where
  "ws3 a b c \<longleftrightarrow>
     (a = CHR 0xE1 \<and> b = CHR 0x9A \<and> c = CHR 0x80)
   \<or> (a = CHR 0xE2 \<and> b = CHR 0x80 \<and>
        c \<in> {CHR 0x80, CHR 0x81, CHR 0x82, CHR 0x83, CHR 0x84, CHR 0x85, CHR 0x86, CHR 0x87,
             CHR 0x88, CHR 0x89, CHR 0x8A, CHR 0xA8, CHR 0xA9, CHR 0xAF})
   \<or> (a = CHR 0xE2 \<and> b = CHR 0x81 \<and> c = CHR 0x9F)
   \<or> (a = CHR 0xE3 \<and> b = CHR 0x80 \<and> c = CHR 0x80)"

text \<open>The number of bytes of the whitespace character a string starts with, 0 for none.\<close>

fun ws_len :: "string \<Rightarrow> nat" where
  "ws_len [] = 0"
| "ws_len [a] = (if ascii_ws a then 1 else 0)"
| "ws_len [a, b] = (if ascii_ws a then 1 else if ws2 a b then 2 else 0)"
| "ws_len (a # b # c # s) =
     (if ascii_ws a then 1 else if ws2 a b then 2 else if ws3 a b c then 3 else 0)"

text \<open>The same for the whitespace character a string ends with, on the reversed string.\<close>

fun ws_len_end :: "string \<Rightarrow> nat" where
  "ws_len_end [] = 0"
| "ws_len_end [a] = (if ascii_ws a then 1 else 0)"
| "ws_len_end [b, a] = (if ascii_ws b then 1 else if ws2 a b then 2 else 0)"
| "ws_len_end (c # b # a # s) =
     (if ascii_ws c then 1 else if ws2 b c then 2 else if ws3 a b c then 3 else 0)"

lemma ws_len_le: "ws_len s \<le> length s"
  by (induction s rule: ws_len.induct) auto

lemma ws_len_end_le: "ws_len_end s \<le> length s"
  by (induction s rule: ws_len_end.induct) auto

function trim_start :: "string \<Rightarrow> string" where
  "trim_start s = (if ws_len s = 0 then s else trim_start (drop (ws_len s) s))"
  by pat_completeness auto
termination
proof (relation "measure length")
  fix s :: string
  assume "ws_len s \<noteq> 0"
  then show "(drop (ws_len s) s, s) \<in> measure length"
    using ws_len_le [of s] by auto
qed simp

function trim_end_rev :: "string \<Rightarrow> string" where
  "trim_end_rev s = (if ws_len_end s = 0 then s else trim_end_rev (drop (ws_len_end s) s))"
  by pat_completeness auto
termination
proof (relation "measure length")
  fix s :: string
  assume "ws_len_end s \<noteq> 0"
  then show "(drop (ws_len_end s) s, s) \<in> measure length"
    using ws_len_end_le [of s] by auto
qed simp

declare trim_start.simps [simp del] trim_end_rev.simps [simp del]

definition trim :: "string \<Rightarrow> string" where
  "trim s = rev (trim_end_rev (rev (trim_start s)))"

text \<open>\<open>split_whitespace\<close>: the maximal runs of non-whitespace, in order.\<close>

definition flush_word :: "string \<Rightarrow> string list" where
  "flush_word w = (if w = [] then [] else [w])"

function split_ws :: "string \<Rightarrow> string \<Rightarrow> string list" where
  "split_ws cur s =
     (case s of [] \<Rightarrow> flush_word cur
      | c # t \<Rightarrow> if ws_len s = 0 then split_ws (cur @ [c]) t
                 else flush_word cur @ split_ws [] (drop (ws_len s) s))"
  by pat_completeness auto
termination
proof (relation "measure (\<lambda>(cur, s). length s)")
  fix cur s :: string and c t
  assume "s = c # t" and "ws_len s \<noteq> 0"
  then show "(([], drop (ws_len s) s), cur, s) \<in> measure (\<lambda>(cur, s). length s)"
    using ws_len_le [of s] by auto
qed auto

declare split_ws.simps [simp del]

definition split_whitespace :: "string \<Rightarrow> string list" where
  "split_whitespace s = split_ws [] s"

subsection \<open>Searching, case folding, joining, decimal numbers\<close>

fun str_contains :: "string \<Rightarrow> string \<Rightarrow> bool" where
  "str_contains [] p = (p = [])"
| "str_contains (c # s) p = (prefix p (c # s) \<or> str_contains s p)"

lemma str_contains_sublist: "str_contains s p \<longleftrightarrow> sublist p s"
  by (induction s) (auto simp: sublist_Cons_right)

definition strip_prefix :: "string \<Rightarrow> string \<Rightarrow> string option" where
  "strip_prefix p s = (if prefix p s then Some (drop (length p) s) else None)"

definition ascii_lower :: "char \<Rightarrow> char" where
  "ascii_lower c = (if CHR ''A'' \<le> c \<and> c \<le> CHR ''Z'' then char_of (of_char c + 32 :: nat) else c)"

definition to_ascii_lowercase :: "string \<Rightarrow> string" where
  "to_ascii_lowercase = map ascii_lower"

fun join_str :: "string \<Rightarrow> string list \<Rightarrow> string" where
  "join_str sep [] = []"
| "join_str sep [x] = x"
| "join_str sep (x # y # ys) = x @ sep @ join_str sep (y # ys)"

definition digit_char :: "nat \<Rightarrow> char" where
  "digit_char d = char_of (48 + d)"

fun show_nat :: "nat \<Rightarrow> string" where
  "show_nat n = (if n < 10 then [digit_char n] else show_nat (n div 10) @ [digit_char (n mod 10)])"

declare show_nat.simps [simp del]

definition hex_digit :: "nat \<Rightarrow> char" where
  "hex_digit d = (if d < 10 then char_of (48 + d) else char_of (87 + d))"

definition show_int :: "int \<Rightarrow> string" where
  "show_int i = (if i < 0 then ''-'' @ show_nat (nat (- i)) else show_nat (nat i))"

abbreviation show_word :: "'a::len word \<Rightarrow> string" where
  "show_word w \<equiv> show_nat (unat w)"

text \<open>\<open>chars().count()\<close>: UTF-8 continuation bytes are those from 0x80 to 0xBF.\<close>

definition char_count :: "string \<Rightarrow> nat" where
  "char_count s = length (filter (\<lambda>c. \<not> (CHR 0x80 \<le> c \<and> c \<le> CHR 0xBF)) s)"

text \<open>\<open>chars().take(n)\<close>.\<close>

definition is_continuation :: "char \<Rightarrow> bool" where
  "is_continuation c \<longleftrightarrow> CHR 0x80 \<le> c \<and> c \<le> CHR 0xBF"

fun take_chars :: "nat \<Rightarrow> string \<Rightarrow> string" where
  "take_chars n [] = []"
| "take_chars n (c # cs) =
     (if is_continuation c then c # take_chars n cs
      else case n of 0 \<Rightarrow> [] | Suc k \<Rightarrow> c # take_chars k cs)"

lemma char_count_le: "char_count s \<le> length s"
  by (simp add: char_count_def)

subsection \<open>Facts about trimming\<close>

lemma trim_start_no_ws: "ws_len (trim_start s) = 0"
  by (induction s rule: trim_start.induct) (subst trim_start.simps, simp)

lemma trim_end_rev_no_ws: "ws_len_end (trim_end_rev s) = 0"
  by (induction s rule: trim_end_rev.induct) (subst trim_end_rev.simps, simp)

lemma trim_start_id: "ws_len s = 0 \<Longrightarrow> trim_start s = s"
  by (simp add: trim_start.simps)

lemma trim_end_rev_id: "ws_len_end s = 0 \<Longrightarrow> trim_end_rev s = s"
  by (simp add: trim_end_rev.simps)

lemma trim_Nil [simp]: "trim [] = []"
  by (simp add: trim_def trim_start.simps trim_end_rev.simps)

lemma trim_id: "ws_len s = 0 \<Longrightarrow> ws_len_end (rev s) = 0 \<Longrightarrow> trim s = s"
  by (simp add: trim_def trim_start_id trim_end_rev_id)

lemmas trim_eval = ascii_ws_def ws2_def ws3_def

lemma trim_start_suffix: "suffix (trim_start s) s"
proof (induction s rule: trim_start.induct)
  case (1 s)
  show ?case
  proof (cases "ws_len s = 0")
    case True
    then show ?thesis by (simp add: trim_start_id)
  next
    case False
    then have "suffix (trim_start (drop (ws_len s) s)) (drop (ws_len s) s)" by (rule "1.IH")
    moreover have "suffix (drop (ws_len s) s) s" by (rule suffix_drop)
    ultimately have "suffix (trim_start (drop (ws_len s) s)) s" by (rule suffix_order.trans)
    with False show ?thesis by (simp add: trim_start.simps [of s])
  qed
qed

lemma trim_end_rev_suffix: "suffix (trim_end_rev s) s"
proof (induction s rule: trim_end_rev.induct)
  case (1 s)
  show ?case
  proof (cases "ws_len_end s = 0")
    case True
    then show ?thesis by (simp add: trim_end_rev_id)
  next
    case False
    then have "suffix (trim_end_rev (drop (ws_len_end s) s)) (drop (ws_len_end s) s)"
      by (rule "1.IH")
    moreover have "suffix (drop (ws_len_end s) s) s" by (rule suffix_drop)
    ultimately have "suffix (trim_end_rev (drop (ws_len_end s) s)) s"
      by (rule suffix_order.trans)
    with False show ?thesis by (simp add: trim_end_rev.simps [of s])
  qed
qed

lemma trim_sublist: "sublist (trim s) s"
proof -
  have "prefix (trim s) (trim_start s)"
    using trim_end_rev_suffix [of "rev (trim_start s)"]
    by (simp add: trim_def suffix_to_prefix)
  then obtain r where "trim_start s = trim s @ r" by (auto elim: prefixE)
  moreover obtain l where "s = l @ trim_start s"
    using trim_start_suffix [of s] by (auto elim: suffixE)
  ultimately have "s = l @ trim s @ r" by simp
  then show ?thesis by (metis sublist_appendI)
qed

lemma trim_prefix_trim_start: "prefix (trim s) (trim_start s)"
  using trim_end_rev_suffix [of "rev (trim_start s)"] by (simp add: trim_def suffix_to_prefix)

lemma ws_len_append: "ws_len p \<noteq> 0 \<Longrightarrow> ws_len (p @ q) \<noteq> 0"
  by (induction p rule: ws_len.induct) (cases q rule: ws_len.cases; force split: if_splits)+

lemma ws_len_trim [simp]: "ws_len (trim s) = 0"
proof -
  obtain r where "trim_start s = trim s @ r" using trim_prefix_trim_start by (auto elim: prefixE)
  then show ?thesis using trim_start_no_ws [of s] ws_len_append [of "trim s" r] by metis
qed

lemma trim_trim [simp]: "trim (trim s) = trim s"
  by (rule trim_id) (simp_all add: trim_def trim_end_rev_no_ws del: ws_len_trim, simp flip: trim_def)

text \<open>Strings of graphic ASCII characters are their own trimmed form.\<close>

definition graphic :: "char \<Rightarrow> bool" where
  "graphic c \<longleftrightarrow> CHR 0x21 \<le> c \<and> c \<le> CHR 0x7E"

lemma graphic_not_ws:
  assumes "graphic c"
  shows "\<not> ascii_ws c" "c \<noteq> CHR 0xC2" "c \<noteq> CHR 0xE1" "c \<noteq> CHR 0xE2" "c \<noteq> CHR 0xE3"
proof -
  show "c \<noteq> CHR 0xC2" "c \<noteq> CHR 0xE1" "c \<noteq> CHR 0xE2" "c \<noteq> CHR 0xE3"
    using assms by (auto simp: graphic_def)
  show "\<not> ascii_ws c" using assms unfolding ascii_ws_def graphic_def by (elim conjE) (intro notI, elim disjE; simp)
qed

lemma graphic_no_ws2: "graphic a \<Longrightarrow> \<not> ws2 a b"
  by (simp add: ws2_def graphic_not_ws)

lemma graphic_no_ws3: "graphic a \<Longrightarrow> \<not> ws3 a b c"
  by (simp add: ws3_def graphic_not_ws)

lemma ws_len_graphic: "list_all graphic s \<Longrightarrow> ws_len s = 0"
  by (cases s rule: ws_len.cases) (simp_all add: graphic_not_ws graphic_no_ws2 graphic_no_ws3)

lemma ws_len_end_graphic: "list_all graphic s \<Longrightarrow> ws_len_end s = 0"
  by (cases s rule: ws_len_end.cases) (simp_all add: graphic_not_ws graphic_no_ws2 graphic_no_ws3)

lemma trim_graphic: "list_all graphic s \<Longrightarrow> trim s = s"
  by (rule trim_id) (simp_all add: ws_len_graphic ws_len_end_graphic)
subsection \<open>JSON values\<close>

text \<open>
  \<open>serde_json::Value\<close>. A number is kept as the text its \<open>to_string\<close> gives; an object is the
  list of its members, whose keys are distinct (\<open>json_wf\<close>).
\<close>

datatype json =
    JNull
  | JBool bool
  | JNum string
  | JStr string
  | JArr "json list"
  | JObj "(string \<times> json) list"

fun json_wf :: "json \<Rightarrow> bool" where
  "json_wf (JArr xs) = (\<forall>x \<in> set xs. json_wf x)"
| "json_wf (JObj kvs) = (distinct (map fst kvs) \<and> (\<forall>kv \<in> set kvs. json_wf (snd kv)))"
| "json_wf _ = True"

definition jget :: "json \<Rightarrow> string \<Rightarrow> json option" where
  "jget v k = (case v of JObj kvs \<Rightarrow> map_of kvs k | _ \<Rightarrow> None)"

definition as_str_json :: "json \<Rightarrow> string option" where
  "as_str_json v = (case v of JStr s \<Rightarrow> Some s | _ \<Rightarrow> None)"

definition jnat :: "nat \<Rightarrow> json" where
  "jnat n = JNum (show_nat n)"

abbreviation jword :: "'a::len word \<Rightarrow> json" where
  "jword w \<equiv> jnat (unat w)"

text \<open>Setting a member of an object, \<open>v[k] = x\<close>: in place when present, else a new member.\<close>

fun set_member :: "string \<Rightarrow> json \<Rightarrow> (string \<times> json) list \<Rightarrow> (string \<times> json) list" where
  "set_member k x [] = [(k, x)]"
| "set_member k x ((k', y) # kvs) = (if k = k' then (k, x) # kvs else (k', y) # set_member k x kvs)"

lemma map_of_set_member: "map_of (set_member k x kvs) = (map_of kvs)(k \<mapsto> x)"
  by (induction kvs) (auto simp: fun_eq_iff)

end
