(* ===== verification/Den_Interfaces.thy ===== *)
theory Den_Interfaces
  imports Rust_String
begin

section \<open>Interfaces shared by the components\<close>

text \<open>
  Contracts that several components provide or rely on, each a locale whose client lemmas
  are proved once and reach the components through interpretations:
  \<^item> \<open>labelled_enum\<close> and its strict form \<open>storage_enum\<close>: a closed enum with a text spelling
    (\<open>as_str\<close>) and a parser (\<open>from_str\<close>, \<open>try_from_storage\<close>, \<open>parse\<close>);
  \<^item> \<open>guarded_update\<close>: one SQL \<open>UPDATE ... SET ... WHERE ...\<close> on a table with a key column;
  \<^item> \<open>step_invariant\<close>: a machine driven by a list of operations and an invariant that every
    operation keeps, with \<open>step_frame\<close> for what no operation takes back;
  \<^item> \<open>counting_fold\<close>: a ledger folded over observations whose counter is bounded by their
    number;
  \<^item> \<open>saturating_run\<close>: a saturating counter that some observations reset and some advance, as a
    function of the history;
  \<^item> \<open>tally\<close>: a fold that adds one to a counter for each element of a kind.
\<close>

subsection \<open>Enums with a spelling\<close>

locale labelled_enum =
  fixes as_str :: "'a \<Rightarrow> string"
    and parse :: "string \<Rightarrow> 'e + 'a"
    and norm :: "string \<Rightarrow> string"
  assumes parse_as_str: "parse (as_str x) = Inr x"
    and as_str_parse: "parse s = Inr x \<Longrightarrow> as_str x = norm s"
begin

lemma as_str_inject: "as_str x = as_str y \<longleftrightarrow> x = y"
proof
  assume "as_str x = as_str y"
  then have "(Inr x :: 'e + 'a) = Inr y" by (metis parse_as_str)
  then show "x = y" by simp
qed simp

lemma norm_as_str: "norm (as_str x) = as_str x"
  using as_str_parse [OF parse_as_str] by simp

lemma parse_unique: "parse s = Inr x \<Longrightarrow> parse t = Inr y \<Longrightarrow> norm s = norm t \<Longrightarrow> x = y"
  by (metis as_str_inject as_str_parse)

lemma parse_rejects: "(\<forall>x. as_str x \<noteq> norm s) \<Longrightarrow> \<exists>e. parse s = Inl e"
  by (metis as_str_parse sum.exhaust)

end

locale storage_enum = labelled_enum as_str parse id
  for as_str :: "'a \<Rightarrow> string" and parse :: "string \<Rightarrow> 'e + 'a"
begin

lemma parse_ok_iff: "parse s = Inr x \<longleftrightarrow> s = as_str x"
  using as_str_parse parse_as_str by auto

lemma parse_error_iff: "(\<exists>e. parse s = Inl e) \<longleftrightarrow> s \<notin> range as_str"
proof
  assume "\<exists>e. parse s = Inl e"
  then show "s \<notin> range as_str" using parse_as_str by auto
next
  assume "s \<notin> range as_str"
  then have "\<forall>x. as_str x \<noteq> id s" by auto
  then show "\<exists>e. parse s = Inl e" by (rule parse_rejects)
qed

end

subsection \<open>Tables and guarded updates\<close>

text \<open>
  A table is the list of its rows in insertion order. \<open>update_where g f\<close> is
  \<open>UPDATE ... SET f WHERE g\<close>; \<open>returning\<close> are the rows the statement returns, after the update;
  \<open>fetch_optional\<close> takes the first.
\<close>

definition update_where :: "('r \<Rightarrow> bool) \<Rightarrow> ('r \<Rightarrow> 'r) \<Rightarrow> 'r list \<Rightarrow> 'r list" where
  "update_where g f rows = map (\<lambda>r. if g r then f r else r) rows"

definition returning :: "('r \<Rightarrow> bool) \<Rightarrow> ('r \<Rightarrow> 'r) \<Rightarrow> 'r list \<Rightarrow> 'r list" where
  "returning g f rows = map f (filter g rows)"

fun fetch_optional :: "'r list \<Rightarrow> 'r option" where
  "fetch_optional [] = None"
| "fetch_optional (r # rs) = Some r"

lemma fetch_optional_None: "fetch_optional rs = None \<longleftrightarrow> rs = []"
  by (cases rs) auto

lemma fetch_returning_None: "fetch_optional (returning g f rows) = None \<longleftrightarrow> (\<forall>r \<in> set rows. \<not> g r)"
  by (auto simp: fetch_optional_None returning_def filter_empty_conv)

lemma fetch_returning_Some:
  "fetch_optional (returning g f rows) = Some r' \<Longrightarrow> \<exists>r \<in> set rows. g r \<and> r' = f r"
  by (induction rows) (auto simp: returning_def split: if_splits)

lemma update_where_none: "(\<forall>r \<in> set rows. \<not> g r) \<Longrightarrow> update_where g f rows = rows"
  by (simp add: update_where_def map_idI)

lemma set_update_where:
  "set (update_where g f rows) = (\<lambda>r. if g r then f r else r) ` set rows"
  by (simp add: update_where_def)

lemma in_update_whereE:
  assumes "r' \<in> set (update_where g f rows)"
  obtains (kept) "r' \<in> set rows" "\<not> g r'" | (changed) r where "r \<in> set rows" "g r" "r' = f r"
  using assms by (auto simp: set_update_where split: if_splits)

text \<open>An unconditional attribute of the rows that the assignment keeps is kept in the table.\<close>

lemma map_update_where: "(\<And>r. g r \<Longrightarrow> k (f r) = k r) \<Longrightarrow> map k (update_where g f rows) = map k rows"
  by (simp add: update_where_def)

lemma length_update_where [simp]: "length (update_where g f rows) = length rows"
  by (simp add: update_where_def)

lemma map_filter_update_where:
  assumes "\<And>r. r \<in> set rows \<Longrightarrow> g r \<Longrightarrow> k (f r) = k r \<and> (p (f r) \<longleftrightarrow> p r)"
  shows "map k (filter p (update_where g f rows)) = map k (filter p rows)"
  using assms by (induction rows) (auto simp: update_where_def)

locale guarded_update =
  fixes key :: "'r \<Rightarrow> 'k"
    and guard :: "'r \<Rightarrow> bool"
    and assign :: "'r \<Rightarrow> 'r"
  assumes key_kept: "guard r \<Longrightarrow> key (assign r) = key r"
begin

lemma keys_kept: "map key (update_where guard assign rows) = map key rows"
  by (rule map_update_where) (rule key_kept)

lemma distinct_keys_kept:
  "distinct (map key rows) \<Longrightarrow> distinct (map key (update_where guard assign rows))"
  by (simp add: keys_kept)

text \<open>The row with a given key afterwards is the old row, assigned when the guard held.\<close>

lemma find_after:
  "List.find (\<lambda>r. key r = k) (update_where guard assign rows)
   = map_option (\<lambda>r. if guard r then assign r else r) (List.find (\<lambda>r. key r = k) rows)"
  by (induction rows) (auto simp: update_where_def key_kept)

lemma unguarded_row_kept: "r \<in> set rows \<Longrightarrow> \<not> guard r \<Longrightarrow> r \<in> set (update_where guard assign rows)"
  by (force simp: set_update_where)

text \<open>Running the same statement again changes nothing when the assignment leaves its guard.\<close>

lemma idempotent_when_left:
  "(\<And>r. guard r \<Longrightarrow> \<not> guard (assign r)) \<Longrightarrow>
   update_where guard assign (update_where guard assign rows) = update_where guard assign rows"
  by (rule update_where_none) (auto simp: set_update_where)

lemma second_returns_none:
  "(\<And>r. guard r \<Longrightarrow> \<not> guard (assign r)) \<Longrightarrow>
   fetch_optional (returning guard assign (update_where guard assign rows)) = None"
  by (auto simp: fetch_returning_None set_update_where)

end

subsection \<open>Machines driven by operations\<close>

fun run_ops :: "('s \<Rightarrow> 'o \<Rightarrow> 's) \<Rightarrow> 's \<Rightarrow> 'o list \<Rightarrow> 's" where
  "run_ops step s [] = s"
| "run_ops step s (x # xs) = run_ops step (step s x) xs"

lemma run_ops_append: "run_ops step s (xs @ ys) = run_ops step (run_ops step s xs) ys"
  by (induction xs arbitrary: s) auto

locale step_invariant =
  fixes step :: "'s \<Rightarrow> 'o \<Rightarrow> 's"
    and inv :: "'s \<Rightarrow> bool"
  assumes step_inv: "inv s \<Longrightarrow> inv (step s x)"
begin

lemma run_inv: "inv s \<Longrightarrow> inv (run_ops step s xs)"
  by (induction xs arbitrary: s) (simp_all add: step_inv)

end

locale step_frame = step_invariant step inv
  for step :: "'s \<Rightarrow> 'o \<Rightarrow> 's" and inv :: "'s \<Rightarrow> bool" +
  fixes kept :: "'s \<Rightarrow> 's \<Rightarrow> bool"
  assumes kept_refl: "kept s s"
    and kept_trans: "kept s t \<Longrightarrow> kept t u \<Longrightarrow> kept s u"
    and step_kept: "inv s \<Longrightarrow> kept s (step s x)"
begin

lemma run_kept: "inv s \<Longrightarrow> kept s (run_ops step s xs)"
proof (induction xs arbitrary: s)
  case Nil
  then show ?case by (simp add: kept_refl)
next
  case (Cons x xs)
  have "kept s (step s x)" using Cons.prems by (rule step_kept)
  moreover have "kept (step s x) (run_ops step (step s x) xs)"
    by (rule Cons.IH) (rule step_inv [OF Cons.prems])
  ultimately have "kept s (run_ops step (step s x) xs)" by (rule kept_trans)
  then show ?case by simp
qed

end

locale counting_fold =
  fixes observe :: "'s \<Rightarrow> 'o \<Rightarrow> 's"
    and counter :: "'s \<Rightarrow> nat"
  assumes observe_bound: "counter (observe s x) \<le> Suc (counter s)"
begin

lemma run_bound: "counter (run_ops observe s xs) \<le> counter s + length xs"
proof (induction xs arbitrary: s)
  case Nil
  then show ?case by simp
next
  case (Cons x xs)
  have "counter (run_ops observe (observe s x) xs) \<le> counter (observe s x) + length xs"
    by (rule Cons.IH)
  also have "\<dots> \<le> Suc (counter s) + length xs" using observe_bound by simp
  finally show ?case by simp
qed

end

text \<open>A saturating counter over a history: some observations reset it, some count, the rest pass.\<close>

definition since_reset :: "('o \<Rightarrow> bool) \<Rightarrow> ('o \<Rightarrow> bool) \<Rightarrow> 'o list \<Rightarrow> nat" where
  "since_reset resets counts xs = length (filter counts (takeWhile (\<lambda>x. \<not> resets x) (rev xs)))"

lemma since_reset_snoc:
  "since_reset r c (xs @ [x])
     = (if r x then 0 else if c x then Suc (since_reset r c xs) else since_reset r c xs)"
  by (cases "r x"; cases "c x") (simp_all add: since_reset_def)

locale saturating_run =
  fixes observe :: "'s \<Rightarrow> 'o \<Rightarrow> 's"
    and counter :: "'s \<Rightarrow> u32"
    and resets :: "'o \<Rightarrow> bool"
    and counts :: "'o \<Rightarrow> bool"
  assumes observe_counter:
    "counter (observe s x) = (if resets x then 0 else if counts x then sat_add (counter s) 1 else counter s)"
begin

lemma counter_history:
  assumes "counter s = 0"
  shows "unat (counter (foldl observe s xs)) = min (since_reset resets counts xs) (2 ^ 32 - 1)"
proof (induction xs rule: rev_induct)
  case Nil
  then show ?case using assms by (simp add: since_reset_def)
next
  case (snoc x xs)
  have "unat (sat_add (counter (foldl observe s xs)) 1)
      = min (Suc (since_reset resets counts xs)) (2 ^ 32 - 1)"
    using snoc.IH by (simp add: unat_sat_add)
  with snoc.IH show ?case by (simp add: observe_counter since_reset_snoc)
qed

end

subsection \<open>Tallies\<close>

locale tally =
  fixes step :: "'s \<Rightarrow> 'o \<Rightarrow> 's"
    and counter :: "'s \<Rightarrow> nat"
    and counted :: "'o \<Rightarrow> bool"
  assumes step_counter: "counter (step s x) = (if counted x then Suc (counter s) else counter s)"
begin

lemma fold_tally: "counter (foldl step s xs) = counter s + length (filter counted xs)"
  by (induction xs arbitrary: s) (simp_all add: step_counter)

end

end
