(* ===== verification/Den_Core.thy ===== *)
theory Den_Core
  imports Den_Interfaces
begin

section \<open>Core vocabulary: stances, governance, control levels, errors\<close>

text \<open>
  The closed enums of \<open>den-core\<close> that every other component speaks: the operational stance
  (\<open>profile.rs\<close>), the run-scoped supervision dial (\<open>governance.rs\<close>), the loop-control level and
  thinking effort (\<open>agent_loop_control.rs\<close>), and the shared error type (\<open>error.rs\<close>).
\<close>

subsection \<open>Identifiers and times\<close>

text \<open>A uuid is the number of its 128 bits; a time is a number of milliseconds.\<close>

type_synonym uuid = nat
type_synonym timestamp = int

subsection \<open>Errors\<close>

datatype den_error =
    Anyhow string
  | SystemError string
  | Database string
  | DatabaseUnavailable string
  | SessionError string
  | Authentication string
  | Authorization string
  | Render string
  | Parsing string
  | Email string
  | NotFound string
  | ValidationError string

subsection \<open>Stances\<close>

datatype bear_stance = StChat | StPair | StCurate | StWork | StWatch

definition bear_stance_all :: "bear_stance list" where
  "bear_stance_all = [StChat, StPair, StCurate, StWork, StWatch]"

fun stance_as_str :: "bear_stance \<Rightarrow> string" where
  "stance_as_str StChat = ''chat''"
| "stance_as_str StPair = ''pair''"
| "stance_as_str StCurate = ''curate''"
| "stance_as_str StWork = ''work''"
| "stance_as_str StWatch = ''watch''"

definition is_harness_backed :: "bear_stance \<Rightarrow> bool" where
  "is_harness_backed s \<longleftrightarrow> s = StChat \<or> s = StWork"

definition runtime_family :: "bear_stance \<Rightarrow> string" where
  "runtime_family s =
     (if is_harness_backed s then ''native_harness_backed'' else ''native_api_direct'')"

definition common_tags :: "string list" where
  "common_tags = [''git-memory-enabled'']"

text \<open>The printed form of the bear id comes from the \<open>uuid\<close> crate and is a parameter.\<close>

definition tags_for_bear :: "string \<Rightarrow> bear_stance \<Rightarrow> string list" where
  "tags_for_bear bear_id s =
     (let stance = stance_as_str s in
      [''bear:'' @ bear_id, ''stance:'' @ stance, ''bear:'' @ bear_id @ '':stance:'' @ stance]
      @ common_tags)"

definition stance_from_str :: "string \<Rightarrow> string + bear_stance" where
  "stance_from_str s =
     (let t = trim s in
      if t = ''chat'' then Inr StChat
      else if t = ''pair'' then Inr StPair
      else if t = ''curate'' then Inr StCurate
      else if t = ''work'' then Inr StWork
      else if t = ''watch'' then Inr StWatch
      else Inl (''unknown bear stance: '' @ t))"

subsection \<open>Governance\<close>

datatype governance = Interactive | Grace | AutonomousContinuation | Observational | Frozen

datatype run_mode = RunInteractive | RunAutonomous

fun governance_as_str :: "governance \<Rightarrow> string" where
  "governance_as_str Interactive = ''interactive''"
| "governance_as_str Grace = ''grace''"
| "governance_as_str AutonomousContinuation = ''autonomous_continuation''"
| "governance_as_str Observational = ''observational''"
| "governance_as_str Frozen = ''frozen''"

definition human_present :: "governance \<Rightarrow> bool" where
  "human_present g \<longleftrightarrow> g = Interactive \<or> g = Observational"

fun governance_run_mode :: "governance \<Rightarrow> run_mode" where
  "governance_run_mode AutonomousContinuation = RunAutonomous"
| "governance_run_mode Interactive = RunInteractive"
| "governance_run_mode Grace = RunInteractive"
| "governance_run_mode Observational = RunInteractive"
| "governance_run_mode Frozen = RunInteractive"

definition governance_from_str :: "string \<Rightarrow> string + governance" where
  "governance_from_str s =
     (let t = trim s in
      if t = ''interactive'' then Inr Interactive
      else if t = ''grace'' then Inr Grace
      else if t = ''autonomous_continuation'' then Inr AutonomousContinuation
      else if t = ''observational'' then Inr Observational
      else if t = ''frozen'' then Inr Frozen
      else Inl (''unknown governance: '' @ t))"

fun run_mode_as_str :: "run_mode \<Rightarrow> string" where
  "run_mode_as_str RunInteractive = ''interactive''"
| "run_mode_as_str RunAutonomous = ''autonomous''"

subsection \<open>Control levels\<close>

datatype agent_loop_control_level = Light | Standard | Careful | Strict

text \<open>The derived \<open>Ord\<close> of the enum is the order of its constructors.\<close>

fun level_rank :: "agent_loop_control_level \<Rightarrow> nat" where
  "level_rank Light = 0"
| "level_rank Standard = 1"
| "level_rank Careful = 2"
| "level_rank Strict = 3"

instantiation agent_loop_control_level :: linorder
begin

definition less_eq_agent_loop_control_level ::
    "agent_loop_control_level \<Rightarrow> agent_loop_control_level \<Rightarrow> bool" where
  "less_eq_agent_loop_control_level a b \<longleftrightarrow> level_rank a \<le> level_rank b"

definition less_agent_loop_control_level ::
    "agent_loop_control_level \<Rightarrow> agent_loop_control_level \<Rightarrow> bool" where
  "less_agent_loop_control_level a b \<longleftrightarrow> level_rank a < level_rank b"

instance
proof
  fix a b :: agent_loop_control_level
  assume "a \<le> b" and "b \<le> a"
  then show "a = b"
    by (cases a; cases b) (simp_all add: less_eq_agent_loop_control_level_def)
qed (auto simp: less_eq_agent_loop_control_level_def less_agent_loop_control_level_def)

end

definition level_default :: agent_loop_control_level where
  "level_default = Standard"

fun level_as_str :: "agent_loop_control_level \<Rightarrow> string" where
  "level_as_str Light = ''light''"
| "level_as_str Standard = ''standard''"
| "level_as_str Careful = ''careful''"
| "level_as_str Strict = ''strict''"

definition level_max ::
    "agent_loop_control_level \<Rightarrow> agent_loop_control_level \<Rightarrow> agent_loop_control_level" where
  "level_max a b = (if a \<ge> b then a else b)"

datatype thinking_effort = EffortLow | EffortMedium | EffortHigh

fun effort_as_str :: "thinking_effort \<Rightarrow> string" where
  "effort_as_str EffortLow = ''low''"
| "effort_as_str EffortMedium = ''medium''"
| "effort_as_str EffortHigh = ''high''"

lemma level_max_is_max: "level_max a b = max a b"
  by (auto simp: level_max_def max_def)

lemma level_max_ge: "a \<le> level_max a b" "b \<le> level_max a b"
  by (auto simp: level_max_def)

lemma Strict_top: "l \<le> Strict"
  by (cases l) (simp_all add: less_eq_agent_loop_control_level_def)

lemma Strict_le_iff: "Strict \<le> l \<longleftrightarrow> l = Strict"
  using Strict_top antisym by auto

subsection \<open>Spellings\<close>

interpretation stance_enum: labelled_enum stance_as_str stance_from_str trim
proof
  show "stance_from_str (stance_as_str x) = Inr x" for x
    by (cases x) (simp_all add: stance_from_str_def trim_id trim_eval)
  show "stance_as_str x = trim s" if "stance_from_str s = Inr x" for s x
    using that by (auto simp: stance_from_str_def Let_def split: if_splits)
qed

interpretation governance_enum: labelled_enum governance_as_str governance_from_str trim
proof
  show "governance_from_str (governance_as_str x) = Inr x" for x
    by (cases x) (simp_all add: governance_from_str_def trim_id trim_eval)
  show "governance_as_str x = trim s" if "governance_from_str s = Inr x" for s x
    using that by (auto simp: governance_from_str_def Let_def split: if_splits)
qed

text \<open>A frozen or grace-period run is on the interactive track without a human present.\<close>

lemma unattended_iff: "governance_run_mode g = RunAutonomous \<longleftrightarrow> g = AutonomousContinuation"
  by (cases g) simp_all

end
