(* ===== verification/Db_Effects.thy ===== *)
theory Db_Effects
  imports Den_Core
begin

section \<open>Database effects\<close>

text \<open>
  The effect of a database client, for any database: an operation maps a database to a database
  and a result or an error. A statement whose result breaks a constraint is an error and changes
  nothing; a transaction that fails is rolled back. \<open>db_frame\<close> is the interface of a relation
  between databases that operations keep, with the rules that carry it through the combinators.
\<close>

datatype store_error = Failed den_error | Panicked string

type_synonym ('d, 'a) dbo = "'d \<Rightarrow> 'd \<times> (store_error + 'a)"

definition returnM :: "'a \<Rightarrow> ('d, 'a) dbo" where
  "returnM x db = (db, Inr x)"

definition failM :: "store_error \<Rightarrow> ('d, 'a) dbo" where
  "failM e db = (db, Inl e)"

definition bindM :: "('d, 'a) dbo \<Rightarrow> ('a \<Rightarrow> ('d, 'b) dbo) \<Rightarrow> ('d, 'b) dbo" where
  "bindM m f db = (case m db of (db', Inl e) \<Rightarrow> (db', Inl e) | (db', Inr x) \<Rightarrow> f x db')"

text \<open>A query reads; a write is refused when its result breaks a constraint of the schema.\<close>

definition queryM :: "('d \<Rightarrow> 'a) \<Rightarrow> ('d, 'a) dbo" where
  "queryM q db = (db, Inr (q db))"

definition constraint_violation :: store_error where
  "constraint_violation = Failed (Database ''constraint violation'')"

definition checked_writeM :: "('d \<Rightarrow> bool) \<Rightarrow> ('d \<Rightarrow> 'd \<times> 'a) \<Rightarrow> ('d, 'a) dbo" where
  "checked_writeM ok w db =
     (case w db of (db', x) \<Rightarrow> if ok db' then (db', Inr x) else (db, Inl constraint_violation))"

text \<open>\<open>pool.begin() ... tx.commit()\<close>: an error inside leaves the database as it was.\<close>

definition transactionM :: "('d, 'a) dbo \<Rightarrow> ('d, 'a) dbo" where
  "transactionM m db = (case m db of (db', Inr x) \<Rightarrow> (db', Inr x) | (_, Inl e) \<Rightarrow> (db, Inl e))"

text \<open>An operation built from what it reads, and \<open>tx.rollback()\<close> to the database it started from.\<close>

definition withM :: "('d \<Rightarrow> ('d, 'a) dbo) \<Rightarrow> ('d, 'a) dbo" where
  "withM f db = f db db"

definition restoreM :: "'d \<Rightarrow> 'a \<Rightarrow> ('d, 'a) dbo" where
  "restoreM db0 x db = (db0, Inr x)"

lemma bindM_Inr:
  assumes "bindM m f db = (db', Inr y)"
  obtains db1 x where "m db = (db1, Inr x)" "f x db1 = (db', Inr y)"
  using assms by (auto simp: bindM_def split: prod.splits sum.splits)

subsection \<open>Frames\<close>

text \<open>
  What an operation may do to the database. \<open>stays_in ok P m\<close>: from a database that satisfies the
  schema \<open>ok\<close>, \<open>m\<close> ends in one that does, and the two are related by \<open>P\<close>, whether \<open>m\<close> succeeds or
  fails.
\<close>

definition stays_in :: "('d \<Rightarrow> bool) \<Rightarrow> ('d \<Rightarrow> 'd \<Rightarrow> bool) \<Rightarrow> ('d, 'a) dbo \<Rightarrow> bool" where
  "stays_in ok P m \<longleftrightarrow> (\<forall>db. ok db \<longrightarrow> ok (fst (m db)) \<and> P db (fst (m db)))"

lemma staysD: "stays_in ok P m \<Longrightarrow> ok db \<Longrightarrow> ok (fst (m db)) \<and> P db (fst (m db))"
  by (simp add: stays_in_def)

locale db_frame =
  fixes ok :: "'d \<Rightarrow> bool"
    and P :: "'d \<Rightarrow> 'd \<Rightarrow> bool"
  assumes frame_refl: "P db db"
    and frame_trans: "P db db' \<Longrightarrow> P db' db'' \<Longrightarrow> P db db''"
begin

lemma stays_return: "stays_in ok P (returnM x)"
  by (simp add: stays_in_def returnM_def frame_refl)

lemma stays_fail: "stays_in ok P (failM e)"
  by (simp add: stays_in_def failM_def frame_refl)

lemma stays_query: "stays_in ok P (queryM q)"
  by (simp add: stays_in_def queryM_def frame_refl)

lemma stays_write:
  "(\<And>db. ok db \<Longrightarrow> ok (fst (w db)) \<Longrightarrow> P db (fst (w db))) \<Longrightarrow> stays_in ok P (checked_writeM ok w)"
  by (auto simp: stays_in_def checked_writeM_def frame_refl split: prod.splits) (metis fst_conv)+

lemma stays_bind:
  assumes "stays_in ok P m" and "\<And>x. stays_in ok P (f x)"
  shows "stays_in ok P (bindM m f)"
proof (unfold stays_in_def, intro allI impI)
  fix db
  assume db_ok: "ok db"
  obtain db' r where m: "m db = (db', r)" by fastforce
  have 1: "ok db'" "P db db'" using staysD [OF assms(1) db_ok] m by simp_all
  show "ok (fst (bindM m f db)) \<and> P db (fst (bindM m f db))"
  proof (cases r)
    case (Inl e)
    then show ?thesis using m 1 by (simp add: bindM_def)
  next
    case (Inr x)
    then show ?thesis
      using m 1 staysD [OF assms(2) 1(1)] frame_trans [OF 1(2)] by (simp add: bindM_def)
  qed
qed

lemma stays_transaction: "stays_in ok P m \<Longrightarrow> stays_in ok P (transactionM m)"
  by (auto simp: stays_in_def transactionM_def frame_refl split: prod.splits sum.splits)

lemma stays_if: "stays_in ok P m \<Longrightarrow> stays_in ok P n \<Longrightarrow> stays_in ok P (if c then m else n)"
  by simp

lemma stays_option:
  "stays_in ok P m \<Longrightarrow> (\<And>x. stays_in ok P (f x)) \<Longrightarrow> stays_in ok P (case v of None \<Rightarrow> m | Some x \<Rightarrow> f x)"
  by (simp split: option.split)

lemma stays_sum:
  "(\<And>e. stays_in ok P (g e)) \<Longrightarrow> (\<And>x. stays_in ok P (f x)) \<Longrightarrow> stays_in ok P (case v of Inl e \<Rightarrow> g e | Inr x \<Rightarrow> f x)"
  by (simp split: sum.split)

lemma stays_prod: "(\<And>a b. stays_in ok P (f a b)) \<Longrightarrow> stays_in ok P (case v of (a, b) \<Rightarrow> f a b)"
  by (simp split: prod.split)

text \<open>An operation that inspects the database and then acts.\<close>

lemma stays_with: "(\<And>db. stays_in ok P (f db)) \<Longrightarrow> stays_in ok P (withM f)"
  by (simp add: stays_in_def withM_def)

lemma stays_list:
  "stays_in ok P m \<Longrightarrow> (\<And>x xs. stays_in ok P (f x xs)) \<Longrightarrow> stays_in ok P (case v of [] \<Rightarrow> m | x # xs \<Rightarrow> f x xs)"
  by (simp split: list.split)

lemma stays_run_each:
  "(\<And>x. x \<in> set xs \<Longrightarrow> stays_in ok P (m x)) \<Longrightarrow> ok db \<Longrightarrow>
   ok (run_ops (\<lambda>d x. fst (m x d)) db xs) \<and> P db (run_ops (\<lambda>d x. fst (m x d)) db xs)"
proof (induction xs arbitrary: db)
  case Nil
  then show ?case by (simp add: frame_refl)
next
  case (Cons x xs)
  have 1: "ok (fst (m x db)) \<and> P db (fst (m x db))" by (rule staysD) (use Cons.prems in auto)
  with Cons have "ok (run_ops (\<lambda>d x. fst (m x d)) (fst (m x db)) xs)
      \<and> P (fst (m x db)) (run_ops (\<lambda>d x. fst (m x d)) (fst (m x db)) xs)"
    by (metis list.set_intros(2))
  with 1 show ?case using frame_trans by auto
qed

lemma stays_run:
  "(\<And>x. stays_in ok P (m x)) \<Longrightarrow> ok db \<Longrightarrow>
   ok (run_ops (\<lambda>d x. fst (m x d)) db xs) \<and> P db (run_ops (\<lambda>d x. fst (m x d)) db xs)"
  by (rule stays_run_each)

lemmas stays_intros = stays_return stays_fail stays_query stays_bind
  stays_transaction stays_if stays_option stays_sum stays_prod
  stays_with

end

end
