(* ===== verification/Turn_Schema.thy ===== *)
theory Turn_Schema
  imports Db_Effects
begin

section \<open>The turn tables: rows, enums, schema\<close>

text \<open>
  The rows and state enums of \<open>turn_runs.rs\<close>, \<open>turn_obligations.rs\<close>, \<open>turn_steps.rs\<close> and
  \<open>bearwire_events.rs\<close>, and the constraints the migrations put on the tables.

  A table is the list of its rows. State and kind columns are text, as in the rows of the
  code. A uuid is a natural number; \<open>gen_random_uuid()\<close>, \<open>NOW()\<close> and the printed form of a
  uuid are arguments. Times are milliseconds. A statement whose result breaks a constraint
  is an error and changes nothing; a transaction that fails is rolled back. References to the
  tables \<open>bears\<close> and \<open>users\<close> are not modelled.
\<close>

subsection \<open>State enums\<close>

datatype turn_run_state =
  RunAccepted | RunRunning | RunWaitingForClient | RunContinuing | RunCompleted | RunFailed | RunCancelled

fun run_state_str :: "turn_run_state \<Rightarrow> string" where
  "run_state_str RunAccepted = ''accepted''"
| "run_state_str RunRunning = ''running''"
| "run_state_str RunWaitingForClient = ''waiting_for_client''"
| "run_state_str RunContinuing = ''continuing''"
| "run_state_str RunCompleted = ''completed''"
| "run_state_str RunFailed = ''failed''"
| "run_state_str RunCancelled = ''cancelled''"

definition run_state_from_storage :: "string \<Rightarrow> den_error + turn_run_state" where
  "run_state_from_storage s =
     (if s = ''accepted'' then Inr RunAccepted
      else if s = ''running'' then Inr RunRunning
      else if s = ''waiting_for_client'' then Inr RunWaitingForClient
      else if s = ''continuing'' then Inr RunContinuing
      else if s = ''completed'' then Inr RunCompleted
      else if s = ''failed'' then Inr RunFailed
      else if s = ''cancelled'' then Inr RunCancelled
      else Inl (ValidationError (''unsupported turn run state: '' @ s)))"

definition run_state_terminal :: "turn_run_state \<Rightarrow> bool" where
  "run_state_terminal s \<longleftrightarrow> s = RunCompleted \<or> s = RunFailed \<or> s = RunCancelled"

definition allows_open_obligation :: "turn_run_state \<Rightarrow> bool" where
  "allows_open_obligation s \<longleftrightarrow> \<not> run_state_terminal s"

datatype turn_obligation_state =
  ObRequested | ObWaitingForClient | ObResultReceived | ObContinued | ObFailed | ObCancelled

fun ob_state_str :: "turn_obligation_state \<Rightarrow> string" where
  "ob_state_str ObRequested = ''requested''"
| "ob_state_str ObWaitingForClient = ''waiting_for_client''"
| "ob_state_str ObResultReceived = ''result_received''"
| "ob_state_str ObContinued = ''continued''"
| "ob_state_str ObFailed = ''failed''"
| "ob_state_str ObCancelled = ''cancelled''"

definition ob_state_from_storage :: "string \<Rightarrow> den_error + turn_obligation_state" where
  "ob_state_from_storage s =
     (if s = ''requested'' then Inr ObRequested
      else if s = ''waiting_for_client'' then Inr ObWaitingForClient
      else if s = ''result_received'' then Inr ObResultReceived
      else if s = ''continued'' then Inr ObContinued
      else if s = ''failed'' then Inr ObFailed
      else if s = ''cancelled'' then Inr ObCancelled
      else Inl (ValidationError (''unsupported turn obligation state: '' @ s)))"

fun terminal_obligation_state :: "turn_run_state \<Rightarrow> turn_obligation_state option" where
  "terminal_obligation_state RunCompleted = Some ObContinued"
| "terminal_obligation_state RunFailed = Some ObFailed"
| "terminal_obligation_state RunCancelled = Some ObCancelled"
| "terminal_obligation_state _ = None"

datatype turn_obligation_kind =
  KindToolResult | KindPermissionDecision | KindHumanInput | KindResourceBinding | KindHandoffDecision

fun ob_kind_str :: "turn_obligation_kind \<Rightarrow> string" where
  "ob_kind_str KindToolResult = ''tool_result''"
| "ob_kind_str KindPermissionDecision = ''permission_decision''"
| "ob_kind_str KindHumanInput = ''human_input''"
| "ob_kind_str KindResourceBinding = ''resource_binding''"
| "ob_kind_str KindHandoffDecision = ''handoff_decision''"

definition ob_kind_from_storage :: "string \<Rightarrow> den_error + turn_obligation_kind" where
  "ob_kind_from_storage s =
     (if s = ''tool_result'' then Inr KindToolResult
      else if s = ''permission_decision'' then Inr KindPermissionDecision
      else if s = ''human_input'' then Inr KindHumanInput
      else if s = ''resource_binding'' then Inr KindResourceBinding
      else if s = ''handoff_decision'' then Inr KindHandoffDecision
      else Inl (ValidationError (''unsupported turn obligation kind: '' @ s)))"

datatype expected_responder_action =
  ActToolResult | ActPermissionDecision | ActHumanInput | ActResourceBinding | ActHandoffDecision

fun action_str :: "expected_responder_action \<Rightarrow> string" where
  "action_str ActToolResult = ''tool_result''"
| "action_str ActPermissionDecision = ''permission_decision''"
| "action_str ActHumanInput = ''human_input''"
| "action_str ActResourceBinding = ''resource_binding''"
| "action_str ActHandoffDecision = ''handoff_decision''"

definition action_from_storage :: "string \<Rightarrow> den_error + expected_responder_action" where
  "action_from_storage s =
     (if s = ''tool_result'' then Inr ActToolResult
      else if s = ''permission_decision'' then Inr ActPermissionDecision
      else if s = ''human_input'' then Inr ActHumanInput
      else if s = ''resource_binding'' then Inr ActResourceBinding
      else if s = ''handoff_decision'' then Inr ActHandoffDecision
      else Inl (ValidationError (''unsupported expected responder action: '' @ s)))"

datatype turn_step_state =
  StepStreamingModel | StepWaitingForClient | StepReadyToContinue | StepContinued | StepFailed | StepCancelled

fun step_state_str :: "turn_step_state \<Rightarrow> string" where
  "step_state_str StepStreamingModel = ''streaming_model''"
| "step_state_str StepWaitingForClient = ''waiting_for_client''"
| "step_state_str StepReadyToContinue = ''ready_to_continue''"
| "step_state_str StepContinued = ''continued''"
| "step_state_str StepFailed = ''failed''"
| "step_state_str StepCancelled = ''cancelled''"

definition step_state_terminal :: "turn_step_state \<Rightarrow> bool" where
  "step_state_terminal s \<longleftrightarrow> s = StepContinued \<or> s = StepFailed \<or> s = StepCancelled"

definition step_state_from_storage :: "string \<Rightarrow> den_error + turn_step_state" where
  "step_state_from_storage s =
     (if s = ''streaming_model'' then Inr StepStreamingModel
      else if s = ''waiting_for_client'' then Inr StepWaitingForClient
      else if s = ''ready_to_continue'' then Inr StepReadyToContinue
      else if s = ''continued'' then Inr StepContinued
      else if s = ''failed'' then Inr StepFailed
      else if s = ''cancelled'' then Inr StepCancelled
      else Inl (ValidationError (''unsupported turn step state: '' @ s)))"

subsection \<open>Rows\<close>

record turn_run_row =
  run_pk :: uuid
  run_id :: string
  run_session_id :: string
  run_bear_id :: uuid
  run_user_id :: int
  run_state :: string
  run_terminal_reason :: "string option"
  run_created_at :: timestamp
  run_updated_at :: timestamp
  run_completed_at :: "timestamp option"

record turn_obligation_result_row =
  res_id :: uuid
  res_run_id :: string
  res_obligation_kind :: string
  res_obligation_id :: string
  res_result_hash :: string
  res_payload_json :: json
  res_turn_step_id :: "uuid option"
  res_created_at :: timestamp

record turn_obligation_row =
  ob_id :: uuid
  ob_run_id :: string
  ob_session_id :: string
  ob_kind :: string
  ob_expected_responder_action :: string
  ob_tool_call_id :: "string option"
  ob_permission_id :: "string option"
  ob_responder_ref_id :: "string option"
  ob_state :: string
  ob_turn_step_id :: "uuid option"
  ob_request_payload :: json
  ob_result_payload :: "json option"
  ob_created_at :: timestamp
  ob_updated_at :: timestamp
  ob_completed_at :: "timestamp option"
  ob_lease_attempt_token_hash :: "string option"
  ob_claimed_at :: "timestamp option"
  ob_lease_expires_at :: "timestamp option"

record turn_step_row =
  step_id :: uuid
  step_run_id :: string
  step_index :: int
  step_state :: string
  step_provider_response_id :: "string option"
  step_opened_at :: timestamp
  step_closed_at :: "timestamp option"

datatype bearwire_event_scope = ScopePersistent | ScopeEphemeral

record resource_ref =
  ref_kind :: string
  ref_id :: string
  ref_uri :: "string option"
  ref_display_name :: "string option"
  ref_version :: "string option"
  ref_metadata :: "json option"

definition resource_ref_new :: "string \<Rightarrow> string \<Rightarrow> resource_ref" where
  "resource_ref_new kind i = \<lparr>ref_kind = kind, ref_id = i, ref_uri = None, ref_display_name = None,
     ref_version = None, ref_metadata = None\<rparr>"

record bearwire_event =
  evt_event_id :: "string option"
  evt_sequence :: "u64 option"
  evt_scope :: bearwire_event_scope
  evt_source :: string
  evt_type :: string
  evt_subject :: "string option"
  evt_time :: "string option"
  evt_bear_id :: "string option"
  evt_role :: "string option"
  evt_role_agent_id :: "string option"
  evt_human_id :: "string option"
  evt_session_id :: "string option"
  evt_run_id :: "string option"
  evt_resource_refs :: "resource_ref list"
  evt_data :: json

definition event_ephemeral :: "string \<Rightarrow> json \<Rightarrow> bearwire_event" where
  "event_ephemeral event_type payload = \<lparr>evt_event_id = None, evt_sequence = None,
     evt_scope = ScopeEphemeral, evt_source = ''den.runtime'', evt_type = event_type,
     evt_subject = None, evt_time = None, evt_bear_id = None, evt_role = None,
     evt_role_agent_id = None, evt_human_id = None, evt_session_id = None, evt_run_id = None,
     evt_resource_refs = [], evt_data = payload\<rparr>"

record bearwire_event_row =
  er_id :: uuid
  er_sequence_no :: int
  er_session_id :: string
  er_bear_id :: "uuid option"
  er_user_id :: "int option"
  er_event_type :: string
  er_event :: bearwire_event
  er_created_at :: timestamp

record den_db =
  tbl_runs :: "turn_run_row list"
  tbl_obligations :: "turn_obligation_row list"
  tbl_results :: "turn_obligation_result_row list"
  tbl_steps :: "turn_step_row list"
  tbl_events :: "bearwire_event_row list"
  seq_next :: int

definition empty_db :: den_db where
  "empty_db = \<lparr>tbl_runs = [], tbl_obligations = [], tbl_results = [], tbl_steps = [],
     tbl_events = [], seq_next = 1\<rparr>"

subsection \<open>Column predicates of the statements\<close>

definition ACTIVE_RUN_STATES :: "string list" where
  "ACTIVE_RUN_STATES = [''accepted'', ''running'', ''waiting_for_client'', ''continuing'']"

definition TERMINAL_RUN_STATES :: "string list" where
  "TERMINAL_RUN_STATES = [''completed'', ''failed'', ''cancelled'']"

definition ACTIVE_STEP_STATES :: "string list" where
  "ACTIVE_STEP_STATES = [''streaming_model'', ''waiting_for_client'', ''ready_to_continue'']"

definition TERMINAL_STEP_STATES :: "string list" where
  "TERMINAL_STEP_STATES = [''continued'', ''failed'', ''cancelled'']"

definition OPEN_OBLIGATION_STATES :: "string list" where
  "OPEN_OBLIGATION_STATES = [''requested'', ''waiting_for_client'', ''result_received'']"

definition SETTLED_OBLIGATION_STATES :: "string list" where
  "SETTLED_OBLIGATION_STATES = [''continued'', ''failed'', ''cancelled'']"

definition CLIENT_OPEN_STATES :: "string list" where
  "CLIENT_OPEN_STATES = [''requested'', ''waiting_for_client'']"

definition OBLIGATION_KINDS :: "string list" where
  "OBLIGATION_KINDS = [''tool_result'', ''permission_decision'', ''human_input'',
     ''resource_binding'', ''handoff_decision'']"

subsection \<open>Constraints\<close>

definition runs_ok :: "turn_run_row list \<Rightarrow> bool" where
  "runs_ok rs \<longleftrightarrow>
     distinct (map run_pk rs) \<and> distinct (map run_id rs)
     \<and> (\<forall>r \<in> set rs. run_state r \<in> set ACTIVE_RUN_STATES \<or> run_state r \<in> set TERMINAL_RUN_STATES)
     \<and> distinct (map run_session_id (filter (\<lambda>r. run_state r \<in> set ACTIVE_RUN_STATES) rs))"

definition lease_shape :: "turn_obligation_row \<Rightarrow> bool" where
  "lease_shape b \<longleftrightarrow>
     (ob_lease_attempt_token_hash b = None \<and> ob_claimed_at b = None \<and> ob_lease_expires_at b = None)
     \<or> (ob_kind b = ''tool_result'' \<and> ob_lease_attempt_token_hash b \<noteq> None
        \<and> ob_claimed_at b \<noteq> None \<and> ob_lease_expires_at b \<noteq> None)"

definition obligation_ok :: "turn_obligation_row \<Rightarrow> bool" where
  "obligation_ok b \<longleftrightarrow>
     ob_kind b \<in> set OBLIGATION_KINDS \<and> ob_expected_responder_action b \<in> set OBLIGATION_KINDS
     \<and> (ob_state b \<in> set OPEN_OBLIGATION_STATES \<or> ob_state b \<in> set SETTLED_OBLIGATION_STATES)
     \<and> (ob_tool_call_id b \<noteq> None \<or> ob_permission_id b \<noteq> None \<or> ob_responder_ref_id b \<noteq> None)
     \<and> lease_shape b"

definition obligations_ok :: "turn_obligation_row list \<Rightarrow> bool" where
  "obligations_ok os \<longleftrightarrow>
     distinct (map ob_id os)
     \<and> distinct (map (\<lambda>b. (ob_run_id b, ob_tool_call_id b)) (filter (\<lambda>b. ob_tool_call_id b \<noteq> None) os))
     \<and> distinct (map (\<lambda>b. (ob_run_id b, ob_permission_id b)) (filter (\<lambda>b. ob_permission_id b \<noteq> None) os))
     \<and> (\<forall>b \<in> set os. obligation_ok b)"

definition result_key :: "turn_obligation_result_row \<Rightarrow> string \<times> string \<times> string" where
  "result_key r = (res_run_id r, res_obligation_kind r, res_obligation_id r)"

definition results_ok :: "turn_obligation_result_row list \<Rightarrow> bool" where
  "results_ok rs \<longleftrightarrow>
     distinct (map res_id rs) \<and> distinct (map result_key rs)
     \<and> (\<forall>r \<in> set rs. res_obligation_kind r = ''tool'' \<or> res_obligation_kind r = ''permission'')"

definition steps_ok :: "turn_step_row list \<Rightarrow> bool" where
  "steps_ok ss \<longleftrightarrow>
     distinct (map step_id ss) \<and> distinct (map (\<lambda>s. (step_run_id s, step_index s)) ss)
     \<and> (\<forall>s \<in> set ss. step_state s \<in> set ACTIVE_STEP_STATES \<or> step_state s \<in> set TERMINAL_STEP_STATES)
     \<and> (\<forall>s \<in> set ss. step_index s < 2 ^ 31)"

text \<open>Foreign keys: every child row names a run, and its step when it has one.\<close>

definition step_ref_ok :: "uuid list \<Rightarrow> uuid option \<Rightarrow> bool" where
  "step_ref_ok step_ids x \<longleftrightarrow> (case x of None \<Rightarrow> True | Some s \<Rightarrow> s \<in> set step_ids)"

definition references_ok ::
    "string list \<Rightarrow> uuid list \<Rightarrow> turn_obligation_row list \<Rightarrow> turn_obligation_result_row list
     \<Rightarrow> turn_step_row list \<Rightarrow> bool" where
  "references_ok run_ids step_ids os rs ss \<longleftrightarrow>
     (\<forall>b \<in> set os. ob_run_id b \<in> set run_ids \<and> step_ref_ok step_ids (ob_turn_step_id b))
     \<and> (\<forall>r \<in> set rs. res_run_id r \<in> set run_ids \<and> step_ref_ok step_ids (res_turn_step_id r))
     \<and> (\<forall>s \<in> set ss. step_run_id s \<in> set run_ids)"

definition schema_ok :: "den_db \<Rightarrow> bool" where
  "schema_ok db \<longleftrightarrow>
     runs_ok (tbl_runs db) \<and> obligations_ok (tbl_obligations db) \<and> results_ok (tbl_results db)
     \<and> steps_ok (tbl_steps db) \<and> distinct (map er_id (tbl_events db))
     \<and> references_ok (map run_id (tbl_runs db)) (map step_id (tbl_steps db))
         (tbl_obligations db) (tbl_results db) (tbl_steps db)"

subsection \<open>Database effects\<close>

type_synonym 'a dbm = "(den_db, 'a) dbo"

abbreviation writeM :: "(den_db \<Rightarrow> den_db \<times> 'a) \<Rightarrow> 'a dbm" where
  "writeM \<equiv> checked_writeM schema_ok"

lemmas writeM_def = checked_writeM_def [of schema_ok]

lemmas dbm_defs = returnM_def failM_def bindM_def queryM_def checked_writeM_def transactionM_def withM_def
  restoreM_def

subsection \<open>The stored spellings\<close>

text \<open>
  Each column enum is a \<open>storage_enum\<close>: the parser accepts exactly the spellings that the
  writers produce, and the \<open>CHECK\<close> constraints list exactly those spellings.
\<close>

lemmas storage_enum_defs = run_state_from_storage_def ob_state_from_storage_def ob_kind_from_storage_def
  action_from_storage_def step_state_from_storage_def

interpretation run_state_enum: storage_enum run_state_str run_state_from_storage
proof
  show "run_state_from_storage (run_state_str x) = Inr x" for x
    by (cases x) (simp_all add: storage_enum_defs)
  show "run_state_from_storage s = Inr x \<Longrightarrow> run_state_str x = id s" for s x
    by (auto simp: storage_enum_defs split: if_splits)
qed

interpretation ob_state_enum: storage_enum ob_state_str ob_state_from_storage
proof
  show "ob_state_from_storage (ob_state_str x) = Inr x" for x
    by (cases x) (simp_all add: storage_enum_defs)
  show "ob_state_from_storage s = Inr x \<Longrightarrow> ob_state_str x = id s" for s x
    by (auto simp: storage_enum_defs split: if_splits)
qed

interpretation ob_kind_enum: storage_enum ob_kind_str ob_kind_from_storage
proof
  show "ob_kind_from_storage (ob_kind_str x) = Inr x" for x
    by (cases x) (simp_all add: storage_enum_defs)
  show "ob_kind_from_storage s = Inr x \<Longrightarrow> ob_kind_str x = id s" for s x
    by (auto simp: storage_enum_defs split: if_splits)
qed

interpretation action_enum: storage_enum action_str action_from_storage
proof
  show "action_from_storage (action_str x) = Inr x" for x
    by (cases x) (simp_all add: storage_enum_defs)
  show "action_from_storage s = Inr x \<Longrightarrow> action_str x = id s" for s x
    by (auto simp: storage_enum_defs split: if_splits)
qed

interpretation step_state_enum: storage_enum step_state_str step_state_from_storage
proof
  show "step_state_from_storage (step_state_str x) = Inr x" for x
    by (cases x) (simp_all add: storage_enum_defs)
  show "step_state_from_storage s = Inr x \<Longrightarrow> step_state_str x = id s" for s x
    by (auto simp: storage_enum_defs split: if_splits)
qed

lemma ex_run_state: "(\<exists>x. P x) \<longleftrightarrow> P RunAccepted \<or> P RunRunning \<or> P RunWaitingForClient \<or> P RunContinuing \<or> P RunCompleted \<or> P RunFailed \<or> P RunCancelled"
  by (metis turn_run_state.exhaust)

lemma ex_ob_state: "(\<exists>x. P x) \<longleftrightarrow> P ObRequested \<or> P ObWaitingForClient \<or> P ObResultReceived \<or> P ObContinued \<or> P ObFailed \<or> P ObCancelled"
  by (metis turn_obligation_state.exhaust)

lemma ex_ob_kind: "(\<exists>x. P x) \<longleftrightarrow> P KindToolResult \<or> P KindPermissionDecision \<or> P KindHumanInput \<or> P KindResourceBinding \<or> P KindHandoffDecision"
  by (metis turn_obligation_kind.exhaust)

lemma ex_action: "(\<exists>x. P x) \<longleftrightarrow> P ActToolResult \<or> P ActPermissionDecision \<or> P ActHumanInput \<or> P ActResourceBinding \<or> P ActHandoffDecision"
  by (metis expected_responder_action.exhaust)

lemma ex_step_state: "(\<exists>x. P x) \<longleftrightarrow> P StepStreamingModel \<or> P StepWaitingForClient \<or> P StepReadyToContinue \<or> P StepContinued \<or> P StepFailed \<or> P StepCancelled"
  by (metis turn_step_state.exhaust)

lemma run_spellings:
  "s \<in> set ACTIVE_RUN_STATES \<longleftrightarrow> (\<exists>x. s = run_state_str x \<and> \<not> run_state_terminal x)"
  "s \<in> set TERMINAL_RUN_STATES \<longleftrightarrow> (\<exists>x. s = run_state_str x \<and> run_state_terminal x)"
  by (simp_all add: ex_run_state ACTIVE_RUN_STATES_def TERMINAL_RUN_STATES_def run_state_terminal_def)

lemma step_spellings:
  "s \<in> set ACTIVE_STEP_STATES \<longleftrightarrow> (\<exists>x. s = step_state_str x \<and> \<not> step_state_terminal x)"
  "s \<in> set TERMINAL_STEP_STATES \<longleftrightarrow> (\<exists>x. s = step_state_str x \<and> step_state_terminal x)"
  by (simp_all add: ex_step_state ACTIVE_STEP_STATES_def TERMINAL_STEP_STATES_def step_state_terminal_def)

lemma obligation_spellings:
  "s \<in> set OPEN_OBLIGATION_STATES \<or> s \<in> set SETTLED_OBLIGATION_STATES \<longleftrightarrow> (\<exists>x. s = ob_state_str x)"
  "s \<in> set OBLIGATION_KINDS \<longleftrightarrow> (\<exists>x. s = ob_kind_str x)"
  "s \<in> set OBLIGATION_KINDS \<longleftrightarrow> (\<exists>x. s = action_str x)"
  by (simp_all add: ex_ob_state ex_ob_kind ex_action OPEN_OBLIGATION_STATES_def
      SETTLED_OBLIGATION_STATES_def OBLIGATION_KINDS_def)

end
