(* ===== verification/Turn_Runs.thy ===== *)
theory Turn_Runs
  imports Turn_Schema
begin

section \<open>Runs, steps, recorded results and events\<close>

text \<open>
  The statements of \<open>turn_runs.rs\<close>, \<open>turn_steps.rs\<close> and \<open>bearwire_events.rs\<close>, one definition
  per function, with the \<open>WHERE\<close> clause as the guard and the \<open>SET\<close> clause as the assignment
  of a guarded update. The digest behind \<open>result_hash\<close>, the printed form of a uuid and the
  RFC 3339 formatter come from other crates: they are the fields of \<open>store_env\<close>.
\<close>

record store_env =
  env_uuid_str :: "uuid \<Rightarrow> string"
  env_rfc3339 :: "timestamp \<Rightarrow> string + string"
  env_result_hash :: "json \<Rightarrow> string"

definition coalesce :: "'a option \<Rightarrow> 'a \<Rightarrow> 'a option" where
  "coalesce x d = Some (unwrap_or x d)"

definition coalesce_opt :: "'a option \<Rightarrow> 'a option \<Rightarrow> 'a option" where
  "coalesce_opt x y = or_else x y"

text \<open>\<open>ORDER BY k DESC LIMIT 1\<close> and \<open>ORDER BY k ASC\<close>.\<close>

definition latest_by :: "('r \<Rightarrow> int) \<Rightarrow> 'r list \<Rightarrow> 'r option" where
  "latest_by k rs = fetch_optional (sort_key (\<lambda>r. - k r) rs)"

text \<open>
  One statement on a table: the rows that satisfy the guard are assigned, and the statement
  yields them after the assignment (\<open>RETURNING\<close>).
\<close>

definition update_runs ::
    "(turn_run_row \<Rightarrow> bool) \<Rightarrow> (turn_run_row \<Rightarrow> turn_run_row) \<Rightarrow> turn_run_row list dbm" where
  "update_runs g f = writeM (\<lambda>db. (db\<lparr>tbl_runs := update_where g f (tbl_runs db)\<rparr>,
     returning g f (tbl_runs db)))"

definition update_obligations ::
    "(turn_obligation_row \<Rightarrow> bool) \<Rightarrow> (turn_obligation_row \<Rightarrow> turn_obligation_row)
     \<Rightarrow> turn_obligation_row list dbm" where
  "update_obligations g f = writeM (\<lambda>db. (db\<lparr>tbl_obligations := update_where g f (tbl_obligations db)\<rparr>,
     returning g f (tbl_obligations db)))"

definition update_steps ::
    "(turn_step_row \<Rightarrow> bool) \<Rightarrow> (turn_step_row \<Rightarrow> turn_step_row) \<Rightarrow> turn_step_row list dbm" where
  "update_steps g f = writeM (\<lambda>db. (db\<lparr>tbl_steps := update_where g f (tbl_steps db)\<rparr>,
     returning g f (tbl_steps db)))"

subsection \<open>Identifiers\<close>

definition string_id_new :: "string \<Rightarrow> string \<Rightarrow> den_error + string" where
  "string_id_new name v =
     (if trim v = [] then Inl (ValidationError (name @ '' must not be empty'')) else Inr v)"

subsection \<open>Runs\<close>

definition run_state_value :: "turn_run_row \<Rightarrow> den_error + turn_run_state" where
  "run_state_value r = run_state_from_storage (run_state r)"

definition create_run_with_ids ::
    "uuid \<Rightarrow> timestamp \<Rightarrow> string \<Rightarrow> string \<Rightarrow> uuid \<Rightarrow> int \<Rightarrow> turn_run_row dbm" where
  "create_run_with_ids fresh now rid session bear user =
     (let row = \<lparr>run_pk = fresh, run_id = rid, run_session_id = session, run_bear_id = bear,
            run_user_id = user, run_state = ''accepted'', run_terminal_reason = None,
            run_created_at = now, run_updated_at = now, run_completed_at = None\<rparr>
      in writeM (\<lambda>db. (db\<lparr>tbl_runs := tbl_runs db @ [row]\<rparr>, row)))"

definition create_run ::
    "uuid \<Rightarrow> timestamp \<Rightarrow> string \<Rightarrow> string \<Rightarrow> uuid \<Rightarrow> int \<Rightarrow> turn_run_row dbm" where
  "create_run fresh now rid session bear user =
     (case string_id_new ''TurnRunId'' rid of
        Inl e \<Rightarrow> failM (Failed e)
      | Inr r \<Rightarrow>
         (case string_id_new ''ClientSessionId'' session of
            Inl e \<Rightarrow> failM (Failed e)
          | Inr s \<Rightarrow> create_run_with_ids fresh now r s bear user))"

definition get_run :: "string \<Rightarrow> den_db \<Rightarrow> turn_run_row option" where
  "get_run rid db = List.find (\<lambda>r. run_id r = rid) (tbl_runs db)"

definition active_run_for_session :: "string \<Rightarrow> den_db \<Rightarrow> turn_run_row option" where
  "active_run_for_session session db =
     latest_by run_created_at
       (filter (\<lambda>r. run_session_id r = session \<and> run_state r \<in> set ACTIVE_RUN_STATES) (tbl_runs db))"

definition supersede_active_run_for_session ::
    "timestamp \<Rightarrow> string \<Rightarrow> uuid \<Rightarrow> int \<Rightarrow> string \<Rightarrow> turn_run_row option dbm" where
  "supersede_active_run_for_session now session bear user reason = withM (\<lambda>db.
     let target = map_option run_pk (latest_by run_created_at
           (filter (\<lambda>r. run_session_id r = session \<and> run_bear_id r = bear \<and> run_user_id r = user
              \<and> run_state r \<in> set ACTIVE_RUN_STATES) (tbl_runs db)))
     in bindM (update_runs (\<lambda>r. Some (run_pk r) = target)
          (\<lambda>r. r\<lparr>run_state := ''failed'', run_terminal_reason := Some reason,
                run_completed_at := Some now, run_updated_at := now\<rparr>))
        (\<lambda>rows. returnM (fetch_optional rows)))"

definition run_not_terminal :: "string \<Rightarrow> turn_run_row \<Rightarrow> bool" where
  "run_not_terminal rid r \<longleftrightarrow> run_id r = rid \<and> run_state r \<notin> set TERMINAL_RUN_STATES"

definition claim_run_continuation :: "timestamp \<Rightarrow> string \<Rightarrow> string option \<Rightarrow> turn_run_row option dbm" where
  "claim_run_continuation now rid reason =
     transactionM (bindM (update_runs (\<lambda>r. run_id r = rid \<and> run_state r = ''running'')
       (\<lambda>r. r\<lparr>run_state := ''continuing'', run_terminal_reason := reason, run_updated_at := now\<rparr>))
       (\<lambda>rows. returnM (fetch_optional rows)))"

definition begin_claimed_run_continuation :: "timestamp \<Rightarrow> string \<Rightarrow> turn_run_row option dbm" where
  "begin_claimed_run_continuation now rid =
     bindM (update_runs (\<lambda>r. run_id r = rid \<and> run_state r = ''continuing'')
       (\<lambda>r. r\<lparr>run_state := ''running'', run_terminal_reason := None, run_updated_at := now\<rparr>))
       (\<lambda>rows. returnM (fetch_optional rows))"

definition release_claimed_run_continuation :: "timestamp \<Rightarrow> string \<Rightarrow> turn_run_row option dbm" where
  "release_claimed_run_continuation now rid =
     bindM (update_runs (\<lambda>r. run_id r = rid \<and> run_state r = ''continuing'')
       (\<lambda>r. r\<lparr>run_state := ''running'', run_terminal_reason := None, run_updated_at := now\<rparr>))
       (\<lambda>rows. returnM (fetch_optional rows))"

definition transition_run ::
    "timestamp \<Rightarrow> string \<Rightarrow> turn_run_state \<Rightarrow> string option \<Rightarrow> turn_run_row option dbm" where
  "transition_run now rid state reason =
     (if run_state_terminal state then
        failM (Failed (ValidationError (''terminal run state '' @ run_state_str state
          @ '' must use finish_run_with_bearwire_event'')))
      else transactionM (bindM (update_runs (run_not_terminal rid)
        (\<lambda>r. r\<lparr>run_state := run_state_str state, run_terminal_reason := reason, run_updated_at := now\<rparr>))
        (\<lambda>rows. returnM (fetch_optional rows))))"

subsection \<open>Recorded results\<close>

datatype turn_obligation_result_record =
    Inserted turn_obligation_result_row
  | DuplicateIdentical turn_obligation_result_row
  | DuplicateConflict string

definition find_result ::
    "string \<Rightarrow> string \<Rightarrow> string \<Rightarrow> den_db \<Rightarrow> turn_obligation_result_row option" where
  "find_result rid kind oid db = List.find (\<lambda>r. result_key r = (rid, kind, oid)) (tbl_results db)"

definition duplicate_record ::
    "turn_obligation_result_row \<Rightarrow> string \<Rightarrow> turn_obligation_result_record" where
  "duplicate_record row hash =
     (if res_result_hash row = hash then DuplicateIdentical row else DuplicateConflict (res_result_hash row))"

definition existing_client_result_for_payload ::
    "store_env \<Rightarrow> string \<Rightarrow> string \<Rightarrow> string \<Rightarrow> json \<Rightarrow> den_db \<Rightarrow> turn_obligation_result_record option" where
  "existing_client_result_for_payload env rid kind oid payload db =
     map_option (\<lambda>row. duplicate_record row (env_result_hash env payload)) (find_result rid kind oid db)"

text \<open>
  \<open>INSERT ... ON CONFLICT DO NOTHING RETURNING\<close>, then the existing row when nothing was
  inserted.
\<close>

definition insert_or_existing_result ::
    "store_env \<Rightarrow> uuid \<Rightarrow> timestamp \<Rightarrow> string \<Rightarrow> uuid option \<Rightarrow> string \<Rightarrow> string \<Rightarrow> json
     \<Rightarrow> turn_obligation_result_record dbm" where
  "insert_or_existing_result env fresh now rid turn_step kind oid payload =
     (let hash = env_result_hash env payload;
          row = \<lparr>res_id = fresh, res_run_id = rid, res_obligation_kind = kind, res_obligation_id = oid,
             res_result_hash = hash, res_payload_json = payload, res_turn_step_id = turn_step,
             res_created_at = now\<rparr>
      in bindM (queryM (find_result rid kind oid)) (\<lambda>existing.
           case existing of
             Some row' \<Rightarrow> returnM (duplicate_record row' hash)
           | None \<Rightarrow> writeM (\<lambda>db. (db\<lparr>tbl_results := tbl_results db @ [row]\<rparr>, Inserted row))))"

definition record_client_result_for_step ::
    "store_env \<Rightarrow> uuid \<Rightarrow> timestamp \<Rightarrow> string \<Rightarrow> uuid option \<Rightarrow> string \<Rightarrow> string \<Rightarrow> json
     \<Rightarrow> turn_obligation_result_record dbm" where
  "record_client_result_for_step env fresh now rid turn_step kind oid payload =
     insert_or_existing_result env fresh now rid turn_step kind oid payload"

definition record_client_result ::
    "store_env \<Rightarrow> uuid \<Rightarrow> timestamp \<Rightarrow> string \<Rightarrow> string \<Rightarrow> string \<Rightarrow> json
     \<Rightarrow> turn_obligation_result_record dbm" where
  "record_client_result env fresh now rid kind oid payload =
     record_client_result_for_step env fresh now rid None kind oid payload"

datatype claimed_tool_result_record = ClaimRejected | Recorded turn_obligation_result_record

definition claimed_by ::
    "timestamp \<Rightarrow> string \<Rightarrow> turn_obligation_row \<Rightarrow> bool" where
  "claimed_by now token b \<longleftrightarrow> ob_state b = ''waiting_for_client''
     \<and> ob_lease_attempt_token_hash b = Some token
     \<and> is_some_and (ob_lease_expires_at b) (\<lambda>e. e > now)"

definition claimed_tool_row ::
    "timestamp \<Rightarrow> uuid \<Rightarrow> string \<Rightarrow> string \<Rightarrow> string \<Rightarrow> turn_obligation_row \<Rightarrow> bool" where
  "claimed_tool_row now oid rid tool_call token b \<longleftrightarrow>
     ob_id b = oid \<and> ob_run_id b = rid \<and> ob_tool_call_id b = Some tool_call
     \<and> ob_kind b = ''tool_result'' \<and> claimed_by now token b"

definition received :: "timestamp \<Rightarrow> json \<Rightarrow> turn_obligation_row \<Rightarrow> turn_obligation_row" where
  "received now payload b =
     b\<lparr>ob_state := ''result_received'', ob_result_payload := Some payload, ob_updated_at := now\<rparr>"

definition record_claimed_tool_result_for_step ::
    "store_env \<Rightarrow> uuid \<Rightarrow> timestamp \<Rightarrow> string \<Rightarrow> uuid option \<Rightarrow> uuid \<Rightarrow> string \<Rightarrow> string \<Rightarrow> json
     \<Rightarrow> claimed_tool_result_record dbm" where
  "record_claimed_tool_result_for_step env fresh now rid turn_step oid tool_call token payload =
     transactionM (bindM
       (update_obligations (claimed_tool_row now oid rid tool_call token) (received now payload))
       (\<lambda>claimed. case fetch_optional claimed of
          None \<Rightarrow> returnM ClaimRejected
        | Some _ \<Rightarrow>
            bindM (insert_or_existing_result env fresh now rid turn_step ''tool'' tool_call payload)
              (\<lambda>rec. returnM (Recorded rec))))"

definition client_result_count_for_run_kind :: "string \<Rightarrow> string \<Rightarrow> den_db \<Rightarrow> nat" where
  "client_result_count_for_run_kind rid kind db =
     length (filter (\<lambda>r. res_run_id r = rid \<and> res_obligation_kind r = kind) (tbl_results db))"

subsection \<open>Events\<close>

text \<open>
  The sequence number of an event comes from a counter of the database. The column is a \<open>BIGSERIAL\<close>,
  whose counter is bounded and does not go back when a transaction is rolled back; here it is
  unbounded and part of the database that a rollback restores, so numbers have no gaps. What is
  used of them is that they grow.
\<close>

definition append_bearwire_event_on ::
    "store_env \<Rightarrow> uuid \<Rightarrow> timestamp \<Rightarrow> string \<Rightarrow> uuid option \<Rightarrow> int option \<Rightarrow> bearwire_event
     \<Rightarrow> bearwire_event_row dbm" where
  "append_bearwire_event_on env fresh now session bear user event =
     bindM (writeM (\<lambda>db.
        let row = \<lparr>er_id = fresh, er_sequence_no = seq_next db, er_session_id = session,
              er_bear_id = bear, er_user_id = user, er_event_type = evt_type event,
              er_event = event, er_created_at = now\<rparr>
        in (db\<lparr>tbl_events := tbl_events db @ [row], seq_next := seq_next db + 1\<rparr>, row)))
     (\<lambda>row. case env_rfc3339 env now of
        Inl err \<Rightarrow> failM (Failed (SystemError (''format BearWire event time failed: '' @ err)))
      | Inr time \<Rightarrow>
          let event' = event\<lparr>evt_event_id := Some (''evt_'' @ env_uuid_str env fresh),
                evt_sequence := Some (word_of_int (er_sequence_no row)),
                evt_time := Some time,
                evt_session_id := coalesce (evt_session_id event) session\<rparr>
          in bindM (writeM (\<lambda>db. (db\<lparr>tbl_events :=
                 update_where (\<lambda>r. er_id r = fresh) (\<lambda>r. r\<lparr>er_event := event'\<rparr>) (tbl_events db)\<rparr>, ())))
             (\<lambda>_. returnM (row\<lparr>er_event := event'\<rparr>)))"

definition append_bearwire_event ::
    "store_env \<Rightarrow> uuid \<Rightarrow> timestamp \<Rightarrow> string \<Rightarrow> uuid option \<Rightarrow> int option \<Rightarrow> bearwire_event
     \<Rightarrow> bearwire_event_row dbm" where
  "append_bearwire_event env fresh now session bear user event =
     transactionM (append_bearwire_event_on env fresh now session bear user event)"

definition append_ephemeral_bearwire_event ::
    "store_env \<Rightarrow> uuid \<Rightarrow> timestamp \<Rightarrow> string \<Rightarrow> uuid option \<Rightarrow> int option \<Rightarrow> string \<Rightarrow> json
     \<Rightarrow> bearwire_event_row dbm" where
  "append_ephemeral_bearwire_event env fresh now session bear user event_type payload =
     append_bearwire_event env fresh now session bear user (event_ephemeral event_type payload)"

definition latest_event_sequence :: "string \<Rightarrow> den_db \<Rightarrow> int option" where
  "latest_event_sequence session db =
     map_option er_sequence_no (latest_by er_sequence_no
       (filter (\<lambda>r. er_session_id r = session) (tbl_events db)))"

definition latest_bearwire_event_of_type :: "string \<Rightarrow> string \<Rightarrow> den_db \<Rightarrow> bearwire_event_row option" where
  "latest_bearwire_event_of_type session event_type db =
     latest_by er_sequence_no
       (filter (\<lambda>r. er_session_id r = session \<and> er_event_type r = event_type) (tbl_events db))"

definition list_bearwire_events_after ::
    "string \<Rightarrow> int option \<Rightarrow> int \<Rightarrow> den_db \<Rightarrow> bearwire_event_row list" where
  "list_bearwire_events_after session after limit db =
     (let limit = max 1 (min 501 limit) in
      take (nat limit) (sort_key er_sequence_no
        (filter (\<lambda>r. er_session_id r = session
            \<and> (case after of None \<Rightarrow> True | Some n \<Rightarrow> er_sequence_no r > n)) (tbl_events db))))"

subsection \<open>Terminal closure\<close>

record finish_run_result =
  fin_settled_obligations :: nat
  fin_settled_steps :: nat
  fin_event_sequence :: int

text \<open>\<open>event.data[k] = v\<close>: indexing a value that is neither an object nor null panics.\<close>

fun set_index :: "json \<Rightarrow> string \<Rightarrow> json \<Rightarrow> json option" where
  "set_index (JObj kvs) k x = Some (JObj (set_member k x kvs))"
| "set_index JNull k x = Some (JObj [(k, x)])"
| "set_index _ k x = None"

definition settle_obligations_of_run :: "timestamp \<Rightarrow> string \<Rightarrow> string \<Rightarrow> nat dbm" where
  "settle_obligations_of_run now rid settlement =
     bindM (update_obligations
       (\<lambda>b. ob_run_id b = rid \<and> ob_state b \<in> set OPEN_OBLIGATION_STATES)
       (\<lambda>b. b\<lparr>ob_state := settlement, ob_completed_at := coalesce (ob_completed_at b) now,
             ob_updated_at := now\<rparr>))
       (\<lambda>rows. returnM (length rows))"

definition settle_steps_of_run :: "timestamp \<Rightarrow> string \<Rightarrow> string \<Rightarrow> nat dbm" where
  "settle_steps_of_run now rid settlement =
     bindM (update_steps
       (\<lambda>s. step_run_id s = rid \<and> step_state s \<in> set ACTIVE_STEP_STATES)
       (\<lambda>s. s\<lparr>step_state := settlement, step_closed_at := coalesce (step_closed_at s) now\<rparr>))
       (\<lambda>rows. returnM (length rows))"

text \<open>The claim of the run: the \<open>UPDATE\<close> that only a run still open in this session matches.\<close>

definition claim_finish ::
    "timestamp \<Rightarrow> string \<Rightarrow> string \<Rightarrow> turn_run_state \<Rightarrow> string option \<Rightarrow> turn_run_row list dbm" where
  "claim_finish now session rid state reason =
     update_runs
       (\<lambda>r. run_id r = rid \<and> run_session_id r = session \<and> run_state r \<notin> set TERMINAL_RUN_STATES)
       (\<lambda>r. r\<lparr>run_state := run_state_str state, run_terminal_reason := reason,
             run_updated_at := now, run_completed_at := coalesce (run_completed_at r) now\<rparr>)"

text \<open>The rest of the transaction, with the counts written into the event.\<close>

definition settle_and_announce ::
    "store_env \<Rightarrow> uuid \<Rightarrow> timestamp \<Rightarrow> string \<Rightarrow> string \<Rightarrow> uuid \<Rightarrow> int \<Rightarrow> string \<Rightarrow> bearwire_event
     \<Rightarrow> finish_run_result option dbm" where
  "settle_and_announce env fresh now session rid bear user settlement event =
     bindM (settle_obligations_of_run now rid settlement) (\<lambda>n_obs.
     bindM (settle_steps_of_run now rid settlement) (\<lambda>n_steps.
       case Option.bind (set_index (evt_data event) ''settled_obligations'' (jnat n_obs))
              (\<lambda>d. set_index d ''settled_steps'' (jnat n_steps)) of
         None \<Rightarrow> failM (Panicked ''cannot access key in JSON value'')
       | Some d \<Rightarrow>
           bindM (append_bearwire_event_on env fresh now session (Some bear) (Some user)
                    (event\<lparr>evt_data := d\<rparr>)) (\<lambda>row.
             returnM (Some \<lparr>fin_settled_obligations = n_obs, fin_settled_steps = n_steps,
               fin_event_sequence = er_sequence_no row\<rparr>))))"

definition finish_run_with_bearwire_event ::
    "store_env \<Rightarrow> uuid \<Rightarrow> timestamp \<Rightarrow> string \<Rightarrow> string \<Rightarrow> uuid \<Rightarrow> int \<Rightarrow> turn_run_state
     \<Rightarrow> string option \<Rightarrow> bearwire_event \<Rightarrow> finish_run_result option dbm" where
  "finish_run_with_bearwire_event env fresh now session rid bear user state reason event =
     (if \<not> run_state_terminal state then failM (Failed (ValidationError
          (''finish_run_with_bearwire_event requires terminal state, got '' @ run_state_str state)))
      else case terminal_obligation_state state of
        None \<Rightarrow> failM (Panicked ''terminal state has obligation settlement'')
      | Some settlement \<Rightarrow> withM (\<lambda>db0.
          transactionM (bindM (claim_finish now session rid state reason) (\<lambda>claimed.
            if length claimed \<noteq> 1 then restoreM db0 None
            else settle_and_announce env fresh now session rid bear user (ob_state_str settlement) event))))"

subsection \<open>Steps\<close>

definition step_state_value :: "turn_step_row \<Rightarrow> den_error + turn_step_state" where
  "step_state_value s = step_state_from_storage (step_state s)"

definition active_step_of_run :: "string \<Rightarrow> den_db \<Rightarrow> turn_step_row option" where
  "active_step_of_run rid db =
     latest_by step_index
       (filter (\<lambda>s. step_run_id s = rid \<and> step_state s \<in> set ACTIVE_STEP_STATES) (tbl_steps db))"

definition next_step_index :: "string \<Rightarrow> den_db \<Rightarrow> int" where
  "next_step_index rid db =
     foldr max (map step_index (filter (\<lambda>s. step_run_id s = rid) (tbl_steps db))) (- 1) + 1"

definition insert_step :: "uuid \<Rightarrow> timestamp \<Rightarrow> string \<Rightarrow> turn_step_row dbm" where
  "insert_step fresh now rid = writeM (\<lambda>db.
     let row = \<lparr>step_id = fresh, step_run_id = rid, step_index = next_step_index rid db,
           step_state = ''streaming_model'', step_provider_response_id = None,
           step_opened_at = now, step_closed_at = None\<rparr>
     in (db\<lparr>tbl_steps := tbl_steps db @ [row]\<rparr>, row))"

definition ensure_active_step :: "uuid \<Rightarrow> timestamp \<Rightarrow> string \<Rightarrow> turn_step_row dbm" where
  "ensure_active_step fresh now rid =
     bindM (queryM (active_step_of_run rid)) (\<lambda>found. case found of
        Some row \<Rightarrow> returnM row
      | None \<Rightarrow> insert_step fresh now rid)"

definition transition_step ::
    "timestamp \<Rightarrow> uuid \<Rightarrow> turn_step_state \<Rightarrow> turn_step_row option dbm" where
  "transition_step now sid state =
     bindM (update_steps (\<lambda>s. step_id s = sid)
       (\<lambda>s. s\<lparr>step_state := step_state_str state,
             step_closed_at := (if step_state_terminal state
                then coalesce (step_closed_at s) now else step_closed_at s)\<rparr>))
       (\<lambda>rows. returnM (fetch_optional rows))"

end
