(* ===== verification/Turn_Obligations.thy ===== *)
theory Turn_Obligations
  imports Turn_Runs
begin

section \<open>Obligations and their leases\<close>

text \<open>
  \<open>turn_obligations.rs\<close>: creating and re-requesting obligations, the execution lease of a
  tool obligation, the state marks, and the queries behind the reconciliation sweep. The
  client-tool catalogue's policy for a tool name is the argument \<open>policy\<close> of \<open>timeout_ms\<close>
  (\<open>JNull\<close> for a name that is not a client tool).
\<close>

subsection \<open>Blocking reasons\<close>

datatype blocking_reason =
    BlockToolResult | BlockPermissionDecision | BlockHumanInput | BlockResourceBinding
  | BlockHandoffDecision | BlockMultiple

fun action_blocking_reason :: "expected_responder_action \<Rightarrow> blocking_reason" where
  "action_blocking_reason ActToolResult = BlockToolResult"
| "action_blocking_reason ActPermissionDecision = BlockPermissionDecision"
| "action_blocking_reason ActHumanInput = BlockHumanInput"
| "action_blocking_reason ActResourceBinding = BlockResourceBinding"
| "action_blocking_reason ActHandoffDecision = BlockHandoffDecision"

fun blocking_loop :: "blocking_reason option \<Rightarrow> expected_responder_action list \<Rightarrow> blocking_reason option" where
  "blocking_loop reason [] = reason"
| "blocking_loop reason (a # as) =
     (let next = action_blocking_reason a in
      if is_some_and reason (\<lambda>current. current \<noteq> next) then Some BlockMultiple
      else blocking_loop (Some next) as)"

definition from_expected_actions :: "expected_responder_action list \<Rightarrow> blocking_reason option" where
  "from_expected_actions as = blocking_loop None as"

fun ok_of :: "'e + 'a \<Rightarrow> 'a option" where
  "ok_of (Inl e) = None"
| "ok_of (Inr x) = Some x"

definition expected_action :: "turn_obligation_row \<Rightarrow> den_error + expected_responder_action" where
  "expected_action b = action_from_storage (ob_expected_responder_action b)"

definition from_open_obligations :: "turn_obligation_row list \<Rightarrow> blocking_reason option" where
  "from_open_obligations os = from_expected_actions (List.map_filter (\<lambda>b. ok_of (expected_action b)) os)"

fun blocking_reason_str :: "blocking_reason \<Rightarrow> string" where
  "blocking_reason_str BlockToolResult = ''tool_result''"
| "blocking_reason_str BlockPermissionDecision = ''permission_decision''"
| "blocking_reason_str BlockHumanInput = ''human_input''"
| "blocking_reason_str BlockResourceBinding = ''resource_binding''"
| "blocking_reason_str BlockHandoffDecision = ''handoff_decision''"
| "blocking_reason_str BlockMultiple = ''multiple''"

subsection \<open>Row readings\<close>

text \<open>\<open>Value::as_i64\<close> on a policy's number is the argument \<open>as_i64\<close>.\<close>

definition timeout_ms :: "(string \<Rightarrow> json) \<Rightarrow> (json \<Rightarrow> int option) \<Rightarrow> turn_obligation_row \<Rightarrow> int" where
  "timeout_ms policy as_i64 b =
     (let tool_name = unwrap_or (Option.bind (jget (ob_request_payload b) ''tool_name'') as_str_json) [];
          p = policy tool_name;
          action = ob_expected_responder_action b;
          raw = (if action = ''permission_decision'' then
                   unwrap_or (Option.bind (jget p ''permission_timeout_ms'') as_i64) 120000
                 else if action = ''tool_result'' then
                   unwrap_or (Option.bind (or_else (jget p ''total_timeout_ms'') (jget p ''tool_timeout_ms''))
                     as_i64) 180000
                 else 120000)
      in max 1000 (min 600000 raw))"

definition expires_at :: "(string \<Rightarrow> json) \<Rightarrow> (json \<Rightarrow> int option) \<Rightarrow> turn_obligation_row \<Rightarrow> timestamp" where
  "expires_at policy as_i64 b =
     unwrap_or (ob_lease_expires_at b) (ob_created_at b + timeout_ms policy as_i64 b)"

definition is_claimed :: "turn_obligation_row \<Rightarrow> bool" where
  "is_claimed b \<longleftrightarrow> ob_lease_attempt_token_hash b \<noteq> None"

definition process_epoch_id :: "(string \<Rightarrow> uuid option) \<Rightarrow> turn_obligation_row \<Rightarrow> uuid option" where
  "process_epoch_id parse_uuid b =
     Option.bind (Option.bind (jget (ob_request_payload b) ''den_process_epoch_id'') as_str_json) parse_uuid"

definition belongs_to_prior_process_epoch ::
    "(string \<Rightarrow> uuid option) \<Rightarrow> uuid \<Rightarrow> turn_obligation_row \<Rightarrow> bool" where
  "belongs_to_prior_process_epoch parse_uuid current b \<longleftrightarrow>
     is_some_and (process_epoch_id parse_uuid b) (\<lambda>e. e \<noteq> current)"

definition ob_state_value :: "turn_obligation_row \<Rightarrow> den_error + turn_obligation_state" where
  "ob_state_value b = ob_state_from_storage (ob_state b)"

definition ob_kind_value :: "turn_obligation_row \<Rightarrow> den_error + turn_obligation_kind" where
  "ob_kind_value b = ob_kind_from_storage (ob_kind b)"

definition obligation_is_open :: "turn_obligation_row \<Rightarrow> bool" where
  "obligation_is_open b \<longleftrightarrow>
     (case ob_state_value b of
        Inr s \<Rightarrow> s = ObRequested \<or> s = ObWaitingForClient \<or> s = ObResultReceived
      | Inl e \<Rightarrow> False)"

definition timed_out ::
    "(string \<Rightarrow> json) \<Rightarrow> (json \<Rightarrow> int option) \<Rightarrow> timestamp \<Rightarrow> turn_obligation_row \<Rightarrow> bool" where
  "timed_out policy as_i64 now b \<longleftrightarrow> obligation_is_open b \<and> expires_at policy as_i64 b \<le> now"

definition obligation_accepts_responder_action ::
    "turn_obligation_row \<Rightarrow> expected_responder_action \<Rightarrow> bool" where
  "obligation_accepts_responder_action b action \<longleftrightarrow>
     (case expected_action b of Inr expected \<Rightarrow> expected = action | Inl e \<Rightarrow> False)"

subsection \<open>Creating obligations\<close>

definition new_obligation ::
    "uuid \<Rightarrow> timestamp \<Rightarrow> string \<Rightarrow> string \<Rightarrow> uuid option \<Rightarrow> string \<Rightarrow> string \<Rightarrow> string option
     \<Rightarrow> string option \<Rightarrow> string option \<Rightarrow> json \<Rightarrow> turn_obligation_row" where
  "new_obligation fresh now rid session turn_step kind action tool_call permission responder payload =
     \<lparr>ob_id = fresh, ob_run_id = rid, ob_session_id = session, ob_kind = kind,
      ob_expected_responder_action = action, ob_tool_call_id = tool_call, ob_permission_id = permission,
      ob_responder_ref_id = responder, ob_state = ''waiting_for_client'', ob_turn_step_id = turn_step,
      ob_request_payload = payload, ob_result_payload = None, ob_created_at = now, ob_updated_at = now,
      ob_completed_at = None, ob_lease_attempt_token_hash = None, ob_claimed_at = None,
      ob_lease_expires_at = None\<rparr>"

definition insert_obligation :: "turn_obligation_row \<Rightarrow> turn_obligation_row dbm" where
  "insert_obligation row = writeM (\<lambda>db. (db\<lparr>tbl_obligations := tbl_obligations db @ [row]\<rparr>, row))"

definition create_turn_obligation_for_step ::
    "uuid \<Rightarrow> timestamp \<Rightarrow> string \<Rightarrow> string \<Rightarrow> uuid option \<Rightarrow> turn_obligation_kind
     \<Rightarrow> expected_responder_action \<Rightarrow> string \<Rightarrow> json \<Rightarrow> turn_obligation_row dbm" where
  "create_turn_obligation_for_step fresh now rid session turn_step kind action responder payload =
     insert_obligation (new_obligation fresh now rid session turn_step (ob_kind_str kind)
       (action_str action) None None (Some responder) payload)"

text \<open>A re-request keeps an answered or settled state: the \<open>CASE\<close> of the upserts.\<close>

definition kept_state :: "string \<Rightarrow> string" where
  "kept_state s =
     (if s \<in> set [''result_received'', ''continued'', ''failed'', ''cancelled''] then s
      else ''waiting_for_client'')"

text \<open>\<open>INSERT ... ON CONFLICT (run_id, tool_call_id) DO UPDATE\<close>.\<close>

definition upsert_tool_result_obligation_for_step ::
    "uuid \<Rightarrow> timestamp \<Rightarrow> string \<Rightarrow> string \<Rightarrow> uuid option \<Rightarrow> string \<Rightarrow> string option \<Rightarrow> json
     \<Rightarrow> turn_obligation_row dbm" where
  "upsert_tool_result_obligation_for_step fresh now rid session turn_step tool_call permission payload =
     (let conflict = (\<lambda>b. ob_run_id b = rid \<and> ob_tool_call_id b = Some tool_call) in
      bindM (update_obligations conflict
        (\<lambda>b. b\<lparr>ob_session_id := session, ob_turn_step_id := coalesce_opt turn_step (ob_turn_step_id b),
              ob_expected_responder_action := ''tool_result'',
              ob_permission_id := coalesce_opt permission (ob_permission_id b),
              ob_state := kept_state (ob_state b), ob_request_payload := payload, ob_updated_at := now\<rparr>))
        (\<lambda>rows. case fetch_optional rows of
           Some row \<Rightarrow> returnM row
         | None \<Rightarrow> insert_obligation (new_obligation fresh now rid session turn_step ''tool_result''
             ''tool_result'' (Some tool_call) permission None payload)))"

definition upsert_tool_result_obligation ::
    "uuid \<Rightarrow> timestamp \<Rightarrow> string \<Rightarrow> string \<Rightarrow> string \<Rightarrow> string option \<Rightarrow> json \<Rightarrow> turn_obligation_row dbm" where
  "upsert_tool_result_obligation fresh now rid session tool_call permission payload =
     upsert_tool_result_obligation_for_step fresh now rid session None tool_call permission payload"

text \<open>The tool call's own row becomes the permission row; else the row of the permission id.\<close>

definition permission_on_tool_call ::
    "timestamp \<Rightarrow> string \<Rightarrow> string \<Rightarrow> uuid option \<Rightarrow> string \<Rightarrow> string \<Rightarrow> json \<Rightarrow> turn_obligation_row list dbm" where
  "permission_on_tool_call now rid session turn_step permission tool_call payload =
     update_obligations
       (\<lambda>b. ob_run_id b = rid \<and> ob_tool_call_id b = Some tool_call
          \<and> (ob_permission_id b = None \<or> ob_permission_id b = Some permission))
       (\<lambda>b. b\<lparr>ob_session_id := session, ob_turn_step_id := coalesce_opt turn_step (ob_turn_step_id b),
             ob_kind := ''permission_decision'', ob_expected_responder_action := ''permission_decision'',
             ob_permission_id := Some permission, ob_state := kept_state (ob_state b),
             ob_request_payload := payload, ob_updated_at := now\<rparr>)"

definition permission_insert_or_update ::
    "uuid \<Rightarrow> timestamp \<Rightarrow> string \<Rightarrow> string \<Rightarrow> uuid option \<Rightarrow> string \<Rightarrow> string option \<Rightarrow> json
     \<Rightarrow> turn_obligation_row dbm" where
  "permission_insert_or_update fresh now rid session turn_step permission tool_call payload =
     (let conflict = (\<lambda>b. ob_run_id b = rid \<and> ob_permission_id b = Some permission) in
      bindM (update_obligations conflict
        (\<lambda>b. b\<lparr>ob_session_id := session, ob_turn_step_id := coalesce_opt turn_step (ob_turn_step_id b),
              ob_tool_call_id := coalesce_opt tool_call (ob_tool_call_id b),
              ob_state := kept_state (ob_state b), ob_request_payload := payload, ob_updated_at := now\<rparr>))
        (\<lambda>rows. case fetch_optional rows of
           Some row \<Rightarrow> returnM row
         | None \<Rightarrow> insert_obligation (new_obligation fresh now rid session turn_step
             ''permission_decision'' ''permission_decision'' tool_call (Some permission) None payload)))"

definition upsert_permission_decision_obligation_for_step ::
    "uuid \<Rightarrow> timestamp \<Rightarrow> string \<Rightarrow> string \<Rightarrow> uuid option \<Rightarrow> string \<Rightarrow> string option \<Rightarrow> json
     \<Rightarrow> turn_obligation_row dbm" where
  "upsert_permission_decision_obligation_for_step fresh now rid session turn_step permission tool_call payload =
     bindM (case tool_call of
         Some tc \<Rightarrow> permission_on_tool_call now rid session turn_step permission tc payload
       | None \<Rightarrow> returnM [])
       (\<lambda>rows. case fetch_optional rows of
          Some row \<Rightarrow> returnM row
        | None \<Rightarrow> permission_insert_or_update fresh now rid session turn_step permission tool_call payload)"

definition upsert_permission_decision_obligation ::
    "uuid \<Rightarrow> timestamp \<Rightarrow> string \<Rightarrow> string \<Rightarrow> string \<Rightarrow> string option \<Rightarrow> json \<Rightarrow> turn_obligation_row dbm" where
  "upsert_permission_decision_obligation fresh now rid session permission tool_call payload =
     upsert_permission_decision_obligation_for_step fresh now rid session None permission tool_call payload"

definition get_tool_call_obligation :: "string \<Rightarrow> string \<Rightarrow> den_db \<Rightarrow> turn_obligation_row option" where
  "get_tool_call_obligation rid tool_call db =
     List.find (\<lambda>b. ob_run_id b = rid \<and> ob_tool_call_id b = Some tool_call) (tbl_obligations db)"

definition get_permission_obligation :: "string \<Rightarrow> string \<Rightarrow> den_db \<Rightarrow> turn_obligation_row option" where
  "get_permission_obligation rid permission db =
     List.find (\<lambda>b. ob_run_id b = rid \<and> ob_permission_id b = Some permission) (tbl_obligations db)"

subsection \<open>Leases\<close>

definition TOOL_LEASE_DURATION_SECONDS :: int where
  "TOOL_LEASE_DURATION_SECONDS = 30"

definition lease_end :: "timestamp \<Rightarrow> timestamp" where
  "lease_end now = now + TOOL_LEASE_DURATION_SECONDS * 1000"

definition claimable ::
    "uuid \<Rightarrow> string \<Rightarrow> string \<Rightarrow> string \<Rightarrow> turn_obligation_row \<Rightarrow> bool" where
  "claimable oid rid session tool_call b \<longleftrightarrow>
     ob_id b = oid \<and> ob_run_id b = rid \<and> ob_session_id b = session
     \<and> ob_tool_call_id b = Some tool_call \<and> ob_kind b = ''tool_result''
     \<and> ob_expected_responder_action b = ''tool_result'' \<and> ob_state b = ''waiting_for_client''
     \<and> ob_lease_attempt_token_hash b = None"

definition leased :: "timestamp \<Rightarrow> string \<Rightarrow> turn_obligation_row \<Rightarrow> turn_obligation_row" where
  "leased now token b =
     b\<lparr>ob_lease_attempt_token_hash := Some token, ob_claimed_at := Some now,
       ob_lease_expires_at := Some (lease_end now), ob_updated_at := now\<rparr>"

definition claim_tool_execution ::
    "timestamp \<Rightarrow> uuid \<Rightarrow> string \<Rightarrow> string \<Rightarrow> string \<Rightarrow> string \<Rightarrow> turn_obligation_row option dbm" where
  "claim_tool_execution now oid rid session tool_call token =
     bindM (update_obligations (claimable oid rid session tool_call) (leased now token))
       (\<lambda>rows. returnM (fetch_optional rows))"

definition renewable ::
    "timestamp \<Rightarrow> uuid \<Rightarrow> string \<Rightarrow> string \<Rightarrow> string \<Rightarrow> string \<Rightarrow> turn_obligation_row \<Rightarrow> bool" where
  "renewable now oid rid session tool_call token b \<longleftrightarrow>
     ob_session_id b = session \<and> claimed_tool_row now oid rid tool_call token b"

definition renewed :: "timestamp \<Rightarrow> turn_obligation_row \<Rightarrow> turn_obligation_row" where
  "renewed now b = b\<lparr>ob_lease_expires_at := Some (lease_end now), ob_updated_at := now\<rparr>"

definition renew_tool_execution ::
    "timestamp \<Rightarrow> uuid \<Rightarrow> string \<Rightarrow> string \<Rightarrow> string \<Rightarrow> string \<Rightarrow> turn_obligation_row option dbm" where
  "renew_tool_execution now oid rid session tool_call token =
     bindM (update_obligations (renewable now oid rid session tool_call token) (renewed now))
       (\<lambda>rows. returnM (fetch_optional rows))"

subsection \<open>State marks\<close>

definition mark_claimed_result_received ::
    "timestamp \<Rightarrow> uuid \<Rightarrow> string \<Rightarrow> json \<Rightarrow> turn_obligation_row option dbm" where
  "mark_claimed_result_received now oid token payload =
     bindM (update_obligations (\<lambda>b. ob_id b = oid \<and> claimed_by now token b)
       (received now payload))
       (\<lambda>rows. returnM (fetch_optional rows))"

definition mark_result_received :: "timestamp \<Rightarrow> uuid \<Rightarrow> json \<Rightarrow> turn_obligation_row option dbm" where
  "mark_result_received now oid payload =
     bindM (update_obligations (\<lambda>b. ob_id b = oid \<and> ob_state b \<in> set OPEN_OBLIGATION_STATES)
       (received now payload))
       (\<lambda>rows. returnM (fetch_optional rows))"

text \<open>\<open>jsonb_set(v, '{k}', x, true)\<close> sets a member of an object and raises on any other value.\<close>

fun jsonb_set :: "json \<Rightarrow> string \<Rightarrow> json \<Rightarrow> json" where
  "jsonb_set (JObj kvs) k x = JObj (set_member k x kvs)"
| "jsonb_set v k x = v"

fun is_json_object :: "json \<Rightarrow> bool" where
  "is_json_object (JObj kvs) = True"
| "is_json_object _ = False"

definition granted_payload :: "json \<Rightarrow> json" where
  "granted_payload v =
     jsonb_set (jsonb_set v ''approval_required'' (JBool False)) ''permission_granted'' (JBool True)"

definition mark_waiting_for_tool_result :: "timestamp \<Rightarrow> uuid \<Rightarrow> turn_obligation_row option dbm" where
  "mark_waiting_for_tool_result now oid = withM (\<lambda>db.
     let g = (\<lambda>b. ob_id b = oid \<and> ob_state b \<in> set OPEN_OBLIGATION_STATES \<and> ob_tool_call_id b \<noteq> None)
     in if \<exists>b \<in> set (tbl_obligations db). g b \<and> \<not> is_json_object (ob_request_payload b)
        then failM (Failed (Database ''cannot set path in request_payload''))
        else bindM (update_obligations g
          (\<lambda>b. b\<lparr>ob_kind := ''tool_result'', ob_expected_responder_action := ''tool_result'',
                ob_state := ''waiting_for_client'',
                ob_request_payload := granted_payload (ob_request_payload b), ob_updated_at := now\<rparr>))
          (\<lambda>rows. returnM (fetch_optional rows)))"

definition mark_continued :: "timestamp \<Rightarrow> uuid \<Rightarrow> turn_obligation_row option dbm" where
  "mark_continued now oid =
     bindM (update_obligations
       (\<lambda>b. ob_id b = oid \<and> (ob_state b = ''result_received'' \<or> ob_state b = ''continued''))
       (\<lambda>b. b\<lparr>ob_state := ''continued'', ob_completed_at := coalesce (ob_completed_at b) now,
             ob_updated_at := now\<rparr>))
       (\<lambda>rows. returnM (fetch_optional rows))"

definition mark_failed :: "timestamp \<Rightarrow> uuid \<Rightarrow> turn_obligation_row option dbm" where
  "mark_failed now oid =
     bindM (update_obligations (\<lambda>b. ob_id b = oid \<and> ob_state b \<in> set OPEN_OBLIGATION_STATES)
       (\<lambda>b. b\<lparr>ob_state := ''failed'', ob_completed_at := coalesce (ob_completed_at b) now,
             ob_updated_at := now\<rparr>))
       (\<lambda>rows. returnM (fetch_optional rows))"

subsection \<open>Open obligations and the sweep\<close>

text \<open>\<open>ORDER BY created_at ASC, id ASC\<close>: a stable sort by id, then by creation time.\<close>

definition open_client_rows ::
    "(turn_obligation_row \<Rightarrow> bool) \<Rightarrow> den_db \<Rightarrow> turn_obligation_row list" where
  "open_client_rows p db =
     sort_key ob_created_at (sort_key ob_id
       (filter (\<lambda>b. p b \<and> ob_state b \<in> set CLIENT_OPEN_STATES) (tbl_obligations db)))"

definition open_client_obligations_for_step :: "uuid \<Rightarrow> den_db \<Rightarrow> turn_obligation_row list" where
  "open_client_obligations_for_step sid = open_client_rows (\<lambda>b. ob_turn_step_id b = Some sid)"

definition open_client_obligations_for_run :: "string \<Rightarrow> den_db \<Rightarrow> turn_obligation_row list" where
  "open_client_obligations_for_run rid = open_client_rows (\<lambda>b. ob_run_id b = rid)"

definition open_client_obligations_for_session :: "string \<Rightarrow> den_db \<Rightarrow> turn_obligation_row list" where
  "open_client_obligations_for_session session = open_client_rows (\<lambda>b. ob_session_id b = session)"

definition open_client_obligations :: "int \<Rightarrow> den_db \<Rightarrow> turn_obligation_row list" where
  "open_client_obligations limit db =
     (let limit = max 1 (min 10000 limit) in take (nat limit) (open_client_rows (\<lambda>_. True) db))"

definition expire_open_client_obligations_from_rows ::
    "(string \<Rightarrow> json) \<Rightarrow> (json \<Rightarrow> int option) \<Rightarrow> timestamp \<Rightarrow> turn_obligation_row list
     \<Rightarrow> turn_obligation_row list" where
  "expire_open_client_obligations_from_rows policy as_i64 now rows = filter (timed_out policy as_i64 now) rows"

definition expire_open_client_obligations_for_session ::
    "(string \<Rightarrow> json) \<Rightarrow> (json \<Rightarrow> int option) \<Rightarrow> timestamp \<Rightarrow> string \<Rightarrow> den_db \<Rightarrow> turn_obligation_row list" where
  "expire_open_client_obligations_for_session policy as_i64 now session db =
     expire_open_client_obligations_from_rows policy as_i64 now (open_client_obligations_for_session session db)"

definition expire_open_client_obligations ::
    "(string \<Rightarrow> json) \<Rightarrow> (json \<Rightarrow> int option) \<Rightarrow> timestamp \<Rightarrow> int \<Rightarrow> den_db \<Rightarrow> turn_obligation_row list" where
  "expire_open_client_obligations policy as_i64 now limit db =
     expire_open_client_obligations_from_rows policy as_i64 now (open_client_obligations limit db)"

definition client_obligations_requiring_reconciliation ::
    "(string \<Rightarrow> json) \<Rightarrow> (json \<Rightarrow> int option) \<Rightarrow> (string \<Rightarrow> uuid option) \<Rightarrow> timestamp \<Rightarrow> uuid \<Rightarrow> int
     \<Rightarrow> den_db \<Rightarrow> turn_obligation_row list" where
  "client_obligations_requiring_reconciliation policy as_i64 parse_uuid now current limit db =
     filter (\<lambda>b. timed_out policy as_i64 now b \<or> belongs_to_prior_process_epoch parse_uuid current b)
       (open_client_obligations limit db)"

end
