(* ===== verification/Turn_Waits.thy ===== *)
theory Turn_Waits
  imports Turn_Obligations
begin

section \<open>Persisting a wait\<close>

text \<open>
  \<open>turn_waits.rs\<close>: the two transactions that park a run on its client, one for a surface
  obligation and one for a tool call, and the ownership of a tool. The built-in tool
  descriptors (\<open>cat_den_tool_name\<close>, \<open>cat_den_execution_target\<close>: name and target of a Den tool), the client-tool catalogue
  (\<open>cat_is_client_tool\<close>, \<open>cat_client_policy\<close>) and the display value of a call are the
  fields of \<open>tool_catalogue\<close>.
\<close>

datatype tool_execution_owner = OwnerDen | OwnerArmature

record tool_catalogue =
  cat_den_tool_name :: "string \<Rightarrow> string option"
  cat_den_execution_target :: "string \<Rightarrow> string option"
  cat_is_client_tool :: "string \<Rightarrow> bool"
  cat_client_policy :: "string \<Rightarrow> json"
  cat_display :: "string \<Rightarrow> json \<Rightarrow> json"

definition RUNTIME_CHECKPOINT_TOOL_NAME :: string where
  "RUNTIME_CHECKPOINT_TOOL_NAME = ''checkpoint''"

fun owner_to_wire :: "tool_execution_owner \<Rightarrow> string" where
  "owner_to_wire OwnerDen = ''den''"
| "owner_to_wire OwnerArmature = ''armature_local''"

fun descriptor_resolution_failed :: "den_error \<Rightarrow> bool" where
  "descriptor_resolution_failed (ValidationError msg) = prefix ''descriptor_resolution_failed:'' msg"
| "descriptor_resolution_failed _ = False"

definition resolve_tool_execution_owner :: "tool_catalogue \<Rightarrow> string \<Rightarrow> den_error + tool_execution_owner" where
  "resolve_tool_execution_owner cat tool_name =
     (if tool_name = RUNTIME_CHECKPOINT_TOOL_NAME then Inr OwnerDen
      else case cat_den_execution_target cat tool_name of
        Some target \<Rightarrow>
          if target = ''den'' then Inr OwnerDen
          else Inl (ValidationError (''descriptor_resolution_failed: Den tool `'' @ tool_name
             @ ''` has unsupported execution_target `'' @ target @ ''`''))
      | None \<Rightarrow>
          if cat_is_client_tool cat tool_name then Inr OwnerArmature
          else Inl (ValidationError (''descriptor_resolution_failed: no execution owner descriptor for tool `''
             @ tool_name @ ''`'')))"

definition tool_call_policy :: "tool_catalogue \<Rightarrow> string \<Rightarrow> tool_execution_owner \<Rightarrow> json" where
  "tool_call_policy cat tool_name owner =
     (case owner of
        OwnerDen \<Rightarrow> JObj [(''execution_target'', JStr ''den'')]
      | OwnerArmature \<Rightarrow> cat_client_policy cat tool_name)"

record persist_tool_call_wait_input =
  in_process_epoch_id :: uuid
  in_session_id :: string
  in_run_id :: string
  in_bear_id :: uuid
  in_user_id :: int
  in_request_id :: uuid
  in_tool_call_id :: string
  in_tool_name :: string
  in_title :: "string option"
  in_kind :: "string option"
  in_arguments :: json
  in_approval_request_id :: "string option"
  in_approval_required :: bool
  in_approval_reason :: "string option"
  in_event_run_id :: "string option"

record persisted_tool_call_wait =
  ptw_effective_approval_required :: bool
  ptw_turn_step_id :: uuid
  ptw_obligation :: "turn_obligation_row option"
  ptw_event_sequence :: int

record persist_surface_obligation_input =
  si_session_id :: string
  si_run_id :: string
  si_kind :: turn_obligation_kind
  si_expected_responder_action :: expected_responder_action
  si_responder_ref_id :: string
  si_request_payload :: json

definition ensure_waiting_turn_step :: "uuid \<Rightarrow> timestamp \<Rightarrow> string \<Rightarrow> bool \<Rightarrow> uuid dbm" where
  "ensure_waiting_turn_step fresh now rid mark_waiting =
     bindM (ensure_active_step fresh now rid) (\<lambda>row.
       if mark_waiting then
         bindM (update_steps (\<lambda>s. step_id s = step_id row \<and> step_state s \<in> set ACTIVE_STEP_STATES)
            (\<lambda>s. s\<lparr>step_state := ''waiting_for_client''\<rparr>))
           (\<lambda>_. returnM (step_id row))
       else returnM (step_id row))"

definition park_run :: "timestamp \<Rightarrow> string \<Rightarrow> turn_run_row list dbm" where
  "park_run now rid = update_runs (\<lambda>r. run_id r = rid)
     (\<lambda>r. r\<lparr>run_state := run_state_str RunWaitingForClient, run_terminal_reason := None,
           run_updated_at := now\<rparr>)"

definition persist_surface_obligation_transactionally ::
    "uuid \<Rightarrow> uuid \<Rightarrow> timestamp \<Rightarrow> persist_surface_obligation_input \<Rightarrow> (uuid \<times> turn_obligation_row) dbm" where
  "persist_surface_obligation_transactionally fresh_step fresh_ob now input =
     transactionM
       (bindM (park_run now (si_run_id input)) (\<lambda>_.
        bindM (ensure_waiting_turn_step fresh_step now (si_run_id input) True) (\<lambda>sid.
        bindM (insert_obligation (new_obligation fresh_ob now (si_run_id input) (si_session_id input)
                 (Some sid) (ob_kind_str (si_kind input)) (action_str (si_expected_responder_action input))
                 None None (Some (si_responder_ref_id input)) (si_request_payload input)))
          (\<lambda>ob. returnM (sid, ob)))))"

subsection \<open>The event of a tool call\<close>

definition opt_member :: "string \<Rightarrow> string option \<Rightarrow> (string \<times> json) list" where
  "opt_member k v = (case v of None \<Rightarrow> [] | Some s \<Rightarrow> [(k, JStr s)])"

definition opt_value :: "string \<Rightarrow> json option \<Rightarrow> (string \<times> json) list" where
  "opt_value k v = (case v of None \<Rightarrow> [] | Some x \<Rightarrow> [(k, x)])"

definition tool_call_wire ::
    "tool_catalogue \<Rightarrow> string \<Rightarrow> string \<Rightarrow> string option \<Rightarrow> string \<Rightarrow> json \<Rightarrow> json" where
  "tool_call_wire cat tool_call tool_name title kind arguments =
     JObj ([(''id'', JStr tool_call), (''name'', JStr tool_name)] @ opt_member ''title'' title
       @ [(''kind'', JStr kind), (''arguments'', arguments),
          (''display'', cat_display cat tool_name arguments)])"

definition tool_call_waiting ::
    "string \<Rightarrow> string option \<Rightarrow> json \<Rightarrow> json \<Rightarrow> string \<Rightarrow> json option \<Rightarrow> string option \<Rightarrow> bearwire_event" where
  "tool_call_waiting method obligation call permission target policy turn_step =
     event_ephemeral ''client.waiting'' (JObj
       ([(''expected_responder_action'', JStr ''permission_decision''),
         (''expected_client_method'', JStr method)] @ opt_member ''obligation_id'' obligation
        @ [(''tool_call'', call), (''permission'', permission), (''approval_required'', JBool True),
           (''execution_target'', JStr target)] @ opt_value ''policy'' policy
        @ opt_member ''turn_step_id'' turn_step))"

definition tool_call_requested ::
    "string option \<Rightarrow> string option \<Rightarrow> json \<Rightarrow> string \<Rightarrow> json option \<Rightarrow> string option \<Rightarrow> string option
     \<Rightarrow> bearwire_event" where
  "tool_call_requested action obligation call target policy approval reason =
     event_ephemeral ''tool_call.requested'' (JObj
       (opt_member ''expected_responder_action'' action @ opt_member ''obligation_id'' obligation
        @ [(''tool_call'', call), (''approval_required'', JBool False), (''execution_target'', JStr target)]
        @ opt_value ''policy'' policy @ opt_member ''approval_request_id'' approval
        @ opt_member ''reason'' reason))"

definition wait_request_payload ::
    "store_env \<Rightarrow> tool_catalogue \<Rightarrow> tool_execution_owner \<Rightarrow> bool \<Rightarrow> persist_tool_call_wait_input \<Rightarrow> json" where
  "wait_request_payload env cat owner approval input =
     JObj [(''den_process_epoch_id'', JStr (env_uuid_str env (in_process_epoch_id input))),
           (''tool_call_id'', JStr (in_tool_call_id input)),
           (''tool_name'', JStr (in_tool_name input)),
           (''arguments'', in_arguments input),
           (''approval_required'', JBool approval),
           (''approval_request_id'',
              case in_approval_request_id input of None \<Rightarrow> JNull | Some s \<Rightarrow> JStr s),
           (''execution_target'', JStr (owner_to_wire owner)),
           (''policy'', tool_call_policy cat (in_tool_name input) owner),
           (''request_id'', JStr (env_uuid_str env (in_request_id input)))]"

definition wait_event ::
    "store_env \<Rightarrow> tool_catalogue \<Rightarrow> tool_execution_owner \<Rightarrow> bool
     \<Rightarrow> persist_tool_call_wait_input \<Rightarrow> turn_obligation_row option \<Rightarrow> bearwire_event" where
  "wait_event env cat owner approval input ob =
     (let call = tool_call_wire cat (in_tool_call_id input) (in_tool_name input) (in_title input)
            (unwrap_or (in_kind input) ''function'') (in_arguments input);
          policy = Some (tool_call_policy cat (in_tool_name input) owner);
          base = (case (approval, ob) of
             (True, Some b) \<Rightarrow>
               tool_call_waiting ''client.permission.result'' (Some (env_uuid_str env (ob_id b))) call
                 (JObj ([(''id'', JStr (unwrap_or (in_approval_request_id input) []))]
                   @ opt_member ''reason'' (in_approval_reason input)))
                 (owner_to_wire owner) policy (map_option (env_uuid_str env) (ob_turn_step_id b))
           | _ \<Rightarrow>
               tool_call_requested (map_option (\<lambda>_. ''tool_result'') ob)
                 (map_option (\<lambda>b. env_uuid_str env (ob_id b)) ob) call (owner_to_wire owner) policy
                 (in_approval_request_id input) (in_approval_reason input));
          refs = [resource_ref_new ''run'' (in_run_id input),
                  resource_ref_new ''tool_call'' (in_tool_call_id input)]
            @ (case (approval, ob) of
                 (True, Some b) \<Rightarrow>
                   [resource_ref_new ''permission_request'' (unwrap_or (ob_permission_id b) []),
                    resource_ref_new ''client_obligation'' (env_uuid_str env (ob_id b))]
               | _ \<Rightarrow> [])
      in base\<lparr>evt_bear_id := Some (env_uuid_str env (in_bear_id input)),
              evt_human_id := Some (show_int (in_user_id input)),
              evt_session_id := Some (in_session_id input),
              evt_run_id := or_else (in_event_run_id input) (Some (in_run_id input)),
              evt_subject := Some (''resource/tool_call/'' @ in_tool_call_id input),
              evt_resource_refs := evt_resource_refs base @ refs\<rparr>)"

subsection \<open>Parking a run on a tool call\<close>

definition has_permission_id :: "persist_tool_call_wait_input \<Rightarrow> bool" where
  "has_permission_id input \<longleftrightarrow>
     is_some_and (map_option trim (in_approval_request_id input)) (\<lambda>i. i \<noteq> [])"

definition wait_obligation ::
    "uuid \<Rightarrow> timestamp \<Rightarrow> tool_execution_owner \<Rightarrow> bool \<Rightarrow> uuid \<Rightarrow> json \<Rightarrow> persist_tool_call_wait_input
     \<Rightarrow> turn_obligation_row option dbm" where
  "wait_obligation fresh now owner approval sid payload input =
     (if approval then
        bindM (upsert_permission_decision_obligation_for_step fresh now (in_run_id input)
            (in_session_id input) (Some sid) (unwrap_or (in_approval_request_id input) [])
            (Some (in_tool_call_id input)) payload)
          (\<lambda>b. returnM (Some b))
      else if owner = OwnerDen then returnM None
      else bindM (upsert_tool_result_obligation_for_step fresh now (in_run_id input)
            (in_session_id input) (Some sid) (in_tool_call_id input) (in_approval_request_id input) payload)
          (\<lambda>b. returnM (Some b)))"

definition persist_bearwire_tool_call_wait_transactionally ::
    "store_env \<Rightarrow> tool_catalogue \<Rightarrow> uuid \<Rightarrow> uuid \<Rightarrow> uuid \<Rightarrow> timestamp
     \<Rightarrow> persist_tool_call_wait_input \<Rightarrow> persisted_tool_call_wait dbm" where
  "persist_bearwire_tool_call_wait_transactionally env cat fresh_step fresh_ob fresh_evt now input =
     (let approval = in_approval_required input \<and> has_permission_id input in
      case resolve_tool_execution_owner cat (in_tool_name input) of
        Inl e \<Rightarrow> failM (Failed e)
      | Inr owner \<Rightarrow>
         let parks = owner \<noteq> OwnerDen \<or> approval;
             payload = wait_request_payload env cat owner approval input
         in transactionM
           (bindM (if parks then park_run now (in_run_id input) else returnM []) (\<lambda>_.
            bindM (ensure_waiting_turn_step fresh_step now (in_run_id input) parks) (\<lambda>sid.
            bindM (wait_obligation fresh_ob now owner approval sid payload input) (\<lambda>ob.
            bindM (append_bearwire_event_on env fresh_evt now (in_session_id input)
                     (Some (in_bear_id input)) (Some (in_user_id input))
                     (wait_event env cat owner approval input ob)) (\<lambda>row.
            returnM \<lparr>ptw_effective_approval_required = approval, ptw_turn_step_id = sid,
              ptw_obligation = ob, ptw_event_sequence = er_sequence_no row\<rparr>))))))"

end
