(* ===== verification/Obligation_Coordinator.thy ===== *)
theory Obligation_Coordinator
  imports Turn_Waits
begin

section \<open>Settling client results\<close>

text \<open>
  \<open>client_obligation_coordinator.rs\<close>: what a tool result or a permission decision that a
  client sends does to the turn. The caller passes the run and obligation rows it has read
  before; the statements run on the database as it is now. \<open>clock n\<close> is \<open>NOW()\<close> of the n-th
  statement of the call, \<open>fresh\<close> the uuid of the result row. The text of a serde error is the
  argument \<open>serde_err\<close>.
\<close>

subsection \<open>Request payloads\<close>

definition default_local_tool_name :: string where
  "default_local_tool_name = ''local_tool''"

text \<open>
  \<open>serde_json::from_value\<close> into a struct with defaults: an object, or an array of at most two
  elements.
\<close>

definition local_tool_request_payload ::
    "(json \<Rightarrow> string) \<Rightarrow> json \<Rightarrow> den_error + string \<times> json" where
  "local_tool_request_payload serde_err v =
     (let bad = Inl (ValidationError (''invalid local tool request payload: '' @ serde_err v));
          mk = (\<lambda>name args. case name of None \<Rightarrow> bad | Some n \<Rightarrow> Inr (n, args))
      in case v of
           JObj kvs \<Rightarrow>
             mk (case map_of kvs ''tool_name'' of
                   None \<Rightarrow> Some default_local_tool_name | Some t \<Rightarrow> as_str_json t)
                (unwrap_or (map_of kvs ''arguments'') JNull)
         | JArr [] \<Rightarrow> mk (Some default_local_tool_name) JNull
         | JArr [t] \<Rightarrow> mk (as_str_json t) JNull
         | JArr [t, a] \<Rightarrow> mk (as_str_json t) a
         | _ \<Rightarrow> bad)"

definition DEN_WEB_FETCH :: string where
  "DEN_WEB_FETCH = ''den.web.fetch''"

definition obligation_is_den_web_fetch :: "tool_catalogue \<Rightarrow> json \<Rightarrow> bool" where
  "obligation_is_den_web_fetch cat payload \<longleftrightarrow>
     cat_den_tool_name cat (unwrap_or (Option.bind (jget payload ''tool_name'') as_str_json) [])
     = Some DEN_WEB_FETCH"

subsection \<open>Outcomes\<close>

datatype tool_result_outcome =
    ToolWaitingForMore "turn_run_row option" "turn_obligation_row list" "turn_obligation_result_row option"
  | ToolContinueModel "turn_run_row option" "turn_obligation_result_row option"
  | ToolDuplicateIdentical turn_obligation_result_row string
  | ToolDuplicateConflict string
  | ToolIgnoredLate string string

datatype permission_result_outcome =
    PermDispatchLocalTool "turn_run_row option" turn_obligation_row string string json
      "turn_obligation_result_row option"
  | PermContinueModel "turn_run_row option" "turn_obligation_result_row option"
  | PermDuplicateIdentical turn_obligation_result_row string
  | PermDuplicateConflict string
  | PermIgnoredLate string string

definition validate_result_turn_step ::
    "(uuid \<Rightarrow> string) \<Rightarrow> turn_obligation_row \<Rightarrow> uuid option \<Rightarrow> den_error + unit" where
  "validate_result_turn_step show_uuid ob given =
     (let show_opt = (\<lambda>x. case x of None \<Rightarrow> ''None'' | Some u \<Rightarrow> ''Some('' @ show_uuid u @ '')'')
      in if given \<noteq> None \<and> given \<noteq> ob_turn_step_id ob then
           Inl (ValidationError (''turn_step_id mismatch for obligation '' @ show_uuid (ob_id ob)
             @ '': expected '' @ show_opt (ob_turn_step_id ob) @ '', got '' @ show_opt given))
         else Inr ())"

definition run_is_terminal :: "turn_run_row \<Rightarrow> bool" where
  "run_is_terminal run \<longleftrightarrow> run_state run \<in> set TERMINAL_RUN_STATES"

datatype existing_client_result_outcome =
    ExistingIdentical turn_obligation_result_row string
  | ExistingConflict string
  | ExistingLate string string

text \<open>A lookup never reports an insertion: that arm of the match is unreachable in the code.\<close>

definition existing_client_result_or_late ::
    "store_env \<Rightarrow> turn_run_row \<Rightarrow> turn_obligation_row \<Rightarrow> string \<Rightarrow> string \<Rightarrow> json
     \<Rightarrow> existing_client_result_outcome option dbm" where
  "existing_client_result_or_late env run ob kind oid payload =
     bindM (queryM (existing_client_result_for_payload env (run_id run) kind oid payload)) (\<lambda>found.
       case found of
         Some (DuplicateIdentical row) \<Rightarrow> returnM (Some (ExistingIdentical row (run_state run)))
       | Some (DuplicateConflict hash) \<Rightarrow> returnM (Some (ExistingConflict hash))
       | Some (Inserted row) \<Rightarrow> failM (Panicked ''internal error: entered unreachable code'')
       | None \<Rightarrow>
           if \<not> run_is_terminal run \<and> obligation_is_open ob then returnM None
           else returnM (Some (ExistingLate (run_state run) (ob_state ob))))"

fun tool_outcome_of_existing :: "existing_client_result_outcome \<Rightarrow> tool_result_outcome" where
  "tool_outcome_of_existing (ExistingIdentical row s) = ToolDuplicateIdentical row s"
| "tool_outcome_of_existing (ExistingConflict h) = ToolDuplicateConflict h"
| "tool_outcome_of_existing (ExistingLate rs obs) = ToolIgnoredLate rs obs"

fun permission_outcome_of_existing :: "existing_client_result_outcome \<Rightarrow> permission_result_outcome" where
  "permission_outcome_of_existing (ExistingIdentical row s) = PermDuplicateIdentical row s"
| "permission_outcome_of_existing (ExistingConflict h) = PermDuplicateConflict h"
| "permission_outcome_of_existing (ExistingLate rs obs) = PermIgnoredLate rs obs"

fun attach_tool_result :: "tool_result_outcome \<Rightarrow> turn_obligation_result_row \<Rightarrow> tool_result_outcome" where
  "attach_tool_result (ToolWaitingForMore run open_obs _) row = ToolWaitingForMore run open_obs (Some row)"
| "attach_tool_result (ToolContinueModel run _) row = ToolContinueModel run (Some row)"
| "attach_tool_result other row = other"

fun attach_permission_result ::
    "permission_result_outcome \<Rightarrow> turn_obligation_result_row \<Rightarrow> permission_result_outcome" where
  "attach_permission_result (PermDispatchLocalTool run ob tc name args _) row =
     PermDispatchLocalTool run ob tc name args (Some row)"
| "attach_permission_result (PermContinueModel run _) row = PermContinueModel run (Some row)"
| "attach_permission_result other row = other"

subsection \<open>Settling\<close>

definition continue_after_client_result ::
    "(nat \<Rightarrow> timestamp) \<Rightarrow> turn_run_row \<Rightarrow> turn_obligation_row \<Rightarrow> turn_run_row option dbm" where
  "continue_after_client_result clock run ob =
     bindM (transition_run (clock 0) (run_id run) RunContinuing None) (\<lambda>transitioned.
     bindM (mark_continued (clock 1) (ob_id ob)) (\<lambda>_.
     bindM (case ob_turn_step_id ob of
              Some sid \<Rightarrow> bindM (transition_step (clock 2) sid StepContinued) (\<lambda>_. returnM ())
            | None \<Rightarrow> returnM ()) (\<lambda>_.
     returnM transitioned)))"

definition step_or_run_open :: "turn_run_row \<Rightarrow> turn_obligation_row \<Rightarrow> den_db \<Rightarrow> turn_obligation_row list" where
  "step_or_run_open run ob =
     (case ob_turn_step_id ob of
        Some sid \<Rightarrow> open_client_obligations_for_step sid
      | None \<Rightarrow> open_client_obligations_for_run (run_id run))"

definition settle_recorded_tool_result ::
    "(nat \<Rightarrow> timestamp) \<Rightarrow> turn_run_row \<Rightarrow> turn_obligation_row \<Rightarrow> tool_result_outcome dbm" where
  "settle_recorded_tool_result clock run ob =
     bindM (queryM (step_or_run_open run ob)) (\<lambda>open_obs.
       if open_obs \<noteq> [] then
         bindM (transition_run (clock 0) (run_id run) RunWaitingForClient None) (\<lambda>transitioned.
           returnM (ToolWaitingForMore transitioned open_obs None))
       else
         bindM (continue_after_client_result clock run ob) (\<lambda>transitioned.
           returnM (ToolContinueModel transitioned None)))"

definition settle_tool_result ::
    "(nat \<Rightarrow> timestamp) \<Rightarrow> turn_run_row \<Rightarrow> turn_obligation_row \<Rightarrow> string \<Rightarrow> json \<Rightarrow> tool_result_outcome dbm" where
  "settle_tool_result clock run ob token payload =
     bindM (mark_claimed_result_received (clock 0) (ob_id ob) token payload) (\<lambda>received.
       case received of
         None \<Rightarrow> returnM (ToolIgnoredLate (run_state run) (ob_state ob))
       | Some _ \<Rightarrow> settle_recorded_tool_result (\<lambda>n. clock (n + 1)) run ob)"

definition record_and_settle_tool_result_for_step ::
    "store_env \<Rightarrow> uuid \<Rightarrow> (nat \<Rightarrow> timestamp) \<Rightarrow> turn_run_row \<Rightarrow> turn_obligation_row \<Rightarrow> uuid option
     \<Rightarrow> string \<Rightarrow> string \<Rightarrow> string \<Rightarrow> json \<Rightarrow> tool_result_outcome dbm" where
  "record_and_settle_tool_result_for_step env fresh clock run ob given_step token kind oid payload =
     (case validate_result_turn_step (env_uuid_str env) ob given_step of
        Inl e \<Rightarrow> failM (Failed e)
      | Inr _ \<Rightarrow>
         bindM (existing_client_result_or_late env run ob kind oid payload) (\<lambda>existing.
           case existing of
             Some outcome \<Rightarrow> returnM (tool_outcome_of_existing outcome)
           | None \<Rightarrow>
               bindM (record_claimed_tool_result_for_step env fresh (clock 0) (run_id run)
                        (ob_turn_step_id ob) (ob_id ob) oid token payload) (\<lambda>rec.
                 case rec of
                   ClaimRejected \<Rightarrow> returnM (ToolIgnoredLate (run_state run) (ob_state ob))
                 | Recorded (Inserted row) \<Rightarrow>
                     bindM (settle_recorded_tool_result (\<lambda>n. clock (n + 1)) run ob) (\<lambda>outcome.
                       returnM (attach_tool_result outcome row))
                 | Recorded (DuplicateIdentical row) \<Rightarrow> returnM (ToolDuplicateIdentical row (run_state run))
                 | Recorded (DuplicateConflict hash) \<Rightarrow> returnM (ToolDuplicateConflict hash))))"

definition record_and_settle_tool_result ::
    "store_env \<Rightarrow> uuid \<Rightarrow> (nat \<Rightarrow> timestamp) \<Rightarrow> turn_run_row \<Rightarrow> turn_obligation_row
     \<Rightarrow> string \<Rightarrow> string \<Rightarrow> string \<Rightarrow> json \<Rightarrow> tool_result_outcome dbm" where
  "record_and_settle_tool_result env fresh clock run ob token kind oid payload =
     record_and_settle_tool_result_for_step env fresh clock run ob (ob_turn_step_id ob) token kind oid payload"

definition dispatch_local_tool_after_grant ::
    "(json \<Rightarrow> string) \<Rightarrow> (nat \<Rightarrow> timestamp) \<Rightarrow> turn_run_row \<Rightarrow> turn_obligation_row
     \<Rightarrow> permission_result_outcome dbm" where
  "dispatch_local_tool_after_grant serde_err clock run ob =
     (case ob_tool_call_id ob of
        None \<Rightarrow> failM (Failed (ValidationError
           ''granted armature-local permission obligation missing tool_call_id''))
      | Some tool_call \<Rightarrow>
          bindM (mark_waiting_for_tool_result (clock 0) (ob_id ob)) (\<lambda>marked.
            case marked of
              None \<Rightarrow> returnM (PermIgnoredLate (run_state run) (ob_state ob))
            | Some tool_ob \<Rightarrow>
                bindM (transition_run (clock 1) (run_id run) RunWaitingForClient None) (\<lambda>transitioned.
                  case local_tool_request_payload serde_err (ob_request_payload ob) of
                    Inl e \<Rightarrow> failM (Failed e)
                  | Inr (name, args) \<Rightarrow>
                      returnM (PermDispatchLocalTool transitioned tool_ob tool_call name args None))))"

definition settle_permission_result ::
    "tool_catalogue \<Rightarrow> (json \<Rightarrow> string) \<Rightarrow> (nat \<Rightarrow> timestamp) \<Rightarrow> turn_run_row \<Rightarrow> turn_obligation_row
     \<Rightarrow> string \<Rightarrow> json \<Rightarrow> permission_result_outcome dbm" where
  "settle_permission_result cat serde_err clock run ob decision payload =
     bindM (mark_result_received (clock 0) (ob_id ob) payload) (\<lambda>received.
       case received of
         None \<Rightarrow> returnM (PermIgnoredLate (run_state run) (ob_state ob))
       | Some _ \<Rightarrow>
           if decision = ''granted'' \<and> \<not> obligation_is_den_web_fetch cat (ob_request_payload ob) then
             dispatch_local_tool_after_grant serde_err (\<lambda>n. clock (n + 1)) run ob
           else
             bindM (continue_after_client_result (\<lambda>n. clock (n + 1)) run ob) (\<lambda>transitioned.
               returnM (PermContinueModel transitioned None)))"

definition record_and_settle_permission_result_for_step ::
    "store_env \<Rightarrow> tool_catalogue \<Rightarrow> (json \<Rightarrow> string) \<Rightarrow> uuid \<Rightarrow> (nat \<Rightarrow> timestamp) \<Rightarrow> turn_run_row
     \<Rightarrow> turn_obligation_row \<Rightarrow> uuid option \<Rightarrow> string \<Rightarrow> string \<Rightarrow> string \<Rightarrow> json \<Rightarrow> permission_result_outcome dbm" where
  "record_and_settle_permission_result_for_step env cat serde_err fresh clock run ob given_step decision
     kind oid payload =
     (case validate_result_turn_step (env_uuid_str env) ob given_step of
        Inl e \<Rightarrow> failM (Failed e)
      | Inr _ \<Rightarrow>
         bindM (existing_client_result_or_late env run ob kind oid payload) (\<lambda>existing.
           case existing of
             Some outcome \<Rightarrow> returnM (permission_outcome_of_existing outcome)
           | None \<Rightarrow>
               bindM (record_client_result_for_step env fresh (clock 0) (run_id run)
                        (ob_turn_step_id ob) kind oid payload) (\<lambda>rec.
                 case rec of
                   Inserted row \<Rightarrow>
                     bindM (settle_permission_result cat serde_err (\<lambda>n. clock (n + 1)) run ob decision
                              payload) (\<lambda>outcome. returnM (attach_permission_result outcome row))
                 | DuplicateIdentical row \<Rightarrow> returnM (PermDuplicateIdentical row (run_state run))
                 | DuplicateConflict hash \<Rightarrow> returnM (PermDuplicateConflict hash))))"

definition record_and_settle_permission_result ::
    "store_env \<Rightarrow> tool_catalogue \<Rightarrow> (json \<Rightarrow> string) \<Rightarrow> uuid \<Rightarrow> (nat \<Rightarrow> timestamp) \<Rightarrow> turn_run_row
     \<Rightarrow> turn_obligation_row \<Rightarrow> string \<Rightarrow> string \<Rightarrow> string \<Rightarrow> json \<Rightarrow> permission_result_outcome dbm" where
  "record_and_settle_permission_result env cat serde_err fresh clock run ob decision kind oid payload =
     record_and_settle_permission_result_for_step env cat serde_err fresh clock run ob (ob_turn_step_id ob)
       decision kind oid payload"

end
