(* ===== verification/Store_Frame.thy ===== *)
theory Store_Frame
  imports Obligation_Coordinator
begin

section \<open>What the operations keep\<close>

text \<open>
  Frames for the turn store. \<open>store_frame\<close> extends \<open>db_frame\<close> of \<open>Db_Effects\<close> with what the
  single statements must keep and derives it for every operation
  of \<open>turn_runs.rs\<close>, \<open>turn_steps.rs\<close>, \<open>turn_obligations.rs\<close>, \<open>bearwire_events.rs\<close> and the
  coordinator; \<open>run_blind_frame\<close> adds the waits of \<open>turn_waits.rs\<close>. The model's instances are
  \<open>ledger_kept\<close> (obligations, results and the event log) and \<open>turn_kept\<close> (also terminal runs).
\<close>

abbreviation stays :: "(den_db \<Rightarrow> den_db \<Rightarrow> bool) \<Rightarrow> 'a dbm \<Rightarrow> bool" where
  "stays \<equiv> stays_in schema_ok"

lemmas stays_def = stays_in_def [of schema_ok]

subsection \<open>What no operation takes back\<close>

text \<open>Settled obligations keep their state, a claimed lease keeps its holder.\<close>

definition ob_kept :: "turn_obligation_row \<Rightarrow> turn_obligation_row \<Rightarrow> bool" where
  "ob_kept b b' \<longleftrightarrow> ob_id b' = ob_id b \<and> ob_run_id b' = ob_run_id b
     \<and> (ob_state b \<in> set SETTLED_OBLIGATION_STATES \<longrightarrow> ob_state b' = ob_state b)
     \<and> (ob_lease_attempt_token_hash b \<noteq> None \<longrightarrow>
          ob_lease_attempt_token_hash b' = ob_lease_attempt_token_hash b)"

definition obligations_kept :: "den_db \<Rightarrow> den_db \<Rightarrow> bool" where
  "obligations_kept db db' \<longleftrightarrow>
     (\<forall>b \<in> set (tbl_obligations db). \<exists>b' \<in> set (tbl_obligations db'). ob_kept b b')"

definition results_kept :: "den_db \<Rightarrow> den_db \<Rightarrow> bool" where
  "results_kept db db' \<longleftrightarrow> prefix (tbl_results db) (tbl_results db')"

definition events_kept :: "den_db \<Rightarrow> den_db \<Rightarrow> bool" where
  "events_kept db db' \<longleftrightarrow> prefix (tbl_events db) (tbl_events db')"

definition log_ok :: "den_db \<Rightarrow> bool" where
  "log_ok db \<longleftrightarrow> sorted_wrt (<) (map er_sequence_no (tbl_events db))
     \<and> (\<forall>r \<in> set (tbl_events db). er_sequence_no r < seq_next db)"

definition terminal_runs_kept :: "den_db \<Rightarrow> den_db \<Rightarrow> bool" where
  "terminal_runs_kept db db' \<longleftrightarrow>
     (\<forall>r \<in> set (tbl_runs db). run_state r \<in> set TERMINAL_RUN_STATES \<longrightarrow> r \<in> set (tbl_runs db'))"

lemma ob_kept_refl: "ob_kept b b"
  by (simp add: ob_kept_def)

lemma ob_kept_trans: "ob_kept a b \<Longrightarrow> ob_kept b c \<Longrightarrow> ob_kept a c"
  by (auto simp: ob_kept_def)

lemma ob_kept_trans_db:
  "obligations_kept db db' \<Longrightarrow> obligations_kept db' db'' \<Longrightarrow> obligations_kept db db''"
  using ob_kept_trans unfolding obligations_kept_def by meson

locale store_frame = db_frame schema_ok P
  for P :: "den_db \<Rightarrow> den_db \<Rightarrow> bool" +
  assumes frame_runs: "(\<And>r. g r \<Longrightarrow> run_state r \<notin> set TERMINAL_RUN_STATES) \<Longrightarrow>
      P db (db\<lparr>tbl_runs := update_where g f (tbl_runs db)\<rparr>)"
    and frame_new_run: "P db (db\<lparr>tbl_runs := tbl_runs db @ [row]\<rparr>)"
    and frame_obligations: "(\<And>b. h b \<Longrightarrow> ob_kept b (k b)) \<Longrightarrow>
      P db (db\<lparr>tbl_obligations := update_where h k (tbl_obligations db)\<rparr>)"
    and frame_new_obligation: "P db (db\<lparr>tbl_obligations := tbl_obligations db @ [ob]\<rparr>)"
    and frame_new_result: "P db (db\<lparr>tbl_results := tbl_results db @ [res]\<rparr>)"
    and frame_steps: "P db (db\<lparr>tbl_steps := ss\<rparr>)"
    and frame_event: "er_sequence_no ev = seq_next db \<Longrightarrow>
      P db (db\<lparr>tbl_events := tbl_events db @ [ev], seq_next := seq_next db + 1\<rparr>)"
begin

lemma stays_update_runs:
  "(\<And>r. g r \<Longrightarrow> run_state r \<notin> set TERMINAL_RUN_STATES) \<Longrightarrow> stays P (update_runs g f)"
  unfolding update_runs_def by (rule stays_write) (simp add: frame_runs)

lemma stays_update_obligations:
  "(\<And>b. g b \<Longrightarrow> ob_kept b (f b)) \<Longrightarrow> stays P (update_obligations g f)"
  unfolding update_obligations_def by (rule stays_write) (simp add: frame_obligations)

lemma stays_update_steps: "stays P (update_steps g f)"
  unfolding update_steps_def by (rule stays_write) (simp add: frame_steps)

lemma stays_insert_obligation: "stays P (insert_obligation row)"
  unfolding insert_obligation_def by (rule stays_write) (simp add: frame_new_obligation)

lemma stays_insert_step: "stays P (insert_step fresh now rid)"
  unfolding insert_step_def by (rule stays_write) (simp add: Let_def frame_steps)

lemma stays_insert_or_existing:
  "stays P (insert_or_existing_result env fresh now rid turn_step kind oid payload)"
  unfolding insert_or_existing_result_def Let_def
  by (intro stays_intros stays_write) (simp add: frame_new_result)

lemmas stays_primitive = stays_update_steps stays_insert_obligation stays_insert_step
  stays_insert_or_existing

end

lemma append_event_effect:
  assumes "schema_ok db"
  shows "fst (append_bearwire_event_on env fresh now session bear user event db) = db
    \<or> (\<exists>row. er_sequence_no row = seq_next db \<and> er_session_id row = session
         \<and> fst (append_bearwire_event_on env fresh now session bear user event db)
           = db\<lparr>tbl_events := tbl_events db @ [row], seq_next := seq_next db + 1\<rparr>
         \<and> schema_ok (db\<lparr>tbl_events := tbl_events db @ [row], seq_next := seq_next db + 1\<rparr>))"
proof -
  let ?row = "\<lparr>er_id = fresh, er_sequence_no = seq_next db, er_session_id = session,
      er_bear_id = bear, er_user_id = user, er_event_type = evt_type event,
      er_event = event, er_created_at = now\<rparr>"
  let ?db1 = "db\<lparr>tbl_events := tbl_events db @ [?row], seq_next := seq_next db + 1\<rparr>"
  show ?thesis
  proof (cases "schema_ok ?db1")
    case False
    then show ?thesis
      by (simp add: append_bearwire_event_on_def bindM_def writeM_def Let_def)
  next
    case True
    then have "fresh \<notin> er_id ` set (tbl_events db)" by (simp add: schema_ok_def)
    then have upd: "update_where (\<lambda>r. er_id r = fresh) f (tbl_events db @ [?row])
        = tbl_events db @ [f ?row]" for f
      by (auto simp: update_where_def intro!: map_idI)
    let ?db2 = "\<lambda>e. db\<lparr>tbl_events := tbl_events db @ [?row\<lparr>er_event := e\<rparr>], seq_next := seq_next db + 1\<rparr>"
    have ok2: "schema_ok (?db2 e)" for e using True by (simp add: schema_ok_def)
    have eq: "?db1\<lparr>tbl_events := xs\<rparr> = db\<lparr>tbl_events := xs, seq_next := seq_next db + 1\<rparr>" for xs
      by (cases db) simp
    show ?thesis
    proof (cases "env_rfc3339 env now")
      case (Inl err)
      then have "fst (append_bearwire_event_on env fresh now session bear user event db) = ?db1"
        using True by (simp add: append_bearwire_event_on_def bindM_def writeM_def failM_def Let_def)
      with True show ?thesis by (intro disjI2 exI [of _ ?row]) simp
    next
      case (Inr time)
      let ?event = "event\<lparr>evt_event_id := Some (''evt_'' @ env_uuid_str env fresh),
                evt_sequence := Some (word_of_int (seq_next db)),
                evt_time := Some time,
                evt_session_id := coalesce (evt_session_id event) session\<rparr>"
      have "fst (append_bearwire_event_on env fresh now session bear user event db) = ?db2 ?event"
        using True Inr ok2 [of ?event]
        by (simp add: append_bearwire_event_on_def bindM_def writeM_def returnM_def Let_def upd eq
            del: den_db.update_convs)
      with ok2 [of ?event] show ?thesis by (intro disjI2 exI [of _ "?row\<lparr>er_event := ?event\<rparr>"]) simp
    qed
  qed
qed

context store_frame
begin

lemma stays_append_event: "stays P (append_bearwire_event_on env fresh now session bear user event)"
proof (unfold stays_def, intro allI impI)
  fix db
  assume ok: "schema_ok db"
  show "schema_ok (fst (append_bearwire_event_on env fresh now session bear user event db))
      \<and> P db (fst (append_bearwire_event_on env fresh now session bear user event db))"
    using append_event_effect [OF ok, of env fresh now session bear user event] ok frame_refl frame_event
    by metis
qed

lemma stays_create_run: "stays P (create_run fresh now rid session bear user)"
  unfolding create_run_def create_run_with_ids_def Let_def
  by (intro stays_intros stays_write) (simp add: frame_new_run)

lemma stays_claim_run_continuation: "stays P (claim_run_continuation now rid reason)"
  unfolding claim_run_continuation_def
  by (intro stays_intros stays_update_runs) (auto simp: TERMINAL_RUN_STATES_def)

lemma stays_begin_continuation: "stays P (begin_claimed_run_continuation now rid)"
  unfolding begin_claimed_run_continuation_def
  by (intro stays_intros stays_update_runs) (auto simp: TERMINAL_RUN_STATES_def)

lemma stays_release_continuation: "stays P (release_claimed_run_continuation now rid)"
  unfolding release_claimed_run_continuation_def
  by (intro stays_intros stays_update_runs) (auto simp: TERMINAL_RUN_STATES_def)

lemma stays_transition_run: "stays P (transition_run now rid state reason)"
  unfolding transition_run_def
  by (intro stays_intros stays_update_runs) (auto simp: run_not_terminal_def)

lemma stays_supersede: "stays P (supersede_active_run_for_session now session bear user reason)"
proof (unfold stays_def, intro allI impI)
  fix db
  assume ok: "schema_ok db"
  let ?m = "supersede_active_run_for_session now session bear user reason"
  define cand where "cand = filter (\<lambda>r. run_session_id r = session \<and> run_bear_id r = bear
      \<and> run_user_id r = user \<and> run_state r \<in> set ACTIVE_RUN_STATES) (tbl_runs db)"
  define target where "target = map_option run_pk (latest_by run_created_at cand)"
  define g where "g = (\<lambda>r :: turn_run_row. Some (run_pk r) = target \<and> run_state r \<notin> set TERMINAL_RUN_STATES)"
  define f where "f = (\<lambda>r :: turn_run_row. r\<lparr>run_state := ''failed'', run_terminal_reason := Some reason,
                run_completed_at := Some now, run_updated_at := now\<rparr>)"
  have active: "run_state r \<notin> set TERMINAL_RUN_STATES"
    if "r \<in> set (tbl_runs db)" and "Some (run_pk r) = target" for r
  proof -
    obtain r' where "r' \<in> set cand" "run_pk r' = run_pk r"
      using \<open>Some (run_pk r) = target\<close> unfolding target_def latest_by_def
      by (cases "sort_key (\<lambda>r. - run_created_at r) cand")
        (auto simp flip: set_sort [of "\<lambda>r. - run_created_at r" cand])
    moreover from this have "r' = r"
      using ok \<open>r \<in> set (tbl_runs db)\<close> by (auto simp: cand_def schema_ok_def runs_ok_def distinct_map dest: inj_onD)
    ultimately show ?thesis by (auto simp: cand_def ACTIVE_RUN_STATES_def TERMINAL_RUN_STATES_def)
  qed
  have "update_where (\<lambda>r. Some (run_pk r) = target) f (tbl_runs db) = update_where g f (tbl_runs db)"
    using active by (auto simp: update_where_def g_def)
  then have "fst (?m db) = db \<or> fst (?m db) = db\<lparr>tbl_runs := update_where g f (tbl_runs db)\<rparr>
      \<and> schema_ok (db\<lparr>tbl_runs := update_where g f (tbl_runs db)\<rparr>)"
    by (auto simp: supersede_active_run_for_session_def dbm_defs update_runs_def Let_def
        f_def [symmetric] target_def [symmetric] cand_def [symmetric])
  moreover have "P db (db\<lparr>tbl_runs := update_where g f (tbl_runs db)\<rparr>)"
    by (rule frame_runs) (simp add: g_def)
  ultimately show "schema_ok (fst (?m db)) \<and> P db (fst (?m db))"
    using ok frame_refl by metis
qed

end

lemmas ob_kept_simps = ob_kept_def OPEN_OBLIGATION_STATES_def SETTLED_OBLIGATION_STATES_def
  kept_state_def claimed_by_def claimed_tool_row_def received_def claimable_def leased_def
  renewable_def renewed_def

context store_frame
begin

lemma stays_append_bearwire_event: "stays P (append_bearwire_event env fresh now session bear user event)"
  unfolding append_bearwire_event_def by (intro stays_intros stays_append_event)

lemma stays_record_client_result:
  "stays P (record_client_result_for_step env fresh now rid turn_step kind oid payload)"
  unfolding record_client_result_for_step_def by (rule stays_insert_or_existing)

lemma stays_record_claimed:
  "stays P (record_claimed_tool_result_for_step env fresh now rid turn_step oid tool_call token payload)"
  unfolding record_claimed_tool_result_for_step_def
  by (intro stays_intros stays_primitive stays_update_obligations) (auto simp: ob_kept_simps)

lemma stays_settle_obligations: "stays P (settle_obligations_of_run now rid settlement)"
  unfolding settle_obligations_of_run_def
  by (intro stays_intros stays_update_obligations) (auto simp: ob_kept_simps)

lemma stays_settle_steps: "stays P (settle_steps_of_run now rid settlement)"
  unfolding settle_steps_of_run_def by (intro stays_intros stays_primitive)

lemma stays_settle_and_announce:
  "stays P (settle_and_announce env fresh now session rid bear user settlement event)"
  unfolding settle_and_announce_def
  by (intro stays_intros stays_settle_obligations stays_settle_steps stays_append_event)

text \<open>A transaction whose body may give up by restoring the database it started from.\<close>

lemma stays_claim_or_restore:
  assumes "stays P m" and "\<And>x. stays P (f x)"
  shows "stays P (withM (\<lambda>db0. transactionM (bindM m (\<lambda>x. if c x then restoreM db0 v else f x))))"
proof (unfold stays_def, intro allI impI)
  fix db
  assume ok: "schema_ok db"
  obtain db' r where m: "m db = (db', r)" by fastforce
  have 1: "schema_ok db'" "P db db'" using staysD [OF assms(1) ok] m by simp_all
  let ?t = "fst (withM (\<lambda>db0. transactionM (bindM m (\<lambda>x. if c x then restoreM db0 v else f x))) db)"
  show "schema_ok ?t \<and> P db ?t"
  proof (cases r)
    case (Inl e)
    then show ?thesis using m ok frame_refl by (simp add: dbm_defs)
  next
    case (Inr x)
    have 2: "schema_ok (fst (f x db')) \<and> P db (fst (f x db'))"
      using staysD [OF assms(2) 1(1)] frame_trans [OF 1(2)] by blast
    show ?thesis
      using m Inr ok 2 frame_refl by (auto simp: dbm_defs split: prod.splits sum.splits)
  qed
qed

lemma stays_finish:
  "stays P (finish_run_with_bearwire_event env fresh now session rid bear user state reason event)"
  unfolding finish_run_with_bearwire_event_def claim_finish_def
  by (intro stays_if stays_fail stays_option stays_claim_or_restore stays_settle_and_announce
      stays_update_runs) auto

lemma stays_ensure_active_step: "stays P (ensure_active_step fresh now rid)"
  unfolding ensure_active_step_def by (intro stays_intros stays_primitive)

lemma stays_transition_step: "stays P (transition_step now sid state)"
  unfolding transition_step_def by (intro stays_intros stays_primitive)

lemma stays_create_obligation:
  "stays P (create_turn_obligation_for_step fresh now rid session turn_step kind action responder payload)"
  unfolding create_turn_obligation_for_step_def by (rule stays_insert_obligation)

lemma stays_upsert_tool:
  "stays P (upsert_tool_result_obligation_for_step fresh now rid session turn_step tool_call permission payload)"
  unfolding upsert_tool_result_obligation_for_step_def Let_def
  by (intro stays_intros stays_primitive stays_update_obligations) (auto simp: ob_kept_simps)

lemma stays_upsert_permission:
  "stays P (upsert_permission_decision_obligation_for_step fresh now rid session turn_step permission tool_call payload)"
  unfolding upsert_permission_decision_obligation_for_step_def permission_on_tool_call_def
    permission_insert_or_update_def Let_def
  by (intro stays_intros stays_primitive stays_update_obligations) (auto simp: ob_kept_simps)

lemma stays_claim_tool: "stays P (claim_tool_execution now oid rid session tool_call token)"
  unfolding claim_tool_execution_def
  by (intro stays_intros stays_update_obligations) (auto simp: ob_kept_simps)

lemma stays_renew_tool: "stays P (renew_tool_execution now oid rid session tool_call token)"
  unfolding renew_tool_execution_def
  by (intro stays_intros stays_update_obligations) (auto simp: ob_kept_simps)

lemma stays_marks:
  "stays P (mark_claimed_result_received now oid token payload)"
  "stays P (mark_result_received now oid payload)"
  "stays P (mark_continued now oid)"
  "stays P (mark_failed now oid)"
  unfolding mark_claimed_result_received_def mark_result_received_def mark_continued_def mark_failed_def
  by (intro stays_intros stays_update_obligations; auto simp: ob_kept_simps)+

lemma stays_mark_waiting: "stays P (mark_waiting_for_tool_result now oid)"
  unfolding mark_waiting_for_tool_result_def Let_def
  by (intro stays_intros stays_update_obligations) (auto simp: ob_kept_simps)

end

context store_frame
begin

lemma stays_continue_after: "stays P (continue_after_client_result clock run ob)"
  unfolding continue_after_client_result_def
  by (intro stays_intros stays_transition_run stays_marks stays_transition_step)

lemma stays_settle_recorded: "stays P (settle_recorded_tool_result clock run ob)"
  unfolding settle_recorded_tool_result_def
  by (intro stays_intros stays_transition_run stays_continue_after)

lemma stays_settle_tool_result: "stays P (settle_tool_result clock run ob token payload)"
  unfolding settle_tool_result_def by (intro stays_intros stays_marks stays_settle_recorded)

lemma stays_existing: "stays P (existing_client_result_or_late env run ob kind oid payload)"
  unfolding existing_client_result_or_late_def
  by (intro stays_intros; simp split: turn_obligation_result_record.split;
      intro allI impI conjI stays_intros)

lemma stays_tool_result:
  "stays P (record_and_settle_tool_result_for_step env fresh clock run ob given token kind oid payload)"
proof -
  have "stays P (case rec of
                   ClaimRejected \<Rightarrow> returnM (ToolIgnoredLate (run_state run) (ob_state ob))
                 | Recorded (Inserted row) \<Rightarrow>
                     bindM (settle_recorded_tool_result (\<lambda>n. clock (n + 1)) run ob) (\<lambda>outcome.
                       returnM (attach_tool_result outcome row))
                 | Recorded (DuplicateIdentical row) \<Rightarrow> returnM (ToolDuplicateIdentical row (run_state run))
                 | Recorded (DuplicateConflict hash) \<Rightarrow> returnM (ToolDuplicateConflict hash))" for rec
    by (cases rec; simp split: turn_obligation_result_record.split)
      (intro allI impI conjI stays_intros stays_settle_recorded)+
  then show ?thesis
    unfolding record_and_settle_tool_result_for_step_def
    by (intro stays_intros stays_existing stays_record_claimed)
qed

lemma stays_dispatch: "stays P (dispatch_local_tool_after_grant serde_err clock run ob)"
  unfolding dispatch_local_tool_after_grant_def
  by (intro stays_intros stays_mark_waiting stays_transition_run)

lemma stays_settle_permission:
  "stays P (settle_permission_result cat serde_err clock run ob decision payload)"
  unfolding settle_permission_result_def
  by (intro stays_intros stays_marks stays_dispatch stays_continue_after)

lemma stays_permission_result:
  "stays P (record_and_settle_permission_result_for_step env cat serde_err fresh clock run ob given decision
     kind oid payload)"
proof -
  have "stays P (case rec of
                   Inserted row \<Rightarrow>
                     bindM (settle_permission_result cat serde_err (\<lambda>n. clock (n + 1)) run ob decision
                              payload) (\<lambda>outcome. returnM (attach_permission_result outcome row))
                 | DuplicateIdentical row \<Rightarrow> returnM (PermDuplicateIdentical row (run_state run))
                 | DuplicateConflict hash \<Rightarrow> returnM (PermDuplicateConflict hash))" for rec
    by (cases rec; simp) (intro stays_intros stays_settle_permission)+
  then show ?thesis
    unfolding record_and_settle_permission_result_for_step_def
    by (intro stays_intros stays_existing stays_record_client_result)
qed

end

text \<open>The waits park a run whatever its state: they need a frame that says nothing of runs.\<close>

locale run_blind_frame = store_frame P
  for P :: "den_db \<Rightarrow> den_db \<Rightarrow> bool" +
  assumes frame_runs_any: "P db (db\<lparr>tbl_runs := update_where g f (tbl_runs db)\<rparr>)"
begin

lemma stays_park_run: "stays P (park_run now rid)"
  unfolding park_run_def update_runs_def by (rule stays_write) (simp add: frame_runs_any)

lemma stays_ensure_waiting: "stays P (ensure_waiting_turn_step fresh now rid mark)"
  unfolding ensure_waiting_turn_step_def
  by (intro stays_intros stays_ensure_active_step stays_primitive)

lemma stays_persist_surface:
  "stays P (persist_surface_obligation_transactionally fresh_step fresh_ob now input)"
  unfolding persist_surface_obligation_transactionally_def
  by (intro stays_intros stays_park_run stays_ensure_waiting stays_primitive)

lemma stays_persist_tool_wait:
  "stays P (persist_bearwire_tool_call_wait_transactionally env cat fresh_step fresh_ob fresh_evt now input)"
  unfolding persist_bearwire_tool_call_wait_transactionally_def wait_obligation_def Let_def
  by (intro stays_intros stays_park_run stays_ensure_waiting stays_upsert_permission stays_upsert_tool
      stays_append_event)

end

subsection \<open>The two frames of the model\<close>

definition ledger_kept :: "den_db \<Rightarrow> den_db \<Rightarrow> bool" where
  "ledger_kept db db' \<longleftrightarrow> obligations_kept db db' \<and> results_kept db db' \<and> events_kept db db'
     \<and> (log_ok db \<longrightarrow> log_ok db')"

definition turn_kept :: "den_db \<Rightarrow> den_db \<Rightarrow> bool" where
  "turn_kept db db' \<longleftrightarrow> ledger_kept db db' \<and> terminal_runs_kept db db'"

lemma ledger_kept_same_tables:
  "tbl_obligations db' = tbl_obligations db \<Longrightarrow> tbl_results db' = tbl_results db \<Longrightarrow>
   tbl_events db' = tbl_events db \<Longrightarrow> seq_next db' = seq_next db \<Longrightarrow> ledger_kept db db'"
  using ob_kept_refl
  by (auto simp: ledger_kept_def obligations_kept_def results_kept_def events_kept_def log_ok_def)

lemma ledger_kept_obligations:
  assumes "\<And>b. h b \<Longrightarrow> ob_kept b (k b)"
  shows "ledger_kept db (db\<lparr>tbl_obligations := update_where h k (tbl_obligations db)\<rparr>)"
proof -
  have "\<exists>b' \<in> set (update_where h k (tbl_obligations db)). ob_kept b b'" if "b \<in> set (tbl_obligations db)" for b
    using that assms ob_kept_refl by (cases "h b") (force simp: set_update_where)+
  then show ?thesis
    by (simp add: ledger_kept_def obligations_kept_def results_kept_def events_kept_def log_ok_def)
qed

lemma ledger_kept_event:
  "er_sequence_no ev = seq_next db \<Longrightarrow>
   ledger_kept db (db\<lparr>tbl_events := tbl_events db @ [ev], seq_next := seq_next db + 1\<rparr>)"
  using ob_kept_refl
  by (fastforce simp: ledger_kept_def obligations_kept_def results_kept_def events_kept_def log_ok_def
      sorted_wrt_append)

interpretation ledger: run_blind_frame ledger_kept
proof
  show "ledger_kept db db" for db by (rule ledger_kept_same_tables) simp_all
  show "ledger_kept db db''" if "ledger_kept db db'" "ledger_kept db' db''" for db db' db''
    using that ob_kept_trans_db
    by (auto simp: ledger_kept_def results_kept_def events_kept_def)
  show "ledger_kept db (db\<lparr>tbl_obligations := update_where h k (tbl_obligations db)\<rparr>)"
    if "\<And>b. h b \<Longrightarrow> ob_kept b (k b)" for h k db
    using that by (rule ledger_kept_obligations)
  show "ledger_kept db (db\<lparr>tbl_obligations := tbl_obligations db @ [ob]\<rparr>)" for db ob
    using ob_kept_refl
    by (auto simp: ledger_kept_def obligations_kept_def results_kept_def events_kept_def log_ok_def)
  show "ledger_kept db (db\<lparr>tbl_results := tbl_results db @ [res]\<rparr>)" for db res
    using ob_kept_refl
    by (auto simp: ledger_kept_def obligations_kept_def results_kept_def events_kept_def log_ok_def)
qed (simp_all add: ledger_kept_same_tables ledger_kept_event)

interpretation guarded: store_frame turn_kept
proof
  show "turn_kept db db" for db
    by (simp add: turn_kept_def ledger.frame_refl terminal_runs_kept_def)
  show "turn_kept db db''" if "turn_kept db db'" "turn_kept db' db''" for db db' db''
    using that ledger.frame_trans by (auto simp: turn_kept_def terminal_runs_kept_def)
  show "turn_kept db (db\<lparr>tbl_runs := update_where g f (tbl_runs db)\<rparr>)"
    if "\<And>r. g r \<Longrightarrow> run_state r \<notin> set TERMINAL_RUN_STATES" for g f db
    using that by (force simp: turn_kept_def ledger_kept_same_tables terminal_runs_kept_def set_update_where)
  show "turn_kept db (db\<lparr>tbl_obligations := update_where h k (tbl_obligations db)\<rparr>)"
    if "\<And>b. h b \<Longrightarrow> ob_kept b (k b)" for h k db
    using ledger.frame_obligations [of h k db] that by (simp add: turn_kept_def terminal_runs_kept_def)
qed (simp_all add: turn_kept_def terminal_runs_kept_def ledger_kept_same_tables ledger_kept_event
      ledger.frame_new_obligation ledger.frame_new_result)

end
