(* ===== verification/Store_Samples.thy ===== *)
theory Store_Samples
  imports Store_Frame
begin

section \<open>A sample store\<close>

text \<open>
  A store with one running and one cancelled run, two open obligations of one step and two
  events, with the bundles of definitions that evaluate the schema on it: the input of the
  witnesses of the turn-store properties.
\<close>

definition sample_env :: store_env where
  "sample_env = \<lparr>env_uuid_str = show_nat, env_rfc3339 = (\<lambda>t. Inr (show_int t)),
     env_result_hash = (\<lambda>v. case v of JStr s \<Rightarrow> s | _ \<Rightarrow> ''other'')\<rparr>"

definition sample_catalogue :: tool_catalogue where
  "sample_catalogue = \<lparr>cat_den_tool_name = (\<lambda>_. None), cat_den_execution_target = (\<lambda>_. None),
     cat_is_client_tool = (\<lambda>_. True), cat_client_policy = (\<lambda>_. JNull), cat_display = (\<lambda>_ _. JNull)\<rparr>"

definition sample_run :: turn_run_row where
  "sample_run = \<lparr>run_pk = 1, run_id = ''r1'', run_session_id = ''s1'', run_bear_id = 1, run_user_id = 1,
     run_state = ''running'', run_terminal_reason = None, run_created_at = 0, run_updated_at = 0,
     run_completed_at = None\<rparr>"

definition sample_done :: turn_run_row where
  "sample_done = sample_run\<lparr>run_pk := 2, run_id := ''r0'', run_session_id := ''s0'', run_state := ''cancelled''\<rparr>"

definition sample_tool :: turn_obligation_row where
  "sample_tool = new_obligation 1 0 ''r1'' ''s1'' (Some 10) ''tool_result'' ''tool_result'' (Some ''t1'') None None (JObj [])"

definition sample_permission :: turn_obligation_row where
  "sample_permission = new_obligation 2 0 ''r1'' ''s1'' (Some 10) ''permission_decision'' ''permission_decision''
     None (Some ''p1'') None (JObj [])"

definition sample_settled :: turn_obligation_row where
  "sample_settled = (new_obligation 3 0 ''r0'' ''s0'' None ''tool_result'' ''tool_result'' (Some ''t0'') None None
     (JObj []))\<lparr>ob_state := ''cancelled''\<rparr>"

definition sample_step :: turn_step_row where
  "sample_step = \<lparr>step_id = 10, step_run_id = ''r1'', step_index = 0, step_state = ''waiting_for_client'',
     step_provider_response_id = None, step_opened_at = 0, step_closed_at = None\<rparr>"

definition sample_event :: bearwire_event where
  "sample_event = event_ephemeral ''run.completed'' (JObj [])"

definition sample_event_row :: "nat \<Rightarrow> bearwire_event_row" where
  "sample_event_row n = \<lparr>er_id = n, er_sequence_no = int n, er_session_id = ''s1'', er_bear_id = None,
     er_user_id = None, er_event_type = ''e'', er_event = sample_event, er_created_at = 0\<rparr>"

definition sample_db :: den_db where
  "sample_db = \<lparr>tbl_runs = [sample_run, sample_done], tbl_obligations = [sample_tool, sample_permission, sample_settled],
     tbl_results = [], tbl_steps = [sample_step], tbl_events = [sample_event_row 1, sample_event_row 2], seq_next = 3\<rparr>"

lemmas store_samples = sample_env_def sample_catalogue_def sample_run_def sample_done_def
  sample_tool_def sample_permission_def sample_settled_def sample_step_def sample_event_def
  sample_event_row_def sample_db_def new_obligation_def event_ephemeral_def

lemmas state_defs = ACTIVE_RUN_STATES_def TERMINAL_RUN_STATES_def ACTIVE_STEP_STATES_def TERMINAL_STEP_STATES_def
  OPEN_OBLIGATION_STATES_def SETTLED_OBLIGATION_STATES_def CLIENT_OPEN_STATES_def OBLIGATION_KINDS_def

lemmas schema_defs = schema_ok_def runs_ok_def obligations_ok_def obligation_ok_def lease_shape_def results_ok_def
  steps_ok_def references_ok_def step_ref_ok_def result_key_def

lemma sample_ok: "schema_ok sample_db"
  by (simp add: schema_defs state_defs store_samples)

lemma sample_log_ok: "log_ok sample_db"
  by (simp add: log_ok_def store_samples)

end
