(* ===== verification/Turn_Machine.thy ===== *)
theory Turn_Machine
  imports Store_Samples
begin

section \<open>The turn store as a machine\<close>

text \<open>
  Every operation of the turn store as a step, so that any interleaving of clients, sweeps and
  runtime tasks is a sequence of steps: each \<open>store_op\<close> is one call with the arguments, the clock
  readings and the uuids it meets. \<open>exec_op\<close> runs the operation's own definition.
\<close>

datatype store_op =
    OpCreateRun uuid timestamp string string uuid int
  | OpSupersede timestamp string uuid int string
  | OpClaimContinuation timestamp string "string option"
  | OpBeginContinuation timestamp string
  | OpReleaseContinuation timestamp string
  | OpTransitionRun timestamp string turn_run_state "string option"
  | OpFinishRun uuid timestamp string string uuid int turn_run_state "string option" bearwire_event
  | OpAppendEvent uuid timestamp string "uuid option" "int option" bearwire_event
  | OpRecordResult uuid timestamp string "uuid option" string string json
  | OpRecordClaimed uuid timestamp string "uuid option" uuid string string json
  | OpEnsureStep uuid timestamp string
  | OpTransitionStep timestamp uuid turn_step_state
  | OpCreateObligation uuid timestamp string string "uuid option" turn_obligation_kind
      expected_responder_action string json
  | OpUpsertTool uuid timestamp string string "uuid option" string "string option" json
  | OpUpsertPermission uuid timestamp string string "uuid option" string "string option" json
  | OpClaimTool timestamp uuid string string string string
  | OpRenewTool timestamp uuid string string string string
  | OpMarkClaimedReceived timestamp uuid string json
  | OpMarkReceived timestamp uuid json
  | OpMarkWaitingForTool timestamp uuid
  | OpMarkContinued timestamp uuid
  | OpMarkFailed timestamp uuid
  | OpToolResult uuid "nat \<Rightarrow> timestamp" turn_run_row turn_obligation_row "uuid option" string string string json
  | OpPermissionResult uuid "nat \<Rightarrow> timestamp" turn_run_row turn_obligation_row "uuid option" string string string json
  | OpPersistSurface uuid uuid timestamp persist_surface_obligation_input
  | OpPersistToolWait uuid uuid uuid timestamp persist_tool_call_wait_input

definition voidM :: "'a dbm \<Rightarrow> unit dbm" where
  "voidM m = bindM m (\<lambda>_. returnM ())"

record store_params =
  par_env :: store_env
  par_catalogue :: tool_catalogue
  par_serde_err :: "json \<Rightarrow> string"

fun exec_op :: "store_params \<Rightarrow> store_op \<Rightarrow> unit dbm" where
  "exec_op p (OpCreateRun fresh now rid session bear user) = voidM (create_run fresh now rid session bear user)"
| "exec_op p (OpSupersede now session bear user reason) =
     voidM (supersede_active_run_for_session now session bear user reason)"
| "exec_op p (OpClaimContinuation now rid reason) = voidM (claim_run_continuation now rid reason)"
| "exec_op p (OpBeginContinuation now rid) = voidM (begin_claimed_run_continuation now rid)"
| "exec_op p (OpReleaseContinuation now rid) = voidM (release_claimed_run_continuation now rid)"
| "exec_op p (OpTransitionRun now rid state reason) = voidM (transition_run now rid state reason)"
| "exec_op p (OpFinishRun fresh now session rid bear user state reason event) =
     voidM (finish_run_with_bearwire_event (par_env p) fresh now session rid bear user state reason event)"
| "exec_op p (OpAppendEvent fresh now session bear user event) =
     voidM (append_bearwire_event (par_env p) fresh now session bear user event)"
| "exec_op p (OpRecordResult fresh now rid turn_step kind oid payload) =
     voidM (record_client_result_for_step (par_env p) fresh now rid turn_step kind oid payload)"
| "exec_op p (OpRecordClaimed fresh now rid turn_step oid tool_call token payload) =
     voidM (record_claimed_tool_result_for_step (par_env p) fresh now rid turn_step oid tool_call token payload)"
| "exec_op p (OpEnsureStep fresh now rid) = voidM (ensure_active_step fresh now rid)"
| "exec_op p (OpTransitionStep now sid state) = voidM (transition_step now sid state)"
| "exec_op p (OpCreateObligation fresh now rid session turn_step kind action responder payload) =
     voidM (create_turn_obligation_for_step fresh now rid session turn_step kind action responder payload)"
| "exec_op p (OpUpsertTool fresh now rid session turn_step tool_call permission payload) =
     voidM (upsert_tool_result_obligation_for_step fresh now rid session turn_step tool_call permission payload)"
| "exec_op p (OpUpsertPermission fresh now rid session turn_step permission tool_call payload) =
     voidM (upsert_permission_decision_obligation_for_step fresh now rid session turn_step permission tool_call payload)"
| "exec_op p (OpClaimTool now oid rid session tool_call token) =
     voidM (claim_tool_execution now oid rid session tool_call token)"
| "exec_op p (OpRenewTool now oid rid session tool_call token) =
     voidM (renew_tool_execution now oid rid session tool_call token)"
| "exec_op p (OpMarkClaimedReceived now oid token payload) =
     voidM (mark_claimed_result_received now oid token payload)"
| "exec_op p (OpMarkReceived now oid payload) = voidM (mark_result_received now oid payload)"
| "exec_op p (OpMarkWaitingForTool now oid) = voidM (mark_waiting_for_tool_result now oid)"
| "exec_op p (OpMarkContinued now oid) = voidM (mark_continued now oid)"
| "exec_op p (OpMarkFailed now oid) = voidM (mark_failed now oid)"
| "exec_op p (OpToolResult fresh clock run ob given token kind oid payload) =
     voidM (record_and_settle_tool_result_for_step (par_env p) fresh clock run ob given token kind oid payload)"
| "exec_op p (OpPermissionResult fresh clock run ob given decision kind oid payload) =
     voidM (record_and_settle_permission_result_for_step (par_env p) (par_catalogue p) (par_serde_err p)
       fresh clock run ob given decision kind oid payload)"
| "exec_op p (OpPersistSurface fresh_step fresh_ob now input) =
     voidM (persist_surface_obligation_transactionally fresh_step fresh_ob now input)"
| "exec_op p (OpPersistToolWait fresh_step fresh_ob fresh_evt now input) =
     voidM (persist_bearwire_tool_call_wait_transactionally (par_env p) (par_catalogue p)
       fresh_step fresh_ob fresh_evt now input)"

text \<open>The two operations that park a run without looking at its state.\<close>

fun parks_run :: "store_op \<Rightarrow> bool" where
  "parks_run (OpPersistSurface _ _ _ _) = True"
| "parks_run (OpPersistToolWait _ _ _ _ _) = True"
| "parks_run _ = False"

definition step_op :: "store_params \<Rightarrow> den_db \<Rightarrow> store_op \<Rightarrow> den_db" where
  "step_op p db op = fst (exec_op p op db)"

definition step_guarded :: "store_params \<Rightarrow> den_db \<Rightarrow> store_op \<Rightarrow> den_db" where
  "step_guarded p db op = (if parks_run op then db else step_op p db op)"

context store_frame
begin

lemma stays_void: "stays P m \<Longrightarrow> stays P (voidM m)"
  unfolding voidM_def by (intro stays_intros)

lemmas stays_ops = stays_create_run stays_supersede stays_claim_run_continuation
  stays_begin_continuation stays_release_continuation stays_transition_run stays_finish
  stays_append_bearwire_event stays_record_client_result stays_record_claimed
  stays_ensure_active_step stays_transition_step stays_create_obligation stays_upsert_tool
  stays_upsert_permission stays_claim_tool stays_renew_tool stays_marks stays_mark_waiting
  stays_tool_result stays_permission_result

lemma stays_exec_op: "\<not> parks_run op \<Longrightarrow> stays P (exec_op p op)"
  by (cases op) (simp_all add: stays_void stays_ops)

end

context run_blind_frame
begin

lemma stays_exec_any: "stays P (exec_op p op)"
  by (cases op) (simp_all add: stays_void stays_ops stays_persist_surface stays_persist_tool_wait)

end

subsection \<open>Reachable stores\<close>

definition sample_params :: store_params where
  "sample_params = \<lparr>par_env = sample_env, par_catalogue = sample_catalogue, par_serde_err = (\<lambda>_. [])\<rparr>"

interpretation machine: step_frame "step_op p" schema_ok ledger_kept
  for p
proof
  show "schema_ok (step_op p db op)" if "schema_ok db" for db op
    using staysD [OF ledger.stays_exec_any that] by (simp add: step_op_def)
  show "ledger_kept db (step_op p db op)" if "schema_ok db" for db op
    using staysD [OF ledger.stays_exec_any that] by (simp add: step_op_def)
qed (rule ledger.frame_refl, rule ledger.frame_trans)

interpretation guarded_machine: step_frame "step_guarded p" schema_ok turn_kept
  for p
proof
  show "schema_ok (step_guarded p db op)" if "schema_ok db" for db op
    using staysD [OF guarded.stays_exec_op that] that by (simp add: step_guarded_def step_op_def)
  show "turn_kept db (step_guarded p db op)" if "schema_ok db" for db op
    using staysD [OF guarded.stays_exec_op that] guarded.frame_refl
    by (simp add: step_guarded_def step_op_def)
qed (rule guarded.frame_refl, rule guarded.frame_trans)

text \<open>
  The ledgers of a turn are append-only: whatever operations run in whatever order, the
  tables stay within the schema, recorded client results and event rows are never changed,
  reordered or removed, and the sequence numbers of the event log stay strictly increasing.
\<close>
theorem ledgers_append_only:
  assumes "schema_ok db" and "log_ok db"
  shows "schema_ok (run_ops (step_op p) db ops)
    \<and> prefix (tbl_results db) (tbl_results (run_ops (step_op p) db ops))
    \<and> prefix (tbl_events db) (tbl_events (run_ops (step_op p) db ops))
    \<and> sorted_wrt (<) (map er_sequence_no (tbl_events (run_ops (step_op p) db ops)))"
  using machine.run_inv [OF assms(1), of p ops] machine.run_kept [OF assms(1), of p ops] assms(2)
  by (simp add: ledger_kept_def results_kept_def events_kept_def log_ok_def)

theorem ledgers_append_only_witness:
  "prefix (tbl_events sample_db)
     (tbl_events (run_ops (step_op sample_params) sample_db [OpMarkFailed 5 1, OpTransitionRun 6 ''r1'' RunContinuing None]))"
  using ledgers_append_only [OF sample_ok sample_log_ok] by blast

text \<open>
  Settlement is final and a lease has one holder for good: a settled obligation keeps its
  state and an obligation that was ever claimed keeps the token it was claimed with, under any
  sequence of operations.
\<close>
theorem settled_and_leased_for_good:
  assumes "schema_ok db" and "b \<in> set (tbl_obligations db)"
  shows "\<exists>b' \<in> set (tbl_obligations (run_ops (step_op p) db ops)).
      ob_id b' = ob_id b \<and> ob_run_id b' = ob_run_id b
      \<and> (ob_state b \<in> set SETTLED_OBLIGATION_STATES \<longrightarrow> ob_state b' = ob_state b)
      \<and> (ob_lease_attempt_token_hash b \<noteq> None \<longrightarrow>
           ob_lease_attempt_token_hash b' = ob_lease_attempt_token_hash b)"
  using machine.run_kept [OF assms(1), of p ops] assms(2)
  by (auto simp: ledger_kept_def obligations_kept_def ob_kept_def)

theorem settled_and_leased_for_good_witness:
  "\<exists>b' \<in> set (tbl_obligations (run_ops (step_op sample_params) sample_db [OpMarkReceived 5 3 JNull])).
     ob_id b' = 3 \<and> ob_state b' = ''cancelled''"
proof -
  have "sample_settled \<in> set (tbl_obligations sample_db)" by (simp add: sample_db_def)
  from settled_and_leased_for_good [OF sample_ok this, of sample_params "[OpMarkReceived 5 3 JNull]"]
  show ?thesis by (auto simp: sample_settled_def new_obligation_def SETTLED_OBLIGATION_STATES_def)
qed

text \<open>
  C2. A terminal run is never reopened or rewritten: under any sequence of operations other
  than the two that park a run, its row stays exactly as it is.
\<close>
theorem terminal_runs_stay:
  assumes "schema_ok db" and "r \<in> set (tbl_runs db)" and "run_state r \<in> set TERMINAL_RUN_STATES"
  shows "r \<in> set (tbl_runs (run_ops (step_guarded p) db ops))"
  using guarded_machine.run_kept [OF assms(1), of p ops] assms(2,3)
  by (auto simp: turn_kept_def terminal_runs_kept_def)

theorem terminal_runs_stay_witness:
  "sample_done \<in> set (tbl_runs (run_ops (step_guarded sample_params) sample_db
     [OpTransitionRun 6 ''r0'' RunRunning None, OpClaimContinuation 7 ''r0'' None]))"
  by (rule terminal_runs_stay [OF sample_ok]) (simp_all add: sample_db_def sample_done_def TERMINAL_RUN_STATES_def)

end
