(* ===== verification/Run_Closure.thy ===== *)
theory Run_Closure
  imports Turn_Machine
begin

section \<open>Closing and continuing a run\<close>

text \<open>
  Guarded updates keep the schema; the atomic finish of a run, ordinary transitions and the
  one-shot continuation claim.
\<close>

subsection \<open>Guarded updates keep the schema\<close>

lemma distinct_filter_update:
  assumes "distinct (map k (filter p xs))"
    and "\<And>x. x \<in> set xs \<Longrightarrow> g x \<Longrightarrow> k (f x) = k x \<and> (p (f x) \<longrightarrow> p x)"
  shows "distinct (map k (filter p (update_where g f xs)))"
proof -
  have "set (map k (filter p (update_where g f xs))) \<subseteq> set (map k (filter p xs))
      \<and> distinct (map k (filter p (update_where g f xs)))"
    using assms
  proof (induction xs)
    case Nil
    then show ?case by (simp add: update_where_def)
  next
    case (Cons x xs)
    then have IH: "set (map k (filter p (update_where g f xs))) \<subseteq> set (map k (filter p xs))"
      "distinct (map k (filter p (update_where g f xs)))"
      by (auto split: if_splits)
    have uw: "update_where g f (x # xs) = (if g x then f x else x) # update_where g f xs"
      by (simp add: update_where_def)
    show ?case
    proof (cases "p (if g x then f x else x)")
      case True
      then have px: "p x" and kx: "k (if g x then f x else x) = k x"
        using Cons.prems(2) [of x] by (auto split: if_splits)
      then have "k x \<notin> set (map k (filter p xs))" using Cons.prems(1) by simp
      with IH True px kx show ?thesis by (auto simp: uw)
    next
      case False
      with IH show ?thesis by (auto simp: uw)
    qed
  qed
  then show ?thesis by blast
qed

lemma map_update_where_in:
  "(\<And>x. x \<in> set xs \<Longrightarrow> g x \<Longrightarrow> k (f x) = k x) \<Longrightarrow> map k (update_where g f xs) = map k xs"
  by (simp add: update_where_def)

lemma active_not_terminal: "s \<in> set ACTIVE_RUN_STATES \<Longrightarrow> s \<notin> set TERMINAL_RUN_STATES"
  by (auto simp: ACTIVE_RUN_STATES_def TERMINAL_RUN_STATES_def)

lemma runs_ok_update:
  assumes "runs_ok rs"
    and "\<And>r. r \<in> set rs \<Longrightarrow> g r \<Longrightarrow> run_pk (f r) = run_pk r \<and> run_id (f r) = run_id r
        \<and> run_session_id (f r) = run_session_id r"
    and "\<And>r. r \<in> set rs \<Longrightarrow> g r \<Longrightarrow> run_state (f r) \<in> set TERMINAL_RUN_STATES
        \<or> run_state (f r) \<in> set ACTIVE_RUN_STATES \<and> run_state r \<in> set ACTIVE_RUN_STATES"
  shows "runs_ok (update_where g f rs)"
proof -
  have "distinct (map run_session_id (filter (\<lambda>r. run_state r \<in> set ACTIVE_RUN_STATES) (update_where g f rs)))"
  proof (rule distinct_filter_update)
    show "distinct (map run_session_id (filter (\<lambda>r. run_state r \<in> set ACTIVE_RUN_STATES) rs))"
      using assms(1) by (simp add: runs_ok_def)
    show "run_session_id (f r) = run_session_id r
        \<and> (run_state (f r) \<in> set ACTIVE_RUN_STATES \<longrightarrow> run_state r \<in> set ACTIVE_RUN_STATES)"
      if "r \<in> set rs" "g r" for r
      using assms(2,3) [OF that] active_not_terminal by blast
  qed
  with assms show ?thesis
    by (auto simp: runs_ok_def map_update_where_in set_update_where)
qed

lemma schema_update_runs:
  assumes "schema_ok db"
    and "\<And>r. r \<in> set (tbl_runs db) \<Longrightarrow> g r \<Longrightarrow> run_pk (f r) = run_pk r \<and> run_id (f r) = run_id r
        \<and> run_session_id (f r) = run_session_id r"
    and "\<And>r. r \<in> set (tbl_runs db) \<Longrightarrow> g r \<Longrightarrow> run_state (f r) \<in> set TERMINAL_RUN_STATES
        \<or> run_state (f r) \<in> set ACTIVE_RUN_STATES \<and> run_state r \<in> set ACTIVE_RUN_STATES"
  shows "schema_ok (db\<lparr>tbl_runs := update_where g f (tbl_runs db)\<rparr>)"
  using assms runs_ok_update [of "tbl_runs db" g f] by (simp add: schema_ok_def map_update_where_in)

lemma schema_update_obligations:
  assumes "schema_ok db"
    and "\<And>b. b \<in> set (tbl_obligations db) \<Longrightarrow> g b \<Longrightarrow> ob_id (f b) = ob_id b \<and> ob_run_id (f b) = ob_run_id b
        \<and> ob_tool_call_id (f b) = ob_tool_call_id b \<and> ob_permission_id (f b) = ob_permission_id b
        \<and> ob_turn_step_id (f b) = ob_turn_step_id b"
    and "\<And>b. b \<in> set (tbl_obligations db) \<Longrightarrow> g b \<Longrightarrow> obligation_ok (f b)"
  shows "schema_ok (db\<lparr>tbl_obligations := update_where g f (tbl_obligations db)\<rparr>)"
proof -
  let ?os = "tbl_obligations db"
  have "distinct (map (\<lambda>b. (ob_run_id b, ob_tool_call_id b))
      (filter (\<lambda>b. ob_tool_call_id b \<noteq> None) (update_where g f ?os)))"
    "distinct (map (\<lambda>b. (ob_run_id b, ob_permission_id b))
      (filter (\<lambda>b. ob_permission_id b \<noteq> None) (update_where g f ?os)))"
    using assms by (intro distinct_filter_update; simp add: schema_ok_def obligations_ok_def)+
  then have "obligations_ok (update_where g f ?os)"
    using assms by (auto simp: schema_ok_def obligations_ok_def map_update_where_in set_update_where)
  moreover have "\<forall>b \<in> set (update_where g f ?os). ob_run_id b \<in> set (map run_id (tbl_runs db))
      \<and> step_ref_ok (map step_id (tbl_steps db)) (ob_turn_step_id b)"
    using assms by (auto simp: schema_ok_def references_ok_def set_update_where)
  ultimately show ?thesis using assms(1) by (simp add: schema_ok_def references_ok_def)
qed

lemma schema_update_steps:
  assumes "schema_ok db"
    and "\<And>s. s \<in> set (tbl_steps db) \<Longrightarrow> g s \<Longrightarrow> step_id (f s) = step_id s \<and> step_run_id (f s) = step_run_id s
        \<and> step_index (f s) = step_index s"
    and "\<And>s. s \<in> set (tbl_steps db) \<Longrightarrow> g s \<Longrightarrow> step_state (f s) \<in> set ACTIVE_STEP_STATES
        \<or> step_state (f s) \<in> set TERMINAL_STEP_STATES"
  shows "schema_ok (db\<lparr>tbl_steps := update_where g f (tbl_steps db)\<rparr>)"
  using assms
  by (auto simp: schema_ok_def steps_ok_def references_ok_def map_update_where_in set_update_where)

lemma schema_new_event:
  "schema_ok db \<Longrightarrow> er_id row \<notin> er_id ` set (tbl_events db) \<Longrightarrow>
   schema_ok (db\<lparr>tbl_events := tbl_events db @ [row], seq_next := n\<rparr>)"
  by (simp add: schema_ok_def)

text \<open>A statement within the schema yields the matched rows, assigned.\<close>

lemma update_runs_ok:
  "schema_ok (db\<lparr>tbl_runs := update_where g f (tbl_runs db)\<rparr>) \<Longrightarrow>
   update_runs g f db = (db\<lparr>tbl_runs := update_where g f (tbl_runs db)\<rparr>, Inr (returning g f (tbl_runs db)))"
  by (simp add: update_runs_def writeM_def)

lemma update_obligations_ok:
  "schema_ok (db\<lparr>tbl_obligations := update_where g f (tbl_obligations db)\<rparr>) \<Longrightarrow>
   update_obligations g f db = (db\<lparr>tbl_obligations := update_where g f (tbl_obligations db)\<rparr>,
     Inr (returning g f (tbl_obligations db)))"
  by (simp add: update_obligations_def writeM_def)

lemma update_steps_ok:
  "schema_ok (db\<lparr>tbl_steps := update_where g f (tbl_steps db)\<rparr>) \<Longrightarrow>
   update_steps g f db = (db\<lparr>tbl_steps := update_where g f (tbl_steps db)\<rparr>, Inr (returning g f (tbl_steps db)))"
  by (simp add: update_steps_def writeM_def)

lemma run_not_terminal_active:
  "schema_ok db \<Longrightarrow> r \<in> set (tbl_runs db) \<Longrightarrow> run_state r \<notin> set TERMINAL_RUN_STATES \<Longrightarrow>
   run_state r \<in> set ACTIVE_RUN_STATES"
  by (auto simp: schema_ok_def runs_ok_def)

lemma settlement_settled:
  "terminal_obligation_state state = Some s \<Longrightarrow>
   ob_state_str s \<in> set SETTLED_OBLIGATION_STATES \<and> ob_state_str s \<in> set TERMINAL_STEP_STATES"
  by (cases state) (auto simp: SETTLED_OBLIGATION_STATES_def TERMINAL_STEP_STATES_def)

lemma run_state_str_active: "\<not> run_state_terminal s \<Longrightarrow> run_state_str s \<in> set ACTIVE_RUN_STATES"
  by (cases s) (auto simp: run_state_terminal_def ACTIVE_RUN_STATES_def)

lemma run_state_str_terminal: "run_state_terminal s \<Longrightarrow> run_state_str s \<in> set TERMINAL_RUN_STATES"
  by (auto simp: run_state_terminal_def TERMINAL_RUN_STATES_def)

lemma terminal_has_settlement: "run_state_terminal s \<Longrightarrow> \<exists>t. terminal_obligation_state s = Some t"
  by (auto simp: run_state_terminal_def)

lemma append_event_ok:
  assumes "schema_ok db" and "fresh \<notin> er_id ` set (tbl_events db)" and "env_rfc3339 env now = Inr time"
  shows "\<exists>row. append_bearwire_event_on env fresh now session bear user event db
      = (db\<lparr>tbl_events := tbl_events db @ [row], seq_next := seq_next db + 1\<rparr>, Inr row)
    \<and> er_sequence_no row = seq_next db \<and> er_session_id row = session \<and> er_event_type row = evt_type event
    \<and> evt_data (er_event row) = evt_data event"
proof -
  let ?row = "\<lparr>er_id = fresh, er_sequence_no = seq_next db, er_session_id = session,
      er_bear_id = bear, er_user_id = user, er_event_type = evt_type event,
      er_event = event, er_created_at = now\<rparr>"
  let ?event = "event\<lparr>evt_event_id := Some (''evt_'' @ env_uuid_str env fresh),
                evt_sequence := Some (word_of_int (seq_next db)),
                evt_time := Some time,
                evt_session_id := coalesce (evt_session_id event) session\<rparr>"
  let ?db1 = "db\<lparr>tbl_events := tbl_events db @ [?row], seq_next := seq_next db + 1\<rparr>"
  let ?db2 = "db\<lparr>tbl_events := tbl_events db @ [?row\<lparr>er_event := ?event\<rparr>], seq_next := seq_next db + 1\<rparr>"
  have ok1: "schema_ok ?db1" and ok2: "schema_ok ?db2"
    using assms by (simp_all add: schema_ok_def)
  have upd: "update_where (\<lambda>r. er_id r = fresh) f (tbl_events db @ [?row]) = tbl_events db @ [f ?row]" for f
    using assms(2) by (auto simp: update_where_def intro!: map_idI)
  have eq: "?db1\<lparr>tbl_events := xs\<rparr> = db\<lparr>tbl_events := xs, seq_next := seq_next db + 1\<rparr>" for xs
    by (cases db) simp
  have "append_bearwire_event_on env fresh now session bear user event db
      = (?db2, Inr (?row\<lparr>er_event := ?event\<rparr>))"
    using ok1 ok2 assms(3)
    by (simp add: append_bearwire_event_on_def bindM_def writeM_def returnM_def Let_def upd eq
        del: den_db.update_convs)
  then show ?thesis by (intro exI [of _ "?row\<lparr>er_event := ?event\<rparr>"]) simp
qed

subsection \<open>Closing a run\<close>

lemma filter_update_other:
  "(\<And>x. g x \<Longrightarrow> \<not> p x \<and> \<not> p (f x)) \<Longrightarrow> filter p (update_where g f xs) = filter p xs"
  by (induction xs) (auto simp: update_where_def)

lemma length_returning: "length (returning g f xs) = length (filter g xs)"
  by (simp add: returning_def)

lemma obligation_ok_state:
  "obligation_ok b \<Longrightarrow> s \<in> set OPEN_OBLIGATION_STATES \<or> s \<in> set SETTLED_OBLIGATION_STATES \<Longrightarrow>
   obligation_ok (b\<lparr>ob_state := s, ob_completed_at := c, ob_updated_at := u\<rparr>)"
  by (simp add: obligation_ok_def lease_shape_def)

lemma settle_obligations_spec:
  assumes ok: "schema_ok db" and s: "settlement \<in> set SETTLED_OBLIGATION_STATES"
  shows "\<exists>obs. settle_obligations_of_run now rid settlement db = (db\<lparr>tbl_obligations := obs\<rparr>,
        Inr (length (filter (\<lambda>b. ob_run_id b = rid \<and> ob_state b \<in> set OPEN_OBLIGATION_STATES) (tbl_obligations db))))
    \<and> schema_ok (db\<lparr>tbl_obligations := obs\<rparr>)
    \<and> (\<forall>b \<in> set obs. ob_run_id b = rid \<longrightarrow> ob_state b \<in> set SETTLED_OBLIGATION_STATES)
    \<and> filter (\<lambda>b. ob_run_id b \<noteq> rid) obs = filter (\<lambda>b. ob_run_id b \<noteq> rid) (tbl_obligations db)"
proof -
  define g where "g = (\<lambda>b :: turn_obligation_row. ob_run_id b = rid \<and> ob_state b \<in> set OPEN_OBLIGATION_STATES)"
  define f where "f = (\<lambda>b :: turn_obligation_row. b\<lparr>ob_state := settlement,
    ob_completed_at := coalesce (ob_completed_at b) now, ob_updated_at := now\<rparr>)"
  let ?obs = "update_where g f (tbl_obligations db)"
  have ok': "schema_ok (db\<lparr>tbl_obligations := ?obs\<rparr>)"
  proof (rule schema_update_obligations [OF ok])
    fix b assume "b \<in> set (tbl_obligations db)" and "g b"
    then show "obligation_ok (f b)"
      using ok s by (auto simp: f_def schema_ok_def obligations_ok_def intro!: obligation_ok_state)
  qed (simp add: f_def)
  have "settle_obligations_of_run now rid settlement db = (db\<lparr>tbl_obligations := ?obs\<rparr>,
      Inr (length (filter g (tbl_obligations db))))"
    using update_obligations_ok [OF ok']
    by (simp add: settle_obligations_of_run_def bindM_def returnM_def length_returning
        flip: g_def f_def)
  moreover have "\<forall>b \<in> set ?obs. ob_run_id b = rid \<longrightarrow> ob_state b \<in> set SETTLED_OBLIGATION_STATES"
  proof (intro ballI impI)
    fix b assume "b \<in> set ?obs" and "ob_run_id b = rid"
    then show "ob_state b \<in> set SETTLED_OBLIGATION_STATES"
      using ok s by (cases rule: in_update_whereE)
        (auto simp: g_def f_def schema_ok_def obligations_ok_def obligation_ok_def)
  qed
  moreover have "filter (\<lambda>b. ob_run_id b \<noteq> rid) ?obs = filter (\<lambda>b. ob_run_id b \<noteq> rid) (tbl_obligations db)"
    by (rule filter_update_other) (simp add: g_def f_def)
  ultimately show ?thesis using ok' unfolding g_def by blast
qed

lemma settle_steps_spec:
  assumes ok: "schema_ok db" and s: "settlement \<in> set TERMINAL_STEP_STATES"
  shows "\<exists>ss. settle_steps_of_run now rid settlement db = (db\<lparr>tbl_steps := ss\<rparr>,
        Inr (length (filter (\<lambda>b. step_run_id b = rid \<and> step_state b \<in> set ACTIVE_STEP_STATES) (tbl_steps db))))
    \<and> schema_ok (db\<lparr>tbl_steps := ss\<rparr>)
    \<and> (\<forall>b \<in> set ss. step_run_id b = rid \<longrightarrow> step_state b \<in> set TERMINAL_STEP_STATES)
    \<and> filter (\<lambda>b. step_run_id b \<noteq> rid) ss = filter (\<lambda>b. step_run_id b \<noteq> rid) (tbl_steps db)"
proof -
  define g where "g = (\<lambda>b :: turn_step_row. step_run_id b = rid \<and> step_state b \<in> set ACTIVE_STEP_STATES)"
  define f where "f = (\<lambda>b :: turn_step_row. b\<lparr>step_state := settlement,
    step_closed_at := coalesce (step_closed_at b) now\<rparr>)"
  let ?ss = "update_where g f (tbl_steps db)"
  have ok': "schema_ok (db\<lparr>tbl_steps := ?ss\<rparr>)"
    using s by (intro schema_update_steps [OF ok]) (simp_all add: f_def)
  have "settle_steps_of_run now rid settlement db = (db\<lparr>tbl_steps := ?ss\<rparr>, Inr (length (filter g (tbl_steps db))))"
    using update_steps_ok [OF ok']
    by (simp add: settle_steps_of_run_def bindM_def returnM_def length_returning flip: g_def f_def)
  moreover have "\<forall>b \<in> set ?ss. step_run_id b = rid \<longrightarrow> step_state b \<in> set TERMINAL_STEP_STATES"
  proof (intro ballI impI)
    fix b assume "b \<in> set ?ss" and "step_run_id b = rid"
    then show "step_state b \<in> set TERMINAL_STEP_STATES"
      using ok s by (cases rule: in_update_whereE) (auto simp: g_def f_def schema_ok_def steps_ok_def)
  qed
  moreover have "filter (\<lambda>b. step_run_id b \<noteq> rid) ?ss = filter (\<lambda>b. step_run_id b \<noteq> rid) (tbl_steps db)"
    by (rule filter_update_other) (simp add: g_def f_def)
  ultimately show ?thesis using ok' unfolding g_def by blast
qed

lemma get_run_Some: "get_run rid db = Some r \<Longrightarrow> r \<in> set (tbl_runs db) \<and> run_id r = rid"
  unfolding get_run_def by (auto dest: find_Some_set)

lemma get_run_unique:
  assumes "schema_ok db" and "r \<in> set (tbl_runs db)"
  shows "get_run (run_id r) db = Some r"
proof (cases "get_run (run_id r) db")
  case None
  then show ?thesis using assms(2) by (auto simp: get_run_def find_None_all)
next
  case (Some r')
  then have "r' \<in> set (tbl_runs db)" and "run_id r' = run_id r" using get_run_Some by blast+
  moreover have "inj_on run_id (set (tbl_runs db))"
    using assms(1) by (simp add: schema_ok_def runs_ok_def distinct_map)
  ultimately have "r' = r" using assms(2) by (auto dest: inj_onD)
  with Some show ?thesis by simp
qed

lemma filter_unique_key:
  "distinct (map k xs) \<Longrightarrow> List.find (\<lambda>x. k x = i) xs = Some x \<Longrightarrow> p x \<Longrightarrow>
   filter (\<lambda>y. k y = i \<and> p y) xs = [x]"
proof (induction xs)
  case (Cons a xs)
  show ?case
  proof (cases "k a = i")
    case True
    with Cons.prems have "a = x" "\<forall>y \<in> set xs. k y \<noteq> i" by (auto simp: image_iff)
    with Cons.prems True show ?thesis by (auto simp: filter_empty_conv)
  next
    case False
    with Cons show ?thesis by simp
  qed
qed simp

text \<open>A guarded update of the run with a given id: it hits that one row, or nothing.\<close>

lemma update_run_miss:
  "schema_ok db \<Longrightarrow> (\<And>r. r \<in> set (tbl_runs db) \<Longrightarrow> \<not> g r) \<Longrightarrow> update_runs g f db = (db, Inr [])"
  by (simp add: update_runs_def writeM_def update_where_none returning_def filter_empty_conv)

lemma update_run_hit:
  assumes ok: "schema_ok db" and r: "get_run rid db = Some r" and g: "g r"
    and only: "\<And>x. g x \<Longrightarrow> run_id x = rid"
    and keys: "\<And>x. run_pk (f x) = run_pk x \<and> run_id (f x) = run_id x \<and> run_session_id (f x) = run_session_id x"
    and state: "run_state (f r) \<in> set TERMINAL_RUN_STATES
        \<or> run_state (f r) \<in> set ACTIVE_RUN_STATES \<and> run_state r \<in> set ACTIVE_RUN_STATES"
  shows "\<exists>rs. update_runs g f db = (db\<lparr>tbl_runs := rs\<rparr>, Inr [f r])
    \<and> schema_ok (db\<lparr>tbl_runs := rs\<rparr>) \<and> get_run rid (db\<lparr>tbl_runs := rs\<rparr>) = Some (f r)
    \<and> filter (\<lambda>x. run_id x \<noteq> rid) rs = filter (\<lambda>x. run_id x \<noteq> rid) (tbl_runs db)"
proof -
  let ?rs = "update_where g f (tbl_runs db)"
  have uniq: "x = r" if "x \<in> set (tbl_runs db)" "g x" for x
    using get_run_unique [OF ok that(1)] only [OF that(2)] r by simp
  have ok': "schema_ok (db\<lparr>tbl_runs := ?rs\<rparr>)"
    using uniq state keys by (intro schema_update_runs [OF ok]) auto
  have "filter g (tbl_runs db) = filter (\<lambda>x. run_id x = rid \<and> g x) (tbl_runs db)"
    using only by (intro filter_cong) auto
  also have "\<dots> = [r]"
    using ok r g unfolding get_run_def
    by (intro filter_unique_key) (simp_all add: schema_ok_def runs_ok_def)
  finally have "returning g f (tbl_runs db) = [f r]" by (simp add: returning_def)
  moreover have "f r \<in> set ?rs" using get_run_Some [OF r] g by (force simp: set_update_where)
  then have "get_run rid (db\<lparr>tbl_runs := ?rs\<rparr>) = Some (f r)"
    using get_run_unique [OF ok', of "f r"] keys get_run_Some [OF r] by simp
  moreover have "filter (\<lambda>x. run_id x \<noteq> rid) ?rs = filter (\<lambda>x. run_id x \<noteq> rid) (tbl_runs db)"
    using only keys by (intro filter_update_other) auto
  ultimately show ?thesis using ok' update_runs_ok [OF ok'] by auto
qed

lemma claim_finish_spec:
  assumes "schema_ok db" and "get_run rid db = Some r" and "run_session_id r = session"
    and "run_state r \<notin> set TERMINAL_RUN_STATES" and t: "run_state_terminal state"
  shows "\<exists>rs r'. claim_finish now session rid state reason db = (db\<lparr>tbl_runs := rs\<rparr>, Inr [r'])
    \<and> schema_ok (db\<lparr>tbl_runs := rs\<rparr>) \<and> get_run rid (db\<lparr>tbl_runs := rs\<rparr>) = Some r'
    \<and> run_state r' = run_state_str state
    \<and> filter (\<lambda>x. run_id x \<noteq> rid) rs = filter (\<lambda>x. run_id x \<noteq> rid) (tbl_runs db)"
proof -
  let ?g = "\<lambda>r. run_id r = rid \<and> run_session_id r = session \<and> run_state r \<notin> set TERMINAL_RUN_STATES"
  let ?f = "\<lambda>r :: turn_run_row. r\<lparr>run_state := run_state_str state, run_terminal_reason := reason,
     run_updated_at := now, run_completed_at := coalesce (run_completed_at r) now\<rparr>"
  obtain rs where "update_runs ?g ?f db = (db\<lparr>tbl_runs := rs\<rparr>, Inr [?f r])"
    "schema_ok (db\<lparr>tbl_runs := rs\<rparr>)" "get_run rid (db\<lparr>tbl_runs := rs\<rparr>) = Some (?f r)"
    "filter (\<lambda>x. run_id x \<noteq> rid) rs = filter (\<lambda>x. run_id x \<noteq> rid) (tbl_runs db)"
    using update_run_hit [of db rid r ?g ?f] assms get_run_Some [OF assms(2)] run_state_str_terminal [OF t]
    by auto
  then show ?thesis unfolding claim_finish_def by (intro exI [of _ rs] exI [of _ "?f r"]) simp
qed

text \<open>What a finished run looks like: closed, with nothing of it left open.\<close>

definition run_closed :: "string \<Rightarrow> den_db \<Rightarrow> bool" where
  "run_closed rid db \<longleftrightarrow>
     (\<exists>r. get_run rid db = Some r \<and> run_state r \<in> set TERMINAL_RUN_STATES)
     \<and> (\<forall>b \<in> set (tbl_obligations db). ob_run_id b = rid \<longrightarrow> ob_state b \<in> set SETTLED_OBLIGATION_STATES)
     \<and> (\<forall>s \<in> set (tbl_steps db). step_run_id s = rid \<longrightarrow> step_state s \<in> set TERMINAL_STEP_STATES)"

lemma settle_and_announce_spec:
  assumes ok: "schema_ok db" and s: "settlement \<in> set SETTLED_OBLIGATION_STATES"
    "settlement \<in> set TERMINAL_STEP_STATES"
    and d: "evt_data event = JObj kvs" and time: "env_rfc3339 env now = Inr time"
    and fresh: "fresh \<notin> er_id ` set (tbl_events db)"
  shows "\<exists>obs ss ev.
      settle_and_announce env fresh now session rid bear user settlement event db
      = (db\<lparr>tbl_obligations := obs, tbl_steps := ss, tbl_events := tbl_events db @ [ev],
            seq_next := seq_next db + 1\<rparr>,
         Inr (Some \<lparr>fin_settled_obligations =
             length (filter (\<lambda>b. ob_run_id b = rid \<and> ob_state b \<in> set OPEN_OBLIGATION_STATES) (tbl_obligations db)),
           fin_settled_steps =
             length (filter (\<lambda>b. step_run_id b = rid \<and> step_state b \<in> set ACTIVE_STEP_STATES) (tbl_steps db)),
           fin_event_sequence = er_sequence_no ev\<rparr>))
    \<and> er_session_id ev = session \<and> er_event_type ev = evt_type event
    \<and> (\<forall>b \<in> set obs. ob_run_id b = rid \<longrightarrow> ob_state b \<in> set SETTLED_OBLIGATION_STATES)
    \<and> filter (\<lambda>b. ob_run_id b \<noteq> rid) obs = filter (\<lambda>b. ob_run_id b \<noteq> rid) (tbl_obligations db)
    \<and> (\<forall>b \<in> set ss. step_run_id b = rid \<longrightarrow> step_state b \<in> set TERMINAL_STEP_STATES)
    \<and> filter (\<lambda>b. step_run_id b \<noteq> rid) ss = filter (\<lambda>b. step_run_id b \<noteq> rid) (tbl_steps db)"
proof -
  let ?n = "length (filter (\<lambda>b. ob_run_id b = rid \<and> ob_state b \<in> set OPEN_OBLIGATION_STATES) (tbl_obligations db))"
  let ?m = "length (filter (\<lambda>b. step_run_id b = rid \<and> step_state b \<in> set ACTIVE_STEP_STATES) (tbl_steps db))"
  obtain obs where obs: "settle_obligations_of_run now rid settlement db = (db\<lparr>tbl_obligations := obs\<rparr>, Inr ?n)"
    and ok1: "schema_ok (db\<lparr>tbl_obligations := obs\<rparr>)"
    and o1: "\<forall>b \<in> set obs. ob_run_id b = rid \<longrightarrow> ob_state b \<in> set SETTLED_OBLIGATION_STATES"
    and o2: "filter (\<lambda>b. ob_run_id b \<noteq> rid) obs = filter (\<lambda>b. ob_run_id b \<noteq> rid) (tbl_obligations db)"
    using settle_obligations_spec [OF ok s(1), of now rid] by blast
  let ?db1 = "db\<lparr>tbl_obligations := obs\<rparr>"
  obtain ss where ss: "settle_steps_of_run now rid settlement ?db1 = (?db1\<lparr>tbl_steps := ss\<rparr>, Inr ?m)"
    and ok2: "schema_ok (?db1\<lparr>tbl_steps := ss\<rparr>)"
    and s1: "\<forall>b \<in> set ss. step_run_id b = rid \<longrightarrow> step_state b \<in> set TERMINAL_STEP_STATES"
    and s2: "filter (\<lambda>b. step_run_id b \<noteq> rid) ss = filter (\<lambda>b. step_run_id b \<noteq> rid) (tbl_steps db)"
    using settle_steps_spec [OF ok1 s(2), of now rid] by auto
  define kvs' where "kvs' = set_member ''settled_steps'' (jnat ?m) (set_member ''settled_obligations'' (jnat ?n) kvs)"
  obtain ev where ev: "append_bearwire_event_on env fresh now session (Some bear) (Some user)
        (event\<lparr>evt_data := JObj kvs'\<rparr>) (?db1\<lparr>tbl_steps := ss\<rparr>)
      = (?db1\<lparr>tbl_steps := ss, tbl_events := tbl_events db @ [ev], seq_next := seq_next db + 1\<rparr>, Inr ev)"
    and e: "er_session_id ev = session" "er_event_type ev = evt_type event"
    using append_event_ok [OF ok2, of fresh env now time session "Some bear" "Some user"
        "event\<lparr>evt_data := JObj kvs'\<rparr>"] fresh time by auto
  have "settle_and_announce env fresh now session rid bear user settlement event db
      = (?db1\<lparr>tbl_steps := ss, tbl_events := tbl_events db @ [ev], seq_next := seq_next db + 1\<rparr>,
         Inr (Some \<lparr>fin_settled_obligations = ?n, fin_settled_steps = ?m, fin_event_sequence = er_sequence_no ev\<rparr>))"
    using obs ss ev
    by (simp add: settle_and_announce_def bindM_def returnM_def d kvs'_def)
  with o1 o2 s1 s2 e show ?thesis by blast
qed

text \<open>
  C1. Terminal closure is atomic and complete: finishing an open run succeeds, the run row has
  the terminal state, no obligation and no step of the run is left open, rows of other runs are
  untouched, exactly one event is appended to the session's log, and the returned counts are the
  numbers of obligations and steps that were open.
\<close>
theorem finish_run_closes_everything:
  assumes "schema_ok db" and "get_run rid db = Some r" and "run_session_id r = session"
    and "run_state r \<notin> set TERMINAL_RUN_STATES" and "run_state_terminal state"
    and "evt_data event = JObj kvs" and "env_rfc3339 env now = Inr time"
    and "fresh \<notin> er_id ` set (tbl_events db)"
  shows "\<exists>db' ev.
      finish_run_with_bearwire_event env fresh now session rid bear user state reason event db
      = (db', Inr (Some \<lparr>fin_settled_obligations =
             length (filter (\<lambda>b. ob_run_id b = rid \<and> ob_state b \<in> set OPEN_OBLIGATION_STATES) (tbl_obligations db)),
           fin_settled_steps =
             length (filter (\<lambda>b. step_run_id b = rid \<and> step_state b \<in> set ACTIVE_STEP_STATES) (tbl_steps db)),
           fin_event_sequence = er_sequence_no ev\<rparr>))
    \<and> run_closed rid db' \<and> map_option run_state (get_run rid db') = Some (run_state_str state)
    \<and> tbl_events db' = tbl_events db @ [ev] \<and> er_session_id ev = session \<and> er_event_type ev = evt_type event
    \<and> filter (\<lambda>x. run_id x \<noteq> rid) (tbl_runs db') = filter (\<lambda>x. run_id x \<noteq> rid) (tbl_runs db)
    \<and> filter (\<lambda>b. ob_run_id b \<noteq> rid) (tbl_obligations db') = filter (\<lambda>b. ob_run_id b \<noteq> rid) (tbl_obligations db)
    \<and> filter (\<lambda>s. step_run_id s \<noteq> rid) (tbl_steps db') = filter (\<lambda>s. step_run_id s \<noteq> rid) (tbl_steps db)"
proof -
  obtain settlement where t: "terminal_obligation_state state = Some settlement"
    using terminal_has_settlement [OF assms(5)] by blast
  obtain r' rs where claim: "claim_finish now session rid state reason db = (db\<lparr>tbl_runs := rs\<rparr>, Inr [r'])"
    and ok1: "schema_ok (db\<lparr>tbl_runs := rs\<rparr>)" and g: "get_run rid (db\<lparr>tbl_runs := rs\<rparr>) = Some r'"
    and r': "run_state r' = run_state_str state"
    and others: "filter (\<lambda>x. run_id x \<noteq> rid) rs = filter (\<lambda>x. run_id x \<noteq> rid) (tbl_runs db)"
    using claim_finish_spec [OF assms(1-5), of now reason] by auto
  let ?db1 = "db\<lparr>tbl_runs := rs\<rparr>"
  obtain obs ss ev where settle: "settle_and_announce env fresh now session rid bear user (ob_state_str settlement) event ?db1
      = (?db1\<lparr>tbl_obligations := obs, tbl_steps := ss, tbl_events := tbl_events db @ [ev],
            seq_next := seq_next db + 1\<rparr>,
         Inr (Some \<lparr>fin_settled_obligations =
             length (filter (\<lambda>b. ob_run_id b = rid \<and> ob_state b \<in> set OPEN_OBLIGATION_STATES) (tbl_obligations db)),
           fin_settled_steps =
             length (filter (\<lambda>b. step_run_id b = rid \<and> step_state b \<in> set ACTIVE_STEP_STATES) (tbl_steps db)),
           fin_event_sequence = er_sequence_no ev\<rparr>))"
    and facts: "er_session_id ev = session" "er_event_type ev = evt_type event"
      "\<forall>b \<in> set obs. ob_run_id b = rid \<longrightarrow> ob_state b \<in> set SETTLED_OBLIGATION_STATES"
      "filter (\<lambda>b. ob_run_id b \<noteq> rid) obs = filter (\<lambda>b. ob_run_id b \<noteq> rid) (tbl_obligations db)"
      "\<forall>b \<in> set ss. step_run_id b = rid \<longrightarrow> step_state b \<in> set TERMINAL_STEP_STATES"
      "filter (\<lambda>b. step_run_id b \<noteq> rid) ss = filter (\<lambda>b. step_run_id b \<noteq> rid) (tbl_steps db)"
    using settle_and_announce_spec [OF ok1 _ _ assms(6,7), of "ob_state_str settlement" fresh session rid bear user]
      settlement_settled [OF t] assms(8) by auto
  let ?db' = "?db1\<lparr>tbl_obligations := obs, tbl_steps := ss, tbl_events := tbl_events db @ [ev],
            seq_next := seq_next db + 1\<rparr>"
  have "finish_run_with_bearwire_event env fresh now session rid bear user state reason event db
      = (?db', snd (settle_and_announce env fresh now session rid bear user (ob_state_str settlement) event ?db1))"
    using claim settle assms(5) t
    by (simp add: finish_run_with_bearwire_event_def withM_def transactionM_def bindM_def)
  moreover have "get_run rid ?db' = Some r'" using g by (simp add: get_run_def)
  ultimately show ?thesis
    using settle facts others r' run_state_str_terminal [OF assms(5)]
    by (intro exI [of _ ?db'] exI [of _ ev]) (simp add: run_closed_def)
qed

theorem finish_run_closes_everything_witness:
  "\<exists>db' res. finish_run_with_bearwire_event sample_env 9 5 ''s1'' ''r1'' 1 1 RunCompleted None sample_event sample_db
     = (db', Inr (Some res)) \<and> run_closed ''r1'' db' \<and> fin_settled_obligations res = 2 \<and> fin_settled_steps res = 1"
proof -
  have "get_run ''r1'' sample_db = Some sample_run"
    "run_session_id sample_run = ''s1''" "run_state sample_run \<notin> set TERMINAL_RUN_STATES"
    "run_state_terminal RunCompleted" "evt_data sample_event = JObj []" "env_rfc3339 sample_env 5 = Inr (show_int 5)"
    "9 \<notin> er_id ` set (tbl_events sample_db)"
    by (simp_all add: get_run_def store_samples state_defs run_state_terminal_def)
  from finish_run_closes_everything [OF sample_ok this, of 1 1 None]
  show ?thesis by (fastforce simp: store_samples state_defs)
qed

lemma finish_noop:
  assumes ok: "schema_ok db" and t: "run_state_terminal state"
    and no: "\<forall>r. get_run rid db = Some r \<longrightarrow>
      run_session_id r \<noteq> session \<or> run_state r \<in> set TERMINAL_RUN_STATES"
  shows "finish_run_with_bearwire_event env fresh now session rid bear user state reason event db = (db, Inr None)"
proof -
  have none: "filter (\<lambda>r. run_id r = rid \<and> run_session_id r = session
      \<and> run_state r \<notin> set TERMINAL_RUN_STATES) (tbl_runs db) = []"
    using no get_run_unique [OF ok] by (auto simp: filter_empty_conv)
  then have "claim_finish now session rid state reason db = (db, Inr [])"
    using ok unfolding claim_finish_def update_runs_def writeM_def
    by (simp add: returning_def update_where_none filter_empty_conv)
  moreover obtain s where "terminal_obligation_state state = Some s"
    using terminal_has_settlement [OF t] by blast
  ultimately show ?thesis using t
    by (simp add: finish_run_with_bearwire_event_def withM_def transactionM_def bindM_def restoreM_def)
qed

lemma update_runs_Inr:
  "update_runs g f db = (db', Inr rows) \<Longrightarrow>
   db' = db\<lparr>tbl_runs := update_where g f (tbl_runs db)\<rparr> \<and> rows = returning g f (tbl_runs db) \<and> schema_ok db'"
  by (auto simp: update_runs_def writeM_def split: if_splits)

lemma returning_in_update: "r' \<in> set (returning g f rs) \<Longrightarrow> r' \<in> set (update_where g f rs)"
  by (auto simp: returning_def set_update_where)

lemma finish_success:
  assumes "schema_ok db"
    and "finish_run_with_bearwire_event env fresh now session rid bear user state reason event db
         = (db1, Inr (Some res))"
  shows "schema_ok db1 \<and> (\<exists>r. get_run rid db1 = Some r \<and> run_state r \<in> set TERMINAL_RUN_STATES)"
proof -
  have t: "run_state_terminal state" using assms(2)
    by (auto simp: finish_run_with_bearwire_event_def failM_def split: if_splits)
  obtain s where s: "terminal_obligation_state state = Some s" using terminal_has_settlement [OF t] by blast
  obtain dba claimed where c: "claim_finish now session rid state reason db = (dba, Inr claimed)"
    and one: "length claimed = 1"
    and rest: "settle_and_announce env fresh now session rid bear user (ob_state_str s) event dba
      = (db1, Inr (Some res))"
    using assms(2) t s
    by (auto simp: finish_run_with_bearwire_event_def withM_def transactionM_def bindM_def restoreM_def
        split: prod.splits sum.splits if_splits)
  note u = update_runs_Inr [OF c [unfolded claim_finish_def]]
  obtain r' where r': "claimed = [r']" using one by (cases claimed) auto
  then have "r' \<in> set (tbl_runs dba)" using u returning_in_update [of r'] by auto
  moreover have "run_id r' = rid" "run_state r' \<in> set TERMINAL_RUN_STATES"
    using u r' run_state_str_terminal [OF t] by (auto simp: returning_def Cons_eq_map_conv filter_eq_Cons_iff)
  moreover have "schema_ok db1 \<and> turn_kept dba db1"
  proof -
    have "schema_ok dba" using u by blast
    from staysD [OF guarded.stays_settle_and_announce this, of env fresh now session rid bear user
        "ob_state_str s" event] rest show ?thesis by simp
  qed
  ultimately show ?thesis
    using get_run_unique [of db1 r'] by (auto simp: turn_kept_def terminal_runs_kept_def)
qed

text \<open>
  A run is finished once: after a successful finish, and after any further operations
  other than parking a run, finishing it again, with any outcome, in any session, returns
  nothing, appends no event and leaves the database as it is.
\<close>
theorem finish_run_at_most_once:
  assumes "schema_ok db"
    and "finish_run_with_bearwire_event env fresh now session rid bear user state reason event db
         = (db1, Inr (Some res))"
    and "run_state_terminal state'"
  shows "finish_run_with_bearwire_event env fresh' now' session' rid bear' user' state' reason' event'
      (run_ops (step_guarded p) db1 ops) = (run_ops (step_guarded p) db1 ops, Inr None)"
proof -
  let ?db2 = "run_ops (step_guarded p) db1 ops"
  obtain r where ok1: "schema_ok db1" and r: "get_run rid db1 = Some r" "run_state r \<in> set TERMINAL_RUN_STATES"
    using finish_success [OF assms(1,2)] by blast
  have "schema_ok ?db2" using guarded_machine.run_inv [OF ok1] .
  moreover have "r \<in> set (tbl_runs ?db2)"
    using guarded_machine.run_kept [OF ok1, of p ops] get_run_Some [OF r(1)] r(2)
    by (auto simp: turn_kept_def terminal_runs_kept_def)
  ultimately have "get_run rid ?db2 = Some r" using get_run_unique get_run_Some [OF r(1)] by blast
  with r(2) \<open>schema_ok ?db2\<close> assms(3) show ?thesis by (intro finish_noop) auto
qed

lemma sample_finish:
  "\<exists>db1 res. finish_run_with_bearwire_event sample_env 9 5 ''s1'' ''r1'' 1 1 RunCompleted None sample_event sample_db
     = (db1, Inr (Some res))"
  by (simp add: finish_run_with_bearwire_event_def claim_finish_def settle_and_announce_def settle_obligations_of_run_def
      settle_steps_of_run_def append_bearwire_event_on_def update_runs_def update_obligations_def update_steps_def
      dbm_defs update_where_def returning_def run_state_terminal_def Let_def store_samples schema_defs state_defs)

theorem finish_run_at_most_once_witness:
  "\<exists>db1 res. finish_run_with_bearwire_event sample_env 9 5 ''s1'' ''r1'' 1 1 RunCompleted None sample_event sample_db
     = (db1, Inr (Some res))
   \<and> finish_run_with_bearwire_event sample_env 11 8 ''s1'' ''r1'' 1 1 RunFailed None sample_event
       (run_ops (step_guarded sample_params) db1 [OpTransitionRun 6 ''r1'' RunRunning None])
     = (run_ops (step_guarded sample_params) db1 [OpTransitionRun 6 ''r1'' RunRunning None], Inr None)"
proof -
  obtain db1 res where f: "finish_run_with_bearwire_event sample_env 9 5 ''s1'' ''r1'' 1 1 RunCompleted None
      sample_event sample_db = (db1, Inr (Some res))" using sample_finish by blast
  have "run_state_terminal RunFailed" by (simp add: run_state_terminal_def)
  from finish_run_at_most_once [OF sample_ok f this, of 11 8 "''s1''" 1 1 None sample_event sample_params
      "[OpTransitionRun 6 ''r1'' RunRunning None]"] f
  show ?thesis by blast
qed

text \<open>
  An ordinary transition moves exactly the open run it names and nothing else: it cannot
  fail on a well-formed store, it returns nothing on a terminal or unknown run and leaves the
  store as it is, and it refuses a terminal target state.
\<close>
theorem transition_run_spec:
  assumes "schema_ok db"
  shows "if run_state_terminal state then \<exists>e. transition_run now rid state reason db = (db, Inl e)
    else case get_run rid db of
        None \<Rightarrow> transition_run now rid state reason db = (db, Inr None)
      | Some r \<Rightarrow>
          if run_state r \<in> set TERMINAL_RUN_STATES
          then transition_run now rid state reason db = (db, Inr None)
          else \<exists>db' r'. transition_run now rid state reason db = (db', Inr (Some r'))
             \<and> schema_ok db' \<and> get_run rid db' = Some r' \<and> run_state r' = run_state_str state
             \<and> filter (\<lambda>x. run_id x \<noteq> rid) (tbl_runs db') = filter (\<lambda>x. run_id x \<noteq> rid) (tbl_runs db)
             \<and> db'\<lparr>tbl_runs := tbl_runs db\<rparr> = db"
proof (cases "run_state_terminal state")
  case True
  then show ?thesis by (simp add: transition_run_def failM_def)
next
  case False
  let ?f = "\<lambda>r :: turn_run_row. r\<lparr>run_state := run_state_str state, run_terminal_reason := reason,
      run_updated_at := now\<rparr>"
  have miss: "transition_run now rid state reason db = (db, Inr None)"
    if "\<And>r. r \<in> set (tbl_runs db) \<Longrightarrow> \<not> run_not_terminal rid r"
    using False update_run_miss [of db "run_not_terminal rid" ?f, OF assms that]
    by (simp add: transition_run_def transactionM_def bindM_def returnM_def)
  show ?thesis
  proof (cases "get_run rid db")
    case None
    then have "\<And>r. r \<in> set (tbl_runs db) \<Longrightarrow> \<not> run_not_terminal rid r"
      by (auto simp: get_run_def find_None_all run_not_terminal_def)
    with miss None False show ?thesis by simp
  next
    case (Some r)
    show ?thesis
    proof (cases "run_state r \<in> set TERMINAL_RUN_STATES")
      case True
      with miss Some False get_run_unique [OF assms] show ?thesis
        by (fastforce simp: run_not_terminal_def)
    next
      case open_run: False
      obtain rs where rs: "update_runs (run_not_terminal rid) ?f db = (db\<lparr>tbl_runs := rs\<rparr>, Inr [?f r])"
        "schema_ok (db\<lparr>tbl_runs := rs\<rparr>)" "get_run rid (db\<lparr>tbl_runs := rs\<rparr>) = Some (?f r)"
        "filter (\<lambda>x. run_id x \<noteq> rid) rs = filter (\<lambda>x. run_id x \<noteq> rid) (tbl_runs db)"
        using update_run_hit [of db rid r "run_not_terminal rid" ?f] assms Some open_run get_run_Some [OF Some]
          run_not_terminal_active [OF assms, of r] run_state_str_active [OF False]
        by (auto simp: run_not_terminal_def)
      then have "transition_run now rid state reason db = (db\<lparr>tbl_runs := rs\<rparr>, Inr (Some (?f r)))"
        using False by (simp add: transition_run_def transactionM_def bindM_def returnM_def)
      with rs Some open_run False show ?thesis by simp
    qed
  qed
qed

theorem transition_run_spec_witness:
  "\<exists>db' r'. transition_run 6 ''r1'' RunContinuing None sample_db = (db', Inr (Some r')) \<and> run_state r' = ''continuing''"
proof -
  have "get_run ''r1'' sample_db = Some sample_run" "run_state sample_run \<notin> set TERMINAL_RUN_STATES"
    by (simp_all add: get_run_def store_samples state_defs)
  with transition_run_spec [OF sample_ok, of RunContinuing 6 "''r1''" None] show ?thesis
    by (auto simp: run_state_terminal_def)
qed

text \<open>
  The continuation claim is one-shot: claiming a running run succeeds, a second claim and
  any claim before the successor begins get nothing, and beginning the successor consumes the
  claim, so it too succeeds only once.
\<close>
theorem continuation_claim_one_shot:
  assumes "schema_ok db" and "get_run rid db = Some r" and "run_state r = ''running''"
  shows "\<exists>db1 db2 r1 r2.
      claim_run_continuation now rid reason db = (db1, Inr (Some r1)) \<and> run_state r1 = ''continuing''
    \<and> claim_run_continuation now' rid reason' db1 = (db1, Inr None)
    \<and> begin_claimed_run_continuation now2 rid db1 = (db2, Inr (Some r2)) \<and> run_state r2 = ''running''
    \<and> begin_claimed_run_continuation now3 rid db2 = (db2, Inr None)"
proof -
  let ?g1 = "\<lambda>r. run_id r = rid \<and> run_state r = ''running''"
  let ?g2 = "\<lambda>r. run_id r = rid \<and> run_state r = ''continuing''"
  let ?f1 = "\<lambda>r :: turn_run_row. r\<lparr>run_state := ''continuing'', run_terminal_reason := reason, run_updated_at := now\<rparr>"
  let ?f2 = "\<lambda>r :: turn_run_row. r\<lparr>run_state := ''running'', run_terminal_reason := None, run_updated_at := now2\<rparr>"
  obtain rs1 where 1: "update_runs ?g1 ?f1 db = (db\<lparr>tbl_runs := rs1\<rparr>, Inr [?f1 r])"
    "schema_ok (db\<lparr>tbl_runs := rs1\<rparr>)" "get_run rid (db\<lparr>tbl_runs := rs1\<rparr>) = Some (?f1 r)"
    using update_run_hit [of db rid r ?g1 ?f1] assms get_run_Some [OF assms(2)]
    by (auto simp: ACTIVE_RUN_STATES_def)
  let ?db1 = "db\<lparr>tbl_runs := rs1\<rparr>"
  obtain rs2 where 2: "update_runs ?g2 ?f2 ?db1 = (?db1\<lparr>tbl_runs := rs2\<rparr>, Inr [?f2 (?f1 r)])"
    "schema_ok (?db1\<lparr>tbl_runs := rs2\<rparr>)" "get_run rid (?db1\<lparr>tbl_runs := rs2\<rparr>) = Some (?f2 (?f1 r))"
    using update_run_hit [of ?db1 rid "?f1 r" ?g2 ?f2] 1 get_run_Some [OF 1(3)]
    by (auto simp: ACTIVE_RUN_STATES_def)
  let ?db2 = "?db1\<lparr>tbl_runs := rs2\<rparr>"
  have "claim_run_continuation now' rid reason' ?db1 = (?db1, Inr None)"
  proof -
    have "\<not> ?g1 x" if "x \<in> set (tbl_runs ?db1)" for x
      using get_run_unique [OF 1(2) that] 1(3) by auto
    from update_run_miss [OF 1(2), of ?g1, OF this] show ?thesis
      by (simp add: claim_run_continuation_def transactionM_def bindM_def returnM_def)
  qed
  moreover have "begin_claimed_run_continuation now3 rid ?db2 = (?db2, Inr None)"
  proof -
    have "\<not> ?g2 x" if "x \<in> set (tbl_runs ?db2)" for x
      using get_run_unique [OF 2(2) that] 2(3) by auto
    from update_run_miss [OF 2(2), of ?g2, OF this] show ?thesis
      by (simp add: begin_claimed_run_continuation_def bindM_def returnM_def)
  qed
  ultimately show ?thesis
    using 1(1) 2(1)
    by (intro exI [of _ ?db1] exI [of _ ?db2] exI [of _ "?f1 r"] exI [of _ "?f2 (?f1 r)"])
      (simp add: claim_run_continuation_def begin_claimed_run_continuation_def transactionM_def bindM_def returnM_def)
qed

theorem continuation_claim_one_shot_witness:
  "\<exists>db1 r1. claim_run_continuation 5 ''r1'' None sample_db = (db1, Inr (Some r1))
     \<and> claim_run_continuation 6 ''r1'' None db1 = (db1, Inr None)"
proof -
  have "get_run ''r1'' sample_db = Some sample_run" "run_state sample_run = ''running''"
    by (simp_all add: get_run_def store_samples)
  from continuation_claim_one_shot [OF sample_ok this, of 5 None 6 None] show ?thesis by blast
qed

end
