(* ===== verification/Result_Settlement.thy ===== *)
theory Result_Settlement
  imports Run_Closure
begin

section \<open>Recording and settling client results\<close>

text \<open>
  Idempotent recording, execution leases, late results, and the barrier a tool result must pass
  before the model continues.
\<close>

subsection \<open>Recorded results\<close>

lemma bindM_Inr_iff:
  "bindM m f db = (db', Inr y) \<longleftrightarrow> (\<exists>db1 x. m db = (db1, Inr x) \<and> f x db1 = (db', Inr y))"
  by (auto simp: bindM_def split: prod.splits sum.splits)

lemma transactionM_Inr: "transactionM m db = (db', Inr y) \<longleftrightarrow> m db = (db', Inr y)"
  by (auto simp: transactionM_def split: prod.splits sum.splits)

lemma find_result_unique:
  assumes "schema_ok db" and "row \<in> set (tbl_results db)" and "result_key row = (rid, kind, oid)"
  shows "find_result rid kind oid db = Some row"
proof (cases "find_result rid kind oid db")
  case None
  then show ?thesis using assms(2,3) by (auto simp: find_result_def find_None_all)
next
  case (Some row')
  then have "row' \<in> set (tbl_results db)" "result_key row' = (rid, kind, oid)"
    by (auto simp: find_result_def dest: find_Some_set)
  moreover have "inj_on result_key (set (tbl_results db))"
    using assms(1) by (simp add: schema_ok_def results_ok_def distinct_map)
  ultimately have "row' = row" using assms(2,3) by (simp add: inj_on_def)
  with Some show ?thesis by simp
qed

lemma insert_result_Inserted:
  "insert_or_existing_result env fresh now rid st kind oid payload db = (db1, Inr (Inserted row)) \<Longrightarrow>
   schema_ok db1 \<and> row \<in> set (tbl_results db1) \<and> result_key row = (rid, kind, oid)
   \<and> res_result_hash row = env_result_hash env payload"
  by (auto simp: insert_or_existing_result_def dbm_defs Let_def duplicate_record_def result_key_def
      split: option.splits if_splits)

text \<open>
  Recording a client result is idempotent for good: once a result is inserted, any later
  submission for the same obligation, after any other operations, inserts nothing and is
  answered from the first row: identical when its digest agrees, a conflict naming the first
  digest otherwise.
\<close>
theorem result_recording_idempotent:
  assumes "schema_ok db"
    and "record_client_result_for_step env fresh now rid st kind oid payload db = (db1, Inr (Inserted row))"
  shows "record_client_result_for_step env fresh' now' rid st' kind oid payload' (run_ops (step_op p) db1 ops)
    = (run_ops (step_op p) db1 ops,
       Inr (if env_result_hash env payload' = env_result_hash env payload
            then DuplicateIdentical row else DuplicateConflict (env_result_hash env payload)))"
proof -
  let ?db2 = "run_ops (step_op p) db1 ops"
  have ins: "schema_ok db1" "row \<in> set (tbl_results db1)" "result_key row = (rid, kind, oid)"
    "res_result_hash row = env_result_hash env payload"
    using insert_result_Inserted assms(2) unfolding record_client_result_for_step_def by blast+
  have "row \<in> set (tbl_results ?db2)"
    using machine.run_kept [OF ins(1), of p ops] ins(2) set_mono_prefix
    by (auto simp: ledger_kept_def results_kept_def)
  then have "find_result rid kind oid ?db2 = Some row"
    using find_result_unique machine.run_inv [OF ins(1)] ins(3) by blast
  then show ?thesis
    by (simp add: record_client_result_for_step_def insert_or_existing_result_def dbm_defs Let_def
        duplicate_record_def ins(4))
qed

lemma sample_record:
  "\<exists>db1 row. record_client_result_for_step sample_env 4 5 ''r1'' (Some 10) ''permission'' ''p1'' (JStr ''h'') sample_db
     = (db1, Inr (Inserted row))"
  by (simp add: record_client_result_for_step_def insert_or_existing_result_def Let_def dbm_defs find_result_def
      store_samples schema_defs state_defs)

theorem result_recording_idempotent_witness:
  "\<exists>db1 row. record_client_result_for_step sample_env 4 5 ''r1'' (Some 10) ''permission'' ''p1'' (JStr ''h'') sample_db
     = (db1, Inr (Inserted row))
   \<and> record_client_result_for_step sample_env 5 6 ''r1'' (Some 10) ''permission'' ''p1'' (JStr ''x'') db1
     = (db1, Inr (DuplicateConflict ''h''))"
proof -
  obtain db1 row where r: "record_client_result_for_step sample_env 4 5 ''r1'' (Some 10) ''permission'' ''p1''
      (JStr ''h'') sample_db = (db1, Inr (Inserted row))" using sample_record by blast
  from result_recording_idempotent [OF sample_ok r, of 5 6 "Some 10" "JStr ''x''" sample_params "[]"] r
  show ?thesis by (simp add: sample_env_def)
qed

subsection \<open>Leases\<close>

lemma update_obligation_miss:
  "schema_ok db \<Longrightarrow> (\<And>b. b \<in> set (tbl_obligations db) \<Longrightarrow> \<not> g b) \<Longrightarrow> update_obligations g f db = (db, Inr [])"
  by (simp add: update_obligations_def writeM_def update_where_none returning_def filter_empty_conv)

lemma update_obligations_Inr:
  "update_obligations g f db = (db', Inr rows) \<Longrightarrow>
   db' = db\<lparr>tbl_obligations := update_where g f (tbl_obligations db)\<rparr>
   \<and> rows = returning g f (tbl_obligations db) \<and> schema_ok db'"
  by (auto simp: update_obligations_def writeM_def split: if_splits)

lemma obligation_unique:
  "schema_ok db \<Longrightarrow> b \<in> set (tbl_obligations db) \<Longrightarrow> c \<in> set (tbl_obligations db) \<Longrightarrow> ob_id b = ob_id c \<Longrightarrow> b = c"
  by (auto simp: schema_ok_def obligations_ok_def distinct_map dest: inj_onD)

interpretation lease_claim: guarded_update ob_id "claimable oid rid session tool_call" "leased now token"
  for oid rid session tool_call now token
  by unfold_locales (simp add: leased_def)

lemma claim_tool_Some:
  assumes "claim_tool_execution now oid rid session tool_call token db = (db1, Inr (Some b))"
  shows "schema_ok db1 \<and> b \<in> set (tbl_obligations db1) \<and> ob_id b = oid
    \<and> ob_lease_attempt_token_hash b = Some token"
proof -
  obtain rows where rows: "fetch_optional rows = Some b" and
    u: "update_obligations (claimable oid rid session tool_call) (leased now token) db = (db1, Inr rows)"
    using assms by (auto simp: claim_tool_execution_def bindM_Inr_iff returnM_def)
  from rows have "b \<in> set rows" by (cases rows) auto
  with update_obligations_Inr [OF u] show ?thesis
    using returning_in_update [of b] by (auto simp: returning_def leased_def claimable_def)
qed

lemma stays_leased:
  assumes ok: "schema_ok db1" and b: "b \<in> set (tbl_obligations db1)"
    and l: "ob_lease_attempt_token_hash b = Some token"
    and c: "c \<in> set (tbl_obligations (run_ops (step_op p) db1 ops))" and "ob_id c = ob_id b"
  shows "ob_lease_attempt_token_hash c = Some token"
proof -
  have "ledger_kept db1 (run_ops (step_op p) db1 ops)" by (rule machine.run_kept [OF ok])
  then obtain b' where "b' \<in> set (tbl_obligations (run_ops (step_op p) db1 ops))" "ob_kept b b'"
    using b by (auto simp: ledger_kept_def obligations_kept_def)
  with obligation_unique [OF machine.run_inv [OF ok] c] assms(5) l show ?thesis
    by (auto simp: ob_kept_def)
qed

text \<open>
  C3. A lease excludes every other attempt for good: after a successful claim, and after any
  further operations, even past the lease's expiry, no other token can claim the obligation,
  renew the lease or record a result for it; all three leave the database as it is.
\<close>
theorem lease_excludes_other_attempts:
  assumes "schema_ok db"
    and "claim_tool_execution now oid rid session tool_call token db = (db1, Inr (Some b))"
    and "token' \<noteq> token"
  shows "let db2 = run_ops (step_op p) db1 ops in
      claim_tool_execution now' oid rid' session' tool_call' token' db2 = (db2, Inr None)
    \<and> renew_tool_execution now' oid rid' session' tool_call' token' db2 = (db2, Inr None)
    \<and> record_claimed_tool_result_for_step env fresh now' rid' st oid tool_call' token' payload db2
      = (db2, Inr ClaimRejected)"
proof -
  define db2 where "db2 = run_ops (step_op p) db1 ops"
  note c = claim_tool_Some [OF assms(2)]
  have ok2: "schema_ok db2" unfolding db2_def using c machine.run_inv by blast
  have leased: "ob_lease_attempt_token_hash x = Some token" if "x \<in> set (tbl_obligations db2)" "ob_id x = oid" for x
    using stays_leased [of db1 b token x p ops] c that by (simp add: db2_def)
  have "update_obligations (claimable oid rid' session' tool_call') f db2 = (db2, Inr [])"
    "update_obligations (renewable now' oid rid' session' tool_call' token') f db2 = (db2, Inr [])"
    "update_obligations (claimed_tool_row now' oid rid' tool_call' token') f db2 = (db2, Inr [])" for f
    using leased assms(3)
    by (auto intro!: update_obligation_miss [OF ok2]
        simp: claimable_def renewable_def claimed_tool_row_def claimed_by_def)
  then show ?thesis
    by (simp add: claim_tool_execution_def renew_tool_execution_def record_claimed_tool_result_for_step_def
        bindM_def returnM_def transactionM_def Let_def flip: db2_def)
qed

lemma sample_claim: "\<exists>db1 b. claim_tool_execution 5 1 ''r1'' ''s1'' ''t1'' ''tok'' sample_db = (db1, Inr (Some b))"
  by (simp add: claim_tool_execution_def update_obligations_def dbm_defs update_where_def returning_def claimable_def
      leased_def store_samples schema_defs state_defs)

theorem lease_excludes_other_attempts_witness:
  "\<exists>db1 b. claim_tool_execution 5 1 ''r1'' ''s1'' ''t1'' ''tok'' sample_db = (db1, Inr (Some b))
     \<and> claim_tool_execution 99999 1 ''r1'' ''s1'' ''t1'' ''other'' db1 = (db1, Inr None)"
proof -
  obtain db1 b where c: "claim_tool_execution 5 1 ''r1'' ''s1'' ''t1'' ''tok'' sample_db = (db1, Inr (Some b))"
    using sample_claim by blast
  from lease_excludes_other_attempts [OF sample_ok c, of "''other''" sample_params "[]" 99999 "''r1''" "''s1''" "''t1''"] c
  show ?thesis by simp
qed

text \<open>An assignment that leaves the key columns of an obligation alone.\<close>

definition keeps_keys :: "(turn_obligation_row \<Rightarrow> turn_obligation_row) \<Rightarrow> bool" where
  "keeps_keys f \<longleftrightarrow> (\<forall>b. ob_id (f b) = ob_id b \<and> ob_run_id (f b) = ob_run_id b
     \<and> ob_tool_call_id (f b) = ob_tool_call_id b \<and> ob_permission_id (f b) = ob_permission_id b
     \<and> ob_turn_step_id (f b) = ob_turn_step_id b)"

lemma keeps_keys_assigns: "keeps_keys (leased now token)" "keeps_keys (renewed now)" "keeps_keys (received now payload)"
  by (simp_all add: keeps_keys_def leased_def renewed_def received_def)

lemma update_obligation_hit:
  assumes ok: "schema_ok db" and b: "b \<in> set (tbl_obligations db)" and g: "g b"
    and only: "\<And>x. g x \<Longrightarrow> ob_id x = ob_id b"
    and keys: "keeps_keys f"
    and fine: "obligation_ok (f b)"
  shows "\<exists>os. update_obligations g f db = (db\<lparr>tbl_obligations := os\<rparr>, Inr [f b])
    \<and> schema_ok (db\<lparr>tbl_obligations := os\<rparr>) \<and> f b \<in> set os
    \<and> set os = insert (f b) (set (tbl_obligations db) - {b})"
proof -
  let ?os = "update_where g f (tbl_obligations db)"
  have uniq: "x = b" if "x \<in> set (tbl_obligations db)" "g x" for x
    by (rule obligation_unique [OF ok that(1) b only [OF that(2)]])
  have ok': "schema_ok (db\<lparr>tbl_obligations := ?os\<rparr>)"
  proof (rule schema_update_obligations [OF ok])
    fix x assume "x \<in> set (tbl_obligations db)" and "g x"
    then have "x = b" by (rule uniq)
    with keys fine show "ob_id (f x) = ob_id x \<and> ob_run_id (f x) = ob_run_id x
        \<and> ob_tool_call_id (f x) = ob_tool_call_id x \<and> ob_permission_id (f x) = ob_permission_id x
        \<and> ob_turn_step_id (f x) = ob_turn_step_id x" "obligation_ok (f x)" by (simp_all add: keeps_keys_def)
  qed
  have "filter g (tbl_obligations db) = filter (\<lambda>x. ob_id x = ob_id b \<and> g x) (tbl_obligations db)"
    using only by (intro filter_cong) auto
  also have "\<dots> = [b]"
  proof (rule filter_unique_key)
    show "distinct (map ob_id (tbl_obligations db))" using ok by (simp add: schema_ok_def obligations_ok_def)
    have "List.find (\<lambda>x. ob_id x = ob_id b) (tbl_obligations db) \<noteq> None"
      unfolding find_None_all using b by auto
    then obtain x where x: "List.find (\<lambda>x. ob_id x = ob_id b) (tbl_obligations db) = Some x" by auto
    then have "x \<in> set (tbl_obligations db)" "ob_id x = ob_id b" using find_Some_set [OF x] by simp_all
    then have "x = b" by (rule obligation_unique [OF ok _ b])
    with x show "List.find (\<lambda>x. ob_id x = ob_id b) (tbl_obligations db) = Some b" by simp
  qed (rule g)
  finally have "returning g f (tbl_obligations db) = [f b]" by (simp add: returning_def)
  moreover have "set ?os = insert (f b) (set (tbl_obligations db) - {b})"
  proof -
    have "set ?os = (\<lambda>x. if x = b then f b else x) ` set (tbl_obligations db)"
      unfolding set_update_where
    proof (rule image_cong [OF refl])
      fix x assume x: "x \<in> set (tbl_obligations db)"
      have "g x \<longleftrightarrow> x = b" using uniq [OF x] g by blast
      then show "(if g x then f x else x) = (if x = b then f b else x)" by simp
    qed
    also have "\<dots> = insert (f b) (set (tbl_obligations db) - {b})" using b by auto
    finally show ?thesis .
  qed
  ultimately show ?thesis using ok' update_obligations_ok [OF ok'] by (intro exI [of _ ?os]) simp
qed

lemma in_obligations_ok: "schema_ok db \<Longrightarrow> b \<in> set (tbl_obligations db) \<Longrightarrow> obligation_ok b"
  by (simp add: schema_ok_def obligations_ok_def)

lemma schema_new_result:
  "schema_ok db \<Longrightarrow> res_id row \<notin> res_id ` set (tbl_results db) \<Longrightarrow>
   result_key row \<notin> result_key ` set (tbl_results db) \<Longrightarrow>
   res_obligation_kind row = ''tool'' \<or> res_obligation_kind row = ''permission'' \<Longrightarrow>
   res_run_id row \<in> run_id ` set (tbl_runs db) \<Longrightarrow>
   step_ref_ok (map step_id (tbl_steps db)) (res_turn_step_id row) \<Longrightarrow>
   schema_ok (db\<lparr>tbl_results := tbl_results db @ [row]\<rparr>)"
  by (auto simp: schema_ok_def results_ok_def references_ok_def)

text \<open>
  The holder of a lease gets its work recorded: a waiting, unclaimed tool obligation can be
  claimed, the holder can renew before the lease runs out, and a result sent with its token
  before the renewed lease runs out is inserted and moves the obligation to
  \<open>result_received\<close>.
\<close>
theorem lease_holder_gets_recorded:
  assumes "schema_ok db" and "b \<in> set (tbl_obligations db)"
    and "ob_kind b = ''tool_result''" and "ob_expected_responder_action b = ''tool_result''"
    and "ob_state b = ''waiting_for_client''" and "ob_lease_attempt_token_hash b = None"
    and "ob_tool_call_id b = Some tc"
    and "now' < lease_end now" and "now2 < lease_end now'"
    and "find_result (ob_run_id b) ''tool'' tc db = None" and "fresh \<notin> res_id ` set (tbl_results db)"
  shows "\<exists>db1 db2 db3 b1 b2 row.
      claim_tool_execution now (ob_id b) (ob_run_id b) (ob_session_id b) tc token db = (db1, Inr (Some b1))
    \<and> renew_tool_execution now' (ob_id b) (ob_run_id b) (ob_session_id b) tc token db1 = (db2, Inr (Some b2))
    \<and> ob_lease_expires_at b2 = Some (lease_end now')
    \<and> record_claimed_tool_result_for_step env fresh now2 (ob_run_id b) (ob_turn_step_id b) (ob_id b) tc token
        payload db2 = (db3, Inr (Recorded (Inserted row)))
    \<and> tbl_results db3 = tbl_results db @ [row] \<and> res_payload_json row = payload
    \<and> (\<exists>b3 \<in> set (tbl_obligations db3). ob_id b3 = ob_id b \<and> ob_state b3 = ''result_received''
         \<and> ob_result_payload b3 = Some payload)"
proof -
  let ?b1 = "leased now token b" and ?b2 = "renewed now' (leased now token b)"
  let ?b3 = "received now2 payload ?b2"
  let ?row = "\<lparr>res_id = fresh, res_run_id = ob_run_id b, res_obligation_kind = ''tool'', res_obligation_id = tc,
     res_result_hash = env_result_hash env payload, res_payload_json = payload,
     res_turn_step_id = ob_turn_step_id b, res_created_at = now2\<rparr>"
  have "obligation_ok b" using in_obligations_ok assms(1,2) .
  then have fine: "obligation_ok ?b1" "obligation_ok ?b2" "obligation_ok ?b3"
    using assms(3)
    by (simp_all add: obligation_ok_def lease_shape_def OPEN_OBLIGATION_STATES_def leased_def renewed_def received_def)
  define g1 where "g1 = claimable (ob_id b) (ob_run_id b) (ob_session_id b) tc"
  define g2 where "g2 = renewable now' (ob_id b) (ob_run_id b) (ob_session_id b) tc token"
  define g3 where "g3 = claimed_tool_row now2 (ob_id b) (ob_run_id b) tc token"
  have g: "g1 b" "g2 ?b1" "g3 ?b2"
    using assms(3-9) by (simp_all add: g1_def g2_def g3_def claimable_def renewable_def claimed_tool_row_def
        claimed_by_def leased_def renewed_def)
  have o1: "g1 x \<Longrightarrow> ob_id x = ob_id b" for x by (simp add: g1_def claimable_def)
  have o2: "g2 x \<Longrightarrow> ob_id x = ob_id ?b1" for x
    by (simp add: g2_def renewable_def claimed_tool_row_def leased_def)
  have o3: "g3 x \<Longrightarrow> ob_id x = ob_id ?b2" for x
    by (simp add: g3_def claimed_tool_row_def leased_def renewed_def)
  obtain os1 where 1: "update_obligations g1 (leased now token) db = (db\<lparr>tbl_obligations := os1\<rparr>, Inr [?b1])"
      "schema_ok (db\<lparr>tbl_obligations := os1\<rparr>)" "?b1 \<in> set (tbl_obligations (db\<lparr>tbl_obligations := os1\<rparr>))"
    using update_obligation_hit [of db b g1, OF assms(1,2) g(1) o1 keeps_keys_assigns(1) fine(1)] by force
  obtain os2 where 2: "update_obligations g2 (renewed now') (db\<lparr>tbl_obligations := os1\<rparr>)
        = (db\<lparr>tbl_obligations := os2\<rparr>, Inr [?b2])"
      "schema_ok (db\<lparr>tbl_obligations := os2\<rparr>)" "?b2 \<in> set (tbl_obligations (db\<lparr>tbl_obligations := os2\<rparr>))"
    using update_obligation_hit [of _ ?b1 g2, OF 1(2,3) g(2) o2 keeps_keys_assigns(2) fine(2)] by force
  obtain os3 where 3: "update_obligations g3 (received now2 payload) (db\<lparr>tbl_obligations := os2\<rparr>)
        = (db\<lparr>tbl_obligations := os3\<rparr>, Inr [?b3])"
      "schema_ok (db\<lparr>tbl_obligations := os3\<rparr>)" "?b3 \<in> set os3"
    using update_obligation_hit [of _ ?b2 g3, OF 2(2,3) g(3) o3 keeps_keys_assigns(3) fine(3)] by force
  let ?db3 = "db\<lparr>tbl_obligations := os3\<rparr>"
  have "schema_ok (?db3\<lparr>tbl_results := tbl_results ?db3 @ [?row]\<rparr>)"
  proof (rule schema_new_result [OF 3(2)])
    show "result_key ?row \<notin> result_key ` set (tbl_results ?db3)"
      using assms(10) by (auto simp: find_result_def find_None_all result_key_def)
    show "res_run_id ?row \<in> run_id ` set (tbl_runs ?db3)"
      "step_ref_ok (map step_id (tbl_steps ?db3)) (res_turn_step_id ?row)"
      using assms(1,2) by (auto simp: schema_ok_def references_ok_def)
  qed (use assms(11) in simp_all)
  then have "record_claimed_tool_result_for_step env fresh now2 (ob_run_id b) (ob_turn_step_id b) (ob_id b) tc token
        payload (db\<lparr>tbl_obligations := os2\<rparr>) = (?db3\<lparr>tbl_results := tbl_results db @ [?row]\<rparr>, Inr (Recorded (Inserted ?row)))"
    using 3(1) assms(10)
    by (simp add: record_claimed_tool_result_for_step_def insert_or_existing_result_def dbm_defs Let_def find_result_def
        flip: g3_def)
  moreover have "ob_lease_expires_at ?b2 = Some (lease_end now')" by (simp add: renewed_def)
  moreover have "ob_id ?b3 = ob_id b \<and> ob_state ?b3 = ''result_received'' \<and> ob_result_payload ?b3 = Some payload"
    by (simp add: received_def renewed_def leased_def)
  ultimately show ?thesis using 1(1) 2(1) 3(3)
    by (intro exI [of _ "db\<lparr>tbl_obligations := os1\<rparr>"] exI [of _ "db\<lparr>tbl_obligations := os2\<rparr>"]
        exI [of _ "?db3\<lparr>tbl_results := tbl_results db @ [?row]\<rparr>"] exI [of _ ?b1] exI [of _ ?b2] exI [of _ ?row])
      (auto simp: claim_tool_execution_def renew_tool_execution_def bindM_def returnM_def simp flip: g1_def g2_def)
qed

theorem lease_holder_gets_recorded_witness:
  "\<exists>db1 b1. claim_tool_execution 5 1 ''r1'' ''s1'' ''t1'' ''tok'' sample_db = (db1, Inr (Some b1))
   \<and> (\<exists>db2 b2 db3 row. renew_tool_execution 6 1 ''r1'' ''s1'' ''t1'' ''tok'' db1 = (db2, Inr (Some b2))
      \<and> record_claimed_tool_result_for_step sample_env 4 7 ''r1'' (Some 10) 1 ''t1'' ''tok'' JNull db2
        = (db3, Inr (Recorded (Inserted row))))"
proof -
  have h: "sample_tool \<in> set (tbl_obligations sample_db)" "ob_kind sample_tool = ''tool_result''"
    "ob_expected_responder_action sample_tool = ''tool_result''" "ob_state sample_tool = ''waiting_for_client''"
    "ob_lease_attempt_token_hash sample_tool = None" "ob_tool_call_id sample_tool = Some ''t1''"
    "(6::int) < lease_end 5" "(7::int) < lease_end 6"
    "find_result (ob_run_id sample_tool) ''tool'' ''t1'' sample_db = None" "4 \<notin> res_id ` set (tbl_results sample_db)"
    by (simp_all add: store_samples lease_end_def TOOL_LEASE_DURATION_SECONDS_def find_result_def)
  have k: "ob_id sample_tool = 1" "ob_run_id sample_tool = ''r1''" "ob_session_id sample_tool = ''s1''"
    "ob_turn_step_id sample_tool = Some 10" by (simp_all add: store_samples)
  from lease_holder_gets_recorded [OF sample_ok h, of "''tok''" sample_env JNull] show ?thesis
    unfolding k by blast
qed

subsection \<open>Late results\<close>

lemma existing_result_keeps_db:
  "fst (existing_client_result_or_late env run ob kind oid payload db) = db"
  by (auto simp: existing_client_result_or_late_def dbm_defs split: option.splits turn_obligation_result_record.splits)

fun settles_nothing :: "store_error + tool_result_outcome \<Rightarrow> bool" where
  "settles_nothing (Inr (ToolContinueModel _ _)) = False"
| "settles_nothing (Inr (ToolWaitingForMore _ _ _)) = False"
| "settles_nothing _ = True"

lemma claim_rejected_when_closed:
  assumes "schema_ok db" and "run_closed rid db"
  shows "record_claimed_tool_result_for_step env fresh now rid st oid tc token payload db = (db, Inr ClaimRejected)"
proof -
  have "\<not> claimed_tool_row now oid rid tc token b" if "b \<in> set (tbl_obligations db)" for b
    using that assms(2)
    by (auto simp: run_closed_def claimed_tool_row_def claimed_by_def SETTLED_OBLIGATION_STATES_def)
  from update_obligation_miss [OF assms(1), of "claimed_tool_row now oid rid tc token", OF this]
  show ?thesis by (simp add: record_claimed_tool_result_for_step_def dbm_defs)
qed

text \<open>
  A late tool result changes nothing: when the run is closed in the store (whatever the
  caller read earlier), or the caller read a terminal run or a settled obligation, submitting a
  tool result leaves the database exactly as it is and neither continues the model nor waits
  for more results.
\<close>
theorem late_tool_result_changes_nothing:
  assumes "schema_ok db"
    and "run_closed (run_id run) db \<or> run_is_terminal run \<or> \<not> obligation_is_open ob"
  shows "fst (record_and_settle_tool_result_for_step env fresh clock run ob given token kind oid payload db) = db
    \<and> settles_nothing (snd (record_and_settle_tool_result_for_step env fresh clock run ob given token kind oid payload db))"
proof (cases "validate_result_turn_step (env_uuid_str env) ob given")
  case (Inl e)
  then show ?thesis by (simp add: record_and_settle_tool_result_for_step_def failM_def)
next
  case (Inr u)
  obtain r where e: "existing_client_result_or_late env run ob kind oid payload db = (db, r)"
    using existing_result_keeps_db by (metis prod.collapse)
  show ?thesis
  proof (cases r)
    case (Inl err)
    then show ?thesis using Inr e by (simp add: record_and_settle_tool_result_for_step_def bindM_def)
  next
    case r: (Inr x)
    show ?thesis
    proof (cases x)
      case None
      then have "run_closed (run_id run) db"
        using e r assms(2)
        by (auto simp: existing_client_result_or_late_def dbm_defs
            split: option.splits turn_obligation_result_record.splits if_splits)
      with claim_rejected_when_closed [OF assms(1)] show ?thesis
        using Inr e r None by (simp add: record_and_settle_tool_result_for_step_def bindM_def returnM_def)
    next
      case (Some outcome)
      then show ?thesis
        using Inr e r by (cases outcome) (simp_all add: record_and_settle_tool_result_for_step_def bindM_def returnM_def)
    qed
  qed
qed

theorem late_tool_result_changes_nothing_witness:
  "fst (record_and_settle_tool_result_for_step sample_env 4 (\<lambda>n. int n) sample_done sample_settled None ''tok'' ''tool''
      ''t0'' JNull sample_db) = sample_db"
  using late_tool_result_changes_nothing [OF sample_ok, of sample_done sample_settled sample_env 4 "\<lambda>n. int n" None]
  by (simp add: run_is_terminal_def sample_done_def TERMINAL_RUN_STATES_def)

subsection \<open>The step barrier\<close>

lemma open_rows_Nil:
  "open_client_rows p db = [] \<longleftrightarrow> (\<forall>b \<in> set (tbl_obligations db). \<not> (p b \<and> ob_state b \<in> set CLIENT_OPEN_STATES))"
proof -
  have "open_client_rows p db = [] \<longleftrightarrow> set (open_client_rows p db) = {}" by simp
  also have "\<dots> \<longleftrightarrow> (\<forall>b \<in> set (tbl_obligations db). \<not> (p b \<and> ob_state b \<in> set CLIENT_OPEN_STATES))"
    by (auto simp: open_client_rows_def)
  finally show ?thesis .
qed

text \<open>Closing the barrier opens no obligation of the step or the run.\<close>

definition opens_nothing :: "den_db \<Rightarrow> den_db \<Rightarrow> bool" where
  "opens_nothing db db' \<longleftrightarrow>
     (\<forall>b' \<in> set (tbl_obligations db'). ob_state b' \<in> set CLIENT_OPEN_STATES \<longrightarrow> b' \<in> set (tbl_obligations db))"

interpretation barrier: db_frame schema_ok opens_nothing
  by unfold_locales (auto simp: opens_nothing_def)

lemma mark_continued_opens_nothing: "stays opens_nothing (mark_continued now oid)"
  unfolding mark_continued_def update_obligations_def
  by (intro barrier.stays_intros barrier.stays_write)
    (auto simp: opens_nothing_def CLIENT_OPEN_STATES_def elim: in_update_whereE)

lemma transition_opens_nothing:
  "stays opens_nothing (transition_run now rid state reason)"
  "stays opens_nothing (transition_step now sid st)"
  unfolding transition_run_def transition_step_def update_runs_def update_steps_def
  by (intro barrier.stays_intros barrier.stays_write; simp add: opens_nothing_def)+

lemma continue_opens_nothing: "stays opens_nothing (continue_after_client_result clock run ob)"
  unfolding continue_after_client_result_def
  by (intro barrier.stays_intros mark_continued_opens_nothing transition_opens_nothing)

lemma opens_nothing_rows:
  "opens_nothing db db' \<Longrightarrow> open_client_rows p db = [] \<Longrightarrow> open_client_rows p db' = []"
  unfolding open_rows_Nil by (auto simp: opens_nothing_def)

lemma settle_recorded_barrier:
  assumes "schema_ok db"
    and "settle_recorded_tool_result clock run ob db = (db', Inr (ToolContinueModel run' res))"
  shows "step_or_run_open run ob db' = []"
proof -
  have empty: "step_or_run_open run ob db = []"
    and c: "fst (continue_after_client_result clock run ob db) = db'"
    using assms(2)
    by (auto simp: settle_recorded_tool_result_def bindM_Inr_iff queryM_def returnM_def split: if_splits)
  then have "opens_nothing db db'"
    using staysD [OF continue_opens_nothing assms(1), of clock run ob] by simp
  with empty show ?thesis
    by (auto simp: step_or_run_open_def open_client_obligations_for_step_def
        open_client_obligations_for_run_def opens_nothing_rows split: option.splits)
qed

lemma attach_continue:
  "attach_tool_result outcome row = ToolContinueModel run' res \<Longrightarrow> \<exists>res'. outcome = ToolContinueModel run' res'"
  by (cases outcome) auto

lemma tool_outcome_not_continue: "tool_outcome_of_existing x \<noteq> ToolContinueModel run' res"
  by (cases x) auto

text \<open>
  C30. The model continues only past a closed barrier: when a submitted tool result makes the
  model continue, no obligation of the result's step (of its run, when it has no step) is still
  waiting for its client.
\<close>
theorem tool_result_continues_past_barrier:
  assumes "schema_ok db"
    and "record_and_settle_tool_result_for_step env fresh clock run ob given token kind oid payload db
         = (db', Inr (ToolContinueModel run' res))"
  shows "step_or_run_open run ob db' = []"
proof -
  obtain db1 rec where rec: "record_claimed_tool_result_for_step env fresh (clock 0) (run_id run)
        (ob_turn_step_id ob) (ob_id ob) oid token payload db = (db1, Inr rec)"
    and rest: "(case rec of
        ClaimRejected \<Rightarrow> returnM (ToolIgnoredLate (run_state run) (ob_state ob))
      | Recorded (Inserted row) \<Rightarrow>
          bindM (settle_recorded_tool_result (\<lambda>n. clock (Suc n)) run ob) (\<lambda>outcome.
            returnM (attach_tool_result outcome row))
      | Recorded (DuplicateIdentical row) \<Rightarrow> returnM (ToolDuplicateIdentical row (run_state run))
      | Recorded (DuplicateConflict hash) \<Rightarrow> returnM (ToolDuplicateConflict hash)) db1
      = (db', Inr (ToolContinueModel run' res))"
  proof -
    obtain x where "existing_client_result_or_late env run ob kind oid payload db = (db, Inr x)"
      using assms(2) existing_result_keeps_db [of env run ob kind oid payload db]
      by (auto simp: record_and_settle_tool_result_for_step_def bindM_Inr_iff failM_def split: sum.splits)
    with assms(2) that show ?thesis
      by (auto simp: record_and_settle_tool_result_for_step_def bindM_Inr_iff failM_def returnM_def
          tool_outcome_not_continue split: sum.splits option.splits)
  qed
  have ok1: "schema_ok db1"
    using staysD [OF ledger.stays_record_claimed assms(1)] rec by (metis fst_conv)
  from rest obtain row outcome where "rec = Recorded (Inserted row)"
    and s: "settle_recorded_tool_result (\<lambda>n. clock (Suc n)) run ob db1 = (db', Inr outcome)"
    and "attach_tool_result outcome row = ToolContinueModel run' res"
    by (auto simp: bindM_Inr_iff returnM_def split: claimed_tool_result_record.splits turn_obligation_result_record.splits)
  then show ?thesis using attach_continue settle_recorded_barrier [OF ok1] by blast
qed

definition single_db :: den_db where
  "single_db = sample_db\<lparr>tbl_obligations := [leased 5 ''tok'' sample_tool]\<rparr>"

lemma single_ok: "schema_ok single_db"
  by (simp add: single_db_def leased_def schema_defs state_defs store_samples)

lemmas coordinator_defs = record_and_settle_tool_result_for_step_def existing_client_result_or_late_def
  existing_client_result_for_payload_def find_result_def run_is_terminal_def obligation_is_open_def ob_state_value_def
  ob_state_from_storage_def record_claimed_tool_result_for_step_def insert_or_existing_result_def
  settle_recorded_tool_result_def step_or_run_open_def open_client_obligations_for_step_def open_client_rows_def
  continue_after_client_result_def transition_run_def transition_step_def mark_continued_def
  update_runs_def update_obligations_def update_steps_def validate_result_turn_step_def
  update_where_def returning_def claimed_tool_row_def claimed_by_def received_def leased_def lease_end_def
  TOOL_LEASE_DURATION_SECONDS_def run_not_terminal_def run_state_terminal_def step_state_terminal_def

lemma single_result:
  "\<exists>db' run' res. record_and_settle_tool_result_for_step sample_env 4 (\<lambda>n. 6) sample_run (leased 5 ''tok'' sample_tool) None
      ''tok'' ''tool'' ''t1'' JNull single_db = (db', Inr (ToolContinueModel run' res))"
  by (simp add: coordinator_defs dbm_defs Let_def single_db_def schema_defs state_defs store_samples)

theorem tool_result_continues_past_barrier_witness:
  "\<exists>db' run' res. record_and_settle_tool_result_for_step sample_env 4 (\<lambda>n. 6) sample_run (leased 5 ''tok'' sample_tool) None
      ''tok'' ''tool'' ''t1'' JNull single_db = (db', Inr (ToolContinueModel run' res))
    \<and> step_or_run_open sample_run (leased 5 ''tok'' sample_tool) db' = []"
proof -
  obtain db' run' res where r: "record_and_settle_tool_result_for_step sample_env 4 (\<lambda>n. 6) sample_run
      (leased 5 ''tok'' sample_tool) None ''tok'' ''tool'' ''t1'' JNull single_db
      = (db', Inr (ToolContinueModel run' res))" using single_result by blast
  from tool_result_continues_past_barrier [OF single_ok r] r show ?thesis by blast
qed

end
