(* ===== verification/Turn_Queries.thy ===== *)
theory Turn_Queries
  imports Result_Settlement
begin

section \<open>Reading the store\<close>

text \<open>
  Paged reading of the event log, the blocking reason of open obligations, and the
  reconciliation sweep.
\<close>

subsection \<open>Reading the event log\<close>

definition session_events :: "string \<Rightarrow> int option \<Rightarrow> den_db \<Rightarrow> bearwire_event_row list" where
  "session_events session after db =
     filter (\<lambda>r. er_session_id r = session
        \<and> (case after of None \<Rightarrow> True | Some n \<Rightarrow> er_sequence_no r > n)) (tbl_events db)"

text \<open>A client that reads page after page, each from the last sequence number it has seen.\<close>

fun read_pages :: "nat \<Rightarrow> string \<Rightarrow> int option \<Rightarrow> int \<Rightarrow> den_db \<Rightarrow> bearwire_event_row list" where
  "read_pages 0 session after limit db = []"
| "read_pages (Suc n) session after limit db =
     (let page = list_bearwire_events_after session after limit db in
      if page = [] then []
      else page @ read_pages n session (Some (er_sequence_no (last page))) limit db)"

lemma sorted_session_events:
  "log_ok db \<Longrightarrow> sorted_wrt (<) (map er_sequence_no (session_events session after db))"
  unfolding log_ok_def session_events_def
  by (auto simp: sorted_wrt_map intro: sorted_wrt_filter)

lemma strict_sorted_sort_key:
  "sorted_wrt (<) (map k xs) \<Longrightarrow> sort_key k xs = xs" for k :: "'a \<Rightarrow> int"
  by (rule sort_key_id_if_sorted) (simp add: strict_sorted_imp_sorted)

lemma events_page:
  "log_ok db \<Longrightarrow> list_bearwire_events_after session after limit db
   = take (nat (max 1 (min 501 limit))) (session_events session after db)"
  unfolding list_bearwire_events_after_def Let_def session_events_def [symmetric]
  by (simp add: strict_sorted_sort_key sorted_session_events)

lemma filter_after_last:
  fixes k :: "'a \<Rightarrow> int"
  assumes "sorted_wrt (<) (map k xs)" and "0 < n" and "xs \<noteq> []"
  shows "filter (\<lambda>x. k x > k (last (take n xs))) xs = drop n xs"
proof -
  have "sorted_wrt (<) (map k (take n xs) @ map k (drop n xs))"
    using assms(1) by (simp flip: map_append)
  then have s: "sorted_wrt (<) (map k (take n xs))" "\<forall>x \<in> set (take n xs). \<forall>y \<in> set (drop n xs). k x < k y"
    by (auto simp: sorted_wrt_append)
  have ne: "take n xs \<noteq> []" using assms by simp
  have "\<not> k x > k (last (take n xs))" if "x \<in> set (take n xs)" for x
  proof -
    have "sorted_wrt (<) (map k (butlast (take n xs)) @ [k (last (take n xs))])"
      using s(1) ne by (metis append_butlast_last_id list.simps(8,9) map_append)
    moreover have "x \<in> set (butlast (take n xs)) \<or> x = last (take n xs)"
      using that ne by (metis Un_iff append_butlast_last_id empty_iff insert_iff list.set(1,2) set_append)
    ultimately show ?thesis by (auto simp: sorted_wrt_append)
  qed
  then have "filter (\<lambda>x. k x > k (last (take n xs))) (take n xs) = []" by (simp add: filter_empty_conv)
  moreover have "filter (\<lambda>x. k x > k (last (take n xs))) (drop n xs) = drop n xs"
    using s(2) ne by (simp add: filter_id_conv)
  ultimately have "filter (\<lambda>x. k x > k (last (take n xs))) (take n xs @ drop n xs) = drop n xs"
    by (simp only: filter_append append_Nil)
  then show ?thesis by simp
qed

lemma session_events_rest:
  assumes "log_ok db" and "0 < n" and "session_events session after db \<noteq> []"
  shows "session_events session (Some (er_sequence_no (last (take n (session_events session after db))))) db
    = drop n (session_events session after db)"
proof -
  let ?all = "session_events session after db"
  let ?m = "er_sequence_no (last (take n ?all))"
  have "last (take n ?all) \<in> set ?all"
    using assms by (metis in_set_takeD last_in_set take_eq_Nil neq0_conv)
  moreover have "case after of None \<Rightarrow> True | Some a \<Rightarrow> er_sequence_no r > a" if "r \<in> set ?all" for r
    using that by (simp add: session_events_def)
  ultimately have "case after of None \<Rightarrow> True | Some a \<Rightarrow> ?m > a" by blast
  then have "session_events session (Some ?m) db = filter (\<lambda>r. er_sequence_no r > ?m) ?all"
    unfolding session_events_def by (auto intro!: filter_cong split: option.splits)
  also have "\<dots> = drop n ?all"
    using sorted_session_events [OF assms(1)] assms(2,3) by (rule filter_after_last)
  finally show ?thesis .
qed

text \<open>
  Reading the event log page by page misses nothing and repeats nothing: with any page
  limit and any starting cursor, as many reads as there are events return exactly the session's
  events after the cursor, in order.
\<close>
theorem paged_reading_is_complete:
  assumes "log_ok db" and "length (session_events session after db) \<le> n"
  shows "read_pages n session after limit db = session_events session after db"
  using assms(2)
proof (induction n arbitrary: after)
  case 0
  then show ?case by simp
next
  case (Suc n)
  define k where "k = nat (max 1 (min 501 limit))"
  have k: "0 < k" by (simp add: k_def)
  let ?all = "session_events session after db"
  have page: "list_bearwire_events_after session after limit db = take k ?all"
    using events_page [OF assms(1)] by (simp add: k_def)
  show ?case
  proof (cases "?all = []")
    case True
    then show ?thesis using page by simp
  next
    case False
    note rest = session_events_rest [OF assms(1) k False]
    have "length (drop k ?all) \<le> n" using Suc.prems k False by (cases ?all) auto
    then have "read_pages n session (Some (er_sequence_no (last (take k ?all)))) limit db = drop k ?all"
      using Suc.IH rest by metis
    then show ?thesis using page False k by (simp add: Let_def)
  qed
qed

theorem paged_reading_is_complete_witness:
  "read_pages 2 ''s1'' None 1 sample_db = [sample_event_row 1, sample_event_row 2]"
  using paged_reading_is_complete [OF sample_log_ok, of "''s1''" None 2 1]
  by (simp add: session_events_def store_samples)

subsection \<open>Blocking reasons\<close>

lemma blocking_loop_Some:
  "blocking_loop (Some r) as =
     (if \<forall>a \<in> set as. action_blocking_reason a = r then Some r else Some BlockMultiple)"
  by (induction as) (auto simp: Let_def)

lemma action_blocking_inject: "action_blocking_reason a = action_blocking_reason b \<longleftrightarrow> a = b"
  by (cases a; cases b) simp_all

text \<open>
  The blocking reason names what the client must do: none without open obligations, the
  one expected action when all agree, and \<open>multiple\<close> exactly when two open obligations expect
  different actions.
\<close>
theorem blocking_reason_spec:
  "from_expected_actions as =
     (if as = [] then None
      else if \<exists>a b. a \<in> set as \<and> b \<in> set as \<and> a \<noteq> b then Some BlockMultiple
      else Some (action_blocking_reason (hd as)))"
proof (cases as)
  case Nil
  then show ?thesis by (simp add: from_expected_actions_def)
next
  case (Cons a list)
  have "(\<exists>x y. x \<in> set as \<and> y \<in> set as \<and> x \<noteq> y) \<longleftrightarrow> (\<exists>x \<in> set list. x \<noteq> a)"
    unfolding Cons list.simps(15) by (metis insert_iff)
  then show ?thesis
    by (simp add: Cons from_expected_actions_def Let_def blocking_loop_Some action_blocking_inject)
qed

subsection \<open>The reconciliation sweep\<close>

text \<open>
  The sweep finds every stale obligation: as long as no more obligations are open than the
  clamped limit, it returns exactly those waiting on a client that have timed out or were
  requested by an earlier process, oldest first.
\<close>
theorem sweep_finds_stale_obligations:
  assumes "length (open_client_rows (\<lambda>_. True) db) \<le> nat (max 1 (min 10000 limit))"
  shows "set (client_obligations_requiring_reconciliation policy as_i64 parse_uuid now current limit db)
      = {b \<in> set (tbl_obligations db). ob_state b \<in> set CLIENT_OPEN_STATES
           \<and> (timed_out policy as_i64 now b \<or> belongs_to_prior_process_epoch parse_uuid current b)}
    \<and> sorted (map ob_created_at
        (client_obligations_requiring_reconciliation policy as_i64 parse_uuid now current limit db))"
proof -
  have "open_client_obligations limit db = open_client_rows (\<lambda>_. True) db"
    using assms by (simp add: open_client_obligations_def Let_def)
  moreover have "sorted (map ob_created_at (filter p (open_client_rows (\<lambda>_. True) db)))" for p
    by (simp add: open_client_rows_def sorted_filter)
  ultimately show ?thesis
    by (auto simp: client_obligations_requiring_reconciliation_def open_client_rows_def)
qed

theorem sweep_finds_stale_obligations_witness:
  "sample_tool \<in> set (client_obligations_requiring_reconciliation (\<lambda>_. JNull) (\<lambda>_. None) (\<lambda>_. None) 200000 1 100 sample_db)"
proof -
  have "length (open_client_rows (\<lambda>_. True) sample_db) \<le> nat (max 1 (min 10000 100))"
    by (simp add: open_client_rows_def store_samples state_defs)
  from sweep_finds_stale_obligations [OF this, of "\<lambda>_. JNull" "\<lambda>_. None" "\<lambda>_. None" 200000 1]
  show ?thesis
    by (simp add: sample_db_def)
      (simp add: timed_out_def obligation_is_open_def ob_state_value_def ob_state_from_storage_def expires_at_def
        timeout_ms_def jget_def Let_def store_samples state_defs)
qed

subsection \<open>Decoding stored rows\<close>

lemma run_decodes:
  assumes "schema_ok db" and "r \<in> set (tbl_runs db)"
  shows "\<exists>x. run_state_value r = Inr x \<and> (run_state_terminal x \<longleftrightarrow> run_state r \<in> set TERMINAL_RUN_STATES)"
proof -
  obtain x where "run_state r = run_state_str x"
    using assms by (auto simp: schema_ok_def runs_ok_def run_spellings)
  then show ?thesis
    by (auto simp: run_state_value_def run_state_enum.parse_as_str run_spellings run_state_enum.as_str_inject)
qed

lemma step_decodes:
  assumes "schema_ok db" and "s \<in> set (tbl_steps db)"
  shows "\<exists>x. step_state_value s = Inr x \<and> (step_state_terminal x \<longleftrightarrow> step_state s \<notin> set ACTIVE_STEP_STATES)"
proof -
  obtain x where "step_state s = step_state_str x"
    using assms by (auto simp: schema_ok_def steps_ok_def step_spellings)
  then show ?thesis
    by (auto simp: step_state_value_def step_state_enum.parse_as_str step_spellings step_state_enum.as_str_inject)
qed

lemma obligation_decodes:
  assumes "schema_ok db" and "b \<in> set (tbl_obligations db)"
  shows "(\<exists>x k a. ob_state_value b = Inr x \<and> ob_kind_value b = Inr k \<and> expected_action b = Inr a)
    \<and> (obligation_is_open b \<longleftrightarrow> ob_state b \<in> set OPEN_OBLIGATION_STATES)"
proof -
  have "obligation_ok b" using assms by (simp add: schema_ok_def obligations_ok_def)
  then obtain x k a where "ob_state b = ob_state_str x" and "ob_kind b = ob_kind_str k"
    and "ob_expected_responder_action b = action_str a"
    unfolding obligation_ok_def obligation_spellings(1) by (metis obligation_spellings(2,3))
  then show ?thesis
    by (cases x) (auto simp: ob_state_value_def ob_kind_value_def expected_action_def obligation_is_open_def
        ob_state_enum.parse_as_str ob_kind_enum.parse_as_str action_enum.parse_as_str
        ob_state_from_storage_def OPEN_OBLIGATION_STATES_def)
qed

text \<open>
  The constraints of the tables and the parsers agree: no row of a database that satisfies
  its schema makes a decoder fail; the decoded state of a run or step is terminal exactly when
  its text is one of the texts the statements treat as terminal, and an obligation reads as open
  exactly when its text is one of the open ones.
\<close>
theorem stored_rows_decode:
  assumes "schema_ok db"
  shows "(\<forall>r \<in> set (tbl_runs db). \<exists>x. run_state_value r = Inr x
            \<and> (run_state_terminal x \<longleftrightarrow> run_state r \<in> set TERMINAL_RUN_STATES))
    \<and> (\<forall>s \<in> set (tbl_steps db). \<exists>x. step_state_value s = Inr x
            \<and> (step_state_terminal x \<longleftrightarrow> step_state s \<notin> set ACTIVE_STEP_STATES))
    \<and> (\<forall>b \<in> set (tbl_obligations db).
            (\<exists>x k a. ob_state_value b = Inr x \<and> ob_kind_value b = Inr k \<and> expected_action b = Inr a)
            \<and> (obligation_is_open b \<longleftrightarrow> ob_state b \<in> set OPEN_OBLIGATION_STATES))"
  using run_decodes [OF assms] step_decodes [OF assms] obligation_decodes [OF assms] by fast

theorem stored_rows_decode_witness:
  "(\<exists>x. run_state_value sample_run = Inr x \<and> \<not> run_state_terminal x) \<and> obligation_is_open sample_tool"
proof -
  have "sample_run \<in> set (tbl_runs sample_db)" "sample_tool \<in> set (tbl_obligations sample_db)"
    by (simp_all add: sample_db_def)
  moreover have "run_state sample_run \<notin> set TERMINAL_RUN_STATES"
    "ob_state sample_tool \<in> set OPEN_OBLIGATION_STATES"
    by (simp_all add: store_samples state_defs)
  ultimately show ?thesis using stored_rows_decode [OF sample_ok] by fast
qed

end
