(* ===== verification/Contract_Gaps.thy ===== *)
theory Contract_Gaps
  imports Turn_Queries
begin

section \<open>Where the code departs from its contract\<close>

text \<open>
  Two behaviours of the store that the state-machine inventory in the repository's documents
  rules out: a permission decision that continues the model past an open step barrier, and a
  wait that reopens a terminal run.
\<close>


lemma transition_run_total:
  assumes ok: "schema_ok db" and nt: "\<not> run_state_terminal state"
  shows "\<exists>db' r. transition_run now rid state reason db = (db', Inr r) \<and> schema_ok db'
    \<and> tbl_obligations db' = tbl_obligations db \<and> tbl_steps db' = tbl_steps db"
proof -
  let ?f = "\<lambda>r :: turn_run_row. r\<lparr>run_state := run_state_str state, run_terminal_reason := reason, run_updated_at := now\<rparr>"
  have "schema_ok (db\<lparr>tbl_runs := update_where (run_not_terminal rid) ?f (tbl_runs db)\<rparr>)"
    using run_not_terminal_active [OF ok] run_state_str_active [OF nt]
    by (intro schema_update_runs [OF ok]) (simp_all add: run_not_terminal_def)
  from this update_runs_ok [OF this] nt show ?thesis
    by (simp add: transition_run_def transactionM_def bindM_def returnM_def)
qed

lemma transition_step_total:
  assumes ok: "schema_ok db"
  shows "\<exists>db' r. transition_step now sid st db = (db', Inr r) \<and> schema_ok db'
    \<and> tbl_obligations db' = tbl_obligations db"
proof -
  let ?f = "\<lambda>s :: turn_step_row. s\<lparr>step_state := step_state_str st, step_closed_at :=
     (if step_state_terminal st then coalesce (step_closed_at s) now else step_closed_at s)\<rparr>"
  have "step_state_str st \<in> set ACTIVE_STEP_STATES \<or> step_state_str st \<in> set TERMINAL_STEP_STATES"
    by (cases st) (simp_all add: ACTIVE_STEP_STATES_def TERMINAL_STEP_STATES_def)
  then have "schema_ok (db\<lparr>tbl_steps := update_where (\<lambda>s. step_id s = sid) ?f (tbl_steps db)\<rparr>)"
    by (intro schema_update_steps [OF ok]) simp_all
  from this update_steps_ok [OF this] show ?thesis
    by (simp add: transition_step_def bindM_def returnM_def)
qed

lemma mark_continued_total:
  assumes ok: "schema_ok db"
  shows "\<exists>db' r. mark_continued now oid db = (db', Inr r) \<and> schema_ok db'
    \<and> (\<forall>b \<in> set (tbl_obligations db). ob_id b \<noteq> oid \<longrightarrow> b \<in> set (tbl_obligations db'))"
proof -
  let ?g = "\<lambda>b :: turn_obligation_row. ob_id b = oid \<and> (ob_state b = ''result_received'' \<or> ob_state b = ''continued'')"
  let ?f = "\<lambda>b :: turn_obligation_row. b\<lparr>ob_state := ''continued'', ob_completed_at := coalesce (ob_completed_at b) now,
     ob_updated_at := now\<rparr>"
  have "obligation_ok (?f b)" if "b \<in> set (tbl_obligations db)" for b
    by (rule obligation_ok_state [OF in_obligations_ok [OF ok that]]) (simp add: SETTLED_OBLIGATION_STATES_def)
  then have "schema_ok (db\<lparr>tbl_obligations := update_where ?g ?f (tbl_obligations db)\<rparr>)"
    by (intro schema_update_obligations [OF ok]) simp_all
  from this update_obligations_ok [OF this] show ?thesis
    by (force simp: mark_continued_def bindM_def returnM_def set_update_where)
qed

lemma continue_total:
  assumes ok: "schema_ok db"
  shows "\<exists>db' r. continue_after_client_result clock run ob db = (db', Inr r) \<and> schema_ok db'
    \<and> (\<forall>b \<in> set (tbl_obligations db). ob_id b \<noteq> ob_id ob \<longrightarrow> b \<in> set (tbl_obligations db'))"
proof -
  obtain db1 r1 where 1: "transition_run (clock 0) (run_id run) RunContinuing None db = (db1, Inr r1)" "schema_ok db1"
      "tbl_obligations db1 = tbl_obligations db"
    using transition_run_total [OF ok, of RunContinuing "clock 0" "run_id run" None] by (auto simp: run_state_terminal_def)
  obtain db2 r2 where 2: "mark_continued (clock 1) (ob_id ob) db1 = (db2, Inr r2)" "schema_ok db2"
      "\<forall>b \<in> set (tbl_obligations db1). ob_id b \<noteq> ob_id ob \<longrightarrow> b \<in> set (tbl_obligations db2)"
    using mark_continued_total [OF 1(2)] by blast
  show ?thesis
  proof (cases "ob_turn_step_id ob")
    case None
    with 1 2 show ?thesis by (simp add: continue_after_client_result_def bindM_def returnM_def)
  next
    case (Some sid)
    obtain db3 r3 where 3: "transition_step (clock 2) sid StepContinued db2 = (db3, Inr r3)" "schema_ok db3"
        "tbl_obligations db3 = tbl_obligations db2"
      using transition_step_total [OF 2(2)] by blast
    with 1 2 Some show ?thesis by (simp add: continue_after_client_result_def bindM_def returnM_def numeral_2_eq_2)
  qed
qed

text \<open>
  A decision that does not grant a permission continues the model without asking whether
  the step's barrier is closed: any sibling obligation, still waiting for its client, is left
  as it is while the model is told to continue.
\<close>
theorem ungranted_permission_ignores_barrier:
  assumes "schema_ok db" and "ob \<in> set (tbl_obligations db)" and "ob_state ob \<in> set OPEN_OBLIGATION_STATES"
    and "decision \<noteq> ''granted''"
    and "sibling \<in> set (tbl_obligations db)" and "ob_id sibling \<noteq> ob_id ob"
  shows "\<exists>db' run'. settle_permission_result cat serde_err clock run ob decision payload db
      = (db', Inr (PermContinueModel run' None)) \<and> sibling \<in> set (tbl_obligations db')"
proof -
  let ?g = "\<lambda>b :: turn_obligation_row. ob_id b = ob_id ob \<and> ob_state b \<in> set OPEN_OBLIGATION_STATES"
  have "obligation_ok (received (clock 0) payload ob)"
    using in_obligations_ok [OF assms(1,2)]
    by (simp add: obligation_ok_def lease_shape_def received_def OPEN_OBLIGATION_STATES_def)
  then obtain os where os: "update_obligations ?g (received (clock 0) payload) db
      = (db\<lparr>tbl_obligations := os\<rparr>, Inr [received (clock 0) payload ob])"
      "schema_ok (db\<lparr>tbl_obligations := os\<rparr>)"
      "set os = insert (received (clock 0) payload ob) (set (tbl_obligations db) - {ob})"
    using update_obligation_hit [of db ob ?g, OF assms(1,2) _ _ keeps_keys_assigns(3)] assms(3) by blast
  then have m: "mark_result_received (clock 0) (ob_id ob) payload db
      = (db\<lparr>tbl_obligations := os\<rparr>, Inr (Some (received (clock 0) payload ob)))"
    by (simp add: mark_result_received_def bindM_def returnM_def)
  obtain db' r where c: "continue_after_client_result (\<lambda>n. clock (n + 1)) run ob (db\<lparr>tbl_obligations := os\<rparr>) = (db', Inr r)"
      "\<forall>b \<in> set os. ob_id b \<noteq> ob_id ob \<longrightarrow> b \<in> set (tbl_obligations db')"
    using continue_total [OF os(2), of "\<lambda>n. clock (n + 1)" run ob] by auto
  have "sibling \<in> set os" using os(3) assms(5,6) by auto
  with m c assms(4,6) show ?thesis by (simp add: settle_permission_result_def bindM_def returnM_def)
qed

theorem ungranted_permission_ignores_barrier_witness:
  "\<exists>db' run'. settle_permission_result sample_catalogue (\<lambda>_. []) (\<lambda>n. 6) sample_run sample_permission ''denied'' JNull sample_db
     = (db', Inr (PermContinueModel run' None)) \<and> sample_tool \<in> set (tbl_obligations db')
   \<and> ob_turn_step_id sample_tool = ob_turn_step_id sample_permission \<and> ob_state sample_tool = ''waiting_for_client''"
proof -
  have h: "sample_permission \<in> set (tbl_obligations sample_db)" "ob_state sample_permission \<in> set OPEN_OBLIGATION_STATES"
    "''denied'' \<noteq> ''granted''" "sample_tool \<in> set (tbl_obligations sample_db)" "ob_id sample_tool \<noteq> ob_id sample_permission"
    by (simp_all add: store_samples state_defs)
  from ungranted_permission_ignores_barrier [OF sample_ok h, of sample_catalogue "\<lambda>_. []" "\<lambda>n. 6" sample_run JNull]
  show ?thesis by (simp add: sample_tool_def sample_permission_def new_obligation_def)
qed

interpretation same_runs: db_frame schema_ok "\<lambda>db db'. tbl_runs db' = tbl_runs db"
  by unfold_locales auto

lemma wait_keeps_runs:
  "stays (\<lambda>db db'. tbl_runs db' = tbl_runs db) (ensure_waiting_turn_step fresh now rid mark)"
  "stays (\<lambda>db db'. tbl_runs db' = tbl_runs db) (insert_obligation row)"
  unfolding ensure_waiting_turn_step_def ensure_active_step_def insert_step_def update_steps_def
    insert_obligation_def Let_def
  by (intro same_runs.stays_intros same_runs.stays_write; simp)+

interpretation parked: guarded_update run_id "\<lambda>r. run_id r = rid"
  "\<lambda>r. r\<lparr>run_state := run_state_str RunWaitingForClient, run_terminal_reason := None, run_updated_at := now\<rparr>"
  for rid now
  by unfold_locales simp

text \<open>
  C34. Parking a run does not look at its state: whenever the transaction that persists a
  surface obligation succeeds, the run it names is waiting for its client afterwards, also when
  it was completed, failed or cancelled before.
\<close>
theorem parking_reopens_terminal_run:
  assumes "schema_ok db" and "get_run (si_run_id input) db = Some r"
    and "persist_surface_obligation_transactionally fresh_step fresh_ob now input db = (db', Inr res)"
  shows "map_option run_state (get_run (si_run_id input) db') = Some ''waiting_for_client''"
proof -
  let ?rid = "si_run_id input"
  let ?f = "\<lambda>r :: turn_run_row. r\<lparr>run_state := run_state_str RunWaitingForClient, run_terminal_reason := None,
     run_updated_at := now\<rparr>"
  obtain db1 db2 rows sid where p: "park_run now ?rid db = (db1, Inr rows)"
    and w: "ensure_waiting_turn_step fresh_step now ?rid True db1 = (db2, Inr sid)"
    and i: "\<exists>row. fst (insert_obligation row db2) = db'"
    using assms(3)
    by (auto simp: persist_surface_obligation_transactionally_def transactionM_Inr bindM_Inr_iff returnM_def
        intro: exI [of _ "new_obligation _ _ _ _ _ _ _ _ _ _ _"]) (metis fst_conv)
  note u = update_runs_Inr [OF p [unfolded park_run_def]]
  have ok1: "schema_ok db1" using u by blast
  have "tbl_runs db2 = tbl_runs db1" "schema_ok db2"
    using staysD [OF wait_keeps_runs(1) ok1, of fresh_step now ?rid True] w by simp_all
  moreover from this i have "tbl_runs db' = tbl_runs db2" using staysD [OF wait_keeps_runs(2)] by blast
  ultimately have "tbl_runs db' = update_where (\<lambda>r. run_id r = ?rid) ?f (tbl_runs db)" using u by simp
  then have "get_run ?rid db' = map_option ?f (get_run ?rid db)"
    using parked.find_after [where k = ?rid and rid = ?rid and now = now and rows = "tbl_runs db"]
      get_run_Some [OF assms(2)] assms(2) by (simp add: get_run_def)
  with assms(2) show ?thesis by simp
qed

definition sample_surface :: persist_surface_obligation_input where
  "sample_surface = \<lparr>si_session_id = ''s0'', si_run_id = ''r0'', si_kind = KindHumanInput,
     si_expected_responder_action = ActHumanInput, si_responder_ref_id = ''x'', si_request_payload = JNull\<rparr>"

lemma sample_park:
  "\<exists>db' res. persist_surface_obligation_transactionally 20 21 5 sample_surface sample_db = (db', Inr res)"
  by (simp add: persist_surface_obligation_transactionally_def park_run_def ensure_waiting_turn_step_def
      ensure_active_step_def active_step_of_run_def latest_by_def insert_step_def next_step_index_def
      insert_obligation_def update_runs_def update_steps_def update_where_def returning_def sample_surface_def
      dbm_defs Let_def schema_defs state_defs store_samples)

theorem parking_reopens_terminal_run_witness:
  "\<exists>db' res. persist_surface_obligation_transactionally 20 21 5 sample_surface sample_db = (db', Inr res)
     \<and> map_option run_state (get_run ''r0'' sample_db) = Some ''cancelled''
     \<and> map_option run_state (get_run ''r0'' db') = Some ''waiting_for_client''"
proof -
  obtain db' res where p: "persist_surface_obligation_transactionally 20 21 5 sample_surface sample_db = (db', Inr res)"
    using sample_park by blast
  have g: "get_run (si_run_id sample_surface) sample_db = Some sample_done"
    by (simp add: get_run_def sample_surface_def store_samples)
  from parking_reopens_terminal_run [OF sample_ok g p] p g show ?thesis
    by (auto simp: sample_surface_def sample_done_def)
qed

end
