(* ===== verification/Turn_Budget.thy ===== *)
theory Turn_Budget
  imports Den_Core
begin

section \<open>The turn budget ledger\<close>

text \<open>
  \<open>den-runtime/src/agent_loop/budget.rs\<close>: the per-class tool-call ledger of a turn, the
  evaluation of a batch of tool results against the turn's policy (stop, one-shot
  finalization grace, or an advisory warning), the context-window check, and the
  canonical tool signature behind the rule of ko.

  Field prefixes: \<open>lim_\<close> limits, \<open>use_\<close> usage, \<open>pol_\<close> policy, \<open>st_\<close> turn state, \<open>obs_\<close>
  observation. Counters are 32-bit words, the clock is a 64-bit word. The template
  renderer behind \<open>render_budget_warning_message\<close>, the JSON parser and serde's string
  quoting are parameters.
\<close>

subsection \<open>Classes, limits and usage\<close>

datatype tool_budget_class =
  ClsRead | ClsSearch | ClsFetch | ClsExecute | ClsWrite | ClsDestructive | ClsOther

record tool_call_budget_limits =
  lim_total :: u32
  lim_read :: u32
  lim_search :: u32
  lim_fetch :: u32
  lim_execute :: u32
  lim_write :: u32
  lim_destructive :: u32
  lim_other :: u32

record tool_call_budget_usage =
  use_total :: u32
  use_read :: u32
  use_search :: u32
  use_fetch :: u32
  use_execute :: u32
  use_write :: u32
  use_destructive :: u32
  use_other :: u32

definition usage_default :: tool_call_budget_usage where
  "usage_default = \<lparr>use_total = 0, use_read = 0, use_search = 0, use_fetch = 0, use_execute = 0,
     use_write = 0, use_destructive = 0, use_other = 0\<rparr>"

definition TOOL_BUDGET_CLASS_COUNT :: nat where
  "TOOL_BUDGET_CLASS_COUNT = 7"

definition ALL_BUDGET_CLASSES_BY_SEVERITY :: "tool_budget_class list" where
  "ALL_BUDGET_CLASSES_BY_SEVERITY =
     [ClsDestructive, ClsWrite, ClsExecute, ClsFetch, ClsSearch, ClsRead, ClsOther]"

fun class_index :: "tool_budget_class \<Rightarrow> nat" where
  "class_index ClsRead = 0"
| "class_index ClsSearch = 1"
| "class_index ClsFetch = 2"
| "class_index ClsExecute = 3"
| "class_index ClsWrite = 4"
| "class_index ClsDestructive = 5"
| "class_index ClsOther = 6"

fun class_label :: "tool_budget_class \<Rightarrow> string" where
  "class_label ClsRead = ''read''"
| "class_label ClsSearch = ''search''"
| "class_label ClsFetch = ''fetch''"
| "class_label ClsExecute = ''execute''"
| "class_label ClsWrite = ''write''"
| "class_label ClsDestructive = ''destructive''"
| "class_label ClsOther = ''other''"

definition class_limits :: "tool_call_budget_limits \<Rightarrow> u32 list" where
  "class_limits l = [lim_read l, lim_search l, lim_fetch l, lim_execute l, lim_write l,
     lim_destructive l, lim_other l]"

definition limit_for :: "tool_call_budget_limits \<Rightarrow> tool_budget_class \<Rightarrow> u32" where
  "limit_for l c = class_limits l ! class_index c"

definition class_counts :: "tool_call_budget_usage \<Rightarrow> u32 list" where
  "class_counts u = [use_read u, use_search u, use_fetch u, use_execute u, use_write u,
     use_destructive u, use_other u]"

definition count_for :: "tool_call_budget_usage \<Rightarrow> tool_budget_class \<Rightarrow> u32" where
  "count_for u c = class_counts u ! class_index c"

definition increment :: "tool_call_budget_usage \<Rightarrow> tool_budget_class \<Rightarrow> tool_call_budget_usage" where
  "increment u0 c =
     (let u = u0\<lparr>use_total := sat_add (use_total u0) 1\<rparr> in
      case c of
        ClsRead \<Rightarrow> u\<lparr>use_read := sat_add (use_read u) 1\<rparr>
      | ClsSearch \<Rightarrow> u\<lparr>use_search := sat_add (use_search u) 1\<rparr>
      | ClsFetch \<Rightarrow> u\<lparr>use_fetch := sat_add (use_fetch u) 1\<rparr>
      | ClsExecute \<Rightarrow> u\<lparr>use_execute := sat_add (use_execute u) 1\<rparr>
      | ClsWrite \<Rightarrow> u\<lparr>use_write := sat_add (use_write u) 1\<rparr>
      | ClsDestructive \<Rightarrow> u\<lparr>use_destructive := sat_add (use_destructive u) 1\<rparr>
      | ClsOther \<Rightarrow> u\<lparr>use_other := sat_add (use_other u) 1\<rparr>)"

subsection \<open>Policies, state, observations\<close>

record post_mutation_verification_window =
  replenish_read :: u32
  replenish_search :: u32

record turn_budget_policy =
  pol_max_wall_clock_ms :: u64
  pol_emergency_hard_steps :: u32
  pol_tool_call_limits :: tool_call_budget_limits
  pol_max_consecutive_tool_failures :: u32
  pol_max_same_tool_signature_repeats :: u32
  pol_post_mutation_verification_window :: "post_mutation_verification_window option"

datatype estimate_precision = Exact | Approximate | CalibratedApproximate

record context_budget_calibration_report =
  cal_source :: string
  cal_tokens_per_million_chars :: u32
  cal_sample_count :: int

record context_budget_component_report =
  cmp_key :: string
  cmp_label :: string
  cmp_estimated_tokens :: u32
  cmp_estimated_characters :: u32

record context_budget_report =
  rep_model :: string
  rep_context_window :: "u32 option"
  rep_max_output_tokens :: "u32 option"
  rep_reserved_output_tokens :: u32
  rep_estimated_input_tokens :: u32
  rep_estimated_total_tokens :: u32
  rep_estimate_precision :: estimate_precision
  rep_near_budget :: bool
  rep_over_budget :: bool
  rep_calibration :: "context_budget_calibration_report option"
  rep_components :: "context_budget_component_report list"

record turn_budget_state =
  st_started_at :: int
  st_tool_usage :: tool_call_budget_usage
  st_latest_context_budget :: "context_budget_report option"
  st_consecutive_tool_failures :: u32
  st_last_batch_signature :: "string option"
  st_same_batch_signature_repeats :: u32
  st_budget_finalization_grace_used :: bool

text \<open>\<open>Default\<close> reads the monotonic clock once: the instant is an argument.\<close>

definition turn_budget_state_default :: "int \<Rightarrow> turn_budget_state" where
  "turn_budget_state_default instant_now = \<lparr>
     st_started_at = instant_now,
     st_tool_usage = usage_default,
     st_latest_context_budget = None,
     st_consecutive_tool_failures = 0,
     st_last_batch_signature = None,
     st_same_batch_signature_repeats = 0,
     st_budget_finalization_grace_used = False\<rparr>"

datatype grounding_probe_signal_kind = ProbePass | ProbeFail | ProbeNoSignal

record tool_continuation_observation =
  obs_tool_name :: string
  obs_signature :: string
  obs_class :: tool_budget_class
  obs_failed :: bool
  obs_grounding_probe_signal :: "grounding_probe_signal_kind option"

record turn_budget_warning =
  warn_code :: string
  warn_message :: string

datatype turn_budget_stop_reason =
    WallClockLimit (elapsed_ms: u64) (limit_ms: u64)
  | TotalToolCallLimit (stop_count: u32) (stop_limit: u32)
  | ToolClassCallLimit (stop_class: tool_budget_class) (stop_count: u32) (stop_limit: u32)
  | ConsecutiveToolFailures (stop_count: u32) (stop_limit: u32) (stop_tool_name: "string option")
  | RuleOfKo (stop_repeats: u32) (stop_limit: u32) (stop_tool_name: "string option")
  | EmergencyHardStepLimit (stop_step: u32) (stop_emergency_hard_steps: u32)
  | ContextBudgetLimit (stop_model: string) (stop_estimated_input_tokens: u32)
      (stop_reserved_output_tokens: u32) (stop_estimated_total_tokens: u32)
      (stop_context_window: "u32 option")

record turn_budget_evaluation =
  ev_next_state :: turn_budget_state
  ev_warning :: "turn_budget_warning option"
  ev_stop_reason :: "turn_budget_stop_reason option"

subsection \<open>Stop reasons\<close>

fun resumes_pair_execution_automatically :: "turn_budget_stop_reason \<Rightarrow> bool" where
  "resumes_pair_execution_automatically (WallClockLimit _ _) = True"
| "resumes_pair_execution_automatically (TotalToolCallLimit _ _) = True"
| "resumes_pair_execution_automatically (ToolClassCallLimit _ _ _) = True"
| "resumes_pair_execution_automatically (EmergencyHardStepLimit _ _) = True"
| "resumes_pair_execution_automatically _ = False"

fun persistence_reason :: "turn_budget_stop_reason \<Rightarrow> string" where
  "persistence_reason (WallClockLimit _ _) = ''wall_clock_limit''"
| "persistence_reason (TotalToolCallLimit _ _) = ''total_tool_call_limit''"
| "persistence_reason (ToolClassCallLimit _ _ _) = ''tool_class_call_limit''"
| "persistence_reason (ConsecutiveToolFailures _ _ _) = ''consecutive_tool_failures''"
| "persistence_reason (RuleOfKo _ _ _) = ''rule_of_ko''"
| "persistence_reason (EmergencyHardStepLimit _ _) = ''emergency_hard_step_limit''"
| "persistence_reason (ContextBudgetLimit _ _ _ _ _) = ''context_budget_limit''"

text \<open>The typographic quotes and apostrophe of the wall-clock message, in UTF-8.\<close>

definition left_dquote :: string where
  "left_dquote = [CHR 0xE2, CHR 0x80, CHR 0x9C]"
definition right_dquote :: string where
  "right_dquote = [CHR 0xE2, CHR 0x80, CHR 0x9D]"
definition right_squote :: string where
  "right_squote = [CHR 0xE2, CHR 0x80, CHR 0x99]"

definition for_tool_suffix :: "string option \<Rightarrow> string" where
  "for_tool_suffix tool_name =
     unwrap_or (map_option (\<lambda>name. '' for `'' @ name @ ''`'')
       (filter_opt (\<lambda>name. name \<noteq> []) tool_name)) []"

fun user_message :: "turn_budget_stop_reason \<Rightarrow> string" where
  "user_message (WallClockLimit _ _) =
     ''I ran out of execution time after recording the work completed so far. Send '' @ left_dquote @
     ''continue'' @ right_dquote @ '' and I'' @ right_squote @ ''ll pick up from the recorded state.''"
| "user_message (TotalToolCallLimit n limit) =
     ''I stopped because this turn exhausted its emergency total tool-call fuse (tool_calls='' @
     show_word n @ ''/limit='' @ show_word limit @
     ''). The recent tool results were recorded, but this run needs a fresh turn to continue safely.''"
| "user_message (ToolClassCallLimit cls n limit) =
     ''I stopped because this turn exhausted its '' @ class_label cls @ '' tool budget ('' @
     class_label cls @ ''_calls='' @ show_word n @ ''/limit='' @ show_word limit @
     ''). The recent tool results were recorded, but this run needs a fresh turn to continue safely.''"
| "user_message (ConsecutiveToolFailures n limit tool_name) =
     ''I stopped because this turn hit '' @ show_word n @ '' consecutive tool failures'' @
     for_tool_suffix tool_name @ '' (limit='' @ show_word limit @
     ''). The recent tool results were recorded, but the model appears to be stuck retrying failures instead of recovering.''"
| "user_message (RuleOfKo repeats limit tool_name) =
     ''I stopped because this turn repeated the same tool-call pattern'' @ for_tool_suffix tool_name @
     '' without changing the search state (rule of ko, repeats='' @ show_word repeats @ ''/limit='' @
     show_word limit @
     ''). The recent tool results were recorded, but the model appears to be looping.''"
| "user_message (EmergencyHardStepLimit step hard_steps) =
     ''I stopped because this turn hit the emergency continuation fuse (step='' @ show_word step @
     ''/emergency_hard_steps='' @ show_word hard_steps @
     ''). The recent tool results were recorded, but this run needs a fresh turn to continue safely.''"
| "user_message (ContextBudgetLimit model input reserved estimated window) =
     ''I stopped before the next model call because the compiled request exceeds the context budget for '' @
     model @ '' (estimated_input_tokens='' @ show_word input @ '', reserved_output_tokens='' @
     show_word reserved @ '', estimated_total_tokens='' @ show_word estimated @ '', context_window='' @
     show_word (unwrap_or window 0) @
     ''). Compact or reduce context before continuing.''"

subsection \<open>Observations and tool classes\<close>

definition observation_is_successful_mutation :: "tool_continuation_observation \<Rightarrow> bool" where
  "observation_is_successful_mutation ob \<longleftrightarrow>
     \<not> obs_failed ob
     \<and> obs_grounding_probe_signal ob \<noteq> Some ProbeFail
     \<and> (obs_class ob = ClsWrite \<or> obs_class ob = ClsDestructive)"

definition apply_post_mutation_verification_window ::
    "tool_call_budget_usage \<Rightarrow> post_mutation_verification_window \<Rightarrow> tool_call_budget_usage" where
  "apply_post_mutation_verification_window u w =
     u\<lparr>use_read := sat_sub (use_read u) (replenish_read w),
       use_search := sat_sub (use_search u) (replenish_search w)\<rparr>"

definition TOOL_BUDGET_CLASS_BY_NAME :: "(string \<times> tool_budget_class) list" where
  "TOOL_BUDGET_CLASS_BY_NAME =
    [(''fs_find_paths'', ClsSearch),
     (''fs_search_files'', ClsSearch),
     (''memory_search'', ClsSearch),
     (''web_search'', ClsSearch),
     (''web_fetch'', ClsFetch),
     (''local_web_fetch'', ClsFetch),
     (''chrome_open'', ClsFetch),
     (''terminal_run_command'', ClsExecute),
     (''process_run'', ClsExecute),
     (''fs_edit_file'', ClsWrite),
     (''fs_replace_text'', ClsWrite),
     (''fs_create_text_file'', ClsWrite),
     (''fs_create_directory'', ClsWrite),
     (''fs_move_path'', ClsWrite),
     (''fs_copy_path'', ClsWrite),
     (''fs_apply_patch'', ClsWrite),
     (''git_add'', ClsWrite),
     (''git_restore'', ClsWrite),
     (''git_commit'', ClsWrite),
     (''git_stash'', ClsWrite),
     (''memory_write_entry'', ClsWrite),
     (''memory_request_review'', ClsWrite),
     (''update_task_list'', ClsWrite),
     (''request_task_list_handoff'', ClsWrite),
     (''set_conversation_title'', ClsWrite),
     (''fs_delete_path'', ClsDestructive),
     (''fs_read_text_file'', ClsRead),
     (''fs_list_directory'', ClsRead),
     (''fs_stat'', ClsRead),
     (''git_status'', ClsRead),
     (''git_diff'', ClsRead),
     (''git_log'', ClsRead),
     (''git_show'', ClsRead),
     (''memory_read'', ClsRead),
     (''memory_browse'', ClsRead),
     (''session_info'', ClsRead),
     (''list_task_lists'', ClsRead),
     (''get_task_list_status'', ClsRead),
     (''bear_environment'', ClsRead),
     (''chrome_snapshot'', ClsRead),
     (''chrome_console_messages'', ClsRead),
     (''chrome_network_requests'', ClsRead),
     (''chrome_screenshot'', ClsRead)]"

definition classify_tool_budget_class :: "string \<Rightarrow> tool_budget_class" where
  "classify_tool_budget_class tool_name =
     (let tool_name = trim tool_name in
      unwrap_or
        (find_map (\<lambda>(name, cls). if name = tool_name then Some cls else None)
           TOOL_BUDGET_CLASS_BY_NAME)
        ClsOther)"

subsection \<open>Canonical signatures\<close>

text \<open>
  \<open>quote\<close> stands for \<open>serde_json::to_string\<close> on a string and \<open>parse\<close> for
  \<open>serde_json::from_str\<close>. The members of an object are visited in the order of their sorted
  keys; \<open>keys.sort_unstable()\<close> on distinct strings is the sort of the byte order.
\<close>

fun append_canonical_json :: "(string \<Rightarrow> string) \<Rightarrow> json \<Rightarrow> string" where
  "append_canonical_json quote JNull = ''null''"
| "append_canonical_json quote (JBool b) = (if b then ''true'' else ''false'')"
| "append_canonical_json quote (JNum n) = n"
| "append_canonical_json quote (JStr s) = quote s"
| "append_canonical_json quote (JArr items) =
     ''['' @ join_str '','' (map (append_canonical_json quote) items) @ '']''"
| "append_canonical_json quote (JObj object) =
     ''{'' @ join_str '',''
        (map snd (sort_key fst
           (map (\<lambda>(k, v). (k, quote k @ '':'' @ append_canonical_json quote v)) object)))
     @ ''}''"

definition canonical_json :: "(string \<Rightarrow> string) \<Rightarrow> json \<Rightarrow> string" where
  "canonical_json quote v = append_canonical_json quote v"

definition canonicalize_jsonish ::
    "(string \<Rightarrow> string) \<Rightarrow> (string \<Rightarrow> json option) \<Rightarrow> string \<Rightarrow> string" where
  "canonicalize_jsonish quote parse raw =
     (let trimmed = trim raw in
      if trimmed = [] then []
      else case parse trimmed of
        Some v \<Rightarrow> canonical_json quote v
      | None \<Rightarrow> join_str '' '' (split_whitespace trimmed))"

definition tool_signature ::
    "(string \<Rightarrow> string) \<Rightarrow> (string \<Rightarrow> json option) \<Rightarrow> string \<Rightarrow> string \<Rightarrow> string" where
  "tool_signature quote parse tool_name arguments =
     (let args = canonicalize_jsonish quote parse arguments in trim tool_name @ ''|'' @ args)"

record chat_tool_call =
  call_id :: string
  call_type :: string
  call_function_name :: string
  call_function_arguments :: string

definition tool_signature_from_call ::
    "(string \<Rightarrow> string) \<Rightarrow> (string \<Rightarrow> json option) \<Rightarrow> chat_tool_call \<Rightarrow> string" where
  "tool_signature_from_call quote parse call =
     tool_signature quote parse (call_function_name call) (call_function_arguments call)"

subsection \<open>Exhaustion, ko signatures\<close>

fun first_exhausted_in ::
    "tool_budget_class list \<Rightarrow> tool_call_budget_usage \<Rightarrow> tool_call_budget_limits
     \<Rightarrow> (tool_budget_class \<times> u32 \<times> u32) option" where
  "first_exhausted_in [] u l = None"
| "first_exhausted_in (c # cs) u l =
     (let used = count_for u c; limit = limit_for l c in
      if used > limit then Some (c, used, limit) else first_exhausted_in cs u l)"

definition first_exhausted_class ::
    "tool_call_budget_usage \<Rightarrow> tool_call_budget_limits \<Rightarrow> (tool_budget_class \<times> u32 \<times> u32) option" where
  "first_exhausted_class u l = first_exhausted_in ALL_BUDGET_CLASSES_BY_SEVERITY u l"

definition observation_is_stateless_read_probe :: "tool_continuation_observation \<Rightarrow> bool" where
  "observation_is_stateless_read_probe ob \<longleftrightarrow>
     \<not> obs_failed ob \<and> obs_class ob = ClsRead \<and> obs_tool_name ob = ''git_status''"

definition rule_of_ko_batch_signature :: "tool_continuation_observation list \<Rightarrow> string option" where
  "rule_of_ko_batch_signature observations =
     (if observations = [] \<or> (\<forall>ob \<in> set observations. observation_is_stateless_read_probe ob)
      then None
      else Some (join_str '' || '' (map obs_signature observations)))"

subsection \<open>Warnings\<close>

text \<open>
  The wording of a warning comes from a prompt fragment; \<open>render budget\<close> is what the fragment
  registry renders for the structured \<open>budget\<close> value, \<open>None\<close> when it has no such fragment.
\<close>

type_synonym renderer = "json \<Rightarrow> string option"

definition render_budget_warning_message :: "renderer \<Rightarrow> json \<Rightarrow> string \<Rightarrow> string" where
  "render_budget_warning_message render budget fallback =
     unwrap_or (render (JObj [(''budget'', budget)])) fallback"

definition warning :: "renderer \<Rightarrow> string \<Rightarrow> (string \<times> json) list \<Rightarrow> string \<Rightarrow> turn_budget_warning" where
  "warning render code members fallback =
     \<lparr>warn_code = code, warn_message = render_budget_warning_message render (JObj members) fallback\<rparr>"

definition finalization_warning ::
    "renderer \<Rightarrow> turn_budget_stop_reason \<Rightarrow> turn_budget_warning option" where
  "finalization_warning render reason =
     (case reason of
        WallClockLimit elapsed limit \<Rightarrow>
          Some (warning render ''wall_clock_finalization_warning''
            [(''code'', JStr ''wall_clock_finalization_warning''),
             (''elapsed_ms'', jword elapsed), (''limit_ms'', jword limit)]
            (''Budget advisory: this turn reached its wall-clock limit after recording the latest tool result (elapsed='' @
             show_word elapsed @ ''ms/limit='' @ show_word limit @
             ''ms). Do not call more tools in this turn. If focused work remains, summarize progress and prepare a smaller next task slice rather than claiming the Job is complete.''))
      | TotalToolCallLimit _ _ \<Rightarrow>
          Some (warning render ''tool_budget_finalization_warning''
            [(''code'', JStr ''tool_budget_finalization_warning'')]
            ''Budget advisory: this turn has exceeded a tool budget after recording the latest tool result. Do not call more tools in this turn. If focused work remains, summarize progress and prepare a smaller next task slice rather than claiming the Job is complete.'')
      | ToolClassCallLimit _ _ _ \<Rightarrow>
          Some (warning render ''tool_budget_finalization_warning''
            [(''code'', JStr ''tool_budget_finalization_warning'')]
            ''Budget advisory: this turn has exceeded a tool budget after recording the latest tool result. Do not call more tools in this turn. If focused work remains, summarize progress and prepare a smaller next task slice rather than claiming the Job is complete.'')
      | _ \<Rightarrow> None)"

text \<open>The loop over the classes: \<open>Inr None\<close> when no class is near its limit.\<close>

fun class_warning ::
    "renderer \<Rightarrow> tool_budget_class list \<Rightarrow> tool_call_budget_usage \<Rightarrow> tool_call_budget_limits
     \<Rightarrow> panic + turn_budget_warning option" where
  "class_warning render [] u l = Inr None"
| "class_warning render (c # cs) u l =
     (let n = count_for u c; limit = limit_for l c in
      if n = 0 then class_warning render cs u l
      else if n \<ge> limit then
        Inr (Some (warning render ''tool_class_budget_warning''
          [(''code'', JStr ''tool_class_budget_full_warning''), (''class_label'', JStr (class_label c)),
           (''used'', jword n), (''limit'', jword limit)]
          (''Budget advisory: this turn has fully used its '' @ class_label c @ '' tool budget ('' @
           show_word n @ ''/'' @ show_word limit @ '' used). Any further '' @ class_label c @
           '' call will stop the turn. Finish/checkpoint this slice; if focused work remains, prepare a smaller next task slice instead of treating the budget as Job completion.'')))
      else bindR (add_chk n 1) (\<lambda>n1.
        if n1 \<ge> limit then
          Inr (Some (warning render ''tool_class_budget_warning''
            [(''code'', JStr ''tool_class_budget_warning''), (''class_label'', JStr (class_label c)),
             (''used'', jword n), (''limit'', jword limit)]
            (''Budget advisory: this turn is close to its '' @ class_label c @ '' tool budget ('' @
             show_word n @ ''/'' @ show_word limit @
             '' used). Prefer finishing/checkpointing this slice and decomposing remaining focused work over another '' @
             class_label c @ '' call unless one more call is strictly necessary.'')))
        else class_warning render cs u l))"

definition wall_clock_near :: "turn_budget_policy \<Rightarrow> u64 \<Rightarrow> bool" where
  "wall_clock_near policy elapsed \<longleftrightarrow>
     sat_sub (pol_max_wall_clock_ms policy) elapsed \<le> 15000
     \<or> sat_mul elapsed 100 \<ge> sat_mul (pol_max_wall_clock_ms policy) 85"

definition failure_and_ko_warning ::
    "renderer \<Rightarrow> turn_budget_policy \<Rightarrow> turn_budget_state \<Rightarrow> panic + turn_budget_warning option" where
  "failure_and_ko_warning render policy state =
     bindR (add_chk (st_consecutive_tool_failures state) 1) (\<lambda>f1.
       if f1 \<ge> pol_max_consecutive_tool_failures policy then
         Inr (Some (warning render ''failure_budget_warning''
           [(''code'', JStr ''failure_budget_warning''),
            (''failures'', jword (st_consecutive_tool_failures state)),
            (''limit'', jword (pol_max_consecutive_tool_failures policy))]
           (''Budget advisory: this turn is close to its repeated-failure limit ('' @
            show_word (st_consecutive_tool_failures state) @ ''/'' @
            show_word (pol_max_consecutive_tool_failures policy) @
            '' consecutive failed tool batches). Do not retry the same failing action unless you have new evidence.'')))
       else if st_same_batch_signature_repeats state \<ge> pol_max_same_tool_signature_repeats policy then
         Inr (Some (warning render ''rule_of_ko_warning''
           [(''code'', JStr ''rule_of_ko_warning''),
            (''repeats'', jword (st_same_batch_signature_repeats state)),
            (''limit'', jword (pol_max_same_tool_signature_repeats policy))]
           (''Budget advisory: this turn is close to its loop-ko limit ('' @
            show_word (st_same_batch_signature_repeats state) @ ''/'' @
            show_word (pol_max_same_tool_signature_repeats policy) @
            '' repeated tool batches). Do not repeat the same tool call pattern again; either answer now or choose a materially different next step.'')))
       else Inr None)"

definition total_tool_warning ::
    "renderer \<Rightarrow> turn_budget_policy \<Rightarrow> turn_budget_state \<Rightarrow> panic + turn_budget_warning option" where
  "total_tool_warning render policy state =
     (let used = use_total (st_tool_usage state);
          limit = lim_total (pol_tool_call_limits policy);
          mk = (\<lambda>fragment_code fallback. Inr (Some (warning render ''total_tool_budget_warning''
                  [(''code'', JStr fragment_code), (''used'', jword used), (''limit'', jword limit)]
                  fallback)))
      in if used \<ge> limit then
           mk ''total_tool_budget_full_warning''
             (''Budget advisory: this turn has fully used its emergency total tool-call fuse ('' @
              show_word used @ ''/'' @ show_word limit @
              '' tool calls used). Any further tool call will stop the turn. Finish/checkpoint this slice; if focused work remains, prepare a smaller next task slice instead of treating the budget as Job completion.'')
         else bindR (add_chk used 1) (\<lambda>used1.
           if used1 \<ge> limit then
             mk ''total_tool_budget_warning''
               (''Budget advisory: this turn is close to its emergency total tool-call fuse ('' @
                show_word used @ ''/'' @ show_word limit @
                '' tool calls used). Prefer finishing/checkpointing this slice and decomposing remaining focused work over more tool calls unless one more call is strictly necessary.'')
           else Inr None))"

definition budget_warning ::
    "renderer \<Rightarrow> turn_budget_policy \<Rightarrow> u32 \<Rightarrow> u64 \<Rightarrow> turn_budget_state
     \<Rightarrow> turn_budget_stop_reason option \<Rightarrow> panic + turn_budget_warning option" where
  "budget_warning render policy step elapsed state finalization_stop =
     (case finalization_stop of
        Some reason \<Rightarrow> Inr (finalization_warning render reason)
      | None \<Rightarrow>
         bindR (add_chk step 1) (\<lambda>step1.
           if step1 \<ge> pol_emergency_hard_steps policy then
             Inr (Some (warning render ''emergency_hard_step_warning''
               [(''code'', JStr ''emergency_hard_step_warning''), (''next_step'', jword step1),
                (''limit'', jword (pol_emergency_hard_steps policy))]
               (''Budget advisory: this turn is at the end of its emergency continuation fuse (next step would reach '' @
                show_word step1 @ ''/'' @ show_word (pol_emergency_hard_steps policy) @
                ''). If you already have enough information for this slice, stop calling tools, record progress, and leave a smaller next slice if focused work remains.'')))
           else if wall_clock_near policy elapsed then
             Inr (Some (warning render ''wall_clock_warning''
               [(''code'', JStr ''wall_clock_warning''),
                (''remaining_ms'', jword (sat_sub (pol_max_wall_clock_ms policy) elapsed))]
               (''Budget advisory: this turn is close to its wall-clock limit (remaining='' @
                show_word (sat_sub (pol_max_wall_clock_ms policy) elapsed) @
                ''ms). Prefer finishing the current slice, checkpointing, or decomposing remaining focused work over starting another broad tool sequence. Use one more tool call only if it is strictly necessary to safely close this slice.'')))
           else bindR (total_tool_warning render policy state) (\<lambda>w. case w of
               Some warn \<Rightarrow> Inr (Some warn)
             | None \<Rightarrow>
                 bindR (class_warning render ALL_BUDGET_CLASSES_BY_SEVERITY (st_tool_usage state)
                          (pol_tool_call_limits policy)) (\<lambda>cw. case cw of
                   Some warn \<Rightarrow> Inr (Some warn)
                 | None \<Rightarrow> failure_and_ko_warning render policy state))))"

subsection \<open>Evaluating a batch of tool results\<close>

definition ledger_after ::
    "turn_budget_policy \<Rightarrow> tool_call_budget_usage \<Rightarrow> tool_continuation_observation list
     \<Rightarrow> tool_call_budget_usage" where
  "ledger_after policy u observations =
     (let u1 = run_ops (\<lambda>u ob. increment u (obs_class ob)) u observations in
      case pol_post_mutation_verification_window policy of
        Some window \<Rightarrow>
          if \<exists>ob \<in> set observations. observation_is_successful_mutation ob
          then apply_post_mutation_verification_window u1 window else u1
      | None \<Rightarrow> u1)"

definition ko_after ::
    "turn_budget_state \<Rightarrow> tool_continuation_observation list \<Rightarrow> string option \<times> u32" where
  "ko_after prior observations =
     (case rule_of_ko_batch_signature observations of
        Some signature \<Rightarrow>
          (Some signature,
           if st_last_batch_signature prior = Some signature
           then sat_add (st_same_batch_signature_repeats prior) 1 else 1)
      | None \<Rightarrow>
          if observations \<noteq> [] then (None, 0)
          else (st_last_batch_signature prior, st_same_batch_signature_repeats prior))"

definition failures_after :: "turn_budget_state \<Rightarrow> tool_continuation_observation list \<Rightarrow> u32" where
  "failures_after prior observations =
     (let batch_failed = observations \<noteq> [] \<and> (\<forall>ob \<in> set observations. obs_failed ob) in
      if batch_failed then sat_add (st_consecutive_tool_failures prior) 1
      else if observations \<noteq> [] then 0
      else st_consecutive_tool_failures prior)"

definition budget_next_state ::
    "turn_budget_policy \<Rightarrow> turn_budget_state \<Rightarrow> tool_continuation_observation list \<Rightarrow> turn_budget_state" where
  "budget_next_state policy prior observations =
     prior\<lparr>st_tool_usage := ledger_after policy (st_tool_usage prior) observations,
           st_last_batch_signature := fst (ko_after prior observations),
           st_same_batch_signature_repeats := snd (ko_after prior observations),
           st_consecutive_tool_failures := failures_after prior observations\<rparr>"

definition stop_candidate ::
    "turn_budget_policy \<Rightarrow> u32 \<Rightarrow> u64 \<Rightarrow> string option \<Rightarrow> turn_budget_state
     \<Rightarrow> turn_budget_stop_reason option" where
  "stop_candidate policy step elapsed primary_tool_name next =
     (if elapsed \<ge> pol_max_wall_clock_ms policy then
        Some (WallClockLimit elapsed (pol_max_wall_clock_ms policy))
      else if st_same_batch_signature_repeats next > pol_max_same_tool_signature_repeats policy then
        Some (RuleOfKo (st_same_batch_signature_repeats next)
          (pol_max_same_tool_signature_repeats policy) primary_tool_name)
      else if st_consecutive_tool_failures next \<ge> pol_max_consecutive_tool_failures policy then
        Some (ConsecutiveToolFailures (st_consecutive_tool_failures next)
          (pol_max_consecutive_tool_failures policy) primary_tool_name)
      else if use_total (st_tool_usage next) > lim_total (pol_tool_call_limits policy) then
        Some (TotalToolCallLimit (use_total (st_tool_usage next))
          (lim_total (pol_tool_call_limits policy)))
      else case first_exhausted_class (st_tool_usage next) (pol_tool_call_limits policy) of
          Some (cls, n, limit) \<Rightarrow> Some (ToolClassCallLimit cls n limit)
        | None \<Rightarrow>
            if step \<ge> pol_emergency_hard_steps policy then
              Some (EmergencyHardStepLimit step (pol_emergency_hard_steps policy))
            else None)"

fun is_finalization_grace_stop :: "turn_budget_stop_reason option \<Rightarrow> bool" where
  "is_finalization_grace_stop (Some (WallClockLimit _ _)) = True"
| "is_finalization_grace_stop (Some (TotalToolCallLimit _ _)) = True"
| "is_finalization_grace_stop (Some (ToolClassCallLimit _ _ _)) = True"
| "is_finalization_grace_stop _ = False"

definition evaluate_turn_budget ::
    "renderer \<Rightarrow> turn_budget_policy \<Rightarrow> u32 \<Rightarrow> u64 \<Rightarrow> turn_budget_state
     \<Rightarrow> tool_continuation_observation list \<Rightarrow> panic + turn_budget_evaluation" where
  "evaluate_turn_budget render policy step elapsed prior observations =
     (let next = budget_next_state policy prior observations;
          primary_tool_name = map_option obs_tool_name (fetch_optional observations);
          candidate = stop_candidate policy step elapsed primary_tool_name next;
          grace = is_finalization_grace_stop candidate \<and> \<not> st_budget_finalization_grace_used prior;
          next' = (if grace then next\<lparr>st_budget_finalization_grace_used := True\<rparr> else next);
          stop_reason = (if grace then None else candidate)
      in bindR (if stop_reason = None
                then budget_warning render policy step elapsed next' candidate
                else Inr None) (\<lambda>w.
           Inr \<lparr>ev_next_state = next', ev_warning = w, ev_stop_reason = stop_reason\<rparr>))"

definition evaluate_turn_context_budget ::
    "renderer \<Rightarrow> turn_budget_state \<Rightarrow> context_budget_report \<Rightarrow> turn_budget_evaluation" where
  "evaluate_turn_context_budget render prior report =
     (let stop_reason =
        (if rep_over_budget report
         then Some (ContextBudgetLimit (rep_model report) (rep_estimated_input_tokens report)
                (rep_reserved_output_tokens report) (rep_estimated_total_tokens report)
                (rep_context_window report))
         else None)
      in \<lparr>ev_next_state = prior\<lparr>st_latest_context_budget := Some report\<rparr>,
          ev_warning =
            (if stop_reason = None \<and> rep_near_budget report
             then Some (warning render ''context_budget_warning''
               [(''code'', JStr ''context_budget_warning''), (''model'', JStr (rep_model report)),
                (''context_window'',
                   case rep_context_window report of Some w \<Rightarrow> jword w | None \<Rightarrow> JNull),
                (''estimated_input_tokens'', jword (rep_estimated_input_tokens report)),
                (''reserved_output_tokens'', jword (rep_reserved_output_tokens report)),
                (''estimated_total_tokens'', jword (rep_estimated_total_tokens report))]
               ''Budget advisory: the next model call is close to the context limit. Checkpoint or compact before adding more context. If focused work remains, split the remaining work into smaller task slices rather than trying to fit the whole Job in this turn.'')
             else None),
          ev_stop_reason = stop_reason\<rparr>)"

subsection \<open>Ledger accounting\<close>

lemma class_index_bound: "class_index c < TOOL_BUDGET_CLASS_COUNT"
  by (cases c) (simp_all add: TOOL_BUDGET_CLASS_COUNT_def)

lemma length_class_limits: "length (class_limits l) = TOOL_BUDGET_CLASS_COUNT"
  by (simp add: class_limits_def TOOL_BUDGET_CLASS_COUNT_def)

lemma length_class_counts: "length (class_counts u) = TOOL_BUDGET_CLASS_COUNT"
  by (simp add: class_counts_def TOOL_BUDGET_CLASS_COUNT_def)

lemma severity_covers_all: "set ALL_BUDGET_CLASSES_BY_SEVERITY = UNIV"
proof -
  have "c \<in> set ALL_BUDGET_CLASSES_BY_SEVERITY" for c
    by (cases c) (simp_all add: ALL_BUDGET_CLASSES_BY_SEVERITY_def)
  then show ?thesis by blast
qed

lemma increment_total [simp]: "use_total (increment u c) = sat_add (use_total u) 1"
  by (cases c) (simp_all add: increment_def)

lemma increment_count:
  "count_for (increment u c) d = (if c = d then sat_add (count_for u c) 1 else count_for u d)"
  by (cases c; cases d) (simp_all add: increment_def count_for_def class_counts_def)

lemma sat_add_one_nat: "unat (sat_add a 1) = min (Suc (unat a)) (2 ^ 32 - 1)" for a :: u32
  by (simp add: unat_sat_add)

text \<open>The ledger is a saturating count of the observations, in total and per class.\<close>

interpretation total_ledger: counting_fold
  "\<lambda>u ob. increment u (obs_class ob)" "\<lambda>u. unat (use_total u)"
  by unfold_locales (simp add: sat_add_one_nat)

lemma run_increment_total:
  "unat (use_total (run_ops (\<lambda>u ob. increment u (obs_class ob)) u obs))
   = min (unat (use_total u) + length obs) (2 ^ 32 - 1)"
proof (induction obs arbitrary: u)
  case Nil
  have "unat (use_total u) < 2 ^ 32" using unsigned_less [of "use_total u"] by simp
  then show ?case by simp
next
  case (Cons ob obs)
  then show ?case by (auto simp: sat_add_one_nat min_def)
qed

lemma run_increment_count:
  "unat (count_for (run_ops (\<lambda>u ob. increment u (obs_class ob)) u obs) c)
   = min (unat (count_for u c) + length (filter (\<lambda>ob. obs_class ob = c) obs)) (2 ^ 32 - 1)"
proof (induction obs arbitrary: u)
  case Nil
  have "unat (count_for u c) < 2 ^ 32" using unsigned_less [of "count_for u c"] by simp
  then show ?case by simp
next
  case (Cons ob obs)
  then show ?case by (auto simp: sat_add_one_nat increment_count min_def)
qed

lemma window_total [simp]: "use_total (apply_post_mutation_verification_window u w) = use_total u"
  by (simp add: apply_post_mutation_verification_window_def)

lemma window_count:
  "count_for (apply_post_mutation_verification_window u w) c =
     (if c = ClsRead then sat_sub (count_for u c) (replenish_read w)
      else if c = ClsSearch then sat_sub (count_for u c) (replenish_search w)
      else count_for u c)"
  by (cases c) (simp_all add: apply_post_mutation_verification_window_def count_for_def class_counts_def)

lemma ledger_total: "unat (use_total (ledger_after policy u obs))
   = min (unat (use_total u) + length obs) (2 ^ 32 - 1)"
  by (simp add: ledger_after_def Let_def run_increment_total split: option.split)

lemma ledger_count_unreplenished:
  "c \<noteq> ClsRead \<Longrightarrow> c \<noteq> ClsSearch \<Longrightarrow>
   unat (count_for (ledger_after policy u obs) c)
   = min (unat (count_for u c) + length (filter (\<lambda>ob. obs_class ob = c) obs)) (2 ^ 32 - 1)"
  by (simp add: ledger_after_def Let_def run_increment_count window_count split: option.split)

subsection \<open>Stops\<close>

lemma first_exhausted_in_Some:
  "first_exhausted_in cs u l = Some (c, n, k) \<Longrightarrow>
   c \<in> set cs \<and> n = count_for u c \<and> k = limit_for l c \<and> n > k"
  by (induction cs) (auto simp: Let_def split: if_splits)

lemma first_exhausted_in_None:
  "first_exhausted_in cs u l = None \<longleftrightarrow> (\<forall>c \<in> set cs. count_for u c \<le> limit_for l c)"
  by (induction cs) (auto simp: Let_def)

lemma first_exhausted_class_None:
  "first_exhausted_class u l = None \<longleftrightarrow> (\<forall>c. count_for u c \<le> limit_for l c)"
  by (simp add: first_exhausted_class_def first_exhausted_in_None severity_covers_all)

text \<open>What it means that a turn is inside its policy.\<close>

definition within_policy :: "turn_budget_policy \<Rightarrow> u32 \<Rightarrow> u64 \<Rightarrow> turn_budget_state \<Rightarrow> bool" where
  "within_policy policy step elapsed s \<longleftrightarrow>
     elapsed < pol_max_wall_clock_ms policy
     \<and> st_same_batch_signature_repeats s \<le> pol_max_same_tool_signature_repeats policy
     \<and> st_consecutive_tool_failures s < pol_max_consecutive_tool_failures policy
     \<and> use_total (st_tool_usage s) \<le> lim_total (pol_tool_call_limits policy)
     \<and> (\<forall>c. count_for (st_tool_usage s) c \<le> limit_for (pol_tool_call_limits policy) c)
     \<and> step < pol_emergency_hard_steps policy"

lemma stop_candidate_None_iff:
  "stop_candidate policy step elapsed t s = None \<longleftrightarrow> within_policy policy step elapsed s"
proof (cases "first_exhausted_class (st_tool_usage s) (pol_tool_call_limits policy)")
  case None
  then show ?thesis
    using first_exhausted_class_None [of "st_tool_usage s" "pol_tool_call_limits policy"]
    by (auto simp: stop_candidate_def within_policy_def not_le not_less)
next
  case (Some x)
  then have "\<not> (\<forall>c. count_for (st_tool_usage s) c \<le> limit_for (pol_tool_call_limits policy) c)"
    using first_exhausted_class_None [of "st_tool_usage s" "pol_tool_call_limits policy"] by simp
  with Some show ?thesis
    by (auto simp: stop_candidate_def within_policy_def split: prod.splits)
qed

text \<open>Which bound a stop reason claims to be broken, read back against the state.\<close>

fun reason_holds :: "turn_budget_policy \<Rightarrow> u32 \<Rightarrow> u64 \<Rightarrow> turn_budget_state \<Rightarrow> turn_budget_stop_reason \<Rightarrow> bool" where
  "reason_holds p step elapsed s (WallClockLimit e l) =
     (e = elapsed \<and> l = pol_max_wall_clock_ms p \<and> e \<ge> l)"
| "reason_holds p step elapsed s (RuleOfKo n l t) =
     (n = st_same_batch_signature_repeats s \<and> l = pol_max_same_tool_signature_repeats p \<and> n > l)"
| "reason_holds p step elapsed s (ConsecutiveToolFailures n l t) =
     (n = st_consecutive_tool_failures s \<and> l = pol_max_consecutive_tool_failures p \<and> n \<ge> l)"
| "reason_holds p step elapsed s (TotalToolCallLimit n l) =
     (n = use_total (st_tool_usage s) \<and> l = lim_total (pol_tool_call_limits p) \<and> n > l)"
| "reason_holds p step elapsed s (ToolClassCallLimit c n l) =
     (n = count_for (st_tool_usage s) c \<and> l = limit_for (pol_tool_call_limits p) c \<and> n > l)"
| "reason_holds p step elapsed s (EmergencyHardStepLimit n l) =
     (n = step \<and> l = pol_emergency_hard_steps p \<and> n \<ge> l)"
| "reason_holds p step elapsed s (ContextBudgetLimit _ _ _ _ _) = False"

lemma stop_candidate_sound:
  "stop_candidate policy step elapsed t s = Some r \<Longrightarrow> reason_holds policy step elapsed s r"
  by (auto simp: stop_candidate_def first_exhausted_class_def
      dest: first_exhausted_in_Some split: if_splits option.splits prod.splits)

subsection \<open>Warnings never panic\<close>

lemma class_warning_total: "\<exists>w. class_warning render cs u l = Inr w"
proof (induction cs)
  case Nil
  then show ?case by simp
next
  case (Cons c cs)
  show ?case
  proof (cases "count_for u c = 0 \<or> count_for u c \<ge> limit_for l c")
    case True
    with Cons.IH show ?thesis by (auto simp: Let_def)
  next
    case False
    then have "count_for u c < limit_for l c" by (simp add: not_le)
    then have "add_chk (count_for u c) 1 = Inr (count_for u c + 1)" by (rule add_chk_one_ok)
    with False Cons.IH show ?thesis by (auto simp: Let_def)
  qed
qed

lemma total_tool_warning_total: "\<exists>w. total_tool_warning render policy state = Inr w"
proof (cases "use_total (st_tool_usage state) \<ge> lim_total (pol_tool_call_limits policy)")
  case True
  then show ?thesis by (simp add: total_tool_warning_def Let_def)
next
  case False
  then have "use_total (st_tool_usage state) < lim_total (pol_tool_call_limits policy)" by simp
  then have "add_chk (use_total (st_tool_usage state)) 1 = Inr (use_total (st_tool_usage state) + 1)"
    by (rule add_chk_one_ok)
  with False show ?thesis by (simp add: total_tool_warning_def Let_def)
qed

lemma failure_and_ko_warning_total:
  assumes "st_consecutive_tool_failures state < pol_max_consecutive_tool_failures policy"
  shows "\<exists>w. failure_and_ko_warning render policy state = Inr w"
  using add_chk_one_ok [OF assms] by (simp add: failure_and_ko_warning_def)

lemma budget_warning_total:
  assumes "finalization_stop = None \<Longrightarrow> step < pol_emergency_hard_steps policy
     \<and> st_consecutive_tool_failures state < pol_max_consecutive_tool_failures policy"
  shows "\<exists>w. budget_warning render policy step elapsed state finalization_stop = Inr w"
proof (cases finalization_stop)
  case (Some r)
  then show ?thesis by (simp add: budget_warning_def)
next
  case None
  with assms have step: "step < pol_emergency_hard_steps policy"
    and failures: "st_consecutive_tool_failures state < pol_max_consecutive_tool_failures policy"
    by simp_all
  obtain tw where tw: "total_tool_warning render policy state = Inr tw"
    using total_tool_warning_total by blast
  obtain cw where cw: "class_warning render ALL_BUDGET_CLASSES_BY_SEVERITY (st_tool_usage state)
      (pol_tool_call_limits policy) = Inr cw"
    using class_warning_total by blast
  obtain fw where fw: "failure_and_ko_warning render policy state = Inr fw"
    using failure_and_ko_warning_total [OF failures] by blast
  show ?thesis
    using add_chk_one_ok [OF step]
    by (auto simp: budget_warning_def None tw cw fw split: option.split)
qed

subsection \<open>Evaluation: totality, stops and the one-shot grace\<close>

lemma evaluate_cases:
  assumes "evaluate_turn_budget render policy step elapsed prior obs = Inr ev"
  defines "next \<equiv> budget_next_state policy prior obs"
    and "candidate \<equiv> stop_candidate policy step elapsed
           (map_option obs_tool_name (fetch_optional obs)) (budget_next_state policy prior obs)"
  shows "ev_stop_reason ev =
           (if is_finalization_grace_stop candidate \<and> \<not> st_budget_finalization_grace_used prior
            then None else candidate)"
    and "ev_next_state ev =
           (if is_finalization_grace_stop candidate \<and> \<not> st_budget_finalization_grace_used prior
            then next\<lparr>st_budget_finalization_grace_used := True\<rparr> else next)"
  using assms(1)
  unfolding evaluate_turn_budget_def Let_def bindR_Inr_iff next_def candidate_def by auto

lemma next_state_grace [simp]:
  "st_budget_finalization_grace_used (budget_next_state policy prior obs)
   = st_budget_finalization_grace_used prior"
  by (simp add: budget_next_state_def)

lemma evaluate_turn_budget_total:
  "\<exists>ev. evaluate_turn_budget render policy step elapsed prior obs = Inr ev"
proof -
  define nxt where "nxt = budget_next_state policy prior obs"
  define cand where "cand = stop_candidate policy step elapsed
    (map_option obs_tool_name (fetch_optional obs)) nxt"
  have ok: "\<exists>w. budget_warning render policy step elapsed s cand = Inr w"
    if "st_consecutive_tool_failures s = st_consecutive_tool_failures nxt" for s
  proof (rule budget_warning_total)
    assume "cand = None"
    then have "within_policy policy step elapsed nxt"
      by (simp add: cand_def stop_candidate_None_iff)
    with that show "step < pol_emergency_hard_steps policy
      \<and> st_consecutive_tool_failures s < pol_max_consecutive_tool_failures policy"
      by (simp add: within_policy_def)
  qed
  have "\<exists>w. budget_warning render policy step elapsed
      (if g then nxt\<lparr>st_budget_finalization_grace_used := True\<rparr> else nxt) cand = Inr w" for g
    by (rule ok) simp
  then show ?thesis
    by (auto simp: evaluate_turn_budget_def Let_def bindR_Inr_iff
        simp flip: nxt_def cand_def)
qed

text \<open>
  Evaluating a batch of tool results always returns an evaluation: the unchecked
  additions \<open>step + 1\<close>, \<open>total + 1\<close>, \<open>count + 1\<close> and \<open>failures + 1\<close> of the warning code are
  only reached where they cannot overflow, for every policy, step, clock, state and batch; and an
  evaluation carries a stop or a warning, never both.
\<close>
theorem evaluate_turn_budget_never_panics:
  "\<exists>ev. evaluate_turn_budget render policy step elapsed prior obs = Inr ev
     \<and> (ev_stop_reason ev = None \<or> ev_warning ev = None)"
proof -
  obtain ev where ev: "evaluate_turn_budget render policy step elapsed prior obs = Inr ev"
    using evaluate_turn_budget_total by blast
  then have "ev_stop_reason ev = None \<or> ev_warning ev = None"
    by (auto simp: evaluate_turn_budget_def Let_def bindR_Inr_iff split: if_splits)
  with ev show ?thesis by blast
qed

text \<open>
  A reported stop is justified: the reason names the bound that is broken, with the
  counter and the limit of the evaluated state, and a turn inside its policy is never
  stopped.
\<close>
theorem stop_reason_sound:
  assumes "evaluate_turn_budget render policy step elapsed prior obs = Inr ev"
    and "ev_stop_reason ev = Some r"
  shows "reason_holds policy step elapsed (ev_next_state ev) r
    \<and> \<not> within_policy policy step elapsed (ev_next_state ev)"
proof -
  let ?s = "budget_next_state policy prior obs"
  let ?t = "map_option obs_tool_name (fetch_optional obs)"
  from evaluate_cases [OF assms(1)] assms(2)
  have cand: "stop_candidate policy step elapsed ?t ?s = Some r" and st: "ev_next_state ev = ?s"
    by (auto split: if_splits)
  from cand have "\<not> within_policy policy step elapsed ?s"
    using stop_candidate_None_iff [of policy step elapsed ?t ?s] by simp
  with stop_candidate_sound [OF cand] st show ?thesis by simp
qed

text \<open>
  No exceeded bound is let through silently: an evaluation that neither stops nor
  spends the finalization grace leaves the turn inside every bound of its policy, and the
  grace is spent only on a wall-clock or tool-count bound, and only once.
\<close>
theorem no_stop_means_within_policy:
  assumes "evaluate_turn_budget render policy step elapsed prior obs = Inr ev"
    and "ev_stop_reason ev = None"
  shows "within_policy policy step elapsed (ev_next_state ev)
    \<or> (\<not> st_budget_finalization_grace_used prior
       \<and> st_budget_finalization_grace_used (ev_next_state ev)
       \<and> (elapsed \<ge> pol_max_wall_clock_ms policy
          \<or> use_total (st_tool_usage (ev_next_state ev)) > lim_total (pol_tool_call_limits policy)
          \<or> (\<exists>c. count_for (st_tool_usage (ev_next_state ev)) c
                 > limit_for (pol_tool_call_limits policy) c)))"
proof -
  let ?s = "budget_next_state policy prior obs"
  let ?cand = "stop_candidate policy step elapsed (map_option obs_tool_name (fetch_optional obs)) ?s"
  show ?thesis
  proof (cases "is_finalization_grace_stop ?cand \<and> \<not> st_budget_finalization_grace_used prior")
    case True
    then obtain r where r: "?cand = Some r" and g: "is_finalization_grace_stop (Some r)"
      by (cases ?cand) auto
    have "reason_holds policy step elapsed ?s r" using r by (rule stop_candidate_sound)
    with g True evaluate_cases(2) [OF assms(1)] show ?thesis by (cases r) auto
  next
    case False
    with evaluate_cases [OF assms(1)] assms(2) have "?cand = None" and "ev_next_state ev = ?s"
      by auto
    then show ?thesis by (simp add: stop_candidate_None_iff)
  qed
qed

text \<open>
  A turn evaluates one batch after another: the state of one evaluation is the prior state of
  the next. A Pair run that goes on into a new budget slice starts again from the initial state
  (\<open>agent_loop/session_stream.rs\<close>), so a sequence here is the evaluations of one slice.
\<close>

fun evaluate_all ::
    "renderer \<Rightarrow> turn_budget_policy \<Rightarrow> turn_budget_state
     \<Rightarrow> (u32 \<times> u64 \<times> tool_continuation_observation list) list \<Rightarrow> turn_budget_evaluation list" where
  "evaluate_all render policy prior [] = []"
| "evaluate_all render policy prior ((step, elapsed, obs) # rest) =
     (case evaluate_turn_budget render policy step elapsed prior obs of
        Inr ev \<Rightarrow> ev # evaluate_all render policy (ev_next_state ev) rest
      | Inl e \<Rightarrow> [])"

text \<open>An evaluation that lets a turn go on although a bound of its policy is exceeded.\<close>

definition overrun ::
    "turn_budget_policy \<Rightarrow> (u32 \<times> u64 \<times> tool_continuation_observation list) \<times> turn_budget_evaluation \<Rightarrow> bool" where
  "overrun policy p = (case p of ((step, elapsed, obs), ev) \<Rightarrow>
     ev_stop_reason ev = None \<and> \<not> within_policy policy step elapsed (ev_next_state ev))"

lemma evaluate_grace_mono:
  "evaluate_turn_budget render policy step elapsed prior obs = Inr ev \<Longrightarrow>
   st_budget_finalization_grace_used prior \<Longrightarrow> st_budget_finalization_grace_used (ev_next_state ev)"
  by (simp add: evaluate_cases(2))

lemma overrun_spends_grace:
  assumes "evaluate_turn_budget render policy step elapsed prior obs = Inr ev"
    and "overrun policy ((step, elapsed, obs), ev)"
  shows "\<not> st_budget_finalization_grace_used prior \<and> st_budget_finalization_grace_used (ev_next_state ev)"
proof -
  let ?s = "budget_next_state policy prior obs"
  let ?cand = "stop_candidate policy step elapsed (map_option obs_tool_name (fetch_optional obs)) ?s"
  have "?cand \<noteq> None \<or> ev_next_state ev \<noteq> ?s"
    using assms(2) stop_candidate_None_iff [of policy step elapsed] by (auto simp: overrun_def)
  with evaluate_cases [OF assms(1)] assms(2) show ?thesis
    by (auto simp: overrun_def split: if_splits)
qed

lemma no_overrun_after_grace:
  "st_budget_finalization_grace_used prior \<Longrightarrow>
   filter (overrun policy) (zip inputs (evaluate_all render policy prior inputs)) = []"
proof (induction render policy prior inputs rule: evaluate_all.induct)
  case (1 render policy prior)
  then show ?case by simp
next
  case (2 render policy prior step elapsed obs rest)
  obtain ev where ev: "evaluate_turn_budget render policy step elapsed prior obs = Inr ev"
    using evaluate_turn_budget_total by blast
  have "\<not> overrun policy ((step, elapsed, obs), ev)"
    using overrun_spends_grace [OF ev] 2 by blast
  moreover have "filter (overrun policy) (zip rest (evaluate_all render policy (ev_next_state ev) rest)) = []"
    using 2 ev evaluate_grace_mono [OF ev] by blast
  ultimately show ?case using ev by simp
qed

text \<open>
  C29. The finalization grace is spent at most once in a turn: over any sequence of
  evaluations that hand their state on, with any policy, steps and clock readings, at most one
  lets the turn go on past an exceeded bound. A Pair run that continues with a new budget slice
  resets the state, and with it the grace; the statement is about one slice.
\<close>
theorem finalization_grace_at_most_once:
  "length (filter (overrun policy) (zip inputs (evaluate_all render policy prior inputs))) \<le> 1"
proof (induction render policy prior inputs rule: evaluate_all.induct)
  case (1 render policy prior)
  then show ?case by simp
next
  case (2 render policy prior step elapsed obs rest)
  obtain ev where ev: "evaluate_turn_budget render policy step elapsed prior obs = Inr ev"
    using evaluate_turn_budget_total by blast
  show ?case
  proof (cases "overrun policy ((step, elapsed, obs), ev)")
    case True
    then have "st_budget_finalization_grace_used (ev_next_state ev)"
      using overrun_spends_grace [OF ev] by blast
    then show ?thesis using ev no_overrun_after_grace by simp
  next
    case False
    then show ?thesis using ev 2 by simp
  qed
qed

text \<open>
  The ledger counts every call and gives back only what the verification window allows:
  after a batch the total and each class counter are the saturated sums, and only the read and
  search counters of a batch with a successful mutation are lowered, by the window's amounts.
\<close>
theorem ledger_accounting:
  "unat (use_total (ledger_after policy u obs)) = min (unat (use_total u) + length obs) (2 ^ 32 - 1)
   \<and> unat (count_for (ledger_after policy u obs) c)
     = min (unat (count_for u c) + length (filter (\<lambda>ob. obs_class ob = c) obs)) (2 ^ 32 - 1)
       - (case pol_post_mutation_verification_window policy of
            None \<Rightarrow> 0
          | Some w \<Rightarrow>
              if \<exists>ob \<in> set obs. observation_is_successful_mutation ob
              then (case c of ClsRead \<Rightarrow> unat (replenish_read w)
                    | ClsSearch \<Rightarrow> unat (replenish_search w) | _ \<Rightarrow> 0)
              else 0)"
  by (cases c; simp add: ledger_after_def Let_def run_increment_total run_increment_count window_count
      unat_sat_sub split: option.split)

subsection \<open>The rule of ko\<close>

lemma next_state_repeats:
  "rule_of_ko_batch_signature obs = Some sig \<Longrightarrow>
   st_last_batch_signature (budget_next_state policy s obs) = Some sig
   \<and> st_same_batch_signature_repeats (budget_next_state policy s obs)
     = (if st_last_batch_signature s = Some sig
        then sat_add (st_same_batch_signature_repeats s) 1 else 1)"
  by (simp add: budget_next_state_def ko_after_def)

lemma repeats_after_same:
  assumes "\<forall>obs \<in> set batches. rule_of_ko_batch_signature obs = Some sig"
    and "st_last_batch_signature s = Some sig"
  shows "unat (st_same_batch_signature_repeats (run_ops (budget_next_state policy) s batches))
    = min (unat (st_same_batch_signature_repeats s) + length batches) (2 ^ 32 - 1)"
  using assms
proof (induction batches arbitrary: s)
  case Nil
  have "unat (st_same_batch_signature_repeats s) < 2 ^ 32"
    using unsigned_less [of "st_same_batch_signature_repeats s"] by simp
  then show ?case by simp
next
  case (Cons obs batches)
  then show ?case by (auto simp: next_state_repeats sat_add_one_nat min_def)
qed

text \<open>
  The rule of ko catches a loop: once the same batch signature (not only stateless probes)
  has come up more often in a row than the policy allows, the turn has a stop candidate,
  whatever the steps and the clock say; and up to then the repeat counter is exactly the
  number of repetitions.
\<close>
theorem rule_of_ko_stops_loops:
  assumes "\<forall>obs \<in> set batches. rule_of_ko_batch_signature obs = Some sig"
    and "st_last_batch_signature prior \<noteq> Some sig"
    and "batches \<noteq> []" and "length batches < 2 ^ 32"
  shows "unat (st_same_batch_signature_repeats (run_ops (budget_next_state policy) prior batches))
      = length batches
    \<and> (length batches > unat (pol_max_same_tool_signature_repeats policy) \<longrightarrow>
       stop_candidate policy step elapsed t (run_ops (budget_next_state policy) prior batches) \<noteq> None)"
proof -
  obtain obs rest where b: "batches = obs # rest" using assms(3) by (cases batches) auto
  let ?s = "run_ops (budget_next_state policy) prior batches"
  have reps: "unat (st_same_batch_signature_repeats ?s) = length batches"
    using assms repeats_after_same [of rest sig "budget_next_state policy prior obs" policy]
    by (simp add: b next_state_repeats)
  moreover have "\<not> within_policy policy step elapsed ?s"
    if "length batches > unat (pol_max_same_tool_signature_repeats policy)"
    using that reps by (auto simp: within_policy_def word_le_nat_alt)
  ultimately show ?thesis by (simp add: stop_candidate_None_iff)
qed

subsection \<open>Canonical arguments\<close>

text \<open>Two JSON values that differ only in the order of object members, at any depth.\<close>

inductive json_sim :: "json \<Rightarrow> json \<Rightarrow> bool" where
  sim_refl: "json_sim v v"
| sim_arr: "list_all2 json_sim xs ys \<Longrightarrow> json_sim (JArr xs) (JArr ys)"
| sim_obj: "list_all2 (\<lambda>kv kv'. fst kv = fst kv' \<and> json_sim (snd kv) (snd kv')) kvs kvs'
    \<Longrightarrow> mset kvs' = mset ws \<Longrightarrow> json_sim (JObj kvs) (JObj ws)"

lemma canonical_members_mset:
  assumes "mset kvs = mset ws" and "distinct (map fst kvs)"
  shows "append_canonical_json quote (JObj kvs) = append_canonical_json quote (JObj ws)"
proof -
  let ?m = "map (\<lambda>(k, v). (k, quote k @ '':'' @ append_canonical_json quote v))"
  have "distinct (map fst (?m kvs))" using assms(2) by (simp add: comp_def case_prod_beta)
  then have "inj_on fst (set (?m kvs))" using distinct_map [of fst "?m kvs"] by blast
  moreover have "mset (?m kvs) = mset (?m ws)" using assms(1) by simp
  ultimately have "sort_key fst (?m kvs) = sort_key fst (?m ws)" by (intro sort_key_mset_eq)
  then show ?thesis by simp
qed

lemma canonical_json_sim:
  "json_sim v w \<Longrightarrow> json_wf v \<Longrightarrow> append_canonical_json quote v = append_canonical_json quote w"
proof (induction rule: json_sim.induct)
  case (sim_refl v)
  then show ?case by simp
next
  case (sim_arr xs ys)
  then have "map (append_canonical_json quote) xs = map (append_canonical_json quote) ys"
    by (auto simp: list_all2_conv_all_nth intro!: nth_equalityI)
  then show ?case by simp
next
  case (sim_obj kvs kvs' ws)
  have keys: "map fst kvs = map fst kvs'"
    using sim_obj by (auto simp: list_all2_conv_all_nth intro!: nth_equalityI)
  have "map (\<lambda>(k, v). (k, quote k @ '':'' @ append_canonical_json quote v)) kvs
      = map (\<lambda>(k, v). (k, quote k @ '':'' @ append_canonical_json quote v)) kvs'"
    using sim_obj by (auto simp: list_all2_conv_all_nth case_prod_beta intro!: nth_equalityI)
  then have "append_canonical_json quote (JObj kvs) = append_canonical_json quote (JObj kvs')"
    by simp
  also have "\<dots> = append_canonical_json quote (JObj ws)"
    using sim_obj keys by (intro canonical_members_mset) auto
  finally show ?case .
qed

text \<open>
  A tool signature does not depend on how the model ordered the members of its JSON
  arguments, at any nesting depth, nor on white space around the name or the arguments: two
  such calls count as the same batch for the rule of ko.
\<close>
theorem tool_signature_order_independent:
  assumes "parse (trim a) = Some v" and "parse (trim b) = Some w"
    and "trim a \<noteq> []" and "trim b \<noteq> []"
    and "json_sim v w" and "json_wf v"
    and "trim name = trim name'"
  shows "tool_signature quote parse name a = tool_signature quote parse name' b"
  using assms canonical_json_sim [of v w quote]
  by (simp add: tool_signature_def canonicalize_jsonish_def canonical_json_def)

subsection \<open>Witnesses\<close>

text \<open>A small policy and two calls, for the witnesses.\<close>

definition sample_limits :: tool_call_budget_limits where
  "sample_limits = \<lparr>lim_total = 4, lim_read = 3, lim_search = 3, lim_fetch = 2, lim_execute = 2,
     lim_write = 2, lim_destructive = 0, lim_other = 2\<rparr>"

definition sample_policy :: turn_budget_policy where
  "sample_policy = \<lparr>pol_max_wall_clock_ms = 1000, pol_emergency_hard_steps = 8,
     pol_tool_call_limits = sample_limits, pol_max_consecutive_tool_failures = 3,
     pol_max_same_tool_signature_repeats = 1, pol_post_mutation_verification_window = None\<rparr>"

definition sample_call :: tool_continuation_observation where
  "sample_call = \<lparr>obs_tool_name = ''process_run'', obs_signature = ''process_run|ls'',
     obs_class = ClsExecute, obs_failed = False, obs_grounding_probe_signal = None\<rparr>"

lemmas sample_defs = sample_limits_def sample_policy_def sample_call_def

lemmas evaluation_defs = budget_next_state_def ledger_after_def ko_after_def failures_after_def
  rule_of_ko_batch_signature_def observation_is_stateless_read_probe_def increment_def
  sat_add_def stop_candidate_def first_exhausted_class_def ALL_BUDGET_CLASSES_BY_SEVERITY_def
  count_for_def limit_for_def class_counts_def class_limits_def turn_budget_state_default_def
  usage_default_def

theorem stop_reason_sound_witness:
  "\<exists>ev. evaluate_turn_budget (\<lambda>_. None) sample_policy 9 10 (turn_budget_state_default 0) [sample_call] = Inr ev
     \<and> ev_stop_reason ev = Some (EmergencyHardStepLimit 9 8)
     \<and> reason_holds sample_policy 9 10 (ev_next_state ev) (EmergencyHardStepLimit 9 8)"
proof -
  obtain ev where ev: "evaluate_turn_budget (\<lambda>_. None) sample_policy 9 10
      (turn_budget_state_default 0) [sample_call] = Inr ev"
    using evaluate_turn_budget_total by blast
  have "ev_stop_reason ev = Some (EmergencyHardStepLimit 9 8)"
    unfolding evaluate_cases [OF ev] by (simp add: evaluation_defs sample_defs)
  with ev stop_reason_sound [OF ev this] show ?thesis by blast
qed

theorem no_stop_means_within_policy_witness:
  "\<exists>ev. evaluate_turn_budget (\<lambda>_. None) sample_policy 2 10 (turn_budget_state_default 0) [sample_call] = Inr ev
     \<and> ev_stop_reason ev = None \<and> within_policy sample_policy 2 10 (ev_next_state ev)"
proof -
  obtain ev where ev: "evaluate_turn_budget (\<lambda>_. None) sample_policy 2 10
      (turn_budget_state_default 0) [sample_call] = Inr ev"
    using evaluate_turn_budget_total by blast
  have none: "ev_stop_reason ev = None"
    unfolding evaluate_cases [OF ev] by (simp add: evaluation_defs sample_defs)
  have "\<not> st_budget_finalization_grace_used (ev_next_state ev)"
    unfolding evaluate_cases [OF ev] by (simp add: evaluation_defs sample_defs)
  with ev none no_stop_means_within_policy [OF ev none] show ?thesis by blast
qed

theorem rule_of_ko_stops_loops_witness:
  "stop_candidate sample_policy 2 10 None
     (run_ops (budget_next_state sample_policy) (turn_budget_state_default 0) [[sample_call], [sample_call]])
   \<noteq> None"
  using rule_of_ko_stops_loops [of "[[sample_call], [sample_call]]" "''process_run|ls''"
      "turn_budget_state_default 0" sample_policy 2 10 None]
  by (simp add: rule_of_ko_batch_signature_def observation_is_stateless_read_probe_def sample_defs
      turn_budget_state_default_def)

theorem tool_signature_order_independent_witness:
  "tool_signature id
     (\<lambda>s. if s = ''x'' then Some (JObj [(''b'', JArr []), (''a'', JNull)])
           else Some (JObj [(''a'', JNull), (''b'', JArr [])]))
     '' git_diff'' ''x ''
   = tool_signature id
     (\<lambda>s. if s = ''x'' then Some (JObj [(''b'', JArr []), (''a'', JNull)])
           else Some (JObj [(''a'', JNull), (''b'', JArr [])]))
     ''git_diff'' ''y''"
proof -
  have t: "trim ''x '' = ''x''" "trim ''y'' = ''y''" "trim '' git_diff'' = trim ''git_diff''"
    by (simp_all add: trim_def trim_start.simps trim_end_rev.simps trim_eval)
  have "json_sim (JObj [(''b'', JArr []), (''a'', JNull)]) (JObj [(''a'', JNull), (''b'', JArr [])])"
    by (rule sim_obj [where kvs' = "[(''b'', JArr []), (''a'', JNull)]"]) (simp_all add: sim_refl)
  with t show ?thesis
    by (intro tool_signature_order_independent
        [where v = "JObj [(''b'', JArr []), (''a'', JNull)]" and w = "JObj [(''a'', JNull), (''b'', JArr [])]"])
      simp_all
qed

end
