(* ===== verification/Model_Registry.thy ===== *)
theory Model_Registry
  imports Den_Core
begin

section \<open>The model registry\<close>

text \<open>
  \<open>den-llm/src/model_registry.rs\<close>: the table of models, the resolution of a handle to an entry,
  the execution fallbacks, the labels of the operator UI and the report that compares the
  registry with the handles of the gateway. The token calibration of the same file is
  floating-point arithmetic and is left out.
\<close>

subsection \<open>Entries\<close>

record den_model_registry_entry =
  mdl_key :: string
  mdl_provider :: string
  mdl_provider_model_id :: string
  mdl_display_name :: string
  mdl_aliases :: "string list"
  mdl_context_window :: u32
  mdl_max_output_tokens :: "u32 option"
  mdl_supports_tools :: bool
  mdl_supports_responses_api :: bool
  mdl_supports_vision :: bool
  mdl_default_agent_loop_control :: agent_loop_control_level
  mdl_selectable :: bool

record model_option =
  opt_handle :: string
  opt_label :: string
  opt_context_window :: "u32 option"
  opt_max_output_tokens :: "u32 option"

definition default_agent_loop_control_for_openai_model :: "string \<Rightarrow> agent_loop_control_level" where
  "default_agent_loop_control_for_openai_model key =
     (if key \<in> set [''openai/gpt-5.5'', ''openai/gpt-5.1'', ''openai/gpt-5'', ''openai/o3''] then Light
      else if key \<in> set [''openai/gpt-5-mini'', ''openai/gpt-4.1-mini'', ''openai/gpt-4o-mini''] then Careful
      else if key \<in> set [''openai/gpt-5-nano'', ''openai/gpt-4.1-nano'', ''openai/o1-mini''] then Careful
      else Standard)"

definition openai ::
    "string \<Rightarrow> string \<Rightarrow> string \<Rightarrow> string list \<Rightarrow> u32 \<Rightarrow> u32 option \<Rightarrow> bool \<Rightarrow> bool
     \<Rightarrow> den_model_registry_entry" where
  "openai key provider_model_id display_name aliases window max_out tools vision = \<lparr>
     mdl_key = key,
     mdl_provider = ''openai'',
     mdl_provider_model_id = provider_model_id,
     mdl_display_name = display_name,
     mdl_aliases = aliases,
     mdl_context_window = window,
     mdl_max_output_tokens = max_out,
     mdl_supports_tools = tools,
     mdl_supports_responses_api = True,
     mdl_supports_vision = vision,
     mdl_default_agent_loop_control = default_agent_loop_control_for_openai_model key,
     mdl_selectable = True\<rparr>"

definition registry_entries :: "den_model_registry_entry list" where
  "registry_entries =
    [openai ''openai/gpt-5.5'' ''gpt-5.5'' ''OpenAI GPT-5.5'' [''gpt-5.5'', ''openai:gpt-5.5'']
       400000 (Some 128000) True True,
     openai ''openai/gpt-5.1'' ''gpt-5.1'' ''OpenAI GPT-5.1'' [''gpt-5.1'', ''openai:gpt-5.1'']
       400000 (Some 128000) True True,
     openai ''openai/gpt-5'' ''gpt-5'' ''OpenAI GPT-5'' [''gpt-5'', ''openai:gpt-5'']
       400000 (Some 128000) True True,
     openai ''openai/gpt-5-mini'' ''gpt-5-mini'' ''OpenAI GPT-5 mini'' [''gpt-5-mini'', ''openai:gpt-5-mini'']
       400000 (Some 128000) True True,
     openai ''openai/gpt-5-nano'' ''gpt-5-nano'' ''OpenAI GPT-5 nano'' [''gpt-5-nano'', ''openai:gpt-5-nano'']
       400000 (Some 128000) True True,
     openai ''openai/gpt-4.1'' ''gpt-4.1'' ''OpenAI GPT-4.1'' [''gpt-4.1'', ''openai:gpt-4.1'']
       1047576 (Some 32768) True True,
     openai ''openai/gpt-4.1-mini'' ''gpt-4.1-mini'' ''OpenAI GPT-4.1 mini''
       [''gpt-4.1-mini'', ''openai:gpt-4.1-mini'']
       1047576 (Some 32768) True True,
     openai ''openai/gpt-4.1-nano'' ''gpt-4.1-nano'' ''OpenAI GPT-4.1 nano''
       [''gpt-4.1-nano'', ''openai:gpt-4.1-nano'']
       1047576 (Some 32768) True True,
     openai ''openai/gpt-4o'' ''gpt-4o'' ''OpenAI GPT-4o'' [''gpt-4o'', ''openai:gpt-4o'']
       128000 (Some 16384) True True,
     openai ''openai/gpt-4o-mini'' ''gpt-4o-mini'' ''OpenAI GPT-4o mini'' [''gpt-4o-mini'', ''openai:gpt-4o-mini'']
       128000 (Some 16384) True True,
     openai ''openai/o4-mini'' ''o4-mini'' ''OpenAI o4-mini'' [''o4-mini'', ''openai:o4-mini'']
       200000 (Some 100000) True True,
     openai ''openai/o3'' ''o3'' ''OpenAI o3'' [''o3'', ''openai:o3'']
       200000 (Some 100000) True True,
     openai ''openai/o3-mini'' ''o3-mini'' ''OpenAI o3-mini'' [''o3-mini'', ''openai:o3-mini'']
       200000 (Some 100000) True False,
     openai ''openai/o1'' ''o1'' ''OpenAI o1'' [''o1'', ''openai:o1'']
       200000 (Some 100000) True True,
     openai ''openai/o1-mini'' ''o1-mini'' ''OpenAI o1-mini'' [''o1-mini'', ''openai:o1-mini'']
       128000 (Some 65536) True False]"

subsection \<open>Labels\<close>

definition format_tokens :: "u32 \<Rightarrow> string" where
  "format_tokens n =
     (if n \<ge> 1000000 then
        (let whole = n div 1000000; frac = (n mod 1000000) div 100000 in
         if frac = 0 then show_word whole @ ''M''
         else show_word whole @ ''.'' @ show_word frac @ ''M'')
      else if n \<ge> 1000 then show_word (n div 1000) @ ''k''
      else show_word n)"

definition model_label :: "den_model_registry_entry \<Rightarrow> string" where
  "model_label entry =
     (case mdl_max_output_tokens entry of
        Some out \<Rightarrow> mdl_display_name entry @ '' ('' @ format_tokens (mdl_context_window entry) @ '' ctx / ''
          @ format_tokens out @ '' out)''
      | None \<Rightarrow> mdl_display_name entry @ '' ('' @ format_tokens (mdl_context_window entry) @ '' ctx)'')"

definition to_model_option_for_handle :: "den_model_registry_entry \<Rightarrow> string \<Rightarrow> model_option" where
  "to_model_option_for_handle entry handle = \<lparr>
     opt_handle = handle,
     opt_label = model_label entry,
     opt_context_window = Some (mdl_context_window entry),
     opt_max_output_tokens = mdl_max_output_tokens entry\<rparr>"

definition to_model_option :: "den_model_registry_entry \<Rightarrow> model_option" where
  "to_model_option entry = to_model_option_for_handle entry (mdl_key entry)"

definition selectable_model_options :: "model_option list" where
  "selectable_model_options =
     sort_key opt_label (map to_model_option (filter mdl_selectable registry_entries))"

subsection \<open>Handles\<close>

definition matches_handle :: "den_model_registry_entry \<Rightarrow> string \<Rightarrow> bool" where
  "matches_handle entry handle \<longleftrightarrow>
     (let normalized = trim handle in
      normalized = mdl_key entry
      \<or> normalized = mdl_provider_model_id entry
      \<or> normalized \<in> set (mdl_aliases entry))"

definition is_routing_wildcard_model_handle :: "string \<Rightarrow> bool" where
  "is_routing_wildcard_model_handle handle \<longleftrightarrow>
     (let trimmed = trim handle in trimmed = ''*'' \<or> suffix ''/*'' trimmed)"

definition entry_for_handle :: "string \<Rightarrow> den_model_registry_entry option" where
  "entry_for_handle handle =
     (let trimmed = trim handle in
      if trimmed = [] \<or> is_routing_wildcard_model_handle trimmed then None
      else List.find (\<lambda>entry. matches_handle entry trimmed) registry_entries)"

definition resolve_model_handle :: "string \<Rightarrow> string option" where
  "resolve_model_handle handle = map_option mdl_key (entry_for_handle handle)"

definition provider_model_id_for_handle :: "string \<Rightarrow> string option" where
  "provider_model_id_for_handle handle = map_option mdl_provider_model_id (entry_for_handle handle)"

definition default_agent_loop_control_for_model :: "string \<Rightarrow> agent_loop_control_level" where
  "default_agent_loop_control_for_model handle =
     unwrap_or (map_option mdl_default_agent_loop_control (entry_for_handle handle)) level_default"

definition execution_fallback_model_handles :: "string \<Rightarrow> string list" where
  "execution_fallback_model_handles handle =
     (let h = unwrap_or (resolve_model_handle handle) (trim handle) in
      if h = ''openai/gpt-5.5'' then [''openai/gpt-5.1'', ''openai/gpt-5'']
      else if h = ''openai/gpt-5.1'' then [''openai/gpt-5'']
      else [])"

definition em_dash :: string where
  "em_dash = [CHR 0xE2, CHR 0x80, CHR 0x94]"

definition model_option_for_available_handle ::
    "string \<Rightarrow> string option \<Rightarrow> u32 option \<Rightarrow> u32 option \<Rightarrow> panic + model_option" where
  "model_option_for_available_handle handle fallback_label fallback_window fallback_out =
     (case entry_for_handle handle of
        Some entry \<Rightarrow> Inr (to_model_option_for_handle entry (trim handle))
      | None \<Rightarrow>
         (let trimmed = trim handle in
          if is_routing_wildcard_model_handle trimmed then Inl DebugAssertion
          else
            (let label_base = unwrap_or (filter_opt (\<lambda>l. l \<noteq> []) (map_option trim fallback_label)) trimmed;
                 label = (case (fallback_window, fallback_out) of
                     (Some ctx, Some out) \<Rightarrow> label_base @ '' ('' @ format_tokens ctx @ '' ctx / ''
                       @ format_tokens out @ '' out) '' @ em_dash @ '' metadata unknown''
                   | (Some ctx, None) \<Rightarrow> label_base @ '' ('' @ format_tokens ctx @ '' ctx) ''
                       @ em_dash @ '' metadata unknown''
                   | _ \<Rightarrow> label_base @ '' '' @ em_dash @ '' metadata unknown'')
             in Inr \<lparr>opt_handle = trimmed, opt_label = label, opt_context_window = fallback_window,
                  opt_max_output_tokens = fallback_out\<rparr>)))"

subsection \<open>Comparison with the gateway\<close>

record model_gateway_compatibility_report =
  gw_metadata_model_count :: nat
  gw_gateway_model_count :: nat
  gw_available_with_metadata :: "string list"
  gw_available_without_metadata :: "string list"
  gw_metadata_not_available :: "string list"
  gw_ok :: bool

text \<open>A \<open>BTreeSet\<close> is the sorted list of its distinct elements.\<close>

definition btree_set :: "'a::linorder list \<Rightarrow> 'a list" where
  "btree_set xs = sort (remdups xs)"

definition gateway_set :: "string list \<Rightarrow> string list" where
  "gateway_set handles =
     btree_set (filter (\<lambda>h. h \<noteq> [] \<and> \<not> is_routing_wildcard_model_handle h) (map trim handles))"

definition gateway_compatibility_report :: "string list \<Rightarrow> model_gateway_compatibility_report" where
  "gateway_compatibility_report handles =
     (let selectable = filter mdl_selectable registry_entries;
          gateway = gateway_set handles;
          with_metadata = filter (\<lambda>h. \<exists>entry \<in> set registry_entries. matches_handle entry h) gateway;
          without_metadata = filter (\<lambda>h. \<forall>entry \<in> set registry_entries. \<not> matches_handle entry h) gateway;
          not_available = map mdl_key (filter (\<lambda>entry.
              mdl_key entry \<notin> set gateway \<and> mdl_provider_model_id entry \<notin> set gateway
              \<and> (\<forall>alias \<in> set (mdl_aliases entry). alias \<notin> set gateway)) selectable)
      in \<lparr>gw_metadata_model_count = length selectable,
          gw_gateway_model_count = length gateway,
          gw_available_with_metadata = with_metadata,
          gw_available_without_metadata = without_metadata,
          gw_metadata_not_available = not_available,
          gw_ok = (without_metadata = [])\<rparr>)"

subsection \<open>Resolution\<close>

definition entry_names :: "den_model_registry_entry \<Rightarrow> string list" where
  "entry_names entry = mdl_key entry # mdl_provider_model_id entry # mdl_aliases entry"

lemma matches_handle_names: "matches_handle entry h \<longleftrightarrow> trim h \<in> set (entry_names entry)"
  by (simp add: matches_handle_def entry_names_def Let_def)

text \<open>Names are built from the provider's model id, and those ids differ, so entries share no name.\<close>

lemma entry_shape:
  "\<forall>e \<in> set registry_entries. mdl_key e = ''openai/'' @ mdl_provider_model_id e
     \<and> mdl_aliases e = [mdl_provider_model_id e, ''openai:'' @ mdl_provider_model_id e]
     \<and> \<not> prefix ''openai'' (mdl_provider_model_id e)"
  by (simp add: registry_entries_def openai_def)

lemma distinct_model_ids: "distinct (map mdl_provider_model_id registry_entries)"
  by (simp add: registry_entries_def openai_def)

lemma entry_names_shape:
  assumes "e \<in> set registry_entries"
  shows "set (entry_names e) = {mdl_provider_model_id e, ''openai/'' @ mdl_provider_model_id e,
    ''openai:'' @ mdl_provider_model_id e}"
  using entry_shape assms by (auto simp: entry_names_def)

lemma shared_name_same_entry:
  assumes "e \<in> set registry_entries" "e' \<in> set registry_entries"
    and "n \<in> set (entry_names e)" "n \<in> set (entry_names e')"
  shows "e' = e"
proof -
  have "\<not> prefix ''openai'' (mdl_provider_model_id e)" "\<not> prefix ''openai'' (mdl_provider_model_id e')"
    using entry_shape assms(1,2) by auto
  then have "mdl_provider_model_id e' = mdl_provider_model_id e"
    using assms(3,4) unfolding entry_names_shape [OF assms(1)] entry_names_shape [OF assms(2)]
    by (auto simp: prefix_def)
  moreover have "inj_on mdl_provider_model_id (set registry_entries)"
    using distinct_model_ids by (simp add: distinct_map)
  ultimately show ?thesis using assms(1,2) by (simp add: inj_on_eq_iff)
qed

lemma names_find_owner:
  assumes "e \<in> set registry_entries" and "n \<in> set (entry_names e)"
  shows "List.find (\<lambda>e'. n \<in> set (entry_names e')) registry_entries = Some e"
proof (cases "List.find (\<lambda>e'. n \<in> set (entry_names e')) registry_entries")
  case None
  then show ?thesis using assms by (simp add: find_None_all)
next
  case (Some e')
  then have "e' \<in> set registry_entries" "n \<in> set (entry_names e')" by (auto dest: find_Some_set)
  then show ?thesis using Some shared_name_same_entry [OF assms(1) _ assms(2)] by simp
qed

lemma model_ids_graphic:
  "\<forall>e \<in> set registry_entries. list_all (\<lambda>c. graphic c \<and> c \<noteq> CHR ''*'') (mdl_provider_model_id e)
     \<and> mdl_provider_model_id e \<noteq> []"
  by (simp add: registry_entries_def openai_def graphic_def)

lemma names_graphic:
  assumes "e \<in> set registry_entries" and "n \<in> set (entry_names e)"
  shows "list_all graphic n" and "CHR ''*'' \<notin> set n" and "n \<noteq> []"
proof -
  have "list_all graphic (mdl_provider_model_id e)" "CHR ''*'' \<notin> set (mdl_provider_model_id e)"
    "mdl_provider_model_id e \<noteq> []"
    using model_ids_graphic assms(1) by (auto simp: list_all_iff)
  moreover have "list_all graphic ''openai/''" "list_all graphic ''openai:''" by (simp_all add: graphic_def)
  ultimately show "list_all graphic n" "CHR ''*'' \<notin> set n" "n \<noteq> []"
    using assms(2) unfolding entry_names_shape [OF assms(1)] by (elim insertE emptyE; simp)+
qed

lemma names_are_handles:
  assumes "e \<in> set registry_entries" and "n \<in> set (entry_names e)"
  shows "trim n = n \<and> n \<noteq> [] \<and> \<not> is_routing_wildcard_model_handle n"
proof -
  have "trim n = n" using names_graphic(1) [OF assms] by (rule trim_graphic)
  moreover have "\<not> suffix ''/*'' n" "n \<noteq> ''*''"
    using names_graphic(2) [OF assms] by (auto simp: suffix_def)
  ultimately show ?thesis
    using names_graphic(3) [OF assms] by (simp add: is_routing_wildcard_model_handle_def Let_def)
qed

lemma entry_for_handle_iff:
  "entry_for_handle h = Some e \<longleftrightarrow> e \<in> set registry_entries \<and> trim h \<in> set (entry_names e)"
proof
  assume "entry_for_handle h = Some e"
  then show "e \<in> set registry_entries \<and> trim h \<in> set (entry_names e)"
    by (auto simp: entry_for_handle_def Let_def matches_handle_names split: if_splits dest: find_Some_set)
next
  assume e: "e \<in> set registry_entries \<and> trim h \<in> set (entry_names e)"
  then have "trim h \<noteq> []" "\<not> is_routing_wildcard_model_handle (trim h)"
    "List.find (\<lambda>e'. trim h \<in> set (entry_names e')) registry_entries = Some e"
    using names_are_handles names_find_owner by blast+
  then show "entry_for_handle h = Some e"
    by (simp add: entry_for_handle_def Let_def matches_handle_names)
qed

lemma entry_for_handle_None:
  "entry_for_handle h = None \<longleftrightarrow> (\<forall>e \<in> set registry_entries. trim h \<notin> set (entry_names e))"
  by (metis entry_for_handle_iff not_None_eq)

lemma entry_for_key: "e \<in> set registry_entries \<Longrightarrow> entry_for_handle (mdl_key e) = Some e"
  using names_are_handles by (auto simp: entry_for_handle_iff entry_names_def)

text \<open>
  A handle names at most one model, in whichever order the registry is searched, and
  resolving is idempotent: a handle resolves to a key, and the key resolves to itself, to the
  same provider model and to the same control level.
\<close>
theorem model_resolution_unambiguous:
  "(entry_for_handle h = Some e \<longleftrightarrow> e \<in> set registry_entries \<and> trim h \<in> set (entry_names e))
   \<and> (resolve_model_handle h = Some k \<longrightarrow>
        resolve_model_handle k = Some k
        \<and> provider_model_id_for_handle k = provider_model_id_for_handle h
        \<and> default_agent_loop_control_for_model k = default_agent_loop_control_for_model h)"
proof (intro conjI impI entry_for_handle_iff)
  assume "resolve_model_handle h = Some k"
  then obtain e' where e': "entry_for_handle h = Some e'" "k = mdl_key e'"
    by (auto simp: resolve_model_handle_def)
  then have same: "entry_for_handle k = entry_for_handle h"
    using entry_for_key entry_for_handle_iff by metis
  show "resolve_model_handle k = Some k" using e' same by (simp add: resolve_model_handle_def)
  show "provider_model_id_for_handle k = provider_model_id_for_handle h"
    using same by (simp add: provider_model_id_for_handle_def)
  show "default_agent_loop_control_for_model k = default_agent_loop_control_for_model h"
    using same by (simp add: default_agent_loop_control_for_model_def)
qed

theorem model_resolution_unambiguous_witness:
  "resolve_model_handle ''openai/gpt-5.5'' = Some ''openai/gpt-5.5''
   \<and> default_agent_loop_control_for_model ''openai/gpt-5.5'' = default_agent_loop_control_for_model ''gpt-5.5''"
proof -
  let ?e = "hd registry_entries"
  have "?e \<in> set registry_entries" by (rule hd_in_set) (simp add: registry_entries_def)
  moreover have "mdl_key ?e = ''openai/gpt-5.5''" by (simp add: registry_entries_def openai_def)
  moreover have "''gpt-5.5'' \<in> set (entry_names ?e)"
    by (simp add: registry_entries_def openai_def entry_names_def)
  ultimately have "resolve_model_handle ''gpt-5.5'' = Some ''openai/gpt-5.5''"
    using entry_for_handle_iff [of "''gpt-5.5''" ?e] names_are_handles [of ?e "''gpt-5.5''"]
    by (simp add: resolve_model_handle_def)
  with model_resolution_unambiguous [of "''gpt-5.5''" undefined "''openai/gpt-5.5''"]
  show ?thesis by simp
qed

text \<open>What the report compares: the trimmed gateway handles that are neither empty nor wildcards.\<close>

definition usable_handles :: "string list \<Rightarrow> string set" where
  "usable_handles hs = {h \<in> trim ` set hs. h \<noteq> [] \<and> \<not> is_routing_wildcard_model_handle h}"

lemma set_btree_set [simp]: "set (btree_set xs) = set xs"
  by (simp add: btree_set_def)

lemma set_gateway_set: "set (gateway_set hs) = usable_handles hs"
  by (auto simp: gateway_set_def usable_handles_def)

lemma gateway_set_card: "length (gateway_set hs) = card (usable_handles hs)"
proof -
  have "distinct (gateway_set hs)" by (simp add: gateway_set_def btree_set_def)
  then show ?thesis by (simp flip: set_gateway_set add: distinct_card)
qed

lemma usable_trimmed: "h \<in> usable_handles hs \<Longrightarrow> trim h = h"
  by (auto simp: usable_handles_def)

lemma resolve_known:
  "resolve_model_handle h \<noteq> None \<longleftrightarrow> (\<exists>e \<in> set registry_entries. matches_handle e h)"
  by (auto simp: resolve_model_handle_def entry_for_handle_None matches_handle_names)

lemma resolve_unknown:
  "resolve_model_handle h = None \<longleftrightarrow> (\<forall>e \<in> set registry_entries. \<not> matches_handle e h)"
  using resolve_known by blast

lemma resolve_to_entry:
  assumes "e \<in> set registry_entries"
  shows "resolve_model_handle h = Some (mdl_key e) \<longleftrightarrow> trim h \<in> set (entry_names e)"
proof
  assume "resolve_model_handle h = Some (mdl_key e)"
  then obtain e' where e': "entry_for_handle h = Some e'" "mdl_key e' = mdl_key e"
    by (auto simp: resolve_model_handle_def)
  then have "e' \<in> set registry_entries" "trim h \<in> set (entry_names e')"
    by (simp_all add: entry_for_handle_iff)
  then show "trim h \<in> set (entry_names e)"
    using e'(2) entry_for_key [OF assms] entry_for_key [of e'] by simp
next
  assume "trim h \<in> set (entry_names e)"
  then have "entry_for_handle h = Some e" using assms by (simp add: entry_for_handle_iff)
  then show "resolve_model_handle h = Some (mdl_key e)" by (simp add: resolve_model_handle_def)
qed

lemma missing_iff:
  assumes "e \<in> set registry_entries"
  shows "(mdl_key e \<notin> set (gateway_set hs) \<and> mdl_provider_model_id e \<notin> set (gateway_set hs)
      \<and> (\<forall>alias \<in> set (mdl_aliases e). alias \<notin> set (gateway_set hs)))
    \<longleftrightarrow> Some (mdl_key e) \<notin> resolve_model_handle ` usable_handles hs"
proof -
  have "Some (mdl_key e) \<in> resolve_model_handle ` usable_handles hs
      \<longleftrightarrow> (\<exists>h \<in> usable_handles hs. h \<in> set (entry_names e))"
    using usable_trimmed by (auto simp: image_iff eq_commute [of "Some _"] resolve_to_entry [OF assms])
  then show ?thesis by (auto simp: set_gateway_set entry_names_def)
qed

text \<open>
  The comparison with the gateway is a partition: every usable gateway handle is listed on
  exactly one side, as known exactly when it resolves to a model; the report is good exactly
  when none is unknown; and a selectable model is reported missing exactly when no gateway
  handle resolves to it.
\<close>
theorem gateway_report_partition:
  "set (gw_available_with_metadata (gateway_compatibility_report hs))
     = {h \<in> usable_handles hs. resolve_model_handle h \<noteq> None}
   \<and> set (gw_available_without_metadata (gateway_compatibility_report hs))
     = {h \<in> usable_handles hs. resolve_model_handle h = None}
   \<and> (gw_ok (gateway_compatibility_report hs) \<longleftrightarrow> (\<nexists>h. h \<in> usable_handles hs \<and> resolve_model_handle h = None))
   \<and> gw_gateway_model_count (gateway_compatibility_report hs) = card (usable_handles hs)
   \<and> set (gw_metadata_not_available (gateway_compatibility_report hs))
     = mdl_key ` {e \<in> set registry_entries. mdl_selectable e
          \<and> Some (mdl_key e) \<notin> resolve_model_handle ` usable_handles hs}"
proof -
  have known: "set (gw_available_with_metadata (gateway_compatibility_report hs))
      = {h \<in> usable_handles hs. resolve_model_handle h \<noteq> None}"
    by (simp add: resolve_known del: not_None_eq, simp add: gateway_compatibility_report_def Let_def set_gateway_set)
  have without: "set (gw_available_without_metadata (gateway_compatibility_report hs))
      = {h \<in> usable_handles hs. resolve_model_handle h = None}"
    by (simp add: resolve_unknown gateway_compatibility_report_def Let_def set_gateway_set)
  have "gw_ok (gateway_compatibility_report hs)
      \<longleftrightarrow> gw_available_without_metadata (gateway_compatibility_report hs) = []"
    by (simp add: gateway_compatibility_report_def Let_def)
  also have "\<dots> \<longleftrightarrow> set (gw_available_without_metadata (gateway_compatibility_report hs)) = {}" by simp
  finally have ok: "gw_ok (gateway_compatibility_report hs)
      \<longleftrightarrow> (\<nexists>h. h \<in> usable_handles hs \<and> resolve_model_handle h = None)"
    unfolding without by blast
  have "set (gw_metadata_not_available (gateway_compatibility_report hs))
      = mdl_key ` {e \<in> set registry_entries. mdl_selectable e
          \<and> Some (mdl_key e) \<notin> resolve_model_handle ` usable_handles hs}"
    by (simp add: gateway_compatibility_report_def Let_def missing_iff conj_commute cong: conj_cong)
  moreover have "gw_gateway_model_count (gateway_compatibility_report hs) = card (usable_handles hs)"
    by (simp add: gateway_compatibility_report_def Let_def gateway_set_card)
  ultimately show ?thesis using known without ok by (intro conjI)
qed

subsection \<open>Fallbacks\<close>

lemma resolve_key: "k \<in> mdl_key ` set registry_entries \<Longrightarrow> resolve_model_handle k = Some k"
  by (auto simp: resolve_model_handle_def entry_for_key)

lemma resolve_gpt5:
  "resolve_model_handle ''openai/gpt-5.5'' = Some ''openai/gpt-5.5''"
  "resolve_model_handle ''openai/gpt-5.1'' = Some ''openai/gpt-5.1''"
  "resolve_model_handle ''openai/gpt-5'' = Some ''openai/gpt-5''"
  by (rule resolve_key, simp add: registry_entries_def openai_def)+

lemma fallback_resolved:
  "execution_fallback_model_handles h =
     (if resolve_model_handle h = Some ''openai/gpt-5.5'' then [''openai/gpt-5.1'', ''openai/gpt-5'']
      else if resolve_model_handle h = Some ''openai/gpt-5.1'' then [''openai/gpt-5'']
      else [])"
proof (cases "resolve_model_handle h")
  case None
  have "resolve_model_handle ''openai/gpt-5.5'' \<noteq> None" "resolve_model_handle ''openai/gpt-5.1'' \<noteq> None"
    by (simp_all add: resolve_gpt5)
  moreover have "resolve_model_handle (trim h) = None"
    using None by (simp add: resolve_model_handle_def entry_for_handle_None)
  ultimately have "trim h \<noteq> ''openai/gpt-5.5''" "trim h \<noteq> ''openai/gpt-5.1''" by auto
  with None show ?thesis by (simp add: execution_fallback_model_handles_def)
qed (simp add: execution_fallback_model_handles_def)

text \<open>
  Falling back always comes to an end: each fallback of a model is a registry key other
  than the model itself, and offers strictly fewer fallbacks, all of them already offered.
\<close>
theorem fallbacks_well_founded:
  assumes "f \<in> set (execution_fallback_model_handles h)"
  shows "resolve_model_handle f = Some f \<and> resolve_model_handle h \<noteq> Some f
    \<and> set (execution_fallback_model_handles f) \<subset> set (execution_fallback_model_handles h)"
proof (cases "resolve_model_handle h = Some ''openai/gpt-5.5''")
  case True
  then have "f = ''openai/gpt-5.1'' \<or> f = ''openai/gpt-5''" using assms by (simp add: fallback_resolved)
  then show ?thesis by (elim disjE) (simp_all add: True fallback_resolved resolve_gpt5 psubset_eq)
next
  case False
  then have "resolve_model_handle h = Some ''openai/gpt-5.1'' \<and> f = ''openai/gpt-5''"
    using assms by (simp add: fallback_resolved split: if_splits)
  then show ?thesis by (simp add: fallback_resolved resolve_gpt5 psubset_eq)
qed

theorem fallbacks_well_founded_witness:
  "set (execution_fallback_model_handles ''openai/gpt-5'') \<subset> set (execution_fallback_model_handles ''openai/gpt-5.1'')"
proof -
  have "''openai/gpt-5'' \<in> set (execution_fallback_model_handles ''openai/gpt-5.1'')"
    by (simp add: fallback_resolved resolve_gpt5)
  from fallbacks_well_founded [OF this] show ?thesis by blast
qed

end
