(* ===== verification/Loop_Control.thy ===== *)
theory Loop_Control
  imports Turn_Budget Model_Registry
begin

section \<open>Loop control: levels, profiles, checkpoints\<close>

text \<open>
  \<open>den-runtime/src/agent_loop/control.rs\<close>: how tightly the loop of a turn is held. A level is
  resolved from the model, the context, overrides and escalations; a level has a profile (the
  turn-budget policy, the checkpoint thresholds, the thinking policy); tool results advance the
  checkpoint counters, which trigger a checkpoint; the model's answer to a checkpoint is parsed
  and validated. With it the two small selectors beside it: \<open>strategy.rs\<close>, \<open>policy.rs\<close>,
  and \<open>pending_tools.rs\<close>.

  Serialisation by \<open>serde_json\<close> of a profile, the SHA-256 digest and the printed form of a JSON
  value are arguments of the definitions that use them.
\<close>

subsection \<open>Data\<close>

datatype agent_loop_control_source =
    SrcContextDefault | SrcModelDefault | SrcBearOverride | SrcStanceOverride | SrcTaskEscalation
  | SrcPreRiskEscalation | SrcSystemDefault

datatype checkpoint_reason =
  OverExploration | ConsecutiveFailure | SameSignatureNearKo | LowBudget | PreRiskMutation

fun reason_as_str :: "checkpoint_reason \<Rightarrow> string" where
  "reason_as_str OverExploration = ''over_exploration''"
| "reason_as_str ConsecutiveFailure = ''consecutive_failure''"
| "reason_as_str SameSignatureNearKo = ''same_signature_near_ko''"
| "reason_as_str LowBudget = ''low_budget''"
| "reason_as_str PreRiskMutation = ''pre_risk_mutation''"

record ko_policy =
  ko_same_signature_warning_threshold :: "u32 option"
  ko_max_same_tool_signature_repeats :: u32

record checkpoint_policy =
  cp_enabled :: bool
  cp_exploration_without_mutation_threshold :: "u32 option"
  cp_consecutive_failure_threshold :: "u32 option"
  cp_same_signature_warning_threshold :: "u32 option"
  cp_require_on_low_budget :: bool
  cp_require_before_broad_mutation :: bool

record checkpoint_thinking_policy =
  th_enabled :: bool
  th_checkpoint_turn_effort :: "thinking_effort option"
  th_pre_risk_turn_effort :: "thinking_effort option"

record agent_loop_control_profile =
  pf_budget :: turn_budget_policy
  pf_ko :: ko_policy
  pf_checkpoints :: checkpoint_policy
  pf_thinking :: checkpoint_thinking_policy

definition hex_byte :: "u8 \<Rightarrow> string" where
  "hex_byte b = [hex_digit (unat b div 16), hex_digit (unat b mod 16)]"

definition agent_loop_control_profile_fingerprint ::
    "(agent_loop_control_profile \<Rightarrow> string + u8 list) \<Rightarrow> (u8 list \<Rightarrow> u8 list)
     \<Rightarrow> agent_loop_control_profile \<Rightarrow> den_error + string" where
  "agent_loop_control_profile_fingerprint to_vec sha256 profile =
     (case to_vec profile of
        Inl err \<Rightarrow> Inl (SystemError (''serialize agent-loop profile: '' @ err))
      | Inr bytes \<Rightarrow> Inr (concat (map hex_byte (sha256 bytes))))"

record checkpoint_state =
  cs_read_search_since_mutation :: u32
  cs_consecutive_failures :: u32
  cs_same_signature_repeat_count :: u32
  cs_last_signature :: "string option"
  cs_last_checkpoint_reason :: "checkpoint_reason option"

definition checkpoint_state_default :: checkpoint_state where
  "checkpoint_state_default = \<lparr>cs_read_search_since_mutation = 0, cs_consecutive_failures = 0,
     cs_same_signature_repeat_count = 0, cs_last_signature = None, cs_last_checkpoint_reason = None\<rparr>"

definition reset_after_checkpoint_report :: "checkpoint_state \<Rightarrow> checkpoint_state" where
  "reset_after_checkpoint_report s =
     s\<lparr>cs_read_search_since_mutation := 0, cs_consecutive_failures := 0,
       cs_same_signature_repeat_count := 0, cs_last_signature := None, cs_last_checkpoint_reason := None\<rparr>"

record checkpoint_trigger =
  trg_reason :: checkpoint_reason
  trg_message :: string

record checkpoint_evaluation =
  ce_next_state :: checkpoint_state
  ce_trigger :: "checkpoint_trigger option"

datatype checkpoint_field =
    FActiveObjective | FLearned | FRemainingUncertainty | FMoreExplorationJustified | FNextAction
  | FTaskStateChangeNeeded | FEvidenceRefs

record checkpoint_task_context =
  tc_task_list_id :: "string option"
  tc_task_list_version :: "string option"
  tc_active_item_id :: "string option"
  tc_active_item_title :: "string option"
  tc_docket_job_id :: "string option"
  tc_docket_task_id :: "string option"

record checkpoint_evidence_ref =
  ev_kind :: string
  ev_id :: string
  ev_summary :: "string option"

record runtime_checkpoint_request =
  rq_checkpoint_id :: string
  rq_run_id :: string
  rq_reason :: checkpoint_reason
  rq_control_level :: agent_loop_control_level
  rq_profile_fingerprint :: "string option"
  rq_active_objective :: "string option"
  rq_task_context :: "checkpoint_task_context option"
  rq_evidence_refs :: "checkpoint_evidence_ref list"
  rq_required_fields :: "checkpoint_field list"

datatype checkpoint_next_action =
    CallTool "string option" | Edit | Validate | UpdateTaskList | SyncTaskList | RequestHandoff
  | FinalIfGateAllows | StopBlocked

datatype checkpoint_confidence = ConfLow | ConfMedium | ConfHigh

record task_state_change_intent =
  ti_target_state :: string
  ti_reason :: string
  ti_evidence_refs :: "checkpoint_evidence_ref list"

record runtime_checkpoint_response =
  rs_checkpoint_id :: string
  rs_active_objective :: string
  rs_summary :: "string option"
  rs_learned :: "string list"
  rs_remaining_uncertainty :: "string list"
  rs_more_exploration_justified :: bool
  rs_next_action :: checkpoint_next_action
  rs_task_state_change_needed :: "task_state_change_intent option"
  rs_evidence_refs :: "checkpoint_evidence_ref list"
  rs_confidence :: "checkpoint_confidence option"

datatype checkpoint_response_validation_error =
    CheckpointIdMismatch (mismatch_expected: string) (mismatch_actual: string)
  | MissingRequiredField checkpoint_field

subsection \<open>Parsing the next action\<close>

definition any_contains :: "string \<Rightarrow> string list \<Rightarrow> bool" where
  "any_contains text words \<longleftrightarrow> (\<exists>w \<in> set words. str_contains text w)"

definition classify_natural_language_checkpoint_action :: "string \<Rightarrow> checkpoint_next_action option" where
  "classify_natural_language_checkpoint_action text =
     (if any_contains text [''update_task'', ''update task'', ''task status'', ''mark ''] then Some UpdateTaskList
      else if any_contains text [''sync_task'', ''sync task''] then Some SyncTaskList
      else if any_contains text [''handoff'', ''human review'', ''escalat''] then Some RequestHandoff
      else if any_contains text [''test'', ''validate'', ''verify'', ''check''] then Some Validate
      else if any_contains text [''edit'', ''patch'', ''mutat'', ''change'', ''introduce'', ''implement'']
        then Some Edit
      else if any_contains text [''stop'', ''blocked''] then Some StopBlocked
      else None)"

definition checkpoint_next_action_from_str :: "string \<Rightarrow> string + checkpoint_next_action" where
  "checkpoint_next_action_from_str raw =
     (let normalized = to_ascii_lowercase (trim raw);
          compact = map (\<lambda>c. if c = CHR ''-'' \<or> c = CHR '' '' then CHR ''_'' else c) normalized
      in if compact \<in> set [''call_tool'', ''tool'', ''use_tool''] then Inr (CallTool None)
         else if compact = ''edit'' then Inr Edit
         else if compact = ''validate'' then Inr Validate
         else if compact \<in> set [''update_task_list'', ''update_current_task_status''] then Inr UpdateTaskList
         else if compact = ''sync_task_list'' then Inr SyncTaskList
         else if compact \<in> set [''request_handoff'', ''request_task_list_handoff''] then Inr RequestHandoff
         else if compact = ''final_if_gate_allows'' then Inr FinalIfGateAllows
         else if compact = ''stop_blocked'' then Inr StopBlocked
         else case classify_natural_language_checkpoint_action normalized of
           Some action \<Rightarrow> Inr action
         | None \<Rightarrow> Inl (''unknown next_action `'' @ raw @ ''`; expected one of call_tool, edit, validate, update_task_list, sync_task_list, request_handoff, final_if_gate_allows, stop_blocked''))"

text \<open>\<open>object.remove(k)\<close>: the member and the object without it.\<close>

definition remove_member :: "string \<Rightarrow> (string \<times> json) list \<Rightarrow> json option \<times> (string \<times> json) list" where
  "remove_member k kvs = (map_of kvs k, filter (\<lambda>kv. fst kv \<noteq> k) kvs)"

definition remove_either ::
    "string \<Rightarrow> string \<Rightarrow> (string \<times> json) list \<Rightarrow> json option \<times> (string \<times> json) list" where
  "remove_either k k' kvs =
     (case remove_member k kvs of
        (Some v, rest) \<Rightarrow> (Some v, rest)
      | (None, rest) \<Rightarrow> remove_member k' rest)"

definition checkpoint_next_action_from_value ::
    "(json \<Rightarrow> string) \<Rightarrow> json \<Rightarrow> string + checkpoint_next_action" where
  "checkpoint_next_action_from_value show_json value =
     (case value of
        JStr s \<Rightarrow> checkpoint_next_action_from_str s
      | JObj kvs \<Rightarrow>
         (case remove_either ''call_tool'' ''tool_name'' kvs of
            (Some tool_name, _) \<Rightarrow> Inr (CallTool (as_str_json tool_name))
          | (None, kvs1) \<Rightarrow>
             (case remove_either ''action'' ''type'' kvs1 of
                (found, kvs2) \<Rightarrow>
                  (case Option.bind found as_str_json of
                     None \<Rightarrow> Inl ''next_action object must include action/type or call_tool/tool_name''
                   | Some action \<Rightarrow>
                       bindR (checkpoint_next_action_from_str action) (\<lambda>a.
                         case a of
                           CallTool None \<Rightarrow>
                             Inr (CallTool (Option.bind (fst (remove_member ''tool_name'' kvs2)) as_str_json))
                         | _ \<Rightarrow> Inr a))))
      | other \<Rightarrow> Inl (''next_action must be a string enum or object, got '' @ show_json other))"

text \<open>The derived \<open>Serialize\<close>: externally tagged, with the variant names in snake case.\<close>

fun checkpoint_next_action_to_value :: "checkpoint_next_action \<Rightarrow> json" where
  "checkpoint_next_action_to_value (CallTool tool_name) =
     JObj [(''call_tool'', JObj [(''tool_name'', case tool_name of None \<Rightarrow> JNull | Some s \<Rightarrow> JStr s)])]"
| "checkpoint_next_action_to_value Edit = JStr ''edit''"
| "checkpoint_next_action_to_value Validate = JStr ''validate''"
| "checkpoint_next_action_to_value UpdateTaskList = JStr ''update_task_list''"
| "checkpoint_next_action_to_value SyncTaskList = JStr ''sync_task_list''"
| "checkpoint_next_action_to_value RequestHandoff = JStr ''request_handoff''"
| "checkpoint_next_action_to_value FinalIfGateAllows = JStr ''final_if_gate_allows''"
| "checkpoint_next_action_to_value StopBlocked = JStr ''stop_blocked''"

subsection \<open>Orientation\<close>

definition DEFAULT_ORIENTED_MAX_CHILDREN :: u8 where
  "DEFAULT_ORIENTED_MAX_CHILDREN = 6"
definition DEFAULT_ORIENTED_MAX_DEPTH :: u8 where
  "DEFAULT_ORIENTED_MAX_DEPTH = 1"

record freeform_policy =
  may_define_task :: bool

definition freeform_closed :: freeform_policy where
  "freeform_closed = \<lparr>may_define_task = False\<rparr>"

definition task_definition_permitted :: freeform_policy where
  "task_definition_permitted = \<lparr>may_define_task = True\<rparr>"

record oriented_child_task_policy =
  max_children :: u8
  max_depth_below_oriented_task :: u8

definition oriented_child_task_policy_default :: oriented_child_task_policy where
  "oriented_child_task_policy_default =
     \<lparr>max_children = DEFAULT_ORIENTED_MAX_CHILDREN, max_depth_below_oriented_task = DEFAULT_ORIENTED_MAX_DEPTH\<rparr>"

datatype orientation_task_ref =
    TaskListItem (ref_task_list_id: string) (ref_item_id: string) (ref_title: "string option")
  | DocketTaskRef (ref_job_id: "string option") (ref_task_id: string) (ref_title: "string option")

record task_orientation =
  to_task_ref :: orientation_task_ref
  to_child_policy :: oriented_child_task_policy

record docket_execution_orientation =
  deo_job_id :: string
  deo_active_task_ref :: "orientation_task_ref option"
  deo_mutable :: bool

datatype objective_orientation =
    Freeform freeform_policy
  | Oriented task_orientation
  | DocketExecution docket_execution_orientation

fun orientation_kind :: "objective_orientation \<Rightarrow> string" where
  "orientation_kind (Freeform _) = ''freeform''"
| "orientation_kind (Oriented _) = ''oriented''"
| "orientation_kind (DocketExecution _) = ''docket_execution''"

fun is_docket_execution :: "objective_orientation \<Rightarrow> bool" where
  "is_docket_execution (DocketExecution _) = True"
| "is_docket_execution _ = False"

definition objective_orientation_allowed_for_stance :: "bear_stance \<Rightarrow> objective_orientation \<Rightarrow> bool" where
  "objective_orientation_allowed_for_stance stance o' \<longleftrightarrow> stance \<noteq> StWork \<or> is_docket_execution o'"

record objective_orientation_resolution_input =
  oi_docket_job_id :: "string option"
  oi_docket_execution_mutable :: bool
  oi_active_task_ref :: "orientation_task_ref option"
  oi_freeform_policy :: freeform_policy

definition resolve_objective_orientation :: "objective_orientation_resolution_input \<Rightarrow> objective_orientation" where
  "resolve_objective_orientation input =
     (case oi_docket_job_id input of
        Some job_id \<Rightarrow> DocketExecution \<lparr>deo_job_id = job_id, deo_active_task_ref = oi_active_task_ref input,
          deo_mutable = oi_docket_execution_mutable input\<rparr>
      | None \<Rightarrow>
         (case oi_active_task_ref input of
            Some task_ref \<Rightarrow> Oriented \<lparr>to_task_ref = task_ref,
              to_child_policy = oriented_child_task_policy_default\<rparr>
          | None \<Rightarrow> Freeform (oi_freeform_policy input)))"

subsection \<open>Profiles\<close>

definition limits ::
    "u32 \<Rightarrow> u32 \<Rightarrow> u32 \<Rightarrow> u32 \<Rightarrow> u32 \<Rightarrow> u32 \<Rightarrow> u32 \<Rightarrow> u32 \<Rightarrow> tool_call_budget_limits" where
  "limits tot read search fetch execute write destructive other = \<lparr>
     lim_total = tot, lim_read = read, lim_search = search, lim_fetch = fetch, lim_execute = execute,
     lim_write = write, lim_destructive = destructive, lim_other = other\<rparr>"

definition budget ::
    "u64 \<Rightarrow> u32 \<Rightarrow> tool_call_budget_limits \<Rightarrow> u32 \<Rightarrow> u32 \<Rightarrow> (u32 \<times> u32) option \<Rightarrow> turn_budget_policy" where
  "budget wall steps lims failures repeats window = \<lparr>
     pol_max_wall_clock_ms = wall,
     pol_emergency_hard_steps = steps,
     pol_tool_call_limits = lims,
     pol_max_consecutive_tool_failures = failures,
     pol_max_same_tool_signature_repeats = repeats,
     pol_post_mutation_verification_window =
       map_option (\<lambda>(r, s). \<lparr>replenish_read = r, replenish_search = s\<rparr>) window\<rparr>"

definition profile_new ::
    "turn_budget_policy \<Rightarrow> checkpoint_policy \<Rightarrow> checkpoint_thinking_policy \<Rightarrow> agent_loop_control_profile" where
  "profile_new b checkpoints thinking = \<lparr>
     pf_budget = b,
     pf_ko = \<lparr>ko_same_signature_warning_threshold = cp_same_signature_warning_threshold checkpoints,
       ko_max_same_tool_signature_repeats = pol_max_same_tool_signature_repeats b\<rparr>,
     pf_checkpoints = checkpoints,
     pf_thinking = thinking\<rparr>"

fun for_level :: "agent_loop_control_level \<Rightarrow> agent_loop_control_profile" where
  "for_level Light = profile_new
     (budget 240000 96 (limits 128 48 32 16 20 28 3 24) 3 2 (Some (6, 3)))
     \<lparr>cp_enabled = True, cp_exploration_without_mutation_threshold = Some 12,
       cp_consecutive_failure_threshold = Some 2, cp_same_signature_warning_threshold = Some 2,
       cp_require_on_low_budget = True, cp_require_before_broad_mutation = False\<rparr>
     \<lparr>th_enabled = False, th_checkpoint_turn_effort = None, th_pre_risk_turn_effort = None\<rparr>"
| "for_level Standard = profile_new
     (budget 360000 80 (limits 112 32 20 12 16 24 2 16) 3 2 (Some (4, 2)))
     \<lparr>cp_enabled = True, cp_exploration_without_mutation_threshold = Some 10,
       cp_consecutive_failure_threshold = Some 2, cp_same_signature_warning_threshold = Some 2,
       cp_require_on_low_budget = True, cp_require_before_broad_mutation = False\<rparr>
     \<lparr>th_enabled = True, th_checkpoint_turn_effort = Some EffortMedium, th_pre_risk_turn_effort = None\<rparr>"
| "for_level Careful = profile_new
     (budget 360000 80 (limits 96 24 16 10 14 20 2 14) 2 2 (Some (4, 2)))
     \<lparr>cp_enabled = True, cp_exploration_without_mutation_threshold = Some 3,
       cp_consecutive_failure_threshold = Some 1, cp_same_signature_warning_threshold = Some 1,
       cp_require_on_low_budget = True, cp_require_before_broad_mutation = True\<rparr>
     \<lparr>th_enabled = True, th_checkpoint_turn_effort = Some EffortHigh, th_pre_risk_turn_effort = Some EffortHigh\<rparr>"
| "for_level Strict = profile_new
     (budget 240000 64 (limits 72 16 12 8 10 14 1 10) 1 1 (Some (2, 1)))
     \<lparr>cp_enabled = True, cp_exploration_without_mutation_threshold = Some 2,
       cp_consecutive_failure_threshold = Some 1, cp_same_signature_warning_threshold = Some 1,
       cp_require_on_low_budget = True, cp_require_before_broad_mutation = True\<rparr>
     \<lparr>th_enabled = True, th_checkpoint_turn_effort = Some EffortHigh, th_pre_risk_turn_effort = Some EffortHigh\<rparr>"

definition with_budget :: "agent_loop_control_profile \<Rightarrow> turn_budget_policy \<Rightarrow> agent_loop_control_profile" where
  "with_budget p b =
     p\<lparr>pf_budget := b,
       pf_ko := (pf_ko p)\<lparr>ko_max_same_tool_signature_repeats := pol_max_same_tool_signature_repeats b\<rparr>\<rparr>"

subsection \<open>Resolving the level\<close>

record resolved_agent_loop_control =
  rc_level :: agent_loop_control_level
  rc_source :: agent_loop_control_source
  rc_model_handle :: "string option"
  rc_profile :: agent_loop_control_profile

record agent_loop_control_resolution_input =
  ri_model_handle :: "string option"
  ri_model_default :: "agent_loop_control_level option"
  ri_bear_override :: "agent_loop_control_level option"
  ri_stance_override :: "agent_loop_control_level option"
  ri_task_escalation :: "agent_loop_control_level option"
  ri_stance :: "bear_stance option"
  ri_objective_orientation :: "objective_orientation option"
  ri_pre_risk :: bool

definition context_agent_loop_control_default ::
    "bear_stance option \<Rightarrow> objective_orientation option \<Rightarrow> agent_loop_control_level option" where
  "context_agent_loop_control_default stance orientation =
     (let docket_execution = is_some_and orientation is_docket_execution in
      if (stance = Some StPair \<or> stance = Some StWork) \<and> docket_execution then Some Careful
      else if (stance = Some StChat \<or> stance = Some StPair) \<and> \<not> docket_execution then Some Standard
      else None)"

definition map_or :: "'b \<Rightarrow> ('a \<Rightarrow> 'b) \<Rightarrow> 'a option \<Rightarrow> 'b" where
  "map_or d f x = (case x of Some y \<Rightarrow> f y | None \<Rightarrow> d)"

lemma map_or_simps [simp]: "map_or d f (Some y) = f y" "map_or d f None = d"
  by (simp_all add: map_or_def)

definition resolve_base ::
    "agent_loop_control_resolution_input \<Rightarrow> agent_loop_control_level \<times> agent_loop_control_source" where
  "resolve_base input =
     (let context_default = context_agent_loop_control_default (ri_stance input) (ri_objective_orientation input) in
      case ri_model_default input of
        Some level \<Rightarrow> (map_or level (level_max level) context_default, SrcModelDefault)
      | None \<Rightarrow>
         (case ri_model_handle input of
            Some model_handle \<Rightarrow>
              (let model_default = default_agent_loop_control_for_model model_handle in
               (map_or model_default (level_max model_default) context_default, SrcModelDefault))
          | None \<Rightarrow>
             (case context_default of
                Some level \<Rightarrow> (level, SrcContextDefault)
              | None \<Rightarrow> (level_default, SrcSystemDefault))))"

definition escalate ::
    "agent_loop_control_level \<Rightarrow> agent_loop_control_source
     \<Rightarrow> agent_loop_control_level \<times> agent_loop_control_source
     \<Rightarrow> agent_loop_control_level \<times> agent_loop_control_source" where
  "escalate escalation src ls =
     (let escalated = level_max (fst ls) escalation in
      if escalated \<noteq> fst ls then (escalated, src) else ls)"

definition resolve_agent_loop_control ::
    "agent_loop_control_resolution_input \<Rightarrow> resolved_agent_loop_control" where
  "resolve_agent_loop_control input =
     (let ls0 = resolve_base input;
          ls1 = (case ri_bear_override input of Some l \<Rightarrow> (l, SrcBearOverride) | None \<Rightarrow> ls0);
          ls2 = (case ri_stance_override input of Some l \<Rightarrow> (l, SrcStanceOverride) | None \<Rightarrow> ls1);
          ls3 = (case ri_task_escalation input of Some l \<Rightarrow> escalate l SrcTaskEscalation ls2 | None \<Rightarrow> ls2);
          ls4 = (if ri_pre_risk input then escalate Strict SrcPreRiskEscalation ls3 else ls3)
      in \<lparr>rc_level = fst ls4, rc_source = snd ls4, rc_model_handle = ri_model_handle input,
          rc_profile = for_level (fst ls4)\<rparr>)"

subsection \<open>Checkpoints\<close>

definition observation_is_meaningful_mutation :: "tool_continuation_observation \<Rightarrow> bool" where
  "observation_is_meaningful_mutation ob \<longleftrightarrow>
     \<not> obs_failed ob \<and> obs_grounding_probe_signal ob \<noteq> Some ProbeFail
     \<and> (obs_class ob = ClsWrite \<or> obs_class ob = ClsDestructive)"

definition observe_failure :: "checkpoint_state \<Rightarrow> tool_continuation_observation \<Rightarrow> checkpoint_state" where
  "observe_failure s ob =
     (if obs_failed ob then s\<lparr>cs_consecutive_failures := sat_add (cs_consecutive_failures s) 1\<rparr>
      else s\<lparr>cs_consecutive_failures := 0\<rparr>)"

definition observe_signature :: "checkpoint_state \<Rightarrow> tool_continuation_observation \<Rightarrow> checkpoint_state" where
  "observe_signature s ob =
     (if cs_last_signature s = Some (obs_signature ob)
      then s\<lparr>cs_same_signature_repeat_count := sat_add (cs_same_signature_repeat_count s) 1\<rparr>
      else s\<lparr>cs_last_signature := Some (obs_signature ob), cs_same_signature_repeat_count := 0\<rparr>)"

definition observe_exploration :: "checkpoint_state \<Rightarrow> tool_continuation_observation \<Rightarrow> checkpoint_state" where
  "observe_exploration s ob =
     (if observation_is_meaningful_mutation ob then s\<lparr>cs_read_search_since_mutation := 0\<rparr>
      else if obs_class ob = ClsRead \<or> obs_class ob = ClsSearch
        then s\<lparr>cs_read_search_since_mutation := sat_add (cs_read_search_since_mutation s) 1\<rparr>
      else s)"

definition observe_checkpoint_tool_result ::
    "checkpoint_state \<Rightarrow> tool_continuation_observation \<Rightarrow> checkpoint_state" where
  "observe_checkpoint_tool_result s ob =
     observe_exploration (observe_signature (observe_failure s ob) ob) ob"

definition threshold_reached :: "u32 \<Rightarrow> u32 option \<Rightarrow> bool" where
  "threshold_reached n threshold = is_some_and threshold (\<lambda>t. t > 0 \<and> n \<ge> t)"

definition checkpoint_trigger_of :: "checkpoint_reason \<Rightarrow> string \<Rightarrow> checkpoint_trigger" where
  "checkpoint_trigger_of reason message = \<lparr>trg_reason = reason, trg_message = message\<rparr>"

definition select_trigger :: "checkpoint_policy \<Rightarrow> checkpoint_state \<Rightarrow> bool \<Rightarrow> checkpoint_trigger option" where
  "select_trigger cp s low_budget =
     (if \<not> cp_enabled cp then None
      else if cp_require_on_low_budget cp \<and> low_budget then
        Some (checkpoint_trigger_of LowBudget
          ''Loop checkpoint: remaining budget is low; synthesize what is known before continuing.'')
      else if threshold_reached (cs_consecutive_failures s) (cp_consecutive_failure_threshold cp) then
        Some (checkpoint_trigger_of ConsecutiveFailure
          ''Loop checkpoint: recent tool calls are failing; identify the failure pattern and choose a different recovery action.'')
      else if threshold_reached (cs_same_signature_repeat_count s) (cp_same_signature_warning_threshold cp) then
        Some (checkpoint_trigger_of SameSignatureNearKo
          ''Loop checkpoint: the same tool-call signature is repeating; choose a different action or explain why task state should change.'')
      else if threshold_reached (cs_read_search_since_mutation s) (cp_exploration_without_mutation_threshold cp) then
        Some (checkpoint_trigger_of OverExploration
          ''Loop checkpoint: enough exploration has happened without a meaningful mutation; summarize evidence and choose the next action.'')
      else None)"

definition evaluate_checkpoint_trigger ::
    "agent_loop_control_profile \<Rightarrow> checkpoint_state \<Rightarrow> tool_continuation_observation list \<Rightarrow> bool
     \<Rightarrow> checkpoint_evaluation" where
  "evaluate_checkpoint_trigger profile prior observations low_budget =
     (let next = foldl observe_checkpoint_tool_result prior observations;
          trigger = select_trigger (pf_checkpoints profile) next low_budget
      in \<lparr>ce_next_state = next\<lparr>cs_last_checkpoint_reason := map_option trg_reason trigger\<rparr>,
          ce_trigger = trigger\<rparr>)"

definition pre_risk_checkpoint_trigger :: "agent_loop_control_profile \<Rightarrow> checkpoint_trigger option" where
  "pre_risk_checkpoint_trigger profile =
     (if cp_require_before_broad_mutation (pf_checkpoints profile)
      then Some (checkpoint_trigger_of PreRiskMutation
        ''Loop checkpoint: before a broad or risky mutation, state the evidence, intended change, and validation plan.'')
      else None)"

fun checkpoint_field_missing :: "checkpoint_field \<Rightarrow> runtime_checkpoint_response \<Rightarrow> bool" where
  "checkpoint_field_missing FActiveObjective r = (trim (rs_active_objective r) = [])"
| "checkpoint_field_missing FLearned r =
     (rs_learned r = [] \<and> unwrap_or (map_option trim (rs_summary r)) [] = [])"
| "checkpoint_field_missing FRemainingUncertainty r = (rs_remaining_uncertainty r = [])"
| "checkpoint_field_missing FMoreExplorationJustified r = False"
| "checkpoint_field_missing FNextAction r = False"
| "checkpoint_field_missing FTaskStateChangeNeeded r = (rs_task_state_change_needed r = None)"
| "checkpoint_field_missing FEvidenceRefs r = (rs_evidence_refs r = [])"

definition validate_checkpoint_response ::
    "runtime_checkpoint_request \<Rightarrow> runtime_checkpoint_response
     \<Rightarrow> checkpoint_response_validation_error + unit" where
  "validate_checkpoint_response request response =
     (if rs_checkpoint_id response \<noteq> rq_checkpoint_id request
      then Inl (CheckpointIdMismatch (rq_checkpoint_id request) (rs_checkpoint_id response))
      else case List.find (\<lambda>f. checkpoint_field_missing f response) (rq_required_fields request) of
        Some f \<Rightarrow> Inl (MissingRequiredField f)
      | None \<Rightarrow> Inr ())"

subsection \<open>Strategies\<close>

record strategy_profile =
  sp_plan :: bool
  sp_reflect_on_fail :: bool
  sp_critique :: bool
  sp_fanout_n :: u8

definition plain_react :: strategy_profile where
  "plain_react = \<lparr>sp_plan = False, sp_reflect_on_fail = False, sp_critique = False, sp_fanout_n = 0\<rparr>"

datatype strategy_task_kind = Investigation

definition strategy_task_kind_from_str :: "string \<Rightarrow> string + strategy_task_kind" where
  "strategy_task_kind_from_str raw =
     (let t = trim raw in
      if t = ''investigation'' then Inr Investigation
      else Inl (''unsupported strategy task kind: '' @ t))"

datatype strategy_difficulty = DiffHigh | DiffVeryHigh

definition strategy_difficulty_from_str :: "string \<Rightarrow> string + strategy_difficulty" where
  "strategy_difficulty_from_str raw =
     (let t = trim raw in
      if t = ''high'' then Inr DiffHigh
      else if t = ''very_high'' then Inr DiffVeryHigh
      else Inl (''unsupported strategy difficulty: '' @ t))"

record strategy_policy_input =
  spi_task_kind :: "strategy_task_kind option"
  spi_has_command_criteria :: bool
  spi_difficulty :: "strategy_difficulty option"

definition select_strategy_profile :: "strategy_policy_input \<Rightarrow> strategy_profile" where
  "select_strategy_profile input =
     (if spi_has_command_criteria input then
        \<lparr>sp_plan = False, sp_reflect_on_fail = True, sp_critique = False, sp_fanout_n = 0\<rparr>
      else if spi_task_kind input = Some Investigation then
        \<lparr>sp_plan = False, sp_reflect_on_fail = False, sp_critique = False, sp_fanout_n = 2\<rparr>
      else if spi_difficulty input = Some DiffHigh \<or> spi_difficulty input = Some DiffVeryHigh then
        \<lparr>sp_plan = False, sp_reflect_on_fail = False, sp_critique = True, sp_fanout_n = 0\<rparr>
      else plain_react)"

subsection \<open>Pending tool calls\<close>

record chat_message =
  msg_role :: string
  msg_content :: "string option"
  msg_tool_call_id :: "string option"
  msg_name :: "string option"
  msg_tool_calls :: "chat_tool_call list option"

text \<open>The loop state: the latest calls and the ids answered since; the set is a list of its members.\<close>

definition pending_step :: "chat_tool_call list \<times> string list \<Rightarrow> chat_message \<Rightarrow> chat_tool_call list \<times> string list" where
  "pending_step st msg =
     (if msg_role msg = ''assistant'' then
        (case filter_opt (\<lambda>calls. calls \<noteq> []) (msg_tool_calls msg) of
           Some calls \<Rightarrow> (calls, [])
         | None \<Rightarrow> st)
      else if msg_role msg = ''tool'' then
        (case msg_tool_call_id msg of
           Some i \<Rightarrow> (fst st, List.insert i (snd st))
         | None \<Rightarrow> st)
      else st)"

definition pending_tool_calls :: "chat_message list \<Rightarrow> chat_tool_call list" where
  "pending_tool_calls messages =
     (case foldl pending_step ([], []) messages of
        (latest, answered) \<Rightarrow> filter (\<lambda>call. call_id call \<notin> set answered) latest)"

end
