(* ===== verification/Loop_Properties.thy ===== *)
theory Loop_Properties
  imports Loop_Control
begin

section \<open>Properties of loop control\<close>

text \<open>
  The resolved level is the chosen level raised by the escalations; a higher level is tighter in
  every counted bound and checkpoints at least as eagerly; the checkpoint counters are functions
  of the recent history; the next action survives its serialisation up to the tool name; the
  pending calls are the unanswered calls of the latest assistant message that made any.
\<close>

subsection \<open>Resolution of the level\<close>

definition chosen_level :: "agent_loop_control_resolution_input \<Rightarrow> agent_loop_control_level" where
  "chosen_level i = map_or (map_or (fst (resolve_base i)) id (ri_bear_override i)) id (ri_stance_override i)"

definition escalated_level :: "agent_loop_control_resolution_input \<Rightarrow> agent_loop_control_level" where
  "escalated_level i = map_or (chosen_level i) (max (chosen_level i)) (ri_task_escalation i)"

definition chosen_source :: "agent_loop_control_resolution_input \<Rightarrow> agent_loop_control_source" where
  "chosen_source i =
     (if ri_stance_override i \<noteq> None then SrcStanceOverride
      else if ri_bear_override i \<noteq> None then SrcBearOverride
      else snd (resolve_base i))"

lemma escalate_max: "escalate l src p = (max (fst p) l, if fst p < l then src else snd p)"
  by (cases p) (auto simp: escalate_def level_max_is_max max_def Let_def)

lemma chosen_pair:
  "(case ri_stance_override i of Some l \<Rightarrow> (l, SrcStanceOverride)
    | None \<Rightarrow> (case ri_bear_override i of Some l \<Rightarrow> (l, SrcBearOverride) | None \<Rightarrow> resolve_base i))
   = (chosen_level i, chosen_source i)"
  by (cases "ri_stance_override i"; cases "ri_bear_override i") (simp_all add: chosen_level_def chosen_source_def)

lemma escalated_pair:
  "(case ri_task_escalation i of Some l \<Rightarrow> escalate l SrcTaskEscalation (chosen_level i, chosen_source i)
    | None \<Rightarrow> (chosen_level i, chosen_source i))
   = (escalated_level i, if escalated_level i \<noteq> chosen_level i then SrcTaskEscalation else chosen_source i)"
  by (cases "ri_task_escalation i") (auto simp: escalated_level_def escalate_max max_def)

lemma resolve_staged:
  "resolve_agent_loop_control i =
     (let e = (escalated_level i, if escalated_level i \<noteq> chosen_level i then SrcTaskEscalation else chosen_source i);
          r = (if ri_pre_risk i then escalate Strict SrcPreRiskEscalation e else e)
      in \<lparr>rc_level = fst r, rc_source = snd r, rc_model_handle = ri_model_handle i, rc_profile = for_level (fst r)\<rparr>)"
  unfolding resolve_agent_loop_control_def Let_def chosen_pair [symmetric] escalated_pair [symmetric] ..

lemma resolve_level_source:
  "rc_level (resolve_agent_loop_control i) = (if ri_pre_risk i then Strict else escalated_level i)"
  "rc_source (resolve_agent_loop_control i) =
     (if ri_pre_risk i \<and> escalated_level i \<noteq> Strict then SrcPreRiskEscalation
      else if escalated_level i \<noteq> chosen_level i then SrcTaskEscalation
      else chosen_source i)"
proof -
  have "max l Strict = Strict" "l < Strict \<longleftrightarrow> l \<noteq> Strict" for l
    using Strict_top [of l] by (auto simp: max_absorb2)
  then show "rc_level (resolve_agent_loop_control i) = (if ri_pre_risk i then Strict else escalated_level i)"
    "rc_source (resolve_agent_loop_control i) =
     (if ri_pre_risk i \<and> escalated_level i \<noteq> Strict then SrcPreRiskEscalation
      else if escalated_level i \<noteq> chosen_level i then SrcTaskEscalation
      else chosen_source i)"
    by (simp_all add: resolve_staged Let_def escalate_max)
qed

lemma resolve_base_bounds:
  "context_agent_loop_control_default (ri_stance i) (ri_objective_orientation i) = Some l \<Longrightarrow> l \<le> fst (resolve_base i)"
  "ri_model_default i = Some l \<Longrightarrow> l \<le> fst (resolve_base i)"
  by (auto simp: resolve_base_def Let_def level_max_is_max map_or_def split: option.splits)

text \<open>
  Resolution of the control level. The level starts from the stance override, else the bear
  override, else the default; the default is at least the default of the context and of the
  model. A task escalation can only raise it, and a pre-risk turn is always strict. The profile
  is the one of the level, and the source names the input that decided.
\<close>
theorem control_level_resolution:
  "rc_level (resolve_agent_loop_control i) = (if ri_pre_risk i then Strict else escalated_level i)
   \<and> rc_source (resolve_agent_loop_control i) =
       (if ri_pre_risk i \<and> escalated_level i \<noteq> Strict then SrcPreRiskEscalation
        else if escalated_level i \<noteq> chosen_level i then SrcTaskEscalation
        else chosen_source i)
   \<and> rc_profile (resolve_agent_loop_control i) = for_level (rc_level (resolve_agent_loop_control i))
   \<and> chosen_level i \<le> rc_level (resolve_agent_loop_control i)
   \<and> (ri_stance_override i = None \<and> ri_bear_override i = None \<longrightarrow>
        (\<forall>l. context_agent_loop_control_default (ri_stance i) (ri_objective_orientation i) = Some l
              \<or> ri_model_default i = Some l \<longrightarrow> l \<le> rc_level (resolve_agent_loop_control i)))"
proof -
  have ge: "chosen_level i \<le> escalated_level i"
    by (cases "ri_task_escalation i") (simp_all add: escalated_level_def)
  then have ge': "chosen_level i \<le> rc_level (resolve_agent_loop_control i)"
    using Strict_top by (simp add: resolve_level_source(1))
  moreover have "rc_profile (resolve_agent_loop_control i) = for_level (rc_level (resolve_agent_loop_control i))"
    by (simp add: resolve_agent_loop_control_def Let_def)
  moreover have "fst (resolve_base i) \<le> rc_level (resolve_agent_loop_control i)"
    if "ri_stance_override i = None" "ri_bear_override i = None"
    using ge' that by (simp add: chosen_level_def)
  ultimately show ?thesis using resolve_level_source resolve_base_bounds order_trans by blast
qed

definition sample_control_input :: agent_loop_control_resolution_input where
  "sample_control_input = \<lparr>ri_model_handle = None, ri_model_default = Some Light, ri_bear_override = None,
     ri_stance_override = None, ri_task_escalation = None, ri_stance = Some StWork,
     ri_objective_orientation = Some (DocketExecution \<lparr>deo_job_id = ''j'', deo_active_task_ref = None, deo_mutable = True\<rparr>),
     ri_pre_risk = False\<rparr>"

theorem control_level_resolution_witness:
  "Careful \<le> rc_level (resolve_agent_loop_control sample_control_input)"
proof -
  have "context_agent_loop_control_default (ri_stance sample_control_input)
      (ri_objective_orientation sample_control_input) = Some Careful"
    "ri_stance_override sample_control_input = None" "ri_bear_override sample_control_input = None"
    by (simp_all add: sample_control_input_def context_agent_loop_control_default_def)
  then show ?thesis using control_level_resolution [of sample_control_input] by blast
qed

subsection \<open>Tighter levels\<close>

lemma level_cases_le:
  assumes "a \<le> b"
  obtains "a = b" | "a = Light" "b = Standard" | "a = Light" "b = Careful" | "a = Light" "b = Strict"
    | "a = Standard" "b = Careful" | "a = Standard" "b = Strict" | "a = Careful" "b = Strict"
  using assms by (cases a; cases b) (simp_all add: less_eq_agent_loop_control_level_def)

text \<open>Thresholds that are reached no later, and a policy that triggers no later.\<close>

fun earlier :: "u32 option \<Rightarrow> u32 option \<Rightarrow> bool" where
  "earlier (Some t) (Some t') = (0 < t' \<and> t' \<le> t)"
| "earlier _ _ = False"

lemma threshold_earlier: "earlier x y \<Longrightarrow> threshold_reached n x \<Longrightarrow> threshold_reached n y"
  by (induction x y rule: earlier.induct) (auto simp: threshold_reached_def)

definition eager :: "checkpoint_policy \<Rightarrow> checkpoint_policy \<Rightarrow> bool" where
  "eager p q \<longleftrightarrow> cp_enabled q \<and> (cp_require_on_low_budget p \<longrightarrow> cp_require_on_low_budget q)
     \<and> earlier (cp_consecutive_failure_threshold p) (cp_consecutive_failure_threshold q)
     \<and> earlier (cp_same_signature_warning_threshold p) (cp_same_signature_warning_threshold q)
     \<and> earlier (cp_exploration_without_mutation_threshold p) (cp_exploration_without_mutation_threshold q)
     \<and> (cp_require_before_broad_mutation p \<longrightarrow> cp_require_before_broad_mutation q)"

lemma select_trigger_None:
  "select_trigger cp s low = None \<longleftrightarrow> \<not> cp_enabled cp \<or>
     \<not> ((cp_require_on_low_budget cp \<and> low)
       \<or> threshold_reached (cs_consecutive_failures s) (cp_consecutive_failure_threshold cp)
       \<or> threshold_reached (cs_same_signature_repeat_count s) (cp_same_signature_warning_threshold cp)
       \<or> threshold_reached (cs_read_search_since_mutation s) (cp_exploration_without_mutation_threshold cp))"
  by (simp add: select_trigger_def)

definition tighter_limits :: "turn_budget_policy \<Rightarrow> turn_budget_policy \<Rightarrow> bool" where
  "tighter_limits p q \<longleftrightarrow>
     lim_total (pol_tool_call_limits q) \<le> lim_total (pol_tool_call_limits p)
     \<and> (\<forall>c. limit_for (pol_tool_call_limits q) c \<le> limit_for (pol_tool_call_limits p) c)
     \<and> pol_emergency_hard_steps q \<le> pol_emergency_hard_steps p
     \<and> pol_max_consecutive_tool_failures q \<le> pol_max_consecutive_tool_failures p
     \<and> pol_max_same_tool_signature_repeats q \<le> pol_max_same_tool_signature_repeats p"

lemma limit_for_all:
  "(\<forall>c. limit_for q c \<le> limit_for p c) \<longleftrightarrow>
     lim_read q \<le> lim_read p \<and> lim_search q \<le> lim_search p \<and> lim_fetch q \<le> lim_fetch p
     \<and> lim_execute q \<le> lim_execute p \<and> lim_write q \<le> lim_write p
     \<and> lim_destructive q \<le> lim_destructive p \<and> lim_other q \<le> lim_other p"
proof -
  have "(\<forall>c. P c) \<longleftrightarrow> P ClsRead \<and> P ClsSearch \<and> P ClsFetch \<and> P ClsExecute \<and> P ClsWrite \<and> P ClsDestructive \<and> P ClsOther"
    for P by (metis tool_budget_class.exhaust)
  then show ?thesis by (simp add: limit_for_def class_limits_def)
qed

lemmas profile_eval [den_simps] = profile_new_def budget_def limits_def

lemma level_limits: "a \<le> b \<Longrightarrow> tighter_limits (pf_budget (for_level a)) (pf_budget (for_level b))"
  by (erule level_cases_le) (simp_all add: tighter_limits_def limit_for_all den_simps)

lemma eager_triggers:
  "eager p q \<Longrightarrow> select_trigger p s low \<noteq> None \<Longrightarrow> select_trigger q s low \<noteq> None"
  unfolding select_trigger_None eager_def using threshold_earlier by blast

lemma level_eager: "a \<le> b \<Longrightarrow> eager (pf_checkpoints (for_level a)) (pf_checkpoints (for_level b))"
  by (erule level_cases_le; cases a) (simp_all add: eager_def den_simps)

text \<open>
  A higher control level is never looser: total and per-class tool limits, hard steps,
  tolerated failures and repeats do not grow, and whatever state triggers a checkpoint, or
  demands one before a risky mutation, at a lower level does so at a higher one. At every level
  the repetition warning comes no later than the rule of ko, and no class limit exceeds the
  total.
\<close>
theorem profiles_tighten:
  assumes "a \<le> b"
  shows "tighter_limits (pf_budget (for_level a)) (pf_budget (for_level b))
    \<and> (ce_trigger (evaluate_checkpoint_trigger (for_level a) s obs low) \<noteq> None \<longrightarrow>
         ce_trigger (evaluate_checkpoint_trigger (for_level b) s obs low) \<noteq> None)
    \<and> (pre_risk_checkpoint_trigger (for_level a) \<noteq> None \<longrightarrow> pre_risk_checkpoint_trigger (for_level b) \<noteq> None)
    \<and> (\<exists>w. ko_same_signature_warning_threshold (pf_ko (for_level a)) = Some w
         \<and> w \<le> ko_max_same_tool_signature_repeats (pf_ko (for_level a)))
    \<and> (\<forall>c. limit_for (pol_tool_call_limits (pf_budget (for_level a))) c
         \<le> lim_total (pol_tool_call_limits (pf_budget (for_level a))))"
proof (intro conjI)
  show "tighter_limits (pf_budget (for_level a)) (pf_budget (for_level b))" using assms by (rule level_limits)
  show "ce_trigger (evaluate_checkpoint_trigger (for_level a) s obs low) \<noteq> None \<longrightarrow>
      ce_trigger (evaluate_checkpoint_trigger (for_level b) s obs low) \<noteq> None"
    using eager_triggers [OF level_eager [OF assms]] by (simp add: evaluate_checkpoint_trigger_def Let_def)
  show "pre_risk_checkpoint_trigger (for_level a) \<noteq> None \<longrightarrow> pre_risk_checkpoint_trigger (for_level b) \<noteq> None"
    using level_eager [OF assms] by (simp add: pre_risk_checkpoint_trigger_def eager_def)
  show "\<exists>w. ko_same_signature_warning_threshold (pf_ko (for_level a)) = Some w
      \<and> w \<le> ko_max_same_tool_signature_repeats (pf_ko (for_level a))"
    by (cases a) (simp_all add: den_simps)
  show "\<forall>c. limit_for (pol_tool_call_limits (pf_budget (for_level a))) c
      \<le> lim_total (pol_tool_call_limits (pf_budget (for_level a)))"
  proof
    fix c
    show "limit_for (pol_tool_call_limits (pf_budget (for_level a))) c
      \<le> lim_total (pol_tool_call_limits (pf_budget (for_level a)))"
      by (cases a; cases c) (simp_all add: den_simps limit_for_def class_limits_def)
  qed
qed

theorem profiles_tighten_witness:
  "tighter_limits (pf_budget (for_level Light)) (pf_budget (for_level Strict))"
  using profiles_tighten [of Light Strict checkpoint_state_default "[]" True]
  by (simp add: less_eq_agent_loop_control_level_def)

subsection \<open>Checkpoint counters and the history\<close>

lemma observe_other [simp]:
  "cs_consecutive_failures (observe_signature s ob) = cs_consecutive_failures s"
  "cs_consecutive_failures (observe_exploration s ob) = cs_consecutive_failures s"
  "cs_read_search_since_mutation (observe_signature s ob) = cs_read_search_since_mutation s"
  "cs_read_search_since_mutation (observe_failure s ob) = cs_read_search_since_mutation s"
  "cs_same_signature_repeat_count (observe_failure s ob) = cs_same_signature_repeat_count s"
  "cs_same_signature_repeat_count (observe_exploration s ob) = cs_same_signature_repeat_count s"
  "cs_last_signature (observe_failure s ob) = cs_last_signature s"
  "cs_last_signature (observe_exploration s ob) = cs_last_signature s"
  by (simp_all add: observe_signature_def observe_exploration_def observe_failure_def)

definition exploring :: "tool_continuation_observation \<Rightarrow> bool" where
  "exploring ob \<longleftrightarrow> obs_class ob = ClsRead \<or> obs_class ob = ClsSearch"

interpretation failures: saturating_run observe_checkpoint_tool_result cs_consecutive_failures
    "\<lambda>ob. \<not> obs_failed ob" obs_failed
  by unfold_locales (simp add: observe_checkpoint_tool_result_def observe_failure_def)

interpretation exploration: saturating_run observe_checkpoint_tool_result cs_read_search_since_mutation
    observation_is_meaningful_mutation exploring
  by unfold_locales (simp add: observe_checkpoint_tool_result_def observe_exploration_def exploring_def)

text \<open>The repetitions of the latest signature, the latest observation itself not counted.\<close>

definition repeats_of_last :: "tool_continuation_observation list \<Rightarrow> nat" where
  "repeats_of_last obs = length (takeWhile (\<lambda>ob. obs_signature ob = obs_signature (last obs)) (rev obs)) - 1"

lemma signature_history:
  "cs_last_signature (foldl observe_checkpoint_tool_result checkpoint_state_default obs)
     = (if obs = [] then None else Some (obs_signature (last obs)))
   \<and> unat (cs_same_signature_repeat_count (foldl observe_checkpoint_tool_result checkpoint_state_default obs))
     = min (repeats_of_last obs) (2 ^ 32 - 1)"
proof (induction obs rule: rev_induct)
  case Nil
  then show ?case by (simp add: checkpoint_state_default_def repeats_of_last_def)
next
  case (snoc ob obs)
  let ?s = "foldl observe_checkpoint_tool_result checkpoint_state_default obs"
  have last: "cs_last_signature ?s = Some (obs_signature ob) \<longleftrightarrow> obs \<noteq> [] \<and> obs_signature (last obs) = obs_signature ob"
    using snoc.IH by auto
  have "repeats_of_last (obs @ [ob]) = (if cs_last_signature ?s = Some (obs_signature ob) then Suc (repeats_of_last obs) else 0)"
  proof (cases obs rule: rev_exhaust)
    case (snoc ys y)
    then show ?thesis using last by (auto simp: repeats_of_last_def)
  qed (use last in \<open>simp add: repeats_of_last_def\<close>)
  then show ?case
    using snoc.IH by (auto simp: observe_checkpoint_tool_result_def observe_signature_def unat_sat_add)
qed

lemma threshold_history:
  fixes n :: u32
  assumes "unat n = min k (2 ^ 32 - 1)"
  shows "threshold_reached n t \<longleftrightarrow> is_some_and t (\<lambda>t. 0 < t \<and> unat t \<le> k)"
proof (cases t)
  case (Some t')
  have "unat t' < 2 ^ LENGTH(32)" by (rule unsigned_less)
  then have "unat t' \<le> 2 ^ 32 - 1" by simp
  then show ?thesis using Some assms by (auto simp: threshold_reached_def word_le_nat_alt)
qed (simp add: threshold_reached_def)

definition history_reaches :: "nat \<Rightarrow> u32 option \<Rightarrow> bool" where
  "history_reaches k t \<longleftrightarrow> is_some_and t (\<lambda>t. 0 < t \<and> unat t \<le> k)"

text \<open>
  Refinement of the checkpoint trigger to the history of tool results. Starting from a
  fresh window, the first of these that holds gives the reason: the budget is low where the
  policy asks; the unbroken run of failures at the end of the history reaches its threshold; the
  latest signature has been repeated up to its threshold; the reads and searches since the last
  successful mutation reach theirs. The saturation of the counters never hides a trigger.
\<close>
theorem checkpoint_triggers_on_history:
  "map_option trg_reason (ce_trigger (evaluate_checkpoint_trigger profile checkpoint_state_default obs low)) =
     (let cp = pf_checkpoints profile in
      if \<not> cp_enabled cp then None
      else if cp_require_on_low_budget cp \<and> low then Some LowBudget
      else if history_reaches (length (takeWhile obs_failed (rev obs))) (cp_consecutive_failure_threshold cp)
        then Some ConsecutiveFailure
      else if history_reaches (repeats_of_last obs) (cp_same_signature_warning_threshold cp)
        then Some SameSignatureNearKo
      else if history_reaches
          (length (filter exploring (takeWhile (\<lambda>ob. \<not> observation_is_meaningful_mutation ob) (rev obs))))
          (cp_exploration_without_mutation_threshold cp)
        then Some OverExploration
      else None)"
proof -
  let ?s = "foldl observe_checkpoint_tool_result checkpoint_state_default obs"
  have "filter obs_failed (takeWhile obs_failed (rev obs)) = takeWhile obs_failed (rev obs)"
    by (simp add: filter_id_conv) (meson set_takeWhileD)
  then have "unat (cs_consecutive_failures ?s) = min (length (takeWhile obs_failed (rev obs))) (2 ^ 32 - 1)"
    using failures.counter_history [of checkpoint_state_default obs]
    by (simp add: checkpoint_state_default_def since_reset_def)
  note f = threshold_history [OF this]
  have "unat (cs_read_search_since_mutation ?s)
      = min (length (filter exploring (takeWhile (\<lambda>ob. \<not> observation_is_meaningful_mutation ob) (rev obs)))) (2 ^ 32 - 1)"
    using exploration.counter_history [of checkpoint_state_default obs]
    by (simp add: checkpoint_state_default_def since_reset_def)
  note e = threshold_history [OF this]
  note r = threshold_history [OF conjunct2 [OF signature_history]]
  show ?thesis
    by (simp add: evaluate_checkpoint_trigger_def select_trigger_def Let_def f e r history_reaches_def
        checkpoint_trigger_of_def)
qed

subsection \<open>The next action and its serialised form\<close>

lemma canonical_spelling:
  assumes "list_all (\<lambda>c. graphic c \<and> \<not> (CHR ''A'' \<le> c \<and> c \<le> CHR ''Z'') \<and> c \<noteq> CHR ''-'') s"
  shows "trim s = s" and "to_ascii_lowercase s = s"
    and "map (\<lambda>c. if c = CHR ''-'' \<or> c = CHR '' '' then CHR ''_'' else c) s = s"
proof -
  show "trim s = s" using assms by (intro trim_graphic) (simp add: list_all_iff)
  show "to_ascii_lowercase s = s"
    unfolding to_ascii_lowercase_def using assms by (intro map_idI) (auto simp: list_all_iff ascii_lower_def)
  have "c \<noteq> CHR '' ''" if "graphic c" for c using that by (auto simp: graphic_def)
  then show "map (\<lambda>c. if c = CHR ''-'' \<or> c = CHR '' '' then CHR ''_'' else c) s = s"
    using assms by (intro map_idI) (auto simp: list_all_iff)
qed

lemma next_action_from_canonical:
  assumes "list_all (\<lambda>c. graphic c \<and> \<not> (CHR ''A'' \<le> c \<and> c \<le> CHR ''Z'') \<and> c \<noteq> CHR ''-'') s"
    and "(s, a) \<in> set [(''edit'', Edit), (''validate'', Validate), (''update_task_list'', UpdateTaskList),
      (''sync_task_list'', SyncTaskList), (''request_handoff'', RequestHandoff),
      (''final_if_gate_allows'', FinalIfGateAllows), (''stop_blocked'', StopBlocked)]"
  shows "checkpoint_next_action_from_str s = Inr a"
  unfolding checkpoint_next_action_from_str_def Let_def canonical_spelling(1) [OF assms(1)]
    canonical_spelling(2) [OF assms(1)] canonical_spelling(3) [OF assms(1)]
  using assms(2) by (elim set_ConsD [elim_format] disjE) simp_all

fun without_tool_name :: "checkpoint_next_action \<Rightarrow> checkpoint_next_action" where
  "without_tool_name (CallTool _) = CallTool None"
| "without_tool_name a = a"

text \<open>
  Reading back a serialised next action gives the same action, except that the tool name of
  a tool call is lost: the writer nests it under \<open>call_tool\<close>, where the reader expects a
  string.
\<close>
theorem next_action_roundtrip:
  "checkpoint_next_action_from_value show_json (checkpoint_next_action_to_value a) = Inr (without_tool_name a)"
proof (cases a)
  case (CallTool n)
  then show ?thesis
    by (simp add: checkpoint_next_action_from_value_def remove_either_def remove_member_def as_str_json_def)
qed (simp_all add: checkpoint_next_action_from_value_def next_action_from_canonical graphic_def)

subsection \<open>Pending tool calls\<close>

definition calls_of :: "chat_message \<Rightarrow> chat_tool_call list option" where
  "calls_of m = (if msg_role m = ''assistant'' then filter_opt (\<lambda>cs. cs \<noteq> []) (msg_tool_calls m) else None)"

definition answers_in :: "chat_message list \<Rightarrow> string set" where
  "answers_in ms = {i. \<exists>m \<in> set ms. msg_role m = ''tool'' \<and> msg_tool_call_id m = Some i}"

lemma pending_step_calls: "calls_of m = Some cs \<Longrightarrow> pending_step st m = (cs, [])"
  by (auto simp: calls_of_def pending_step_def split: if_splits)

lemma pending_step_other:
  assumes "calls_of m = None"
  shows "fst (pending_step st m) = fst st"
    and "set (snd (pending_step st m)) = set (snd st) \<union> answers_in [m]"
  using assms by (auto simp: calls_of_def pending_step_def answers_in_def split: if_splits option.splits)

lemma pending_fold_answers:
  assumes "\<forall>m \<in> set ms. calls_of m = None"
  shows "fst (foldl pending_step st ms) = fst st
    \<and> set (snd (foldl pending_step st ms)) = set (snd st) \<union> answers_in ms"
  using assms
proof (induction ms rule: rev_induct)
  case Nil
  then show ?case by (simp add: answers_in_def)
next
  case (snoc m ms)
  then show ?case by (auto simp: pending_step_other answers_in_def)
qed

text \<open>
  The pending calls are the calls of the latest assistant message that made any, less those
  that a later tool message answers; without such a message none is pending. Answers given
  before that message never count, and neither do answers in messages of another role.
\<close>
theorem pending_tool_calls_spec:
  assumes "\<forall>m \<in> set later. calls_of m = None"
  shows "pending_tool_calls later = []
    \<and> (calls_of m = Some calls \<longrightarrow>
        pending_tool_calls (earlier_messages @ m # later) = filter (\<lambda>c. call_id c \<notin> answers_in later) calls)"
proof (intro conjI impI)
  show "pending_tool_calls later = []"
    using pending_fold_answers [OF assms, of "([], [])"] by (simp add: pending_tool_calls_def prod.case_eq_if)
next
  assume "calls_of m = Some calls"
  then have "foldl pending_step ([], []) (earlier_messages @ m # later) = foldl pending_step (calls, []) later"
    by (simp add: pending_step_calls)
  then show "pending_tool_calls (earlier_messages @ m # later) = filter (\<lambda>c. call_id c \<notin> answers_in later) calls"
    using pending_fold_answers [OF assms, of "(calls, [])"] by (simp add: pending_tool_calls_def prod.case_eq_if)
qed

definition sample_call :: "string \<Rightarrow> chat_tool_call" where
  "sample_call i = \<lparr>call_id = i, call_type = ''function'', call_function_name = ''f'', call_function_arguments = []\<rparr>"

definition sample_message :: "string \<Rightarrow> string option \<Rightarrow> chat_tool_call list option \<Rightarrow> chat_message" where
  "sample_message role i calls = \<lparr>msg_role = role, msg_content = None, msg_tool_call_id = i, msg_name = None,
     msg_tool_calls = calls\<rparr>"

theorem pending_tool_calls_spec_witness:
  "pending_tool_calls [sample_message ''tool'' (Some ''b'') None,
     sample_message ''assistant'' None (Some [sample_call ''a'', sample_call ''b'']),
     sample_message ''tool'' (Some ''a'') None] = [sample_call ''b'']"
proof -
  let ?later = "[sample_message ''tool'' (Some ''a'') None]"
  have "\<forall>m \<in> set ?later. calls_of m = None" by (simp add: calls_of_def sample_message_def)
  from pending_tool_calls_spec [OF this, of "sample_message ''assistant'' None (Some [sample_call ''a'', sample_call ''b''])"
      "[sample_call ''a'', sample_call ''b'']" "[sample_message ''tool'' (Some ''b'') None]"]
  show ?thesis by (simp add: calls_of_def sample_message_def sample_call_def answers_in_def)
qed

end
