(* ===== verification/Docket_Types.thy ===== *)
theory Docket_Types
  imports Den_Core
begin

section \<open>Docket types\<close>

text \<open>
  The enums with their spellings and the row, input and projection structures of
  \<open>den-docket/src/model.rs\<close> that its operations use. Field prefixes abbreviate the structure.
  Integers of database columns are integers, only compared and copied.
\<close>

subsection \<open>Enums\<close>

datatype task_list_visibility =
  VisPrivateToProfile | VisSameUser | VisBearVisible | VisHandoffRequested

fun task_list_visibility_str :: "task_list_visibility \<Rightarrow> string" where
  "task_list_visibility_str VisPrivateToProfile = ''private_to_profile''"
| "task_list_visibility_str VisSameUser = ''same_user''"
| "task_list_visibility_str VisBearVisible = ''bear_visible''"
| "task_list_visibility_str VisHandoffRequested = ''handoff_requested''"

datatype task_list_status =
  TlsActive | TlsBlocked | TlsCompleted | TlsCancelled | TlsArchived

fun task_list_status_str :: "task_list_status \<Rightarrow> string" where
  "task_list_status_str TlsActive = ''active''"
| "task_list_status_str TlsBlocked = ''blocked''"
| "task_list_status_str TlsCompleted = ''completed''"
| "task_list_status_str TlsCancelled = ''cancelled''"
| "task_list_status_str TlsArchived = ''archived''"

datatype task_list_item_status =
  ItemPending | ItemInProgress | ItemBlocked | ItemCompleted | ItemCancelled

fun task_list_item_status_str :: "task_list_item_status \<Rightarrow> string" where
  "task_list_item_status_str ItemPending = ''pending''"
| "task_list_item_status_str ItemInProgress = ''in_progress''"
| "task_list_item_status_str ItemBlocked = ''blocked''"
| "task_list_item_status_str ItemCompleted = ''completed''"
| "task_list_item_status_str ItemCancelled = ''cancelled''"

datatype task_list_sync_state =
  SyncLocalOnly | SyncCheckedOut | SyncClean | SyncDirty | SyncSyncing | SyncSynced | SyncConflict | SyncReviewRequired

fun task_list_sync_state_str :: "task_list_sync_state \<Rightarrow> string" where
  "task_list_sync_state_str SyncLocalOnly = ''local_only''"
| "task_list_sync_state_str SyncCheckedOut = ''checked_out''"
| "task_list_sync_state_str SyncClean = ''clean''"
| "task_list_sync_state_str SyncDirty = ''dirty''"
| "task_list_sync_state_str SyncSyncing = ''syncing''"
| "task_list_sync_state_str SyncSynced = ''synced''"
| "task_list_sync_state_str SyncConflict = ''conflict''"
| "task_list_sync_state_str SyncReviewRequired = ''review_required''"

datatype docket_job_status =
  JobDraft | JobReady | JobRunning | JobStalled | JobBlocked | JobCompleted | JobCancelled | JobArchived

fun docket_job_status_str :: "docket_job_status \<Rightarrow> string" where
  "docket_job_status_str JobDraft = ''draft''"
| "docket_job_status_str JobReady = ''ready''"
| "docket_job_status_str JobRunning = ''running''"
| "docket_job_status_str JobStalled = ''stalled''"
| "docket_job_status_str JobBlocked = ''blocked''"
| "docket_job_status_str JobCompleted = ''completed''"
| "docket_job_status_str JobCancelled = ''cancelled''"
| "docket_job_status_str JobArchived = ''archived''"

datatype docket_job_overlap_resolution =
  OverlapReject | OverlapIndependent | OverlapSupersede

datatype docket_commit_policy =
  CommitNone | CommitPerTask | CommitPerJob

fun docket_commit_policy_str :: "docket_commit_policy \<Rightarrow> string" where
  "docket_commit_policy_str CommitNone = ''none''"
| "docket_commit_policy_str CommitPerTask = ''per_task''"
| "docket_commit_policy_str CommitPerJob = ''per_job''"

datatype docket_criterion_kind =
  CritNarrative | CritCommand | CritCheckRef

fun docket_criterion_kind_str :: "docket_criterion_kind \<Rightarrow> string" where
  "docket_criterion_kind_str CritNarrative = ''narrative''"
| "docket_criterion_kind_str CritCommand = ''command''"
| "docket_criterion_kind_str CritCheckRef = ''check_ref''"

datatype docket_run_trigger =
  TrigManual | TrigScheduled | TrigEvent

fun docket_run_trigger_str :: "docket_run_trigger \<Rightarrow> string" where
  "docket_run_trigger_str TrigManual = ''manual''"
| "docket_run_trigger_str TrigScheduled = ''scheduled''"
| "docket_run_trigger_str TrigEvent = ''event''"

datatype docket_run_state =
  DrunDispatched | DrunRunning | DrunPaused | DrunCompleted | DrunFailed | DrunCancelled

fun docket_run_state_str :: "docket_run_state \<Rightarrow> string" where
  "docket_run_state_str DrunDispatched = ''dispatched''"
| "docket_run_state_str DrunRunning = ''running''"
| "docket_run_state_str DrunPaused = ''paused''"
| "docket_run_state_str DrunCompleted = ''completed''"
| "docket_run_state_str DrunFailed = ''failed''"
| "docket_run_state_str DrunCancelled = ''cancelled''"

datatype docket_task_kind =
  TkindExecution | TkindInvestigation | TkindDecision

fun docket_task_kind_str :: "docket_task_kind \<Rightarrow> string" where
  "docket_task_kind_str TkindExecution = ''execution''"
| "docket_task_kind_str TkindInvestigation = ''investigation''"
| "docket_task_kind_str TkindDecision = ''decision''"

datatype docket_task_scope =
  TscopeTemplate | TscopeRun

fun docket_task_scope_str :: "docket_task_scope \<Rightarrow> string" where
  "docket_task_scope_str TscopeTemplate = ''template''"
| "docket_task_scope_str TscopeRun = ''run''"

datatype docket_task_difficulty =
  TdiffTrivial | TdiffModerate | TdiffHard | TdiffUnknown

fun docket_task_difficulty_str :: "docket_task_difficulty \<Rightarrow> string" where
  "docket_task_difficulty_str TdiffTrivial = ''trivial''"
| "docket_task_difficulty_str TdiffModerate = ''moderate''"
| "docket_task_difficulty_str TdiffHard = ''hard''"
| "docket_task_difficulty_str TdiffUnknown = ''unknown''"

datatype docket_effort_hint =
  HintLow | HintMedium | HintHigh

fun docket_effort_hint_str :: "docket_effort_hint \<Rightarrow> string" where
  "docket_effort_hint_str HintLow = ''low''"
| "docket_effort_hint_str HintMedium = ''medium''"
| "docket_effort_hint_str HintHigh = ''high''"

datatype routing_strategy =
  RouteInline | RouteScoped | RouteDelegated | RouteAuto

fun routing_strategy_str :: "routing_strategy \<Rightarrow> string" where
  "routing_strategy_str RouteInline = ''inline''"
| "routing_strategy_str RouteScoped = ''scoped''"
| "routing_strategy_str RouteDelegated = ''delegated''"
| "routing_strategy_str RouteAuto = ''auto''"

datatype result_rollup_policy =
  RollupSummaryToParent | RollupNone

fun result_rollup_policy_str :: "result_rollup_policy \<Rightarrow> string" where
  "result_rollup_policy_str RollupSummaryToParent = ''summary_to_parent''"
| "result_rollup_policy_str RollupNone = ''none''"

datatype docket_task_status =
  TaskPending | TaskDone | TaskBlocked | TaskCancelled

fun docket_task_status_str :: "docket_task_status \<Rightarrow> string" where
  "docket_task_status_str TaskPending = ''pending''"
| "docket_task_status_str TaskDone = ''done''"
| "docket_task_status_str TaskBlocked = ''blocked''"
| "docket_task_status_str TaskCancelled = ''cancelled''"

datatype docket_outcome_disposition =
  DispCompleted | DispNoChange | DispDelegated | DispBlocked | DispFailed | DispCancelled

fun docket_outcome_disposition_str :: "docket_outcome_disposition \<Rightarrow> string" where
  "docket_outcome_disposition_str DispCompleted = ''completed''"
| "docket_outcome_disposition_str DispNoChange = ''no_change''"
| "docket_outcome_disposition_str DispDelegated = ''delegated''"
| "docket_outcome_disposition_str DispBlocked = ''blocked''"
| "docket_outcome_disposition_str DispFailed = ''failed''"
| "docket_outcome_disposition_str DispCancelled = ''cancelled''"

datatype docket_criterion_status =
  CstUnmet | CstMet | CstWaived

fun docket_criterion_status_str :: "docket_criterion_status \<Rightarrow> string" where
  "docket_criterion_status_str CstUnmet = ''unmet''"
| "docket_criterion_status_str CstMet = ''met''"
| "docket_criterion_status_str CstWaived = ''waived''"

datatype mutation_policy =
  MutRequired | MutOptional | MutForbidden

fun mutation_policy_str :: "mutation_policy \<Rightarrow> string" where
  "mutation_policy_str MutRequired = ''required''"
| "mutation_policy_str MutOptional = ''optional''"
| "mutation_policy_str MutForbidden = ''forbidden''"

datatype docket_entry_scope =
  EscopeTaskJournal | EscopeJobNotebook

fun docket_entry_scope_str :: "docket_entry_scope \<Rightarrow> string" where
  "docket_entry_scope_str EscopeTaskJournal = ''task_journal''"
| "docket_entry_scope_str EscopeJobNotebook = ''job_notebook''"

datatype docket_entry_kind =
  EkindOutcome | EkindFinding | EkindDecision | EkindObstacle | EkindFollowUp | EkindMilestone | EkindQuestion

fun docket_entry_kind_str :: "docket_entry_kind \<Rightarrow> string" where
  "docket_entry_kind_str EkindOutcome = ''outcome''"
| "docket_entry_kind_str EkindFinding = ''finding''"
| "docket_entry_kind_str EkindDecision = ''decision''"
| "docket_entry_kind_str EkindObstacle = ''obstacle''"
| "docket_entry_kind_str EkindFollowUp = ''follow_up''"
| "docket_entry_kind_str EkindMilestone = ''milestone''"
| "docket_entry_kind_str EkindQuestion = ''question''"

definition routing_strategy_default :: routing_strategy where
  "routing_strategy_default = RouteAuto"

definition docket_job_overlap_resolution_default :: docket_job_overlap_resolution where
  "docket_job_overlap_resolution_default = OverlapReject"

definition commit_policy_for_new_job :: "docket_commit_policy option \<Rightarrow> docket_commit_policy" where
  "commit_policy_for_new_job policy = unwrap_or policy CommitPerJob"

definition disposition_is_valid_for :: "docket_outcome_disposition \<Rightarrow> docket_task_status \<Rightarrow> bool" where
  "disposition_is_valid_for d status \<longleftrightarrow>
     (status = TaskDone \<and> (d = DispCompleted \<or> d = DispNoChange \<or> d = DispDelegated))
     \<or> (status = TaskBlocked \<and> (d = DispBlocked \<or> d = DispFailed))
     \<or> (status = TaskCancelled \<and> d = DispCancelled)"

definition task_list_visibility_parse :: "string \<Rightarrow> den_error + task_list_visibility" where
  "task_list_visibility_parse value =
     (let v = trim value in
      if v = ''private_to_profile'' then Inr VisPrivateToProfile
      else if v = ''same_user'' then Inr VisSameUser
      else if v = ''bear_visible'' then Inr VisBearVisible
      else if v = ''handoff_requested'' then Inr VisHandoffRequested
      else Inl (Parsing (''unknown task-list visibility: '' @ v)))"

definition task_list_status_parse :: "string \<Rightarrow> den_error + task_list_status" where
  "task_list_status_parse value =
     (let v = trim value in
      if v = ''active'' then Inr TlsActive
      else if v = ''blocked'' then Inr TlsBlocked
      else if v = ''completed'' then Inr TlsCompleted
      else if v = ''cancelled'' then Inr TlsCancelled
      else if v = ''archived'' then Inr TlsArchived
      else Inl (Parsing (''unknown task-list status: '' @ v)))"

interpretation visibility_enum: labelled_enum task_list_visibility_str task_list_visibility_parse trim
proof
  show "task_list_visibility_parse (task_list_visibility_str x) = Inr x" for x
    by (cases x) (simp_all add: task_list_visibility_parse_def trim_id trim_eval)
  show "task_list_visibility_str x = trim s" if "task_list_visibility_parse s = Inr x" for s x
    using that by (auto simp: task_list_visibility_parse_def Let_def split: if_splits)
qed

interpretation task_list_status_enum: labelled_enum task_list_status_str task_list_status_parse trim
proof
  show "task_list_status_parse (task_list_status_str x) = Inr x" for x
    by (cases x) (simp_all add: task_list_status_parse_def trim_id trim_eval)
  show "task_list_status_str x = trim s" if "task_list_status_parse s = Inr x" for s x
    using that by (auto simp: task_list_status_parse_def Let_def split: if_splits)
qed

subsection \<open>Structures\<close>

datatype docket_task_placement = PlaceFirst | PlaceLast | PlaceBefore uuid | PlaceAfter uuid

record task_list_update_item =
  ui_id :: "string"
  ui_title :: "string"
  ui_summary :: "string option"
  ui_status :: "task_list_item_status"
  ui_blocked_reason :: "string option"
  ui_source_refs :: "string list"

record task_list_update =
  up_title :: "string"
  up_summary :: "string"
  up_visibility :: "task_list_visibility"
  up_status :: "task_list_status"
  up_items :: "task_list_update_item list"
  up_workspace_context :: "json"

record task_list_local_projection =
  lp_id :: "uuid"
  lp_bear_id :: "uuid"
  lp_title :: "string"
  lp_summary :: "string"
  lp_owner_profile :: "string"
  lp_visibility :: "string"
  lp_status :: "string"
  lp_version :: "int"
  lp_items :: "task_list_update_item list"
  lp_current_item :: "task_list_update_item option"
  lp_source_conversation_id :: "string option"
  lp_source_client_session_id :: "string option"
  lp_handoff_intent_path :: "string option"
  lp_handoff_task_id :: "string option"
  lp_created_at :: "timestamp"
  lp_updated_at :: "timestamp"

record task_list_source_ref =
  sr_kind :: "string"
  sr_docket_job_id :: "string option"
  sr_docket_task_id :: "string option"
  sr_refs :: "string list"

record task_list_item =
  it_id :: "string"
  it_title :: "string"
  it_summary :: "string option"
  it_status :: "task_list_item_status"
  it_blocked_reason :: "string option"
  it_source_ref :: "task_list_source_ref"
  it_sync_state :: "task_list_sync_state"

record task_list_projection =
  tlp_id :: "uuid"
  tlp_bear_id :: "uuid"
  tlp_title :: "string"
  tlp_summary :: "string"
  tlp_owner_profile :: "string"
  tlp_visibility :: "string"
  tlp_status :: "string"
  tlp_version :: "int"
  tlp_source_ref :: "task_list_source_ref"
  tlp_items :: "task_list_item list"
  tlp_current_item :: "task_list_item option"
  tlp_source_conversation_id :: "string option"
  tlp_source_client_session_id :: "string option"
  tlp_handoff_intent_path :: "string option"
  tlp_handoff_task_id :: "string option"
  tlp_created_at :: "timestamp"
  tlp_updated_at :: "timestamp"

record task_list_sync_outcome =
  so_task_list :: "task_list_projection"
  so_applied :: "bool"
  so_review_required :: "bool"
  so_conflicts :: "string list"
  so_message :: "string"

record task_list_handoff_request =
  hr_task_list :: "task_list_projection"
  hr_item_ids :: "string list"
  hr_title :: "string"
  hr_summary :: "string"
  hr_requested_outcome :: "string"

record task_list_handoff_outcome =
  ho_accepted :: "bool"
  ho_review_required :: "bool"
  ho_message :: "string"
  ho_task_list_id :: "uuid"
  ho_item_ids :: "string list"

record docket_job_surface_assignment_input =
  sa_work_surface_id :: "uuid"
  sa_mutation_policy :: "mutation_policy"

record docket_job_row =
  dj_id :: "uuid"
  dj_bear_id :: "uuid"
  dj_created_by_user_id :: "int"
  dj_created_by_role :: "string"
  dj_goal :: "string"
  dj_work_surface_id :: "uuid option"
  dj_commit_policy :: "string option"
  dj_work_branch :: "string option"
  dj_status :: "string"
  dj_lifecycle_intent :: "string option"
  dj_visibility :: "string"
  dj_source_conversation_id :: "string option"
  dj_objective_kind :: "string option"
  dj_supersedes_job_id :: "uuid option"
  dj_current_run_id :: "uuid option"
  dj_created_at :: "timestamp"
  dj_updated_at :: "timestamp"

record docket_job_criterion_row =
  dc_id :: "uuid"
  dc_job_id :: "uuid"
  dc_kind :: "string"
  dc_description :: "string"
  dc_spec :: "json option"
  dc_sibling_order :: "int"
  dc_created_at :: "timestamp"
  dc_updated_at :: "timestamp"

record docket_job_run_row =
  jrun_id :: "uuid"
  jrun_job_id :: "uuid"
  jrun_trigger :: "string"
  jrun_schedule_ref :: "string option"
  jrun_state :: "string"
  jrun_started_at :: "timestamp option"
  jrun_finished_at :: "timestamp option"
  jrun_outcome :: "json option"
  jrun_created_at :: "timestamp"
  jrun_updated_at :: "timestamp"

record docket_task_row =
  dt_id :: "uuid"
  dt_bear_id :: "uuid"
  dt_job_id :: "uuid option"
  dt_session_anchor_id :: "uuid option"
  dt_parent_task_id :: "uuid option"
  dt_sibling_order :: "int"
  dt_kind :: "string"
  dt_scope :: "string"
  dt_title :: "string"
  dt_body :: "string"
  dt_completion_criteria :: "string list"
  dt_difficulty :: "string option"
  dt_effort_hint :: "string option"
  dt_routing_strategy :: "string"
  dt_expected_context_size :: "int option"
  dt_result_rollup_policy :: "string option"
  dt_created_by_role :: "string"
  dt_created_by_user_id :: "int option"
  dt_created_by_agent_id :: "string option"
  dt_created_in_run_id :: "uuid option"
  dt_settled_by_entry_id :: "uuid option"
  dt_created_at :: "timestamp"
  dt_updated_at :: "timestamp"

record docket_task_run_state_row =
  ts_run_id :: "uuid"
  ts_task_id :: "uuid"
  ts_status :: "string"
  ts_result_refs :: "json option"
  ts_result_summary :: "string option"
  ts_started_at :: "timestamp option"
  ts_finished_at :: "timestamp option"
  ts_updated_at :: "timestamp"

record docket_criterion_state_row =
  cst_run_id :: "uuid"
  cst_criterion_id :: "uuid"
  cst_status :: "string"
  cst_evaluated_at :: "timestamp option"
  cst_evidence :: "json option"
  cst_updated_at :: "timestamp"

record docket_job_projection =
  jp_job :: "docket_job_row"
  jp_current_run :: "docket_job_run_row option"
  jp_criteria :: "docket_job_criterion_row list"
  jp_criteria_states :: "docket_criterion_state_row list"
  jp_tasks :: "docket_task_row list"
  jp_task_states :: "docket_task_run_state_row list"
  jp_active_task_ids :: "uuid list"

record docket_count_by_status =
  cnt_pending :: "nat"
  cnt_in_progress :: "nat"
  cnt_done :: "nat"
  cnt_blocked :: "nat"
  cnt_cancelled :: "nat"

record docket_criteria_count_by_status =
  ccnt_unmet :: "nat"
  ccnt_met :: "nat"
  ccnt_waived :: "nat"

record job_status_report =
  rpt_job_id :: "uuid"
  rpt_run_id :: "uuid option"
  rpt_job_status :: "string"
  rpt_run_state :: "string option"
  rpt_current_task_id :: "uuid option"
  rpt_current_task_title :: "string option"
  rpt_task_counts :: "docket_count_by_status"
  rpt_criteria_counts :: "docket_criteria_count_by_status"
  rpt_tasks_complete :: "bool"
  rpt_criteria_complete :: "bool"
  rpt_next_action :: "string"

record docket_job_criterion_input =
  ci_kind :: "docket_criterion_kind"
  ci_description :: "string"
  ci_spec :: "json option"
  ci_sibling_order :: "int"

record docket_task_input =
  tin_client_key :: "string option"
  tin_parent_client_key :: "string option"
  tin_parent_task_id :: "uuid option"
  tin_sibling_order :: "int option"
  tin_kind :: "docket_task_kind"
  tin_scope :: "docket_task_scope"
  tin_title :: "string"
  tin_body :: "string"
  tin_completion_criteria :: "string list"
  tin_difficulty :: "docket_task_difficulty option"
  tin_effort_hint :: "docket_effort_hint option"
  tin_routing_strategy :: "routing_strategy"
  tin_expected_context_size :: "int option"
  tin_result_rollup_policy :: "result_rollup_policy option"

record docket_job_create =
  jc_bear_id :: "uuid"
  jc_created_by_user_id :: "int"
  jc_created_by_role :: "string"
  jc_goal :: "string"
  jc_work_surface_id :: "uuid option"
  jc_work_surface_assignments :: "docket_job_surface_assignment_input list"
  jc_commit_policy :: "docket_commit_policy option"
  jc_work_branch :: "string option"
  jc_visibility :: "task_list_visibility"
  jc_source_conversation_id :: "string option"
  jc_objective_kind :: "string option"
  jc_supersedes_job_id :: "uuid option"
  jc_overlap_resolution :: "docket_job_overlap_resolution"
  jc_criteria :: "docket_job_criterion_input list"
  jc_tasks :: "docket_task_input list"

record docket_task_create =
  tcr_bear_id :: "uuid"
  tcr_job_id :: "uuid option"
  tcr_session_anchor_id :: "uuid option"
  tcr_parent_task_id :: "uuid option"
  tcr_sibling_order :: "int"
  tcr_placement :: "docket_task_placement option"
  tcr_kind :: "docket_task_kind"
  tcr_scope :: "docket_task_scope"
  tcr_title :: "string"
  tcr_body :: "string"
  tcr_completion_criteria :: "string list"
  tcr_difficulty :: "docket_task_difficulty option"
  tcr_effort_hint :: "docket_effort_hint option"
  tcr_routing_strategy :: "routing_strategy"
  tcr_expected_context_size :: "int option"
  tcr_result_rollup_policy :: "result_rollup_policy option"
  tcr_created_by_role :: "string"
  tcr_created_by_user_id :: "int option"
  tcr_created_by_agent_id :: "string option"
  tcr_created_in_run_id :: "uuid option"

record docket_entry_row =
  ent_id :: "uuid"
  ent_job_id :: "uuid option"
  ent_task_id :: "uuid option"
  ent_run_id :: "uuid option"
  ent_scope :: "string"
  ent_kind :: "string"
  ent_summary :: "string"
  ent_body :: "string option"
  ent_disposition :: "string option"
  ent_evidence_refs :: "json"
  ent_related_task_ids :: "json"
  ent_tags :: "json"
  ent_by_role :: "string"
  ent_by_agent_id :: "string option"
  ent_by_user_id :: "int option"
  ent_source_entry_id :: "uuid option"
  ent_created_at :: "timestamp"

record docket_task_projection =
  tp_task :: "docket_task_row"
  tp_run_state :: "docket_task_run_state_row option"

end
