(* ===== verification/Docket_Model.thy ===== *)
theory Docket_Model
  imports Docket_Types "HOL-Library.Product_Lexorder"
begin

unbundle bit_operations_syntax

section \<open>Docket model\<close>

text \<open>
  The operations of \<open>den-docket/src/model.rs\<close>: item ids, projections of jobs and session tasks
  to task lists, the derived status of a job and its report, source references, notebook
  selection, validation and access rules, the prompt context.

  Arguments: \<open>us\<close> prints a uuid and \<open>pu\<close> parses one, \<open>lower\<close> is the Unicode lower-casing of a
  string. A \<open>HashMap\<close> collected from pairs keeps the last value of a key; a \<open>HashSet\<close> that is
  only tested is a list.
\<close>

subsection \<open>Item ids\<close>

definition is_ascii_alphanumeric :: "char \<Rightarrow> bool" where
  "is_ascii_alphanumeric c \<longleftrightarrow>
     (CHR ''a'' \<le> c \<and> c \<le> CHR ''z'') \<or> (CHR ''A'' \<le> c \<and> c \<le> CHR ''Z'') \<or> (CHR ''0'' \<le> c \<and> c \<le> CHR ''9'')"

text \<open>
  The loop runs over the bytes: the bytes of a character outside ASCII are all separators, and
  consecutive separators collapse, so this is the loop over characters.
\<close>

fun slug_loop :: "string \<Rightarrow> bool \<Rightarrow> string \<Rightarrow> string" where
  "slug_loop slug sep [] = slug"
| "slug_loop slug sep (ch # chs) =
     (let (slug', sep') =
        (if is_ascii_alphanumeric ch then (slug @ [ch], False)
         else if \<not> sep \<and> slug \<noteq> [] then (slug @ ''_'', True)
         else (slug, sep))
      in if length slug' \<ge> 32 then slug' else slug_loop slug' sep' chs)"

definition slug_prefix :: "(string \<Rightarrow> string) \<Rightarrow> string \<Rightarrow> string option" where
  "slug_prefix lower value =
     (let slug = rev (dropWhile (\<lambda>c. c = CHR ''_'') (rev (slug_loop [] False (lower (trim value)))))
      in if slug \<noteq> [] then Some slug else None)"

definition fnv1a64 :: "string \<Rightarrow> u64" where
  "fnv1a64 bytes =
     foldl (\<lambda>hash byte. (hash XOR word_of_nat (of_char byte)) * 0x00000100000001b3) 0xcbf29ce484222325 bytes"

definition hex6 :: "nat \<Rightarrow> string" where
  "hex6 n = map (\<lambda>k. hex_digit (n div 16 ^ k mod 16)) [5, 4, 3, 2, 1, 0]"

definition generated_task_list_item_id ::
    "(string \<Rightarrow> string) \<Rightarrow> task_list_update_item \<Rightarrow> u32 option \<Rightarrow> string" where
  "generated_task_list_item_id lower item ordinal =
     (let seed0 = trim (ui_title item) @ [CHR 0x0A] @ trim (unwrap_or (ui_summary item) []) @ [CHR 0x0A]
            @ task_list_item_status_str (ui_status item);
          seed = (case ordinal of Some n \<Rightarrow> seed0 @ [CHR 0x0A] @ show_word n | None \<Rightarrow> seed0);
          pre = unwrap_or (slug_prefix lower (ui_title item)) ''item''
      in pre @ ''_'' @ hex6 (unat (fnv1a64 seed AND 0x00ffffff)))"

text \<open>The search for an unused ordinal need not end: then it has no value.\<close>

partial_function (option) fresh_id :: "(u32 \<Rightarrow> string) \<Rightarrow> string list \<Rightarrow> u32 \<Rightarrow> string option" where
  [code]: "fresh_id gen used ordinal =
     (if gen ordinal \<notin> set used then Some (gen ordinal) else fresh_id gen used (sat_add ordinal 1))"

fun normalize_item_id ::
    "(string \<Rightarrow> string) \<Rightarrow> string list \<Rightarrow> task_list_update_item \<Rightarrow> (task_list_update_item \<times> string list) option" where
  "normalize_item_id lower used item =
     (let trimmed = trim (ui_id item) in
      if trimmed = [] then
        (let generated = generated_task_list_item_id lower item None in
         if generated \<notin> set used then Some (item\<lparr>ui_id := generated\<rparr>, generated # used)
         else (case fresh_id (\<lambda>n. generated_task_list_item_id lower item (Some n)) used 2 of
             None \<Rightarrow> None
           | Some i \<Rightarrow> Some (item\<lparr>ui_id := i\<rparr>, i # used)))
      else if length trimmed \<noteq> length (ui_id item) then Some (item\<lparr>ui_id := trimmed\<rparr>, used)
      else Some (item, used))"

fun normalize_items_from ::
    "(string \<Rightarrow> string) \<Rightarrow> string list \<Rightarrow> task_list_update_item list \<Rightarrow> task_list_update_item list option" where
  "normalize_items_from lower used [] = Some []"
| "normalize_items_from lower used (item # items) =
     (case normalize_item_id lower used item of
        None \<Rightarrow> None
      | Some (item', used') \<Rightarrow> map_option ((#) item') (normalize_items_from lower used' items))"

definition normalize_task_list_item_ids ::
    "(string \<Rightarrow> string) \<Rightarrow> task_list_update_item list \<Rightarrow> task_list_update_item list option" where
  "normalize_task_list_item_ids lower items = normalize_items_from lower [] items"

text \<open>The hand-written part of \<open>Deserialize\<close>: the raw fields are what the derived code reads.\<close>

definition task_list_update_from_raw ::
    "(string \<Rightarrow> string) \<Rightarrow> task_list_update \<Rightarrow> task_list_update option" where
  "task_list_update_from_raw lower raw =
     map_option (\<lambda>items. raw\<lparr>up_items := items\<rparr>) (normalize_task_list_item_ids lower (up_items raw))"

subsection \<open>Source references\<close>

definition source_ref_local :: "string list \<Rightarrow> task_list_source_ref" where
  "source_ref_local refs = \<lparr>sr_kind = ''local'', sr_docket_job_id = None, sr_docket_task_id = None, sr_refs = refs\<rparr>"

definition source_ref_docket_job :: "string \<Rightarrow> string list \<Rightarrow> task_list_source_ref" where
  "source_ref_docket_job job_id refs =
     \<lparr>sr_kind = ''docket_job'', sr_docket_job_id = Some job_id, sr_docket_task_id = None, sr_refs = refs\<rparr>"

definition source_ref_docket_task :: "string option \<Rightarrow> string \<Rightarrow> string list \<Rightarrow> task_list_source_ref" where
  "source_ref_docket_task job_id task_id refs =
     \<lparr>sr_kind = ''docket_task'', sr_docket_job_id = job_id, sr_docket_task_id = Some task_id, sr_refs = refs\<rparr>"

definition scan_docket_ref :: "string option \<times> string option \<Rightarrow> string \<Rightarrow> string option \<times> string option" where
  "scan_docket_ref st raw =
     (let value = trim raw in
      case strip_prefix ''docket_job:'' value of
        Some rest \<Rightarrow> if trim rest \<noteq> [] then (Some (trim rest), snd st) else st
      | None \<Rightarrow>
         (case strip_prefix ''docket_task:'' value of
            Some rest \<Rightarrow> if trim rest \<noteq> [] then (fst st, Some (trim rest)) else st
          | None \<Rightarrow> st))"

definition parse_docket_source_refs :: "string list \<Rightarrow> task_list_source_ref option" where
  "parse_docket_source_refs refs =
     (case foldl scan_docket_ref (None, None) refs of
        (job_id, task_id) \<Rightarrow> map_option (\<lambda>t. source_ref_docket_task job_id t refs) task_id)"

datatype docket_source_ref = RefJob uuid | RefParentTask uuid | RefTask uuid | RefMissingJob

fun docket_source_ref_str :: "(uuid \<Rightarrow> string) \<Rightarrow> docket_source_ref \<Rightarrow> string" where
  "docket_source_ref_str us (RefJob i) = ''docket_job:'' @ us i"
| "docket_source_ref_str us (RefParentTask i) = ''docket_parent_task:'' @ us i"
| "docket_source_ref_str us (RefTask i) = ''docket_task:'' @ us i"
| "docket_source_ref_str us RefMissingJob = ''docket_job:<none>''"

definition docket_source_ref_parse :: "(string \<Rightarrow> uuid option) \<Rightarrow> string \<Rightarrow> docket_source_ref option" where
  "docket_source_ref_parse pu raw0 =
     (let raw = trim raw0 in
      if raw = ''docket_job:<none>'' then Some RefMissingJob
      else case strip_prefix ''docket_job:'' raw of
        Some i \<Rightarrow> map_option RefJob (pu (trim i))
      | None \<Rightarrow>
         (case strip_prefix ''docket_parent_task:'' raw of
            Some i \<Rightarrow> map_option RefParentTask (pu (trim i))
          | None \<Rightarrow>
             (case strip_prefix ''docket_task:'' raw of
                Some i \<Rightarrow> map_option RefTask (pu (trim i))
              | None \<Rightarrow> None)))"

definition docket_checkout_refs :: "(uuid \<Rightarrow> string) \<Rightarrow> uuid \<Rightarrow> uuid option \<Rightarrow> string list" where
  "docket_checkout_refs us job_id parent_task_id =
     docket_source_ref_str us (RefJob job_id)
     # (case parent_task_id of Some p \<Rightarrow> [docket_source_ref_str us (RefParentTask p)] | None \<Rightarrow> [])"

definition docket_parent_task_ref :: "(string \<Rightarrow> uuid option) \<Rightarrow> task_list_source_ref \<Rightarrow> uuid option" where
  "docket_parent_task_ref pu source_ref =
     find_map (\<lambda>raw. case docket_source_ref_parse pu raw of Some (RefParentTask i) \<Rightarrow> Some i | _ \<Rightarrow> None)
       (sr_refs source_ref)"

subsection \<open>Local projections\<close>

definition task_list_item_from_update_item :: "task_list_update_item \<Rightarrow> task_list_item" where
  "task_list_item_from_update_item item =
     (let source_ref = unwrap_or (parse_docket_source_refs (ui_source_refs item))
            (source_ref_local (ui_source_refs item));
          sync_state = (if sr_kind source_ref = ''docket_task'' then SyncCheckedOut else SyncLocalOnly)
      in \<lparr>it_id = ui_id item, it_title = ui_title item, it_summary = ui_summary item, it_status = ui_status item,
          it_blocked_reason = ui_blocked_reason item, it_source_ref = source_ref, it_sync_state = sync_state\<rparr>)"

definition task_list_projection_from_local ::
    "(uuid \<Rightarrow> string) \<Rightarrow> task_list_local_projection \<Rightarrow> task_list_projection" where
  "task_list_projection_from_local us plan = \<lparr>
     tlp_id = lp_id plan, tlp_bear_id = lp_bear_id plan, tlp_title = lp_title plan, tlp_summary = lp_summary plan,
     tlp_owner_profile = lp_owner_profile plan, tlp_visibility = lp_visibility plan, tlp_status = lp_status plan,
     tlp_version = lp_version plan,
     tlp_source_ref = source_ref_local [''task_list:'' @ us (lp_id plan)],
     tlp_items = map task_list_item_from_update_item (lp_items plan),
     tlp_current_item = map_option task_list_item_from_update_item (lp_current_item plan),
     tlp_source_conversation_id = lp_source_conversation_id plan,
     tlp_source_client_session_id = lp_source_client_session_id plan,
     tlp_handoff_intent_path = lp_handoff_intent_path plan,
     tlp_handoff_task_id = lp_handoff_task_id plan,
     tlp_created_at = lp_created_at plan, tlp_updated_at = lp_updated_at plan\<rparr>"

definition sync_outcome_applied :: "task_list_projection \<Rightarrow> string \<Rightarrow> task_list_sync_outcome" where
  "sync_outcome_applied p message = \<lparr>so_task_list = p, so_applied = True, so_review_required = False,
     so_conflicts = [], so_message = message\<rparr>"

definition sync_outcome_conflicts :: "task_list_projection \<Rightarrow> string list \<Rightarrow> string \<Rightarrow> task_list_sync_outcome" where
  "sync_outcome_conflicts p conflicts message = \<lparr>so_task_list = p, so_applied = False,
     so_review_required = False, so_conflicts = conflicts, so_message = message\<rparr>"

definition sync_outcome_review_required :: "task_list_projection \<Rightarrow> string \<Rightarrow> task_list_sync_outcome" where
  "sync_outcome_review_required p message = \<lparr>so_task_list = p, so_applied = False,
     so_review_required = True, so_conflicts = [], so_message = message\<rparr>"

definition handoff_outcome_review_required :: "task_list_handoff_request \<Rightarrow> string \<Rightarrow> task_list_handoff_outcome" where
  "handoff_outcome_review_required request message = \<lparr>ho_accepted = True, ho_review_required = True,
     ho_message = message, ho_task_list_id = tlp_id (hr_task_list request), ho_item_ids = hr_item_ids request\<rparr>"

subsection \<open>Derived job status\<close>

definition task_state_done :: "docket_task_run_state_row \<Rightarrow> bool" where
  "task_state_done s \<longleftrightarrow> ts_status s = ''done'' \<or> ts_status s = ''cancelled''"

definition criterion_state_done :: "docket_criterion_state_row \<Rightarrow> bool" where
  "criterion_state_done s \<longleftrightarrow> cst_status s = ''met'' \<or> cst_status s = ''waived''"

definition derived_docket_job_status :: "docket_job_projection \<Rightarrow> string" where
  "derived_docket_job_status p =
     (let run_state = map_option jrun_state (jp_current_run p) in
      case dj_lifecycle_intent (jp_job p) of
        Some intent \<Rightarrow> intent
      | None \<Rightarrow>
         if run_state = Some ''stalled'' then ''stalled''
         else if jp_active_task_ids p \<noteq> [] then ''running''
         else if run_state = Some ''blocked'' \<or> (\<exists>s \<in> set (jp_task_states p). ts_status s = ''blocked'')
           then ''blocked''
         else
           (let tasks_complete = (\<forall>t \<in> set (jp_tasks p).
                  is_some_and (List.find (\<lambda>s. ts_task_id s = dt_id t) (jp_task_states p)) task_state_done);
                criteria_complete = (\<forall>c \<in> set (jp_criteria p).
                  is_some_and (List.find (\<lambda>s. cst_criterion_id s = dc_id c) (jp_criteria_states p)) criterion_state_done)
            in if tasks_complete \<and> criteria_complete \<and> (jp_tasks p \<noteq> [] \<or> jp_criteria p \<noteq> []) then ''completed''
               else if jp_tasks p = [] then ''draft''
               else ''ready''))"

text \<open>A map collected from rows: the last row of a key wins.\<close>

definition collected :: "('r \<Rightarrow> 'k) \<Rightarrow> 'r list \<Rightarrow> 'k \<Rightarrow> 'r option" where
  "collected key rows k = List.find (\<lambda>r. key r = k) (rev rows)"

definition count_task ::
    "(uuid \<Rightarrow> docket_task_run_state_row option) \<Rightarrow> uuid list \<Rightarrow> docket_count_by_status \<Rightarrow> docket_task_row
     \<Rightarrow> docket_count_by_status" where
  "count_task states active n t =
     (if dt_id t \<in> set active then n\<lparr>cnt_in_progress := cnt_in_progress n + 1\<rparr>
      else
        (let status = unwrap_or (map_option ts_status (states (dt_id t))) ''pending'' in
         if status = ''done'' then n\<lparr>cnt_done := cnt_done n + 1\<rparr>
         else if status = ''blocked'' then n\<lparr>cnt_blocked := cnt_blocked n + 1\<rparr>
         else if status = ''cancelled'' then n\<lparr>cnt_cancelled := cnt_cancelled n + 1\<rparr>
         else n\<lparr>cnt_pending := cnt_pending n + 1\<rparr>))"

definition count_criterion ::
    "(uuid \<Rightarrow> docket_criterion_state_row option) \<Rightarrow> docket_criteria_count_by_status \<Rightarrow> docket_job_criterion_row
     \<Rightarrow> docket_criteria_count_by_status" where
  "count_criterion states n c =
     (let status = unwrap_or (map_option cst_status (states (dc_id c))) ''unmet'' in
      if status = ''met'' then n\<lparr>ccnt_met := ccnt_met n + 1\<rparr>
      else if status = ''waived'' then n\<lparr>ccnt_waived := ccnt_waived n + 1\<rparr>
      else n\<lparr>ccnt_unmet := ccnt_unmet n + 1\<rparr>)"

definition docket_job_status_report :: "docket_job_projection \<Rightarrow> job_status_report" where
  "docket_job_status_report p =
     (let job_status = derived_docket_job_status p;
          current_task = List.find (\<lambda>t. dt_id t \<in> set (jp_active_task_ids p)) (jp_tasks p);
          task_counts = foldl (count_task (collected ts_task_id (jp_task_states p)) (jp_active_task_ids p))
            \<lparr>cnt_pending = 0, cnt_in_progress = 0, cnt_done = 0, cnt_blocked = 0, cnt_cancelled = 0\<rparr> (jp_tasks p);
          criteria_counts = foldl (count_criterion (collected cst_criterion_id (jp_criteria_states p)))
            \<lparr>ccnt_unmet = 0, ccnt_met = 0, ccnt_waived = 0\<rparr> (jp_criteria p);
          tasks_complete = (cnt_pending task_counts = 0 \<and> cnt_in_progress task_counts = 0
            \<and> cnt_blocked task_counts = 0
            \<and> cnt_done task_counts + cnt_cancelled task_counts = length (jp_tasks p));
          criteria_complete = (jp_criteria p = [] \<or> ccnt_unmet criteria_counts = 0
            \<and> ccnt_met criteria_counts + ccnt_waived criteria_counts = length (jp_criteria p));
          next_action =
            (if job_status = ''stalled'' then ''resolve_stalled_work_run''
             else if cnt_blocked task_counts > 0 \<or> job_status = ''blocked'' then ''resolve_blocked_task_or_criterion''
             else if cnt_in_progress task_counts > 0 then ''continue_current_task''
             else if cnt_pending task_counts > 0 then ''execute_job_to_select_next_task''
             else if \<not> criteria_complete then ''evaluate_remaining_criteria''
             else if job_status \<noteq> ''completed'' then ''execute_job_to_complete''
             else ''done'')
      in \<lparr>rpt_job_id = dj_id (jp_job p), rpt_run_id = map_option jrun_id (jp_current_run p),
          rpt_job_status = job_status, rpt_run_state = map_option jrun_state (jp_current_run p),
          rpt_current_task_id = map_option dt_id current_task,
          rpt_current_task_title = map_option dt_title current_task,
          rpt_task_counts = task_counts, rpt_criteria_counts = criteria_counts,
          rpt_tasks_complete = tasks_complete, rpt_criteria_complete = criteria_complete,
          rpt_next_action = next_action\<rparr>)"

definition active_task_parent_id :: "docket_job_projection \<Rightarrow> uuid option" where
  "active_task_parent_id p =
     (case jp_active_task_ids p of
        [] \<Rightarrow> None
      | active # _ \<Rightarrow> Option.bind (List.find (\<lambda>t. dt_id t = active) (jp_tasks p)) dt_parent_task_id)"

subsection \<open>Projections to task lists\<close>

definition task_list_item_status_from_docket_task_status :: "string \<Rightarrow> task_list_item_status" where
  "task_list_item_status_from_docket_task_status status =
     (if status = ''in_progress'' then ItemInProgress
      else if status = ''done'' then ItemCompleted
      else if status = ''blocked'' then ItemBlocked
      else if status = ''cancelled'' then ItemCancelled
      else ItemPending)"

fun docket_task_status_from_task_list_item_status :: "task_list_item_status \<Rightarrow> docket_task_status" where
  "docket_task_status_from_task_list_item_status ItemPending = TaskPending"
| "docket_task_status_from_task_list_item_status ItemInProgress = TaskPending"
| "docket_task_status_from_task_list_item_status ItemBlocked = TaskBlocked"
| "docket_task_status_from_task_list_item_status ItemCompleted = TaskDone"
| "docket_task_status_from_task_list_item_status ItemCancelled = TaskCancelled"

definition task_list_item_from_docket_task ::
    "(uuid \<Rightarrow> string) \<Rightarrow> docket_task_row \<Rightarrow> docket_task_run_state_row option \<Rightarrow> bool \<Rightarrow> task_list_item" where
  "task_list_item_from_docket_task us t state is_executing =
     (let status = (if is_executing then ItemInProgress
            else unwrap_or (map_option (\<lambda>s. task_list_item_status_from_docket_task_status (ts_status s)) state)
              ItemPending)
      in \<lparr>it_id = us (dt_id t), it_title = dt_title t, it_summary = Some (dt_body t), it_status = status,
          it_blocked_reason = (if status = ItemBlocked then Option.bind state ts_result_summary else None),
          it_source_ref = source_ref_docket_task (map_option us (dt_job_id t)) (us (dt_id t))
            [docket_source_ref_str us (unwrap_or (map_option RefJob (dt_job_id t)) RefMissingJob),
             docket_source_ref_str us (RefTask (dt_id t))],
          it_sync_state = SyncClean\<rparr>)"

definition current_task_list_item :: "task_list_item list \<Rightarrow> task_list_item option" where
  "current_task_list_item items =
     or_else (or_else (List.find (\<lambda>i. it_status i = ItemInProgress) items)
        (List.find (\<lambda>i. it_status i = ItemBlocked) items))
        (List.find (\<lambda>i. it_status i = ItemPending) items)"

definition task_sort_key :: "docket_task_row \<Rightarrow> int \<times> timestamp \<times> uuid" where
  "task_sort_key t = (dt_sibling_order t, dt_created_at t, dt_id t)"

definition task_list_projection_from_docket_job ::
    "(uuid \<Rightarrow> string) \<Rightarrow> docket_job_projection \<Rightarrow> uuid option \<Rightarrow> task_list_projection" where
  "task_list_projection_from_docket_job us p parent_task_id =
     (let tasks = sort_key task_sort_key (filter (\<lambda>t. dt_parent_task_id t = parent_task_id) (jp_tasks p));
          items = map (\<lambda>t. task_list_item_from_docket_task us t
            (collected ts_task_id (jp_task_states p) (dt_id t)) (dt_id t \<in> set (jp_active_task_ids p))) tasks
      in \<lparr>tlp_id = dj_id (jp_job p), tlp_bear_id = dj_bear_id (jp_job p), tlp_title = dj_goal (jp_job p),
          tlp_summary = ''Docket work job checkout'',
          tlp_owner_profile = dj_created_by_role (jp_job p), tlp_visibility = dj_visibility (jp_job p),
          tlp_status = derived_docket_job_status p, tlp_version = 1,
          tlp_source_ref = source_ref_docket_job (us (dj_id (jp_job p)))
            (docket_checkout_refs us (dj_id (jp_job p)) parent_task_id),
          tlp_items = items, tlp_current_item = current_task_list_item items,
          tlp_source_conversation_id = dj_source_conversation_id (jp_job p),
          tlp_source_client_session_id = None, tlp_handoff_intent_path = None, tlp_handoff_task_id = None,
          tlp_created_at = dj_created_at (jp_job p), tlp_updated_at = dj_updated_at (jp_job p)\<rparr>)"

definition item_actionable :: "task_list_item \<Rightarrow> bool" where
  "item_actionable i \<longleftrightarrow> it_status i = ItemPending \<or> it_status i = ItemInProgress"

definition in_selected_level :: "uuid option \<Rightarrow> uuid option \<Rightarrow> docket_task_projection \<Rightarrow> bool" where
  "in_selected_level selected selected_parent p \<longleftrightarrow>
     selected = None
     \<or> is_some_and selected_parent (\<lambda>parent. dt_parent_task_id (tp_task p) = Some parent)
     \<or> selected = Some (dt_id (tp_task p))"

definition session_status :: "task_list_item list \<Rightarrow> string" where
  "session_status items =
     (if \<forall>i \<in> set items. it_status i = ItemCompleted then ''completed''
      else if \<exists>i \<in> set items. it_status i = ItemInProgress then ''active''
      else ''planned'')"

definition task_list_projection_from_session_tasks_with_current_task ::
    "(uuid \<Rightarrow> string) \<Rightarrow> uuid \<Rightarrow> bear_stance \<Rightarrow> string \<Rightarrow> uuid \<Rightarrow> docket_task_projection list \<Rightarrow> uuid option
     \<Rightarrow> task_list_projection option" where
  "task_list_projection_from_session_tasks_with_current_task us bear_id owner conversation anchor tasks selected =
     (case tasks of
        [] \<Rightarrow> None
      | first # _ \<Rightarrow>
         (let selected_parent = Option.bind selected (\<lambda>s.
                Option.bind (List.find (\<lambda>p. dt_id (tp_task p) = s) tasks) (\<lambda>p. dt_parent_task_id (tp_task p)));
              sorted_tasks = sort_key (\<lambda>p. task_sort_key (tp_task p))
                (filter (in_selected_level selected selected_parent) tasks);
              items = map (\<lambda>p. task_list_item_from_docket_task us (tp_task p) (tp_run_state p) False) sorted_tasks;
              current_item = or_else
                (Option.bind selected (\<lambda>s. List.find (\<lambda>i. it_id i = us s \<and> item_actionable i) items))
                (current_task_list_item items)
          in Some \<lparr>tlp_id = anchor, tlp_bear_id = bear_id, tlp_title = ''Session tasks'',
               tlp_summary = ''Tasks anchored to the current client session'',
               tlp_owner_profile = stance_as_str owner, tlp_visibility = ''private_to_profile'',
               tlp_status = session_status items, tlp_version = 1,
               tlp_source_ref = source_ref_local [''session_anchor:'' @ us anchor],
               tlp_items = items, tlp_current_item = current_item,
               tlp_source_conversation_id = Some conversation,
               tlp_source_client_session_id = Some (us anchor),
               tlp_handoff_intent_path = None, tlp_handoff_task_id = None,
               tlp_created_at = dt_created_at (tp_task first),
               tlp_updated_at = foldl max (dt_updated_at (tp_task first))
                 (map (\<lambda>p. dt_updated_at (tp_task p)) tasks)\<rparr>))"

definition task_list_projection_from_session_tasks ::
    "(uuid \<Rightarrow> string) \<Rightarrow> uuid \<Rightarrow> bear_stance \<Rightarrow> string \<Rightarrow> uuid \<Rightarrow> docket_task_projection list
     \<Rightarrow> task_list_projection option" where
  "task_list_projection_from_session_tasks us bear_id owner conversation anchor tasks =
     task_list_projection_from_session_tasks_with_current_task us bear_id owner conversation anchor tasks None"

subsection \<open>Notebook context for a dispatched worker\<close>

definition DISPATCH_NOTEBOOK_CONTEXT_MAX_ENTRIES :: nat where
  "DISPATCH_NOTEBOOK_CONTEXT_MAX_ENTRIES = 12"
definition DISPATCH_NOTEBOOK_CONTEXT_MAX_CHARS :: nat where
  "DISPATCH_NOTEBOOK_CONTEXT_MAX_CHARS = 6000"

definition json_nonempty_array :: "json \<Rightarrow> bool" where
  "json_nonempty_array v = (case v of JArr xs \<Rightarrow> xs \<noteq> [] | _ \<Rightarrow> False)"

definition notebook_priority :: "docket_entry_row \<Rightarrow> nat option" where
  "notebook_priority e =
     (if ent_kind e = ''decision'' then Some 0
      else if ent_kind e = ''follow_up'' then Some 1
      else if json_nonempty_array (ent_tags e) then Some 2
      else None)"

definition notebook_eligible :: "docket_entry_row \<Rightarrow> (nat \<times> docket_entry_row) option" where
  "notebook_eligible e =
     (if ent_scope e = docket_entry_scope_str EscopeJobNotebook
      then map_option (\<lambda>n. (n, e)) (notebook_priority e) else None)"

definition entry_chars :: "docket_entry_row \<Rightarrow> nat" where
  "entry_chars e = char_count (ent_summary e) + (case ent_body e of None \<Rightarrow> 0 | Some b \<Rightarrow> char_count b)"

fun fill_context :: "nat \<Rightarrow> docket_entry_row list \<Rightarrow> docket_entry_row list" where
  "fill_context used [] = []"
| "fill_context used (e # es) =
     (if used + entry_chars e > DISPATCH_NOTEBOOK_CONTEXT_MAX_CHARS then fill_context used es
      else e # fill_context (used + entry_chars e) es)"

definition select_dispatch_notebook_context :: "docket_entry_row list \<Rightarrow> docket_entry_row list" where
  "select_dispatch_notebook_context entries =
     fill_context 0 (map snd (take DISPATCH_NOTEBOOK_CONTEXT_MAX_ENTRIES
       (sort_key (\<lambda>(priority, e). (priority, - ent_created_at e, ent_id e))
         (List.map_filter notebook_eligible entries))))"

subsection \<open>Validation\<close>

datatype docket_validation_error =
    EmptyGoal | MissingWorkSurface | AmbiguousWorkSurfaceAssignments | DuplicateWorkSurfaceAssignment uuid
  | MismatchedWorkSurfaceBinding | InvalidJobCreatorRole string | EmptyCriterionDescription | EmptyTaskTitle
  | EmptyTaskBody | EmptyTaskCompletionCriteria | EmptyTaskCompletionCriterion | TaskMissingAnchor
  | TaskAmbiguousAnchor | DuplicateTaskClientKey string | MissingParentClientKey string
  | SupersedeRequiresPredecessor | SupersedeRequiresMatchingActiveJob uuid | ActiveJobOverlap uuid

fun docket_validation_error_str :: "(uuid \<Rightarrow> string) \<Rightarrow> docket_validation_error \<Rightarrow> string" where
  "docket_validation_error_str us EmptyGoal = ''Docket job goal must not be empty''"
| "docket_validation_error_str us MissingWorkSurface = ''Docket work job requires a managed work surface''"
| "docket_validation_error_str us AmbiguousWorkSurfaceAssignments =
     ''Docket job must use either work_surface_id shorthand or work_surface_assignments, not both''"
| "docket_validation_error_str us (DuplicateWorkSurfaceAssignment i) =
     ''Docket job assigns work surface `'' @ us i @ ''` more than once''"
| "docket_validation_error_str us MismatchedWorkSurfaceBinding =
     ''Docket work job surface name and managed surface ID must be set together''"
| "docket_validation_error_str us (InvalidJobCreatorRole role) =
     ''Docket jobs must be human-created via chat, pair, or ui, not `'' @ role @ ''`''"
| "docket_validation_error_str us EmptyCriterionDescription = ''Docket job criterion description must not be empty''"
| "docket_validation_error_str us EmptyTaskTitle = ''Docket task title must not be empty''"
| "docket_validation_error_str us EmptyTaskBody = ''Docket task body must not be empty''"
| "docket_validation_error_str us EmptyTaskCompletionCriteria =
     ''Docket task completion_criteria must include at least one criterion''"
| "docket_validation_error_str us EmptyTaskCompletionCriterion =
     ''Docket task completion_criteria must not include blank criteria''"
| "docket_validation_error_str us TaskMissingAnchor =
     ''Docket task must be anchored to either a job or an client session''"
| "docket_validation_error_str us TaskAmbiguousAnchor =
     ''Docket task must be anchored to exactly one of a job or a client session''"
| "docket_validation_error_str us (DuplicateTaskClientKey key) =
     ''Docket task client_key `'' @ key @ ''` is duplicated''"
| "docket_validation_error_str us (MissingParentClientKey key) =
     ''Docket task parent_client_key `'' @ key @ ''` does not exist''"
| "docket_validation_error_str us SupersedeRequiresPredecessor =
     ''Docket job overlap resolution `supersede` requires supersedes_job_id''"
| "docket_validation_error_str us (SupersedeRequiresMatchingActiveJob i) =
     ''Docket job `'' @ us i @ ''` is not an active matching predecessor''"
| "docket_validation_error_str us (ActiveJobOverlap i) =
     ''an active Docket job already owns this goal and work surface: '' @ us i"

definition validate_completion_criteria :: "string list \<Rightarrow> docket_validation_error + unit" where
  "validate_completion_criteria criteria =
     (if criteria = [] then Inl EmptyTaskCompletionCriteria
      else if \<exists>c \<in> set criteria. trim c = [] then Inl EmptyTaskCompletionCriterion
      else Inr ())"

definition normalize_completion_criteria :: "string list \<Rightarrow> string list" where
  "normalize_completion_criteria criteria = filter (\<lambda>c. c \<noteq> []) (map trim criteria)"

definition trimmed_key :: "string option \<Rightarrow> string option" where
  "trimmed_key key = filter_opt (\<lambda>k. k \<noteq> []) (map_option trim key)"

definition validate_task_input :: "string list \<Rightarrow> docket_task_input \<Rightarrow> docket_validation_error + string list" where
  "validate_task_input keys t =
     (if trim (tin_title t) = [] then Inl EmptyTaskTitle
      else if trim (tin_body t) = [] then Inl EmptyTaskBody
      else bindR (validate_completion_criteria (tin_completion_criteria t)) (\<lambda>_.
        case trimmed_key (tin_client_key t) of
          None \<Rightarrow> Inr keys
        | Some key \<Rightarrow> if key \<in> set keys then Inl (DuplicateTaskClientKey key) else Inr (key # keys)))"

fun validate_task_inputs_from :: "string list \<Rightarrow> docket_task_input list \<Rightarrow> docket_validation_error + string list" where
  "validate_task_inputs_from keys [] = Inr keys"
| "validate_task_inputs_from keys (t # ts) = bindR (validate_task_input keys t) (\<lambda>keys'. validate_task_inputs_from keys' ts)"

fun validate_parent_keys :: "string list \<Rightarrow> docket_task_input list \<Rightarrow> docket_validation_error + unit" where
  "validate_parent_keys keys [] = Inr ()"
| "validate_parent_keys keys (t # ts) =
     (case trimmed_key (tin_parent_client_key t) of
        Some key \<Rightarrow> if key \<notin> set keys then Inl (MissingParentClientKey key) else validate_parent_keys keys ts
      | None \<Rightarrow> validate_parent_keys keys ts)"

definition validate_docket_task_inputs :: "docket_task_input list \<Rightarrow> docket_validation_error + unit" where
  "validate_docket_task_inputs tasks =
     bindR (validate_task_inputs_from [] tasks) (\<lambda>keys. validate_parent_keys keys tasks)"

fun check_surface_ids :: "uuid list \<Rightarrow> docket_job_surface_assignment_input list \<Rightarrow> docket_validation_error + unit" where
  "check_surface_ids seen [] = Inr ()"
| "check_surface_ids seen (a # as) =
     (if sa_work_surface_id a \<in> set seen then Inl (DuplicateWorkSurfaceAssignment (sa_work_surface_id a))
      else check_surface_ids (sa_work_surface_id a # seen) as)"

definition validate_docket_job_create :: "docket_job_create \<Rightarrow> docket_validation_error + unit" where
  "validate_docket_job_create c =
     (if trim (jc_goal c) = [] then Inl EmptyGoal
      else if jc_work_surface_id c \<noteq> None \<and> jc_work_surface_assignments c \<noteq> [] then Inl AmbiguousWorkSurfaceAssignments
      else if jc_work_surface_id c = None \<and> jc_work_surface_assignments c = [] then Inl MissingWorkSurface
      else bindR (check_surface_ids [] (jc_work_surface_assignments c)) (\<lambda>_.
        if trim (jc_created_by_role c) \<notin> set [''chat'', ''pair'', ''ui'']
        then Inl (InvalidJobCreatorRole (jc_created_by_role c))
        else if \<exists>k \<in> set (jc_criteria c). trim (ci_description k) = [] then Inl EmptyCriterionDescription
        else validate_docket_task_inputs (jc_tasks c)))"

definition docket_job_surface_assignments :: "docket_job_create \<Rightarrow> docket_job_surface_assignment_input list" where
  "docket_job_surface_assignments c =
     (if jc_work_surface_assignments c = []
      then (case jc_work_surface_id c of
          Some i \<Rightarrow> [\<lparr>sa_work_surface_id = i, sa_mutation_policy = MutRequired\<rparr>] | None \<Rightarrow> [])
      else jc_work_surface_assignments c)"

definition validate_docket_task_create :: "docket_task_create \<Rightarrow> docket_validation_error + unit" where
  "validate_docket_task_create c =
     (if tcr_job_id c = None \<and> tcr_session_anchor_id c = None then Inl TaskMissingAnchor
      else if tcr_job_id c \<noteq> None \<and> tcr_session_anchor_id c \<noteq> None then Inl TaskAmbiguousAnchor
      else if trim (tcr_title c) = [] then Inl EmptyTaskTitle
      else if trim (tcr_body c) = [] then Inl EmptyTaskBody
      else validate_completion_criteria (tcr_completion_criteria c))"

datatype task_list_validation_error =
    EmptyTitle | EmptyItemId | EmptyItemTitle string | MultipleInProgressItems | BlockedItemMissingReason string

fun task_list_validation_error_str :: "task_list_validation_error \<Rightarrow> string" where
  "task_list_validation_error_str EmptyTitle = ''task-list title must not be empty''"
| "task_list_validation_error_str EmptyItemId = ''task-list item id must not be empty''"
| "task_list_validation_error_str (EmptyItemTitle i) = ''task-list item `'' @ i @ ''` title must not be empty''"
| "task_list_validation_error_str MultipleInProgressItems = ''task list may have at most one in_progress item''"
| "task_list_validation_error_str (BlockedItemMissingReason i) =
     ''blocked task-list item `'' @ i @ ''` must include blocked_reason''"

definition blank_reason :: "string option \<Rightarrow> bool" where
  "blank_reason r = unwrap_or (map_option (\<lambda>s. trim s = []) r) True"

fun validate_items_from :: "nat \<Rightarrow> task_list_update_item list \<Rightarrow> task_list_validation_error + unit" where
  "validate_items_from n [] = (if n > 1 then Inl MultipleInProgressItems else Inr ())"
| "validate_items_from n (i # is) =
     (if trim (ui_id i) = [] then Inl EmptyItemId
      else if trim (ui_title i) = [] then Inl (EmptyItemTitle (ui_id i))
      else
        (let n' = (if ui_status i = ItemInProgress then n + 1 else n) in
         if ui_status i = ItemBlocked \<and> blank_reason (ui_blocked_reason i) then Inl (BlockedItemMissingReason (ui_id i))
         else validate_items_from n' is))"

definition validate_task_list_items :: "task_list_update_item list \<Rightarrow> task_list_validation_error + unit" where
  "validate_task_list_items items = validate_items_from 0 items"

definition validate_task_list_update :: "task_list_update \<Rightarrow> task_list_validation_error + unit" where
  "validate_task_list_update u = (if trim (up_title u) = [] then Inl EmptyTitle else validate_task_list_items (up_items u))"

subsection \<open>Access and prompt context\<close>

definition role_can_update_task_list :: "bear_stance \<Rightarrow> bool" where
  "role_can_update_task_list role \<longleftrightarrow> role = StChat \<or> role = StPair \<or> role = StWork"

definition role_can_request_task_list_handoff :: "bear_stance \<Rightarrow> bool" where
  "role_can_request_task_list_handoff role \<longleftrightarrow> role = StChat \<or> role = StPair"

fun role_can_read_task_list :: "bear_stance \<Rightarrow> bear_stance \<Rightarrow> task_list_visibility \<Rightarrow> bool \<Rightarrow> bool" where
  "role_can_read_task_list viewer owner VisPrivateToProfile same_user = (viewer = owner)"
| "role_can_read_task_list viewer owner VisSameUser same_user = (same_user \<or> viewer = owner)"
| "role_can_read_task_list viewer owner VisBearVisible same_user = True"
| "role_can_read_task_list viewer owner VisHandoffRequested same_user = (viewer = StCurate \<or> viewer = owner)"

definition render_task_list_line :: "(uuid \<Rightarrow> string) \<Rightarrow> task_list_local_projection \<Rightarrow> string" where
  "render_task_list_line us p =
     ''- task_list_id='' @ us (lp_id p) @ '' owner='' @ lp_owner_profile p @ '' status='' @ lp_status p
     @ '' visibility='' @ lp_visibility p @ '' title='' @ lp_title p
     @ (case lp_current_item p of
          Some c \<Rightarrow> '' current_item='' @ ui_title c @ '' ('' @ task_list_item_status_str (ui_status c) @ '')''
        | None \<Rightarrow> [])
     @ (if trim (lp_summary p) \<noteq> [] then '' summary='' @ trim (lp_summary p) else [])
     @ [CHR 0x0A]"

definition render_task_list_prompt_context :: "(uuid \<Rightarrow> string) \<Rightarrow> task_list_local_projection list \<Rightarrow> string" where
  "render_task_list_prompt_context us projections =
     (if projections = [] then []
      else [CHR 0x0A, CHR 0x0A] @ ''<system-reminder>'' @ [CHR 0x0A]
        @ ''Den activity context for this Bear. Session task lists are working projections; durable jobs/tasks live in Docket. Use Docket job/task tools for canonical state and `den.task_list.request_handoff` for reviewed promotion or reconciliation.''
        @ [CHR 0x0A] @ concat (map (render_task_list_line us) (take 5 projections)) @ ''</system-reminder>'')"

end
