(* ===== verification/Docket_Recovery.thy ===== *)
theory Docket_Recovery
  imports Docket_Model Db_Effects
begin

section \<open>Routing, claims and attempts of docket turns\<close>

text \<open>
  The durable side of a dispatched docket turn: \<open>den-docket/src/{routing, execution_profiles,
  recovery, supervisor, cursors, dispatch_preflight}.rs\<close>. A turn is routed (one immutable
  decision per idempotency key), claimed by one owner under a lease, attempted, settled, and
  disposed of by the supervisor.

  Tables are lists of rows in a record, with the constraints of the migrations. \<open>now\<close>, fresh
  uuids, the printer \<open>us\<close> of uuids and its form \<open>simple\<close> without hyphens are arguments; times are
  milliseconds. References to bears, jobs, job runs and work runs, and columns no statement
  reads or writes, are left out. \<open>bear_tasks\<close> is only read.
\<close>

subsection \<open>Execution profiles\<close>

datatype execution_profile = Economy | Balanced | Advanced

fun execution_profile_str :: "execution_profile \<Rightarrow> string" where
  "execution_profile_str Economy = ''economy''"
| "execution_profile_str Balanced = ''balanced''"
| "execution_profile_str Advanced = ''advanced''"

fun execution_profile_next :: "execution_profile \<Rightarrow> execution_profile option" where
  "execution_profile_next Economy = Some Balanced"
| "execution_profile_next Balanced = Some Advanced"
| "execution_profile_next Advanced = None"

definition execution_profile_parse :: "string \<Rightarrow> execution_profile option" where
  "execution_profile_parse v =
     (if v = ''economy'' then Some Economy
      else if v = ''balanced'' then Some Balanced
      else if v = ''advanced'' then Some Advanced
      else None)"

datatype profile_provenance = TaskDifficulty | ConversationFallback | SupervisorEscalation

fun profile_provenance_str :: "profile_provenance \<Rightarrow> string" where
  "profile_provenance_str TaskDifficulty = ''task_difficulty''"
| "profile_provenance_str ConversationFallback = ''conversation_fallback''"
| "profile_provenance_str SupervisorEscalation = ''supervisor_escalation''"

record resolved_execution_profile =
  rep_profile :: "execution_profile option"
  rep_provenance :: profile_provenance

definition persisted_value :: "resolved_execution_profile \<Rightarrow> string" where
  "persisted_value r =
     (case rep_profile r of
        Some p \<Rightarrow> profile_provenance_str (rep_provenance r) @ '':'' @ execution_profile_str p
      | None \<Rightarrow> profile_provenance_str (rep_provenance r))"

definition resolve_execution_profile :: "docket_task_difficulty option \<Rightarrow> resolved_execution_profile" where
  "resolve_execution_profile difficulty =
     (let profile = (case difficulty of
          Some TdiffTrivial \<Rightarrow> Some Economy
        | Some TdiffModerate \<Rightarrow> Some Balanced
        | Some TdiffHard \<Rightarrow> Some Advanced
        | Some TdiffUnknown \<Rightarrow> None
        | None \<Rightarrow> None)
      in \<lparr>rep_profile = profile,
          rep_provenance = (if profile \<noteq> None then TaskDifficulty else ConversationFallback)\<rparr>)"

subsection \<open>Outcomes, dispositions and the retry policy\<close>

datatype attempt_outcome = OutCompleted | OutBlocked | OutFailed | OutTimedOut | OutCancelled

fun attempt_outcome_str :: "attempt_outcome \<Rightarrow> string" where
  "attempt_outcome_str OutCompleted = ''completed''"
| "attempt_outcome_str OutBlocked = ''blocked''"
| "attempt_outcome_str OutFailed = ''failed''"
| "attempt_outcome_str OutTimedOut = ''timed_out''"
| "attempt_outcome_str OutCancelled = ''cancelled''"

definition attempt_outcome_parse :: "string \<Rightarrow> attempt_outcome option" where
  "attempt_outcome_parse v =
     (if v = ''completed'' then Some OutCompleted
      else if v = ''blocked'' then Some OutBlocked
      else if v = ''failed'' then Some OutFailed
      else if v = ''timed_out'' then Some OutTimedOut
      else if v = ''cancelled'' then Some OutCancelled
      else None)"

datatype retry_disposition = RetryNone | RetryRetry | RetryEscalate | RetryHandoff | RetryPause

fun retry_disposition_str :: "retry_disposition \<Rightarrow> string" where
  "retry_disposition_str RetryNone = ''none''"
| "retry_disposition_str RetryRetry = ''retry''"
| "retry_disposition_str RetryEscalate = ''escalate''"
| "retry_disposition_str RetryHandoff = ''handoff''"
| "retry_disposition_str RetryPause = ''pause''"

datatype supervisor_disposition = SupComplete | SupRetry | SupEscalate | SupHandoff | SupAwaitRecovery

fun supervisor_disposition_str :: "supervisor_disposition \<Rightarrow> string" where
  "supervisor_disposition_str SupComplete = ''complete''"
| "supervisor_disposition_str SupRetry = ''retry''"
| "supervisor_disposition_str SupEscalate = ''escalate''"
| "supervisor_disposition_str SupHandoff = ''handoff''"
| "supervisor_disposition_str SupAwaitRecovery = ''await_recovery''"

fun retry_disposition_of :: "supervisor_disposition \<Rightarrow> retry_disposition" where
  "retry_disposition_of SupComplete = RetryNone"
| "retry_disposition_of SupRetry = RetryRetry"
| "retry_disposition_of SupEscalate = RetryEscalate"
| "retry_disposition_of SupHandoff = RetryHandoff"
| "retry_disposition_of SupAwaitRecovery = RetryPause"

definition MAX_TURN_ATTEMPTS :: int where
  "MAX_TURN_ATTEMPTS = 3"

datatype escalation_decision = EscComplete | EscRetry "execution_profile option" | EscHandoff

fun disposition_for :: "escalation_decision \<Rightarrow> supervisor_disposition" where
  "disposition_for EscComplete = SupComplete"
| "disposition_for (EscRetry None) = SupRetry"
| "disposition_for (EscRetry (Some _)) = SupEscalate"
| "disposition_for EscHandoff = SupHandoff"

definition escalation_eligible :: "attempt_outcome \<Rightarrow> string \<Rightarrow> bool" where
  "escalation_eligible outcome cause_code \<longleftrightarrow>
     (outcome = OutFailed \<or> outcome = OutTimedOut)
     \<and> cause_code \<in> set [''activity_timeout'', ''context_exhausted'', ''model_unavailable'', ''provider_error'']"

definition decide_escalation ::
    "execution_profile option \<Rightarrow> int \<Rightarrow> attempt_outcome \<Rightarrow> string \<Rightarrow> escalation_decision" where
  "decide_escalation profile attempt outcome cause_code =
     (if outcome = OutCompleted then EscComplete
      else if attempt \<ge> MAX_TURN_ATTEMPTS \<or> \<not> escalation_eligible outcome cause_code then EscHandoff
      else case profile of
        Some current \<Rightarrow> unwrap_or (map_option (\<lambda>p. EscRetry (Some p)) (execution_profile_next current)) EscHandoff
      | None \<Rightarrow> EscRetry None)"

subsection \<open>Rows\<close>

record routing_decision =
  rd_id :: uuid
  rd_idempotency_key :: uuid
  rd_bear_id :: uuid
  rd_job_id :: uuid
  rd_run_id :: uuid
  rd_task_id :: uuid
  rd_turn_source :: string
  rd_conversation_strategy :: string
  rd_conversation_id :: string
  rd_parent_conversation_id :: "string option"
  rd_routing_strategy :: string
  rd_execution_surface :: string
  rd_resolved_profile :: "string option"
  rd_attempt :: int
  rd_cursor_before :: "json option"
  rd_cursor_after :: "json option"
  rd_reason :: string
  rd_created_at :: timestamp

record conversation_binding =
  cb_task_id :: uuid
  cb_preferred_conversation_id :: string

record conversation_binding_run =
  cbr_run_id :: uuid
  cbr_task_id :: uuid
  cbr_conversation_id :: string

record turn_claim =
  cl_id :: uuid
  cl_routing_decision_id :: uuid
  cl_bear_id :: uuid
  cl_job_id :: uuid
  cl_run_id :: uuid
  cl_task_id :: uuid
  cl_work_run_id :: "uuid option"
  cl_owner_id :: string
  cl_lease_expires_at :: timestamp
  cl_state :: string
  cl_updated_at :: timestamp

record turn_attempt =
  ta_id :: uuid
  ta_routing_decision_id :: uuid
  ta_work_run_id :: "uuid option"
  ta_attempt :: int
  ta_claim_id :: "uuid option"
  ta_state :: string
  ta_outcome :: "string option"
  ta_cause_code :: "string option"
  ta_retry_disposition :: "string option"
  ta_supervisor_disposition :: "string option"
  ta_evidence_refs :: "json option"
  ta_resolved_profile :: "string option"
  ta_profile_provenance :: string
  ta_latency_ms :: "int option"
  ta_cost_microusd :: "int option"
  ta_started_at :: timestamp
  ta_last_activity_at :: timestamp
  ta_finished_at :: "timestamp option"

record docket_attention =
  att_id :: uuid
  att_run_id :: uuid
  att_task_id :: "uuid option"
  att_cause_code :: string
  att_recovery_action :: string
  att_evidence_refs :: json
  att_resolved_at :: "timestamp option"
  att_created_at :: timestamp

record notification_outbox_row =
  nob_id :: uuid
  nob_run_id :: uuid
  nob_task_id :: "uuid option"
  nob_deduplication_key :: string
  nob_kind :: string
  nob_payload :: json

record result_rollup_row =
  rr_id :: uuid
  rr_run_id :: uuid
  rr_task_id :: uuid
  rr_parent_task_id :: uuid
  rr_summary :: string
  rr_evidence_refs :: json
  rr_created_at :: timestamp

record docket_cursor =
  cur_client_session_id :: string
  cur_bear_id :: uuid
  cur_job_id :: uuid
  cur_task_id :: "uuid option"
  cur_updated_at :: timestamp

record docket_db =
  dtb_tasks :: "docket_task_row list"
  dtb_bindings :: "conversation_binding list"
  dtb_binding_runs :: "conversation_binding_run list"
  dtb_decisions :: "routing_decision list"
  dtb_claims :: "turn_claim list"
  dtb_attempts :: "turn_attempt list"
  dtb_attention :: "docket_attention list"
  dtb_outbox :: "notification_outbox_row list"
  dtb_rollups :: "result_rollup_row list"
  dtb_cursors :: "docket_cursor list"

subsection \<open>Constraints\<close>

text \<open>\<open>btrim(x) <> ''\<close>: PostgreSQL's \<open>btrim\<close> removes spaces only.\<close>

definition btrim_nonempty :: "string \<Rightarrow> bool" where
  "btrim_nonempty s \<longleftrightarrow> (\<exists>c \<in> set s. c \<noteq> CHR '' '')"

definition opt_in :: "'a option \<Rightarrow> 'a list \<Rightarrow> bool" where
  "opt_in x vs \<longleftrightarrow> (case x of None \<Rightarrow> True | Some v \<Rightarrow> v \<in> set vs)"

definition ACTIVE_CLAIM_STATES :: "string list" where
  "ACTIVE_CLAIM_STATES = [''reserved'', ''executing'']"

definition LEDGER_STATES :: "string list" where
  "LEDGER_STATES = [''reserved'', ''executing'', ''settled'', ''abandoned'']"

definition decisions_ok :: "routing_decision list \<Rightarrow> bool" where
  "decisions_ok ds \<longleftrightarrow>
     distinct (map rd_id ds) \<and> distinct (map rd_idempotency_key ds)
     \<and> (\<forall>d \<in> set ds. rd_turn_source d \<in> set [''user'', ''continuation'', ''dispatch'', ''rollup'']
          \<and> rd_conversation_strategy d \<in> set [''reuse'', ''inline'', ''scoped'', ''delegated'']
          \<and> rd_routing_strategy d \<in> set [''inline'', ''scoped'', ''delegated'', ''auto'']
          \<and> rd_execution_surface d \<in> set [''sandbox'', ''armature'']
          \<and> rd_attempt d > 0 \<and> btrim_nonempty (rd_conversation_id d) \<and> btrim_nonempty (rd_reason d))"

definition bindings_ok :: "conversation_binding list \<Rightarrow> conversation_binding_run list \<Rightarrow> bool" where
  "bindings_ok bs rs \<longleftrightarrow>
     distinct (map cb_task_id bs) \<and> (\<forall>b \<in> set bs. btrim_nonempty (cb_preferred_conversation_id b))
     \<and> distinct (map (\<lambda>r. (cbr_run_id r, cbr_task_id r)) rs) \<and> (\<forall>r \<in> set rs. btrim_nonempty (cbr_conversation_id r))"

definition claims_ok :: "turn_claim list \<Rightarrow> bool" where
  "claims_ok cs \<longleftrightarrow>
     distinct (map cl_id cs) \<and> distinct (map cl_routing_decision_id cs)
     \<and> distinct (map (\<lambda>c. (cl_run_id c, cl_task_id c)) (filter (\<lambda>c. cl_state c \<in> set ACTIVE_CLAIM_STATES) cs))
     \<and> (\<forall>c \<in> set cs. cl_state c \<in> set LEDGER_STATES \<and> btrim_nonempty (cl_owner_id c))"

definition attempt_lifecycle_ok :: "turn_attempt \<Rightarrow> bool" where
  "attempt_lifecycle_ok a \<longleftrightarrow>
     (ta_state a \<in> set ACTIVE_CLAIM_STATES \<and> ta_outcome a = None \<and> ta_finished_at a = None)
     \<or> (ta_state a = ''settled'' \<and> ta_outcome a \<noteq> None \<and> ta_finished_at a \<noteq> None)
     \<or> (ta_state a = ''abandoned'' \<and> ta_finished_at a \<noteq> None)"

definition attempt_columns_ok :: "turn_attempt \<Rightarrow> bool" where
  "attempt_columns_ok a \<longleftrightarrow>
     ta_attempt a > 0
     \<and> opt_in (ta_outcome a) [''completed'', ''blocked'', ''failed'', ''timed_out'', ''cancelled'']
     \<and> opt_in (ta_retry_disposition a) [''none'', ''retry'', ''escalate'', ''handoff'', ''pause'']
     \<and> opt_in (ta_supervisor_disposition a) [''complete'', ''retry'', ''escalate'', ''handoff'', ''await_recovery'']
     \<and> opt_in (ta_resolved_profile a) [''economy'', ''balanced'', ''advanced'']
     \<and> ta_profile_provenance a \<in> set [''task_difficulty'', ''conversation_fallback'', ''supervisor_escalation'']
     \<and> (\<forall>n. ta_latency_ms a = Some n \<longrightarrow> n \<ge> 0) \<and> (\<forall>n. ta_cost_microusd a = Some n \<longrightarrow> n \<ge> 0)"

definition attempts_ok :: "turn_attempt list \<Rightarrow> bool" where
  "attempts_ok as \<longleftrightarrow>
     distinct (map ta_id as) \<and> distinct (map (\<lambda>a. (ta_routing_decision_id a, ta_attempt a)) as)
     \<and> distinct (map (\<lambda>a. (ta_claim_id a, ta_attempt a)) (filter (\<lambda>a. ta_claim_id a \<noteq> None) as))
     \<and> (\<forall>a \<in> set as. attempt_lifecycle_ok a \<and> attempt_columns_ok a)"

definition attention_ok :: "docket_attention list \<Rightarrow> bool" where
  "attention_ok xs \<longleftrightarrow>
     distinct (map att_id xs) \<and> distinct (map att_run_id (filter (\<lambda>x. att_resolved_at x = None) xs))"

definition outbox_ok :: "notification_outbox_row list \<Rightarrow> bool" where
  "outbox_ok xs \<longleftrightarrow>
     distinct (map nob_id xs) \<and> distinct (map nob_deduplication_key xs)
     \<and> (\<forall>x \<in> set xs. nob_kind x \<in> set [''attention'', ''retry_scheduled'', ''completion'']
          \<and> btrim_nonempty (nob_deduplication_key x))"

definition rollups_ok :: "result_rollup_row list \<Rightarrow> bool" where
  "rollups_ok xs \<longleftrightarrow>
     distinct (map rr_id xs) \<and> distinct (map (\<lambda>x. (rr_run_id x, rr_task_id x)) xs)
     \<and> (\<forall>x \<in> set xs. btrim_nonempty (rr_summary x))"

definition cursors_ok :: "docket_cursor list \<Rightarrow> bool" where
  "cursors_ok xs \<longleftrightarrow>
     distinct (map cur_client_session_id xs) \<and> (\<forall>x \<in> set xs. btrim_nonempty (cur_client_session_id x))"

text \<open>Foreign keys between the modelled tables.\<close>

definition docket_references_ok :: "docket_db \<Rightarrow> bool" where
  "docket_references_ok db \<longleftrightarrow>
     (\<forall>d \<in> set (dtb_decisions db). rd_task_id d \<in> set (map dt_id (dtb_tasks db)))
     \<and> (\<forall>c \<in> set (dtb_claims db). cl_routing_decision_id c \<in> set (map rd_id (dtb_decisions db)))
     \<and> (\<forall>a \<in> set (dtb_attempts db). ta_routing_decision_id a \<in> set (map rd_id (dtb_decisions db))
          \<and> opt_in (ta_claim_id a) (map cl_id (dtb_claims db)))"

definition docket_schema_ok :: "docket_db \<Rightarrow> bool" where
  "docket_schema_ok db \<longleftrightarrow>
     distinct (map dt_id (dtb_tasks db))
     \<and> decisions_ok (dtb_decisions db) \<and> bindings_ok (dtb_bindings db) (dtb_binding_runs db)
     \<and> claims_ok (dtb_claims db) \<and> attempts_ok (dtb_attempts db) \<and> attention_ok (dtb_attention db)
     \<and> outbox_ok (dtb_outbox db) \<and> rollups_ok (dtb_rollups db) \<and> cursors_ok (dtb_cursors db)
     \<and> docket_references_ok db"

type_synonym 'a docket_op = "(docket_db, 'a) dbo"

abbreviation docket_write :: "(docket_db \<Rightarrow> docket_db \<times> 'a) \<Rightarrow> 'a docket_op" where
  "docket_write \<equiv> checked_writeM docket_schema_ok"

abbreviation invalidM :: "string \<Rightarrow> ('d, 'a) dbo" where
  "invalidM msg \<equiv> failM (Failed (ValidationError msg))"

text \<open>\<open>a || b\<close> on \<open>jsonb\<close>: objects merge, the right side winning; anything else becomes an array.\<close>

fun json_array :: "json \<Rightarrow> json list" where
  "json_array (JArr xs) = xs"
| "json_array v = [v]"

fun jsonb_concat :: "json \<Rightarrow> json \<Rightarrow> json" where
  "jsonb_concat (JObj xs) (JObj ys) = JObj (foldl (\<lambda>acc (k, v). set_member k v acc) xs ys)"
| "jsonb_concat a b = JArr (json_array a @ json_array b)"

definition merge_evidence :: "json option \<Rightarrow> json \<Rightarrow> json option" where
  "merge_evidence old new = Some (jsonb_concat (unwrap_or old (JObj [])) new)"

end
