(* ===== verification/Docket_Ledger.thy ===== *)
theory Docket_Ledger
  imports Docket_Recovery
begin

section \<open>Operations of the docket turn ledger\<close>

text \<open>
  The statements of \<open>routing.rs\<close>, \<open>recovery.rs\<close>, \<open>supervisor.rs\<close> and \<open>cursors.rs\<close>, one definition
  per function, and the pure preflight of \<open>dispatch_preflight.rs\<close>. An insert with
  \<open>ON CONFLICT (key)\<close> looks for the row with that key first; the other constraints are checked on
  the result. \<open>rows_affected() == 1\<close> is the number of rows the outer statement changed.
\<close>

subsection \<open>Statements\<close>

definition update_attempts ::
    "(turn_attempt \<Rightarrow> bool) \<Rightarrow> (turn_attempt \<Rightarrow> turn_attempt) \<Rightarrow> turn_attempt list docket_op" where
  "update_attempts g f = docket_write (\<lambda>db. (db\<lparr>dtb_attempts := update_where g f (dtb_attempts db)\<rparr>,
     returning g f (dtb_attempts db)))"

definition update_claims ::
    "(turn_claim \<Rightarrow> bool) \<Rightarrow> (turn_claim \<Rightarrow> turn_claim) \<Rightarrow> turn_claim list docket_op" where
  "update_claims g f = docket_write (\<lambda>db. (db\<lparr>dtb_claims := update_where g f (dtb_claims db)\<rparr>,
     returning g f (dtb_claims db)))"

definition update_attention ::
    "(docket_attention \<Rightarrow> bool) \<Rightarrow> (docket_attention \<Rightarrow> docket_attention) \<Rightarrow> docket_attention list docket_op" where
  "update_attention g f = docket_write (\<lambda>db. (db\<lparr>dtb_attention := update_where g f (dtb_attention db)\<rparr>,
     returning g f (dtb_attention db)))"

text \<open>A column declared not null that is null: the row does not decode.\<close>

definition null_column :: store_error where
  "null_column = Failed (Database ''unexpected null'')"

subsection \<open>Routing\<close>

datatype turn_source = SrcUser | SrcContinuation | SrcDispatch | SrcRollup

fun turn_source_str :: "turn_source \<Rightarrow> string" where
  "turn_source_str SrcUser = ''user''"
| "turn_source_str SrcContinuation = ''continuation''"
| "turn_source_str SrcDispatch = ''dispatch''"
| "turn_source_str SrcRollup = ''rollup''"

datatype execution_surface = SurfSandbox | SurfArmature

fun execution_surface_str :: "execution_surface \<Rightarrow> string" where
  "execution_surface_str SurfSandbox = ''sandbox''"
| "execution_surface_str SurfArmature = ''armature''"

datatype conversation_strategy = ConvReuse | ConvInline | ConvScoped | ConvDelegated

fun conversation_strategy_str :: "conversation_strategy \<Rightarrow> string" where
  "conversation_strategy_str ConvReuse = ''reuse''"
| "conversation_strategy_str ConvInline = ''inline''"
| "conversation_strategy_str ConvScoped = ''scoped''"
| "conversation_strategy_str ConvDelegated = ''delegated''"

record turn_intent =
  ti_idempotency_key :: uuid
  ti_bear_id :: uuid
  ti_job_id :: uuid
  ti_run_id :: uuid
  ti_task_id :: uuid
  ti_source :: turn_source
  ti_originating_conversation_id :: "string option"
  ti_parent_conversation_id :: "string option"
  ti_surface :: execution_surface
  ti_resolved_profile :: "string option"
  ti_attempt :: int

definition parse_routing_strategy :: "string \<Rightarrow> den_error + routing_strategy" where
  "parse_routing_strategy raw =
     (if raw = ''inline'' then Inr RouteInline
      else if raw = ''scoped'' then Inr RouteScoped
      else if raw = ''delegated'' then Inr RouteDelegated
      else if raw = ''auto'' then Inr RouteAuto
      else Inl (ValidationError (''unknown routing strategy: '' @ raw)))"

fun resolve_strategy :: "routing_strategy \<Rightarrow> int option \<Rightarrow> string option \<Rightarrow> conversation_strategy" where
  "resolve_strategy RouteInline context_size difficulty = ConvInline"
| "resolve_strategy RouteScoped context_size difficulty = ConvScoped"
| "resolve_strategy RouteDelegated context_size difficulty = ConvDelegated"
| "resolve_strategy RouteAuto context_size difficulty =
     (if difficulty = Some (docket_task_difficulty_str TdiffTrivial) \<and> unwrap_or context_size 0 \<le> 8000
      then ConvInline else ConvScoped)"

fun placement_reason :: "conversation_strategy \<Rightarrow> string" where
  "placement_reason ConvReuse = ''reuse existing task conversation''"
| "placement_reason ConvInline = ''continue in originating conversation''"
| "placement_reason ConvScoped = ''isolate non-trivial task context''"
| "placement_reason ConvDelegated = ''use delegated task context''"

definition find_binding :: "uuid \<Rightarrow> docket_db \<Rightarrow> string option" where
  "find_binding task db =
     map_option cb_preferred_conversation_id (List.find (\<lambda>b. cb_task_id b = task) (dtb_bindings db))"

text \<open>The strategy and the conversation of a turn; \<open>fresh\<close> is the id of a new conversation.\<close>

definition place_turn ::
    "string \<Rightarrow> turn_intent \<Rightarrow> docket_task_row \<Rightarrow> routing_strategy \<Rightarrow> docket_db \<Rightarrow> conversation_strategy \<times> string" where
  "place_turn fresh intent t configured db =
     (case find_binding (ti_task_id intent) db of
        Some bound \<Rightarrow> (ConvReuse, bound)
      | None \<Rightarrow>
         (let resolved = resolve_strategy configured (dt_expected_context_size t) (dt_difficulty t);
              conversation = (if resolved = ConvInline
                then or_else (ti_originating_conversation_id intent) (ti_parent_conversation_id intent) else None)
          in (resolved, unwrap_or conversation fresh)))"

definition insert_binding :: "uuid \<Rightarrow> string \<Rightarrow> unit docket_op" where
  "insert_binding task conversation = docket_write (\<lambda>db.
     (if \<exists>b \<in> set (dtb_bindings db). cb_task_id b = task then db
      else db\<lparr>dtb_bindings := dtb_bindings db
             @ [\<lparr>cb_task_id = task, cb_preferred_conversation_id = conversation\<rparr>]\<rparr>, ()))"

definition insert_binding_run :: "uuid \<Rightarrow> uuid \<Rightarrow> string \<Rightarrow> unit docket_op" where
  "insert_binding_run run task conversation = docket_write (\<lambda>db.
     (if \<exists>b \<in> set (dtb_binding_runs db). cbr_run_id b = run \<and> cbr_task_id b = task then db
      else db\<lparr>dtb_binding_runs := dtb_binding_runs db
             @ [\<lparr>cbr_run_id = run, cbr_task_id = task, cbr_conversation_id = conversation\<rparr>]\<rparr>, ()))"

definition new_decision ::
    "uuid \<Rightarrow> timestamp \<Rightarrow> turn_intent \<Rightarrow> routing_strategy \<Rightarrow> conversation_strategy \<Rightarrow> string \<Rightarrow> routing_decision" where
  "new_decision fresh now intent configured strategy conversation = \<lparr>
     rd_id = fresh, rd_idempotency_key = ti_idempotency_key intent, rd_bear_id = ti_bear_id intent,
     rd_job_id = ti_job_id intent, rd_run_id = ti_run_id intent, rd_task_id = ti_task_id intent,
     rd_turn_source = turn_source_str (ti_source intent),
     rd_conversation_strategy = conversation_strategy_str strategy, rd_conversation_id = conversation,
     rd_parent_conversation_id = ti_parent_conversation_id intent,
     rd_routing_strategy = routing_strategy_str configured,
     rd_execution_surface = execution_surface_str (ti_surface intent),
     rd_resolved_profile = ti_resolved_profile intent, rd_attempt = ti_attempt intent,
     rd_cursor_before = None, rd_cursor_after = None, rd_reason = placement_reason strategy,
     rd_created_at = now\<rparr>"

definition insert_decision :: "routing_decision \<Rightarrow> routing_decision docket_op" where
  "insert_decision d = docket_write (\<lambda>db. (db\<lparr>dtb_decisions := dtb_decisions db @ [d]\<rparr>, d))"

definition find_decision_by_key :: "uuid \<Rightarrow> docket_db \<Rightarrow> routing_decision option" where
  "find_decision_by_key key db = List.find (\<lambda>d. rd_idempotency_key d = key) (dtb_decisions db)"

definition find_task :: "uuid \<Rightarrow> uuid \<Rightarrow> uuid \<Rightarrow> docket_db \<Rightarrow> docket_task_row option" where
  "find_task task job bear db =
     List.find (\<lambda>t. dt_id t = task \<and> dt_job_id t = Some job \<and> dt_bear_id t = bear) (dtb_tasks db)"

definition route_new_turn ::
    "(uuid \<Rightarrow> string) \<Rightarrow> (uuid \<Rightarrow> string) \<Rightarrow> uuid \<Rightarrow> uuid \<Rightarrow> timestamp \<Rightarrow> turn_intent \<Rightarrow> docket_db \<Rightarrow> routing_decision docket_op" where
  "route_new_turn us simple fresh fresh_conv now intent db =
     (case find_task (ti_task_id intent) (ti_job_id intent) (ti_bear_id intent) db of
        None \<Rightarrow> failM (Failed (NotFound (''Docket task not found: '' @ us (ti_task_id intent))))
      | Some t \<Rightarrow>
         (case parse_routing_strategy (dt_routing_strategy t) of
            Inl e \<Rightarrow> failM (Failed e)
          | Inr configured \<Rightarrow>
             (case place_turn (''den-conv-'' @ simple fresh_conv) intent t configured db of
                (strategy, conversation) \<Rightarrow>
                  bindM (if strategy = ConvInline then returnM () else insert_binding (ti_task_id intent) conversation) (\<lambda>_.
                  bindM (insert_binding_run (ti_run_id intent) (ti_task_id intent) conversation) (\<lambda>_.
                  insert_decision (new_decision fresh now intent configured strategy conversation))))))"

definition route_turn ::
    "(uuid \<Rightarrow> string) \<Rightarrow> (uuid \<Rightarrow> string) \<Rightarrow> uuid \<Rightarrow> uuid \<Rightarrow> timestamp \<Rightarrow> turn_intent \<Rightarrow> routing_decision docket_op" where
  "route_turn us simple fresh fresh_conv now intent =
     (if ti_attempt intent < 1 then invalidM ''turn attempt must be positive''
      else transactionM (withM (\<lambda>db.
        case find_decision_by_key (ti_idempotency_key intent) db of
          Some existing \<Rightarrow> returnM existing
        | None \<Rightarrow> route_new_turn us simple fresh fresh_conv now intent db)))"

subsection \<open>Claims and attempts\<close>

definition CLAIM_LEASE_SECONDS :: int where
  "CLAIM_LEASE_SECONDS = 15 * 60"

definition claim_active :: "turn_claim \<Rightarrow> bool" where
  "claim_active c \<longleftrightarrow> cl_state c \<in> set ACTIVE_CLAIM_STATES"

definition upsert_claim :: "uuid \<Rightarrow> timestamp \<Rightarrow> routing_decision \<Rightarrow> uuid option \<Rightarrow> string \<Rightarrow> uuid option docket_op" where
  "upsert_claim fresh now d work_run owner = docket_write (\<lambda>db.
     let expires = now + CLAIM_LEASE_SECONDS * 1000 in
     case List.find (\<lambda>c. cl_routing_decision_id c = rd_id d) (dtb_claims db) of
       None \<Rightarrow> (db\<lparr>dtb_claims := dtb_claims db @ [\<lparr>cl_id = fresh, cl_routing_decision_id = rd_id d,
           cl_bear_id = rd_bear_id d, cl_job_id = rd_job_id d, cl_run_id = rd_run_id d, cl_task_id = rd_task_id d,
           cl_work_run_id = work_run, cl_owner_id = owner, cl_lease_expires_at = expires, cl_state = ''reserved'',
           cl_updated_at = now\<rparr>]\<rparr>, Some fresh)
     | Some c \<Rightarrow>
         (let g = (\<lambda>r. cl_routing_decision_id r = rd_id d \<and> cl_owner_id r = owner \<and> claim_active r) in
          (db\<lparr>dtb_claims := update_where g (\<lambda>r. r\<lparr>cl_lease_expires_at := expires, cl_updated_at := now\<rparr>) (dtb_claims db)\<rparr>,
           if g c then Some (cl_id c) else None)))"

definition upsert_attempt ::
    "uuid \<Rightarrow> timestamp \<Rightarrow> uuid \<Rightarrow> uuid option \<Rightarrow> int \<Rightarrow> uuid \<Rightarrow> resolved_execution_profile \<Rightarrow> turn_attempt option docket_op" where
  "upsert_attempt fresh now decision work_run attempt claim resolved = docket_write (\<lambda>db.
     case List.find (\<lambda>a. ta_routing_decision_id a = decision \<and> ta_attempt a = attempt) (dtb_attempts db) of
       None \<Rightarrow>
         (let row = \<lparr>ta_id = fresh, ta_routing_decision_id = decision, ta_work_run_id = work_run, ta_attempt = attempt,
              ta_claim_id = Some claim, ta_state = ''executing'', ta_outcome = None, ta_cause_code = None,
              ta_retry_disposition = None, ta_supervisor_disposition = None, ta_evidence_refs = None,
              ta_resolved_profile = map_option execution_profile_str (rep_profile resolved),
              ta_profile_provenance = profile_provenance_str (rep_provenance resolved),
              ta_latency_ms = None, ta_cost_microusd = None, ta_started_at = now, ta_last_activity_at = now,
              ta_finished_at = None\<rparr>
          in (db\<lparr>dtb_attempts := dtb_attempts db @ [row]\<rparr>, Some row))
     | Some _ \<Rightarrow>
         (let g = (\<lambda>a. ta_routing_decision_id a = decision \<and> ta_attempt a = attempt \<and> ta_claim_id a = Some claim);
              f = (\<lambda>a. a\<lparr>ta_last_activity_at := now\<rparr>)
          in (db\<lparr>dtb_attempts := update_where g f (dtb_attempts db)\<rparr>,
              fetch_optional (returning g f (dtb_attempts db)))))"

definition claim_owner :: "(uuid \<Rightarrow> string) \<Rightarrow> uuid option \<Rightarrow> uuid \<Rightarrow> string" where
  "claim_owner us work_run decision = ''work-run:'' @ us (unwrap_or work_run decision)"

definition find_decision :: "uuid \<Rightarrow> docket_db \<Rightarrow> routing_decision option" where
  "find_decision decision db = List.find (\<lambda>d. rd_id d = decision) (dtb_decisions db)"

definition claim_turn_attempt ::
    "(uuid \<Rightarrow> string) \<Rightarrow> uuid \<Rightarrow> uuid \<Rightarrow> timestamp \<Rightarrow> uuid \<Rightarrow> uuid option \<Rightarrow> int \<Rightarrow> resolved_execution_profile
     \<Rightarrow> turn_attempt docket_op" where
  "claim_turn_attempt us fresh_claim fresh_attempt now decision work_run attempt resolved =
     (if attempt < 1 then invalidM ''turn attempt must be positive''
      else transactionM (
        bindM (queryM (find_decision decision)) (\<lambda>found.
        case found of
          None \<Rightarrow> failM (Failed (NotFound (''routing decision '' @ us decision)))
        | Some d \<Rightarrow>
            bindM (upsert_claim fresh_claim now d work_run (claim_owner us work_run decision)) (\<lambda>claim.
            case claim of
              None \<Rightarrow> invalidM ''turn is already claimed by another worker''
            | Some c \<Rightarrow>
                bindM (upsert_attempt fresh_attempt now decision work_run attempt c resolved) (\<lambda>row.
                case row of
                  None \<Rightarrow> invalidM ''turn attempt belongs to another claim''
                | Some a \<Rightarrow>
                    bindM (update_claims (\<lambda>r. cl_id r = c) (\<lambda>r. r\<lparr>cl_state := ''executing'', cl_updated_at := now\<rparr>))
                      (\<lambda>_. returnM a))))))"

text \<open>The claim of an attempt is executing and its lease has not expired.\<close>

definition claim_live :: "timestamp \<Rightarrow> turn_claim list \<Rightarrow> turn_attempt \<Rightarrow> bool" where
  "claim_live now claims a \<longleftrightarrow>
     (\<exists>c \<in> set claims. Some (cl_id c) = ta_claim_id a \<and> cl_state c = ''executing'' \<and> cl_lease_expires_at c > now)"

definition may_settle :: "timestamp \<Rightarrow> uuid \<Rightarrow> turn_claim list \<Rightarrow> turn_attempt \<Rightarrow> bool" where
  "may_settle now attempt claims a \<longleftrightarrow> ta_id a = attempt \<and> ta_state a = ''executing'' \<and> claim_live now claims a"

definition record_turn_activity :: "timestamp \<Rightarrow> uuid \<Rightarrow> json \<Rightarrow> bool docket_op" where
  "record_turn_activity now attempt evidence = withM (\<lambda>db.
     bindM (update_attempts (may_settle now attempt (dtb_claims db))
       (\<lambda>a. a\<lparr>ta_last_activity_at := now, ta_evidence_refs := merge_evidence (ta_evidence_refs a) evidence\<rparr>))
     (\<lambda>rows. returnM (length rows = 1)))"

text \<open>
  \<open>WITH settled AS (UPDATE docket_turn_attempts ... RETURNING claim_id) UPDATE docket_turn_claims ...\<close>:
  both parts read the same snapshot; the number of rows is that of the claims.
\<close>

definition settle_attempts ::
    "timestamp \<Rightarrow> (turn_claim list \<Rightarrow> turn_attempt \<Rightarrow> bool) \<Rightarrow> (turn_attempt \<Rightarrow> turn_attempt) \<Rightarrow> nat docket_op" where
  "settle_attempts now g f = docket_write (\<lambda>db.
     let hit = g (dtb_claims db);
         claim_ids = List.map_filter ta_claim_id (filter hit (dtb_attempts db));
         on_claim = (\<lambda>c. cl_id c \<in> set claim_ids)
     in (db\<lparr>dtb_attempts := update_where hit f (dtb_attempts db),
            dtb_claims := update_where on_claim (\<lambda>c. c\<lparr>cl_state := ''settled'', cl_updated_at := now\<rparr>) (dtb_claims db)\<rparr>,
         length (filter on_claim (dtb_claims db))))"

definition settled_attempt ::
    "timestamp \<Rightarrow> string \<Rightarrow> string \<Rightarrow> string \<Rightarrow> json \<Rightarrow> turn_attempt \<Rightarrow> turn_attempt" where
  "settled_attempt now outcome cause disposition evidence a = a\<lparr>ta_state := ''settled'', ta_outcome := Some outcome,
     ta_cause_code := Some cause, ta_retry_disposition := Some disposition,
     ta_evidence_refs := merge_evidence (ta_evidence_refs a) evidence,
     ta_finished_at := Some now, ta_last_activity_at := now\<rparr>"

definition terminalize_turn_attempt ::
    "timestamp \<Rightarrow> uuid \<Rightarrow> attempt_outcome \<Rightarrow> string \<Rightarrow> retry_disposition \<Rightarrow> json \<Rightarrow> int option \<Rightarrow> int option \<Rightarrow> bool docket_op" where
  "terminalize_turn_attempt now attempt outcome cause disposition evidence latency cost =
     (if trim cause = [] then invalidM ''terminal attempt requires a cause code''
      else if is_some_and latency (\<lambda>v. v < 0) \<or> is_some_and cost (\<lambda>v. v < 0)
        then invalidM ''attempt attribution cannot be negative''
      else bindM (settle_attempts now (may_settle now attempt)
        (\<lambda>a. (settled_attempt now (attempt_outcome_str outcome) cause (retry_disposition_str disposition) evidence a)
          \<lparr>ta_latency_ms := latency, ta_cost_microusd := cost\<rparr>))
        (\<lambda>n. returnM (n = 1)))"

definition watchdog_evidence :: json where
  "watchdog_evidence = JObj [(''synthetic'', JBool True), (''boundary'', JStr ''watchdog'')]"

definition terminalize_stale_attempts :: "timestamp \<Rightarrow> timestamp \<Rightarrow> nat docket_op" where
  "terminalize_stale_attempts now stale_before =
     settle_attempts now (\<lambda>claims a. ta_state a = ''executing'' \<and> ta_last_activity_at a < stale_before)
       (\<lambda>a. (settled_attempt now ''timed_out'' ''activity_timeout'' ''pause'' watchdog_evidence a)
          \<lparr>ta_supervisor_disposition := Some ''await_recovery''\<rparr>)"

subsection \<open>Supervisor dispositions\<close>

definition find_attempt :: "uuid \<Rightarrow> docket_db \<Rightarrow> turn_attempt option" where
  "find_attempt attempt db = List.find (\<lambda>a. ta_id a = attempt) (dtb_attempts db)"

definition escalation_of_row :: "turn_attempt \<Rightarrow> store_error + escalation_decision" where
  "escalation_of_row a =
     (case ta_cause_code a of
        None \<Rightarrow> Inl null_column
      | Some cause \<Rightarrow>
         (case Option.bind (ta_outcome a) attempt_outcome_parse of
            None \<Rightarrow> Inl (Failed (ValidationError ''terminal attempt has invalid outcome''))
          | Some outcome \<Rightarrow> Inr (decide_escalation (Option.bind (ta_resolved_profile a) execution_profile_parse)
              (ta_attempt a) outcome cause)))"

definition escalation_for_attempt :: "(uuid \<Rightarrow> string) \<Rightarrow> uuid \<Rightarrow> escalation_decision docket_op" where
  "escalation_for_attempt us attempt = withM (\<lambda>db.
     case filter_opt (\<lambda>a. ta_state a = ''settled'') (find_attempt attempt db) of
       None \<Rightarrow> failM (Failed (NotFound (''terminal turn attempt '' @ us attempt)))
     | Some a \<Rightarrow> (case escalation_of_row a of Inl e \<Rightarrow> failM e | Inr d \<Rightarrow> returnM d))"

definition apply_supervisor_disposition :: "(uuid \<Rightarrow> string) \<Rightarrow> uuid \<Rightarrow> supervisor_disposition docket_op" where
  "apply_supervisor_disposition us attempt =
     bindM (escalation_for_attempt us attempt) (\<lambda>decision.
     let disposition = disposition_for decision;
         text = supervisor_disposition_str disposition
     in bindM (update_attempts
          (\<lambda>a. ta_id a = attempt \<and> ta_state a = ''settled''
             \<and> (ta_supervisor_disposition a = None \<or> ta_supervisor_disposition a = Some text))
          (\<lambda>a. a\<lparr>ta_supervisor_disposition := Some text,
                ta_retry_disposition := Some (retry_disposition_str (retry_disposition_of disposition))\<rparr>)) (\<lambda>rows.
        if rows \<noteq> [] then returnM disposition
        else bindM (queryM (\<lambda>db. Option.bind (find_attempt attempt db) ta_supervisor_disposition)) (\<lambda>existing.
          case existing of
            Some v \<Rightarrow> if v = text then returnM disposition
              else invalidM ''settled attempt already has a conflicting supervisor disposition''
          | None \<Rightarrow> failM (Failed (NotFound (''settled turn attempt '' @ us attempt))))))"

subsection \<open>Attention and notifications\<close>

definition upsert_attention ::
    "uuid \<Rightarrow> timestamp \<Rightarrow> uuid \<Rightarrow> uuid option \<Rightarrow> string \<Rightarrow> string \<Rightarrow> json \<Rightarrow> docket_attention option docket_op" where
  "upsert_attention fresh now run task cause action evidence = docket_write (\<lambda>db.
     let g = (\<lambda>x. att_run_id x = run \<and> att_resolved_at x = None);
         f = (\<lambda>x. x\<lparr>att_task_id := task, att_cause_code := cause, att_recovery_action := action,
                   att_evidence_refs := evidence\<rparr>);
         row = \<lparr>att_id = fresh, att_run_id = run, att_task_id = task, att_cause_code = cause,
                att_recovery_action = action, att_evidence_refs = evidence, att_resolved_at = None,
                att_created_at = now\<rparr>
     in if \<exists>x \<in> set (dtb_attention db). g x
        then (db\<lparr>dtb_attention := update_where g f (dtb_attention db)\<rparr>, fetch_optional (returning g f (dtb_attention db)))
        else (db\<lparr>dtb_attention := dtb_attention db @ [row]\<rparr>, Some row))"

definition ensure_attention ::
    "uuid \<Rightarrow> timestamp \<Rightarrow> uuid \<Rightarrow> uuid option \<Rightarrow> string \<Rightarrow> string \<Rightarrow> json \<Rightarrow> docket_attention option docket_op" where
  "ensure_attention fresh now run task cause action evidence =
     (if trim cause = [] \<or> trim action = [] then invalidM ''attention requires cause and recovery action''
      else upsert_attention fresh now run task (trim cause) (trim action) evidence)"

definition resolve_attention :: "timestamp \<Rightarrow> uuid \<Rightarrow> bool docket_op" where
  "resolve_attention now run =
     bindM (update_attention (\<lambda>x. att_run_id x = run \<and> att_resolved_at x = None) (\<lambda>x. x\<lparr>att_resolved_at := Some now\<rparr>))
       (\<lambda>rows. returnM (length rows = 1))"

definition attention_key :: "(uuid \<Rightarrow> string) \<Rightarrow> uuid \<Rightarrow> string" where
  "attention_key us attempt = ''turn-attempt:'' @ us attempt @ '':attention''"

definition insert_outbox :: "notification_outbox_row \<Rightarrow> bool docket_op" where
  "insert_outbox row = docket_write (\<lambda>db.
     if \<exists>x \<in> set (dtb_outbox db). nob_deduplication_key x = nob_deduplication_key row then (db, False)
     else (db\<lparr>dtb_outbox := dtb_outbox db @ [row]\<rparr>, True))"

text \<open>The row the attention is about: a settled, disposed attempt joined with its decision.\<close>

definition attention_source :: "uuid \<Rightarrow> docket_db \<Rightarrow> (turn_attempt \<times> string \<times> routing_decision) option" where
  "attention_source attempt db =
     Option.bind (filter_opt (\<lambda>a. ta_state a = ''settled'') (find_attempt attempt db)) (\<lambda>a.
     Option.bind (ta_supervisor_disposition a) (\<lambda>disposition.
     map_option (\<lambda>d. (a, disposition, d)) (find_decision (ta_routing_decision_id a) db)))"

definition persist_attention_outbox ::
    "(uuid \<Rightarrow> string) \<Rightarrow> uuid \<Rightarrow> uuid \<Rightarrow> timestamp \<Rightarrow> uuid \<Rightarrow> string \<Rightarrow> bool docket_op" where
  "persist_attention_outbox us fresh_attention fresh_outbox now attempt action =
     (if trim action = [] then invalidM ''recovery action is required''
      else transactionM (bindM (queryM (attention_source attempt)) (\<lambda>found.
        case found of
          None \<Rightarrow> invalidM ''attempt must be settled and supervisor-disposed''
        | Some (a, disposition, d) \<Rightarrow>
            (case ta_cause_code a of
               None \<Rightarrow> failM null_column
             | Some cause \<Rightarrow>
                 bindM (upsert_attention fresh_attention now (rd_run_id d) (Some (rd_task_id d)) cause (trim action)
                   (unwrap_or (ta_evidence_refs a) (JObj []))) (\<lambda>_.
                 insert_outbox \<lparr>nob_id = fresh_outbox, nob_run_id = rd_run_id d, nob_task_id = Some (rd_task_id d),
                   nob_deduplication_key = attention_key us attempt, nob_kind = ''attention'',
                   nob_payload = JObj [(''attempt_id'', JStr (us attempt)), (''cause_code'', JStr cause),
                     (''disposition'', JStr disposition), (''recovery_action'', JStr (trim action))]\<rparr>)))))"

subsection \<open>Rollups\<close>

definition persist_result_rollup ::
    "uuid \<Rightarrow> timestamp \<Rightarrow> uuid \<Rightarrow> uuid \<Rightarrow> uuid \<Rightarrow> string \<Rightarrow> json \<Rightarrow> bool docket_op" where
  "persist_result_rollup fresh now run task parent summary evidence =
     (if trim summary = [] then invalidM ''result rollup requires a summary''
      else docket_write (\<lambda>db.
        if \<exists>x \<in> set (dtb_rollups db). rr_run_id x = run \<and> rr_task_id x = task then (db, False)
        else (db\<lparr>dtb_rollups := dtb_rollups db @ [\<lparr>rr_id = fresh, rr_run_id = run, rr_task_id = task,
               rr_parent_task_id = parent, rr_summary = trim summary, rr_evidence_refs = evidence,
               rr_created_at = now\<rparr>]\<rparr>, True)))"

definition parent_rollup_context :: "uuid \<Rightarrow> uuid \<Rightarrow> docket_db \<Rightarrow> (string \<times> json) list" where
  "parent_rollup_context run parent db =
     map (\<lambda>x. (rr_summary x, rr_evidence_refs x)) (sort_key (\<lambda>x. (rr_created_at x, rr_task_id x))
       (filter (\<lambda>x. rr_run_id x = run \<and> rr_parent_task_id x = parent) (dtb_rollups db)))"

subsection \<open>Cursors\<close>

definition set_cursor :: "timestamp \<Rightarrow> string \<Rightarrow> uuid \<Rightarrow> uuid \<Rightarrow> uuid option \<Rightarrow> docket_cursor docket_op" where
  "set_cursor now session bear job task =
     (if trim session = [] then invalidM ''client session id cannot be empty''
      else bindM (queryM (\<lambda>db. case task of None \<Rightarrow> True
             | Some t \<Rightarrow> \<exists>r \<in> set (dtb_tasks db). dt_id r = t \<and> dt_job_id r = Some job \<and> dt_bear_id r = bear)) (\<lambda>valid.
        if \<not> valid then invalidM ''cursor task is not in the requested job''
        else docket_write (\<lambda>db.
          let row = \<lparr>cur_client_session_id = trim session, cur_bear_id = bear, cur_job_id = job, cur_task_id = task,
                cur_updated_at = now\<rparr>;
              g = (\<lambda>c. cur_client_session_id c = trim session)
          in (db\<lparr>dtb_cursors := (if \<exists>c \<in> set (dtb_cursors db). g c then update_where g (\<lambda>_. row) (dtb_cursors db)
                 else dtb_cursors db @ [row])\<rparr>, row))))"

definition get_cursor :: "string \<Rightarrow> uuid \<Rightarrow> docket_db \<Rightarrow> docket_cursor option" where
  "get_cursor session bear db =
     List.find (\<lambda>c. cur_client_session_id c = session \<and> cur_bear_id c = bear) (dtb_cursors db)"

definition clear_cursor :: "string \<Rightarrow> uuid \<Rightarrow> bool docket_op" where
  "clear_cursor session bear = docket_write (\<lambda>db.
     let g = (\<lambda>c. cur_client_session_id c = session \<and> cur_bear_id c = bear)
     in (db\<lparr>dtb_cursors := filter (\<lambda>c. \<not> g c) (dtb_cursors db)\<rparr>, length (filter g (dtb_cursors db)) = 1))"

subsection \<open>Job state and dispatch preflight\<close>

datatype derived_job_state = JobStateRunning | JobStateReady | JobStateCompleted | JobStateBlocked

definition derive_job_state :: "string list \<Rightarrow> bool \<Rightarrow> bool \<Rightarrow> derived_job_state" where
  "derive_job_state task_states has_active_work_run criteria_complete =
     (if has_active_work_run then JobStateRunning
      else if ''pending'' \<in> set task_states then JobStateReady
      else if (\<forall>s \<in> set task_states. s = ''done'') \<and> criteria_complete then JobStateCompleted
      else JobStateBlocked)"

datatype work_execution_target = TargetSandbox | TargetAttachedArmature string

fun work_execution_target_str :: "work_execution_target \<Rightarrow> string" where
  "work_execution_target_str TargetSandbox = ''sandbox''"
| "work_execution_target_str (TargetAttachedArmature _) = ''attached_armature''"

datatype durable_result_kind = ResultReport | ResultRepositoryChanges
datatype checkout_relationship = CheckoutIsolated | CheckoutAttached
datatype publication_route = PubNone | PubCommitToBranch "string option" | PubAttachedWorktree
datatype dispatch_blocker = RepositoryChangesWithoutPublication

record dispatch_preflight =
  dp_execution_target :: string
  dp_checkout_relationship :: checkout_relationship
  dp_durable_result :: durable_result_kind
  dp_publication :: publication_route
  dp_dispatchable :: bool
  dp_blocker :: "dispatch_blocker option"

definition preflight_dispatch ::
    "work_execution_target \<Rightarrow> durable_result_kind \<Rightarrow> docket_commit_policy option \<Rightarrow> string option \<Rightarrow> dispatch_preflight" where
  "preflight_dispatch target durable commit_policy work_branch =
     (let checkout = (case target of TargetSandbox \<Rightarrow> CheckoutIsolated | TargetAttachedArmature _ \<Rightarrow> CheckoutAttached);
          publication = (case target of
              TargetAttachedArmature _ \<Rightarrow> PubAttachedWorktree
            | TargetSandbox \<Rightarrow> if commit_policy = Some CommitPerTask then PubCommitToBranch work_branch else PubNone);
          blocker = (if durable = ResultRepositoryChanges \<and> publication = PubNone
            then Some RepositoryChangesWithoutPublication else None)
      in \<lparr>dp_execution_target = work_execution_target_str target, dp_checkout_relationship = checkout,
          dp_durable_result = durable, dp_publication = publication, dp_dispatchable = (blocker = None),
          dp_blocker = blocker\<rparr>)"

end
