(* ===== verification/Ledger_Frame.thy ===== *)
theory Ledger_Frame
  imports Docket_Ledger
begin

section \<open>What the docket ledger keeps\<close>

text \<open>
  The operations of \<open>Docket_Ledger\<close> as a machine, and the frame every one of them keeps: settled
  attempts and claims stay settled, decisions, bindings, rollups and notifications are only
  added.
\<close>

subsection \<open>Kept rows\<close>

definition rows_kept :: "('r \<Rightarrow> 'r \<Rightarrow> bool) \<Rightarrow> 'r list \<Rightarrow> 'r list \<Rightarrow> bool" where
  "rows_kept K rows rows' \<longleftrightarrow> (\<forall>r \<in> set rows. \<exists>r' \<in> set rows'. K r r')"

lemma rows_kept_refl: "(\<And>r. K r r) \<Longrightarrow> rows_kept K rows rows"
  by (auto simp: rows_kept_def)

lemma rows_kept_trans:
  "(\<And>r s t. K r s \<Longrightarrow> K s t \<Longrightarrow> K r t) \<Longrightarrow> rows_kept K xs ys \<Longrightarrow> rows_kept K ys zs \<Longrightarrow> rows_kept K xs zs"
  unfolding rows_kept_def by blast

lemma rows_kept_append: "(\<And>r. K r r) \<Longrightarrow> rows_kept K rows (rows @ new)"
  by (auto simp: rows_kept_def)

lemma rows_kept_update:
  assumes "\<And>r. K r r" and "\<And>r. r \<in> set rows \<Longrightarrow> g r \<Longrightarrow> K r (f r)"
  shows "rows_kept K rows (update_where g f rows)"
  unfolding rows_kept_def set_update_where
proof
  fix r
  assume "r \<in> set rows"
  then show "\<exists>r' \<in> (\<lambda>r. if g r then f r else r) ` set rows. K r r'"
    using assms by (intro bexI [of _ "if g r then f r else r"]) auto
qed

definition attempt_kept :: "turn_attempt \<Rightarrow> turn_attempt \<Rightarrow> bool" where
  "attempt_kept a a' \<longleftrightarrow>
     ta_id a' = ta_id a \<and> ta_routing_decision_id a' = ta_routing_decision_id a \<and> ta_attempt a' = ta_attempt a
     \<and> ta_claim_id a' = ta_claim_id a
     \<and> (ta_state a = ''settled'' \<longrightarrow> ta_state a' = ''settled'' \<and> ta_outcome a' = ta_outcome a
          \<and> ta_cause_code a' = ta_cause_code a \<and> ta_evidence_refs a' = ta_evidence_refs a
          \<and> ta_finished_at a' = ta_finished_at a \<and> ta_latency_ms a' = ta_latency_ms a
          \<and> ta_cost_microusd a' = ta_cost_microusd a
          \<and> (ta_supervisor_disposition a \<noteq> None \<longrightarrow> ta_supervisor_disposition a' = ta_supervisor_disposition a))"

definition claim_kept :: "turn_claim \<Rightarrow> turn_claim \<Rightarrow> bool" where
  "claim_kept c c' \<longleftrightarrow>
     cl_id c' = cl_id c \<and> cl_routing_decision_id c' = cl_routing_decision_id c \<and> cl_run_id c' = cl_run_id c
     \<and> cl_task_id c' = cl_task_id c \<and> cl_owner_id c' = cl_owner_id c
     \<and> (cl_state c = ''settled'' \<longrightarrow> cl_state c' = ''settled'')"

lemma attempt_kept_refl [simp]: "attempt_kept a a"
  by (simp add: attempt_kept_def)

lemma attempt_kept_trans: "attempt_kept a b \<Longrightarrow> attempt_kept b c \<Longrightarrow> attempt_kept a c"
  by (auto simp: attempt_kept_def)

lemma claim_kept_refl [simp]: "claim_kept c c"
  by (simp add: claim_kept_def)

lemma claim_kept_trans: "claim_kept a b \<Longrightarrow> claim_kept b c \<Longrightarrow> claim_kept a c"
  by (auto simp: claim_kept_def)

definition docket_kept :: "docket_db \<Rightarrow> docket_db \<Rightarrow> bool" where
  "docket_kept db db' \<longleftrightarrow>
     dtb_tasks db' = dtb_tasks db
     \<and> rows_kept attempt_kept (dtb_attempts db) (dtb_attempts db')
     \<and> rows_kept claim_kept (dtb_claims db) (dtb_claims db')
     \<and> prefix (dtb_decisions db) (dtb_decisions db') \<and> prefix (dtb_bindings db) (dtb_bindings db')
     \<and> prefix (dtb_binding_runs db) (dtb_binding_runs db') \<and> prefix (dtb_outbox db) (dtb_outbox db')
     \<and> prefix (dtb_rollups db) (dtb_rollups db')"

lemma docket_kept_refl: "docket_kept db db"
  by (simp add: docket_kept_def rows_kept_refl)

lemma docket_kept_trans: "docket_kept a b \<Longrightarrow> docket_kept b c \<Longrightarrow> docket_kept a c"
  unfolding docket_kept_def
  by (auto intro: rows_kept_trans [of attempt_kept, OF attempt_kept_trans]
      rows_kept_trans [of claim_kept, OF claim_kept_trans] prefix_order.trans)

interpretation docket: db_frame docket_schema_ok docket_kept
  by unfold_locales (auto intro: docket_kept_refl docket_kept_trans)

abbreviation keeps :: "'a docket_op \<Rightarrow> bool" where
  "keeps \<equiv> stays_in docket_schema_ok docket_kept"

subsection \<open>Every operation keeps the ledger\<close>

lemma keeps_update_attempts:
  assumes "\<And>a. g a \<Longrightarrow> attempt_kept a (f a)"
  shows "keeps (update_attempts g f)"
  unfolding update_attempts_def
  by (rule docket.stays_write) (simp add: docket_kept_def rows_kept_refl rows_kept_update assms)

lemma keeps_update_attention: "keeps (update_attention g f)"
  unfolding update_attention_def
  by (rule docket.stays_write) (simp add: docket_kept_def rows_kept_refl)

lemma keeps_insert_binding: "keeps (insert_binding task conversation)"
  unfolding insert_binding_def
  by (rule docket.stays_write) (simp add: docket_kept_def rows_kept_refl)

lemma keeps_insert_binding_run: "keeps (insert_binding_run run task conversation)"
  unfolding insert_binding_run_def
  by (rule docket.stays_write) (simp add: docket_kept_def rows_kept_refl)

lemma keeps_insert_decision: "keeps (insert_decision d)"
  unfolding insert_decision_def
  by (rule docket.stays_write) (simp add: docket_kept_def rows_kept_refl)

lemma keeps_route_turn: "keeps (route_turn us simple fresh fresh_conv now intent)"
  unfolding route_turn_def route_new_turn_def
  by (intro docket.stays_intros keeps_insert_binding keeps_insert_binding_run keeps_insert_decision)

lemma keeps_upsert_claim: "keeps (upsert_claim fresh now d work_run owner)"
  unfolding upsert_claim_def
  by (rule docket.stays_write)
    (auto simp: docket_kept_def rows_kept_refl Let_def claim_kept_def intro!: rows_kept_append rows_kept_update split: option.split)

lemma keeps_upsert_attempt: "keeps (upsert_attempt fresh now decision work_run attempt claim resolved)"
  unfolding upsert_attempt_def
  by (rule docket.stays_write)
    (auto simp: docket_kept_def rows_kept_refl Let_def attempt_kept_def intro!: rows_kept_append rows_kept_update split: option.split)

lemma keeps_settle_attempts:
  assumes "\<And>claims a. g claims a \<Longrightarrow> attempt_kept a (f a)"
  shows "keeps (settle_attempts now g f)"
  unfolding settle_attempts_def
  by (rule docket.stays_write)
    (auto simp: docket_kept_def rows_kept_refl Let_def claim_kept_def intro!: rows_kept_update assms)

lemma keeps_record_turn_activity: "keeps (record_turn_activity now attempt evidence)"
  unfolding record_turn_activity_def
  by (intro docket.stays_intros keeps_update_attempts) (auto simp: may_settle_def attempt_kept_def)

lemma keeps_terminalize: "keeps (terminalize_turn_attempt now attempt outcome cause disposition evidence latency cost)"
  unfolding terminalize_turn_attempt_def
  by (intro docket.stays_intros keeps_settle_attempts) (auto simp: may_settle_def attempt_kept_def settled_attempt_def)

lemma keeps_stale: "keeps (terminalize_stale_attempts now stale_before)"
  unfolding terminalize_stale_attempts_def
  by (intro keeps_settle_attempts) (auto simp: attempt_kept_def settled_attempt_def)

lemma keeps_escalation: "keeps (escalation_for_attempt us attempt)"
  unfolding escalation_for_attempt_def by (intro docket.stays_intros)

lemma keeps_apply_disposition: "keeps (apply_supervisor_disposition us attempt)"
  unfolding apply_supervisor_disposition_def Let_def
  by (intro docket.stays_intros keeps_escalation keeps_update_attempts) (auto simp: attempt_kept_def)

lemma keeps_upsert_attention: "keeps (upsert_attention fresh now run task cause action evidence)"
  unfolding upsert_attention_def
  by (rule docket.stays_write) (simp add: docket_kept_def rows_kept_refl Let_def)

lemma keeps_insert_outbox: "keeps (insert_outbox row)"
  unfolding insert_outbox_def
  by (rule docket.stays_write) (simp add: docket_kept_def rows_kept_refl)

lemma keeps_persist_attention: "keeps (persist_attention_outbox us fresh_attention fresh_outbox now attempt action)"
  unfolding persist_attention_outbox_def
  by (intro docket.stays_intros keeps_upsert_attention keeps_insert_outbox)

lemma keeps_ensure_attention: "keeps (ensure_attention fresh now run task cause action evidence)"
  unfolding ensure_attention_def by (intro docket.stays_intros keeps_upsert_attention)

lemma keeps_resolve_attention: "keeps (resolve_attention now run)"
  unfolding resolve_attention_def by (intro docket.stays_intros keeps_update_attention)

lemma keeps_rollup: "keeps (persist_result_rollup fresh now run task parent summary evidence)"
  unfolding persist_result_rollup_def
  by (intro docket.stays_intros docket.stays_write) (simp add: docket_kept_def rows_kept_refl)

lemma keeps_set_cursor: "keeps (set_cursor now session bear job task)"
  unfolding set_cursor_def
  by (intro docket.stays_intros docket.stays_write) (simp add: docket_kept_def rows_kept_refl Let_def)

lemma keeps_clear_cursor: "keeps (clear_cursor session bear)"
  unfolding clear_cursor_def
  by (intro docket.stays_write) (simp add: docket_kept_def rows_kept_refl Let_def)

subsection \<open>Claiming\<close>

lemma update_claims_active_kept:
  assumes "docket_schema_ok db" and "r \<in> set (dtb_claims db)" and "cl_id r = c" and "claim_active r"
  shows "docket_schema_ok (fst (update_claims (\<lambda>x. cl_id x = c) (\<lambda>x. x\<lparr>cl_state := ''executing'', cl_updated_at := now\<rparr>) db))
    \<and> docket_kept db (fst (update_claims (\<lambda>x. cl_id x = c) (\<lambda>x. x\<lparr>cl_state := ''executing'', cl_updated_at := now\<rparr>) db))"
proof -
  have "distinct (map cl_id (dtb_claims db))" using assms(1) by (simp add: docket_schema_ok_def claims_ok_def)
  then have only: "x = r" if "x \<in> set (dtb_claims db)" "cl_id x = c" for x
    using that assms(2,3) by (auto simp: distinct_map dest: inj_onD)
  have "cl_state r \<noteq> ''settled''" using assms(4) by (auto simp: claim_active_def ACTIVE_CLAIM_STATES_def)
  then have "rows_kept claim_kept (dtb_claims db)
      (update_where (\<lambda>x. cl_id x = c) (\<lambda>x. x\<lparr>cl_state := ''executing'', cl_updated_at := now\<rparr>) (dtb_claims db))"
    using only by (intro rows_kept_update) (auto simp: claim_kept_def)
  then show ?thesis
    using assms(1) by (auto simp: update_claims_def checked_writeM_def docket_kept_def rows_kept_refl)
qed

lemma upsert_claim_active:
  assumes "upsert_claim fresh now d work_run owner db = (db', Inr (Some c))"
  shows "\<exists>r \<in> set (dtb_claims db'). cl_id r = c \<and> claim_active r \<and> cl_routing_decision_id r = rd_id d \<and> cl_owner_id r = owner"
proof (cases "List.find (\<lambda>c. cl_routing_decision_id c = rd_id d) (dtb_claims db)")
  case None
  then show ?thesis
    using assms by (auto simp: upsert_claim_def checked_writeM_def Let_def claim_active_def ACTIVE_CLAIM_STATES_def
        split: if_splits)
next
  case (Some r)
  then have r: "r \<in> set (dtb_claims db)" "cl_routing_decision_id r = rd_id d" by (auto dest: find_Some_set)
  let ?g = "\<lambda>r. cl_routing_decision_id r = rd_id d \<and> cl_owner_id r = owner \<and> claim_active r"
  let ?f = "\<lambda>r. r\<lparr>cl_lease_expires_at := now + CLAIM_LEASE_SECONDS * 1000, cl_updated_at := now\<rparr>"
  have "?g r" "cl_id r = c" "dtb_claims db' = update_where ?g ?f (dtb_claims db)"
    using assms Some by (auto simp: upsert_claim_def checked_writeM_def Let_def split: if_splits)
  moreover from this have "?f r \<in> set (dtb_claims db')" using r(1) by (force simp: set_update_where)
  ultimately show ?thesis by (intro bexI [of _ "?f r"]) (auto simp: claim_active_def)
qed

lemma upsert_attempt_claims:
  "dtb_claims (fst (upsert_attempt fresh now decision work_run attempt claim resolved db)) = dtb_claims db"
  by (simp add: upsert_attempt_def checked_writeM_def Let_def split: option.split)

lemma keeps_claim_turn_attempt:
  "keeps (claim_turn_attempt us fresh_claim fresh_attempt now decision work_run attempt resolved)"
proof -
  let ?executing = "\<lambda>x. x\<lparr>cl_state := ''executing'', cl_updated_at := now\<rparr>"
  have chain: "keeps (bindM (upsert_claim fresh_claim now d work_run owner) (\<lambda>claim.
      case claim of None \<Rightarrow> invalidM m1 | Some c \<Rightarrow>
        bindM (upsert_attempt fresh_attempt now decision work_run attempt c resolved) (\<lambda>row.
        case row of None \<Rightarrow> invalidM m2 | Some a \<Rightarrow>
          bindM (update_claims (\<lambda>r. cl_id r = c) ?executing) (\<lambda>_. returnM a))))" (is "keeps ?m") for d owner m1 m2
    unfolding stays_in_def
  proof (intro allI impI)
    fix db
    assume ok: "docket_schema_ok db"
    obtain db1 r1 where 1: "upsert_claim fresh_claim now d work_run owner db = (db1, r1)" by fastforce
    have k1: "docket_schema_ok db1" "docket_kept db db1"
      using staysD [OF keeps_upsert_claim ok, of fresh_claim now d work_run owner] 1 by simp_all
    show "docket_schema_ok (fst (?m db)) \<and> docket_kept db (fst (?m db))"
    proof (cases "\<exists>c. r1 = Inr (Some c)")
      case False
      then show ?thesis using 1 k1 by (auto simp: bindM_def failM_def split: sum.split option.split)
    next
      case True
      then obtain c where c: "r1 = Inr (Some c)" by blast
      obtain db2 r2 where 2: "upsert_attempt fresh_attempt now decision work_run attempt c resolved db1 = (db2, r2)"
        by fastforce
      have k2: "docket_schema_ok db2" "docket_kept db db2"
        using staysD [OF keeps_upsert_attempt k1(1), of fresh_attempt now decision work_run attempt c resolved] 2
          docket_kept_trans [OF k1(2)] by simp_all
      have "dtb_claims db2 = dtb_claims db1"
        using upsert_attempt_claims [of fresh_attempt now decision work_run attempt c resolved db1] 2 by simp
      then obtain r where r: "r \<in> set (dtb_claims db2)" "cl_id r = c" "claim_active r"
        using upsert_claim_active 1 c by metis
      have k3: "docket_schema_ok (fst (update_claims (\<lambda>x. cl_id x = c) ?executing db2))"
        "docket_kept db (fst (update_claims (\<lambda>x. cl_id x = c) ?executing db2))"
        using update_claims_active_kept [OF k2(1) r, of now] docket_kept_trans [OF k2(2)] by simp_all
      show ?thesis
        using 1 c 2 k2 k3
        by (auto simp: bindM_def failM_def returnM_def split: sum.splits option.splits prod.splits) 
    qed
  qed
  show ?thesis
    unfolding claim_turn_attempt_def
  proof (intro docket.stays_if docket.stays_fail docket.stays_transaction docket.stays_bind [OF docket.stays_query])
    show "keeps (case found of
        None \<Rightarrow> failM (Failed (NotFound (''routing decision '' @ us decision)))
      | Some d \<Rightarrow> bindM (upsert_claim fresh_claim now d work_run (claim_owner us work_run decision)) (\<lambda>claim.
          case claim of None \<Rightarrow> invalidM ''turn is already claimed by another worker'' | Some c \<Rightarrow>
            bindM (upsert_attempt fresh_attempt now decision work_run attempt c resolved) (\<lambda>row.
            case row of None \<Rightarrow> invalidM ''turn attempt belongs to another claim'' | Some a \<Rightarrow>
              bindM (update_claims (\<lambda>r. cl_id r = c) ?executing) (\<lambda>_. returnM a))))" for found
      by (cases found) (simp_all only: option.case docket.stays_fail chain)
  qed
qed

subsection \<open>The machine\<close>

datatype docket_ledger_op =
    OpRoute uuid uuid timestamp turn_intent
  | OpClaim uuid uuid timestamp uuid "uuid option" int resolved_execution_profile
  | OpActivity timestamp uuid json
  | OpTerminalize timestamp uuid attempt_outcome string retry_disposition json "int option" "int option"
  | OpStale timestamp timestamp
  | OpDispose uuid
  | OpAttentionOutbox uuid uuid timestamp uuid string
  | OpEnsureAttention uuid timestamp uuid "uuid option" string string json
  | OpResolveAttention timestamp uuid
  | OpRollup uuid timestamp uuid uuid uuid string json
  | OpSetCursor timestamp string uuid uuid "uuid option"
  | OpClearCursor string uuid

fun exec_docket :: "(uuid \<Rightarrow> string) \<Rightarrow> (uuid \<Rightarrow> string) \<Rightarrow> docket_ledger_op \<Rightarrow> unit docket_op" where
  "exec_docket us simple (OpRoute fresh conv now intent) = bindM (route_turn us simple fresh conv now intent) (\<lambda>_. returnM ())"
| "exec_docket us simple (OpClaim fc fa now decision work_run attempt resolved) =
     bindM (claim_turn_attempt us fc fa now decision work_run attempt resolved) (\<lambda>_. returnM ())"
| "exec_docket us simple (OpActivity now attempt evidence) = bindM (record_turn_activity now attempt evidence) (\<lambda>_. returnM ())"
| "exec_docket us simple (OpTerminalize now attempt outcome cause disposition evidence latency cost) =
     bindM (terminalize_turn_attempt now attempt outcome cause disposition evidence latency cost) (\<lambda>_. returnM ())"
| "exec_docket us simple (OpStale now stale_before) = bindM (terminalize_stale_attempts now stale_before) (\<lambda>_. returnM ())"
| "exec_docket us simple (OpDispose attempt) = bindM (apply_supervisor_disposition us attempt) (\<lambda>_. returnM ())"
| "exec_docket us simple (OpAttentionOutbox fa fo now attempt action) =
     bindM (persist_attention_outbox us fa fo now attempt action) (\<lambda>_. returnM ())"
| "exec_docket us simple (OpEnsureAttention fresh now run task cause action evidence) =
     bindM (ensure_attention fresh now run task cause action evidence) (\<lambda>_. returnM ())"
| "exec_docket us simple (OpResolveAttention now run) = bindM (resolve_attention now run) (\<lambda>_. returnM ())"
| "exec_docket us simple (OpRollup fresh now run task parent summary evidence) =
     bindM (persist_result_rollup fresh now run task parent summary evidence) (\<lambda>_. returnM ())"
| "exec_docket us simple (OpSetCursor now session bear job task) = bindM (set_cursor now session bear job task) (\<lambda>_. returnM ())"
| "exec_docket us simple (OpClearCursor session bear) = bindM (clear_cursor session bear) (\<lambda>_. returnM ())"

lemmas docket_op_keeps = keeps_route_turn keeps_claim_turn_attempt keeps_record_turn_activity keeps_terminalize
  keeps_stale keeps_apply_disposition keeps_persist_attention keeps_ensure_attention keeps_resolve_attention
  keeps_rollup keeps_set_cursor keeps_clear_cursor

definition step_docket :: "(uuid \<Rightarrow> string) \<Rightarrow> (uuid \<Rightarrow> string) \<Rightarrow> docket_db \<Rightarrow> docket_ledger_op \<Rightarrow> docket_db" where
  "step_docket us simple db x = fst (exec_docket us simple x db)"

lemma keeps_exec_docket: "keeps (exec_docket us simple x)"
  by (cases x) (simp_all add: docket.stays_bind docket.stays_return docket_op_keeps)

interpretation docket_machine: step_frame "step_docket us simple" docket_schema_ok docket_kept for us simple
proof
  fix db x
  show "docket_schema_ok db \<Longrightarrow> docket_schema_ok (step_docket us simple db x)"
    "docket_schema_ok db \<Longrightarrow> docket_kept db (step_docket us simple db x)"
    using staysD [OF keeps_exec_docket, of db us simple x] by (simp_all add: step_docket_def)
qed (rule docket_kept_refl, rule docket_kept_trans)

end
