(* ===== verification/Turn_Completion.thy ===== *)
theory Turn_Completion
  imports Docket_Model
begin

section \<open>May the turn end?\<close>

text \<open>
  \<open>den-runtime/src/runtime/turn_state.rs\<close> (labels, classification of a final answer, execution
  gate, loop detection, resume text) and \<open>runtime/completion_policy.rs\<close> (the decision to
  complete, continue or pause). The JSON document \<open>turn_state_from_sources\<close> assembles for
  prompts is not modelled.
\<close>

subsection \<open>Labels\<close>

datatype tool_enablement_state = ReadOnlyTools | AllTools

record resolved_session_policy =
  rsp_mode_label :: string
  rsp_tool_enablement :: tool_enablement_state
  rsp_plan_mode_state :: "string option"

definition workflow_state_label :: "resolved_session_policy \<Rightarrow> string" where
  "workflow_state_label policy =
     (let s = rsp_plan_mode_state policy in
      if s = Some ''submitted'' then ''submitted_waiting_approval''
      else if s = Some ''approved'' then ''approved''
      else if s = Some ''active'' then ''drafting''
      else if s = Some ''rejected'' then ''cancelled''
      else if rsp_mode_label policy = ''Write'' then ''approved''
      else ''inactive'')"

definition approval_status_label :: "string option \<Rightarrow> string \<Rightarrow> string" where
  "approval_status_label s mode_label =
     (if s = Some ''approved'' then ''approved_execution_unlocked''
      else if s = Some ''submitted'' then ''awaiting_human_approval''
      else if s = Some ''active'' then ''drafting''
      else if s = Some ''rejected'' then ''cancelled''
      else if mode_label = ''Write'' then ''approved_execution_unlocked''
      else ''inactive'')"

subsection \<open>Classifying a final answer\<close>

datatype autonomous_final_response_kind =
    CompletionFinal | BlockedFinal | ReasonedNonActionFinal | ScopeEscalationFinal | RuntimeLimitBlockedFinal
  | ProgressReport | ClarificationRequest | UnsafeActionPermissionRequest

definition mentions :: "string \<Rightarrow> string list \<Rightarrow> bool" where
  "mentions text words \<longleftrightarrow> (\<exists>w \<in> set words. str_contains text w)"

definition classify_autonomous_final_response :: "string \<Rightarrow> autonomous_final_response_kind" where
  "classify_autonomous_final_response text =
     (let lower = to_ascii_lowercase (trim text) in
      if mentions lower [''runtime limit'', ''runtime limits'', ''tool budget'', ''write budget'', ''wall-clock'',
          ''wall clock'', ''loop-ko'', ''further write'', ''fresh turn'']
        then RuntimeLimitBlockedFinal
      else if mentions lower [''need approval'', ''requires approval'', ''permission'']
        then UnsafeActionPermissionRequest
      else if mentions lower [''scope escalation'', ''requires scope escalation'', ''requires a separate'',
          ''separate api migration'', ''separate migration plan'', ''public api migration'', ''out of scope'',
          ''outside scope'', ''public tool protocol'', ''external tool contract'', ''external tool contracts'']
        then ScopeEscalationFinal
      else if mentions lower [''not applicable'', ''waived'', ''intentionally skipped'', ''skipped because'',
          ''not appropriate'', ''no relevant changes'', ''do not commit'', ''did not commit'']
        then ReasonedNonActionFinal
      else if mentions lower [''blocked'', ''cannot continue''] then BlockedFinal
      else if mentions lower [''what i changed'', ''remaining work'', ''next useful steps'', ''next i would'',
          ''i can continue if'']
        then ProgressReport
      else if suffix ''?'' lower then ClarificationRequest
      else CompletionFinal)"

subsection \<open>Loop detection\<close>

record task_focus_loop_detection =
  tfl_detected :: bool
  tfl_continuation_nudges :: nat
  tfl_terminal_objections :: nat
  tfl_repeated_objection_kind :: "autonomous_final_response_kind option"

definition looks_like_task_focus_continuation_nudge :: "string \<Rightarrow> bool" where
  "looks_like_task_focus_continuation_nudge text \<longleftrightarrow>
     (let lower = to_ascii_lowercase text in
      (str_contains lower ''active task'' \<and> str_contains lower ''incomplete'')
      \<or> str_contains lower ''do not final-answer yet''
      \<or> str_contains lower ''continue with:''
      \<or> str_contains lower ''resume execution from the next incomplete''
      \<or> str_contains lower ''you still have incomplete'')"

definition is_terminal_objection_kind :: "autonomous_final_response_kind \<Rightarrow> bool" where
  "is_terminal_objection_kind k \<longleftrightarrow>
     k \<in> set [BlockedFinal, ReasonedNonActionFinal, ScopeEscalationFinal, RuntimeLimitBlockedFinal,
       UnsafeActionPermissionRequest]"

definition terminal_objection_fingerprint :: "string \<Rightarrow> string" where
  "terminal_objection_fingerprint text =
     join_str '' '' (take 16 (filter (\<lambda>w. length w \<ge> 4) (split_whitespace (to_ascii_lowercase text))))"

record objection_scan =
  scan_objections :: nat
  scan_previous_kind :: "autonomous_final_response_kind option"
  scan_previous_fingerprint :: "string option"
  scan_repeated :: "autonomous_final_response_kind option"

definition scan_text :: "objection_scan \<Rightarrow> string \<Rightarrow> objection_scan" where
  "scan_text st text =
     (if looks_like_task_focus_continuation_nudge text then st
      else
        (let kind = classify_autonomous_final_response text in
         if is_terminal_objection_kind kind then
           (let fingerprint = terminal_objection_fingerprint text in
            st\<lparr>scan_objections := scan_objections st + 1,
               scan_repeated := (if scan_previous_kind st = Some kind
                   \<and> scan_previous_fingerprint st = Some fingerprint then Some kind else scan_repeated st),
               scan_previous_kind := Some kind,
               scan_previous_fingerprint := Some fingerprint\<rparr>)
         else st))"

definition detect_task_focus_loop :: "string list \<Rightarrow> task_focus_loop_detection" where
  "detect_task_focus_loop recent =
     (let nudges = length (filter looks_like_task_focus_continuation_nudge recent);
          st = foldl scan_text \<lparr>scan_objections = 0, scan_previous_kind = None, scan_previous_fingerprint = None,
            scan_repeated = None\<rparr> recent
      in \<lparr>tfl_detected = (nudges \<ge> 2 \<and> scan_objections st \<ge> 2 \<and> scan_repeated st \<noteq> None),
          tfl_continuation_nudges = nudges, tfl_terminal_objections = scan_objections st,
          tfl_repeated_objection_kind = scan_repeated st\<rparr>)"

subsection \<open>The execution gate\<close>

record autonomous_execution_gate =
  is_active_autonomous_task :: bool
  has_incomplete_unblocked_items :: bool
  gate_acceptance_criteria_met :: bool
  has_hard_blocker :: bool
  may_stop :: bool
  next_incomplete_task_title :: "string option"

definition inactive_gate :: autonomous_execution_gate where
  "inactive_gate = \<lparr>is_active_autonomous_task = False, has_incomplete_unblocked_items = False,
     gate_acceptance_criteria_met = False, has_hard_blocker = False, may_stop = True,
     next_incomplete_task_title = None\<rparr>"

text \<open>Both gates end in the same computation from what they read off their list.\<close>

definition active_gate ::
    "bool \<Rightarrow> bool \<Rightarrow> string option \<Rightarrow> autonomous_final_response_kind \<Rightarrow> autonomous_execution_gate" where
  "active_gate criteria_met hard_blocker next_title kind =
     (let incomplete = (next_title \<noteq> None);
          stop = (if criteria_met then kind = CompletionFinal
            else if incomplete then False
            else if hard_blocker then kind \<in> set [BlockedFinal, ReasonedNonActionFinal, UnsafeActionPermissionRequest]
            else kind \<in> set [CompletionFinal, ReasonedNonActionFinal])
      in \<lparr>is_active_autonomous_task = True, has_incomplete_unblocked_items = incomplete,
          gate_acceptance_criteria_met = criteria_met, has_hard_blocker = hard_blocker, may_stop = stop,
          next_incomplete_task_title = next_title\<rparr>)"

definition is_autonomous_implementation_plan :: "bear_stance \<Rightarrow> task_list_local_projection \<Rightarrow> bool" where
  "is_autonomous_implementation_plan profile plan \<longleftrightarrow>
     (profile = StPair \<or> profile = StWork)
     \<and> lp_owner_profile plan \<in> set [''pair'', ''work'']
     \<and> lp_status plan \<in> set [''active'', ''blocked'', ''completed'', ''cancelled'']"

definition is_autonomous_task_list :: "bear_stance \<Rightarrow> task_list_projection \<Rightarrow> bool" where
  "is_autonomous_task_list profile task_list \<longleftrightarrow>
     (profile = StPair \<or> profile = StWork)
     \<and> tlp_owner_profile task_list \<in> set [''pair'', ''work'']
     \<and> tlp_status task_list \<in> set [''active'', ''ready'', ''running'', ''blocked'', ''completed'', ''cancelled'']"

definition acceptance_criteria_met :: "task_list_local_projection \<Rightarrow> bool" where
  "acceptance_criteria_met plan \<longleftrightarrow>
     lp_items plan \<noteq> []
     \<and> (\<forall>i \<in> set (lp_items plan). ui_status i = ItemCompleted \<or> ui_status i = ItemCancelled)
     \<and> lp_status plan \<in> set [''completed'', ''cancelled'']"

definition next_incomplete_unblocked_item :: "task_list_update_item list \<Rightarrow> task_list_update_item option" where
  "next_incomplete_unblocked_item items =
     List.find (\<lambda>i. ui_status i = ItemPending \<or> ui_status i = ItemInProgress) items"

definition task_list_acceptance_criteria_met :: "task_list_projection \<Rightarrow> bool" where
  "task_list_acceptance_criteria_met task_list \<longleftrightarrow>
     tlp_items task_list \<noteq> []
     \<and> (\<forall>i \<in> set (tlp_items task_list). it_status i = ItemCompleted \<or> it_status i = ItemCancelled)
     \<and> tlp_status task_list \<in> set [''completed'', ''cancelled'']"

definition next_incomplete_unblocked_task_list_item :: "task_list_item list \<Rightarrow> task_list_item option" where
  "next_incomplete_unblocked_task_list_item items =
     List.find (\<lambda>i. it_status i = ItemPending \<or> it_status i = ItemInProgress) items"

definition autonomous_execution_gate_for_plan ::
    "bear_stance \<Rightarrow> task_list_local_projection option \<Rightarrow> autonomous_final_response_kind
     \<Rightarrow> autonomous_execution_gate" where
  "autonomous_execution_gate_for_plan profile plan kind =
     (case filter_opt (is_autonomous_implementation_plan profile) plan of
        None \<Rightarrow> inactive_gate
      | Some p \<Rightarrow> active_gate (acceptance_criteria_met p) (lp_status p = ''blocked'')
          (map_option ui_title (next_incomplete_unblocked_item (lp_items p))) kind)"

definition autonomous_execution_gate_for_task_list ::
    "bear_stance \<Rightarrow> task_list_projection option \<Rightarrow> autonomous_final_response_kind \<Rightarrow> autonomous_execution_gate" where
  "autonomous_execution_gate_for_task_list profile task_list kind =
     (case filter_opt (is_autonomous_task_list profile) task_list of
        None \<Rightarrow> inactive_gate
      | Some p \<Rightarrow> active_gate (task_list_acceptance_criteria_met p) (tlp_status p = ''blocked'')
          (map_option it_title (next_incomplete_unblocked_task_list_item (tlp_items p))) kind)"

definition should_allow_terminal_response ::
    "bear_stance \<Rightarrow> task_list_local_projection option \<Rightarrow> string \<Rightarrow> bool" where
  "should_allow_terminal_response profile plan text =
     may_stop (autonomous_execution_gate_for_plan profile plan (classify_autonomous_final_response text))"

definition should_allow_terminal_response_for_task_list ::
    "bear_stance \<Rightarrow> task_list_projection option \<Rightarrow> string \<Rightarrow> bool" where
  "should_allow_terminal_response_for_task_list profile task_list text =
     may_stop (autonomous_execution_gate_for_task_list profile task_list (classify_autonomous_final_response text))"

definition autonomous_resume_obligation_text :: "task_list_local_projection \<Rightarrow> string option" where
  "autonomous_resume_obligation_text plan =
     (if lp_owner_profile plan \<notin> set [''pair'', ''work''] then None
      else
        (let nl = [CHR 0x0A];
             items = join_str nl (map (\<lambda>i. ''- '' @ (if ui_status i = ItemCompleted then ''[x]'' else ''[ ]'')
               @ '' '' @ ui_title i) (lp_items plan));
             next = unwrap_or (map_option ui_title (next_incomplete_unblocked_item (lp_items plan)))
               ''resolve blocker before proceeding''
         in Some (''Previous assistant turn ended before completing an autonomous implementation task.'' @ nl @ nl
           @ ''Active goal:'' @ nl @ lp_title plan @ nl @ nl
           @ ''Continuation policy:'' @ nl
           @ ''Continue the next incomplete, unblocked task. Do not provide a progress-only final answer unless the work is complete, blocked, not applicable, waived, or permission-gated. If the next planned action is inappropriate, mark that item blocked or cancelled with evidence and report the reason.''
           @ nl @ nl @ ''Current task state:'' @ nl @ items @ nl @ nl
           @ ''Required action:'' @ nl
           @ ''Resume execution from the next incomplete actionable item: '' @ next @ ''.'')))"

subsection \<open>The completion decision\<close>

datatype turn_completion_complete_reason =
    NoActiveFocusedTask | FocusedWorkCompleteFinalizationDrain | FocusedWorkCompleteOrTerminallyBlocked
  | CompleteRepeatedTerminalObjection

datatype turn_completion_continue_reason = FocusedWorkRemains | RuntimeLimitIsNotFocusedCompletion

datatype turn_completion_pause_reason = PauseRepeatedTerminalObjection

datatype turn_completion_decision =
    Complete turn_completion_complete_reason autonomous_execution_gate autonomous_final_response_kind
      "task_focus_loop_detection option"
  | Continue turn_completion_continue_reason string autonomous_execution_gate autonomous_final_response_kind
  | Pause turn_completion_pause_reason autonomous_execution_gate autonomous_final_response_kind
      task_focus_loop_detection

record turn_completion_policy_input =
  tci_profile :: bear_stance
  tci_current_task_list :: "task_list_projection option"
  tci_assistant_text :: string
  tci_recent_texts :: "string list"

definition should_force_focused_continuation :: "autonomous_execution_gate \<Rightarrow> bool" where
  "should_force_focused_continuation gate \<longleftrightarrow> has_incomplete_unblocked_items gate \<and> \<not> may_stop gate"

definition decide_turn_completion :: "turn_completion_policy_input \<Rightarrow> turn_completion_decision" where
  "decide_turn_completion input =
     (let kind = classify_autonomous_final_response (tci_assistant_text input);
          gate = autonomous_execution_gate_for_task_list (tci_profile input) (tci_current_task_list input) kind
      in if \<not> is_active_autonomous_task gate then Complete NoActiveFocusedTask gate kind None
         else if \<not> has_incomplete_unblocked_items gate \<and> \<not> has_hard_blocker gate
           then Complete FocusedWorkCompleteFinalizationDrain gate kind None
         else if should_force_focused_continuation gate then
           (let detection = detect_task_focus_loop (tci_recent_texts input) in
            if tfl_detected detection \<and> kind \<noteq> RuntimeLimitBlockedFinal
            then Pause PauseRepeatedTerminalObjection gate kind detection
            else
              (let next_task = unwrap_or (next_incomplete_task_title gate) ''the next incomplete task'';
                   reason = (if kind = RuntimeLimitBlockedFinal then RuntimeLimitIsNotFocusedCompletion
                     else FocusedWorkRemains)
               in Continue reason next_task gate kind))
         else Complete FocusedWorkCompleteOrTerminallyBlocked gate kind None)"

end
