(* ===== verification/Docket_Properties.thy ===== *)
theory Docket_Properties
  imports Turn_Completion
begin

section \<open>Turn completion and the status report of a job\<close>

text \<open>
  When a turn may end and what the status report of a docket job says: the completion decision
  of \<open>Turn_Completion\<close> never ends a turn over open work, and the counts, flags and advice of a
  job's report agree with its rows.
\<close>

subsection \<open>The completion decision\<close>

lemma next_item_None:
  "next_incomplete_unblocked_task_list_item items = None \<longleftrightarrow> (\<forall>i \<in> set items. \<not> item_actionable i)"
  by (auto simp: next_incomplete_unblocked_task_list_item_def find_None_all item_actionable_def)

lemma gate_inactive:
  "\<not> is_active_autonomous_task (autonomous_execution_gate_for_task_list profile tasks kind)
   \<longleftrightarrow> (\<forall>p. tasks = Some p \<longrightarrow> \<not> is_autonomous_task_list profile p)"
  by (cases tasks) (auto simp: autonomous_execution_gate_for_task_list_def inactive_gate_def active_gate_def Let_def)

lemma gate_active:
  assumes "is_autonomous_task_list profile p"
  shows "autonomous_execution_gate_for_task_list profile (Some p) kind
    = active_gate (task_list_acceptance_criteria_met p) (tlp_status p = ''blocked'')
        (map_option it_title (next_incomplete_unblocked_task_list_item (tlp_items p))) kind"
  using assms by (simp add: autonomous_execution_gate_for_task_list_def)

lemma criteria_met_nothing_next:
  "task_list_acceptance_criteria_met p \<Longrightarrow> next_incomplete_unblocked_task_list_item (tlp_items p) = None"
  by (auto simp: task_list_acceptance_criteria_met_def next_item_None item_actionable_def)

definition focused_list :: "turn_completion_policy_input \<Rightarrow> task_list_projection \<Rightarrow> bool" where
  "focused_list input p \<longleftrightarrow>
     tci_current_task_list input = Some p \<and> is_autonomous_task_list (tci_profile input) p"

lemma decide_unfocused:
  assumes "\<And>p. \<not> focused_list input p"
  shows "\<exists>g k. decide_turn_completion input = Complete NoActiveFocusedTask g k None"
proof -
  have "\<not> is_active_autonomous_task (autonomous_execution_gate_for_task_list (tci_profile input)
      (tci_current_task_list input) (classify_autonomous_final_response (tci_assistant_text input)))"
    using assms by (auto simp: gate_inactive focused_list_def)
  then show ?thesis by (simp add: decide_turn_completion_def Let_def)
qed

lemma decide_focused_done:
  assumes "focused_list input p" and "next_incomplete_unblocked_task_list_item (tlp_items p) = None"
  shows "\<exists>r g k. decide_turn_completion input = Complete r g k None"
  using assms
  by (simp add: focused_list_def decide_turn_completion_def gate_active active_gate_def Let_def
      should_force_focused_continuation_def)

lemma decide_focused_open:
  assumes "focused_list input p" and "next_incomplete_unblocked_task_list_item (tlp_items p) = Some i"
  shows "\<exists>g. decide_turn_completion input =
    (let kind = classify_autonomous_final_response (tci_assistant_text input);
         detection = detect_task_focus_loop (tci_recent_texts input)
     in if tfl_detected detection \<and> kind \<noteq> RuntimeLimitBlockedFinal
        then Pause PauseRepeatedTerminalObjection g kind detection
        else Continue (if kind = RuntimeLimitBlockedFinal then RuntimeLimitIsNotFocusedCompletion
          else FocusedWorkRemains) (it_title i) g kind)"
proof -
  have "\<not> task_list_acceptance_criteria_met p" using assms(2) criteria_met_nothing_next by fastforce
  then show ?thesis
    using assms
    by (simp add: focused_list_def decide_turn_completion_def gate_active active_gate_def Let_def
        should_force_focused_continuation_def)
qed

lemma detected_counts:
  "tfl_detected (detect_task_focus_loop texts) \<Longrightarrow>
     tfl_continuation_nudges (detect_task_focus_loop texts) \<ge> 2
     \<and> tfl_terminal_objections (detect_task_focus_loop texts) \<ge> 2
     \<and> tfl_repeated_objection_kind (detect_task_focus_loop texts) \<noteq> None"
  by (simp add: detect_task_focus_loop_def Let_def)

text \<open>
  C13. A turn never completes over open work. When the decision is to complete, the current task
  list is not a focused one or has no item that is pending or in progress. When it is to
  continue, the next task is the first such item, and a claimed runtime limit is recorded as the
  reason. When it is to pause, such an item exists, the answer did not claim a runtime limit,
  and the loop detector has seen at least two nudges, two objections and a repeated one.
\<close>
theorem completion_never_abandons_work:
  "case decide_turn_completion input of
     Complete _ _ _ _ \<Rightarrow> (\<forall>p. focused_list input p \<longrightarrow> (\<forall>i \<in> set (tlp_items p). \<not> item_actionable i))
   | Continue reason task _ kind \<Rightarrow>
       (\<exists>p i. focused_list input p \<and> next_incomplete_unblocked_task_list_item (tlp_items p) = Some i
          \<and> task = it_title i)
       \<and> (reason = RuntimeLimitIsNotFocusedCompletion \<longleftrightarrow> kind = RuntimeLimitBlockedFinal)
   | Pause _ _ kind detection \<Rightarrow>
       (\<exists>p i. focused_list input p \<and> next_incomplete_unblocked_task_list_item (tlp_items p) = Some i)
       \<and> kind \<noteq> RuntimeLimitBlockedFinal
       \<and> tfl_continuation_nudges detection \<ge> 2 \<and> tfl_terminal_objections detection \<ge> 2
       \<and> tfl_repeated_objection_kind detection \<noteq> None"
proof (cases "\<exists>p. focused_list input p")
  case False
  then obtain g k where "decide_turn_completion input = Complete NoActiveFocusedTask g k None"
    using decide_unfocused [of input] by blast
  then show ?thesis using False by simp
next
  case True
  then obtain p where p: "focused_list input p" by blast
  then have only: "focused_list input q \<longleftrightarrow> q = p" for q by (auto simp: focused_list_def)
  show ?thesis
  proof (cases "next_incomplete_unblocked_task_list_item (tlp_items p)")
    case None
    then have "\<forall>i \<in> set (tlp_items p). \<not> item_actionable i" by (simp add: next_item_None)
    moreover obtain r g k where "decide_turn_completion input = Complete r g k None"
      using decide_focused_done [OF p None] by blast
    ultimately show ?thesis by (simp add: only)
  next
    case (Some i)
    let ?kind = "classify_autonomous_final_response (tci_assistant_text input)"
    let ?detection = "detect_task_focus_loop (tci_recent_texts input)"
    obtain g where g: "decide_turn_completion input =
        (if tfl_detected ?detection \<and> ?kind \<noteq> RuntimeLimitBlockedFinal
         then Pause PauseRepeatedTerminalObjection g ?kind ?detection
         else Continue (if ?kind = RuntimeLimitBlockedFinal then RuntimeLimitIsNotFocusedCompletion
           else FocusedWorkRemains) (it_title i) g ?kind)"
      using decide_focused_open [OF p Some] unfolding Let_def by blast
    show ?thesis
    proof (cases "tfl_detected ?detection \<and> ?kind \<noteq> RuntimeLimitBlockedFinal")
      case True
      then show ?thesis using g Some detected_counts [of "tci_recent_texts input"] by (simp add: only)
    next
      case False
      then show ?thesis using g Some by (simp add: only)
    qed
  qed
qed

definition sample_projection :: "string \<Rightarrow> task_list_item list \<Rightarrow> task_list_projection" where
  "sample_projection status items = \<lparr>tlp_id = 1, tlp_bear_id = 1, tlp_title = ''t'', tlp_summary = [],
     tlp_owner_profile = ''pair'', tlp_visibility = ''same_user'', tlp_status = status, tlp_version = 1,
     tlp_source_ref = source_ref_local [], tlp_items = items, tlp_current_item = None,
     tlp_source_conversation_id = None, tlp_source_client_session_id = None, tlp_handoff_intent_path = None,
     tlp_handoff_task_id = None, tlp_created_at = 0, tlp_updated_at = 0\<rparr>"

definition sample_item :: "string \<Rightarrow> task_list_item_status \<Rightarrow> task_list_item" where
  "sample_item title status = \<lparr>it_id = title, it_title = title, it_summary = None, it_status = status,
     it_blocked_reason = None, it_source_ref = source_ref_local [], it_sync_state = SyncLocalOnly\<rparr>"

definition sample_completion_input :: turn_completion_policy_input where
  "sample_completion_input = \<lparr>tci_profile = StPair,
     tci_current_task_list = Some (sample_projection ''active'' [sample_item ''a'' ItemCompleted, sample_item ''b'' ItemPending]),
     tci_assistant_text = ''all done'', tci_recent_texts = []\<rparr>"

theorem completion_never_abandons_work_witness:
  "\<nexists>r g k d. decide_turn_completion sample_completion_input = Complete r g k d"
proof
  assume "\<exists>r g k d. decide_turn_completion sample_completion_input = Complete r g k d"
  then obtain r g k d where "decide_turn_completion sample_completion_input = Complete r g k d" by blast
  then have "\<forall>p. focused_list sample_completion_input p \<longrightarrow> (\<forall>i \<in> set (tlp_items p). \<not> item_actionable i)"
    using completion_never_abandons_work [of sample_completion_input] by simp
  then show False
    by (simp add: focused_list_def sample_completion_input_def sample_projection_def sample_item_def
        is_autonomous_task_list_def item_actionable_def)
qed

subsection \<open>The status report\<close>

abbreviation status_in :: "(uuid \<Rightarrow> docket_task_run_state_row option) \<Rightarrow> docket_task_row \<Rightarrow> string" where
  "status_in states t \<equiv> unwrap_or (map_option ts_status (states (dt_id t))) ''pending''"

abbreviation criterion_in :: "(uuid \<Rightarrow> docket_criterion_state_row option) \<Rightarrow> docket_job_criterion_row \<Rightarrow> string" where
  "criterion_in states c \<equiv> unwrap_or (map_option cst_status (states (dc_id c))) ''unmet''"

interpretation in_progress_tally: tally "count_task states active" cnt_in_progress "\<lambda>t. dt_id t \<in> set active"
  for states active
  by unfold_locales (simp add: count_task_def Let_def)

interpretation done_tally: tally "count_task states active" cnt_done
    "\<lambda>t. dt_id t \<notin> set active \<and> status_in states t = ''done''"
  for states active
  by unfold_locales (simp add: count_task_def Let_def)

interpretation blocked_tally: tally "count_task states active" cnt_blocked
    "\<lambda>t. dt_id t \<notin> set active \<and> status_in states t = ''blocked''"
  for states active
  by unfold_locales (simp add: count_task_def Let_def)

interpretation cancelled_tally: tally "count_task states active" cnt_cancelled
    "\<lambda>t. dt_id t \<notin> set active \<and> status_in states t = ''cancelled''"
  for states active
  by unfold_locales (simp add: count_task_def Let_def)

interpretation pending_tally: tally "count_task states active" cnt_pending
    "\<lambda>t. dt_id t \<notin> set active \<and> status_in states t \<notin> {''done'', ''blocked'', ''cancelled''}"
  for states active
  by unfold_locales (simp add: count_task_def Let_def)

interpretation met_tally: tally "count_criterion states" ccnt_met "\<lambda>c. criterion_in states c = ''met''" for states
  by unfold_locales (simp add: count_criterion_def Let_def)

interpretation waived_tally: tally "count_criterion states" ccnt_waived "\<lambda>c. criterion_in states c = ''waived''" for states
  by unfold_locales (simp add: count_criterion_def Let_def)

interpretation unmet_tally: tally "count_criterion states" ccnt_unmet
    "\<lambda>c. criterion_in states c \<notin> {''met'', ''waived''}" for states
  by unfold_locales (simp add: count_criterion_def Let_def)

lemmas tallies = in_progress_tally.fold_tally done_tally.fold_tally blocked_tally.fold_tally
  cancelled_tally.fold_tally pending_tally.fold_tally met_tally.fold_tally waived_tally.fold_tally
  unmet_tally.fold_tally

definition task_status_of :: "docket_job_projection \<Rightarrow> docket_task_row \<Rightarrow> string" where
  "task_status_of p = status_in (collected ts_task_id (jp_task_states p))"

definition criterion_status_of :: "docket_job_projection \<Rightarrow> docket_job_criterion_row \<Rightarrow> string" where
  "criterion_status_of p = criterion_in (collected cst_criterion_id (jp_criteria_states p))"

definition executing :: "docket_job_projection \<Rightarrow> docket_task_row \<Rightarrow> bool" where
  "executing p t \<longleftrightarrow> dt_id t \<in> set (jp_active_task_ids p)"

definition task_settled :: "docket_job_projection \<Rightarrow> docket_task_row \<Rightarrow> bool" where
  "task_settled p t \<longleftrightarrow> \<not> executing p t \<and> task_status_of p t \<in> {''done'', ''cancelled''}"

definition criterion_settled :: "docket_job_projection \<Rightarrow> docket_job_criterion_row \<Rightarrow> bool" where
  "criterion_settled p c \<longleftrightarrow> criterion_status_of p c \<in> {''met'', ''waived''}"

lemma report_task_counts:
  "cnt_in_progress (rpt_task_counts (docket_job_status_report p)) = length (filter (executing p) (jp_tasks p))"
  "cnt_done (rpt_task_counts (docket_job_status_report p))
     = length (filter (\<lambda>t. \<not> executing p t \<and> task_status_of p t = ''done'') (jp_tasks p))"
  "cnt_blocked (rpt_task_counts (docket_job_status_report p))
     = length (filter (\<lambda>t. \<not> executing p t \<and> task_status_of p t = ''blocked'') (jp_tasks p))"
  "cnt_cancelled (rpt_task_counts (docket_job_status_report p))
     = length (filter (\<lambda>t. \<not> executing p t \<and> task_status_of p t = ''cancelled'') (jp_tasks p))"
  "cnt_pending (rpt_task_counts (docket_job_status_report p))
     = length (filter (\<lambda>t. \<not> executing p t \<and> task_status_of p t \<notin> {''done'', ''blocked'', ''cancelled''}) (jp_tasks p))"
  by (simp_all add: docket_job_status_report_def Let_def tallies executing_def [abs_def] task_status_of_def)

lemma report_criteria_counts:
  "ccnt_met (rpt_criteria_counts (docket_job_status_report p))
     = length (filter (\<lambda>c. criterion_status_of p c = ''met'') (jp_criteria p))"
  "ccnt_waived (rpt_criteria_counts (docket_job_status_report p))
     = length (filter (\<lambda>c. criterion_status_of p c = ''waived'') (jp_criteria p))"
  "ccnt_unmet (rpt_criteria_counts (docket_job_status_report p))
     = length (filter (\<lambda>c. criterion_status_of p c \<notin> {''met'', ''waived''}) (jp_criteria p))"
  by (simp_all add: docket_job_status_report_def Let_def tallies criterion_status_of_def)

lemma length_filter_pos: "0 < length (filter P xs) \<longleftrightarrow> (\<exists>x \<in> set xs. P x)"
  by (simp add: filter_empty_conv)

lemma tasks_partition:
  "length (filter (\<lambda>t. \<not> executing p t \<and> task_status_of p t \<notin> {''done'', ''blocked'', ''cancelled''}) ts)
   + length (filter (executing p) ts)
   + length (filter (\<lambda>t. \<not> executing p t \<and> task_status_of p t = ''done'') ts)
   + length (filter (\<lambda>t. \<not> executing p t \<and> task_status_of p t = ''blocked'') ts)
   + length (filter (\<lambda>t. \<not> executing p t \<and> task_status_of p t = ''cancelled'') ts) = length ts"
  by (induction ts) auto

lemma criteria_partition:
  "length (filter (\<lambda>c. criterion_status_of p c \<notin> {''met'', ''waived''}) cs)
   + length (filter (\<lambda>c. criterion_status_of p c = ''met'') cs)
   + length (filter (\<lambda>c. criterion_status_of p c = ''waived'') cs) = length cs"
  by (induction cs) auto

lemma report_tasks_complete:
  "rpt_tasks_complete (docket_job_status_report p) \<longleftrightarrow> (\<forall>t \<in> set (jp_tasks p). task_settled p t)"
proof -
  let ?n = "rpt_task_counts (docket_job_status_report p)"
  have "rpt_tasks_complete (docket_job_status_report p) \<longleftrightarrow>
      cnt_pending ?n = 0 \<and> cnt_in_progress ?n = 0 \<and> cnt_blocked ?n = 0
      \<and> cnt_done ?n + cnt_cancelled ?n = length (jp_tasks p)"
    by (simp add: docket_job_status_report_def Let_def)
  also have "\<dots> \<longleftrightarrow> cnt_pending ?n = 0 \<and> cnt_in_progress ?n = 0 \<and> cnt_blocked ?n = 0"
    unfolding report_task_counts using tasks_partition [of p "jp_tasks p"] by linarith
  also have "\<dots> \<longleftrightarrow> (\<forall>t \<in> set (jp_tasks p). task_settled p t)"
    unfolding report_task_counts length_0_conv filter_empty_conv task_settled_def by auto
  finally show ?thesis .
qed

lemma report_criteria_complete:
  "rpt_criteria_complete (docket_job_status_report p) \<longleftrightarrow> (\<forall>c \<in> set (jp_criteria p). criterion_settled p c)"
proof -
  let ?n = "rpt_criteria_counts (docket_job_status_report p)"
  have "rpt_criteria_complete (docket_job_status_report p) \<longleftrightarrow>
      jp_criteria p = [] \<or> ccnt_unmet ?n = 0 \<and> ccnt_met ?n + ccnt_waived ?n = length (jp_criteria p)"
    by (simp add: docket_job_status_report_def Let_def)
  also have "\<dots> \<longleftrightarrow> ccnt_unmet ?n = 0"
    unfolding report_criteria_counts using criteria_partition [of p "jp_criteria p"] by auto
  also have "\<dots> \<longleftrightarrow> (\<forall>c \<in> set (jp_criteria p). criterion_settled p c)"
    unfolding report_criteria_counts length_0_conv filter_empty_conv criterion_settled_def by auto
  finally show ?thesis .
qed

lemma report_next_action_done:
  assumes "rpt_next_action (docket_job_status_report p) = ''done''"
  shows "rpt_job_status (docket_job_status_report p) = ''completed''
    \<and> rpt_tasks_complete (docket_job_status_report p) \<and> rpt_criteria_complete (docket_job_status_report p)"
proof -
  let ?r = "docket_job_status_report p"
  have "rpt_next_action ?r =
      (if rpt_job_status ?r = ''stalled'' then ''resolve_stalled_work_run''
       else if cnt_blocked (rpt_task_counts ?r) > 0 \<or> rpt_job_status ?r = ''blocked'' then ''resolve_blocked_task_or_criterion''
       else if cnt_in_progress (rpt_task_counts ?r) > 0 then ''continue_current_task''
       else if cnt_pending (rpt_task_counts ?r) > 0 then ''execute_job_to_select_next_task''
       else if \<not> rpt_criteria_complete ?r then ''evaluate_remaining_criteria''
       else if rpt_job_status ?r \<noteq> ''completed'' then ''execute_job_to_complete''
       else ''done'')"
    by (simp add: docket_job_status_report_def Let_def)
  then have "rpt_job_status ?r = ''completed''" "rpt_criteria_complete ?r"
    and none: "cnt_blocked (rpt_task_counts ?r) = 0" "cnt_in_progress (rpt_task_counts ?r) = 0"
      "cnt_pending (rpt_task_counts ?r) = 0"
    using assms by (auto split: if_splits)
  moreover have "rpt_tasks_complete ?r"
    unfolding report_tasks_complete task_settled_def
    using none unfolding report_task_counts length_0_conv filter_empty_conv by auto
  ultimately show ?thesis by blast
qed

lemma derived_completed:
  assumes "derived_docket_job_status p = ''completed''" and "dj_lifecycle_intent (jp_job p) = None"
    and "distinct (map ts_task_id (jp_task_states p))"
    and "distinct (map cst_criterion_id (jp_criteria_states p))"
  shows "(\<forall>t \<in> set (jp_tasks p). task_settled p t) \<and> (\<forall>c \<in> set (jp_criteria p). criterion_settled p c)"
proof -
  have idle: "jp_active_task_ids p = []"
    and tasks: "\<forall>t \<in> set (jp_tasks p).
      is_some_and (List.find (\<lambda>s. ts_task_id s = dt_id t) (jp_task_states p)) task_state_done"
    and criteria: "\<forall>c \<in> set (jp_criteria p).
      is_some_and (List.find (\<lambda>s. cst_criterion_id s = dc_id c) (jp_criteria_states p)) criterion_state_done"
    using assms(1,2) by (auto simp: derived_docket_job_status_def Let_def split: if_splits)
  have "task_settled p t" if "t \<in> set (jp_tasks p)" for t
    using tasks that idle
    by (cases "List.find (\<lambda>s. ts_task_id s = dt_id t) (jp_task_states p)")
      (auto simp: task_settled_def executing_def task_status_of_def collected_def
        find_distinct_rev [OF assms(3)] task_state_done_def)
  moreover have "criterion_settled p c" if "c \<in> set (jp_criteria p)" for c
    using criteria that
    by (cases "List.find (\<lambda>s. cst_criterion_id s = dc_id c) (jp_criteria_states p)")
      (auto simp: criterion_settled_def criterion_status_of_def collected_def
        find_distinct_rev [OF assms(4)] criterion_state_done_def)
  ultimately show ?thesis by blast
qed

text \<open>
  The status report of a job is consistent. Its five task counts and its three criteria
  counts partition the tasks and the criteria; tasks are reported complete exactly when each is
  done or cancelled and none is executing, criteria when each is met or waived; the advice is
  "done" only for a completed job with both complete; and a job without an explicit lifecycle
  intent derives the status "completed" only when both are complete, provided each task and each
  criterion has one state row.
\<close>
theorem status_report_consistent:
  "let r = docket_job_status_report p; n = rpt_task_counts r; c = rpt_criteria_counts r in
     cnt_pending n + cnt_in_progress n + cnt_done n + cnt_blocked n + cnt_cancelled n = length (jp_tasks p)
     \<and> ccnt_unmet c + ccnt_met c + ccnt_waived c = length (jp_criteria p)
     \<and> (rpt_tasks_complete r \<longleftrightarrow> (\<forall>t \<in> set (jp_tasks p). task_settled p t))
     \<and> (rpt_criteria_complete r \<longleftrightarrow> (\<forall>c \<in> set (jp_criteria p). criterion_settled p c))
     \<and> (rpt_next_action r = ''done'' \<longrightarrow>
          rpt_job_status r = ''completed'' \<and> rpt_tasks_complete r \<and> rpt_criteria_complete r)
     \<and> (derived_docket_job_status p = ''completed'' \<and> dj_lifecycle_intent (jp_job p) = None
          \<and> distinct (map ts_task_id (jp_task_states p)) \<and> distinct (map cst_criterion_id (jp_criteria_states p))
        \<longrightarrow> rpt_tasks_complete r \<and> rpt_criteria_complete r)"
proof -
  note counts = tasks_partition [of p "jp_tasks p"] criteria_partition [of p "jp_criteria p"]
  show ?thesis
    unfolding Let_def report_tasks_complete report_criteria_complete
    using counts [folded report_task_counts report_criteria_counts]
      report_next_action_done [of p, unfolded report_tasks_complete report_criteria_complete] derived_completed [of p]
    by blast
qed

definition sample_task :: "uuid \<Rightarrow> uuid option \<Rightarrow> int \<Rightarrow> docket_task_row" where
  "sample_task i parent order = \<lparr>dt_id = i, dt_bear_id = 1, dt_job_id = Some 1, dt_session_anchor_id = None,
     dt_parent_task_id = parent, dt_sibling_order = order, dt_kind = ''execution'', dt_scope = ''run'',
     dt_title = ''t'', dt_body = ''b'', dt_completion_criteria = [''c''], dt_difficulty = None,
     dt_effort_hint = None, dt_routing_strategy = ''auto'', dt_expected_context_size = None,
     dt_result_rollup_policy = None, dt_created_by_role = ''chat'', dt_created_by_user_id = None,
     dt_created_by_agent_id = None, dt_created_in_run_id = None, dt_settled_by_entry_id = None,
     dt_created_at = 0, dt_updated_at = 0\<rparr>"

definition sample_state :: "uuid \<Rightarrow> string \<Rightarrow> docket_task_run_state_row" where
  "sample_state i status = \<lparr>ts_run_id = 1, ts_task_id = i, ts_status = status, ts_result_refs = None,
     ts_result_summary = None, ts_started_at = None, ts_finished_at = None, ts_updated_at = 0\<rparr>"

definition sample_criterion :: "uuid \<Rightarrow> docket_job_criterion_row" where
  "sample_criterion i = \<lparr>dc_id = i, dc_job_id = 1, dc_kind = ''narrative'', dc_description = ''d'', dc_spec = None,
     dc_sibling_order = 0, dc_created_at = 0, dc_updated_at = 0\<rparr>"

definition sample_criterion_state :: "uuid \<Rightarrow> string \<Rightarrow> docket_criterion_state_row" where
  "sample_criterion_state i status = \<lparr>cst_run_id = 1, cst_criterion_id = i, cst_status = status,
     cst_evaluated_at = None, cst_evidence = None, cst_updated_at = 0\<rparr>"

definition sample_job :: docket_job_row where
  "sample_job = \<lparr>dj_id = 1, dj_bear_id = 1, dj_created_by_user_id = 1, dj_created_by_role = ''chat'',
     dj_goal = ''g'', dj_work_surface_id = Some 1, dj_commit_policy = None, dj_work_branch = None,
     dj_status = ''ready'', dj_lifecycle_intent = None, dj_visibility = ''same_user'',
     dj_source_conversation_id = None, dj_objective_kind = None, dj_supersedes_job_id = None,
     dj_current_run_id = None, dj_created_at = 0, dj_updated_at = 0\<rparr>"

definition sample_docket_job :: docket_job_projection where
  "sample_docket_job = \<lparr>jp_job = sample_job, jp_current_run = None,
     jp_criteria = [sample_criterion 7], jp_criteria_states = [sample_criterion_state 7 ''met''],
     jp_tasks = [sample_task 3 None 1, sample_task 2 None 0],
     jp_task_states = [sample_state 2 ''done'', sample_state 3 ''cancelled''], jp_active_task_ids = []\<rparr>"

lemmas sample_docket_eval = sample_docket_job_def sample_job_def sample_task_def sample_state_def
  sample_criterion_def sample_criterion_state_def

theorem status_report_consistent_witness:
  "rpt_tasks_complete (docket_job_status_report sample_docket_job)
   \<and> rpt_criteria_complete (docket_job_status_report sample_docket_job)
   \<and> cnt_done (rpt_task_counts (docket_job_status_report sample_docket_job)) = 1"
proof -
  have "derived_docket_job_status sample_docket_job = ''completed''"
    by (simp add: derived_docket_job_status_def sample_docket_eval task_state_done_def criterion_state_done_def)
  moreover have "dj_lifecycle_intent (jp_job sample_docket_job) = None"
    "distinct (map ts_task_id (jp_task_states sample_docket_job))"
    "distinct (map cst_criterion_id (jp_criteria_states sample_docket_job))"
    by (simp_all add: sample_docket_eval)
  ultimately have "rpt_tasks_complete (docket_job_status_report sample_docket_job)"
    "rpt_criteria_complete (docket_job_status_report sample_docket_job)"
    using status_report_consistent [of sample_docket_job] unfolding Let_def by blast+
  then show ?thesis
    unfolding report_task_counts executing_def task_status_of_def collected_def by (simp add: sample_docket_eval)
qed

end
