(* ===== verification/Docket_Contracts.thy ===== *)
theory Docket_Contracts
  imports Docket_Properties
begin

section \<open>Contracts of the docket model\<close>

text \<open>
  What the callers of \<open>den-docket/src/model.rs\<close> rely on: projections that do not depend on the
  order of their input, source references that survive the trip through text, the conditions
  under which a job is accepted, the bounds of the notebook context.
\<close>

subsection \<open>Texts of uuids\<close>

text \<open>
  What the source relies on of the \<open>uuid\<close> crate: a uuid prints as a non-empty text of lower-case
  hexadecimal digits and hyphens, and its parser reads that text back.
\<close>

definition uuid_char :: "char \<Rightarrow> bool" where
  "uuid_char c \<longleftrightarrow> c \<in> set ''0123456789abcdef-''"

definition uuid_text :: "(uuid \<Rightarrow> string) \<Rightarrow> (string \<Rightarrow> uuid option) \<Rightarrow> bool" where
  "uuid_text us pu \<longleftrightarrow> (\<forall>i. pu (us i) = Some i \<and> us i \<noteq> [] \<and> list_all uuid_char (us i))"

definition unary_uuid :: "uuid \<Rightarrow> string" where
  "unary_uuid i = replicate (Suc i) CHR ''a''"

definition parse_unary_uuid :: "string \<Rightarrow> uuid option" where
  "parse_unary_uuid s = (if s \<noteq> [] \<and> list_all ((=) CHR ''a'') s then Some (length s - 1) else None)"

lemma uuid_text_unary: "uuid_text unary_uuid parse_unary_uuid"
  by (simp add: uuid_text_def unary_uuid_def parse_unary_uuid_def uuid_char_def list_all_iff)

lemma uuid_char_graphic: "list_all uuid_char s \<Longrightarrow> list_all graphic s"
proof -
  have "graphic c" if "uuid_char c" for c
    using that unfolding uuid_char_def list.set insert_iff by (elim disjE) (simp_all add: graphic_def)
  then show "list_all uuid_char s \<Longrightarrow> list_all graphic s" by (simp add: list_all_iff)
qed

lemma uuid_text_facts:
  assumes "uuid_text us pu"
  shows "pu (us i) = Some i" "us i \<noteq> []" "list_all graphic (us i)" "us i \<noteq> ''<none>''"
    "us i = us j \<longleftrightarrow> i = j" "trim (us i) = us i"
proof -
  have all: "pu (us i) = Some i" "us i \<noteq> []" "list_all uuid_char (us i)" for i
    using assms by (auto simp: uuid_text_def)
  show "pu (us i) = Some i" "us i \<noteq> []" by (rule all)+
  show graphic: "list_all graphic (us i)" using all(3) by (rule uuid_char_graphic)
  show "trim (us i) = us i" using graphic by (rule trim_graphic)
  show "us i \<noteq> ''<none>''"
  proof
    assume "us i = ''<none>''"
    then show False using all(3) [of i] by (simp add: uuid_char_def)
  qed
  show "us i = us j \<longleftrightarrow> i = j" by (metis all(1) option.inject)
qed

subsection \<open>Projections\<close>

lemma task_sort_key_inj: "distinct (map dt_id ts) \<Longrightarrow> inj_on task_sort_key (set ts)"
  by (auto simp: inj_on_def task_sort_key_def distinct_map)

lemma sorted_level_order:
  assumes "mset (jp_tasks p) = mset (jp_tasks q)" and "distinct (map dt_id (jp_tasks p))"
  shows "sort_key task_sort_key (filter P (jp_tasks p)) = sort_key task_sort_key (filter P (jp_tasks q))"
proof (rule sort_key_mset_eq)
  show "mset (filter P (jp_tasks p)) = mset (filter P (jp_tasks q))" using assms(1) by simp
  show "inj_on task_sort_key (set (filter P (jp_tasks p)))"
    using task_sort_key_inj [OF assms(2)] by (rule inj_on_subset) simp
qed

text \<open>Two projections of a job that differ only in the order in which the database returned the rows.\<close>

definition same_docket :: "docket_job_projection \<Rightarrow> docket_job_projection \<Rightarrow> bool" where
  "same_docket p q \<longleftrightarrow>
     jp_job p = jp_job q \<and> jp_current_run p = jp_current_run q
     \<and> mset (jp_criteria p) = mset (jp_criteria q) \<and> mset (jp_criteria_states p) = mset (jp_criteria_states q)
     \<and> mset (jp_tasks p) = mset (jp_tasks q) \<and> mset (jp_task_states p) = mset (jp_task_states q)
     \<and> mset (jp_active_task_ids p) = mset (jp_active_task_ids q)
     \<and> distinct (map dt_id (jp_tasks p))
     \<and> distinct (map ts_task_id (jp_task_states p)) \<and> distinct (map cst_criterion_id (jp_criteria_states p))"

lemma mset_Nil_iff: "mset xs = mset ys \<Longrightarrow> xs = [] \<longleftrightarrow> ys = []"
  by auto

lemma same_docket_status:
  assumes "same_docket p q"
  shows "derived_docket_job_status p = derived_docket_job_status q"
proof -
  have rows: "jp_job p = jp_job q" "jp_current_run p = jp_current_run q"
    "jp_active_task_ids p = [] \<longleftrightarrow> jp_active_task_ids q = []"
    "set (jp_task_states p) = set (jp_task_states q)" "set (jp_tasks p) = set (jp_tasks q)"
    "set (jp_criteria p) = set (jp_criteria q)"
    "jp_tasks p = [] \<longleftrightarrow> jp_tasks q = []" "jp_criteria p = [] \<longleftrightarrow> jp_criteria q = []"
    using assms by (auto simp: same_docket_def dest: mset_eq_setD)
  have lookups: "List.find (\<lambda>s. ts_task_id s = k) (jp_task_states p) = List.find (\<lambda>s. ts_task_id s = k) (jp_task_states q)"
    "List.find (\<lambda>s. cst_criterion_id s = k) (jp_criteria_states p)
      = List.find (\<lambda>s. cst_criterion_id s = k) (jp_criteria_states q)" for k
    using assms by (simp_all add: same_docket_def same_rows_same_lookup)
  show ?thesis unfolding derived_docket_job_status_def Let_def rows lookups ..
qed

lemma same_docket_collected:
  assumes "same_docket p q"
  shows "collected ts_task_id (jp_task_states p) k = collected ts_task_id (jp_task_states q) k"
  unfolding collected_def
  using assms by (intro same_rows_same_lookup) (simp_all add: same_docket_def rev_map [symmetric])

text \<open>
  The task list projected from a docket job does not depend on the order in which its tasks,
  states, criteria and executing ids were read: two readings of the same rows, with one row per
  id, give the same list of items in the same order, the same current item and the same status.
\<close>
theorem projection_order_independent:
  assumes "same_docket p q"
  shows "task_list_projection_from_docket_job us p parent = task_list_projection_from_docket_job us q parent"
proof -
  have "jp_job p = jp_job q" "set (jp_active_task_ids p) = set (jp_active_task_ids q)"
    "mset (jp_tasks p) = mset (jp_tasks q)" "distinct (map dt_id (jp_tasks p))"
    using assms by (auto simp: same_docket_def dest: mset_eq_setD)
  then show ?thesis
    using same_docket_status [OF assms] same_docket_collected [OF assms]
      sorted_level_order [of p q "\<lambda>t. dt_parent_task_id t = parent"]
    by (simp add: task_list_projection_from_docket_job_def Let_def)
qed

definition sample_docket_reread :: docket_job_projection where
  "sample_docket_reread = sample_docket_job\<lparr>jp_tasks := rev (jp_tasks sample_docket_job),
     jp_task_states := rev (jp_task_states sample_docket_job)\<rparr>"

theorem projection_order_independent_witness:
  "map it_id (tlp_items (task_list_projection_from_docket_job unary_uuid sample_docket_reread None)) = [''aaa'', ''aaaa'']
   \<and> task_list_projection_from_docket_job unary_uuid sample_docket_job None
     = task_list_projection_from_docket_job unary_uuid sample_docket_reread None"
proof
  have "same_docket sample_docket_job sample_docket_reread"
    by (simp add: same_docket_def sample_docket_reread_def sample_docket_eval)
  then show "task_list_projection_from_docket_job unary_uuid sample_docket_job None
      = task_list_projection_from_docket_job unary_uuid sample_docket_reread None"
    by (rule projection_order_independent)
  show "map it_id (tlp_items (task_list_projection_from_docket_job unary_uuid sample_docket_reread None))
      = [''aaa'', ''aaaa'']"
    by (simp add: task_list_projection_from_docket_job_def sample_docket_reread_def sample_docket_eval
        task_list_item_from_docket_task_def task_sort_key_def unary_uuid_def numeral_eq_Suc Let_def)
qed

subsection \<open>Source references\<close>

lemma graphic_prefixes:
  "list_all graphic ''docket_job:''" "list_all graphic ''docket_task:''" "list_all graphic ''docket_parent_task:''"
  "list_all graphic ''<none>''"
  by (simp_all add: graphic_def)

lemma strip_prefix_append [simp]: "strip_prefix p (p @ s) = Some s"
  by (simp add: strip_prefix_def)

lemma trim_job_ref: "list_all graphic s \<Longrightarrow> trim (''docket_job:'' @ s) = ''docket_job:'' @ s"
  and trim_task_ref: "list_all graphic s \<Longrightarrow> trim (''docket_task:'' @ s) = ''docket_task:'' @ s"
  and trim_parent_ref: "list_all graphic s \<Longrightarrow> trim (''docket_parent_task:'' @ s) = ''docket_parent_task:'' @ s"
  by (rule trim_graphic; simp only: list_all_append graphic_prefixes simp_thms)+

lemma strip_other_prefix:
  "strip_prefix ''docket_job:'' (''docket_task:'' @ s) = None"
  "strip_prefix ''docket_job:'' (''docket_parent_task:'' @ s) = None"
  "strip_prefix ''docket_parent_task:'' (''docket_task:'' @ s) = None"
  by (simp_all add: strip_prefix_def)

lemma missing_job_ref: "''docket_job:<none>'' = ''docket_job:'' @ ''<none>''"
  by simp

lemma parse_source_ref_str:
  assumes "uuid_text us pu"
  shows "docket_source_ref_parse pu (docket_source_ref_str us r) = Some r"
proof -
  note us = uuid_text_facts [OF assms]
  have other: "''docket_task:'' @ s \<noteq> ''docket_job:<none>''" "''docket_parent_task:'' @ s \<noteq> ''docket_job:<none>''"
    for s by simp_all
  have job: "''docket_job:'' @ us i \<noteq> ''docket_job:<none>''" for i
    unfolding missing_job_ref same_append_eq by (rule us)
  show ?thesis
  proof (cases r)
    case (RefJob i)
    then show ?thesis
      unfolding docket_source_ref_parse_def RefJob docket_source_ref_str.simps
      by (simp only: trim_job_ref [OF us(3)] Let_def job if_False strip_prefix_append option.case us option.map)
  next
    case (RefParentTask i)
    then show ?thesis
      unfolding docket_source_ref_parse_def RefParentTask docket_source_ref_str.simps
      by (simp only: trim_parent_ref [OF us(3)] Let_def other if_False strip_other_prefix strip_prefix_append
          option.case us option.map)
  next
    case (RefTask i)
    then show ?thesis
      unfolding docket_source_ref_parse_def RefTask docket_source_ref_str.simps
      by (simp only: trim_task_ref [OF us(3)] Let_def other if_False strip_other_prefix strip_prefix_append
          option.case us option.map)
  next
    case RefMissingJob
    have "trim ''docket_job:<none>'' = ''docket_job:<none>''"
      using trim_job_ref [of "''<none>''"] graphic_prefixes(4) by simp
    then show ?thesis using RefMissingJob by (simp add: docket_source_ref_parse_def)
  qed
qed

lemma scan_job_ref: "list_all graphic s \<Longrightarrow> s \<noteq> [] \<Longrightarrow> scan_docket_ref st (''docket_job:'' @ s) = (Some s, snd st)"
  unfolding scan_docket_ref_def
  by (simp only: trim_job_ref Let_def strip_prefix_append option.case trim_graphic not_False_eq_True if_True)

lemma scan_task_ref: "list_all graphic s \<Longrightarrow> s \<noteq> [] \<Longrightarrow> scan_docket_ref st (''docket_task:'' @ s) = (fst st, Some s)"
  unfolding scan_docket_ref_def
  by (simp only: trim_task_ref Let_def strip_other_prefix strip_prefix_append option.case trim_graphic not_False_eq_True if_True)

lemma item_refs_reread:
  assumes "uuid_text us pu"
  shows "parse_docket_source_refs (sr_refs (it_source_ref (task_list_item_from_docket_task us t state active)))
    = Some (source_ref_docket_task (Some (case dt_job_id t of Some j \<Rightarrow> us j | None \<Rightarrow> ''<none>'')) (us (dt_id t))
        (sr_refs (it_source_ref (task_list_item_from_docket_task us t state active))))"
proof -
  note us = uuid_text_facts [OF assms]
  let ?job = "case dt_job_id t of Some j \<Rightarrow> us j | None \<Rightarrow> ''<none>''"
  have job: "list_all graphic ?job" "?job \<noteq> []"
    using us graphic_prefixes(4) by (auto split: option.split)
  have refs: "sr_refs (it_source_ref (task_list_item_from_docket_task us t state active))
      = [''docket_job:'' @ ?job, ''docket_task:'' @ us (dt_id t)]"
    by (simp add: task_list_item_from_docket_task_def source_ref_docket_task_def Let_def split: option.split)
  have "foldl scan_docket_ref (None, None) [''docket_job:'' @ ?job, ''docket_task:'' @ us (dt_id t)]
      = (Some ?job, Some (us (dt_id t)))"
    by (simp only: foldl_Cons foldl_Nil scan_job_ref [OF job] scan_task_ref [OF us(3) us(2)] fst_conv)
  then show ?thesis
    unfolding refs parse_docket_source_refs_def by (simp only: prod.case option.map)
qed

text \<open>
  Source references survive the trip through text, for any printer and parser of uuids that
  fit: every reference printed is read back as itself; the parent task of a checkout is found
  again in the task list it projects; and the references of an item of a task with a job are
  read back as the item's own source reference. The item of a task without a job does not
  survive: its reference \<open>docket_job:<none>\<close> is read back as the job named \<open><none>\<close>.
\<close>
theorem source_ref_roundtrip:
  assumes "uuid_text us pu"
  shows "docket_source_ref_parse pu (docket_source_ref_str us r) = Some r
    \<and> docket_parent_task_ref pu (tlp_source_ref (task_list_projection_from_docket_job us p parent)) = parent
    \<and> (dt_job_id t \<noteq> None \<longrightarrow>
        parse_docket_source_refs (sr_refs (it_source_ref (task_list_item_from_docket_task us t state active)))
        = Some (it_source_ref (task_list_item_from_docket_task us t state active)))
    \<and> (dt_job_id t = None \<longrightarrow>
        parse_docket_source_refs (sr_refs (it_source_ref (task_list_item_from_docket_task us t state active)))
        = Some ((it_source_ref (task_list_item_from_docket_task us t state active))\<lparr>sr_docket_job_id := Some ''<none>''\<rparr>)
        \<and> sr_docket_job_id (it_source_ref (task_list_item_from_docket_task us t state active)) = None)"
proof (intro conjI impI)
  show "docket_source_ref_parse pu (docket_source_ref_str us r) = Some r"
    by (rule parse_source_ref_str [OF assms])
  show "docket_parent_task_ref pu (tlp_source_ref (task_list_projection_from_docket_job us p parent)) = parent"
    by (cases parent)
      (simp_all add: docket_parent_task_ref_def task_list_projection_from_docket_job_def source_ref_docket_job_def
        docket_checkout_refs_def parse_source_ref_str [OF assms] Let_def del: docket_source_ref_str.simps)
  show "parse_docket_source_refs (sr_refs (it_source_ref (task_list_item_from_docket_task us t state active)))
      = Some (it_source_ref (task_list_item_from_docket_task us t state active))" if "dt_job_id t \<noteq> None"
    using that unfolding item_refs_reread [OF assms]
    by (auto simp: task_list_item_from_docket_task_def source_ref_docket_task_def Let_def)
  show "parse_docket_source_refs (sr_refs (it_source_ref (task_list_item_from_docket_task us t state active)))
      = Some ((it_source_ref (task_list_item_from_docket_task us t state active))\<lparr>sr_docket_job_id := Some ''<none>''\<rparr>)"
    "sr_docket_job_id (it_source_ref (task_list_item_from_docket_task us t state active)) = None" if "dt_job_id t = None"
    using that unfolding item_refs_reread [OF assms]
    by (simp_all add: task_list_item_from_docket_task_def source_ref_docket_task_def Let_def)
qed

theorem source_ref_roundtrip_witness:
  "docket_source_ref_parse parse_unary_uuid (docket_source_ref_str unary_uuid (RefParentTask 5)) = Some (RefParentTask 5)"
  using source_ref_roundtrip [OF uuid_text_unary, of "RefParentTask 5"] by blast

subsection \<open>The task list of a session\<close>

definition session_item :: "(uuid \<Rightarrow> string) \<Rightarrow> docket_task_projection \<Rightarrow> task_list_item" where
  "session_item us p = task_list_item_from_docket_task us (tp_task p) (tp_run_state p) False"

lemma session_item_id [simp]: "it_id (session_item us p) = us (dt_id (tp_task p))"
  by (simp add: session_item_def task_list_item_from_docket_task_def Let_def)

lemma session_projection:
  assumes "tasks \<noteq> []"
  defines "level s \<equiv> sort_key (\<lambda>p. task_sort_key (tp_task p)) (filter (in_selected_level (Some s)
      (Option.bind (List.find (\<lambda>p. dt_id (tp_task p) = s) tasks) (\<lambda>p. dt_parent_task_id (tp_task p)))) tasks)"
  obtains p where
    "task_list_projection_from_session_tasks_with_current_task us bear owner conversation anchor tasks (Some s) = Some p"
    "tlp_items p = map (session_item us) (level s)"
    "tlp_status p = session_status (map (session_item us) (level s))"
    "tlp_current_item p = or_else (List.find (\<lambda>i. it_id i = us s \<and> item_actionable i) (map (session_item us) (level s)))
      (current_task_list_item (map (session_item us) (level s)))"
proof -
  obtain first rest where "tasks = first # rest" using assms(1) by (cases tasks) auto
  then show thesis
    using that unfolding level_def
    by (simp add: task_list_projection_from_session_tasks_with_current_task_def Let_def session_item_def [abs_def])
qed

lemma unselected_level:
  assumes "s \<notin> (\<lambda>p. dt_id (tp_task p)) ` set tasks"
  shows "List.find (\<lambda>p. dt_id (tp_task p) = s) tasks = None"
    and "filter (in_selected_level (Some s) None) tasks = []"
  using assms by (auto simp: find_None_all filter_empty_conv in_selected_level_def)

lemma decide_no_items:
  assumes "tci_current_task_list input = Some p" and "tlp_items p = []"
  shows "\<exists>r g k d. decide_turn_completion input = Complete r g k d"
proof (cases "focused_list input p")
  case True
  then show ?thesis
    using decide_focused_done [OF True] assms(2) by (auto simp: next_item_None)
next
  case False
  then have "\<not> focused_list input q" for q using assms(1) by (auto simp: focused_list_def)
  then show ?thesis using decide_unfocused [of input] by blast
qed

text \<open>
  The task list of a session with a selected task. When the selected task is among the
  session's tasks, its item is in the list, and it is the current item if it is pending or in
  progress. When it is not, every item is hidden whatever their states: the list is empty, it
  is reported completed, and a turn that looks at it completes.
\<close>
theorem session_selection:
  assumes "uuid_text us pu" and "tasks \<noteq> []" and "distinct (map (\<lambda>p. dt_id (tp_task p)) tasks)"
  shows "\<exists>p. task_list_projection_from_session_tasks_with_current_task us bear owner conversation anchor tasks (Some s)
        = Some p
    \<and> (\<forall>t \<in> set tasks. dt_id (tp_task t) = s \<longrightarrow>
         session_item us t \<in> set (tlp_items p)
         \<and> (item_actionable (session_item us t) \<longrightarrow> tlp_current_item p = Some (session_item us t)))
    \<and> (s \<notin> (\<lambda>t. dt_id (tp_task t)) ` set tasks \<longrightarrow>
         tlp_items p = [] \<and> tlp_status p = ''completed'' \<and> tlp_current_item p = None
         \<and> (\<forall>input. tci_current_task_list input = Some p \<longrightarrow>
              (\<exists>r g k d. decide_turn_completion input = Complete r g k d)))"
proof -
  let ?level = "sort_key (\<lambda>p. task_sort_key (tp_task p)) (filter (in_selected_level (Some s)
    (Option.bind (List.find (\<lambda>p. dt_id (tp_task p) = s) tasks) (\<lambda>p. dt_parent_task_id (tp_task p)))) tasks)"
  obtain p where p:
    "task_list_projection_from_session_tasks_with_current_task us bear owner conversation anchor tasks (Some s) = Some p"
    "tlp_items p = map (session_item us) ?level"
    "tlp_status p = session_status (map (session_item us) ?level)"
    "tlp_current_item p = or_else (List.find (\<lambda>i. it_id i = us s \<and> item_actionable i) (map (session_item us) ?level))
      (current_task_list_item (map (session_item us) ?level))"
    by (rule session_projection [OF assms(2)])
  have "session_item us t \<in> set (tlp_items p)
      \<and> (item_actionable (session_item us t) \<longrightarrow> tlp_current_item p = Some (session_item us t))"
    if t: "t \<in> set tasks" "dt_id (tp_task t) = s" for t
  proof -
    have member: "session_item us t \<in> set (tlp_items p)"
      unfolding p(2) set_map set_sort set_filter using t by (intro imageI) (simp add: in_selected_level_def)
    have "i = session_item us t" if i: "i \<in> set (tlp_items p)" "it_id i = us s" for i
    proof -
      obtain t' where t': "t' \<in> set tasks" "i = session_item us t'" using i(1) unfolding p(2) set_map set_sort set_filter by blast
      then have "dt_id (tp_task t') = s" using i(2) uuid_text_facts(5) [OF assms(1)] by simp
      then have "t' = t" using inj_onD [OF conjunct2 [OF assms(3) [unfolded distinct_map]]] t t'(1) by simp
      then show ?thesis using t'(2) by simp
    qed
    then have "tlp_current_item p = Some (session_item us t)" if "item_actionable (session_item us t)"
      unfolding p(4) p(2) [symmetric]
      using find_unique [of "session_item us t" "tlp_items p" "\<lambda>i. it_id i = us s \<and> item_actionable i", OF member] that t(2)
      by simp
    then show ?thesis using member by blast
  qed
  moreover have "tlp_items p = [] \<and> tlp_status p = ''completed'' \<and> tlp_current_item p = None"
    if "s \<notin> (\<lambda>t. dt_id (tp_task t)) ` set tasks"
    unfolding p(2-4) unselected_level(1) [OF that] by (simp add: unselected_level(2) [OF that] session_status_def current_task_list_item_def)
  moreover have "\<exists>r g k d. decide_turn_completion input = Complete r g k d"
    if "tlp_items p = []" "tci_current_task_list input = Some p" for input
    using that by (intro decide_no_items)
  ultimately show ?thesis by (intro exI [of _ p] conjI p(1)) blast+
qed

theorem session_selection_witness:
  "\<exists>p. task_list_projection_from_session_tasks_with_current_task unary_uuid 1 StPair ''c'' 9
        [\<lparr>tp_task = sample_task 2 None 0, tp_run_state = None\<rparr>] (Some 3) = Some p
     \<and> tlp_items p = [] \<and> tlp_status p = ''completed''"
  using session_selection [OF uuid_text_unary, of "[\<lparr>tp_task = sample_task 2 None 0, tp_run_state = None\<rparr>]" 1 StPair "''c''" 9 3]
  by (auto simp: sample_task_def)

subsection \<open>Acceptance of a job\<close>

definition task_input_ok :: "docket_task_input \<Rightarrow> bool" where
  "task_input_ok t \<longleftrightarrow> trim (tin_title t) \<noteq> [] \<and> trim (tin_body t) \<noteq> []
     \<and> tin_completion_criteria t \<noteq> [] \<and> (\<forall>c \<in> set (tin_completion_criteria t). trim c \<noteq> [])"

definition client_keys :: "docket_task_input list \<Rightarrow> string list" where
  "client_keys ts = List.map_filter (\<lambda>t. trimmed_key (tin_client_key t)) ts"

lemma validate_completion_criteria_ok:
  "validate_completion_criteria cs = Inr () \<longleftrightarrow> cs \<noteq> [] \<and> (\<forall>c \<in> set cs. trim c \<noteq> [])"
  by (auto simp: validate_completion_criteria_def)

lemma validate_task_input_ok:
  "validate_task_input keys t = Inr ks \<longleftrightarrow> task_input_ok t
     \<and> (case trimmed_key (tin_client_key t) of None \<Rightarrow> ks = keys | Some k \<Rightarrow> k \<notin> set keys \<and> ks = k # keys)"
  by (auto simp: validate_task_input_def task_input_ok_def bindR_Inr_iff validate_completion_criteria_ok
      split: option.split)

lemma validate_task_inputs_ok:
  "validate_task_inputs_from keys ts = Inr ks \<longleftrightarrow>
     (\<forall>t \<in> set ts. task_input_ok t) \<and> distinct (client_keys ts) \<and> set (client_keys ts) \<inter> set keys = {}
     \<and> ks = rev (client_keys ts) @ keys"
proof (induction ts arbitrary: keys)
  case Nil
  show ?case by (auto simp: client_keys_def)
next
  case (Cons t ts)
  show ?case
    by (cases "trimmed_key (tin_client_key t)")
      (auto simp: bindR_Inr_iff validate_task_input_ok Cons.IH client_keys_def)
qed

lemma validate_parent_keys_ok:
  "validate_parent_keys keys ts = Inr () \<longleftrightarrow>
     (\<forall>t \<in> set ts. \<forall>k. trimmed_key (tin_parent_client_key t) = Some k \<longrightarrow> k \<in> set keys)"
  by (induction keys ts rule: validate_parent_keys.induct) (auto split: option.splits)

lemma check_surface_ids_ok:
  "check_surface_ids seen as = Inr () \<longleftrightarrow>
     distinct (map sa_work_surface_id as) \<and> set (map sa_work_surface_id as) \<inter> set seen = {}"
  by (induction seen as rule: check_surface_ids.induct) auto

lemma validate_docket_task_inputs_ok:
  "validate_docket_task_inputs ts = Inr () \<longleftrightarrow>
     (\<forall>t \<in> set ts. task_input_ok t) \<and> distinct (client_keys ts)
     \<and> (\<forall>t \<in> set ts. \<forall>k. trimmed_key (tin_parent_client_key t) = Some k \<longrightarrow> k \<in> set (client_keys ts))"
  by (auto simp: validate_docket_task_inputs_def bindR_Inr_iff validate_task_inputs_ok validate_parent_keys_ok)

text \<open>
  A job is accepted exactly when its goal is not blank, it names its work surfaces in
  exactly one of the two forms and none twice, its creator is chat, pair or ui, no criterion is
  blank, and its tasks have a title, a body and non-blank criteria, client keys that are
  pairwise distinct once trimmed, and parents among those keys. An accepted job is assigned at
  least one surface and no surface twice.
\<close>
theorem job_create_validation_spec:
  "(validate_docket_job_create c = Inr () \<longleftrightarrow>
      trim (jc_goal c) \<noteq> []
      \<and> (jc_work_surface_id c \<noteq> None \<longleftrightarrow> jc_work_surface_assignments c = [])
      \<and> distinct (map sa_work_surface_id (jc_work_surface_assignments c))
      \<and> trim (jc_created_by_role c) \<in> {''chat'', ''pair'', ''ui''}
      \<and> (\<forall>k \<in> set (jc_criteria c). trim (ci_description k) \<noteq> [])
      \<and> (\<forall>t \<in> set (jc_tasks c). task_input_ok t)
      \<and> distinct (client_keys (jc_tasks c))
      \<and> (\<forall>t \<in> set (jc_tasks c). \<forall>k. trimmed_key (tin_parent_client_key t) = Some k \<longrightarrow>
           k \<in> set (client_keys (jc_tasks c))))
   \<and> (validate_docket_job_create c = Inr () \<longrightarrow>
      docket_job_surface_assignments c \<noteq> []
      \<and> distinct (map sa_work_surface_id (docket_job_surface_assignments c)))"
proof -
  have spec: "validate_docket_job_create c = Inr () \<longleftrightarrow>
      trim (jc_goal c) \<noteq> []
      \<and> (jc_work_surface_id c \<noteq> None \<longleftrightarrow> jc_work_surface_assignments c = [])
      \<and> check_surface_ids [] (jc_work_surface_assignments c) = Inr ()
      \<and> trim (jc_created_by_role c) \<in> {''chat'', ''pair'', ''ui''}
      \<and> (\<forall>k \<in> set (jc_criteria c). trim (ci_description k) \<noteq> [])
      \<and> validate_docket_task_inputs (jc_tasks c) = Inr ()"
    unfolding validate_docket_job_create_def by (simp add: bindR_Inr_iff)
  moreover have "docket_job_surface_assignments c \<noteq> []
      \<and> distinct (map sa_work_surface_id (docket_job_surface_assignments c))"
    if "validate_docket_job_create c = Inr ()"
    using that spec by (auto simp: docket_job_surface_assignments_def check_surface_ids_ok split: option.split)
  ultimately show ?thesis
    unfolding validate_docket_task_inputs_ok check_surface_ids_ok by simp
qed

definition sample_task_input :: "string option \<Rightarrow> string option \<Rightarrow> docket_task_input" where
  "sample_task_input key parent = \<lparr>tin_client_key = key, tin_parent_client_key = parent, tin_parent_task_id = None,
     tin_sibling_order = None, tin_kind = TkindExecution, tin_scope = TscopeRun, tin_title = ''t'', tin_body = ''b'',
     tin_completion_criteria = [''c''], tin_difficulty = None, tin_effort_hint = None,
     tin_routing_strategy = RouteAuto, tin_expected_context_size = None, tin_result_rollup_policy = None\<rparr>"

definition sample_job_create :: docket_job_create where
  "sample_job_create = \<lparr>jc_bear_id = 1, jc_created_by_user_id = 1, jc_created_by_role = ''pair'', jc_goal = ''g'',
     jc_work_surface_id = Some 4, jc_work_surface_assignments = [], jc_commit_policy = None, jc_work_branch = None,
     jc_visibility = VisSameUser, jc_source_conversation_id = None, jc_objective_kind = None,
     jc_supersedes_job_id = None, jc_overlap_resolution = OverlapReject, jc_criteria = [],
     jc_tasks = [sample_task_input (Some ''b'') (Some ''a''), sample_task_input (Some ''a'') None]\<rparr>"

lemma graphic_words: "trim ''a'' = ''a''" "trim ''b'' = ''b''" "trim ''c'' = ''c''" "trim ''t'' = ''t''"
  "trim ''g'' = ''g''" "trim ''pair'' = ''pair''"
  by (simp_all add: trim_graphic graphic_def)

theorem job_create_validation_spec_witness:
  "validate_docket_job_create sample_job_create = Inr ()
   \<and> map sa_work_surface_id (docket_job_surface_assignments sample_job_create) = [4]"
proof
  show "validate_docket_job_create sample_job_create = Inr ()"
    by (subst job_create_validation_spec [of sample_job_create, THEN conjunct1])
      (simp add: sample_job_create_def sample_task_input_def task_input_ok_def client_keys_def trimmed_key_def
        graphic_words)
  show "map sa_work_surface_id (docket_job_surface_assignments sample_job_create) = [4]"
    by (simp add: docket_job_surface_assignments_def sample_job_create_def)
qed

subsection \<open>The notebook context of a worker\<close>

definition notebook_rank :: "docket_entry_row \<Rightarrow> nat \<times> int \<times> uuid" where
  "notebook_rank e = (unwrap_or (notebook_priority e) 3, - ent_created_at e, ent_id e)"

definition eligible_entry :: "docket_entry_row \<Rightarrow> bool" where
  "eligible_entry e \<longleftrightarrow> ent_scope e = ''job_notebook'' \<and> notebook_priority e \<noteq> None"

lemma eligible_rows:
  "List.map_filter notebook_eligible es = map (\<lambda>e. (unwrap_or (notebook_priority e) 3, e)) (filter eligible_entry es)"
  by (induction es) (auto simp: notebook_eligible_def eligible_entry_def)

lemma ranked_rows:
  "map snd (take n (sort_key (\<lambda>(priority, e). (priority, - ent_created_at e, ent_id e))
      (List.map_filter notebook_eligible es)))
   = take n (sort_key notebook_rank (filter eligible_entry es))"
proof -
  have "sort_key (\<lambda>(priority, e). (priority, - ent_created_at e, ent_id e))
      (map (\<lambda>e. (unwrap_or (notebook_priority e) 3, e)) xs)
    = map (\<lambda>e. (unwrap_or (notebook_priority e) 3, e)) (sort_key notebook_rank xs)" for xs
    by (simp add: sort_key_map notebook_rank_def [abs_def])
  then show ?thesis unfolding eligible_rows by (simp add: take_map comp_def)
qed

lemma fill_context_subseq: "subseq (fill_context used es) es"
  by (induction used es rule: fill_context.induct) auto

lemma fill_context_bound:
  "used \<le> DISPATCH_NOTEBOOK_CONTEXT_MAX_CHARS \<Longrightarrow>
     used + sum_list (map entry_chars (fill_context used es)) \<le> DISPATCH_NOTEBOOK_CONTEXT_MAX_CHARS"
  by (induction used es rule: fill_context.induct) auto

lemma fill_context_all:
  "used + sum_list (map entry_chars es) \<le> DISPATCH_NOTEBOOK_CONTEXT_MAX_CHARS \<Longrightarrow> fill_context used es = es"
  by (induction used es rule: fill_context.induct) auto

text \<open>
  The notebook context handed to a dispatched worker is bounded: at most 12 entries and
  6000 characters of summary and body, all of them decisions, follow-ups or tagged entries of
  the job's notebook that were given, in order of priority and then of recency. When all
  eligible entries fit both bounds, none is left out.
\<close>
theorem notebook_context_bounds:
  "length (select_dispatch_notebook_context es) \<le> 12
   \<and> sum_list (map entry_chars (select_dispatch_notebook_context es)) \<le> 6000
   \<and> set (select_dispatch_notebook_context es) \<subseteq> {e \<in> set es. eligible_entry e}
   \<and> sorted (map notebook_rank (select_dispatch_notebook_context es))
   \<and> (length (filter eligible_entry es) \<le> 12 \<and> sum_list (map entry_chars (filter eligible_entry es)) \<le> 6000 \<longrightarrow>
        mset (select_dispatch_notebook_context es) = mset (filter eligible_entry es))"
proof -
  let ?top = "take 12 (sort_key notebook_rank (filter eligible_entry es))"
  have sel: "select_dispatch_notebook_context es = fill_context 0 ?top"
    by (simp add: select_dispatch_notebook_context_def ranked_rows DISPATCH_NOTEBOOK_CONTEXT_MAX_ENTRIES_def)
  have sub: "subseq (fill_context 0 ?top) ?top" by (rule fill_context_subseq)
  have "length (fill_context 0 ?top) \<le> 12" using list_emb_length [OF sub] by simp
  moreover have "sum_list (map entry_chars (fill_context 0 ?top)) \<le> 6000"
    using fill_context_bound [of 0 ?top] by (simp add: DISPATCH_NOTEBOOK_CONTEXT_MAX_CHARS_def)
  moreover have "set (fill_context 0 ?top) \<subseteq> {e \<in> set es. eligible_entry e}"
    using list_emb_set [OF sub] set_take_subset [of 12 "sort_key notebook_rank (filter eligible_entry es)"] by auto
  moreover have "sorted (map notebook_rank (fill_context 0 ?top))"
    by (rule sorted_subseq [OF subseq_map [OF sub]]) (simp add: take_map [symmetric] sorted_wrt_take)
  moreover have "mset (fill_context 0 ?top) = mset (filter eligible_entry es)"
    if "length (filter eligible_entry es) \<le> 12" and "sum_list (map entry_chars (filter eligible_entry es)) \<le> 6000"
  proof -
    have all: "?top = sort_key notebook_rank (filter eligible_entry es)" using that(1) by simp
    have "sum_list (map entry_chars ?top) = sum_list (map entry_chars (filter eligible_entry es))"
      unfolding all by (metis mset_map mset_sort sum_mset_sum_list)
    then have "fill_context 0 ?top = ?top"
      using that(2) by (intro fill_context_all) (simp add: DISPATCH_NOTEBOOK_CONTEXT_MAX_CHARS_def)
    then show ?thesis using all by simp
  qed
  ultimately show ?thesis unfolding sel by blast
qed

definition sample_entry :: "uuid \<Rightarrow> string \<Rightarrow> docket_entry_row" where
  "sample_entry i kind = \<lparr>ent_id = i, ent_job_id = Some 1, ent_task_id = None, ent_run_id = None,
     ent_scope = ''job_notebook'', ent_kind = kind, ent_summary = ''s'', ent_body = None, ent_disposition = None,
     ent_evidence_refs = JArr [], ent_related_task_ids = JArr [], ent_tags = JArr [], ent_by_role = ''work'',
     ent_by_agent_id = None, ent_by_user_id = None, ent_source_entry_id = None, ent_created_at = 0\<rparr>"

theorem notebook_context_bounds_witness:
  "mset (select_dispatch_notebook_context [sample_entry 1 ''follow_up'', sample_entry 2 ''finding'', sample_entry 3 ''decision''])
   = {#sample_entry 1 ''follow_up'', sample_entry 3 ''decision''#}"
proof -
  let ?es = "[sample_entry 1 ''follow_up'', sample_entry 2 ''finding'', sample_entry 3 ''decision'']"
  have eligible: "filter eligible_entry ?es = [sample_entry 1 ''follow_up'', sample_entry 3 ''decision'']"
    by (simp add: eligible_entry_def notebook_priority_def sample_entry_def json_nonempty_array_def)
  have "sum_list (map entry_chars (filter eligible_entry ?es)) = 2"
    unfolding eligible by (simp add: entry_chars_def sample_entry_def char_count_def)
  then show ?thesis using notebook_context_bounds [of ?es] unfolding eligible by simp
qed

end
