(* ===== verification/Ledger_Properties.thy ===== *)
theory Ledger_Properties
  imports Ledger_Frame Docket_Contracts
begin

section \<open>Properties of the docket turn ledger\<close>

text \<open>
  One winner per turn: claims exclude other owners, an attempt is settled at most once and only
  under a live lease, routing is idempotent. The last property states what the supervisor cannot
  do after the watchdog has settled an attempt.
\<close>

subsection \<open>Settling\<close>

lemma settle_nothing:
  assumes "docket_schema_ok db" and "\<forall>a \<in> set (dtb_attempts db). \<not> g (dtb_claims db) a"
  shows "settle_attempts now g f db = (db, Inr 0)"
proof -
  have "filter (g (dtb_claims db)) (dtb_attempts db) = []" using assms(2) by (simp add: filter_empty_conv)
  then show ?thesis
    using assms by (simp add: settle_attempts_def checked_writeM_def Let_def update_where_none)
qed

lemma update_attempts_nothing:
  assumes "docket_schema_ok db" and "\<forall>a \<in> set (dtb_attempts db). \<not> g a"
  shows "update_attempts g f db = (db, Inr [])"
  using assms by (simp add: update_attempts_def checked_writeM_def update_where_none returning_def filter_empty_conv)

definition settle_args_ok :: "string \<Rightarrow> int option \<Rightarrow> int option \<Rightarrow> bool" where
  "settle_args_ok cause latency cost \<longleftrightarrow>
     trim cause \<noteq> [] \<and> \<not> is_some_and latency (\<lambda>v. v < 0) \<and> \<not> is_some_and cost (\<lambda>v. v < 0)"

lemma terminalize_nothing:
  assumes "docket_schema_ok db" and "\<forall>a \<in> set (dtb_attempts db). \<not> may_settle now attempt (dtb_claims db) a"
    and "settle_args_ok cause latency cost"
  shows "terminalize_turn_attempt now attempt outcome cause disposition evidence latency cost db = (db, Inr False)"
proof -
  note s = settle_nothing [of db "may_settle now attempt" now, OF assms(1,2)]
  show ?thesis
    using assms(3) unfolding settle_args_ok_def
    by (simp add: terminalize_turn_attempt_def bindM_def s returnM_def)
qed

lemma activity_nothing:
  assumes "docket_schema_ok db" and "\<forall>a \<in> set (dtb_attempts db). \<not> may_settle now attempt (dtb_claims db) a"
  shows "record_turn_activity now attempt evidence db = (db, Inr False)"
  by (simp add: record_turn_activity_def withM_def bindM_def returnM_def update_attempts_nothing [OF assms])

text \<open>
  A worker whose claim is not live settles nothing. When the claim of the attempt is missing,
  is not executing, or its lease has run out at the time of the call, finalising the attempt and
  recording activity on it return false and change nothing.
\<close>
theorem stale_worker_cannot_settle:
  assumes "docket_schema_ok db"
    and "\<forall>a \<in> set (dtb_attempts db). ta_id a = attempt \<longrightarrow> \<not> claim_live now (dtb_claims db) a"
    and "settle_args_ok cause latency cost"
  shows "terminalize_turn_attempt now attempt outcome cause disposition evidence latency cost db = (db, Inr False)
    \<and> record_turn_activity now attempt evidence db = (db, Inr False)"
proof -
  have "\<forall>a \<in> set (dtb_attempts db). \<not> may_settle now attempt (dtb_claims db) a"
    using assms(2) by (auto simp: may_settle_def)
  then show ?thesis using terminalize_nothing activity_nothing assms by simp
qed

lemma terminalize_True:
  assumes "docket_schema_ok db"
    and "terminalize_turn_attempt now attempt outcome cause disposition evidence latency cost db = (db', Inr True)"
  obtains a a' c' where "a \<in> set (dtb_attempts db)" "ta_id a = attempt" "ta_state a = ''executing''"
    "a' \<in> set (dtb_attempts db')" "ta_id a' = attempt" "ta_state a' = ''settled''"
    "ta_outcome a' = Some (attempt_outcome_str outcome)" "ta_cause_code a' = Some cause"
    "ta_routing_decision_id a' = ta_routing_decision_id a"
    "c' \<in> set (dtb_claims db')" "Some (cl_id c') = ta_claim_id a" "cl_state c' = ''settled''"
proof -
  let ?f = "\<lambda>a. (settled_attempt now (attempt_outcome_str outcome) cause (retry_disposition_str disposition) evidence a)
    \<lparr>ta_latency_ms := latency, ta_cost_microusd := cost\<rparr>"
  let ?hit = "may_settle now attempt (dtb_claims db)"
  let ?on = "\<lambda>c. cl_id c \<in> set (List.map_filter ta_claim_id (filter ?hit (dtb_attempts db)))"
  let ?s = "\<lambda>c. c\<lparr>cl_state := ''settled'', cl_updated_at := now\<rparr>"
  have db': "dtb_attempts db' = update_where ?hit ?f (dtb_attempts db)"
    "dtb_claims db' = update_where ?on ?s (dtb_claims db)" and one: "length (filter ?on (dtb_claims db)) = 1"
    using assms(2)
    by (auto simp: terminalize_turn_attempt_def settle_attempts_def bindM_def failM_def checked_writeM_def returnM_def Let_def
        split: if_splits)
  from one obtain c where c: "c \<in> set (dtb_claims db)" "?on c"
    by (metis (no_types, lifting) filter_empty_conv length_0_conv zero_neq_one)
  then obtain a where a: "a \<in> set (dtb_attempts db)" "?hit a" "ta_claim_id a = Some (cl_id c)"
    by (auto simp: List.map_filter_def split: if_splits)
  show thesis
  proof (rule that)
    show "a \<in> set (dtb_attempts db)" "ta_id a = attempt" "ta_state a = ''executing''"
      using a by (simp_all add: may_settle_def)
    show "?f a \<in> set (dtb_attempts db')" unfolding db'(1) set_update_where using a by (force intro: image_eqI)
    show "ta_id (?f a) = attempt" "ta_state (?f a) = ''settled''" "ta_outcome (?f a) = Some (attempt_outcome_str outcome)"
      "ta_cause_code (?f a) = Some cause" "ta_routing_decision_id (?f a) = ta_routing_decision_id a"
      using a(2) by (simp_all add: settled_attempt_def may_settle_def)
    show "?s c \<in> set (dtb_claims db')" unfolding db'(2) set_update_where using c by (force intro: image_eqI)
    show "Some (cl_id (?s c)) = ta_claim_id a" "cl_state (?s c) = ''settled''" using a(3) by simp_all
  qed
qed

lemma attempt_unique:
  assumes "docket_schema_ok db" "a \<in> set (dtb_attempts db)" "b \<in> set (dtb_attempts db)" "ta_id a = ta_id b"
  shows "a = b"
  using assms by (auto simp: docket_schema_ok_def attempts_ok_def distinct_map dest: inj_onD)

text \<open>
  C4. An attempt is settled once. After a call that settled it, in every database that any
  sequence of operations of the ledger reaches, the attempt has the outcome and the cause of that
  call, every further call to settle it or to record activity on it returns false, and none
  changes anything. Decisions, notifications and rollups are only ever added.
\<close>
theorem turn_settles_once:
  assumes ok: "docket_schema_ok db"
    and win: "terminalize_turn_attempt now attempt outcome cause disposition evidence latency cost db = (db1, Inr True)"
  shows "let db2 = run_ops (step_docket us simple) db1 ops in
    (\<exists>a \<in> set (dtb_attempts db2). ta_id a = attempt \<and> ta_state a = ''settled''
       \<and> ta_outcome a = Some (attempt_outcome_str outcome) \<and> ta_cause_code a = Some cause)
    \<and> (\<forall>now' outcome' cause' disposition' evidence' latency' cost'. settle_args_ok cause' latency' cost' \<longrightarrow>
         terminalize_turn_attempt now' attempt outcome' cause' disposition' evidence' latency' cost' db2 = (db2, Inr False)
         \<and> record_turn_activity now' attempt evidence' db2 = (db2, Inr False))
    \<and> prefix (dtb_decisions db1) (dtb_decisions db2) \<and> prefix (dtb_outbox db1) (dtb_outbox db2)
    \<and> prefix (dtb_rollups db1) (dtb_rollups db2)"
proof -
  let ?db2 = "run_ops (step_docket us simple) db1 ops"
  have ok1: "docket_schema_ok db1" using staysD [OF keeps_terminalize ok] win by (metis fst_conv)
  have kept: "docket_kept db1 ?db2" and ok2: "docket_schema_ok ?db2"
    using docket_machine.run_kept [OF ok1] docket_machine.run_inv [OF ok1] by blast+
  obtain a where a: "a \<in> set (dtb_attempts db1)" "ta_id a = attempt" "ta_state a = ''settled''"
    "ta_outcome a = Some (attempt_outcome_str outcome)" "ta_cause_code a = Some cause"
    using terminalize_True [OF ok win] by metis
  then obtain b where b: "b \<in> set (dtb_attempts ?db2)" "attempt_kept a b"
    using kept by (auto simp: docket_kept_def rows_kept_def)
  then have b': "ta_id b = attempt" "ta_state b = ''settled''" "ta_outcome b = Some (attempt_outcome_str outcome)"
    "ta_cause_code b = Some cause" using a by (auto simp: attempt_kept_def)
  have none: "\<forall>x \<in> set (dtb_attempts ?db2). \<not> may_settle now' attempt (dtb_claims ?db2) x" for now'
  proof (intro ballI notI)
    fix x
    assume x: "x \<in> set (dtb_attempts ?db2)" "may_settle now' attempt (dtb_claims ?db2) x"
    then have "x = b" using attempt_unique [OF ok2 x(1) b(1)] b'(1) by (simp add: may_settle_def)
    then show False using x(2) b'(2) by (simp add: may_settle_def)
  qed
  have "prefix (dtb_decisions db1) (dtb_decisions ?db2) \<and> prefix (dtb_outbox db1) (dtb_outbox ?db2)
      \<and> prefix (dtb_rollups db1) (dtb_rollups ?db2)" using kept by (simp add: docket_kept_def)
  then show ?thesis
    unfolding Let_def using b b' terminalize_nothing [OF ok2 none] activity_nothing [OF ok2 none] by blast
qed

subsection \<open>The watchdog and the supervisor\<close>

lemma stale_settled:
  assumes "docket_schema_ok db" and "terminalize_stale_attempts now stale_before db = (db1, Inr n)"
    and "a \<in> set (dtb_attempts db)" and "ta_state a = ''executing''" and "ta_last_activity_at a < stale_before"
  obtains b where "b \<in> set (dtb_attempts db1)" "ta_id b = ta_id a" "ta_state b = ''settled''"
    "ta_outcome b = Some ''timed_out''" "ta_cause_code b = Some ''activity_timeout''"
    "ta_supervisor_disposition b = Some ''await_recovery''"
proof -
  let ?f = "\<lambda>a. (settled_attempt now ''timed_out'' ''activity_timeout'' ''pause'' watchdog_evidence a)
    \<lparr>ta_supervisor_disposition := Some ''await_recovery''\<rparr>"
  have "dtb_attempts db1 = update_where (\<lambda>a. ta_state a = ''executing'' \<and> ta_last_activity_at a < stale_before) ?f (dtb_attempts db)"
    using assms(2) by (auto simp: terminalize_stale_attempts_def settle_attempts_def checked_writeM_def Let_def split: if_splits)
  then have "?f a \<in> set (dtb_attempts db1)" using assms(3-5) by (force simp: set_update_where intro: image_eqI)
  then show thesis by (rule that) (simp_all add: settled_attempt_def)
qed

lemma find_attempt_unique:
  assumes "docket_schema_ok db" "a \<in> set (dtb_attempts db)" "ta_id a = i"
  shows "find_attempt i db = Some a"
  unfolding find_attempt_def using assms attempt_unique [OF assms(1)] by (intro find_unique) auto

lemma timeout_escalation:
  "disposition_for (decide_escalation profile attempt OutTimedOut ''activity_timeout'') \<in> {SupRetry, SupEscalate, SupHandoff}"
  by (cases profile; cases "the profile") (auto simp: decide_escalation_def)

lemma dispose_timed_out:
  assumes ok: "docket_schema_ok db" and b: "b \<in> set (dtb_attempts db)" "ta_id b = i" "ta_state b = ''settled''"
    "ta_outcome b = Some ''timed_out''" "ta_cause_code b = Some ''activity_timeout''"
    "ta_supervisor_disposition b = Some ''await_recovery''"
  shows "apply_supervisor_disposition us i db
    = (db, Inl (Failed (ValidationError ''settled attempt already has a conflicting supervisor disposition'')))"
proof -
  let ?d = "decide_escalation (Option.bind (ta_resolved_profile b) execution_profile_parse) (ta_attempt b)
    OutTimedOut ''activity_timeout''"
  let ?text = "supervisor_disposition_str (disposition_for ?d)"
  have differs: "?text \<noteq> ''await_recovery''"
    using timeout_escalation [of "Option.bind (ta_resolved_profile b) execution_profile_parse" "ta_attempt b"] by auto
  have found: "find_attempt i db = Some b" using find_attempt_unique [OF ok b(1,2)] .
  have esc: "escalation_for_attempt us i db = (db, Inr ?d)"
    using b(3-5) by (simp add: escalation_for_attempt_def withM_def found escalation_of_row_def attempt_outcome_parse_def returnM_def)
  have none: "\<forall>a \<in> set (dtb_attempts db). \<not> (ta_id a = i \<and> ta_state a = ''settled''
      \<and> (ta_supervisor_disposition a = None \<or> ta_supervisor_disposition a = Some ?text))"
  proof (intro ballI notI)
    fix a
    assume a: "a \<in> set (dtb_attempts db)" "ta_id a = i \<and> ta_state a = ''settled''
      \<and> (ta_supervisor_disposition a = None \<or> ta_supervisor_disposition a = Some ?text)"
    then have "a = b" using attempt_unique [OF ok a(1) b(1)] b(2) by simp
    then show False using a(2) b(6) differs by simp
  qed
  note upd = update_attempts_nothing [OF ok none]
  show ?thesis
    unfolding apply_supervisor_disposition_def bindM_def [of "escalation_for_attempt us i"] esc prod.case sum.case Let_def
    unfolding bindM_def upd
    by (simp add: queryM_def found b(6) failM_def differs [symmetric])
qed

text \<open>
  What the watchdog settles the supervisor cannot dispose of. An attempt that the sweep for
  stale attempts has settled carries the disposition \<open>await_recovery\<close>, which the retry policy never
  yields for a timed-out attempt: from then on, whatever happens, applying the policy to it is a
  conflict error and changes nothing, although the policy lists \<open>activity_timeout\<close> among the causes
  that are retried one tier higher.
\<close>
theorem watchdog_blocks_disposition:
  assumes ok: "docket_schema_ok db" and sweep: "terminalize_stale_attempts now stale_before db = (db1, Inr n)"
    and a: "a \<in> set (dtb_attempts db)" "ta_state a = ''executing''" "ta_last_activity_at a < stale_before"
  shows "let db2 = run_ops (step_docket us simple) db1 ops in
    apply_supervisor_disposition us (ta_id a) db2
      = (db2, Inl (Failed (ValidationError ''settled attempt already has a conflicting supervisor disposition'')))
    \<and> (\<exists>b \<in> set (dtb_attempts db2). ta_id b = ta_id a
         \<and> (\<exists>d. escalation_of_row b = Inr d \<and> disposition_for d \<noteq> SupAwaitRecovery))"
proof -
  let ?db2 = "run_ops (step_docket us simple) db1 ops"
  have ok1: "docket_schema_ok db1" using staysD [OF keeps_stale ok] sweep by (metis fst_conv)
  have kept: "docket_kept db1 ?db2" and ok2: "docket_schema_ok ?db2"
    using docket_machine.run_kept [OF ok1] docket_machine.run_inv [OF ok1] by blast+
  obtain b where b: "b \<in> set (dtb_attempts db1)" "ta_id b = ta_id a" "ta_state b = ''settled''"
    "ta_outcome b = Some ''timed_out''" "ta_cause_code b = Some ''activity_timeout''"
    "ta_supervisor_disposition b = Some ''await_recovery''"
    using stale_settled [OF ok sweep a] by blast
  then obtain b' where b': "b' \<in> set (dtb_attempts ?db2)" "attempt_kept b b'"
    using kept by (auto simp: docket_kept_def rows_kept_def)
  then have cols: "ta_id b' = ta_id a" "ta_state b' = ''settled''" "ta_outcome b' = Some ''timed_out''"
    "ta_cause_code b' = Some ''activity_timeout''" "ta_supervisor_disposition b' = Some ''await_recovery''"
    using b by (auto simp: attempt_kept_def)
  have "\<exists>d. escalation_of_row b' = Inr d \<and> disposition_for d \<noteq> SupAwaitRecovery"
    using cols timeout_escalation [of "Option.bind (ta_resolved_profile b') execution_profile_parse" "ta_attempt b'"]
    by (auto simp: escalation_of_row_def attempt_outcome_parse_def)
  then show ?thesis unfolding Let_def using dispose_timed_out [OF ok2 b'(1) cols] b'(1) cols(1) by blast
qed

subsection \<open>Claims\<close>

lemma claim_of_decision_unique:
  assumes "docket_schema_ok db" "c \<in> set (dtb_claims db)" "c' \<in> set (dtb_claims db)"
    "cl_routing_decision_id c = cl_routing_decision_id c'"
  shows "c = c'"
  using assms by (auto simp: docket_schema_ok_def claims_ok_def distinct_map dest: inj_onD)

lemma upsert_claim_refused:
  assumes ok: "docket_schema_ok db" and c: "c \<in> set (dtb_claims db)" "cl_routing_decision_id c = rd_id d"
    and other: "cl_owner_id c \<noteq> owner \<or> \<not> claim_active c"
  shows "upsert_claim fresh now d work_run owner db = (db, Inr None)"
proof -
  have find: "List.find (\<lambda>c. cl_routing_decision_id c = rd_id d) (dtb_claims db) = Some c"
    using c claim_of_decision_unique [OF ok] by (intro find_unique) auto
  let ?g = "\<lambda>r. cl_routing_decision_id r = rd_id d \<and> cl_owner_id r = owner \<and> claim_active r"
  have "\<forall>r \<in> set (dtb_claims db). \<not> ?g r"
    using claim_of_decision_unique [OF ok] c other by metis
  then have "update_where ?g f (dtb_claims db) = dtb_claims db" for f by (rule update_where_none)
  then show ?thesis using ok other c(2) by (simp add: upsert_claim_def checked_writeM_def Let_def find)
qed

lemma upsert_claim_second_task:
  assumes ok: "docket_schema_ok db" and c: "c \<in> set (dtb_claims db)" "claim_active c"
    and task: "cl_run_id c = rd_run_id d" "cl_task_id c = rd_task_id d"
    and new: "\<forall>r \<in> set (dtb_claims db). cl_routing_decision_id r \<noteq> rd_id d"
  shows "upsert_claim fresh now d work_run owner db = (db, Inl constraint_violation)"
proof -
  have find: "List.find (\<lambda>c. cl_routing_decision_id c = rd_id d) (dtb_claims db) = None"
    using new by (simp add: find_None_all)
  let ?row = "\<lparr>cl_id = fresh, cl_routing_decision_id = rd_id d, cl_bear_id = rd_bear_id d, cl_job_id = rd_job_id d,
    cl_run_id = rd_run_id d, cl_task_id = rd_task_id d, cl_work_run_id = work_run, cl_owner_id = owner,
    cl_lease_expires_at = now + CLAIM_LEASE_SECONDS * 1000, cl_state = ''reserved'', cl_updated_at = now\<rparr>"
  have "(cl_run_id ?row, cl_task_id ?row) \<in> (\<lambda>c. (cl_run_id c, cl_task_id c)) ` set (filter (\<lambda>c. cl_state c \<in> set ACTIVE_CLAIM_STATES) (dtb_claims db))"
    using c task by (intro image_eqI [of _ _ c]) (simp_all add: claim_active_def)
  then have "\<not> claims_ok (dtb_claims db @ [?row])"
    by (simp add: claims_ok_def ACTIVE_CLAIM_STATES_def)
  then have "\<not> docket_schema_ok (db\<lparr>dtb_claims := dtb_claims db @ [?row]\<rparr>)" by (simp add: docket_schema_ok_def)
  then show ?thesis by (simp add: upsert_claim_def checked_writeM_def Let_def find)
qed

lemma claim_fails_with:
  assumes "find_decision decision db = Some d" and "1 \<le> attempt"
  shows "upsert_claim fc now d work_run (claim_owner us work_run decision) db = (db, Inr None) \<Longrightarrow>
      claim_turn_attempt us fc fa now decision work_run attempt resolved db
      = (db, Inl (Failed (ValidationError ''turn is already claimed by another worker'')))"
    and "upsert_claim fc now d work_run (claim_owner us work_run decision) db = (db, Inl e) \<Longrightarrow>
      claim_turn_attempt us fc fa now decision work_run attempt resolved db = (db, Inl e)"
  using assms by (simp_all add: claim_turn_attempt_def transactionM_def bindM_def queryM_def failM_def)

text \<open>
  C7. A claimed turn has one owner. While a decision has a claim, a call by another owner, or by
  anyone once the claim is settled or abandoned, is refused and changes nothing, whatever the
  lease says; and while the claim is active, no other decision for the same run and task can be
  claimed.
\<close>
theorem claim_excludes_other_owners:
  assumes ok: "docket_schema_ok db" and c: "c \<in> set (dtb_claims db)"
    and d: "find_decision decision db = Some d" and attempt: "1 \<le> attempt"
  shows "(cl_routing_decision_id c = decision
        \<and> (cl_owner_id c \<noteq> claim_owner us work_run decision \<or> \<not> claim_active c) \<longrightarrow>
      claim_turn_attempt us fc fa now decision work_run attempt resolved db
      = (db, Inl (Failed (ValidationError ''turn is already claimed by another worker''))))
    \<and> (claim_active c \<and> cl_run_id c = rd_run_id d \<and> cl_task_id c = rd_task_id d
        \<and> (\<forall>r \<in> set (dtb_claims db). cl_routing_decision_id r \<noteq> decision) \<longrightarrow>
      claim_turn_attempt us fc fa now decision work_run attempt resolved db = (db, Inl constraint_violation))"
proof -
  have id: "rd_id d = decision" using d by (auto simp: find_decision_def dest: find_Some_set)
  show ?thesis
  proof (intro conjI impI; elim conjE)
    assume "cl_routing_decision_id c = decision" "cl_owner_id c \<noteq> claim_owner us work_run decision \<or> \<not> claim_active c"
    then show "claim_turn_attempt us fc fa now decision work_run attempt resolved db
        = (db, Inl (Failed (ValidationError ''turn is already claimed by another worker'')))"
      using id by (intro claim_fails_with(1) [OF d attempt] upsert_claim_refused [OF ok c]) simp_all
  next
    assume "claim_active c" "cl_run_id c = rd_run_id d" "cl_task_id c = rd_task_id d"
      "\<forall>r \<in> set (dtb_claims db). cl_routing_decision_id r \<noteq> decision"
    then show "claim_turn_attempt us fc fa now decision work_run attempt resolved db = (db, Inl constraint_violation)"
      using id by (intro claim_fails_with(2) [OF d attempt] upsert_claim_second_task [OF ok c]) simp_all
  qed
qed

subsection \<open>Routing\<close>

lemma decision_by_key:
  assumes "docket_schema_ok db" "d \<in> set (dtb_decisions db)"
  shows "find_decision_by_key (rd_idempotency_key d) db = Some d"
proof -
  have "e = d" if "e \<in> set (dtb_decisions db)" "rd_idempotency_key e = rd_idempotency_key d" for e
    using that assms by (auto simp: docket_schema_ok_def decisions_ok_def distinct_map dest: inj_onD)
  then show ?thesis unfolding find_decision_by_key_def using assms(2) by (intro find_unique) auto
qed

lemma insert_decision_result:
  "insert_decision d db = (db', Inr e) \<Longrightarrow> e = d \<and> db' = db\<lparr>dtb_decisions := dtb_decisions db @ [d]\<rparr>"
  by (auto simp: insert_decision_def checked_writeM_def split: if_splits)

lemma insert_binding_run_result:
  "insert_binding_run run task conversation db = (db', Inr u) \<Longrightarrow> dtb_bindings db' = dtb_bindings db"
  by (auto simp: insert_binding_run_def checked_writeM_def split: if_splits)

lemma insert_binding_result:
  assumes "insert_binding task conversation db = (db', Inr u)"
    and "find_binding task db = None \<or> find_binding task db = Some conversation"
  shows "find_binding task db' = Some conversation"
proof (cases "find_binding task db")
  case None
  then have none: "\<forall>b \<in> set (dtb_bindings db). cb_task_id b \<noteq> task" by (simp add: find_binding_def find_None_all)
  then have "dtb_bindings db' = dtb_bindings db @ [\<lparr>cb_task_id = task, cb_preferred_conversation_id = conversation\<rparr>]"
    using assms(1) by (auto simp: insert_binding_def checked_writeM_def split: if_splits)
  moreover have "List.find (\<lambda>b. cb_task_id b = task) (dtb_bindings db) = None" using none by (simp add: find_None_all)
  ultimately show ?thesis by (simp add: find_binding_def find_append)
next
  case (Some x)
  then have "\<exists>b \<in> set (dtb_bindings db). cb_task_id b = task" by (auto simp: find_binding_def dest: find_Some_set)
  then have "db' = db" using assms(1) by (auto simp: insert_binding_def checked_writeM_def split: if_splits)
  then show ?thesis using Some assms(2) by simp
qed

lemma find_binding_kept:
  assumes "docket_kept db db'" "find_binding task db = Some conversation"
  shows "find_binding task db' = Some conversation"
  using assms by (auto simp: docket_kept_def find_binding_def find_append elim!: prefixE)

lemma place_turn_binding:
  assumes "place_turn fresh intent t configured db = (strategy, conversation)"
  shows "find_binding (ti_task_id intent) db = None \<or> find_binding (ti_task_id intent) db = Some conversation"
    and "find_binding (ti_task_id intent) db \<noteq> None \<longleftrightarrow> strategy = ConvReuse"
proof -
  have "resolve_strategy configured size difficulty \<noteq> ConvReuse" for size difficulty by (cases configured) auto
  then show "find_binding (ti_task_id intent) db \<noteq> None \<longleftrightarrow> strategy = ConvReuse"
    using assms by (auto simp: place_turn_def Let_def split: option.splits)
  show "find_binding (ti_task_id intent) db = None \<or> find_binding (ti_task_id intent) db = Some conversation"
    using assms by (auto simp: place_turn_def Let_def split: option.splits)
qed

lemma route_new_turn_result:
  assumes "route_new_turn us simple fresh fresh_conv now intent db db = (db1, Inr d)"
  obtains strategy where
    "d \<in> set (dtb_decisions db1)" "rd_idempotency_key d = ti_idempotency_key intent"
    "rd_conversation_strategy d = conversation_strategy_str strategy"
    "strategy \<noteq> ConvInline \<Longrightarrow> find_binding (ti_task_id intent) db1 = Some (rd_conversation_id d)"
    "\<And>c. find_binding (ti_task_id intent) db = Some c \<Longrightarrow> rd_conversation_id d = c \<and> strategy = ConvReuse"
proof -
  obtain t configured strategy conversation where place:
      "place_turn (''den-conv-'' @ simple fresh_conv) intent t configured db = (strategy, conversation)"
    and run: "bindM (if strategy = ConvInline then returnM () else insert_binding (ti_task_id intent) conversation) (\<lambda>_.
        bindM (insert_binding_run (ti_run_id intent) (ti_task_id intent) conversation) (\<lambda>_.
        insert_decision (new_decision fresh now intent configured strategy conversation))) db = (db1, Inr d)"
    using assms
    by (auto simp: route_new_turn_def failM_def split: option.splits sum.splits prod.splits)
  obtain dba u where a: "(if strategy = ConvInline then returnM () else insert_binding (ti_task_id intent) conversation) db = (dba, Inr u)"
    and run2: "bindM (insert_binding_run (ti_run_id intent) (ti_task_id intent) conversation) (\<lambda>_.
        insert_decision (new_decision fresh now intent configured strategy conversation)) dba = (db1, Inr d)"
    using bindM_Inr [OF run] by blast
  obtain dbb v where b: "insert_binding_run (ti_run_id intent) (ti_task_id intent) conversation dba = (dbb, Inr v)"
    and c: "insert_decision (new_decision fresh now intent configured strategy conversation) dbb = (db1, Inr d)"
    using bindM_Inr [OF run2] by blast
  have d: "d = new_decision fresh now intent configured strategy conversation"
    "db1 = dbb\<lparr>dtb_decisions := dtb_decisions dbb @ [d]\<rparr>" using insert_decision_result [OF c] by auto
  have same: "find_binding x db1 = find_binding x dba" for x
    using insert_binding_run_result [OF b] by (simp add: find_binding_def d(2))
  show thesis
  proof (rule that)
    show "d \<in> set (dtb_decisions db1)" by (simp add: d(2))
    show "rd_idempotency_key d = ti_idempotency_key intent" "rd_conversation_strategy d = conversation_strategy_str strategy"
      by (simp_all add: d(1) new_decision_def)
    show "find_binding (ti_task_id intent) db1 = Some (rd_conversation_id d)" if "strategy \<noteq> ConvInline"
      using that a insert_binding_result [OF _ place_turn_binding(1) [OF place]] same by (simp add: d(1) new_decision_def)
    show "rd_conversation_id d = x \<and> strategy = ConvReuse" if "find_binding (ti_task_id intent) db = Some x" for x
      using that place_turn_binding [OF place] by (auto simp: d(1) new_decision_def)
  qed
qed

lemma route_turn_cases:
  assumes "route_turn us simple fresh fresh_conv now intent db = (db1, Inr d)"
  obtains (replay) "find_decision_by_key (ti_idempotency_key intent) db = Some d" "db1 = db"
    | (new) "find_decision_by_key (ti_idempotency_key intent) db = None"
        "route_new_turn us simple fresh fresh_conv now intent db db = (db1, Inr d)"
  using assms
  by (auto simp: route_turn_def failM_def transactionM_def withM_def returnM_def split: if_splits option.splits prod.splits sum.splits)

text \<open>
  Routing is idempotent and sticky. Once a turn has been routed, in every later database a
  call with the same idempotency key returns the very same decision and changes nothing, whatever
  else it asks for. And a task that was placed outside the originating conversation stays in its
  conversation: every later turn for it that is routed under a new key is placed there.
\<close>
theorem routing_idempotent_and_sticky:
  assumes ok: "docket_schema_ok db" and route: "route_turn us simple fresh fresh_conv now intent db = (db1, Inr d)"
  shows "let db2 = run_ops (step_docket us simple) db1 ops in
    (\<forall>fresh' conv' now' intent'. ti_idempotency_key intent' = ti_idempotency_key intent \<and> 1 \<le> ti_attempt intent' \<longrightarrow>
       route_turn us simple fresh' conv' now' intent' db2 = (db2, Inr d))
    \<and> (find_decision_by_key (ti_idempotency_key intent) db = None \<and> rd_conversation_strategy d \<noteq> ''inline'' \<longrightarrow>
       (\<forall>fresh' conv' now' intent' db3 d'. ti_task_id intent' = ti_task_id intent
          \<and> find_decision_by_key (ti_idempotency_key intent') db2 = None
          \<and> route_turn us simple fresh' conv' now' intent' db2 = (db3, Inr d') \<longrightarrow>
          rd_conversation_id d' = rd_conversation_id d \<and> rd_conversation_strategy d' = ''reuse''))"
proof -
  let ?db2 = "run_ops (step_docket us simple) db1 ops"
  have ok1: "docket_schema_ok db1" using staysD [OF keeps_route_turn ok] route by (metis fst_conv)
  have kept: "docket_kept db1 ?db2" and ok2: "docket_schema_ok ?db2"
    using docket_machine.run_kept [OF ok1] docket_machine.run_inv [OF ok1] by blast+
  have in1: "d \<in> set (dtb_decisions db1) \<and> rd_idempotency_key d = ti_idempotency_key intent"
    using route
  proof (cases rule: route_turn_cases)
    case replay
    then show ?thesis by (auto simp: find_decision_by_key_def dest: find_Some_set)
  next
    case new
    show ?thesis by (rule route_new_turn_result [OF new(2)]) simp
  qed
  then have "d \<in> set (dtb_decisions ?db2)" using kept by (auto simp: docket_kept_def dest: set_mono_prefix)
  then have found: "find_decision_by_key (ti_idempotency_key intent) ?db2 = Some d"
    using decision_by_key [OF ok2] in1 by metis
  have replay: "route_turn us simple fresh' conv' now' intent' ?db2 = (?db2, Inr d)"
    if "ti_idempotency_key intent' = ti_idempotency_key intent" "1 \<le> ti_attempt intent'" for fresh' conv' now' intent'
    using that found by (simp add: route_turn_def transactionM_def withM_def returnM_def)
  have sticky: "rd_conversation_id d' = rd_conversation_id d \<and> rd_conversation_strategy d' = ''reuse''"
    if new: "find_decision_by_key (ti_idempotency_key intent) db = None" and strategy: "rd_conversation_strategy d \<noteq> ''inline''"
      and task: "ti_task_id intent' = ti_task_id intent" and key: "find_decision_by_key (ti_idempotency_key intent') ?db2 = None"
      and r: "route_turn us simple fresh' conv' now' intent' ?db2 = (db3, Inr d')" for fresh' conv' now' intent' db3 d'
  proof -
    have "route_new_turn us simple fresh fresh_conv now intent db db = (db1, Inr d)"
      using route new by (cases rule: route_turn_cases) auto
    then have "find_binding (ti_task_id intent) db1 = Some (rd_conversation_id d)"
      using strategy by (auto elim!: route_new_turn_result)
    then have bound: "find_binding (ti_task_id intent') ?db2 = Some (rd_conversation_id d)"
      using find_binding_kept [OF kept] task by simp
    have "route_new_turn us simple fresh' conv' now' intent' ?db2 ?db2 = (db3, Inr d')"
      using r key by (cases rule: route_turn_cases) auto
    then show ?thesis using bound by (auto elim!: route_new_turn_result)
  qed
  show ?thesis unfolding Let_def using replay sticky by blast
qed

subsection \<open>A free turn can be claimed\<close>

definition free_turn :: "uuid \<Rightarrow> uuid \<Rightarrow> uuid \<Rightarrow> int \<Rightarrow> routing_decision \<Rightarrow> docket_db \<Rightarrow> bool" where
  "free_turn fc fa decision attempt d db \<longleftrightarrow>
     find_decision decision db = Some d \<and> 1 \<le> attempt
     \<and> (\<forall>c \<in> set (dtb_claims db). cl_id c \<noteq> fc \<and> cl_routing_decision_id c \<noteq> decision
          \<and> (claim_active c \<longrightarrow> (cl_run_id c, cl_task_id c) \<noteq> (rd_run_id d, rd_task_id d)))
     \<and> (\<forall>a \<in> set (dtb_attempts db). ta_id a \<noteq> fa \<and> (ta_routing_decision_id a, ta_attempt a) \<noteq> (decision, attempt))"

definition reserved_claim :: "uuid \<Rightarrow> timestamp \<Rightarrow> routing_decision \<Rightarrow> uuid option \<Rightarrow> string \<Rightarrow> turn_claim" where
  "reserved_claim fc now d work_run owner = \<lparr>cl_id = fc, cl_routing_decision_id = rd_id d, cl_bear_id = rd_bear_id d,
     cl_job_id = rd_job_id d, cl_run_id = rd_run_id d, cl_task_id = rd_task_id d, cl_work_run_id = work_run,
     cl_owner_id = owner, cl_lease_expires_at = now + CLAIM_LEASE_SECONDS * 1000, cl_state = ''reserved'', cl_updated_at = now\<rparr>"

definition executing_attempt ::
    "uuid \<Rightarrow> timestamp \<Rightarrow> uuid \<Rightarrow> uuid option \<Rightarrow> int \<Rightarrow> uuid \<Rightarrow> resolved_execution_profile \<Rightarrow> turn_attempt" where
  "executing_attempt fa now decision work_run attempt claim resolved = \<lparr>ta_id = fa, ta_routing_decision_id = decision,
     ta_work_run_id = work_run, ta_attempt = attempt, ta_claim_id = Some claim, ta_state = ''executing'', ta_outcome = None,
     ta_cause_code = None, ta_retry_disposition = None, ta_supervisor_disposition = None, ta_evidence_refs = None,
     ta_resolved_profile = map_option execution_profile_str (rep_profile resolved),
     ta_profile_provenance = profile_provenance_str (rep_provenance resolved),
     ta_latency_ms = None, ta_cost_microusd = None, ta_started_at = now, ta_last_activity_at = now, ta_finished_at = None\<rparr>"

lemma claim_insert_ok:
  assumes "docket_schema_ok db" and "free_turn fc fa decision attempt d db"
  shows "docket_schema_ok (db\<lparr>dtb_claims := dtb_claims db @ [reserved_claim fc now d work_run (claim_owner us work_run decision)]\<rparr>)"
proof -
  let ?row = "reserved_claim fc now d work_run (claim_owner us work_run decision)"
  have d: "d \<in> set (dtb_decisions db)" "rd_id d = decision"
    using assms(2) by (auto simp: free_turn_def find_decision_def dest: find_Some_set)
  have "claims_ok (dtb_claims db @ [?row])"
    using assms d
    by (auto simp: docket_schema_ok_def claims_ok_def free_turn_def reserved_claim_def claim_active_def LEDGER_STATES_def
        ACTIVE_CLAIM_STATES_def claim_owner_def btrim_nonempty_def)
  moreover have "docket_references_ok (db\<lparr>dtb_claims := dtb_claims db @ [?row]\<rparr>)"
    using assms(1) d by (auto simp: docket_schema_ok_def docket_references_ok_def opt_in_def reserved_claim_def split: option.splits)
  ultimately show ?thesis using assms(1) by (simp add: docket_schema_ok_def)
qed

lemma profile_spellings:
  "opt_in (map_option execution_profile_str p) [''economy'', ''balanced'', ''advanced'']"
  "profile_provenance_str v \<in> set [''task_difficulty'', ''conversation_fallback'', ''supervisor_escalation'']"
  by (cases p; cases "the p") (auto simp: opt_in_def, cases v, auto)

lemma attempt_insert_ok:
  assumes ok: "docket_schema_ok db" and free: "free_turn fc fa decision attempt d db"
    and ok1: "docket_schema_ok (db\<lparr>dtb_claims := dtb_claims db @ [c]\<rparr>)" and c: "cl_id c = fc"
  shows "docket_schema_ok (db\<lparr>dtb_claims := dtb_claims db @ [c],
    dtb_attempts := dtb_attempts db @ [executing_attempt fa now decision work_run attempt fc resolved]\<rparr>)"
proof -
  let ?row = "executing_attempt fa now decision work_run attempt fc resolved"
  have d: "decision \<in> set (map rd_id (dtb_decisions db))"
    using free by (auto simp: free_turn_def find_decision_def dest: find_Some_set)
  have unused: "\<forall>a \<in> set (dtb_attempts db). ta_claim_id a \<noteq> Some fc"
    using ok free by (fastforce simp: docket_schema_ok_def docket_references_ok_def opt_in_def free_turn_def)
  have "attempt_lifecycle_ok ?row \<and> attempt_columns_ok ?row"
    using free profile_spellings
    by (simp add: attempt_lifecycle_ok_def attempt_columns_ok_def executing_attempt_def ACTIVE_CLAIM_STATES_def free_turn_def
        opt_in_def [of None])
  moreover have "distinct (map ta_id (dtb_attempts db @ [?row]))"
    "distinct (map (\<lambda>a. (ta_routing_decision_id a, ta_attempt a)) (dtb_attempts db @ [?row]))"
    using ok free by (auto simp: docket_schema_ok_def attempts_ok_def free_turn_def executing_attempt_def)
  moreover have "distinct (map (\<lambda>a. (ta_claim_id a, ta_attempt a)) (filter (\<lambda>a. ta_claim_id a \<noteq> None) (dtb_attempts db @ [?row])))"
    using ok unused by (auto simp: docket_schema_ok_def attempts_ok_def executing_attempt_def)
  ultimately have "attempts_ok (dtb_attempts db @ [?row])"
    using ok by (auto simp: attempts_ok_def docket_schema_ok_def)
  moreover have "docket_references_ok (db\<lparr>dtb_claims := dtb_claims db @ [c], dtb_attempts := dtb_attempts db @ [?row]\<rparr>)"
    using ok1 d c by (auto simp: docket_schema_ok_def docket_references_ok_def executing_attempt_def opt_in_def)
  ultimately show ?thesis using ok1 by (simp add: docket_schema_ok_def)
qed

lemma executing_ok:
  assumes ok: "docket_schema_ok db" and active: "\<forall>c \<in> set (dtb_claims db). cl_id c = i \<longrightarrow> claim_active c"
  shows "docket_schema_ok (db\<lparr>dtb_claims := update_where (\<lambda>r. cl_id r = i)
    (\<lambda>r. r\<lparr>cl_state := ''executing'', cl_updated_at := now\<rparr>) (dtb_claims db)\<rparr>)"
proof -
  let ?cs = "update_where (\<lambda>r. cl_id r = i) (\<lambda>r. r\<lparr>cl_state := ''executing'', cl_updated_at := now\<rparr>) (dtb_claims db)"
  have same: "map cl_id ?cs = map cl_id (dtb_claims db)" "map cl_routing_decision_id ?cs = map cl_routing_decision_id (dtb_claims db)"
    by (rule map_update_where; simp)+
  have "map (\<lambda>c. (cl_run_id c, cl_task_id c)) (filter (\<lambda>c. cl_state c \<in> set ACTIVE_CLAIM_STATES) ?cs)
      = map (\<lambda>c. (cl_run_id c, cl_task_id c)) (filter (\<lambda>c. cl_state c \<in> set ACTIVE_CLAIM_STATES) (dtb_claims db))"
    using active by (intro map_filter_update_where) (auto simp: claim_active_def ACTIVE_CLAIM_STATES_def)
  moreover have "\<forall>c \<in> set ?cs. cl_state c \<in> set LEDGER_STATES \<and> btrim_nonempty (cl_owner_id c)"
    using ok by (auto simp: docket_schema_ok_def claims_ok_def set_update_where LEDGER_STATES_def)
  ultimately have "claims_ok ?cs" using ok same by (simp add: docket_schema_ok_def claims_ok_def)
  moreover have "\<forall>c \<in> set ?cs. cl_routing_decision_id c \<in> set (map rd_id (dtb_decisions db))"
  proof
    fix c
    assume "c \<in> set ?cs"
    then have "cl_routing_decision_id c \<in> set (map cl_routing_decision_id (dtb_claims db))"
      unfolding same(2) [symmetric] by simp
    then show "cl_routing_decision_id c \<in> set (map rd_id (dtb_decisions db))"
      using ok by (auto simp: docket_schema_ok_def docket_references_ok_def)
  qed
  then have "docket_references_ok (db\<lparr>dtb_claims := ?cs\<rparr>)"
    using ok unfolding docket_schema_ok_def docket_references_ok_def by (simp add: same(1) del: set_map)
  ultimately show ?thesis using ok by (simp add: docket_schema_ok_def)
qed

text \<open>
  A free turn can be claimed. When a decision has no claim, no active claim holds its run and
  task, and the attempt number is new, claiming succeeds with an executing attempt of that number,
  owned by the caller, whose claim is live for the fifteen minutes of the lease.
\<close>
theorem free_turn_is_claimed:
  assumes ok: "docket_schema_ok db" and free: "free_turn fc fa decision attempt d db"
  shows "\<exists>db' a. claim_turn_attempt us fc fa now decision work_run attempt resolved db = (db', Inr a)
    \<and> docket_schema_ok db' \<and> a \<in> set (dtb_attempts db') \<and> ta_id a = fa \<and> ta_attempt a = attempt \<and> ta_state a = ''executing''
    \<and> (\<exists>c \<in> set (dtb_claims db'). cl_id c = fc \<and> cl_owner_id c = claim_owner us work_run decision \<and> ta_claim_id a = Some (cl_id c))
    \<and> (\<forall>t. t < now + 900000 \<longrightarrow> claim_live t (dtb_claims db') a)"
proof -
  let ?c = "reserved_claim fc now d work_run (claim_owner us work_run decision)"
  let ?a = "executing_attempt fa now decision work_run attempt fc resolved"
  let ?x = "\<lambda>r. r\<lparr>cl_state := ''executing'', cl_updated_at := now\<rparr>"
  let ?db1 = "db\<lparr>dtb_claims := dtb_claims db @ [?c]\<rparr>"
  let ?db2 = "db\<lparr>dtb_claims := dtb_claims db @ [?c], dtb_attempts := dtb_attempts db @ [?a]\<rparr>"
  let ?db3 = "?db2\<lparr>dtb_claims := update_where (\<lambda>r. cl_id r = fc) ?x (dtb_claims ?db2)\<rparr>"
  have d: "find_decision decision db = Some d" "rd_id d = decision" "1 \<le> attempt"
    using free by (auto simp: free_turn_def find_decision_def dest: find_Some_set)
  have ok1: "docket_schema_ok ?db1" by (rule claim_insert_ok [OF ok free])
  have ok2: "docket_schema_ok ?db2" by (rule attempt_insert_ok [OF ok free ok1]) (simp add: reserved_claim_def)
  have ok3: "docket_schema_ok ?db3"
    using free by (intro executing_ok [OF ok2])
      (auto simp: free_turn_def reserved_claim_def claim_active_def ACTIVE_CLAIM_STATES_def)
  have none: "List.find (\<lambda>c. cl_routing_decision_id c = rd_id d) (dtb_claims db) = None"
    "List.find (\<lambda>a. ta_routing_decision_id a = decision \<and> ta_attempt a = attempt) (dtb_attempts db) = None"
    using free d(2) by (auto simp: free_turn_def find_None_all)
  have 1: "upsert_claim fc now d work_run (claim_owner us work_run decision) db = (?db1, Inr (Some fc))"
    using ok1 by (simp add: upsert_claim_def checked_writeM_def Let_def none reserved_claim_def)
  have 2: "upsert_attempt fa now decision work_run attempt fc resolved ?db1 = (?db2, Inr (Some ?a))"
    using ok2 by (simp add: upsert_attempt_def checked_writeM_def Let_def none executing_attempt_def)
  have 3: "\<exists>rows. update_claims (\<lambda>r. cl_id r = fc) ?x ?db2 = (?db3, Inr rows)"
    using ok3 by (simp add: update_claims_def checked_writeM_def)
  have "claim_turn_attempt us fc fa now decision work_run attempt resolved db = (?db3, Inr ?a)"
    using 1 2 3 d by (auto simp: claim_turn_attempt_def transactionM_def bindM_def queryM_def returnM_def)
  moreover have c: "?x ?c \<in> set (dtb_claims ?db3)" by (simp add: set_update_where reserved_claim_def)
  moreover have "claim_live t (dtb_claims ?db3) ?a" if "t < now + 900000" for t
    unfolding claim_live_def using that
    by (intro bexI [OF _ c]) (simp add: reserved_claim_def executing_attempt_def CLAIM_LEASE_SECONDS_def)
  ultimately show ?thesis using ok3
    by (intro exI [of _ ?db3] exI [of _ ?a] conjI bexI [OF _ c] allI impI) (simp_all add: executing_attempt_def reserved_claim_def)
qed

subsection \<open>A sample ledger\<close>

definition sample_intent :: "uuid \<Rightarrow> turn_intent" where
  "sample_intent key = \<lparr>ti_idempotency_key = key, ti_bear_id = 1, ti_job_id = 1, ti_run_id = 6, ti_task_id = 2,
     ti_source = SrcDispatch, ti_originating_conversation_id = None, ti_parent_conversation_id = None,
     ti_surface = SurfSandbox, ti_resolved_profile = None, ti_attempt = 1\<rparr>"

definition sample_decision :: routing_decision where
  "sample_decision = new_decision 10 0 (sample_intent 5) RouteAuto ConvScoped ''den-conv-a''"

definition sample_free_ledger :: docket_db where
  "sample_free_ledger = \<lparr>dtb_tasks = [sample_task 2 None 0],
     dtb_bindings = [\<lparr>cb_task_id = 2, cb_preferred_conversation_id = ''den-conv-a''\<rparr>],
     dtb_binding_runs = [\<lparr>cbr_run_id = 6, cbr_task_id = 2, cbr_conversation_id = ''den-conv-a''\<rparr>],
     dtb_decisions = [sample_decision], dtb_claims = [], dtb_attempts = [], dtb_attention = [], dtb_outbox = [],
     dtb_rollups = [], dtb_cursors = []\<rparr>"

definition sample_claim :: turn_claim where
  "sample_claim = (reserved_claim 20 0 sample_decision (Some 5) ''work-run:aaaaaa'')\<lparr>cl_state := ''executing''\<rparr>"

definition sample_attempt :: turn_attempt where
  "sample_attempt = executing_attempt 30 0 10 (Some 5) 1 20 (resolve_execution_profile None)"

definition sample_ledger :: docket_db where
  "sample_ledger = sample_free_ledger\<lparr>dtb_claims := [sample_claim], dtb_attempts := [sample_attempt]\<rparr>"

lemmas sample_ledger_eval = sample_ledger_def sample_free_ledger_def sample_claim_def sample_attempt_def sample_decision_def
  sample_intent_def new_decision_def reserved_claim_def executing_attempt_def sample_task_def resolve_execution_profile_def
  CLAIM_LEASE_SECONDS_def

lemmas docket_schema_eval = docket_schema_ok_def decisions_ok_def bindings_ok_def claims_ok_def attempts_ok_def attention_ok_def
  outbox_ok_def rollups_ok_def cursors_ok_def docket_references_ok_def attempt_lifecycle_ok_def attempt_columns_ok_def
  btrim_nonempty_def opt_in_def ACTIVE_CLAIM_STATES_def LEDGER_STATES_def

lemma sample_ledgers_ok: "docket_schema_ok sample_free_ledger" "docket_schema_ok sample_ledger"
  by (simp_all add: docket_schema_eval sample_ledger_eval)

theorem free_turn_is_claimed_witness:
  "\<exists>db' a. claim_turn_attempt unary_uuid 20 30 0 10 (Some 5) 1 (resolve_execution_profile None) sample_free_ledger = (db', Inr a)
     \<and> ta_state a = ''executing''"
proof -
  have "free_turn 20 30 10 1 sample_decision sample_free_ledger"
    by (simp add: free_turn_def find_decision_def sample_ledger_eval)
  from free_turn_is_claimed [OF sample_ledgers_ok(1) this, of unary_uuid 0 "Some 5" "resolve_execution_profile None"]
  show ?thesis by blast
qed

theorem claim_excludes_other_owners_witness:
  "claim_turn_attempt unary_uuid 21 31 0 10 (Some 7) 1 (resolve_execution_profile None) sample_ledger
   = (sample_ledger, Inl (Failed (ValidationError ''turn is already claimed by another worker'')))"
proof -
  have "sample_claim \<in> set (dtb_claims sample_ledger)" "find_decision 10 sample_ledger = Some sample_decision"
    "cl_routing_decision_id sample_claim = 10"
    by (simp_all add: find_decision_def sample_ledger_eval)
  moreover have "cl_owner_id sample_claim \<noteq> claim_owner unary_uuid (Some 7) 10"
    by (simp add: claim_owner_def unary_uuid_def sample_ledger_eval numeral_eq_Suc)
  ultimately show ?thesis
    using claim_excludes_other_owners [OF sample_ledgers_ok(2), of sample_claim 10 sample_decision 1] by simp
qed

theorem stale_worker_cannot_settle_witness:
  "terminalize_turn_attempt 900000 30 OutCompleted ''c'' RetryNone (JObj []) None None sample_ledger = (sample_ledger, Inr False)"
proof -
  have "\<forall>a \<in> set (dtb_attempts sample_ledger). ta_id a = 30 \<longrightarrow> \<not> claim_live 900000 (dtb_claims sample_ledger) a"
    by (simp add: claim_live_def sample_ledger_eval)
  moreover have "settle_args_ok ''c'' None None" by (simp add: settle_args_ok_def graphic_words)
  ultimately show ?thesis using stale_worker_cannot_settle [OF sample_ledgers_ok(2)] by blast
qed

theorem turn_settles_once_witness:
  "\<exists>db1. terminalize_turn_attempt 5 30 OutCompleted ''c'' RetryNone (JObj []) None None sample_ledger = (db1, Inr True)
     \<and> record_turn_activity 6 30 (JObj []) (run_ops (step_docket unary_uuid unary_uuid) db1 [OpStale 7 8]) 
       = (run_ops (step_docket unary_uuid unary_uuid) db1 [OpStale 7 8], Inr False)"
proof -
  obtain db1 where win:
    "terminalize_turn_attempt 5 30 OutCompleted ''c'' RetryNone (JObj []) None None sample_ledger = (db1, Inr True)"
    by (simp add: terminalize_turn_attempt_def graphic_words bindM_def settle_attempts_def checked_writeM_def Let_def
        update_where_def may_settle_def claim_live_def sample_ledger_eval settled_attempt_def merge_evidence_def returnM_def
        docket_schema_eval)
  have "settle_args_ok ''c'' None None" by (simp add: settle_args_ok_def graphic_words)
  then show ?thesis
    using win turn_settles_once [OF sample_ledgers_ok(2) win, of unary_uuid unary_uuid "[OpStale 7 8]"]
    unfolding Let_def by blast
qed

theorem watchdog_blocks_disposition_witness:
  "\<exists>db1. terminalize_stale_attempts 5 3 sample_ledger = (db1, Inr 1)
     \<and> (\<exists>e. apply_supervisor_disposition unary_uuid 30 db1 = (db1, Inl e))"
proof -
  obtain db1 where sweep: "terminalize_stale_attempts 5 3 sample_ledger = (db1, Inr 1)"
    by (simp add: terminalize_stale_attempts_def settle_attempts_def checked_writeM_def Let_def
        update_where_def sample_ledger_eval settled_attempt_def merge_evidence_def watchdog_evidence_def docket_schema_eval)
  have "sample_attempt \<in> set (dtb_attempts sample_ledger)" "ta_state sample_attempt = ''executing''"
    "ta_last_activity_at sample_attempt < 3" "ta_id sample_attempt = 30"
    by (simp_all add: sample_ledger_eval)
  then show ?thesis
    using sweep watchdog_blocks_disposition [OF sample_ledgers_ok(2) sweep, of sample_attempt unary_uuid unary_uuid "[]"]
    unfolding Let_def by auto
qed

theorem routing_idempotent_and_sticky_witness:
  "route_turn unary_uuid unary_uuid 11 12 9 (sample_intent 5) sample_free_ledger = (sample_free_ledger, Inr sample_decision)"
proof -
  have "route_turn unary_uuid unary_uuid 0 0 0 (sample_intent 5) sample_free_ledger = (sample_free_ledger, Inr sample_decision)"
    by (simp add: route_turn_def transactionM_def withM_def returnM_def find_decision_by_key_def sample_ledger_eval)
  from routing_idempotent_and_sticky [OF sample_ledgers_ok(1) this, of "[]"]
  show ?thesis by (simp add: Let_def sample_intent_def)
qed

end
