(* ===== verification/Transcript.thy ===== *)
theory Transcript
  imports Loop_Control
begin

section \<open>Transcript rows and chat messages\<close>

text \<open>
  How a stored conversation becomes the message list of a model call: the tool payloads of
  \<open>den-service/src/conversation/persistence.rs\<close>, the classification of tool results of
  \<open>agent_loop/tool_outcome.rs\<close>, and \<open>agent_loop/context.rs\<close> (reconstruction of messages from rows,
  repair of tool-call chains, pruning of long transcripts). \<open>strict\<close> is the environment flag
  \<open>BEARS_STRICT_TYPED_PAYLOADS\<close>, \<open>show_json\<close> the printer of \<open>serde_json\<close>. Decoding errors are
  \<open>None\<close>: every caller discards the error value.
\<close>

subsection \<open>Decoding of derived structures\<close>

text \<open>A structure is read from an object by name, or from an array by position.\<close>

definition struct_members :: "string list \<Rightarrow> json \<Rightarrow> (string \<times> json) list option" where
  "struct_members names v =
     (case v of JObj kvs \<Rightarrow> Some kvs
      | JArr xs \<Rightarrow> if length xs \<le> length names then Some (zip names xs) else None
      | _ \<Rightarrow> None)"

fun string_field :: "json option \<Rightarrow> string option" where
  "string_field (Some (JStr s)) = Some s"
| "string_field _ = None"

fun opt_string_field :: "json option \<Rightarrow> string option option" where
  "opt_string_field None = Some None"
| "opt_string_field (Some JNull) = Some None"
| "opt_string_field (Some (JStr s)) = Some (Some s)"
| "opt_string_field _ = None"

fun bool_field :: "json option \<Rightarrow> bool option" where
  "bool_field None = Some False"
| "bool_field (Some (JBool b)) = Some b"
| "bool_field _ = None"

subsection \<open>Tool payloads\<close>

datatype tool_result_status = TrsOk | TrsError | TrsTimeout | TrsIncomplete | TrsCancelled

definition tool_result_status_decode :: "string \<Rightarrow> tool_result_status option" where
  "tool_result_status_decode s =
     (if s = ''ok'' then Some TrsOk else if s = ''error'' then Some TrsError
      else if s = ''timeout'' then Some TrsTimeout else if s = ''incomplete'' then Some TrsIncomplete
      else if s = ''cancelled'' then Some TrsCancelled else None)"

text \<open>A variant without data is a string, or an object with the variant as its only key and null.\<close>

fun status_field :: "json option \<Rightarrow> tool_result_status option" where
  "status_field (Some (JStr s)) = tool_result_status_decode s"
| "status_field (Some (JObj [(k, JNull)])) = tool_result_status_decode k"
| "status_field _ = None"

record tool_request_payload =
  trq_event :: string
  trq_tool_call_id :: string
  trq_tool_name :: string
  trq_request_id :: "string option"
  trq_approval_request_id :: "string option"
  trq_args :: json
  trq_approval_required :: bool
  trq_approval_reason :: "string option"
  trq_route :: "string option"

definition decode_tool_request :: "json \<Rightarrow> tool_request_payload option" where
  "decode_tool_request v =
     Option.bind (struct_members [''event'', ''tool_call_id'', ''tool_name'', ''request_id'', ''approval_request_id'',
       ''args'', ''approval_required'', ''approval_reason'', ''route''] v) (\<lambda>kvs.
     Option.bind (string_field (map_of kvs ''event'')) (\<lambda>event.
     Option.bind (string_field (map_of kvs ''tool_call_id'')) (\<lambda>call.
     Option.bind (string_field (map_of kvs ''tool_name'')) (\<lambda>name.
     Option.bind (opt_string_field (map_of kvs ''request_id'')) (\<lambda>request.
     Option.bind (opt_string_field (map_of kvs ''approval_request_id'')) (\<lambda>approval.
     Option.bind (bool_field (map_of kvs ''approval_required'')) (\<lambda>required.
     Option.bind (opt_string_field (map_of kvs ''approval_reason'')) (\<lambda>reason.
     Option.bind (opt_string_field (map_of kvs ''route'')) (\<lambda>route.
     Some \<lparr>trq_event = event, trq_tool_call_id = call, trq_tool_name = name, trq_request_id = request,
       trq_approval_request_id = approval, trq_args = unwrap_or (map_of kvs ''args'') JNull,
       trq_approval_required = required, trq_approval_reason = reason, trq_route = route\<rparr>)))))))))"

definition try_tool_request :: "json \<Rightarrow> tool_request_payload option" where
  "try_tool_request v = filter_opt (\<lambda>p. trq_event p = ''tool_request'') (decode_tool_request v)"

record tool_result_payload =
  trp_event :: string
  trp_tool_call_id :: "string option"
  trp_tool_name :: "string option"
  trp_status :: tool_result_status
  trp_content :: "string option"
  trp_structured_content :: json
  trp_output_summary :: "string option"
  trp_output_preview :: "string option"
  trp_approval_request_id :: "string option"
  trp_request_id :: "string option"
  trp_diagnostic :: json

definition decode_tool_result :: "json \<Rightarrow> tool_result_payload option" where
  "decode_tool_result v =
     Option.bind (struct_members [''event'', ''tool_call_id'', ''tool_name'', ''status'', ''content'',
       ''structured_content'', ''output_summary'', ''output_preview'', ''approval_request_id'', ''request_id'',
       ''diagnostic''] v) (\<lambda>kvs.
     Option.bind (string_field (map_of kvs ''event'')) (\<lambda>event.
     Option.bind (opt_string_field (map_of kvs ''tool_call_id'')) (\<lambda>call.
     Option.bind (opt_string_field (map_of kvs ''tool_name'')) (\<lambda>name.
     Option.bind (status_field (map_of kvs ''status'')) (\<lambda>status.
     Option.bind (opt_string_field (map_of kvs ''content'')) (\<lambda>content.
     Option.bind (opt_string_field (map_of kvs ''output_summary'')) (\<lambda>summary.
     Option.bind (opt_string_field (map_of kvs ''output_preview'')) (\<lambda>preview.
     Option.bind (opt_string_field (map_of kvs ''approval_request_id'')) (\<lambda>approval.
     Option.bind (opt_string_field (map_of kvs ''request_id'')) (\<lambda>request.
     Some \<lparr>trp_event = event, trp_tool_call_id = call, trp_tool_name = name, trp_status = status,
       trp_content = content, trp_structured_content = unwrap_or (map_of kvs ''structured_content'') JNull,
       trp_output_summary = summary, trp_output_preview = preview, trp_approval_request_id = approval,
       trp_request_id = request, trp_diagnostic = unwrap_or (map_of kvs ''diagnostic'') JNull\<rparr>))))))))))"

definition try_tool_result :: "bool \<Rightarrow> json \<Rightarrow> tool_result_payload option" where
  "try_tool_result strict v = filter_opt (\<lambda>p. trp_event p = ''tool_result''
     \<and> \<not> (strict \<and> trp_status p \<noteq> TrsIncomplete
          \<and> (case map_option trim (trp_output_summary p) of None \<Rightarrow> True | Some s \<Rightarrow> s = [])))
     (decode_tool_result v)"

subsection \<open>Classification of tool results\<close>

definition LEGACY_SYNTHETIC_TOOL_RESULT_UNAVAILABLE :: string where
  "LEGACY_SYNTHETIC_TOOL_RESULT_UNAVAILABLE = ''Tool result unavailable (prior turn interrupted).''"

definition INCOMPLETE_TOOL_RESULT_MARK :: string where
  "INCOMPLETE_TOOL_RESULT_MARK = ''__den_tool_result_incomplete__''"

definition is_legacy_synthetic_interrupted_tool_result :: "string option \<Rightarrow> bool" where
  "is_legacy_synthetic_interrupted_tool_result content \<longleftrightarrow> content = Some LEGACY_SYNTHETIC_TOOL_RESULT_UNAVAILABLE"

definition is_incomplete_tool_result :: "string option \<Rightarrow> bool" where
  "is_incomplete_tool_result content \<longleftrightarrow> content = Some INCOMPLETE_TOOL_RESULT_MARK"

datatype tool_result_content_kind = TrcEmpty | TrcLegacyInterrupted | TrcIncomplete | TrcError | TrcOk

definition content_kind_is_error :: "tool_result_content_kind \<Rightarrow> bool" where
  "content_kind_is_error k \<longleftrightarrow> k = TrcError"

definition counts_toward_llm_resolution :: "tool_result_content_kind \<Rightarrow> bool" where
  "counts_toward_llm_resolution k \<longleftrightarrow> k \<noteq> TrcIncomplete \<and> k \<noteq> TrcLegacyInterrupted"

definition classify_tool_result_content :: "string option \<Rightarrow> tool_result_content_kind" where
  "classify_tool_result_content content =
     (case filter_opt (\<lambda>s. s \<noteq> []) (map_option trim content) of
        None \<Rightarrow> TrcEmpty
      | Some c \<Rightarrow>
         (if is_legacy_synthetic_interrupted_tool_result (Some c) then TrcLegacyInterrupted
          else if is_incomplete_tool_result (Some c) then TrcIncomplete
          else if prefix ''error:'' (to_ascii_lowercase c) \<or> prefix ''unsupported server tool:'' (to_ascii_lowercase c)
               \<or> str_contains c (CHR 0x22 # ''ok'' @ [CHR 0x22] @ '': false'')
               \<or> str_contains c (CHR 0x22 # ''ok'' @ [CHR 0x22] @ '':false'')
            then TrcError else TrcOk))"

definition tool_result_content_indicates_error :: "string option \<Rightarrow> bool" where
  "tool_result_content_indicates_error content = content_kind_is_error (classify_tool_result_content content)"

definition tool_message_counts_toward_llm_resolution :: "string option \<Rightarrow> bool" where
  "tool_message_counts_toward_llm_resolution content = counts_toward_llm_resolution (classify_tool_result_content content)"

fun tool_result_persistence_status_of :: "tool_result_content_kind \<Rightarrow> tool_result_status" where
  "tool_result_persistence_status_of TrcIncomplete = TrsIncomplete"
| "tool_result_persistence_status_of TrcError = TrsError"
| "tool_result_persistence_status_of _ = TrsOk"

definition tool_result_persistence_status :: "string option \<Rightarrow> tool_result_status" where
  "tool_result_persistence_status content = tool_result_persistence_status_of (classify_tool_result_content content)"

subsection \<open>Messages from rows\<close>

record transcript_row =
  tr_message_type :: string
  tr_content_text :: string
  tr_content_json :: json

definition text_message :: "string \<Rightarrow> string \<Rightarrow> chat_message" where
  "text_message role txt = \<lparr>msg_role = role, msg_content = Some txt, msg_tool_call_id = None, msg_name = None,
     msg_tool_calls = None\<rparr>"

definition assistant_has_tool_call :: "chat_message list \<Rightarrow> string \<Rightarrow> bool" where
  "assistant_has_tool_call messages call =
     (case Option.bind (List.find (\<lambda>m. msg_role m = ''assistant'') (rev messages)) msg_tool_calls of
        None \<Rightarrow> False | Some calls \<Rightarrow> \<exists>c \<in> set calls. call_id c = call)"

definition request_call :: "(json \<Rightarrow> string) \<Rightarrow> tool_request_payload \<Rightarrow> chat_tool_call" where
  "request_call show_json p = \<lparr>call_id = trq_tool_call_id p, call_type = ''function'',
     call_function_name = trq_tool_name p, call_function_arguments = show_json (trq_args p)\<rparr>"

text \<open>A call joins the last message when that is one of the assistant, else it is a message of its own.\<close>

definition add_call :: "chat_tool_call \<Rightarrow> chat_message list \<Rightarrow> chat_message list" where
  "add_call call messages =
     (if messages \<noteq> [] \<and> msg_role (last messages) = ''assistant''
      then butlast messages @ [(last messages)\<lparr>msg_tool_calls := Some (unwrap_or (msg_tool_calls (last messages)) [] @ [call])\<rparr>]
      else messages @ [\<lparr>msg_role = ''assistant'', msg_content = None, msg_tool_call_id = None, msg_name = None,
                       msg_tool_calls = Some [call]\<rparr>])"

type_synonym rebuild_state = "chat_message list \<times> (string \<rightharpoonup> chat_message)"

definition release_pending :: "string \<Rightarrow> rebuild_state \<Rightarrow> rebuild_state" where
  "release_pending call st =
     (case snd st call of Some m \<Rightarrow> (fst st @ [m], (snd st)(call := None)) | None \<Rightarrow> st)"

definition result_content :: "tool_result_payload \<Rightarrow> string \<Rightarrow> string option" where
  "result_content p row_text =
     (if trp_status p = TrsIncomplete then Some INCOMPLETE_TOOL_RESULT_MARK
      else or_else (trp_output_preview p) (or_else (trp_content p)
        (or_else (Option.bind (jget (trp_structured_content p) ''content'') as_str_json)
        (or_else (trp_output_summary p) (if trim row_text = [] then None else Some row_text)))))"

definition add_result :: "tool_result_payload \<Rightarrow> string \<Rightarrow> rebuild_state \<Rightarrow> rebuild_state" where
  "add_result p row_text st =
     (let content = result_content p row_text;
          m = \<lparr>msg_role = ''tool'', msg_content = content, msg_tool_call_id = trp_tool_call_id p,
               msg_name = trp_tool_name p, msg_tool_calls = None\<rparr>
      in case trp_tool_call_id p of
           None \<Rightarrow> if content = None then st else (fst st @ [m], snd st)
         | Some call \<Rightarrow>
             if assistant_has_tool_call (fst st) call then (fst st @ [m], snd st)
             else (fst st, (snd st)(call \<mapsto> m)))"

definition reconstruct_step :: "bool \<Rightarrow> (json \<Rightarrow> string) \<Rightarrow> rebuild_state \<Rightarrow> transcript_row \<Rightarrow> rebuild_state" where
  "reconstruct_step strict show_json st row =
     (if (tr_message_type row = ''user'' \<or> tr_message_type row = ''assistant'') \<and> trim (tr_content_text row) \<noteq> []
        then (fst st @ [text_message (tr_message_type row) (tr_content_text row)], snd st)
      else if tr_message_type row = ''tool_call'' then
        (case try_tool_request (tr_content_json row) of
           None \<Rightarrow> st
         | Some p \<Rightarrow> release_pending (trq_tool_call_id p) (add_call (request_call show_json p) (fst st), snd st))
      else if tr_message_type row = ''tool_result'' then
        (case try_tool_result strict (tr_content_json row) of
           None \<Rightarrow> st
         | Some p \<Rightarrow> add_result p (tr_content_text row) st)
      else st)"

definition reconstruct_transcript_messages :: "bool \<Rightarrow> (json \<Rightarrow> string) \<Rightarrow> transcript_row list \<Rightarrow> chat_message list" where
  "reconstruct_transcript_messages strict show_json rows =
     fst (foldl (reconstruct_step strict show_json) ([], Map.empty) rows)"

end
