(* ===== verification/Transcript_Chain.thy ===== *)
theory Transcript_Chain
  imports Transcript
begin

section \<open>Repair and pruning of message chains\<close>

text \<open>
  \<open>repair_tool_call_message_chain\<close> and the pruning of long transcripts of \<open>agent_loop/context.rs\<close>,
  and the helpers of \<open>agent_loop/overflow_retry.rs\<close> that rebuild the messages of a session.
\<close>

subsection \<open>Repair\<close>

definition is_tool :: "chat_message \<Rightarrow> bool" where
  "is_tool m \<longleftrightarrow> msg_role m = ''tool''"

definition has_calls :: "chat_message \<Rightarrow> bool" where
  "has_calls m \<longleftrightarrow> msg_role m = ''assistant'' \<and> is_some_and (msg_tool_calls m) (\<lambda>calls. calls \<noteq> [])"

definition required_ids :: "chat_message \<Rightarrow> string list" where
  "required_ids m = map call_id (unwrap_or (msg_tool_calls m) [])"

record chain_scan =
  sc_kept :: "chat_message list"
  sc_resolved :: "string list"
  sc_legacy :: bool
  sc_rest :: "chat_message list"

text \<open>The inner loop over the tool messages behind an assistant message; the set is a list of its members.\<close>

fun scan_tools :: "string list \<Rightarrow> string list \<Rightarrow> bool \<Rightarrow> chat_message list \<Rightarrow> chain_scan" where
  "scan_tools required resolved legacy [] =
     \<lparr>sc_kept = [], sc_resolved = resolved, sc_legacy = legacy, sc_rest = []\<rparr>"
| "scan_tools required resolved legacy (m # ms) =
     (if \<not> is_tool m then \<lparr>sc_kept = [], sc_resolved = resolved, sc_legacy = legacy, sc_rest = m # ms\<rparr>
      else case msg_tool_call_id m of
        None \<Rightarrow> scan_tools required resolved legacy ms
      | Some call \<Rightarrow>
          if call \<notin> set required \<or> call \<in> set resolved then scan_tools required resolved legacy ms
          else
            (let legacy' = (legacy \<or> is_legacy_synthetic_interrupted_tool_result (msg_content m));
                 resolved' = (if tool_message_counts_toward_llm_resolution (msg_content m) then call # resolved else resolved);
                 sc = scan_tools required resolved' legacy' ms
             in sc\<lparr>sc_kept := m # sc_kept sc\<rparr>))"

definition scan_complete :: "string list \<Rightarrow> chain_scan \<Rightarrow> bool" where
  "scan_complete required sc \<longleftrightarrow> \<not> sc_legacy sc \<and> set required \<subseteq> set (sc_resolved sc)"

lemma scan_rest_length: "length (sc_rest (scan_tools required resolved legacy ms)) \<le> length ms"
  by (induction ms arbitrary: resolved legacy) (auto simp: Let_def le_SucI split: option.splits)

function repair_tool_call_message_chain :: "chat_message list \<Rightarrow> chat_message list" where
  "repair_tool_call_message_chain [] = []"
| "repair_tool_call_message_chain (m # ms) =
     (if has_calls m then
        (let sc = scan_tools (required_ids m) [] False ms
         in (if scan_complete (required_ids m) sc then m # sc_kept sc else [])
            @ repair_tool_call_message_chain (sc_rest sc))
      else if is_tool m then repair_tool_call_message_chain ms
      else m # repair_tool_call_message_chain ms)"
  by pat_completeness auto
termination
  by (relation "measure length") (auto simp: le_imp_less_Suc scan_rest_length)

subsection \<open>Pruning\<close>

definition MAX_TAIL_MESSAGES :: nat where
  "MAX_TAIL_MESSAGES = 64"

definition DIALOGUE_ANCHOR_LIMIT :: nat where
  "DIALOGUE_ANCHOR_LIMIT = 8"

function skip_tool_messages :: "chat_message list \<Rightarrow> nat \<Rightarrow> nat" where
  "skip_tool_messages messages i =
     (if i < length messages \<and> is_tool (messages ! i) then skip_tool_messages messages (i + 1) else i)"
  by pat_completeness auto
termination
  by (relation "measure (\<lambda>(messages, i). length messages - i)") auto

declare skip_tool_messages.simps [simp del]

definition is_dialogue :: "chat_message \<Rightarrow> bool" where
  "is_dialogue m \<longleftrightarrow> msg_role m = ''user''
     \<or> (msg_role m = ''assistant'' \<and> (case msg_tool_calls m of None \<Rightarrow> True | Some calls \<Rightarrow> calls = []))"

definition system_prefix :: "chat_message list \<Rightarrow> chat_message list" where
  "system_prefix messages = (case messages of m # _ \<Rightarrow> if msg_role m = ''system'' then [m] else [] | [] \<Rightarrow> [])"

text \<open>The indices of at most eight dialogue messages before the tail, latest first.\<close>

definition dialogue_anchor_indices :: "chat_message list \<Rightarrow> nat \<Rightarrow> nat \<Rightarrow> nat list" where
  "dialogue_anchor_indices messages system_count tail_start =
     take DIALOGUE_ANCHOR_LIMIT (rev (filter (\<lambda>i. is_dialogue (messages ! i)) [system_count..<min tail_start (length messages)]))"

record prune_plan =
  pp_system :: "chat_message list"
  pp_anchors :: "nat list"
  pp_tail_start :: nat

definition prune_plan_for :: "chat_message list \<Rightarrow> prune_plan" where
  "prune_plan_for messages =
     (let system = system_prefix messages;
          start = skip_tool_messages messages (length messages - (MAX_TAIL_MESSAGES - 1));
          anchors = dialogue_anchor_indices messages (length system) start;
          shifted = min (start + length anchors) (length messages)
      in \<lparr>pp_system = system, pp_anchors = anchors, pp_tail_start = skip_tool_messages messages shifted\<rparr>)"

definition anchored :: "chat_message list \<Rightarrow> prune_plan \<Rightarrow> chat_message list" where
  "anchored messages plan =
     map (\<lambda>i. messages ! i) (filter (\<lambda>i. i \<in> set (pp_anchors plan)) [length (pp_system plan)..<pp_tail_start plan])"

record transcript_prune_diagnostics =
  tpd_pruned_message_count :: u32
  tpd_pruned_character_count :: u32

fun sum_chk :: "u32 list \<Rightarrow> u32 \<Rightarrow> panic + u32" where
  "sum_chk [] acc = Inr acc"
| "sum_chk (x # xs) acc = bindR (add_chk acc x) (sum_chk xs)"

definition pruned_character_count :: "chat_message list \<Rightarrow> prune_plan \<Rightarrow> panic + u32" where
  "pruned_character_count messages plan =
     sum_chk (map (\<lambda>c. word_of_nat (char_count c)) (List.map_filter (\<lambda>i. msg_content (messages ! i))
       (filter (\<lambda>i. i \<notin> set (pp_anchors plan)) [length (pp_system plan)..<pp_tail_start plan]))) 0"

definition prune_messages_for_native_pair_with_diagnostics ::
    "chat_message list \<Rightarrow> panic + chat_message list \<times> transcript_prune_diagnostics" where
  "prune_messages_for_native_pair_with_diagnostics messages =
     (if length messages \<le> MAX_TAIL_MESSAGES
      then Inr (messages, \<lparr>tpd_pruned_message_count = 0, tpd_pruned_character_count = 0\<rparr>)
      else let plan = prune_plan_for messages in
        bindR (pruned_character_count messages plan) (\<lambda>chars.
        Inr (repair_tool_call_message_chain
               (pp_system plan @ anchored messages plan @ drop (pp_tail_start plan) messages),
             \<lparr>tpd_pruned_message_count =
                word_of_nat (pp_tail_start plan - length (pp_system plan) - length (pp_anchors plan)),
              tpd_pruned_character_count = chars\<rparr>)))"

definition prune_messages_for_native_pair :: "chat_message list \<Rightarrow> panic + chat_message list" where
  "prune_messages_for_native_pair messages =
     bindR (prune_messages_for_native_pair_with_diagnostics messages) (\<lambda>p. Inr (fst p))"

definition prune_messages_for_native_chat :: "chat_message list \<Rightarrow> panic + chat_message list" where
  "prune_messages_for_native_chat messages = prune_messages_for_native_pair messages"

end
