(* ===== verification/Transcript_Properties.thy ===== *)
theory Transcript_Properties
  imports Transcript_Chain
begin

section \<open>What the model is shown\<close>

text \<open>
  The grammar of message lists that a provider accepts, and that the repair produces it; what the
  reconstruction keeps of the rows; the size of a pruned transcript. Two theorems show behaviours
  that the surrounding code does not intend.
\<close>

subsection \<open>Tool-call chains\<close>

text \<open>
  A valid list: every answer stands behind the message with its call, and every call is answered
  there by a result that counts.
\<close>

inductive valid_chain :: "chat_message list \<Rightarrow> bool" where
  valid_Nil: "valid_chain []"
| valid_plain: "valid_chain ms \<Longrightarrow> \<not> is_tool m \<Longrightarrow> \<not> has_calls m \<Longrightarrow> valid_chain (m # ms)"
| valid_calls: "valid_chain ms \<Longrightarrow> has_calls m \<Longrightarrow> list_all is_tool ts
    \<Longrightarrow> (\<And>t. t \<in> set ts \<Longrightarrow> \<exists>i \<in> set (required_ids m). msg_tool_call_id t = Some i)
    \<Longrightarrow> (\<And>i. i \<in> set (required_ids m) \<Longrightarrow> \<exists>t \<in> set ts. msg_tool_call_id t = Some i
          \<and> tool_message_counts_toward_llm_resolution (msg_content t))
    \<Longrightarrow> valid_chain (m # ts @ ms)"

lemma has_calls_not_tool: "has_calls m \<Longrightarrow> \<not> is_tool m"
  by (simp add: has_calls_def is_tool_def)

lemma scan_rest: "sc_rest (scan_tools req res leg ms) = dropWhile is_tool ms"
  by (induction ms arbitrary: res leg) (auto simp: Let_def split: option.splits)

text \<open>Induction over a scan: it stops, skips a message or keeps it.\<close>

definition scan_keeps :: "string list \<Rightarrow> string list \<Rightarrow> chat_message \<Rightarrow> bool" where
  "scan_keeps req res m \<longleftrightarrow> is_tool m \<and> is_some_and (msg_tool_call_id m) (\<lambda>i. i \<in> set req \<and> i \<notin> set res)"

definition resolves :: "chat_message \<Rightarrow> string list \<Rightarrow> string list" where
  "resolves m res = (if tool_message_counts_toward_llm_resolution (msg_content m) then the (msg_tool_call_id m) # res else res)"

lemma scan_induct [case_names stop skip keep]:
  assumes "\<And>res leg ms. ms = [] \<or> \<not> is_tool (hd ms)
      \<Longrightarrow> P res leg ms \<lparr>sc_kept = [], sc_resolved = res, sc_legacy = leg, sc_rest = ms\<rparr>"
    and "\<And>res leg m ms. is_tool m \<Longrightarrow> \<not> scan_keeps req res m \<Longrightarrow> P res leg ms (scan_tools req res leg ms)
      \<Longrightarrow> P res leg (m # ms) (scan_tools req res leg ms)"
    and "\<And>res leg m ms sc. scan_keeps req res m
      \<Longrightarrow> sc = scan_tools req (resolves m res) (leg \<or> is_legacy_synthetic_interrupted_tool_result (msg_content m)) ms
      \<Longrightarrow> P (resolves m res) (leg \<or> is_legacy_synthetic_interrupted_tool_result (msg_content m)) ms sc
      \<Longrightarrow> P res leg (m # ms) (sc\<lparr>sc_kept := m # sc_kept sc\<rparr>)"
  shows "P res leg ms (scan_tools req res leg ms)"
proof (induction ms arbitrary: res leg)
  case (Cons m ms)
  have "scan_tools req res leg (m # ms) = (if \<not> is_tool m
        then \<lparr>sc_kept = [], sc_resolved = res, sc_legacy = leg, sc_rest = m # ms\<rparr>
      else if scan_keeps req res m
        then (let sc = scan_tools req (resolves m res) (leg \<or> is_legacy_synthetic_interrupted_tool_result (msg_content m)) ms
              in sc\<lparr>sc_kept := m # sc_kept sc\<rparr>)
      else scan_tools req res leg ms)"
    by (cases "msg_tool_call_id m") (auto simp: scan_keeps_def resolves_def)
  then show ?case using assms Cons by (auto simp: Let_def simp del: scan_tools.simps)
qed (simp add: assms)

lemma scan_kept_all:
  "\<forall>t \<in> set (sc_kept (scan_tools req res leg ms)). is_tool t \<and> (\<exists>i \<in> set req. msg_tool_call_id t = Some i)"
  by (rule scan_induct [where P = "\<lambda>res leg ms sc. \<forall>t \<in> set (sc_kept sc). is_tool t \<and> (\<exists>i \<in> set req. msg_tool_call_id t = Some i)"])
    (auto simp: scan_keeps_def is_some_and_def split: option.splits)

lemmas scan_kept_tools = bspec [OF scan_kept_all]

lemma scan_resolved:
  "\<forall>i \<in> set (sc_resolved (scan_tools req res leg ms)). i \<in> set res
     \<or> (\<exists>t \<in> set (sc_kept (scan_tools req res leg ms)). msg_tool_call_id t = Some i
          \<and> tool_message_counts_toward_llm_resolution (msg_content t))"
  by (rule scan_induct [where P = "\<lambda>res leg ms sc. \<forall>i \<in> set (sc_resolved sc). i \<in> set res
      \<or> (\<exists>t \<in> set (sc_kept sc). msg_tool_call_id t = Some i \<and> tool_message_counts_toward_llm_resolution (msg_content t))"])
    (auto simp: scan_keeps_def resolves_def is_some_and_def split: option.splits if_splits)

lemma scan_subseq: "subseq (sc_kept (scan_tools req res leg ms) @ sc_rest (scan_tools req res leg ms)) ms"
  by (induction ms arbitrary: res leg) (auto simp: Let_def split: option.splits)

text \<open>Scanning what a scan kept keeps all of it.\<close>

lemma scan_again:
  "rest = [] \<or> \<not> is_tool (hd rest) \<Longrightarrow>
   scan_tools req res leg (sc_kept (scan_tools req res leg ms) @ rest) = (scan_tools req res leg ms)\<lparr>sc_rest := rest\<rparr>"
proof (induction ms arbitrary: res leg)
  case Nil
  then show ?case by (cases rest) auto
next
  case (Cons m ms)
  then show ?case by (cases rest) (auto simp: Let_def split: option.splits)
qed

lemma repair_hd: "repair_tool_call_message_chain ms = [] \<or> \<not> is_tool (hd (repair_tool_call_message_chain ms))"
  by (induction ms rule: repair_tool_call_message_chain.induct) (auto simp: Let_def has_calls_not_tool)

lemma repair_valid: "valid_chain (repair_tool_call_message_chain ms)"
proof (induction ms rule: repair_tool_call_message_chain.induct)
  case (2 m ms)
  show ?case
  proof (cases "has_calls m \<and> scan_complete (required_ids m) (scan_tools (required_ids m) [] False ms)")
    case True
    let ?sc = "scan_tools (required_ids m) [] False ms"
    have "valid_chain (m # sc_kept ?sc @ repair_tool_call_message_chain (sc_rest ?sc))"
    proof (rule valid_calls)
      show "valid_chain (repair_tool_call_message_chain (sc_rest ?sc))" using 2 True by simp
      show "list_all is_tool (sc_kept ?sc)" using scan_kept_tools by (auto simp: list_all_iff)
      show "\<exists>t \<in> set (sc_kept ?sc). msg_tool_call_id t = Some i
          \<and> tool_message_counts_toward_llm_resolution (msg_content t)" if "i \<in> set (required_ids m)" for i
        using that True bspec [OF scan_resolved, of i "required_ids m" "[]" False ms] by (auto simp: scan_complete_def)
    qed (use True scan_kept_tools in auto)
    then show ?thesis using True by (simp add: Let_def)
  qed (use 2 in \<open>auto simp: Let_def intro: valid_chain.intros\<close>)
qed (simp add: valid_Nil)

lemma repair_idem: "repair_tool_call_message_chain (repair_tool_call_message_chain ms) = repair_tool_call_message_chain ms"
proof (induction ms rule: repair_tool_call_message_chain.induct)
  case (2 m ms)
  then show ?case
    using scan_again [OF repair_hd, of "required_ids m" "[]" False ms]
    by (auto simp: Let_def scan_complete_def)
qed simp

lemma repair_subseq: "subseq (repair_tool_call_message_chain ms) ms"
proof (induction ms rule: repair_tool_call_message_chain.induct)
  case (2 m ms)
  let ?sc = "scan_tools (required_ids m) [] False ms"
  have "subseq (repair_tool_call_message_chain (sc_rest ?sc)) ms \<and>
      subseq (sc_kept ?sc @ repair_tool_call_message_chain (sc_rest ?sc)) ms" if "has_calls m"
  proof -
    have r: "subseq (repair_tool_call_message_chain (sc_rest ?sc)) (sc_rest ?sc)" using 2 that by simp
    then have "subseq (sc_kept ?sc @ repair_tool_call_message_chain (sc_rest ?sc)) ms"
      using scan_subseq [of "required_ids m" "[]" False ms]
      by (meson list_emb_append_mono subseq_order.order_refl subseq_order.order_trans)
    then show ?thesis using list_emb_append2 subseq_order.order_refl subseq_order.order_trans by blast
  qed
  then show ?case using 2 by (auto simp: Let_def)
qed simp

definition plain_message :: "chat_message \<Rightarrow> bool" where
  "plain_message m \<longleftrightarrow> \<not> is_tool m \<and> \<not> has_calls m"

lemma plain_dropWhile: "filter plain_message (dropWhile is_tool ms) = filter plain_message ms"
  by (induction ms) (auto simp: plain_message_def)

lemma scan_kept_plain: "filter plain_message (sc_kept (scan_tools req res leg ms)) = []"
  using scan_kept_tools by (fastforce simp: filter_empty_conv plain_message_def)

lemma repair_plain: "filter plain_message (repair_tool_call_message_chain ms) = filter plain_message ms"
proof (induction ms rule: repair_tool_call_message_chain.induct)
  case (2 m ms)
  then show ?case using plain_message_def [of m]
    by (auto simp: Let_def scan_kept_plain scan_rest plain_dropWhile)
qed simp

text \<open>
  C19. The repair makes every list valid: each tool message follows the assistant message that asked
  for it, and each call of a kept assistant message is answered there by a result that counts.
  Repairing again changes nothing, no message is invented or moved, and every message that neither
  calls tools nor answers a call is kept.
\<close>
theorem repaired_chain_is_valid:
  "valid_chain (repair_tool_call_message_chain ms)
   \<and> repair_tool_call_message_chain (repair_tool_call_message_chain ms) = repair_tool_call_message_chain ms
   \<and> subseq (repair_tool_call_message_chain ms) ms
   \<and> filter plain_message (repair_tool_call_message_chain ms) = filter plain_message ms"
  using repair_valid repair_idem repair_subseq repair_plain by simp

subsection \<open>Reconstruction\<close>

definition texts_of :: "string \<Rightarrow> chat_message list \<Rightarrow> string list" where
  "texts_of role ms = List.map_filter msg_content (filter (\<lambda>m. msg_role m = role) ms)"

definition calls_in :: "chat_message list \<Rightarrow> chat_tool_call list" where
  "calls_in ms = concat (map (\<lambda>m. unwrap_or (msg_tool_calls m) []) ms)"

definition row_texts :: "string \<Rightarrow> transcript_row list \<Rightarrow> string list" where
  "row_texts kind rows = map tr_content_text (filter (\<lambda>r. tr_message_type r = kind \<and> trim (tr_content_text r) \<noteq> []) rows)"

definition row_calls :: "(json \<Rightarrow> string) \<Rightarrow> transcript_row list \<Rightarrow> chat_tool_call list" where
  "row_calls show_json rows = map (request_call show_json) (List.map_filter (\<lambda>r. try_tool_request (tr_content_json r))
     (filter (\<lambda>r. tr_message_type r = ''tool_call'') rows))"

text \<open>A tool message that a result row yields.\<close>

definition row_result :: "bool \<Rightarrow> transcript_row \<Rightarrow> chat_message \<Rightarrow> bool" where
  "row_result strict r m \<longleftrightarrow> tr_message_type r = ''tool_result'' \<and> (\<exists>p. try_tool_result strict (tr_content_json r) = Some p
     \<and> m = \<lparr>msg_role = ''tool'', msg_content = result_content p (tr_content_text r), msg_tool_call_id = trp_tool_call_id p,
            msg_name = trp_tool_name p, msg_tool_calls = None\<rparr>)"

lemma texts_of_append [simp]: "texts_of role (xs @ ys) = texts_of role xs @ texts_of role ys"
  by (simp add: texts_of_def List.map_filter_def)

lemma calls_in_append [simp]: "calls_in (xs @ ys) = calls_in xs @ calls_in ys"
  by (simp add: calls_in_def)

lemma add_call_observed:
  "texts_of role (add_call c ms) = texts_of role ms \<and> calls_in (add_call c ms) = calls_in ms @ [c]
   \<and> filter is_tool (add_call c ms) = filter is_tool ms"
proof (cases "ms = []")
  case False
  then obtain xs m where "ms = xs @ [m]" by (metis append_butlast_last_id)
  then show ?thesis
    by (auto simp: add_call_def texts_of_def calls_in_def is_tool_def List.map_filter_def)
qed (simp add: add_call_def texts_of_def calls_in_def is_tool_def List.map_filter_def)

text \<open>What the loop keeps: texts and calls are those of the rows read, tool messages come from result rows.\<close>

definition rebuilt :: "bool \<Rightarrow> (json \<Rightarrow> string) \<Rightarrow> transcript_row list \<Rightarrow> rebuild_state \<Rightarrow> bool" where
  "rebuilt strict show_json rows st \<longleftrightarrow>
     texts_of ''user'' (fst st) = row_texts ''user'' rows
     \<and> texts_of ''assistant'' (fst st) = row_texts ''assistant'' rows
     \<and> calls_in (fst st) = row_calls show_json rows
     \<and> (\<forall>m \<in> set (filter is_tool (fst st)) \<union> ran (snd st). \<exists>r \<in> set rows. row_result strict r m)"

lemma rows_snoc [simp]:
  "row_texts k (rows @ [r]) = row_texts k rows @ row_texts k [r]"
  "row_calls show_json (rows @ [r]) = row_calls show_json rows @ row_calls show_json [r]"
  by (simp_all add: row_texts_def row_calls_def List.map_filter_def)

lemma rebuilt_other:
  assumes "rebuilt strict show_json rows st"
    and "row_texts ''user'' [r] = []" "row_texts ''assistant'' [r] = []" "row_calls show_json [r] = []"
  shows "rebuilt strict show_json (rows @ [r]) st"
  using assms by (auto simp: rebuilt_def)

lemma rebuilt_text:
  assumes "rebuilt strict show_json rows st" and "tr_message_type r \<in> {''user'', ''assistant''}" and "trim (tr_content_text r) \<noteq> []"
  shows "rebuilt strict show_json (rows @ [r]) (fst st @ [text_message (tr_message_type r) (tr_content_text r)], snd st)"
  using assms
  by (auto simp: rebuilt_def row_texts_def row_calls_def List.map_filter_def texts_of_def calls_in_def text_message_def is_tool_def)

lemma rebuilt_call:
  assumes "rebuilt strict show_json rows st" and "tr_message_type r = ''tool_call''"
    and "try_tool_request (tr_content_json r) = Some p"
  shows "rebuilt strict show_json (rows @ [r]) (release_pending i (add_call (request_call show_json p) (fst st), snd st))"
proof -
  have rows: "row_texts ''user'' [r] = []" "row_texts ''assistant'' [r] = []"
    "row_calls show_json [r] = [request_call show_json p]"
    using assms by (simp_all add: row_texts_def row_calls_def List.map_filter_def)
  have added: "rebuilt strict show_json (rows @ [r]) (add_call (request_call show_json p) (fst st), snd st)"
    using assms(1) rows add_call_observed by (auto simp: rebuilt_def)
  show ?thesis
  proof (cases "snd st i")
    case (Some m)
    then have m: "\<exists>x \<in> set rows. row_result strict x m" using assms(1) by (auto simp: rebuilt_def ran_def)
    then have "msg_role m = ''tool''" "msg_tool_calls m = None" by (auto simp: row_result_def)
    then show ?thesis using added Some m
      by (auto simp: rebuilt_def release_pending_def texts_of_def calls_in_def ran_def List.map_filter_def split: if_splits)
  qed (use added in \<open>simp add: release_pending_def\<close>)
qed

lemma rebuilt_result:
  assumes "rebuilt strict show_json rows st" and "tr_message_type r = ''tool_result''"
    and "try_tool_result strict (tr_content_json r) = Some p"
  shows "rebuilt strict show_json (rows @ [r]) (add_result p (tr_content_text r) st)"
proof -
  let ?m = "\<lparr>msg_role = ''tool'', msg_content = result_content p (tr_content_text r), msg_tool_call_id = trp_tool_call_id p,
            msg_name = trp_tool_name p, msg_tool_calls = None\<rparr>"
  have other: "rebuilt strict show_json (rows @ [r]) st"
    using assms by (intro rebuilt_other) (simp_all add: row_texts_def row_calls_def List.map_filter_def)
  have m: "row_result strict r ?m" using assms by (simp add: row_result_def)
  have "rebuilt strict show_json (rows @ [r]) (fst st @ [?m], snd st)"
    using other m by (auto simp: rebuilt_def texts_of_def calls_in_def List.map_filter_def)
  moreover have "rebuilt strict show_json (rows @ [r]) (fst st, (snd st)(i \<mapsto> ?m))" for i
    using other m by (auto simp: rebuilt_def ran_def)
  ultimately show ?thesis using other by (auto simp: add_result_def Let_def split: option.splits)
qed

lemma rebuilt_step:
  assumes "rebuilt strict show_json rows st"
  shows "rebuilt strict show_json (rows @ [r]) (reconstruct_step strict show_json st r)"
proof -
  consider (said) "tr_message_type r \<in> {''user'', ''assistant''}" "trim (tr_content_text r) \<noteq> []"
    | (call) p where "tr_message_type r = ''tool_call''" "try_tool_request (tr_content_json r) = Some p"
    | (result) p where "tr_message_type r = ''tool_result''" "try_tool_result strict (tr_content_json r) = Some p"
    | (other) "reconstruct_step strict show_json st r = st"
      "row_texts ''user'' [r] = []" "row_texts ''assistant'' [r] = []" "row_calls show_json [r] = []"
  proof (cases "(tr_message_type r \<in> {''user'', ''assistant''} \<and> trim (tr_content_text r) \<noteq> [])
      \<or> (tr_message_type r = ''tool_call'' \<and> try_tool_request (tr_content_json r) \<noteq> None)
      \<or> (tr_message_type r = ''tool_result'' \<and> try_tool_result strict (tr_content_json r) \<noteq> None)")
    case False
    then show ?thesis using that(4)
      by (auto simp: reconstruct_step_def row_texts_def row_calls_def List.map_filter_def split: if_splits option.splits)
  qed (use that in blast)
  then show ?thesis
  proof cases
    case said
    then show ?thesis using rebuilt_text [OF assms said] by (auto simp: reconstruct_step_def)
  next
    case call
    then show ?thesis using rebuilt_call [OF assms call] by (simp add: reconstruct_step_def)
  next
    case result
    then show ?thesis using rebuilt_result [OF assms result] by (simp add: reconstruct_step_def)
  next
    case other
    then show ?thesis using rebuilt_other [OF assms] by simp
  qed
qed

lemma rebuilt_all: "rebuilt strict show_json rows (foldl (reconstruct_step strict show_json) ([], Map.empty) rows)"
  by (induction rows rule: rev_induct)
    (simp_all add: rebuilt_step, simp add: rebuilt_def texts_of_def row_texts_def calls_in_def row_calls_def List.map_filter_def)

text \<open>
  Rebuilding messages from rows loses no text and no call: the user texts, the assistant texts
  and the tool calls of the messages are exactly those of the rows that are not blank and decode,
  in the order of the rows; every tool message carries the content of one result row.
\<close>
theorem transcript_keeps_texts_and_calls:
  "let ms = reconstruct_transcript_messages strict show_json rows in
     texts_of ''user'' ms = row_texts ''user'' rows
     \<and> texts_of ''assistant'' ms = row_texts ''assistant'' rows
     \<and> calls_in ms = row_calls show_json rows
     \<and> list_all (\<lambda>m. list_ex (\<lambda>r. row_result strict r m) rows) (filter is_tool ms)"
  using rebuilt_all [of strict show_json rows]
  by (auto simp: rebuilt_def reconstruct_transcript_messages_def Let_def list_all_iff list_ex_iff)

lemma mark_facts:
  "\<not> tool_message_counts_toward_llm_resolution (Some INCOMPLETE_TOOL_RESULT_MARK)"
  "INCOMPLETE_TOOL_RESULT_MARK \<noteq> LEGACY_SYNTHETIC_TOOL_RESULT_UNAVAILABLE"
proof -
  have "list_all graphic INCOMPLETE_TOOL_RESULT_MARK" by (simp add: INCOMPLETE_TOOL_RESULT_MARK_def graphic_def)
  then have "trim INCOMPLETE_TOOL_RESULT_MARK = INCOMPLETE_TOOL_RESULT_MARK" by (rule trim_graphic)
  moreover have "INCOMPLETE_TOOL_RESULT_MARK \<noteq> []" by (simp add: INCOMPLETE_TOOL_RESULT_MARK_def)
  ultimately show "\<not> tool_message_counts_toward_llm_resolution (Some INCOMPLETE_TOOL_RESULT_MARK)"
    by (simp add: tool_message_counts_toward_llm_resolution_def classify_tool_result_content_def
        counts_toward_llm_resolution_def is_incomplete_tool_result_def)
qed (simp add: INCOMPLETE_TOOL_RESULT_MARK_def LEGACY_SYNTHETIC_TOOL_RESULT_UNAVAILABLE_def)

lemma legacy_not_counted:
  "tool_message_counts_toward_llm_resolution c \<Longrightarrow> \<not> is_legacy_synthetic_interrupted_tool_result c"
proof
  assume counts: "tool_message_counts_toward_llm_resolution c" and "is_legacy_synthetic_interrupted_tool_result c"
  moreover have "trim LEGACY_SYNTHETIC_TOOL_RESULT_UNAVAILABLE = LEGACY_SYNTHETIC_TOOL_RESULT_UNAVAILABLE"
    by (rule trim_id) (simp_all add: LEGACY_SYNTHETIC_TOOL_RESULT_UNAVAILABLE_def trim_eval)
  moreover have "LEGACY_SYNTHETIC_TOOL_RESULT_UNAVAILABLE \<noteq> []" by (simp add: LEGACY_SYNTHETIC_TOOL_RESULT_UNAVAILABLE_def)
  ultimately show False
    by (simp add: tool_message_counts_toward_llm_resolution_def classify_tool_result_content_def
        counts_toward_llm_resolution_def is_legacy_synthetic_interrupted_tool_result_def)
qed

text \<open>
  An internal marker reaches the model. When the result of a call arrives after the call had
  been given an incomplete result (which the loader itself stores for calls without one), the
  rebuilt and repaired messages contain both: two answers for one call, the first being the
  internal marker for an incomplete result.
\<close>
theorem late_result_leaks_marker:
  assumes call: "tr_message_type r1 = ''tool_call''" "try_tool_request (tr_content_json r1) = Some p"
    and late: "tr_message_type r2 = ''tool_result''" "try_tool_result strict (tr_content_json r2) = Some q"
      "trp_status q = TrsIncomplete" "trp_tool_call_id q = Some (trq_tool_call_id p)"
    and result: "tr_message_type r3 = ''tool_result''" "try_tool_result strict (tr_content_json r3) = Some q'"
      "trp_tool_call_id q' = Some (trq_tool_call_id p)"
      "tool_message_counts_toward_llm_resolution (result_content q' (tr_content_text r3))"
  shows "\<exists>a t1 t2. repair_tool_call_message_chain (reconstruct_transcript_messages strict show_json [r1, r2, r3]) = [a, t1, t2]
    \<and> msg_tool_calls a = Some [request_call show_json p] \<and> msg_tool_call_id t1 = msg_tool_call_id t2
    \<and> msg_content t1 = Some INCOMPLETE_TOOL_RESULT_MARK \<and> msg_content t2 = result_content q' (tr_content_text r3)"
proof -
  have "reconstruct_transcript_messages strict show_json [r1, r2, r3] =
    [\<lparr>msg_role = ''assistant'', msg_content = None, msg_tool_call_id = None, msg_name = None,
        msg_tool_calls = Some [request_call show_json p]\<rparr>,
     \<lparr>msg_role = ''tool'', msg_content = Some INCOMPLETE_TOOL_RESULT_MARK, msg_tool_call_id = Some (trq_tool_call_id p),
        msg_name = trp_tool_name q, msg_tool_calls = None\<rparr>,
     \<lparr>msg_role = ''tool'', msg_content = result_content q' (tr_content_text r3),
        msg_tool_call_id = Some (trq_tool_call_id p), msg_name = trp_tool_name q', msg_tool_calls = None\<rparr>]"
    using assms
    by (simp add: reconstruct_transcript_messages_def reconstruct_step_def release_pending_def add_call_def add_result_def
        Let_def assistant_has_tool_call_def request_call_def result_content_def [of q])
  then show ?thesis
    using mark_facts result(4) legacy_not_counted [OF result(4)]
    by (simp add: has_calls_def required_ids_def Let_def is_tool_def request_call_def scan_complete_def
        is_legacy_synthetic_interrupted_tool_result_def [of "Some INCOMPLETE_TOOL_RESULT_MARK"])
qed

subsection \<open>Pruning\<close>

lemma skip_tool_ge: "i \<le> skip_tool_messages ms i"
proof (induction ms i rule: skip_tool_messages.induct)
  case (1 ms i)
  then show ?case by (subst skip_tool_messages.simps) (auto dest: Suc_leD)
qed

lemma skip_tool_le: "i \<le> length ms \<Longrightarrow> skip_tool_messages ms i \<le> length ms"
proof (induction ms i rule: skip_tool_messages.induct)
  case (1 ms i)
  then show ?case by (subst skip_tool_messages.simps) auto
qed

lemma skip_tool_none: "i < length ms \<Longrightarrow> \<not> is_tool (ms ! i) \<Longrightarrow> skip_tool_messages ms i = i"
  by (subst skip_tool_messages.simps) auto

lemma system_prefix_take: "system_prefix ms = take (length (system_prefix ms)) ms \<and> length (system_prefix ms) \<le> 1"
  by (cases ms) (auto simp: system_prefix_def)

lemma nth_upt_segment: "b \<le> length ms \<Longrightarrow> map (\<lambda>i. ms ! i) [a..<b] = take (b - a) (drop a ms)"
  by (rule nth_equalityI) auto

lemma subseq_picked:
  assumes "b \<le> length ms"
  shows "subseq (map (\<lambda>i. ms ! i) (filter P [a..<b])) (take (b - a) (drop a ms))"
  using subseq_map [of "filter P [a..<b]" "[a..<b]" "\<lambda>i. ms ! i"] nth_upt_segment [OF assms, of a] by simp

text \<open>The bounds of the plan, for a list that is too long.\<close>

lemma prune_plan_bounds:
  assumes "64 < length ms"
  shows "let plan = prune_plan_for ms in length (pp_anchors plan) \<le> 8
    \<and> pp_tail_start plan \<le> length ms \<and> min (length ms - 63 + length (pp_anchors plan)) (length ms) \<le> pp_tail_start plan
    \<and> length (pp_system plan) \<le> pp_tail_start plan"
proof -
  let ?start = "skip_tool_messages ms (length ms - 63)"
  let ?k = "length (dialogue_anchor_indices ms (length (system_prefix ms)) ?start)"
  have plan: "prune_plan_for ms = \<lparr>pp_system = system_prefix ms,
      pp_anchors = dialogue_anchor_indices ms (length (system_prefix ms)) ?start,
      pp_tail_start = skip_tool_messages ms (min (?start + ?k) (length ms))\<rparr>"
    by (simp add: prune_plan_for_def Let_def MAX_TAIL_MESSAGES_def)
  have start: "length ms - 63 \<le> ?start" by (rule skip_tool_ge)
  have anchors: "?k \<le> 8" by (simp add: dialogue_anchor_indices_def DIALOGUE_ANCHOR_LIMIT_def)
  have upper: "skip_tool_messages ms (min (?start + ?k) (length ms)) \<le> length ms" by (rule skip_tool_le) simp
  have "min (length ms - 63 + ?k) (length ms) \<le> min (?start + ?k) (length ms)"
    using start by (intro min.mono) simp_all
  also have "\<dots> \<le> skip_tool_messages ms (min (?start + ?k) (length ms))" by (rule skip_tool_ge)
  finally have lower: "min (length ms - 63 + ?k) (length ms) \<le> skip_tool_messages ms (min (?start + ?k) (length ms))" .
  have "length (system_prefix ms) \<le> min (length ms - 63 + ?k) (length ms)"
    using assms system_prefix_take [of ms] by (intro min.boundedI) linarith+
  with lower have "length (system_prefix ms) \<le> skip_tool_messages ms (min (?start + ?k) (length ms))" by (rule order_trans [rotated])
  with anchors upper lower show ?thesis unfolding Let_def plan prune_plan.simps by (intro conjI)
qed

lemma length_anchored: "length (anchored ms plan) \<le> length (pp_anchors plan)"
proof -
  have "length (anchored ms plan) = card (set (filter (\<lambda>i. i \<in> set (pp_anchors plan)) [length (pp_system plan)..<pp_tail_start plan]))"
    unfolding anchored_def length_map by (rule distinct_card [symmetric]) simp
  also have "\<dots> \<le> card (set (pp_anchors plan))" by (rule card_mono) auto
  also have "\<dots> \<le> length (pp_anchors plan)" by (rule card_length)
  finally show ?thesis .
qed

lemma pruned_input_bounds:
  assumes "64 < length ms"
  defines "plan \<equiv> prune_plan_for ms"
  shows "length (pp_system plan @ anchored ms plan @ drop (pp_tail_start plan) ms) \<le> 64
    \<and> subseq (pp_system plan @ anchored ms plan @ drop (pp_tail_start plan) ms) ms"
proof
  have b: "length (pp_anchors plan) \<le> 8" "pp_tail_start plan \<le> length ms" "length (pp_system plan) \<le> pp_tail_start plan"
    "min (length ms - 63 + length (pp_anchors plan)) (length ms) \<le> pp_tail_start plan"
    using prune_plan_bounds [OF assms(1)] by (auto simp: plan_def Let_def)
  have sys: "pp_system plan = take (length (pp_system plan)) ms" "length (pp_system plan) \<le> 1"
    using system_prefix_take [of ms] by (auto simp: plan_def prune_plan_for_def Let_def)
  show "length (pp_system plan @ anchored ms plan @ drop (pp_tail_start plan) ms) \<le> 64"
    using length_anchored [of ms plan] b sys(2) assms(1) by simp
  let ?s = "length (pp_system plan)" and ?t = "pp_tail_start plan"
  have "subseq (anchored ms plan @ drop ?t ms) (take (?t - ?s) (drop ?s ms) @ drop ?t ms)"
    unfolding anchored_def using subseq_picked [OF b(2)] by (rule list_emb_append_mono [OF _ subseq_order.order_refl])
  also have "take (?t - ?s) (drop ?s ms) @ drop ?t ms = drop ?s ms"
    using b(3) by (metis append_take_drop_id drop_drop le_add_diff_inverse2)
  finally have "subseq (pp_system plan @ anchored ms plan @ drop ?t ms) (pp_system plan @ drop ?s ms)"
    by (rule list_emb_append_mono [OF subseq_order.order_refl])
  then show "subseq (pp_system plan @ anchored ms plan @ drop ?t ms) ms"
    using sys(1) by (metis append_take_drop_id)
qed

subsection \<open>Dialogue without tools\<close>

lemma sum_chk_total: "unat acc + sum_list (map unat xs) < 2 ^ 32 \<Longrightarrow> \<exists>r. sum_chk xs acc = Inr (r :: u32)"
proof (induction xs arbitrary: acc)
  case (Cons x xs)
  then have "unat acc + unat x < 2 ^ 32" "unat (acc + x) = unat acc + unat x"
    by (auto simp: unat_word_ariths)
  then show ?case using Cons by (simp add: add_chk_def)
qed simp

lemma sum_filter_le: "sum_list (map (f :: 'a \<Rightarrow> nat) (filter P xs)) \<le> sum_list (map f xs)"
  by (induction xs) auto

lemma sum_segment_le: "sum_list (map (f :: 'a \<Rightarrow> nat) (take a (drop b xs))) \<le> sum_list (map f xs)"
proof -
  have "sum_list (map f xs) = sum_list (map f (take b xs)) + (sum_list (map f (take a (drop b xs)))
      + sum_list (map f (drop a (drop b xs))))"
    by (metis append_take_drop_id map_append sum_list_append)
  then show ?thesis by simp
qed

lemma filter_upt_segment:
  assumes "b \<le> n"
  shows "filter (\<lambda>i. i \<in> set [a..<b]) [0..<n] = [a..<b]"
  using assms by (intro sorted_distinct_set_unique) (auto simp: sorted_wrt_filter)

lemma unat_of_nat_le: "unat (word_of_nat n :: 'a::len word) \<le> n"
  by (simp add: unat_of_nat)

definition message_chars :: "chat_message \<Rightarrow> nat" where
  "message_chars m = (case msg_content m of None \<Rightarrow> 0 | Some c \<Rightarrow> char_count c)"

lemma pruned_chars_total:
  assumes "sum_list (map message_chars ms) < 2 ^ 32" and "pp_tail_start plan \<le> length ms"
  shows "\<exists>c. pruned_character_count ms plan = Inr c"
proof -
  define idx where "idx = filter (\<lambda>i. i \<notin> set (pp_anchors plan)) [length (pp_system plan)..<pp_tail_start plan]"
  have "sum_list (map unat (map (\<lambda>c. word_of_nat (char_count c) :: u32) (List.map_filter (\<lambda>i. msg_content (ms ! i)) is)))
      \<le> sum_list (map (\<lambda>i. message_chars (ms ! i)) is)" for "is"
    by (induction "is") (auto simp: List.map_filter_def message_chars_def intro: add_mono unat_of_nat_le trans_le_add2 split: option.splits)
  also have "sum_list (map (\<lambda>i. message_chars (ms ! i)) idx) \<le> sum_list (map message_chars ms)"
  proof -
    have "sum_list (map (\<lambda>i. message_chars (ms ! i)) idx)
        \<le> sum_list (map (\<lambda>i. message_chars (ms ! i)) [length (pp_system plan)..<pp_tail_start plan])"
      unfolding idx_def by (rule sum_filter_le)
    also have "\<dots> = sum_list (map message_chars (take (pp_tail_start plan - length (pp_system plan)) (drop (length (pp_system plan)) ms)))"
      unfolding nth_upt_segment [OF assms(2), symmetric] by (simp add: comp_def)
    also have "\<dots> \<le> sum_list (map message_chars ms)"
      by (rule sum_segment_le)
    finally show ?thesis .
  qed
  finally show ?thesis using assms(1) sum_chk_total [of 0] by (simp add: pruned_character_count_def idx_def)
qed

lemma repair_plain_id: "\<forall>m \<in> set ms. plain_message m \<Longrightarrow> repair_tool_call_message_chain ms = ms"
  by (induction ms) (auto simp: plain_message_def)

lemma dialogue_plain: "is_dialogue m \<Longrightarrow> plain_message m"
  by (auto simp: is_dialogue_def plain_message_def is_tool_def has_calls_def split: option.splits)

lemma dialogue_plan:
  assumes "\<forall>m \<in> set ms. is_dialogue m" and "72 \<le> length ms"
  shows "prune_plan_for ms = \<lparr>pp_system = [], pp_anchors = rev [length ms - 71..<length ms - 63], pp_tail_start = length ms - 55\<rparr>"
proof -
  have no_tool: "\<not> is_tool (ms ! i)" if "i < length ms" for i
    using assms(1) that dialogue_plain nth_mem plain_message_def by blast
  have sys: "system_prefix ms = []"
    using assms by (cases ms) (auto simp: system_prefix_def is_dialogue_def)
  have start: "skip_tool_messages ms (length ms - 63) = length ms - 63"
    using assms(2) no_tool by (intro skip_tool_none) simp_all
  have "filter (\<lambda>i. is_dialogue (ms ! i)) [0..<length ms - 63] = [0..<length ms - 63]"
    using assms by (intro filter_True) simp
  then have "dialogue_anchor_indices ms 0 (length ms - 63) = take 8 (rev [0..<length ms - 63])"
    using assms(2) by (simp add: dialogue_anchor_indices_def DIALOGUE_ANCHOR_LIMIT_def min_absorb1)
  also have "\<dots> = rev (drop (length ms - 71) [0..<length ms - 63])" using assms(2) by (simp add: take_rev)
  finally have anchors: "dialogue_anchor_indices ms 0 (length ms - 63) = rev [length ms - 71..<length ms - 63]" by simp
  have "length ms - 63 + 8 = length ms - 55" using assms(2) by simp
  moreover have "skip_tool_messages ms (length ms - 55) = length ms - 55"
    using assms(2) no_tool by (intro skip_tool_none) simp_all
  ultimately show ?thesis using assms(2)
    by (simp add: prune_plan_for_def Let_def MAX_TAIL_MESSAGES_def sys start anchors)
qed

lemma dialogue_pruned:
  assumes dialogue: "\<forall>m \<in> set ms. is_dialogue m" and long: "72 \<le> length ms"
    and chars: "sum_list (map message_chars ms) < 2 ^ 32"
  shows "prune_messages_for_native_pair ms = Inr (take 8 (drop (length ms - 71) ms) @ drop (length ms - 55) ms)"
proof -
  let ?plan = "prune_plan_for ms"
  note plan = dialogue_plan [OF dialogue long]
  have "filter (\<lambda>i. i \<in> set (rev [length ms - 71..<length ms - 63])) [0..<length ms - 55] = [length ms - 71..<length ms - 63]"
    unfolding set_rev using long by (intro filter_upt_segment) simp
  then have "anchored ms ?plan = map (\<lambda>i. ms ! i) [length ms - 71..<length ms - 63]"
    unfolding anchored_def plan by simp
  also have "\<dots> = take 8 (drop (length ms - 71) ms)" using long nth_upt_segment [of "length ms - 63" ms] by simp
  finally have anchors: "anchored ms ?plan = take 8 (drop (length ms - 71) ms)" .
  obtain c where c: "pruned_character_count ms ?plan = Inr c"
    using pruned_chars_total [OF chars, of ?plan] plan by auto
  have "repair_tool_call_message_chain (take 8 (drop (length ms - 71) ms) @ drop (length ms - 55) ms)
      = take 8 (drop (length ms - 71) ms) @ drop (length ms - 55) ms"
    using dialogue dialogue_plain by (intro repair_plain_id) (auto dest!: in_set_takeD in_set_dropD)
  moreover have "pp_system ?plan = []" "pp_tail_start ?plan = length ms - 55" by (simp_all add: plan)
  ultimately show ?thesis using long c anchors
    by (simp add: prune_messages_for_native_pair_def prune_messages_for_native_pair_with_diagnostics_def MAX_TAIL_MESSAGES_def Let_def)
qed

lemma repair_system_prefix: "prefix (system_prefix ms) (repair_tool_call_message_chain ms)"
  by (cases ms) (auto simp: system_prefix_def has_calls_def is_tool_def)

text \<open>
  A pruned transcript is bounded. Unless the dropped texts have four billion characters, pruning
  returns; it keeps at most 64 messages, all of them of the transcript and in its order, with the
  system message in front; and what it had to cut is a valid list.
\<close>
theorem pruned_transcript_bounded:
  assumes "sum_list (map message_chars ms) < 2 ^ 32"
  shows "\<exists>out. prune_messages_for_native_pair ms = Inr out \<and> length out \<le> 64 \<and> subseq out ms
    \<and> prefix (system_prefix ms) out \<and> (64 < length ms \<longrightarrow> valid_chain out)"
proof (cases "64 < length ms")
  case True
  let ?plan = "prune_plan_for ms"
  let ?in = "pp_system ?plan @ anchored ms ?plan @ drop (pp_tail_start ?plan) ms"
  obtain c where "pruned_character_count ms ?plan = Inr c"
    using pruned_chars_total [OF assms, of ?plan] prune_plan_bounds [OF True] by (auto simp: Let_def)
  then have out: "prune_messages_for_native_pair ms = Inr (repair_tool_call_message_chain ?in)"
    using True by (simp add: prune_messages_for_native_pair_def prune_messages_for_native_pair_with_diagnostics_def
        MAX_TAIL_MESSAGES_def Let_def)
  have "length ?in \<le> 64" "subseq ?in ms" using pruned_input_bounds [OF True] by auto
  then have "length (repair_tool_call_message_chain ?in) \<le> 64" "subseq (repair_tool_call_message_chain ?in) ms"
    using repair_subseq [of ?in] list_emb_length subseq_order.order_trans order_trans by metis+
  moreover have "prefix (system_prefix ms) (repair_tool_call_message_chain ?in)"
  proof (cases "system_prefix ms = []")
    case False
    moreover have "pp_system ?plan = system_prefix ms" by (simp add: prune_plan_for_def Let_def)
    ultimately have "system_prefix ?in = system_prefix ms" by (auto simp: system_prefix_def split: list.splits if_splits)
    then show ?thesis using repair_system_prefix [of ?in] by simp
  qed simp
  ultimately show ?thesis using out repair_valid by blast
next
  case False
  then show ?thesis using system_prefix_take [of ms] take_is_prefix [of _ ms]
    by (simp add: prune_messages_for_native_pair_def prune_messages_for_native_pair_with_diagnostics_def MAX_TAIL_MESSAGES_def)
      metis
qed

text \<open>
  Pruning a long dialogue leaves a hole. When at least 72 messages are plain dialogue, the
  result is the eight messages at the positions 71 to 64 from the end, followed by the last 55: the
  eight messages between them, which are newer than the ones kept, are dropped.
\<close>
theorem pruning_leaves_gap:
  assumes "\<forall>m \<in> set ms. is_dialogue m" and "72 \<le> length ms" and "sum_list (map message_chars ms) < 2 ^ 32"
  shows "prune_messages_for_native_pair ms = Inr (take 8 (drop (length ms - 71) ms) @ drop (length ms - 55) ms)"
  using assms by (rule dialogue_pruned)

subsection \<open>Applications\<close>

definition chatter :: "chat_message list" where
  "chatter = replicate 80 (text_message ''user'' ''hi'')"

lemma chatter_facts:
  "\<forall>m \<in> set chatter. is_dialogue m" "length chatter = 80" "sum_list (map message_chars chatter) < 2 ^ 32"
  by (auto simp: chatter_def is_dialogue_def text_message_def message_chars_def char_count_def sum_list_replicate)

theorem pruned_transcript_bounded_witness:
  "sum_list (map message_chars chatter) < 2 ^ 32
   \<and> (\<exists>out. prune_messages_for_native_pair chatter = Inr out \<and> length out \<le> 64 \<and> subseq out chatter \<and> valid_chain out)"
  using pruned_transcript_bounded [OF chatter_facts(3)] chatter_facts by auto

theorem pruning_leaves_gap_witness:
  "list_all is_dialogue chatter
   \<and> prune_messages_for_native_pair chatter = Inr (take 8 (drop 9 chatter) @ drop 25 chatter)"
  using pruning_leaves_gap [OF chatter_facts(1)] chatter_facts by (auto simp: list_all_iff)

definition sample_call_row :: transcript_row where
  "sample_call_row = \<lparr>tr_message_type = ''tool_call'', tr_content_text = [], tr_content_json =
     JObj [(''event'', JStr ''tool_request''), (''tool_call_id'', JStr ''c1''), (''tool_name'', JStr ''fs.read'')]\<rparr>"

definition sample_result_row :: "string \<Rightarrow> string \<Rightarrow> transcript_row" where
  "sample_result_row status content = \<lparr>tr_message_type = ''tool_result'', tr_content_text = [], tr_content_json =
     JObj [(''event'', JStr ''tool_result''), (''tool_call_id'', JStr ''c1''), (''status'', JStr status), (''content'', JStr content)]\<rparr>"

lemma sample_rows_decode:
  "map_option trq_tool_call_id (try_tool_request (tr_content_json sample_call_row)) = Some ''c1''"
  "map_option (\<lambda>q. (trp_status q, trp_tool_call_id q)) (try_tool_result False (tr_content_json (sample_result_row ''incomplete'' c)))
     = Some (TrsIncomplete, Some ''c1'')"
  "map_option (\<lambda>q. (trp_tool_call_id q, result_content q [])) (try_tool_result False (tr_content_json (sample_result_row ''ok'' c)))
     = Some (Some ''c1'', Some c)"
  by (simp_all add: sample_call_row_def sample_result_row_def try_tool_request_def decode_tool_request_def
      try_tool_result_def decode_tool_result_def struct_members_def tool_result_status_decode_def filter_opt_def result_content_def)

lemma sample_text_counts: "tool_message_counts_toward_llm_resolution (Some ''text'')"
proof -
  have "trim ''text'' = ''text''" by (rule trim_graphic) (simp add: graphic_def)
  then show ?thesis
    by (simp add: tool_message_counts_toward_llm_resolution_def classify_tool_result_content_def counts_toward_llm_resolution_def
        is_incomplete_tool_result_def is_legacy_synthetic_interrupted_tool_result_def INCOMPLETE_TOOL_RESULT_MARK_def
        LEGACY_SYNTHETIC_TOOL_RESULT_UNAVAILABLE_def)
qed

theorem late_result_leaks_marker_witness:
  "\<exists>a t1 t2. repair_tool_call_message_chain (reconstruct_transcript_messages False (\<lambda>_. ''{}'')
      [sample_call_row, sample_result_row ''incomplete'' [], sample_result_row ''ok'' ''text'']) = [a, t1, t2]
    \<and> msg_content t1 = Some INCOMPLETE_TOOL_RESULT_MARK \<and> msg_content t2 = Some ''text''"
proof -
  obtain p q q' where p: "try_tool_request (tr_content_json sample_call_row) = Some p" "trq_tool_call_id p = ''c1''"
    and q: "try_tool_result False (tr_content_json (sample_result_row ''incomplete'' [])) = Some q"
      "trp_status q = TrsIncomplete" "trp_tool_call_id q = Some ''c1''"
    and q': "try_tool_result False (tr_content_json (sample_result_row ''ok'' ''text'')) = Some q'"
      "trp_tool_call_id q' = Some ''c1''" "result_content q' [] = Some ''text''"
    using sample_rows_decode(1) sample_rows_decode(2) [of "[]"] sample_rows_decode(3) [of "''text''"] by auto
  have types: "tr_message_type sample_call_row = ''tool_call''" "tr_message_type (sample_result_row s c) = ''tool_result''"
    "tr_content_text (sample_result_row s c) = []" for s c
    by (simp_all add: sample_call_row_def sample_result_row_def)
  show ?thesis
    using late_result_leaks_marker [OF types(1) p(1) types(2) q(1,2) _ types(2) q'(1), where show_json = "\<lambda>_. ''{}''"]
      p q q' types sample_text_counts by auto
qed

end
