(* ===== verification/Compaction_Groups.thy ===== *)
theory Compaction_Groups
  imports Transcript
begin

section \<open>Transcript compaction: groups, policy, decision, summary\<close>

text \<open>
  The pure part of \<open>runtime/compaction\<close>: \<open>grouping.rs\<close>, \<open>policy.rs\<close>, the decision and the summary of
  \<open>mod.rs\<close> and \<open>summarize.rs\<close>, \<open>render.rs\<close>, \<open>overflow.rs\<close>, with the types of
  \<open>runtime/conversations.rs\<close>, the events of \<open>compaction_observability.rs\<close> and the helpers of
  \<open>runtime/text.rs\<close>. \<open>usize\<close> values are lengths and positions of lists in memory, so \<open>nat\<close>.
\<close>

subsection \<open>Types\<close>

datatype semantic_group_kind = UserTurn | AssistantReply | ToolInteraction | ApprovalInteraction
  | WorkflowUpdate | ArtifactUpdate | PriorCompactionArtifact | SystemEvent

fun semantic_group_kind_str :: "semantic_group_kind \<Rightarrow> string" where
  "semantic_group_kind_str UserTurn = ''UserTurn''"
| "semantic_group_kind_str AssistantReply = ''AssistantReply''"
| "semantic_group_kind_str ToolInteraction = ''ToolInteraction''"
| "semantic_group_kind_str ApprovalInteraction = ''ApprovalInteraction''"
| "semantic_group_kind_str WorkflowUpdate = ''WorkflowUpdate''"
| "semantic_group_kind_str ArtifactUpdate = ''ArtifactUpdate''"
| "semantic_group_kind_str PriorCompactionArtifact = ''PriorCompactionArtifact''"
| "semantic_group_kind_str SystemEvent = ''SystemEvent''"

record semantic_group =
  sg_kind :: semantic_group_kind
  sg_start_message_id :: "string option"
  sg_end_message_id :: "string option"
  sg_message_count :: nat
  sg_protected :: bool

datatype compaction_artifact_kind = CakIterativeSummary | CakCollapsedToolBundle | CakStructuredWorkflowSummary

record iterative_summary =
  is_active_user_goals :: "string list"
  is_important_constraints :: "string list"
  is_decisions_made :: "string list"
  is_artifact_refs :: "string list"
  is_workflow_state_refs :: "string list"
  is_unresolved_followups :: "string list"

definition empty_summary :: iterative_summary where
  "empty_summary = \<lparr>is_active_user_goals = [], is_important_constraints = [], is_decisions_made = [],
     is_artifact_refs = [], is_workflow_state_refs = [], is_unresolved_followups = []\<rparr>"

record compaction_artifact_ref =
  car_artifact_id :: string
  car_kind :: compaction_artifact_kind
  car_source_group_start :: nat
  car_source_group_end :: nat
  car_policy_version :: string

datatype compaction_trigger = TokenPressure | SemanticGroupCount | ConversationReview | ManualTrigger | ModelSafetyMargin

fun compaction_trigger_str :: "compaction_trigger \<Rightarrow> string" where
  "compaction_trigger_str TokenPressure = ''TokenPressure''"
| "compaction_trigger_str SemanticGroupCount = ''SemanticGroupCount''"
| "compaction_trigger_str ConversationReview = ''ConversationReview''"
| "compaction_trigger_str ManualTrigger = ''Manual''"
| "compaction_trigger_str ModelSafetyMargin = ''ModelSafetyMargin''"

record compaction_boundary =
  cb_retained_group_count :: nat
  cb_compacted_group_count :: nat

datatype compaction_strategy = CollapseToolBundles | UpdateIterativeSummary | EnforceRecencyWindow | TruncateBackstop

record compaction_policy =
  cp_policy_version :: string
  cp_protected_recent_group_count :: nat
  cp_max_groups_before_compaction :: nat
  cp_max_transcript_chars :: nat

record compaction_decision =
  cd_trigger :: compaction_trigger
  cd_strategy :: compaction_strategy
  cd_boundary :: compaction_boundary
  cd_selected_group_start :: nat
  cd_selected_group_end :: nat

subsection \<open>Modes and policies\<close>

datatype compaction_mode = ModeOff | ModeObserve | ModeActive

definition compaction_mode_from_str :: "string \<Rightarrow> string + compaction_mode" where
  "compaction_mode_from_str raw =
     (let s = to_ascii_lowercase (trim raw) in
      if s \<in> set [''off'', ''disabled'', ''false'', ''0''] then Inr ModeOff
      else if s = ''observe'' \<or> s = [] then Inr ModeObserve
      else if s \<in> set [''active'', ''on'', ''true'', ''1''] then Inr ModeActive
      else Inl (''unsupported compaction mode: '' @ s))"

definition compaction_mode_parse :: "string \<Rightarrow> compaction_mode" where
  "compaction_mode_parse raw = (case compaction_mode_from_str raw of Inr m \<Rightarrow> m | Inl _ \<Rightarrow> ModeObserve)"

datatype compaction_timing = TimingSync | TimingAsync

definition compaction_timing_from_str :: "string \<Rightarrow> string + compaction_timing" where
  "compaction_timing_from_str raw =
     (let s = to_ascii_lowercase (trim raw) in
      if s \<in> set [''sync'', ''inline'', ''turn_start''] then Inr TimingSync
      else if s \<in> set [''async'', ''post_turn'', []] then Inr TimingAsync
      else Inl (''unsupported compaction timing: '' @ s))"

definition compaction_timing_parse :: "string \<Rightarrow> compaction_timing" where
  "compaction_timing_parse raw = (case compaction_timing_from_str raw of Inr m \<Rightarrow> m | Inl _ \<Rightarrow> TimingAsync)"

definition compaction_policy_of :: "string \<Rightarrow> nat \<Rightarrow> nat \<Rightarrow> nat \<Rightarrow> compaction_policy" where
  "compaction_policy_of version recent groups chars = \<lparr>cp_policy_version = version,
     cp_protected_recent_group_count = recent, cp_max_groups_before_compaction = groups, cp_max_transcript_chars = chars\<rparr>"

fun compaction_policy_for_profile :: "bear_stance \<Rightarrow> compaction_policy" where
  "compaction_policy_for_profile StPair = compaction_policy_of ''pair-v1'' 4 8 24000"
| "compaction_policy_for_profile StChat = compaction_policy_of ''chat-v1'' 3 10 16000"
| "compaction_policy_for_profile StWork = compaction_policy_of ''work-v1'' 3 8 20000"
| "compaction_policy_for_profile StCurate = compaction_policy_of ''background-v1'' 2 6 12000"
| "compaction_policy_for_profile StWatch = compaction_policy_of ''background-v1'' 2 6 12000"

subsection \<open>Grouping\<close>

record transcript_grouping_row =
  tg_message_id :: "string option"
  tg_sequence_no :: "int option"
  tg_message_type :: string
  tg_content_text :: string
  tg_content_json :: json
  tg_tool_call_id :: "string option"

definition tool_request_payload_of :: "transcript_grouping_row \<Rightarrow> tool_request_payload option" where
  "tool_request_payload_of row = (if tg_message_type row = ''tool_call'' then try_tool_request (tg_content_json row) else None)"

definition tool_result_payload_of :: "bool \<Rightarrow> transcript_grouping_row \<Rightarrow> tool_result_payload option" where
  "tool_result_payload_of strict row =
     (if tg_message_type row = ''tool_result'' then try_tool_result strict (tg_content_json row) else None)"

definition is_tool_call_request :: "transcript_grouping_row \<Rightarrow> bool" where
  "is_tool_call_request row \<longleftrightarrow> tool_request_payload_of row \<noteq> None"

definition is_tool_result_row :: "bool \<Rightarrow> transcript_grouping_row \<Rightarrow> bool" where
  "is_tool_result_row strict row \<longleftrightarrow> tool_result_payload_of strict row \<noteq> None"

definition row_counts_toward_grouping :: "bool \<Rightarrow> transcript_grouping_row \<Rightarrow> bool" where
  "row_counts_toward_grouping strict row =
     (if tg_message_type row \<in> set [''user'', ''assistant''] then trim (tg_content_text row) \<noteq> []
      else if tg_message_type row = ''tool_call'' then is_tool_call_request row
      else if tg_message_type row = ''tool_result'' then is_tool_result_row strict row
      else tg_message_type row \<in> set [''compaction_marker'', ''system'', ''developer'', ''workflow_event''])"

definition tool_call_id_from_row :: "bool \<Rightarrow> transcript_grouping_row \<Rightarrow> string option" where
  "tool_call_id_from_row strict row = filter_opt (\<lambda>v. v \<noteq> [])
     (or_else (tg_tool_call_id row) (or_else (map_option trq_tool_call_id (tool_request_payload_of row))
       (Option.bind (tool_result_payload_of strict row) trp_tool_call_id)))"

definition row_identity :: "bool \<Rightarrow> transcript_grouping_row \<Rightarrow> string option" where
  "row_identity strict row =
     or_else (tg_message_id row) (or_else (map_option show_int (tg_sequence_no row)) (tool_call_id_from_row strict row))"

definition content_mentions_approval :: "string \<Rightarrow> bool" where
  "content_mentions_approval content = str_contains (to_ascii_lowercase content) ''approval''"

definition content_mentions_workflow_update :: "string \<Rightarrow> bool" where
  "content_mentions_workflow_update content \<longleftrightarrow>
     str_contains (to_ascii_lowercase content) ''workflow_state'' \<or> str_contains (to_ascii_lowercase content) ''plan_mode''"

definition content_mentions_artifact_update :: "string \<Rightarrow> bool" where
  "content_mentions_artifact_update content \<longleftrightarrow> str_contains content ''artifact'' \<or> str_contains content ''file://''"

definition row_event :: "transcript_grouping_row \<Rightarrow> string option" where
  "row_event row = Option.bind (jget (tg_content_json row) ''event'') as_str_json"

definition is_approval_interaction_row :: "transcript_grouping_row \<Rightarrow> bool" where
  "is_approval_interaction_row row \<longleftrightarrow>
     is_some_and (tool_request_payload_of row) (\<lambda>p.
       is_some_and (trq_approval_request_id p) (\<lambda>v. trim v \<noteq> []) \<or> trq_approval_required p)
     \<or> is_some_and (row_event row) (\<lambda>event. str_contains event ''approval'')
     \<or> content_mentions_approval (tg_content_text row)"

definition is_workflow_update_row :: "transcript_grouping_row \<Rightarrow> bool" where
  "is_workflow_update_row row \<longleftrightarrow> content_mentions_workflow_update (tg_content_text row)
     \<or> is_some_and (row_event row) (\<lambda>event. event \<in> set [''turn_result'', ''conversation_resolved'', ''workflow_state''])"

definition is_artifact_update_row :: "transcript_grouping_row \<Rightarrow> bool" where
  "is_artifact_update_row row = content_mentions_artifact_update (tg_content_text row)"

definition classify_non_tool_row :: "transcript_grouping_row \<Rightarrow> semantic_group_kind" where
  "classify_non_tool_row row =
     (let t = tg_message_type row in
      if t = ''user'' then UserTurn
      else if t = ''assistant'' then AssistantReply
      else if t \<in> set [''system'', ''developer''] then SystemEvent
      else if t = ''compaction_marker'' then PriorCompactionArtifact
      else if t = ''workflow_event'' \<and> is_approval_interaction_row row then ApprovalInteraction
      else if t = ''workflow_event'' \<and> is_workflow_update_row row then WorkflowUpdate
      else if t = ''workflow_event'' \<and> is_artifact_update_row row then ArtifactUpdate
      else if t = ''workflow_event'' then WorkflowUpdate
      else AssistantReply)"

definition group_is_protected :: "semantic_group_kind \<Rightarrow> bool \<Rightarrow> bool" where
  "group_is_protected kind unresolved \<longleftrightarrow>
     unresolved \<or> kind \<in> set [ApprovalInteraction, WorkflowUpdate, PriorCompactionArtifact]"

definition one_row_group :: "bool \<Rightarrow> semantic_group_kind \<Rightarrow> bool \<Rightarrow> transcript_grouping_row \<Rightarrow> semantic_group" where
  "one_row_group strict kind protected row = \<lparr>sg_kind = kind, sg_start_message_id = row_identity strict row,
     sg_end_message_id = row_identity strict row, sg_message_count = 1, sg_protected = protected\<rparr>"

definition compaction_boundary_group :: "bool \<Rightarrow> transcript_grouping_row \<Rightarrow> semantic_group" where
  "compaction_boundary_group strict row = one_row_group strict PriorCompactionArtifact True row"

definition single_row_group :: "bool \<Rightarrow> transcript_grouping_row \<Rightarrow> semantic_group" where
  "single_row_group strict row =
     (let kind = classify_non_tool_row row in one_row_group strict kind (group_is_protected kind False) row)"

definition orphan_tool_result_group :: "bool \<Rightarrow> transcript_grouping_row \<Rightarrow> semantic_group" where
  "orphan_tool_result_group strict row = one_row_group strict ToolInteraction True row"

text \<open>The result of a call, when the row behind the call is one for the same id.\<close>

definition paired_result :: "bool \<Rightarrow> transcript_grouping_row \<Rightarrow> transcript_grouping_row list \<Rightarrow> tool_result_payload option" where
  "paired_result strict call_row following =
     (case following of
        [] \<Rightarrow> None
      | candidate # _ \<Rightarrow> filter_opt (\<lambda>p. is_some_and (tool_call_id_from_row strict call_row)
          (\<lambda>expected. trp_tool_call_id p = Some expected)) (tool_result_payload_of strict candidate))"

definition tool_interaction_group ::
    "bool \<Rightarrow> transcript_grouping_row \<Rightarrow> transcript_grouping_row list \<Rightarrow> semantic_group \<times> nat" where
  "tool_interaction_group strict call_row following =
     (let found = paired_result strict call_row following;
          message_count = (if found = None then 1 else 2);
          end_row = (if found = None then call_row else hd following);
          unresolved = (found = None \<or> is_some_and found (\<lambda>p. trp_status p = TrsIncomplete));
          kind = (if is_approval_interaction_row call_row \<and> unresolved then ApprovalInteraction else ToolInteraction)
      in (\<lparr>sg_kind = kind, sg_start_message_id = row_identity strict call_row,
           sg_end_message_id = row_identity strict end_row, sg_message_count = message_count,
           sg_protected = group_is_protected kind unresolved\<rparr>, message_count))"

function semantic_groups_from_conversation_messages :: "bool \<Rightarrow> transcript_grouping_row list \<Rightarrow> semantic_group list" where
  "semantic_groups_from_conversation_messages strict [] = []"
| "semantic_groups_from_conversation_messages strict (row # rows) =
     (if \<not> row_counts_toward_grouping strict row then semantic_groups_from_conversation_messages strict rows
      else if tg_message_type row = ''compaction_marker'' then
        compaction_boundary_group strict row # semantic_groups_from_conversation_messages strict rows
      else if is_tool_call_request row then
        (case tool_interaction_group strict row rows of (g, consumed) \<Rightarrow>
           g # semantic_groups_from_conversation_messages strict (drop (consumed - 1) rows))
      else if is_tool_result_row strict row then
        orphan_tool_result_group strict row # semantic_groups_from_conversation_messages strict rows
      else single_row_group strict row # semantic_groups_from_conversation_messages strict rows)"
  by pat_completeness auto
termination
  by (relation "measure (length \<circ> snd)") auto

subsection \<open>Groups of runtime messages\<close>

definition runtime_message_role :: "json \<Rightarrow> string" where
  "runtime_message_role m = unwrap_or (Option.bind (or_else (jget m ''role'') (jget m ''message_type'')) as_str_json) ''message''"

definition runtime_message_content :: "json \<Rightarrow> string" where
  "runtime_message_content m =
     unwrap_or (or_else (Option.bind (jget m ''content'') as_str_json) (Option.bind (jget m ''text'') as_str_json)) []"

definition runtime_message_tool_call_id :: "json \<Rightarrow> string option" where
  "runtime_message_tool_call_id m = Option.bind (or_else (jget m ''tool_call_id'') (jget m ''id'')) as_str_json"

definition role_is :: "string \<Rightarrow> string \<Rightarrow> bool" where
  "role_is role name \<longleftrightarrow> to_ascii_lowercase role = to_ascii_lowercase name"

definition classify_runtime_message_parts :: "string \<Rightarrow> string \<Rightarrow> json \<Rightarrow> bool \<Rightarrow> semantic_group_kind" where
  "classify_runtime_message_parts role content m has_tool_identity =
     (if role_is role ''tool'' \<or> has_tool_identity then ToolInteraction
      else if jget m ''approval_request_id'' \<noteq> None \<or> jget m ''approvals'' \<noteq> None \<or> content_mentions_approval content
        then ApprovalInteraction
      else if content_mentions_workflow_update content then WorkflowUpdate
      else if content_mentions_artifact_update content then ArtifactUpdate
      else if role_is role ''user'' then UserTurn
      else if role_is role ''assistant'' then AssistantReply
      else if role_is role ''system'' then SystemEvent
      else AssistantReply)"

definition runtime_message_group_is_protected :: "semantic_group_kind \<Rightarrow> bool" where
  "runtime_message_group_is_protected kind \<longleftrightarrow> kind \<in> set [ToolInteraction, ApprovalInteraction, WorkflowUpdate]"

definition semantic_group_from_runtime_message :: "json \<Rightarrow> semantic_group" where
  "semantic_group_from_runtime_message m =
     (let call = runtime_message_tool_call_id m;
          kind = classify_runtime_message_parts (runtime_message_role m) (runtime_message_content m) m
            (call \<noteq> None \<or> jget m ''tool_name'' \<noteq> None)
      in \<lparr>sg_kind = kind, sg_start_message_id = call, sg_end_message_id = call, sg_message_count = 1,
          sg_protected = runtime_message_group_is_protected kind\<rparr>)"

definition semantic_groups_from_runtime_messages :: "json list \<Rightarrow> semantic_group list" where
  "semantic_groups_from_runtime_messages = map semantic_group_from_runtime_message"

end
