(* ===== verification/Compaction_Summary.thy ===== *)
theory Compaction_Summary
  imports Compaction_Groups
begin

section \<open>Transcript compaction: decision, summary and texts\<close>

text \<open>
  \<open>choose_compaction_decision\<close> and the iterative summary of \<open>compaction/mod.rs\<close> and
  \<open>compaction/summarize.rs\<close>, the stored form of a summary, its rendering (\<open>render.rs\<close>), the events of
  \<open>compaction_observability.rs\<close> and the overflow classifier of \<open>overflow.rs\<close>. The call of a model
  (\<open>generate\<close>) and the pretty printer of \<open>serde_json\<close> (\<open>show_pretty\<close>) are arguments.
\<close>

subsection \<open>Text helpers\<close>

definition truncate_chars :: "string \<Rightarrow> nat \<Rightarrow> string" where
  "truncate_chars v max_chars =
     (if char_count v \<le> max_chars then v
      else if max_chars = 0 then []
      else take_chars (max_chars - 1) v @ [CHR 0xE2, CHR 0x80, CHR 0xA6])"

definition push_unique :: "string list \<Rightarrow> string \<Rightarrow> string list" where
  "push_unique vs v = (if v = [] \<or> v \<in> set vs then vs else vs @ [v])"

subsection \<open>Decision\<close>

text \<open>The loop over the eligible groups: skip leading protected ones, stop at the next.\<close>

fun select_groups :: "(nat \<times> semantic_group) list \<Rightarrow> nat option \<Rightarrow> nat option \<Rightarrow> nat option \<times> nat option" where
  "select_groups [] start stop = (start, stop)"
| "select_groups ((idx, g) # gs) start stop =
     (if sg_protected g then (if start \<noteq> None then (start, stop) else select_groups gs start stop)
      else select_groups gs (Some (unwrap_or start idx)) (Some idx))"

definition forced_trigger :: "compaction_trigger \<Rightarrow> bool" where
  "forced_trigger t \<longleftrightarrow> t = ModelSafetyMargin \<or> t = ManualTrigger"

definition decision_for_range ::
    "semantic_group list \<Rightarrow> compaction_trigger \<Rightarrow> nat \<Rightarrow> nat \<Rightarrow> compaction_decision" where
  "decision_for_range groups trigger s e =
     \<lparr>cd_trigger = trigger,
      cd_strategy = (if \<forall>g \<in> set (take (e - s + 1) (drop s groups)). sg_kind g = ToolInteraction
        then CollapseToolBundles else UpdateIterativeSummary),
      cd_boundary = \<lparr>cb_retained_group_count = length groups - (e - s + 1), cb_compacted_group_count = e - s + 1\<rparr>,
      cd_selected_group_start = s, cd_selected_group_end = e\<rparr>"

definition choose_compaction_decision ::
    "semantic_group list \<Rightarrow> compaction_trigger \<Rightarrow> compaction_policy \<Rightarrow> compaction_decision option" where
  "choose_compaction_decision groups trigger policy =
     (if groups = [] then None
      else if \<not> forced_trigger trigger \<and> trigger \<noteq> ConversationReview
           \<and> length groups \<le> cp_max_groups_before_compaction policy then None
      else let eligible_end = length groups - cp_protected_recent_group_count policy in
        if eligible_end = 0 then None
        else case select_groups (List.enumerate 0 (take eligible_end groups)) None None of
          (Some s, Some e) \<Rightarrow> if s \<le> e then Some (decision_for_range groups trigger s e) else None
        | _ \<Rightarrow> None)"

fun artifact_kind_of :: "compaction_strategy \<Rightarrow> compaction_artifact_kind" where
  "artifact_kind_of CollapseToolBundles = CakCollapsedToolBundle"
| "artifact_kind_of UpdateIterativeSummary = CakIterativeSummary"
| "artifact_kind_of EnforceRecencyWindow = CakIterativeSummary"
| "artifact_kind_of TruncateBackstop = CakIterativeSummary"

definition artifact_ref_from_decision ::
    "string \<Rightarrow> compaction_decision \<Rightarrow> compaction_policy \<Rightarrow> compaction_artifact_ref" where
  "artifact_ref_from_decision artifact_id decision policy = \<lparr>car_artifact_id = artifact_id,
     car_kind = artifact_kind_of (cd_strategy decision), car_source_group_start = cd_selected_group_start decision,
     car_source_group_end = cd_selected_group_end decision, car_policy_version = cp_policy_version policy\<rparr>"

subsection \<open>Summaries\<close>

fun push_group_label :: "semantic_group_kind \<Rightarrow> string \<Rightarrow> iterative_summary \<Rightarrow> iterative_summary" where
  "push_group_label UserTurn l s = s\<lparr>is_active_user_goals := push_unique (is_active_user_goals s) l\<rparr>"
| "push_group_label AssistantReply l s = s\<lparr>is_unresolved_followups := push_unique (is_unresolved_followups s) l\<rparr>"
| "push_group_label ToolInteraction l s = s\<lparr>is_artifact_refs := push_unique (is_artifact_refs s) l\<rparr>"
| "push_group_label ApprovalInteraction l s = s\<lparr>is_decisions_made := push_unique (is_decisions_made s) l\<rparr>"
| "push_group_label WorkflowUpdate l s = s\<lparr>is_workflow_state_refs := push_unique (is_workflow_state_refs s) l\<rparr>"
| "push_group_label ArtifactUpdate l s = s\<lparr>is_artifact_refs := push_unique (is_artifact_refs s) l\<rparr>"
| "push_group_label PriorCompactionArtifact l s = s\<lparr>is_important_constraints := push_unique (is_important_constraints s) l\<rparr>"
| "push_group_label SystemEvent l s = s\<lparr>is_important_constraints := push_unique (is_important_constraints s) l\<rparr>"

definition group_label :: "semantic_group \<Rightarrow> string" where
  "group_label g = semantic_group_kind_str (sg_kind g) @ '':'' @ unwrap_or (sg_start_message_id g) ''start''
     @ '':'' @ unwrap_or (sg_end_message_id g) ''end''"

definition merge_group :: "iterative_summary \<Rightarrow> semantic_group \<Rightarrow> iterative_summary" where
  "merge_group summary g =
     (let s = push_group_label (sg_kind g) (group_label g) summary in
      if sg_protected g
      then s\<lparr>is_important_constraints :=
             push_unique (is_important_constraints s) (''protected:'' @ semantic_group_kind_str (sg_kind g))\<rparr>
      else s)"

definition merge_iterative_summary :: "iterative_summary option \<Rightarrow> semantic_group list \<Rightarrow> iterative_summary" where
  "merge_iterative_summary prior groups = foldl merge_group (unwrap_or prior empty_summary) groups"

definition compacted_ids :: "semantic_group list \<Rightarrow> string list" where
  "compacted_ids groups = List.map_filter sg_start_message_id groups @ List.map_filter sg_end_message_id groups"

definition rows_for_compacted_groups ::
    "transcript_grouping_row list \<Rightarrow> semantic_group list \<Rightarrow> transcript_grouping_row list" where
  "rows_for_compacted_groups rows groups =
     filter (\<lambda>row. is_some_and (tg_message_id row) (\<lambda>i. i \<in> set (compacted_ids groups))) rows"

definition compact_row_snippet :: "transcript_grouping_row \<Rightarrow> string" where
  "compact_row_snippet row =
     (let t = trim (tg_content_text row) in
      if t \<noteq> [] then truncate_chars t 160
      else unwrap_or (map_option (\<lambda>name. ''tool:'' @ name)
        (Option.bind (jget (tg_content_json row) ''tool_name'') as_str_json)) [])"

definition enrich_row :: "iterative_summary \<Rightarrow> transcript_grouping_row \<Rightarrow> iterative_summary" where
  "enrich_row s row =
     (let snippet = compact_row_snippet row; t = tg_message_type row in
      if snippet = [] then s
      else if t = ''user'' then s\<lparr>is_active_user_goals := push_unique (is_active_user_goals s) snippet\<rparr>
      else if t = ''assistant'' then s\<lparr>is_unresolved_followups := push_unique (is_unresolved_followups s) snippet\<rparr>
      else if t \<in> set [''tool_call'', ''tool_result''] then s\<lparr>is_artifact_refs := push_unique (is_artifact_refs s) snippet\<rparr>
      else if t = ''workflow_event'' then s\<lparr>is_workflow_state_refs := push_unique (is_workflow_state_refs s) snippet\<rparr>
      else s\<lparr>is_important_constraints := push_unique (is_important_constraints s) snippet\<rparr>)"

definition enrich_summary_from_rows ::
    "iterative_summary \<Rightarrow> transcript_grouping_row list \<Rightarrow> semantic_group list \<Rightarrow> iterative_summary" where
  "enrich_summary_from_rows s rows groups = foldl enrich_row s (rows_for_compacted_groups rows groups)"

definition deterministic_summary ::
    "iterative_summary option \<Rightarrow> semantic_group list \<Rightarrow> transcript_grouping_row list \<Rightarrow> iterative_summary" where
  "deterministic_summary prior groups rows =
     enrich_summary_from_rows (merge_iterative_summary prior groups) rows groups"

definition summarize_compacted_groups ::
    "iterative_summary option \<Rightarrow> semantic_group list \<Rightarrow> transcript_grouping_row list \<Rightarrow> compaction_decision
     \<Rightarrow> iterative_summary" where
  "summarize_compacted_groups prior groups rows decision = deterministic_summary prior groups rows"

definition ensure_fallback_items :: "string list \<Rightarrow> string list \<Rightarrow> string list" where
  "ensure_fallback_items vs fallback = foldl push_unique vs fallback"

definition validate_generated_summary :: "iterative_summary \<Rightarrow> iterative_summary \<Rightarrow> iterative_summary" where
  "validate_generated_summary generated fallback =
     \<lparr>is_active_user_goals = ensure_fallback_items (is_active_user_goals generated) (is_active_user_goals fallback),
      is_important_constraints = ensure_fallback_items (is_important_constraints generated) (is_important_constraints fallback),
      is_decisions_made = ensure_fallback_items (is_decisions_made generated) (is_decisions_made fallback),
      is_artifact_refs = ensure_fallback_items (is_artifact_refs generated) (is_artifact_refs fallback),
      is_workflow_state_refs = ensure_fallback_items (is_workflow_state_refs generated) (is_workflow_state_refs fallback),
      is_unresolved_followups = ensure_fallback_items (is_unresolved_followups generated) (is_unresolved_followups fallback)\<rparr>"

subsection \<open>Stored summaries\<close>

definition json_strings :: "string list \<Rightarrow> json" where
  "json_strings xs = JArr (map JStr xs)"

definition encode_summary :: "iterative_summary \<Rightarrow> json" where
  "encode_summary s = JObj [(''active_user_goals'', json_strings (is_active_user_goals s)),
     (''important_constraints'', json_strings (is_important_constraints s)),
     (''decisions_made'', json_strings (is_decisions_made s)), (''artifact_refs'', json_strings (is_artifact_refs s)),
     (''workflow_state_refs'', json_strings (is_workflow_state_refs s)),
     (''unresolved_followups'', json_strings (is_unresolved_followups s))]"

definition string_list_field :: "json option \<Rightarrow> string list option" where
  "string_list_field v = (case v of Some (JArr xs) \<Rightarrow> those (map as_str_json xs) | _ \<Rightarrow> None)"

definition decode_summary :: "json \<Rightarrow> iterative_summary option" where
  "decode_summary v =
     Option.bind (struct_members [''active_user_goals'', ''important_constraints'', ''decisions_made'', ''artifact_refs'',
       ''workflow_state_refs'', ''unresolved_followups''] v) (\<lambda>kvs.
     Option.bind (string_list_field (map_of kvs ''active_user_goals'')) (\<lambda>goals.
     Option.bind (string_list_field (map_of kvs ''important_constraints'')) (\<lambda>constraints.
     Option.bind (string_list_field (map_of kvs ''decisions_made'')) (\<lambda>decisions.
     Option.bind (string_list_field (map_of kvs ''artifact_refs'')) (\<lambda>artifacts.
     Option.bind (string_list_field (map_of kvs ''workflow_state_refs'')) (\<lambda>workflow.
     Option.bind (string_list_field (map_of kvs ''unresolved_followups'')) (\<lambda>followups.
     Some \<lparr>is_active_user_goals = goals, is_important_constraints = constraints, is_decisions_made = decisions,
       is_artifact_refs = artifacts, is_workflow_state_refs = workflow, is_unresolved_followups = followups\<rparr>)))))))"

subsection \<open>Model-backed summaries\<close>

record compaction_summary_prompt =
  csp_system :: string
  csp_user :: string

definition compacted_row_json :: "transcript_grouping_row \<Rightarrow> json" where
  "compacted_row_json row = JObj [
     (''sequence_no'', case tg_sequence_no row of None \<Rightarrow> JNull | Some n \<Rightarrow> JNum (show_int n)),
     (''message_type'', JStr (tg_message_type row)), (''content_text'', JStr (tg_content_text row)),
     (''content_json'', tg_content_json row)]"

definition build_compaction_summary_prompt ::
    "(json \<Rightarrow> string) \<Rightarrow> iterative_summary \<Rightarrow> iterative_summary option \<Rightarrow> semantic_group list
     \<Rightarrow> transcript_grouping_row list \<Rightarrow> compaction_decision \<Rightarrow> compaction_summary_prompt" where
  "build_compaction_summary_prompt show_pretty deterministic prior groups rows decision =
     \<lparr>csp_system = ''You are Den's agent_compaction summarizer. Optimize for continuation fidelity, not prose. Do not promote durable memory. Do not invent facts.'',
      csp_user = show_pretty (JObj [
       (''task'', JStr ''Produce a Den compaction iterative summary artifact. Preserve active goals, constraints, decisions, artifact references, workflow state, unresolved follow-ups, and provenance. Return only JSON matching the existing artifact shape.''),
       (''selected_group_start'', jnat (cd_selected_group_start decision)),
       (''selected_group_end'', jnat (cd_selected_group_end decision)),
       (''prior_summary'', case prior of None \<Rightarrow> JNull | Some s \<Rightarrow> encode_summary s),
       (''deterministic_baseline'', encode_summary deterministic),
       (''compacted_rows'', JArr (map compacted_row_json (rows_for_compacted_groups rows groups)))])\<rparr>"

definition llm_summarize ::
    "(json \<Rightarrow> string) \<Rightarrow> (compaction_summary_prompt \<Rightarrow> den_error + iterative_summary) \<Rightarrow> iterative_summary option
     \<Rightarrow> semantic_group list \<Rightarrow> transcript_grouping_row list \<Rightarrow> compaction_decision \<Rightarrow> den_error + iterative_summary" where
  "llm_summarize show_pretty generate prior groups rows decision =
     (let fallback = deterministic_summary prior groups rows in
      bindR (generate (build_compaction_summary_prompt show_pretty fallback prior groups rows decision)) (\<lambda>generated.
      Inr (validate_generated_summary generated fallback)))"

subsection \<open>Rendering\<close>

definition bullet_list :: "string list \<Rightarrow> string" where
  "bullet_list items = join_str [CHR 0x0A] (map (\<lambda>item. ''- '' @ item) items)"

definition summary_sections :: "iterative_summary \<Rightarrow> string list" where
  "summary_sections s = List.map_filter
     (\<lambda>(heading, items). if items = [] then None else Some (''## '' @ heading @ [CHR 0x0A] @ bullet_list items))
     [(''Active goals'', is_active_user_goals s), (''Constraints'', is_important_constraints s),
      (''Decisions'', is_decisions_made s), (''Artifacts'', is_artifact_refs s),
      (''Workflow state'', is_workflow_state_refs s), (''Unresolved follow-ups'', is_unresolved_followups s)]"

definition render_compacted_context_block :: "iterative_summary \<Rightarrow> string" where
  "render_compacted_context_block s = join_str [CHR 0x0A, CHR 0x0A] (''# Compacted context'' #
     (if summary_sections s = []
      then [''_No compacted continuity signals yet; older transcript groups were folded without structured summary fields._'']
      else summary_sections s))"

subsection \<open>Events\<close>

datatype compaction_event_status = EvApplied | EvSkipped | EvFailed

fun compaction_event_status_str :: "compaction_event_status \<Rightarrow> string" where
  "compaction_event_status_str EvApplied = ''Applied''"
| "compaction_event_status_str EvSkipped = ''Skipped''"
| "compaction_event_status_str EvFailed = ''Failed''"

record compaction_event =
  ce_conversation_id :: string
  ce_trigger :: compaction_trigger
  ce_policy_version :: string
  ce_status :: compaction_event_status
  ce_boundary :: "compaction_boundary option"
  ce_source_group_start :: "nat option"
  ce_source_group_end :: "nat option"
  ce_artifact :: "compaction_artifact_ref option"
  ce_diagnostic :: "string option"

definition build_compaction_applied_event ::
    "string \<Rightarrow> compaction_decision \<Rightarrow> compaction_policy \<Rightarrow> compaction_artifact_ref \<Rightarrow> compaction_event" where
  "build_compaction_applied_event conversation decision policy artifact = \<lparr>ce_conversation_id = conversation,
     ce_trigger = cd_trigger decision, ce_policy_version = cp_policy_version policy, ce_status = EvApplied,
     ce_boundary = Some (cd_boundary decision), ce_source_group_start = Some (cd_selected_group_start decision),
     ce_source_group_end = Some (cd_selected_group_end decision), ce_artifact = Some artifact, ce_diagnostic = None\<rparr>"

definition build_compaction_skipped_event ::
    "string \<Rightarrow> compaction_trigger \<Rightarrow> compaction_policy \<Rightarrow> string \<Rightarrow> compaction_event" where
  "build_compaction_skipped_event conversation trigger policy diagnostic = \<lparr>ce_conversation_id = conversation,
     ce_trigger = trigger, ce_policy_version = cp_policy_version policy, ce_status = EvSkipped, ce_boundary = None,
     ce_source_group_start = None, ce_source_group_end = None, ce_artifact = None, ce_diagnostic = Some diagnostic\<rparr>"

subsection \<open>Overflow errors\<close>

definition OVERFLOW_NEEDLES :: "string list" where
  "OVERFLOW_NEEDLES = [''context length'', ''maximum context'', ''max context'', ''token limit'', ''too many tokens'',
     ''context_window'', ''context window'', ''max_tokens'', ''context_length_exceeded'', ''context_length'',
     ''maximum number of tokens'', ''prompt is too long'', ''request too large'', ''input is too long'']"

definition is_context_length_overflow_message :: "string \<Rightarrow> bool" where
  "is_context_length_overflow_message message \<longleftrightarrow> (\<exists>needle \<in> set OVERFLOW_NEEDLES. str_contains (to_ascii_lowercase message) needle)"

text \<open>The value of an \<open>Anyhow\<close> error in the model is its printed form.\<close>

fun den_error_indicates_context_overflow :: "den_error \<Rightarrow> bool" where
  "den_error_indicates_context_overflow (SystemError msg) = is_context_length_overflow_message msg"
| "den_error_indicates_context_overflow (ValidationError msg) = is_context_length_overflow_message msg"
| "den_error_indicates_context_overflow (Anyhow msg) = is_context_length_overflow_message msg"
| "den_error_indicates_context_overflow (Database msg) = is_context_length_overflow_message (''Database Error: '' @ msg)"
| "den_error_indicates_context_overflow (DatabaseUnavailable msg) = is_context_length_overflow_message (''Database Unavailable: '' @ msg)"
| "den_error_indicates_context_overflow (SessionError msg) = is_context_length_overflow_message (''Session Error: '' @ msg)"
| "den_error_indicates_context_overflow (Authentication msg) = is_context_length_overflow_message (''Authentication Error: '' @ msg)"
| "den_error_indicates_context_overflow (Authorization msg) = is_context_length_overflow_message (''Authorization Error: '' @ msg)"
| "den_error_indicates_context_overflow (Render msg) = is_context_length_overflow_message (''Rendering Error: '' @ msg)"
| "den_error_indicates_context_overflow (Parsing msg) = is_context_length_overflow_message (''Parsing Error: '' @ msg)"
| "den_error_indicates_context_overflow (Email msg) = is_context_length_overflow_message (''Email Error: '' @ msg)"
| "den_error_indicates_context_overflow (NotFound msg) = is_context_length_overflow_message (''Not Found: '' @ msg)"

end
