(* ===== verification/Conversation_Records.thy ===== *)
theory Conversation_Records
  imports Transcript_Chain
begin

section \<open>Canonical records of a conversation\<close>

text \<open>
  What is written to a conversation and how a write is told from one made before:
  \<open>den-service/src/conversation/message_types.rs\<close> and the records of \<open>conversation/events.rs\<close> that the
  back-fill of missing tool results uses. \<open>show_json\<close> prints a JSON value; \<open>serde_json\<close> keeps the
  members of an object in the order of their names, and so do the objects here.
\<close>

subsection \<open>Columns\<close>

datatype conversation_message_type =
  CmtUser | CmtAssistant | CmtSystem | CmtDeveloper | CmtToolCall | CmtToolResult | CmtWorkflowEvent | CmtCompactionMarker

fun conversation_message_type_str :: "conversation_message_type \<Rightarrow> string" where
  "conversation_message_type_str CmtUser = ''user''"
| "conversation_message_type_str CmtAssistant = ''assistant''"
| "conversation_message_type_str CmtSystem = ''system''"
| "conversation_message_type_str CmtDeveloper = ''developer''"
| "conversation_message_type_str CmtToolCall = ''tool_call''"
| "conversation_message_type_str CmtToolResult = ''tool_result''"
| "conversation_message_type_str CmtWorkflowEvent = ''workflow_event''"
| "conversation_message_type_str CmtCompactionMarker = ''compaction_marker''"

datatype conversation_message_visibility = CmvDefault | CmvHiddenFromUser | CmvAdminOnly | CmvDiagnosticOnly

fun conversation_message_visibility_str :: "conversation_message_visibility \<Rightarrow> string" where
  "conversation_message_visibility_str CmvDefault = ''default''"
| "conversation_message_visibility_str CmvHiddenFromUser = ''hidden_from_user''"
| "conversation_message_visibility_str CmvAdminOnly = ''admin_only''"
| "conversation_message_visibility_str CmvDiagnosticOnly = ''diagnostic_only''"

datatype conversation_message_role = CmrUser | CmrAssistant | CmrSystem | CmrDeveloper

fun conversation_message_role_str :: "conversation_message_role \<Rightarrow> string" where
  "conversation_message_role_str CmrUser = ''user''"
| "conversation_message_role_str CmrAssistant = ''assistant''"
| "conversation_message_role_str CmrSystem = ''system''"
| "conversation_message_role_str CmrDeveloper = ''developer''"

record conversation_message_write =
  cmw_message_type :: conversation_message_type
  cmw_role :: "conversation_message_role option"
  cmw_visibility :: conversation_message_visibility
  cmw_content_text :: string
  cmw_content_json :: json
  cmw_provider_message_id :: "string option"
  cmw_source_event_id :: "string option"
  cmw_created_at :: "timestamp option"

subsection \<open>Records\<close>

record conversation_persistence_context =
  cpc_bear_id :: uuid
  cpc_user_id :: "int option"
  cpc_external_conversation_id :: string
  cpc_source_session_id :: "string option"
  cpc_request_id :: "string option"
  cpc_persistence_scope_id :: string
  cpc_skip_persistence :: bool

record event_dedup_key =
  edk_event :: string
  edk_scope_id :: string
  edk_request_id :: "string option"
  edk_tool_call_id :: "string option"
  edk_provider_message_id :: "string option"

definition string_or_null :: "string option \<Rightarrow> json" where
  "string_or_null v = (case v of None \<Rightarrow> JNull | Some s \<Rightarrow> JStr s)"

definition source_event_id :: "(json \<Rightarrow> string) \<Rightarrow> event_dedup_key \<Rightarrow> string" where
  "source_event_id show_json k = show_json (JObj [(''event'', JStr (edk_event k)),
     (''provider_message_id'', string_or_null (edk_provider_message_id k)), (''request_id'', string_or_null (edk_request_id k)),
     (''scope_id'', JStr (edk_scope_id k)), (''tool_call_id'', string_or_null (edk_tool_call_id k))])"

definition member_str :: "json \<Rightarrow> string \<Rightarrow> string option" where
  "member_str v name = Option.bind (jget v name) as_str_json"

definition content_json_dedup_key :: "json \<Rightarrow> event_dedup_key option" where
  "content_json_dedup_key content =
     Option.bind (member_str content ''event'') (\<lambda>event.
     Option.bind (member_str content ''scope_id'') (\<lambda>scope.
     Some \<lparr>edk_event = event, edk_scope_id = scope, edk_request_id = member_str content ''request_id'',
       edk_tool_call_id = member_str content ''tool_call_id'', edk_provider_message_id = member_str content ''provider_message_id''\<rparr>))"

datatype canonical_visible_role = CvrUser | CvrAssistant

datatype canonical_conversation_record =
    VisibleMessage canonical_visible_role string json "string option"
  | StructuredEvent conversation_message_type "conversation_message_role option" conversation_message_visibility string json
      "string option"

fun to_write :: "canonical_conversation_record \<Rightarrow> string option \<Rightarrow> conversation_message_write" where
  "to_write (VisibleMessage role txt content provider) source =
     \<lparr>cmw_message_type = (case role of CvrUser \<Rightarrow> CmtUser | CvrAssistant \<Rightarrow> CmtAssistant),
      cmw_role = Some (case role of CvrUser \<Rightarrow> CmrUser | CvrAssistant \<Rightarrow> CmrAssistant), cmw_visibility = CmvDefault,
      cmw_content_text = txt, cmw_content_json = content, cmw_provider_message_id = provider, cmw_source_event_id = source,
      cmw_created_at = None\<rparr>"
| "to_write (StructuredEvent message_type role visibility txt content provider) source =
     \<lparr>cmw_message_type = message_type, cmw_role = role, cmw_visibility = visibility, cmw_content_text = txt,
      cmw_content_json = content, cmw_provider_message_id = provider, cmw_source_event_id = source, cmw_created_at = None\<rparr>"

fun storage_json :: "canonical_conversation_record \<Rightarrow> json" where
  "storage_json (VisibleMessage role txt content provider) = content"
| "storage_json (StructuredEvent message_type role visibility txt content provider) = content"

definition canonical_record_source_event_id :: "(json \<Rightarrow> string) \<Rightarrow> canonical_conversation_record \<Rightarrow> string option" where
  "canonical_record_source_event_id show_json r = map_option (source_event_id show_json) (content_json_dedup_key (storage_json r))"

definition tool_event :: "string \<Rightarrow> json \<Rightarrow> string option \<Rightarrow> canonical_conversation_record" where
  "tool_event txt content provider = StructuredEvent CmtToolResult (Some CmrSystem) CmvDiagnosticOnly txt content provider"

subsection \<open>Tool results\<close>

record canonical_tool_result_record =
  ctr_tool_name :: string
  ctr_tool_call_id :: string
  ctr_approval_request_id :: "string option"
  ctr_status :: tool_result_status
  ctr_content :: "string option"
  ctr_structured_content :: json
  ctr_output_summary :: string
  ctr_output_preview :: "string option"
  ctr_diagnostic :: json
  ctr_request_id :: "string option"

fun tool_result_status_str :: "tool_result_status \<Rightarrow> string" where
  "tool_result_status_str TrsOk = ''ok''"
| "tool_result_status_str TrsError = ''error''"
| "tool_result_status_str TrsTimeout = ''timeout''"
| "tool_result_status_str TrsIncomplete = ''incomplete''"
| "tool_result_status_str TrsCancelled = ''cancelled''"

definition truncate_str :: "string \<Rightarrow> nat \<Rightarrow> string \<times> bool \<times> nat" where
  "truncate_str v max_chars =
     (if char_count v \<le> max_chars then (v, False, 0)
      else let omitted = char_count v - max_chars in
        (take_chars max_chars v @ CHR 0x0A # ''... truncated, omitted '' @ show_nat omitted @ '' characters'', True, omitted))"

definition trimmed_text :: "string option \<Rightarrow> string option" where
  "trimmed_text v = filter_opt (\<lambda>s. s \<noteq> []) (map_option trim v)"

definition canonical_tool_result_preview :: "(json \<Rightarrow> string) \<Rightarrow> string option \<Rightarrow> json \<Rightarrow> string option" where
  "canonical_tool_result_preview show_json content structured =
     map_option (\<lambda>p. fst (truncate_str p 512))
       (or_else (or_else (trimmed_text content) (trimmed_text (member_str structured ''content'')))
         (if structured = JNull then None
          else filter_opt (\<lambda>t. t \<notin> {''null'', ''{}'', ''[]''}) (Some (show_json structured))))"

definition canonical_tool_result_summary :: "string \<Rightarrow> string \<Rightarrow> string option \<Rightarrow> string" where
  "canonical_tool_result_summary tool_name status preview =
     ''Used '' @ tool_name @ '' ('' @ status @ '')''
       @ (case filter_opt (\<lambda>p. p \<noteq> []) preview of Some p \<Rightarrow> '': '' @ p | None \<Rightarrow> [])"

definition new_tool_result_record ::
    "(json \<Rightarrow> string) \<Rightarrow> string option \<Rightarrow> string \<Rightarrow> string option \<Rightarrow> tool_result_status \<Rightarrow> string option \<Rightarrow> json \<Rightarrow> json
     \<Rightarrow> string option \<Rightarrow> canonical_tool_result_record" where
  "new_tool_result_record show_json tool_name tool_call_id approval status content structured diagnostic request_id =
     (let name = unwrap_or (trimmed_text tool_name) ''tool''; body = trimmed_text content;
          preview = canonical_tool_result_preview show_json body structured
      in \<lparr>ctr_tool_name = name, ctr_tool_call_id = tool_call_id, ctr_approval_request_id = approval, ctr_status = status,
          ctr_content = body, ctr_structured_content = structured,
          ctr_output_summary = canonical_tool_result_summary name (tool_result_status_str status) preview,
          ctr_output_preview = preview, ctr_diagnostic = diagnostic, ctr_request_id = request_id\<rparr>)"

text \<open>The record of a result; \<open>source\<close> and \<open>scope\<close> are its provenance.\<close>

definition tool_result_record :: "string \<Rightarrow> string \<Rightarrow> canonical_tool_result_record \<Rightarrow> canonical_conversation_record" where
  "tool_result_record source scope r =
     tool_event (''Tool result: '' @ ctr_tool_name r)
       (JObj [(''approval_request_id'', string_or_null (ctr_approval_request_id r)), (''content'', string_or_null (ctr_content r)),
         (''diagnostic'', ctr_diagnostic r), (''event'', JStr ''tool_result''),
         (''output_preview'', string_or_null (ctr_output_preview r)), (''output_summary'', JStr (ctr_output_summary r)),
         (''request_id'', string_or_null (ctr_request_id r)), (''scope_id'', JStr scope), (''source'', JStr source),
         (''status'', JStr (tool_result_status_str (ctr_status r))), (''structured_content'', ctr_structured_content r),
         (''tool_call_id'', JStr (ctr_tool_call_id r)), (''tool_name'', JStr (ctr_tool_name r))]) None"

subsection \<open>Back-filled results\<close>

type_synonym persistence_task = "conversation_persistence_context \<times> canonical_conversation_record"

definition backfill_scope :: "(uuid \<Rightarrow> string) \<Rightarrow> uuid \<Rightarrow> string \<Rightarrow> string" where
  "backfill_scope us bear conversation = ''den-web:'' @ us bear @ '':'' @ conversation"

definition backfill_task ::
    "(json \<Rightarrow> string) \<Rightarrow> (uuid \<Rightarrow> string) \<Rightarrow> uuid \<Rightarrow> string \<Rightarrow> string \<times> string \<Rightarrow> persistence_task" where
  "backfill_task show_json us bear conversation orphan =
     (let scope = backfill_scope us bear conversation in
      (\<lparr>cpc_bear_id = bear, cpc_user_id = None, cpc_external_conversation_id = conversation, cpc_source_session_id = Some scope,
        cpc_request_id = None, cpc_persistence_scope_id = scope, cpc_skip_persistence = False\<rparr>,
       tool_result_record ''client_stream'' scope
         (new_tool_result_record show_json (Some (snd orphan)) (fst orphan) None TrsIncomplete None JNull
           (JObj [(''component'', JStr ''den.agent_loop''), (''phase'', JStr ''orphan_tool_call_backfill''),
             (''reason'', JStr ''turn_interrupted''), (''tool_name'', JStr (snd orphan))]) None)))"

end
