(* ===== verification/Compaction_Job.thy ===== *)
theory Compaction_Job
  imports Compaction_Summary Conversation_Records Db_Effects
begin

section \<open>Transcript compaction: storage and lifecycle\<close>

text \<open>
  The tables a compaction job reads and writes, with the constraints of the migrations;
  \<open>compaction/artifact_store.rs\<close>, \<open>compaction_store.rs\<close>, \<open>compaction/lifecycle.rs\<close>, the loaders of
  \<open>agent_loop/context.rs\<close>, \<open>agent_loop/overflow_retry.rs\<close> and the enqueueing statement of
  \<open>reflection/conductor.rs\<close>. Arguments: \<open>us\<close> prints a uuid, \<open>digest\<close> is the hexadecimal SHA-256 of
  the serialised value, \<open>show_json\<close> the JSON printer, \<open>strict\<close> the payload flag; fresh uuids and the
  clock. Among rows with equal \<open>created_at\<close>, \<open>ORDER BY created_at DESC LIMIT 1\<close> yields the one
  inserted last. The texts that wrap database errors are not modelled. Reading a transcript also starts
  tasks that store a result for every call without one: \<open>cvt_tasks\<close> holds the tasks that were started
  and have not run yet; what a task does is in \<open>Conversation_Tasks\<close>.
\<close>

subsection \<open>Tables\<close>

record conversation_row =
  cvr_id :: uuid
  cvr_bear_id :: uuid
  cvr_external_conversation_id :: "string option"
  cvr_created_by_user_id :: "int option"
  cvr_source_client_session_id :: "string option"
  cvr_current_title :: "string option"
  cvr_next_message_sequence :: int
  cvr_updated_at :: timestamp

record conversation_message_row =
  cmr_id :: uuid
  cmr_conversation_id :: uuid
  cmr_sequence_no :: int
  cmr_message_type :: string
  cmr_visibility :: string
  cmr_content_text :: string
  cmr_content_json :: json
  cmr_tool_call_id :: "string option"
  cmr_role :: "string option"
  cmr_source_event_id :: "string option"
  cmr_provider_message_id :: "string option"
  cmr_created_at :: timestamp

record compaction_artifact_row =
  caf_id :: uuid
  caf_conversation_id :: uuid
  caf_artifact_kind :: string
  caf_policy_version :: string
  caf_trigger :: string
  caf_source_message_start_seq :: int
  caf_source_message_end_seq :: int
  caf_source_group_start :: "int option"
  caf_source_group_end :: "int option"
  caf_artifact_json :: json
  caf_superseded_by :: "uuid option"
  caf_created_at :: timestamp

record compaction_event_row =
  cer_conversation_id :: string
  cer_trigger :: string
  cer_policy_version :: string
  cer_status :: string
  cer_event_hash :: string
  cer_boundary :: "json option"
  cer_source_group_start :: "int option"
  cer_source_group_end :: "int option"
  cer_artifact :: "json option"
  cer_diagnostic :: "string option"
  cer_created_at :: timestamp

record reflection_run_row =
  rfr_id :: uuid
  rfr_bear_id :: uuid
  rfr_lane :: string
  rfr_trigger :: string
  rfr_status :: string
  rfr_conversation_id :: "string option"
  rfr_input_summary :: json
  rfr_output_summary :: json
  rfr_created_at :: timestamp

record conversation_db =
  cvt_conversations :: "conversation_row list"
  cvt_messages :: "conversation_message_row list"
  cvt_artifacts :: "compaction_artifact_row list"
  cvt_events :: "compaction_event_row list"
  cvt_reflections :: "reflection_run_row list"
  cvt_tasks :: "persistence_task list"

fun is_json_object :: "json \<Rightarrow> bool" where
  "is_json_object (JObj _) = True"
| "is_json_object _ = False"

definition conversations_ok :: "conversation_row list \<Rightarrow> bool" where
  "conversations_ok cs \<longleftrightarrow> distinct (map cvr_id cs)
     \<and> distinct (map (\<lambda>c. (cvr_bear_id c, cvr_external_conversation_id c))
          (filter (\<lambda>c. cvr_external_conversation_id c \<noteq> None) cs))
     \<and> (\<forall>c \<in> set cs. 0 \<le> cvr_next_message_sequence c)"

definition messages_ok :: "conversation_message_row list \<Rightarrow> bool" where
  "messages_ok ms \<longleftrightarrow> distinct (map cmr_id ms) \<and> distinct (map (\<lambda>m. (cmr_conversation_id m, cmr_sequence_no m)) ms)
     \<and> distinct (map (\<lambda>m. (cmr_conversation_id m, cmr_source_event_id m)) (filter (\<lambda>m. cmr_source_event_id m \<noteq> None) ms))
     \<and> (\<forall>m \<in> set ms. cmr_message_type m \<in> set [''user'', ''assistant'', ''system'', ''developer'', ''tool_call'', ''tool_result'',
            ''workflow_event'', ''compaction_marker'']
          \<and> cmr_visibility m \<in> set [''default'', ''hidden_from_user'', ''admin_only'', ''diagnostic_only'']
          \<and> is_json_object (cmr_content_json m))"

definition artifacts_ok :: "compaction_artifact_row list \<Rightarrow> bool" where
  "artifacts_ok fs \<longleftrightarrow> distinct (map caf_id fs)
     \<and> (\<forall>f \<in> set fs. caf_artifact_kind f \<in> set [''iterative_summary'', ''semantic_window'', ''archive_summary'', ''migration_summary'']
          \<and> is_json_object (caf_artifact_json f) \<and> caf_source_message_start_seq f \<le> caf_source_message_end_seq f
          \<and> (\<forall>i \<in> set_option (caf_superseded_by f). i \<in> caf_id ` set fs))"

definition events_ok :: "compaction_event_row list \<Rightarrow> bool" where
  "events_ok es \<longleftrightarrow> distinct (map (\<lambda>e. (cer_conversation_id e, cer_event_hash e)) es)
     \<and> (\<forall>e \<in> set es. cer_status e \<in> set [''Applied'', ''Skipped'', ''Failed'']
          \<and> (\<forall>v \<in> set_option (cer_boundary e). is_json_object v) \<and> (\<forall>v \<in> set_option (cer_artifact e). is_json_object v))"

definition reflections_ok :: "reflection_run_row list \<Rightarrow> bool" where
  "reflections_ok rs \<longleftrightarrow> distinct (map rfr_id rs)
     \<and> (\<forall>r \<in> set rs. rfr_status r \<in> set [''queued'', ''running'', ''completed'', ''failed'', ''cancelled'', ''skipped'', ''needs_human_review''])"

definition conversation_schema_ok :: "conversation_db \<Rightarrow> bool" where
  "conversation_schema_ok db \<longleftrightarrow> conversations_ok (cvt_conversations db) \<and> messages_ok (cvt_messages db)
     \<and> artifacts_ok (cvt_artifacts db) \<and> events_ok (cvt_events db) \<and> reflections_ok (cvt_reflections db)
     \<and> cmr_conversation_id ` set (cvt_messages db) \<union> caf_conversation_id ` set (cvt_artifacts db)
        \<subseteq> cvr_id ` set (cvt_conversations db)"

type_synonym 'a conversation_op = "(conversation_db, 'a) dbo"

abbreviation conversation_write :: "(conversation_db \<Rightarrow> conversation_db \<times> 'a) \<Rightarrow> 'a conversation_op" where
  "conversation_write \<equiv> checked_writeM conversation_schema_ok"

text \<open>\<open>ORDER BY created_at DESC LIMIT 1\<close>.\<close>

definition latest_by :: "('r \<Rightarrow> timestamp) \<Rightarrow> 'r list \<Rightarrow> 'r option" where
  "latest_by created rows = (case rev (sort_key created rows) of [] \<Rightarrow> None | r # _ \<Rightarrow> Some r)"

text \<open>\<open>n as i32\<close> and \<open>v as usize\<close>.\<close>

definition as_i32 :: "nat \<Rightarrow> int" where
  "as_i32 n = (int n + 2 ^ 31) mod 2 ^ 32 - 2 ^ 31"

definition as_usize :: "int \<Rightarrow> nat" where
  "as_usize v = nat (v mod 2 ^ 64)"

subsection \<open>Transcript rows\<close>

definition resolve_conversation_uuid :: "uuid \<Rightarrow> string \<Rightarrow> conversation_db \<Rightarrow> uuid option" where
  "resolve_conversation_uuid bear conversation db =
     map_option cvr_id (List.find (\<lambda>c. cvr_bear_id c = bear \<and> cvr_external_conversation_id c = Some conversation)
       (cvt_conversations db))"

definition transcript_visible :: "conversation_message_row \<Rightarrow> bool" where
  "transcript_visible m \<longleftrightarrow> cmr_visibility m \<noteq> ''diagnostic_only'' \<or> cmr_message_type m \<in> set [''tool_call'', ''tool_result'']"

definition transcript_history :: "uuid \<Rightarrow> string \<Rightarrow> conversation_db \<Rightarrow> conversation_message_row list" where
  "transcript_history bear conversation db = sort_key cmr_sequence_no
     (filter (\<lambda>m. Some (cmr_conversation_id m) = resolve_conversation_uuid bear conversation db \<and> transcript_visible m)
       (cvt_messages db))"

definition transcript_grouping_rows_from_history ::
    "(uuid \<Rightarrow> string) \<Rightarrow> conversation_message_row list \<Rightarrow> transcript_grouping_row list" where
  "transcript_grouping_rows_from_history us rows = map (\<lambda>m. \<lparr>tg_message_id = Some (us (cmr_id m)),
     tg_sequence_no = Some (cmr_sequence_no m), tg_message_type = cmr_message_type m,
     tg_content_text = cmr_content_text m, tg_content_json = cmr_content_json m, tg_tool_call_id = cmr_tool_call_id m\<rparr>) rows"

definition load_transcript_grouping_rows ::
    "(uuid \<Rightarrow> string) \<Rightarrow> uuid \<Rightarrow> string \<Rightarrow> conversation_db \<Rightarrow> transcript_grouping_row list" where
  "load_transcript_grouping_rows us bear conversation db =
     transcript_grouping_rows_from_history us (transcript_history bear conversation db)"

definition transcript_rows_from_grouping_rows :: "transcript_grouping_row list \<Rightarrow> transcript_row list" where
  "transcript_rows_from_grouping_rows rows = map (\<lambda>r. \<lparr>tr_message_type = tg_message_type r,
     tr_content_text = tg_content_text r, tr_content_json = tg_content_json r\<rparr>) rows"

definition rows_after_seq :: "int option \<Rightarrow> transcript_grouping_row list \<Rightarrow> transcript_grouping_row list" where
  "rows_after_seq after rows =
     (case after of None \<Rightarrow> rows | Some cutoff \<Rightarrow> filter (\<lambda>r. unwrap_or (tg_sequence_no r) 0 > cutoff) rows)"

definition orphan_scan :: "(string \<times> string) list \<times> string list \<Rightarrow> transcript_row \<Rightarrow> (string \<times> string) list \<times> string list" where
  "orphan_scan st row =
     (let event = Option.bind (jget (tr_content_json row) ''event'') as_str_json;
          call = Option.bind (jget (tr_content_json row) ''tool_call_id'') as_str_json
      in if event = Some ''tool_request'' then
           (if unwrap_or call [] \<noteq> [] then (fst st @ [(unwrap_or call [],
              unwrap_or (Option.bind (jget (tr_content_json row) ''tool_name'') as_str_json) ''tool'')], snd st) else st)
         else if event = Some ''tool_result'' then
           (case call of Some i \<Rightarrow> (fst st, List.insert i (snd st)) | None \<Rightarrow> st)
         else st)"

definition orphan_tool_call_ids_from_rows :: "transcript_row list \<Rightarrow> (string \<times> string) list" where
  "orphan_tool_call_ids_from_rows rows =
     (case foldl orphan_scan ([], []) rows of (requested, resolved) \<Rightarrow> filter (\<lambda>c. fst c \<notin> set resolved) requested)"

text \<open>\<open>spawn_persist_canonical_conversation_record\<close>: the task is started, unless persistence is off.\<close>

definition spawn_persist_canonical_conversation_record :: "persistence_task \<Rightarrow> unit conversation_op" where
  "spawn_persist_canonical_conversation_record t db =
     (if cpc_skip_persistence (fst t) then db else db\<lparr>cvt_tasks := cvt_tasks db @ [t]\<rparr>, Inr ())"

fun spawn_each :: "persistence_task list \<Rightarrow> unit conversation_op" where
  "spawn_each [] = returnM ()"
| "spawn_each (t # ts) = bindM (spawn_persist_canonical_conversation_record t) (\<lambda>_. spawn_each ts)"

definition backfill_incomplete_tool_results ::
    "(json \<Rightarrow> string) \<Rightarrow> (uuid \<Rightarrow> string) \<Rightarrow> uuid \<Rightarrow> string \<Rightarrow> transcript_row list \<Rightarrow> unit conversation_op" where
  "backfill_incomplete_tool_results show_json us bear conversation rows =
     spawn_each (map (backfill_task show_json us bear conversation) (orphan_tool_call_ids_from_rows rows))"

definition load_transcript_messages_after_seq ::
    "bool \<Rightarrow> (json \<Rightarrow> string) \<Rightarrow> (uuid \<Rightarrow> string) \<Rightarrow> uuid \<Rightarrow> string \<Rightarrow> int option \<Rightarrow> chat_message list conversation_op" where
  "load_transcript_messages_after_seq strict show_json us bear conversation after =
     bindM (queryM (load_transcript_grouping_rows us bear conversation)) (\<lambda>grouping_rows.
     let rows = transcript_rows_from_grouping_rows (rows_after_seq after grouping_rows) in
     bindM (backfill_incomplete_tool_results show_json us bear conversation rows) (\<lambda>_.
     returnM (reconstruct_transcript_messages strict show_json rows)))"

definition load_transcript_messages ::
    "bool \<Rightarrow> (json \<Rightarrow> string) \<Rightarrow> (uuid \<Rightarrow> string) \<Rightarrow> uuid \<Rightarrow> string \<Rightarrow> chat_message list conversation_op" where
  "load_transcript_messages strict show_json us bear conversation =
     load_transcript_messages_after_seq strict show_json us bear conversation None"

definition assemble_agent_messages ::
    "bool \<Rightarrow> (json \<Rightarrow> string) \<Rightarrow> (uuid \<Rightarrow> string) \<Rightarrow> uuid \<Rightarrow> string \<Rightarrow> string option \<Rightarrow> string option \<Rightarrow> chat_message list
     \<Rightarrow> chat_message list conversation_op" where
  "assemble_agent_messages strict show_json us bear conversation system_context human_message tool_messages =
     bindM (load_transcript_messages strict show_json us bear conversation) (\<lambda>transcript.
     returnM (repair_tool_call_message_chain
       ((case filter_opt (\<lambda>s. s \<noteq> []) system_context of Some s \<Rightarrow> [text_message ''system'' s] | None \<Rightarrow> [])
        @ transcript
        @ (case filter_opt (\<lambda>s. s \<noteq> []) human_message of Some s \<Rightarrow> [text_message ''user'' s] | None \<Rightarrow> [])
        @ tool_messages)))"

subsection \<open>Artifacts\<close>

record compaction_artifact_record =
  crc_artifact_id :: uuid
  crc_summary :: iterative_summary
  crc_source_message_start_seq :: int
  crc_source_message_end_seq :: int
  crc_policy_version :: string

definition live_summary :: "uuid \<Rightarrow> compaction_artifact_row \<Rightarrow> bool" where
  "live_summary conversation f \<longleftrightarrow>
     caf_conversation_id f = conversation \<and> caf_artifact_kind f = ''iterative_summary'' \<and> caf_superseded_by f = None"

definition latest_live_summary :: "uuid \<Rightarrow> conversation_db \<Rightarrow> compaction_artifact_row option" where
  "latest_live_summary conversation db = latest_by caf_created_at (filter (live_summary conversation) (cvt_artifacts db))"

definition load_latest_iterative_summary :: "uuid \<Rightarrow> string \<Rightarrow> compaction_artifact_record option conversation_op" where
  "load_latest_iterative_summary bear conversation = withM (\<lambda>db.
     case Option.bind (resolve_conversation_uuid bear conversation db) (\<lambda>c. latest_live_summary c db) of
       None \<Rightarrow> returnM None
     | Some f \<Rightarrow> (case decode_summary (caf_artifact_json f) of
           None \<Rightarrow> failM (Failed (Parsing ''decode compaction artifact_json''))
         | Some s \<Rightarrow> returnM (Some \<lparr>crc_artifact_id = caf_id f, crc_summary = s,
             crc_source_message_start_seq = caf_source_message_start_seq f,
             crc_source_message_end_seq = caf_source_message_end_seq f, crc_policy_version = caf_policy_version f\<rparr>)))"

definition insert_artifact_row :: "compaction_artifact_row \<Rightarrow> uuid conversation_op" where
  "insert_artifact_row f = conversation_write (\<lambda>db. (db\<lparr>cvt_artifacts := cvt_artifacts db @ [f]\<rparr>, caf_id f))"

definition supersede_artifact :: "uuid \<Rightarrow> uuid \<Rightarrow> unit conversation_op" where
  "supersede_artifact inserted prior = conversation_write (\<lambda>db. (db\<lparr>cvt_artifacts :=
     update_where (\<lambda>f. caf_id f = prior) (\<lambda>f. f\<lparr>caf_superseded_by := Some inserted\<rparr>) (cvt_artifacts db)\<rparr>, ()))"

definition insert_iterative_summary_artifact ::
    "uuid \<Rightarrow> timestamp \<Rightarrow> uuid \<Rightarrow> string \<Rightarrow> compaction_decision \<Rightarrow> compaction_policy \<Rightarrow> compaction_trigger \<Rightarrow> int \<Rightarrow> int
     \<Rightarrow> iterative_summary \<Rightarrow> uuid conversation_op" where
  "insert_iterative_summary_artifact fresh now bear conversation decision policy trigger start_seq end_seq summary =
     bindM (queryM (resolve_conversation_uuid bear conversation)) (\<lambda>found.
     case found of
       None \<Rightarrow> failM (Failed (NotFound (''conversation not found for compaction artifact: '' @ conversation)))
     | Some c \<Rightarrow> transactionM (
         bindM (queryM (latest_live_summary c)) (\<lambda>prior.
         bindM (insert_artifact_row \<lparr>caf_id = fresh, caf_conversation_id = c, caf_artifact_kind = ''iterative_summary'',
             caf_policy_version = cp_policy_version policy, caf_trigger = compaction_trigger_str trigger,
             caf_source_message_start_seq = start_seq, caf_source_message_end_seq = end_seq,
             caf_source_group_start = Some (as_i32 (cd_selected_group_start decision)),
             caf_source_group_end = Some (as_i32 (cd_selected_group_end decision)),
             caf_artifact_json = encode_summary summary, caf_superseded_by = None, caf_created_at = now\<rparr>) (\<lambda>inserted.
         case prior of
           None \<Rightarrow> returnM inserted
         | Some p \<Rightarrow> bindM (supersede_artifact inserted (caf_id p)) (\<lambda>_. returnM inserted)))))"

subsection \<open>Events and queues\<close>

definition opt_nat_json :: "nat option \<Rightarrow> json" where
  "opt_nat_json v = (case v of None \<Rightarrow> JNull | Some n \<Rightarrow> jnat n)"

definition opt_json :: "json option \<Rightarrow> json" where
  "opt_json v = unwrap_or v JNull"

definition boundary_json :: "compaction_boundary \<Rightarrow> json" where
  "boundary_json b = JObj [(''retained_group_count'', jnat (cb_retained_group_count b)),
     (''compacted_group_count'', jnat (cb_compacted_group_count b))]"

fun artifact_kind_name :: "compaction_artifact_kind \<Rightarrow> string" where
  "artifact_kind_name CakIterativeSummary = ''IterativeSummary''"
| "artifact_kind_name CakCollapsedToolBundle = ''CollapsedToolBundle''"
| "artifact_kind_name CakStructuredWorkflowSummary = ''StructuredWorkflowSummary''"

definition artifact_ref_json :: "compaction_artifact_ref \<Rightarrow> json" where
  "artifact_ref_json a = JObj [(''artifact_id'', JStr (car_artifact_id a)), (''kind'', JStr (artifact_kind_name (car_kind a))),
     (''source_group_start'', jnat (car_source_group_start a)), (''source_group_end'', jnat (car_source_group_end a)),
     (''policy_version'', JStr (car_policy_version a))]"

definition event_hash_payload :: "compaction_event \<Rightarrow> json" where
  "event_hash_payload e = JObj [(''conversation_id'', JStr (ce_conversation_id e)),
     (''trigger'', JStr (compaction_trigger_str (ce_trigger e))), (''policy_version'', JStr (ce_policy_version e)),
     (''status'', JStr (compaction_event_status_str (ce_status e))),
     (''boundary'', opt_json (map_option boundary_json (ce_boundary e))),
     (''source_group_start'', opt_nat_json (ce_source_group_start e)), (''source_group_end'', opt_nat_json (ce_source_group_end e)),
     (''artifact'', opt_json (map_option artifact_ref_json (ce_artifact e))),
     (''diagnostic'', opt_json (map_option JStr (ce_diagnostic e)))]"

definition record_runtime_compaction_event :: "(json \<Rightarrow> string) \<Rightarrow> timestamp \<Rightarrow> compaction_event \<Rightarrow> unit conversation_op" where
  "record_runtime_compaction_event digest now e = conversation_write (\<lambda>db.
     let hash = digest (event_hash_payload e) in
     if \<exists>r \<in> set (cvt_events db). cer_conversation_id r = ce_conversation_id e \<and> cer_event_hash r = hash then (db, ())
     else (db\<lparr>cvt_events := cvt_events db @ [\<lparr>cer_conversation_id = ce_conversation_id e,
       cer_trigger = compaction_trigger_str (ce_trigger e), cer_policy_version = ce_policy_version e,
       cer_status = compaction_event_status_str (ce_status e), cer_event_hash = hash,
       cer_boundary = map_option boundary_json (ce_boundary e),
       cer_source_group_start = map_option as_i32 (ce_source_group_start e),
       cer_source_group_end = map_option as_i32 (ce_source_group_end e),
       cer_artifact = map_option artifact_ref_json (ce_artifact e), cer_diagnostic = ce_diagnostic e,
       cer_created_at = now\<rparr>]\<rparr>, ()))"

definition list_runtime_compaction_events :: "string \<Rightarrow> nat \<Rightarrow> conversation_db \<Rightarrow> compaction_event_row list" where
  "list_runtime_compaction_events conversation limit db =
     take limit (rev (sort_key cer_created_at (filter (\<lambda>e. cer_conversation_id e = conversation) (cvt_events db))))"

definition enqueue_run :: "(reflection_run_row \<Rightarrow> bool) \<Rightarrow> reflection_run_row \<Rightarrow> bool conversation_op" where
  "enqueue_run queued r = conversation_write (\<lambda>db.
     if \<exists>x \<in> set (cvt_reflections db). queued x then (db, False)
     else (db\<lparr>cvt_reflections := cvt_reflections db @ [r]\<rparr>, True))"

definition enqueue_archive_harvest_for_bear :: "uuid \<Rightarrow> timestamp \<Rightarrow> uuid \<Rightarrow> string \<Rightarrow> bool conversation_op" where
  "enqueue_archive_harvest_for_bear fresh now bear trigger =
     enqueue_run (\<lambda>x. rfr_bear_id x = bear \<and> rfr_lane x = ''archive_harvest'' \<and> rfr_status x = ''queued'')
       \<lparr>rfr_id = fresh, rfr_bear_id = bear, rfr_lane = ''archive_harvest'', rfr_trigger = trigger, rfr_status = ''queued'',
        rfr_conversation_id = None, rfr_input_summary = JObj [], rfr_output_summary = JObj [], rfr_created_at = now\<rparr>"

text \<open>A failure that is only logged.\<close>

definition loggedM :: "('d, 'a) dbo \<Rightarrow> ('d, unit) dbo" where
  "loggedM m db = (fst (m db), Inr ())"

end
