(* ===== verification/Compaction_Lifecycle.thy ===== *)
theory Compaction_Lifecycle
  imports Compaction_Job
begin

section \<open>Transcript compaction: jobs and overflow recovery\<close>

text \<open>
  \<open>compaction/lifecycle.rs\<close> (evaluation, persistence, prompt context, enqueueing) and the rebuilding
  of the messages of a session after an overflow (\<open>agent_loop/overflow_retry.rs\<close>). The fields of the
  configuration that the code reads are a record.
\<close>

record compaction_config =
  cc_compaction_mode :: string
  cc_compaction_timing :: string
  cc_run_workers :: bool

datatype turn_compaction_trigger = TctTurnStart | TctPostTurn | TctConversationReview | TctManual | TctModelSafetyMargin

fun as_runtime_trigger :: "turn_compaction_trigger \<Rightarrow> compaction_trigger" where
  "as_runtime_trigger TctTurnStart = SemanticGroupCount"
| "as_runtime_trigger TctPostTurn = SemanticGroupCount"
| "as_runtime_trigger TctConversationReview = ConversationReview"
| "as_runtime_trigger TctManual = ManualTrigger"
| "as_runtime_trigger TctModelSafetyMargin = ModelSafetyMargin"

record turn_compaction_state =
  tcs_event :: compaction_event
  tcs_decision :: "compaction_decision option"
  tcs_policy :: compaction_policy
  tcs_groups :: "semantic_group list"
  tcs_compacted_seq_cutoff :: "int option"
  tcs_compacted_context :: "string option"

subsection \<open>Reading\<close>

definition event_status_of :: "string \<Rightarrow> compaction_event_status" where
  "event_status_of s = (if s = ''Applied'' then EvApplied else if s = ''Failed'' then EvFailed else EvSkipped)"

definition latest_compaction_event_or_placeholder ::
    "string \<Rightarrow> compaction_policy \<Rightarrow> conversation_db \<Rightarrow> compaction_event" where
  "latest_compaction_event_or_placeholder conversation policy db =
     (case list_runtime_compaction_events conversation 1 db of
        r # _ \<Rightarrow> \<lparr>ce_conversation_id = conversation, ce_trigger = SemanticGroupCount, ce_policy_version = cer_policy_version r,
          ce_status = event_status_of (cer_status r), ce_boundary = None,
          ce_source_group_start = map_option as_usize (cer_source_group_start r),
          ce_source_group_end = map_option as_usize (cer_source_group_end r), ce_artifact = None,
          ce_diagnostic = cer_diagnostic r\<rparr>
      | [] \<Rightarrow> build_compaction_skipped_event conversation SemanticGroupCount policy ''no prior compaction event'')"

definition load_compaction_context :: "uuid \<Rightarrow> string \<Rightarrow> bear_stance \<Rightarrow> turn_compaction_state option conversation_op" where
  "load_compaction_context bear conversation profile =
     (let policy = compaction_policy_for_profile profile in
      bindM (load_latest_iterative_summary bear conversation) (\<lambda>artifact.
      bindM (queryM (latest_compaction_event_or_placeholder conversation policy)) (\<lambda>event.
      returnM (Some \<lparr>tcs_event = event, tcs_decision = None, tcs_policy = policy, tcs_groups = [],
        tcs_compacted_seq_cutoff = map_option crc_source_message_end_seq artifact,
        tcs_compacted_context = map_option (\<lambda>a. render_compacted_context_block (crc_summary a)) artifact\<rparr>))))"

subsection \<open>Evaluation\<close>

definition should_persist_compaction_artifact :: "compaction_mode \<Rightarrow> compaction_trigger \<Rightarrow> bool" where
  "should_persist_compaction_artifact mode trigger \<longleftrightarrow> mode = ModeActive \<or> trigger = ConversationReview"

definition estimate_transcript_chars :: "transcript_grouping_row list \<Rightarrow> nat" where
  "estimate_transcript_chars rows = sum_list (map (\<lambda>r. char_count (tg_content_text r)) rows)"

definition message_sequence :: "transcript_grouping_row list \<Rightarrow> string option \<Rightarrow> int option" where
  "message_sequence rows message_id = Option.bind message_id (\<lambda>i.
     Option.bind (List.find (\<lambda>r. tg_message_id r = Some i) rows) tg_sequence_no)"

definition sequence_span_for_group_range ::
    "transcript_grouping_row list \<Rightarrow> semantic_group list \<Rightarrow> compaction_decision \<Rightarrow> den_error + int \<times> int" where
  "sequence_span_for_group_range rows groups d =
     (if length groups \<le> cd_selected_group_start d then Inl (SystemError ''compaction group start out of range'')
      else if length groups \<le> cd_selected_group_end d then Inl (SystemError ''compaction group end out of range'')
      else let s = groups ! cd_selected_group_start d; e = groups ! cd_selected_group_end d in
        case message_sequence rows (sg_start_message_id s) of
          None \<Rightarrow> Inl (SystemError ''compaction start message missing sequence'')
        | Some start_seq \<Rightarrow>
           (case or_else (message_sequence rows (sg_end_message_id e)) (message_sequence rows (sg_start_message_id e)) of
              None \<Rightarrow> Inl (SystemError ''compaction end message missing sequence'')
            | Some end_seq \<Rightarrow> Inr (start_seq, end_seq)))"

text \<open>Rows that an earlier artifact covers are left out, except by a forced evaluation.\<close>

definition uncompacted_rows :: "int option \<Rightarrow> transcript_grouping_row list \<Rightarrow> transcript_grouping_row list" where
  "uncompacted_rows prior_cutoff rows =
     (case prior_cutoff of None \<Rightarrow> rows | Some cutoff \<Rightarrow> filter (\<lambda>r. is_some_and (tg_sequence_no r) (\<lambda>s. s > cutoff)) rows)"

definition prior_cutoff_of :: "compaction_trigger \<Rightarrow> compaction_artifact_record option \<Rightarrow> int option" where
  "prior_cutoff_of trigger prior = (if forced_trigger trigger then None else map_option crc_source_message_end_seq prior)"

definition evaluate_compaction ::
    "compaction_mode \<Rightarrow> compaction_trigger \<Rightarrow> compaction_policy \<Rightarrow> transcript_grouping_row list \<Rightarrow> semantic_group list
     \<Rightarrow> compaction_decision option" where
  "evaluate_compaction mode trigger policy rows groups =
     (let decision = choose_compaction_decision groups trigger policy in
      if decision = None \<and> mode = ModeActive \<and> estimate_transcript_chars rows > cp_max_transcript_chars policy
      then choose_compaction_decision groups TokenPressure policy
      else decision)"

definition skip_diagnostic :: "semantic_group list \<Rightarrow> int option \<Rightarrow> compaction_trigger \<Rightarrow> string" where
  "skip_diagnostic groups prior_cutoff trigger =
     (if groups = [] then
        (if prior_cutoff \<noteq> None then ''no uncompacted transcript groups to evaluate'' else ''no transcript groups to evaluate'')
      else if trigger = ConversationReview then ''conversation review skipped; no eligible groups outside protected floor''
      else ''no eligible history groups outside protected floors'')"

definition selected_groups :: "semantic_group list \<Rightarrow> compaction_decision \<Rightarrow> semantic_group list" where
  "selected_groups groups d =
     take (cd_selected_group_end d - cd_selected_group_start d + 1) (drop (cd_selected_group_start d) groups)"

text \<open>Persisting: summarise the selected groups, store the artifact, request a harvest.\<close>

definition persist_compaction ::
    "uuid \<Rightarrow> uuid \<Rightarrow> timestamp \<Rightarrow> uuid \<Rightarrow> string \<Rightarrow> compaction_policy \<Rightarrow> compaction_trigger
     \<Rightarrow> compaction_artifact_record option \<Rightarrow> transcript_grouping_row list \<Rightarrow> semantic_group list \<Rightarrow> compaction_decision
     \<Rightarrow> (int option \<times> string option) conversation_op" where
  "persist_compaction fresh fresh_run now bear conversation policy trigger prior rows groups d =
     (let summary = summarize_compacted_groups (map_option crc_summary prior) (selected_groups groups d) rows d in
      case sequence_span_for_group_range rows groups d of
        Inl e \<Rightarrow> failM (Failed e)
      | Inr (start_seq, end_seq) \<Rightarrow>
          bindM (insert_iterative_summary_artifact fresh now bear conversation d policy trigger start_seq end_seq summary) (\<lambda>_.
          bindM (loggedM (enqueue_archive_harvest_for_bear fresh_run now bear ''compaction_artifact_created'')) (\<lambda>_.
          returnM (Some end_seq, Some (render_compacted_context_block summary)))))"

definition artifact_label :: "string \<Rightarrow> compaction_decision \<Rightarrow> string" where
  "artifact_label conversation d =
     conversation @ '':'' @ show_nat (cd_selected_group_start d) @ ''-'' @ show_nat (cd_selected_group_end d)"

definition settle_evaluation ::
    "uuid \<Rightarrow> uuid \<Rightarrow> timestamp \<Rightarrow> uuid \<Rightarrow> string \<Rightarrow> compaction_policy \<Rightarrow> compaction_mode \<Rightarrow> compaction_trigger
     \<Rightarrow> compaction_artifact_record option \<Rightarrow> transcript_grouping_row list \<Rightarrow> semantic_group list \<Rightarrow> compaction_decision option
     \<Rightarrow> (compaction_event \<times> int option \<times> string option) conversation_op" where
  "settle_evaluation fresh fresh_run now bear conversation policy mode trigger prior rows groups decision =
     (case decision of
        Some d \<Rightarrow>
          bindM (if should_persist_compaction_artifact mode trigger
                 then persist_compaction fresh fresh_run now bear conversation policy trigger prior rows groups d
                 else returnM (None, None)) (\<lambda>(cutoff, context).
          returnM (build_compaction_applied_event conversation d policy
            (artifact_ref_from_decision (artifact_label conversation d) d policy), cutoff, context))
      | None \<Rightarrow> returnM (build_compaction_skipped_event conversation trigger policy
            (skip_diagnostic groups (prior_cutoff_of trigger prior) trigger),
          map_option crc_source_message_end_seq prior,
          map_option (\<lambda>a. render_compacted_context_block (crc_summary a)) prior))"

definition run_compaction_job ::
    "bool \<Rightarrow> (json \<Rightarrow> string) \<Rightarrow> (uuid \<Rightarrow> string) \<Rightarrow> uuid \<Rightarrow> uuid \<Rightarrow> timestamp \<Rightarrow> compaction_config \<Rightarrow> uuid \<Rightarrow> string
     \<Rightarrow> bear_stance \<Rightarrow> turn_compaction_trigger \<Rightarrow> turn_compaction_state option conversation_op" where
  "run_compaction_job strict digest us fresh fresh_run now config bear conversation profile turn_trigger =
     (let mode = compaction_mode_parse (cc_compaction_mode config);
          trigger = as_runtime_trigger turn_trigger;
          policy = compaction_policy_for_profile profile
      in if mode = ModeOff then returnM None
         else
           bindM (if should_persist_compaction_artifact mode trigger then load_latest_iterative_summary bear conversation
                  else returnM None) (\<lambda>prior.
           bindM (queryM (load_transcript_grouping_rows us bear conversation)) (\<lambda>all_rows.
           let rows = uncompacted_rows (prior_cutoff_of trigger prior) all_rows;
               groups = semantic_groups_from_conversation_messages strict rows;
               decision = evaluate_compaction mode trigger policy rows groups
           in bindM (settle_evaluation fresh fresh_run now bear conversation policy mode trigger prior rows groups decision)
               (\<lambda>(event, cutoff, context).
              bindM (record_runtime_compaction_event digest now event) (\<lambda>_.
              returnM (Some \<lparr>tcs_event = event, tcs_decision = decision, tcs_policy = policy, tcs_groups = groups,
                tcs_compacted_seq_cutoff = cutoff, tcs_compacted_context = context\<rparr>))))))"

subsection \<open>Hooks\<close>

definition on_turn_assemble_compaction ::
    "bool \<Rightarrow> (json \<Rightarrow> string) \<Rightarrow> (uuid \<Rightarrow> string) \<Rightarrow> uuid \<Rightarrow> uuid \<Rightarrow> timestamp \<Rightarrow> compaction_config \<Rightarrow> uuid \<Rightarrow> string
     \<Rightarrow> bear_stance \<Rightarrow> turn_compaction_state option conversation_op" where
  "on_turn_assemble_compaction strict digest us fresh fresh_run now config bear conversation profile =
     (if compaction_mode_parse (cc_compaction_mode config) = ModeOff then returnM None
      else if compaction_timing_parse (cc_compaction_timing config) = TimingSync
        then run_compaction_job strict digest us fresh fresh_run now config bear conversation profile TctTurnStart
      else load_compaction_context bear conversation profile)"

definition prepare_turn_compaction ::
    "bool \<Rightarrow> (json \<Rightarrow> string) \<Rightarrow> (uuid \<Rightarrow> string) \<Rightarrow> uuid \<Rightarrow> uuid \<Rightarrow> timestamp \<Rightarrow> compaction_config \<Rightarrow> uuid \<Rightarrow> string
     \<Rightarrow> bear_stance \<Rightarrow> turn_compaction_trigger \<Rightarrow> turn_compaction_state option conversation_op" where
  "prepare_turn_compaction strict digest us fresh fresh_run now config bear conversation profile trigger =
     (if trigger = TctTurnStart
      then on_turn_assemble_compaction strict digest us fresh fresh_run now config bear conversation profile
      else run_compaction_job strict digest us fresh fresh_run now config bear conversation profile trigger)"

definition enqueue_compaction_after_turn ::
    "uuid \<Rightarrow> timestamp \<Rightarrow> compaction_config \<Rightarrow> uuid \<Rightarrow> string \<Rightarrow> bear_stance \<Rightarrow> unit conversation_op" where
  "enqueue_compaction_after_turn fresh now config bear conversation profile =
     (if compaction_mode_parse (cc_compaction_mode config) = ModeOff
       \<or> compaction_timing_parse (cc_compaction_timing config) \<noteq> TimingAsync \<or> \<not> cc_run_workers config
      then returnM ()
      else loggedM (enqueue_run
        (\<lambda>x. rfr_bear_id x = bear \<and> rfr_lane x = ''context_compact'' \<and> rfr_conversation_id x = Some conversation
           \<and> rfr_status x = ''queued'')
        \<lparr>rfr_id = fresh, rfr_bear_id = bear, rfr_lane = ''context_compact'', rfr_trigger = ''post_turn'', rfr_status = ''queued'',
         rfr_conversation_id = Some conversation,
         rfr_input_summary = JObj [(''conversation_id'', JStr conversation), (''profile'', JStr (stance_as_str profile)),
           (''trigger'', JStr ''post_turn'')],
         rfr_output_summary = JObj [], rfr_created_at = now\<rparr>))"

subsection \<open>Prompt context\<close>

definition debug_opt_nat :: "nat option \<Rightarrow> string" where
  "debug_opt_nat v = (case v of None \<Rightarrow> ''None'' | Some n \<Rightarrow> ''Some('' @ show_nat n @ '')'')"

fun event_status_word :: "compaction_event_status \<Rightarrow> string" where
  "event_status_word EvApplied = ''applied''"
| "event_status_word EvSkipped = ''skipped''"
| "event_status_word EvFailed = ''failed''"

definition render_compaction_prompt_context :: "turn_compaction_state \<Rightarrow> string" where
  "render_compaction_prompt_context st =
     (let compacted = unwrap_or (tcs_compacted_context st) [];
          recent = min (cp_protected_recent_group_count (tcs_policy st)) (length (tcs_groups st));
          head = ''Runtime compaction context is Den-owned. Treat active instructions, workflow state, recent uncompacted groups, and compacted summary state as distinct context layers. Current compaction evaluation: status=''
            @ event_status_word (ce_status (tcs_event st)) @ '' policy_version='' @ cp_policy_version (tcs_policy st)
            @ '' source_range='' @ debug_opt_nat (ce_source_group_start (tcs_event st)) @ ''-''
            @ debug_opt_nat (ce_source_group_end (tcs_event st)) @ '' diagnostic=''
            @ unwrap_or (ce_diagnostic (tcs_event st)) ''none'' @ ''. Recent protected groups retained: '' @ show_nat recent @ ''.''
      in join_str [CHR 0x0A, CHR 0x0A] (head # (if compacted = [] then [] else [compacted])))"

subsection \<open>Overflow recovery\<close>

definition COMPACTION_BLOCK_MARKER :: string where
  "COMPACTION_BLOCK_MARKER = ''Runtime compaction context is Den-owned''"

fun find_str :: "string \<Rightarrow> string \<Rightarrow> nat option" where
  "find_str needle [] = (if needle = [] then Some 0 else None)"
| "find_str needle (c # cs) = (if prefix needle (c # cs) then Some 0 else map_option Suc (find_str needle cs))"

definition trim_end :: "string \<Rightarrow> string" where
  "trim_end s = rev (trim_end_rev (rev s))"

definition upsert_compaction_block :: "string \<Rightarrow> string \<Rightarrow> string" where
  "upsert_compaction_block system_text compaction_text =
     (if trim compaction_text = [] then system_text
      else case find_str COMPACTION_BLOCK_MARKER system_text of
        Some idx \<Rightarrow>
          (let p = trim_end (take idx system_text) in
           if p = [] then compaction_text else p @ [CHR 0x0A, CHR 0x0A] @ compaction_text)
      | None \<Rightarrow>
          if trim system_text = [] then compaction_text
          else system_text @ [CHR 0x0A, CHR 0x0A] @ compaction_text)"

definition collect_ephemeral_tail :: "chat_message list \<Rightarrow> chat_message list" where
  "collect_ephemeral_tail existing =
     (if length existing \<le> 1 then []
      else rev (takeWhile (\<lambda>m. is_tool m \<or> has_calls m) (rev (drop 1 existing))))"

definition rebuild_messages_after_overflow_compaction ::
    "bool \<Rightarrow> (json \<Rightarrow> string) \<Rightarrow> (uuid \<Rightarrow> string) \<Rightarrow> uuid \<Rightarrow> string \<Rightarrow> bear_stance \<Rightarrow> chat_message list
     \<Rightarrow> turn_compaction_state \<Rightarrow> chat_message list conversation_op" where
  "rebuild_messages_after_overflow_compaction strict show_json us bear conversation profile existing st =
     (let system_content = (case system_prefix existing of m # _ \<Rightarrow> unwrap_or (msg_content m) [] | [] \<Rightarrow> []);
          cutoff = tcs_compacted_seq_cutoff st
      in bindM (if cutoff \<noteq> None then load_transcript_messages_after_seq strict show_json us bear conversation cutoff
                else load_transcript_messages strict show_json us bear conversation) (\<lambda>transcript.
         let messages = repair_tool_call_message_chain
               (text_message ''system'' (upsert_compaction_block system_content (render_compaction_prompt_context st))
                # transcript @ collect_ephemeral_tail existing)
         in case (if cutoff \<noteq> None then Inr messages
                  else if profile = StPair then prune_messages_for_native_pair messages
                  else if profile = StChat then prune_messages_for_native_chat messages
                  else Inr messages) of
              Inl _ \<Rightarrow> failM (Panicked ''attempt to add with overflow'')
            | Inr pruned \<Rightarrow> returnM pruned))"

definition compact_session_messages_for_overflow ::
    "bool \<Rightarrow> (json \<Rightarrow> string) \<Rightarrow> (json \<Rightarrow> string) \<Rightarrow> (uuid \<Rightarrow> string) \<Rightarrow> uuid \<Rightarrow> uuid \<Rightarrow> timestamp \<Rightarrow> compaction_config \<Rightarrow> uuid
     \<Rightarrow> string \<Rightarrow> bear_stance \<Rightarrow> chat_message list \<Rightarrow> (chat_message list \<times> bool) conversation_op" where
  "compact_session_messages_for_overflow strict show_json digest us fresh fresh_run now config bear conversation profile existing =
     bindM (run_compaction_job strict digest us fresh fresh_run now config bear conversation profile TctModelSafetyMargin)
       (\<lambda>state. case state of
          None \<Rightarrow> returnM (existing, False)
        | Some st \<Rightarrow>
            if compaction_mode_parse (cc_compaction_mode config) \<noteq> ModeActive then returnM (existing, False)
            else bindM (rebuild_messages_after_overflow_compaction strict show_json us bear conversation profile existing st)
              (\<lambda>messages. returnM (messages, tcs_compacted_seq_cutoff st \<noteq> None)))"

end
