(* ===== verification/Compaction_Selection.thy ===== *)
theory Compaction_Selection
  imports Compaction_Lifecycle
begin

section \<open>What compaction selects\<close>

text \<open>
  The grouping of a transcript and the rows of each group; the selection of the groups to compact
  against a declarative specification; the sequence numbers that a decision covers.
\<close>

subsection \<open>Groups and their rows\<close>

definition describes :: "bool \<Rightarrow> semantic_group \<Rightarrow> transcript_grouping_row list \<Rightarrow> bool" where
  "describes strict g seg \<longleftrightarrow> seg \<noteq> [] \<and> sg_message_count g = length seg
     \<and> sg_start_message_id g = row_identity strict (hd seg) \<and> sg_end_message_id g = row_identity strict (last seg)"

text \<open>The rows of each group, by the recursion of the grouping.\<close>

function group_rows :: "bool \<Rightarrow> transcript_grouping_row list \<Rightarrow> transcript_grouping_row list list" where
  "group_rows strict [] = []"
| "group_rows strict (row # rows) =
     (if \<not> row_counts_toward_grouping strict row then group_rows strict rows
      else if tg_message_type row \<noteq> ''compaction_marker'' \<and> is_tool_call_request row \<and> paired_result strict row rows \<noteq> None
        then [row, hd rows] # group_rows strict (tl rows)
      else [row] # group_rows strict rows)"
  by pat_completeness auto
termination
  by (relation "measure (length \<circ> snd)") auto

lemma paired_result_counts:
  assumes "paired_result strict row rows \<noteq> None"
  shows "\<exists>r rs. rows = r # rs \<and> row_counts_toward_grouping strict r"
  using assms
  by (auto simp: paired_result_def row_counts_toward_grouping_def is_tool_result_row_def tool_result_payload_of_def
      filter_opt_def split: list.splits option.splits if_splits)

lemma group_rows_concat: "concat (group_rows strict rows) = filter (row_counts_toward_grouping strict) rows"
proof (induction strict rows rule: group_rows.induct)
  case (2 strict row rows)
  then show ?case using paired_result_counts [of strict row rows] by auto
qed simp

lemma group_rows_describe:
  "list_all2 (describes strict) (semantic_groups_from_conversation_messages strict rows) (group_rows strict rows)"
proof (induction strict rows rule: group_rows.induct)
  case (2 strict row rows)
  have one: "describes strict (compaction_boundary_group strict row) [row]" "describes strict (orphan_tool_result_group strict row) [row]"
    "describes strict (single_row_group strict row) [row]"
    by (simp_all add: describes_def one_row_group_def compaction_boundary_group_def orphan_tool_result_group_def
        single_row_group_def Let_def)
  have tool: "describes strict (fst (tool_interaction_group strict row rows)) (if paired_result strict row rows = None then [row] else [row, hd rows])"
    "snd (tool_interaction_group strict row rows) = (if paired_result strict row rows = None then 1 else 2)"
    by (simp_all add: describes_def tool_interaction_group_def Let_def)
  show ?case using 2 one tool paired_result_counts [of strict row rows]
    by (cases "tool_interaction_group strict row rows") (auto simp: drop_Suc)
qed simp

subsection \<open>The decision\<close>

definition eligible_groups :: "semantic_group list \<Rightarrow> compaction_policy \<Rightarrow> semantic_group list" where
  "eligible_groups groups policy = take (length groups - cp_protected_recent_group_count policy) groups"

text \<open>Once a start is fixed, the loop extends the run to the next protected group.\<close>

lemma select_extend:
  "select_groups (List.enumerate n gs) (Some s) (Some e)
   = (Some s, Some (if gs = [] \<or> sg_protected (hd gs) then e else n + length (takeWhile (\<lambda>g. \<not> sg_protected g) gs) - 1))"
proof (induction gs arbitrary: n e)
  case (Cons g gs)
  then show ?case by (cases gs) auto
qed simp

lemma select_run:
  "select_groups (List.enumerate n gs) None None =
     (let p = length (takeWhile sg_protected gs); r = length (takeWhile (\<lambda>g. \<not> sg_protected g) (drop p gs)) in
      if p = length gs then (None, None) else (Some (n + p), Some (n + p + r - 1)))"
proof (induction gs arbitrary: n)
  case (Cons g gs)
  then show ?case using select_extend [of "Suc n" gs n n] by (cases gs) (auto simp: Let_def)
qed simp

lemma run_nonempty:
  fixes gs :: "semantic_group list"
  defines "p \<equiv> length (takeWhile sg_protected gs)"
  assumes "p \<noteq> length gs"
  shows "takeWhile (\<lambda>g. \<not> sg_protected g) (drop p gs) \<noteq> []"
proof -
  have drop: "drop p gs = dropWhile sg_protected gs" by (simp add: p_def dropWhile_eq_drop)
  moreover have "p < length gs" using assms by (simp add: length_takeWhile_le le_neq_implies_less)
  ultimately obtain g rest where "dropWhile sg_protected gs = g # rest" by (metis drop_eq_Nil linorder_not_le list.exhaust)
  then show ?thesis using drop hd_dropWhile [of sg_protected gs] by simp
qed

lemma choose_run:
  "choose_compaction_decision groups trigger policy =
     (let gs = eligible_groups groups policy; p = length (takeWhile sg_protected gs);
          r = length (takeWhile (\<lambda>g. \<not> sg_protected g) (drop p gs))
      in if p = length gs \<or> \<not> forced_trigger trigger \<and> trigger \<noteq> ConversationReview
              \<and> length groups \<le> cp_max_groups_before_compaction policy then None
         else Some (decision_for_range groups trigger p (p + r - 1)))"
proof -
  define gs where "gs = eligible_groups groups policy"
  define p where "p = length (takeWhile sg_protected gs)"
  define r where "r = length (takeWhile (\<lambda>g. \<not> sg_protected g) (drop p gs))"
  have sel: "select_groups (List.enumerate 0 gs) None None = (if p = length gs then (None, None) else (Some p, Some (p + r - 1)))"
    using select_run [of 0 gs] by (simp add: Let_def p_def r_def)
  have "p \<noteq> length gs \<Longrightarrow> 0 < r" using run_nonempty [of gs] by (simp add: p_def r_def)
  then have r: "p \<noteq> length gs \<Longrightarrow> p \<le> p + r - 1" by arith
  have gs: "length groups - cp_protected_recent_group_count policy = length gs" by (simp add: gs_def eligible_groups_def)
  have "take (length gs) groups = gs" by (simp add: gs_def eligible_groups_def)
  moreover have "p = 0" if "length gs = 0" using that by (simp add: p_def)
  ultimately show ?thesis using r gs sel
    by (auto simp: choose_compaction_decision_def Let_def simp flip: gs_def p_def r_def)
qed

text \<open>The groups before the run are protected, those of the run are not, and the run ends at the floor or at a protected group.\<close>

definition first_open_run :: "semantic_group list \<Rightarrow> nat \<Rightarrow> nat \<Rightarrow> bool" where
  "first_open_run gs s e \<longleftrightarrow> s \<le> e \<and> e < length gs \<and> (\<forall>i < s. sg_protected (gs ! i))
     \<and> (\<forall>i. s \<le> i \<and> i \<le> e \<longrightarrow> \<not> sg_protected (gs ! i)) \<and> (e + 1 < length gs \<longrightarrow> sg_protected (gs ! (e + 1)))"

lemma takeWhile_run:
  fixes gs :: "semantic_group list"
  defines "p \<equiv> length (takeWhile sg_protected gs)"
  defines "r \<equiv> length (takeWhile (\<lambda>g. \<not> sg_protected g) (drop p gs))"
  assumes "p \<noteq> length gs"
  shows "first_open_run gs p (p + r - 1)"
proof -
  have r: "0 < r" using run_nonempty [of gs] assms by simp
  have bound: "p + r \<le> length gs"
    using length_takeWhile_le [of "\<lambda>g. \<not> sg_protected g" "drop p gs"] length_takeWhile_le [of sg_protected gs]
    by (simp add: p_def r_def)
  have "sg_protected (gs ! i)" if "i < p" for i
    using that nth_mem [of i "takeWhile sg_protected gs"] set_takeWhileD [of "gs ! i" sg_protected gs]
    by (simp add: p_def takeWhile_nth)
  moreover have "\<not> sg_protected (gs ! i)" if "p \<le> i" "i \<le> p + r - 1" for i
  proof -
    have i: "i - p < r" using that r by simp
    then have "takeWhile (\<lambda>g. \<not> sg_protected g) (drop p gs) ! (i - p) = gs ! i"
      using takeWhile_nth [of "i - p" "\<lambda>g. \<not> sg_protected g" "drop p gs"] that bound by (simp add: r_def)
    then show ?thesis using i nth_mem [of "i - p" "takeWhile (\<lambda>g. \<not> sg_protected g) (drop p gs)"] set_takeWhileD
      by (metis r_def)
  qed
  moreover have "sg_protected (gs ! (p + r))" if "p + r < length gs"
    using nth_length_takeWhile [of "\<lambda>g. \<not> sg_protected g" "drop p gs"] that by (simp add: r_def)
  moreover have "p \<le> p + r - 1" "p + r - 1 < length gs" "p + r - 1 + 1 = p + r" using r bound by arith+
  ultimately show ?thesis unfolding first_open_run_def by metis
qed

lemma first_open_run_unique:
  assumes a: "first_open_run gs s e" and b: "first_open_run gs s' e'"
  shows "s = s' \<and> e = e'"
proof -
  have le: "s' \<le> s \<and> (s = s' \<longrightarrow> e' \<le> e)" if "first_open_run gs s e" "first_open_run gs s' e'" for s e s' e'
  proof -
    have "s' \<le> s"
    proof (rule ccontr)
      assume "\<not> s' \<le> s"
      then have "sg_protected (gs ! s)" using that(2) by (simp add: first_open_run_def)
      then show False using that(1) by (simp add: first_open_run_def)
    qed
    moreover have "e' \<le> e" if "s = s'"
    proof (rule ccontr)
      assume "\<not> e' \<le> e"
      then have "sg_protected (gs ! (e + 1))" "\<not> sg_protected (gs ! (e + 1))"
        using \<open>first_open_run gs s e\<close> \<open>first_open_run gs s' e'\<close> that by (auto simp: first_open_run_def)
      then show False by simp
    qed
    ultimately show ?thesis by simp
  qed
  show ?thesis using le [OF a b] le [OF b a] by auto
qed

lemma choose_iff:
  "choose_compaction_decision groups trigger policy = Some d \<longleftrightarrow>
     (forced_trigger trigger \<or> trigger = ConversationReview \<or> cp_max_groups_before_compaction policy < length groups)
     \<and> (\<exists>s e. first_open_run (eligible_groups groups policy) s e \<and> d = decision_for_range groups trigger s e)"
proof -
  define gs where "gs = eligible_groups groups policy"
  define p where "p = length (takeWhile sg_protected gs)"
  define r where "r = length (takeWhile (\<lambda>g. \<not> sg_protected g) (drop p gs))"
  have run: "p \<noteq> length gs \<Longrightarrow> first_open_run gs p (p + r - 1)" using takeWhile_run [of gs] by (simp add: p_def r_def)
  have none: "\<not> first_open_run gs s e" if "p = length gs" for s e
  proof -
    have "takeWhile sg_protected gs = take p gs" unfolding p_def by (rule takeWhile_eq_take)
    then have "\<forall>g \<in> set gs. sg_protected g" using that by (simp add: takeWhile_eq_all_conv)
    then show ?thesis by (auto simp: first_open_run_def)
  qed
  have eq: "choose_compaction_decision groups trigger policy = (if p = length gs \<or> \<not> forced_trigger trigger \<and> trigger \<noteq> ConversationReview
              \<and> length groups \<le> cp_max_groups_before_compaction policy then None
         else Some (decision_for_range groups trigger p (p + r - 1)))"
    by (simp add: choose_run Let_def gs_def p_def r_def)
  show ?thesis
  proof (cases "p = length gs")
    case True
    then show ?thesis by (simp add: eq none flip: gs_def)
  next
    case False
    have "(\<exists>s e. first_open_run gs s e \<and> d = decision_for_range groups trigger s e)
        \<longleftrightarrow> d = decision_for_range groups trigger p (p + r - 1)"
      using first_open_run_unique [OF run [OF False]] run [OF False] by blast
    then show ?thesis using False unfolding eq by (auto simp flip: gs_def)
  qed
qed

subsection \<open>Sequence numbers\<close>

definition row_seq :: "transcript_grouping_row \<Rightarrow> int" where
  "row_seq r = unwrap_or (tg_sequence_no r) 0"

text \<open>Rows as the loader yields them: distinct ids, increasing sequence numbers.\<close>

definition keyed_rows :: "transcript_grouping_row list \<Rightarrow> bool" where
  "keyed_rows rows \<longleftrightarrow> (\<forall>r \<in> set rows. tg_message_id r \<noteq> None \<and> tg_sequence_no r \<noteq> None)
     \<and> distinct (map tg_message_id rows) \<and> sorted_wrt (\<lambda>a b. row_seq a < row_seq b) rows"

lemma keyed_filter: "keyed_rows rows \<Longrightarrow> keyed_rows (filter P rows)"
  by (auto simp: keyed_rows_def distinct_map_filter sorted_wrt_filter)

lemma keyed_uncompacted: "keyed_rows rows \<Longrightarrow> keyed_rows (uncompacted_rows c rows)"
  by (simp add: uncompacted_rows_def keyed_filter split: option.split)

lemma sorted_wrt_sort_key:
  assumes "distinct (map f xs)"
  shows "sorted_wrt (\<lambda>a b. f a < f b) (sort_key (f :: 'a \<Rightarrow> 'b::linorder) xs)"
proof -
  have "distinct (map f (sort_key f xs))" using assms by (metis distinct_map distinct_sort set_sort)
  then have "sorted_wrt (<) (map f (sort_key f xs))" by (simp add: strict_sorted_iff)
  then show ?thesis by (simp add: sorted_wrt_map)
qed

lemma load_keyed:
  assumes ok: "conversation_schema_ok db" and us: "inj us"
  shows "keyed_rows (load_transcript_grouping_rows us bear conversation db)"
proof -
  let ?ms = "filter (\<lambda>m. Some (cmr_conversation_id m) = resolve_conversation_uuid bear conversation db \<and> transcript_visible m)
       (cvt_messages db)"
  have keys: "distinct (map cmr_id (cvt_messages db))" "distinct (map (\<lambda>m. (cmr_conversation_id m, cmr_sequence_no m)) (cvt_messages db))"
    using ok by (auto simp: conversation_schema_ok_def messages_ok_def)
  have "distinct (map (\<lambda>m. (cmr_conversation_id m, cmr_sequence_no m)) ?ms)" using keys(2) by (rule distinct_map_filter)
  moreover have "cmr_conversation_id x = cmr_conversation_id y" if "x \<in> set ?ms" "y \<in> set ?ms" for x y
  proof -
    have "Some (cmr_conversation_id x) = resolve_conversation_uuid bear conversation db"
      "Some (cmr_conversation_id y) = resolve_conversation_uuid bear conversation db" using that by auto
    then show ?thesis by (metis option.inject)
  qed
  ultimately have seqs: "distinct (map cmr_sequence_no ?ms)" unfolding distinct_map inj_on_def by blast
  have "distinct (map cmr_id (sort_key cmr_sequence_no ?ms))"
    using distinct_map_filter [OF keys(1)] by (metis (no_types, lifting) distinct_map distinct_sort set_sort)
  then have "distinct (map (\<lambda>m. Some (us (cmr_id m))) (sort_key cmr_sequence_no ?ms))"
    using us by (auto simp: distinct_map inj_on_def inj_def)
  then show ?thesis using sorted_wrt_sort_key [OF seqs]
    by (simp add: keyed_rows_def load_transcript_grouping_rows_def transcript_grouping_rows_from_history_def
        transcript_history_def sorted_wrt_map row_seq_def comp_def)
qed

lemma sequence_of_row:
  assumes "keyed_rows rows" and "r \<in> set rows"
  shows "message_sequence rows (row_identity strict r) = Some (row_seq r)"
proof -
  obtain i where i: "tg_message_id r = Some i" using assms by (auto simp: keyed_rows_def)
  have "List.find (\<lambda>x. tg_message_id x = Some i) rows = Some r"
    using assms i by (intro find_unique) (auto simp: keyed_rows_def distinct_map inj_on_def)
  then show ?thesis using i assms by (auto simp: message_sequence_def row_identity_def row_seq_def keyed_rows_def)
qed

lemma concat_sorted:
  assumes "sorted_wrt R (concat xss)" and "i < j" and "j < length xss" and "x \<in> set (xss ! i)" and "y \<in> set (xss ! j)"
  shows "R x y"
  using assms
proof (induction xss arbitrary: i j)
  case (Cons xs xss)
  show ?case
  proof (cases i)
    case 0
    then have "xss ! (j - 1) \<in> set xss" "y \<in> set (xss ! (j - 1))" using Cons.prems by (auto simp: nth_Cons')
    then have "y \<in> set (concat xss)" by auto
    moreover have "\<forall>a \<in> set xs. \<forall>b \<in> set (concat xss). R a b" using Cons.prems(1) by (simp add: sorted_wrt_append)
    moreover have "x \<in> set xs" using Cons.prems 0 by simp
    ultimately show ?thesis by blast
  next
    case (Suc k)
    then show ?thesis using Cons.prems Cons.IH [of k "j - 1"] by (auto simp: sorted_wrt_append nth_Cons')
  qed
qed simp

lemma sorted_hd_last:
  assumes "sorted_wrt (\<lambda>a b. f a < (f b :: int)) xs" and "x \<in> set xs"
  shows "f (hd xs) \<le> f x \<and> f x \<le> f (last xs)"
proof
  show "f (hd xs) \<le> f x" using assms by (cases xs) auto
  show "f x \<le> f (last xs)" using assms by (induction xs rule: rev_induct) (auto simp: sorted_wrt_append)
qed

lemma seg_facts:
  assumes "i < length (semantic_groups_from_conversation_messages strict rows)"
  shows "i < length (group_rows strict rows)"
    "describes strict (semantic_groups_from_conversation_messages strict rows ! i) (group_rows strict rows ! i)"
    "set (group_rows strict rows ! i) \<subseteq> set rows"
proof -
  note all = group_rows_describe [of strict rows]
  show i: "i < length (group_rows strict rows)" using all assms list_all2_lengthD by fastforce
  show "describes strict (semantic_groups_from_conversation_messages strict rows ! i) (group_rows strict rows ! i)"
    using all assms by (rule list_all2_nthD)
  have "set (concat (group_rows strict rows)) \<subseteq> set rows" by (auto simp: group_rows_concat)
  then show "set (group_rows strict rows ! i) \<subseteq> set rows" using i by fastforce
qed

lemma segs_sorted:
  assumes "keyed_rows rows"
  shows "sorted_wrt (\<lambda>a b. row_seq a < row_seq b) (concat (group_rows strict rows))"
  using assms by (auto simp: group_rows_concat keyed_rows_def sorted_wrt_filter)

lemma seg_sorted:
  assumes "keyed_rows rows" and "i < length (group_rows strict rows)"
  shows "sorted_wrt (\<lambda>a b. row_seq a < row_seq b) (group_rows strict rows ! i)"
proof -
  have "concat (group_rows strict rows) = concat (take i (group_rows strict rows)) @ group_rows strict rows ! i
      @ concat (drop (Suc i) (group_rows strict rows))"
    using id_take_nth_drop [OF assms(2)] by (metis concat.simps(2) concat_append)
  then show ?thesis using segs_sorted [OF assms(1), of strict] by (simp add: sorted_wrt_append)
qed

text \<open>A row of the transcript lies before, inside or behind the span of a range of groups, as its group does.\<close>

definition spans :: "bool \<Rightarrow> transcript_grouping_row list \<Rightarrow> compaction_decision \<Rightarrow> int \<Rightarrow> int \<Rightarrow> bool" where
  "spans strict rows d a b \<longleftrightarrow>
     (\<forall>i r. i < length (semantic_groups_from_conversation_messages strict rows) \<and> r \<in> set (group_rows strict rows ! i) \<longrightarrow>
       (i < cd_selected_group_start d \<longrightarrow> row_seq r < a)
       \<and> (cd_selected_group_start d \<le> i \<and> i \<le> cd_selected_group_end d \<longrightarrow> a \<le> row_seq r \<and> row_seq r \<le> b)
       \<and> (cd_selected_group_end d < i \<longrightarrow> b < row_seq r))"

lemma spansD:
  assumes "spans strict rows d a b" "i < length (semantic_groups_from_conversation_messages strict rows)" "r \<in> set (group_rows strict rows ! i)"
  shows "i < cd_selected_group_start d \<Longrightarrow> row_seq r < a"
    "cd_selected_group_start d \<le> i \<Longrightarrow> i \<le> cd_selected_group_end d \<Longrightarrow> a \<le> row_seq r \<and> row_seq r \<le> b"
    "cd_selected_group_end d < i \<Longrightarrow> b < row_seq r"
  using assms by (auto simp: spans_def)

lemma span_of_range:
  assumes keyed: "keyed_rows rows" and groups: "groups = semantic_groups_from_conversation_messages strict rows"
    and range: "cd_selected_group_start d \<le> cd_selected_group_end d" "cd_selected_group_end d < length groups"
  shows "\<exists>a b. sequence_span_for_group_range rows groups d = Inr (a, b) \<and> a \<le> b
    \<and> spans strict rows d a b"
proof -
  let ?s = "cd_selected_group_start d" and ?e = "cd_selected_group_end d" and ?segs = "group_rows strict rows"
  have ls: "?s < length groups" using range by simp
  note S = seg_facts [OF ls [unfolded groups]] and E = seg_facts [OF range(2) [unfolded groups]]
  have first: "hd (?segs ! ?s) \<in> set (?segs ! ?s)" and final: "last (?segs ! ?e) \<in> set (?segs ! ?e)"
    using S(2) E(2) by (auto simp: describes_def)
  let ?a = "row_seq (hd (?segs ! ?s))" and ?b = "row_seq (last (?segs ! ?e))"
  have span: "sequence_span_for_group_range rows groups d = Inr (?a, ?b)"
    using ls range S(2) E(2) sequence_of_row [OF keyed] first final S(3) E(3)
    by (auto simp: sequence_span_for_group_range_def Let_def describes_def groups subset_iff)
  have before: "row_seq r < row_seq r'" if "i < j" "j < length groups" "r \<in> set (?segs ! i)" "r' \<in> set (?segs ! j)" for i j r r'
    using concat_sorted [OF segs_sorted [OF keyed, of strict]] that seg_facts(1) [of j strict rows] by (simp add: groups)
  have inside: "row_seq (hd (?segs ! i)) \<le> row_seq r \<and> row_seq r \<le> row_seq (last (?segs ! i))"
    if "i < length groups" "r \<in> set (?segs ! i)" for i r
    using sorted_hd_last [OF seg_sorted [OF keyed]] that seg_facts(1) [of i strict rows] by (simp add: groups)
  have low: "?a \<le> row_seq r" if "?s \<le> i" "i < length groups" "r \<in> set (?segs ! i)" for i r
    using that inside [of i r] before [of ?s i "hd (?segs ! ?s)" r] first by (cases "i = ?s") auto
  have high: "row_seq r \<le> ?b" if "i \<le> ?e" "r \<in> set (?segs ! i)" for i r
    using that inside [of i r] before [of i ?e r "last (?segs ! ?e)"] final range by (cases "i = ?e") auto
  have "?a \<le> ?b" using low [of ?e "last (?segs ! ?e)"] final range by simp
  moreover have "row_seq r < ?a" if "i < ?s" "r \<in> set (?segs ! i)" for i r
    using before [OF that(1) ls that(2) first] .
  moreover have "?b < row_seq r" if "?e < i" "i < length groups" "r \<in> set (?segs ! i)" for i r
    using before [OF that(1,2) final that(3)] .
  ultimately have "spans strict rows d ?a ?b" using low high unfolding spans_def groups [symmetric] by blast
  then show ?thesis using span \<open>?a \<le> ?b\<close> by blast
qed

lemma token_pressure_none:
  "choose_compaction_decision groups trigger policy = None \<Longrightarrow> choose_compaction_decision groups TokenPressure policy = None"
proof (rule ccontr)
  assume none: "choose_compaction_decision groups trigger policy = None" and "choose_compaction_decision groups TokenPressure policy \<noteq> None"
  then obtain s e where "cp_max_groups_before_compaction policy < length groups" "first_open_run (eligible_groups groups policy) s e"
    using choose_iff [of groups TokenPressure policy] by (auto simp: forced_trigger_def)
  then have "choose_compaction_decision groups trigger policy = Some (decision_for_range groups trigger s e)"
    unfolding choose_iff by blast
  then show False using none by simp
qed

text \<open>
  The fallback of an evaluation that found nothing to compact although the transcript is longer
  than the character limit of the policy: the second attempt, with the token-pressure trigger, finds
  nothing either, so the limit has no effect on any evaluation.
\<close>

theorem token_pressure_changes_nothing:
  "evaluate_compaction mode trigger policy rows groups = choose_compaction_decision groups trigger policy"
  by (auto simp: evaluate_compaction_def Let_def dest: token_pressure_none)

subsection \<open>Rows and the cutoff\<close>

lemma group_rows_small: "seg \<in> set (group_rows strict rows) \<Longrightarrow> length seg \<le> 2"
  by (induction strict rows rule: group_rows.induct) (auto split: if_splits)

lemma rows_after_iff: "r \<in> set (rows_after_seq (Some b) rows) \<longleftrightarrow> r \<in> set rows \<and> b < row_seq r"
  by (auto simp: rows_after_seq_def row_seq_def)

lemma decision_range:
  assumes "choose_compaction_decision groups trigger policy = Some d"
  shows "cd_selected_group_start d \<le> cd_selected_group_end d" "cd_selected_group_end d < length groups"
    "cd_selected_group_end d + cp_protected_recent_group_count policy < length groups"
    "i < cd_selected_group_start d \<Longrightarrow> sg_protected (groups ! i)"
  using assms unfolding choose_iff by (auto simp: first_open_run_def eligible_groups_def decision_for_range_def)

lemma selected_iff:
  assumes "cd_selected_group_start d \<le> cd_selected_group_end d" "cd_selected_group_end d < length groups"
  shows "g \<in> set (selected_groups groups d) \<longleftrightarrow>
    (\<exists>i. cd_selected_group_start d \<le> i \<and> i \<le> cd_selected_group_end d \<and> g = groups ! i)"
proof -
  let ?s = "cd_selected_group_start d" and ?e = "cd_selected_group_end d"
  have "selected_groups groups d = map (\<lambda>i. groups ! i) [?s..<Suc ?e]"
    using assms by (intro nth_equalityI) (auto simp: selected_groups_def simp del: upt_Suc)
  then show ?thesis by (auto simp: image_iff Bex_def less_Suc_eq_le)
qed

lemma identity_of_row: "keyed_rows rows \<Longrightarrow> r \<in> set rows \<Longrightarrow> row_identity strict r = tg_message_id r \<and> tg_message_id r \<noteq> None"
  by (auto simp: keyed_rows_def row_identity_def)

lemma same_id_same_row: "keyed_rows rows \<Longrightarrow> r \<in> set rows \<Longrightarrow> r' \<in> set rows \<Longrightarrow> tg_message_id r = tg_message_id r' \<Longrightarrow> r = r'"
  by (auto simp: keyed_rows_def distinct_map inj_on_def)

lemma compacted_ids_iff: "i \<in> set (compacted_ids gs) \<longleftrightarrow> (\<exists>g \<in> set gs. Some i \<in> {sg_start_message_id g, sg_end_message_id g})"
proof -
  have "i \<in> set (List.map_filter f xs) \<longleftrightarrow> (\<exists>x \<in> set xs. Some i = f x)" for f :: "semantic_group \<Rightarrow> string option" and xs
    by (induction xs) (auto simp: List.map_filter_def)
  then show ?thesis by (auto simp: compacted_ids_def)
qed

text \<open>A row is summarised exactly when its group is selected.\<close>

lemma seg_ends:
  assumes keyed: "keyed_rows rows" and j: "j < length (semantic_groups_from_conversation_messages strict rows)"
  shows "set (group_rows strict rows ! j) = {hd (group_rows strict rows ! j), last (group_rows strict rows ! j)}"
    "sg_start_message_id (semantic_groups_from_conversation_messages strict rows ! j) = tg_message_id (hd (group_rows strict rows ! j))"
    "sg_end_message_id (semantic_groups_from_conversation_messages strict rows ! j) = tg_message_id (last (group_rows strict rows ! j))"
    "hd (group_rows strict rows ! j) \<in> set rows" "last (group_rows strict rows ! j) \<in> set rows"
proof -
  note F = seg_facts [OF j]
  let ?seg = "group_rows strict rows ! j"
  have ne: "?seg \<noteq> []" using F(2) by (simp add: describes_def)
  have "length ?seg \<le> 2" using group_rows_small [OF nth_mem [OF F(1)]] .
  then have "\<exists>x y. ?seg = [x] \<or> ?seg = [x, y]" using ne
    by (cases ?seg; cases "tl ?seg") auto
  then show "set ?seg = {hd ?seg, last ?seg}" by auto
  show h: "hd ?seg \<in> set rows" and l: "last ?seg \<in> set rows" using F(3) hd_in_set [OF ne] last_in_set [OF ne] by blast+
  show "sg_start_message_id (semantic_groups_from_conversation_messages strict rows ! j) = tg_message_id (hd ?seg)"
    using F(2) identity_of_row [OF keyed h] by (simp add: describes_def)
  show "sg_end_message_id (semantic_groups_from_conversation_messages strict rows ! j) = tg_message_id (last ?seg)"
    using F(2) identity_of_row [OF keyed l] by (simp add: describes_def)
qed

lemma compacted_row_iff:
  assumes keyed: "keyed_rows rows" and groups: "groups = semantic_groups_from_conversation_messages strict rows"
    and range: "cd_selected_group_start d \<le> cd_selected_group_end d" "cd_selected_group_end d < length groups"
    and r: "i < length groups" "r \<in> set (group_rows strict rows ! i)"
  shows "r \<in> set (rows_for_compacted_groups rows (selected_groups groups d))
    \<longleftrightarrow> cd_selected_group_start d \<le> i \<and> i \<le> cd_selected_group_end d"
proof -
  let ?segs = "group_rows strict rows"
  obtain a b where span: "spans strict rows d a b"
    using span_of_range [OF keyed groups range] by blast
  have rows: "r \<in> set rows" using seg_facts(3) [OF r(1) [unfolded groups]] r(2) by blast
  obtain k where k: "tg_message_id r = Some k" using identity_of_row [OF keyed rows] by auto
  have same: "tg_message_id r = tg_message_id x \<longleftrightarrow> r = x" if "x \<in> set rows" for x
    using same_id_same_row [OF keyed rows that] by blast
  have "r \<in> set (rows_for_compacted_groups rows (selected_groups groups d))
      \<longleftrightarrow> (\<exists>g \<in> set (selected_groups groups d). tg_message_id r \<in> {sg_start_message_id g, sg_end_message_id g})"
    using k rows by (simp add: rows_for_compacted_groups_def compacted_ids_iff)
  also have "\<dots> \<longleftrightarrow> (\<exists>j. cd_selected_group_start d \<le> j \<and> j \<le> cd_selected_group_end d \<and> r \<in> set (?segs ! j))"
  proof -
    have "tg_message_id r \<in> {sg_start_message_id (groups ! j), sg_end_message_id (groups ! j)} \<longleftrightarrow> r \<in> set (?segs ! j)"
      if "j \<le> cd_selected_group_end d" for j
    proof -
      have "j < length (semantic_groups_from_conversation_messages strict rows)" using that range(2) groups by simp
      note E = seg_ends [OF keyed this]
      show ?thesis unfolding groups E(1,2,3) using same [OF E(4)] same [OF E(5)] by simp
    qed
    note ids = this
    show ?thesis
    proof
      assume "\<exists>g \<in> set (selected_groups groups d). tg_message_id r \<in> {sg_start_message_id g, sg_end_message_id g}"
      then obtain g where g: "g \<in> set (selected_groups groups d)" "tg_message_id r \<in> {sg_start_message_id g, sg_end_message_id g}" by blast
      obtain j where "cd_selected_group_start d \<le> j" "j \<le> cd_selected_group_end d" "g = groups ! j"
        using g(1) selected_iff [OF range] by blast
      then show "\<exists>j. cd_selected_group_start d \<le> j \<and> j \<le> cd_selected_group_end d \<and> r \<in> set (?segs ! j)"
        using ids [of j] g(2) by blast
    next
      assume "\<exists>j. cd_selected_group_start d \<le> j \<and> j \<le> cd_selected_group_end d \<and> r \<in> set (?segs ! j)"
      then obtain j where j: "cd_selected_group_start d \<le> j" "j \<le> cd_selected_group_end d" "r \<in> set (?segs ! j)" by blast
      then have "groups ! j \<in> set (selected_groups groups d)" using selected_iff [OF range] by blast
      then show "\<exists>g \<in> set (selected_groups groups d). tg_message_id r \<in> {sg_start_message_id g, sg_end_message_id g}"
        using ids [OF j(2)] j(3) by blast
    qed
  qed
  also have "\<dots> \<longleftrightarrow> cd_selected_group_start d \<le> i \<and> i \<le> cd_selected_group_end d"
  proof
    assume "\<exists>j. cd_selected_group_start d \<le> j \<and> j \<le> cd_selected_group_end d \<and> r \<in> set (?segs ! j)"
    then obtain j where j: "cd_selected_group_start d \<le> j" "j \<le> cd_selected_group_end d" "r \<in> set (?segs ! j)" by blast
    then have ab: "a \<le> row_seq r \<and> row_seq r \<le> b" using spansD(2) [OF span _ j(3) j(1,2)] range(2) groups by simp
    note R = spansD [OF span r(1) [unfolded groups] r(2)]
    show "cd_selected_group_start d \<le> i \<and> i \<le> cd_selected_group_end d" using R(1,3) ab by linarith
  qed (use r(2) in blast)
  finally show ?thesis .
qed

subsection \<open>Partition and selection\<close>

text \<open>
  The groups cover the counted rows of a transcript, each row in exactly one group and in order: a
  group names the first and the last of its rows and their number.
\<close>

theorem groups_partition_the_transcript:
  "\<exists>segs. concat segs = filter (row_counts_toward_grouping strict) rows
    \<and> list_all2 (describes strict) (semantic_groups_from_conversation_messages strict rows) segs"
  using group_rows_concat group_rows_describe by blast

text \<open>
  C20. When compaction is chosen and what is selected: under a forced trigger, a conversation review or
  more groups than the policy allows, the first maximal run of unprotected groups outside the recent
  floor.
\<close>

theorem compaction_decision_spec:
  "choose_compaction_decision groups trigger policy = Some d \<longleftrightarrow>
     (forced_trigger trigger \<or> trigger = ConversationReview \<or> cp_max_groups_before_compaction policy < length groups)
     \<and> (\<exists>s e. first_open_run (eligible_groups groups policy) s e \<and> d = decision_for_range groups trigger s e)"
  by (rule choose_iff)

end
