(* ===== verification/Compaction_Properties.thy ===== *)
theory Compaction_Properties
  imports Compaction_Selection
begin

section \<open>What compaction keeps\<close>

text \<open>
  Summaries; the cutoff of a decision; what a job stores and what it leaves alone. Two theorems show
  behaviours that the surrounding code does not intend.
\<close>

subsection \<open>Summaries\<close>

definition summary_extends :: "iterative_summary \<Rightarrow> iterative_summary \<Rightarrow> bool" where
  "summary_extends s t \<longleftrightarrow> prefix (is_active_user_goals s) (is_active_user_goals t)
     \<and> prefix (is_important_constraints s) (is_important_constraints t) \<and> prefix (is_decisions_made s) (is_decisions_made t)
     \<and> prefix (is_artifact_refs s) (is_artifact_refs t) \<and> prefix (is_workflow_state_refs s) (is_workflow_state_refs t)
     \<and> prefix (is_unresolved_followups s) (is_unresolved_followups t)"

definition summary_fields :: "iterative_summary \<Rightarrow> string list list" where
  "summary_fields s = [is_active_user_goals s, is_important_constraints s, is_decisions_made s, is_artifact_refs s,
     is_workflow_state_refs s, is_unresolved_followups s]"

definition summary_mentions :: "string \<Rightarrow> iterative_summary \<Rightarrow> bool" where
  "summary_mentions x s \<longleftrightarrow> (\<exists>f \<in> set (summary_fields s). x \<in> set f)"

lemma push_unique_prefix: "prefix vs (push_unique vs v)"
  by (simp add: push_unique_def)

lemma push_unique_distinct: "distinct vs \<Longrightarrow> distinct (push_unique vs v)"
  by (simp add: push_unique_def)

lemma push_unique_in: "v \<noteq> [] \<Longrightarrow> v \<in> set (push_unique vs v)"
  by (simp add: push_unique_def)

lemma fold_push_set: "set (foldl push_unique vs xs) = set vs \<union> {x \<in> set xs. x \<noteq> []}"
  by (induction xs arbitrary: vs) (auto simp: push_unique_def)

lemma extends_refl [simp]: "summary_extends s s"
  by (simp add: summary_extends_def)

lemma extends_trans: "summary_extends s t \<Longrightarrow> summary_extends t u \<Longrightarrow> summary_extends s u"
  by (auto simp: summary_extends_def intro: prefix_order.order_trans)

lemma extends_mentions: "summary_extends s t \<Longrightarrow> summary_mentions x s \<Longrightarrow> summary_mentions x t"
  by (auto simp: summary_extends_def summary_mentions_def summary_fields_def dest: set_mono_prefix)

definition summary_distinct :: "iterative_summary \<Rightarrow> bool" where
  "summary_distinct s \<longleftrightarrow> (\<forall>f \<in> set (summary_fields s). distinct f)"

lemma label_extends: "summary_extends s (push_group_label k l s) \<and> (summary_distinct s \<longrightarrow> summary_distinct (push_group_label k l s))"
  by (cases k) (simp_all add: summary_extends_def summary_distinct_def summary_fields_def push_unique_prefix push_unique_distinct)

lemma merge_group_extends: "summary_extends s (merge_group s g) \<and> (summary_distinct s \<longrightarrow> summary_distinct (merge_group s g))"
proof -
  have "summary_extends t (t\<lparr>is_important_constraints := push_unique (is_important_constraints t) v\<rparr>)
    \<and> (summary_distinct t \<longrightarrow> summary_distinct (t\<lparr>is_important_constraints := push_unique (is_important_constraints t) v\<rparr>))" for t v
    by (simp add: summary_extends_def summary_distinct_def summary_fields_def push_unique_prefix push_unique_distinct)
  then show ?thesis using label_extends [of s "sg_kind g" "group_label g"] extends_trans
    by (simp add: merge_group_def Let_def) blast
qed

lemma enrich_row_extends: "summary_extends s (enrich_row s r) \<and> (summary_distinct s \<longrightarrow> summary_distinct (enrich_row s r))"
  by (simp add: enrich_row_def Let_def summary_extends_def summary_distinct_def summary_fields_def push_unique_prefix push_unique_distinct)

lemma enrich_row_mentions: "compact_row_snippet r \<noteq> [] \<Longrightarrow> summary_mentions (compact_row_snippet r) (enrich_row s r)"
  by (simp add: enrich_row_def Let_def summary_mentions_def summary_fields_def push_unique_in)

lemma fold_extends:
  assumes "\<And>s x. summary_extends s (f s x) \<and> (summary_distinct s \<longrightarrow> summary_distinct (f s x))"
  shows "summary_extends s (foldl f s xs) \<and> (summary_distinct s \<longrightarrow> summary_distinct (foldl f s xs))"
  by (induction xs arbitrary: s) (use assms extends_trans in \<open>auto, blast\<close>)

lemma deterministic_extends:
  "summary_extends (unwrap_or prior empty_summary) (deterministic_summary prior groups rows)
   \<and> (summary_distinct (unwrap_or prior empty_summary) \<longrightarrow> summary_distinct (deterministic_summary prior groups rows))"
  using fold_extends [of merge_group, OF merge_group_extends, of "unwrap_or prior empty_summary" groups]
    fold_extends [of enrich_row, OF enrich_row_extends, of "merge_iterative_summary prior groups" "rows_for_compacted_groups rows groups"]
    extends_trans
  by (auto simp: deterministic_summary_def enrich_summary_from_rows_def merge_iterative_summary_def)

lemma fold_enrich_mentions:
  "r \<in> set rs \<Longrightarrow> compact_row_snippet r \<noteq> [] \<Longrightarrow> summary_mentions (compact_row_snippet r) (foldl enrich_row s rs)"
proof (induction rs arbitrary: s)
  case (Cons x rs)
  then show ?case
    using enrich_row_mentions [of x s] fold_extends [of enrich_row, OF enrich_row_extends, of "enrich_row s x" rs] extends_mentions
    by auto
qed simp

lemma validated_mentions:
  "summary_mentions x (validate_generated_summary g s) \<longleftrightarrow> summary_mentions x g \<or> x \<noteq> [] \<and> summary_mentions x s"
  by (auto simp: validate_generated_summary_def summary_mentions_def summary_fields_def ensure_fallback_items_def fold_push_set)

lemma string_list_roundtrip [simp]: "string_list_field (Some (json_strings xs)) = Some xs"
proof -
  have "those (map as_str_json (map JStr xs)) = Some xs" by (induction xs) (auto simp: as_str_json_def)
  then show ?thesis by (simp add: string_list_field_def json_strings_def)
qed

lemma decode_encode: "decode_summary (encode_summary t) = Some t"
  by (simp add: decode_summary_def encode_summary_def struct_members_def)

text \<open>
  A new summary extends the prior one field by field, without repeating an item, and holds the
  snippet of every row that it replaces; a summary written by the model is accepted only with every
  item of the deterministic one; a stored summary is read back as it was written.
\<close>

theorem summary_keeps_items:
  "summary_extends (unwrap_or prior empty_summary) (summarize_compacted_groups prior groups rows d)
   \<and> (summary_distinct (unwrap_or prior empty_summary) \<longrightarrow> summary_distinct (summarize_compacted_groups prior groups rows d))
   \<and> (\<forall>r \<in> set (rows_for_compacted_groups rows groups). compact_row_snippet r \<noteq> [] \<longrightarrow>
        summary_mentions (compact_row_snippet r) (summarize_compacted_groups prior groups rows d))
   \<and> (\<forall>s. llm_summarize show_pretty generate prior groups rows d = Inr s \<longrightarrow>
        (\<forall>x. x \<noteq> [] \<and> summary_mentions x (summarize_compacted_groups prior groups rows d) \<longrightarrow> summary_mentions x s))
   \<and> decode_summary (encode_summary t) = Some t"
proof (intro conjI)
  show "decode_summary (encode_summary t) = Some t" by (rule decode_encode)
  show "\<forall>r \<in> set (rows_for_compacted_groups rows groups). compact_row_snippet r \<noteq> [] \<longrightarrow>
        summary_mentions (compact_row_snippet r) (summarize_compacted_groups prior groups rows d)"
    using fold_enrich_mentions
    by (auto simp: summarize_compacted_groups_def deterministic_summary_def enrich_summary_from_rows_def)
  show "\<forall>s. llm_summarize show_pretty generate prior groups rows d = Inr s \<longrightarrow>
        (\<forall>x. x \<noteq> [] \<and> summary_mentions x (summarize_compacted_groups prior groups rows d) \<longrightarrow> summary_mentions x s)"
    by (auto simp: llm_summarize_def Let_def bindR_Inr_iff validated_mentions summarize_compacted_groups_def)
qed (use deterministic_extends in \<open>auto simp: summarize_compacted_groups_def\<close>)

lemma cutoff_exact:
  assumes ok: "conversation_schema_ok db" and us: "inj us"
    and rows: "rows = uncompacted_rows c (load_transcript_grouping_rows us bear conversation db)"
    and groups: "groups = semantic_groups_from_conversation_messages strict rows"
    and d: "choose_compaction_decision groups trigger policy = Some d"
  shows "\<exists>a b. sequence_span_for_group_range rows groups d = Inr (a, b) \<and> a \<le> b
    \<and> (\<forall>i r. i < length groups \<and> r \<in> set (group_rows strict rows ! i) \<longrightarrow>
         (r \<in> set (rows_after_seq (Some b) rows) \<longleftrightarrow> cd_selected_group_end d < i)
         \<and> (r \<in> set (rows_for_compacted_groups rows (selected_groups groups d))
              \<longleftrightarrow> cd_selected_group_start d \<le> i \<and> i \<le> cd_selected_group_end d))"
proof -
  have keyed: "keyed_rows rows" unfolding rows using load_keyed [OF ok us] by (rule keyed_uncompacted)
  note range = decision_range(1,2) [OF d]
  obtain a b where span: "sequence_span_for_group_range rows groups d = Inr (a, b)" "a \<le> b" "spans strict rows d a b"
    using span_of_range [OF keyed groups range] by blast
  have "(r \<in> set (rows_after_seq (Some b) rows) \<longleftrightarrow> cd_selected_group_end d < i)
      \<and> (r \<in> set (rows_for_compacted_groups rows (selected_groups groups d))
           \<longleftrightarrow> cd_selected_group_start d \<le> i \<and> i \<le> cd_selected_group_end d)"
    if i: "i < length groups" and r: "r \<in> set (group_rows strict rows ! i)" for i r
  proof -
    have "r \<in> set rows" using seg_facts(3) [OF i [unfolded groups]] r by blast
    moreover have "b < row_seq r \<longleftrightarrow> cd_selected_group_end d < i"
      using spansD [OF span(3) i [unfolded groups] r] span(2) range(1) by linarith
    ultimately show ?thesis using compacted_row_iff [OF keyed groups range i r] rows_after_iff by simp
  qed
  then show ?thesis using span(1,2) by blast
qed

subsection \<open>The job\<close>

definition summary_artifact ::
    "uuid \<Rightarrow> timestamp \<Rightarrow> uuid \<Rightarrow> compaction_decision \<Rightarrow> compaction_policy \<Rightarrow> compaction_trigger \<Rightarrow> int \<Rightarrow> int \<Rightarrow> iterative_summary
     \<Rightarrow> compaction_artifact_row" where
  "summary_artifact fresh now c d policy trigger a b summary = \<lparr>caf_id = fresh, caf_conversation_id = c,
     caf_artifact_kind = ''iterative_summary'', caf_policy_version = cp_policy_version policy,
     caf_trigger = compaction_trigger_str trigger, caf_source_message_start_seq = a, caf_source_message_end_seq = b,
     caf_source_group_start = Some (as_i32 (cd_selected_group_start d)),
     caf_source_group_end = Some (as_i32 (cd_selected_group_end d)), caf_artifact_json = encode_summary summary,
     caf_superseded_by = None, caf_created_at = now\<rparr>"

definition supersede :: "uuid \<Rightarrow> compaction_artifact_row option \<Rightarrow> compaction_artifact_row list \<Rightarrow> compaction_artifact_row list" where
  "supersede fresh prior fs = (case prior of None \<Rightarrow> fs
     | Some p \<Rightarrow> update_where (\<lambda>f. caf_id f = caf_id p) (\<lambda>f. f\<lparr>caf_superseded_by := Some fresh\<rparr>) fs)"

lemma artifacts_ok_add:
  assumes "artifacts_ok fs" and "caf_id f \<notin> caf_id ` set fs" and "caf_artifact_kind f = ''iterative_summary''"
    and "is_json_object (caf_artifact_json f)" and "caf_source_message_start_seq f \<le> caf_source_message_end_seq f"
    and "caf_superseded_by f = None"
  shows "artifacts_ok (fs @ [f])"
  using assms by (auto simp: artifacts_ok_def)

lemma artifacts_ok_supersede:
  assumes "artifacts_ok fs" and "new \<in> caf_id ` set fs"
  shows "artifacts_ok (update_where g (\<lambda>f. f\<lparr>caf_superseded_by := Some new\<rparr>) fs)"
proof -
  have ids: "map caf_id (update_where g (\<lambda>f. f\<lparr>caf_superseded_by := Some new\<rparr>) fs) = map caf_id fs"
    by (simp add: map_update_where)
  then have "caf_id ` set (update_where g (\<lambda>f. f\<lparr>caf_superseded_by := Some new\<rparr>) fs) = caf_id ` set fs"
    by (metis set_map)
  note idset = this
  have "(caf_artifact_kind f' \<in> set [''iterative_summary'', ''semantic_window'', ''archive_summary'', ''migration_summary''])
      \<and> is_json_object (caf_artifact_json f') \<and> caf_source_message_start_seq f' \<le> caf_source_message_end_seq f'
      \<and> (\<forall>i \<in> set_option (caf_superseded_by f'). i \<in> caf_id ` set fs)"
    if "f' \<in> set (update_where g (\<lambda>f. f\<lparr>caf_superseded_by := Some new\<rparr>) fs)" for f'
  proof -
    obtain f where f: "f \<in> set fs" "f' = (if g f then f\<lparr>caf_superseded_by := Some new\<rparr> else f)"
      using \<open>f' \<in> _\<close> by (auto simp: set_update_where)
    then show ?thesis using assms unfolding artifacts_ok_def by (cases "g f") simp_all
  qed
  then show ?thesis using assms(1) unfolding artifacts_ok_def ids idset by blast
qed

lemma insert_artifact_spec:
  fixes now d policy trigger summary
  assumes ok: "conversation_schema_ok db" and c: "resolve_conversation_uuid bear conversation db = Some c"
    and fresh: "fresh \<notin> caf_id ` set (cvt_artifacts db)" and "a \<le> b"
  defines "f \<equiv> summary_artifact fresh now c d policy trigger a b summary"
  defines "db' \<equiv> db\<lparr>cvt_artifacts := supersede fresh (latest_live_summary c db) (cvt_artifacts db @ [f])\<rparr>"
  shows "insert_iterative_summary_artifact fresh now bear conversation d policy trigger a b summary db = (db', Inr fresh)"
    and "conversation_schema_ok db'"
proof -
  have conv: "c \<in> cvr_id ` set (cvt_conversations db)"
    using c by (auto simp: resolve_conversation_uuid_def find_Some_iff)
  have added: "artifacts_ok (cvt_artifacts db @ [f])" using ok fresh \<open>a \<le> b\<close>
    by (intro artifacts_ok_add) (auto simp: conversation_schema_ok_def f_def summary_artifact_def encode_summary_def)
  then have ok1: "conversation_schema_ok (db\<lparr>cvt_artifacts := cvt_artifacts db @ [f]\<rparr>)"
    using ok conv by (auto simp: conversation_schema_ok_def f_def summary_artifact_def)
  have "fresh \<in> caf_id ` set (cvt_artifacts db @ [f])" by (simp add: f_def summary_artifact_def)
  then have arts: "artifacts_ok (supersede fresh prior (cvt_artifacts db @ [f]))" for prior
    using added artifacts_ok_supersede by (auto simp: supersede_def split: option.split)
  have "map caf_conversation_id (supersede fresh prior (cvt_artifacts db @ [f])) = map caf_conversation_id (cvt_artifacts db @ [f])" for prior
    by (simp add: supersede_def map_update_where split: option.split)
  then have "caf_conversation_id ` set (supersede fresh prior (cvt_artifacts db @ [f])) = caf_conversation_id ` set (cvt_artifacts db @ [f])" for prior
    by (metis set_map)
  then show ok2: "conversation_schema_ok db'" using ok1 arts unfolding conversation_schema_ok_def db'_def by simp
  then show "insert_iterative_summary_artifact fresh now bear conversation d policy trigger a b summary db = (db', Inr fresh)"
    using c ok1
    by (cases "latest_live_summary c db")
      (simp_all add: insert_iterative_summary_artifact_def bindM_def queryM_def transactionM_def insert_artifact_row_def
        checked_writeM_def returnM_def supersede_artifact_def supersede_def db'_def f_def summary_artifact_def)
qed

lemma supersede_leaves_one:
  assumes fresh: "caf_id f \<notin> caf_id ` set (cvt_artifacts db)" and live: "live_summary c f"
    and one: "length (filter (live_summary c) (cvt_artifacts db)) \<le> 1"
  shows "filter (live_summary c) (supersede (caf_id f) (latest_live_summary c db) (cvt_artifacts db @ [f])) = [f]"
proof (cases "filter (live_summary c) (cvt_artifacts db)")
  case Nil
  then show ?thesis using live by (simp add: latest_live_summary_def latest_by_def supersede_def)
next
  case (Cons p rest)
  then have only: "filter (live_summary c) (cvt_artifacts db) = [p]" using one by simp
  have mem: "x \<in> set (cvt_artifacts db) \<and> live_summary c x \<longleftrightarrow> x = p" for x
    using arg_cong [OF only, of set] by auto
  then have p: "p \<in> set (cvt_artifacts db)" by blast
  have "x = p" if "x \<in> set (cvt_artifacts db)" "live_summary c x" for x
    using that mem by blast
  then have "\<not> live_summary c x" if "x \<in> set (cvt_artifacts db)" "caf_id x \<noteq> caf_id p" for x
    using that by blast
  then have "filter (live_summary c) (update_where (\<lambda>x. caf_id x = caf_id p) (\<lambda>x. x\<lparr>caf_superseded_by := Some (caf_id f)\<rparr>) (cvt_artifacts db)) = []"
    unfolding filter_empty_conv set_update_where by (auto simp: live_summary_def split: if_splits)
  moreover have "caf_id f \<noteq> caf_id p" using fresh p by auto
  moreover have "latest_live_summary c db = Some p" by (simp add: latest_live_summary_def latest_by_def only)
  ultimately show ?thesis using live by (simp add: supersede_def update_where_def)
qed

lemma checked_total:
  assumes "schema (f db)" and "schema db"
  shows "checked_writeM schema (\<lambda>db. (f db, ())) db = (f db, Inr ())"
  using assms by (simp add: checked_writeM_def)

lemma enqueue_logged:
  assumes "conversation_schema_ok db"
  shows "\<exists>rs. loggedM (enqueue_archive_harvest_for_bear fresh now bear trigger) db = (db\<lparr>cvt_reflections := rs\<rparr>, Inr ())
    \<and> conversation_schema_ok (db\<lparr>cvt_reflections := rs\<rparr>)"
proof -
  obtain out where out: "enqueue_archive_harvest_for_bear fresh now bear trigger db = out" by simp
  have "\<exists>rs. fst out = db\<lparr>cvt_reflections := rs\<rparr> \<and> conversation_schema_ok (db\<lparr>cvt_reflections := rs\<rparr>)"
  proof (cases "fst out = db")
    case True
    then show ?thesis using assms by (intro exI [of _ "cvt_reflections db"]) simp
  next
    case False
    then show ?thesis using out
      by (auto simp: enqueue_archive_harvest_for_bear_def enqueue_run_def checked_writeM_def split: if_splits)
  qed
  then show ?thesis using out by (auto simp: loggedM_def)
qed

lemma record_event_total:
  assumes "conversation_schema_ok db"
  shows "\<exists>es. record_runtime_compaction_event digest now e db = (db\<lparr>cvt_events := es\<rparr>, Inr ())
    \<and> conversation_schema_ok (db\<lparr>cvt_events := es\<rparr>)"
proof (cases "\<exists>r \<in> set (cvt_events db). cer_conversation_id r = ce_conversation_id e \<and> cer_event_hash r = digest (event_hash_payload e)")
  case True
  have "db = db\<lparr>cvt_events := cvt_events db\<rparr>" by simp
  then show ?thesis using True assms
    by (intro exI [of _ "cvt_events db"]) (simp add: record_runtime_compaction_event_def checked_writeM_def Let_def)
next
  case False
  let ?r = "\<lparr>cer_conversation_id = ce_conversation_id e,
       cer_trigger = compaction_trigger_str (ce_trigger e), cer_policy_version = ce_policy_version e,
       cer_status = compaction_event_status_str (ce_status e), cer_event_hash = digest (event_hash_payload e),
       cer_boundary = map_option boundary_json (ce_boundary e),
       cer_source_group_start = map_option as_i32 (ce_source_group_start e),
       cer_source_group_end = map_option as_i32 (ce_source_group_end e),
       cer_artifact = map_option artifact_ref_json (ce_artifact e), cer_diagnostic = ce_diagnostic e,
       cer_created_at = now\<rparr>"
  have "events_ok (cvt_events db @ [?r])"
    using False assms
    by (cases "ce_status e") (auto simp: conversation_schema_ok_def events_ok_def boundary_json_def artifact_ref_json_def image_iff)
  then have "conversation_schema_ok (db\<lparr>cvt_events := cvt_events db @ [?r]\<rparr>)"
    using assms by (simp add: conversation_schema_ok_def)
  moreover have "record_runtime_compaction_event digest now e db
      = checked_writeM conversation_schema_ok (\<lambda>db. (db\<lparr>cvt_events := cvt_events db @ [?r]\<rparr>, ())) db"
    by (simp only: record_runtime_compaction_event_def checked_writeM_def Let_def if_not_P [OF False])
  ultimately show ?thesis using assms checked_total [where schema = conversation_schema_ok and db = db and f = "\<lambda>db. db\<lparr>cvt_events := cvt_events db @ [?r]\<rparr>"]
    by (intro exI [of _ "cvt_events db @ [?r]"]) simp
qed

text \<open>What a successful active evaluation does.\<close>

lemma job_persists:
  fixes fresh_run now
  assumes ok: "conversation_schema_ok db" and us: "inj us"
    and mode: "compaction_mode_parse (cc_compaction_mode config) = ModeActive"
    and c: "resolve_conversation_uuid bear conversation db = Some c"
    and fresh: "fresh \<notin> caf_id ` set (cvt_artifacts db)"
    and prior: "load_latest_iterative_summary bear conversation db = (db, Inr prior)"
    and rows: "rows = uncompacted_rows (prior_cutoff_of (as_runtime_trigger trigger) prior) (load_transcript_grouping_rows us bear conversation db)"
    and groups: "groups = semantic_groups_from_conversation_messages strict rows"
    and d: "choose_compaction_decision groups (as_runtime_trigger trigger) (compaction_policy_for_profile profile) = Some d"
    and span: "sequence_span_for_group_range rows groups d = Inr (a, b)"
  defines "f \<equiv> summary_artifact fresh now c d (compaction_policy_for_profile profile) (as_runtime_trigger trigger) a b
      (summarize_compacted_groups (map_option crc_summary prior) (selected_groups groups d) rows d)"
  shows "\<exists>rs es st. run_compaction_job strict digest us fresh fresh_run now config bear conversation profile trigger db
      = (db\<lparr>cvt_artifacts := supersede fresh (latest_live_summary c db) (cvt_artifacts db @ [f]),
            cvt_reflections := rs, cvt_events := es\<rparr>, Inr (Some st))
    \<and> conversation_schema_ok (db\<lparr>cvt_artifacts := supersede fresh (latest_live_summary c db) (cvt_artifacts db @ [f]),
            cvt_reflections := rs, cvt_events := es\<rparr>)
    \<and> tcs_compacted_seq_cutoff st = Some b \<and> tcs_decision st = Some d"
proof -
  let ?policy = "compaction_policy_for_profile profile" and ?t = "as_runtime_trigger trigger"
  have "a \<le> b" using cutoff_exact [OF ok us rows groups d] span by auto
  let ?db1 = "db\<lparr>cvt_artifacts := supersede fresh (latest_live_summary c db) (cvt_artifacts db @ [f])\<rparr>"
  have ins: "insert_iterative_summary_artifact fresh now bear conversation d ?policy ?t a b
        (summarize_compacted_groups (map_option crc_summary prior) (selected_groups groups d) rows d) db = (?db1, Inr fresh)"
    and ok1: "conversation_schema_ok ?db1"
    using insert_artifact_spec [OF ok c fresh \<open>a \<le> b\<close>] by (simp_all add: f_def)
  obtain rs where enq: "loggedM (enqueue_archive_harvest_for_bear fresh_run now bear ''compaction_artifact_created'') ?db1
        = (?db1\<lparr>cvt_reflections := rs\<rparr>, Inr ())" and ok2: "conversation_schema_ok (?db1\<lparr>cvt_reflections := rs\<rparr>)"
    using enqueue_logged [OF ok1] by blast
  let ?e = "build_compaction_applied_event conversation d ?policy (artifact_ref_from_decision (artifact_label conversation d) d ?policy)"
  obtain es where ev: "record_runtime_compaction_event digest now ?e (?db1\<lparr>cvt_reflections := rs\<rparr>)
        = (?db1\<lparr>cvt_reflections := rs\<rparr>\<lparr>cvt_events := es\<rparr>, Inr ())"
    and ok3: "conversation_schema_ok (?db1\<lparr>cvt_reflections := rs\<rparr>\<lparr>cvt_events := es\<rparr>)"
    using record_event_total [OF ok2] by blast
  have eval: "evaluate_compaction ModeActive ?t ?policy rows groups = Some d"
    using d token_pressure_none by (simp add: evaluate_compaction_def Let_def)
  have persist: "persist_compaction fresh fresh_run now bear conversation ?policy ?t prior rows groups d db
      = (?db1\<lparr>cvt_reflections := rs\<rparr>, Inr (Some b, Some (render_compacted_context_block
          (summarize_compacted_groups (map_option crc_summary prior) (selected_groups groups d) rows d))))"
    using span ins enq by (simp add: persist_compaction_def Let_def bindM_def returnM_def)
  have "run_compaction_job strict digest us fresh fresh_run now config bear conversation profile trigger db
      = (?db1\<lparr>cvt_reflections := rs\<rparr>\<lparr>cvt_events := es\<rparr>, Inr (Some \<lparr>tcs_event = ?e, tcs_decision = Some d, tcs_policy = ?policy,
          tcs_groups = groups, tcs_compacted_seq_cutoff = Some b, tcs_compacted_context = Some (render_compacted_context_block
          (summarize_compacted_groups (map_option crc_summary prior) (selected_groups groups d) rows d))\<rparr>))"
    using mode prior eval persist ev
    by (simp add: run_compaction_job_def Let_def bindM_def queryM_def returnM_def should_persist_compaction_artifact_def
        settle_evaluation_def rows [symmetric] groups [symmetric])
  then show ?thesis using ok3 by (intro exI [of _ rs] exI [of _ es]) auto
qed

text \<open>A single live artifact is the one the next job loads.\<close>

lemma load_single_live:
  assumes "resolve_conversation_uuid bear conversation db = Some c"
    and "filter (live_summary c) (cvt_artifacts db) = [f]" and "caf_artifact_json f = encode_summary s"
  shows "load_latest_iterative_summary bear conversation db = (db, Inr (Some \<lparr>crc_artifact_id = caf_id f, crc_summary = s,
     crc_source_message_start_seq = caf_source_message_start_seq f, crc_source_message_end_seq = caf_source_message_end_seq f,
     crc_policy_version = caf_policy_version f\<rparr>))"
  using assms
  by (simp add: load_latest_iterative_summary_def withM_def returnM_def latest_live_summary_def latest_by_def decode_encode)

text \<open>The hypotheses of a job that finds something to compact.\<close>

definition job_input ::
    "bool \<Rightarrow> (uuid \<Rightarrow> string) \<Rightarrow> compaction_config \<Rightarrow> uuid \<Rightarrow> string \<Rightarrow> bear_stance \<Rightarrow> turn_compaction_trigger \<Rightarrow> uuid \<Rightarrow> conversation_db
     \<Rightarrow> uuid \<Rightarrow> compaction_artifact_record option \<Rightarrow> transcript_grouping_row list \<Rightarrow> semantic_group list \<Rightarrow> compaction_decision \<Rightarrow> bool" where
  "job_input strict us config bear conversation profile trigger fresh db c prior rows groups d \<longleftrightarrow>
     compaction_mode_parse (cc_compaction_mode config) = ModeActive
     \<and> resolve_conversation_uuid bear conversation db = Some c \<and> fresh \<notin> caf_id ` set (cvt_artifacts db)
     \<and> length (filter (live_summary c) (cvt_artifacts db)) \<le> 1
     \<and> load_latest_iterative_summary bear conversation db = (db, Inr prior)
     \<and> rows = uncompacted_rows (prior_cutoff_of (as_runtime_trigger trigger) prior) (load_transcript_grouping_rows us bear conversation db)
     \<and> groups = semantic_groups_from_conversation_messages strict rows
     \<and> choose_compaction_decision groups (as_runtime_trigger trigger) (compaction_policy_for_profile profile) = Some d"

lemma job_total:
  assumes ok: "conversation_schema_ok db" and us: "inj us"
    and inp: "job_input strict us config bear conversation profile trigger fresh db c prior rows groups d"
  shows "\<exists>a b db' st f. run_compaction_job strict digest us fresh fresh_run now config bear conversation profile trigger db
      = (db', Inr (Some st)) \<and> conversation_schema_ok db'
    \<and> cvt_conversations db' = cvt_conversations db \<and> cvt_messages db' = cvt_messages db
    \<and> filter (live_summary c) (cvt_artifacts db') = [f] \<and> caf_id f = fresh
    \<and> sequence_span_for_group_range rows groups d = Inr (a, b)
    \<and> tcs_compacted_seq_cutoff st = Some b \<and> tcs_decision st = Some d
    \<and> load_latest_iterative_summary bear conversation db' = (db', Inr (Some \<lparr>crc_artifact_id = fresh,
        crc_summary = summarize_compacted_groups (map_option crc_summary prior) (selected_groups groups d) rows d,
        crc_source_message_start_seq = a, crc_source_message_end_seq = b,
        crc_policy_version = cp_policy_version (compaction_policy_for_profile profile)\<rparr>))"
proof -
  note inp = inp [unfolded job_input_def]
  obtain a b where span: "sequence_span_for_group_range rows groups d = Inr (a, b)"
    using cutoff_exact [OF ok us, of rows _ bear conversation groups strict] inp by metis
  let ?f = "summary_artifact fresh now c d (compaction_policy_for_profile profile) (as_runtime_trigger trigger) a b
      (summarize_compacted_groups (map_option crc_summary prior) (selected_groups groups d) rows d)"
  obtain rs es st where run: "run_compaction_job strict digest us fresh fresh_run now config bear conversation profile trigger db
      = (db\<lparr>cvt_artifacts := supersede fresh (latest_live_summary c db) (cvt_artifacts db @ [?f]),
            cvt_reflections := rs, cvt_events := es\<rparr>, Inr (Some st))"
    and ok': "conversation_schema_ok (db\<lparr>cvt_artifacts := supersede fresh (latest_live_summary c db) (cvt_artifacts db @ [?f]),
            cvt_reflections := rs, cvt_events := es\<rparr>)"
    and st: "tcs_compacted_seq_cutoff st = Some b" "tcs_decision st = Some d"
    using job_persists [OF ok us, of config bear conversation c fresh prior rows trigger groups strict profile d a b digest fresh_run now]
      inp span by blast
  have one: "filter (live_summary c) (supersede fresh (latest_live_summary c db) (cvt_artifacts db @ [?f])) = [?f]"
    using supersede_leaves_one [of ?f db c] inp by (simp add: summary_artifact_def live_summary_def)
  let ?db' = "db\<lparr>cvt_artifacts := supersede fresh (latest_live_summary c db) (cvt_artifacts db @ [?f]),
            cvt_reflections := rs, cvt_events := es\<rparr>"
  have "resolve_conversation_uuid bear conversation ?db' = Some c" using inp by (simp add: resolve_conversation_uuid_def)
  then have "load_latest_iterative_summary bear conversation ?db' = (?db', Inr (Some \<lparr>crc_artifact_id = fresh,
        crc_summary = summarize_compacted_groups (map_option crc_summary prior) (selected_groups groups d) rows d,
        crc_source_message_start_seq = a, crc_source_message_end_seq = b,
        crc_policy_version = cp_policy_version (compaction_policy_for_profile profile)\<rparr>))"
    using load_single_live [of bear conversation ?db' c ?f] one by (simp add: summary_artifact_def)
  then show ?thesis using run ok' st one span
    by (intro exI [of _ a] exI [of _ b] exI [of _ ?db'] exI [of _ st] exI [of _ ?f]) (simp add: summary_artifact_def)
qed

subsection \<open>Properties\<close>

text \<open>
  C16. The cutoff that a decision stores: the span exists, a row stays in the prompt exactly when its
  group lies behind the selected range, and is summarised exactly when its group is in it.
\<close>

theorem compaction_cutoff_exact:
  assumes "conversation_schema_ok db" and "inj us"
    and "rows = uncompacted_rows c (load_transcript_grouping_rows us bear conversation db)"
    and "groups = semantic_groups_from_conversation_messages strict rows"
    and "choose_compaction_decision groups trigger policy = Some d"
  shows "\<exists>a b. sequence_span_for_group_range rows groups d = Inr (a, b) \<and> a \<le> b
    \<and> (\<forall>i r. i < length groups \<and> r \<in> set (group_rows strict rows ! i) \<longrightarrow>
         (r \<in> set (rows_after_seq (Some b) rows) \<longleftrightarrow> cd_selected_group_end d < i)
         \<and> (r \<in> set (rows_for_compacted_groups rows (selected_groups groups d))
              \<longleftrightarrow> cd_selected_group_start d \<le> i \<and> i \<le> cd_selected_group_end d))"
  using assms by (rule cutoff_exact)

text \<open>
  Protected groups before the selected range: their rows are neither in the prompt after the
  compaction nor in the summary.
\<close>

theorem skipped_protected_rows_are_lost:
  assumes "conversation_schema_ok db" and "inj us"
    and "rows = uncompacted_rows c (load_transcript_grouping_rows us bear conversation db)"
    and "groups = semantic_groups_from_conversation_messages strict rows"
    and "choose_compaction_decision groups trigger policy = Some d"
    and "i < cd_selected_group_start d" and "r \<in> set (group_rows strict rows ! i)"
  shows "sg_protected (groups ! i) \<and> (\<exists>a b. sequence_span_for_group_range rows groups d = Inr (a, b)
    \<and> r \<notin> set (rows_after_seq (Some b) rows) \<and> r \<notin> set (rows_for_compacted_groups rows (selected_groups groups d)))"
proof -
  have "i < length groups" "i \<le> cd_selected_group_end d" using decision_range(1,2) [OF assms(5)] assms(6) by arith+
  then show ?thesis using cutoff_exact [OF assms(1-5)] decision_range(4) [OF assms(5,6)] assms(6,7) by (metis leD not_le)
qed

text \<open>
  C15. An active job with something to compact succeeds and keeps the schema, the messages and the
  conversations; its artifact is the one live summary of the conversation, and the next job loads
  exactly its summary and its cutoff.
\<close>

theorem compaction_job_persists:
  assumes "conversation_schema_ok db" and "inj us"
    and "job_input strict us config bear conversation profile trigger fresh db c prior rows groups d"
  shows "\<exists>a b db' st f. run_compaction_job strict digest us fresh fresh_run now config bear conversation profile trigger db
      = (db', Inr (Some st)) \<and> conversation_schema_ok db'
    \<and> cvt_conversations db' = cvt_conversations db \<and> cvt_messages db' = cvt_messages db
    \<and> filter (live_summary c) (cvt_artifacts db') = [f] \<and> caf_id f = fresh
    \<and> sequence_span_for_group_range rows groups d = Inr (a, b)
    \<and> tcs_compacted_seq_cutoff st = Some b \<and> tcs_decision st = Some d
    \<and> load_latest_iterative_summary bear conversation db' = (db', Inr (Some \<lparr>crc_artifact_id = fresh,
        crc_summary = summarize_compacted_groups (map_option crc_summary prior) (selected_groups groups d) rows d,
        crc_source_message_start_seq = a, crc_source_message_end_seq = b,
        crc_policy_version = cp_policy_version (compaction_policy_for_profile profile)\<rparr>))"
  using assms by (rule job_total)

text \<open>
  A manual or emergency job evaluates the whole transcript again, whatever the stored artifact
  covers: its cutoff supersedes the earlier one, and rows between the two, which the earlier artifact
  had replaced, are back in the prompt.
\<close>

theorem forced_compaction_restarts:
  assumes "conversation_schema_ok db" and "inj us"
    and "job_input strict us config bear conversation profile trigger fresh db c (Some p) rows groups d"
    and "forced_trigger (as_runtime_trigger trigger)"
    and "sequence_span_for_group_range rows groups d = Inr (a, b)"
  shows "rows = load_transcript_grouping_rows us bear conversation db
    \<and> (\<exists>db' st q. run_compaction_job strict digest us fresh fresh_run now config bear conversation profile trigger db
          = (db', Inr (Some st)) \<and> tcs_compacted_seq_cutoff st = Some b
        \<and> load_latest_iterative_summary bear conversation db' = (db', Inr (Some q)) \<and> crc_source_message_end_seq q = b)
    \<and> (\<forall>r \<in> set rows. b < row_seq r \<and> row_seq r \<le> crc_source_message_end_seq p \<longrightarrow> r \<in> set (rows_after_seq (Some b) rows))"
proof (intro conjI)
  show "rows = load_transcript_grouping_rows us bear conversation db"
    using assms(3,4) by (simp add: job_input_def prior_cutoff_of_def uncompacted_rows_def)
  show "\<exists>db' st q. run_compaction_job strict digest us fresh fresh_run now config bear conversation profile trigger db
          = (db', Inr (Some st)) \<and> tcs_compacted_seq_cutoff st = Some b
        \<and> load_latest_iterative_summary bear conversation db' = (db', Inr (Some q)) \<and> crc_source_message_end_seq q = b"
    using job_total [OF assms(1-3), of digest fresh_run now] assms(5) by force
  show "\<forall>r \<in> set rows. b < row_seq r \<and> row_seq r \<le> crc_source_message_end_seq p \<longrightarrow> r \<in> set (rows_after_seq (Some b) rows)"
    by (simp add: rows_after_iff)
qed

subsection \<open>Samples\<close>

definition unary_id :: "uuid \<Rightarrow> string" where
  "unary_id u = replicate u CHR ''u''"

lemma unary_id_inj: "inj unary_id"
  by (auto simp: inj_def unary_id_def dest: arg_cong [where f = length])

definition talk_row :: "nat \<Rightarrow> string \<Rightarrow> conversation_message_row" where
  "talk_row i kind = \<lparr>cmr_id = i, cmr_conversation_id = 1, cmr_sequence_no = int i, cmr_message_type = kind,
     cmr_visibility = ''default'', cmr_content_text = (if kind = ''user'' then ''hello'' else ''approval given''),
     cmr_content_json = JObj [], cmr_tool_call_id = None, cmr_role = None, cmr_source_event_id = None,
     cmr_provider_message_id = None, cmr_created_at = int i\<rparr>"

definition talk :: "string list \<Rightarrow> compaction_artifact_row list \<Rightarrow> conversation_db" where
  "talk kinds fs = \<lparr>cvt_conversations = [\<lparr>cvr_id = 1, cvr_bear_id = 7, cvr_external_conversation_id = Some ''c'',
       cvr_created_by_user_id = None, cvr_source_client_session_id = None, cvr_current_title = None,
       cvr_next_message_sequence = 1 + int (length kinds), cvr_updated_at = 0\<rparr>],
     cvt_messages = map (\<lambda>(i, k). talk_row (Suc i) k) (List.enumerate 0 kinds), cvt_artifacts = fs, cvt_events = [],
     cvt_reflections = [], cvt_tasks = []\<rparr>"

definition approval_first :: conversation_db where
  "approval_first = talk [''workflow_event'', ''user'', ''user'', ''user'', ''user'', ''user'', ''user''] []"

definition earlier_summary :: compaction_artifact_row where
  "earlier_summary = \<lparr>caf_id = 5, caf_conversation_id = 1, caf_artifact_kind = ''iterative_summary'',
     caf_policy_version = ''pair-v1'', caf_trigger = ''SemanticGroupCount'', caf_source_message_start_seq = 3,
     caf_source_message_end_seq = 4, caf_source_group_start = Some 1, caf_source_group_end = Some 2,
     caf_artifact_json = encode_summary empty_summary, caf_superseded_by = None, caf_created_at = 0\<rparr>"

definition earlier_record :: compaction_artifact_record where
  "earlier_record = \<lparr>crc_artifact_id = 5, crc_summary = empty_summary, crc_source_message_start_seq = 3,
     crc_source_message_end_seq = 4, crc_policy_version = ''pair-v1''\<rparr>"

definition approval_between :: conversation_db where
  "approval_between = talk [''user'', ''workflow_event'', ''user'', ''user'', ''user'', ''user'', ''user'', ''user''] [earlier_summary]"

definition active_config :: compaction_config where
  "active_config = \<lparr>cc_compaction_mode = ''active'', cc_compaction_timing = ''sync'', cc_run_workers = False\<rparr>"

lemma samples_ok: "conversation_schema_ok approval_first" "conversation_schema_ok approval_between"
  by code_simp+

definition rows_of :: "conversation_db \<Rightarrow> transcript_grouping_row list" where
  "rows_of db = load_transcript_grouping_rows unary_id 7 ''c'' db"

definition manual_range :: "nat \<Rightarrow> nat \<Rightarrow> transcript_grouping_row list \<Rightarrow> compaction_decision" where
  "manual_range s e rows = decision_for_range (semantic_groups_from_conversation_messages False rows) ManualTrigger s e"

lemma first_decision:
  "choose_compaction_decision (semantic_groups_from_conversation_messages False (rows_of approval_first)) ManualTrigger
     (compaction_policy_for_profile StPair) = Some (manual_range 1 2 (rows_of approval_first))"
  by code_simp

lemma between_decision:
  "choose_compaction_decision (semantic_groups_from_conversation_messages False (rows_of approval_between)) ManualTrigger
     (compaction_policy_for_profile StPair) = Some (manual_range 0 0 (rows_of approval_between))"
  by code_simp

lemma first_span:
  "sequence_span_for_group_range (rows_of approval_first) (semantic_groups_from_conversation_messages False (rows_of approval_first))
     (manual_range 1 2 (rows_of approval_first)) = Inr (2, 3)"
  by code_simp

lemma between_span:
  "sequence_span_for_group_range (rows_of approval_between) (semantic_groups_from_conversation_messages False (rows_of approval_between))
     (manual_range 0 0 (rows_of approval_between)) = Inr (1, 1)"
  by code_simp

lemma between_prior: "load_latest_iterative_summary 7 ''c'' approval_between = (approval_between, Inr (Some earlier_record))"
  using load_single_live [of 7 "''c''" approval_between 1 earlier_summary empty_summary]
  by (simp add: approval_between_def talk_def resolve_conversation_uuid_def live_summary_def earlier_summary_def earlier_record_def)

lemma between_input:
  "job_input False unary_id active_config 7 ''c'' StPair TctManual 9 approval_between 1 (Some earlier_record) (rows_of approval_between)
     (semantic_groups_from_conversation_messages False (rows_of approval_between)) (manual_range 0 0 (rows_of approval_between))"
proof -
  have "compaction_mode_parse (cc_compaction_mode active_config) = ModeActive" by code_simp
  moreover have "resolve_conversation_uuid 7 ''c'' approval_between = Some 1" by code_simp
  moreover have "9 \<notin> caf_id ` set (cvt_artifacts approval_between)" by code_simp
  moreover have "length (filter (live_summary 1) (cvt_artifacts approval_between)) \<le> 1" by code_simp
  moreover have "rows_of approval_between = uncompacted_rows (prior_cutoff_of (as_runtime_trigger TctManual) (Some earlier_record))
      (load_transcript_grouping_rows unary_id 7 ''c'' approval_between)"
    by (simp add: rows_of_def prior_cutoff_of_def forced_trigger_def uncompacted_rows_def)
  ultimately show ?thesis using between_prior between_decision unfolding job_input_def by simp
qed

lemma first_input:
  "job_input False unary_id active_config 7 ''c'' StPair TctManual 9 approval_first 1 None (rows_of approval_first)
     (semantic_groups_from_conversation_messages False (rows_of approval_first)) (manual_range 1 2 (rows_of approval_first))"
proof -
  have "compaction_mode_parse (cc_compaction_mode active_config) = ModeActive" by code_simp
  moreover have "resolve_conversation_uuid 7 ''c'' approval_first = Some 1" by code_simp
  moreover have "9 \<notin> caf_id ` set (cvt_artifacts approval_first)" by code_simp
  moreover have "length (filter (live_summary 1) (cvt_artifacts approval_first)) \<le> 1" by code_simp
  moreover have "load_latest_iterative_summary 7 ''c'' approval_first = (approval_first, Inr None)"
    by (simp add: load_latest_iterative_summary_def withM_def returnM_def resolve_conversation_uuid_def latest_live_summary_def
        latest_by_def approval_first_def talk_def)
  moreover have "rows_of approval_first = uncompacted_rows (prior_cutoff_of (as_runtime_trigger TctManual) None)
      (load_transcript_grouping_rows unary_id 7 ''c'' approval_first)"
    by (simp add: rows_of_def prior_cutoff_of_def forced_trigger_def uncompacted_rows_def)
  ultimately show ?thesis using first_decision unfolding job_input_def by simp
qed

lemma all_rows: "rows_of db = uncompacted_rows None (load_transcript_grouping_rows unary_id 7 ''c'' db)"
  by (simp add: rows_of_def uncompacted_rows_def)

theorem compaction_cutoff_exact_witness:
  "\<exists>a b. sequence_span_for_group_range (rows_of approval_first) (semantic_groups_from_conversation_messages False (rows_of approval_first))
       (manual_range 1 2 (rows_of approval_first)) = Inr (a, b) \<and> a \<le> b"
  using compaction_cutoff_exact [OF samples_ok(1) unary_id_inj all_rows refl first_decision] by blast

definition approval_row :: transcript_grouping_row where
  "approval_row = hd (rows_of approval_first)"

theorem skipped_protected_rows_are_lost_witness:
  "approval_row \<in> set (rows_of approval_first) \<and> tg_message_type approval_row = ''workflow_event''
   \<and> approval_row \<notin> set (rows_after_seq (Some 3) (rows_of approval_first))
   \<and> approval_row \<notin> set (rows_for_compacted_groups (rows_of approval_first)
       (selected_groups (semantic_groups_from_conversation_messages False (rows_of approval_first)) (manual_range 1 2 (rows_of approval_first))))"
proof -
  have "approval_row \<in> set (rows_of approval_first)" "tg_message_type approval_row = ''workflow_event''"
    "approval_row \<in> set (group_rows False (rows_of approval_first) ! 0)"
    "0 < cd_selected_group_start (manual_range 1 2 (rows_of approval_first))"
    by code_simp+
  then show ?thesis
    using skipped_protected_rows_are_lost [OF samples_ok(1) unary_id_inj all_rows refl first_decision] first_span by fastforce
qed

theorem compaction_job_persists_witness:
  "\<exists>db' st. run_compaction_job False (\<lambda>_. ''h'') unary_id 9 11 100 active_config 7 ''c'' StPair TctManual approval_first = (db', Inr (Some st))
    \<and> conversation_schema_ok db' \<and> tcs_compacted_seq_cutoff st = Some 3"
  using compaction_job_persists [OF samples_ok(1) unary_id_inj first_input, of "\<lambda>_. ''h''" 11 100] first_span by fastforce

theorem forced_compaction_restarts_witness:
  "load_latest_iterative_summary 7 ''c'' approval_between = (approval_between, Inr (Some earlier_record))
   \<and> crc_source_message_end_seq earlier_record = 4
   \<and> (\<exists>db' st. run_compaction_job False (\<lambda>_. ''h'') unary_id 9 11 100 active_config 7 ''c'' StPair TctManual approval_between
        = (db', Inr (Some st)) \<and> tcs_compacted_seq_cutoff st = Some 1)"
proof -
  have "forced_trigger (as_runtime_trigger TctManual)" by (simp add: forced_trigger_def)
  then show ?thesis
    using forced_compaction_restarts [OF samples_ok(2) unary_id_inj between_input _ between_span, of "\<lambda>_. ''h''" 11 100] between_prior
    by (auto simp: earlier_record_def)
qed

theorem summary_keeps_items_witness:
  "summary_mentions (compact_row_snippet (rows_of approval_first ! 1)) (summarize_compacted_groups None
     (selected_groups (semantic_groups_from_conversation_messages False (rows_of approval_first)) (manual_range 1 2 (rows_of approval_first)))
     (rows_of approval_first) (manual_range 1 2 (rows_of approval_first)))
   \<and> compact_row_snippet (rows_of approval_first ! 1) = ''hello''"
proof -
  have "rows_of approval_first ! 1 \<in> set (rows_for_compacted_groups (rows_of approval_first)
      (selected_groups (semantic_groups_from_conversation_messages False (rows_of approval_first)) (manual_range 1 2 (rows_of approval_first))))"
    "compact_row_snippet (rows_of approval_first ! 1) = ''hello''"
    by code_simp+
  then show ?thesis
    using summary_keeps_items [of None "selected_groups (semantic_groups_from_conversation_messages False (rows_of approval_first))
        (manual_range 1 2 (rows_of approval_first))" "rows_of approval_first" "manual_range 1 2 (rows_of approval_first)"]
    by (metis list.distinct(1))
qed

end
