(* ===== verification/Conversation_Tasks.thy ===== *)
theory Conversation_Tasks
  imports Compaction_Lifecycle
begin

section \<open>Tasks that store records\<close>

text \<open>
  What a started task does: \<open>persist_canonical_conversation_record\<close> of
  \<open>den-service/src/conversation/events.rs\<close> with \<open>ensure_conversation_for_external_id\<close> and \<open>append_message\<close> of
  \<open>conversation/persistence.rs\<close>. Fresh uuids and the clock are arguments. A record without a key is
  never taken for one stored before, as \<open>canonical_record_already_persisted\<close> says no for it at once.
  A counter of messages is unbounded here.
\<close>

definition is_native_runtime_conversation_id :: "string \<Rightarrow> bool" where
  "is_native_runtime_conversation_id conversation \<longleftrightarrow> prefix ''den-conv-'' conversation"

definition is_acp_history_target :: "string \<Rightarrow> bool" where
  "is_acp_history_target conversation \<longleftrightarrow>
     conversation = ''default'' \<or> prefix ''conv-'' conversation \<or> is_native_runtime_conversation_id conversation"

subsection \<open>The conversation\<close>

definition names_conversation :: "uuid \<Rightarrow> string \<Rightarrow> conversation_row \<Rightarrow> bool" where
  "names_conversation bear external c \<longleftrightarrow> cvr_bear_id c = bear \<and> cvr_external_conversation_id c = Some external"

text \<open>\<open>ON CONFLICT DO NOTHING\<close>: a row that has the id or the name of another is not inserted.\<close>

definition ensure_conversation_for_external_id ::
    "uuid \<Rightarrow> timestamp \<Rightarrow> uuid \<Rightarrow> int option \<Rightarrow> string \<Rightarrow> string option \<Rightarrow> string option \<Rightarrow> uuid conversation_op" where
  "ensure_conversation_for_external_id fresh now bear user external source title =
     bindM (conversation_write (\<lambda>db.
       if \<exists>c \<in> set (cvt_conversations db). cvr_id c = fresh \<or> names_conversation bear external c then (db, None)
       else (db\<lparr>cvt_conversations := cvt_conversations db @ [\<lparr>cvr_id = fresh, cvr_bear_id = bear,
           cvr_external_conversation_id = Some external, cvr_created_by_user_id = user, cvr_source_client_session_id = source,
           cvr_current_title = title, cvr_next_message_sequence = 0, cvr_updated_at = now\<rparr>]\<rparr>, Some fresh))) (\<lambda>inserted.
     case inserted of
       Some i \<Rightarrow> returnM i
     | None \<Rightarrow>
         bindM (conversation_write (\<lambda>db. (db\<lparr>cvt_conversations := update_where (names_conversation bear external)
             (\<lambda>c. c\<lparr>cvr_source_client_session_id := or_else source (cvr_source_client_session_id c),
                cvr_current_title := or_else title (cvr_current_title c)\<rparr>) (cvt_conversations db)\<rparr>,
           map cvr_id (filter (names_conversation bear external) (cvt_conversations db))))) (\<lambda>ids.
         case ids of [] \<Rightarrow> failM (Failed (Database ''upsert conversation update'')) | i # _ \<Rightarrow> returnM i))"

subsection \<open>The message\<close>

definition stored_message :: "uuid \<Rightarrow> string option \<Rightarrow> conversation_db \<Rightarrow> conversation_message_row option" where
  "stored_message conversation source db =
     (case source of
        None \<Rightarrow> None
      | Some s \<Rightarrow> List.find (\<lambda>m. cmr_conversation_id m = conversation \<and> cmr_source_event_id m = Some s) (cvt_messages db))"

definition allocate_message_sequence :: "timestamp \<Rightarrow> uuid \<Rightarrow> int conversation_op" where
  "allocate_message_sequence now conversation =
     bindM (conversation_write (\<lambda>db. (db\<lparr>cvt_conversations := update_where (\<lambda>c. cvr_id c = conversation)
         (\<lambda>c. c\<lparr>cvr_next_message_sequence := cvr_next_message_sequence c + 1, cvr_updated_at := now\<rparr>) (cvt_conversations db)\<rparr>,
       map cvr_next_message_sequence (filter (\<lambda>c. cvr_id c = conversation) (cvt_conversations db))))) (\<lambda>seqs.
     case seqs of [] \<Rightarrow> failM (Failed (Database ''allocate conversation message sequence'')) | n # _ \<Rightarrow> returnM n)"

definition message_row :: "uuid \<Rightarrow> timestamp \<Rightarrow> uuid \<Rightarrow> int \<Rightarrow> conversation_message_write \<Rightarrow> conversation_message_row" where
  "message_row fresh now conversation seq w =
     \<lparr>cmr_id = fresh, cmr_conversation_id = conversation, cmr_sequence_no = seq,
      cmr_message_type = conversation_message_type_str (cmw_message_type w),
      cmr_visibility = conversation_message_visibility_str (cmw_visibility w), cmr_content_text = cmw_content_text w,
      cmr_content_json = cmw_content_json w, cmr_tool_call_id = None, cmr_role = map_option conversation_message_role_str (cmw_role w),
      cmr_source_event_id = cmw_source_event_id w, cmr_provider_message_id = cmw_provider_message_id w,
      cmr_created_at = unwrap_or (cmw_created_at w) now\<rparr>"

definition insert_message :: "uuid \<Rightarrow> timestamp \<Rightarrow> uuid \<Rightarrow> conversation_message_write \<Rightarrow> int \<Rightarrow> (uuid \<times> int) conversation_op" where
  "insert_message fresh now conversation w seq = conversation_write (\<lambda>db.
     (db\<lparr>cvt_messages := cvt_messages db @ [message_row fresh now conversation seq w]\<rparr>, (fresh, seq)))"

text \<open>
  The insertion, or when it fails the rollback to \<open>db0\<close> and the row that is there already or the error.
\<close>

definition insert_or_reload ::
    "uuid \<Rightarrow> timestamp \<Rightarrow> uuid \<Rightarrow> conversation_message_write \<Rightarrow> conversation_db \<Rightarrow> int \<Rightarrow> (uuid \<times> int) conversation_op" where
  "insert_or_reload fresh now conversation w db0 seq db =
     (case insert_message fresh now conversation w seq db of
        (db', Inr x) \<Rightarrow> (db', Inr x)
      | (_, Inl e) \<Rightarrow> (case stored_message conversation (cmw_source_event_id w) db0 of
            Some r \<Rightarrow> (db0, Inr (cmr_id r, cmr_sequence_no r))
          | None \<Rightarrow> (db0, Inl e)))"

definition append_message :: "uuid \<Rightarrow> timestamp \<Rightarrow> uuid \<Rightarrow> conversation_message_write \<Rightarrow> (uuid \<times> int) conversation_op" where
  "append_message fresh now conversation w =
     withM (\<lambda>db0. case stored_message conversation (cmw_source_event_id w) db0 of
       Some r \<Rightarrow> returnM (cmr_id r, cmr_sequence_no r)
     | None \<Rightarrow> transactionM (bindM (allocate_message_sequence now conversation) (insert_or_reload fresh now conversation w db0)))"

subsection \<open>Running a task\<close>

definition persist_canonical_conversation_record ::
    "(json \<Rightarrow> string) \<Rightarrow> uuid \<Rightarrow> uuid \<Rightarrow> timestamp \<Rightarrow> persistence_task \<Rightarrow> unit conversation_op" where
  "persist_canonical_conversation_record show_json fresh fresh_message now t =
     (if cpc_skip_persistence (fst t) \<or> \<not> is_acp_history_target (cpc_external_conversation_id (fst t)) then returnM ()
      else
        bindM (ensure_conversation_for_external_id fresh now (cpc_bear_id (fst t)) (cpc_user_id (fst t))
          (cpc_external_conversation_id (fst t)) (cpc_source_session_id (fst t)) None) (\<lambda>canonical.
        bindM (append_message fresh_message now canonical
          (to_write (snd t) (canonical_record_source_event_id show_json (snd t)))) (\<lambda>_.
        returnM ())))"

text \<open>The \<open>i\<close>-th of the started tasks runs; a failure is only logged.\<close>

definition run_task :: "(json \<Rightarrow> string) \<Rightarrow> uuid \<Rightarrow> uuid \<Rightarrow> timestamp \<Rightarrow> nat \<Rightarrow> unit conversation_op" where
  "run_task show_json fresh fresh_message now i db =
     (if i < length (cvt_tasks db)
      then loggedM (persist_canonical_conversation_record show_json fresh fresh_message now (cvt_tasks db ! i))
        (db\<lparr>cvt_tasks := take i (cvt_tasks db) @ drop (Suc i) (cvt_tasks db)\<rparr>)
      else (db, Inr ()))"

end
