(* ===== verification/Conversation_Properties.thy ===== *)
theory Conversation_Properties
  imports Compaction_Properties Conversation_Tasks
begin

section \<open>What compaction leaves of a conversation\<close>

text \<open>
  The calls that a loader back-fills (\<open>orphan_calls\<close>), the frame of the entry points of compaction
  (\<open>conversation_kept\<close>), what a task stores, and sequences of both (\<open>conversation_grown\<close>).
\<close>

subsection \<open>Calls without a result\<close>

definition requests_call :: "string \<Rightarrow> json \<Rightarrow> bool" where
  "requests_call i v \<longleftrightarrow> member_str v ''event'' = Some ''tool_request'' \<and> member_str v ''tool_call_id'' = Some i"

definition answers_call :: "string \<Rightarrow> json \<Rightarrow> bool" where
  "answers_call i v \<longleftrightarrow> member_str v ''event'' = Some ''tool_result'' \<and> member_str v ''tool_call_id'' = Some i"

lemma orphan_scan_row:
  "fst ` set (fst (orphan_scan st r)) = fst ` set (fst st) \<union> {i. i \<noteq> [] \<and> requests_call i (tr_content_json r)}"
  "set (snd (orphan_scan st r)) = set (snd st) \<union> {i. answers_call i (tr_content_json r)}"
  by (auto simp: orphan_scan_def requests_call_def answers_call_def member_str_def Let_def unwrap_or_def split: option.splits)

lemma orphan_scan_rows:
  "fst ` set (fst (foldl orphan_scan st rows)) = fst ` set (fst st) \<union> {i. i \<noteq> [] \<and> (\<exists>r \<in> set rows. requests_call i (tr_content_json r))}"
  "set (snd (foldl orphan_scan st rows)) = set (snd st) \<union> {i. \<exists>r \<in> set rows. answers_call i (tr_content_json r)}"
proof (induction rows arbitrary: st)
  case (Cons r rows)
  {
    case 1
    show ?case unfolding foldl_Cons Cons.IH(1) orphan_scan_row by auto
  next
    case 2
    show ?case unfolding foldl_Cons Cons.IH(2) orphan_scan_row by auto
  }
qed simp_all

lemma orphan_calls:
  "i \<in> fst ` set (orphan_tool_call_ids_from_rows rows) \<longleftrightarrow>
     i \<noteq> [] \<and> (\<exists>r \<in> set rows. requests_call i (tr_content_json r)) \<and> \<not> (\<exists>r \<in> set rows. answers_call i (tr_content_json r))"
proof -
  obtain requested resolved where scan: "foldl orphan_scan ([], []) rows = (requested, resolved)" by fastforce
  have "i \<in> fst ` set requested \<longleftrightarrow> i \<noteq> [] \<and> (\<exists>r \<in> set rows. requests_call i (tr_content_json r))"
    "i \<in> set resolved \<longleftrightarrow> (\<exists>r \<in> set rows. answers_call i (tr_content_json r))"
    using orphan_scan_rows [of "([], [])" rows] scan by simp_all
  moreover have "fst ` set (filter (\<lambda>c. fst c \<notin> set resolved) requested) = fst ` set requested - set resolved" by auto
  ultimately show ?thesis unfolding orphan_tool_call_ids_from_rows_def scan by simp
qed

lemma spawn_each_run:
  "list_all (\<lambda>t. \<not> cpc_skip_persistence (fst t)) ts \<Longrightarrow> spawn_each ts db = (db\<lparr>cvt_tasks := cvt_tasks db @ ts\<rparr>, Inr ())"
  by (induction ts arbitrary: db) (simp_all add: returnM_def bindM_def spawn_persist_canonical_conversation_record_def)

lemma backfill_task_parts:
  "cpc_bear_id (fst (backfill_task show_json us bear conversation x)) = bear"
  "cpc_external_conversation_id (fst (backfill_task show_json us bear conversation x)) = conversation"
  "\<not> cpc_skip_persistence (fst (backfill_task show_json us bear conversation x))"
  "answers_call (fst x) (storage_json (snd (backfill_task show_json us bear conversation x)))"
  "member_str (storage_json (snd (backfill_task show_json us bear conversation x))) ''status'' = Some ''incomplete''"
  by (simp_all add: backfill_task_def tool_result_record_def tool_event_def new_tool_result_record_def Let_def answers_call_def
      member_str_def jget_def as_str_json_def)

lemma load_messages_run:
  "\<exists>ts messages. load_transcript_messages_after_seq strict show_json us bear conversation after db
      = (db\<lparr>cvt_tasks := cvt_tasks db @ ts\<rparr>, Inr messages)
    \<and> ts = map (backfill_task show_json us bear conversation) (orphan_tool_call_ids_from_rows
        (transcript_rows_from_grouping_rows (rows_after_seq after (load_transcript_grouping_rows us bear conversation db))))"
  by (simp add: load_transcript_messages_after_seq_def backfill_incomplete_tool_results_def bindM_def queryM_def returnM_def Let_def
      spawn_each_run list_all_iff backfill_task_parts)

subsection \<open>What an entry point leaves alone\<close>

text \<open>
  A task that stores an incomplete result, and that the call it answers is requested by a message of
  the conversation it names.
\<close>

definition backfills :: "persistence_task \<Rightarrow> bool" where
  "backfills t \<longleftrightarrow> (\<exists>show_json us bear conversation x. t = backfill_task show_json us bear conversation x)"

definition call_requested :: "conversation_db \<Rightarrow> persistence_task \<Rightarrow> bool" where
  "call_requested db t \<longleftrightarrow> (\<exists>i. answers_call i (storage_json (snd t))
     \<and> (\<exists>c \<in> set (cvt_conversations db). names_conversation (cpc_bear_id (fst t)) (cpc_external_conversation_id (fst t)) c
       \<and> (\<exists>m \<in> set (cvt_messages db). cmr_conversation_id m = cvr_id c \<and> requests_call i (cmr_content_json m))))"

definition artifact_body :: "compaction_artifact_row \<Rightarrow> compaction_artifact_row" where
  "artifact_body f = f\<lparr>caf_superseded_by := None\<rparr>"

definition conversation_kept :: "conversation_db \<Rightarrow> conversation_db \<Rightarrow> bool" where
  "conversation_kept db db' \<longleftrightarrow> cvt_conversations db' = cvt_conversations db \<and> cvt_messages db' = cvt_messages db
     \<and> prefix (map artifact_body (cvt_artifacts db)) (map artifact_body (cvt_artifacts db'))
     \<and> prefix (cvt_events db) (cvt_events db') \<and> prefix (cvt_reflections db) (cvt_reflections db')
     \<and> prefix (cvt_tasks db) (cvt_tasks db')
     \<and> (\<forall>t \<in> set (drop (length (cvt_tasks db)) (cvt_tasks db')). backfills t \<and> call_requested db t)"

lemma call_requested_cong:
  "cvt_conversations db' = cvt_conversations db \<Longrightarrow> cvt_messages db' = cvt_messages db \<Longrightarrow> call_requested db' t = call_requested db t"
  by (simp add: call_requested_def)

interpretation conversation: db_frame conversation_schema_ok conversation_kept
proof
  show "conversation_kept db db" for db by (simp add: conversation_kept_def)
  fix db db' db''
  assume kept: "conversation_kept db db'" "conversation_kept db' db''"
  then obtain n1 n2 where tasks: "cvt_tasks db' = cvt_tasks db @ n1" "cvt_tasks db'' = cvt_tasks db' @ n2"
    unfolding conversation_kept_def prefix_def by blast
  have "call_requested db' t = call_requested db t" for t
    using kept(1) by (intro call_requested_cong) (simp_all add: conversation_kept_def)
  with kept tasks show "conversation_kept db db''"
    unfolding conversation_kept_def by (auto intro: prefix_order.trans)
qed

abbreviation conversation_safe :: "'a conversation_op \<Rightarrow> bool" where
  "conversation_safe \<equiv> stays_in conversation_schema_ok conversation_kept"

lemma safe_insert_row: "conversation_safe (insert_artifact_row f)"
  unfolding insert_artifact_row_def by (rule conversation.stays_write) (simp add: conversation_kept_def)

lemma safe_supersede: "conversation_safe (supersede_artifact i p)"
  unfolding supersede_artifact_def
  by (rule conversation.stays_write) (simp add: conversation_kept_def map_update_where artifact_body_def)

lemma safe_record: "conversation_safe (record_runtime_compaction_event digest now e)"
  unfolding record_runtime_compaction_event_def by (rule conversation.stays_write) (simp add: conversation_kept_def Let_def)

lemma safe_enqueue: "conversation_safe (enqueue_run q r)"
  unfolding enqueue_run_def by (rule conversation.stays_write) (simp add: conversation_kept_def)

lemma safe_logged: "conversation_safe m \<Longrightarrow> conversation_safe (loggedM m)"
  by (simp add: stays_in_def loggedM_def)

lemma safe_load: "conversation_safe (load_latest_iterative_summary bear conversation)"
  unfolding load_latest_iterative_summary_def by (intro conversation.stays_intros)

lemma safe_insert_artifact: "conversation_safe (insert_iterative_summary_artifact fresh now bear conversation d policy t a b s)"
  unfolding insert_iterative_summary_artifact_def by (intro conversation.stays_intros safe_insert_row safe_supersede)

lemma safe_persist: "conversation_safe (persist_compaction fresh fresh_run now bear conversation policy t prior rows groups d)"
  unfolding persist_compaction_def Let_def enqueue_archive_harvest_for_bear_def
  by (intro conversation.stays_intros safe_insert_artifact safe_logged safe_enqueue)

lemma safe_job: "conversation_safe (run_compaction_job strict digest us fresh fresh_run now config bear conversation profile t)"
  unfolding run_compaction_job_def settle_evaluation_def Let_def
  by (intro conversation.stays_intros safe_load safe_persist safe_record)

lemma safe_prepare: "conversation_safe (prepare_turn_compaction strict digest us fresh fresh_run now config bear conversation profile t)"
  unfolding prepare_turn_compaction_def on_turn_assemble_compaction_def load_compaction_context_def Let_def
  by (intro conversation.stays_intros safe_load safe_job)

lemma loaded_row_message:
  assumes "r \<in> set (transcript_rows_from_grouping_rows (rows_after_seq after (load_transcript_grouping_rows us bear conversation db)))"
  shows "\<exists>c \<in> set (cvt_conversations db). names_conversation bear conversation c
    \<and> (\<exists>m \<in> set (cvt_messages db). cmr_conversation_id m = cvr_id c \<and> cmr_content_json m = tr_content_json r)"
proof -
  obtain g where g: "g \<in> set (load_transcript_grouping_rows us bear conversation db)" "tr_content_json r = tg_content_json g"
    using assms by (auto simp: transcript_rows_from_grouping_rows_def rows_after_seq_def split: option.splits)
  then obtain m where m: "m \<in> set (transcript_history bear conversation db)" "tg_content_json g = cmr_content_json m"
    by (auto simp: load_transcript_grouping_rows_def transcript_grouping_rows_from_history_def)
  then have mem: "m \<in> set (cvt_messages db)" "Some (cmr_conversation_id m) = resolve_conversation_uuid bear conversation db"
    by (auto simp: transcript_history_def)
  from mem(2) [symmetric, unfolded resolve_conversation_uuid_def map_option_eq_Some] obtain c where c: "List.find (\<lambda>c. cvr_bear_id c = bear \<and> cvr_external_conversation_id c = Some conversation) (cvt_conversations db) = Some c"
      "cvr_id c = cmr_conversation_id m"
    by blast
  then have "c \<in> set (cvt_conversations db)" "names_conversation bear conversation c"
    by (auto simp: find_Some_iff names_conversation_def)
  then show ?thesis using mem(1) m(2) g(2) c(2) by (intro bexI [of _ c] conjI bexI [of _ m]) simp_all
qed

lemma safe_load_messages: "conversation_safe (load_transcript_messages_after_seq strict show_json us bear conversation after)"
proof (unfold stays_in_def, intro allI impI)
  fix db
  assume ok: "conversation_schema_ok db"
  let ?rows = "transcript_rows_from_grouping_rows (rows_after_seq after (load_transcript_grouping_rows us bear conversation db))"
  obtain ts messages where run: "load_transcript_messages_after_seq strict show_json us bear conversation after db
      = (db\<lparr>cvt_tasks := cvt_tasks db @ ts\<rparr>, Inr messages)"
    and ts: "ts = map (backfill_task show_json us bear conversation) (orphan_tool_call_ids_from_rows ?rows)"
    using load_messages_run by blast
  have "backfills t \<and> call_requested db t" if in_ts: "t \<in> set ts" for t
  proof -
    obtain x where x: "x \<in> set (orphan_tool_call_ids_from_rows ?rows)" and t: "t = backfill_task show_json us bear conversation x"
      using in_ts ts by auto
    from x obtain r where "r \<in> set ?rows" "requests_call (fst x) (tr_content_json r)"
      using orphan_calls [of "fst x" ?rows] by blast
    then obtain c m where "c \<in> set (cvt_conversations db)" "names_conversation bear conversation c" "m \<in> set (cvt_messages db)"
        "cmr_conversation_id m = cvr_id c" "requests_call (fst x) (cmr_content_json m)"
      using loaded_row_message [of r] by metis
    then have "call_requested db t"
      unfolding call_requested_def t backfill_task_parts(1,2) using backfill_task_parts(4) by blast
    then show ?thesis unfolding backfills_def t by blast
  qed
  moreover have "conversation_schema_ok (db\<lparr>cvt_tasks := cvt_tasks db @ ts\<rparr>)" using ok by (simp add: conversation_schema_ok_def)
  ultimately show "conversation_schema_ok (fst (load_transcript_messages_after_seq strict show_json us bear conversation after db))
      \<and> conversation_kept db (fst (load_transcript_messages_after_seq strict show_json us bear conversation after db))"
    unfolding run by (simp add: conversation_kept_def)
qed

lemma safe_assemble: "conversation_safe (assemble_agent_messages strict show_json us bear conversation system human tools)"
  unfolding assemble_agent_messages_def load_transcript_messages_def by (intro conversation.stays_intros safe_load_messages)

lemma safe_rebuild: "conversation_safe (rebuild_messages_after_overflow_compaction strict show_json us bear conversation profile existing st)"
  unfolding rebuild_messages_after_overflow_compaction_def load_transcript_messages_def Let_def
  by (intro conversation.stays_intros safe_load_messages)

lemma safe_overflow:
  "conversation_safe (compact_session_messages_for_overflow strict show_json digest us fresh fresh_run now config bear conversation profile existing)"
  unfolding compact_session_messages_for_overflow_def by (intro conversation.stays_intros safe_job safe_rebuild)

lemma safe_after_turn: "conversation_safe (enqueue_compaction_after_turn fresh now config bear conversation profile)"
  unfolding enqueue_compaction_after_turn_def by (intro conversation.stays_intros safe_logged safe_enqueue)

subsection \<open>What a task stores\<close>

definition conversation_identity :: "conversation_row \<Rightarrow> uuid \<times> uuid \<times> string option" where
  "conversation_identity c = (cvr_id c, cvr_bear_id c, cvr_external_conversation_id c)"

text \<open>Conversations keep what names them, and everything but messages is as it was.\<close>

definition only_conversations :: "conversation_db \<Rightarrow> conversation_db \<Rightarrow> bool" where
  "only_conversations db db' \<longleftrightarrow> prefix (map conversation_identity (cvt_conversations db)) (map conversation_identity (cvt_conversations db'))
     \<and> cvt_artifacts db' = cvt_artifacts db \<and> cvt_events db' = cvt_events db \<and> cvt_reflections db' = cvt_reflections db
     \<and> cvt_tasks db' = cvt_tasks db"

definition only_renamed :: "conversation_db \<Rightarrow> conversation_db \<Rightarrow> bool" where
  "only_renamed db db' \<longleftrightarrow> only_conversations db db' \<and> cvt_messages db' = cvt_messages db"

interpretation renamed: db_frame conversation_schema_ok only_renamed
  by unfold_locales (auto simp: only_renamed_def only_conversations_def intro: prefix_order.trans)

lemma identities_updated: "(\<And>c. conversation_identity (f c) = conversation_identity c) \<Longrightarrow>
    map conversation_identity (update_where g f cs) = map conversation_identity cs"
  by (simp add: update_where_def)

lemma ensure_frame: "stays_in conversation_schema_ok only_renamed (ensure_conversation_for_external_id fresh now bear user external source title)"
proof -
  have "conversation_identity (c\<lparr>cvr_source_client_session_id := s, cvr_current_title := u\<rparr>) = conversation_identity c" for c s u
    by (simp add: conversation_identity_def)
  then show ?thesis
    unfolding ensure_conversation_for_external_id_def
    by (intro renamed.stays_intros renamed.stays_write renamed.stays_list)
      (auto simp: only_renamed_def only_conversations_def identities_updated)
qed

lemma ensure_result:
  assumes "ensure_conversation_for_external_id fresh now bear user external source title db = (db1, Inr i)"
  shows "\<exists>c \<in> set (cvt_conversations db1). cvr_id c = i \<and> names_conversation bear external c"
proof (cases "\<exists>c \<in> set (cvt_conversations db). cvr_id c = fresh \<or> names_conversation bear external c")
  case False
  then show ?thesis
    using assms by (auto simp: ensure_conversation_for_external_id_def bindM_def returnM_def checked_writeM_def names_conversation_def
        split: if_splits)
next
  case True
  let ?f = "\<lambda>c. c\<lparr>cvr_source_client_session_id := or_else source (cvr_source_client_session_id c),
      cvr_current_title := or_else title (cvr_current_title c)\<rparr>"
  obtain ids where ids: "map cvr_id (filter (names_conversation bear external) (cvt_conversations db)) = i # ids"
    and db1: "cvt_conversations db1 = update_where (names_conversation bear external) ?f (cvt_conversations db)"
    using assms True
    by (auto simp: ensure_conversation_for_external_id_def bindM_def returnM_def failM_def checked_writeM_def
        split: if_splits list.splits)
  then have "i \<in> cvr_id ` set (filter (names_conversation bear external) (cvt_conversations db))"
    by (metis list.set_intros(1) list.set_map)
  then obtain c where c: "c \<in> set (cvt_conversations db)" "names_conversation bear external c" "cvr_id c = i" by auto
  then have "?f c \<in> set (cvt_conversations db1)" unfolding db1 by (force simp: update_where_def)
  moreover have "cvr_id (?f c) = i" "names_conversation bear external (?f c)" using c by (simp_all add: names_conversation_def)
  ultimately show ?thesis by blast
qed

lemma identity_kept:
  assumes "only_conversations db db'" and "c \<in> set (cvt_conversations db)"
  shows "\<exists>c' \<in> set (cvt_conversations db'). conversation_identity c' = conversation_identity c"
proof -
  have "set (map conversation_identity (cvt_conversations db)) \<subseteq> set (map conversation_identity (cvt_conversations db'))"
    using assms(1) by (intro set_mono_prefix) (simp add: only_conversations_def)
  then show ?thesis using assms(2) by (force simp: image_subset_iff image_iff)
qed

lemma allocate_frame: "stays_in conversation_schema_ok only_renamed (allocate_message_sequence now conversation)"
proof -
  have "conversation_identity (c\<lparr>cvr_next_message_sequence := n, cvr_updated_at := u\<rparr>) = conversation_identity c" for c n u
    by (simp add: conversation_identity_def)
  then show ?thesis
    unfolding allocate_message_sequence_def
    by (intro renamed.stays_intros renamed.stays_write renamed.stays_list)
      (auto simp: only_renamed_def only_conversations_def identities_updated)
qed

definition message_stored :: "uuid \<Rightarrow> conversation_message_write \<Rightarrow> conversation_db \<Rightarrow> conversation_db \<Rightarrow> bool" where
  "message_stored c w db db' \<longleftrightarrow> only_conversations db db'
     \<and> (cvt_messages db' = cvt_messages db \<or> (\<exists>fresh now seq. cvt_messages db' = cvt_messages db @ [message_row fresh now c seq w]))"

lemma renamed_stored: "only_renamed db db' \<Longrightarrow> message_stored c w db db'"
  by (simp add: only_renamed_def message_stored_def)

lemma append_frame: "stays_in conversation_schema_ok (message_stored c w) (append_message fresh now c w)"
proof (unfold stays_in_def, intro allI impI)
  fix db
  assume ok: "conversation_schema_ok db"
  have refl: "message_stored c w db db" by (intro renamed_stored renamed.frame_refl)
  show "conversation_schema_ok (fst (append_message fresh now c w db)) \<and> message_stored c w db (fst (append_message fresh now c w db))"
  proof (cases "stored_message c (cmw_source_event_id w) db")
    case None
    obtain db1 r where al: "allocate_message_sequence now c db = (db1, r)" by fastforce
    have one: "conversation_schema_ok db1" "only_renamed db db1" using staysD [OF allocate_frame ok, of now c] al by simp_all
    let ?db2 = "\<lambda>n. db1\<lparr>cvt_messages := cvt_messages db1 @ [message_row fresh now c n w]\<rparr>"
    have "message_stored c w db (?db2 n)" for n
      using one(2) by (auto simp: message_stored_def only_renamed_def only_conversations_def)
    then show ?thesis
      using None al ok refl
      by (cases r)
        (auto simp: append_message_def withM_def transactionM_def bindM_def insert_or_reload_def insert_message_def checked_writeM_def)
  qed (simp add: append_message_def withM_def returnM_def ok refl)
qed

lemma persist_run:
  assumes "conversation_schema_ok db" and db'_def: "db' = fst (persist_canonical_conversation_record show_json fresh fresh_message now t db)"
  shows "conversation_schema_ok db' \<and> only_conversations db db'
    \<and> (cvt_messages db' = cvt_messages db
      \<or> (\<exists>c \<in> set (cvt_conversations db'). names_conversation (cpc_bear_id (fst t)) (cpc_external_conversation_id (fst t)) c
          \<and> (\<exists>i n seq. cvt_messages db' = cvt_messages db
                @ [message_row i n (cvr_id c) seq (to_write (snd t) (canonical_record_source_event_id show_json (snd t)))])))"
proof (cases "cpc_skip_persistence (fst t) \<or> \<not> is_acp_history_target (cpc_external_conversation_id (fst t))")
  case True
  then show ?thesis using assms by (simp add: persist_canonical_conversation_record_def returnM_def only_conversations_def)
next
  case False
  let ?w = "to_write (snd t) (canonical_record_source_event_id show_json (snd t))"
  obtain db1 r where en: "ensure_conversation_for_external_id fresh now (cpc_bear_id (fst t)) (cpc_user_id (fst t))
      (cpc_external_conversation_id (fst t)) (cpc_source_session_id (fst t)) None db = (db1, r)" by fastforce
  have one: "conversation_schema_ok db1" "only_renamed db db1" using staysD [OF ensure_frame assms(1)] en by (metis fst_conv)+
  show ?thesis
  proof (cases r)
    case (Inl e)
    then have "db' = db1" using False en by (simp add: db'_def persist_canonical_conversation_record_def bindM_def)
    then show ?thesis using one by (simp add: only_renamed_def)
  next
    case (Inr i)
    obtain c where c: "c \<in> set (cvt_conversations db1)" "cvr_id c = i"
        "names_conversation (cpc_bear_id (fst t)) (cpc_external_conversation_id (fst t)) c"
      using ensure_result en Inr by blast
    have db': "db' = fst (append_message fresh_message now i ?w db1)"
      using False en Inr
      by (auto simp: db'_def persist_canonical_conversation_record_def bindM_def returnM_def split: prod.splits sum.splits)
    have two: "conversation_schema_ok db'" "message_stored i ?w db1 db'"
      unfolding db' using staysD [OF append_frame one(1)] by blast+
    have "\<exists>c' \<in> set (cvt_conversations db'). conversation_identity c' = conversation_identity c"
      using identity_kept two(2) c(1) by (auto simp: message_stored_def)
    then obtain c' where "c' \<in> set (cvt_conversations db')" "cvr_id c' = i"
        "names_conversation (cpc_bear_id (fst t)) (cpc_external_conversation_id (fst t)) c'"
      using c by (auto simp: conversation_identity_def names_conversation_def)
    moreover have "only_conversations db db'" "cvt_messages db1 = cvt_messages db"
      using one(2) two(2) by (auto simp: only_renamed_def message_stored_def only_conversations_def intro: prefix_order.trans)
    ultimately show ?thesis using two unfolding message_stored_def by (metis (no_types))
  qed
qed

subsection \<open>Sequences of entry points and tasks\<close>

definition tasks_ok :: "conversation_db \<Rightarrow> bool" where
  "tasks_ok db \<longleftrightarrow> (\<forall>t \<in> set (cvt_tasks db). backfills t \<and> call_requested db t)"

text \<open>A row that the back-fill stores: an incomplete result for a call that a message of its conversation requests.\<close>

definition backfilled_row :: "conversation_db \<Rightarrow> conversation_message_row \<Rightarrow> bool" where
  "backfilled_row db m \<longleftrightarrow> cmr_message_type m = ''tool_result'' \<and> cmr_visibility m = ''diagnostic_only''
     \<and> member_str (cmr_content_json m) ''status'' = Some ''incomplete''
     \<and> (\<exists>i. answers_call i (cmr_content_json m)
       \<and> (\<exists>q \<in> set (cvt_messages db). cmr_conversation_id q = cmr_conversation_id m \<and> requests_call i (cmr_content_json q)))"

definition conversation_grown :: "conversation_db \<Rightarrow> conversation_db \<Rightarrow> bool" where
  "conversation_grown db db' \<longleftrightarrow>
     prefix (map conversation_identity (cvt_conversations db)) (map conversation_identity (cvt_conversations db'))
     \<and> prefix (cvt_messages db) (cvt_messages db') \<and> (\<forall>m \<in> set (drop (length (cvt_messages db)) (cvt_messages db')). backfilled_row db' m)
     \<and> prefix (map artifact_body (cvt_artifacts db)) (map artifact_body (cvt_artifacts db'))
     \<and> prefix (cvt_events db) (cvt_events db') \<and> prefix (cvt_reflections db) (cvt_reflections db')"

lemma backfilled_more: "prefix (cvt_messages db) (cvt_messages db') \<Longrightarrow> backfilled_row db m \<Longrightarrow> backfilled_row db' m"
  unfolding backfilled_row_def using set_mono_prefix by blast

interpretation growing: db_frame "\<lambda>db. conversation_schema_ok db \<and> tasks_ok db" conversation_grown
proof
  show "conversation_grown db db" for db by (simp add: conversation_grown_def)
  fix db db' db''
  assume g: "conversation_grown db db'" "conversation_grown db' db''"
  then obtain n1 n2 where ms: "cvt_messages db' = cvt_messages db @ n1" "cvt_messages db'' = cvt_messages db' @ n2"
    unfolding conversation_grown_def prefix_def by blast
  then have "\<forall>m \<in> set n1. backfilled_row db'' m" "\<forall>m \<in> set n2. backfilled_row db'' m"
    using g backfilled_more [of db' db''] by (auto simp: conversation_grown_def)
  with ms g show "conversation_grown db db''"
    unfolding conversation_grown_def by (auto intro: prefix_order.trans)
qed

lemma kept_grown:
  assumes "conversation_kept db db'"
  shows "conversation_grown db db'" and "tasks_ok db \<Longrightarrow> tasks_ok db'"
proof -
  show "conversation_grown db db'" using assms by (simp add: conversation_kept_def conversation_grown_def)
  have same: "call_requested db' t = call_requested db t" for t
    using assms by (intro call_requested_cong) (simp_all add: conversation_kept_def)
  obtain new where new: "cvt_tasks db' = cvt_tasks db @ new" using assms by (auto simp: conversation_kept_def prefix_def)
  show "tasks_ok db'" if "tasks_ok db"
    using that assms unfolding tasks_ok_def same new by (auto simp: conversation_kept_def new)
qed

lemma call_requested_more:
  assumes "only_conversations db db'" and "prefix (cvt_messages db) (cvt_messages db')" and "call_requested db t"
  shows "call_requested db' t"
proof -
  obtain i c m where i: "answers_call i (storage_json (snd t))" "c \<in> set (cvt_conversations db)"
      "names_conversation (cpc_bear_id (fst t)) (cpc_external_conversation_id (fst t)) c"
      "m \<in> set (cvt_messages db)" "cmr_conversation_id m = cvr_id c" "requests_call i (cmr_content_json m)"
    using assms(3) unfolding call_requested_def by blast
  obtain c' where "c' \<in> set (cvt_conversations db')" "conversation_identity c' = conversation_identity c"
    using identity_kept [OF assms(1) i(2)] by blast
  moreover from this i have "names_conversation (cpc_bear_id (fst t)) (cpc_external_conversation_id (fst t)) c'" "cmr_conversation_id m = cvr_id c'"
    by (simp_all add: conversation_identity_def names_conversation_def)
  moreover have "m \<in> set (cvt_messages db')" using i(4) assms(2) set_mono_prefix by blast
  ultimately show ?thesis using i(1,6) unfolding call_requested_def by blast
qed

lemma named_conversation_unique:
  assumes "conversation_schema_ok db" and "c \<in> set (cvt_conversations db)" "c' \<in> set (cvt_conversations db)"
    and "names_conversation bear external c" "names_conversation bear external c'"
  shows "c = c'"
  using assms
  by (auto simp: conversation_schema_ok_def conversations_ok_def names_conversation_def distinct_map dest: inj_onD)

lemma backfill_row_of_task:
  assumes "backfills t" and "m = message_row i n c seq (to_write (snd t) k)"
  shows "cmr_message_type m = ''tool_result''" "cmr_visibility m = ''diagnostic_only''" "cmr_conversation_id m = c"
    "cmr_content_json m = storage_json (snd t)" "member_str (cmr_content_json m) ''status'' = Some ''incomplete''"
  using assms backfill_task_parts(5)
  by (auto simp: message_row_def backfills_def backfill_task_def tool_result_record_def tool_event_def Let_def)

lemma run_task_step:
  assumes "conversation_schema_ok db" and "tasks_ok db" and db'_def: "db' = fst (run_task show_json fresh fresh_message now i db)"
  shows "conversation_schema_ok db' \<and> tasks_ok db' \<and> conversation_grown db db'"
proof (cases "i < length (cvt_tasks db)")
  case False
  then show ?thesis using assms growing.frame_refl by (simp add: run_task_def)
next
  case True
  let ?t = "cvt_tasks db ! i"
  let ?db = "db\<lparr>cvt_tasks := take i (cvt_tasks db) @ drop (Suc i) (cvt_tasks db)\<rparr>"
  have ok: "conversation_schema_ok ?db" using assms(1) by (simp add: conversation_schema_ok_def)
  have db': "db' = fst (persist_canonical_conversation_record show_json fresh fresh_message now ?t ?db)"
    using True by (simp add: db'_def run_task_def loggedM_def)
  have t: "backfills ?t" "call_requested db ?t" using assms(2) True by (auto simp: tasks_ok_def)
  have ok': "conversation_schema_ok db'" and only: "only_conversations ?db db'" using persist_run [OF ok db'] by blast+
  have onl: "only_conversations (db\<lparr>cvt_tasks := cvt_tasks db'\<rparr>) db'" using only by (simp add: only_conversations_def)
  have tasks: "set (cvt_tasks db') \<subseteq> set (cvt_tasks db)"
    using only by (auto simp: only_conversations_def dest: in_set_takeD in_set_dropD)
  have msgs: "prefix (cvt_messages db) (cvt_messages db')" using persist_run [OF ok db'] by auto
  have req: "call_requested db' x" if "call_requested db x" for x
  proof (rule call_requested_more [OF onl])
    show "prefix (cvt_messages (db\<lparr>cvt_tasks := cvt_tasks db'\<rparr>)) (cvt_messages db')" using msgs by simp
    show "call_requested (db\<lparr>cvt_tasks := cvt_tasks db'\<rparr>) x" using that by (simp add: call_requested_def)
  qed
  have "tasks_ok db'" using assms(2) tasks req unfolding tasks_ok_def by blast
  moreover have "\<forall>m \<in> set (drop (length (cvt_messages db)) (cvt_messages db')). backfilled_row db' m"
  proof (cases "cvt_messages db' = cvt_messages db")
    case False
    then obtain c j n seq where c: "c \<in> set (cvt_conversations db')"
        "names_conversation (cpc_bear_id (fst ?t)) (cpc_external_conversation_id (fst ?t)) c"
      and ms: "cvt_messages db' = cvt_messages db
        @ [message_row j n (cvr_id c) seq (to_write (snd ?t) (canonical_record_source_event_id show_json (snd ?t)))]"
      using persist_run [OF ok db'] by auto
    let ?m = "message_row j n (cvr_id c) seq (to_write (snd ?t) (canonical_record_source_event_id show_json (snd ?t)))"
    note m = backfill_row_of_task [OF t(1) refl, of j n "cvr_id c" seq "canonical_record_source_event_id show_json (snd ?t)"]
    obtain k c2 q where k: "answers_call k (storage_json (snd ?t))" "c2 \<in> set (cvt_conversations db')"
        "names_conversation (cpc_bear_id (fst ?t)) (cpc_external_conversation_id (fst ?t)) c2"
        "q \<in> set (cvt_messages db')" "cmr_conversation_id q = cvr_id c2" "requests_call k (cmr_content_json q)"
      using req [OF t(2)] unfolding call_requested_def by blast
    have "c2 = c" using named_conversation_unique [OF ok' k(2) c(1) k(3) c(2)] .
    then have "backfilled_row db' ?m" unfolding backfilled_row_def using m k by metis
    then show ?thesis unfolding ms by simp
  qed simp
  ultimately show ?thesis using ok' msgs onl unfolding conversation_grown_def by (auto simp: only_conversations_def)
qed

text \<open>The entry points of compaction, the loading of the messages of a turn, and the running of a task.\<close>

datatype conversation_call =
    PrepareTurn uuid uuid timestamp compaction_config uuid string bear_stance turn_compaction_trigger
  | RecoverOverflow uuid uuid timestamp compaction_config uuid string bear_stance "chat_message list"
  | EnqueueAfterTurn uuid timestamp compaction_config uuid string bear_stance
  | AssembleMessages uuid string "string option" "string option" "chat_message list"
  | RunTask uuid uuid timestamp nat

fun conversation_after ::
    "bool \<Rightarrow> (json \<Rightarrow> string) \<Rightarrow> (json \<Rightarrow> string) \<Rightarrow> (uuid \<Rightarrow> string) \<Rightarrow> conversation_db \<Rightarrow> conversation_call \<Rightarrow> conversation_db" where
  "conversation_after strict show_json digest us db (PrepareTurn fresh fresh_run now config bear conversation profile trigger) =
     fst (prepare_turn_compaction strict digest us fresh fresh_run now config bear conversation profile trigger db)"
| "conversation_after strict show_json digest us db (RecoverOverflow fresh fresh_run now config bear conversation profile existing) =
     fst (compact_session_messages_for_overflow strict show_json digest us fresh fresh_run now config bear conversation profile existing db)"
| "conversation_after strict show_json digest us db (EnqueueAfterTurn fresh now config bear conversation profile) =
     fst (enqueue_compaction_after_turn fresh now config bear conversation profile db)"
| "conversation_after strict show_json digest us db (AssembleMessages bear conversation system human tools) =
     fst (assemble_agent_messages strict show_json us bear conversation system human tools db)"
| "conversation_after strict show_json digest us db (RunTask fresh fresh_message now i) =
     fst (run_task show_json fresh fresh_message now i db)"

fun runs_task :: "conversation_call \<Rightarrow> bool" where
  "runs_task (RunTask fresh fresh_message now i) = True"
| "runs_task _ = False"

lemma entry_kept:
  assumes "conversation_schema_ok db" and "\<not> runs_task x"
  shows "conversation_schema_ok (conversation_after strict show_json digest us db x)
    \<and> conversation_kept db (conversation_after strict show_json digest us db x)"
  using assms(2)
  by (cases x) (simp_all add: staysD [OF safe_prepare assms(1)] staysD [OF safe_overflow assms(1)] staysD [OF safe_after_turn assms(1)]
      staysD [OF safe_assemble assms(1)])

lemma call_grows:
  "stays_in (\<lambda>db. conversation_schema_ok db \<and> tasks_ok db) conversation_grown
     (\<lambda>db. (conversation_after strict show_json digest us db x, Inr ()))"
proof (unfold stays_in_def fst_conv, intro allI impI)
  fix db
  assume inv: "conversation_schema_ok db \<and> tasks_ok db"
  let ?db = "conversation_after strict show_json digest us db x"
  show "(conversation_schema_ok ?db \<and> tasks_ok ?db) \<and> conversation_grown db ?db"
  proof (cases "runs_task x")
    case True
    then obtain fresh fresh_message now i where "x = RunTask fresh fresh_message now i" by (cases x) simp_all
    then show ?thesis using run_task_step [OF conjunct1 [OF inv] conjunct2 [OF inv]] by simp
  next
    case False
    then show ?thesis using entry_kept [of db x strict show_json digest us] kept_grown [of db ?db] inv by blast
  qed
qed

lemma entries_kept:
  assumes "conversation_schema_ok db" and "\<And>x. x \<in> set calls \<Longrightarrow> \<not> runs_task x"
  shows "conversation_kept db (run_ops (conversation_after strict show_json digest us) db calls)"
  using assms
proof (induction calls arbitrary: db)
  case Nil
  then show ?case by (simp add: conversation.frame_refl)
next
  case (Cons x calls)
  let ?db = "conversation_after strict show_json digest us db x"
  have "conversation_schema_ok ?db" "conversation_kept db ?db" using entry_kept [OF Cons.prems(1)] Cons.prems(2) by simp_all
  with Cons.IH [of ?db] Cons.prems(2) show ?case using conversation.frame_trans by simp
qed

text \<open>
  C33. Compaction and its recovery keep the conversation. Over any sequence of compaction entry
  points, of assemblies of the messages of a turn and of runs of the tasks they started, however each
  of them ends, the schema holds, no conversation, message, artifact, event or queued run disappears,
  conversations keep what names them, a message never changes, and an artifact changes only in the
  mark of what superseded it. Loading a transcript starts tasks for calls without a result; the only
  messages that are added are those that such tasks store, each an incomplete, diagnostic result of a
  call that a message of the same conversation requests. As long as no task runs, messages and
  conversations are exactly as before, and the tasks that were started are of this kind. Of the tasks
  of the runtime only these are considered: those that are pending at the start are back-fills too.
\<close>

theorem compaction_keeps_the_conversation:
  assumes "conversation_schema_ok db" and "tasks_ok db"
    and "db' = run_ops (conversation_after strict show_json digest us) db calls"
  shows "conversation_schema_ok db' \<and> tasks_ok db' \<and> conversation_grown db db'
    \<and> ((\<forall>x \<in> set calls. \<not> runs_task x) \<longrightarrow> conversation_kept db db')"
proof -
  have "(conversation_schema_ok db' \<and> tasks_ok db') \<and> conversation_grown db db'"
    unfolding assms(3)
    using growing.stays_run [of "\<lambda>x d. (conversation_after strict show_json digest us d x, Inr ())" db calls] call_grows assms(1,2)
    by simp
  then show ?thesis unfolding assms(3) using entries_kept [OF assms(1)] by blast
qed

text \<open>A conversation that ends with a call.\<close>

definition open_call :: conversation_db where
  "open_call = \<lparr>cvt_conversations = [\<lparr>cvr_id = 1, cvr_bear_id = 7, cvr_external_conversation_id = Some ''conv-1'',
       cvr_created_by_user_id = None, cvr_source_client_session_id = None, cvr_current_title = None,
       cvr_next_message_sequence = 2, cvr_updated_at = 0\<rparr>],
     cvt_messages = [(talk_row 1 ''tool_call'')\<lparr>cmr_content_json := JObj [(''event'', JStr ''tool_request''),
       (''tool_call_id'', JStr ''k''), (''tool_name'', JStr ''read'')]\<rparr>], cvt_artifacts = [], cvt_events = [],
     cvt_reflections = [], cvt_tasks = []\<rparr>"

definition open_call_steps :: "conversation_call list" where
  "open_call_steps = [AssembleMessages 7 ''conv-1'' None None [], PrepareTurn 9 11 100 active_config 7 ''conv-1'' StPair TctManual, RunTask 20 21 100 0]"

theorem compaction_keeps_the_conversation_witness:
  "conversation_grown open_call (run_ops (conversation_after False (\<lambda>_. ''j'') (\<lambda>_. ''h'') unary_id) open_call open_call_steps)
   \<and> map cmr_message_type (cvt_messages (run_ops (conversation_after False (\<lambda>_. ''j'') (\<lambda>_. ''h'') unary_id) open_call open_call_steps))
      = [''tool_call'', ''tool_result'']
   \<and> conversation_kept open_call (run_ops (conversation_after False (\<lambda>_. ''j'') (\<lambda>_. ''h'') unary_id) open_call (take 2 open_call_steps))"
proof -
  have ok: "conversation_schema_ok open_call" "tasks_ok open_call" by (code_simp, simp add: tasks_ok_def open_call_def)
  have rows: "map cmr_message_type (cvt_messages (run_ops (conversation_after False (\<lambda>_. ''j'') (\<lambda>_. ''h'') unary_id) open_call open_call_steps))
      = [''tool_call'', ''tool_result'']"
    by code_simp
  have quiet: "\<forall>x \<in> set (take 2 open_call_steps). \<not> runs_task x" by code_simp
  show ?thesis
    using compaction_keeps_the_conversation [OF ok refl, of False "\<lambda>_. ''j''" "\<lambda>_. ''h''" unary_id open_call_steps]
      compaction_keeps_the_conversation [OF ok refl, of False "\<lambda>_. ''j''" "\<lambda>_. ''h''" unary_id "take 2 open_call_steps"] quiet rows
    by blast
qed

end
