(* ===== verification/Client_Tools.thy ===== *)
theory Client_Tools
  imports Turn_Completion
begin

section \<open>Client tools\<close>

text \<open>
  \<open>den-core/src/client_tools.rs\<close> and \<open>den-core/src/tools/display.rs\<close>: the tools that a client runs
  for the bear, their names and aliases, the session policy that enables them, the policy and the
  parameter schema of each tool, and what is displayed of a call. \<open>show_json\<close> is the JSON printer
  (\<open>Value::to_string\<close>); paths are those of Unix.
\<close>

definition ellipsis :: string where
  "ellipsis = [CHR 0xE2, CHR 0x80, CHR 0xA6]"

subsection \<open>Classes and session policies\<close>

datatype tool_class_name = ClassReadOnly | ClassWorkspaceMutation | ClassExecution | ClassBrowser

fun tool_class_str :: "tool_class_name \<Rightarrow> string" where
  "tool_class_str ClassReadOnly = ''read_only''"
| "tool_class_str ClassWorkspaceMutation = ''workspace_mutation''"
| "tool_class_str ClassExecution = ''execution''"
| "tool_class_str ClassBrowser = ''browser''"

fun tool_enablement_str :: "tool_enablement_state \<Rightarrow> string" where
  "tool_enablement_str ReadOnlyTools = ''read_only''"
| "tool_enablement_str AllTools = ''all_tools''"

definition enables_non_read_tools :: "tool_enablement_state \<Rightarrow> bool" where
  "enables_non_read_tools s \<longleftrightarrow> s = AllTools"

definition resolved_mode :: "string \<Rightarrow> string option \<Rightarrow> string" where
  "resolved_mode current_mode plan_mode_state =
     (if plan_mode_state = Some ''approved'' then ''write''
      else if plan_mode_state \<in> set [Some ''active'', Some ''submitted''] then ''plan''
      else if plan_mode_state = Some ''rejected'' then ''ask''
      else to_ascii_lowercase (trim current_mode))"

definition resolve_session_policy_for_mode :: "string \<Rightarrow> string option \<Rightarrow> resolved_session_policy" where
  "resolve_session_policy_for_mode current_mode plan_mode_state =
     (let m = resolved_mode current_mode plan_mode_state in
      if m = ''plan'' then \<lparr>rsp_mode_label = ''Plan'', rsp_tool_enablement = ReadOnlyTools, rsp_plan_mode_state = plan_mode_state\<rparr>
      else if m = ''write'' then \<lparr>rsp_mode_label = ''Write'', rsp_tool_enablement = AllTools, rsp_plan_mode_state = plan_mode_state\<rparr>
      else \<lparr>rsp_mode_label = ''Ask'', rsp_tool_enablement = ReadOnlyTools, rsp_plan_mode_state = plan_mode_state\<rparr>)"

definition resolve_session_policy :: "string option \<Rightarrow> resolved_session_policy" where
  "resolve_session_policy plan_mode_state = resolve_session_policy_for_mode ''ask'' plan_mode_state"

definition allowed_tool_classes :: "resolved_session_policy \<Rightarrow> string list" where
  "allowed_tool_classes p = (if enables_non_read_tools (rsp_tool_enablement p)
     then [tool_class_str ClassReadOnly, tool_class_str ClassWorkspaceMutation, tool_class_str ClassExecution, tool_class_str ClassBrowser]
     else [tool_class_str ClassReadOnly])"

definition denied_tool_classes :: "resolved_session_policy \<Rightarrow> string list" where
  "denied_tool_classes p = (if enables_non_read_tools (rsp_tool_enablement p) then []
     else [tool_class_str ClassWorkspaceMutation, tool_class_str ClassExecution, tool_class_str ClassBrowser])"

definition jstrings :: "string list \<Rightarrow> json" where
  "jstrings xs = JArr (map JStr xs)"

definition opt_str_json :: "string option \<Rightarrow> json" where
  "opt_str_json v = (case v of None \<Rightarrow> JNull | Some s \<Rightarrow> JStr s)"

definition session_policy_json :: "resolved_session_policy \<Rightarrow> json" where
  "session_policy_json p = JObj [(''mode_label'', JStr (rsp_mode_label p)),
     (''tool_enablement'', JObj [(''state'', JStr (tool_enablement_str (rsp_tool_enablement p))), (''source'', JStr ''den''),
        (''enables_non_read_tools'', JBool (enables_non_read_tools (rsp_tool_enablement p)))]),
     (''plan_mode_state'', opt_str_json (rsp_plan_mode_state p)),
     (''allowed_tool_classes'', jstrings (allowed_tool_classes p)), (''denied_tool_classes'', jstrings (denied_tool_classes p)),
     (''policy_note'', JStr ''Ask and Plan expose read-only tools. Write enables mutation/execution/browser tools, which still require Den policy and armature client approval.'')]"

record turn_authority =
  ta_stance :: bear_stance
  ta_session_policy :: resolved_session_policy

definition authority_for_session_mode :: "bear_stance \<Rightarrow> string \<Rightarrow> string option \<Rightarrow> turn_authority" where
  "authority_for_session_mode stance current_mode plan_mode_state =
     \<lparr>ta_stance = stance, ta_session_policy = resolve_session_policy_for_mode current_mode plan_mode_state\<rparr>"

definition read_only_runtime_context :: "turn_authority \<Rightarrow> json option" where
  "read_only_runtime_context a =
     (let p = ta_session_policy a in
      if enables_non_read_tools (rsp_tool_enablement p) then None
      else Some (JObj [(''permission_mode'', JStr (rsp_mode_label p)), (''tool_enablement'', JStr ''read_only''),
        (''allowed_tool_classes'', jstrings (allowed_tool_classes p)), (''denied_tool_classes'', jstrings (denied_tool_classes p))]))"

subsection \<open>Names\<close>

datatype client_tool_name =
    CtReadTextFile | CtListDirectory | CtFindPaths | CtSearchFiles | CtStat | CtEditFile | CtCreateTextFile
  | CtCreateDirectory | CtMovePath | CtCopyPath | CtApplyPatch | CtDeletePath | CtGitStatus
  | CtGitDiff | CtGitLog | CtGitShow | CtGitAdd | CtGitRestore | CtGitCommit | CtGitStash | CtRunCommand
  | CtProcessRun | CtTerminalRunCommand | CtChromeOpen | CtChromeSnapshot | CtChromeConsoleMessages
  | CtChromeNetworkRequests | CtChromeScreenshot | CtMcpCallTool

record client_tool_descriptor =
  ctd_provider_name :: string
  ctd_provider_aliases :: "string list"
  ctd_canonical_name :: string
  ctd_title :: string
  ctd_kind :: string
  ctd_risk :: string
  ctd_permission_class :: string

definition MCP_CALL_TOOL :: client_tool_descriptor where
  "MCP_CALL_TOOL = \<lparr>ctd_provider_name = ''mcp__dynamic_tool'', ctd_provider_aliases = [], ctd_canonical_name =
     ''armature.mcp.call_tool'', ctd_title = ''MCP tool'', ctd_kind = ''tool'', ctd_risk = ''external_tool'',
     ctd_permission_class = ''external_tool''\<rparr>"

definition READ_TEXT_FILE_TOOL :: client_tool_descriptor where
  "READ_TEXT_FILE_TOOL = \<lparr>ctd_provider_name = ''fs_read_text_file'', ctd_provider_aliases = [], ctd_canonical_name =
     ''armature.fs.read_text_file'', ctd_title = ''Read file'', ctd_kind = ''read'', ctd_risk = ''read_only'',
     ctd_permission_class = ''read_files''\<rparr>"

definition LIST_DIRECTORY_TOOL :: client_tool_descriptor where
  "LIST_DIRECTORY_TOOL = \<lparr>ctd_provider_name = ''fs_list_directory'', ctd_provider_aliases = [], ctd_canonical_name =
     ''armature.fs.list_directory'', ctd_title = ''List directory'', ctd_kind = ''read'',
     ctd_risk = ''read_only'', ctd_permission_class = ''read_files''\<rparr>"

definition FIND_PATHS_TOOL :: client_tool_descriptor where
  "FIND_PATHS_TOOL = \<lparr>ctd_provider_name = ''fs_find_paths'', ctd_provider_aliases = [], ctd_canonical_name =
     ''armature.fs.find_paths'', ctd_title = ''Find paths'', ctd_kind = ''search'', ctd_risk = ''read_only'',
     ctd_permission_class = ''read_files''\<rparr>"

definition SEARCH_FILES_TOOL :: client_tool_descriptor where
  "SEARCH_FILES_TOOL = \<lparr>ctd_provider_name = ''fs_search_files'', ctd_provider_aliases = [], ctd_canonical_name =
     ''armature.fs.search_files'', ctd_title = ''Search files'', ctd_kind = ''search'',
     ctd_risk = ''read_only'', ctd_permission_class = ''read_files''\<rparr>"

definition STAT_TOOL :: client_tool_descriptor where
  "STAT_TOOL = \<lparr>ctd_provider_name = ''fs_stat'', ctd_provider_aliases = [], ctd_canonical_name = ''armature.fs.stat'',
     ctd_title = ''Stat path'', ctd_kind = ''read'', ctd_risk = ''read_only'', ctd_permission_class = ''read_files''\<rparr>"

definition EDIT_FILE_TOOL :: client_tool_descriptor where
  "EDIT_FILE_TOOL = \<lparr>ctd_provider_name = ''fs_edit_file'', ctd_provider_aliases = [''fs_replace_text'',
     ''replace_text'', ''fs/replace_text'', ''fs.replace_text'', ''bears/replace_text''],
     ctd_canonical_name = ''armature.fs.edit_file'', ctd_title = ''Edit file'', ctd_kind = ''edit'',
     ctd_risk = ''writes_workspace'', ctd_permission_class = ''edit_files''\<rparr>"

definition CREATE_TEXT_FILE_TOOL :: client_tool_descriptor where
  "CREATE_TEXT_FILE_TOOL = \<lparr>ctd_provider_name = ''fs_create_text_file'', ctd_provider_aliases = [], ctd_canonical_name =
     ''armature.fs.create_text_file'', ctd_title = ''Create text file'', ctd_kind = ''edit'',
     ctd_risk = ''writes_workspace'', ctd_permission_class = ''edit_files''\<rparr>"

definition CREATE_DIRECTORY_TOOL :: client_tool_descriptor where
  "CREATE_DIRECTORY_TOOL = \<lparr>ctd_provider_name = ''fs_create_directory'', ctd_provider_aliases = [], ctd_canonical_name =
     ''armature.fs.create_directory'', ctd_title = ''Create directory'', ctd_kind = ''edit'',
     ctd_risk = ''writes_workspace'', ctd_permission_class = ''edit_files''\<rparr>"

definition MOVE_PATH_TOOL :: client_tool_descriptor where
  "MOVE_PATH_TOOL = \<lparr>ctd_provider_name = ''fs_move_path'', ctd_provider_aliases = [], ctd_canonical_name = ''armature.fs.move_path'',
     ctd_title = ''Move path'', ctd_kind = ''move'', ctd_risk = ''writes_workspace'', ctd_permission_class =
     ''edit_files''\<rparr>"

definition COPY_PATH_TOOL :: client_tool_descriptor where
  "COPY_PATH_TOOL = \<lparr>ctd_provider_name = ''fs_copy_path'', ctd_provider_aliases = [], ctd_canonical_name = ''armature.fs.copy_path'',
     ctd_title = ''Copy path'', ctd_kind = ''edit'', ctd_risk = ''writes_workspace'', ctd_permission_class =
     ''edit_files''\<rparr>"

definition APPLY_PATCH_TOOL :: client_tool_descriptor where
  "APPLY_PATCH_TOOL = \<lparr>ctd_provider_name = ''fs_apply_patch'', ctd_provider_aliases = [], ctd_canonical_name =
     ''armature.fs.apply_patch'', ctd_title = ''Apply patch'', ctd_kind = ''edit'', ctd_risk = ''writes_workspace'',
     ctd_permission_class = ''edit_files''\<rparr>"

definition DELETE_PATH_TOOL :: client_tool_descriptor where
  "DELETE_PATH_TOOL = \<lparr>ctd_provider_name = ''fs_delete_path'', ctd_provider_aliases = [], ctd_canonical_name =
     ''armature.fs.delete_path'', ctd_title = ''Delete path'', ctd_kind = ''delete'', ctd_risk =
     ''deletes_workspace'', ctd_permission_class = ''delete_files''\<rparr>"

definition GIT_STATUS_TOOL :: client_tool_descriptor where
  "GIT_STATUS_TOOL = \<lparr>ctd_provider_name = ''git_status'', ctd_provider_aliases = [], ctd_canonical_name = ''armature.git.status'',
     ctd_title = ''Git status'', ctd_kind = ''read'', ctd_risk = ''read_only'', ctd_permission_class = ''git_read''\<rparr>"

definition GIT_DIFF_TOOL :: client_tool_descriptor where
  "GIT_DIFF_TOOL = \<lparr>ctd_provider_name = ''git_diff'', ctd_provider_aliases = [], ctd_canonical_name = ''armature.git.diff'',
     ctd_title = ''Git diff'', ctd_kind = ''read'', ctd_risk = ''read_only'', ctd_permission_class = ''git_read''\<rparr>"

definition GIT_LOG_TOOL :: client_tool_descriptor where
  "GIT_LOG_TOOL = \<lparr>ctd_provider_name = ''git_log'', ctd_provider_aliases = [], ctd_canonical_name = ''armature.git.log'',
     ctd_title = ''Git log'', ctd_kind = ''read'', ctd_risk = ''read_only'', ctd_permission_class = ''git_read''\<rparr>"

definition GIT_SHOW_TOOL :: client_tool_descriptor where
  "GIT_SHOW_TOOL = \<lparr>ctd_provider_name = ''git_show'', ctd_provider_aliases = [], ctd_canonical_name = ''armature.git.show'',
     ctd_title = ''Git show'', ctd_kind = ''read'', ctd_risk = ''read_only'', ctd_permission_class = ''git_read''\<rparr>"

definition GIT_ADD_TOOL :: client_tool_descriptor where
  "GIT_ADD_TOOL = \<lparr>ctd_provider_name = ''git_add'', ctd_provider_aliases = [], ctd_canonical_name = ''armature.git.add'',
     ctd_title = ''Git add'', ctd_kind = ''edit'', ctd_risk = ''writes_workspace'', ctd_permission_class =
     ''git_write''\<rparr>"

definition GIT_RESTORE_TOOL :: client_tool_descriptor where
  "GIT_RESTORE_TOOL = \<lparr>ctd_provider_name = ''git_restore'', ctd_provider_aliases = [], ctd_canonical_name = ''armature.git.restore'',
     ctd_title = ''Git restore'', ctd_kind = ''edit'', ctd_risk = ''writes_workspace'',
     ctd_permission_class = ''git_write''\<rparr>"

definition GIT_COMMIT_TOOL :: client_tool_descriptor where
  "GIT_COMMIT_TOOL = \<lparr>ctd_provider_name = ''git_commit'', ctd_provider_aliases = [], ctd_canonical_name = ''armature.git.commit'',
     ctd_title = ''Git commit'', ctd_kind = ''edit'', ctd_risk = ''writes_workspace'', ctd_permission_class =
     ''git_write''\<rparr>"

definition GIT_STASH_TOOL :: client_tool_descriptor where
  "GIT_STASH_TOOL = \<lparr>ctd_provider_name = ''git_stash'', ctd_provider_aliases = [], ctd_canonical_name = ''armature.git.stash'',
     ctd_title = ''Git stash'', ctd_kind = ''edit'', ctd_risk = ''writes_workspace'', ctd_permission_class =
     ''git_write''\<rparr>"

definition RUN_COMMAND_TOOL :: client_tool_descriptor where
  "RUN_COMMAND_TOOL = \<lparr>ctd_provider_name = ''run_command'', ctd_provider_aliases = [''process_run'', ''process/run'',
     ''process.run'', ''bears/process_run'', ''terminal_run_command'', ''terminal/run_command'',
     ''terminal.run_command'', ''bears/terminal_run_command''], ctd_canonical_name = ''armature.command.run'',
     ctd_title = ''Run command'', ctd_kind = ''execute'', ctd_risk = ''executes_process'',
     ctd_permission_class = ''command_run''\<rparr>"

definition PROCESS_RUN_TOOL :: client_tool_descriptor where
  "PROCESS_RUN_TOOL = \<lparr>ctd_provider_name = ''process_run'', ctd_provider_aliases = [], ctd_canonical_name = ''armature.process.run'',
     ctd_title = ''Run process'', ctd_kind = ''execute'', ctd_risk = ''executes_process'',
     ctd_permission_class = ''command_run''\<rparr>"

definition TERMINAL_RUN_COMMAND_TOOL :: client_tool_descriptor where
  "TERMINAL_RUN_COMMAND_TOOL = \<lparr>ctd_provider_name = ''terminal_run_command'', ctd_provider_aliases = [], ctd_canonical_name =
     ''armature.terminal.run_command'', ctd_title = ''Run terminal command'', ctd_kind = ''execute'',
     ctd_risk = ''executes_process'', ctd_permission_class = ''command_run''\<rparr>"

definition CHROME_OPEN_TOOL :: client_tool_descriptor where
  "CHROME_OPEN_TOOL = \<lparr>ctd_provider_name = ''chrome_open'', ctd_provider_aliases = [], ctd_canonical_name = ''armature.chrome.open'',
     ctd_title = ''Open page'', ctd_kind = ''read'', ctd_risk = ''network_fetch'', ctd_permission_class =
     ''browser''\<rparr>"

definition CHROME_SNAPSHOT_TOOL :: client_tool_descriptor where
  "CHROME_SNAPSHOT_TOOL = \<lparr>ctd_provider_name = ''chrome_snapshot'', ctd_provider_aliases = [], ctd_canonical_name =
     ''armature.chrome.snapshot'', ctd_title = ''Chrome snapshot'', ctd_kind = ''read'',
     ctd_risk = ''network_fetch'', ctd_permission_class = ''browser''\<rparr>"

definition CHROME_CONSOLE_MESSAGES_TOOL :: client_tool_descriptor where
  "CHROME_CONSOLE_MESSAGES_TOOL = \<lparr>ctd_provider_name = ''chrome_console_messages'', ctd_provider_aliases = [], ctd_canonical_name =
     ''armature.chrome.console_messages'', ctd_title = ''Chrome console messages'', ctd_kind = ''read'',
     ctd_risk = ''network_fetch'', ctd_permission_class = ''browser''\<rparr>"

definition CHROME_NETWORK_REQUESTS_TOOL :: client_tool_descriptor where
  "CHROME_NETWORK_REQUESTS_TOOL = \<lparr>ctd_provider_name = ''chrome_network_requests'', ctd_provider_aliases = [], ctd_canonical_name =
     ''armature.chrome.network_requests'', ctd_title = ''Chrome network requests'', ctd_kind = ''read'',
     ctd_risk = ''network_fetch'', ctd_permission_class = ''browser''\<rparr>"

definition CHROME_SCREENSHOT_TOOL :: client_tool_descriptor where
  "CHROME_SCREENSHOT_TOOL = \<lparr>ctd_provider_name = ''chrome_screenshot'', ctd_provider_aliases = [], ctd_canonical_name =
     ''armature.chrome.screenshot'', ctd_title = ''Chrome screenshot'', ctd_kind = ''read'',
     ctd_risk = ''network_fetch'', ctd_permission_class = ''browser''\<rparr>"

fun tool_descriptor :: "client_tool_name \<Rightarrow> client_tool_descriptor" where
  "tool_descriptor CtReadTextFile = READ_TEXT_FILE_TOOL"
| "tool_descriptor CtListDirectory = LIST_DIRECTORY_TOOL"
| "tool_descriptor CtFindPaths = FIND_PATHS_TOOL"
| "tool_descriptor CtSearchFiles = SEARCH_FILES_TOOL"
| "tool_descriptor CtStat = STAT_TOOL"
| "tool_descriptor CtEditFile = EDIT_FILE_TOOL"
| "tool_descriptor CtCreateTextFile = CREATE_TEXT_FILE_TOOL"
| "tool_descriptor CtCreateDirectory = CREATE_DIRECTORY_TOOL"
| "tool_descriptor CtMovePath = MOVE_PATH_TOOL"
| "tool_descriptor CtCopyPath = COPY_PATH_TOOL"
| "tool_descriptor CtApplyPatch = APPLY_PATCH_TOOL"
| "tool_descriptor CtDeletePath = DELETE_PATH_TOOL"
| "tool_descriptor CtGitStatus = GIT_STATUS_TOOL"
| "tool_descriptor CtGitDiff = GIT_DIFF_TOOL"
| "tool_descriptor CtGitLog = GIT_LOG_TOOL"
| "tool_descriptor CtGitShow = GIT_SHOW_TOOL"
| "tool_descriptor CtGitAdd = GIT_ADD_TOOL"
| "tool_descriptor CtGitRestore = GIT_RESTORE_TOOL"
| "tool_descriptor CtGitCommit = GIT_COMMIT_TOOL"
| "tool_descriptor CtGitStash = GIT_STASH_TOOL"
| "tool_descriptor CtRunCommand = RUN_COMMAND_TOOL"
| "tool_descriptor CtProcessRun = PROCESS_RUN_TOOL"
| "tool_descriptor CtTerminalRunCommand = TERMINAL_RUN_COMMAND_TOOL"
| "tool_descriptor CtChromeOpen = CHROME_OPEN_TOOL"
| "tool_descriptor CtChromeSnapshot = CHROME_SNAPSHOT_TOOL"
| "tool_descriptor CtChromeConsoleMessages = CHROME_CONSOLE_MESSAGES_TOOL"
| "tool_descriptor CtChromeNetworkRequests = CHROME_NETWORK_REQUESTS_TOOL"
| "tool_descriptor CtChromeScreenshot = CHROME_SCREENSHOT_TOOL"
| "tool_descriptor CtMcpCallTool = MCP_CALL_TOOL"

definition all_client_tools :: "client_tool_name list" where
  "all_client_tools = [CtReadTextFile, CtListDirectory, CtFindPaths, CtSearchFiles, CtStat, CtEditFile, CtCreateTextFile,
     CtCreateDirectory, CtMovePath, CtCopyPath, CtApplyPatch, CtDeletePath, CtGitStatus,
     CtGitDiff, CtGitLog, CtGitShow, CtGitAdd, CtGitRestore, CtGitCommit, CtGitStash, CtRunCommand,
     CtChromeOpen, CtChromeSnapshot, CtChromeConsoleMessages, CtChromeNetworkRequests, CtChromeScreenshot]"

fun required_string_args :: "client_tool_name \<Rightarrow> string list" where
  "required_string_args CtReadTextFile = [''path'']"
| "required_string_args CtListDirectory = [''path'']"
| "required_string_args CtFindPaths = [''glob'']"
| "required_string_args CtSearchFiles = [''path'', ''query'']"
| "required_string_args CtStat = [''path'']"
| "required_string_args CtEditFile = [''path'', ''old_text'', ''new_text'']"
| "required_string_args CtCreateTextFile = [''path'', ''content'']"
| "required_string_args CtCreateDirectory = [''path'']"
| "required_string_args CtMovePath = [''source_path'', ''destination_path'']"
| "required_string_args CtCopyPath = [''source_path'', ''destination_path'']"
| "required_string_args CtApplyPatch = [''patch'']"
| "required_string_args CtDeletePath = [''path'']"
| "required_string_args CtGitStatus = []"
| "required_string_args CtGitDiff = []"
| "required_string_args CtGitLog = []"
| "required_string_args CtGitShow = [''revision'']"
| "required_string_args CtGitAdd = [''paths'']"
| "required_string_args CtGitRestore = [''paths'']"
| "required_string_args CtGitCommit = [''message'']"
| "required_string_args CtGitStash = []"
| "required_string_args CtRunCommand = [''command'', ''cwd'']"
| "required_string_args CtProcessRun = [''command'', ''cwd'']"
| "required_string_args CtTerminalRunCommand = [''command'', ''cwd'']"
| "required_string_args CtChromeOpen = [''url'']"
| "required_string_args CtChromeSnapshot = []"
| "required_string_args CtChromeConsoleMessages = []"
| "required_string_args CtChromeNetworkRequests = []"
| "required_string_args CtChromeScreenshot = []"
| "required_string_args CtMcpCallTool = []"

definition allow_empty_required_string :: "client_tool_name \<Rightarrow> string \<Rightarrow> bool" where
  "allow_empty_required_string tool arg \<longleftrightarrow>
     tool \<in> set [CtEditFile, CtCreateTextFile] \<and> arg \<in> set [''old_text'', ''new_text'', ''content'']"

definition string_arg :: "json \<Rightarrow> string \<Rightarrow> string option" where
  "string_arg args arg = Option.bind (jget args arg) as_str_json"

definition arg_missing :: "client_tool_name \<Rightarrow> json \<Rightarrow> string \<Rightarrow> bool" where
  "arg_missing tool args arg \<longleftrightarrow>
     \<not> (tool = CtSearchFiles \<and> arg = ''query'' \<and> is_some_and (string_arg args ''pattern'') (\<lambda>s. trim s \<noteq> []))
     \<and> (case string_arg args arg of None \<Rightarrow> True | Some s \<Rightarrow> \<not> allow_empty_required_string tool arg \<and> trim s = [])"

definition missing_required_string_arg :: "client_tool_name \<Rightarrow> json \<Rightarrow> string option" where
  "missing_required_string_arg tool args = List.find (arg_missing tool args) (required_string_args tool)"

definition names_tool :: "string \<Rightarrow> client_tool_name \<Rightarrow> bool" where
  "names_tool raw tool \<longleftrightarrow> ctd_provider_name (tool_descriptor tool) = raw \<or> ctd_canonical_name (tool_descriptor tool) = raw
     \<or> raw \<in> set (ctd_provider_aliases (tool_descriptor tool))"

definition alias_table :: "(string list \<times> client_tool_name) list" where
  "alias_table = [([''bears/read_text_file'', ''fs.read_text_file'', ''fs_read_text_file'', ''read_text_file''], CtReadTextFile),
     ([''bears/list_directory'', ''fs/list_directory'', ''fs.list_directory'', ''fs_list_directory'', ''list_directory''], CtListDirectory),
     ([''bears/find_paths'', ''fs/find_paths'', ''fs.find_paths'', ''fs_find_paths'', ''find_paths''], CtFindPaths),
     ([''bears/search_files'', ''fs/search_files'', ''fs.search_files'', ''fs_search_files'', ''search_files''], CtSearchFiles),
     ([''bears/stat'', ''fs/stat'', ''fs.stat'', ''fs_stat'', ''stat''], CtStat),
     ([''bears/edit_file'', ''fs/edit_file'', ''fs.edit_file'', ''fs_edit_file'', ''edit_file'', ''bears/replace_text'', ''fs/replace_text'', ''fs.replace_text'', ''fs_replace_text'', ''replace_text''], CtEditFile),
     ([''bears/create_text_file'', ''fs/create_text_file'', ''fs.create_text_file'', ''fs_create_text_file'', ''create_text_file''], CtCreateTextFile),
     ([''bears/create_directory'', ''fs/create_directory'', ''fs.create_directory'', ''fs_create_directory'', ''create_directory''], CtCreateDirectory),
     ([''bears/move_path'', ''fs/move_path'', ''fs.move_path'', ''fs_move_path'', ''move_path''], CtMovePath),
     ([''bears/copy_path'', ''fs/copy_path'', ''fs.copy_path'', ''fs_copy_path'', ''copy_path''], CtCopyPath),
     ([''bears/apply_patch'', ''fs/apply_patch'', ''fs.apply_patch'', ''fs_apply_patch'', ''apply_patch''], CtApplyPatch),
     ([''bears/delete_path'', ''fs/delete_path'', ''fs.delete_path'', ''fs_delete_path'', ''delete_path''], CtDeletePath),
     ([''bears/git_status'', ''git/status'', ''git.status'', ''git_status''], CtGitStatus),
     ([''bears/git_diff'', ''git/diff'', ''git.diff'', ''git_diff''], CtGitDiff),
     ([''bears/git_log'', ''git/log'', ''git.log'', ''git_log''], CtGitLog),
     ([''bears/git_show'', ''git/show'', ''git.show'', ''git_show''], CtGitShow),
     ([''bears/git_add'', ''git/add'', ''git.add'', ''git_add''], CtGitAdd),
     ([''bears/git_restore'', ''git/restore'', ''git.restore'', ''git_restore''], CtGitRestore),
     ([''bears/git_commit'', ''git/commit'', ''git.commit'', ''git_commit''], CtGitCommit),
     ([''bears/git_stash'', ''git/stash'', ''git.stash'', ''git_stash''], CtGitStash),
     ([''bears/run_command'', ''command/run'', ''command.run'', ''run_command''], CtRunCommand),
     ([''bears/process_run'', ''process/run'', ''process.run'', ''process_run''], CtRunCommand),
     ([''bears/terminal_run_command'', ''terminal/run_command'', ''terminal.run_command'', ''terminal_run_command''], CtRunCommand),
     ([''bears/chrome_open'', ''chrome/open'', ''chrome.open'', ''chrome_open''], CtChromeOpen),
     ([''bears/chrome_snapshot'', ''chrome/snapshot'', ''chrome.snapshot'', ''chrome_snapshot''], CtChromeSnapshot),
     ([''bears/chrome_console_messages'', ''chrome/console_messages'', ''chrome.console_messages'', ''chrome_console_messages''], CtChromeConsoleMessages),
     ([''bears/chrome_network_requests'', ''chrome/network_requests'', ''chrome.network_requests'', ''chrome_network_requests''], CtChromeNetworkRequests),
     ([''bears/chrome_screenshot'', ''chrome/screenshot'', ''chrome.screenshot'', ''chrome_screenshot''], CtChromeScreenshot)]"

definition from_provider_alias :: "string \<Rightarrow> client_tool_name option" where
  "from_provider_alias raw =
     (case List.find (names_tool raw) all_client_tools of
        Some tool \<Rightarrow> Some tool
      | None \<Rightarrow> (case List.find (\<lambda>row. raw \<in> set (fst row)) alias_table of
          Some row \<Rightarrow> Some (snd row)
        | None \<Rightarrow> if prefix ''mcp__'' raw then Some CtMcpCallTool else None))"

fun tool_class :: "client_tool_name \<Rightarrow> tool_class_name" where
  "tool_class CtReadTextFile = ClassReadOnly"
| "tool_class CtListDirectory = ClassReadOnly"
| "tool_class CtFindPaths = ClassReadOnly"
| "tool_class CtSearchFiles = ClassReadOnly"
| "tool_class CtStat = ClassReadOnly"
| "tool_class CtEditFile = ClassWorkspaceMutation"
| "tool_class CtCreateTextFile = ClassWorkspaceMutation"
| "tool_class CtCreateDirectory = ClassWorkspaceMutation"
| "tool_class CtMovePath = ClassWorkspaceMutation"
| "tool_class CtCopyPath = ClassWorkspaceMutation"
| "tool_class CtApplyPatch = ClassWorkspaceMutation"
| "tool_class CtDeletePath = ClassWorkspaceMutation"
| "tool_class CtGitStatus = ClassReadOnly"
| "tool_class CtGitDiff = ClassReadOnly"
| "tool_class CtGitLog = ClassReadOnly"
| "tool_class CtGitShow = ClassReadOnly"
| "tool_class CtGitAdd = ClassWorkspaceMutation"
| "tool_class CtGitRestore = ClassWorkspaceMutation"
| "tool_class CtGitCommit = ClassWorkspaceMutation"
| "tool_class CtGitStash = ClassWorkspaceMutation"
| "tool_class CtRunCommand = ClassExecution"
| "tool_class CtProcessRun = ClassExecution"
| "tool_class CtTerminalRunCommand = ClassExecution"
| "tool_class CtChromeOpen = ClassBrowser"
| "tool_class CtChromeSnapshot = ClassBrowser"
| "tool_class CtChromeConsoleMessages = ClassBrowser"
| "tool_class CtChromeNetworkRequests = ClassBrowser"
| "tool_class CtChromeScreenshot = ClassBrowser"
| "tool_class CtMcpCallTool = ClassExecution"

definition allows_tool :: "resolved_session_policy \<Rightarrow> client_tool_name \<Rightarrow> bool" where
  "allows_tool p tool \<longleftrightarrow> enables_non_read_tools (rsp_tool_enablement p) \<or> tool_class tool = ClassReadOnly"

definition provider_tool_allowed_in_policy :: "string \<Rightarrow> resolved_session_policy \<Rightarrow> bool" where
  "provider_tool_allowed_in_policy tool_name p =
     (case from_provider_alias tool_name of Some tool \<Rightarrow> allows_tool p tool | None \<Rightarrow> False)"

definition supported_provider_tool_names :: "string list" where
  "supported_provider_tool_names = map (\<lambda>t. ctd_provider_name (tool_descriptor t)) all_client_tools"

datatype tool_status = TsOk | TsError | TsCancelled | TsTimeout | TsPermissionDenied | TsUnsupported

fun tool_status_str :: "tool_status \<Rightarrow> string" where
  "tool_status_str TsOk = ''ok''"
| "tool_status_str TsError = ''error''"
| "tool_status_str TsCancelled = ''cancelled''"
| "tool_status_str TsTimeout = ''timeout''"
| "tool_status_str TsPermissionDenied = ''permission_denied''"
| "tool_status_str TsUnsupported = ''unsupported''"

definition tool_status_parse :: "string \<Rightarrow> tool_status option" where
  "tool_status_parse raw =
     (if raw = ''ok'' then Some TsOk else if raw = ''error'' then Some TsError
      else if raw = ''cancelled'' then Some TsCancelled else if raw = ''timeout'' then Some TsTimeout
      else if raw = ''permission_denied'' then Some TsPermissionDenied
      else if raw = ''unsupported'' then Some TsUnsupported else None)"

subsection \<open>Tool policies\<close>

datatype execution_target_policy = EtArmatureLocal | EtDenHosted

fun execution_target_str :: "execution_target_policy \<Rightarrow> string" where
  "execution_target_str EtArmatureLocal = ''armature_local''"
| "execution_target_str EtDenHosted = ''den_hosted''"

datatype approval_policy = ApNever | ApRequired | ApRequiredForSensitiveTargets

fun approval_policy_str :: "approval_policy \<Rightarrow> string" where
  "approval_policy_str ApNever = ''never''"
| "approval_policy_str ApRequired = ''required''"
| "approval_policy_str ApRequiredForSensitiveTargets = ''required_for_sensitive_targets''"

definition requires_unconditional_approval :: "approval_policy \<Rightarrow> bool" where
  "requires_unconditional_approval p \<longleftrightarrow> p = ApRequired"

datatype fs_target_kind = FsFile | FsDirectory

fun fs_target_kind_str :: "fs_target_kind \<Rightarrow> string" where
  "fs_target_kind_str FsFile = ''file''"
| "fs_target_kind_str FsDirectory = ''directory''"

datatype sensitive_path_policy = SpDeny | SpFilterResults | SpRequireApproval | SpAllow

fun sensitive_path_str :: "sensitive_path_policy \<Rightarrow> string" where
  "sensitive_path_str SpDeny = ''deny_sensitive_paths''"
| "sensitive_path_str SpFilterResults = ''filter_results''"
| "sensitive_path_str SpRequireApproval = ''client_permission_required''"
| "sensitive_path_str SpAllow = ''allow''"

datatype target_policy =
    WorkspacePath string "fs_target_kind option"
  | WorkspaceRootOrPath "string option" bool "fs_target_kind option"
  | SourceDestination string string
  | CommandTarget string string
  | UrlTarget string
  | NoTarget

fun target_policy_json :: "target_policy \<Rightarrow> json" where
  "target_policy_json (WorkspacePath arg k) = JObj [(''kind'', JStr ''workspace_path''), (''arg'', JStr arg),
     (''required_kind'', opt_str_json (map_option fs_target_kind_str k))]"
| "target_policy_json (WorkspaceRootOrPath arg d k) = JObj [(''kind'', JStr ''workspace_root_or_path''), (''arg'', opt_str_json arg),
     (''default_to_workspace_root'', JBool d), (''required_kind'', opt_str_json (map_option fs_target_kind_str k))]"
| "target_policy_json (SourceDestination s d) = JObj [(''kind'', JStr ''source_destination''), (''source_arg'', JStr s),
     (''destination_arg'', JStr d)]"
| "target_policy_json (CommandTarget c w) = JObj [(''kind'', JStr ''command''), (''command_arg'', JStr c), (''cwd_arg'', JStr w)]"
| "target_policy_json (UrlTarget a) = JObj [(''kind'', JStr ''url''), (''arg'', JStr a)]"
| "target_policy_json NoTarget = JObj [(''kind'', JStr ''none'')]"

record tool_policy =
  tp_scope_basis :: string
  tp_role_basis :: string
  tp_allowed_roots_basis :: string
  tp_path_containment :: string
  tp_execution_target :: execution_target_policy
  tp_approval_policy :: approval_policy
  tp_sensitive_path_policy :: sensitive_path_policy
  tp_target_policy :: target_policy
  tp_max_lines :: "u32 option"
  tp_max_entries :: "u32 option"
  tp_max_results :: "u32 option"
  tp_max_bytes :: "u64 option"
  tp_recursive_default :: "bool option"
  tp_include_hidden_default :: "bool option"
  tp_max_replacements :: "u32 option"
  tp_create_files :: "bool option"
  tp_allow_multiple :: "bool option"
  tp_deny_hidden_paths :: "bool option"
  tp_total_timeout_ms :: u64
  tp_permission_timeout_ms :: u64

definition ARMATURE_READ_TEXT_FILE_POLICY :: tool_policy where
  "ARMATURE_READ_TEXT_FILE_POLICY = \<lparr>tp_scope_basis = ''armature:tools'', tp_role_basis = ''pair_agent'', tp_allowed_roots_basis =
     ''client_session.workspace_roots'', tp_path_containment =
     ''adapter_enforced_absolute_path_under_allowed_roots'', tp_execution_target = EtArmatureLocal,
     tp_approval_policy = ApNever, tp_sensitive_path_policy = SpDeny, tp_target_policy = WorkspacePath ''path''
      (Some FsFile), tp_max_lines = Some 2000, tp_max_entries = None, tp_max_results = None,
     tp_max_bytes = None, tp_recursive_default = None, tp_include_hidden_default = None,
     tp_max_replacements = None, tp_create_files = None, tp_allow_multiple = None, tp_deny_hidden_paths = None,
     tp_total_timeout_ms = 150000, tp_permission_timeout_ms = 120000\<rparr>"

definition ARMATURE_LIST_DIRECTORY_POLICY :: tool_policy where
  "ARMATURE_LIST_DIRECTORY_POLICY = \<lparr>tp_scope_basis = ''armature:tools'', tp_role_basis = ''pair_agent'', tp_allowed_roots_basis =
     ''client_session.workspace_roots'', tp_path_containment =
     ''adapter_enforced_absolute_path_under_allowed_roots'', tp_execution_target = EtArmatureLocal,
     tp_approval_policy = ApNever, tp_sensitive_path_policy = SpFilterResults, tp_target_policy = WorkspacePath
     ''path'' (Some FsDirectory), tp_max_lines = None, tp_max_entries = Some 1000, tp_max_results = None,
     tp_max_bytes = None, tp_recursive_default = Some False, tp_include_hidden_default = Some False,
     tp_max_replacements = None, tp_create_files = None, tp_allow_multiple = None, tp_deny_hidden_paths = None,
     tp_total_timeout_ms = 150000, tp_permission_timeout_ms = 120000\<rparr>"

definition ARMATURE_FIND_PATHS_POLICY :: tool_policy where
  "ARMATURE_FIND_PATHS_POLICY = \<lparr>tp_scope_basis = ''armature:tools'', tp_role_basis = ''pair_agent'', tp_allowed_roots_basis =
     ''client_session.workspace_roots'', tp_path_containment =
     ''adapter_enforced_absolute_path_under_allowed_roots'', tp_execution_target = EtArmatureLocal,
     tp_approval_policy = ApNever, tp_sensitive_path_policy = SpFilterResults,
     tp_target_policy = WorkspaceRootOrPath (Some ''root'') True (Some FsDirectory), tp_max_lines = None,
     tp_max_entries = None, tp_max_results = Some 500, tp_max_bytes = None, tp_recursive_default = None,
     tp_include_hidden_default = Some False, tp_max_replacements = None, tp_create_files = None,
     tp_allow_multiple = None, tp_deny_hidden_paths = None, tp_total_timeout_ms = 150000,
     tp_permission_timeout_ms = 120000\<rparr>"

definition ARMATURE_SEARCH_FILES_POLICY :: tool_policy where
  "ARMATURE_SEARCH_FILES_POLICY = \<lparr>tp_scope_basis = ''armature:tools'', tp_role_basis = ''pair_agent'', tp_allowed_roots_basis =
     ''client_session.workspace_roots'', tp_path_containment =
     ''adapter_enforced_absolute_path_under_allowed_roots'', tp_execution_target = EtArmatureLocal,
     tp_approval_policy = ApNever, tp_sensitive_path_policy = SpFilterResults, tp_target_policy = WorkspacePath
     ''path'' None, tp_max_lines = None, tp_max_entries = None, tp_max_results = Some 200,
     tp_max_bytes = Some 1048576, tp_recursive_default = None, tp_include_hidden_default = Some False,
     tp_max_replacements = None, tp_create_files = None, tp_allow_multiple = None, tp_deny_hidden_paths = None,
     tp_total_timeout_ms = 180000, tp_permission_timeout_ms = 120000\<rparr>"

definition ARMATURE_STAT_POLICY :: tool_policy where
  "ARMATURE_STAT_POLICY = \<lparr>tp_scope_basis = ''armature:tools'', tp_role_basis = ''pair_agent'', tp_allowed_roots_basis =
     ''client_session.workspace_roots'', tp_path_containment =
     ''adapter_enforced_absolute_path_under_allowed_roots'', tp_execution_target = EtArmatureLocal,
     tp_approval_policy = ApNever, tp_sensitive_path_policy = SpDeny, tp_target_policy = WorkspacePath ''path'' None,
     tp_max_lines = None, tp_max_entries = None, tp_max_results = None, tp_max_bytes = None,
     tp_recursive_default = None, tp_include_hidden_default = None, tp_max_replacements = None,
     tp_create_files = None, tp_allow_multiple = None, tp_deny_hidden_paths = None, tp_total_timeout_ms = 150000,
     tp_permission_timeout_ms = 120000\<rparr>"

definition ARMATURE_EDIT_FILE_POLICY :: tool_policy where
  "ARMATURE_EDIT_FILE_POLICY = \<lparr>tp_scope_basis = ''armature:tools'', tp_role_basis = ''pair_agent'', tp_allowed_roots_basis =
     ''client_session.workspace_roots'', tp_path_containment =
     ''adapter_enforced_absolute_path_under_allowed_roots'', tp_execution_target = EtArmatureLocal,
     tp_approval_policy = ApRequired, tp_sensitive_path_policy = SpDeny, tp_target_policy = WorkspacePath ''path''
      (Some FsFile), tp_max_lines = None, tp_max_entries = None, tp_max_results = None,
     tp_max_bytes = Some 1048576, tp_recursive_default = None, tp_include_hidden_default = Some False,
     tp_max_replacements = Some 1, tp_create_files = Some False, tp_allow_multiple = Some False,
     tp_deny_hidden_paths = Some True, tp_total_timeout_ms = 150000, tp_permission_timeout_ms = 120000\<rparr>"

definition ARMATURE_CREATE_TEXT_FILE_POLICY :: tool_policy where
  "ARMATURE_CREATE_TEXT_FILE_POLICY = \<lparr>tp_scope_basis = ''armature:tools'', tp_role_basis = ''pair_agent'', tp_allowed_roots_basis =
     ''client_session.workspace_roots'', tp_path_containment =
     ''adapter_enforced_absolute_path_under_allowed_roots'', tp_execution_target = EtArmatureLocal,
     tp_approval_policy = ApRequired, tp_sensitive_path_policy = SpDeny, tp_target_policy = WorkspacePath ''path''
      None, tp_max_lines = None, tp_max_entries = None, tp_max_results = None, tp_max_bytes = Some 1048576,
     tp_recursive_default = None, tp_include_hidden_default = Some False, tp_max_replacements = None,
     tp_create_files = Some True, tp_allow_multiple = None, tp_deny_hidden_paths = Some True,
     tp_total_timeout_ms = 150000, tp_permission_timeout_ms = 120000\<rparr>"

definition ARMATURE_CREATE_DIRECTORY_POLICY :: tool_policy where
  "ARMATURE_CREATE_DIRECTORY_POLICY = \<lparr>tp_scope_basis = ''armature:tools'', tp_role_basis = ''pair_agent'', tp_allowed_roots_basis =
     ''client_session.workspace_roots'', tp_path_containment =
     ''adapter_enforced_absolute_path_under_allowed_roots'', tp_execution_target = EtArmatureLocal,
     tp_approval_policy = ApRequired, tp_sensitive_path_policy = SpDeny, tp_target_policy = WorkspacePath ''path''
      None, tp_max_lines = None, tp_max_entries = None, tp_max_results = None, tp_max_bytes = None,
     tp_recursive_default = None, tp_include_hidden_default = Some False, tp_max_replacements = None,
     tp_create_files = Some True, tp_allow_multiple = None, tp_deny_hidden_paths = Some True,
     tp_total_timeout_ms = 150000, tp_permission_timeout_ms = 120000\<rparr>"

definition ARMATURE_MOVE_PATH_POLICY :: tool_policy where
  "ARMATURE_MOVE_PATH_POLICY = \<lparr>tp_scope_basis = ''armature:tools'', tp_role_basis = ''pair_agent'', tp_allowed_roots_basis =
     ''client_session.workspace_roots'', tp_path_containment =
     ''adapter_enforced_absolute_path_under_allowed_roots'', tp_execution_target = EtArmatureLocal,
     tp_approval_policy = ApRequired, tp_sensitive_path_policy = SpDeny, tp_target_policy = SourceDestination
     ''source_path'' ''destination_path'', tp_max_lines = None, tp_max_entries = None, tp_max_results = None,
     tp_max_bytes = None, tp_recursive_default = None, tp_include_hidden_default = Some False,
     tp_max_replacements = None, tp_create_files = None, tp_allow_multiple = None, tp_deny_hidden_paths = Some True,
     tp_total_timeout_ms = 150000, tp_permission_timeout_ms = 120000\<rparr>"

definition ARMATURE_COPY_PATH_POLICY :: tool_policy where
  "ARMATURE_COPY_PATH_POLICY = \<lparr>tp_scope_basis = ''armature:tools'', tp_role_basis = ''pair_agent'', tp_allowed_roots_basis =
     ''client_session.workspace_roots'', tp_path_containment =
     ''adapter_enforced_absolute_path_under_allowed_roots'', tp_execution_target = EtArmatureLocal,
     tp_approval_policy = ApRequired, tp_sensitive_path_policy = SpDeny, tp_target_policy = SourceDestination
     ''source_path'' ''destination_path'', tp_max_lines = None, tp_max_entries = Some 1000,
     tp_max_results = None, tp_max_bytes = Some 5242880, tp_recursive_default = Some False,
     tp_include_hidden_default = Some False, tp_max_replacements = None, tp_create_files = None,
     tp_allow_multiple = None, tp_deny_hidden_paths = Some True, tp_total_timeout_ms = 150000,
     tp_permission_timeout_ms = 120000\<rparr>"

definition ARMATURE_APPLY_PATCH_POLICY :: tool_policy where
  "ARMATURE_APPLY_PATCH_POLICY = \<lparr>tp_scope_basis = ''armature:tools'', tp_role_basis = ''pair_agent'', tp_allowed_roots_basis =
     ''client_session.workspace_roots'', tp_path_containment =
     ''adapter_enforced_absolute_path_under_allowed_roots'', tp_execution_target = EtArmatureLocal,
     tp_approval_policy = ApRequired, tp_sensitive_path_policy = SpDeny,
     tp_target_policy = WorkspaceRootOrPath (Some ''base_path'') True (Some FsDirectory),
     tp_max_lines = None, tp_max_entries = Some 100, tp_max_results = None, tp_max_bytes = Some 1048576,
     tp_recursive_default = None, tp_include_hidden_default = Some False, tp_max_replacements = None,
     tp_create_files = Some True, tp_allow_multiple = Some True, tp_deny_hidden_paths = Some True,
     tp_total_timeout_ms = 150000, tp_permission_timeout_ms = 120000\<rparr>"

definition ARMATURE_DELETE_PATH_POLICY :: tool_policy where
  "ARMATURE_DELETE_PATH_POLICY = \<lparr>tp_scope_basis = ''armature:tools'', tp_role_basis = ''pair_agent'', tp_allowed_roots_basis =
     ''client_session.workspace_roots'', tp_path_containment =
     ''adapter_enforced_absolute_path_under_allowed_roots'', tp_execution_target = EtArmatureLocal,
     tp_approval_policy = ApRequired, tp_sensitive_path_policy = SpDeny, tp_target_policy = WorkspacePath ''path''
      None, tp_max_lines = None, tp_max_entries = Some 100, tp_max_results = None, tp_max_bytes = None,
     tp_recursive_default = Some False, tp_include_hidden_default = Some False, tp_max_replacements = None,
     tp_create_files = None, tp_allow_multiple = None, tp_deny_hidden_paths = Some True,
     tp_total_timeout_ms = 150000, tp_permission_timeout_ms = 120000\<rparr>"

definition ARMATURE_GIT_STATUS_POLICY :: tool_policy where
  "ARMATURE_GIT_STATUS_POLICY = \<lparr>tp_scope_basis = ''armature:tools'', tp_role_basis = ''pair_agent'', tp_allowed_roots_basis =
     ''client_session.workspace_roots'', tp_path_containment =
     ''adapter_enforced_absolute_path_under_allowed_roots'', tp_execution_target = EtArmatureLocal,
     tp_approval_policy = ApNever, tp_sensitive_path_policy = SpDeny, tp_target_policy = NoTarget,
     tp_max_lines = None, tp_max_entries = None, tp_max_results = Some 500, tp_max_bytes = Some 262144,
     tp_recursive_default = None, tp_include_hidden_default = None, tp_max_replacements = None,
     tp_create_files = None, tp_allow_multiple = None, tp_deny_hidden_paths = None, tp_total_timeout_ms = 150000,
     tp_permission_timeout_ms = 120000\<rparr>"

definition ARMATURE_GIT_DIFF_POLICY :: tool_policy where
  "ARMATURE_GIT_DIFF_POLICY = \<lparr>tp_scope_basis = ''armature:tools'', tp_role_basis = ''pair_agent'', tp_allowed_roots_basis =
     ''client_session.workspace_roots'', tp_path_containment =
     ''adapter_enforced_absolute_path_under_allowed_roots'', tp_execution_target = EtArmatureLocal,
     tp_approval_policy = ApNever, tp_sensitive_path_policy = SpDeny, tp_target_policy = NoTarget,
     tp_max_lines = None, tp_max_entries = None, tp_max_results = None, tp_max_bytes = Some 262144,
     tp_recursive_default = None, tp_include_hidden_default = None, tp_max_replacements = None,
     tp_create_files = None, tp_allow_multiple = None, tp_deny_hidden_paths = None, tp_total_timeout_ms = 150000,
     tp_permission_timeout_ms = 120000\<rparr>"

definition ARMATURE_GIT_LOG_POLICY :: tool_policy where
  "ARMATURE_GIT_LOG_POLICY = \<lparr>tp_scope_basis = ''armature:tools'', tp_role_basis = ''pair_agent'', tp_allowed_roots_basis =
     ''client_session.workspace_roots'', tp_path_containment =
     ''adapter_enforced_absolute_path_under_allowed_roots'', tp_execution_target = EtArmatureLocal,
     tp_approval_policy = ApNever, tp_sensitive_path_policy = SpDeny, tp_target_policy = NoTarget,
     tp_max_lines = None, tp_max_entries = None, tp_max_results = Some 100, tp_max_bytes = Some 262144,
     tp_recursive_default = None, tp_include_hidden_default = None, tp_max_replacements = None,
     tp_create_files = None, tp_allow_multiple = None, tp_deny_hidden_paths = None, tp_total_timeout_ms = 150000,
     tp_permission_timeout_ms = 120000\<rparr>"

definition ARMATURE_GIT_SHOW_POLICY :: tool_policy where
  "ARMATURE_GIT_SHOW_POLICY = \<lparr>tp_scope_basis = ''armature:tools'', tp_role_basis = ''pair_agent'', tp_allowed_roots_basis =
     ''client_session.workspace_roots'', tp_path_containment =
     ''adapter_enforced_absolute_path_under_allowed_roots'', tp_execution_target = EtArmatureLocal,
     tp_approval_policy = ApNever, tp_sensitive_path_policy = SpDeny, tp_target_policy = NoTarget,
     tp_max_lines = None, tp_max_entries = None, tp_max_results = None, tp_max_bytes = Some 262144,
     tp_recursive_default = None, tp_include_hidden_default = None, tp_max_replacements = None,
     tp_create_files = None, tp_allow_multiple = None, tp_deny_hidden_paths = None, tp_total_timeout_ms = 150000,
     tp_permission_timeout_ms = 120000\<rparr>"

definition ARMATURE_GIT_ADD_POLICY :: tool_policy where
  "ARMATURE_GIT_ADD_POLICY = \<lparr>tp_scope_basis = ''armature:tools'', tp_role_basis = ''pair_agent'', tp_allowed_roots_basis =
     ''client_session.workspace_roots'', tp_path_containment =
     ''adapter_enforced_absolute_path_under_allowed_roots'', tp_execution_target = EtArmatureLocal,
     tp_approval_policy = ApNever, tp_sensitive_path_policy = SpDeny, tp_target_policy = NoTarget,
     tp_max_lines = None, tp_max_entries = Some 100, tp_max_results = None, tp_max_bytes = Some 262144,
     tp_recursive_default = None, tp_include_hidden_default = None, tp_max_replacements = None,
     tp_create_files = None, tp_allow_multiple = None, tp_deny_hidden_paths = None, tp_total_timeout_ms = 150000,
     tp_permission_timeout_ms = 120000\<rparr>"

definition ARMATURE_GIT_WRITE_POLICY :: tool_policy where
  "ARMATURE_GIT_WRITE_POLICY = \<lparr>tp_scope_basis = ''armature:tools'', tp_role_basis = ''pair_agent'', tp_allowed_roots_basis =
     ''client_session.workspace_roots'', tp_path_containment =
     ''adapter_enforced_absolute_path_under_allowed_roots'', tp_execution_target = EtArmatureLocal,
     tp_approval_policy = ApRequired, tp_sensitive_path_policy = SpRequireApproval, tp_target_policy = NoTarget,
     tp_max_lines = None, tp_max_entries = Some 100, tp_max_results = None, tp_max_bytes = Some 262144,
     tp_recursive_default = None, tp_include_hidden_default = None, tp_max_replacements = None,
     tp_create_files = None, tp_allow_multiple = None, tp_deny_hidden_paths = None, tp_total_timeout_ms = 150000,
     tp_permission_timeout_ms = 120000\<rparr>"

definition ARMATURE_PROCESS_RUN_POLICY :: tool_policy where
  "ARMATURE_PROCESS_RUN_POLICY = \<lparr>tp_scope_basis = ''armature:tools'', tp_role_basis = ''pair_agent'', tp_allowed_roots_basis =
     ''client_session.workspace_roots'', tp_path_containment = ''adapter_enforced_absolute_cwd_under_allowed_roots'',
     tp_execution_target = EtArmatureLocal, tp_approval_policy = ApRequired,
     tp_sensitive_path_policy = SpRequireApproval, tp_target_policy = CommandTarget ''command'' ''cwd'',
     tp_max_lines = None, tp_max_entries = None, tp_max_results = None, tp_max_bytes = Some 65536,
     tp_recursive_default = None, tp_include_hidden_default = None, tp_max_replacements = None,
     tp_create_files = None, tp_allow_multiple = None, tp_deny_hidden_paths = None, tp_total_timeout_ms = 120000,
     tp_permission_timeout_ms = 120000\<rparr>"

definition ARMATURE_CHROME_POLICY :: tool_policy where
  "ARMATURE_CHROME_POLICY = \<lparr>tp_scope_basis = ''armature:tools'', tp_role_basis = ''pair_agent'', tp_allowed_roots_basis =
     ''chrome_cdp_endpoint'', tp_path_containment = ''adapter_enforced_chrome_cdp_endpoint'',
     tp_execution_target = EtArmatureLocal, tp_approval_policy = ApRequired,
     tp_sensitive_path_policy = SpRequireApproval, tp_target_policy = NoTarget, tp_max_lines = None,
     tp_max_entries = Some 500, tp_max_results = None, tp_max_bytes = Some 1048576, tp_recursive_default = None,
     tp_include_hidden_default = None, tp_max_replacements = None, tp_create_files = None,
     tp_allow_multiple = None, tp_deny_hidden_paths = None, tp_total_timeout_ms = 120000,
     tp_permission_timeout_ms = 120000\<rparr>"

fun client_tool_policy :: "client_tool_name \<Rightarrow> tool_policy" where
  "client_tool_policy CtReadTextFile = ARMATURE_READ_TEXT_FILE_POLICY"
| "client_tool_policy CtListDirectory = ARMATURE_LIST_DIRECTORY_POLICY"
| "client_tool_policy CtFindPaths = ARMATURE_FIND_PATHS_POLICY"
| "client_tool_policy CtSearchFiles = ARMATURE_SEARCH_FILES_POLICY"
| "client_tool_policy CtStat = ARMATURE_STAT_POLICY"
| "client_tool_policy CtEditFile = ARMATURE_EDIT_FILE_POLICY"
| "client_tool_policy CtCreateTextFile = ARMATURE_CREATE_TEXT_FILE_POLICY"
| "client_tool_policy CtCreateDirectory = ARMATURE_CREATE_DIRECTORY_POLICY"
| "client_tool_policy CtMovePath = ARMATURE_MOVE_PATH_POLICY"
| "client_tool_policy CtCopyPath = ARMATURE_COPY_PATH_POLICY"
| "client_tool_policy CtApplyPatch = ARMATURE_APPLY_PATCH_POLICY"
| "client_tool_policy CtDeletePath = ARMATURE_DELETE_PATH_POLICY"
| "client_tool_policy CtGitStatus = ARMATURE_GIT_STATUS_POLICY"
| "client_tool_policy CtGitDiff = ARMATURE_GIT_DIFF_POLICY"
| "client_tool_policy CtGitLog = ARMATURE_GIT_LOG_POLICY"
| "client_tool_policy CtGitShow = ARMATURE_GIT_SHOW_POLICY"
| "client_tool_policy CtGitAdd = ARMATURE_GIT_ADD_POLICY"
| "client_tool_policy CtGitRestore = ARMATURE_GIT_WRITE_POLICY"
| "client_tool_policy CtGitCommit = ARMATURE_GIT_WRITE_POLICY"
| "client_tool_policy CtGitStash = ARMATURE_GIT_WRITE_POLICY"
| "client_tool_policy CtRunCommand = ARMATURE_PROCESS_RUN_POLICY"
| "client_tool_policy CtProcessRun = ARMATURE_PROCESS_RUN_POLICY"
| "client_tool_policy CtTerminalRunCommand = ARMATURE_PROCESS_RUN_POLICY"
| "client_tool_policy CtChromeOpen = ARMATURE_CHROME_POLICY"
| "client_tool_policy CtChromeSnapshot = ARMATURE_CHROME_POLICY"
| "client_tool_policy CtChromeConsoleMessages = ARMATURE_CHROME_POLICY"
| "client_tool_policy CtChromeNetworkRequests = ARMATURE_CHROME_POLICY"
| "client_tool_policy CtChromeScreenshot = ARMATURE_CHROME_POLICY"
| "client_tool_policy CtMcpCallTool = ARMATURE_PROCESS_RUN_POLICY"

definition word_member :: "string \<Rightarrow> 'a::len word option \<Rightarrow> (string \<times> json) list" where
  "word_member k v = (case v of None \<Rightarrow> [] | Some w \<Rightarrow> [(k, jword w)])"

definition bool_member :: "string \<Rightarrow> bool option \<Rightarrow> (string \<times> json) list" where
  "bool_member k v = (case v of None \<Rightarrow> [] | Some b \<Rightarrow> [(k, JBool b)])"

definition tool_policy_json :: "tool_policy \<Rightarrow> client_tool_descriptor \<Rightarrow> json" where
  "tool_policy_json p d = JObj ([(''scope_basis'', JStr (tp_scope_basis p)), (''role_basis'', JStr (tp_role_basis p)),
     (''allowed_roots_basis'', JStr (tp_allowed_roots_basis p)), (''path_containment'', JStr (tp_path_containment p)),
     (''execution_target'', JStr (execution_target_str (tp_execution_target p))), (''risk'', JStr (ctd_risk d)),
     (''approval_policy'', JStr (approval_policy_str (tp_approval_policy p))),
     (''approval_required'', JBool (requires_unconditional_approval (tp_approval_policy p))),
     (''sensitive_path_policy'', JStr (sensitive_path_str (tp_sensitive_path_policy p))),
     (''target_policy'', target_policy_json (tp_target_policy p)), (''canonical_tool'', JStr (ctd_canonical_name d)),
     (''provider_tool'', JStr (ctd_provider_name d)), (''tool_timeout_ms'', jword (tp_total_timeout_ms p)),
     (''total_timeout_ms'', jword (tp_total_timeout_ms p)), (''permission_timeout_ms'', jword (tp_permission_timeout_ms p))]
     @ word_member ''max_lines'' (tp_max_lines p) @ word_member ''max_entries'' (tp_max_entries p)
     @ word_member ''max_results'' (tp_max_results p) @ word_member ''max_bytes'' (tp_max_bytes p)
     @ bool_member ''recursive_default'' (tp_recursive_default p)
     @ bool_member ''include_hidden_default'' (tp_include_hidden_default p)
     @ word_member ''max_replacements'' (tp_max_replacements p) @ bool_member ''create_files'' (tp_create_files p)
     @ bool_member ''allow_multiple'' (tp_allow_multiple p) @ bool_member ''deny_hidden_paths'' (tp_deny_hidden_paths p))"

definition client_tool_policy_json_for_provider :: "string \<Rightarrow> json" where
  "client_tool_policy_json_for_provider tool_name =
     (case from_provider_alias tool_name of
        None \<Rightarrow> JObj [(''scope_basis'', JStr ''armature:tools''), (''execution_target'', JStr (execution_target_str EtArmatureLocal)),
          (''risk'', JStr ''read_only''), (''approval_policy'', JStr (approval_policy_str ApNever)),
          (''approval_required'', JBool False), (''sensitive_path_policy'', JStr (sensitive_path_str SpDeny)),
          (''target_policy'', target_policy_json NoTarget)]
      | Some tool \<Rightarrow> tool_policy_json (client_tool_policy tool) (tool_descriptor tool))"

end
