(* ===== verification/Turn_Controller.thy ===== *)
theory Turn_Controller
  imports Client_Tools
begin

section \<open>Turn controller\<close>

text \<open>
  \<open>den-service/src/turn_controller.rs\<close>: the state machine of one streamed turn. Every method of
  \<open>TurnController\<close> is a function on the record of its fields; a method that also returns a value
  returns the pair. The \<open>BTreeMap\<close> of obligations is an association list in key order, the
  \<open>BTreeSet\<close> of failed tool names a sorted list, \<open>usize\<close> counters are naturals.
\<close>

subsection \<open>Data\<close>

datatype turn_phase =
    PhCreated | PhStreaming | PhWaitingForObligations | PhContinuingAfterTool | PhCancelling | PhTerminal

datatype tool_execution_route = RtDenServer | RtAdapterLocal | RtUnsupported

datatype tool_obligation_status =
    TosPending | TosRunning | TosSettled | TosFailed | TosTimedOut | TosCancelled | TosLateIgnored

definition tos_is_open :: "tool_obligation_status \<Rightarrow> bool" where
  "tos_is_open s \<longleftrightarrow> s = TosPending \<or> s = TosRunning"

datatype terminal_status = TstOk | TstFailed | TstCancelled | TstRecovered | TstNeedsNewSession

datatype terminal_reason =
    TrEndTurn | TrStreamComplete | TrStreamError | TrToolExecutionFailed | TrToolTimeout | TrCancelled
  | TrOrphanedRequiresApproval | TrUnsupportedTool

record terminal_outcome =
  to_status :: terminal_status
  to_reason :: terminal_reason

record tool_obligation =
  tob_tool_call_id :: string
  tob_tool_name :: string
  tob_route :: tool_execution_route
  tob_status :: tool_obligation_status

datatype tool_result_disposition = DispAccepted | DispLateIgnored | DispUnknownToolCall

record turn_status_snapshot =
  tss_phase :: turn_phase
  tss_open_obligations :: nat
  tss_pending_adapter_tools :: nat
  tss_pending_den_tools :: nat
  tss_pending_permissions :: nat
  tss_terminal_status :: "terminal_status option"
  tss_terminal_reason :: "terminal_reason option"
  tss_orphaned_requires_approval :: bool
  tss_late_results_ignored :: nat

record turn_status_update =
  tsu_key :: string
  tsu_text :: string

record turn_controller =
  tc_phase :: turn_phase
  tc_obligations :: "(string \<times> tool_obligation) list"
  tc_failed_tool_names :: "string list"
  tc_ready_terminal :: "terminal_outcome option"
  tc_emitted_terminal :: "terminal_outcome option"
  tc_orphaned_requires_approval :: bool
  tc_late_results_ignored :: nat
  tc_last_status_key :: "string option"
  tc_client_label :: "string option"
  tc_last_settled_tool_name :: "string option"
  tc_heartbeat_tick :: u32

definition new_turn_controller :: turn_controller where
  "new_turn_controller = \<lparr>tc_phase = PhCreated, tc_obligations = [], tc_failed_tool_names = [], tc_ready_terminal = None,
     tc_emitted_terminal = None, tc_orphaned_requires_approval = False, tc_late_results_ignored = 0, tc_last_status_key = None,
     tc_client_label = None, tc_last_settled_tool_name = None, tc_heartbeat_tick = 0\<rparr>"

text \<open>\<open>BTreeMap::insert\<close>, and an update of the value at a key (\<open>get_mut\<close>).\<close>

fun btree_insert :: "'k::linorder \<Rightarrow> 'v \<Rightarrow> ('k \<times> 'v) list \<Rightarrow> ('k \<times> 'v) list" where
  "btree_insert k v [] = [(k, v)]"
| "btree_insert k v ((k', v') # m) =
     (if k = k' then (k, v) # m else if k < k' then (k, v) # (k', v') # m else (k', v') # btree_insert k v m)"

definition map_at :: "'k \<Rightarrow> ('v \<Rightarrow> 'v) \<Rightarrow> ('k \<times> 'v) list \<Rightarrow> ('k \<times> 'v) list" where
  "map_at k f m = map (\<lambda>(k', v). (k', if k' = k then f v else v)) m"

subsection \<open>Reading\<close>

definition find_obligation :: "turn_controller \<Rightarrow> string \<Rightarrow> tool_obligation option" where
  "find_obligation tc tool_call_id = map_of (tc_obligations tc) tool_call_id"

definition open_obligations :: "turn_controller \<Rightarrow> tool_obligation list" where
  "open_obligations tc = filter (\<lambda>o1. tos_is_open (tob_status o1)) (map snd (tc_obligations tc))"

definition open_obligation_count :: "turn_controller \<Rightarrow> nat" where
  "open_obligation_count tc = length (open_obligations tc)"

definition status_snapshot :: "turn_controller \<Rightarrow> turn_status_snapshot" where
  "status_snapshot tc =
     (let terminal = or_else (tc_emitted_terminal tc) (tc_ready_terminal tc) in
      \<lparr>tss_phase = tc_phase tc, tss_open_obligations = open_obligation_count tc,
       tss_pending_adapter_tools = length (filter (\<lambda>o1. tob_route o1 = RtAdapterLocal) (open_obligations tc)),
       tss_pending_den_tools = length (filter (\<lambda>o1. tob_route o1 = RtDenServer) (open_obligations tc)),
       tss_pending_permissions = 0,
       tss_terminal_status = map_option to_status terminal, tss_terminal_reason = map_option to_reason terminal,
       tss_orphaned_requires_approval = tc_orphaned_requires_approval tc,
       tss_late_results_ignored = tc_late_results_ignored tc\<rparr>)"

subsection \<open>Status texts\<close>

definition client_display_name :: "string \<Rightarrow> string" where
  "client_display_name client =
     (let c = to_ascii_lowercase (trim client) in
      if c = ''zed'' then ''Zed'' else if c = ''cursor'' then ''Cursor''
      else if c \<in> set [''vscode'', ''code''] then ''VS Code'' else ''your editor'')"

text \<open>\<open>s.split(sep)\<close> for a separator of more than one byte, and \<open>s.replace('_', " ")\<close>.\<close>

fun split_sep :: "string \<Rightarrow> nat \<Rightarrow> string \<Rightarrow> string \<Rightarrow> string list" where
  "split_sep sep 0 cur s = [cur @ s]"
| "split_sep sep (Suc n) cur [] = [cur]"
| "split_sep sep (Suc n) cur (c # s) =
     (if prefix sep (c # s) then cur # split_sep sep n [] (drop (length sep) (c # s)) else split_sep sep n (cur @ [c]) s)"

definition underscores_to_spaces :: "string \<Rightarrow> string" where
  "underscores_to_spaces s = map (\<lambda>c. if c = CHR ''_'' then CHR 0x20 else c) s"

definition humanize_tool_name :: "string \<Rightarrow> string" where
  "humanize_tool_name tool_name =
     (case from_provider_alias tool_name of
        Some tool \<Rightarrow> ctd_title (tool_descriptor tool)
      | None \<Rightarrow>
         (let parts = (case strip_prefix ''mcp__'' tool_name of None \<Rightarrow> [] | Some rest \<Rightarrow> split_sep ''__'' (length rest) [] rest) in
          if length parts \<ge> 2
          then underscores_to_spaces (hd parts) @ '': '' @ underscores_to_spaces (join_str '' '' (tl parts))
          else underscores_to_spaces tool_name))"

definition client_name :: "turn_controller \<Rightarrow> string" where
  "client_name tc = (case tc_client_label tc of Some c \<Rightarrow> client_display_name c | None \<Rightarrow> ''your editor'')"

definition planning_status :: "turn_controller \<Rightarrow> turn_status_update" where
  "planning_status tc = \<lparr>tsu_key = ''planning'', tsu_text = ''Planning next step '' @ [CHR 0xE2, CHR 0x80, CHR 0x94]
     @ '' may call Den memory tools or '' @ client_name tc @ '' workspace tools'' @ ellipsis\<rparr>"

definition waiting_for_obligations_status :: "turn_controller \<Rightarrow> turn_status_update" where
  "waiting_for_obligations_status tc =
     (let opens = open_obligations tc;
          extra = (if length opens > 1 then '' (+'' @ show_nat (length opens - 1) @ '' more)'' else [])
      in case opens of
           [] \<Rightarrow> \<lparr>tsu_key = ''waiting_for_obligations'', tsu_text = ''Waiting for turn obligations'' @ ellipsis\<rparr>
         | first # _ \<Rightarrow>
            (let label = humanize_tool_name (tob_tool_name first) in
             case tob_route first of
               RtAdapterLocal \<Rightarrow> \<lparr>tsu_key = ''waiting_local:'' @ tob_tool_name first,
                 tsu_text = ''Waiting for '' @ label @ '' in '' @ client_name tc @ extra @ ellipsis\<rparr>
             | RtDenServer \<Rightarrow> \<lparr>tsu_key = ''running_den:'' @ tob_tool_name first,
                 tsu_text = ''Running '' @ label @ '' on Den'' @ extra @ ellipsis\<rparr>
             | RtUnsupported \<Rightarrow> \<lparr>tsu_key = ''unsupported_tool:'' @ tob_tool_name first,
                 tsu_text = ''Tool not available: '' @ label @ extra @ ellipsis\<rparr>))"

definition continuing_after_tool_status :: "turn_controller \<Rightarrow> turn_status_update" where
  "continuing_after_tool_status tc =
     (let tool_name = unwrap_or (tc_last_settled_tool_name tc) ''tool'' in
      \<lparr>tsu_key = ''continuing_after:'' @ tool_name,
       tsu_text = ''Continuing after '' @ humanize_tool_name tool_name @ ellipsis\<rparr>)"

definition current_status_update :: "turn_controller \<Rightarrow> turn_status_update option" where
  "current_status_update tc =
     (if tc_orphaned_requires_approval tc \<and> tc_phase tc \<noteq> PhTerminal
      then Some \<lparr>tsu_key = ''recovering_stale_approval'', tsu_text = ''Recovering stale model approval'' @ ellipsis\<rparr>
      else case tc_phase tc of
        PhCreated \<Rightarrow> None
      | PhStreaming \<Rightarrow> Some (planning_status tc)
      | PhWaitingForObligations \<Rightarrow> Some (waiting_for_obligations_status tc)
      | PhContinuingAfterTool \<Rightarrow> Some (continuing_after_tool_status tc)
      | PhCancelling \<Rightarrow> Some \<lparr>tsu_key = ''cancelling'', tsu_text = ''Cancelling turn'' @ ellipsis\<rparr>
      | PhTerminal \<Rightarrow> None)"

definition take_status_update :: "turn_controller \<Rightarrow> turn_controller \<times> turn_status_update option" where
  "take_status_update tc =
     (case current_status_update tc of
        None \<Rightarrow> (tc, None)
      | Some u \<Rightarrow> if tc_last_status_key tc = Some (tsu_key u) then (tc, None)
          else (tc\<lparr>tc_last_status_key := Some (tsu_key u)\<rparr>, Some u))"

fun trim_ellipsis_rev :: "string \<Rightarrow> string" where
  "trim_ellipsis_rev (a # b # c # s) = (if [c, b, a] = ellipsis then trim_ellipsis_rev s else a # b # c # s)"
| "trim_ellipsis_rev s = s"

definition heartbeat_text :: "turn_controller \<Rightarrow> u32 \<Rightarrow> string \<times> string" where
  "heartbeat_text tc tick =
     (if tc_orphaned_requires_approval tc \<and> tc_phase tc \<noteq> PhTerminal
      then (''recovering'', (if unat tick mod 2 = 0 then ''Recovering stale model approval'' else ''Cleaning up interrupted approval state'') @ ellipsis)
      else case tc_phase tc of
        PhCreated \<Rightarrow> (''starting'', ''Starting turn'' @ ellipsis)
      | PhStreaming \<Rightarrow> (''streaming'', [''Connecting to model'', ''Waiting for response'', ''Still thinking''] ! (unat tick mod 3) @ ellipsis)
      | PhWaitingForObligations \<Rightarrow>
         (let base = rev (trim_ellipsis_rev (rev (tsu_text (waiting_for_obligations_status tc)))) in
          (''waiting'', if unat tick mod 3 = 0 then base @ '' (still waiting)'' @ ellipsis else base))
      | PhContinuingAfterTool \<Rightarrow>
         (let label = humanize_tool_name (unwrap_or (tc_last_settled_tool_name tc) ''tool'') in
          (''continuing'', [''Continuing after '' @ label, ''Waiting for model'', ''Resuming after '' @ label] ! (unat tick mod 3) @ ellipsis))
      | PhCancelling \<Rightarrow> (''cancelling'', ''Cancelling turn'' @ ellipsis)
      | PhTerminal \<Rightarrow> (''terminal'', ''Finishing turn'' @ ellipsis))"

definition heartbeat_status_update :: "turn_controller \<Rightarrow> turn_controller \<times> turn_status_update" where
  "heartbeat_status_update tc =
     (let tick = tc_heartbeat_tick tc + 1 in
      case heartbeat_text tc tick of (name, t) \<Rightarrow>
        (tc\<lparr>tc_heartbeat_tick := tick\<rparr>, \<lparr>tsu_key = ''heartbeat:'' @ name @ '':'' @ show_word tick, tsu_text = t\<rparr>))"

subsection \<open>Events\<close>

definition set_client_label :: "string \<Rightarrow> turn_controller \<Rightarrow> turn_controller" where
  "set_client_label client tc = (if trim client \<noteq> [] then tc\<lparr>tc_client_label := Some client\<rparr> else tc)"

definition on_stream_started :: "turn_controller \<Rightarrow> turn_controller" where
  "on_stream_started tc = (if tc_phase tc = PhCreated then tc\<lparr>tc_phase := PhStreaming\<rparr> else tc)"

definition requested_status :: "tool_execution_route \<Rightarrow> tool_obligation_status" where
  "requested_status route = (case route of RtDenServer \<Rightarrow> TosRunning | RtAdapterLocal \<Rightarrow> TosPending | RtUnsupported \<Rightarrow> TosFailed)"

definition on_tool_request :: "string \<Rightarrow> string \<Rightarrow> tool_execution_route \<Rightarrow> turn_controller \<Rightarrow> turn_controller" where
  "on_tool_request tool_call_id tool_name route tc =
     (let tc1 = tc\<lparr>tc_obligations := btree_insert tool_call_id
            \<lparr>tob_tool_call_id = tool_call_id, tob_tool_name = tool_name, tob_route = route, tob_status = requested_status route\<rparr>
            (tc_obligations tc)\<rparr>;
          tc2 = (if open_obligation_count tc1 > 0 \<and> tc_phase tc1 \<noteq> PhTerminal then tc1\<lparr>tc_phase := PhWaitingForObligations\<rparr> else tc1)
      in if route = RtUnsupported
         then tc2\<lparr>tc_ready_terminal := Some (unwrap_or (tc_ready_terminal tc2) \<lparr>to_status = TstFailed, to_reason = TrUnsupportedTool\<rparr>)\<rparr>
         else tc2)"

definition advance_after_obligation_change :: "turn_controller \<Rightarrow> turn_controller" where
  "advance_after_obligation_change tc =
     (if tc_phase tc \<noteq> PhTerminal \<and> open_obligation_count tc = 0 then tc\<lparr>tc_phase := PhContinuingAfterTool\<rparr> else tc)"

definition set_obligation_status :: "string \<Rightarrow> tool_obligation_status \<Rightarrow> turn_controller \<Rightarrow> turn_controller" where
  "set_obligation_status i s tc = tc\<lparr>tc_obligations := map_at i (\<lambda>o1. o1\<lparr>tob_status := s\<rparr>) (tc_obligations tc)\<rparr>"

definition ignore_late :: "turn_controller \<Rightarrow> turn_controller" where
  "ignore_late tc = tc\<lparr>tc_late_results_ignored := tc_late_results_ignored tc + 1\<rparr>"

definition settle_tool :: "string \<Rightarrow> bool \<Rightarrow> turn_controller \<Rightarrow> turn_controller \<times> tool_result_disposition" where
  "settle_tool i succeeded tc =
     (if tc_emitted_terminal tc \<noteq> None then (ignore_late tc, DispLateIgnored)
      else case find_obligation tc i of
        None \<Rightarrow> (tc, DispUnknownToolCall)
      | Some o1 \<Rightarrow>
          if \<not> tos_is_open (tob_status o1) then (set_obligation_status i TosLateIgnored (ignore_late tc), DispLateIgnored)
          else
            (let tc1 = set_obligation_status i (if succeeded then TosSettled else TosFailed) tc;
                 tc2 = (if succeeded then tc1\<lparr>tc_last_settled_tool_name := Some (tob_tool_name o1),
                            tc_failed_tool_names := filter (\<lambda>n. n \<noteq> tob_tool_name o1) (tc_failed_tool_names tc1)\<rparr>
                        else tc1\<lparr>tc_failed_tool_names := insort_insert (tob_tool_name o1) (tc_failed_tool_names tc1)\<rparr>)
             in (advance_after_obligation_change tc2, DispAccepted)))"

definition on_den_tool_settled :: "string \<Rightarrow> bool \<Rightarrow> turn_controller \<Rightarrow> turn_controller \<times> tool_result_disposition" where
  "on_den_tool_settled i succeeded tc = settle_tool i succeeded tc"

definition on_adapter_tool_result :: "string \<Rightarrow> bool \<Rightarrow> turn_controller \<Rightarrow> turn_controller \<times> tool_result_disposition" where
  "on_adapter_tool_result i succeeded tc = settle_tool i succeeded tc"

definition on_tool_timeout :: "string \<Rightarrow> turn_controller \<Rightarrow> turn_controller \<times> tool_result_disposition" where
  "on_tool_timeout i tc =
     (if tc_emitted_terminal tc \<noteq> None then (ignore_late tc, DispLateIgnored)
      else case find_obligation tc i of
        None \<Rightarrow> (tc, DispUnknownToolCall)
      | Some o1 \<Rightarrow>
          if \<not> tos_is_open (tob_status o1) then (set_obligation_status i TosLateIgnored (ignore_late tc), DispLateIgnored)
          else (advance_after_obligation_change ((set_obligation_status i TosTimedOut tc)
                  \<lparr>tc_ready_terminal := Some \<lparr>to_status = TstFailed, to_reason = TrToolTimeout\<rparr>\<rparr>), DispAccepted))"

definition on_requires_approval_stop :: "turn_controller \<Rightarrow> turn_controller" where
  "on_requires_approval_stop tc =
     (if open_obligation_count tc > 0 then tc\<lparr>tc_phase := PhWaitingForObligations\<rparr>
      else tc\<lparr>tc_orphaned_requires_approval := True, tc_phase := PhWaitingForObligations,
        tc_ready_terminal := Some \<lparr>to_status = TstRecovered, to_reason = TrOrphanedRequiresApproval\<rparr>\<rparr>)"

definition on_stream_end :: "turn_controller \<Rightarrow> turn_controller" where
  "on_stream_end tc =
     (if open_obligation_count tc > 0 then tc\<lparr>tc_phase := PhWaitingForObligations\<rparr>
      else tc\<lparr>tc_ready_terminal := Some (unwrap_or (tc_ready_terminal tc)
        (if tc_failed_tool_names tc \<noteq> [] then \<lparr>to_status = TstFailed, to_reason = TrToolExecutionFailed\<rparr>
         else \<lparr>to_status = TstOk, to_reason = TrEndTurn\<rparr>))\<rparr>)"

definition on_stream_error :: "turn_controller \<Rightarrow> turn_controller" where
  "on_stream_error tc = tc\<lparr>tc_ready_terminal := Some \<lparr>to_status = TstFailed, to_reason = TrStreamError\<rparr>\<rparr>"

definition on_cancel :: "turn_controller \<Rightarrow> turn_controller" where
  "on_cancel tc =
     (if tc_emitted_terminal tc \<noteq> None then tc
      else tc\<lparr>tc_phase := PhCancelling,
        tc_obligations := map (\<lambda>(k, o1). (k, if tos_is_open (tob_status o1) then o1\<lparr>tob_status := TosCancelled\<rparr> else o1)) (tc_obligations tc),
        tc_ready_terminal := Some \<lparr>to_status = TstCancelled, to_reason = TrCancelled\<rparr>\<rparr>)"

definition may_emit_terminal :: "turn_controller \<Rightarrow> bool" where
  "may_emit_terminal tc \<longleftrightarrow> tc_ready_terminal tc \<noteq> None \<and> tc_emitted_terminal tc = None \<and> open_obligation_count tc = 0"

definition take_terminal_event :: "turn_controller \<Rightarrow> turn_controller \<times> terminal_outcome option" where
  "take_terminal_event tc =
     (if \<not> may_emit_terminal tc then (tc, None)
      else case tc_ready_terminal tc of
        None \<Rightarrow> (tc, None)
      | Some outcome \<Rightarrow> (tc\<lparr>tc_ready_terminal := None, tc_emitted_terminal := Some outcome, tc_phase := PhTerminal\<rparr>, Some outcome))"

subsection \<open>Runs\<close>

datatype turn_input =
    InStreamStarted | InToolRequest string string tool_execution_route | InDenSettled string bool
  | InAdapterResult string bool | InToolTimeout string | InApprovalStop | InStreamEnd | InStreamError | InCancel
  | InClientLabel string | InTakeStatus | InHeartbeat | InTakeTerminal

fun step_turn :: "turn_controller \<Rightarrow> turn_input \<Rightarrow> turn_controller" where
  "step_turn tc InStreamStarted = on_stream_started tc"
| "step_turn tc (InToolRequest i n r) = on_tool_request i n r tc"
| "step_turn tc (InDenSettled i k) = fst (on_den_tool_settled i k tc)"
| "step_turn tc (InAdapterResult i k) = fst (on_adapter_tool_result i k tc)"
| "step_turn tc (InToolTimeout i) = fst (on_tool_timeout i tc)"
| "step_turn tc InApprovalStop = on_requires_approval_stop tc"
| "step_turn tc InStreamEnd = on_stream_end tc"
| "step_turn tc InStreamError = on_stream_error tc"
| "step_turn tc InCancel = on_cancel tc"
| "step_turn tc (InClientLabel c) = set_client_label c tc"
| "step_turn tc InTakeStatus = fst (take_status_update tc)"
| "step_turn tc InHeartbeat = fst (heartbeat_status_update tc)"
| "step_turn tc InTakeTerminal = fst (take_terminal_event tc)"

text \<open>What a run hands to its caller as terminal events, in order.\<close>

definition emission :: "turn_controller \<Rightarrow> turn_input \<Rightarrow> terminal_outcome list" where
  "emission tc x = (if x = InTakeTerminal then (case snd (take_terminal_event tc) of None \<Rightarrow> [] | Some t \<Rightarrow> [t]) else [])"

fun emissions :: "turn_controller \<Rightarrow> turn_input list \<Rightarrow> terminal_outcome list" where
  "emissions tc [] = []"
| "emissions tc (x # xs) = emission tc x @ emissions (step_turn tc x) xs"

end
