(* ===== verification/Turn_Controller_Properties.thy ===== *)
theory Turn_Controller_Properties
  imports Turn_Controller
begin

section \<open>Properties of the turn controller\<close>

text \<open>
  Turns as sequences of inputs (\<open>turn_input\<close>): the invariant of the obligations, what a run can no
  longer take back once the turn is spoiled, the settling of open obligations one by one, and the
  properties of the terminal event.
\<close>

subsection \<open>Obligations by key\<close>

lemma map_of_map_at: "map_of (map_at k f m) k' = (if k' = k then map_option f (map_of m k) else map_of m k')"
  by (induction m) (auto simp: map_at_def)

lemma keys_map_at [simp]: "map fst (map_at k f m) = map fst m"
  by (simp add: map_at_def comp_def case_prod_beta)

lemma set_btree_insert: "set (btree_insert k v m) \<subseteq> insert (k, v) (set m)"
  by (induction m) (auto split: if_splits)

lemma keys_btree_insert: "set (map fst (btree_insert k v m)) = insert k (set (map fst m))"
proof (induction m)
  case (Cons kv m)
  then show ?case by (cases kv) (simp add: insert_commute)
qed simp

lemma sorted_btree_insert:
  "sorted_wrt (<) (map fst m) \<Longrightarrow> sorted_wrt (<) (map fst (btree_insert k (v :: 'v) m))"
proof (induction m)
  case (Cons kv m)
  obtain k' v' where kv: "kv = (k', v')" by fastforce
  have "set (map fst (btree_insert k v m)) = insert k (set (map fst m))" by (rule keys_btree_insert)
  then show ?case using Cons kv by (auto simp: not_less_iff_gr_or_eq)
qed simp

definition unsupported_closed :: "tool_obligation \<Rightarrow> bool" where
  "unsupported_closed o1 \<longleftrightarrow> (tob_route o1 = RtUnsupported \<longrightarrow> \<not> tos_is_open (tob_status o1))"

text \<open>Keys in order, each obligation under its own id, and no unsupported tool waited for.\<close>

definition obligations_ok :: "(string \<times> tool_obligation) list \<Rightarrow> bool" where
  "obligations_ok m \<longleftrightarrow> sorted_wrt (<) (map fst m) \<and> (\<forall>kv \<in> set m. tob_tool_call_id (snd kv) = fst kv \<and> unsupported_closed (snd kv))"

lemma obligations_ok_insert:
  assumes "obligations_ok m" and "tob_tool_call_id v = k" and "unsupported_closed v"
  shows "obligations_ok (btree_insert k v m)"
  using assms sorted_btree_insert [of m k v] set_btree_insert [of k v m] unfolding obligations_ok_def by fastforce

lemma obligations_ok_update:
  assumes "obligations_ok m" and "map fst m' = map fst m"
    and "\<And>kv'. kv' \<in> set m' \<Longrightarrow> \<exists>kv \<in> set m. fst kv' = fst kv \<and> tob_tool_call_id (snd kv') = tob_tool_call_id (snd kv)
          \<and> tob_route (snd kv') = tob_route (snd kv) \<and> (tos_is_open (tob_status (snd kv')) \<longrightarrow> tos_is_open (tob_status (snd kv)))"
  shows "obligations_ok m'"
proof -
  have "tob_tool_call_id (snd kv') = fst kv' \<and> unsupported_closed (snd kv')" if "kv' \<in> set m'" for kv'
    using assms(3) [OF that] assms(1) by (auto simp: obligations_ok_def unsupported_closed_def)
  then show ?thesis using assms(1,2) by (simp add: obligations_ok_def)
qed

lemma obligations_ok_close:
  assumes "obligations_ok m" and "\<not> tos_is_open s"
  shows "obligations_ok (map_at i (\<lambda>o1. o1\<lparr>tob_status := s\<rparr>) m)"
proof (rule obligations_ok_update [OF assms(1)])
  fix kv' assume "kv' \<in> set (map_at i (\<lambda>o1. o1\<lparr>tob_status := s\<rparr>) m)"
  then obtain k o1 where "(k, o1) \<in> set m" "kv' = (k, if k = i then o1\<lparr>tob_status := s\<rparr> else o1)"
    by (auto simp: map_at_def)
  then show "\<exists>kv \<in> set m. fst kv' = fst kv \<and> tob_tool_call_id (snd kv') = tob_tool_call_id (snd kv)
          \<and> tob_route (snd kv') = tob_route (snd kv) \<and> (tos_is_open (tob_status (snd kv')) \<longrightarrow> tos_is_open (tob_status (snd kv)))"
    using assms(2) by (intro bexI [of _ "(k, o1)"]) auto
qed simp

lemma closed_statuses [simp]: "tos_is_open TosPending" "tos_is_open TosRunning" "\<not> tos_is_open TosSettled" "\<not> tos_is_open TosFailed"
  "\<not> tos_is_open TosTimedOut" "\<not> tos_is_open TosCancelled" "\<not> tos_is_open TosLateIgnored"
  by (simp_all add: tos_is_open_def)

lemma obligations_ok_cancel:
  assumes "obligations_ok m"
  shows "obligations_ok (map (\<lambda>(k, o1). (k, if tos_is_open (tob_status o1) then o1\<lparr>tob_status := TosCancelled\<rparr> else o1)) m)"
proof (rule obligations_ok_update [OF assms])
  fix kv'
  assume "kv' \<in> set (map (\<lambda>(k, o1). (k, if tos_is_open (tob_status o1) then o1\<lparr>tob_status := TosCancelled\<rparr> else o1)) m)"
  then obtain k o1 where "(k, o1) \<in> set m" "kv' = (k, if tos_is_open (tob_status o1) then o1\<lparr>tob_status := TosCancelled\<rparr> else o1)"
    by auto
  then show "\<exists>kv \<in> set m. fst kv' = fst kv \<and> tob_tool_call_id (snd kv') = tob_tool_call_id (snd kv)
          \<and> tob_route (snd kv') = tob_route (snd kv) \<and> (tos_is_open (tob_status (snd kv')) \<longrightarrow> tos_is_open (tob_status (snd kv)))"
    by (intro bexI [of _ "(k, o1)"]) auto
qed (simp add: comp_def case_prod_beta)

subsection \<open>What each input does\<close>

lemmas turn_defs = on_stream_started_def on_tool_request_def on_den_tool_settled_def on_adapter_tool_result_def settle_tool_def
  on_tool_timeout_def on_requires_approval_stop_def on_stream_end_def on_stream_error_def on_cancel_def set_client_label_def
  take_status_update_def heartbeat_status_update_def take_terminal_event_def advance_after_obligation_change_def
  set_obligation_status_def ignore_late_def

lemma step_obligations:
  assumes "obligations_ok (tc_obligations tc)"
  shows "obligations_ok (tc_obligations (step_turn tc x))"
proof (cases x)
  case (InToolRequest i n r)
  then show ?thesis using assms
    by (cases r) (auto simp: on_tool_request_def Let_def unsupported_closed_def requested_status_def intro!: obligations_ok_insert)
qed (use assms obligations_ok_close obligations_ok_cancel in \<open>auto simp: turn_defs Let_def split: option.splits prod.splits\<close>)

interpretation turn_obligations: step_invariant step_turn "\<lambda>tc. obligations_ok (tc_obligations tc)"
  by unfold_locales (rule step_obligations)

lemma step_emitted: "tc_emitted_terminal tc \<noteq> None \<Longrightarrow> tc_emitted_terminal (step_turn tc x) = tc_emitted_terminal tc"
  by (cases x) (auto simp: turn_defs Let_def may_emit_terminal_def split: option.splits prod.splits)

lemma emission_cases: "emission tc x = [] \<or> (\<exists>t. emission tc x = [t] \<and> x = InTakeTerminal \<and> tc_emitted_terminal tc = None
    \<and> tc_ready_terminal tc = Some t \<and> open_obligation_count tc = 0 \<and> tc_emitted_terminal (step_turn tc x) = Some t)"
  by (auto simp: emission_def take_terminal_event_def may_emit_terminal_def split: option.splits)

lemma no_second_emission: "tc_emitted_terminal tc \<noteq> None \<Longrightarrow> emissions tc xs = []"
proof (induction xs arbitrary: tc)
  case (Cons x xs)
  have "emission tc x = []" using emission_cases [of tc x] Cons.prems by auto
  then show ?case using Cons step_emitted [of tc x] by simp
qed simp

lemma emissions_at_most_once: "length (emissions tc xs) \<le> 1"
proof (induction xs arbitrary: tc)
  case (Cons x xs)
  from emission_cases [of tc x] show ?case
  proof
    assume "emission tc x = []"
    then show ?thesis using Cons by simp
  next
    assume "\<exists>t. emission tc x = [t] \<and> x = InTakeTerminal \<and> tc_emitted_terminal tc = None
      \<and> tc_ready_terminal tc = Some t \<and> open_obligation_count tc = 0 \<and> tc_emitted_terminal (step_turn tc x) = Some t"
    then show ?thesis using no_second_emission [of "step_turn tc x" xs] by auto
  qed
qed simp

subsection \<open>Outcomes\<close>

text \<open>A turn that cannot end well any more, and obligations that stand for one.\<close>

definition lost_obligation :: "turn_controller \<Rightarrow> bool" where
  "lost_obligation tc \<longleftrightarrow> (\<exists>kv \<in> set (tc_obligations tc). tob_status (snd kv) \<in> {TosTimedOut, TosCancelled})"

definition spoiled :: "turn_controller \<Rightarrow> bool" where
  "spoiled tc \<longleftrightarrow> tc_emitted_terminal tc \<noteq> None \<or> (\<exists>t. tc_ready_terminal tc = Some t \<and> to_status t \<noteq> TstOk)"

lemma step_spoiled: "spoiled tc \<Longrightarrow> spoiled (step_turn tc x)"
  by (cases x) (auto simp: spoiled_def turn_defs Let_def may_emit_terminal_def split: option.splits prod.splits)

lemma spoils_spoiled: "x = InCancel \<or> x = InStreamError \<Longrightarrow> spoiled (step_turn tc x)"
  by (cases "tc_emitted_terminal tc") (auto simp: spoiled_def turn_defs)

lemma run_spoiled: "spoiled tc \<or> InCancel \<in> set xs \<or> InStreamError \<in> set xs \<Longrightarrow> spoiled (run_ops step_turn tc xs)"
proof (induction xs arbitrary: tc)
  case (Cons x xs)
  then show ?case using step_spoiled [of tc x] spoils_spoiled [of x tc] by auto
qed simp

lemma lost_map_at:
  assumes "\<exists>kv \<in> set (map_at i (\<lambda>o1. o1\<lparr>tob_status := s\<rparr>) m). tob_status (snd kv) \<in> {TosTimedOut, TosCancelled}"
    and "s \<notin> {TosTimedOut, TosCancelled}"
  shows "\<exists>kv \<in> set m. tob_status (snd kv) \<in> {TosTimedOut, TosCancelled}"
  using assms by (auto simp: map_at_def split: if_splits)

lemma lost_insert:
  assumes "\<exists>kv \<in> set (btree_insert k v m). tob_status (snd kv) \<in> {TosTimedOut, TosCancelled}"
    and "tob_status v \<notin> {TosTimedOut, TosCancelled}"
  shows "\<exists>kv \<in> set m. tob_status (snd kv) \<in> {TosTimedOut, TosCancelled}"
  using assms set_btree_insert [of k v m] by fastforce

lemma step_obligation_fields: 
  "tc_obligations (advance_after_obligation_change tc) = tc_obligations tc" "tc_obligations (ignore_late tc) = tc_obligations tc"
  by (simp_all add: advance_after_obligation_change_def ignore_late_def)

lemma step_lost:
  assumes lost: "lost_obligation (step_turn tc x)"
  shows "lost_obligation tc \<or> spoiled (step_turn tc x)"
proof (cases x)
  case (InToolRequest i n r)
  have "tob_status \<lparr>tob_tool_call_id = i, tob_tool_name = n, tob_route = r, tob_status = requested_status r\<rparr> \<notin> {TosTimedOut, TosCancelled}"
    by (cases r) (simp_all add: requested_status_def)
  then show ?thesis using lost lost_insert [of i _ "tc_obligations tc"] InToolRequest
    by (auto simp: lost_obligation_def on_tool_request_def Let_def split: if_splits)
next
  case (InToolTimeout i)
  then show ?thesis using lost lost_map_at [of i TosLateIgnored "tc_obligations tc"]
    by (auto simp: lost_obligation_def spoiled_def on_tool_timeout_def set_obligation_status_def step_obligation_fields
        advance_after_obligation_change_def split: option.splits if_splits)
next
  case InCancel
  then show ?thesis using spoils_spoiled by blast
next
  case (InDenSettled i b)
  then show ?thesis using lost lost_map_at [of i TosLateIgnored "tc_obligations tc"] lost_map_at [of i TosSettled "tc_obligations tc"]
      lost_map_at [of i TosFailed "tc_obligations tc"]
    by (auto simp: lost_obligation_def on_den_tool_settled_def settle_tool_def set_obligation_status_def step_obligation_fields Let_def
        split: option.splits if_splits)
next
  case (InAdapterResult i b)
  then show ?thesis using lost lost_map_at [of i TosLateIgnored "tc_obligations tc"] lost_map_at [of i TosSettled "tc_obligations tc"]
      lost_map_at [of i TosFailed "tc_obligations tc"]
    by (auto simp: lost_obligation_def on_adapter_tool_result_def settle_tool_def set_obligation_status_def step_obligation_fields Let_def
        split: option.splits if_splits)
qed (use lost in \<open>auto simp: lost_obligation_def turn_defs Let_def split: option.splits prod.splits if_splits\<close>)

interpretation turn_lost: step_invariant step_turn "\<lambda>tc. lost_obligation tc \<longrightarrow> spoiled tc"
  by unfold_locales (use step_lost step_spoiled in blast)

subsection \<open>The terminal phase\<close>

lemma emitted_waits:
  assumes "tc_emitted_terminal tc \<noteq> None" and "tc_phase tc = PhWaitingForObligations"
  shows "tc_phase (step_turn tc x) = PhWaitingForObligations"
  using assms by (cases x) (auto simp: turn_defs Let_def may_emit_terminal_def split: option.splits prod.splits)

lemma emitted_waits_run:
  assumes "tc_emitted_terminal tc \<noteq> None" and "tc_phase tc = PhWaitingForObligations"
  shows "tc_phase (run_ops step_turn tc xs) = PhWaitingForObligations"
  using assms
proof (induction xs arbitrary: tc)
  case (Cons x xs)
  then show ?case using emitted_waits [of tc x] step_emitted [of tc x] by simp
qed simp

subsection \<open>Settling everything\<close>

definition open_ids :: "turn_controller \<Rightarrow> string list" where
  "open_ids tc = map fst (filter (\<lambda>kv. tos_is_open (tob_status (snd kv))) (tc_obligations tc))"

lemma open_ids_count: "open_obligation_count tc = length (open_ids tc)"
  by (simp add: open_obligation_count_def open_obligations_def open_ids_def filter_map comp_def)

lemma filter_map_at_close:
  "\<not> tos_is_open s \<Longrightarrow> map fst (filter (\<lambda>kv. tos_is_open (tob_status (snd kv))) (map_at i (\<lambda>o1. o1\<lparr>tob_status := s\<rparr>) m))
    = filter (\<lambda>k. k \<noteq> i) (map fst (filter (\<lambda>kv. tos_is_open (tob_status (snd kv))) m))"
  by (induction m) (auto simp: map_at_def)

lemma settle_open:
  assumes ok: "obligations_ok (tc_obligations tc)" and em: "tc_emitted_terminal tc = None" and i: "i \<in> set (open_ids tc)"
  shows "open_ids (fst (settle_tool i b tc)) = filter (\<lambda>k. k \<noteq> i) (open_ids tc)"
    and "tc_emitted_terminal (fst (settle_tool i b tc)) = None" and "snd (settle_tool i b tc) = DispAccepted"
proof -
  obtain o1 where o1: "(i, o1) \<in> set (tc_obligations tc)" "tos_is_open (tob_status o1)" using i by (auto simp: open_ids_def)
  have "distinct (map fst (tc_obligations tc))" using ok strict_sorted_iff unfolding obligations_ok_def by blast
  then have f: "find_obligation tc i = Some o1" using o1(1) by (simp add: find_obligation_def)
  show "open_ids (fst (settle_tool i b tc)) = filter (\<lambda>k. k \<noteq> i) (open_ids tc)"
    using em f o1(2) filter_map_at_close [of "if b then TosSettled else TosFailed" i "tc_obligations tc"]
    by (auto simp: settle_tool_def Let_def open_ids_def step_obligation_fields set_obligation_status_def)
  show "tc_emitted_terminal (fst (settle_tool i b tc)) = None" "snd (settle_tool i b tc) = DispAccepted"
    using em f o1(2) by (auto simp: settle_tool_def Let_def advance_after_obligation_change_def set_obligation_status_def)
qed

lemma settle_all:
  assumes "obligations_ok (tc_obligations tc)" and "tc_emitted_terminal tc = None" and "set is = set (open_ids tc)" and "distinct is"
  shows "open_ids (run_ops step_turn tc (map (\<lambda>i. InAdapterResult i (b i)) is)) = []
    \<and> tc_emitted_terminal (run_ops step_turn tc (map (\<lambda>i. InAdapterResult i (b i)) is)) = None"
  using assms
proof (induction "is" arbitrary: tc)
  case Nil
  then show ?case by simp
next
  case (Cons i "is")
  let ?tc = "step_turn tc (InAdapterResult i (b i))"
  have s: "open_ids ?tc = filter (\<lambda>k. k \<noteq> i) (open_ids tc)" "tc_emitted_terminal ?tc = None"
    using settle_open(1,2) [OF Cons.prems(1,2), of i "b i"] Cons.prems(3) by (auto simp: on_adapter_tool_result_def)
  have "set is = set (open_ids ?tc)" using s(1) Cons.prems(3,4) by auto
  then show ?case using Cons.IH [of ?tc] Cons.prems(4) step_obligations [OF Cons.prems(1), of "InAdapterResult i (b i)"] s(2) by simp
qed

lemma end_emits:
  assumes "open_ids tc = []" and "tc_emitted_terminal tc = None"
  shows "emissions tc [InStreamEnd, InTakeTerminal] \<noteq> []"
  using assms by (simp add: emission_def take_terminal_event_def may_emit_terminal_def on_stream_end_def open_ids_count
      open_ids_def split: option.splits)

lemma cancel_emits:
  assumes "tc_emitted_terminal tc = None"
  shows "emissions tc [InCancel, InTakeTerminal] = [\<lparr>to_status = TstCancelled, to_reason = TrCancelled\<rparr>]"
proof -
  have "filter (\<lambda>o1. tos_is_open (tob_status o1))
      (map snd (map (\<lambda>(k, o1). (k, if tos_is_open (tob_status o1) then o1\<lparr>tob_status := TosCancelled\<rparr> else o1)) m)) = []" for m :: "(string \<times> tool_obligation) list"
    by (induction m) (auto split: if_splits)
  then show ?thesis using assms
    by (simp add: emission_def take_terminal_event_def may_emit_terminal_def on_cancel_def open_obligation_count_def open_obligations_def)
qed

lemma emissions_append: "emissions tc (xs @ ys) = emissions tc xs @ emissions (run_ops step_turn tc xs) ys"
  by (induction xs arbitrary: tc) simp_all

subsection \<open>Properties\<close>

text \<open>
  C5. However the inputs of a turn are ordered and repeated, at most one terminal event is handed
  out; when it is, no obligation is open, and when it reports success, the turn was not cancelled,
  its stream did not fail, and no obligation timed out.
\<close>

theorem terminal_event_once:
  "length (emissions new_turn_controller xs) \<le> 1
   \<and> (\<forall>t. emission (run_ops step_turn new_turn_controller xs) InTakeTerminal = [t] \<longrightarrow>
        emissions new_turn_controller xs = [] \<and> open_obligation_count (run_ops step_turn new_turn_controller xs) = 0
        \<and> (to_status t = TstOk \<longrightarrow> InCancel \<notin> set xs \<and> InStreamError \<notin> set xs
              \<and> \<not> lost_obligation (run_ops step_turn new_turn_controller xs)))"
proof (intro conjI allI impI)
  let ?tc = "run_ops step_turn new_turn_controller xs"
  show "length (emissions new_turn_controller xs) \<le> 1" by (rule emissions_at_most_once)
  fix t
  assume t: "emission ?tc InTakeTerminal = [t]"
  then have em: "tc_emitted_terminal ?tc = None" "tc_ready_terminal ?tc = Some t" "open_obligation_count ?tc = 0"
    using emission_cases [of ?tc InTakeTerminal] by auto
  show "open_obligation_count ?tc = 0" by (rule em)
  show "emissions new_turn_controller xs = []"
    using emissions_at_most_once [of new_turn_controller "xs @ [InTakeTerminal]"] t by (simp add: emissions_append)
  assume "to_status t = TstOk"
  then have clean: "\<not> spoiled ?tc" using em by (simp add: spoiled_def)
  then show "InCancel \<notin> set xs" "InStreamError \<notin> set xs" using run_spoiled [of new_turn_controller xs] by blast+
  have "\<not> lost_obligation new_turn_controller" by (simp add: lost_obligation_def new_turn_controller_def)
  then show "\<not> lost_obligation ?tc" using turn_lost.run_inv [of new_turn_controller xs] clean by blast
qed

theorem terminal_event_once_witness:
  "emission (run_ops step_turn new_turn_controller [InStreamStarted, InToolRequest ''c'' ''fs_stat'' RtAdapterLocal, InStreamEnd,
      InAdapterResult ''c'' True, InStreamEnd]) InTakeTerminal = [\<lparr>to_status = TstOk, to_reason = TrEndTurn\<rparr>]
   \<and> \<not> lost_obligation (run_ops step_turn new_turn_controller [InStreamStarted, InToolRequest ''c'' ''fs_stat'' RtAdapterLocal, InStreamEnd,
      InAdapterResult ''c'' True, InStreamEnd])"
proof -
  let ?xs = "[InStreamStarted, InToolRequest ''c'' ''fs_stat'' RtAdapterLocal, InStreamEnd, InAdapterResult ''c'' True, InStreamEnd]"
  have "emission (run_ops step_turn new_turn_controller ?xs) InTakeTerminal = [\<lparr>to_status = TstOk, to_reason = TrEndTurn\<rparr>]"
    by code_simp
  then show ?thesis using terminal_event_once [of ?xs] by simp
qed

text \<open>
  C28. No turn is stuck: from every state a turn can reach before its terminal event, a result for
  each open obligation and the end of the stream lead to a terminal event, and so does a
  cancellation, at once.
\<close>

theorem turn_can_always_finish:
  assumes "tc = run_ops step_turn new_turn_controller xs" and "tc_emitted_terminal tc = None"
  shows "(\<exists>t. emissions tc (map (\<lambda>i. InAdapterResult i (succeeds i)) (open_ids tc) @ [InStreamEnd, InTakeTerminal]) = [t])
    \<and> emissions tc [InCancel, InTakeTerminal] = [\<lparr>to_status = TstCancelled, to_reason = TrCancelled\<rparr>]"
proof
  have "obligations_ok (tc_obligations new_turn_controller)" by (simp add: obligations_ok_def new_turn_controller_def)
  then have ok: "obligations_ok (tc_obligations tc)" unfolding assms(1) by (rule turn_obligations.run_inv)
  then have "distinct (map fst (tc_obligations tc))" using strict_sorted_iff unfolding obligations_ok_def by blast
  then have "distinct (open_ids tc)" unfolding open_ids_def by (simp add: distinct_map_filter)
  from settle_all [OF ok assms(2) refl this, of succeeds] have
    "emissions tc (map (\<lambda>i. InAdapterResult i (succeeds i)) (open_ids tc) @ [InStreamEnd, InTakeTerminal]) \<noteq> []"
    using end_emits unfolding emissions_append by blast
  then show "\<exists>t. emissions tc (map (\<lambda>i. InAdapterResult i (succeeds i)) (open_ids tc) @ [InStreamEnd, InTakeTerminal]) = [t]"
    using emissions_at_most_once [of tc "map (\<lambda>i. InAdapterResult i (succeeds i)) (open_ids tc) @ [InStreamEnd, InTakeTerminal]"]
    by (cases "emissions tc (map (\<lambda>i. InAdapterResult i (succeeds i)) (open_ids tc) @ [InStreamEnd, InTakeTerminal])") auto
  show "emissions tc [InCancel, InTakeTerminal] = [\<lparr>to_status = TstCancelled, to_reason = TrCancelled\<rparr>]"
    using assms(2) by (rule cancel_emits)
qed

theorem turn_can_always_finish_witness:
  "\<exists>t. emissions (run_ops step_turn new_turn_controller [InToolRequest ''c'' ''fs_stat'' RtAdapterLocal])
     (map (\<lambda>i. InAdapterResult i True) (open_ids (run_ops step_turn new_turn_controller [InToolRequest ''c'' ''fs_stat'' RtAdapterLocal]))
      @ [InStreamEnd, InTakeTerminal]) = [t]"
proof -
  have "tc_emitted_terminal (run_ops step_turn new_turn_controller [InToolRequest ''c'' ''fs_stat'' RtAdapterLocal]) = None" by code_simp
  from turn_can_always_finish [OF refl this, of "\<lambda>_. True"] show ?thesis by blast
qed

text \<open>
  The terminal phase is not final: an approval stop that arrives after the terminal event puts
  the controller back into waiting for obligations, where it stays whatever arrives later, without
  ever handing out another terminal event.
\<close>

theorem terminal_phase_is_left:
  assumes "tc_emitted_terminal tc = Some t"
  shows "tc_phase (run_ops step_turn (on_requires_approval_stop tc) xs) = PhWaitingForObligations
    \<and> emissions (on_requires_approval_stop tc) xs = []"
proof -
  have "tc_emitted_terminal (on_requires_approval_stop tc) \<noteq> None" "tc_phase (on_requires_approval_stop tc) = PhWaitingForObligations"
    using assms by (auto simp: on_requires_approval_stop_def)
  then show ?thesis using emitted_waits_run no_second_emission by blast
qed

theorem terminal_phase_is_left_witness:
  "tc_phase (run_ops step_turn new_turn_controller [InStreamStarted, InStreamEnd, InTakeTerminal]) = PhTerminal
   \<and> tc_phase (run_ops step_turn (on_requires_approval_stop (run_ops step_turn new_turn_controller
        [InStreamStarted, InStreamEnd, InTakeTerminal])) [InStreamEnd, InTakeTerminal]) = PhWaitingForObligations"
proof -
  have "tc_emitted_terminal (run_ops step_turn new_turn_controller [InStreamStarted, InStreamEnd, InTakeTerminal])
      = Some \<lparr>to_status = TstOk, to_reason = TrEndTurn\<rparr>"
    "tc_phase (run_ops step_turn new_turn_controller [InStreamStarted, InStreamEnd, InTakeTerminal]) = PhTerminal"
    by code_simp+
  then show ?thesis using terminal_phase_is_left by blast
qed

end
