(* ===== verification/Tool_Turns.thy ===== *)
theory Tool_Turns
  imports Den_Core "HOL-Library.AList"
begin

section \<open>Tool turns held in memory\<close>

text \<open>
  \<open>den-service/src/tool_turns.rs\<close>, the registry of tool calls that wait for a client and of the
  active turn of each session, and \<open>ActiveTurnCancelRegistry\<close> of
  \<open>den-service/src/turn_controller.rs\<close>. A \<open>HashMap\<close> is an association list with distinct keys; the
  order of its iteration is that of the list. Channels are numbers: \<open>ttc_sent\<close> is the history of
  what was sent through which one-shot sender, \<open>acr_signalled\<close> the cancellation channels that were
  set. Instants count nanoseconds and each call reads the clock once (\<open>now\<close>); \<open>us\<close> prints a uuid,
  \<open>show_json\<close> a JSON value, \<open>debug\<close> an optional string with \<open>{:?}\<close>. No operation panics while it
  holds a lock, so that a lock is never poisoned and those branches are left out.
\<close>

subsection \<open>Data\<close>

type_synonym instant = nat
type_synonym channel = nat

record tool_result_request =
  trr_turn_id :: "string option"
  trr_request_id :: "string option"
  trr_tool_call_id :: "string option"
  trr_tool_name :: "string option"
  trr_approval_request_id :: "string option"
  trr_status :: string
  trr_content :: "string option"
  trr_structured_content :: json
  trr_diagnostic :: json
  trr_adapter_contract :: "json option"

record tool_turn =
  tt_user_id :: int
  tt_bear_id :: uuid
  tt_bear_slug :: string
  tt_client_session_id :: string
  tt_request_id :: uuid
  tt_tool_call_id :: string
  tt_tool_name :: string
  tt_approval_request_id :: "string option"
  tt_settled :: bool
  tt_registered_at :: instant
  tt_deadline_at :: instant
  tt_result_tx :: "channel option"

record pending_tool_turn =
  pt_user_id :: int
  pt_bear_id :: uuid
  pt_bear_slug :: string
  pt_client_session_id :: string
  pt_request_id :: uuid
  pt_tool_call_id :: string
  pt_tool_name :: string
  pt_approval_request_id :: "string option"
  pt_status :: string
  pt_registered_at :: instant
  pt_deadline_at :: instant

record settled_tool_result =
  str_user_id :: int
  str_bear_id :: uuid
  str_bear_slug :: string
  str_client_session_id :: string
  str_request_id :: uuid
  str_tool_call_id :: string
  str_tool_name :: string
  str_approval_request_id :: "string option"
  str_status :: string
  str_content_bytes :: nat
  str_structured_content_bytes :: nat
  str_settled_at :: instant

record tool_turn_registration =
  reg_user_id :: int
  reg_bear_id :: uuid
  reg_bear_slug :: string
  reg_client_session_id :: string
  reg_request_id :: uuid
  reg_tool_call_id :: string
  reg_tool_name :: string
  reg_approval_request_id :: "string option"
  reg_timeout_ms :: u64
  reg_result_tx :: channel

record active_turn =
  at_client_session_id :: string
  at_request_id :: uuid
  at_conversation_id :: "string option"
  at_started_at :: instant
  at_deadline_at :: instant

datatype tool_result_delivery =
    Delivered tool_result_request uuid uuid string
  | TurnMissing "string option" string
  | AlreadySettled "string option" string
  | RecentlySettled "string option" string settled_tool_result

record tool_turn_cleanup_summary =
  tcs_pending_removed :: nat
  tcs_settled_removed :: nat

definition cleanup_summary_json :: "tool_turn_cleanup_summary \<Rightarrow> json" where
  "cleanup_summary_json s = JObj [(''pending_removed'', jnat (tcs_pending_removed s)), (''settled_removed'', jnat (tcs_settled_removed s))]"

record tool_turn_coordinator =
  ttc_turns :: "(string \<times> tool_turn) list"
  ttc_settled :: "(string \<times> settled_tool_result) list"
  ttc_active :: "(string \<times> active_turn) list"
  ttc_orphaned :: "(string \<times> channel) list"
  ttc_sent :: "(channel \<times> tool_result_request) list"

record active_turn_guard =
  atg_session_id :: string
  atg_request_id :: uuid

definition new_coordinator :: tool_turn_coordinator where
  "new_coordinator = \<lparr>ttc_turns = [], ttc_settled = [], ttc_active = [], ttc_orphaned = [], ttc_sent = []\<rparr>"

definition NANOS_PER_MS :: nat where "NANOS_PER_MS = 1000000"

definition ACTIVE_TURN_TTL :: nat where "ACTIVE_TURN_TTL = 10 * 60 * 1000 * NANOS_PER_MS"

definition SETTLED_RESULT_TTL :: nat where "SETTLED_RESULT_TTL = 5 * 60 * 1000 * NANOS_PER_MS"

definition SETTLED_RESULT_MAX_ENTRIES :: nat where "SETTLED_RESULT_MAX_ENTRIES = 256"

definition opt_string_json :: "string option \<Rightarrow> json" where
  "opt_string_json v = (case v of None \<Rightarrow> JNull | Some s \<Rightarrow> JStr s)"

definition millis :: "nat \<Rightarrow> json" where
  "millis nanos = jnat (nanos div NANOS_PER_MS)"

definition turn_key :: "string \<Rightarrow> string \<Rightarrow> string" where
  "turn_key session_id tool_call_id = session_id @ [CHR 0x0A] @ tool_call_id"

definition session_prefix :: "string \<Rightarrow> string" where
  "session_prefix session_id = session_id @ [CHR 0x0A]"

subsection \<open>Active turns\<close>

definition active_turn_diagnostic :: "(uuid \<Rightarrow> string) \<Rightarrow> instant \<Rightarrow> active_turn \<Rightarrow> json" where
  "active_turn_diagnostic us now a = JObj [(''session_id'', JStr (at_client_session_id a)), (''request_id'', JStr (us (at_request_id a))),
     (''conversation_id'', opt_string_json (at_conversation_id a)), (''age_ms'', millis (now - at_started_at a)),
     (''time_to_deadline_ms'', millis (at_deadline_at a - now)), (''component'', JStr ''den.armature''), (''phase'', JStr ''active_turn'')]"

definition prune_active :: "instant \<Rightarrow> tool_turn_coordinator \<Rightarrow> tool_turn_coordinator" where
  "prune_active now c = c\<lparr>ttc_active := filter (\<lambda>kv. at_deadline_at (snd kv) > now) (ttc_active c)\<rparr>"

definition acquire_active_turn ::
    "(uuid \<Rightarrow> string) \<Rightarrow> (json \<Rightarrow> string) \<Rightarrow> instant \<Rightarrow> string \<Rightarrow> uuid \<Rightarrow> string option \<Rightarrow> tool_turn_coordinator
     \<Rightarrow> tool_turn_coordinator \<times> (den_error + active_turn_guard)" where
  "acquire_active_turn us show_json now session_id request_id conversation_id c =
     (let c1 = prune_active now c in
      case map_of (ttc_active c1) session_id of
        Some existing \<Rightarrow> (c1, Inl (ValidationError (''client turn already active for this session: ''
          @ show_json (active_turn_diagnostic us now existing))))
      | None \<Rightarrow> (c1\<lparr>ttc_active := AList.update session_id
            \<lparr>at_client_session_id = session_id, at_request_id = request_id, at_conversation_id = conversation_id,
             at_started_at = now, at_deadline_at = now + ACTIVE_TURN_TTL\<rparr> (ttc_active c1)\<rparr>,
          Inr \<lparr>atg_session_id = session_id, atg_request_id = request_id\<rparr>))"

definition cancel_active_turn :: "string \<Rightarrow> tool_turn_coordinator \<Rightarrow> tool_turn_coordinator \<times> active_turn option" where
  "cancel_active_turn session_id c =
     (c\<lparr>ttc_active := AList.delete session_id (ttc_active c)\<rparr>, map_of (ttc_active c) session_id)"

definition release_active_turn :: "string \<Rightarrow> uuid \<Rightarrow> tool_turn_coordinator \<Rightarrow> tool_turn_coordinator" where
  "release_active_turn session_id request_id c =
     (if is_some_and (map_of (ttc_active c) session_id) (\<lambda>t. at_request_id t = request_id)
      then c\<lparr>ttc_active := AList.delete session_id (ttc_active c)\<rparr> else c)"

text \<open>Releasing a guard, by \<open>release\<close> or by dropping it.\<close>

definition release_guard :: "active_turn_guard \<Rightarrow> tool_turn_coordinator \<Rightarrow> tool_turn_coordinator" where
  "release_guard g c = release_active_turn (atg_session_id g) (atg_request_id g) c"

definition active_turn_for_session :: "instant \<Rightarrow> string \<Rightarrow> tool_turn_coordinator \<Rightarrow> tool_turn_coordinator \<times> active_turn option" where
  "active_turn_for_session now session_id c =
     (let c1 = prune_active now c in (c1, map_of (ttc_active c1) session_id))"

subsection \<open>Settled results\<close>

definition settled_from :: "(json \<Rightarrow> string) \<Rightarrow> instant \<Rightarrow> tool_turn \<Rightarrow> tool_result_request \<Rightarrow> settled_tool_result" where
  "settled_from show_json now t body = \<lparr>str_user_id = tt_user_id t, str_bear_id = tt_bear_id t, str_bear_slug = tt_bear_slug t,
     str_client_session_id = tt_client_session_id t, str_request_id = tt_request_id t, str_tool_call_id = tt_tool_call_id t,
     str_tool_name = tt_tool_name t, str_approval_request_id = tt_approval_request_id t, str_status = trr_status body,
     str_content_bytes = (case trr_content body of None \<Rightarrow> 0 | Some s \<Rightarrow> length s),
     str_structured_content_bytes = length (show_json (trr_structured_content body)), str_settled_at = now\<rparr>"

definition prune_settled_results :: "instant \<Rightarrow> (string \<times> settled_tool_result) list \<Rightarrow> (string \<times> settled_tool_result) list" where
  "prune_settled_results now settled =
     (let kept = filter (\<lambda>kv. now - str_settled_at (snd kv) \<le> SETTLED_RESULT_TTL) settled in
      if length kept \<le> SETTLED_RESULT_MAX_ENTRIES then kept
      else fold (\<lambda>kv m. AList.delete (fst kv) m)
        (take (length kept - SETTLED_RESULT_MAX_ENTRIES) (sort_key (\<lambda>kv. str_settled_at (snd kv)) kept)) kept)"

definition cache_settled_result :: "instant \<Rightarrow> settled_tool_result \<Rightarrow> tool_turn_coordinator \<Rightarrow> tool_turn_coordinator" where
  "cache_settled_result now result c = c\<lparr>ttc_settled := prune_settled_results now
     (AList.update (turn_key (str_client_session_id result) (str_tool_call_id result)) result
       (prune_settled_results now (ttc_settled c)))\<rparr>"

definition recently_settled :: "instant \<Rightarrow> string \<Rightarrow> string \<Rightarrow> tool_turn_coordinator \<Rightarrow> tool_turn_coordinator \<times> settled_tool_result option" where
  "recently_settled now session_id tool_call_id c =
     (let settled = prune_settled_results now (ttc_settled c) in
      (c\<lparr>ttc_settled := settled\<rparr>, map_of settled (turn_key session_id tool_call_id)))"

definition settled_diagnostic :: "(uuid \<Rightarrow> string) \<Rightarrow> instant \<Rightarrow> settled_tool_result \<Rightarrow> json" where
  "settled_diagnostic us now r = JObj [(''request_id'', JStr (us (str_request_id r))), (''bear_id'', JStr (us (str_bear_id r))),
     (''session_id'', JStr (str_client_session_id r)), (''tool_call_id'', JStr (str_tool_call_id r)), (''tool_name'', JStr (str_tool_name r)),
     (''approval_request_id'', opt_string_json (str_approval_request_id r)), (''status'', JStr (str_status r)),
     (''content_bytes'', jnat (str_content_bytes r)), (''structured_content_bytes'', jnat (str_structured_content_bytes r)),
     (''age_ms'', millis (now - str_settled_at r)), (''component'', JStr ''den.armature''), (''phase'', JStr ''recently_settled_result'')]"

subsection \<open>Registering and delivering\<close>

definition register_turn :: "instant \<Rightarrow> tool_turn_registration \<Rightarrow> tool_turn_coordinator \<Rightarrow> tool_turn_coordinator" where
  "register_turn now r c = c\<lparr>ttc_turns := AList.update (turn_key (reg_client_session_id r) (reg_tool_call_id r))
     \<lparr>tt_user_id = reg_user_id r, tt_bear_id = reg_bear_id r, tt_bear_slug = reg_bear_slug r,
      tt_client_session_id = reg_client_session_id r, tt_request_id = reg_request_id r, tt_tool_call_id = reg_tool_call_id r,
      tt_tool_name = reg_tool_name r, tt_approval_request_id = reg_approval_request_id r, tt_settled = False,
      tt_registered_at = now, tt_deadline_at = now + max (unat (reg_timeout_ms r)) 1 * NANOS_PER_MS,
      tt_result_tx = Some (reg_result_tx r)\<rparr> (ttc_turns c)\<rparr>"

definition nonempty :: "string option \<Rightarrow> string option" where
  "nonempty v = filter_opt (\<lambda>s. s \<noteq> []) v"

definition given_and :: "string option \<Rightarrow> (string \<Rightarrow> bool) \<Rightarrow> bool" where
  "given_and v p = is_some_and (nonempty v) p"

definition delivery_error :: "(string option \<Rightarrow> string) \<Rightarrow> int \<Rightarrow> string \<Rightarrow> string \<Rightarrow> string \<Rightarrow> tool_result_request \<Rightarrow> tool_turn
     \<Rightarrow> den_error option" where
  "delivery_error debug user_id bear_slug session_id tool_call_id body t =
     (if tt_user_id t \<noteq> user_id \<or> tt_bear_slug t \<noteq> bear_slug \<or> tt_client_session_id t \<noteq> session_id \<or> tt_tool_call_id t \<noteq> tool_call_id
      then Some (Authorization ''tool result does not match the authenticated client session'')
      else if given_and (trr_tool_call_id body) (\<lambda>i. i \<noteq> tt_tool_call_id t)
      then Some (ValidationError (''tool result call id mismatch: expected '' @ tt_tool_call_id t @ '', got '' @ unwrap_or (trr_tool_call_id body) []))
      else if given_and (trr_approval_request_id body) (\<lambda>i. tt_approval_request_id t \<noteq> Some i)
      then Some (ValidationError (''tool result approval request id mismatch: expected '' @ debug (tt_approval_request_id t)
        @ '', got '' @ unwrap_or (trr_approval_request_id body) []))
      else if given_and (trr_tool_name body) (\<lambda>n. n \<noteq> tt_tool_name t)
      then Some (ValidationError (''tool result name mismatch: expected '' @ tt_tool_name t @ '', got '' @ unwrap_or (trr_tool_name body) []))
      else None)"

definition completed_body :: "tool_turn \<Rightarrow> tool_result_request \<Rightarrow> tool_result_request" where
  "completed_body t body = body\<lparr>
     trr_tool_call_id := (if nonempty (trr_tool_call_id body) = None then Some (tt_tool_call_id t) else trr_tool_call_id body),
     trr_approval_request_id := (if nonempty (trr_approval_request_id body) = None then tt_approval_request_id t
       else trr_approval_request_id body)\<rparr>"

text \<open>Marking a turn settled, sending the result through its sender, which is used up.\<close>

definition settle_and_send :: "string \<Rightarrow> tool_turn \<Rightarrow> tool_result_request \<Rightarrow> tool_turn_coordinator \<Rightarrow> tool_turn_coordinator" where
  "settle_and_send key t body c = c\<lparr>
     ttc_turns := AList.update key (t\<lparr>tt_settled := True, tt_result_tx := None\<rparr>) (ttc_turns c),
     ttc_sent := ttc_sent c @ (case tt_result_tx t of None \<Rightarrow> [] | Some tx \<Rightarrow> [(tx, body)])\<rparr>"

definition deliver_result ::
    "(json \<Rightarrow> string) \<Rightarrow> (string option \<Rightarrow> string) \<Rightarrow> instant \<Rightarrow> int \<Rightarrow> string \<Rightarrow> string \<Rightarrow> string \<Rightarrow> tool_result_request
     \<Rightarrow> tool_turn_coordinator \<Rightarrow> tool_turn_coordinator \<times> (den_error + tool_result_delivery)" where
  "deliver_result show_json debug now user_id bear_slug session_id tool_call_id body c =
     (let key = turn_key session_id tool_call_id in
      case map_of (ttc_turns c) key of
        None \<Rightarrow>
          (case recently_settled now session_id tool_call_id c of
             (c1, None) \<Rightarrow> (c1, Inr (TurnMissing (trr_turn_id body) tool_call_id))
           | (c1, Some cached) \<Rightarrow>
               if str_user_id cached \<noteq> user_id \<or> str_bear_slug cached \<noteq> bear_slug \<or> str_client_session_id cached \<noteq> session_id
                  \<or> str_tool_call_id cached \<noteq> tool_call_id
               then (c1, Inl (Authorization ''tool result does not match the authenticated client session''))
               else (c1, Inr (RecentlySettled (trr_turn_id body) tool_call_id cached)))
      | Some t \<Rightarrow>
          (case delivery_error debug user_id bear_slug session_id tool_call_id body t of
             Some e \<Rightarrow> (c, Inl e)
           | None \<Rightarrow>
               if tt_settled t then (c, Inr (AlreadySettled (trr_turn_id body) tool_call_id))
               else let body1 = completed_body t body in
                 (cache_settled_result now (settled_from show_json now t body1) (settle_and_send key t body1 c),
                  Inr (Delivered body1 (tt_request_id t) (tt_bear_id t) (tt_tool_name t)))))"

definition timeout_body :: "(uuid \<Rightarrow> string) \<Rightarrow> tool_turn \<Rightarrow> string \<Rightarrow> tool_result_request" where
  "timeout_body us t reason = \<lparr>trr_turn_id = None, trr_request_id = Some (us (tt_request_id t)), trr_tool_call_id = Some (tt_tool_call_id t),
     trr_tool_name = Some (tt_tool_name t), trr_approval_request_id = tt_approval_request_id t, trr_status = ''timeout'',
     trr_content = Some reason, trr_structured_content = JObj [],
     trr_diagnostic = JObj [(''component'', JStr ''den.armature''), (''phase'', JStr ''auto_timeout_denial''),
       (''tool_call_id'', JStr (tt_tool_call_id t)), (''tool_name'', JStr (tt_tool_name t)),
       (''approval_request_id'', opt_string_json (tt_approval_request_id t))],
     trr_adapter_contract = None\<rparr>"

definition auto_timeout_result ::
    "(uuid \<Rightarrow> string) \<Rightarrow> (json \<Rightarrow> string) \<Rightarrow> instant \<Rightarrow> string \<Rightarrow> string \<Rightarrow> string \<Rightarrow> tool_turn_coordinator
     \<Rightarrow> tool_turn_coordinator \<times> tool_result_request option" where
  "auto_timeout_result us show_json now session_id tool_call_id reason c =
     (let key = turn_key session_id tool_call_id in
      case map_of (ttc_turns c) key of
        None \<Rightarrow> (c, None)
      | Some t \<Rightarrow>
          if tt_settled t then (c, None)
          else
            (let body = timeout_body us t reason
             in (cache_settled_result now (settled_from show_json now t body) (settle_and_send key t body c), Some body)))"

subsection \<open>Pending turns and clean-up\<close>

definition pending_from :: "tool_turn \<Rightarrow> pending_tool_turn" where
  "pending_from t = \<lparr>pt_user_id = tt_user_id t, pt_bear_id = tt_bear_id t, pt_bear_slug = tt_bear_slug t,
     pt_client_session_id = tt_client_session_id t, pt_request_id = tt_request_id t, pt_tool_call_id = tt_tool_call_id t,
     pt_tool_name = tt_tool_name t, pt_approval_request_id = tt_approval_request_id t, pt_status = ''pending'',
     pt_registered_at = tt_registered_at t, pt_deadline_at = tt_deadline_at t\<rparr>"

definition pending_for_session :: "string \<Rightarrow> tool_turn_coordinator \<Rightarrow> pending_tool_turn list" where
  "pending_for_session session_id c =
     map (\<lambda>kv. pending_from (snd kv)) (filter (\<lambda>kv. prefix (session_prefix session_id) (fst kv) \<and> \<not> tt_settled (snd kv)) (ttc_turns c))"

definition expired_pending_for_session :: "instant \<Rightarrow> string \<Rightarrow> tool_turn_coordinator \<Rightarrow> pending_tool_turn list" where
  "expired_pending_for_session now session_id c = filter (\<lambda>t. pt_deadline_at t \<le> now) (pending_for_session session_id c)"

definition pending_diagnostic :: "(uuid \<Rightarrow> string) \<Rightarrow> instant \<Rightarrow> pending_tool_turn \<Rightarrow> json" where
  "pending_diagnostic us now t = JObj [(''request_id'', JStr (us (pt_request_id t))), (''bear_id'', JStr (us (pt_bear_id t))),
     (''session_id'', JStr (pt_client_session_id t)), (''tool_call_id'', JStr (pt_tool_call_id t)), (''tool_name'', JStr (pt_tool_name t)),
     (''approval_request_id'', opt_string_json (pt_approval_request_id t)), (''status'', JStr (pt_status t)),
     (''age_ms'', millis (now - pt_registered_at t)), (''time_to_deadline_ms'', millis (pt_deadline_at t - now)),
     (''component'', JStr ''den.armature''), (''phase'', JStr ''pending_tool_turn'')]"

definition diagnostic_snapshot :: "(uuid \<Rightarrow> string) \<Rightarrow> instant \<Rightarrow> json \<Rightarrow> string \<Rightarrow> tool_turn_coordinator \<Rightarrow> json" where
  "diagnostic_snapshot us now observed_at session_id c = JObj [(''session_id'', JStr session_id),
     (''pending'', JArr (map (pending_diagnostic us now) (pending_for_session session_id c))),
     (''expired'', JArr (map (pending_diagnostic us now) (expired_pending_for_session now session_id c))),
     (''observed_at'', observed_at)]"

definition retain_turns :: "(string \<times> tool_turn \<Rightarrow> bool) \<Rightarrow> tool_turn_coordinator \<Rightarrow> tool_turn_coordinator \<times> nat" where
  "retain_turns remove c = (c\<lparr>ttc_turns := filter (\<lambda>kv. \<not> remove kv) (ttc_turns c)\<rparr>, length (filter remove (ttc_turns c)))"

definition retain_settled :: "(string \<times> settled_tool_result \<Rightarrow> bool) \<Rightarrow> tool_turn_coordinator \<Rightarrow> tool_turn_coordinator \<times> nat" where
  "retain_settled remove c = (c\<lparr>ttc_settled := filter (\<lambda>kv. \<not> remove kv) (ttc_settled c)\<rparr>, length (filter remove (ttc_settled c)))"

definition cleanup_expired_tool_turns_for_session ::
    "instant \<Rightarrow> string \<Rightarrow> tool_turn_coordinator \<Rightarrow> tool_turn_coordinator \<times> tool_turn_cleanup_summary" where
  "cleanup_expired_tool_turns_for_session now session_id c =
     (case retain_turns (\<lambda>kv. prefix (session_prefix session_id) (fst kv) \<and> \<not> tt_settled (snd kv) \<and> tt_deadline_at (snd kv) \<le> now) c of
        (c1, n) \<Rightarrow> (c1, \<lparr>tcs_pending_removed = n, tcs_settled_removed = 0\<rparr>))"

definition cleanup_request_tool_turns ::
    "string \<Rightarrow> uuid \<Rightarrow> tool_turn_coordinator \<Rightarrow> tool_turn_coordinator \<times> tool_turn_cleanup_summary" where
  "cleanup_request_tool_turns session_id request_id c =
     (case retain_turns (\<lambda>kv. prefix (session_prefix session_id) (fst kv) \<and> tt_request_id (snd kv) = request_id) c of
        (c1, n) \<Rightarrow> (case retain_settled (\<lambda>kv. prefix (session_prefix session_id) (fst kv) \<and> str_request_id (snd kv) = request_id) c1 of
          (c2, m) \<Rightarrow> (c2, \<lparr>tcs_pending_removed = n, tcs_settled_removed = m\<rparr>)))"

definition cleanup_session :: "string \<Rightarrow> tool_turn_coordinator \<Rightarrow> tool_turn_coordinator" where
  "cleanup_session session_id c =
     (let c1 = fst (retain_turns (\<lambda>kv. prefix (session_prefix session_id) (fst kv)) c);
          c2 = fst (retain_settled (\<lambda>kv. prefix (session_prefix session_id) (fst kv)) c1)
      in c2\<lparr>ttc_active := AList.delete session_id (ttc_active c2)\<rparr>)"

definition remove_turn :: "string \<Rightarrow> string \<Rightarrow> tool_turn_coordinator \<Rightarrow> tool_turn_coordinator" where
  "remove_turn session_id tool_call_id c =
     (let key = turn_key session_id tool_call_id in
      case map_of (ttc_turns c) key of
        None \<Rightarrow> c
      | Some t \<Rightarrow>
         (let c1 = c\<lparr>ttc_turns := AList.delete key (ttc_turns c)\<rparr> in
          case tt_result_tx t of None \<Rightarrow> c1 | Some tx \<Rightarrow> c1\<lparr>ttc_orphaned := AList.update key tx (ttc_orphaned c1)\<rparr>))"

subsection \<open>Continuations\<close>

datatype runtime_tool_result_status = RtsOk | RtsError | RtsTimeout

datatype runtime_approval_decision = RadApprove | RadDeny

datatype runtime_continuation =
    ContinueToolResult string "string option" runtime_tool_result_status string
  | ContinueApprovalDecision string "string option" runtime_approval_decision "string option"

datatype prepare_continuation_error = MissingToolCallId string

record prepared_runtime_continuation =
  prc_tool_call_id :: string
  prc_display_tool_name :: string
  prc_continuation :: runtime_continuation

definition display_tool_name :: "tool_result_request \<Rightarrow> string" where
  "display_tool_name result = unwrap_or (nonempty (trr_tool_name result)) ''tool''"

definition prepare_runtime_continuation :: "tool_result_request \<Rightarrow> prepare_continuation_error + prepared_runtime_continuation" where
  "prepare_runtime_continuation result =
     (case trr_tool_call_id result of
        None \<Rightarrow> Inl (MissingToolCallId (display_tool_name result))
      | Some call \<Rightarrow>
         (let content = unwrap_or (trr_content result) [] in
          Inr \<lparr>prc_tool_call_id = call, prc_display_tool_name = display_tool_name result,
            prc_continuation = (case trr_approval_request_id result of
                Some approval \<Rightarrow> ContinueApprovalDecision approval (Some call)
                  (if trr_status result = ''ok'' then RadApprove else RadDeny) (Some content)
              | None \<Rightarrow> ContinueToolResult call None
                  (if trr_status result = ''ok'' then RtsOk
                   else if trr_status result \<in> set [''timeout'', ''timed_out''] then RtsTimeout else RtsError) content)\<rparr>))"

record tool_settlement_summary =
  tsm_tool_call_id :: "string option"
  tsm_tool_name :: "string option"
  tsm_display_tool_name :: string
  tsm_status :: string
  tsm_removed_pending_turn :: bool
  tsm_completed_ok :: bool
  tsm_timed_out :: bool

definition settle_after_result ::
    "string \<Rightarrow> tool_result_request \<Rightarrow> tool_turn_coordinator \<Rightarrow> tool_turn_coordinator \<times> tool_settlement_summary" where
  "settle_after_result session_id result c =
     (case (case trr_tool_call_id result of
              None \<Rightarrow> (c, False)
            | Some call \<Rightarrow> (c\<lparr>ttc_turns := AList.delete (turn_key session_id call) (ttc_turns c)\<rparr>,
                map_of (ttc_turns c) (turn_key session_id call) \<noteq> None)) of
        (c1, removed) \<Rightarrow> (c1, \<lparr>tsm_tool_call_id = trr_tool_call_id result, tsm_tool_name = trr_tool_name result,
           tsm_display_tool_name = display_tool_name result, tsm_status = trr_status result, tsm_removed_pending_turn = removed,
           tsm_completed_ok = (trr_status result = ''ok''), tsm_timed_out = (trr_status result = ''timeout'')\<rparr>))"

subsection \<open>Cancellation\<close>

record cancel_registration =
  acn_client_session_id :: string
  acn_request_id :: uuid
  acn_conversation_id :: "string option"
  acn_run_ids :: "string list"
  acn_cancel_tx :: channel

record cancel_registry =
  acr_inner :: "(string \<times> cancel_registration) list"
  acr_signalled :: "channel list"

record cancel_handle =
  ach_client_session_id :: string
  ach_request_id :: uuid

definition register_cancel ::
    "channel \<Rightarrow> string \<Rightarrow> uuid \<Rightarrow> string option \<Rightarrow> cancel_registry \<Rightarrow> cancel_registry \<times> cancel_handle" where
  "register_cancel tx session request conversation r =
     (r\<lparr>acr_inner := AList.update session \<lparr>acn_client_session_id = session, acn_request_id = request,
          acn_conversation_id = conversation, acn_run_ids = [], acn_cancel_tx = tx\<rparr> (acr_inner r)\<rparr>,
      \<lparr>ach_client_session_id = session, ach_request_id = request\<rparr>)"

definition cancel_session :: "string \<Rightarrow> cancel_registry \<Rightarrow> cancel_registry \<times> cancel_registration option" where
  "cancel_session session r =
     (case map_of (acr_inner r) session of
        None \<Rightarrow> (r, None)
      | Some reg \<Rightarrow> (r\<lparr>acr_signalled := acr_signalled r @ [acn_cancel_tx reg]\<rparr>, Some reg))"

definition record_run_id :: "string \<Rightarrow> uuid \<Rightarrow> string \<Rightarrow> cancel_registry \<Rightarrow> cancel_registry \<times> bool" where
  "record_run_id session request raw r =
     (let run = trim raw in
      if run = [] then (r, False)
      else case map_of (acr_inner r) session of
        None \<Rightarrow> (r, False)
      | Some reg \<Rightarrow>
          if acn_request_id reg \<noteq> request then (r, False)
          else if run \<in> set (acn_run_ids reg) then (r, False)
          else (r\<lparr>acr_inner := AList.update session (reg\<lparr>acn_run_ids := acn_run_ids reg @ [run]\<rparr>) (acr_inner r)\<rparr>, True))"

definition active_for_session :: "string \<Rightarrow> cancel_registry \<Rightarrow> cancel_registration option" where
  "active_for_session session r = map_of (acr_inner r) session"

text \<open>Dropping a handle.\<close>

definition unregister_if_matches :: "cancel_handle \<Rightarrow> cancel_registry \<Rightarrow> cancel_registry" where
  "unregister_if_matches h r =
     (if is_some_and (map_of (acr_inner r) (ach_client_session_id h)) (\<lambda>reg. acn_request_id reg = ach_request_id h)
      then r\<lparr>acr_inner := AList.delete (ach_client_session_id h) (acr_inner r)\<rparr> else r)"

definition runtime_snapshot_for_session ::
    "(uuid \<Rightarrow> string) \<Rightarrow> string \<Rightarrow> tool_turn_coordinator \<Rightarrow> cancel_registry \<Rightarrow> json" where
  "runtime_snapshot_for_session us session c r =
     (case active_for_session session r of
        None \<Rightarrow> JObj [(''state'', JStr ''idle''),
          (''active_turn'', JObj [(''present'', JBool False), (''phase'', JNull), (''pending_obligations'', jnat 0),
             (''pending_adapter_tools'', jnat 0), (''pending_den_tools'', jnat 0), (''pending_permissions'', jnat 0), (''run_ids'', JArr [])]),
          (''last_terminal'', JNull), (''last_recovery'', JNull), (''source'', JStr ''client_active_turn_registry'')]
      | Some active \<Rightarrow>
         (let n = length (filter (\<lambda>p. pt_request_id p = acn_request_id active) (pending_for_session session c)) in
          JObj [(''state'', JStr (if n > 0 then ''requires_action'' else ''running'')),
            (''active_turn'', JObj [(''present'', JBool True),
               (''phase'', JStr (if n > 0 then ''WaitingForObligations'' else ''Streaming'')),
               (''request_id'', JStr (us (acn_request_id active))), (''conversation_id'', opt_string_json (acn_conversation_id active)),
               (''run_ids'', JArr (map JStr (acn_run_ids active))), (''pending_obligations'', jnat n),
               (''pending_adapter_tools'', jnat n), (''pending_den_tools'', jnat 0), (''pending_permissions'', jnat 0)]),
            (''last_terminal'', JNull), (''last_recovery'', JNull), (''source'', JStr ''client_active_turn_registry'')]))"

end
