(* ===== verification/Tool_Turn_Properties.thy ===== *)
theory Tool_Turn_Properties
  imports Tool_Turns Den_Interfaces
begin

section \<open>Properties of the tool turns\<close>

text \<open>
  Calls of the coordinator as sequences of operations (\<open>tool_turn_op\<close>). Every operation registers a
  turn, answers one that waits or only takes turns away (\<open>turn_op_cases\<close>); from this follow the
  invariant of the channels and the properties of delivery and of the cache of settled results.
\<close>

subsection \<open>Runs\<close>

datatype tool_turn_op =
    OpRegister instant tool_turn_registration
  | OpDeliver instant int string string string tool_result_request
  | OpAutoTimeout instant string string string
  | OpCleanupExpired instant string
  | OpCleanupRequest string uuid
  | OpCleanupSession string
  | OpSettleAfter string tool_result_request
  | OpRemove string string
  | OpRecentlySettled instant string string
  | OpAcquire instant string uuid "string option"
  | OpCancelActive string
  | OpRelease active_turn_guard
  | OpActiveTurn instant string

fun step_tool_turns ::
    "(uuid \<Rightarrow> string) \<Rightarrow> (json \<Rightarrow> string) \<Rightarrow> (string option \<Rightarrow> string) \<Rightarrow> tool_turn_coordinator \<Rightarrow> tool_turn_op \<Rightarrow> tool_turn_coordinator" where
  "step_tool_turns us sj dbg c (OpRegister now r) = register_turn now r c"
| "step_tool_turns us sj dbg c (OpDeliver now u b s i body) = fst (deliver_result sj dbg now u b s i body c)"
| "step_tool_turns us sj dbg c (OpAutoTimeout now s i reason) = fst (auto_timeout_result us sj now s i reason c)"
| "step_tool_turns us sj dbg c (OpCleanupExpired now s) = fst (cleanup_expired_tool_turns_for_session now s c)"
| "step_tool_turns us sj dbg c (OpCleanupRequest s q) = fst (cleanup_request_tool_turns s q c)"
| "step_tool_turns us sj dbg c (OpCleanupSession s) = cleanup_session s c"
| "step_tool_turns us sj dbg c (OpSettleAfter s body) = fst (settle_after_result s body c)"
| "step_tool_turns us sj dbg c (OpRemove s i) = remove_turn s i c"
| "step_tool_turns us sj dbg c (OpRecentlySettled now s i) = fst (recently_settled now s i c)"
| "step_tool_turns us sj dbg c (OpAcquire now s q conv) = fst (acquire_active_turn us sj now s q conv c)"
| "step_tool_turns us sj dbg c (OpCancelActive s) = fst (cancel_active_turn s c)"
| "step_tool_turns us sj dbg c (OpRelease g) = release_guard g c"
| "step_tool_turns us sj dbg c (OpActiveTurn now s) = fst (active_turn_for_session now s c)"

subsection \<open>What the operations do to the turns\<close>

text \<open>A result carries the call id and the approval request id of the turn it answers, and no other tool name.\<close>

definition answers :: "tool_turn \<Rightarrow> tool_result_request \<Rightarrow> bool" where
  "answers t body \<longleftrightarrow> trr_tool_call_id body = Some (tt_tool_call_id t) \<and> trr_approval_request_id body = tt_approval_request_id t
     \<and> \<not> given_and (trr_tool_name body) (\<lambda>n. n \<noteq> tt_tool_name t)"

lemma given_and_iff: "given_and v p \<longleftrightarrow> (\<exists>s. v = Some s \<and> s \<noteq> [] \<and> p s)"
  by (cases v) (auto simp: given_and_def nonempty_def)

lemma completed_body_answers:
  assumes "delivery_error dbg u b s i body t = None"
  shows "answers t (completed_body t body)"
proof -
  have "\<not> given_and (trr_tool_call_id body) (\<lambda>i. i \<noteq> tt_tool_call_id t)"
    "\<not> given_and (trr_approval_request_id body) (\<lambda>i. tt_approval_request_id t \<noteq> Some i)"
    "\<not> given_and (trr_tool_name body) (\<lambda>n. n \<noteq> tt_tool_name t)"
    using assms by (auto simp: delivery_error_def split: if_splits)
  then show ?thesis
    by (cases "trr_tool_call_id body"; cases "trr_approval_request_id body")
       (auto simp: answers_def completed_body_def given_and_iff nonempty_def)
qed

text \<open>The turns and the sends of one state against those of another: nothing sent, or one unsettled turn answered.\<close>

definition settles :: "tool_turn_coordinator \<Rightarrow> string \<Rightarrow> tool_turn_coordinator \<Rightarrow> bool" where
  "settles c k c' \<longleftrightarrow> (\<exists>t body. map_of (ttc_turns c) k = Some t \<and> \<not> tt_settled t \<and> answers t body
     \<and> ttc_turns c' = ttc_turns (settle_and_send k t body c) \<and> ttc_sent c' = ttc_sent (settle_and_send k t body c))"

lemma deliver_tables:
  "let c' = fst (deliver_result sj dbg now u b s i body c) in
   ttc_turns c' = ttc_turns c \<and> ttc_sent c' = ttc_sent c \<or> settles c (turn_key s i) c'"
proof (cases "map_of (ttc_turns c) (turn_key s i)")
  case None
  then show ?thesis by (auto simp: deliver_result_def recently_settled_def Let_def split: option.splits)
next
  case (Some t)
  show ?thesis
  proof (cases "delivery_error dbg u b s i body t = None \<and> \<not> tt_settled t")
    case True
    then have "answers t (completed_body t body)" using completed_body_answers [of dbg u b s i body t] by simp
    then have "settles c (turn_key s i) (fst (deliver_result sj dbg now u b s i body c))"
      unfolding settles_def using True Some
      by (intro exI [of _ t] exI [of _ "completed_body t body"])
         (simp add: deliver_result_def Let_def cache_settled_result_def settle_and_send_def)
    then show ?thesis by simp
  next
    case False
    then show ?thesis using Some by (cases "delivery_error dbg u b s i body t") (auto simp: deliver_result_def Let_def)
  qed
qed

lemma auto_timeout_tables:
  "let c' = fst (auto_timeout_result us sj now s i reason c) in
   ttc_turns c' = ttc_turns c \<and> ttc_sent c' = ttc_sent c \<or> settles c (turn_key s i) c'"
proof (cases "\<exists>t. map_of (ttc_turns c) (turn_key s i) = Some t \<and> \<not> tt_settled t")
  case True
  then obtain t where t: "map_of (ttc_turns c) (turn_key s i) = Some t" "\<not> tt_settled t" by blast
  have "answers t (timeout_body us t reason)" by (simp add: timeout_body_def answers_def given_and_iff)
  then have "settles c (turn_key s i) (fst (auto_timeout_result us sj now s i reason c))"
    unfolding settles_def using t
    by (intro exI [of _ t] exI [of _ "timeout_body us t reason"])
       (simp add: auto_timeout_result_def Let_def cache_settled_result_def settle_and_send_def)
  then show ?thesis by simp
next
  case False
  then show ?thesis by (cases "map_of (ttc_turns c) (turn_key s i)") (auto simp: auto_timeout_result_def Let_def)
qed

lemma delete_is_filter: "AList.delete k m = filter (\<lambda>kv. fst kv \<noteq> k) m"
  by (induction m) auto

lemmas turn_removals = cleanup_expired_tool_turns_for_session_def cleanup_request_tool_turns_def cleanup_session_def
  retain_turns_def retain_settled_def settle_after_result_def remove_turn_def delete_is_filter

lemmas turn_readers = recently_settled_def acquire_active_turn_def prune_active_def cancel_active_turn_def
  release_guard_def release_active_turn_def active_turn_for_session_def

definition turns_shrink :: "tool_turn_coordinator \<Rightarrow> tool_turn_coordinator \<Rightarrow> bool" where
  "turns_shrink c c' \<longleftrightarrow> (\<exists>P. ttc_turns c' = filter P (ttc_turns c)) \<and> ttc_sent c' = ttc_sent c"

lemma turns_shrinkI: "ttc_turns c' = ttc_turns c \<Longrightarrow> ttc_sent c' = ttc_sent c \<Longrightarrow> turns_shrink c c'"
  unfolding turns_shrink_def by (intro conjI exI [of _ "\<lambda>_. True"]) simp_all

lemma turns_shrink_filter: "ttc_turns c' = filter P (ttc_turns c) \<Longrightarrow> ttc_sent c' = ttc_sent c \<Longrightarrow> turns_shrink c c'"
  unfolding turns_shrink_def by blast

text \<open>Every operation registers, answers one unsettled turn, or only takes turns away.\<close>

lemma turn_op_cases:
  fixes us sj dbg c x
  defines "c' \<equiv> step_tool_turns us sj dbg c x"
  obtains (register) now r where "x = OpRegister now r" "c' = register_turn now r c"
    | (settle) k where "settles c k c'" "\<And>now r. x \<noteq> OpRegister now r"
    | (shrink) "turns_shrink c c'" "\<And>now r. x \<noteq> OpRegister now r"
proof -
  have "(\<exists>now r. x = OpRegister now r) \<or> (\<exists>k. settles c k c') \<or> turns_shrink c c'"
  proof (cases x)
    case (OpDeliver now u b s i body)
    then show ?thesis using deliver_tables [of sj dbg now u b s i body c] turns_shrinkI unfolding c'_def Let_def by auto
  next
    case (OpAutoTimeout now s i reason)
    then show ?thesis using auto_timeout_tables [of us sj now s i reason c] turns_shrinkI unfolding c'_def Let_def by auto
  next
    case (OpRecentlySettled now s i)
    then show ?thesis by (auto simp: c'_def turn_readers Let_def intro!: turns_shrinkI)
  next
    case (OpAcquire now s q conv)
    then show ?thesis by (auto simp: c'_def turn_readers Let_def intro!: turns_shrinkI split: option.splits)
  next
    case (OpCancelActive s)
    then show ?thesis by (auto simp: c'_def turn_readers intro!: turns_shrinkI)
  next
    case (OpRelease g)
    then show ?thesis by (auto simp: c'_def turn_readers intro!: turns_shrinkI)
  next
    case (OpActiveTurn now s)
    then show ?thesis by (auto simp: c'_def turn_readers Let_def intro!: turns_shrinkI)
  next
    case (OpRemove s i)
    then show ?thesis
      by (cases "map_of (ttc_turns c) (turn_key s i)")
         (auto simp: c'_def remove_turn_def delete_is_filter Let_def intro: turns_shrinkI turns_shrink_filter split: option.splits)
  next
    case (OpSettleAfter s body)
    then show ?thesis
      by (cases "trr_tool_call_id body") (auto simp: c'_def turn_removals intro: turns_shrinkI turns_shrink_filter)
  next
    case (OpCleanupExpired now s)
    then show ?thesis by (auto simp: c'_def turn_removals intro: turns_shrink_filter)
  next
    case (OpCleanupRequest s q)
    then show ?thesis by (auto simp: c'_def turn_removals intro: turns_shrink_filter)
  next
    case (OpCleanupSession s)
    then show ?thesis by (auto simp: c'_def turn_removals Let_def intro: turns_shrink_filter)
  qed simp
  then show thesis
    using register settle shrink unfolding c'_def by (cases x) auto
qed

subsection \<open>Every channel carries one answer\<close>

fun registrations :: "tool_turn_op list \<Rightarrow> tool_turn_registration list" where
  "registrations [] = []"
| "registrations (OpRegister now r # xs) = r # registrations xs"
| "registrations (x # xs) = registrations xs"

lemma registrations_other: "(\<And>now r. x \<noteq> OpRegister now r) \<Longrightarrow> registrations (x # xs) = registrations xs"
  by (cases x) auto

text \<open>The turn under a key and the registration it came from.\<close>

definition registered_as :: "tool_turn_registration \<Rightarrow> string \<Rightarrow> tool_turn \<Rightarrow> bool" where
  "registered_as r k t \<longleftrightarrow> k = turn_key (reg_client_session_id r) (reg_tool_call_id r) \<and> tt_tool_call_id t = reg_tool_call_id r
     \<and> tt_approval_request_id t = reg_approval_request_id r \<and> tt_tool_name t = reg_tool_name r"

definition answers_registration :: "tool_turn_registration \<Rightarrow> tool_result_request \<Rightarrow> bool" where
  "answers_registration r body \<longleftrightarrow> trr_tool_call_id body = Some (reg_tool_call_id r)
     \<and> trr_approval_request_id body = reg_approval_request_id r \<and> \<not> given_and (trr_tool_name body) (\<lambda>n. n \<noteq> reg_tool_name r)"

definition waiting_ok :: "tool_turn_registration list \<Rightarrow> tool_turn_coordinator \<Rightarrow> bool" where
  "waiting_ok regs c \<longleftrightarrow> distinct (map fst (ttc_turns c)) \<and>
     (\<forall>k t tx. map_of (ttc_turns c) k = Some t \<longrightarrow> tt_result_tx t = Some tx \<longrightarrow>
        tx \<notin> fst ` set (ttc_sent c) \<and> (\<exists>r \<in> set regs. reg_result_tx r = tx \<and> registered_as r k t))"

definition sent_ok :: "tool_turn_registration list \<Rightarrow> tool_turn_coordinator \<Rightarrow> bool" where
  "sent_ok regs c \<longleftrightarrow> distinct (map fst (ttc_sent c)) \<and>
     (\<forall>(tx, body) \<in> set (ttc_sent c). \<exists>r \<in> set regs. reg_result_tx r = tx \<and> answers_registration r body)"

lemma map_of_filterD:
  assumes "distinct (map fst m)" and "map_of (filter P m) k = Some v"
  shows "map_of m k = Some v"
  using assms by (metis filter_is_subset map_of_SomeD map_of_is_SomeI subsetD)

lemma shrink_keeps:
  assumes "waiting_ok regs c \<and> sent_ok regs c" and "turns_shrink c c'"
  shows "waiting_ok regs c' \<and> sent_ok regs c'"
proof -
  obtain P where P: "ttc_turns c' = filter P (ttc_turns c)" and sent: "ttc_sent c' = ttc_sent c"
    using assms(2) unfolding turns_shrink_def by blast
  have "distinct (map fst (ttc_turns c))" using assms(1) by (simp add: waiting_ok_def)
  then show ?thesis using assms(1) map_of_filterD [of "ttc_turns c" P] P sent
    by (auto simp: waiting_ok_def sent_ok_def distinct_map_filter)
qed

lemma register_keeps:
  assumes "waiting_ok regs c \<and> sent_ok regs c" and "reg_result_tx r \<notin> reg_result_tx ` set regs"
  shows "waiting_ok (r # regs) (register_turn now r c) \<and> sent_ok (r # regs) (register_turn now r c)"
proof
  have "reg_result_tx r \<notin> fst ` set (ttc_sent c)" using assms by (force simp: sent_ok_def)
  then show "waiting_ok (r # regs) (register_turn now r c)"
    using assms(1) by (auto simp: waiting_ok_def register_turn_def update_conv' distinct_update registered_as_def split: if_splits)
  show "sent_ok (r # regs) (register_turn now r c)" using assms(1) by (fastforce simp: sent_ok_def register_turn_def)
qed

lemma settle_keeps:
  assumes ok: "waiting_ok regs c \<and> sent_ok regs c" and fresh: "distinct (map reg_result_tx regs)" and "settles c k c'"
  shows "waiting_ok regs c' \<and> sent_ok regs c'"
proof -
  obtain t body where t: "map_of (ttc_turns c) k = Some t" "answers t body"
    and c': "ttc_turns c' = AList.update k (t\<lparr>tt_settled := True, tt_result_tx := None\<rparr>) (ttc_turns c)"
      "ttc_sent c' = ttc_sent c @ (case tt_result_tx t of None \<Rightarrow> [] | Some tx \<Rightarrow> [(tx, body)])"
    using assms(3) by (auto simp: settles_def settle_and_send_def)
  have keys: "distinct (map fst (ttc_turns c'))" using ok by (simp add: waiting_ok_def c' distinct_update)
  have others: "map_of (ttc_turns c) k' = Some t' \<and> k' \<noteq> k" if "map_of (ttc_turns c') k' = Some t'" "tt_result_tx t' = Some tx'" for k' t' tx'
    using that by (auto simp: c' update_conv' split: if_splits)
  show ?thesis
  proof (cases "tt_result_tx t")
    case None
    then have sent: "ttc_sent c' = ttc_sent c" by (simp add: c'(2))
    then have "waiting_ok regs c'" using ok keys others unfolding waiting_ok_def sent by blast
    then show ?thesis using ok sent by (simp add: sent_ok_def)
  next
    case (Some tx)
    then obtain r where r: "r \<in> set regs" "reg_result_tx r = tx" "registered_as r k t" "tx \<notin> fst ` set (ttc_sent c)"
      using ok t unfolding waiting_ok_def by blast
    have "tx' \<noteq> tx" if held: "map_of (ttc_turns c') k' = Some t'" "tt_result_tx t' = Some tx'" for k' t' tx'
    proof
      assume "tx' = tx"
      obtain r' where "r' \<in> set regs" "reg_result_tx r' = tx" "registered_as r' k' t'"
        using ok others [OF held] held(2) \<open>tx' = tx\<close> unfolding waiting_ok_def by blast
      then have "k' = k" using r fresh by (metis distinct_map inj_onD registered_as_def)
      then show False using others [OF held] by simp
    qed
    moreover have "tx' \<notin> fst ` set (ttc_sent c) \<and> (\<exists>r \<in> set regs. reg_result_tx r = tx' \<and> registered_as r k' t')"
      if "map_of (ttc_turns c') k' = Some t'" "tt_result_tx t' = Some tx'" for k' t' tx'
      using ok others [OF that] that(2) unfolding waiting_ok_def by blast
    moreover have "fst ` set (ttc_sent c') = insert tx (fst ` set (ttc_sent c))" using Some by (simp add: c'(2))
    ultimately have "waiting_ok regs c'" using keys unfolding waiting_ok_def by (metis insert_iff)
    moreover have "answers_registration r body" using t r by (auto simp: answers_def answers_registration_def registered_as_def)
    then have "sent_ok regs c'" using ok r Some by (auto simp: sent_ok_def c'(2))
    ultimately show ?thesis ..
  qed
qed

lemma waiting_ok_mono: "waiting_ok regs c \<Longrightarrow> set regs \<subseteq> set regs' \<Longrightarrow> waiting_ok regs' c"
  unfolding waiting_ok_def by (meson subsetD)

lemma run_keeps_answers:
  assumes "waiting_ok regs c \<and> sent_ok regs c" and "distinct (map reg_result_tx (rev (registrations xs) @ regs))"
  shows "waiting_ok (rev (registrations xs) @ regs) (run_ops (step_tool_turns us sj dbg) c xs)
       \<and> sent_ok (rev (registrations xs) @ regs) (run_ops (step_tool_turns us sj dbg) c xs)"
  using assms
proof (induction xs arbitrary: regs c)
  case (Cons x xs)
  show ?case
  proof (cases rule: turn_op_cases [of x us sj dbg c])
    case (register now r)
    have "reg_result_tx r \<notin> reg_result_tx ` set regs" using Cons.prems(2) register(1) by auto
    from register_keeps [OF Cons.prems(1) this, of now] show ?thesis
      using Cons.IH [of "r # regs" "register_turn now r c"] Cons.prems(2) register by simp
  next
    case (settle k)
    have "distinct (map reg_result_tx regs)" using Cons.prems(2) by simp
    from settle_keeps [OF Cons.prems(1) this settle(1)] show ?thesis
      using Cons.IH Cons.prems(2) settle(2) by (simp add: registrations_other)
  next
    case shrink
    from shrink_keeps [OF Cons.prems(1) shrink(1)] show ?thesis
      using Cons.IH Cons.prems(2) shrink(2) by (simp add: registrations_other)
  qed
qed simp

lemma new_coordinator_ok: "waiting_ok [] new_coordinator \<and> sent_ok [] new_coordinator"
  by (simp add: waiting_ok_def sent_ok_def new_coordinator_def)

text \<open>
  C6. Whatever calls are registered, answered, timed out, cleaned up and registered again, and in
  whatever order: as long as each registration brings its own channel, a channel carries at most
  one answer, and that answer has the call id and the approval request id of the registration the
  channel belongs to and names no other tool. No turn still waiting shares its channel with an answer
  already sent.
\<close>

theorem answers_reach_their_call:
  fixes us sj dbg
  assumes "c = run_ops (step_tool_turns us sj dbg) new_coordinator xs"
    and "distinct (map reg_result_tx (registrations xs))"
  shows "distinct (map fst (ttc_sent c))
    \<and> (\<forall>(tx, body) \<in> set (ttc_sent c). \<exists>r \<in> set (registrations xs). reg_result_tx r = tx \<and> answers_registration r body)
    \<and> (\<forall>(k, t) \<in> set (ttc_turns c). \<forall>tx \<in> set_option (tt_result_tx t). tx \<notin> fst ` set (ttc_sent c))"
proof -
  have "distinct (map reg_result_tx (rev (registrations xs) @ []))" using assms(2) by (simp flip: rev_map)
  from run_keeps_answers [OF new_coordinator_ok this, of us sj dbg]
  have ok: "waiting_ok (rev (registrations xs)) c" "sent_ok (rev (registrations xs)) c" by (simp_all add: assms(1))
  then have "tx \<notin> fst ` set (ttc_sent c)" if "(k, t) \<in> set (ttc_turns c)" "tt_result_tx t = Some tx" for k t tx
    using that unfolding waiting_ok_def by (metis map_of_is_SomeI)
  then show ?thesis using ok(2) by (auto simp: sent_ok_def)
qed

theorem answers_reach_their_call_witness:
  "distinct (map fst (ttc_sent (run_ops (step_tool_turns (\<lambda>_. []) (\<lambda>_. []) (\<lambda>_. [])) new_coordinator
     [OpRegister 0 \<lparr>reg_user_id = 1, reg_bear_id = 2, reg_bear_slug = ''b'', reg_client_session_id = ''s'', reg_request_id = 3,
        reg_tool_call_id = ''c'', reg_tool_name = ''t'', reg_approval_request_id = None, reg_timeout_ms = 5, reg_result_tx = 7\<rparr>,
      OpAutoTimeout 9 ''s'' ''c'' ''late'', OpAutoTimeout 10 ''s'' ''c'' ''late''])))"
proof -
  let ?xs = "[OpRegister 0 \<lparr>reg_user_id = 1, reg_bear_id = 2, reg_bear_slug = ''b'', reg_client_session_id = ''s'', reg_request_id = 3,
        reg_tool_call_id = ''c'', reg_tool_name = ''t'', reg_approval_request_id = None, reg_timeout_ms = 5, reg_result_tx = 7\<rparr>,
      OpAutoTimeout 9 ''s'' ''c'' ''late'', OpAutoTimeout 10 ''s'' ''c'' ''late'']"
  have "distinct (map reg_result_tx (registrations ?xs))" by simp
  from answers_reach_their_call [OF refl this] show ?thesis by blast
qed

subsection \<open>The cache of settled results\<close>

lemma fold_delete: "fold (\<lambda>kv m. AList.delete (fst kv) m) xs m = filter (\<lambda>kv. fst kv \<notin> fst ` set xs) m"
proof (induction xs arbitrary: m)
  case (Cons x xs)
  then show ?case by (auto simp: delete_is_filter intro: filter_cong)
qed simp

lemma prune_split:
  assumes "distinct (map fst kept)" and "sorted_kept = sort_key (f :: 'k \<times> 'v \<Rightarrow> nat) kept"
  shows "set (filter (\<lambda>kv. fst kv \<notin> fst ` set (take n sorted_kept)) kept) = set (drop n sorted_kept)"
    and "length (filter (\<lambda>kv. fst kv \<notin> fst ` set (take n sorted_kept)) kept) = length kept - n"
proof -
  have d: "distinct (map fst sorted_kept)" and s: "set sorted_kept = set kept"
    using assms by (auto simp: distinct_map)
  have "distinct sorted_kept" using d by (simp add: distinct_map)
  then have parts: "set (take n sorted_kept) \<inter> set (drop n sorted_kept) = {}" "set (take n sorted_kept) \<union> set (drop n sorted_kept) = set kept"
    using s by (auto simp: set_take_disj_set_drop_if_distinct simp flip: set_append)
  have inj: "inj_on fst (set kept)" using assms(1) by (simp add: distinct_map)
  have "fst kv \<in> fst ` set (take n sorted_kept) \<longleftrightarrow> kv \<in> set (take n sorted_kept)" if "kv \<in> set kept" for kv
    using inj that parts(2) by (auto dest: inj_onD)
  then show eq: "set (filter (\<lambda>kv. fst kv \<notin> fst ` set (take n sorted_kept)) kept) = set (drop n sorted_kept)"
    using parts by auto
  have "distinct (filter (\<lambda>kv. fst kv \<notin> fst ` set (take n sorted_kept)) kept)" using assms(1) by (simp add: distinct_map)
  then have "length (filter (\<lambda>kv. fst kv \<notin> fst ` set (take n sorted_kept)) kept) = card (set (drop n sorted_kept))"
    using eq by (metis distinct_card)
  also have "\<dots> = length (drop n sorted_kept)" using \<open>distinct sorted_kept\<close> by (simp add: distinct_card)
  finally show "length (filter (\<lambda>kv. fst kv \<notin> fst ` set (take n sorted_kept)) kept) = length kept - n"
    using assms(2) by simp
qed

definition fresh_results :: "instant \<Rightarrow> (string \<times> settled_tool_result) list \<Rightarrow> (string \<times> settled_tool_result) list" where
  "fresh_results now m = filter (\<lambda>kv. now - str_settled_at (snd kv) \<le> SETTLED_RESULT_TTL) m"

lemma sorted_take_drop:
  assumes "sorted (map f xs)" and "x \<in> set (take n xs)" and "y \<in> set (drop n xs)"
  shows "f x \<le> f y"
proof -
  have "sorted (map f (take n xs) @ map f (drop n xs))" using assms(1) by (simp flip: map_append)
  then show ?thesis using assms(2,3) by (simp add: sorted_append)
qed

lemma prune_settled_spec:
  fixes now :: instant
  assumes "distinct (map fst m)"
  defines "m' \<equiv> prune_settled_results now m"
  shows "distinct (map fst m')" "length m' = min (length (fresh_results now m)) SETTLED_RESULT_MAX_ENTRIES"
    "set m' \<subseteq> set (fresh_results now m)"
    "\<And>x y. x \<in> set (fresh_results now m) - set m' \<Longrightarrow> y \<in> set m' \<Longrightarrow> str_settled_at (snd x) \<le> str_settled_at (snd y)"
proof -
  let ?f = "\<lambda>kv :: string \<times> settled_tool_result. str_settled_at (snd kv)"
  let ?k = "fresh_results now m" and ?s = "sort_key ?f (fresh_results now m)"
  let ?n = "length ?k - SETTLED_RESULT_MAX_ENTRIES"
  have d: "distinct (map fst ?k)" using assms(1) by (simp add: fresh_results_def distinct_map_filter)
  have m': "m' = (if ?n = 0 then ?k else filter (\<lambda>kv. fst kv \<notin> fst ` set (take ?n ?s)) ?k)"
    by (simp add: m'_def prune_settled_results_def fold_delete fresh_results_def Let_def)
  show "distinct (map fst m')" using d by (simp add: m' distinct_map_filter)
  note parts = prune_split [OF d refl]
  show "length m' = min (length ?k) SETTLED_RESULT_MAX_ENTRIES" using parts(2) [of ?n ?f] by (auto simp: m')
  show "set m' \<subseteq> set ?k" by (auto simp: m')
  fix x y assume x: "x \<in> set ?k - set m'" and y: "y \<in> set m'"
  then have n: "?n \<noteq> 0" by (auto simp: m')
  then have mset: "set m' = set (drop ?n ?s)" using parts(1) [of ?n ?f] by (simp add: m')
  have "set (take ?n ?s) \<union> set (drop ?n ?s) = set ?k" by (metis append_take_drop_id set_append set_sort)
  then have "x \<in> set (take ?n ?s)" using x mset by blast
  then show "?f x \<le> ?f y" using y mset sorted_take_drop [of ?f ?s x ?n y] by simp
qed

lemma set_alist_update: "set (AList.update k v m) \<subseteq> insert (k, v) (set m)"
  by (induction m) auto

definition cache_ok :: "tool_turn_coordinator \<Rightarrow> bool" where
  "cache_ok c \<longleftrightarrow> distinct (map fst (ttc_settled c)) \<and> length (ttc_settled c) \<le> SETTLED_RESULT_MAX_ENTRIES"

lemma prune_cache_ok: "distinct (map fst m) \<Longrightarrow> cache_ok (c\<lparr>ttc_settled := prune_settled_results now m\<rparr>)"
  using prune_settled_spec(1,2) [of m now] by (simp add: cache_ok_def)

lemma cache_result_ok: "cache_ok c \<Longrightarrow> cache_ok (cache_settled_result now r c')" if "ttc_settled c' = ttc_settled c"
  unfolding cache_settled_result_def that
  by (rule prune_cache_ok) (simp add: distinct_update prune_settled_spec(1) cache_ok_def)

lemma cache_ok_cong: "cache_ok c \<Longrightarrow> ttc_settled c' = ttc_settled c \<Longrightarrow> cache_ok c'"
  by (simp add: cache_ok_def)

lemma cache_ok_filter: "cache_ok c \<Longrightarrow> ttc_settled c' = filter P (ttc_settled c) \<Longrightarrow> cache_ok c'"
  unfolding cache_ok_def by (auto simp: distinct_map_filter intro: le_trans [OF length_filter_le])

lemma recently_settled_ok: "cache_ok c \<Longrightarrow> cache_ok (fst (recently_settled now s i c))"
  using prune_cache_ok [of "ttc_settled c"] by (simp add: recently_settled_def Let_def cache_ok_def)

lemma settle_and_send_settled [simp]: "ttc_settled (settle_and_send k t body c) = ttc_settled c"
  by (simp add: settle_and_send_def)

lemma deliver_cache_ok:
  assumes "cache_ok c"
  shows "cache_ok (fst (deliver_result sj dbg now u b s i body c))"
proof (cases "map_of (ttc_turns c) (turn_key s i)")
  case None
  then show ?thesis using recently_settled_ok [OF assms, of now s i]
    by (cases "recently_settled now s i c") (auto simp: deliver_result_def Let_def split: option.splits)
next
  case (Some t)
  then show ?thesis using assms cache_result_ok [OF settle_and_send_settled assms]
    by (cases "delivery_error dbg u b s i body t") (auto simp: deliver_result_def Let_def)
qed

interpretation settled_cache: step_invariant "step_tool_turns us sj dbg" cache_ok
proof
  fix c x assume ok: "cache_ok c"
  show "cache_ok (step_tool_turns us sj dbg c x)"
  proof (cases x)
    case (OpDeliver now u b s i body)
    then show ?thesis using deliver_cache_ok [OF ok] by simp
  next
    case (OpAutoTimeout now s i reason)
    then show ?thesis using ok cache_result_ok [OF settle_and_send_settled ok]
      by (cases "map_of (ttc_turns c) (turn_key s i)") (auto simp: auto_timeout_result_def Let_def)
  next
    case (OpRecentlySettled now s i)
    then show ?thesis using recently_settled_ok [OF ok] by simp
  next
    case (OpRemove s i)
    then show ?thesis using ok by (cases "map_of (ttc_turns c) (turn_key s i)") (auto simp: remove_turn_def Let_def cache_ok_def split: option.splits)
  next
    case (OpSettleAfter s body)
    then show ?thesis using ok by (cases "trr_tool_call_id body") (auto simp: settle_after_result_def cache_ok_def)
  next
    case (OpAcquire now s q conv)
    then show ?thesis using ok by (auto simp: turn_readers Let_def cache_ok_def split: option.splits)
  next
    case (OpCleanupSession s)
    then show ?thesis using cache_ok_filter [OF ok] by (simp add: turn_removals Let_def)
  next
    case (OpCleanupRequest s q)
    then show ?thesis using cache_ok_filter [OF ok] by (simp add: turn_removals)
  qed (use ok in \<open>auto simp: turn_readers turn_removals register_turn_def Let_def cache_ok_def\<close>)
qed

text \<open>
  C32. The cache of settled results never holds more than its 256 entries and never two under one
  key. Caching a result first drops every entry older than its time to live; of the entries that
  remain, only older ones give way to the bound, so that each one dropped was settled no later than
  each one kept, and none is dropped while there is room.
\<close>

theorem settled_cache_bounded:
  fixes us sj dbg
  assumes "c = run_ops (step_tool_turns us sj dbg) new_coordinator xs" and "str_settled_at r = now"
    and "fresh = AList.update (turn_key (str_client_session_id r) (str_tool_call_id r)) r (fresh_results now (ttc_settled c))"
    and "kept = ttc_settled (cache_settled_result now r c)"
  shows "length (ttc_settled c) \<le> SETTLED_RESULT_MAX_ENTRIES \<and> distinct (map fst (ttc_settled c))
    \<and> length kept = min (length fresh) SETTLED_RESULT_MAX_ENTRIES \<and> set kept \<subseteq> set fresh
    \<and> (\<forall>x \<in> set fresh - set kept. \<forall>y \<in> set kept. str_settled_at (snd x) \<le> str_settled_at (snd y))"
proof -
  have "cache_ok new_coordinator" by (simp add: cache_ok_def new_coordinator_def)
  then have ok: "cache_ok c" unfolding assms(1) by (rule settled_cache.run_inv)
  then have d: "distinct (map fst (ttc_settled c))" and len: "length (ttc_settled c) \<le> SETTLED_RESULT_MAX_ENTRIES"
    by (simp_all add: cache_ok_def)
  have "length (fresh_results now (ttc_settled c)) \<le> SETTLED_RESULT_MAX_ENTRIES"
    using len length_filter_le unfolding fresh_results_def by (rule le_trans [rotated])
  then have "prune_settled_results now (ttc_settled c) = fresh_results now (ttc_settled c)"
    by (simp add: prune_settled_results_def fresh_results_def)
  then have kept: "kept = prune_settled_results now fresh" by (simp add: assms(3,4) cache_settled_result_def)
  have df: "distinct (map fst fresh)"
    unfolding assms(3) by (rule distinct_update) (simp add: fresh_results_def distinct_map_filter d)
  have "set fresh \<subseteq> insert (turn_key (str_client_session_id r) (str_tool_call_id r), r) (set (fresh_results now (ttc_settled c)))"
    unfolding assms(3) by (rule set_alist_update)
  then have "fresh_results now fresh = fresh" using assms(2) by (auto simp: fresh_results_def filter_id_conv)
  then show ?thesis
    using d len prune_settled_spec(2) [OF df, of now] prune_settled_spec(3) [OF df, of now] prune_settled_spec(4) [OF df, where now = now]
    unfolding kept by auto
qed

theorem settled_cache_bounded_witness:
  fixes r :: settled_tool_result
  defines "r \<equiv> \<lparr>str_user_id = 1, str_bear_id = 2, str_bear_slug = ''b'', str_client_session_id = ''s'', str_request_id = 3,
     str_tool_call_id = ''c'', str_tool_name = ''t'', str_approval_request_id = None, str_status = ''ok'', str_content_bytes = 0,
     str_structured_content_bytes = 0, str_settled_at = 9\<rparr>"
  shows "length (ttc_settled (cache_settled_result 9 r new_coordinator)) = 1"
proof -
  have "new_coordinator = run_ops (step_tool_turns (\<lambda>_. []) (\<lambda>_. []) (\<lambda>_. [])) new_coordinator []" by simp
  moreover have "str_settled_at r = 9" by (simp add: r_def)
  ultimately have "length (ttc_settled (cache_settled_result 9 r new_coordinator))
      = min (length (AList.update (turn_key (str_client_session_id r) (str_tool_call_id r)) r (fresh_results 9 (ttc_settled new_coordinator))))
          SETTLED_RESULT_MAX_ENTRIES"
    using settled_cache_bounded [OF _ _ refl refl] by blast
  then show ?thesis by (simp add: new_coordinator_def fresh_results_def SETTLED_RESULT_MAX_ENTRIES_def)
qed

subsection \<open>Delivery\<close>

text \<open>The turn a delivery is for, when it waits and the delivery matches it.\<close>

definition taken_by :: "int \<Rightarrow> string \<Rightarrow> string \<Rightarrow> string \<Rightarrow> tool_result_request \<Rightarrow> tool_turn_coordinator \<Rightarrow> tool_turn \<Rightarrow> bool" where
  "taken_by user slug s i body c t \<longleftrightarrow> map_of (ttc_turns c) (turn_key s i) = Some t \<and> \<not> tt_settled t
     \<and> tt_user_id t = user \<and> tt_bear_slug t = slug \<and> tt_client_session_id t = s \<and> tt_tool_call_id t = i
     \<and> \<not> given_and (trr_tool_call_id body) (\<lambda>call. call \<noteq> i)
     \<and> \<not> given_and (trr_approval_request_id body) (\<lambda>a. tt_approval_request_id t \<noteq> Some a)
     \<and> \<not> given_and (trr_tool_name body) (\<lambda>n. n \<noteq> tt_tool_name t)"

lemma taken_by_iff:
  "taken_by user slug s i body c t \<longleftrightarrow> map_of (ttc_turns c) (turn_key s i) = Some t \<and> \<not> tt_settled t
     \<and> delivery_error dbg user slug s i body t = None"
  by (auto simp: taken_by_def delivery_error_def)

lemma not_taken:
  assumes "\<And>t. \<not> taken_by user slug s i body c t"
  shows "let res = deliver_result sj dbg now user slug s i body c in
    ttc_turns (fst res) = ttc_turns c \<and> ttc_sent (fst res) = ttc_sent c \<and> (\<forall>b q bear n. snd res \<noteq> Inr (Delivered b q bear n))"
proof (cases "map_of (ttc_turns c) (turn_key s i)")
  case None
  then show ?thesis by (auto simp: deliver_result_def recently_settled_def Let_def split: option.splits)
next
  case (Some t)
  then show ?thesis using assms [of t] unfolding taken_by_iff [where dbg = dbg] by (auto simp: deliver_result_def Let_def split: option.splits)
qed

lemma delivery_error_settled [simp]:
  "delivery_error dbg user slug s i body (t\<lparr>tt_settled := x, tt_result_tx := y\<rparr>) = delivery_error dbg user slug s i body t"
  by (simp add: delivery_error_def)

text \<open>
  A result is taken exactly when the call is registered, still waiting, owned by the
  authenticated user, bear and session, and contradicts neither the call id nor the approval request
  nor the tool name. It then goes once through the sender of the call, and the same delivery
  repeated is reported as settled and changes nothing; every other delivery leaves the turns and the
  sends as they were.
\<close>

theorem result_taken_iff_waiting:
  fixes sj dbg
  assumes "res = deliver_result sj dbg now user slug s i body c"
  shows "(\<forall>t. taken_by user slug s i body c t \<longrightarrow>
        (\<exists>b. snd res = Inr (Delivered b (tt_request_id t) (tt_bear_id t) (tt_tool_name t)) \<and> answers t b
           \<and> ttc_sent (fst res) = ttc_sent c @ (case tt_result_tx t of None \<Rightarrow> [] | Some tx \<Rightarrow> [(tx, b)]))
        \<and> deliver_result sj dbg now' user slug s i body (fst res) = (fst res, Inr (AlreadySettled (trr_turn_id body) i)))
    \<and> ((\<forall>t. \<not> taken_by user slug s i body c t) \<longrightarrow> ttc_turns (fst res) = ttc_turns c \<and> ttc_sent (fst res) = ttc_sent c
        \<and> (\<forall>b q bear n. snd res \<noteq> Inr (Delivered b q bear n)))"
proof (intro conjI allI impI)
  fix t assume "taken_by user slug s i body c t"
  then have t: "map_of (ttc_turns c) (turn_key s i) = Some t" "\<not> tt_settled t" "delivery_error dbg user slug s i body t = None"
    unfolding taken_by_iff [where dbg = dbg] by simp_all
  then have res: "fst res = cache_settled_result now (settled_from sj now t (completed_body t body)) (settle_and_send (turn_key s i) t (completed_body t body) c)"
    "snd res = Inr (Delivered (completed_body t body) (tt_request_id t) (tt_bear_id t) (tt_tool_name t))"
    by (simp_all add: assms deliver_result_def Let_def)
  then have "map_of (ttc_turns (fst res)) (turn_key s i) = Some (t\<lparr>tt_settled := True, tt_result_tx := None\<rparr>)"
    by (simp add: cache_settled_result_def settle_and_send_def update_conv')
  then show "deliver_result sj dbg now' user slug s i body (fst res) = (fst res, Inr (AlreadySettled (trr_turn_id body) i))"
    using t(3) by (simp add: deliver_result_def Let_def)
  show "\<exists>b. snd res = Inr (Delivered b (tt_request_id t) (tt_bear_id t) (tt_tool_name t)) \<and> answers t b
      \<and> ttc_sent (fst res) = ttc_sent c @ (case tt_result_tx t of None \<Rightarrow> [] | Some tx \<Rightarrow> [(tx, b)])"
    using completed_body_answers [OF t(3)]
    by (intro exI [of _ "completed_body t body"]) (simp add: res cache_settled_result_def settle_and_send_def)
qed (use not_taken [of user slug s i body c sj dbg now] in \<open>simp_all add: assms Let_def\<close>)

text \<open>A call of session \<open>s\<close> that waits, and a result for it.\<close>

definition sample_registration :: tool_turn_registration where
  "sample_registration = \<lparr>reg_user_id = 1, reg_bear_id = 2, reg_bear_slug = ''b'', reg_client_session_id = ''s'', reg_request_id = 3,
     reg_tool_call_id = ''c'', reg_tool_name = ''t'', reg_approval_request_id = None, reg_timeout_ms = 5, reg_result_tx = 7\<rparr>"

definition sample_result :: tool_result_request where
  "sample_result = \<lparr>trr_turn_id = None, trr_request_id = None, trr_tool_call_id = Some ''c'', trr_tool_name = None,
     trr_approval_request_id = None, trr_status = ''ok'', trr_content = Some ''done'', trr_structured_content = JNull,
     trr_diagnostic = JNull, trr_adapter_contract = None\<rparr>"

theorem result_taken_iff_waiting_witness:
  "ttc_sent (fst (deliver_result (\<lambda>_. []) (\<lambda>_. []) 4 1 ''b'' ''s'' ''c'' sample_result
     (register_turn 0 sample_registration new_coordinator))) \<noteq> []"
proof -
  let ?c = "register_turn 0 sample_registration new_coordinator"
  obtain t where "taken_by 1 ''b'' ''s'' ''c'' sample_result ?c t" "tt_result_tx t = Some 7"
    by (simp add: taken_by_def register_turn_def sample_registration_def sample_result_def new_coordinator_def given_and_iff)
  then show ?thesis using result_taken_iff_waiting [OF refl, of 1 "''b''" "''s''" "''c''" sample_result ?c "\<lambda>_. []" "\<lambda>_. []" 4] by fastforce
qed

end
