(* ===== verification/Client_Tool_Surface.thy ===== *)
theory Client_Tool_Surface
  imports Client_Tools
begin

section \<open>Client tools: parameter schemas and display\<close>

text \<open>
  The rest of \<open>client_tools.rs\<close>: the descriptor that a provider receives for each tool, with the
  JSON schema of its parameters, and the display value of a call, with \<open>tools/display.rs\<close>.
\<close>

subsection \<open>Parameter schemas\<close>

definition safe_name_char :: "char \<Rightarrow> bool" where
  "safe_name_char c \<longleftrightarrow> (CHR ''a'' \<le> c \<and> c \<le> CHR ''z'') \<or> (CHR ''A'' \<le> c \<and> c \<le> CHR ''Z'')
     \<or> (CHR ''0'' \<le> c \<and> c \<le> CHR ''9'') \<or> c = CHR ''_'' \<or> c = CHR ''-''"

definition provider_tool_name_is_safe :: "string \<Rightarrow> bool" where
  "provider_tool_name_is_safe name \<longleftrightarrow> name \<noteq> [] \<and> list_all safe_name_char name"

definition object_schema :: "json \<Rightarrow> string list \<Rightarrow> json" where
  "object_schema properties required = JObj [(''type'', JStr ''object''), (''properties'', properties),
     (''required'', jstrings required), (''additionalProperties'', JBool False)]"

definition generic_object_schema :: json where
  "generic_object_schema = JObj [(''type'', JStr ''object''), (''properties'', JObj []), (''additionalProperties'', JBool True)]"

definition read_text_file_parameters :: json where
  "read_text_file_parameters = object_schema
     (JObj [(''path'', JObj [(''type'', JStr ''string''), (''description'', JStr (''Workspace-relative path or absolute local file path under the user''
       @ [CHR 0x27] @ ''s workspace.''))]), (''line'', JObj [(''type'', JStr ''integer''),
      (''minimum'', JNum ''1''), (''description'', JStr ''Optional 1-based starting line.'')]),
      (''limit'', JObj [(''type'', JStr ''integer''), (''minimum'', JNum ''1''), (''maximum'',
      JNum ''2000''), (''description'', JStr ''Optional maximum number of lines.'')])])
     [''path'']"

definition list_directory_parameters :: json where
  "list_directory_parameters = object_schema
     (JObj [(''path'', JObj [(''type'', JStr ''string''), (''description'', JStr (''Workspace-relative path or absolute local directory path under the user''
       @ [CHR 0x27] @ ''s workspace.''))]), (''recursive'', JObj [(''type'', JStr ''boolean''),
      (''default'', JBool False), (''description'', JStr ''Whether to list recursively. Defaults to false.'')]),
      (''limit'', JObj [(''type'', JStr ''integer''), (''minimum'', JNum ''1''), (''maximum'',
      JNum ''1000''), (''description'', JStr ''Maximum entries to return.'')]), (''include_hidden'',
      JObj [(''type'', JStr ''boolean''), (''default'', JBool False), (''description'',
      JStr ''Include hidden dotfiles and dot-directories. Defaults to false.'')])])
     [''path'']"

definition find_paths_parameters :: json where
  "find_paths_parameters = object_schema
     (JObj [(''root'', JObj [(''type'', JStr ''string''), (''description'', JStr
      ''Optional workspace-relative or absolute directory path under the workspace. Defaults to the workspace root.''
      )]), (''glob'', JObj [(''type'', JStr ''string''), (''description'', JStr
      ''Glob pattern to match against relative paths, such as **/*.rs or package.json.'')]),
      (''limit'', JObj [(''type'', JStr ''integer''), (''minimum'', JNum ''1''), (''maximum'',
      JNum ''500''), (''description'', JStr ''Maximum paths to return.'')]), (''include_hidden'',
      JObj [(''type'', JStr ''boolean''), (''default'', JBool False), (''description'',
      JStr ''Include hidden dotfiles and dot-directories. Defaults to false.'')])])
     [''glob'']"

definition search_files_parameters :: json where
  "search_files_parameters = object_schema
     (JObj [(''path'', JObj [(''type'', JStr ''string''), (''description'', JStr
      ''Workspace-relative path or absolute local file/directory path under the workspace.'')]),
      (''query'', JObj [(''type'', JStr ''string''), (''description'', JStr
      ''Optional literal text to search for inside files. If omitted or empty, pattern is used for filename/path discovery only.''
      )]), (''limit'', JObj [(''type'', JStr ''integer''), (''minimum'', JNum ''1''), (''maximum'',
      JNum ''200''), (''description'', JStr ''Maximum matches to return.'')]), (''max_bytes'',
      JObj [(''type'', JStr ''integer''), (''minimum'', JNum ''1''), (''maximum'', JNum ''1048576''),
      (''description'', JStr ''Maximum total bytes to scan.'')]), (''include_hidden'', JObj [(''type'',
      JStr ''boolean''), (''default'', JBool False), (''description'', JStr
      ''Include hidden dotfiles and dot-directories. Defaults to false.'')]), (''case_sensitive'',
      JObj [(''type'', JStr ''boolean''), (''default'', JBool True), (''description'', JStr
      ''Whether literal matching is case-sensitive. Defaults to true.'')]), (''pattern'',
      JObj [(''type'', JStr ''string''), (''description'', JStr
      ''Optional simple wildcard pattern matched against relative file paths. Supports * and ?.'')]),
      (''extensions'', JObj [(''type'', JStr ''array''), (''items'', JObj [(''type'', JStr ''string'')]),
      (''maxItems'', JNum ''10''), (''description'', JStr (''Optional list of file extensions to include, such as [''
       @ [CHR 0x22] @ ''rs'' @ [CHR 0x22] @ '', '' @ [CHR 0x22] @ ''ts'' @ [CHR 0x22] @ ''].''))])])
     [''path'']"

definition stat_parameters :: json where
  "stat_parameters = object_schema
     (JObj [(''path'', JObj [(''type'', JStr ''string''), (''description'', JStr
      ''Workspace-relative path or absolute local file/directory path under the workspace.'')])])
     [''path'']"

definition edit_file_parameters :: json where
  "edit_file_parameters = object_schema
     (JObj [(''path'', JObj [(''type'', JStr ''string''), (''description'', JStr
      ''Workspace-relative path or absolute local file path under the workspace.'')]), (''old_text'',
      JObj [(''type'', JStr ''string''), (''description'', JStr ''Exact text to replace.'')]),
      (''new_text'', JObj [(''type'', JStr ''string''), (''description'', JStr ''Replacement text.'')]),
      (''replace_all'', JObj [(''type'', JStr ''boolean''), (''default'', JBool False),
      (''description'', JStr ''Replace all occurrences when policy allows it. Defaults to false.'')])])
     [''path'', ''old_text'', ''new_text'']"

definition create_text_file_parameters :: json where
  "create_text_file_parameters = object_schema
     (JObj [(''path'', JObj [(''type'', JStr ''string''), (''description'', JStr
      ''Workspace-relative path or absolute local file path under the workspace.'')]), (''content'',
      JObj [(''type'', JStr ''string''), (''description'', JStr ''File contents to write.'')]),
      (''create_parent_dirs'', JObj [(''type'', JStr ''boolean''), (''default'', JBool False),
      (''description'', JStr ''Create missing parent directories when policy allows it.'')])])
     [''path'', ''content'']"

definition create_directory_parameters :: json where
  "create_directory_parameters = object_schema
     (JObj [(''path'', JObj [(''type'', JStr ''string''), (''description'', JStr
      ''Workspace-relative path or absolute local directory path under the workspace.'')])])
     [''path'']"

definition move_path_parameters :: json where
  "move_path_parameters = object_schema
     (JObj [(''source_path'', JObj [(''type'', JStr ''string''), (''description'', JStr
      ''Workspace-relative or absolute local source path under the workspace.'')]), (''destination_path'',
      JObj [(''type'', JStr ''string''), (''description'', JStr
      ''Workspace-relative or absolute local destination path under the workspace.'')]),
      (''overwrite'', JObj [(''type'', JStr ''boolean''), (''default'', JBool False), (''description'',
      JStr ''Overwrite the destination when policy allows it.'')])])
     [''source_path'', ''destination_path'']"

definition apply_patch_parameters :: json where
  "apply_patch_parameters = object_schema
     (JObj [(''patch'', JObj [(''type'', JStr ''string''), (''description'', JStr
      ''Standard unified diff: non-empty paired `--- a/path` and `+++ b/path` headers (or `/dev/null` for creates/deletes) followed by one or more `@@` hunks. Context and removed lines are validated against the current file before writing. Do not send prose or Markdown fences. For one exact replacement in one file, use fs_edit_file instead.''
      )]), (''dry_run'', JObj [(''type'', JStr ''boolean''), (''default'', JBool False),
      (''description'', JStr ''Validate without writing changes.'')])])
     [''patch'']"

definition delete_path_parameters :: json where
  "delete_path_parameters = object_schema
     (JObj [(''path'', JObj [(''type'', JStr ''string''), (''description'', JStr
      ''Workspace-relative path or absolute local file/directory path under the workspace.'')]),
      (''recursive'', JObj [(''type'', JStr ''boolean''), (''default'', JBool False), (''description'',
      JStr ''Required for non-empty directories.'')])])
     [''path'']"

definition git_status_parameters :: json where
  "git_status_parameters = object_schema
     (JObj [(''path'', JObj [(''type'', JStr ''string''), (''description'', JStr
      ''Optional workspace-relative or absolute path inside the git repository/workspace.'')])])
     []"

definition git_diff_parameters :: json where
  "git_diff_parameters = object_schema
     (JObj [(''path'', JObj [(''type'', JStr ''string''), (''description'', JStr
      ''Optional workspace-relative or absolute path inside the git repository/workspace.'')]),
      (''staged'', JObj [(''type'', JStr ''boolean''), (''default'', JBool False), (''description'',
      JStr ''Show staged changes instead of unstaged changes.'')]), (''max_bytes'', JObj [(''type'',
      JStr ''integer''), (''minimum'', JNum ''1''), (''maximum'', JNum ''262144'')])])
     []"

definition git_log_parameters :: json where
  "git_log_parameters = object_schema
     (JObj [(''path'', JObj [(''type'', JStr ''string''), (''description'', JStr
      ''Optional workspace-relative or absolute path inside the git repository/workspace.'')]),
      (''limit'', JObj [(''type'', JStr ''integer''), (''minimum'', JNum ''1''), (''maximum'',
      JNum ''100'')])])
     []"

definition git_show_parameters :: json where
  "git_show_parameters = object_schema
     (JObj [(''revision'', JObj [(''type'', JStr ''string''), (''description'', JStr ''Commit/revision to show.'')]),
      (''path'', JObj [(''type'', JStr ''string''), (''description'', JStr
      ''Optional workspace-relative or absolute path inside the git repository/workspace.'')]),
      (''max_bytes'', JObj [(''type'', JStr ''integer''), (''minimum'', JNum ''1''), (''maximum'',
      JNum ''262144'')])])
     [''revision'']"

definition git_add_parameters :: json where
  "git_add_parameters = object_schema
     (JObj [(''paths'', JObj [(''type'', JStr ''array''), (''items'', JObj [(''type'', JStr ''string'')]),
      (''description'', JStr ''Workspace-relative or absolute workspace paths to stage or restore.'')])])
     [''paths'']"

definition git_commit_parameters :: json where
  "git_commit_parameters = object_schema
     (JObj [(''message'', JObj [(''type'', JStr ''string''), (''description'', JStr ''Commit message.'')])])
     [''message'']"

definition git_stash_parameters :: json where
  "git_stash_parameters = object_schema
     (JObj [(''message'', JObj [(''type'', JStr ''string''), (''description'', JStr ''Optional stash message.'')]),
      (''include_untracked'', JObj [(''type'', JStr ''boolean''), (''default'', JBool False)])])
     []"

definition run_command_parameters :: json where
  "run_command_parameters = object_schema
     (JObj [(''command'', JObj [(''type'', JStr ''string''), (''description'', JStr
      ''Executable name. Shell strings are not accepted.'')]), (''args'', JObj [(''type'',
      JStr ''array''), (''items'', JObj [(''type'', JStr ''string'')]), (''description'',
      JStr ''Command arguments.'')]), (''cwd'', JObj [(''type'', JStr ''string''), (''description'',
      JStr ''Absolute working directory under the workspace.'')]), (''bypass_tool_redirect'',
      JObj [(''type'', JStr ''boolean''), (''description'', JStr
      ''Explicitly override dedicated-tool redirects when command execution is truly required.'')]),
      (''timeout_ms'', JObj [(''type'', JStr ''integer''), (''minimum'', JNum ''1''), (''maximum'',
      JNum ''600000'')]), (''max_output_bytes'', JObj [(''type'', JStr ''integer''), (''minimum'',
      JNum ''1''), (''maximum'', JNum ''131072'')]), (''env'', JObj [(''type'', JStr ''object''),
      (''additionalProperties'', JObj [(''type'', JStr ''string'')]), (''description'',
      JStr ''Optional non-secret environment values.'')]), (''reducer_mode'', JObj [(''type'',
      JStr ''string''), (''enum'', JArr [JStr ''execute_via_rtk'', JStr ''postprocess'',
      JStr ''none'']), (''default'', JStr ''execute_via_rtk''), (''description'', JStr
      ''Output reduction mode. Defaults to execute_via_rtk, which runs supported commands through RTK for compact output. Use none when the user asks for pure/noisy/raw command results.''
      )])])
     [''command'']"

definition chrome_open_parameters :: json where
  "chrome_open_parameters = object_schema
     (JObj [(''url'', JObj [(''type'', JStr ''string''), (''description'', JStr ''HTTP/HTTPS URL to open.'')])])
     [''url'']"

fun tool_parameters :: "client_tool_name \<Rightarrow> json" where
  "tool_parameters CtReadTextFile = read_text_file_parameters"
| "tool_parameters CtListDirectory = list_directory_parameters"
| "tool_parameters CtFindPaths = find_paths_parameters"
| "tool_parameters CtSearchFiles = search_files_parameters"
| "tool_parameters CtStat = stat_parameters"
| "tool_parameters CtEditFile = edit_file_parameters"
| "tool_parameters CtCreateTextFile = create_text_file_parameters"
| "tool_parameters CtCreateDirectory = create_directory_parameters"
| "tool_parameters CtMovePath = move_path_parameters"
| "tool_parameters CtCopyPath = move_path_parameters"
| "tool_parameters CtApplyPatch = apply_patch_parameters"
| "tool_parameters CtDeletePath = delete_path_parameters"
| "tool_parameters CtGitStatus = git_status_parameters"
| "tool_parameters CtGitDiff = git_diff_parameters"
| "tool_parameters CtGitLog = git_log_parameters"
| "tool_parameters CtGitShow = git_show_parameters"
| "tool_parameters CtGitAdd = git_add_parameters"
| "tool_parameters CtGitRestore = git_add_parameters"
| "tool_parameters CtGitCommit = git_commit_parameters"
| "tool_parameters CtGitStash = git_stash_parameters"
| "tool_parameters CtRunCommand = run_command_parameters"
| "tool_parameters CtProcessRun = run_command_parameters"
| "tool_parameters CtTerminalRunCommand = run_command_parameters"
| "tool_parameters CtChromeOpen = chrome_open_parameters"
| "tool_parameters CtChromeSnapshot = generic_object_schema"
| "tool_parameters CtChromeConsoleMessages = generic_object_schema"
| "tool_parameters CtChromeNetworkRequests = generic_object_schema"
| "tool_parameters CtChromeScreenshot = generic_object_schema"
| "tool_parameters CtMcpCallTool = generic_object_schema"

definition provider_tool_descriptor :: "client_tool_name \<Rightarrow> panic + json" where
  "provider_tool_descriptor tool =
     (let d = tool_descriptor tool in
      if \<not> provider_tool_name_is_safe (ctd_provider_name d) then Inl DebugAssertion
      else Inr (JObj [(''name'', JStr (ctd_provider_name d)),
        (''description'', JStr (''Armature local workspace tool ('' @ ctd_canonical_name d @ '', kind='' @ ctd_kind d @ '', risk=''
           @ ctd_risk d @ ''). '' @ ctd_title d
           @ ''. Use only for the user'' @ [CHR 0x27] @ ''s local editor workspace unless the tool explicitly targets browser state.'')),
        (''parameters'', tool_parameters tool)]))"

subsection \<open>Paths and targets\<close>

record tool_display_descriptor =
  tdd_label :: string
  tdd_category :: string
  tdd_progress_verb :: string
  tdd_complete_verb :: string
  tdd_target_arg_keys :: "string list"
  tdd_sensitive_arg_keys :: "string list"
  tdd_approval_summary :: string

definition display_descriptor_json :: "tool_display_descriptor \<Rightarrow> json" where
  "display_descriptor_json d = JObj [(''label'', JStr (tdd_label d)), (''category'', JStr (tdd_category d)),
     (''progress_verb'', JStr (tdd_progress_verb d)), (''complete_verb'', JStr (tdd_complete_verb d)),
     (''target_arg_keys'', jstrings (tdd_target_arg_keys d)), (''sensitive_arg_keys'', jstrings (tdd_sensitive_arg_keys d)),
     (''approval_summary'', JStr (tdd_approval_summary d))]"

definition is_display_path_key :: "string \<Rightarrow> bool" where
  "is_display_path_key key \<longleftrightarrow> key \<in> set [''path'', ''repo_path'', ''source_path'', ''destination_path'', ''root'', ''base_path'',
     ''cwd'', ''target_path'']"

text \<open>The normal components of a path: the pieces between slashes other than empty ones and dots.\<close>

fun split_on :: "char \<Rightarrow> string \<Rightarrow> string \<Rightarrow> string list" where
  "split_on sep cur [] = [cur]"
| "split_on sep cur (c # s) = (if c = sep then cur # split_on sep [] s else split_on sep (cur @ [c]) s)"

definition normal_components :: "string \<Rightarrow> string list" where
  "normal_components path = filter (\<lambda>p. p \<notin> set [[], ''.'', ''..'']) (split_on (CHR ''/'') [] path)"

definition ascii_alpha :: "char \<Rightarrow> bool" where
  "ascii_alpha c \<longleftrightarrow> (CHR ''a'' \<le> c \<and> c \<le> CHR ''z'') \<or> (CHR ''A'' \<le> c \<and> c \<le> CHR ''Z'')"

definition drive_prefix :: "string \<Rightarrow> bool" where
  "drive_prefix s = (case s of a # b # c # _ \<Rightarrow> ascii_alpha a \<and> b = CHR '':'' \<and> (c = CHR ''/'' \<or> c = CHR 0x5C) | _ \<Rightarrow> False)"

definition display_path :: "string \<Rightarrow> string" where
  "display_path path =
     (let t = trim path; parts = normal_components t in
      if t = [] then t
      else if \<not> (prefix ''/'' t \<or> prefix [CHR 0x5C, CHR 0x5C] t \<or> drive_prefix t) then t
      else if parts = [] then t
      else ellipsis @ ''/'' @ join_str ''/'' (drop (length parts - min 3 (length parts)) parts))"

definition as_array_json :: "json \<Rightarrow> json list option" where
  "as_array_json v = (case v of JArr xs \<Rightarrow> Some xs | _ \<Rightarrow> None)"

definition is_object_json :: "json \<Rightarrow> bool" where
  "is_object_json v = (case v of JObj _ \<Rightarrow> True | _ \<Rightarrow> False)"

text \<open>\<open>chars().take(n)\<close> and an ellipsis when characters are left.\<close>

definition preview_chars :: "string \<Rightarrow> nat \<Rightarrow> string" where
  "preview_chars value max_chars =
     take_chars max_chars value @ (if char_count value > max_chars then ellipsis else [])"

definition command_summary :: "json \<Rightarrow> string option" where
  "command_summary args = Option.bind (Option.bind (jget args ''command'') as_str_json) (\<lambda>raw.
     if trim raw = [] then None
     else Some (preview_chars (join_str '' '' (trim raw #
       (case Option.bind (jget args ''args'') as_array_json of None \<Rightarrow> []
        | Some xs \<Rightarrow> filter (\<lambda>a. a \<noteq> []) (map trim (List.map_filter as_str_json xs))))) 120))"

definition target_value :: "json \<Rightarrow> string \<Rightarrow> string option" where
  "target_value args key =
     (if key = ''command'' then command_summary args
      else Option.bind (string_arg args key) (\<lambda>v.
        if trim v = [] then None
        else Some (preview_chars (if is_display_path_key key then display_path (trim v) else trim v) 96)))"

definition tool_target_summary :: "string list \<Rightarrow> json \<Rightarrow> string option" where
  "tool_target_summary keys args =
     (if \<not> is_object_json args then None
      else case List.map_filter (target_value args) keys of
        [] \<Rightarrow> None
      | values \<Rightarrow> Some (join_str ('' '' @ [CHR 0xE2, CHR 0x86, CHR 0x92] @ '' '') values))"

subsection \<open>Display of a call\<close>

fun client_tool_display :: "client_tool_name \<Rightarrow> tool_display_descriptor" where
  "client_tool_display CtReadTextFile = \<lparr>tdd_label = ''Read file'', tdd_category = ''filesystem'', tdd_progress_verb = ''Reading'',
     tdd_complete_verb = ''Read'', tdd_target_arg_keys = [''path''], tdd_sensitive_arg_keys = [],
     tdd_approval_summary = ''Allow reading this workspace file.''\<rparr>"
| "client_tool_display CtListDirectory = \<lparr>tdd_label = ''List directory'', tdd_category = ''filesystem'', tdd_progress_verb = ''Listing'',
     tdd_complete_verb = ''Listed'', tdd_target_arg_keys = [''path''], tdd_sensitive_arg_keys = [],
     tdd_approval_summary = ''Allow listing this workspace directory.''\<rparr>"
| "client_tool_display CtFindPaths = \<lparr>tdd_label = ''Find paths'', tdd_category = ''filesystem'', tdd_progress_verb = ''Finding paths for'',
     tdd_complete_verb = ''Found paths for'', tdd_target_arg_keys = [''glob''], tdd_sensitive_arg_keys = [],
     tdd_approval_summary = ''Allow finding matching workspace paths.''\<rparr>"
| "client_tool_display CtSearchFiles = \<lparr>tdd_label = ''Search files'', tdd_category = ''filesystem'', tdd_progress_verb = ''Searching'',
     tdd_complete_verb = ''Searched'', tdd_target_arg_keys = [''query'', ''pattern'', ''path''],
     tdd_sensitive_arg_keys = [], tdd_approval_summary = ''Allow searching workspace file contents or paths.''\<rparr>"
| "client_tool_display CtStat = \<lparr>tdd_label = ''Inspect path'', tdd_category = ''filesystem'', tdd_progress_verb = ''Inspecting'',
     tdd_complete_verb = ''Inspected'', tdd_target_arg_keys = [''path''], tdd_sensitive_arg_keys = [],
     tdd_approval_summary = ''Allow reading metadata for this workspace path.''\<rparr>"
| "client_tool_display CtEditFile = \<lparr>tdd_label = ''Edit file'', tdd_category = ''filesystem'', tdd_progress_verb = ''Editing'',
     tdd_complete_verb = ''Edited'', tdd_target_arg_keys = [''path''], tdd_sensitive_arg_keys = [''old_text'',
     ''new_text''], tdd_approval_summary = ''Allow changing this workspace file.''\<rparr>"
| "client_tool_display CtCreateTextFile = \<lparr>tdd_label = ''Create file'', tdd_category = ''filesystem'', tdd_progress_verb = ''Creating'',
     tdd_complete_verb = ''Created'', tdd_target_arg_keys = [''path''], tdd_sensitive_arg_keys = [''content''],
     tdd_approval_summary = ''Allow creating this workspace file.''\<rparr>"
| "client_tool_display CtCreateDirectory = \<lparr>tdd_label = ''Create directory'', tdd_category = ''filesystem'', tdd_progress_verb = ''Creating'',
     tdd_complete_verb = ''Created'', tdd_target_arg_keys = [''path''], tdd_sensitive_arg_keys = [],
     tdd_approval_summary = ''Allow creating this workspace directory.''\<rparr>"
| "client_tool_display CtMovePath = \<lparr>tdd_label = ''Move path'', tdd_category = ''filesystem'', tdd_progress_verb = ''Moving'',
     tdd_complete_verb = ''Moved'', tdd_target_arg_keys = [''source_path'', ''destination_path''],
     tdd_sensitive_arg_keys = [], tdd_approval_summary = ''Allow moving or renaming this workspace path.''\<rparr>"
| "client_tool_display CtCopyPath = \<lparr>tdd_label = ''Copy path'', tdd_category = ''filesystem'', tdd_progress_verb = ''Copying'',
     tdd_complete_verb = ''Copied'', tdd_target_arg_keys = [''source_path'', ''destination_path''],
     tdd_sensitive_arg_keys = [], tdd_approval_summary = ''Allow copying this workspace path.''\<rparr>"
| "client_tool_display CtApplyPatch = \<lparr>tdd_label = ''Apply patch'', tdd_category = ''filesystem'', tdd_progress_verb = ''Applying patch'',
     tdd_complete_verb = ''Applied patch'', tdd_target_arg_keys = [''base_path''], tdd_sensitive_arg_keys = [
     ''patch''], tdd_approval_summary = ''Allow applying a patch to workspace files.''\<rparr>"
| "client_tool_display CtDeletePath = \<lparr>tdd_label = ''Delete path'', tdd_category = ''filesystem'', tdd_progress_verb = ''Deleting'',
     tdd_complete_verb = ''Deleted'', tdd_target_arg_keys = [''path''], tdd_sensitive_arg_keys = [],
     tdd_approval_summary = ''Allow deleting this workspace path.''\<rparr>"
| "client_tool_display CtGitStatus = \<lparr>tdd_label = ''Check git status'', tdd_category = ''git'', tdd_progress_verb = ''Checking git status in'',
     tdd_complete_verb = ''Checked git status in'', tdd_target_arg_keys = [''repo_path''],
     tdd_sensitive_arg_keys = [], tdd_approval_summary = ''Allow reading git status for this workspace repository.''\<rparr>"
| "client_tool_display CtGitDiff = \<lparr>tdd_label = ''Inspect git diff'', tdd_category = ''git'', tdd_progress_verb = ''Inspecting git diff in'',
     tdd_complete_verb = ''Inspected git diff in'', tdd_target_arg_keys = [''repo_path''],
     tdd_sensitive_arg_keys = [], tdd_approval_summary = ''Allow reading git diff for this workspace repository.''\<rparr>"
| "client_tool_display CtGitLog = \<lparr>tdd_label = ''Read git log'', tdd_category = ''git'', tdd_progress_verb = ''Reading git log in'',
     tdd_complete_verb = ''Read git log in'', tdd_target_arg_keys = [''repo_path''], tdd_sensitive_arg_keys = [],
     tdd_approval_summary = ''Allow reading git history for this workspace repository.''\<rparr>"
| "client_tool_display CtGitShow = \<lparr>tdd_label = ''Show git revision'', tdd_category = ''git'', tdd_progress_verb = ''Showing git revision'',
     tdd_complete_verb = ''Showed git revision'', tdd_target_arg_keys = [''revision'', ''path''],
     tdd_sensitive_arg_keys = [], tdd_approval_summary = ''Allow reading this git revision or file.''\<rparr>"
| "client_tool_display CtGitAdd = \<lparr>tdd_label = ''Stage git paths'', tdd_category = ''git'', tdd_progress_verb = ''Staging git paths in'',
     tdd_complete_verb = ''Staged git paths in'', tdd_target_arg_keys = [''repo_path''],
     tdd_sensitive_arg_keys = [], tdd_approval_summary = ''Allow staging explicit git paths.''\<rparr>"
| "client_tool_display CtGitRestore = \<lparr>tdd_label = ''Restore git paths'', tdd_category = ''git'', tdd_progress_verb = ''Restoring git paths in'',
     tdd_complete_verb = ''Restored git paths in'', tdd_target_arg_keys = [''repo_path''],
     tdd_sensitive_arg_keys = [], tdd_approval_summary = ''Allow restoring git paths; this may discard changes.''\<rparr>"
| "client_tool_display CtGitCommit = \<lparr>tdd_label = ''Create git commit'', tdd_category = ''git'', tdd_progress_verb = ''Committing'',
     tdd_complete_verb = ''Committed'', tdd_target_arg_keys = [''message''], tdd_sensitive_arg_keys = [],
     tdd_approval_summary = ''Allow creating a git commit from staged changes.''\<rparr>"
| "client_tool_display CtGitStash = \<lparr>tdd_label = ''Stash git changes'', tdd_category = ''git'', tdd_progress_verb = ''Stashing git changes in'',
     tdd_complete_verb = ''Stashed git changes in'', tdd_target_arg_keys = [''repo_path''],
     tdd_sensitive_arg_keys = [], tdd_approval_summary = ''Allow creating a git stash.''\<rparr>"
| "client_tool_display CtRunCommand = \<lparr>tdd_label = ''Run command'', tdd_category = ''terminal'', tdd_progress_verb = ''Running command'',
     tdd_complete_verb = ''Ran command'', tdd_target_arg_keys = [''command'', ''cwd''],
     tdd_sensitive_arg_keys = [''env''], tdd_approval_summary = ''Allow running this command in the workspace.''\<rparr>"
| "client_tool_display CtProcessRun = \<lparr>tdd_label = ''Run process'', tdd_category = ''terminal'', tdd_progress_verb = ''Running'',
     tdd_complete_verb = ''Ran'', tdd_target_arg_keys = [''command'', ''cwd''], tdd_sensitive_arg_keys = [''env''],
     tdd_approval_summary = ''Allow running this process in the workspace.''\<rparr>"
| "client_tool_display CtTerminalRunCommand = \<lparr>tdd_label = ''Run terminal command'', tdd_category = ''terminal'', tdd_progress_verb =
     ''Running terminal command'', tdd_complete_verb = ''Ran terminal command'', tdd_target_arg_keys = [''command'',
     ''cwd''], tdd_sensitive_arg_keys = [''env''], tdd_approval_summary =
     ''Allow running this terminal command in the workspace.''\<rparr>"
| "client_tool_display CtChromeOpen = \<lparr>tdd_label = ''Open browser'', tdd_category = ''browser'', tdd_progress_verb = ''Opening'',
     tdd_complete_verb = ''Opened'', tdd_target_arg_keys = [''url''], tdd_sensitive_arg_keys = [],
     tdd_approval_summary = ''Allow opening this URL in the browser session.''\<rparr>"
| "client_tool_display CtChromeSnapshot = \<lparr>tdd_label = ''Inspect browser page'', tdd_category = ''browser'', tdd_progress_verb =
     ''Inspecting browser page'', tdd_complete_verb = ''Inspected browser page'', tdd_target_arg_keys = [],
     tdd_sensitive_arg_keys = [], tdd_approval_summary = ''Allow reading the current browser page snapshot.''\<rparr>"
| "client_tool_display CtChromeConsoleMessages = \<lparr>tdd_label = ''Read browser console'', tdd_category = ''browser'', tdd_progress_verb =
     ''Reading browser console'', tdd_complete_verb = ''Read browser console'', tdd_target_arg_keys = [],
     tdd_sensitive_arg_keys = [], tdd_approval_summary = ''Allow reading browser console messages.''\<rparr>"
| "client_tool_display CtChromeNetworkRequests = \<lparr>tdd_label = ''Inspect network requests'', tdd_category = ''browser'', tdd_progress_verb =
     ''Inspecting network requests'', tdd_complete_verb = ''Inspected network requests'',
     tdd_target_arg_keys = [], tdd_sensitive_arg_keys = [], tdd_approval_summary =
     ''Allow reading browser network request metadata.''\<rparr>"
| "client_tool_display CtChromeScreenshot = \<lparr>tdd_label = ''Capture screenshot'', tdd_category = ''browser'', tdd_progress_verb = ''Capturing screenshot'',
     tdd_complete_verb = ''Captured screenshot'', tdd_target_arg_keys = [''format''], tdd_sensitive_arg_keys = [],
     tdd_approval_summary = ''Allow capturing a browser screenshot.''\<rparr>"
| "client_tool_display CtMcpCallTool = \<lparr>tdd_label = ''Run MCP tool'', tdd_category = ''mcp'', tdd_progress_verb = ''Running MCP tool'',
     tdd_complete_verb = ''Ran MCP tool'', tdd_target_arg_keys = [], tdd_sensitive_arg_keys = [],
     tdd_approval_summary = ''Allow running this client-provided MCP tool.''\<rparr>"

fun value_kind :: "json \<Rightarrow> string" where
  "value_kind JNull = ''null''"
| "value_kind (JBool _) = ''boolean''"
| "value_kind (JNum _) = ''number''"
| "value_kind (JStr _) = ''string''"
| "value_kind (JArr _) = ''array''"
| "value_kind (JObj _) = ''object''"

fun summarize_plain :: "json \<Rightarrow> json" where
  "summarize_plain (JStr s) = JStr (preview_chars s 160)"
| "summarize_plain (JArr xs) = JObj [(''items'', jnat (length xs)), (''preview'', JArr (take 5 (map summarize_plain xs)))]"
| "summarize_plain (JObj kvs) = JObj [(''keys'', jstrings (take 20 (map fst kvs)))]"
| "summarize_plain v = v"

definition summarize_value :: "(json \<Rightarrow> string) \<Rightarrow> json \<Rightarrow> bool \<Rightarrow> json" where
  "summarize_value show_json v sensitive =
     (if sensitive then JObj [(''redacted'', JBool True), (''kind'', JStr (value_kind v)), (''bytes'', jnat (length (show_json v)))]
      else summarize_plain v)"

definition summarize_arguments :: "(json \<Rightarrow> string) \<Rightarrow> json \<Rightarrow> string list \<Rightarrow> json" where
  "summarize_arguments show_json args sensitive_keys =
     (case args of JObj kvs \<Rightarrow> JObj (map (\<lambda>(k, v). (k, summarize_value show_json v (k \<in> set sensitive_keys))) kvs)
      | _ \<Rightarrow> summarize_value show_json args False)"

definition target_member :: "(json \<Rightarrow> string) \<Rightarrow> json \<Rightarrow> string \<Rightarrow> (string \<times> json) option" where
  "target_member show_json args key = map_option (\<lambda>v. (key,
     case (if is_display_path_key key then as_str_json v else None) of
       Some raw \<Rightarrow> JStr (display_path raw)
     | None \<Rightarrow> summarize_value show_json v False)) (jget args key)"

definition summarize_target_object :: "(json \<Rightarrow> string) \<Rightarrow> string list \<Rightarrow> json \<Rightarrow> json" where
  "summarize_target_object show_json keys args =
     (if is_object_json args then JObj (List.map_filter (target_member show_json args) keys) else JNull)"

definition fallback_tool_display :: "(json \<Rightarrow> string) \<Rightarrow> string \<Rightarrow> json \<Rightarrow> json" where
  "fallback_tool_display show_json tool_name args = JObj [(''label'', JStr tool_name), (''title'', JStr (''Use '' @ tool_name)),
     (''category'', JStr ''tool''), (''status'', JStr ''requested''),
     (''arguments_summary'', summarize_arguments show_json args [])]"

definition client_tool_display_for_provider :: "(json \<Rightarrow> string) \<Rightarrow> string \<Rightarrow> json \<Rightarrow> json" where
  "client_tool_display_for_provider show_json tool_name args =
     (case from_provider_alias tool_name of
        None \<Rightarrow> fallback_tool_display show_json tool_name args
      | Some tool \<Rightarrow>
         (let d = client_tool_display tool; target = tool_target_summary (tdd_target_arg_keys d) args in
          JObj [(''label'', JStr (tdd_label d)),
            (''title'', JStr (case target of Some t \<Rightarrow> tdd_progress_verb d @ '' '' @ t | None \<Rightarrow> tdd_label d)),
            (''subtitle'', opt_str_json target), (''category'', JStr (tdd_category d)), (''status'', JStr ''requested''),
            (''progress'', JStr (tdd_progress_verb d)), (''complete'', JStr (tdd_complete_verb d)),
            (''approval_summary'', JStr (tdd_approval_summary d)),
            (''arguments_summary'', summarize_arguments show_json args (tdd_sensitive_arg_keys d)),
            (''target'', summarize_target_object show_json (tdd_target_arg_keys d) args)]))"

end
