(* ===== verification/Client_Tool_Properties.thy ===== *)
theory Client_Tool_Properties
  imports Client_Tool_Surface
begin

section \<open>Properties of the client tools\<close>

text \<open>
  Which tools a session may use, the names that resolve to them, the required arguments against
  the schemas, and what the display of a call reveals of its arguments.
\<close>

subsection \<open>Which tools a session may use\<close>

text \<open>The modes in which a session writes: an approved plan, or write mode without a plan that holds it back.\<close>

definition writes_enabled :: "string \<Rightarrow> string option \<Rightarrow> bool" where
  "writes_enabled mode plan \<longleftrightarrow> plan = Some ''approved''
     \<or> plan \<notin> {Some ''active'', Some ''submitted'', Some ''rejected''} \<and> to_ascii_lowercase (trim mode) = ''write''"

lemma enables_iff: "enables_non_read_tools (rsp_tool_enablement (resolve_session_policy_for_mode mode plan)) \<longleftrightarrow> writes_enabled mode plan"
  by (auto simp: enables_non_read_tools_def resolve_session_policy_for_mode_def resolved_mode_def writes_enabled_def Let_def)

lemma mutation_needs_approval:
  "tool_class tool \<noteq> ClassReadOnly \<Longrightarrow> tool \<noteq> CtGitAdd \<Longrightarrow> requires_unconditional_approval (tp_approval_policy (client_tool_policy tool))"
  by (cases tool) (simp_all add: requires_unconditional_approval_def ARMATURE_EDIT_FILE_POLICY_def ARMATURE_CREATE_TEXT_FILE_POLICY_def
      ARMATURE_CREATE_DIRECTORY_POLICY_def ARMATURE_MOVE_PATH_POLICY_def ARMATURE_COPY_PATH_POLICY_def ARMATURE_APPLY_PATCH_POLICY_def
      ARMATURE_DELETE_PATH_POLICY_def ARMATURE_GIT_WRITE_POLICY_def ARMATURE_PROCESS_RUN_POLICY_def ARMATURE_CHROME_POLICY_def)

lemma classes_partition: "set (allowed_tool_classes p) \<inter> set (denied_tool_classes p) = {}
   \<and> (tool_class_str (tool_class tool) \<in> set (allowed_tool_classes p) \<longleftrightarrow> allows_tool p tool)"
  by (cases "tool_class tool") (auto simp: allowed_tool_classes_def denied_tool_classes_def allows_tool_def)

text \<open>
  C14. A tool name offered to a provider is allowed exactly when it names a tool that only reads, or
  any tool while the session writes: under an approved plan, or in write mode with no plan active,
  submitted or rejected. The classes the session reports as allowed are those of the allowed
  tools and disjoint from the denied ones, and every tool that is not read-only asks for approval
  unconditionally, staging git paths excepted.
\<close>

theorem tools_need_write_mode_and_approval:
  fixes mode :: string and plan :: "string option"
  defines "p \<equiv> resolve_session_policy_for_mode mode plan"
  shows "(provider_tool_allowed_in_policy raw p
      \<longleftrightarrow> (\<exists>tool. from_provider_alias raw = Some tool \<and> (tool_class tool = ClassReadOnly \<or> writes_enabled mode plan)))
    \<and> (\<forall>tool. tool_class_str (tool_class tool) \<in> set (allowed_tool_classes p) \<longleftrightarrow> allows_tool p tool)
    \<and> set (allowed_tool_classes p) \<inter> set (denied_tool_classes p) = {}
    \<and> (\<forall>tool. tool_class tool = ClassReadOnly \<or> tool = CtGitAdd
         \<or> requires_unconditional_approval (tp_approval_policy (client_tool_policy tool)))"
proof -
  have "provider_tool_allowed_in_policy raw p
      \<longleftrightarrow> (\<exists>tool. from_provider_alias raw = Some tool \<and> (tool_class tool = ClassReadOnly \<or> writes_enabled mode plan))"
    unfolding p_def by (auto simp: provider_tool_allowed_in_policy_def allows_tool_def enables_iff split: option.splits)
  then show ?thesis using classes_partition [of p] mutation_needs_approval by blast
qed

subsection \<open>Names\<close>

lemma safe_provider_names: "list_all (\<lambda>t. provider_tool_name_is_safe (ctd_provider_name (tool_descriptor t))) all_client_tools"
  by code_simp

lemma names_resolve:
  "list_all (\<lambda>t. list_all (\<lambda>raw. from_provider_alias raw = Some t)
     (ctd_provider_name (tool_descriptor t) # ctd_canonical_name (tool_descriptor t) # ctd_provider_aliases (tool_descriptor t))) all_client_tools"
  by code_simp

lemma alias_table_tools: "list_all (\<lambda>row. snd row \<in> set all_client_tools) alias_table"
  by (simp add: alias_table_def all_client_tools_def)

lemma alias_result:
  assumes "from_provider_alias raw = Some tool"
  shows "tool \<in> set all_client_tools \<or> tool = CtMcpCallTool \<and> prefix ''mcp__'' raw"
proof (cases "List.find (names_tool raw) all_client_tools")
  case (Some t)
  then have "t \<in> set all_client_tools" by (metis find_Some_iff nth_mem)
  then show ?thesis using Some assms by (simp add: from_provider_alias_def)
next
  case None
  show ?thesis
  proof (cases "List.find (\<lambda>row. raw \<in> set (fst row)) alias_table")
    case (Some row)
    then have "row \<in> set alias_table" by (metis find_Some_iff nth_mem)
    then have "snd row \<in> set all_client_tools" using alias_table_tools by (simp add: list_all_iff)
    then show ?thesis using Some None assms by (simp add: from_provider_alias_def)
  qed (use None assms in \<open>auto simp: from_provider_alias_def split: if_splits\<close>)
qed

lemma distinct_provider_names: "distinct supported_provider_tool_names"
  by code_simp

text \<open>
  Every tool offered to a provider is found again from its provider name, its canonical name and
  each of its aliases; the offered names are distinct and safe, so that building a descriptor never
  fails its assertion, and a name resolves only to an offered tool or, with its prefix, to the
  MCP tool.
\<close>

theorem tool_names_round_trip:
  "(\<forall>t \<in> set all_client_tools.
      (\<forall>raw \<in> insert (ctd_provider_name (tool_descriptor t)) (insert (ctd_canonical_name (tool_descriptor t))
          (set (ctd_provider_aliases (tool_descriptor t)))). from_provider_alias raw = Some t)
      \<and> (\<exists>d. provider_tool_descriptor t = Inr d \<and> jget d ''name'' = Some (JStr (ctd_provider_name (tool_descriptor t)))))
   \<and> distinct supported_provider_tool_names
   \<and> (\<forall>raw tool. from_provider_alias raw = Some tool \<longrightarrow> tool \<in> set all_client_tools \<or> tool = CtMcpCallTool \<and> prefix ''mcp__'' raw)"
proof (intro conjI ballI allI impI)
  fix t assume t: "t \<in> set all_client_tools"
  show "\<exists>d. provider_tool_descriptor t = Inr d \<and> jget d ''name'' = Some (JStr (ctd_provider_name (tool_descriptor t)))"
    using safe_provider_names t by (auto simp: provider_tool_descriptor_def Let_def list_all_iff jget_def)
  fix raw assume "raw \<in> insert (ctd_provider_name (tool_descriptor t)) (insert (ctd_canonical_name (tool_descriptor t))
          (set (ctd_provider_aliases (tool_descriptor t))))"
  then show "from_provider_alias raw = Some t" using names_resolve t unfolding list_all_iff by auto
qed (use distinct_provider_names alias_result in blast)+

theorem tool_names_round_trip_witness:
  "from_provider_alias (ctd_canonical_name (tool_descriptor CtStat)) = Some CtStat"
proof -
  have "CtStat \<in> set all_client_tools" by (simp add: all_client_tools_def)
  then show ?thesis using tool_names_round_trip by blast
qed

subsection \<open>Required arguments\<close>

text \<open>
  The tools that stage or restore git paths cannot be called: their schema asks for \<open>paths\<close> as
  an array, and the check of the required arguments counts every value that is not a string as
  missing, so that each call the schema accepts is refused.
\<close>

theorem git_paths_always_missing:
  assumes "tool \<in> {CtGitAdd, CtGitRestore}" and "jget args ''paths'' = Some (JArr xs)"
  shows "Option.bind (Option.bind (Option.bind (jget (tool_parameters tool) ''properties'') (\<lambda>p. jget p ''paths'')) (\<lambda>p. jget p ''type''))
           as_str_json = Some ''array''
    \<and> missing_required_string_arg tool args = Some ''paths''"
proof -
  have "Option.bind (Option.bind (Option.bind (jget (tool_parameters tool) ''properties'') (\<lambda>p. jget p ''paths'')) (\<lambda>p. jget p ''type''))
           as_str_json = Some ''array''"
    using assms(1) by (auto simp: git_add_parameters_def object_schema_def jget_def as_str_json_def)
  moreover have "arg_missing tool args ''paths''"
    using assms by (auto simp: arg_missing_def string_arg_def as_str_json_def)
  ultimately show ?thesis using assms(1) by (auto simp: missing_required_string_arg_def)
qed

theorem git_paths_always_missing_witness:
  "missing_required_string_arg CtGitAdd (JObj [(''paths'', JArr [JStr ''a.txt''])]) = Some ''paths''"
proof -
  have "jget (JObj [(''paths'', JArr [JStr ''a.txt''])]) ''paths'' = Some (JArr [JStr ''a.txt''])" by (simp add: jget_def)
  from git_paths_always_missing [OF _ this, of CtGitAdd] show ?thesis by simp
qed

subsection \<open>What the display of a call shows\<close>

text \<open>Two argument objects that differ only in the values of sensitive keys, of one kind and one printed size.\<close>

definition alike_member :: "(json \<Rightarrow> string) \<Rightarrow> string list \<Rightarrow> string \<times> json \<Rightarrow> string \<times> json \<Rightarrow> bool" where
  "alike_member sj sens kv kv' \<longleftrightarrow> fst kv = fst kv' \<and> (snd kv = snd kv'
     \<or> fst kv \<in> set sens \<and> value_kind (snd kv) = value_kind (snd kv') \<and> length (sj (snd kv)) = length (sj (snd kv')))"

definition alike_args :: "(json \<Rightarrow> string) \<Rightarrow> string list \<Rightarrow> (string \<times> json) list \<Rightarrow> (string \<times> json) list \<Rightarrow> bool" where
  "alike_args sj sens kvs kvs' \<longleftrightarrow> list_all2 (alike_member sj sens) kvs kvs'"

lemma alike_lookup: "alike_args sj sens kvs kvs' \<Longrightarrow> k \<notin> set sens \<Longrightarrow> map_of kvs k = map_of kvs' k"
  unfolding alike_args_def by (induction rule: list_all2_induct) (auto simp: alike_member_def)

lemma alike_jget: "alike_args sj sens kvs kvs' \<Longrightarrow> k \<notin> set sens \<Longrightarrow> jget (JObj kvs) k = jget (JObj kvs') k"
  using alike_lookup by (simp add: jget_def)

lemma alike_summary: "alike_args sj sens kvs kvs' \<Longrightarrow> summarize_arguments sj (JObj kvs) sens = summarize_arguments sj (JObj kvs') sens"
proof -
  assume "alike_args sj sens kvs kvs'"
  then have "map (\<lambda>(k, v). (k, summarize_value sj v (k \<in> set sens))) kvs = map (\<lambda>(k, v). (k, summarize_value sj v (k \<in> set sens))) kvs'"
    unfolding alike_args_def by (induction rule: list_all2_induct) (auto simp: alike_member_def summarize_value_def)
  then show ?thesis by (simp add: summarize_arguments_def)
qed

text \<open>No key that is shown as a target is sensitive, nor are the keys of the command line.\<close>

lemma targets_not_sensitive:
  "k \<in> insert ''command'' (insert ''args'' (set (tdd_target_arg_keys (client_tool_display tool)))) \<Longrightarrow> k \<notin> set (tdd_sensitive_arg_keys (client_tool_display tool))"
  by (cases tool) auto

lemma map_filter_same: "(\<And>x. x \<in> set xs \<Longrightarrow> f x = g x) \<Longrightarrow> List.map_filter f xs = List.map_filter g xs"
  by (induction xs) (auto simp: List.map_filter_simps split: option.splits)

text \<open>
  C21. The display of a tool call reveals of a sensitive argument (the texts of an edit, the content
  of a new file, a patch, an environment) only its kind and its printed size: two calls that differ
  in nothing else are shown alike.
\<close>

theorem display_hides_sensitive:
  assumes "from_provider_alias name = Some tool"
    and "alike_args sj (tdd_sensitive_arg_keys (client_tool_display tool)) kvs kvs'"
  shows "client_tool_display_for_provider sj name (JObj kvs) = client_tool_display_for_provider sj name (JObj kvs')"
proof -
  let ?d = "client_tool_display tool"
  have get: "jget (JObj kvs) k = jget (JObj kvs') k"
    if "k \<in> insert ''command'' (insert ''args'' (set (tdd_target_arg_keys ?d)))" for k
    using alike_jget [OF assms(2) targets_not_sensitive [OF that]] .
  have "command_summary (JObj kvs) = command_summary (JObj kvs')" 
    unfolding command_summary_def get [of "''command''", simplified] get [of "''args''", simplified] ..
  then have "target_value (JObj kvs) k = target_value (JObj kvs') k" if "k \<in> set (tdd_target_arg_keys ?d)" for k
    using get that by (simp add: target_value_def string_arg_def)
  then have "tool_target_summary (tdd_target_arg_keys ?d) (JObj kvs) = tool_target_summary (tdd_target_arg_keys ?d) (JObj kvs')"
    using map_filter_same [of "tdd_target_arg_keys ?d" "target_value (JObj kvs)"]
    by (simp add: tool_target_summary_def is_object_json_def cong: option.case_cong)
  moreover have "target_member sj (JObj kvs) k = target_member sj (JObj kvs') k" if "k \<in> set (tdd_target_arg_keys ?d)" for k
    using get that by (simp add: target_member_def)
  then have "summarize_target_object sj (tdd_target_arg_keys ?d) (JObj kvs) = summarize_target_object sj (tdd_target_arg_keys ?d) (JObj kvs')"
    using map_filter_same [of "tdd_target_arg_keys ?d" "target_member sj (JObj kvs)"] by (simp add: summarize_target_object_def is_object_json_def)
  ultimately show ?thesis
    using assms alike_summary [OF assms(2)] by (simp add: client_tool_display_for_provider_def Let_def)
qed

theorem display_hides_sensitive_witness:
  "client_tool_display_for_provider (\<lambda>_. ''xx'') ''fs_create_text_file'' (JObj [(''path'', JStr ''a''), (''content'', JStr ''secret'')])
   = client_tool_display_for_provider (\<lambda>_. ''xx'') ''fs_create_text_file'' (JObj [(''path'', JStr ''a''), (''content'', JStr ''public'')])"
proof -
  have "from_provider_alias ''fs_create_text_file'' = Some CtCreateTextFile" by code_simp
  moreover have "alike_args (\<lambda>_. ''xx'') (tdd_sensitive_arg_keys (client_tool_display CtCreateTextFile))
      [(''path'', JStr ''a''), (''content'', JStr ''secret'')] [(''path'', JStr ''a''), (''content'', JStr ''public'')]"
    by (simp add: alike_args_def alike_member_def)
  ultimately show ?thesis by (rule display_hides_sensitive)
qed

end
