(* ===== verification/Memory_Entities.thy ===== *)
theory Memory_Entities
  imports Db_Effects
begin

section \<open>Entities of the memory service\<close>

text \<open>
  \<open>den-memory/src/{descriptors,entity,resolver}.rs\<close>: the vocabularies of entity types, relations and
  handles, the entities a bear knows with their handles, merging and splitting, and the resolution of
  identifying signals to an entity. The tables are those of \<open>schema.sql\<close>; every statement is
  restricted to the rows of one bear (\<open>bear\<close>, the printed id of the store's bear). \<open>fresh\<close> and \<open>now\<close>
  are the uuids a call generates and its clock readings, in order, as texts; a JSON column holds the
  value it encodes. Rows with equal keys of an \<open>ORDER BY\<close> come in insertion order.
\<close>

subsection \<open>Vocabularies\<close>

datatype relation_class = Descriptive | AccessBearing

fun relation_class_str :: "relation_class \<Rightarrow> string" where
  "relation_class_str Descriptive = ''descriptive''"
| "relation_class_str AccessBearing = ''access_bearing''"

definition relation_class_from_str :: "string \<Rightarrow> relation_class option" where
  "relation_class_from_str raw = (if raw = ''descriptive'' then Some Descriptive
     else if raw = ''access_bearing'' then Some AccessBearing else None)"

datatype recall_effect = RecallBoost | RecallGate | RecallNone

datatype handle_strength_kind = Strong | Weak

datatype owning_registry = OwnCabinet | OwnDen | OwnCalendar | OwnBearLocal | OwnExternal

datatype entity_trust = TrustInferred | TrustAsserted

fun entity_trust_str :: "entity_trust \<Rightarrow> string" where
  "entity_trust_str TrustInferred = ''inferred''"
| "entity_trust_str TrustAsserted = ''asserted''"

definition entity_trust_parse :: "string \<Rightarrow> entity_trust option" where
  "entity_trust_parse raw = (if raw = ''inferred'' then Some TrustInferred else if raw = ''asserted'' then Some TrustAsserted else None)"

datatype resolution_state = ResRejected | ResMerged | ResObserved | ResProvisional | ResResolved | ResConfirmed

fun resolution_str :: "resolution_state \<Rightarrow> string" where
  "resolution_str ResRejected = ''rejected''"
| "resolution_str ResMerged = ''merged''"
| "resolution_str ResObserved = ''observed''"
| "resolution_str ResProvisional = ''provisional''"
| "resolution_str ResResolved = ''resolved''"
| "resolution_str ResConfirmed = ''confirmed''"

definition resolution_parse :: "string \<Rightarrow> resolution_state option" where
  "resolution_parse raw =
     (if raw = ''rejected'' then Some ResRejected
      else if raw = ''merged'' \<or> raw = ''superseded'' then Some ResMerged
      else if raw = ''observed'' then Some ResObserved
      else if raw = ''provisional'' then Some ResProvisional
      else if raw = ''resolved'' then Some ResResolved
      else if raw = ''confirmed'' then Some ResConfirmed else None)"

text \<open>The derived order: the order of the constructors.\<close>

fun resolution_rank :: "resolution_state \<Rightarrow> nat" where
  "resolution_rank ResRejected = 0"
| "resolution_rank ResMerged = 1"
| "resolution_rank ResObserved = 2"
| "resolution_rank ResProvisional = 3"
| "resolution_rank ResResolved = 4"
| "resolution_rank ResConfirmed = 5"

lemma resolution_rank_inject: "resolution_rank a = resolution_rank b \<longleftrightarrow> a = b"
  by (cases a; cases b) simp_all

instantiation resolution_state :: linorder
begin

definition less_eq_resolution_state :: "resolution_state \<Rightarrow> resolution_state \<Rightarrow> bool" where
  "less_eq_resolution_state a b \<longleftrightarrow> resolution_rank a \<le> resolution_rank b"

definition less_resolution_state :: "resolution_state \<Rightarrow> resolution_state \<Rightarrow> bool" where
  "less_resolution_state a b \<longleftrightarrow> resolution_rank a < resolution_rank b"

instance
  by standard (auto simp: less_eq_resolution_state_def less_resolution_state_def resolution_rank_inject)

end

definition can_bear_access :: "resolution_state \<Rightarrow> bool" where
  "can_bear_access s \<longleftrightarrow> s \<ge> ResResolved"

definition resolution_is_live :: "resolution_state \<Rightarrow> bool" where
  "resolution_is_live s \<longleftrightarrow> s \<notin> {ResMerged, ResRejected}"

record entity_type_descriptor =
  etd_id :: string
  etd_owning_registry :: owning_registry
  etd_default_trust :: entity_trust
  etd_anchor_eligible :: bool
  etd_valid_handle_types :: "string list"

record relation_descriptor =
  rld_id :: string
  rld_alias :: string
  rld_class :: relation_class
  rld_max_per_record :: "nat option"
  rld_applies_to_entities :: "string list"
  rld_allowed_qualifiers :: "string list"
  rld_recall_effect :: recall_effect
  rld_anchor_projecting :: bool

record handle_type_descriptor =
  htd_id :: string
  htd_strength :: handle_strength_kind

definition ANY_ENTITY :: "string list" where
  "ANY_ENTITY = [''*'']"

definition ENTITY_TYPES :: "entity_type_descriptor list" where
  "ENTITY_TYPES = [
     \<lparr>etd_id = ''person'', etd_owning_registry = OwnCabinet, etd_default_trust = TrustInferred, etd_anchor_eligible = True,
      etd_valid_handle_types = [''den_user'', ''session_human'', ''cabinet_ref'', ''slack_user'', ''email'', ''mention'', ''alias'']\<rparr>,
     \<lparr>etd_id = ''org'', etd_owning_registry = OwnCabinet, etd_default_trust = TrustInferred, etd_anchor_eligible = True,
      etd_valid_handle_types = [''cabinet_ref'', ''url'', ''mention'', ''alias'']\<rparr>,
     \<lparr>etd_id = ''event'', etd_owning_registry = OwnCalendar, etd_default_trust = TrustInferred, etd_anchor_eligible = False,
      etd_valid_handle_types = [''calendar_event_id'', ''mention'', ''alias'']\<rparr>,
     \<lparr>etd_id = ''mission'', etd_owning_registry = OwnCabinet, etd_default_trust = TrustAsserted, etd_anchor_eligible = True,
      etd_valid_handle_types = [''cabinet_ref'', ''mention'', ''alias'']\<rparr>,
     \<lparr>etd_id = ''domain'', etd_owning_registry = OwnBearLocal, etd_default_trust = TrustAsserted, etd_anchor_eligible = True,
      etd_valid_handle_types = [''mention'', ''alias'']\<rparr>,
     \<lparr>etd_id = ''work_surface'', etd_owning_registry = OwnDen, etd_default_trust = TrustAsserted, etd_anchor_eligible = True,
      etd_valid_handle_types = [''git_remote'', ''connection_ref'', ''checkout'', ''workspace_root'', ''url'']\<rparr>,
     \<lparr>etd_id = ''connection'', etd_owning_registry = OwnDen, etd_default_trust = TrustAsserted, etd_anchor_eligible = False,
      etd_valid_handle_types = [''connection_ref'']\<rparr>,
     \<lparr>etd_id = ''artifact'', etd_owning_registry = OwnExternal, etd_default_trust = TrustInferred, etd_anchor_eligible = False,
      etd_valid_handle_types = [''url'', ''mention'']\<rparr>]"

definition RELATIONS :: "relation_descriptor list" where
  "RELATIONS = [
     \<lparr>rld_id = ''den.memory.relation.subject'', rld_alias = ''subject'', rld_class = Descriptive, rld_max_per_record = None,
      rld_applies_to_entities = ANY_ENTITY, rld_allowed_qualifiers = [''is_primary'', ''confidence'', ''source_handle''],
      rld_recall_effect = RecallBoost, rld_anchor_projecting = True\<rparr>,
     \<lparr>rld_id = ''den.memory.relation.source'', rld_alias = ''source'', rld_class = Descriptive, rld_max_per_record = None,
      rld_applies_to_entities = ANY_ENTITY, rld_allowed_qualifiers = [''confidence'', ''source_handle''],
      rld_recall_effect = RecallBoost, rld_anchor_projecting = False\<rparr>,
     \<lparr>rld_id = ''den.memory.relation.participant'', rld_alias = ''participant'', rld_class = Descriptive, rld_max_per_record = None,
      rld_applies_to_entities = ANY_ENTITY, rld_allowed_qualifiers = [''confidence'', ''source_handle''],
      rld_recall_effect = RecallBoost, rld_anchor_projecting = False\<rparr>,
     \<lparr>rld_id = ''den.memory.relation.applies_when'', rld_alias = ''applies_when'', rld_class = Descriptive, rld_max_per_record = None,
      rld_applies_to_entities = [''event'', ''work_surface'', ''mission'', ''domain''], rld_allowed_qualifiers = [''confidence'', ''source_handle''],
      rld_recall_effect = RecallBoost, rld_anchor_projecting = False\<rparr>,
     \<lparr>rld_id = ''den.memory.relation.audience'', rld_alias = ''audience'', rld_class = AccessBearing, rld_max_per_record = None,
      rld_applies_to_entities = [''person'', ''org''], rld_allowed_qualifiers = [''source_handle''],
      rld_recall_effect = RecallGate, rld_anchor_projecting = False\<rparr>,
     \<lparr>rld_id = ''den.memory.relation.confined_to'', rld_alias = ''confined_to'', rld_class = AccessBearing, rld_max_per_record = None,
      rld_applies_to_entities = [''work_surface'', ''mission'', ''org''], rld_allowed_qualifiers = [''source_handle''],
      rld_recall_effect = RecallGate, rld_anchor_projecting = False\<rparr>]"

definition HANDLE_TYPES :: "handle_type_descriptor list" where
  "HANDLE_TYPES = [
     \<lparr>htd_id = ''den_user'', htd_strength = Strong\<rparr>,
     \<lparr>htd_id = ''session_human'', htd_strength = Strong\<rparr>,
     \<lparr>htd_id = ''git_remote'', htd_strength = Strong\<rparr>,
     \<lparr>htd_id = ''cabinet_ref'', htd_strength = Strong\<rparr>,
     \<lparr>htd_id = ''connection_ref'', htd_strength = Strong\<rparr>,
     \<lparr>htd_id = ''calendar_event_id'', htd_strength = Strong\<rparr>,
     \<lparr>htd_id = ''slack_user'', htd_strength = Strong\<rparr>,
     \<lparr>htd_id = ''email'', htd_strength = Strong\<rparr>,
     \<lparr>htd_id = ''url'', htd_strength = Strong\<rparr>,
     \<lparr>htd_id = ''checkout'', htd_strength = Weak\<rparr>,
     \<lparr>htd_id = ''workspace_root'', htd_strength = Weak\<rparr>,
     \<lparr>htd_id = ''mention'', htd_strength = Weak\<rparr>,
     \<lparr>htd_id = ''alias'', htd_strength = Weak\<rparr>]"

definition entity_type_of :: "string \<Rightarrow> entity_type_descriptor option" where
  "entity_type_of i = List.find (\<lambda>d. etd_id d = i) ENTITY_TYPES"

definition relation_of :: "string \<Rightarrow> relation_descriptor option" where
  "relation_of id_or_alias = List.find (\<lambda>d. rld_id d = id_or_alias \<or> rld_alias d = id_or_alias) RELATIONS"

definition relation_class_of :: "string \<Rightarrow> relation_class option" where
  "relation_class_of id_or_alias = map_option rld_class (relation_of id_or_alias)"

definition handle_type_of :: "string \<Rightarrow> handle_type_descriptor option" where
  "handle_type_of i = List.find (\<lambda>d. htd_id d = i) HANDLE_TYPES"

definition handle_strength :: "string \<Rightarrow> handle_strength_kind" where
  "handle_strength i = unwrap_or (map_option htd_strength (handle_type_of i)) Weak"

subsection \<open>Tables\<close>

record entity_rec =
  en_id :: string
  en_bear :: string
  en_sequence_no :: int
  en_type :: string
  en_display_name :: "string option"
  en_resolution :: string
  en_trust :: string
  en_canonical_ref :: "string option"
  en_superseded_by :: "string option"
  en_metadata :: json
  en_created_at :: string

record handle_rec =
  hn_id :: string
  hn_bear :: string
  hn_entity_id :: string
  hn_type :: string
  hn_value :: string
  hn_source :: "string option"
  hn_trust :: string
  hn_state :: string
  hn_created_at :: string

record link_rec =
  ln_id :: string
  ln_bear :: string
  ln_sequence_no :: int
  ln_src_memory_id :: string
  ln_entity_id :: string
  ln_relation :: string
  ln_qualifiers :: json
  ln_author_profile :: string
  ln_author_agent_id :: "string option"
  ln_confidence :: "string option"
  ln_state :: string
  ln_supersedes_link_id :: "string option"
  ln_created_at :: string

record memory_rec =
  mr_id :: string
  mr_bear :: string
  mr_sequence_no :: int
  mr_scope_type :: string
  mr_scope_profile :: "string option"
  mr_kind :: string
  mr_author_profile :: string
  mr_author_agent_id :: "string option"
  mr_created_at :: string
  mr_content_text :: string
  mr_metadata :: json
  mr_supersedes :: "string option"
  mr_visibility :: string
  mr_logical_path :: "string option"
  mr_work_surface_ref :: "string option"
  mr_valid_from :: "string option"
  mr_invalid_at :: "string option"
  mr_salience :: string

record observation_rec =
  ob_observation_id :: string
  ob_bear :: string
  ob_sequence_no :: int
  ob_summary :: string
  ob_salience :: string
  ob_source :: json
  ob_logical_path :: string
  ob_status :: string
  ob_proposal_id :: "string option"
  ob_created_at :: string
  ob_reviewed_at :: "string option"

record promotion_rec =
  pm_id :: string
  pm_bear :: string
  pm_sequence_no :: int
  pm_source :: string
  pm_target :: "string option"
  pm_action :: string
  pm_created_at :: string
  pm_notes :: "string option"

record proposal_rec =
  pr_id :: string
  pr_bear :: string
  pr_sequence_no :: int
  pr_suggested_action :: string
  pr_sensitivity :: string
  pr_requires_human :: bool
  pr_status :: string
  pr_payload :: json
  pr_created_at :: string
  pr_reviewed_at :: "string option"

record harvest_rec =
  hm_id :: string
  hm_bear :: string
  hm_sequence_no :: int
  hm_source_kind :: string
  hm_source_ref :: string
  hm_source_hash :: "string option"
  hm_harvested_at :: string
  hm_run_id :: "string option"
  hm_proposal_ids :: "string list"

record outcome_rec =
  oc_run_id :: string
  oc_bear :: string
  oc_sequence_no :: int
  oc_lane :: string
  oc_trigger :: string
  oc_status :: string
  oc_input_summary :: "string option"
  oc_output_summary :: "string option"
  oc_proposal_ids :: "string list"
  oc_created_at :: string
  oc_completed_at :: "string option"

record memory_db =
  md_next_sequence :: int
  md_records :: "memory_rec list"
  md_entities :: "entity_rec list"
  md_handles :: "handle_rec list"
  md_relations :: "link_rec list"
  md_access_rules :: "link_rec list"
  md_observations :: "observation_rec list"
  md_promotions :: "promotion_rec list"
  md_proposals :: "proposal_rec list"
  md_harvest_marks :: "harvest_rec list"
  md_outcomes :: "outcome_rec list"

definition memory_schema_ok :: "memory_db \<Rightarrow> bool" where
  "memory_schema_ok db \<longleftrightarrow> distinct (map mr_id (md_records db)) \<and> distinct (map en_id (md_entities db))
     \<and> distinct (map hn_id (md_handles db)) \<and> distinct (map ln_id (md_relations db))
     \<and> distinct (map ln_id (md_access_rules db)) \<and> distinct (map ob_observation_id (md_observations db))
     \<and> distinct (map pm_id (md_promotions db)) \<and> distinct (map pr_id (md_proposals db))
     \<and> distinct (map hm_id (md_harvest_marks db)) \<and> distinct (map oc_run_id (md_outcomes db))
     \<and> distinct (map (\<lambda>h. (hm_bear h, hm_source_kind h, hm_source_ref h)) (md_harvest_marks db))
     \<and> (\<forall>r \<in> set (md_records db). mr_scope_type r \<in> set [''profile_local'', ''shared'']
          \<and> mr_salience r \<in> set [''low'', ''normal'', ''high'', ''critical''])"

type_synonym 'a memory_op = "(memory_db, 'a) dbo"

abbreviation memory_write :: "(memory_db \<Rightarrow> memory_db \<times> 'a) \<Rightarrow> 'a memory_op" where
  "memory_write \<equiv> checked_writeM memory_schema_ok"

abbreviation invalid :: "string \<Rightarrow> 'a memory_op" where
  "invalid msg \<equiv> failM (Failed (ValidationError msg))"

text \<open>\<open>UPDATE bear_sequence\<close> and the number it allocates.\<close>

definition next_sequence :: "int memory_op" where
  "next_sequence = memory_write (\<lambda>db. (db\<lparr>md_next_sequence := md_next_sequence db + 1\<rparr>, md_next_sequence db))"

text \<open>\<open>LIMIT n\<close>; a negative limit is none.\<close>

definition sql_limit :: "int \<Rightarrow> 'a list \<Rightarrow> 'a list" where
  "sql_limit n xs = (if n < 0 then xs else take (nat n) xs)"

definition by_sequence_desc :: "('r \<Rightarrow> int) \<Rightarrow> 'r list \<Rightarrow> 'r list" where
  "by_sequence_desc seq rows = sort_key (\<lambda>r. - seq r) rows"

subsection \<open>Entities\<close>

record entity_row =
  er_entity_id :: string
  er_sequence_no :: int
  er_entity_type :: string
  er_display_name :: "string option"
  er_resolution :: resolution_state
  er_trust :: entity_trust
  er_canonical_ref :: "string option"
  er_superseded_by :: "string option"
  er_metadata :: json
  er_created_at :: string

record entity_handle_row =
  hr_handle_id :: string
  hr_entity_id :: string
  hr_handle_type :: string
  hr_handle_value :: string
  hr_source :: "string option"
  hr_trust :: entity_trust
  hr_state :: string
  hr_created_at :: string

definition entity_into_row :: "entity_rec \<Rightarrow> entity_row" where
  "entity_into_row e = \<lparr>er_entity_id = en_id e, er_sequence_no = en_sequence_no e, er_entity_type = en_type e,
     er_display_name = en_display_name e, er_resolution = unwrap_or (resolution_parse (en_resolution e)) ResObserved,
     er_trust = unwrap_or (entity_trust_parse (en_trust e)) TrustInferred, er_canonical_ref = en_canonical_ref e,
     er_superseded_by = en_superseded_by e, er_metadata = en_metadata e, er_created_at = en_created_at e\<rparr>"

definition handle_into_row :: "handle_rec \<Rightarrow> entity_handle_row" where
  "handle_into_row h = \<lparr>hr_handle_id = hn_id h, hr_entity_id = hn_entity_id h, hr_handle_type = hn_type h, hr_handle_value = hn_value h,
     hr_source = hn_source h, hr_trust = unwrap_or (entity_trust_parse (hn_trust h)) TrustInferred, hr_state = hn_state h,
     hr_created_at = hn_created_at h\<rparr>"

definition create_entity ::
    "string \<Rightarrow> string \<Rightarrow> string \<Rightarrow> string \<Rightarrow> string option \<Rightarrow> resolution_state \<Rightarrow> entity_trust \<Rightarrow> string option \<Rightarrow> json
     \<Rightarrow> entity_row memory_op" where
  "create_entity bear fresh now entity_type display_name resolution trust canonical_ref metadata =
     (if entity_type_of entity_type = None then invalid (''unknown entity type: '' @ entity_type)
      else bindM next_sequence (\<lambda>seq.
        let e = \<lparr>en_id = fresh, en_bear = bear, en_sequence_no = seq, en_type = entity_type, en_display_name = display_name,
              en_resolution = resolution_str resolution, en_trust = entity_trust_str trust, en_canonical_ref = canonical_ref,
              en_superseded_by = None, en_metadata = metadata, en_created_at = now\<rparr>
        in bindM (memory_write (\<lambda>db. (db\<lparr>md_entities := md_entities db @ [e]\<rparr>, ())))
             (\<lambda>_. returnM \<lparr>er_entity_id = fresh, er_sequence_no = seq, er_entity_type = entity_type, er_display_name = display_name,
                er_resolution = resolution, er_trust = trust, er_canonical_ref = canonical_ref, er_superseded_by = None,
                er_metadata = metadata, er_created_at = now\<rparr>)))"

definition find_entity :: "string \<Rightarrow> string \<Rightarrow> memory_db \<Rightarrow> entity_rec option" where
  "find_entity bear i db = List.find (\<lambda>e. en_bear e = bear \<and> en_id e = i) (md_entities db)"

definition get_entity :: "string \<Rightarrow> string \<Rightarrow> memory_db \<Rightarrow> entity_row option" where
  "get_entity bear i db = map_option entity_into_row (find_entity bear i db)"

definition MAX_HOPS :: nat where "MAX_HOPS = 32"

fun follow_forward :: "string \<Rightarrow> memory_db \<Rightarrow> nat \<Rightarrow> entity_row option \<Rightarrow> entity_row option" where
  "follow_forward bear db n None = None"
| "follow_forward bear db 0 (Some row) = Some row"
| "follow_forward bear db (Suc n) (Some row) =
     (case er_superseded_by row of
        None \<Rightarrow> Some row
      | Some i \<Rightarrow> follow_forward bear db n (get_entity bear i db))"

definition resolve_live_entity :: "string \<Rightarrow> string \<Rightarrow> memory_db \<Rightarrow> entity_row option" where
  "resolve_live_entity bear i db = follow_forward bear db MAX_HOPS (get_entity bear i db)"

definition list_entities :: "string \<Rightarrow> string option \<Rightarrow> int \<Rightarrow> memory_db \<Rightarrow> entity_row list" where
  "list_entities bear type_filter limit db = map entity_into_row (sql_limit limit (by_sequence_desc en_sequence_no
     (filter (\<lambda>e. en_bear e = bear \<and> (case type_filter of None \<Rightarrow> True | Some t \<Rightarrow> en_type e = t)) (md_entities db))))"

definition active_handle :: "string \<Rightarrow> handle_rec \<Rightarrow> bool" where
  "active_handle bear h \<longleftrightarrow> hn_bear h = bear \<and> hn_state h = ''active''"

definition attach_handle ::
    "string \<Rightarrow> string \<Rightarrow> string \<Rightarrow> string \<Rightarrow> string \<Rightarrow> string \<Rightarrow> string option \<Rightarrow> entity_trust \<Rightarrow> entity_handle_row memory_op" where
  "attach_handle bear fresh now entity_id handle_type handle_value source trust =
     bindM (queryM (\<lambda>db. List.find (\<lambda>h. active_handle bear h \<and> hn_entity_id h = entity_id \<and> hn_type h = handle_type
          \<and> hn_value h = handle_value) (md_handles db)))
       (\<lambda>existing. case existing of
          Some h \<Rightarrow> returnM (handle_into_row h)
        | None \<Rightarrow>
           (let h = \<lparr>hn_id = fresh, hn_bear = bear, hn_entity_id = entity_id, hn_type = handle_type, hn_value = handle_value,
                 hn_source = source, hn_trust = entity_trust_str trust, hn_state = ''active'', hn_created_at = now\<rparr>
            in bindM (memory_write (\<lambda>db. (db\<lparr>md_handles := md_handles db @ [h]\<rparr>, ())))
                 (\<lambda>_. returnM \<lparr>hr_handle_id = fresh, hr_entity_id = entity_id, hr_handle_type = handle_type,
                    hr_handle_value = handle_value, hr_source = source, hr_trust = trust, hr_state = ''active'',
                    hr_created_at = now\<rparr>)))"

definition update_entities :: "(entity_rec \<Rightarrow> bool) \<Rightarrow> (entity_rec \<Rightarrow> entity_rec) \<Rightarrow> unit memory_op" where
  "update_entities g f = memory_write (\<lambda>db. (db\<lparr>md_entities := update_where g f (md_entities db)\<rparr>, ()))"

definition update_handles :: "(handle_rec \<Rightarrow> bool) \<Rightarrow> (handle_rec \<Rightarrow> handle_rec) \<Rightarrow> unit memory_op" where
  "update_handles g f = memory_write (\<lambda>db. (db\<lparr>md_handles := update_where g f (md_handles db)\<rparr>, ()))"

definition detach_handle :: "string \<Rightarrow> string \<Rightarrow> unit memory_op" where
  "detach_handle bear handle_id = update_handles (\<lambda>h. hn_bear h = bear \<and> hn_id h = handle_id) (\<lambda>h. h\<lparr>hn_state := ''detached''\<rparr>)"

definition list_handles :: "string \<Rightarrow> string \<Rightarrow> memory_db \<Rightarrow> entity_handle_row list" where
  "list_handles bear entity_id db = map handle_into_row (sort_key hn_created_at
     (filter (\<lambda>h. active_handle bear h \<and> hn_entity_id h = entity_id) (md_handles db)))"

definition find_entity_by_handle :: "string \<Rightarrow> string \<Rightarrow> string \<Rightarrow> memory_db \<Rightarrow> entity_row option" where
  "find_entity_by_handle bear handle_type handle_value db =
     (case sort_key hn_created_at (filter (\<lambda>h. active_handle bear h \<and> hn_type h = handle_type \<and> hn_value h = handle_value) (md_handles db)) of
        [] \<Rightarrow> None
      | h # _ \<Rightarrow> resolve_live_entity bear (hn_entity_id h) db)"

definition set_resolution :: "string \<Rightarrow> string \<Rightarrow> resolution_state \<Rightarrow> entity_trust option \<Rightarrow> unit memory_op" where
  "set_resolution bear entity_id resolution trust =
     update_entities (\<lambda>e. en_bear e = bear \<and> en_id e = entity_id)
       (\<lambda>e. (case trust of None \<Rightarrow> e | Some t \<Rightarrow> e\<lparr>en_trust := entity_trust_str t\<rparr>)\<lparr>en_resolution := resolution_str resolution\<rparr>)"

definition set_canonical_ref :: "string \<Rightarrow> string \<Rightarrow> string option \<Rightarrow> unit memory_op" where
  "set_canonical_ref bear entity_id canonical_ref =
     update_entities (\<lambda>e. en_bear e = bear \<and> en_id e = entity_id) (\<lambda>e. e\<lparr>en_canonical_ref := canonical_ref\<rparr>)"

definition merge_entities :: "string \<Rightarrow> string \<Rightarrow> string \<Rightarrow> entity_row memory_op" where
  "merge_entities bear survivor_id loser_id =
     (if survivor_id = loser_id then invalid ''cannot merge an entity into itself''
      else bindM (queryM (resolve_live_entity bear survivor_id)) (\<lambda>live. case live of
        None \<Rightarrow> failM (Failed (NotFound (''survivor entity '' @ survivor_id)))
      | Some survivor \<Rightarrow>
          bindM (queryM (get_entity bear loser_id)) (\<lambda>loser. case loser of
            None \<Rightarrow> failM (Failed (NotFound (''loser entity '' @ loser_id)))
          | Some _ \<Rightarrow>
              bindM (update_entities (\<lambda>e. en_bear e = bear \<and> en_id e = loser_id)
                  (\<lambda>e. e\<lparr>en_resolution := ''merged'', en_superseded_by := Some (er_entity_id survivor)\<rparr>)) (\<lambda>_.
              bindM (update_handles (\<lambda>h. active_handle bear h \<and> hn_entity_id h = loser_id)
                  (\<lambda>h. h\<lparr>hn_entity_id := er_entity_id survivor\<rparr>)) (\<lambda>_.
              returnM survivor)))))"

fun move_handles :: "string \<Rightarrow> string \<Rightarrow> string list \<Rightarrow> unit memory_op" where
  "move_handles bear entity_id [] = returnM ()"
| "move_handles bear entity_id (i # ids) =
     bindM (update_handles (\<lambda>h. hn_bear h = bear \<and> hn_id h = i) (\<lambda>h. h\<lparr>hn_entity_id := entity_id\<rparr>))
       (\<lambda>_. move_handles bear entity_id ids)"

definition split_entity ::
    "string \<Rightarrow> string \<Rightarrow> string \<Rightarrow> string \<Rightarrow> string option \<Rightarrow> string list \<Rightarrow> resolution_state \<Rightarrow> entity_trust \<Rightarrow> entity_row memory_op" where
  "split_entity bear fresh now new_entity_type display_name handle_ids resolution trust =
     bindM (create_entity bear fresh now new_entity_type display_name resolution trust None (JObj [])) (\<lambda>e.
     bindM (move_handles bear (er_entity_id e) handle_ids) (\<lambda>_.
     returnM e))"

subsection \<open>Resolution of signals\<close>

record signal =
  sg_handle_type :: string
  sg_handle_value :: string
  sg_source :: "string option"

definition new_signal :: "string \<Rightarrow> string \<Rightarrow> signal" where
  "new_signal handle_type handle_value = \<lparr>sg_handle_type = handle_type, sg_handle_value = handle_value, sg_source = None\<rparr>"

definition with_source :: "string \<Rightarrow> signal \<Rightarrow> signal" where
  "with_source source s = s\<lparr>sg_source := Some source\<rparr>"

definition signal_strength :: "signal \<Rightarrow> handle_strength_kind" where
  "signal_strength s = handle_strength (sg_handle_type s)"

datatype resolution =
    ResolvedTo entity_row
  | CandidateFor entity_row
  | CreatedNew entity_row
  | ConflictNeedsReview "string list"

datatype assertion = Asserted | Inferred

definition entry_levels :: "assertion \<Rightarrow> bool \<Rightarrow> resolution_state \<times> entity_trust" where
  "entry_levels a strong = (case a of
      Asserted \<Rightarrow> (ResConfirmed, TrustAsserted)
    | Inferred \<Rightarrow> if strong then (ResResolved, TrustInferred) else (ResProvisional, TrustInferred))"

definition add_match :: "string \<Rightarrow> memory_db \<Rightarrow> entity_row list \<Rightarrow> signal \<Rightarrow> entity_row list" where
  "add_match bear db matched s =
     (case find_entity_by_handle bear (sg_handle_type s) (sg_handle_value s) db of
        None \<Rightarrow> matched
      | Some e \<Rightarrow> if er_entity_id e \<in> er_entity_id ` set matched then matched else matched @ [e])"

definition strong_matches :: "string \<Rightarrow> signal list \<Rightarrow> memory_db \<Rightarrow> entity_row list" where
  "strong_matches bear strong db = foldl (add_match bear db) [] strong"

fun weak_scan :: "string \<Rightarrow> string \<Rightarrow> memory_db \<Rightarrow> entity_row option \<Rightarrow> signal list \<Rightarrow> entity_row option" where
  "weak_scan bear entity_type db found [] = found"
| "weak_scan bear entity_type db found (s # ss) =
     (case find_entity_by_handle bear (sg_handle_type s) (sg_handle_value s) db of
        None \<Rightarrow> weak_scan bear entity_type db found ss
      | Some e \<Rightarrow>
          if er_entity_type e \<noteq> entity_type then weak_scan bear entity_type db found ss
          else (case found of
              Some prev \<Rightarrow> if er_entity_id prev \<noteq> er_entity_id e then None else weak_scan bear entity_type db (Some e) ss
            | None \<Rightarrow> weak_scan bear entity_type db (Some e) ss))"

definition weak_candidate :: "string \<Rightarrow> string \<Rightarrow> signal list \<Rightarrow> memory_db \<Rightarrow> entity_row option" where
  "weak_candidate bear entity_type weak db = weak_scan bear entity_type db None weak"

definition signal_trust :: "signal \<Rightarrow> entity_trust" where
  "signal_trust s = (case signal_strength s of Strong \<Rightarrow> TrustAsserted | Weak \<Rightarrow> TrustInferred)"

fun attach_signals :: "string \<Rightarrow> (nat \<Rightarrow> string) \<Rightarrow> (nat \<Rightarrow> string) \<Rightarrow> nat \<Rightarrow> string \<Rightarrow> signal list \<Rightarrow> unit memory_op" where
  "attach_signals bear fresh now n entity_id [] = returnM ()"
| "attach_signals bear fresh now n entity_id (s # ss) =
     bindM (attach_handle bear (fresh n) (now n) entity_id (sg_handle_type s) (sg_handle_value s) (sg_source s) (signal_trust s))
       (\<lambda>_. attach_signals bear fresh now (Suc n) entity_id ss)"

definition raised_trust :: "entity_trust \<Rightarrow> entity_trust \<Rightarrow> entity_trust" where
  "raised_trust a b = (if a = TrustAsserted \<or> b = TrustAsserted then TrustAsserted else TrustInferred)"

definition create_with_signals ::
    "string \<Rightarrow> (nat \<Rightarrow> string) \<Rightarrow> (nat \<Rightarrow> string) \<Rightarrow> string \<Rightarrow> string option \<Rightarrow> resolution_state \<Rightarrow> entity_trust \<Rightarrow> signal list
     \<Rightarrow> entity_row memory_op" where
  "create_with_signals bear fresh now entity_type display_name resolution trust signals =
     bindM (create_entity bear (fresh 0) (now 0) entity_type display_name resolution trust None (JObj [])) (\<lambda>e.
     bindM (attach_signals bear fresh now 1 (er_entity_id e) signals) (\<lambda>_.
     returnM e))"

definition resolve_signals ::
    "string \<Rightarrow> (nat \<Rightarrow> string) \<Rightarrow> (nat \<Rightarrow> string) \<Rightarrow> string \<Rightarrow> string option \<Rightarrow> signal list \<Rightarrow> assertion \<Rightarrow> resolution memory_op" where
  "resolve_signals bear fresh now entity_type display_name signals a =
     (if entity_type_of entity_type = None then invalid (''unknown entity type: '' @ entity_type)
      else
        let strong = filter (\<lambda>s. signal_strength s = Strong) signals;
            weak = filter (\<lambda>s. signal_strength s \<noteq> Strong) signals
        in bindM (queryM (strong_matches bear strong)) (\<lambda>matched. case matched of
             [] \<Rightarrow>
               if strong \<noteq> []
               then (case entry_levels a True of (resolution, trust) \<Rightarrow>
                  bindM (create_with_signals bear fresh now entity_type display_name resolution trust signals)
                    (\<lambda>e. returnM (ResolvedTo e)))
               else bindM (queryM (weak_candidate bear entity_type weak)) (\<lambda>candidate. case candidate of
                  Some e \<Rightarrow> returnM (CandidateFor e)
                | None \<Rightarrow>
                    bindM (create_with_signals bear fresh now entity_type display_name
                        (if weak = [] then ResObserved else ResProvisional) TrustInferred signals)
                      (\<lambda>e. returnM (CreatedNew e)))
           | [target] \<Rightarrow>
               bindM (attach_signals bear fresh now 0 (er_entity_id target) signals) (\<lambda>_.
               case entry_levels a True of (resolution, trust) \<Rightarrow>
               bindM (set_resolution bear (er_entity_id target) (max (er_resolution target) resolution)
                   (Some (raised_trust (er_trust target) trust))) (\<lambda>_.
               bindM (queryM (resolve_live_entity bear (er_entity_id target))) (\<lambda>live.
               returnM (ResolvedTo (unwrap_or live target)))))
           | _ \<Rightarrow> returnM (ConflictNeedsReview (map er_entity_id matched))))"

definition resolve_work_surface ::
    "string \<Rightarrow> (nat \<Rightarrow> string) \<Rightarrow> (nat \<Rightarrow> string) \<Rightarrow> string option \<Rightarrow> string option \<Rightarrow> string option \<Rightarrow> resolution memory_op" where
  "resolve_work_surface bear fresh now display_name git_remote checkout =
     resolve_signals bear fresh now ''work_surface'' display_name
       ((case git_remote of None \<Rightarrow> [] | Some r \<Rightarrow> [new_signal ''git_remote'' r])
        @ (case checkout of None \<Rightarrow> [] | Some p \<Rightarrow> [new_signal ''checkout'' p]))
       Inferred"

end
