(* ===== verification/Memory_Graph.thy ===== *)
theory Memory_Graph
  imports Memory_Entities
begin

section \<open>Relations and access\<close>

text \<open>
  \<open>den-memory/src/{relations,access}.rs\<close>: the links between records and entities in their two
  tables, the expansion over descriptive links, and the gate that decides whether a record may be
  shown. Rows of a \<open>SELECT\<close> without \<open>ORDER BY\<close> come in insertion order.
\<close>

subsection \<open>Relations\<close>

record relation_row =
  rr_link_id :: string
  rr_sequence_no :: int
  rr_src_memory_id :: string
  rr_entity_id :: string
  rr_relation :: string
  rr_class :: relation_class
  rr_qualifiers :: json
  rr_author_profile :: string
  rr_state :: string
  rr_created_at :: string

definition link_into_row :: "relation_class \<Rightarrow> link_rec \<Rightarrow> relation_row" where
  "link_into_row c l = \<lparr>rr_link_id = ln_id l, rr_sequence_no = ln_sequence_no l, rr_src_memory_id = ln_src_memory_id l,
     rr_entity_id = ln_entity_id l, rr_relation = ln_relation l, rr_class = c, rr_qualifiers = ln_qualifiers l,
     rr_author_profile = ln_author_profile l, rr_state = ln_state l, rr_created_at = ln_created_at l\<rparr>"

definition qualifier_error :: "relation_descriptor \<Rightarrow> json \<Rightarrow> string option" where
  "qualifier_error d qualifiers =
     (case qualifiers of
        JObj kvs \<Rightarrow> map_option (\<lambda>k. ''relation '' @ rld_alias d @ '' disallows qualifier '' @ k)
          (List.find (\<lambda>k. k \<notin> set (rld_allowed_qualifiers d)) (map fst kvs))
      | JNull \<Rightarrow> None
      | _ \<Rightarrow> Some ''qualifiers must be a JSON object'')"

definition relation_error :: "relation_descriptor \<Rightarrow> entity_row \<Rightarrow> json \<Rightarrow> string option" where
  "relation_error d target qualifiers =
     (if ''*'' \<notin> set (rld_applies_to_entities d) \<and> er_entity_type target \<notin> set (rld_applies_to_entities d)
      then Some (''relation '' @ rld_alias d @ '' does not apply to entity type '' @ er_entity_type target)
      else case qualifier_error d qualifiers of
        Some e \<Rightarrow> Some e
      | None \<Rightarrow>
          if rld_class d = AccessBearing \<and> \<not> can_bear_access (er_resolution target)
          then Some (''access-bearing relation '' @ rld_alias d @ '' requires a resolved target (entity '' @ er_entity_id target
            @ '' is '' @ resolution_str (er_resolution target) @ '')'')
          else None)"

definition insert_link :: "relation_class \<Rightarrow> link_rec \<Rightarrow> unit memory_op" where
  "insert_link c l = memory_write (\<lambda>db. ((case c of
      Descriptive \<Rightarrow> db\<lparr>md_relations := md_relations db @ [l]\<rparr>
    | AccessBearing \<Rightarrow> db\<lparr>md_access_rules := md_access_rules db @ [l]\<rparr>), ()))"

definition append_relation ::
    "string \<Rightarrow> string \<Rightarrow> string \<Rightarrow> string \<Rightarrow> string \<Rightarrow> string \<Rightarrow> json \<Rightarrow> string \<Rightarrow> string option \<Rightarrow> string option
     \<Rightarrow> relation_row memory_op" where
  "append_relation bear fresh now src_memory_id entity_id id_or_alias qualifiers author_profile author_agent_id confidence =
     (case relation_of id_or_alias of
        None \<Rightarrow> invalid (''unknown relation: '' @ id_or_alias)
      | Some d \<Rightarrow>
          bindM (queryM (resolve_live_entity bear entity_id)) (\<lambda>live. case live of
            None \<Rightarrow> failM (Failed (NotFound (''entity '' @ entity_id)))
          | Some target \<Rightarrow>
              (case relation_error d target qualifiers of
                 Some e \<Rightarrow> invalid e
               | None \<Rightarrow>
                   bindM next_sequence (\<lambda>seq.
                   let stored = (if qualifiers = JNull then JObj [] else qualifiers);
                       l = \<lparr>ln_id = fresh, ln_bear = bear, ln_sequence_no = seq, ln_src_memory_id = src_memory_id,
                         ln_entity_id = er_entity_id target, ln_relation = rld_id d, ln_qualifiers = stored,
                         ln_author_profile = author_profile, ln_author_agent_id = author_agent_id, ln_confidence = confidence,
                         ln_state = ''active'', ln_supersedes_link_id = None, ln_created_at = now\<rparr>
                   in bindM (insert_link (rld_class d) l) (\<lambda>_.
                      returnM ((link_into_row (rld_class d) l)\<lparr>rr_qualifiers := qualifiers\<rparr>))))))"

definition active_link :: "string \<Rightarrow> link_rec \<Rightarrow> bool" where
  "active_link bear l \<longleftrightarrow> ln_bear l = bear \<and> ln_state l = ''active''"

text \<open>The view \<open>memory_links\<close>.\<close>

definition memory_links :: "memory_db \<Rightarrow> (relation_class \<times> link_rec) list" where
  "memory_links db = map (Pair Descriptive) (md_relations db) @ map (Pair AccessBearing) (md_access_rules db)"

definition links_where :: "string \<Rightarrow> (link_rec \<Rightarrow> bool) \<Rightarrow> int \<Rightarrow> memory_db \<Rightarrow> relation_row list" where
  "links_where bear p limit db = map (\<lambda>(c, l). link_into_row c l) (sql_limit limit (by_sequence_desc (\<lambda>cl. ln_sequence_no (snd cl))
     (filter (\<lambda>cl. active_link bear (snd cl) \<and> p (snd cl)) (memory_links db))))"

definition list_relations_for_source :: "string \<Rightarrow> string \<Rightarrow> int \<Rightarrow> memory_db \<Rightarrow> relation_row list" where
  "list_relations_for_source bear src limit db = links_where bear (\<lambda>l. ln_src_memory_id l = src) limit db"

definition list_relations_for_entity :: "string \<Rightarrow> string \<Rightarrow> int \<Rightarrow> memory_db \<Rightarrow> relation_row list" where
  "list_relations_for_entity bear entity_id limit db = links_where bear (\<lambda>l. ln_entity_id l = entity_id) limit db"

definition list_access_rules_for_source :: "string \<Rightarrow> string \<Rightarrow> memory_db \<Rightarrow> relation_row list" where
  "list_access_rules_for_source bear src db = map (link_into_row AccessBearing) (by_sequence_desc ln_sequence_no
     (filter (\<lambda>l. active_link bear l \<and> ln_src_memory_id l = src) (md_access_rules db)))"

text \<open>The pairs of a record and an entity, ordered; a record's entities are those of its pairs.\<close>

definition descriptive_pairs :: "string \<Rightarrow> memory_db \<Rightarrow> (string \<times> string) list" where
  "descriptive_pairs bear db = map (\<lambda>l. (ln_src_memory_id l, ln_entity_id l)) (filter (active_link bear) (md_relations db))"

definition descriptive_entity_ids_by_source :: "string \<Rightarrow> memory_db \<Rightarrow> string \<Rightarrow> string list option" where
  "descriptive_entity_ids_by_source bear db src =
     (case sort (remdups (map snd (filter (\<lambda>p. fst p = src) (descriptive_pairs bear db)))) of [] \<Rightarrow> None | es \<Rightarrow> Some es)"

definition descriptive_entity_ids_for_records :: "string \<Rightarrow> memory_db \<Rightarrow> string list \<Rightarrow> string list" where
  "descriptive_entity_ids_for_records bear db ids =
     (if ids = [] then [] else remdups (map snd (filter (\<lambda>p. fst p \<in> set ids) (descriptive_pairs bear db))))"

definition record_ids_for_entities :: "string \<Rightarrow> memory_db \<Rightarrow> string list \<Rightarrow> string list" where
  "record_ids_for_entities bear db es =
     (if es = [] then [] else remdups (map fst (filter (\<lambda>p. snd p \<in> set es) (descriptive_pairs bear db))))"

subsection \<open>Expansion\<close>

record graph_reach =
  gr_memory_id :: string
  gr_hop :: nat

text \<open>The inner loop: \<open>Inr\<close> the state after the candidates, \<open>Inl\<close> the output when the limit stops it.\<close>

fun visit_candidates ::
    "nat \<Rightarrow> nat \<Rightarrow> string list \<Rightarrow> string list \<times> graph_reach list \<times> string list
     \<Rightarrow> graph_reach list + (string list \<times> graph_reach list \<times> string list)" where
  "visit_candidates limit hop [] st = Inr st"
| "visit_candidates limit hop (m # ms) (seen, out, nxt) =
     (if m \<in> set seen then visit_candidates limit hop ms (seen, out, nxt)
      else let out' = out @ [\<lparr>gr_memory_id = m, gr_hop = hop\<rparr>] in
        if length out' \<ge> limit then Inl out' else visit_candidates limit hop ms (m # seen, out', nxt @ [m]))"

text \<open>The loop \<open>for hop in 1..=max_depth\<close>; \<open>n\<close> hops are left.\<close>

fun expand_hops :: "string \<Rightarrow> memory_db \<Rightarrow> nat \<Rightarrow> nat \<Rightarrow> nat \<Rightarrow> string list \<Rightarrow> string list \<Rightarrow> graph_reach list \<Rightarrow> graph_reach list" where
  "expand_hops bear db limit 0 hop seen frontier out = out"
| "expand_hops bear db limit (Suc n) hop seen frontier out =
     (let es = descriptive_entity_ids_for_records bear db frontier in
      if es = [] then out
      else case visit_candidates limit hop (record_ids_for_entities bear db es) (seen, out, []) of
        Inl out' \<Rightarrow> out'
      | Inr (seen', out', nxt) \<Rightarrow>
          if nxt = [] then out' else expand_hops bear db limit n (Suc hop) seen' nxt out')"

definition bounded_graph_expand :: "string \<Rightarrow> memory_db \<Rightarrow> string list \<Rightarrow> nat \<Rightarrow> nat \<Rightarrow> graph_reach list" where
  "bounded_graph_expand bear db seeds max_depth limit =
     (if seeds = [] \<or> max_depth = 0 \<or> limit = 0 then [] else expand_hops bear db limit max_depth 1 seeds seeds [])"

subsection \<open>The access gate\<close>

text \<open>The two \<open>BTreeSet\<close>s as lists, of which only the elements matter.\<close>

record access_context =
  ac_audience :: "string list"
  ac_confinement :: "string list"

definition empty_context :: access_context where
  "empty_context = \<lparr>ac_audience = [], ac_confinement = []\<rparr>"

definition with_audience :: "string list \<Rightarrow> access_context \<Rightarrow> access_context" where
  "with_audience ids ctx = ctx\<lparr>ac_audience := ac_audience ctx @ ids\<rparr>"

definition with_confinement :: "string list \<Rightarrow> access_context \<Rightarrow> access_context" where
  "with_confinement ids ctx = ctx\<lparr>ac_confinement := ac_confinement ctx @ ids\<rparr>"

definition allow_audience :: "string \<Rightarrow> access_context \<Rightarrow> access_context" where
  "allow_audience i ctx = ctx\<lparr>ac_audience := ac_audience ctx @ [i]\<rparr>"

definition allow_confinement :: "string \<Rightarrow> access_context \<Rightarrow> access_context" where
  "allow_confinement i ctx = ctx\<lparr>ac_confinement := ac_confinement ctx @ [i]\<rparr>"

definition context_is_empty :: "access_context \<Rightarrow> bool" where
  "context_is_empty ctx \<longleftrightarrow> ac_audience ctx = [] \<and> ac_confinement ctx = []"

definition rule_target :: "string \<Rightarrow> memory_db \<Rightarrow> relation_row \<Rightarrow> string" where
  "rule_target bear db r = (case resolve_live_entity bear (rr_entity_id r) db of Some e \<Rightarrow> er_entity_id e | None \<Rightarrow> rr_entity_id r)"

definition is_audience_rule :: "relation_row \<Rightarrow> bool" where
  "is_audience_rule r \<longleftrightarrow> map_option rld_alias (relation_of (rr_relation r)) = Some ''audience''"

definition record_visible :: "string \<Rightarrow> string \<Rightarrow> access_context \<Rightarrow> memory_db \<Rightarrow> bool" where
  "record_visible bear src ctx db =
     (let rules = list_access_rules_for_source bear src db;
          audience = map (rule_target bear db) (filter is_audience_rule rules);
          confinement = map (rule_target bear db) (filter (\<lambda>r. \<not> is_audience_rule r) rules)
      in if rules = [] then True
         else if audience \<noteq> [] \<and> set audience \<inter> set (ac_audience ctx) = {} then False
         else if confinement \<noteq> [] \<and> \<not> set confinement \<subseteq> set (ac_confinement ctx) then False
         else True)"

end
