(* ===== verification/Memory_Records.thy ===== *)
theory Memory_Records
  imports Memory_Graph "HOL-Library.Product_Lexorder"
begin

section \<open>Memory records\<close>

text \<open>
  \<open>den-memory/src/{logical_path,records}.rs\<close>: logical paths, the records of a bear with their
  supersession and lifecycle, and the queries that read heads, histories and the state as of an
  instant. \<open>json_extract\<close> of a missing member is \<open>NULL\<close>. \<open>parse_ts\<close> is \<open>parse_rfc3339\<close>.
\<close>

subsection \<open>Logical paths\<close>

datatype memory_scope_type = ScopeProfileLocal | ScopeShared

fun memory_scope_type_str :: "memory_scope_type \<Rightarrow> string" where
  "memory_scope_type_str ScopeProfileLocal = ''profile_local''"
| "memory_scope_type_str ScopeShared = ''shared''"

definition memory_scope_type_parse :: "string \<Rightarrow> memory_scope_type option" where
  "memory_scope_type_parse raw = (if raw = ''profile_local'' \<or> raw = ''role_local'' then Some ScopeProfileLocal
     else if raw = ''shared'' then Some ScopeShared else None)"

record logical_memory_path =
  lmp_scope_type :: memory_scope_type
  lmp_scope_profile :: "string option"
  lmp_work_surface_ref :: "string option"
  lmp_kind :: string

definition profile_local :: "string \<Rightarrow> string \<Rightarrow> logical_memory_path" where
  "profile_local profile kind = \<lparr>lmp_scope_type = ScopeProfileLocal, lmp_scope_profile = Some profile,
     lmp_work_surface_ref = None, lmp_kind = kind\<rparr>"

definition shared_core :: "string \<Rightarrow> logical_memory_path" where
  "shared_core kind = \<lparr>lmp_scope_type = ScopeShared, lmp_scope_profile = None, lmp_work_surface_ref = None, lmp_kind = kind\<rparr>"

definition to_logical_path :: "logical_memory_path \<Rightarrow> string" where
  "to_logical_path p =
     (case (lmp_scope_type p, lmp_scope_profile p, lmp_work_surface_ref p) of
        (ScopeShared, None, Some ws) \<Rightarrow> ''core/work_surfaces/'' @ ws @ ''/'' @ lmp_kind p @ ''.md''
      | (ScopeShared, None, None) \<Rightarrow> if lmp_kind p = ''overview'' then ''core/bear-overview.md'' else ''core/'' @ lmp_kind p @ ''.md''
      | (ScopeProfileLocal, Some profile, Some ws) \<Rightarrow> profile @ ''/work_surfaces/'' @ ws @ ''/'' @ lmp_kind p @ ''.md''
      | (ScopeProfileLocal, Some profile, None) \<Rightarrow> profile @ ''/'' @ lmp_kind p @ ''.md''
      | _ \<Rightarrow> ''memory/'' @ lmp_kind p @ ''.md'')"

text \<open>\<open>trim_start_matches("core/")\<close> and \<open>trim_end_matches(".md")\<close> take away every repetition.\<close>

fun trim_core :: "string \<Rightarrow> string" where
  "trim_core (a # b # c # d # e # s) =
     (if [a, b, c, d, e] = ''core/'' then trim_core s else a # b # c # d # e # s)"
| "trim_core s = s"

fun trim_md_rev :: "string \<Rightarrow> string" where
  "trim_md_rev (a # b # c # s) = (if [c, b, a] = ''.md'' then trim_md_rev s else a # b # c # s)"
| "trim_md_rev s = s"

definition trim_md :: "string \<Rightarrow> string" where
  "trim_md s = rev (trim_md_rev (rev s))"

fun split_segments :: "string \<Rightarrow> string \<Rightarrow> string list" where
  "split_segments cur [] = [cur]"
| "split_segments cur (c # s) = (if c = CHR ''/'' then cur # split_segments [] s else split_segments (cur @ [c]) s)"

fun split_once_slash :: "string \<Rightarrow> (string \<times> string) option" where
  "split_once_slash [] = None"
| "split_once_slash (c # s) = (if c = CHR ''/'' then Some ([], s)
     else map_option (\<lambda>(a, b). (c # a, b)) (split_once_slash s))"

definition parse_work_surface_path :: "string \<Rightarrow> string \<times> string" where
  "parse_work_surface_path path =
     (let parts = split_segments [] path;
          file = (case parts of _ # f # _ \<Rightarrow> f | _ \<Rightarrow> ''index.md'')
      in (hd parts, trim_md file))"

definition from_logical_path :: "string \<Rightarrow> logical_memory_path" where
  "from_logical_path path =
     (let t = dropWhile (\<lambda>c. c = CHR ''/'') (trim path) in
      case strip_prefix ''core/work_surfaces/'' t of
        Some rest \<Rightarrow> (case parse_work_surface_path rest of (ws, kind) \<Rightarrow>
          \<lparr>lmp_scope_type = ScopeShared, lmp_scope_profile = None, lmp_work_surface_ref = Some ws, lmp_kind = kind\<rparr>)
      | None \<Rightarrow>
          if prefix ''core/'' t then shared_core (trim_md (trim_core t))
          else (case split_once_slash t of
              None \<Rightarrow> shared_core ''note''
            | Some (profile, rest) \<Rightarrow>
                (case strip_prefix ''work_surfaces/'' rest of
                   Some rest2 \<Rightarrow> (case parse_work_surface_path rest2 of (ws, kind) \<Rightarrow>
                     \<lparr>lmp_scope_type = ScopeProfileLocal, lmp_scope_profile = Some profile, lmp_work_surface_ref = Some ws, lmp_kind = kind\<rparr>)
                 | None \<Rightarrow> profile_local profile (trim_md rest))))"

definition anchor_char :: "char \<Rightarrow> string" where
  "anchor_char c =
     (if (CHR ''a'' \<le> c \<and> c \<le> CHR ''z'') \<or> (CHR ''A'' \<le> c \<and> c \<le> CHR ''Z'') \<or> (CHR ''0'' \<le> c \<and> c \<le> CHR ''9'') then [ascii_lower c]
      else if c = CHR ''-'' \<or> c = CHR ''_'' then [c]
      else if c = CHR ''/'' \<or> c = CHR '':'' then ''-'' else [])"

function anchor_chars :: "string \<Rightarrow> string" where
  "anchor_chars [] = []"
| "anchor_chars (c # s) = (if ws_len (c # s) > 0 then ''-'' @ anchor_chars (drop (ws_len (c # s)) (c # s)) else anchor_char c @ anchor_chars s)"
  by pat_completeness auto
termination
proof (relation "measure length")
  fix c and s :: string
  assume "0 < ws_len (c # s)"
  then show "(drop (ws_len (c # s)) (c # s), c # s) \<in> measure length" by auto
qed simp_all

fun split_dashes :: "string \<Rightarrow> string \<Rightarrow> string list" where
  "split_dashes cur [] = [cur]"
| "split_dashes cur (c # s) = (if c = CHR ''-'' then cur # split_dashes [] s else split_dashes (cur @ [c]) s)"

definition sanitize_anchor_segment :: "string \<Rightarrow> string" where
  "sanitize_anchor_segment raw =
     (let collapsed = join_str ''-'' (filter (\<lambda>p. p \<noteq> []) (split_dashes [] (anchor_chars (trim raw)))) in
      if collapsed = [] then ''unknown'' else collapsed)"

definition entity_anchor_collection :: "string \<Rightarrow> string option" where
  "entity_anchor_collection entity_type =
     Option.bind (entity_type_of entity_type) (\<lambda>d.
       if \<not> etd_anchor_eligible d then None
       else map_of [(''person'', ''people''), (''org'', ''orgs''), (''mission'', ''missions''), (''domain'', ''domains''),
         (''work_surface'', ''work_surfaces'')] entity_type)"

definition entity_anchor_path :: "string \<Rightarrow> string \<Rightarrow> string \<Rightarrow> string option" where
  "entity_anchor_path entity_type anchor_ref kind =
     map_option (\<lambda>collection. ''core/'' @ collection @ ''/'' @ sanitize_anchor_segment anchor_ref @ ''/'' @ sanitize_anchor_segment kind @ ''.md'')
       (entity_anchor_collection entity_type)"

subsection \<open>Rows\<close>

record memory_record_row =
  mrr_memory_id :: string
  mrr_sequence_no :: int
  mrr_scope_type :: memory_scope_type
  mrr_scope_profile :: "string option"
  mrr_kind :: string
  mrr_content_text :: string
  mrr_logical_path :: "string option"
  mrr_work_surface_ref :: "string option"
  mrr_metadata :: json
  mrr_created_at :: string
  mrr_salience :: string
  mrr_supersedes :: "string option"
  mrr_invalid_at :: "string option"
  mrr_lifecycle_status :: string
  mrr_freshness_trend :: string

definition normalize_salience :: "string \<Rightarrow> den_error + string" where
  "normalize_salience value =
     (let v = to_ascii_lowercase (trim value) in
      if v = ''low'' then Inr ''low'' else if v = '''' \<or> v = ''normal'' then Inr ''normal''
      else if v = ''high'' then Inr ''high'' else if v = ''critical'' then Inr ''critical''
      else Inl (ValidationError (''salience must be low, normal, high, or critical; got '' @ v)))"

definition normalize_lifecycle_status :: "string \<Rightarrow> den_error + string" where
  "normalize_lifecycle_status value =
     (let v = to_ascii_lowercase (trim value) in
      if v = '''' \<or> v = ''active'' then Inr ''active'' else if v = ''superseded'' then Inr ''superseded''
      else if v = ''stale'' then Inr ''stale'' else if v = ''archived'' then Inr ''archived''
      else if v = ''archive-candidate'' \<or> v = ''archive_candidate'' then Inr ''archive-candidate''
      else Inl (ValidationError (''lifecycle.status must be active, superseded, stale, archived, or archive-candidate; got '' @ v)))"

definition stored_lifecycle :: "json \<Rightarrow> string option" where
  "stored_lifecycle metadata = Option.bind (Option.bind (jget metadata ''lifecycle'') (\<lambda>l. jget l ''status'')) as_str_json"

definition lifecycle_status :: "json \<Rightarrow> string option \<Rightarrow> string option \<Rightarrow> string" where
  "lifecycle_status metadata supersedes invalid_at =
     (if invalid_at \<noteq> None then ''superseded''
      else case stored_lifecycle metadata of
        None \<Rightarrow> ''active''
      | Some v \<Rightarrow> (case normalize_lifecycle_status v of Inr s \<Rightarrow> s | Inl _ \<Rightarrow> ''active''))"

definition freshness_trend :: "string \<Rightarrow> string option \<Rightarrow> string" where
  "freshness_trend status invalid_at =
     (if invalid_at \<noteq> None then ''stale''
      else if status \<in> set [''superseded'', ''stale'', ''archived''] then ''stale''
      else if status = ''archive-candidate'' then ''weakening'' else ''stable'')"

definition record_into_row :: "memory_rec \<Rightarrow> memory_record_row" where
  "record_into_row r =
     (let status = lifecycle_status (mr_metadata r) (mr_supersedes r) (mr_invalid_at r) in
      \<lparr>mrr_memory_id = mr_id r, mrr_sequence_no = mr_sequence_no r,
       mrr_scope_type = unwrap_or (memory_scope_type_parse (mr_scope_type r)) ScopeProfileLocal,
       mrr_scope_profile = mr_scope_profile r, mrr_kind = mr_kind r, mrr_content_text = mr_content_text r,
       mrr_logical_path = mr_logical_path r, mrr_work_surface_ref = mr_work_surface_ref r, mrr_metadata = mr_metadata r,
       mrr_created_at = mr_created_at r, mrr_salience = mr_salience r, mrr_supersedes = mr_supersedes r,
       mrr_invalid_at = mr_invalid_at r, mrr_lifecycle_status = status, mrr_freshness_trend = freshness_trend status (mr_invalid_at r)\<rparr>)"

subsection \<open>Writing\<close>

definition own_record :: "string \<Rightarrow> string \<Rightarrow> memory_rec \<Rightarrow> bool" where
  "own_record bear i r \<longleftrightarrow> mr_bear r = bear \<and> mr_id r = i"

definition update_records :: "(memory_rec \<Rightarrow> bool) \<Rightarrow> (memory_rec \<Rightarrow> memory_rec) \<Rightarrow> unit memory_op" where
  "update_records g f = memory_write (\<lambda>db. (db\<lparr>md_records := update_where g f (md_records db)\<rparr>, ()))"

definition ensure_record_exists :: "string \<Rightarrow> string \<Rightarrow> unit memory_op" where
  "ensure_record_exists bear i =
     bindM (queryM (\<lambda>db. filter (own_record bear i) (md_records db))) (\<lambda>rows.
       if rows = [] then invalid (''supersedes_memory_id does not exist for this bear: '' @ i) else returnM ())"

definition new_record ::
    "string \<Rightarrow> string \<Rightarrow> string \<Rightarrow> int \<Rightarrow> logical_memory_path \<Rightarrow> string \<Rightarrow> string \<Rightarrow> string option \<Rightarrow> string \<Rightarrow> json \<Rightarrow> string
     \<Rightarrow> string \<Rightarrow> string option \<Rightarrow> memory_rec" where
  "new_record bear fresh now seq logical kind author_profile author_agent_id content metadata visibility salience supersedes =
     \<lparr>mr_id = fresh, mr_bear = bear, mr_sequence_no = seq, mr_scope_type = memory_scope_type_str (lmp_scope_type logical),
      mr_scope_profile = lmp_scope_profile logical, mr_kind = kind, mr_author_profile = author_profile,
      mr_author_agent_id = author_agent_id, mr_created_at = now, mr_content_text = content, mr_metadata = metadata,
      mr_supersedes = supersedes, mr_visibility = visibility, mr_logical_path = Some (to_logical_path logical),
      mr_work_surface_ref = lmp_work_surface_ref logical, mr_valid_from = Some now, mr_invalid_at = None, mr_salience = salience\<rparr>"

definition append_record_with_options ::
    "string \<Rightarrow> string \<Rightarrow> string \<Rightarrow> logical_memory_path \<Rightarrow> string \<Rightarrow> string \<Rightarrow> string option \<Rightarrow> string \<Rightarrow> json \<Rightarrow> string
     \<Rightarrow> string \<Rightarrow> string option \<Rightarrow> memory_record_row memory_op" where
  "append_record_with_options bear fresh now logical kind author_profile author_agent_id content metadata visibility salience supersedes =
     (case normalize_salience salience of
        Inl e \<Rightarrow> failM (Failed e)
      | Inr sal \<Rightarrow>
          bindM (case supersedes of None \<Rightarrow> returnM () | Some old \<Rightarrow> ensure_record_exists bear old) (\<lambda>_.
          bindM next_sequence (\<lambda>seq.
          let r = new_record bear fresh now seq logical kind author_profile author_agent_id content metadata visibility sal supersedes in
          bindM (memory_write (\<lambda>db. (db\<lparr>md_records := md_records db @ [r]\<rparr>, ()))) (\<lambda>_.
          bindM (case supersedes of None \<Rightarrow> returnM ()
                 | Some old \<Rightarrow> update_records (own_record bear old)
                     (\<lambda>q. q\<lparr>mr_invalid_at := (case mr_invalid_at q of None \<Rightarrow> Some now | Some t \<Rightarrow> Some t)\<rparr>)) (\<lambda>_.
          returnM ((record_into_row r)\<lparr>mrr_scope_type := lmp_scope_type logical\<rparr>))))))"

definition append_record ::
    "string \<Rightarrow> string \<Rightarrow> string \<Rightarrow> logical_memory_path \<Rightarrow> string \<Rightarrow> string \<Rightarrow> string option \<Rightarrow> string \<Rightarrow> json \<Rightarrow> string
     \<Rightarrow> memory_record_row memory_op" where
  "append_record bear fresh now logical kind author_profile author_agent_id content metadata visibility =
     append_record_with_options bear fresh now logical kind author_profile author_agent_id content metadata visibility ''normal'' None"

definition append_memory_record ::
    "string \<Rightarrow> string \<Rightarrow> string \<Rightarrow> logical_memory_path \<Rightarrow> string \<Rightarrow> string \<Rightarrow> string option \<Rightarrow> string \<Rightarrow> json
     \<Rightarrow> memory_record_row memory_op" where
  "append_memory_record bear fresh now logical kind author_profile author_agent_id content metadata =
     append_record bear fresh now logical kind author_profile author_agent_id content metadata ''normal''"

definition fetch_record_by_id :: "string \<Rightarrow> string \<Rightarrow> memory_db \<Rightarrow> memory_record_row option" where
  "fetch_record_by_id bear i db = map_option record_into_row (List.find (own_record bear i) (md_records db))"

definition object_members :: "json \<Rightarrow> (string \<times> json) list" where
  "object_members v = (case v of JObj kvs \<Rightarrow> kvs | _ \<Rightarrow> [])"

definition mark_metadata :: "string \<Rightarrow> string \<Rightarrow> string option \<Rightarrow> json \<Rightarrow> json" where
  "mark_metadata status now reason metadata =
     (let m = object_members metadata;
          l = (case map_of m ''lifecycle'' of None \<Rightarrow> [] | Some v \<Rightarrow> object_members v);
          l1 = set_member ''marked_at'' (JStr now) (set_member ''status'' (JStr status) l);
          l2 = (case filter_opt (\<lambda>v. v \<noteq> []) (map_option trim reason) of None \<Rightarrow> l1 | Some r \<Rightarrow> set_member ''reason'' (JStr r) l1)
      in JObj (set_member ''lifecycle'' (JObj l2) m))"

definition mark_memory_record_lifecycle ::
    "string \<Rightarrow> string \<Rightarrow> string \<Rightarrow> string \<Rightarrow> string option \<Rightarrow> memory_record_row memory_op" where
  "mark_memory_record_lifecycle bear now i status reason =
     (case normalize_lifecycle_status status of
        Inl e \<Rightarrow> failM (Failed e)
      | Inr s \<Rightarrow>
          bindM (queryM (\<lambda>db. List.find (own_record bear i) (md_records db))) (\<lambda>found. case found of
            None \<Rightarrow> failM (Failed (NotFound ''memory record not found''))
          | Some row \<Rightarrow>
              bindM (update_records (own_record bear i) (\<lambda>r.
                  (r\<lparr>mr_metadata := mark_metadata s now reason (mr_metadata row)\<rparr>)
                  \<lparr>mr_invalid_at := (if s = ''superseded'' \<and> mr_invalid_at row = None then Some now else mr_invalid_at r)\<rparr>)) (\<lambda>_.
              bindM (queryM (fetch_record_by_id bear i)) (\<lambda>r. case r of
                None \<Rightarrow> failM (Failed (NotFound ''memory record not found''))
              | Some m \<Rightarrow> returnM m))))"

subsection \<open>Reading\<close>

definition memory_sequence_high_water :: "string \<Rightarrow> memory_db \<Rightarrow> int" where
  "memory_sequence_high_water bear db =
     (case map mr_sequence_no (filter (\<lambda>r. mr_bear r = bear) (md_records db)) of [] \<Rightarrow> 0 | ns \<Rightarrow> Max (set ns))"

text \<open>\<open>NOT EXISTS (SELECT 1 ... newer.supersedes_memory_id = memory_id)\<close>.\<close>

definition is_head :: "memory_db \<Rightarrow> memory_rec \<Rightarrow> bool" where
  "is_head db r \<longleftrightarrow> \<not> (\<exists>n \<in> set (md_records db). mr_bear n = mr_bear r \<and> mr_supersedes n = Some (mr_id r))"

definition records_where :: "string \<Rightarrow> (memory_rec \<Rightarrow> bool) \<Rightarrow> int \<Rightarrow> memory_db \<Rightarrow> memory_record_row list" where
  "records_where bear p limit db = map record_into_row (sql_limit limit (by_sequence_desc mr_sequence_no
     (filter (\<lambda>r. mr_bear r = bear \<and> p r) (md_records db))))"

definition head_record_for_logical_path :: "string \<Rightarrow> string \<Rightarrow> memory_db \<Rightarrow> memory_record_row option" where
  "head_record_for_logical_path bear path db =
     fetch_optional (records_where bear (\<lambda>r. mr_logical_path r = Some path \<and> mr_visibility r = ''normal'' \<and> is_head db r) 1 db)"

definition has_work_surface_canonical_anchor :: "string \<Rightarrow> string \<Rightarrow> memory_db \<Rightarrow> bool" where
  "has_work_surface_canonical_anchor bear slug db =
     list_ex (\<lambda>path. head_record_for_logical_path bear path db \<noteq> None)
       [''core/work_surfaces/'' @ slug @ ''/index.md'', ''core/work_surfaces/'' @ slug @ ''/overview.md'']"

definition list_profile_local_head_records :: "string \<Rightarrow> string \<Rightarrow> string option \<Rightarrow> int \<Rightarrow> memory_db \<Rightarrow> memory_record_row list" where
  "list_profile_local_head_records bear profile surface limit db =
     records_where bear (\<lambda>r. mr_scope_type r = ''profile_local'' \<and> mr_scope_profile r = Some profile \<and> mr_visibility r = ''normal''
       \<and> mr_work_surface_ref r = surface \<and> is_head db r) limit db"

text \<open>\<open>json_extract(metadata_json, '$.lifecycle.status')\<close>, with \<open>'active'\<close> for \<open>NULL\<close>; other than texts it is never one of the two.\<close>

definition listed_lifecycle :: "json \<Rightarrow> bool" where
  "listed_lifecycle metadata \<longleftrightarrow> unwrap_or (stored_lifecycle metadata) ''active'' \<notin> set [''archived'', ''archive-candidate'']"

definition list_records_for_logical_path :: "string \<Rightarrow> string \<Rightarrow> int \<Rightarrow> memory_db \<Rightarrow> memory_record_row list" where
  "list_records_for_logical_path bear path limit db =
     records_where bear (\<lambda>r. mr_logical_path r = Some path \<and> mr_invalid_at r = None \<and> listed_lifecycle (mr_metadata r)) limit db"

definition list_record_history_for_logical_path :: "string \<Rightarrow> string \<Rightarrow> int \<Rightarrow> memory_db \<Rightarrow> memory_record_row list" where
  "list_record_history_for_logical_path bear path limit db = records_where bear (\<lambda>r. mr_logical_path r = Some path) limit db"

definition effective_at :: "memory_rec \<Rightarrow> string" where
  "effective_at r = unwrap_or (mr_valid_from r) (mr_created_at r)"

definition effective_time_by_ids :: "(string \<Rightarrow> int option) \<Rightarrow> string \<Rightarrow> memory_db \<Rightarrow> string list \<Rightarrow> string \<Rightarrow> int option" where
  "effective_time_by_ids parse_ts bear db ids i =
     (if i \<in> set ids then Option.bind (List.find (own_record bear i) (md_records db)) (\<lambda>r. parse_ts (effective_at r)) else None)"

definition superseder_times_by_superseded :: "(string \<Rightarrow> int option) \<Rightarrow> string \<Rightarrow> memory_db \<Rightarrow> string list \<Rightarrow> string \<Rightarrow> int list" where
  "superseder_times_by_superseded parse_ts bear db ids i =
     (if i \<in> set ids then List.map_filter (\<lambda>r. parse_ts (effective_at r))
        (filter (\<lambda>r. mr_bear r = bear \<and> mr_supersedes r = Some i) (md_records db)) else [])"

text \<open>\<open>max_by\<close>: the last of the greatest.\<close>

fun max_last :: "('a \<Rightarrow> 'k::linorder) \<Rightarrow> 'a list \<Rightarrow> 'a option" where
  "max_last f [] = None"
| "max_last f (x # xs) = (case max_last f xs of None \<Rightarrow> Some x | Some y \<Rightarrow> if f y < f x then Some x else Some y)"

definition dated_versions :: "(string \<Rightarrow> int option) \<Rightarrow> string \<Rightarrow> string \<Rightarrow> memory_db \<Rightarrow> (memory_rec \<times> int) list" where
  "dated_versions parse_ts bear path db = List.map_filter (\<lambda>r. map_option (Pair r) (parse_ts (effective_at r)))
     (filter (\<lambda>r. mr_bear r = bear \<and> mr_logical_path r = Some path \<and> mr_visibility r = ''normal'') (md_records db))"

definition superseded_as_of :: "int \<Rightarrow> (memory_rec \<times> int) list \<Rightarrow> string list" where
  "superseded_as_of at versions = List.map_filter (\<lambda>(r, t). if t \<le> at then mr_supersedes r else None) versions"

definition head_record_as_of :: "(string \<Rightarrow> int option) \<Rightarrow> string \<Rightarrow> string \<Rightarrow> int \<Rightarrow> memory_db \<Rightarrow> memory_record_row option" where
  "head_record_as_of parse_ts bear path at db =
     (let versions = dated_versions parse_ts bear path db;
          gone = superseded_as_of at versions
      in map_option (\<lambda>v. record_into_row (fst v))
           (max_last (\<lambda>(r, t). (t, mr_sequence_no r)) (filter (\<lambda>(r, t). t \<le> at \<and> mr_id r \<notin> set gone) versions)))"

end
