(* ===== verification/Memory_Conflicts.thy ===== *)
theory Memory_Conflicts
  imports Memory_Records
begin

section \<open>Observations and conflicts of the memory service\<close>

text \<open>
  \<open>den-memory/src/{observations,conflicts}.rs\<close>, and the two queries of \<open>records.rs\<close> that join records
  with entities: observations filed for review, the predicate that finds contradicting records in a
  retrieved set, the queries that resolve its inputs, and the observation a conflict leaves.
  \<open>parse_ts\<close> is \<open>parse_rfc3339\<close>; a \<open>HashMap\<close> of vectors is the function of its entries, with the
  empty vector where it has none.
\<close>

subsection \<open>Observations\<close>

datatype memory_observation_status = PendingReview | ReviewQueued

fun memory_observation_status_str :: "memory_observation_status \<Rightarrow> string" where
  "memory_observation_status_str PendingReview = ''pending_review''"
| "memory_observation_status_str ReviewQueued = ''review_queued''"

definition memory_observation_status_parse :: "string \<Rightarrow> den_error + memory_observation_status" where
  "memory_observation_status_parse raw =
     (if raw = ''pending_review'' then Inr PendingReview
      else if raw = ''review_queued'' then Inr ReviewQueued
      else Inl (SystemError (''unknown memory observation status: '' @ raw)))"

record memory_observation =
  mo_observation_id :: string
  mo_sequence_no :: int
  mo_summary :: string
  mo_logical_path :: string
  mo_status :: memory_observation_status
  mo_proposal_id :: "string option"
  mo_source :: json
  mo_created_at :: string

definition create_memory_observation ::
    "string \<Rightarrow> string \<Rightarrow> string \<Rightarrow> string \<Rightarrow> string \<Rightarrow> string \<Rightarrow> json \<Rightarrow> memory_observation memory_op" where
  "create_memory_observation bear now observation_id summary salience logical_path source =
     bindM next_sequence (\<lambda>seq.
     bindM (memory_write (\<lambda>db. (db\<lparr>md_observations := md_observations db @
         [\<lparr>ob_observation_id = observation_id, ob_bear = bear, ob_sequence_no = seq, ob_summary = summary, ob_salience = salience,
           ob_source = source, ob_logical_path = logical_path, ob_status = memory_observation_status_str PendingReview,
           ob_proposal_id = None, ob_created_at = now, ob_reviewed_at = None\<rparr>]\<rparr>, ()))) (\<lambda>_.
     returnM \<lparr>mo_observation_id = observation_id, mo_sequence_no = seq, mo_summary = summary, mo_logical_path = logical_path,
       mo_status = PendingReview, mo_proposal_id = None, mo_source = source, mo_created_at = now\<rparr>))"

definition observation_into_row :: "observation_rec \<Rightarrow> den_error + memory_observation" where
  "observation_into_row o1 =
     (case memory_observation_status_parse (ob_status o1) of
        Inl e \<Rightarrow> Inl e
      | Inr s \<Rightarrow> Inr \<lparr>mo_observation_id = ob_observation_id o1, mo_sequence_no = ob_sequence_no o1, mo_summary = ob_summary o1,
          mo_logical_path = ob_logical_path o1, mo_status = s, mo_proposal_id = ob_proposal_id o1, mo_source = ob_source o1,
          mo_created_at = ob_created_at o1\<rparr>)"

definition own_observation :: "string \<Rightarrow> string \<Rightarrow> observation_rec \<Rightarrow> bool" where
  "own_observation bear i o1 \<longleftrightarrow> ob_bear o1 = bear \<and> ob_observation_id o1 = i"

definition get_memory_observation :: "string \<Rightarrow> string \<Rightarrow> memory_observation option memory_op" where
  "get_memory_observation bear i =
     bindM (queryM (\<lambda>db. List.find (own_observation bear i) (md_observations db))) (\<lambda>row. case row of
       None \<Rightarrow> returnM None
     | Some o1 \<Rightarrow> (case observation_into_row o1 of Inl e \<Rightarrow> failM (Failed e) | Inr m \<Rightarrow> returnM (Some m)))"

definition mark_observation_review_queued :: "string \<Rightarrow> string \<Rightarrow> string \<Rightarrow> unit memory_op" where
  "mark_observation_review_queued bear i proposal_id =
     memory_write (\<lambda>db. (db\<lparr>md_observations := update_where (own_observation bear i)
       (\<lambda>o1. o1\<lparr>ob_status := memory_observation_status_str ReviewQueued, ob_proposal_id := Some proposal_id\<rparr>)
       (md_observations db)\<rparr>, ()))"

subsection \<open>The conflict predicate\<close>

datatype conflict_reason = SharedLogicalPath string | SharedSubjectEntity string

fun conflict_kind :: "conflict_reason \<Rightarrow> string" where
  "conflict_kind (SharedLogicalPath _) = ''shared_path''"
| "conflict_kind (SharedSubjectEntity _) = ''shared_subject''"

fun conflict_detail :: "conflict_reason \<Rightarrow> string" where
  "conflict_detail (SharedLogicalPath path) = path"
| "conflict_detail (SharedSubjectEntity entity_id) = entity_id"

fun conflict_describe :: "conflict_reason \<Rightarrow> string" where
  "conflict_describe (SharedLogicalPath path) = ''shared logical path '' @ path"
| "conflict_describe (SharedSubjectEntity entity_id) = ''shared subject entity '' @ entity_id"

record memory_conflict =
  mc_memory_id_a :: string
  mc_memory_id_b :: string
  mc_reason :: conflict_reason

definition new_conflict :: "string \<Rightarrow> string \<Rightarrow> conflict_reason \<Rightarrow> memory_conflict" where
  "new_conflict x y reason = (case (if x \<le> y then (x, y) else (y, x)) of (a, b) \<Rightarrow>
     \<lparr>mc_memory_id_a = a, mc_memory_id_b = b, mc_reason = reason\<rparr>)"

definition pair_key :: "memory_conflict \<Rightarrow> string" where
  "pair_key c = mc_memory_id_a c @ ''::'' @ mc_memory_id_b c"

definition conflict_other :: "memory_conflict \<Rightarrow> string \<Rightarrow> string option" where
  "conflict_other c i = (if i = mc_memory_id_a c then Some (mc_memory_id_b c)
     else if i = mc_memory_id_b c then Some (mc_memory_id_a c) else None)"

record conflict_candidate =
  cc_memory_id :: string
  cc_logical_path :: "string option"
  cc_effective_from :: "int option"
  cc_invalid_at :: "int option"
  cc_lifecycle_status :: string
  cc_supersession_ancestors :: "string list"
  cc_subject_entity_ids :: "string list"

definition is_live_head :: "conflict_candidate \<Rightarrow> bool" where
  "is_live_head c \<longleftrightarrow> cc_lifecycle_status c \<notin> set [''superseded'', ''archived'']"

definition before_end :: "int \<Rightarrow> int option \<Rightarrow> bool" where
  "before_end t e = (case e of None \<Rightarrow> True | Some e \<Rightarrow> t < e)"

definition windows_overlap :: "conflict_candidate \<Rightarrow> conflict_candidate \<Rightarrow> bool" where
  "windows_overlap a b =
     (case (cc_effective_from a, cc_effective_from b) of
        (Some a_from, Some b_from) \<Rightarrow> before_end b_from (cc_invalid_at a) \<and> before_end a_from (cc_invalid_at b)
      | _ \<Rightarrow> False)"

definition shared_subject :: "conflict_candidate \<Rightarrow> conflict_candidate \<Rightarrow> conflict_reason option" where
  "shared_subject a b = map_option SharedSubjectEntity
     (List.find (\<lambda>e. e \<in> set (cc_subject_entity_ids b)) (cc_subject_entity_ids a))"

definition shared_dimension :: "conflict_candidate \<Rightarrow> conflict_candidate \<Rightarrow> conflict_reason option" where
  "shared_dimension a b =
     (case (cc_logical_path a, cc_logical_path b) of
        (Some pa, Some pb) \<Rightarrow> if pa \<noteq> [] \<and> pa = pb then Some (SharedLogicalPath pa) else shared_subject a b
      | _ \<Rightarrow> shared_subject a b)"

definition in_supersession_chain :: "conflict_candidate \<Rightarrow> conflict_candidate \<Rightarrow> bool" where
  "in_supersession_chain a b \<longleftrightarrow> cc_memory_id b \<in> set (cc_supersession_ancestors a)
     \<or> cc_memory_id a \<in> set (cc_supersession_ancestors b)"

text \<open>The body of the inner loop: the conflict it pushes, if any.\<close>

definition pair_conflict :: "conflict_candidate \<Rightarrow> conflict_candidate \<Rightarrow> memory_conflict option" where
  "pair_conflict a b =
     (if cc_memory_id b = cc_memory_id a \<or> \<not> is_live_head b then None
      else case shared_dimension a b of
        None \<Rightarrow> None
      | Some reason \<Rightarrow>
          if \<not> windows_overlap a b \<or> in_supersession_chain a b then None
          else Some (new_conflict (cc_memory_id a) (cc_memory_id b) reason))"

fun detect_conflicts :: "conflict_candidate list \<Rightarrow> memory_conflict list" where
  "detect_conflicts [] = []"
| "detect_conflicts (a # bs) =
     (if \<not> is_live_head a then [] else List.map_filter (pair_conflict a) bs) @ detect_conflicts bs"

subsection \<open>Its inputs\<close>

definition SUPERSESSION_CHAIN_DEPTH :: nat where "SUPERSESSION_CHAIN_DEPTH = 32"

text \<open>The rows of the recursive query for one start: the ids its chain names, at most \<open>n\<close> of them.\<close>

fun chain_walk :: "string \<Rightarrow> memory_db \<Rightarrow> nat \<Rightarrow> string \<Rightarrow> string list" where
  "chain_walk bear db 0 i = []"
| "chain_walk bear db (Suc n) i =
     (case Option.bind (List.find (own_record bear i) (md_records db)) mr_supersedes of
        None \<Rightarrow> []
      | Some p \<Rightarrow> p # chain_walk bear db n p)"

definition supersession_ancestors :: "string \<Rightarrow> memory_db \<Rightarrow> string list \<Rightarrow> string \<Rightarrow> string list" where
  "supersession_ancestors bear db ids i =
     (if i \<in> set ids then remdups (chain_walk bear db SUPERSESSION_CHAIN_DEPTH i) else [])"

definition as_bool_json :: "json \<Rightarrow> bool option" where
  "as_bool_json v = (case v of JBool b \<Rightarrow> Some b | _ \<Rightarrow> None)"

definition is_primary_link :: "link_rec \<Rightarrow> bool" where
  "is_primary_link l = unwrap_or (Option.bind (jget (ln_qualifiers l) ''is_primary'') as_bool_json) True"

definition push_new :: "string list \<Rightarrow> string \<Rightarrow> string list" where
  "push_new es e = (if e \<in> set es then es else es @ [e])"

definition subject_relation :: string where
  "subject_relation = (case relation_of ''subject'' of Some d \<Rightarrow> rld_id d | None \<Rightarrow> ''den.memory.relation.subject'')"

definition primary_subject_entities :: "string \<Rightarrow> memory_db \<Rightarrow> string list \<Rightarrow> string \<Rightarrow> string list" where
  "primary_subject_entities bear db ids i =
     foldl push_new [] (map ln_entity_id (filter (\<lambda>l. active_link bear l \<and> ln_relation l = subject_relation
       \<and> ln_src_memory_id l \<in> set ids \<and> is_primary_link l \<and> ln_src_memory_id l = i) (md_relations db)))"

definition conflict_candidates :: "(string \<Rightarrow> int option) \<Rightarrow> string \<Rightarrow> memory_db \<Rightarrow> string list \<Rightarrow> conflict_candidate list" where
  "conflict_candidates parse_ts bear db ids =
     (if ids = [] then []
      else map (\<lambda>r. \<lparr>cc_memory_id = mr_id r, cc_logical_path = mr_logical_path r,
             cc_effective_from = parse_ts (effective_at r), cc_invalid_at = Option.bind (mr_invalid_at r) parse_ts,
             cc_lifecycle_status = lifecycle_status (mr_metadata r) (mr_supersedes r) (mr_invalid_at r),
             cc_supersession_ancestors = supersession_ancestors bear db ids (mr_id r),
             cc_subject_entity_ids = primary_subject_entities bear db ids (mr_id r)\<rparr>)
           (filter (\<lambda>r. mr_bear r = bear \<and> mr_id r \<in> set ids) (md_records db)))"

definition memory_conflicts_among :: "(string \<Rightarrow> int option) \<Rightarrow> string \<Rightarrow> memory_db \<Rightarrow> string list \<Rightarrow> memory_conflict list" where
  "memory_conflicts_among parse_ts bear db ids =
     (if length ids < 2 then [] else detect_conflicts (conflict_candidates parse_ts bear db ids))"

subsection \<open>The observation of a conflict\<close>

definition conflict_summary :: "memory_conflict \<Rightarrow> string" where
  "conflict_summary c = ''Conflicting live memory records '' @ mc_memory_id_a c @ '' and '' @ mc_memory_id_b c
     @ '' ('' @ conflict_describe (mc_reason c) @ '')''"

definition conflict_source :: "memory_conflict \<Rightarrow> json" where
  "conflict_source c = JObj [(''kind'', JStr ''memory_conflict''), (''memory_ids'', JArr [JStr (mc_memory_id_a c), JStr (mc_memory_id_b c)]),
     (''pair_key'', JStr (pair_key c)), (''reason'', JStr (conflict_kind (mc_reason c))),
     (''reason_detail'', JStr (conflict_detail (mc_reason c)))]"

definition conflict_pending :: "string \<Rightarrow> string \<Rightarrow> observation_rec \<Rightarrow> bool" where
  "conflict_pending bear key o1 \<longleftrightarrow> ob_bear o1 = bear \<and> ob_reviewed_at o1 = None
     \<and> ob_status o1 \<in> set [''pending_review'', ''review_queued'']
     \<and> jget (ob_source o1) ''kind'' = Some (JStr ''memory_conflict'')
     \<and> jget (ob_source o1) ''pair_key'' = Some (JStr key)"

definition record_conflict_observation :: "string \<Rightarrow> string \<Rightarrow> string \<Rightarrow> memory_conflict \<Rightarrow> memory_observation option memory_op" where
  "record_conflict_observation bear fresh now c =
     bindM (queryM (\<lambda>db. length (filter (conflict_pending bear (pair_key c)) (md_observations db)))) (\<lambda>existing.
       if existing > 0 then returnM None
       else bindM (create_memory_observation bear now fresh (conflict_summary c) ''normal''
              (''watch/observations/'' @ fresh @ ''.md'') (conflict_source c)) (\<lambda>m. returnM (Some m)))"

subsection \<open>Queries that join records and entities\<close>

text \<open>The records an active \<open>subject\<close> link of the entity names, once per link; the rows of one group.\<close>

definition anchor_records :: "string \<Rightarrow> memory_db \<Rightarrow> entity_rec \<Rightarrow> memory_rec list" where
  "anchor_records bear db e = concat (map (\<lambda>l. filter (\<lambda>m. own_record bear (ln_src_memory_id l) m \<and> mr_visibility m = ''normal'') (md_records db))
     (filter (\<lambda>l. active_link bear l \<and> ln_entity_id l = en_id e \<and> ln_relation l = ''den.memory.relation.subject'') (md_relations db)))"

definition anchor_candidates :: "string \<Rightarrow> memory_db \<Rightarrow> entity_rec list" where
  "anchor_candidates bear db = by_sequence_desc (\<lambda>e. Max (set (map mr_sequence_no (anchor_records bear db e))))
     (filter (\<lambda>e. en_bear e = bear \<and> en_resolution e \<in> set [''resolved'', ''confirmed''] \<and> en_superseded_by e = None
        \<and> anchor_records bear db e \<noteq> []) (md_entities db))"

definition anchor_eligible :: "string \<Rightarrow> memory_db \<Rightarrow> entity_rec \<Rightarrow> bool" where
  "anchor_eligible bear db e \<longleftrightarrow>
     length (filter (\<lambda>m. mr_salience m \<in> set [''high'', ''critical'']) (anchor_records bear db e)) > 0
     \<or> (en_resolution e = ''confirmed'' \<and> length (filter (\<lambda>m. mr_salience m = ''normal'') (anchor_records bear db e)) \<ge> 2)"

definition anchor_head :: "string \<Rightarrow> memory_db \<Rightarrow> entity_rec \<Rightarrow> memory_record_row option" where
  "anchor_head bear db e =
     (let anchor_ref = unwrap_or (or_else (en_display_name e) (en_canonical_ref e)) (en_id e) in
      fetch_optional (List.map_filter (\<lambda>kind. Option.bind (entity_anchor_path (en_type e) anchor_ref kind)
        (\<lambda>path. head_record_for_logical_path bear path db)) [''profile'', ''overview'', ''index'']))"

text \<open>The loop over the candidates stops when \<open>limit\<close> records are found; the saturation of \<open>4 * limit\<close> is outside its clamp.\<close>

definition list_entity_anchor_head_records :: "string \<Rightarrow> int \<Rightarrow> memory_db \<Rightarrow> memory_record_row list" where
  "list_entity_anchor_head_records bear limit db =
     take (nat (max limit 0)) (List.map_filter (anchor_head bear db) (filter (anchor_eligible bear db)
       (sql_limit (max 1 (min 200 (4 * limit))) (anchor_candidates bear db))))"

record recall_record_min =
  rm_memory_id :: string
  rm_logical_path :: "string option"
  rm_kind :: string
  rm_content_text :: string
  rm_salience :: string
  rm_lifecycle_status :: string
  rm_freshness_trend :: string

definition record_into_min :: "memory_rec \<Rightarrow> recall_record_min" where
  "record_into_min r = (let status = lifecycle_status (mr_metadata r) (mr_supersedes r) (mr_invalid_at r) in
     \<lparr>rm_memory_id = mr_id r, rm_logical_path = mr_logical_path r, rm_kind = mr_kind r, rm_content_text = mr_content_text r,
      rm_salience = mr_salience r, rm_lifecycle_status = status, rm_freshness_trend = freshness_trend status (mr_invalid_at r)\<rparr>)"

definition fetch_records_min :: "string \<Rightarrow> memory_db \<Rightarrow> string list \<Rightarrow> string \<Rightarrow> recall_record_min list" where
  "fetch_records_min bear db ids role = map record_into_min (filter (\<lambda>r. mr_bear r = bear \<and> mr_visibility r = ''normal''
     \<and> mr_invalid_at r = None \<and> (mr_scope_type r = ''shared'' \<or> mr_scope_profile r = Some role) \<and> mr_id r \<in> set ids) (md_records db))"

end
