(* ===== verification/Memory_Review.thy ===== *)
theory Memory_Review
  imports Memory_Conflicts
begin

section \<open>Review of the memory: promotions, proposals, harvests\<close>

text \<open>
  \<open>den-memory/src/{promotions,proposals,harvest,reflection_outcomes}.rs\<close>: what curation writes. A
  proposal is filed with marks that ask for a human where a risk is seen, once per pending key, and
  resolved; a promotion writes a reviewed claim to the shared core. \<open>lower\<close> is Unicode
  lower-casing; a JSON column holds the value it encodes.
\<close>

subsection \<open>Fingerprints and promotions\<close>

definition ascii_alphanumeric :: "char \<Rightarrow> bool" where
  "ascii_alphanumeric c \<longleftrightarrow> (CHR ''a'' \<le> c \<and> c \<le> CHR ''z'') \<or> (CHR ''A'' \<le> c \<and> c \<le> CHR ''Z'') \<or> (CHR ''0'' \<le> c \<and> c \<le> CHR ''9'')"

text \<open>Every byte of a character outside ASCII becomes a space, which the split takes together.\<close>

definition memory_claim_fingerprint :: "(string \<Rightarrow> string) \<Rightarrow> string \<Rightarrow> string" where
  "memory_claim_fingerprint lower txt =
     join_str '' '' (split_whitespace (map (\<lambda>c. if ascii_alphanumeric c then c else CHR '' '') (lower txt)))"

definition append_memory_promotion ::
    "string \<Rightarrow> string \<Rightarrow> string \<Rightarrow> string \<Rightarrow> string option \<Rightarrow> string \<Rightarrow> string option \<Rightarrow> string memory_op" where
  "append_memory_promotion bear fresh now source target action notes =
     bindM next_sequence (\<lambda>seq.
     bindM (memory_write (\<lambda>db. (db\<lparr>md_promotions := md_promotions db @ [\<lparr>pm_id = fresh, pm_bear = bear, pm_sequence_no = seq,
         pm_source = source, pm_target = target, pm_action = action, pm_created_at = now, pm_notes = notes\<rparr>]\<rparr>, ()))) (\<lambda>_.
     returnM fresh))"

record core_promotion_outcome =
  cpo_memory_id :: string
  cpo_promotion_id :: string

definition promotion_metadata :: "string \<Rightarrow> string \<Rightarrow> json" where
  "promotion_metadata source target_path = JObj [(''promoted_from'', JStr source), (''promotion_policy'', JStr ''reviewed_core_update''),
     (''target_path'', JStr target_path)]"

text \<open>\<open>fresh 0\<close> is the id of the record, \<open>fresh 1\<close> that of the promotion; the clock is read in the same order.\<close>

definition promote_to_shared_core_at_path ::
    "(string \<Rightarrow> string) \<Rightarrow> string \<Rightarrow> (nat \<Rightarrow> string) \<Rightarrow> (nat \<Rightarrow> string) \<Rightarrow> string \<Rightarrow> string \<Rightarrow> string \<Rightarrow> string \<Rightarrow> string
     \<Rightarrow> string option \<Rightarrow> core_promotion_outcome memory_op" where
  "promote_to_shared_core_at_path lower bear fresh now source target_path kind content author salience =
     (let logical = from_logical_path target_path in
      if memory_scope_type_str (lmp_scope_type logical) \<noteq> ''shared'' then invalid ''core promotion target_path must be under core/''
      else bindM (queryM (head_record_for_logical_path bear target_path)) (\<lambda>prior.
        case filter_opt (\<lambda>head. memory_claim_fingerprint lower (mrr_content_text head) = memory_claim_fingerprint lower content) prior of
          Some head \<Rightarrow>
            bindM (append_memory_promotion bear (fresh 1) (now 1) source (Some (mrr_memory_id head)) ''dedupe_core_noop''
                (Some ''Candidate matched existing core head; no new memory record written.'')) (\<lambda>p.
            returnM \<lparr>cpo_memory_id = mrr_memory_id head, cpo_promotion_id = p\<rparr>)
        | None \<Rightarrow>
            (let old = map_option mrr_memory_id prior in
             bindM (append_record_with_options bear (fresh 0) (now 0) logical kind author None content (promotion_metadata source target_path)
                 ''normal'' (unwrap_or salience ''normal'') old) (\<lambda>row.
             bindM (append_memory_promotion bear (fresh 1) (now 1) source (Some (mrr_memory_id row))
                 (if old \<noteq> None then ''supersede_core'' else ''promote_to_core'')
                 (map_option (\<lambda>i. ''Supersedes prior core memory record '' @ i) old)) (\<lambda>p.
             returnM \<lparr>cpo_memory_id = mrr_memory_id row, cpo_promotion_id = p\<rparr>)))))"

definition promote_to_shared_core ::
    "(string \<Rightarrow> string) \<Rightarrow> string \<Rightarrow> (nat \<Rightarrow> string) \<Rightarrow> (nat \<Rightarrow> string) \<Rightarrow> string \<Rightarrow> string \<Rightarrow> string \<Rightarrow> string
     \<Rightarrow> core_promotion_outcome memory_op" where
  "promote_to_shared_core lower bear fresh now source kind content author =
     promote_to_shared_core_at_path lower bear fresh now source (to_logical_path (shared_core kind)) kind content author None"

subsection \<open>Proposals\<close>

record memory_proposal =
  mp_proposal_id :: string
  mp_sequence_no :: int
  mp_status :: string
  mp_payload :: json
  mp_created_at :: string

definition into_proposal :: "proposal_rec \<Rightarrow> memory_proposal" where
  "into_proposal p = \<lparr>mp_proposal_id = pr_id p, mp_sequence_no = pr_sequence_no p, mp_status = pr_status p, mp_payload = pr_payload p,
     mp_created_at = pr_created_at p\<rparr>"

definition ensure_object_payload :: "json \<Rightarrow> json" where
  "ensure_object_payload p = (case p of JObj _ \<Rightarrow> p | _ \<Rightarrow> JObj [(''value'', p)])"

definition with_review :: "string \<Rightarrow> json \<Rightarrow> json \<Rightarrow> json" where
  "with_review name mark payload =
     JObj (set_member name mark (set_member ''requires_human'' (JBool True) (object_members (ensure_object_payload payload))))"

definition enrich_payload_with_archive_lane :: "json \<Rightarrow> string \<Rightarrow> json" where
  "enrich_payload_with_archive_lane payload action =
     (if action \<noteq> ''archive_index'' then payload
      else with_review ''archive_lane'' (JObj [(''apply_mode'', JStr ''proposal_only''), (''detector'', JStr ''archive-index-proposal-v1''),
        (''status'', JStr ''review_required'')]) payload)"

definition risky_sensitivities :: "string list" where
  "risky_sensitivities = [''person'', ''secret_risk'', ''external_untrusted'', ''unknown'']"

definition enrich_payload_with_sensitivity_gate :: "json \<Rightarrow> string \<Rightarrow> json" where
  "enrich_payload_with_sensitivity_gate payload sensitivity =
     (if trim sensitivity \<notin> set risky_sensitivities then payload
      else with_review ''risk_review'' (JObj [(''detector'', JStr ''sensitivity-enum-v1''), (''sensitivity'', JStr (trim sensitivity)),
        (''status'', JStr ''review_required'')]) payload)"

definition payload_text :: "json \<Rightarrow> string \<Rightarrow> string option" where
  "payload_text payload k = Option.bind (jget payload k) as_str_json"

definition payload_claim_fingerprint :: "(string \<Rightarrow> string) \<Rightarrow> json \<Rightarrow> string option" where
  "payload_claim_fingerprint lower payload = filter_opt (\<lambda>v. v \<noteq> []) (map_option (memory_claim_fingerprint lower)
     (or_else (payload_text payload ''proposed_content'') (payload_text payload ''summary'')))"

definition jint :: "int \<Rightarrow> json" where
  "jint i = (if i < 0 then JNum (''-'' @ show_nat (nat (- i))) else JNum (show_nat (nat i)))"

definition freshness_mark :: "string \<Rightarrow> memory_record_row \<Rightarrow> string \<Rightarrow> string \<Rightarrow> json" where
  "freshness_mark target_ref head head_fp new_fp = JObj [(''current_claim_fingerprint'', JStr head_fp),
     (''current_memory_id'', JStr (mrr_memory_id head)), (''current_sequence_no'', jint (mrr_sequence_no head)),
     (''detector'', JStr ''same-path-different-claim-v1''), (''proposed_claim_fingerprint'', JStr new_fp), (''review_required'', JBool True),
     (''status'', JStr ''potential_conflict''), (''target_ref'', JStr target_ref)]"

definition enrich_payload_with_freshness :: "(string \<Rightarrow> string) \<Rightarrow> string \<Rightarrow> memory_db \<Rightarrow> json \<Rightarrow> json" where
  "enrich_payload_with_freshness lower bear db payload =
     (case filter_opt (\<lambda>v. v \<noteq> []) (map_option trim (payload_text payload ''target_ref'')) of
        None \<Rightarrow> payload
      | Some target_ref \<Rightarrow>
          (case payload_claim_fingerprint lower payload of
             None \<Rightarrow> payload
           | Some new_fp \<Rightarrow>
               (case head_record_for_logical_path bear target_ref db of
                  None \<Rightarrow> payload
                | Some head \<Rightarrow>
                    (let head_fp = memory_claim_fingerprint lower (mrr_content_text head) in
                     if head_fp = [] \<or> head_fp = new_fp then payload
                     else with_review ''freshness'' (freshness_mark target_ref head head_fp new_fp) payload))))"

definition active_record_with_claim_fingerprint :: "(string \<Rightarrow> string) \<Rightarrow> string \<Rightarrow> memory_db \<Rightarrow> string \<Rightarrow> string \<Rightarrow> memory_rec option" where
  "active_record_with_claim_fingerprint lower bear db fingerprint target_ref =
     List.find (\<lambda>r. mr_logical_path r \<noteq> Some target_ref \<and> memory_claim_fingerprint lower (mr_content_text r) = fingerprint)
       (sql_limit 100 (by_sequence_desc mr_sequence_no (filter (\<lambda>r. mr_bear r = bear \<and> mr_visibility r = ''normal''
         \<and> mr_invalid_at r = None \<and> listed_lifecycle (mr_metadata r)) (md_records db))))"

definition consolidation_mark :: "memory_rec \<Rightarrow> json" where
  "consolidation_mark r = JObj [(''candidate_logical_path'', case mr_logical_path r of None \<Rightarrow> JNull | Some p \<Rightarrow> JStr p),
     (''candidate_memory_id'', JStr (mr_id r)), (''candidate_sequence_no'', jint (mr_sequence_no r)),
     (''detector'', JStr ''deterministic-claim-fingerprint-v1''), (''reason'', JStr ''same_claim_different_path''),
     (''status'', JStr ''needs_human_review'')]"

definition enrich_payload_with_consolidation_review :: "(string \<Rightarrow> string) \<Rightarrow> string \<Rightarrow> memory_db \<Rightarrow> json \<Rightarrow> json" where
  "enrich_payload_with_consolidation_review lower bear db payload =
     (if jget payload ''consolidation_review'' \<noteq> None then payload
      else case payload_claim_fingerprint lower payload of
        None \<Rightarrow> payload
      | Some new_fp \<Rightarrow>
          (case active_record_with_claim_fingerprint lower bear db new_fp (unwrap_or (map_option trim (payload_text payload ''target_ref'')) []) of
             None \<Rightarrow> payload
           | Some r \<Rightarrow> with_review ''consolidation_review'' (consolidation_mark r) payload))"

definition payload_source_hash :: "json \<Rightarrow> string option" where
  "payload_source_hash payload =
     filter_opt (\<lambda>v. v \<noteq> []) (map_option trim (Option.bind
       (or_else (Option.bind (jget payload ''refs'') (\<lambda>r. jget r ''source_hash''))
         (Option.bind (jget payload ''source_refs'') (\<lambda>r. jget r ''source_hash''))) as_str_json))"

definition proposal_dedupe_key :: "(string \<Rightarrow> string) \<Rightarrow> json \<Rightarrow> string \<Rightarrow> string \<Rightarrow> string option" where
  "proposal_dedupe_key lower payload action sensitivity =
     map_option (\<lambda>evidence. to_ascii_lowercase (trim action) @ ''|'' @ to_ascii_lowercase (trim sensitivity) @ ''|''
         @ to_ascii_lowercase (trim (unwrap_or (payload_text payload ''target_ref'') [])) @ ''|'' @ evidence)
       (or_else (payload_source_hash payload) (payload_claim_fingerprint lower payload))"

definition payload_with_dedupe_key :: "(string \<Rightarrow> string) \<Rightarrow> json \<Rightarrow> string \<Rightarrow> string \<Rightarrow> json" where
  "payload_with_dedupe_key lower payload action sensitivity =
     (case proposal_dedupe_key lower payload action sensitivity of
        None \<Rightarrow> payload
      | Some key \<Rightarrow>
          (let m = object_members (ensure_object_payload payload);
               d = (case map_of m ''dedupe'' of None \<Rightarrow> [] | Some v \<Rightarrow> object_members v)
           in JObj (set_member ''dedupe'' (JObj (set_member ''version'' (JStr ''deterministic-v1'') (set_member ''key'' (JStr key) d))) m)))"

definition stored_dedupe_key :: "json \<Rightarrow> string option" where
  "stored_dedupe_key payload = Option.bind (Option.bind (jget payload ''dedupe'') (\<lambda>d. jget d ''key'')) as_str_json"

definition pending_proposal_for_dedupe_key :: "string \<Rightarrow> string \<Rightarrow> memory_db \<Rightarrow> memory_proposal option" where
  "pending_proposal_for_dedupe_key bear key db =
     map_option into_proposal (fetch_optional (sql_limit 1 (by_sequence_desc pr_sequence_no
       (filter (\<lambda>p. pr_bear p = bear \<and> pr_status p = ''pending'' \<and> stored_dedupe_key (pr_payload p) = Some key) (md_proposals db)))))"

definition enriched_payload :: "(string \<Rightarrow> string) \<Rightarrow> string \<Rightarrow> memory_db \<Rightarrow> string \<Rightarrow> string \<Rightarrow> json \<Rightarrow> json" where
  "enriched_payload lower bear db action sensitivity payload =
     payload_with_dedupe_key lower
       (enrich_payload_with_sensitivity_gate
         (enrich_payload_with_archive_lane
           (enrich_payload_with_consolidation_review lower bear db (enrich_payload_with_freshness lower bear db payload)) action)
         sensitivity)
       action sensitivity"

definition insert_proposal ::
    "string \<Rightarrow> string \<Rightarrow> string \<Rightarrow> string \<Rightarrow> string \<Rightarrow> bool \<Rightarrow> json \<Rightarrow> memory_proposal memory_op" where
  "insert_proposal bear fresh now action sensitivity requires_human payload =
     bindM next_sequence (\<lambda>seq.
     let p = \<lparr>pr_id = fresh, pr_bear = bear, pr_sequence_no = seq, pr_suggested_action = action, pr_sensitivity = sensitivity,
           pr_requires_human = requires_human, pr_status = ''pending'', pr_payload = payload, pr_created_at = now, pr_reviewed_at = None\<rparr>
     in bindM (memory_write (\<lambda>db. (db\<lparr>md_proposals := md_proposals db @ [p]\<rparr>, ()))) (\<lambda>_. returnM (into_proposal p)))"

definition create_memory_proposal ::
    "(string \<Rightarrow> string) \<Rightarrow> string \<Rightarrow> string \<Rightarrow> string \<Rightarrow> string \<Rightarrow> string \<Rightarrow> bool \<Rightarrow> json \<Rightarrow> memory_proposal memory_op" where
  "create_memory_proposal lower bear fresh now action sensitivity requires_human payload =
     bindM (queryM (\<lambda>db. enriched_payload lower bear db action sensitivity payload)) (\<lambda>enriched.
     let human = (requires_human \<or> unwrap_or (Option.bind (jget enriched ''requires_human'') as_bool_json) False) in
     case filter_opt (\<lambda>k. k \<noteq> []) (stored_dedupe_key enriched) of
       None \<Rightarrow> insert_proposal bear fresh now action sensitivity human enriched
     | Some key \<Rightarrow>
         bindM (queryM (pending_proposal_for_dedupe_key bear key)) (\<lambda>existing. case existing of
           Some p \<Rightarrow> returnM p
         | None \<Rightarrow> insert_proposal bear fresh now action sensitivity human enriched))"

definition own_proposal :: "string \<Rightarrow> string \<Rightarrow> proposal_rec \<Rightarrow> bool" where
  "own_proposal bear i p \<longleftrightarrow> pr_bear p = bear \<and> pr_id p = i"

definition get_memory_proposal :: "string \<Rightarrow> string \<Rightarrow> memory_db \<Rightarrow> memory_proposal option" where
  "get_memory_proposal bear i db = map_option into_proposal (List.find (own_proposal bear i) (md_proposals db))"

definition proposals_where :: "string \<Rightarrow> (proposal_rec \<Rightarrow> bool) \<Rightarrow> int \<Rightarrow> memory_db \<Rightarrow> memory_proposal list" where
  "proposals_where bear p limit db = map into_proposal (sql_limit limit (by_sequence_desc pr_sequence_no
     (filter (\<lambda>q. pr_bear q = bear \<and> p q) (md_proposals db))))"

definition list_memory_proposals :: "string \<Rightarrow> string option \<Rightarrow> int \<Rightarrow> memory_db \<Rightarrow> memory_proposal list" where
  "list_memory_proposals bear status limit db =
     proposals_where bear (\<lambda>p. case status of None \<Rightarrow> True | Some s \<Rightarrow> pr_status p = s) limit db"

definition count_memory_proposals :: "string \<Rightarrow> string option \<Rightarrow> memory_db \<Rightarrow> nat" where
  "count_memory_proposals bear status db = length (filter (\<lambda>p. pr_bear p = bear
     \<and> (case status of None \<Rightarrow> True | Some s \<Rightarrow> pr_status p = s)) (md_proposals db))"

definition list_reviewable_memory_proposals :: "string \<Rightarrow> memory_db \<Rightarrow> memory_proposal list" where
  "list_reviewable_memory_proposals bear db =
     proposals_where bear (\<lambda>p. pr_status p \<in> set [''pending'', ''needs_human_review'']) (-1) db"

text \<open>
  \<open>payload[k] = v\<close> for every member of the review: an object takes the member, \<open>null\<close> becomes an object, and
  any other value panics.
\<close>

fun put_members :: "(string \<times> json) list \<Rightarrow> json \<Rightarrow> json option" where
  "put_members [] payload = Some payload"
| "put_members ((k, v) # kvs) (JObj m) = put_members kvs (JObj (set_member k v m))"
| "put_members ((k, v) # kvs) JNull = put_members kvs (JObj [(k, v)])"
| "put_members _ _ = None"

definition resolve_memory_proposal :: "string \<Rightarrow> string \<Rightarrow> string \<Rightarrow> string \<Rightarrow> json \<Rightarrow> memory_proposal memory_op" where
  "resolve_memory_proposal bear now i status review =
     bindM (queryM (\<lambda>db. List.find (own_proposal bear i) (md_proposals db))) (\<lambda>found. case found of
       None \<Rightarrow> failM (Failed (NotFound ''proposal not found''))
     | Some p \<Rightarrow>
         (case put_members (object_members review) (pr_payload p) of
            None \<Rightarrow> failM (Panicked ''cannot access key in JSON value'')
          | Some payload \<Rightarrow>
              bindM (memory_write (\<lambda>db. (db\<lparr>md_proposals := update_where (own_proposal bear i)
                  (\<lambda>q. q\<lparr>pr_status := status, pr_payload := payload, pr_reviewed_at := Some now\<rparr>) (md_proposals db)\<rparr>, ()))) (\<lambda>_.
              bindM (queryM (get_memory_proposal bear i)) (\<lambda>row. case row of
                None \<Rightarrow> failM (Failed (SystemError ''sqlite fetch proposal failed''))
              | Some q \<Rightarrow> returnM q))))"

subsection \<open>Harvest marks and reflection runs\<close>

definition harvest_source :: "string \<Rightarrow> string \<Rightarrow> string \<Rightarrow> harvest_rec \<Rightarrow> bool" where
  "harvest_source bear kind ref h \<longleftrightarrow> hm_bear h = bear \<and> hm_source_kind h = kind \<and> hm_source_ref h = ref"

definition harvest_mark_for_source :: "string \<Rightarrow> string \<Rightarrow> string \<Rightarrow> memory_db \<Rightarrow> harvest_rec option" where
  "harvest_mark_for_source bear kind ref db = List.find (harvest_source bear kind ref) (md_harvest_marks db)"

text \<open>\<open>INSERT ... ON CONFLICT (bear_id, source_kind, source_ref) DO UPDATE\<close>.\<close>

definition upsert_harvest :: "harvest_rec \<Rightarrow> memory_db \<Rightarrow> memory_db" where
  "upsert_harvest h db =
     (let same = harvest_source (hm_bear h) (hm_source_kind h) (hm_source_ref h) in
      db\<lparr>md_harvest_marks :=
        (if filter same (md_harvest_marks db) = [] then md_harvest_marks db @ [h]
         else update_where same (\<lambda>o1. o1\<lparr>hm_source_hash := hm_source_hash h, hm_harvested_at := hm_harvested_at h,
           hm_run_id := hm_run_id h, hm_proposal_ids := hm_proposal_ids h\<rparr>) (md_harvest_marks db))\<rparr>)"

definition record_harvest_mark ::
    "string \<Rightarrow> string \<Rightarrow> string \<Rightarrow> string \<Rightarrow> string \<Rightarrow> string option \<Rightarrow> string option \<Rightarrow> string list \<Rightarrow> harvest_rec memory_op" where
  "record_harvest_mark bear fresh now kind ref hash run_id proposal_ids =
     bindM next_sequence (\<lambda>seq.
     bindM (memory_write (\<lambda>db. (upsert_harvest \<lparr>hm_id = fresh, hm_bear = bear, hm_sequence_no = seq, hm_source_kind = kind, hm_source_ref = ref,
         hm_source_hash = hash, hm_harvested_at = now, hm_run_id = run_id, hm_proposal_ids = proposal_ids\<rparr> db, ()))) (\<lambda>_.
     bindM (queryM (harvest_mark_for_source bear kind ref)) (\<lambda>mark. case mark of
       None \<Rightarrow> failM (Failed (SystemError ''harvest mark missing after write''))
     | Some h \<Rightarrow> returnM h)))"

definition harvest_source_marked :: "string \<Rightarrow> string \<Rightarrow> string \<Rightarrow> memory_db \<Rightarrow> bool" where
  "harvest_source_marked bear kind ref db \<longleftrightarrow> length (filter (harvest_source bear kind ref) (md_harvest_marks db)) > 0"

definition harvest_source_hash_marked :: "string \<Rightarrow> string \<Rightarrow> string \<Rightarrow> memory_db \<Rightarrow> bool" where
  "harvest_source_hash_marked bear kind hash db \<longleftrightarrow> length (filter (\<lambda>h. hm_bear h = bear \<and> hm_source_kind h = kind
     \<and> hm_source_hash h = Some hash) (md_harvest_marks db)) > 0"

definition create_reflection_run_outcome :: "string \<Rightarrow> string \<Rightarrow> string \<Rightarrow> string \<Rightarrow> string \<Rightarrow> string option \<Rightarrow> unit memory_op" where
  "create_reflection_run_outcome bear now run_id lane trigger input =
     bindM next_sequence (\<lambda>seq.
     memory_write (\<lambda>db. (db\<lparr>md_outcomes := md_outcomes db @ [\<lparr>oc_run_id = run_id, oc_bear = bear, oc_sequence_no = seq, oc_lane = lane,
       oc_trigger = trigger, oc_status = ''running'', oc_input_summary = input, oc_output_summary = None, oc_proposal_ids = [],
       oc_created_at = now, oc_completed_at = None\<rparr>]\<rparr>, ())))"

definition own_outcome :: "string \<Rightarrow> string \<Rightarrow> outcome_rec \<Rightarrow> bool" where
  "own_outcome bear i c \<longleftrightarrow> oc_bear c = bear \<and> oc_run_id c = i"

definition complete_reflection_run_outcome :: "string \<Rightarrow> string \<Rightarrow> string \<Rightarrow> string \<Rightarrow> string option \<Rightarrow> string list \<Rightarrow> unit memory_op" where
  "complete_reflection_run_outcome bear now run_id status output proposal_ids =
     memory_write (\<lambda>db. (db\<lparr>md_outcomes := update_where (own_outcome bear run_id) (\<lambda>c. c\<lparr>oc_status := status, oc_output_summary := output,
       oc_proposal_ids := proposal_ids, oc_completed_at := Some now\<rparr>) (md_outcomes db)\<rparr>, ()))"

definition reflection_outcome_exists :: "string \<Rightarrow> string \<Rightarrow> memory_db \<Rightarrow> bool" where
  "reflection_outcome_exists bear run_id db \<longleftrightarrow> length (filter (own_outcome bear run_id) (md_outcomes db)) > 0"

end
