(* ===== verification/Memory_Tools.thy ===== *)
theory Memory_Tools
  imports Memory_Review
begin

section \<open>Memory tools and inspection\<close>

text \<open>
  \<open>den-memory/src/tools.rs\<close>, the calls behind the memory tools of a bear, and
  \<open>den-memory/src/admin_inspect.rs\<close>, the reads of the administration pages, less the size and the path
  of the database file. A \<open>LIKE\<close> pattern is read into tokens; letters match regardless of ASCII case.
\<close>

subsection \<open>Patterns\<close>

datatype like_token = AnySeq | AnyChar | LitChar char | NoMatch

fun like_tokens :: "char option \<Rightarrow> string \<Rightarrow> like_token list" where
  "like_tokens esc [] = []"
| "like_tokens esc (c # s) =
     (if Some c = esc then (case s of [] \<Rightarrow> [NoMatch] | d # t \<Rightarrow> LitChar d # like_tokens esc t)
      else (if c = CHR ''%'' then AnySeq else if c = CHR ''_'' then AnyChar else LitChar c) # like_tokens esc s)"

definition continuation_byte :: "char \<Rightarrow> bool" where
  "continuation_byte c \<longleftrightarrow> CHR 0x80 \<le> c \<and> c \<le> CHR 0xBF"

fun like_match :: "like_token list \<Rightarrow> string \<Rightarrow> bool" where
  "like_match [] s = (s = [])"
| "like_match (AnySeq # p) [] = like_match p []"
| "like_match (AnySeq # p) (c # s) = (like_match p (c # s) \<or> like_match (AnySeq # p) s)"
| "like_match (AnyChar # p) [] = False"
| "like_match (AnyChar # p) (c # s) = like_match p (dropWhile continuation_byte s)"
| "like_match (LitChar d # p) [] = False"
| "like_match (LitChar d # p) (c # s) = (ascii_lower c = ascii_lower d \<and> like_match p s)"
| "like_match (NoMatch # p) s = False"

definition sql_like :: "char option \<Rightarrow> string \<Rightarrow> string \<Rightarrow> bool" where
  "sql_like esc pattern s = like_match (like_tokens esc pattern) s"

definition backslash :: char where
  "backslash = CHR 0x5C"

definition replace_char :: "char \<Rightarrow> string \<Rightarrow> string \<Rightarrow> string" where
  "replace_char c r s = concat (map (\<lambda>d. if d = c then r else [d]) s)"

definition escape_like :: "string \<Rightarrow> string" where
  "escape_like input = replace_char (CHR ''_'') [backslash, CHR ''_'']
     (replace_char (CHR ''%'') [backslash, CHR ''%''] (replace_char backslash [backslash, backslash] input))"

subsection \<open>Writing\<close>

definition opt_json :: "string option \<Rightarrow> json" where
  "opt_json v = (case v of None \<Rightarrow> JNull | Some s \<Rightarrow> JStr s)"

definition written_json :: "string \<Rightarrow> string \<Rightarrow> memory_record_row \<Rightarrow> json" where
  "written_json bear profile row = JObj [(''bear_id'', JStr bear), (''entry_id'', JStr (mrr_memory_id row)),
     (''freshness_trend'', JStr (mrr_freshness_trend row)), (''kind'', JStr (mrr_kind row)),
     (''lifecycle_status'', JStr (mrr_lifecycle_status row)), (''path'', opt_json (mrr_logical_path row)), (''profile'', JStr profile),
     (''sequence_no'', jint (mrr_sequence_no row)), (''storage'', JStr ''sqlite'')]"

definition titled :: "string \<Rightarrow> string \<Rightarrow> string" where
  "titled title body = ''# '' @ title @ [CHR 0x0A, CHR 0x0A] @ body"

definition sqlite_write_at_path ::
    "(string \<Rightarrow> string) \<Rightarrow> string \<Rightarrow> string \<Rightarrow> string \<Rightarrow> string \<Rightarrow> string \<Rightarrow> string \<Rightarrow> string \<Rightarrow> json \<Rightarrow> json memory_op" where
  "sqlite_write_at_path lower bear fresh now path author title body metadata =
     (let logical = from_logical_path path;
          content = (case body of c # _ \<Rightarrow> if c = CHR ''#'' then body else titled title body | [] \<Rightarrow> titled title body);
          m = set_member ''runtime'' (JStr ''native'') (set_member ''storage'' (JStr ''sqlite'')
                (set_member ''claim_fingerprint'' (JStr (memory_claim_fingerprint lower content))
                  (set_member ''title'' (JStr title) (object_members metadata))))
      in bindM (append_memory_record bear fresh now logical (lmp_kind logical) author None content (JObj m)) (\<lambda>row.
         returnM (written_json bear author row)))"

definition normalized_lifecycle :: "json option \<Rightarrow> den_error + json" where
  "normalized_lifecycle lifecycle =
     (let l = unwrap_or lifecycle (JObj []) in
      case Option.bind (jget l ''status'') as_str_json of
        None \<Rightarrow> Inr l
      | Some s \<Rightarrow> (case normalize_lifecycle_status s of Inl e \<Rightarrow> Inl e | Inr v \<Rightarrow> Inr (JObj (set_member ''status'' (JStr v) (object_members l)))))"

definition value_json :: "json option \<Rightarrow> json" where
  "value_json v = unwrap_or v JNull"

definition sqlite_write_profile_entry ::
    "(string \<Rightarrow> string) \<Rightarrow> string \<Rightarrow> string \<Rightarrow> string \<Rightarrow> string \<Rightarrow> string \<Rightarrow> string \<Rightarrow> string \<Rightarrow> string list \<Rightarrow> json option \<Rightarrow> json option
     \<Rightarrow> json option \<Rightarrow> string option \<Rightarrow> json memory_op" where
  "sqlite_write_profile_entry lower bear fresh now profile kind title body tags refs lifecycle source author =
     (let content = titled title body in
      case normalized_lifecycle lifecycle of
        Inl e \<Rightarrow> failM (Failed e)
      | Inr l \<Rightarrow>
          bindM (append_memory_record bear fresh now (profile_local profile kind) kind profile None content
              (JObj [(''author'', opt_json author), (''claim_fingerprint'', JStr (memory_claim_fingerprint lower content)), (''lifecycle'', l),
                (''refs'', value_json refs), (''runtime'', JStr ''native''), (''source'', value_json source), (''storage'', JStr ''sqlite''),
                (''tags'', JArr (map JStr tags)), (''title'', JStr title)])) (\<lambda>row.
          returnM (written_json bear profile row)))"

subsection \<open>Reading\<close>

definition distinct_paths :: "memory_rec list \<Rightarrow> string list" where
  "distinct_paths rs = sort (remdups (List.map_filter mr_logical_path rs))"

definition sqlite_collect_role_logical_paths :: "string \<Rightarrow> string \<Rightarrow> memory_db \<Rightarrow> string list" where
  "sqlite_collect_role_logical_paths bear role db = distinct_paths (filter (\<lambda>r. mr_bear r = bear \<and> mr_scope_profile r = Some role
     \<and> mr_invalid_at r = None \<and> listed_lifecycle (mr_metadata r)) (md_records db))"

definition file_name :: "string \<Rightarrow> string" where
  "file_name path = last (split_segments [] path)"

definition sqlite_memory_browse :: "string \<Rightarrow> string \<Rightarrow> memory_db \<Rightarrow> json" where
  "sqlite_memory_browse bear role db = JObj [(''children'', JArr (map (\<lambda>path. JObj [(''name'', JStr (file_name path)), (''path'', JStr path),
     (''type'', JStr ''file'')]) (sqlite_collect_role_logical_paths bear role db))), (''configured'', JBool True), (''ok'', JBool True),
     (''role'', JStr role), (''storage'', JStr ''sqlite'')]"

definition record_summary_json :: "memory_record_row \<Rightarrow> json" where
  "record_summary_json row = JObj [(''created_at'', JStr (mrr_created_at row)), (''freshness_trend'', JStr (mrr_freshness_trend row)),
     (''invalid_at'', opt_json (mrr_invalid_at row)), (''kind'', JStr (mrr_kind row)), (''lifecycle_status'', JStr (mrr_lifecycle_status row)),
     (''memory_id'', JStr (mrr_memory_id row)), (''salience'', JStr (mrr_salience row)), (''sequence_no'', jint (mrr_sequence_no row)),
     (''supersedes_memory_id'', opt_json (mrr_supersedes row))]"

definition section_break :: string where
  "section_break = [CHR 0x0A, CHR 0x0A] @ ''---'' @ [CHR 0x0A, CHR 0x0A]"

definition sqlite_memory_read :: "string \<Rightarrow> string \<Rightarrow> memory_db \<Rightarrow> json" where
  "sqlite_memory_read bear path db =
     (case list_records_for_logical_path bear path 20 db of
        [] \<Rightarrow> JObj [(''configured'', JBool True), (''message'', JStr ''no records at path''), (''ok'', JBool False), (''path'', JStr path),
          (''storage'', JStr ''sqlite'')]
      | row # rows \<Rightarrow> JObj [(''configured'', JBool True), (''content'', JStr (join_str section_break (map mrr_content_text (rev (row # rows))))),
          (''latest_freshness_trend'', JStr (mrr_freshness_trend row)), (''latest_lifecycle_status'', JStr (mrr_lifecycle_status row)),
          (''latest_sequence_no'', jint (mrr_sequence_no row)), (''ok'', JBool True), (''path'', JStr path),
          (''record_count'', jnat (length (row # rows))), (''records'', JArr (map record_summary_json (row # rows))), (''storage'', JStr ''sqlite'')])"

definition contains_pattern :: "string \<Rightarrow> string" where
  "contains_pattern query = ''%'' @ escape_like query @ ''%''"

definition searched_record :: "string \<Rightarrow> string \<Rightarrow> string \<Rightarrow> memory_db \<Rightarrow> memory_rec \<Rightarrow> bool" where
  "searched_record bear role query db r \<longleftrightarrow> mr_visibility r = ''normal'' \<and> mr_invalid_at r = None
     \<and> unwrap_or (stored_lifecycle (mr_metadata r)) ''active'' \<noteq> ''archived''
     \<and> (mr_scope_type r = ''shared'' \<or> mr_scope_profile r = Some role)
     \<and> sql_like (Some backslash) (contains_pattern query) (mr_content_text r) \<and> is_head db r"

definition hit_json :: "memory_record_row \<Rightarrow> json" where
  "hit_json row = JObj [(''freshness_trend'', JStr (mrr_freshness_trend row)), (''invalid_at'', opt_json (mrr_invalid_at row)),
     (''kind'', JStr (mrr_kind row)), (''lifecycle_status'', JStr (mrr_lifecycle_status row)), (''memory_id'', JStr (mrr_memory_id row)),
     (''path'', opt_json (mrr_logical_path row)), (''salience'', JStr (mrr_salience row)), (''score'', JNull),
     (''sequence_no'', jint (mrr_sequence_no row)), (''snippet'', JStr (take_chars 240 (mrr_content_text row))),
     (''supersedes_memory_id'', opt_json (mrr_supersedes row))]"

definition sqlite_memory_search :: "string \<Rightarrow> string \<Rightarrow> string \<Rightarrow> int \<Rightarrow> memory_db \<Rightarrow> json" where
  "sqlite_memory_search bear role query limit db =
     JObj [(''configured'', JBool True), (''hits'', JArr (map hit_json (records_where bear (searched_record bear role query db) limit db))),
       (''ok'', JBool True), (''query'', JStr query), (''storage'', JStr ''sqlite''), (''strategy'', JStr ''keyword'')]"

definition sqlite_list_plan_artifacts :: "string \<Rightarrow> string \<Rightarrow> int \<Rightarrow> memory_db \<Rightarrow> json" where
  "sqlite_list_plan_artifacts bear role limit db =
     JArr (map (\<lambda>row. JObj [(''memory_id'', JStr (mrr_memory_id row)), (''path'', opt_json (mrr_logical_path row)),
         (''sequence_no'', jint (mrr_sequence_no row)), (''snippet'', JStr (take_chars 240 (mrr_content_text row))), (''storage'', JStr ''sqlite'')])
       (records_where bear (\<lambda>r. mr_scope_profile r = Some role
          \<and> (case mr_logical_path r of None \<Rightarrow> False | Some p \<Rightarrow> sql_like None (role @ ''/plans/%'') p)) limit db))"

definition sqlite_memory_status :: "string \<Rightarrow> string \<Rightarrow> memory_db \<Rightarrow> json" where
  "sqlite_memory_status bear role db = JObj [(''available'', JBool True), (''configured'', JBool True),
     (''file_count'', jnat (length (distinct_paths (filter (\<lambda>r. mr_bear r = bear \<and> mr_scope_profile r = Some role) (md_records db))))),
     (''role'', JStr role), (''storage'', JStr ''sqlite'')]"

subsection \<open>Inspection\<close>

record memory_admin_stats =
  mas_record_count :: nat
  mas_shared_count :: nat
  mas_profile_local_count :: nat
  mas_sequence_high_water :: int
  mas_pending_proposals :: nat
  mas_pending_observations :: nat
  mas_distinct_paths :: nat

definition own_records :: "string \<Rightarrow> memory_db \<Rightarrow> memory_rec list" where
  "own_records bear db = filter (\<lambda>r. mr_bear r = bear) (md_records db)"

definition bear_memory_admin_stats :: "string \<Rightarrow> memory_db \<Rightarrow> memory_admin_stats" where
  "bear_memory_admin_stats bear db = \<lparr>mas_record_count = length (own_records bear db),
     mas_shared_count = length (filter (\<lambda>r. mr_scope_type r = ''shared'') (own_records bear db)),
     mas_profile_local_count = length (filter (\<lambda>r. mr_scope_type r = ''profile_local'') (own_records bear db)),
     mas_sequence_high_water = memory_sequence_high_water bear db,
     mas_pending_proposals = length (list_memory_proposals bear (Some ''pending'') 500 db),
     mas_pending_observations = length (filter (\<lambda>q. ob_bear q = bear \<and> ob_status q = ''pending_review'') (md_observations db)),
     mas_distinct_paths = length (distinct_paths (own_records bear db))\<rparr>"

definition list_all_logical_paths :: "string \<Rightarrow> memory_db \<Rightarrow> string list" where
  "list_all_logical_paths bear db = distinct_paths (own_records bear db)"

record memory_count_bucket =
  mcb_label :: string
  mcb_count :: nat

text \<open>\<open>GROUP BY label ORDER BY count DESC, label ASC\<close>.\<close>

definition count_buckets :: "(memory_rec \<Rightarrow> string) \<Rightarrow> memory_rec list \<Rightarrow> memory_count_bucket list" where
  "count_buckets label rs = sort_key (\<lambda>b. (- int (mcb_count b), mcb_label b))
     (map (\<lambda>l. \<lparr>mcb_label = l, mcb_count = length (filter (\<lambda>r. label r = l) rs)\<rparr>) (sort (remdups (map label rs))))"

definition count_records_by_kind :: "string \<Rightarrow> memory_db \<Rightarrow> memory_count_bucket list" where
  "count_records_by_kind bear db = count_buckets mr_kind (own_records bear db)"

definition count_records_by_profile :: "string \<Rightarrow> memory_db \<Rightarrow> memory_count_bucket list" where
  "count_records_by_profile bear db = count_buckets (\<lambda>r. unwrap_or (mr_scope_profile r) ''core'') (own_records bear db)"

definition head_entry_count :: "string \<Rightarrow> memory_db \<Rightarrow> nat" where
  "head_entry_count bear db = length (distinct_paths (filter (\<lambda>r. mr_visibility r = ''normal'') (own_records bear db)))"

record path_summary =
  ps_logical_path :: string
  ps_scope_type :: string
  ps_scope_profile :: "string option"
  ps_kind :: string
  ps_head_memory_id :: string
  ps_head_created_at :: string
  ps_version_count :: nat

definition versions_at :: "string \<Rightarrow> string \<Rightarrow> memory_db \<Rightarrow> memory_rec list" where
  "versions_at bear path db = filter (\<lambda>r. mr_logical_path r = Some path) (own_records bear db)"

definition list_path_summaries :: "string \<Rightarrow> memory_db \<Rightarrow> path_summary list" where
  "list_path_summaries bear db = concat (map (\<lambda>path.
     let vs = versions_at bear path db in
     map (\<lambda>m. \<lparr>ps_logical_path = path, ps_scope_type = mr_scope_type m, ps_scope_profile = mr_scope_profile m, ps_kind = mr_kind m,
         ps_head_memory_id = mr_id m, ps_head_created_at = mr_created_at m, ps_version_count = length vs\<rparr>)
       (filter (\<lambda>m. mr_sequence_no m = Max (mr_sequence_no ` set vs)) vs)) (list_all_logical_paths bear db))"

definition get_memory_record_by_id :: "string \<Rightarrow> string \<Rightarrow> memory_db \<Rightarrow> memory_record_row option" where
  "get_memory_record_by_id bear i db = map_option record_into_row (List.find (own_record bear i) (md_records db))"

record memory_record_detail =
  mrd_memory_id :: string
  mrd_sequence_no :: int
  mrd_scope_type :: string
  mrd_scope_profile :: "string option"
  mrd_kind :: string
  mrd_author_profile :: string
  mrd_author_agent_id :: "string option"
  mrd_visibility :: string
  mrd_supersedes :: "string option"
  mrd_logical_path :: "string option"
  mrd_work_surface_ref :: "string option"
  mrd_content_text :: string
  mrd_metadata :: json
  mrd_created_at :: string

definition get_memory_record_detail :: "string \<Rightarrow> string \<Rightarrow> memory_db \<Rightarrow> memory_record_detail option" where
  "get_memory_record_detail bear i db = map_option (\<lambda>r. \<lparr>mrd_memory_id = mr_id r, mrd_sequence_no = mr_sequence_no r,
     mrd_scope_type = mr_scope_type r, mrd_scope_profile = mr_scope_profile r, mrd_kind = mr_kind r, mrd_author_profile = mr_author_profile r,
     mrd_author_agent_id = mr_author_agent_id r, mrd_visibility = mr_visibility r, mrd_supersedes = mr_supersedes r,
     mrd_logical_path = mr_logical_path r, mrd_work_surface_ref = mr_work_surface_ref r, mrd_content_text = mr_content_text r,
     mrd_metadata = mr_metadata r, mrd_created_at = mr_created_at r\<rparr>) (List.find (own_record bear i) (md_records db))"

definition list_recent_memory_records :: "string \<Rightarrow> int \<Rightarrow> memory_db \<Rightarrow> memory_record_row list" where
  "list_recent_memory_records bear limit db = records_where bear (\<lambda>_. True) (max 1 (min 50 limit)) db"

definition search_memory_records :: "string \<Rightarrow> string \<Rightarrow> int \<Rightarrow> memory_db \<Rightarrow> memory_record_row list" where
  "search_memory_records bear query limit db =
     records_where bear (\<lambda>r. sql_like (Some backslash) (contains_pattern query) (mr_content_text r)) (max 1 (min 100 limit)) db"

end
