(* ===== verification/Memory_Curation.thy ===== *)
theory Memory_Curation
  imports Memory_Tools
begin

section \<open>Curation of memory proposals\<close>

text \<open>
  \<open>den-runtime/src/memory/{curation,curate_executor}.rs\<close>: proposals as the runtime sees them, and the
  autonomous run that resolves the pending ones; \<open>den/src/core/tools/memory_review.rs\<close>: the core update
  that the curate stance applies itself. \<open>parse_uuid\<close> reads an id and prints it again. Left out: the
  enqueueing of an index run and the events projected to the conversation, which go to other databases
  and whose results are ignored, the times the runtime puts on the rows it converts, and the text of
  serde's errors.
\<close>

subsection \<open>Vocabulary\<close>

fun den_error_text :: "den_error \<Rightarrow> string" where
  "den_error_text (Anyhow cause) = cause"
| "den_error_text (SystemError cause) = ''Server Error: '' @ cause"
| "den_error_text (Database cause) = ''Database Error: '' @ cause"
| "den_error_text (DatabaseUnavailable cause) = ''Database Unavailable: '' @ cause"
| "den_error_text (SessionError cause) = ''Session Error: '' @ cause"
| "den_error_text (Authentication cause) = ''Authentication Error: '' @ cause"
| "den_error_text (Authorization cause) = ''Authorization Error: '' @ cause"
| "den_error_text (Render cause) = ''Rendering Error: '' @ cause"
| "den_error_text (Parsing cause) = ''Parsing Error: '' @ cause"
| "den_error_text (Email cause) = ''Email Error: '' @ cause"
| "den_error_text (NotFound cause) = ''Not Found: '' @ cause"
| "den_error_text (ValidationError cause) = ''Validation Error: '' @ cause"

datatype memory_sensitivity = SensNormal | SensPerson | SensSecretRisk | SensExternalUntrusted | SensUnknown

fun memory_sensitivity_str :: "memory_sensitivity \<Rightarrow> string" where
  "memory_sensitivity_str SensNormal = ''normal''"
| "memory_sensitivity_str SensPerson = ''person''"
| "memory_sensitivity_str SensSecretRisk = ''secret_risk''"
| "memory_sensitivity_str SensExternalUntrusted = ''external_untrusted''"
| "memory_sensitivity_str SensUnknown = ''unknown''"

definition memory_sensitivity_parse :: "string \<Rightarrow> memory_sensitivity option" where
  "memory_sensitivity_parse s = (if s = ''normal'' then Some SensNormal else if s = ''person'' then Some SensPerson
     else if s = ''secret_risk'' then Some SensSecretRisk else if s = ''external_untrusted'' then Some SensExternalUntrusted
     else if s = ''unknown'' then Some SensUnknown else None)"

text \<open>\<open>?\<close> on a result, and \<open>match\<close> on the result of a call: a panic is not caught.\<close>

definition tryM :: "den_error + 'a \<Rightarrow> ('d, 'a) dbo" where
  "tryM r = (case r of Inl e \<Rightarrow> failM (Failed e) | Inr x \<Rightarrow> returnM x)"

definition catchM :: "('d, 'a) dbo \<Rightarrow> (den_error \<Rightarrow> ('d, 'a) dbo) \<Rightarrow> ('d, 'a) dbo" where
  "catchM m h db = (case m db of (db', Inl (Failed e)) \<Rightarrow> h e db' | r \<Rightarrow> r)"

subsection \<open>Proposals of the runtime\<close>

record memory_proposal_row =
  mpw_id :: string
  mpw_bear_id :: string
  mpw_source_profile :: string
  mpw_source_agent_id :: "string option"
  mpw_source_paths :: "string list"
  mpw_source_refs :: json
  mpw_proposal_type :: string
  mpw_suggested_action :: string
  mpw_target_ref :: "string option"
  mpw_title :: string
  mpw_summary :: string
  mpw_rationale :: string
  mpw_proposed_content :: "string option"
  mpw_proposed_patch :: "string option"
  mpw_refs :: json
  mpw_sensitivity :: string
  mpw_requires_human :: bool
  mpw_status :: string
  mpw_reviewer_profile :: "string option"
  mpw_reviewer_agent_id :: "string option"
  mpw_review_notes :: "string option"
  mpw_decision_summary :: "string option"
  mpw_result_path :: "string option"
  mpw_result_commit :: "string option"

text \<open>The members of the payload, which serde reads from an object or, in their order, from an array.\<close>

definition payload_fields :: "string list" where
  "payload_fields = [''source_profile'', ''source_agent_id'', ''source_paths'', ''source_refs'', ''suggested_action'', ''target_ref'',
     ''title'', ''summary'', ''rationale'', ''proposed_content'', ''proposed_patch'', ''refs'', ''sensitivity'', ''requires_human'']"

definition payload_members :: "json \<Rightarrow> (string \<times> json) list option" where
  "payload_members v = (case v of JObj m \<Rightarrow> Some m
     | JArr xs \<Rightarrow> if length xs = 13 \<or> length xs = 14 then Some (zip payload_fields xs) else None
     | _ \<Rightarrow> None)"

definition text_field :: "(string \<times> json) list \<Rightarrow> string \<Rightarrow> string option" where
  "text_field m k = Option.bind (map_of m k) as_str_json"

definition text_field_ok :: "(string \<times> json) list \<Rightarrow> string \<Rightarrow> bool" where
  "text_field_ok m k = (case map_of m k of None \<Rightarrow> True | Some v \<Rightarrow> v = JNull \<or> as_str_json v \<noteq> None)"

definition paths_field :: "(string \<times> json) list \<Rightarrow> string list option" where
  "paths_field m = (case map_of m ''source_paths'' of
       None \<Rightarrow> Some []
     | Some (JArr xs) \<Rightarrow> if list_all (\<lambda>x. as_str_json x \<noteq> None) xs then Some (List.map_filter as_str_json xs) else None
     | Some _ \<Rightarrow> None)"

definition human_field :: "(string \<times> json) list \<Rightarrow> bool option" where
  "human_field m = (case map_of m ''requires_human'' of None \<Rightarrow> Some False | Some v \<Rightarrow> as_bool_json v)"

definition value_field :: "(string \<times> json) list \<Rightarrow> string \<Rightarrow> json" where
  "value_field m k = unwrap_or (map_of m k) (JObj [])"

definition text_fields :: "string list" where
  "text_fields = [''source_profile'', ''source_agent_id'', ''suggested_action'', ''target_ref'', ''title'', ''summary'', ''rationale'',
     ''proposed_content'', ''proposed_patch'', ''sensitivity'']"

definition row_of_members ::
    "string \<Rightarrow> string \<Rightarrow> (string \<times> json) list \<Rightarrow> string list \<Rightarrow> bool \<Rightarrow> string \<Rightarrow> string \<Rightarrow> memory_proposal_row" where
  "row_of_members bear i m paths human status profile = \<lparr>mpw_id = i, mpw_bear_id = bear,
     mpw_source_profile = unwrap_or (text_field m ''source_profile'') profile, mpw_source_agent_id = text_field m ''source_agent_id'',
     mpw_source_paths = paths, mpw_source_refs = value_field m ''source_refs'', mpw_proposal_type = ''memory_review'',
     mpw_suggested_action = unwrap_or (text_field m ''suggested_action'') ''review'', mpw_target_ref = text_field m ''target_ref'',
     mpw_title = unwrap_or (text_field m ''title'') ''proposal'', mpw_summary = unwrap_or (text_field m ''summary'') [],
     mpw_rationale = unwrap_or (text_field m ''rationale'') [], mpw_proposed_content = text_field m ''proposed_content'',
     mpw_proposed_patch = text_field m ''proposed_patch'', mpw_refs = value_field m ''refs'',
     mpw_sensitivity = unwrap_or (text_field m ''sensitivity'') ''normal'', mpw_requires_human = human, mpw_status = status,
     mpw_reviewer_profile = None, mpw_reviewer_agent_id = None, mpw_review_notes = None, mpw_decision_summary = None,
     mpw_result_path = None, mpw_result_commit = None\<rparr>"

definition sqlite_proposal_to_row ::
    "(string \<Rightarrow> string option) \<Rightarrow> string \<Rightarrow> memory_proposal \<Rightarrow> bear_stance \<Rightarrow> den_error + memory_proposal_row" where
  "sqlite_proposal_to_row parse_uuid bear p profile =
     (case payload_members (mp_payload p) of
        None \<Rightarrow> Inl (Parsing ''invalid memory proposal payload'')
      | Some m \<Rightarrow>
          (case (list_all (text_field_ok m) text_fields, paths_field m, human_field m) of
             (True, Some paths, Some human) \<Rightarrow>
               (case parse_uuid (mp_proposal_id p) of
                  None \<Rightarrow> Inl (Parsing (''invalid memory proposal id '' @ mp_proposal_id p))
                | Some i \<Rightarrow> Inr (row_of_members bear i m paths human (mp_status p) (stance_as_str profile)))
           | _ \<Rightarrow> Inl (Parsing ''invalid memory proposal payload'')))"

record proposal_request =
  prq_source_profile :: bear_stance
  prq_source_agent_id :: "string option"
  prq_source_paths :: "string list"
  prq_source_refs :: json
  prq_suggested_action :: string
  prq_target_ref :: "string option"
  prq_title :: string
  prq_summary :: string
  prq_rationale :: string
  prq_proposed_content :: "string option"
  prq_proposed_patch :: "string option"
  prq_refs :: json
  prq_sensitivity :: string
  prq_requires_human :: bool

definition proposal_payload :: "proposal_request \<Rightarrow> json" where
  "proposal_payload q = JObj [(''proposed_content'', opt_json (prq_proposed_content q)), (''proposed_patch'', opt_json (prq_proposed_patch q)),
     (''rationale'', JStr (prq_rationale q)), (''refs'', prq_refs q), (''requires_human'', JBool (prq_requires_human q)),
     (''sensitivity'', JStr (prq_sensitivity q)), (''source_agent_id'', opt_json (prq_source_agent_id q)),
     (''source_paths'', JArr (map JStr (prq_source_paths q))), (''source_profile'', JStr (stance_as_str (prq_source_profile q))),
     (''source_refs'', prq_source_refs q), (''suggested_action'', JStr (prq_suggested_action q)), (''summary'', JStr (prq_summary q)),
     (''target_ref'', opt_json (prq_target_ref q)), (''title'', JStr (prq_title q))]"

definition create_proposal ::
    "(string \<Rightarrow> string) \<Rightarrow> (string \<Rightarrow> string option) \<Rightarrow> string \<Rightarrow> string \<Rightarrow> string \<Rightarrow> proposal_request \<Rightarrow> memory_proposal_row memory_op" where
  "create_proposal lower parse_uuid bear fresh now q =
     bindM (create_memory_proposal lower bear fresh now (prq_suggested_action q) (prq_sensitivity q) (prq_requires_human q) (proposal_payload q))
       (\<lambda>p. tryM (sqlite_proposal_to_row parse_uuid bear p (prq_source_profile q)))"

definition get_proposal :: "(string \<Rightarrow> string option) \<Rightarrow> string \<Rightarrow> string \<Rightarrow> memory_proposal_row option memory_op" where
  "get_proposal parse_uuid bear i =
     bindM (queryM (get_memory_proposal bear i)) (\<lambda>found. case found of
       None \<Rightarrow> returnM None
     | Some p \<Rightarrow> bindM (tryM (sqlite_proposal_to_row parse_uuid bear p StCurate)) (\<lambda>row. returnM (Some row)))"

fun rows_of :: "(string \<Rightarrow> string option) \<Rightarrow> string \<Rightarrow> memory_proposal list \<Rightarrow> den_error + memory_proposal_row list" where
  "rows_of parse_uuid bear [] = Inr []"
| "rows_of parse_uuid bear (p # ps) =
     (case sqlite_proposal_to_row parse_uuid bear p StCurate of
        Inl e \<Rightarrow> Inl e
      | Inr row \<Rightarrow> (case rows_of parse_uuid bear ps of Inl e \<Rightarrow> Inl e | Inr rows \<Rightarrow> Inr (row # rows)))"

definition list_proposals :: "(string \<Rightarrow> string option) \<Rightarrow> string \<Rightarrow> string option \<Rightarrow> int \<Rightarrow> memory_proposal_row list memory_op" where
  "list_proposals parse_uuid bear status limit =
     bindM (queryM (list_memory_proposals bear status limit)) (\<lambda>ps. tryM (rows_of parse_uuid bear ps))"

record proposal_resolution =
  prs_proposal_id :: string
  prs_reviewer_profile :: bear_stance
  prs_reviewer_agent_id :: "string option"
  prs_status :: string
  prs_review_notes :: "string option"
  prs_decision_summary :: "string option"
  prs_result_path :: "string option"
  prs_result_commit :: "string option"

definition review_payload :: "proposal_resolution \<Rightarrow> json" where
  "review_payload q = JObj [(''decision_summary'', opt_json (prs_decision_summary q)), (''result_commit'', opt_json (prs_result_commit q)),
     (''result_path'', opt_json (prs_result_path q)), (''review_notes'', opt_json (prs_review_notes q)),
     (''reviewer_agent_id'', opt_json (prs_reviewer_agent_id q)), (''reviewer_profile'', JStr (stance_as_str (prs_reviewer_profile q)))]"

definition resolve_proposal :: "(string \<Rightarrow> string option) \<Rightarrow> string \<Rightarrow> string \<Rightarrow> proposal_resolution \<Rightarrow> memory_proposal_row memory_op" where
  "resolve_proposal parse_uuid bear now q =
     bindM (resolve_memory_proposal bear now (prs_proposal_id q) (prs_status q) (review_payload q))
       (\<lambda>p. tryM (sqlite_proposal_to_row parse_uuid bear p (prs_reviewer_profile q)))"

definition record_reflection_outcome_start :: "string \<Rightarrow> string \<Rightarrow> string \<Rightarrow> string \<Rightarrow> string \<Rightarrow> string option \<Rightarrow> unit memory_op" where
  "record_reflection_outcome_start bear now run_id lane trigger input =
     bindM (queryM (reflection_outcome_exists bear run_id)) (\<lambda>exists.
     if exists then returnM () else create_reflection_run_outcome bear now run_id lane trigger input)"

subsection \<open>The autonomous run\<close>

datatype curate_triage =
    RetainProfileLocal string string
  | RejectProposal string string
  | DeferProposal string string
  | EscalateHuman string string
  | PromoteToCore string string

fun triage_label :: "curate_triage \<Rightarrow> string" where
  "triage_label (RetainProfileLocal _ _) = ''retain_profile_local''"
| "triage_label (RejectProposal _ _) = ''reject''"
| "triage_label (DeferProposal _ _) = ''defer''"
| "triage_label (EscalateHuman _ _) = ''escalate_human''"
| "triage_label (PromoteToCore _ _) = ''promote_to_core''"

fun resolution_status :: "curate_triage \<Rightarrow> string" where
  "resolution_status (RetainProfileLocal _ _) = ''retained_local''"
| "resolution_status (RejectProposal _ _) = ''rejected''"
| "resolution_status (DeferProposal _ _) = ''deferred''"
| "resolution_status (EscalateHuman _ _) = ''needs_human_review''"
| "resolution_status (PromoteToCore _ _) = ''approved''"

fun triage_review_notes :: "curate_triage \<Rightarrow> string" where
  "triage_review_notes (RetainProfileLocal n _) = n"
| "triage_review_notes (RejectProposal n _) = n"
| "triage_review_notes (DeferProposal n _) = n"
| "triage_review_notes (EscalateHuman n _) = n"
| "triage_review_notes (PromoteToCore n _) = n"

fun triage_decision_summary :: "curate_triage \<Rightarrow> string" where
  "triage_decision_summary (RetainProfileLocal _ d) = d"
| "triage_decision_summary (RejectProposal _ d) = d"
| "triage_decision_summary (DeferProposal _ d) = d"
| "triage_decision_summary (EscalateHuman _ d) = d"
| "triage_decision_summary (PromoteToCore _ d) = d"

definition sensitivity_requires_human :: "string \<Rightarrow> bool" where
  "sensitivity_requires_human s \<longleftrightarrow> s \<in> set [''person'', ''secret_risk'', ''external_untrusted'', ''unknown'']"

definition non_blank :: "string option \<Rightarrow> bool" where
  "non_blank v = (case v of None \<Rightarrow> False | Some s \<Rightarrow> trim s \<noteq> [])"

definition can_auto_promote_to_core :: "memory_proposal_row \<Rightarrow> bool" where
  "can_auto_promote_to_core p \<longleftrightarrow>
     \<not> (mpw_requires_human p \<or> sensitivity_requires_human (mpw_sensitivity p))
     \<and> \<not> non_blank (mpw_proposed_patch p)
     \<and> \<not> unwrap_or (Option.bind (jget (mpw_refs p) ''archive_harvest'') as_bool_json) False
     \<and> (non_blank (mpw_proposed_content p) \<or> length (trim (mpw_summary p)) \<ge> 16)
     \<and> mpw_source_paths p \<noteq> []"

definition decide_unspecified :: "memory_proposal_row \<Rightarrow> string option \<Rightarrow> curate_triage" where
  "decide_unspecified p trigger =
     (if trigger = Some ''pair_reflection'' \<and> mpw_sensitivity p = ''normal'' then
        RetainProfileLocal ''Pair reflection summary is durable in pair-local memory; shared promotion is not automatic.''
          ''Autonomous curate retained the pair reflection summary as role-local memory.''
      else if trigger = Some ''watch_observation'' then
        DeferProposal ''Watch observation recorded; curate review decides promotion or dismissal.''
          ''Deferred watch observation for curate review.''
      else DeferProposal ''Ambiguous proposal needs curate-agent review.''
          ''Deferred unspecified proposal until curate can decide the final outcome.'')"

definition decide_curate_triage :: "memory_proposal_row \<Rightarrow> string option \<Rightarrow> curate_triage" where
  "decide_curate_triage p trigger =
     (if mpw_requires_human p then
        EscalateHuman ''Proposal was flagged requires_human=true.''
          ''Escalated to human review because the proposal requires human follow-up.''
      else if sensitivity_requires_human (mpw_sensitivity p) then
        EscalateHuman ''Proposal sensitivity requires human review.''
          ''Escalated to human review because sensitivity policy blocks autonomous resolution.''
      else if mpw_suggested_action p = ''human_review'' then
        EscalateHuman ''Proposal requested explicit human review.'' ''Escalated to human review per suggested_action=human_review.''
      else if mpw_suggested_action p = ''retain_profile_local'' then
        RetainProfileLocal ''Role-local memory remains the durable source; no shared-memory write needed.''
          ''Autonomous curate retained the proposal as role-local memory.''
      else if mpw_suggested_action p = ''delete_after_review'' then
        RejectProposal ''Proposal requested deletion after review.'' ''Autonomous curate rejected the proposal per delete_after_review.''
      else if mpw_suggested_action p \<in> set [''promote_to_core'', ''summarize_into_core''] then
        (if can_auto_promote_to_core p then
           PromoteToCore ''Low-risk core promotion candidate with bounded summary content.''
             ''Autonomous curate applied a distilled summary to core memory.''
         else DeferProposal ''Core promotion requires curate-agent review or additional proposal content; no silent core write was applied.''
             ''Deferred core promotion until curate can review with richer context.'')
      else if mpw_suggested_action p \<in> set [''cabinet_update'', ''skill_review'', ''archive_index'', ''task_context''] then
        DeferProposal ''Specialized promotion path is not handled by the autonomous substrate yet.''
          ''Deferred until curate can route the proposal through the appropriate workflow.''
      else if mpw_suggested_action p = ''unspecified'' then decide_unspecified p trigger
      else DeferProposal ''Unknown suggested_action; deferring to curate review.''
          ''Deferred proposal with unrecognized suggested_action.'')"

definition core_target_path :: "memory_proposal_row \<Rightarrow> string" where
  "core_target_path p = unwrap_or (filter_opt (prefix ''core/'') (map_option trim (mpw_target_ref p))) ''core/knowledge.md''"

definition newline :: string where
  "newline = [CHR 0x0A]"

definition promotion_body :: "memory_proposal_row \<Rightarrow> string" where
  "promotion_body p = unwrap_or (filter_opt (\<lambda>v. v \<noteq> []) (map_option trim (mpw_proposed_content p))) (trim (mpw_summary p))
     @ newline @ newline @ ''---'' @ newline @ ''Source proposal: `'' @ mpw_id p @ ''`'' @ newline
     @ ''Source role: `'' @ mpw_source_profile p @ ''`'' @ newline
     @ ''Source paths: '' @ join_str '', '' (mpw_source_paths p) @ newline"

definition path_kind :: "string \<Rightarrow> string" where
  "path_kind path = trim_md (file_name path)"

record curate_outcome =
  cuo_proposal_id :: string
  cuo_status :: string
  cuo_suggested_action :: string
  cuo_triage :: string
  cuo_result_path :: "string option"
  cuo_error :: "string option"

definition curate_runner :: string where
  "curate_runner = ''memory_curate_runner''"

text \<open>\<open>now 0\<close> and \<open>now 1\<close> are read by the promotion, \<open>now 2\<close> by the resolution.\<close>

definition apply_core_promotion ::
    "(string \<Rightarrow> string) \<Rightarrow> (string \<Rightarrow> string option) \<Rightarrow> string \<Rightarrow> (nat \<Rightarrow> string) \<Rightarrow> (nat \<Rightarrow> string) \<Rightarrow> memory_proposal_row
     \<Rightarrow> curate_triage \<Rightarrow> (string \<times> string) memory_op" where
  "apply_core_promotion lower parse_uuid bear fresh now p triage =
     (let path = core_target_path p in
      bindM (promote_to_shared_core_at_path lower bear fresh now (mpw_id p) path (path_kind path) (promotion_body p)
          (stance_as_str StCurate) None) (\<lambda>promoted.
      bindM (resolve_proposal parse_uuid bear (now 2) \<lparr>prs_proposal_id = mpw_id p, prs_reviewer_profile = StCurate,
          prs_reviewer_agent_id = Some curate_runner, prs_status = ''approved'', prs_review_notes = Some (triage_review_notes triage),
          prs_decision_summary = Some (triage_decision_summary triage), prs_result_path = Some path,
          prs_result_commit = Some (cpo_memory_id promoted)\<rparr>) (\<lambda>_.
      returnM (path, cpo_memory_id promoted))))"

definition approved_outcome :: "memory_proposal_row \<Rightarrow> string \<Rightarrow> string \<Rightarrow> curate_outcome" where
  "approved_outcome p label path = \<lparr>cuo_proposal_id = mpw_id p, cuo_status = ''approved'', cuo_suggested_action = mpw_suggested_action p,
     cuo_triage = label, cuo_result_path = Some path, cuo_error = None\<rparr>"

definition defer_after_error ::
    "(string \<Rightarrow> string option) \<Rightarrow> string \<Rightarrow> string \<Rightarrow> memory_proposal_row \<Rightarrow> den_error \<Rightarrow> curate_outcome memory_op" where
  "defer_after_error parse_uuid bear now p e =
     bindM (resolve_proposal parse_uuid bear now \<lparr>prs_proposal_id = mpw_id p, prs_reviewer_profile = StCurate,
         prs_reviewer_agent_id = Some curate_runner, prs_status = ''deferred'',
         prs_review_notes = Some (''Autonomous core promotion failed; deferred for curate review: '' @ den_error_text e),
         prs_decision_summary = Some ''Deferred after autonomous core promotion attempt failed.'', prs_result_path = None,
         prs_result_commit = None\<rparr>) (\<lambda>deferred.
     returnM \<lparr>cuo_proposal_id = mpw_id deferred, cuo_status = mpw_status deferred, cuo_suggested_action = mpw_suggested_action deferred,
       cuo_triage = ''defer_after_error'', cuo_result_path = None, cuo_error = Some (den_error_text e)\<rparr>)"

definition resolve_curate_proposal ::
    "(string \<Rightarrow> string) \<Rightarrow> (string \<Rightarrow> string option) \<Rightarrow> string \<Rightarrow> (nat \<Rightarrow> string) \<Rightarrow> (nat \<Rightarrow> string) \<Rightarrow> memory_proposal_row
     \<Rightarrow> string option \<Rightarrow> curate_outcome memory_op" where
  "resolve_curate_proposal lower parse_uuid bear fresh now p trigger =
     (let triage = decide_curate_triage p trigger; label = triage_label triage in
      if label = ''promote_to_core'' then
        catchM (bindM (apply_core_promotion lower parse_uuid bear fresh now p triage) (\<lambda>(path, _). returnM (approved_outcome p label path)))
          (defer_after_error parse_uuid bear (now 3) p)
      else bindM (resolve_proposal parse_uuid bear (now 0) \<lparr>prs_proposal_id = mpw_id p, prs_reviewer_profile = StCurate,
          prs_reviewer_agent_id = Some curate_runner, prs_status = resolution_status triage,
          prs_review_notes = Some (triage_review_notes triage), prs_decision_summary = Some (triage_decision_summary triage),
          prs_result_path = None, prs_result_commit = None\<rparr>) (\<lambda>r.
        returnM \<lparr>cuo_proposal_id = mpw_id r, cuo_status = mpw_status r, cuo_suggested_action = mpw_suggested_action r,
          cuo_triage = label, cuo_result_path = mpw_result_path r, cuo_error = None\<rparr>))"

text \<open>The loop over the given ids; round \<open>n\<close> uses the fresh ids \<open>fresh n\<close> and the clock \<open>now n\<close>.\<close>

fun curate_each ::
    "(string \<Rightarrow> string) \<Rightarrow> (string \<Rightarrow> string option) \<Rightarrow> string \<Rightarrow> (nat \<Rightarrow> nat \<Rightarrow> string) \<Rightarrow> (nat \<Rightarrow> nat \<Rightarrow> string) \<Rightarrow> nat
     \<Rightarrow> string option \<Rightarrow> string list \<Rightarrow> curate_outcome list memory_op" where
  "curate_each lower parse_uuid bear fresh now n trigger [] = returnM []"
| "curate_each lower parse_uuid bear fresh now n trigger (i # ids) =
     bindM (get_proposal parse_uuid bear i) (\<lambda>found.
     bindM (case found of
         None \<Rightarrow> returnM []
       | Some p \<Rightarrow> if mpw_status p \<noteq> ''pending'' then returnM []
           else bindM (resolve_curate_proposal lower parse_uuid bear (fresh n) (now n) p trigger) (\<lambda>out. returnM [out])) (\<lambda>outs.
     bindM (curate_each lower parse_uuid bear fresh now (Suc n) trigger ids) (\<lambda>rest. returnM (outs @ rest))))"

definition aggregate_resolution_status :: "curate_outcome list \<Rightarrow> string" where
  "aggregate_resolution_status outs = (if outs = [] then ''no_pending_proposals''
     else (case remdups (map cuo_status outs) of [s] \<Rightarrow> s | _ \<Rightarrow> ''mixed''))"

record curate_briefing_item =
  cbi_proposal_id :: string
  cbi_title :: string
  cbi_summary :: string
  cbi_suggested_action :: string
  cbi_source_profile :: string
  cbi_status :: string
  cbi_triage :: string

fun build_curate_briefing :: "(string \<Rightarrow> string option) \<Rightarrow> string \<Rightarrow> curate_outcome list \<Rightarrow> curate_briefing_item list memory_op" where
  "build_curate_briefing parse_uuid bear [] = returnM []"
| "build_curate_briefing parse_uuid bear (out # outs) =
     (if cuo_status out \<notin> set [''deferred'', ''needs_human_review''] then build_curate_briefing parse_uuid bear outs
      else bindM (get_proposal parse_uuid bear (cuo_proposal_id out)) (\<lambda>found.
        bindM (build_curate_briefing parse_uuid bear outs) (\<lambda>rest.
        returnM ((case found of None \<Rightarrow> [] | Some p \<Rightarrow> [\<lparr>cbi_proposal_id = mpw_id p, cbi_title = mpw_title p, cbi_summary = mpw_summary p,
            cbi_suggested_action = mpw_suggested_action p, cbi_source_profile = mpw_source_profile p, cbi_status = cuo_status out,
            cbi_triage = cuo_triage out\<rparr>]) @ rest))))"

record curate_run_output =
  crp_resolved_proposal_ids :: "string list"
  crp_outcomes :: "curate_outcome list"
  crp_resolution_status :: string
  crp_status_counts :: json
  crp_briefing :: "curate_briefing_item list"

definition status_counts :: "curate_outcome list \<Rightarrow> json" where
  "status_counts outs = JObj (map (\<lambda>s. (s, jnat (length (filter (\<lambda>out. cuo_status out = s) outs)))) (sort (remdups (map cuo_status outs))))"

definition execute_memory_curate_proposals ::
    "(string \<Rightarrow> string) \<Rightarrow> (string \<Rightarrow> string option) \<Rightarrow> string \<Rightarrow> (nat \<Rightarrow> nat \<Rightarrow> string) \<Rightarrow> (nat \<Rightarrow> nat \<Rightarrow> string) \<Rightarrow> string option
     \<Rightarrow> string list \<Rightarrow> curate_run_output memory_op" where
  "execute_memory_curate_proposals lower parse_uuid bear fresh now trigger ids =
     bindM (curate_each lower parse_uuid bear fresh now 0 trigger ids) (\<lambda>outs.
     bindM (build_curate_briefing parse_uuid bear outs) (\<lambda>briefing.
     returnM \<lparr>crp_resolved_proposal_ids = map cuo_proposal_id outs, crp_outcomes = outs,
       crp_resolution_status = aggregate_resolution_status outs, crp_status_counts = status_counts outs, crp_briefing = briefing\<rparr>))"

subsection \<open>The core update of the curate stance\<close>

record core_update_request =
  cur_reviewer_profile :: bear_stance
  cur_binding_id :: string
  cur_proposal_id :: string
  cur_target_path :: string
  cur_mode :: string
  cur_body :: "string option"
  cur_review_notes :: "string option"

definition sensitivity_blocks_update :: "string \<Rightarrow> bool" where
  "sensitivity_blocks_update s = (case memory_sensitivity_parse s of None \<Rightarrow> True | Some v \<Rightarrow> v \<noteq> SensNormal)"

definition resolution_of_update :: "core_update_request \<Rightarrow> memory_proposal_row \<Rightarrow> proposal_resolution" where
  "resolution_of_update q p = \<lparr>prs_proposal_id = mpw_id p, prs_reviewer_profile = cur_reviewer_profile q,
     prs_reviewer_agent_id = Some (cur_binding_id q), prs_status = ''approved'', prs_review_notes = cur_review_notes q,
     prs_decision_summary = Some ''Applied reviewed memory proposal to core (SQLite).'', prs_result_path = Some (cur_target_path q),
     prs_result_commit = None\<rparr>"

definition apply_core_update ::
    "(string \<Rightarrow> string) \<Rightarrow> (string \<Rightarrow> string option) \<Rightarrow> string \<Rightarrow> (nat \<Rightarrow> string) \<Rightarrow> (nat \<Rightarrow> string) \<Rightarrow> core_update_request
     \<Rightarrow> (memory_proposal_row \<times> core_promotion_outcome) memory_op" where
  "apply_core_update lower parse_uuid bear fresh now q =
     bindM (get_proposal parse_uuid bear (cur_proposal_id q)) (\<lambda>found. case found of
       None \<Rightarrow> failM (Failed (NotFound ''memory proposal not found''))
     | Some p \<Rightarrow>
         if mpw_requires_human p \<or> sensitivity_blocks_update (mpw_sensitivity p) then
           invalid ''proposal requires human review; resolve as needs_human_review instead of applying a core update autonomously''
         else if \<not> prefix ''core/'' (trim (cur_target_path q)) then invalid ''target_path must be under core/''
         else if cur_mode q \<noteq> ''append_section'' \<and> cur_mode q \<noteq> ''create_file'' then
           invalid ''native SQLite core updates currently support append_section or create_file; replace_text must be proposed for human review''
         else
           (let content = unwrap_or (cur_body q) (''Applied from proposal `'' @ mpw_id p @ ''` via native SQLite promotion.'') in
            bindM (promote_to_shared_core_at_path lower bear fresh now (mpw_id p) (cur_target_path q) (path_kind (cur_target_path q)) content
                (stance_as_str (cur_reviewer_profile q)) None) (\<lambda>promoted.
            bindM (resolve_proposal parse_uuid bear (now 2) (resolution_of_update q p)) (\<lambda>resolved.
            returnM (resolved, promoted)))))"

end
