(* ===== verification/Memory_Merging.thy ===== *)
theory Memory_Merging
  imports Memory_Curation
begin

section \<open>Merging entities\<close>

text \<open>
  Chains of forward pointers and where they end (\<open>chain_end\<close>), the database a merge leaves
  (\<open>merged_db\<close>), and the properties of merging: what every id and handle resolves to afterwards, what
  it does to access, and the loop that merging back makes.
\<close>

subsection \<open>Forward pointers\<close>

text \<open>
  Where a chain of pointers ends, when it ends within \<open>n\<close> hops, and what redirecting one end does
  to every chain.
\<close>

fun chain_end :: "('k \<Rightarrow> 'k option) \<Rightarrow> nat \<Rightarrow> 'k \<Rightarrow> 'k option" where
  "chain_end step 0 i = (if step i = None then Some i else None)"
| "chain_end step (Suc n) i = (case step i of None \<Rightarrow> Some i | Some j \<Rightarrow> chain_end step n j)"

lemma chain_end_live: "chain_end step n i = Some r \<Longrightarrow> step r = None"
  by (induction step n i rule: chain_end.induct) (auto split: if_splits option.splits)

lemma chain_end_Suc: "chain_end step n i = Some r \<Longrightarrow> chain_end step (Suc n) i = Some r"
  by (induction step n i rule: chain_end.induct) (auto split: if_splits option.splits)

lemma chain_end_mono: "m \<le> n \<Longrightarrow> chain_end step m i = Some r \<Longrightarrow> chain_end step n i = Some r"
  by (induction n rule: dec_induct) (auto dest: chain_end_Suc)

lemma chain_end_at_end: "step i = None \<Longrightarrow> chain_end step n i = Some i"
  by (cases n) auto

lemma chain_end_redirect:
  "chain_end step n i = Some r \<Longrightarrow> step s = None \<Longrightarrow> s \<noteq> l \<Longrightarrow> step l = None
   \<Longrightarrow> chain_end (step(l := Some s)) (Suc n) i = Some (if r = l then s else r)"
proof (induction step n i rule: chain_end.induct)
  case (1 step i)
  then show ?case by (auto split: if_splits)
next
  case (2 step n i)
  show ?case
  proof (cases "step i")
    case None
    then have "r = i" using 2(2) by simp
    then show ?thesis using None 2(3,4) by (auto split: option.split intro: chain_end_at_end)
  next
    case (Some j)
    then have "i \<noteq> l" and "chain_end step n j = Some r" using 2(2,5) by auto
    then show ?thesis using 2(1) [OF Some _ 2(3-5)] Some by simp
  qed
qed

definition entity_step :: "string \<Rightarrow> memory_db \<Rightarrow> string \<Rightarrow> string option" where
  "entity_step bear db i = Option.bind (find_entity bear i db) en_superseded_by"

text \<open>Every chain of merged entities of the bear ends within \<open>n\<close> hops.\<close>

definition chains_within :: "string \<Rightarrow> nat \<Rightarrow> memory_db \<Rightarrow> bool" where
  "chains_within bear n db \<longleftrightarrow>
     (\<forall>e \<in> set (md_entities db). en_bear e = bear \<longrightarrow> chain_end (entity_step bear db) n (en_id e) \<noteq> None)"

lemma find_entityD:
  assumes "find_entity bear i db = Some e"
  shows "e \<in> set (md_entities db)" "en_bear e = bear" "en_id e = i"
  using assms by (auto simp: find_entity_def find_Some_iff)

lemma entity_into_row_simps [simp]:
  "er_entity_id (entity_into_row e) = en_id e" "er_superseded_by (entity_into_row e) = en_superseded_by e"
  by (simp_all add: entity_into_row_def)

lemma get_entity_id: "get_entity bear i db = Some row \<Longrightarrow> er_entity_id row = i"
  by (auto simp: get_entity_def dest: find_entityD)

lemma follow_forward_end:
  "chain_end (entity_step bear db) n i = Some r \<Longrightarrow> follow_forward bear db n (get_entity bear i db) = get_entity bear r db"
proof (induction "entity_step bear db" n i rule: chain_end.induct)
  case (1 i)
  then show ?case by (cases "get_entity bear i db") (auto split: if_splits)
next
  case (2 n i)
  show ?case
  proof (cases "find_entity bear i db")
    case None
    then have "r = i" using 2 by (simp add: entity_step_def)
    then show ?thesis using None by (simp add: get_entity_def)
  next
    case (Some e)
    then show ?thesis using 2 by (cases "en_superseded_by e") (auto simp: get_entity_def entity_step_def)
  qed
qed

lemma resolve_live_end:
  "chain_end (entity_step bear db) MAX_HOPS i = Some r \<Longrightarrow> resolve_live_entity bear i db = get_entity bear r db"
  by (simp add: resolve_live_entity_def follow_forward_end)

lemma resolve_live_self: "entity_step bear db i = None \<Longrightarrow> resolve_live_entity bear i db = get_entity bear i db"
  by (intro resolve_live_end chain_end_at_end)

lemma chains_withinD:
  assumes "chains_within bear n db" and "n \<le> m"
  obtains r where "chain_end (entity_step bear db) m i = Some r"
proof (cases "find_entity bear i db")
  case None
  then have "entity_step bear db i = None" by (simp add: entity_step_def)
  then show ?thesis by (rule that [OF chain_end_at_end])
next
  case (Some e)
  note e = find_entityD [OF Some]
  then obtain r where "chain_end (entity_step bear db) n i = Some r" using assms(1) by (auto simp: chains_within_def)
  then show ?thesis by (intro that chain_end_mono [OF assms(2)])
qed

subsection \<open>Merging\<close>

lemma schema_ok_entities:
  "memory_schema_ok db \<Longrightarrow> (\<And>e. en_id (f e) = en_id e) \<Longrightarrow> memory_schema_ok (db\<lparr>md_entities := update_where g f (md_entities db)\<rparr>)"
  by (simp add: memory_schema_ok_def map_update_where)

lemma schema_ok_handles:
  "memory_schema_ok db \<Longrightarrow> (\<And>h. hn_id (f h) = hn_id h) \<Longrightarrow> memory_schema_ok (db\<lparr>md_handles := update_where g f (md_handles db)\<rparr>)"
  by (simp add: memory_schema_ok_def map_update_where)

text \<open>The database a merge leaves, and the entity that answers for another after it.\<close>

definition merged_db :: "string \<Rightarrow> string \<Rightarrow> string \<Rightarrow> memory_db \<Rightarrow> memory_db" where
  "merged_db bear s loser db = db\<lparr>
     md_entities := update_where (\<lambda>e. en_bear e = bear \<and> en_id e = loser)
       (\<lambda>e. e\<lparr>en_resolution := ''merged'', en_superseded_by := Some s\<rparr>) (md_entities db),
     md_handles := update_where (\<lambda>h. active_handle bear h \<and> hn_entity_id h = loser) (\<lambda>h. h\<lparr>hn_entity_id := s\<rparr>) (md_handles db)\<rparr>"

lemma merge_entities_run:
  assumes "memory_schema_ok db" and "survivor_id \<noteq> loser_id"
    and "resolve_live_entity bear survivor_id db = Some survivor" and "get_entity bear loser_id db = Some loser"
  shows "merge_entities bear survivor_id loser_id db = (merged_db bear (er_entity_id survivor) loser_id db, Inr survivor)"
    and "memory_schema_ok (merged_db bear (er_entity_id survivor) loser_id db)"
proof -
  let ?f = "\<lambda>e. e\<lparr>en_resolution := ''merged'', en_superseded_by := Some (er_entity_id survivor)\<rparr>"
  let ?g = "\<lambda>e. en_bear e = bear \<and> en_id e = loser_id"
  have 1: "memory_schema_ok (db\<lparr>md_entities := update_where ?g ?f (md_entities db)\<rparr>)"
    using assms(1) by (rule schema_ok_entities) simp
  show 2: "memory_schema_ok (merged_db bear (er_entity_id survivor) loser_id db)"
    using schema_ok_handles [OF 1, of "\<lambda>h. h\<lparr>hn_entity_id := er_entity_id survivor\<rparr>"] by (simp add: merged_db_def)
  show "merge_entities bear survivor_id loser_id db = (merged_db bear (er_entity_id survivor) loser_id db, Inr survivor)"
    using assms(2-4) 1 2
    by (simp add: merge_entities_def bindM_def queryM_def returnM_def checked_writeM_def update_entities_def update_handles_def
        merged_db_def)
qed

lemma find_entity_merged:
  "find_entity bear i (merged_db bear s loser db) =
     map_option (\<lambda>e. if en_id e = loser then e\<lparr>en_resolution := ''merged'', en_superseded_by := Some s\<rparr> else e)
       (find_entity bear i db)"
proof -
  have "List.find (\<lambda>e. en_bear e = bear \<and> en_id e = i) (map f es) = map_option f (List.find (\<lambda>e. en_bear e = bear \<and> en_id e = i) es)"
    if "\<And>e. en_bear (f e) = en_bear e \<and> en_id (f e) = en_id e" for f and es :: "entity_rec list"
    using that by (induction es) auto
  note find_map = this
  let ?f = "\<lambda>e. if en_bear e = bear \<and> en_id e = loser then e\<lparr>en_resolution := ''merged'', en_superseded_by := Some s\<rparr> else e"
  have "find_entity bear i (merged_db bear s loser db) = map_option ?f (find_entity bear i db)"
    by (simp add: find_entity_def merged_db_def update_where_def find_map)
  then show ?thesis by (cases "find_entity bear i db") (auto dest: find_entityD)
qed

lemma get_entity_merged: "i \<noteq> loser \<Longrightarrow> get_entity bear i (merged_db bear s loser db) = get_entity bear i db"
  by (cases "find_entity bear i db") (auto simp: get_entity_def find_entity_merged dest: find_entityD)

lemma entity_step_merged:
  "find_entity bear loser db \<noteq> None \<Longrightarrow> entity_step bear (merged_db bear s loser db) = (entity_step bear db)(loser := Some s)"
proof (rule ext)
  fix x
  assume "find_entity bear loser db \<noteq> None"
  then show "entity_step bear (merged_db bear s loser db) x = ((entity_step bear db)(loser := Some s)) x"
    by (cases "find_entity bear x db") (auto simp: entity_step_def find_entity_merged dest: find_entityD)
qed

text \<open>What the hypotheses of a proper merge say, and what they give.\<close>

definition mergeable :: "string \<Rightarrow> string \<Rightarrow> string \<Rightarrow> memory_db \<Rightarrow> bool" where
  "mergeable bear survivor_id loser_id db \<longleftrightarrow>
     (case (resolve_live_entity bear survivor_id db, get_entity bear loser_id db) of
        (Some s, Some l) \<Rightarrow> er_entity_id s \<noteq> loser_id \<and> er_superseded_by l = None
      | _ \<Rightarrow> False)"

lemma mergeableE:
  assumes "mergeable bear survivor_id loser_id db" and "chains_within bear 31 db"
    and s: "resolve_live_entity bear survivor_id db = Some s"
  obtains l where "get_entity bear loser_id db = Some l" "get_entity bear (er_entity_id s) db = Some s"
    "er_entity_id s \<noteq> loser_id" "survivor_id \<noteq> loser_id" "entity_step bear db (er_entity_id s) = None"
    "entity_step bear db loser_id = None" "find_entity bear loser_id db \<noteq> None"
proof -
  from assms(1) obtain l where l: "get_entity bear loser_id db = Some l"
    and ne: "er_entity_id s \<noteq> loser_id" and live: "er_superseded_by l = None"
    unfolding mergeable_def s by (auto split: option.splits)
  obtain r where r: "chain_end (entity_step bear db) MAX_HOPS survivor_id = Some r"
    using chains_withinD [OF assms(2), of MAX_HOPS survivor_id] by (force simp: MAX_HOPS_def)
  then have rs: "get_entity bear r db = Some s" using s resolve_live_end by simp
  have step_l: "entity_step bear db loser_id = None"
    using l live by (auto simp: get_entity_def entity_step_def)
  have "survivor_id \<noteq> loser_id"
  proof
    assume "survivor_id = loser_id"
    then have "s = l" using s l resolve_live_self [OF step_l] by simp
    then show False using ne get_entity_id [OF l] by simp
  qed
  then show ?thesis
    using that [OF l] ne step_l rs get_entity_id [OF rs] chain_end_live [OF r] l by (auto simp: get_entity_def)
qed

definition redirected :: "entity_row \<Rightarrow> string \<Rightarrow> entity_row \<Rightarrow> entity_row" where
  "redirected s loser e = (if er_entity_id e = loser then s else e)"

lemma resolve_live_merged:
  assumes "mergeable bear survivor_id loser db" and "chains_within bear 31 db"
    and "resolve_live_entity bear survivor_id db = Some s"
  shows "resolve_live_entity bear i (merged_db bear (er_entity_id s) loser db)
           = map_option (redirected s loser) (resolve_live_entity bear i db)"
    and "chains_within bear 32 (merged_db bear (er_entity_id s) loser db)"
proof -
  obtain l where ne: "er_entity_id s \<noteq> loser" and steps: "entity_step bear db (er_entity_id s) = None" "entity_step bear db loser = None"
    and s: "get_entity bear (er_entity_id s) db = Some s" and l: "get_entity bear loser db = Some l" "find_entity bear loser db \<noteq> None"
    by (rule mergeableE [OF assms])
  let ?db = "merged_db bear (er_entity_id s) loser db"
  have ends: "chain_end (entity_step bear ?db) 32 j = Some (if r = loser then er_entity_id s else r)"
    if "chain_end (entity_step bear db) 31 j = Some r" for j r
    using chain_end_redirect [OF that steps(1) ne steps(2)] by (simp add: entity_step_merged [OF l(2)] del: chain_end.simps)
  have find: "\<exists>r. chain_end (entity_step bear db) 31 j = Some r" for j
    by (rule chains_withinD [OF assms(2) order_refl]) blast
  obtain r where r: "chain_end (entity_step bear db) 31 i = Some r" using find by blast
  have "chain_end (entity_step bear db) 32 i = Some r" using chain_end_mono [OF _ r] by simp
  then have old: "resolve_live_entity bear i db = get_entity bear r db" by (simp add: resolve_live_end MAX_HOPS_def)
  have new: "resolve_live_entity bear i ?db = get_entity bear (if r = loser then er_entity_id s else r) ?db"
    using ends [OF r] by (simp only: resolve_live_end MAX_HOPS_def)
  show "resolve_live_entity bear i ?db = map_option (redirected s loser) (resolve_live_entity bear i db)"
  proof (cases "r = loser")
    case True
    then show ?thesis
      using old new l s get_entity_merged [OF ne] get_entity_id [OF l(1)] by (simp add: redirected_def)
  next
    case False
    then show ?thesis
      using old new get_entity_merged [OF False] by (cases "get_entity bear r db") (auto simp: redirected_def dest: get_entity_id)
  qed
  show "chains_within bear 32 ?db"
    unfolding chains_within_def using ends find by (metis option.distinct(1))
qed

lemma find_by_handle_merged:
  assumes "mergeable bear survivor_id loser db" and "chains_within bear 31 db"
    and "resolve_live_entity bear survivor_id db = Some s"
  shows "find_entity_by_handle bear ht hv (merged_db bear (er_entity_id s) loser db)
           = map_option (redirected s loser) (find_entity_by_handle bear ht hv db)"
proof -
  let ?db = "merged_db bear (er_entity_id s) loser db"
  let ?g = "\<lambda>h. active_handle bear h \<and> hn_entity_id h = loser"
  let ?f = "\<lambda>h. if ?g h then h\<lparr>hn_entity_id := er_entity_id s\<rparr> else h"
  let ?p = "\<lambda>h. active_handle bear h \<and> hn_type h = ht \<and> hn_value h = hv"
  let ?hs = "sort_key hn_created_at (filter ?p (md_handles db))"
  have "filter ?p (map ?f hs) = map ?f (filter ?p hs)" for hs by (induction hs) (auto simp: active_handle_def)
  moreover have "insort_key hn_created_at (?f h) (map ?f hs) = map ?f (insort_key hn_created_at h hs)" for h hs
    by (induction hs) auto
  then have "sort_key hn_created_at (map ?f hs) = map ?f (sort_key hn_created_at hs)" for hs
    by (induction hs) (auto simp: sort_key_def)
  ultimately have hs: "sort_key hn_created_at (filter ?p (md_handles ?db)) = map ?f ?hs"
    by (simp add: merged_db_def update_where_def)
  obtain l where m: "er_entity_id s \<noteq> loser" "entity_step bear db (er_entity_id s) = None" "entity_step bear db loser = None"
    "get_entity bear loser db = Some l" "get_entity bear (er_entity_id s) db = Some s"
    by (rule mergeableE [OF assms])
  show ?thesis
  proof (cases ?hs)
    case Nil
    then show ?thesis using hs by (simp add: find_entity_by_handle_def)
  next
    case (Cons h tl)
    have old: "find_entity_by_handle bear ht hv db = resolve_live_entity bear (hn_entity_id h) db"
      and new: "find_entity_by_handle bear ht hv ?db = resolve_live_entity bear (hn_entity_id (?f h)) ?db"
      using Cons hs by (simp_all add: find_entity_by_handle_def)
    show ?thesis
    proof (cases "?g h")
      case True
      have "resolve_live_entity bear loser db = Some l" "resolve_live_entity bear (er_entity_id s) db = Some s"
        using m by (simp_all add: resolve_live_self)
      then show ?thesis
        using True old new resolve_live_merged(1) [OF assms] m get_entity_id [OF m(4)] by (simp add: redirected_def)
    next
      case False
      then show ?thesis using old new resolve_live_merged(1) [OF assms] by auto
    qed
  qed
qed

subsection \<open>A sample\<close>

definition sample_entity :: "string \<Rightarrow> string \<Rightarrow> string option \<Rightarrow> entity_rec" where
  "sample_entity i state by_id = \<lparr>en_id = i, en_bear = ''bear'', en_sequence_no = 1, en_type = ''person'', en_display_name = None,
     en_resolution = state, en_trust = ''inferred'', en_canonical_ref = None, en_superseded_by = by_id, en_metadata = JObj [],
     en_created_at = ''t''\<rparr>"

definition sample_handle :: "string \<Rightarrow> string \<Rightarrow> string \<Rightarrow> handle_rec" where
  "sample_handle i e v = \<lparr>hn_id = i, hn_bear = ''bear'', hn_entity_id = e, hn_type = ''email'', hn_value = v, hn_source = None,
     hn_trust = ''asserted'', hn_state = ''active'', hn_created_at = i\<rparr>"

definition sample_link :: "string \<Rightarrow> string \<Rightarrow> string \<Rightarrow> string \<Rightarrow> link_rec" where
  "sample_link i src e rel = \<lparr>ln_id = i, ln_bear = ''bear'', ln_sequence_no = 3, ln_src_memory_id = src, ln_entity_id = e,
     ln_relation = ''den.memory.relation.'' @ rel, ln_qualifiers = JObj [], ln_author_profile = ''pair'', ln_author_agent_id = None,
     ln_confidence = None, ln_state = ''active'', ln_supersedes_link_id = None, ln_created_at = ''t''\<rparr>"

definition sample_record :: "string \<Rightarrow> int \<Rightarrow> string option \<Rightarrow> memory_rec" where
  "sample_record i n old = \<lparr>mr_id = i, mr_bear = ''bear'', mr_sequence_no = n, mr_scope_type = ''shared'', mr_scope_profile = None,
     mr_kind = ''note'', mr_author_profile = ''pair'', mr_author_agent_id = None, mr_created_at = i, mr_content_text = i,
     mr_metadata = JObj [], mr_supersedes = old, mr_visibility = ''normal'', mr_logical_path = Some ''core/x.md'',
     mr_work_surface_ref = None, mr_valid_from = Some i, mr_invalid_at = None, mr_salience = ''normal''\<rparr>"

text \<open>Three people, one of them merged into the first, with a handle each, and a note addressed to two of them.\<close>

definition sample_memory :: memory_db where
  "sample_memory = \<lparr>md_next_sequence = 7, md_records = [sample_record ''m1'' 1 None, sample_record ''m2'' 2 (Some ''m1''), sample_record ''m3'' 3 None],
     md_entities = [sample_entity ''a'' ''resolved'' None, sample_entity ''b'' ''resolved'' None, sample_entity ''c'' ''merged'' (Some ''a'')],
     md_handles = [sample_handle ''h1'' ''a'' ''a@x'', sample_handle ''h2'' ''b'' ''b@x''],
     md_relations = [sample_link ''r1'' ''m1'' ''a'' ''subject'', sample_link ''r2'' ''m3'' ''a'' ''subject'', sample_link ''r3'' ''m2'' ''b'' ''source''],
     md_access_rules = [sample_link ''x1'' ''m1'' ''b'' ''audience'', sample_link ''x2'' ''m1'' ''c'' ''audience''], md_observations = [],
     md_promotions = [], md_proposals = [], md_harvest_marks = [], md_outcomes = []\<rparr>"

lemma sample_memory_ok:
  "memory_schema_ok sample_memory" "chains_within ''bear'' 31 sample_memory" "mergeable ''bear'' ''a'' ''b'' sample_memory"
  by code_simp+

lemma active_handle_moved [simp]: "active_handle bear (h\<lparr>hn_entity_id := s\<rparr>) = active_handle bear h"
  by (simp add: active_handle_def)

lemma list_handles_merged:
  assumes "s \<noteq> loser"
  shows "list_handles bear loser (merged_db bear s loser db) = []"
proof -
  have "filter (\<lambda>h. active_handle bear h \<and> hn_entity_id h = loser)
      (update_where (\<lambda>h. active_handle bear h \<and> hn_entity_id h = loser) (\<lambda>h. h\<lparr>hn_entity_id := s\<rparr>) hs) = []" for hs
    using assms by (induction hs) (simp_all add: update_where_def)
  then show ?thesis by (simp add: list_handles_def merged_db_def)
qed

subsection \<open>Properties of merging\<close>

text \<open>
  C8. Merging redirects exactly the loser: where merged chains are short enough and the loser is
  live and not the survivor, the merge succeeds and returns the live survivor; afterwards every id
  and every handle resolves to what it resolved to before, with the survivor in place of the loser;
  the loser keeps no active handle, and records, relations and access rules are not touched.
\<close>

theorem merge_redirects_the_loser:
  assumes "memory_schema_ok db" and "chains_within bear 31 db" and "mergeable bear survivor_id loser_id db"
  shows "\<exists>db' s. merge_entities bear survivor_id loser_id db = (db', Inr s)
    \<and> resolve_live_entity bear survivor_id db = Some s
    \<and> (\<forall>i. resolve_live_entity bear i db' = map_option (redirected s loser_id) (resolve_live_entity bear i db))
    \<and> (\<forall>ht hv. find_entity_by_handle bear ht hv db' = map_option (redirected s loser_id) (find_entity_by_handle bear ht hv db))
    \<and> list_handles bear loser_id db' = [] \<and> chains_within bear 32 db' \<and> memory_schema_ok db'
    \<and> md_records db' = md_records db \<and> md_relations db' = md_relations db \<and> md_access_rules db' = md_access_rules db"
proof -
  obtain s where s: "resolve_live_entity bear survivor_id db = Some s"
    using assms(3) by (auto simp: mergeable_def split: option.splits)
  obtain l where ne: "er_entity_id s \<noteq> loser_id" and n: "survivor_id \<noteq> loser_id" and l: "get_entity bear loser_id db = Some l"
    by (rule mergeableE [OF assms(3,2) s])
  let ?db = "merged_db bear (er_entity_id s) loser_id db"
  have run: "merge_entities bear survivor_id loser_id db = (merged_db bear (er_entity_id s) loser_id db, Inr s)"
    "memory_schema_ok (merged_db bear (er_entity_id s) loser_id db)"
    using merge_entities_run [OF assms(1) n s l] by simp_all
  have "list_handles bear loser_id ?db = []" using ne by (rule list_handles_merged)
  moreover have "md_records ?db = md_records db" "md_relations ?db = md_relations db" "md_access_rules ?db = md_access_rules db"
    by (simp_all add: merged_db_def)
  ultimately show ?thesis
    using run s resolve_live_merged [OF assms(3,2) s] find_by_handle_merged [OF assms(3,2) s]
    by - (rule exI [of _ ?db], rule exI [of _ s], simp)
qed

theorem merge_redirects_the_loser_witness:
  "map_option er_entity_id (find_entity_by_handle ''bear'' ''email'' ''b@x'' (fst (merge_entities ''bear'' ''a'' ''b'' sample_memory))) = Some ''a''"
proof -
  have "resolve_live_entity ''bear'' ''a'' sample_memory = Some (entity_into_row (sample_entity ''a'' ''resolved'' None))"
    "find_entity_by_handle ''bear'' ''email'' ''b@x'' sample_memory = Some (entity_into_row (sample_entity ''b'' ''resolved'' None))"
    by code_simp+
  then show ?thesis
    using merge_redirects_the_loser [OF sample_memory_ok] by (auto simp: redirected_def sample_entity_def)
qed

text \<open>The context that shows before a merge what \<open>ctx\<close> shows after it.\<close>

definition ids_before :: "string \<Rightarrow> string \<Rightarrow> string list \<Rightarrow> string list" where
  "ids_before s loser ids = (if s \<in> set ids then loser # ids else removeAll loser ids)"

definition context_before :: "string \<Rightarrow> string \<Rightarrow> access_context \<Rightarrow> access_context" where
  "context_before s loser ctx = \<lparr>ac_audience = ids_before s loser (ac_audience ctx), ac_confinement = ids_before s loser (ac_confinement ctx)\<rparr>"

lemma ids_before_iff: "s \<noteq> loser \<Longrightarrow> t \<in> set (ids_before s loser ids) \<longleftrightarrow> (if t = loser then s else t) \<in> set ids"
  by (auto simp: ids_before_def)

lemma ids_before_gate:
  fixes f :: "'r \<Rightarrow> string"
  assumes "s \<noteq> loser" and "\<And>r. f' r = (if f r = loser then s else f r)"
  shows "f' ` R \<inter> set ids = {} \<longleftrightarrow> f ` R \<inter> set (ids_before s loser ids) = {}"
    and "f' ` R \<subseteq> set ids \<longleftrightarrow> f ` R \<subseteq> set (ids_before s loser ids)"
proof -
  have "f' r \<in> set ids \<longleftrightarrow> f r \<in> set (ids_before s loser ids)" for r
    using ids_before_iff [OF assms(1)] assms(2) by simp
  then show "f' ` R \<inter> set ids = {} \<longleftrightarrow> f ` R \<inter> set (ids_before s loser ids) = {}"
    and "f' ` R \<subseteq> set ids \<longleftrightarrow> f ` R \<subseteq> set (ids_before s loser ids)"
    by blast+
qed

text \<open>
  C27. A merge moves access along with the identity and changes nothing else: where merged chains
  have at most 31 hops and the loser is live and not what the survivor resolves to, a record is
  visible in a context after the merge exactly if it was visible before in the context in which the
  loser is present where the survivor is. In particular a record whose rules name neither of the two
  is as visible as it was. The code also accepts a loser that was merged before; such a merge
  redirects ids that never resolved to the loser and is outside this statement.
\<close>

theorem merge_moves_access:
  assumes "memory_schema_ok db" and "chains_within bear 31 db" and "mergeable bear survivor_id loser_id db"
    and "resolve_live_entity bear survivor_id db = Some s"
  shows "record_visible bear src ctx (fst (merge_entities bear survivor_id loser_id db))
    = record_visible bear src (context_before (er_entity_id s) loser_id ctx) db"
proof -
  obtain l where ne: "er_entity_id s \<noteq> loser_id" and n: "survivor_id \<noteq> loser_id" and l: "get_entity bear loser_id db = Some l"
    and step_l: "entity_step bear db loser_id = None"
    by (rule mergeableE [OF assms(3,2,4)])
  let ?db = "merged_db bear (er_entity_id s) loser_id db"
  have db: "fst (merge_entities bear survivor_id loser_id db) = ?db"
    using merge_entities_run [OF assms(1) n assms(4) l] by simp
  have "rule_target bear db r \<noteq> loser_id" if "resolve_live_entity bear (rr_entity_id r) db = None" for r
    using that l resolve_live_self [OF step_l] by (auto simp: rule_target_def)
  then have targets: "rule_target bear ?db r = (if rule_target bear db r = loser_id then er_entity_id s else rule_target bear db r)" for r
    using resolve_live_merged(1) [OF assms(3,2,4)]
    by (cases "resolve_live_entity bear (rr_entity_id r) db") (auto simp: rule_target_def redirected_def)
  have rules: "list_access_rules_for_source bear src ?db = list_access_rules_for_source bear src db"
    by (simp add: list_access_rules_for_source_def merged_db_def)
  show ?thesis
    unfolding db record_visible_def Let_def rules
    using ids_before_gate [where f = "rule_target bear db" and f' = "rule_target bear ?db", OF ne targets]
    by (simp add: context_before_def)
qed

theorem merge_moves_access_witness:
  "record_visible ''bear'' ''m1'' \<lparr>ac_audience = [''a''], ac_confinement = []\<rparr> (fst (merge_entities ''bear'' ''a'' ''b'' sample_memory))
   \<and> \<not> record_visible ''bear'' ''m1'' \<lparr>ac_audience = [''b''], ac_confinement = []\<rparr> (fst (merge_entities ''bear'' ''a'' ''b'' sample_memory))"
proof -
  have s: "resolve_live_entity ''bear'' ''a'' sample_memory = Some (entity_into_row (sample_entity ''a'' ''resolved'' None))"
    by code_simp
  show ?thesis unfolding merge_moves_access [OF sample_memory_ok s] by code_simp
qed

lemma chain_end_loop: "step b = Some b \<Longrightarrow> chain_end step n b = None"
  by (induction n) auto

text \<open>
  C39. The guard against merging an entity into itself compares the ids it is given, before it
  follows them: once \<open>a\<close> has been merged into \<open>b\<close>, a merge with survivor \<open>a\<close> and loser \<open>b\<close> succeeds and
  makes \<open>b\<close> its own successor. From then on the two have no live entity at the end of their chain,
  and both resolve to a row in state merged, which can bear no access.
\<close>

theorem merging_back_makes_loop:
  assumes "memory_schema_ok db" and "get_entity bear a db = Some ra" and "er_superseded_by ra = Some b"
    and "get_entity bear b db = Some rb" and "er_superseded_by rb = None"
  shows "\<exists>db'. merge_entities bear a b db = (db', Inr rb)
    \<and> (\<forall>n. chain_end (entity_step bear db') n a = None \<and> chain_end (entity_step bear db') n b = None)
    \<and> (\<exists>e. resolve_live_entity bear a db' = Some e \<and> resolve_live_entity bear b db' = Some e
          \<and> er_entity_id e = b \<and> er_resolution e = ResMerged \<and> \<not> can_bear_access (er_resolution e))"
proof -
  let ?db = "merged_db bear b b db"
  have idb: "er_entity_id rb = b" using get_entity_id assms(4) by blast
  have ne: "a \<noteq> b" using assms(2-5) by auto
  have stepb: "entity_step bear db b = None" and stepa: "entity_step bear db a = Some b"
    using assms by (auto simp: get_entity_def entity_step_def)
  have "chain_end (entity_step bear db) MAX_HOPS a = Some b"
    using stepa chain_end_at_end [of "entity_step bear db" b 31] stepb by (simp add: MAX_HOPS_def eval_nat_numeral)
  then have res: "resolve_live_entity bear a db = Some rb" using resolve_live_end assms(4) by simp
  have run: "merge_entities bear a b db = (?db, Inr rb)"
    using merge_entities_run(1) [OF assms(1) ne res assms(4)] idb by simp
  have steps: "entity_step bear ?db b = Some b" "entity_step bear ?db a = Some b"
    using entity_step_merged assms(4) ne stepa by (auto simp: get_entity_def)
  have loops: "chain_end (entity_step bear ?db) n b = None" for n using chain_end_loop steps(1) by fast
  have "chain_end (entity_step bear ?db) n a = None" for n using loops steps(2) by (cases n) auto
  moreover obtain e0 where e0: "find_entity bear b db = Some e0" using assms(4) by (auto simp: get_entity_def)
  let ?e = "entity_into_row (e0\<lparr>en_resolution := ''merged'', en_superseded_by := Some b\<rparr>)"
  have get: "get_entity bear b ?db = Some ?e" using e0 find_entityD(3) [OF e0] by (simp add: get_entity_def find_entity_merged)
  have stay: "follow_forward bear ?db n (Some ?e) = Some ?e" for n using get by (induction n) auto
  obtain ea where "get_entity bear a ?db = Some ea" "er_superseded_by ea = Some b"
    using get_entity_merged [OF ne] assms(2,3) by auto
  then have "resolve_live_entity bear a ?db = Some ?e" "resolve_live_entity bear b ?db = Some ?e"
    using stay [of 31] stay [of 32] get by (simp_all add: resolve_live_entity_def MAX_HOPS_def eval_nat_numeral)
  moreover have "er_entity_id ?e = b" "er_resolution ?e = ResMerged" using find_entityD(3) [OF e0]
    by (simp_all add: entity_into_row_def resolution_parse_def)
  ultimately show ?thesis using run loops by (auto simp: can_bear_access_def less_eq_resolution_state_def)
qed

theorem merging_back_makes_loop_witness:
  "chain_end (entity_step ''bear'' (fst (merge_entities ''bear'' ''c'' ''a'' sample_memory))) 1000 ''a'' = None"
proof -
  have "get_entity ''bear'' ''c'' sample_memory = Some (entity_into_row (sample_entity ''c'' ''merged'' (Some ''a'')))"
    "get_entity ''bear'' ''a'' sample_memory = Some (entity_into_row (sample_entity ''a'' ''resolved'' None))" by code_simp+
  from merging_back_makes_loop [OF sample_memory_ok(1) this(1) _ this(2)]
  show ?thesis by (auto simp: sample_entity_def simp del: chain_end.simps)
qed

end
