(* ===== verification/Memory_Access.thy ===== *)
theory Memory_Access
  imports Memory_Merging
begin

section \<open>The access gate\<close>

text \<open>
  The gate as a specification over the table of access rules (\<open>gate_passes\<close>, \<open>rule_targets\<close>), and how
  a new relation changes it.
\<close>

subsection \<open>The access gate\<close>

text \<open>
  The gate as a specification over the table of access rules: the entities a record is addressed to
  and those it is confined to, each as it resolves now. Every rule that does not address is a
  confinement, one whose relation is not in the vocabulary included: the code puts its target among
  the confinements like any other, where its comment says that such a rule cannot be satisfied.
\<close>

definition live_id :: "string \<Rightarrow> memory_db \<Rightarrow> string \<Rightarrow> string" where
  "live_id bear db i = (case resolve_live_entity bear i db of Some e \<Rightarrow> er_entity_id e | None \<Rightarrow> i)"

definition addresses :: "link_rec \<Rightarrow> bool" where
  "addresses l \<longleftrightarrow> map_option rld_alias (relation_of (ln_relation l)) = Some ''audience''"

definition rule_targets :: "(link_rec \<Rightarrow> bool) \<Rightarrow> string \<Rightarrow> string \<Rightarrow> memory_db \<Rightarrow> string set" where
  "rule_targets p bear src db = {live_id bear db (ln_entity_id l) | l. l \<in> set (md_access_rules db) \<and> active_link bear l
     \<and> ln_src_memory_id l = src \<and> p l}"

definition gate_passes :: "string set \<Rightarrow> string set \<Rightarrow> access_context \<Rightarrow> bool" where
  "gate_passes addressed confined ctx \<longleftrightarrow>
     (addressed = {} \<or> addressed \<inter> set (ac_audience ctx) \<noteq> {}) \<and> confined \<subseteq> set (ac_confinement ctx)"

lemma rule_target_live_id: "rule_target bear db (link_into_row c l) = live_id bear db (ln_entity_id l)"
  by (cases "resolve_live_entity bear (ln_entity_id l) db") (simp_all add: rule_target_def live_id_def link_into_row_def)

lemma set_access_rules:
  "set (list_access_rules_for_source bear src db)
     = link_into_row AccessBearing ` {l \<in> set (md_access_rules db). active_link bear l \<and> ln_src_memory_id l = src}"
  by (simp add: list_access_rules_for_source_def by_sequence_desc_def)

lemma audience_rule_addresses: "is_audience_rule (link_into_row c l) = addresses l"
  by (simp add: is_audience_rule_def addresses_def link_into_row_def)

lemma targets_of_rules:
  "rule_target bear db ` {r \<in> set (list_access_rules_for_source bear src db). is_audience_rule r} = rule_targets addresses bear src db"
  "rule_target bear db ` {r \<in> set (list_access_rules_for_source bear src db). \<not> is_audience_rule r}
     = rule_targets (\<lambda>l. \<not> addresses l) bear src db"
proof -
  let ?S = "{l \<in> set (md_access_rules db). active_link bear l \<and> ln_src_memory_id l = src}"
  have "{r \<in> link_into_row AccessBearing ` ?S. p r} = link_into_row AccessBearing ` {l \<in> ?S. p (link_into_row AccessBearing l)}" for p
    by blast
  moreover have "{f x | x. x \<in> X} = f ` X" for f :: "link_rec \<Rightarrow> string" and X by blast
  ultimately show "rule_target bear db ` {r \<in> set (list_access_rules_for_source bear src db). is_audience_rule r} = rule_targets addresses bear src db"
    "rule_target bear db ` {r \<in> set (list_access_rules_for_source bear src db). \<not> is_audience_rule r}
       = rule_targets (\<lambda>l. \<not> addresses l) bear src db"
    unfolding set_access_rules rule_targets_def
    by (simp_all add: audience_rule_addresses image_image rule_target_live_id) blast+
qed

lemma record_visible_gate:
  "record_visible bear src ctx db
     \<longleftrightarrow> gate_passes (rule_targets addresses bear src db) (rule_targets (\<lambda>l. \<not> addresses l) bear src db) ctx"
proof -
  let ?rules = "list_access_rules_for_source bear src db"
  have sets: "set (map (rule_target bear db) (filter is_audience_rule ?rules)) = rule_targets addresses bear src db"
    "set (map (rule_target bear db) (filter (\<lambda>r. \<not> is_audience_rule r) ?rules)) = rule_targets (\<lambda>l. \<not> addresses l) bear src db"
    using targets_of_rules by simp_all
  have empty: "?rules = [] \<Longrightarrow> rule_targets addresses bear src db = {} \<and> rule_targets (\<lambda>l. \<not> addresses l) bear src db = {}"
    using sets by (metis filter.simps(1) list.simps(8) set_empty)
  show ?thesis
    unfolding record_visible_def Let_def gate_passes_def set_empty [symmetric] sets using empty by (auto simp del: set_empty)
qed

lemma gate_passes_mono:
  "gate_passes A C ctx \<Longrightarrow> set (ac_audience ctx) \<subseteq> set (ac_audience ctx') \<Longrightarrow> set (ac_confinement ctx) \<subseteq> set (ac_confinement ctx')
   \<Longrightarrow> gate_passes A C ctx'"
  unfolding gate_passes_def by blast

text \<open>
  C9. The gate: a record is visible exactly if it is addressed to no one or to someone in the
  context, and every scope it is confined to is in the context, each entity taken as it resolves now.
  Without context it is visible exactly if no active rule names it, and a larger context never hides
  what a smaller one shows. A rule with a relation outside the vocabulary counts as a confinement to
  its target, and a context that has the target satisfies it; the comment in the code calls such a
  rule fail-closed, a confinement that cannot be satisfied, which holds only of contexts without the
  target (\<open>unknown_relation_confines\<close> below).
\<close>

theorem access_gate_spec:
  "(record_visible bear src ctx db
      \<longleftrightarrow> gate_passes (rule_targets addresses bear src db) (rule_targets (\<lambda>l. \<not> addresses l) bear src db) ctx)
   \<and> (record_visible bear src empty_context db
      \<longleftrightarrow> filter (\<lambda>l. active_link bear l \<and> ln_src_memory_id l = src) (md_access_rules db) = [])
   \<and> (record_visible bear src ctx db \<le> record_visible bear src (with_confinement cs (with_audience as ctx)) db)"
proof (intro conjI)
  show "record_visible bear src empty_context db
      \<longleftrightarrow> filter (\<lambda>l. active_link bear l \<and> ln_src_memory_id l = src) (md_access_rules db) = []"
    unfolding record_visible_gate gate_passes_def rule_targets_def by (auto simp: empty_context_def filter_empty_conv)
  show "record_visible bear src ctx db \<le> record_visible bear src (with_confinement cs (with_audience as ctx)) db"
    unfolding record_visible_gate le_bool_def
    by (auto elim!: gate_passes_mono simp: with_audience_def with_confinement_def)
qed (rule record_visible_gate)

text \<open>
  A record whose only active rule has a relation outside the vocabulary is not hidden for good: it
  is visible in exactly the contexts that have the rule's target among the confinements. Appending
  a relation refuses unknown relations, so such a rule comes from elsewhere.
\<close>

lemma unknown_relation_confines:
  assumes "filter (\<lambda>l. active_link bear l \<and> ln_src_memory_id l = src) (md_access_rules db) = [l]"
    and "relation_of (ln_relation l) = None"
  shows "record_visible bear src ctx db \<longleftrightarrow> live_id bear db (ln_entity_id l) \<in> set (ac_confinement ctx)"
proof -
  have "{x \<in> set (md_access_rules db). active_link bear x \<and> ln_src_memory_id x = src} = {l}"
    using arg_cong [OF assms(1), of set] by simp
  then have only: "(x \<in> set (md_access_rules db) \<and> active_link bear x \<and> ln_src_memory_id x = src \<and> p x) = (x = l \<and> p x)" for x p
    by blast
  have "\<not> addresses l" using assms(2) by (simp add: addresses_def)
  then have "rule_targets addresses bear src db = {}"
    "rule_targets (\<lambda>x. \<not> addresses x) bear src db = {live_id bear db (ln_entity_id l)}"
    unfolding rule_targets_def only [of _ addresses] only [of _ "\<lambda>x. \<not> addresses x"] by auto
  then show ?thesis unfolding record_visible_gate gate_passes_def by simp
qed

subsection \<open>Adding a relation\<close>

lemma append_relation_run:
  assumes "append_relation bear fresh now src i rel q prof agent conf db = (db', Inr row)"
  obtains d target l where "relation_of rel = Some d" "resolve_live_entity bear i db = Some target" "relation_error d target q = None"
    "ln_src_memory_id l = src" "ln_entity_id l = er_entity_id target" "ln_relation l = rld_id d" "active_link bear l"
    "md_entities db' = md_entities db"
    "md_relations db' = md_relations db @ (if rld_class d = Descriptive then [l] else [])"
    "md_access_rules db' = md_access_rules db @ (if rld_class d = AccessBearing then [l] else [])"
    "rr_class row = rld_class d" "rr_entity_id row = er_entity_id target"
proof -
  obtain d target where d: "relation_of rel = Some d" and t: "resolve_live_entity bear i db = Some target"
    and e: "relation_error d target q = None"
    using assms by (auto simp: append_relation_def bindM_def queryM_def failM_def split: option.splits)
  let ?l = "\<lparr>ln_id = fresh, ln_bear = bear, ln_sequence_no = md_next_sequence db, ln_src_memory_id = src,
    ln_entity_id = er_entity_id target, ln_relation = rld_id d, ln_qualifiers = (if q = JNull then JObj [] else q),
    ln_author_profile = prof, ln_author_agent_id = agent, ln_confidence = conf,
    ln_state = ''active'', ln_supersedes_link_id = None, ln_created_at = now\<rparr>"
  have run: "md_entities db' = md_entities db"
    "md_relations db' = md_relations db @ (if rld_class d = Descriptive then [?l] else [])"
    "md_access_rules db' = md_access_rules db @ (if rld_class d = AccessBearing then [?l] else [])"
    "rr_class row = rld_class d" "rr_entity_id row = er_entity_id target"
    using assms d t e
    by (auto simp: append_relation_def bindM_def queryM_def failM_def returnM_def next_sequence_def checked_writeM_def insert_link_def
        link_into_row_def Let_def split: if_splits relation_class.splits)
  show ?thesis by (rule that [OF d t e _ _ _ _ run]) (simp_all add: active_link_def)
qed

lemma get_entity_cong: "md_entities db' = md_entities db \<Longrightarrow> get_entity bear i db' = get_entity bear i db"
  by (simp add: get_entity_def find_entity_def)

lemma follow_forward_cong:
  assumes "md_entities db' = md_entities db"
  shows "follow_forward bear db' n e = follow_forward bear db n e"
proof (induction n arbitrary: e)
  case 0
  then show ?case by (cases e) auto
next
  case (Suc n)
  then show ?case by (cases e) (auto simp: get_entity_cong [OF assms] split: option.split)
qed

lemma resolve_live_cong: "md_entities db' = md_entities db \<Longrightarrow> resolve_live_entity bear i db' = resolve_live_entity bear i db"
  unfolding resolve_live_entity_def by (metis follow_forward_cong get_entity_cong)

lemma resolved_is_live:
  assumes "chains_within bear 32 db" and "resolve_live_entity bear i db = Some e"
  shows "get_entity bear (er_entity_id e) db = Some e" "entity_step bear db (er_entity_id e) = None"
    "live_id bear db (er_entity_id e) = er_entity_id e"
proof -
  obtain r where r: "chain_end (entity_step bear db) MAX_HOPS i = Some r"
    using chains_withinD [OF assms(1), of MAX_HOPS i] by (force simp: MAX_HOPS_def)
  then have "get_entity bear r db = Some e" using resolve_live_end [OF r] assms(2) by simp
  then show e: "get_entity bear (er_entity_id e) db = Some e" "entity_step bear db (er_entity_id e) = None"
    using get_entity_id chain_end_live [OF r] by auto
  show "live_id bear db (er_entity_id e) = er_entity_id e"
    using e resolve_live_self [OF e(2)] by (simp add: live_id_def)
qed

lemma relation_of_in: "relation_of x = Some d \<Longrightarrow> d \<in> set RELATIONS"
  by (auto simp: relation_of_def find_Some_iff)

lemma relation_ids: "d \<in> set RELATIONS \<Longrightarrow> relation_of (rld_id d) = Some d"
proof -
  have "list_all (\<lambda>d. relation_of (rld_id d) = Some d) RELATIONS" by code_simp
  then show "d \<in> set RELATIONS \<Longrightarrow> relation_of (rld_id d) = Some d" by (simp add: list_all_iff)
qed

lemma access_relations: "d \<in> set RELATIONS \<Longrightarrow> rld_class d = AccessBearing \<longleftrightarrow> rld_alias d \<in> {''audience'', ''confined_to''}"
proof -
  have "list_all (\<lambda>d. rld_class d = AccessBearing \<longleftrightarrow> rld_alias d = ''audience'' \<or> rld_alias d = ''confined_to'') RELATIONS" by code_simp
  then show "d \<in> set RELATIONS \<Longrightarrow> rld_class d = AccessBearing \<longleftrightarrow> rld_alias d \<in> {''audience'', ''confined_to''}"
    by (auto simp: list_all_iff)
qed

text \<open>
  C23. Adding a relation changes what is visible exactly by the rule it states: a descriptive
  relation changes nothing; \<open>audience\<close> adds its live target to those its record is addressed to,
  \<open>confined_to\<close> adds its target to the scopes the record is confined to, and no other record is
  affected. The target of such a rule is resolved or confirmed when it is written.
\<close>

theorem relation_changes_the_gate:
  assumes "append_relation bear fresh now src i rel q prof agent conf db = (db', Inr row)" and "chains_within bear 32 db"
    and "relation_of rel = Some d"
  shows "(record_visible bear m ctx db' \<longleftrightarrow>
      gate_passes (rule_targets addresses bear m db \<union> (if m = src \<and> rld_alias d = ''audience'' then {rr_entity_id row} else {}))
        (rule_targets (\<lambda>l. \<not> addresses l) bear m db \<union> (if m = src \<and> rld_alias d = ''confined_to'' then {rr_entity_id row} else {})) ctx)
    \<and> (rld_alias d \<in> {''audience'', ''confined_to''} \<longrightarrow>
      (\<exists>target. resolve_live_entity bear i db = Some target \<and> rr_entity_id row = er_entity_id target \<and> can_bear_access (er_resolution target)))"
proof -
  obtain target l where t: "resolve_live_entity bear i db = Some target" and err: "relation_error d target q = None"
    and l: "ln_src_memory_id l = src" "ln_entity_id l = er_entity_id target" "ln_relation l = rld_id d" "active_link bear l"
    and db': "md_entities db' = md_entities db"
      "md_access_rules db' = md_access_rules db @ (if rld_class d = AccessBearing then [l] else [])"
    and row: "rr_entity_id row = er_entity_id target"
    by (rule append_relation_run [OF assms(1)]) (use assms(3) in auto)
  have d: "d \<in> set RELATIONS" using assms(3) by (rule relation_of_in)
  have live: "live_id bear db' = live_id bear db" by (rule ext) (simp add: live_id_def resolve_live_cong [OF db'(1)])
  have addr: "addresses l \<longleftrightarrow> rld_alias d = ''audience''" using relation_ids [OF d] l(3) by (simp add: addresses_def)
  have target: "live_id bear db (ln_entity_id l) = rr_entity_id row" using resolved_is_live(3) [OF assms(2) t] l(2) row by simp
  have targets: "rule_targets p bear m db' = rule_targets p bear m db \<union> (if rld_class d = AccessBearing \<and> m = src \<and> p l then {rr_entity_id row} else {})" for p
    unfolding rule_targets_def db'(2) live using l target by (auto intro: exI [of _ l])
  have "\<exists>target. resolve_live_entity bear i db = Some target \<and> rr_entity_id row = er_entity_id target \<and> can_bear_access (er_resolution target)"
    if "rld_alias d \<in> {''audience'', ''confined_to''}"
    using that t row err access_relations [OF d] by (auto simp: relation_error_def split: if_splits option.splits)
  then show ?thesis
    unfolding record_visible_gate targets using addr access_relations [OF d] by (auto split: if_splits)
qed

theorem relation_changes_the_gate_witness:
  "\<not> record_visible ''bear'' ''m2'' empty_context
     (fst (append_relation ''bear'' ''x3'' ''t'' ''m2'' ''c'' ''audience'' (JObj []) ''pair'' None None sample_memory))"
proof -
  have "\<not> isl (snd (append_relation ''bear'' ''x3'' ''t'' ''m2'' ''c'' ''audience'' (JObj []) ''pair'' None None sample_memory))" by code_simp
  then obtain db' row where run: "append_relation ''bear'' ''x3'' ''t'' ''m2'' ''c'' ''audience'' (JObj []) ''pair'' None None sample_memory = (db', Inr row)"
    by (metis prod.collapse sum.collapse(2))
  have "chains_within ''bear'' 32 sample_memory" by code_simp
  moreover have "map_option rld_alias (relation_of ''audience'') = Some ''audience''" by code_simp
  then obtain d where "relation_of ''audience'' = Some d" "rld_alias d = ''audience''" by auto
  ultimately show ?thesis
    using relation_changes_the_gate [OF run, of d "''m2''" empty_context] run by (simp add: gate_passes_def empty_context_def)
qed

end
