(* ===== verification/Memory_Upkeep.thy ===== *)
theory Memory_Upkeep
  imports Memory_Curation
begin

section \<open>Other writers of a memory database\<close>

text \<open>
  The statements on a bear's memory database that are not calls of the memory service: what opening
  it runs (\<open>den-memory/src/migrate.rs\<close>), the import of a record from a legacy bundle
  (\<open>den-memory/src/import.rs\<close>) and the deletion of paths on the memory page
  (\<open>den-web/src/bear/memory.rs\<close>). A database has the present columns, so the statements that add, drop
  or rename some, and the rebuilding of a table with the old vocabulary, do not run. The git program
  that an import reads its drafts from is left out: a draft is an argument.
\<close>

subsection \<open>Opening\<close>

definition migrate_scope_type_values :: "unit memory_op" where
  "migrate_scope_type_values =
     update_records (\<lambda>r. mr_scope_type r = ''role_local'') (\<lambda>r. r\<lparr>mr_scope_type := ''profile_local''\<rparr>)"

text \<open>\<open>kind GLOB 'mem_[0-9a-fA-F]*'\<close>.\<close>

definition hashed_kind :: "string \<Rightarrow> bool" where
  "hashed_kind k \<longleftrightarrow> prefix ''mem_'' k \<and> (case drop 4 k of [] \<Rightarrow> False | c # _ \<Rightarrow> c \<in> set ''0123456789abcdefABCDEF'')"

definition legacy_import_hashed :: "memory_rec \<Rightarrow> bool" where
  "legacy_import_hashed r \<longleftrightarrow> sql_like None ''legacy-memory-import:%'' (mr_id r) \<and> hashed_kind (mr_kind r)"

definition normalize_legacy_import_hashed_kinds :: "unit memory_op" where
  "normalize_legacy_import_hashed_kinds = update_records legacy_import_hashed (\<lambda>r. r\<lparr>mr_kind := ''note''\<rparr>)"

definition migrate_bear_sqlite_schema :: "unit memory_op" where
  "migrate_bear_sqlite_schema = bindM migrate_scope_type_values (\<lambda>_. normalize_legacy_import_hashed_kinds)"

subsection \<open>Import\<close>

record import_draft =
  imd_memory_id :: string
  imd_logical :: logical_memory_path
  imd_logical_path :: string
  imd_kind :: string
  imd_author_profile :: string
  imd_created_at :: string
  imd_content_text :: string
  imd_metadata :: json
  imd_supersedes :: "string option"

definition imported_record :: "string \<Rightarrow> int \<Rightarrow> import_draft \<Rightarrow> memory_rec" where
  "imported_record bear seq d =
     \<lparr>mr_id = imd_memory_id d, mr_bear = bear, mr_sequence_no = seq, mr_scope_type = memory_scope_type_str (lmp_scope_type (imd_logical d)),
      mr_scope_profile = lmp_scope_profile (imd_logical d), mr_kind = imd_kind d, mr_author_profile = imd_author_profile d,
      mr_author_agent_id = None, mr_created_at = imd_created_at d, mr_content_text = imd_content_text d, mr_metadata = imd_metadata d,
      mr_supersedes = imd_supersedes d, mr_visibility = ''normal'', mr_logical_path = Some (imd_logical_path d),
      mr_work_surface_ref = lmp_work_surface_ref (imd_logical d), mr_valid_from = Some (imd_created_at d), mr_invalid_at = None,
      mr_salience = ''normal''\<rparr>"

text \<open>\<open>INSERT OR IGNORE\<close>: a row that breaks a constraint is not inserted, and that is no error.\<close>

definition insert_import_draft :: "string \<Rightarrow> import_draft \<Rightarrow> bool memory_op" where
  "insert_import_draft bear d =
     bindM next_sequence (\<lambda>seq.
     memory_write (\<lambda>db.
       let db' = db\<lparr>md_records := md_records db @ [imported_record bear seq d]\<rparr>
       in if memory_schema_ok db' then (db', True) else (db, False)))"

subsection \<open>Deletion\<close>

record memory_delete_form =
  mdf_role :: string
  mdf_paths :: "string list"
  mdf_action :: "string option"
  mdf_confirm :: string
  mdf_review_title :: "string option"
  mdf_review_summary :: "string option"
  mdf_review_rationale :: "string option"
  mdf_suggested_action :: "string option"
  mdf_sensitivity :: "string option"
  mdf_requires_human :: "string option"

definition selected_paths :: "memory_delete_form \<Rightarrow> string list" where
  "selected_paths form = remdups_adj (sort (filter (\<lambda>p. p \<noteq> []) (map trim (mdf_paths form))))"

definition form_action :: "memory_delete_form \<Rightarrow> string" where
  "form_action form = trim (unwrap_or (mdf_action form) ''delete'')"

definition given_text :: "string option \<Rightarrow> string \<Rightarrow> string" where
  "given_text v otherwise = unwrap_or (filter_opt (\<lambda>s. s \<noteq> []) (map_option trim v)) otherwise"

definition review_request :: "memory_delete_form \<Rightarrow> bear_stance \<Rightarrow> string option \<Rightarrow> string list \<Rightarrow> proposal_request" where
  "review_request form role binding paths =
     \<lparr>prq_source_profile = role, prq_source_agent_id = binding, prq_source_paths = paths, prq_source_refs = JArr [],
      prq_suggested_action = given_text (mdf_suggested_action form) ''unspecified'', prq_target_ref = None,
      prq_title = given_text (mdf_review_title form) ''Review selected memory'',
      prq_summary = given_text (mdf_review_summary form)
        ''Selected memory paths were marked for Reflection/curate review from the Bear memory UI.'',
      prq_rationale = unwrap_or (map_option trim (mdf_review_rationale form)) [], prq_proposed_content = None,
      prq_proposed_patch = None, prq_refs = JObj [], prq_sensitivity = given_text (mdf_sensitivity form) ''normal'',
      prq_requires_human = (mdf_requires_human form = Some ''on'')\<rparr>"

definition at_path :: "string \<Rightarrow> string \<Rightarrow> string \<Rightarrow> memory_rec \<Rightarrow> bool" where
  "at_path bear profile path r \<longleftrightarrow> mr_bear r = bear \<and> mr_scope_profile r = Some profile \<and> mr_logical_path r = Some path"

definition delete_records :: "string \<Rightarrow> string \<Rightarrow> string \<Rightarrow> nat memory_op" where
  "delete_records bear profile path = memory_write (\<lambda>db.
     (db\<lparr>md_records := filter (\<lambda>r. \<not> at_path bear profile path r) (md_records db)\<rparr>,
      length (filter (at_path bear profile path) (md_records db))))"

fun delete_paths :: "string \<Rightarrow> string \<Rightarrow> nat \<Rightarrow> string list \<Rightarrow> nat memory_op" where
  "delete_paths bear profile deleted [] = returnM deleted"
| "delete_paths bear profile deleted (path # paths) =
     bindM (delete_records bear profile path) (\<lambda>rows_affected.
     delete_paths bear profile (if rows_affected > 0 then deleted + 1 else deleted) paths)"

definition deletion_confirmed :: "string \<Rightarrow> memory_delete_form \<Rightarrow> bear_stance \<Rightarrow> bool" where
  "deletion_confirmed slug form role \<longleftrightarrow> trim (mdf_confirm form) = stance_as_str role \<or> trim (mdf_confirm form) = slug"

text \<open>
  The handler, once the session's user is known to be a member of the bear; \<open>can_manage\<close> is whether
  the user manages it. \<open>encode\<close> is the URL encoding; \<open>binding_of\<close> and \<open>file_review\<close> read the bindings and
  file the proposal in the service's own database, with the source paths of the proposal as the
  result of the latter. The result is where the answer redirects to.
\<close>

definition browse_delete_post ::
    "(string \<Rightarrow> string) \<Rightarrow> (bear_stance \<Rightarrow> den_error + string option) \<Rightarrow> (proposal_request \<Rightarrow> den_error + string list) \<Rightarrow> bool
     \<Rightarrow> string \<Rightarrow> string \<Rightarrow> memory_delete_form \<Rightarrow> string memory_op" where
  "browse_delete_post encode binding_of file_review can_manage slug bear form =
     (if \<not> can_manage then failM (Failed (Authorization ''bear admin role required''))
      else case stance_from_str (mdf_role form) of
        Inl e \<Rightarrow> failM (Failed (ValidationError e))
      | Inr role \<Rightarrow>
          let paths = selected_paths form; browse_base = ''/bear/'' @ slug @ ''/memory/browse'' in
          if paths = [] then returnM (browse_base @ ''?error='' @ encode ''Select at least one memory path.'')
          else if form_action form = ''request_review'' then
            bindM (tryM (binding_of role)) (\<lambda>binding.
            bindM (tryM (file_review (review_request form role binding paths))) (\<lambda>source_paths.
            returnM (browse_base @ ''?review_requested=1&path='' @ encode (case source_paths of [] \<Rightarrow> [] | p # _ \<Rightarrow> p))))
          else if \<not> deletion_confirmed slug form role then
            returnM (browse_base @ ''?error='' @ encode ''Type the profile name or Bear slug to confirm deletion.'')
          else
            bindM (delete_paths bear (stance_as_str role) 0 paths) (\<lambda>deleted.
            returnM (browse_base @ ''?deleted='' @ show_nat deleted)))"

end
