(* ===== verification/Memory_Growth.thy ===== *)
theory Memory_Growth
  imports Memory_Access Memory_Upkeep
begin

section \<open>What the memory keeps\<close>

text \<open>
  Tables that only grow (\<open>kept_rows\<close>, interpreted on the tables whose rows may change),
  the frame of all of them (\<open>memory_grown\<close>, and \<open>memory_kept\<close> where records are deleted), that every
  operation keeps it, and sequences of calls.
\<close>

subsection \<open>What the memory keeps\<close>

text \<open>
  A table that only grows: its rows stay in place, each related to what it was, and new ones follow.
\<close>

definition grown :: "('r \<Rightarrow> 'r \<Rightarrow> bool) \<Rightarrow> 'r list \<Rightarrow> 'r list \<Rightarrow> bool" where
  "grown R xs ys \<longleftrightarrow> length xs \<le> length ys \<and> list_all2 R xs (take (length xs) ys)"

locale kept_rows =
  fixes R :: "'r \<Rightarrow> 'r \<Rightarrow> bool"
  assumes row_refl: "R r r"
    and row_trans: "R r s \<Longrightarrow> R s t \<Longrightarrow> R r t"
begin

lemma grown_refl: "grown R xs xs"
  by (simp add: grown_def list_all2_refl row_refl)

lemma grown_iff: "grown R xs ys \<longleftrightarrow> (\<exists>zs new. ys = zs @ new \<and> list_all2 R xs zs)"
proof
  assume "grown R xs ys"
  then show "\<exists>zs new. ys = zs @ new \<and> list_all2 R xs zs"
    unfolding grown_def by (metis append_take_drop_id)
next
  assume "\<exists>zs new. ys = zs @ new \<and> list_all2 R xs zs"
  then obtain zs new where "ys = zs @ new" "list_all2 R xs zs" by blast
  then show "grown R xs ys" using list_all2_lengthD [of R xs zs] by (simp add: grown_def)
qed

lemma grown_trans:
  assumes "grown R xs ys" and "grown R ys zs"
  shows "grown R xs zs"
proof -
  have "list_all2 R (take (length xs) ys) (take (length xs) zs)"
    using assms list_all2_takeI [of R ys "take (length ys) zs" "length xs"] by (auto simp: grown_def min_absorb1)
  with assms have "list_all2 R xs (take (length xs) zs)"
    using list_all2_trans [of R R R] row_trans by (metis grown_def)
  with assms show ?thesis by (simp add: grown_def)
qed

lemma grown_append: "grown R xs (xs @ new)"
  by (auto simp: grown_iff intro: list_all2_refl row_refl)

lemma grown_update: "(\<And>r. r \<in> set xs \<Longrightarrow> g r \<Longrightarrow> R r (f r)) \<Longrightarrow> grown R xs (update_where g f xs)"
  by (auto simp: grown_def update_where_def list_all2_conv_all_nth row_refl)

lemma grown_filter:
  assumes "grown R xs ys" and "\<And>r s. R r s \<Longrightarrow> p r = p s"
  shows "grown R (filter p xs) (filter p ys)"
proof -
  have "list_all2 R as bs \<Longrightarrow> list_all2 R (filter p as) (filter p bs)" for as bs
    by (induction rule: list_all2_induct) (auto dest: assms(2))
  with assms(1) show ?thesis unfolding grown_iff by (metis filter_append)
qed

lemma grown_row: "grown R xs ys \<Longrightarrow> r \<in> set xs \<Longrightarrow> \<exists>r' \<in> set ys. R r r'"
  by (auto simp: grown_def list_all2_conv_all_nth in_set_conv_nth) (metis nth_mem order_less_le_trans)

end

text \<open>
  Rows are kept up to the columns that may change, which are compared after being cleared: of a
  record only the metadata, the end of its validity, which is set once, and the kind, which is
  corrected for imports with a hashed name in its place; of an entity its state,
  trust and references, where a forward pointer is never taken away; of a handle its owner and that
  it is detached; of an observation its proposal and its status, which stays open once it is; of a
  proposal its status, its payload and the time of its review, which stays set; of a harvest mark
  everything but its source; of a reflection run what its completion sets. Promotions never change.
\<close>

definition record_kept :: "memory_rec \<Rightarrow> memory_rec \<Rightarrow> bool" where
  "record_kept r r' \<longleftrightarrow> r'\<lparr>mr_metadata := JNull, mr_invalid_at := None, mr_kind := []\<rparr>
       = r\<lparr>mr_metadata := JNull, mr_invalid_at := None, mr_kind := []\<rparr>
     \<and> (mr_invalid_at r = None \<or> mr_invalid_at r' = mr_invalid_at r)
     \<and> (mr_kind r' = mr_kind r \<or> legacy_import_hashed r \<and> mr_kind r' = ''note'')"

definition entity_kept :: "entity_rec \<Rightarrow> entity_rec \<Rightarrow> bool" where
  "entity_kept e e' \<longleftrightarrow>
     e'\<lparr>en_resolution := [], en_trust := [], en_canonical_ref := None, en_superseded_by := None\<rparr>
       = e\<lparr>en_resolution := [], en_trust := [], en_canonical_ref := None, en_superseded_by := None\<rparr>
     \<and> (en_superseded_by e = None \<or> en_superseded_by e' \<noteq> None)"

definition handle_kept :: "handle_rec \<Rightarrow> handle_rec \<Rightarrow> bool" where
  "handle_kept h h' \<longleftrightarrow> h'\<lparr>hn_entity_id := [], hn_state := []\<rparr> = h\<lparr>hn_entity_id := [], hn_state := []\<rparr>
     \<and> (hn_state h' = hn_state h \<or> hn_state h' = ''detached'')"

definition observation_kept :: "observation_rec \<Rightarrow> observation_rec \<Rightarrow> bool" where
  "observation_kept o1 o2 \<longleftrightarrow> o2\<lparr>ob_status := [], ob_proposal_id := None\<rparr> = o1\<lparr>ob_status := [], ob_proposal_id := None\<rparr>
     \<and> (ob_status o1 \<in> set [''pending_review'', ''review_queued''] \<longrightarrow> ob_status o2 \<in> set [''pending_review'', ''review_queued''])"

definition proposal_kept :: "proposal_rec \<Rightarrow> proposal_rec \<Rightarrow> bool" where
  "proposal_kept p p' \<longleftrightarrow> p'\<lparr>pr_status := [], pr_payload := JNull, pr_reviewed_at := None\<rparr>
       = p\<lparr>pr_status := [], pr_payload := JNull, pr_reviewed_at := None\<rparr>
     \<and> (pr_reviewed_at p = None \<or> pr_reviewed_at p' \<noteq> None)"

definition harvest_kept :: "harvest_rec \<Rightarrow> harvest_rec \<Rightarrow> bool" where
  "harvest_kept h h' \<longleftrightarrow> h'\<lparr>hm_source_hash := None, hm_harvested_at := [], hm_run_id := None, hm_proposal_ids := []\<rparr>
     = h\<lparr>hm_source_hash := None, hm_harvested_at := [], hm_run_id := None, hm_proposal_ids := []\<rparr>"

definition outcome_kept :: "outcome_rec \<Rightarrow> outcome_rec \<Rightarrow> bool" where
  "outcome_kept c c' \<longleftrightarrow> c'\<lparr>oc_status := [], oc_output_summary := None, oc_proposal_ids := [], oc_completed_at := None\<rparr>
       = c\<lparr>oc_status := [], oc_output_summary := None, oc_proposal_ids := [], oc_completed_at := None\<rparr>
     \<and> (oc_completed_at c = None \<or> oc_completed_at c' \<noteq> None)"

definition link_kept :: "relation_class \<Rightarrow> link_rec list \<Rightarrow> link_rec list \<Rightarrow> bool" where
  "link_kept c ls ls' \<longleftrightarrow> prefix ls ls' \<and> list_all (\<lambda>l. relation_class_of (ln_relation l) = Some c) (drop (length ls) ls')"

lemma note_not_hashed: "mr_kind r = ''note'' \<Longrightarrow> \<not> legacy_import_hashed r"
  by (simp add: legacy_import_hashed_def hashed_kind_def)

lemma record_kept_columns:
  "record_kept r r' \<Longrightarrow> mr_id r' = mr_id r \<and> mr_bear r' = mr_bear r \<and> mr_scope_profile r' = mr_scope_profile r
     \<and> mr_logical_path r' = mr_logical_path r"
  by (cases r; cases r') (simp add: record_kept_def)

lemma record_kept_hashed: "record_kept r r' \<Longrightarrow> legacy_import_hashed r' \<Longrightarrow> legacy_import_hashed r"
  using note_not_hashed record_kept_columns unfolding record_kept_def by (metis legacy_import_hashed_def)

interpretation records: kept_rows record_kept
proof
  show "record_kept r r" for r by (simp add: record_kept_def)
  show "record_kept r t" if "record_kept r s" "record_kept s t" for r s t
    using that record_kept_hashed [OF that(1)] note_not_hashed [of s] unfolding record_kept_def by metis
qed

interpretation entities: kept_rows entity_kept
  by unfold_locales (auto simp: entity_kept_def)

interpretation handles: kept_rows handle_kept
  by unfold_locales (auto simp: handle_kept_def)

interpretation observations: kept_rows observation_kept
  by unfold_locales (auto simp: observation_kept_def)

interpretation proposals: kept_rows proposal_kept
  by unfold_locales (auto simp: proposal_kept_def)

interpretation harvests: kept_rows harvest_kept
  by unfold_locales (auto simp: harvest_kept_def)

interpretation outcomes: kept_rows outcome_kept
  by unfold_locales (auto simp: outcome_kept_def)

lemma link_kept_refl [simp]: "link_kept c ls ls"
  by (simp add: link_kept_def)

lemma link_kept_trans: "link_kept c ls ls' \<Longrightarrow> link_kept c ls' ls'' \<Longrightarrow> link_kept c ls ls''"
  by (auto simp: link_kept_def prefix_def list_all_iff)

lemma link_kept_snoc: "relation_class_of (ln_relation l) = Some c \<Longrightarrow> link_kept c ls (ls @ [l])"
  by (simp add: link_kept_def)

definition memory_grown :: "memory_db \<Rightarrow> memory_db \<Rightarrow> bool" where
  "memory_grown db db' \<longleftrightarrow> md_next_sequence db \<le> md_next_sequence db'
     \<and> grown record_kept (md_records db) (md_records db') \<and> grown entity_kept (md_entities db) (md_entities db')
     \<and> grown handle_kept (md_handles db) (md_handles db') \<and> grown observation_kept (md_observations db) (md_observations db')
     \<and> link_kept Descriptive (md_relations db) (md_relations db') \<and> link_kept AccessBearing (md_access_rules db) (md_access_rules db')
     \<and> prefix (md_promotions db) (md_promotions db') \<and> grown proposal_kept (md_proposals db) (md_proposals db')
     \<and> grown harvest_kept (md_harvest_marks db) (md_harvest_marks db') \<and> grown outcome_kept (md_outcomes db) (md_outcomes db')"

lemmas rows_refl = records.grown_refl entities.grown_refl handles.grown_refl observations.grown_refl proposals.grown_refl
  harvests.grown_refl outcomes.grown_refl

lemma memory_grown_refl: "memory_grown db db"
  by (simp add: memory_grown_def rows_refl)

interpretation grow: db_frame memory_schema_ok memory_grown
proof
  show "memory_grown db db" for db by (rule memory_grown_refl)
  show "memory_grown db db''" if "memory_grown db db'" "memory_grown db' db''" for db db' db''
    using that records.grown_trans entities.grown_trans handles.grown_trans observations.grown_trans link_kept_trans
      proposals.grown_trans harvests.grown_trans outcomes.grown_trans prefix_order.order_trans
    unfolding memory_grown_def by (meson order_trans)
qed

abbreviation grows :: "'a memory_op \<Rightarrow> bool" where
  "grows m \<equiv> stays_in memory_schema_ok memory_grown m"

lemmas growI = memory_grown_def rows_refl

lemmas row_appends = records.grown_append entities.grown_append handles.grown_append observations.grown_append proposals.grown_append
  harvests.grown_append outcomes.grown_append

lemma grow_sequence: "grows next_sequence"
  unfolding next_sequence_def by (rule grow.stays_write) (simp add: growI)

lemma grow_entities: "(\<And>e. g e \<Longrightarrow> entity_kept e (f e)) \<Longrightarrow> grows (update_entities g f)"
  unfolding update_entities_def by (rule grow.stays_write) (simp add: growI entities.grown_update)

lemma grow_handles: "(\<And>h. g h \<Longrightarrow> handle_kept h (f h)) \<Longrightarrow> grows (update_handles g f)"
  unfolding update_handles_def by (rule grow.stays_write) (simp add: growI handles.grown_update)

lemma grow_records: "(\<And>r. g r \<Longrightarrow> record_kept r (f r)) \<Longrightarrow> grows (update_records g f)"
  unfolding update_records_def by (rule grow.stays_write) (simp add: growI records.grown_update)

lemma grow_new_rows:
  "grows (memory_write (\<lambda>db. (db\<lparr>md_entities := md_entities db @ [e]\<rparr>, ())))"
  "grows (memory_write (\<lambda>db. (db\<lparr>md_handles := md_handles db @ [h]\<rparr>, ())))"
  "grows (memory_write (\<lambda>db. (db\<lparr>md_records := md_records db @ [r]\<rparr>, ())))"
  "grows (memory_write (\<lambda>db. (db\<lparr>md_observations := md_observations db @ [q db]\<rparr>, ())))"
  "grows (memory_write (\<lambda>db. (db\<lparr>md_promotions := md_promotions db @ [pm]\<rparr>, ())))"
  "grows (memory_write (\<lambda>db. (db\<lparr>md_proposals := md_proposals db @ [p]\<rparr>, ())))"
  "grows (memory_write (\<lambda>db. (db\<lparr>md_outcomes := md_outcomes db @ [oc]\<rparr>, ())))"
  by (rule grow.stays_write; simp add: growI row_appends)+

lemma grow_link: "relation_class_of (ln_relation l) = Some c \<Longrightarrow> grows (insert_link c l)"
  unfolding insert_link_def by (rule grow.stays_write) (cases c; simp add: growI link_kept_snoc)

lemmas grow_intros = grow.stays_intros grow_sequence grow_new_rows

text \<open>
  Deletions on the memory page: the places, each a bear, a profile and a path, whose records may go.
  Everything else grows as before.
\<close>

definition record_place :: "memory_rec \<Rightarrow> string \<times> string option \<times> string option" where
  "record_place r = (mr_bear r, mr_scope_profile r, mr_logical_path r)"

definition records_outside :: "(string \<times> string option \<times> string option) set \<Rightarrow> memory_db \<Rightarrow> memory_db" where
  "records_outside D db = db\<lparr>md_records := filter (\<lambda>r. record_place r \<notin> D) (md_records db)\<rparr>"

definition memory_kept :: "(string \<times> string option \<times> string option) set \<Rightarrow> memory_db \<Rightarrow> memory_db \<Rightarrow> bool" where
  "memory_kept D db db' \<longleftrightarrow> memory_grown (records_outside D db) (records_outside D db')"

interpretation kept: db_frame memory_schema_ok "memory_kept D" for D
  by unfold_locales (auto simp: memory_kept_def memory_grown_refl dest: grow.frame_trans)

lemma memory_kept_nowhere [simp]: "memory_kept {} db db' = memory_grown db db'"
  by (simp add: memory_kept_def records_outside_def)

lemma grown_kept: "memory_grown db db' \<Longrightarrow> memory_kept D db db'"
proof -
  assume g: "memory_grown db db'"
  have "grown record_kept (filter (\<lambda>r. record_place r \<notin> D) (md_records db)) (filter (\<lambda>r. record_place r \<notin> D) (md_records db'))"
    using g by (intro records.grown_filter) (auto simp: memory_grown_def record_place_def dest: record_kept_columns)
  with g show ?thesis by (simp add: memory_kept_def records_outside_def memory_grown_def)
qed

abbreviation keeps_outside :: "(string \<times> string option \<times> string option) set \<Rightarrow> 'a memory_op \<Rightarrow> bool" where
  "keeps_outside D m \<equiv> stays_in memory_schema_ok (memory_kept D) m"

lemma grows_keeps: "grows m \<Longrightarrow> keeps_outside D m"
  by (simp add: stays_in_def grown_kept)

lemma keeps_delete: "(bear, Some profile, Some path) \<in> D \<Longrightarrow> keeps_outside D (delete_records bear profile path)"
proof -
  assume "(bear, Some profile, Some path) \<in> D"
  then have "filter (\<lambda>r. record_place r \<notin> D) (filter (\<lambda>r. \<not> at_path bear profile path r) rs) = filter (\<lambda>r. record_place r \<notin> D) rs" for rs
    by (induction rs) (auto simp: at_path_def record_place_def)
  then show ?thesis
    unfolding delete_records_def by (intro kept.stays_write) (simp add: memory_kept_def records_outside_def memory_grown_def rows_refl)
qed

lemma keeps_delete_paths:
  "(\<And>path. path \<in> set paths \<Longrightarrow> (bear, Some profile, Some path) \<in> D) \<Longrightarrow> keeps_outside D (delete_paths bear profile n paths)"
  by (induction paths arbitrary: n) (auto intro!: kept.stays_bind kept.stays_return keeps_delete)

lemma grow_create_entity: "grows (create_entity bear fresh now t name res trust cref meta)"
  unfolding create_entity_def Let_def by (intro grow_intros)

lemma grow_attach_handle: "grows (attach_handle bear fresh now i ht hv src trust)"
  unfolding attach_handle_def Let_def by (intro grow_intros)

lemma grow_detach_handle: "grows (detach_handle bear i)"
  unfolding detach_handle_def by (rule grow_handles) (simp add: handle_kept_def)

lemma grow_set_resolution: "grows (set_resolution bear i res trust)"
  unfolding set_resolution_def by (rule grow_entities) (auto simp: entity_kept_def split: option.split)

lemma grow_set_canonical_ref: "grows (set_canonical_ref bear i cref)"
  unfolding set_canonical_ref_def by (rule grow_entities) (auto simp: entity_kept_def)

lemma grow_merge_entities: "grows (merge_entities bear survivor loser)"
  unfolding merge_entities_def
  by (intro grow_intros grow_entities grow_handles) (simp_all add: entity_kept_def handle_kept_def)

lemma grow_move_handles: "grows (move_handles bear i ids)"
proof (induction ids)
  case Nil
  show ?case by (simp add: grow.stays_return)
next
  case (Cons h ids)
  then show ?case by (auto intro!: grow.stays_bind grow_handles simp: handle_kept_def)
qed

lemma grow_split_entity: "grows (split_entity bear fresh now t name ids res trust)"
  unfolding split_entity_def by (intro grow_intros grow_create_entity grow_move_handles)

lemma grow_attach_signals: "grows (attach_signals bear fresh now n i ss)"
proof (induction ss arbitrary: n)
  case Nil
  show ?case by (simp add: grow.stays_return)
next
  case (Cons s ss)
  then show ?case by (auto intro!: grow.stays_bind grow_attach_handle)
qed

lemma grow_create_with_signals: "grows (create_with_signals bear fresh now t name res trust ss)"
  unfolding create_with_signals_def by (intro grow_intros grow_create_entity grow_attach_signals)

lemma grow_resolve_signals: "grows (resolve_signals bear fresh now t name ss a)"
  unfolding resolve_signals_def Let_def
  by (intro grow_intros grow.stays_list grow_create_with_signals grow_attach_signals grow_set_resolution)

lemma grow_append_relation: "grows (append_relation bear fresh now src i rel q prof agent conf)"
proof (cases "relation_of rel")
  case (Some d)
  then have "relation_class_of (rld_id d) = Some (rld_class d)"
    using relation_ids [OF relation_of_in] by (simp add: relation_class_of_def)
  then show ?thesis
    unfolding append_relation_def Let_def Some option.case by (intro grow_intros grow_link) simp_all
qed (simp add: append_relation_def grow.stays_fail)

lemma grow_append_record: "grows (append_record_with_options bear fresh now logical kind prof agent content meta vis sal old)"
  unfolding append_record_with_options_def ensure_record_exists_def Let_def
  by (intro grow_intros grow_records) (auto simp: record_kept_def split: option.split)

lemma own_record_unique:
  assumes "memory_schema_ok db" and "List.find (own_record bear i) (md_records db) = Some row"
    and "r \<in> set (md_records db)" and "own_record bear i r"
  shows "r = row"
proof -
  have "row \<in> set (md_records db)" "mr_id row = i" using assms(2) by (auto simp: find_Some_iff own_record_def)
  then show ?thesis using assms by (auto simp: memory_schema_ok_def own_record_def distinct_map dest: inj_onD)
qed

lemma grow_mark_lifecycle: "grows (mark_memory_record_lifecycle bear now i status reason)"
proof (cases "normalize_lifecycle_status status")
  case (Inr s)
  show ?thesis
  proof (unfold stays_in_def, intro allI impI)
    fix db
    assume ok: "memory_schema_ok db"
    let ?m = "mark_memory_record_lifecycle bear now i status reason"
    show "memory_schema_ok (fst (?m db)) \<and> memory_grown db (fst (?m db))"
    proof (cases "List.find (own_record bear i) (md_records db)")
      case None
      then show ?thesis
        using ok Inr by (simp add: mark_memory_record_lifecycle_def bindM_def queryM_def failM_def memory_grown_refl)
    next
      case (Some row)
      let ?f = "\<lambda>r. (r\<lparr>mr_metadata := mark_metadata s now reason (mr_metadata row)\<rparr>)
          \<lparr>mr_invalid_at := (if s = ''superseded'' \<and> mr_invalid_at row = None then Some now else mr_invalid_at r)\<rparr>"
      let ?db = "db\<lparr>md_records := update_where (own_record bear i) ?f (md_records db)\<rparr>"
      have "record_kept r (?f r)" if "r \<in> set (md_records db)" "own_record bear i r" for r
        using own_record_unique [OF ok Some that] by (auto simp: record_kept_def)
      then have g: "memory_grown db ?db" by (simp add: growI records.grown_update)
      have "fst (?m db) = ?db \<or> fst (?m db) = db" "memory_schema_ok (fst (?m db))"
        using Some Inr ok
        by (auto simp: mark_memory_record_lifecycle_def bindM_def queryM_def update_records_def checked_writeM_def failM_def returnM_def
            split: option.split)
      then show ?thesis using g by (auto simp: memory_grown_refl)
    qed
  qed
qed (simp add: mark_memory_record_lifecycle_def grow.stays_fail)

lemma grow_create_observation: "grows (create_memory_observation bear now i summary sal path source)"
  unfolding create_memory_observation_def by (intro grow_intros)

lemma grow_mark_observation: "grows (mark_observation_review_queued bear i p)"
  unfolding mark_observation_review_queued_def
  by (rule grow.stays_write) (simp add: growI observations.grown_update observation_kept_def)

lemma grow_record_conflict: "grows (record_conflict_observation bear fresh now c)"
  unfolding record_conflict_observation_def by (intro grow_intros grow_create_observation)

lemma grow_promotion: "grows (append_memory_promotion bear fresh now source target action notes)"
  unfolding append_memory_promotion_def by (intro grow_intros)

lemma grow_promote: "grows (promote_to_shared_core_at_path lower bear fresh now source path kind content author sal)"
  unfolding promote_to_shared_core_at_path_def Let_def by (intro grow_intros grow_promotion grow_append_record)

lemma grow_create_proposal: "grows (create_memory_proposal lower bear fresh now action sens human payload)"
  unfolding create_memory_proposal_def insert_proposal_def Let_def by (intro grow_intros)

lemma grow_resolve_proposal: "grows (resolve_memory_proposal bear now i status review)"
  unfolding resolve_memory_proposal_def
  by (intro grow_intros grow.stays_write) (simp add: growI proposals.grown_update proposal_kept_def)

lemma grow_harvest: "grows (record_harvest_mark bear fresh now kind ref hash run ids)"
  unfolding record_harvest_mark_def
  by (intro grow_intros grow.stays_write)
    (simp add: growI upsert_harvest_def Let_def harvests.grown_append harvests.grown_update harvest_kept_def)

lemma grow_create_outcome: "grows (create_reflection_run_outcome bear now run lane trigger input)"
  unfolding create_reflection_run_outcome_def by (intro grow_intros)

lemma grow_complete_outcome: "grows (complete_reflection_run_outcome bear now run status output ids)"
  unfolding complete_reflection_run_outcome_def
  by (rule grow.stays_write) (simp add: growI outcomes.grown_update outcome_kept_def)

lemma grow_tool_writes:
  "grows (sqlite_write_at_path lower bear fresh now path author title body meta)"
  "grows (sqlite_write_profile_entry lower bear fresh now profile kind title body tags refs life source auth)"
  unfolding sqlite_write_at_path_def sqlite_write_profile_entry_def append_memory_record_def append_record_def Let_def
  by (intro grow_intros grow_append_record)+

context db_frame
begin

lemma stays_try: "stays_in ok P (tryM r)"
  by (simp add: tryM_def stays_return stays_fail split: sum.split)

lemma stays_catch:
  assumes "stays_in ok P m" and "\<And>e. stays_in ok P (h e)"
  shows "stays_in ok P (catchM m h)"
proof (unfold stays_in_def, intro allI impI)
  fix db
  assume "ok db"
  obtain db' r where m: "m db = (db', r)" by fastforce
  have 1: "ok db'" "P db db'" using staysD [OF assms(1) \<open>ok db\<close>] m by simp_all
  show "ok (fst (catchM m h db)) \<and> P db (fst (catchM m h db))"
    using m 1 staysD [OF assms(2) 1(1)] frame_trans [OF 1(2)] by (auto simp: catchM_def split: sum.split store_error.split)
qed

end

lemmas grow_flow = grow_intros grow.stays_try grow.stays_catch

lemma grow_create: "grows (create_proposal lower uuid bear fresh now q)"
  unfolding create_proposal_def by (intro grow_flow grow_create_proposal)

lemma grow_get: "grows (get_proposal uuid bear i)"
  unfolding get_proposal_def by (intro grow_flow)

lemma grow_resolve: "grows (resolve_proposal uuid bear now q)"
  unfolding resolve_proposal_def by (intro grow_flow grow_resolve_proposal)

lemma grow_outcome_start: "grows (record_reflection_outcome_start bear now run lane trigger input)"
  unfolding record_reflection_outcome_start_def by (intro grow_flow grow_create_outcome)

lemma grow_curate_one: "grows (resolve_curate_proposal lower uuid bear fresh now p trigger)"
  unfolding resolve_curate_proposal_def apply_core_promotion_def defer_after_error_def Let_def
  by (intro grow_flow grow_resolve grow_promote)

lemma grow_curate_each: "grows (curate_each lower uuid bear fresh now n trigger ids)"
proof (induction ids arbitrary: n)
  case Nil
  show ?case by (simp add: grow.stays_return)
next
  case (Cons i ids)
  show ?case unfolding curate_each.simps by (intro grow_flow grow_get grow_curate_one Cons)
qed

lemma grow_briefing: "grows (build_curate_briefing uuid bear outs)"
proof (induction outs)
  case Nil
  show ?case by (simp add: grow.stays_return)
next
  case (Cons out outs)
  show ?case unfolding build_curate_briefing.simps by (intro grow_flow grow_get Cons)
qed

lemma grow_curate: "grows (execute_memory_curate_proposals lower uuid bear fresh now trigger ids)"
  unfolding execute_memory_curate_proposals_def by (intro grow_flow grow_curate_each grow_briefing)

lemma grow_core_update: "grows (apply_core_update lower uuid bear fresh now q)"
  unfolding apply_core_update_def Let_def by (intro grow_flow grow_get grow_promote grow_resolve)

lemma grow_migrate: "grows migrate_bear_sqlite_schema"
proof -
  have "grows migrate_scope_type_values"
  proof -
    have "update_where (\<lambda>r. mr_scope_type r = ''role_local'') f rs = rs" if "\<forall>r \<in> set rs. mr_scope_type r \<noteq> ''role_local''" for f rs
      using that unfolding update_where_def by (auto intro: map_idI)
    then show ?thesis
      unfolding migrate_scope_type_values_def update_records_def
      by (intro grow.stays_write) (force simp: memory_schema_ok_def growI)
  qed
  moreover have "grows normalize_legacy_import_hashed_kinds"
    unfolding normalize_legacy_import_hashed_kinds_def by (rule grow_records) (simp add: record_kept_def)
  ultimately show ?thesis unfolding migrate_bear_sqlite_schema_def by (intro grow_intros)
qed

lemma grow_import: "grows (insert_import_draft bear d)"
  unfolding insert_import_draft_def by (intro grow_intros grow.stays_write) (simp add: Let_def growI row_appends)

subsection \<open>Sequences of calls\<close>

text \<open>
  The calls that write to a memory database, for one bear: those of the service, opening it,
  importing a record, and the form of the memory page that deletes paths.
\<close>

datatype memory_call =
    CreateEntity string string string "string option" resolution_state entity_trust "string option" json
  | AttachHandle string string string string string "string option" entity_trust
  | DetachHandle string
  | SetResolution string resolution_state "entity_trust option"
  | SetCanonicalRef string "string option"
  | MergeEntities string string
  | SplitEntity string string string "string option" "string list" resolution_state entity_trust
  | ResolveSignals "nat \<Rightarrow> string" "nat \<Rightarrow> string" string "string option" "signal list" assertion
  | AppendRelation string string string string string json string "string option" "string option"
  | AppendRecord string string logical_memory_path string string "string option" string json string string "string option"
  | MarkLifecycle string string string "string option"
  | CreateObservation string string string string string json
  | MarkQueued string string
  | RecordConflict string string memory_conflict
  | Promote "nat \<Rightarrow> string" "nat \<Rightarrow> string" string string string string string "string option"
  | CreateProposal string string proposal_request
  | ResolveProposal string proposal_resolution
  | Curate "nat \<Rightarrow> nat \<Rightarrow> string" "nat \<Rightarrow> nat \<Rightarrow> string" "string option" "string list"
  | CoreUpdate "nat \<Rightarrow> string" "nat \<Rightarrow> string" core_update_request
  | RecordHarvest string string string string "string option" "string option" "string list"
  | CreateOutcome string string string string "string option"
  | CompleteOutcome string string string "string option" "string list"
  | WriteAtPath string string string string string string json
  | WriteEntry string string string string string string "string list" "json option" "json option" "json option" "string option"
  | OpenStore
  | ImportRecord import_draft
  | BrowseDelete "string \<Rightarrow> string" "bear_stance \<Rightarrow> den_error + string option" "proposal_request \<Rightarrow> den_error + string list"
      bool string memory_delete_form

definition discard :: "'a memory_op \<Rightarrow> unit memory_op" where
  "discard m = bindM m (\<lambda>_. returnM ())"

fun memory_call_op :: "(string \<Rightarrow> string) \<Rightarrow> (string \<Rightarrow> string option) \<Rightarrow> string \<Rightarrow> memory_call \<Rightarrow> unit memory_op" where
  "memory_call_op lower uuid bear (CreateEntity f n t d r tr c m) = discard (create_entity bear f n t d r tr c m)"
| "memory_call_op lower uuid bear (AttachHandle f n i ht hv s tr) = discard (attach_handle bear f n i ht hv s tr)"
| "memory_call_op lower uuid bear (DetachHandle i) = detach_handle bear i"
| "memory_call_op lower uuid bear (SetResolution i r tr) = set_resolution bear i r tr"
| "memory_call_op lower uuid bear (SetCanonicalRef i c) = set_canonical_ref bear i c"
| "memory_call_op lower uuid bear (MergeEntities s l) = discard (merge_entities bear s l)"
| "memory_call_op lower uuid bear (SplitEntity f n t d ids r tr) = discard (split_entity bear f n t d ids r tr)"
| "memory_call_op lower uuid bear (ResolveSignals f n t d ss a) = discard (resolve_signals bear f n t d ss a)"
| "memory_call_op lower uuid bear (AppendRelation f n src i rel q p ag c) = discard (append_relation bear f n src i rel q p ag c)"
| "memory_call_op lower uuid bear (AppendRecord f n l k p ag txt m v s old) = discard (append_record_with_options bear f n l k p ag txt m v s old)"
| "memory_call_op lower uuid bear (MarkLifecycle n i st re) = discard (mark_memory_record_lifecycle bear n i st re)"
| "memory_call_op lower uuid bear (CreateObservation n i su sa p src) = discard (create_memory_observation bear n i su sa p src)"
| "memory_call_op lower uuid bear (MarkQueued i p) = mark_observation_review_queued bear i p"
| "memory_call_op lower uuid bear (RecordConflict f n c) = discard (record_conflict_observation bear f n c)"
| "memory_call_op lower uuid bear (Promote f n src p k txt au sal) = discard (promote_to_shared_core_at_path lower bear f n src p k txt au sal)"
| "memory_call_op lower uuid bear (CreateProposal f n q) = discard (create_proposal lower uuid bear f n q)"
| "memory_call_op lower uuid bear (ResolveProposal n q) = discard (resolve_proposal uuid bear n q)"
| "memory_call_op lower uuid bear (Curate f n tr ids) = discard (execute_memory_curate_proposals lower uuid bear f n tr ids)"
| "memory_call_op lower uuid bear (CoreUpdate f n q) = discard (apply_core_update lower uuid bear f n q)"
| "memory_call_op lower uuid bear (RecordHarvest f n k ref h run ids) = discard (record_harvest_mark bear f n k ref h run ids)"
| "memory_call_op lower uuid bear (CreateOutcome n run l tr inp) = record_reflection_outcome_start bear n run l tr inp"
| "memory_call_op lower uuid bear (CompleteOutcome n run st outp ids) = complete_reflection_run_outcome bear n run st outp ids"
| "memory_call_op lower uuid bear (WriteAtPath f n p au ti bo m) = discard (sqlite_write_at_path lower bear f n p au ti bo m)"
| "memory_call_op lower uuid bear (WriteEntry f n pr k ti bo tags refs li src au) =
     discard (sqlite_write_profile_entry lower bear f n pr k ti bo tags refs li src au)"
| "memory_call_op lower uuid bear OpenStore = migrate_bear_sqlite_schema"
| "memory_call_op lower uuid bear (ImportRecord d) = discard (insert_import_draft bear d)"
| "memory_call_op lower uuid bear (BrowseDelete enc bind filed manage slug form) =
     discard (browse_delete_post enc bind filed manage slug bear form)"

text \<open>The places that a call deletes: the paths selected in a form that a manager of the bear has confirmed.\<close>

fun deleted_places :: "string \<times> memory_call \<Rightarrow> (string \<times> string option \<times> string option) set" where
  "deleted_places (bear, BrowseDelete enc bind filed manage slug form) =
     (case stance_from_str (mdf_role form) of
        Inl _ \<Rightarrow> {}
      | Inr role \<Rightarrow>
          if manage \<and> form_action form \<noteq> ''request_review'' \<and> deletion_confirmed slug form role
          then (\<lambda>path. (bear, Some (stance_as_str role), Some path)) ` set (selected_paths form) else {})"
| "deleted_places _ = {}"

definition all_deleted_places :: "(string \<times> memory_call) list \<Rightarrow> (string \<times> string option \<times> string option) set" where
  "all_deleted_places calls = \<Union> (deleted_places ` set calls)"

lemma grow_discard: "grows m \<Longrightarrow> grows (discard m)"
  unfolding discard_def by (intro grow_intros)

lemma keeps_browse_delete:
  assumes "deleted_places (bear, BrowseDelete enc bind filed manage slug form) \<subseteq> D"
  shows "keeps_outside D (browse_delete_post enc bind filed manage slug bear form)"
proof (cases "stance_from_str (mdf_role form)")
  case (Inl e)
  then show ?thesis by (simp add: browse_delete_post_def kept.stays_fail)
next
  case (Inr role)
  show ?thesis
  proof (cases "manage \<and> form_action form \<noteq> ''request_review'' \<and> deletion_confirmed slug form role")
    case True
    then have "keeps_outside D (delete_paths bear (stance_as_str role) 0 (selected_paths form))"
      using assms Inr by (intro keeps_delete_paths) auto
    then show ?thesis unfolding browse_delete_post_def Inr sum.case Let_def
      by (intro kept.stays_intros kept.stays_try)
  next
    case False
    then show ?thesis unfolding browse_delete_post_def Inr sum.case Let_def
      by (cases manage; cases "form_action form = ''request_review''")
        (simp_all add: kept.stays_intros kept.stays_try)
  qed
qed

fun deletes_paths :: "memory_call \<Rightarrow> bool" where
  "deletes_paths (BrowseDelete enc bind filed manage slug form) = True"
| "deletes_paths _ = False"

lemma grow_call:
  "\<not> deletes_paths c \<Longrightarrow> grows (memory_call_op lower uuid bear c)"
  by (cases c) (auto intro!: grow_discard grow_create_entity grow_attach_handle grow_detach_handle grow_set_resolution
      grow_set_canonical_ref grow_merge_entities grow_split_entity grow_resolve_signals grow_append_relation grow_append_record
      grow_mark_lifecycle grow_create_observation grow_mark_observation grow_record_conflict grow_promote
      grow_create grow_resolve grow_curate grow_core_update grow_harvest grow_outcome_start grow_complete_outcome grow_tool_writes
      grow_migrate grow_import)

lemma keeps_call:
  assumes "deleted_places (bear, c) \<subseteq> D"
  shows "keeps_outside D (memory_call_op lower uuid bear c)"
proof (cases "deletes_paths c")
  case True
  then show ?thesis
    using assms by (cases c) (auto simp: discard_def intro!: kept.stays_bind kept.stays_return keeps_browse_delete)
next
  case False
  then show ?thesis by (intro grows_keeps grow_call)
qed

lemma calls_keep:
  assumes "memory_schema_ok db" and "db' = run_ops (\<lambda>d (bear, c). fst (memory_call_op lower uuid bear c d)) db calls"
  shows "memory_schema_ok db' \<and> memory_kept (all_deleted_places calls) db db'"
proof -
  have "keeps_outside (all_deleted_places calls) (case x of (bear, c) \<Rightarrow> memory_call_op lower uuid bear c)" if "x \<in> set calls" for x
  proof -
    have "deleted_places x \<subseteq> all_deleted_places calls" unfolding all_deleted_places_def using that by blast
    then show ?thesis by (cases x) (simp add: keeps_call)
  qed
  from kept.stays_run_each [of calls "all_deleted_places calls" "\<lambda>(bear, c). memory_call_op lower uuid bear c", OF this assms(1)]
  show ?thesis unfolding assms(2) by (simp add: case_prod_beta')
qed

text \<open>
  C10. Memory is append-only but for the deletions of the memory page. Whatever calls are made, by
  whichever bears (those of the service, opening the database, imports and the deletion form), no
  entity, handle, relation, access rule, observation, promotion, proposal, harvest mark or reflection
  run is ever removed, and no record either, except those at a path of a profile that a manager of the
  bear selected and confirmed for deletion; without such a deletion none is. A record that is not
  deleted keeps its text, path, author and predecessor for good, and once its validity has ended the
  end does not move; its kind changes only where opening the database corrects the hashed name of an
  import; an entity that was merged is never unmerged; relations and rules never change, new
  relations are descriptive and new rules access-bearing; promotions never change, and a proposal once
  reviewed and a run once completed stay so; sequence numbers only grow. The conversion of a database
  with the columns of an earlier version is outside the statement.
\<close>

theorem memory_only_grows:
  assumes "memory_schema_ok db" and "db' = run_ops (\<lambda>d (bear, c). fst (memory_call_op lower uuid bear c d)) db calls"
  shows "memory_schema_ok db' \<and> memory_kept (all_deleted_places calls) db db'
    \<and> (all_deleted_places calls = {} \<longrightarrow> memory_grown db db')"
  using calls_keep [OF assms] by auto

definition sample_deletion :: memory_delete_form where
  "sample_deletion = \<lparr>mdf_role = ''pair'', mdf_paths = ['' pair/x.md ''], mdf_action = None, mdf_confirm = ''pair'', mdf_review_title = None,
     mdf_review_summary = None, mdf_review_rationale = None, mdf_suggested_action = None, mdf_sensitivity = None,
     mdf_requires_human = None\<rparr>"

definition sample_calls :: "(string \<times> memory_call) list" where
  "sample_calls =
     [(''bear'', AppendRecord ''m4'' ''t4'' (shared_core ''x'') ''note'' ''pair'' None ''new text'' (JObj []) ''normal'' ''high'' (Some ''m3'')),
      (''bear'', MergeEntities ''a'' ''b''), (''bear'', Curate (\<lambda>_ _. ''u'') (\<lambda>_ _. ''t5'') None [''p1'']),
      (''other'', MarkQueued ''o'' ''p''), (''bear'', OpenStore)]"

theorem memory_only_grows_witness:
  "memory_grown sample_memory (run_ops (\<lambda>d (bear, c). fst (memory_call_op (\<lambda>s. s) Some bear c d)) sample_memory sample_calls)
   \<and> memory_kept {(''bear'', Some ''pair'', Some ''pair/x.md'')} sample_memory
       (run_ops (\<lambda>d (bear, c). fst (memory_call_op (\<lambda>s. s) Some bear c d)) sample_memory
         (sample_calls @ [(''bear'', BrowseDelete (\<lambda>s. s) (\<lambda>_. Inr None) (\<lambda>_. Inr []) True ''slug'' sample_deletion)]))"
proof -
  have "all_deleted_places sample_calls = {}" by (simp add: all_deleted_places_def sample_calls_def)
  moreover have "deleted_places (''bear'', BrowseDelete (\<lambda>s. s) (\<lambda>_. Inr None) (\<lambda>_. Inr []) True ''slug'' sample_deletion)
      = {(''bear'', Some ''pair'', Some ''pair/x.md'')}"
    by code_simp
  ultimately have "all_deleted_places (sample_calls @ [(''bear'', BrowseDelete (\<lambda>s. s) (\<lambda>_. Inr None) (\<lambda>_. Inr []) True ''slug'' sample_deletion)])
      = {(''bear'', Some ''pair'', Some ''pair/x.md'')}"
    unfolding all_deleted_places_def by simp
  with \<open>all_deleted_places sample_calls = {}\<close> show ?thesis
    using memory_only_grows [OF sample_memory_ok(1) refl] by metis
qed

text \<open>
  A confirmed deletion removes every record at the paths it names, superseded ones and thus the
  history of the path included, and nothing else; relations and rules of the removed records stay.
\<close>

lemma delete_paths_removes:
  assumes "memory_schema_ok db"
  shows "\<exists>n'. delete_paths bear profile n paths db =
    (db\<lparr>md_records := filter (\<lambda>r. \<forall>path \<in> set paths. \<not> at_path bear profile path r) (md_records db)\<rparr>, Inr n')"
  using assms
proof (induction paths arbitrary: n db)
  case (Cons path paths)
  let ?db = "db\<lparr>md_records := filter (\<lambda>r. \<not> at_path bear profile path r) (md_records db)\<rparr>"
  have "memory_schema_ok ?db" using Cons.prems by (auto simp: memory_schema_ok_def distinct_map_filter)
  then have "\<exists>k. delete_records bear profile path db = (?db, Inr k)"
    by (simp add: delete_records_def checked_writeM_def)
  with Cons.IH [OF \<open>memory_schema_ok ?db\<close>] show ?case by (auto simp: bindM_def conj_commute)
qed (simp add: returnM_def)

lemma deletion_removes_history:
  assumes "memory_schema_ok db" and "stance_from_str (mdf_role form) = Inr role" and "selected_paths form \<noteq> []"
    and "form_action form \<noteq> ''request_review''" and "deletion_confirmed slug form role"
  shows "fst (browse_delete_post enc bind filed True slug bear form db) = records_outside
    ((\<lambda>path. (bear, Some (stance_as_str role), Some path)) ` set (selected_paths form)) db"
proof -
  have "(\<lambda>r. \<forall>path \<in> set ps. \<not> at_path bear profile path r) = (\<lambda>r. record_place r \<notin> (\<lambda>path. (bear, Some profile, Some path)) ` set ps)" for ps profile
    by (auto simp: at_path_def record_place_def)
  then show ?thesis
    using delete_paths_removes [OF assms(1), of bear "stance_as_str role" 0 "selected_paths form"] assms(2-5)
    by (auto simp: browse_delete_post_def Let_def bindM_def returnM_def records_outside_def)
qed

end
