(* ===== verification/Memory_Resolution.thy ===== *)
theory Memory_Resolution
  imports Memory_Growth
begin

section \<open>Resolution of signals\<close>

text \<open>
  What resolving signals may change (\<open>only_identified\<close>): the frame of its branches, and its
  properties.
\<close>

subsection \<open>Resolution of signals\<close>

lemma follow_forward_row: "follow_forward bear db n (get_entity bear i db) = Some e \<Longrightarrow> get_entity bear (er_entity_id e) db = Some e"
proof (induction n arbitrary: i)
  case 0
  then show ?case by (cases "get_entity bear i db") (auto dest: get_entity_id)
next
  case (Suc n)
  then show ?case by (cases "get_entity bear i db") (auto dest: get_entity_id split: option.splits)
qed

lemma found_row: "find_entity_by_handle bear ht hv db = Some e \<Longrightarrow> get_entity bear (er_entity_id e) db = Some e"
  by (auto simp: find_entity_by_handle_def resolve_live_entity_def dest: follow_forward_row split: list.splits)

lemma strong_matches_rows:
  "(\<forall>e \<in> set (strong_matches bear ss db). get_entity bear (er_entity_id e) db = Some e)
   \<and> distinct (map er_entity_id (strong_matches bear ss db))"
proof -
  have "(\<forall>e \<in> set (foldl (add_match bear db) es ss). get_entity bear (er_entity_id e) db = Some e)
      \<and> distinct (map er_entity_id (foldl (add_match bear db) es ss))"
    if "\<forall>e \<in> set es. get_entity bear (er_entity_id e) db = Some e" "distinct (map er_entity_id es)" for es
    using that
  proof (induction ss arbitrary: es)
    case (Cons s ss)
    let ?es = "add_match bear db es s"
    have "\<forall>e \<in> set ?es. get_entity bear (er_entity_id e) db = Some e" "distinct (map er_entity_id ?es)"
      using Cons.prems found_row by (auto simp: add_match_def split: option.split)
    then show ?case using Cons.IH by simp
  qed simp
  from this [of "[]"] show ?thesis by (simp add: strong_matches_def)
qed

text \<open>The entities that the strong signals find.\<close>

definition strongly_named :: "string \<Rightarrow> signal list \<Rightarrow> memory_db \<Rightarrow> string set" where
  "strongly_named bear ss db = {er_entity_id e | e s. s \<in> set ss \<and> signal_strength s = Strong
     \<and> find_entity_by_handle bear (sg_handle_type s) (sg_handle_value s) db = Some e}"

lemma strong_matches_named:
  "set (map er_entity_id (strong_matches bear (filter (\<lambda>s. signal_strength s = Strong) ss) db)) = strongly_named bear ss db"
proof -
  have "set (map er_entity_id (foldl (add_match bear db) es xs)) = set (map er_entity_id es)
      \<union> {er_entity_id e | e s. s \<in> set xs \<and> find_entity_by_handle bear (sg_handle_type s) (sg_handle_value s) db = Some e}" for es xs
  proof (induction xs arbitrary: es)
    case (Cons s xs)
    have "set (map er_entity_id (add_match bear db es s)) = set (map er_entity_id es)
        \<union> {er_entity_id e | e. find_entity_by_handle bear (sg_handle_type s) (sg_handle_value s) db = Some e}"
      by (auto simp: add_match_def image_iff split: option.split)
    with Cons.IH [of "add_match bear db es s"] show ?case by auto
  qed simp
  from this [of "[]" "filter (\<lambda>s. signal_strength s = Strong) ss"] show ?thesis
    by (simp add: strong_matches_def strongly_named_def conj_commute conj_left_commute)
qed

lemma named_count:
  "card (strongly_named bear ss db) = length (strong_matches bear (filter (\<lambda>s. signal_strength s = Strong) ss) db)"
proof -
  let ?ids = "map er_entity_id (strong_matches bear (filter (\<lambda>s. signal_strength s = Strong) ss) db)"
  have "card (set ?ids) = length ?ids" by (rule distinct_card) (use strong_matches_rows in blast)
  then show ?thesis unfolding strong_matches_named by simp
qed

text \<open>An entity as resolution may leave it: the same up to state and trust, which only rise.\<close>

definition entity_raised :: "entity_rec \<Rightarrow> entity_rec \<Rightarrow> bool" where
  "entity_raised e e' \<longleftrightarrow> e'\<lparr>en_resolution := [], en_trust := []\<rparr> = e\<lparr>en_resolution := [], en_trust := []\<rparr>
     \<and> er_resolution (entity_into_row e) \<le> er_resolution (entity_into_row e')
     \<and> (er_trust (entity_into_row e) = TrustAsserted \<longrightarrow> er_trust (entity_into_row e') = TrustAsserted)"

interpretation raised: kept_rows entity_raised
  by unfold_locales (auto simp: entity_raised_def)

definition only_identified :: "memory_db \<Rightarrow> memory_db \<Rightarrow> bool" where
  "only_identified db db' \<longleftrightarrow> md_records db' = md_records db \<and> md_relations db' = md_relations db \<and> md_access_rules db' = md_access_rules db
     \<and> md_observations db' = md_observations db \<and> prefix (md_handles db) (md_handles db')
     \<and> grown entity_raised (md_entities db) (md_entities db')"

lemma only_identified_refl: "only_identified db db"
  by (simp add: only_identified_def raised.grown_refl)

interpretation ident: db_frame memory_schema_ok only_identified
proof
  show "only_identified db db" for db by (rule only_identified_refl)
  show "only_identified db db''" if "only_identified db db'" "only_identified db' db''" for db db' db''
    using that raised.grown_trans unfolding only_identified_def by (metis prefix_order.trans)
qed

definition only_handles :: "memory_db \<Rightarrow> memory_db \<Rightarrow> bool" where
  "only_handles db db' \<longleftrightarrow> only_identified db db' \<and> md_entities db' = md_entities db"

interpretation handles_only: db_frame memory_schema_ok only_handles
  by unfold_locales (auto simp: only_handles_def only_identified_refl dest: ident.frame_trans)

lemma attach_signals_only: "stays_in memory_schema_ok only_handles (attach_signals bear fresh now n i ss)"
proof (induction ss arbitrary: n)
  case Nil
  show ?case by (simp add: handles_only.stays_return)
next
  case (Cons s ss)
  have "stays_in memory_schema_ok only_handles (attach_handle bear f t i ht hv src tr)" for f t ht hv src tr
    unfolding attach_handle_def Let_def
    by (intro handles_only.stays_intros handles_only.stays_write)
      (simp add: only_handles_def only_identified_def raised.grown_refl)
  with Cons show ?case by (auto intro!: handles_only.stays_bind)
qed

lemma attach_signals_ident: "stays_in memory_schema_ok only_identified (attach_signals bear fresh now n i ss)"
  using attach_signals_only unfolding stays_in_def only_handles_def by blast

lemma create_with_signals_ident: "stays_in memory_schema_ok only_identified (create_with_signals bear fresh now t name res trust ss)"
  unfolding create_with_signals_def create_entity_def next_sequence_def Let_def
  by (intro ident.stays_intros ident.stays_write attach_signals_ident)
    (simp_all add: only_identified_def raised.grown_refl raised.grown_append)

lemma resolution_roundtrip [simp]: "resolution_parse (resolution_str r) = Some r"
  by (cases r) (simp_all add: resolution_parse_def)

lemma entity_trust_roundtrip [simp]: "entity_trust_parse (entity_trust_str t) = Some t"
  by (cases t) (simp_all add: entity_trust_parse_def)

lemma own_entity_unique:
  assumes "memory_schema_ok db" and "get_entity bear i db = Some row"
    and "e \<in> set (md_entities db)" and "en_bear e = bear \<and> en_id e = i"
  shows "entity_into_row e = row"
proof -
  obtain e0 where e0: "find_entity bear i db = Some e0" "row = entity_into_row e0" using assms(2) by (auto simp: get_entity_def)
  then show ?thesis
    using find_entityD [OF e0(1)] assms by (auto simp: memory_schema_ok_def distinct_map dest: inj_onD)
qed

lemma set_resolution_raises:
  assumes "memory_schema_ok db" and "get_entity bear i db = Some row"
  shows "memory_schema_ok (fst (set_resolution bear i (max (er_resolution row) res) (Some (raised_trust (er_trust row) trust)) db))
    \<and> only_identified db (fst (set_resolution bear i (max (er_resolution row) res) (Some (raised_trust (er_trust row) trust)) db))"
proof -
  let ?f = "\<lambda>e. (e\<lparr>en_trust := entity_trust_str (raised_trust (er_trust row) trust)\<rparr>)
      \<lparr>en_resolution := resolution_str (max (er_resolution row) res)\<rparr>"
  have "entity_raised e (?f e)" if "e \<in> set (md_entities db)" "en_bear e = bear \<and> en_id e = i" for e
  proof -
    have "entity_into_row e = row" using own_entity_unique [OF assms that] .
    then have "er_resolution row = er_resolution (entity_into_row e)" "er_trust row = er_trust (entity_into_row e)" by simp_all
    then show ?thesis by (simp add: entity_raised_def entity_into_row_def raised_trust_def entity_trust_parse_def)
  qed
  then have "grown entity_raised (md_entities db) (update_where (\<lambda>e. en_bear e = bear \<and> en_id e = i) ?f (md_entities db))"
    by (intro raised.grown_update)
  then show ?thesis
    using assms(1) by (simp add: set_resolution_def update_entities_def checked_writeM_def only_identified_def raised.grown_refl)
qed

text \<open>The three branches on the strong matches.\<close>

definition resolve_unmatched ::
    "string \<Rightarrow> (nat \<Rightarrow> string) \<Rightarrow> (nat \<Rightarrow> string) \<Rightarrow> string \<Rightarrow> string option \<Rightarrow> signal list \<Rightarrow> assertion \<Rightarrow> resolution memory_op" where
  "resolve_unmatched bear fresh now t name ss a =
     (if filter (\<lambda>s. signal_strength s = Strong) ss \<noteq> []
      then (case entry_levels a True of (res, trust) \<Rightarrow>
        bindM (create_with_signals bear fresh now t name res trust ss) (\<lambda>e. returnM (ResolvedTo e)))
      else bindM (queryM (weak_candidate bear t (filter (\<lambda>s. signal_strength s \<noteq> Strong) ss))) (\<lambda>candidate. case candidate of
          Some e \<Rightarrow> returnM (CandidateFor e)
        | None \<Rightarrow> bindM (create_with_signals bear fresh now t name
              (if filter (\<lambda>s. signal_strength s \<noteq> Strong) ss = [] then ResObserved else ResProvisional) TrustInferred ss)
            (\<lambda>e. returnM (CreatedNew e))))"

definition resolve_matched ::
    "string \<Rightarrow> (nat \<Rightarrow> string) \<Rightarrow> (nat \<Rightarrow> string) \<Rightarrow> entity_row \<Rightarrow> signal list \<Rightarrow> assertion \<Rightarrow> resolution memory_op" where
  "resolve_matched bear fresh now target ss a =
     bindM (attach_signals bear fresh now 0 (er_entity_id target) ss) (\<lambda>_.
     case entry_levels a True of (res, trust) \<Rightarrow>
     bindM (set_resolution bear (er_entity_id target) (max (er_resolution target) res) (Some (raised_trust (er_trust target) trust))) (\<lambda>_.
     bindM (queryM (resolve_live_entity bear (er_entity_id target))) (\<lambda>live.
     returnM (ResolvedTo (unwrap_or live target)))))"

lemma resolve_signals_branches:
  "resolve_signals bear fresh now t name ss a db =
     (if entity_type_of t = None then invalid (''unknown entity type: '' @ t) db
      else case strong_matches bear (filter (\<lambda>s. signal_strength s = Strong) ss) db of
        [] \<Rightarrow> resolve_unmatched bear fresh now t name ss a db
      | [target] \<Rightarrow> resolve_matched bear fresh now target ss a db
      | matched \<Rightarrow> (db, Inr (ConflictNeedsReview (map er_entity_id matched))))"
proof -
  have q: "bindM (queryM f) k db = k (f db) db" for f :: "memory_db \<Rightarrow> 'x" and k :: "'x \<Rightarrow> 'y memory_op"
    by (simp add: bindM_def queryM_def)
  show ?thesis
    unfolding resolve_signals_def resolve_unmatched_def resolve_matched_def Let_def
    by (simp add: q returnM_def split: list.split)
qed

lemma resolve_unmatched_ident: "stays_in memory_schema_ok only_identified (resolve_unmatched bear fresh now t name ss a)"
  unfolding resolve_unmatched_def by (intro ident.stays_intros create_with_signals_ident)

lemma resolve_matched_ident:
  assumes "memory_schema_ok db" and "get_entity bear (er_entity_id target) db = Some target"
  shows "memory_schema_ok (fst (resolve_matched bear fresh now target ss a db))
    \<and> only_identified db (fst (resolve_matched bear fresh now target ss a db))"
proof -
  obtain db1 r where at: "attach_signals bear fresh now 0 (er_entity_id target) ss db = (db1, r)" by fastforce
  obtain res trust where lv: "entry_levels a True = (res, trust)" by fastforce
  have ok1: "memory_schema_ok db1" and h1: "only_identified db db1" "md_entities db1 = md_entities db"
    using staysD [OF attach_signals_only assms(1), of bear fresh now 0 "er_entity_id target" ss] at by (simp_all add: only_handles_def)
  have row1: "get_entity bear (er_entity_id target) db1 = Some target" using assms(2) get_entity_cong [OF h1(2)] by simp
  obtain db2 r2 where st: "set_resolution bear (er_entity_id target) (max (er_resolution target) res)
      (Some (raised_trust (er_trust target) trust)) db1 = (db2, r2)" by fastforce
  have "memory_schema_ok db2" "only_identified db db2"
    using set_resolution_raises [OF ok1 row1, of res trust] st ident.frame_trans [OF h1(1)] by simp_all
  then show ?thesis
    using at st lv ok1 h1(1) by (simp add: resolve_matched_def bindM_def queryM_def returnM_def split: sum.split)
qed

lemma resolve_signals_ident:
  assumes "memory_schema_ok db"
  shows "memory_schema_ok (fst (resolve_signals bear fresh now t name ss a db))
    \<and> only_identified db (fst (resolve_signals bear fresh now t name ss a db))"
proof -
  let ?m = "strong_matches bear (filter (\<lambda>s. signal_strength s = Strong) ss) db"
  have "?m = target # rest \<Longrightarrow> get_entity bear (er_entity_id target) db = Some target" for target rest
    using strong_matches_rows [of bear "filter (\<lambda>s. signal_strength s = Strong) ss" db] by simp
  then show ?thesis
    unfolding resolve_signals_branches
    using assms staysD [OF resolve_unmatched_ident assms] resolve_matched_ident [OF assms]
    by (auto simp: failM_def only_identified_refl split: list.split)
qed

lemma resolve_unmatched_outcome:
  "resolve_unmatched bear fresh now t name ss a db = (db', Inr r) \<Longrightarrow>
     (\<exists>e. r = ResolvedTo e \<or> r = CreatedNew e) \<or> (\<exists>e. r = CandidateFor e \<and> db' = db)"
  by (auto simp: resolve_unmatched_def bindM_def queryM_def returnM_def split: if_splits prod.splits sum.splits option.splits)

lemma resolve_matched_outcome:
  "resolve_matched bear fresh now target ss a db = (db', Inr r) \<Longrightarrow> \<exists>e. r = ResolvedTo e"
  by (auto simp: resolve_matched_def bindM_def queryM_def returnM_def split: prod.splits sum.splits)

lemma resolve_conflict_iff:
  assumes "resolve_signals bear fresh now t name ss a db = (db', r)"
  shows "1 < card (strongly_named bear ss db) \<and> entity_type_of t \<noteq> None \<longleftrightarrow>
    (\<exists>ids. r = Inr (ConflictNeedsReview ids) \<and> db' = db \<and> distinct ids \<and> set ids = strongly_named bear ss db)"
proof -
  let ?m = "strong_matches bear (filter (\<lambda>s. signal_strength s = Strong) ss) db"
  have d: "distinct (map er_entity_id ?m)" using strong_matches_rows by blast
  show ?thesis
  proof (cases "1 < length ?m \<and> entity_type_of t \<noteq> None")
    case True
    then obtain x y zs where m: "?m = x # y # zs" by (metis One_nat_def length_0_conv length_Cons less_nat_zero_code list.exhaust less_irrefl)
    then have "(db', r) = (db, Inr (ConflictNeedsReview (map er_entity_id ?m)))"
      using assms True unfolding resolve_signals_branches m by simp
    then show ?thesis using True d strong_matches_named [of bear ss db] named_count [of bear ss db] by auto
  next
    case False
    then have "r \<noteq> Inr (ConflictNeedsReview ids)" for ids
      using assms unfolding resolve_signals_branches
      by (auto simp: failM_def split: if_splits list.splits dest: resolve_unmatched_outcome resolve_matched_outcome)
    then show ?thesis using False named_count [of bear ss db] by auto
  qed
qed

text \<open>
  C17. Resolution never merges and never takes anything back: whatever signals it is given, and
  whether or not it succeeds, no handle, forward pointer, record, relation or rule changes, handles
  and entities are at most added, and the state and the trust of an entity only rise. When the strong
  signals find more than one entity and the entity type is known, it reports exactly these, each once,
  and leaves the database as it was; it reports a conflict only then, and it also leaves the database
  as it was when it only has a candidate.
\<close>

theorem resolution_never_merges:
  assumes "memory_schema_ok db" and "resolve_signals bear fresh now t name ss a db = (db', r)"
  shows "only_identified db db' \<and> memory_schema_ok db'
    \<and> (case r of
        Inr (ConflictNeedsReview ids) \<Rightarrow> db' = db \<and> distinct ids \<and> length ids > 1
          \<and> ids = map er_entity_id (strong_matches bear (filter (\<lambda>s. signal_strength s = Strong) ss) db)
      | Inr (CandidateFor e) \<Rightarrow> db' = db
      | _ \<Rightarrow> True)
    \<and> (1 < card (strongly_named bear ss db) \<and> entity_type_of t \<noteq> None \<longleftrightarrow>
        (\<exists>ids. r = Inr (ConflictNeedsReview ids) \<and> db' = db \<and> distinct ids \<and> set ids = strongly_named bear ss db))"
proof -
  have frame: "only_identified db db' \<and> memory_schema_ok db'" using resolve_signals_ident [OF assms(1)] assms(2) by (metis fst_conv)
  let ?m = "strong_matches bear (filter (\<lambda>s. signal_strength s = Strong) ss) db"
  have d: "distinct (map er_entity_id ?m)" using strong_matches_rows by blast
  have "case r of
        Inr (ConflictNeedsReview ids) \<Rightarrow> db' = db \<and> distinct ids \<and> length ids > 1 \<and> ids = map er_entity_id ?m
      | Inr (CandidateFor e) \<Rightarrow> db' = db
      | _ \<Rightarrow> True"
    using assms(2) d unfolding resolve_signals_branches
    by (auto simp: failM_def split: if_splits list.splits sum.split resolution.split
        dest: resolve_unmatched_outcome resolve_matched_outcome)
  moreover have "1 < card (strongly_named bear ss db) \<and> entity_type_of t \<noteq> None \<longleftrightarrow>
      (\<exists>ids. r = Inr (ConflictNeedsReview ids) \<and> db' = db \<and> distinct ids \<and> set ids = strongly_named bear ss db)"
    using resolve_conflict_iff [OF assms(2)] .
  ultimately show ?thesis using frame by blast
qed

text \<open>Two strong signals that name different people.\<close>

definition sample_signals :: "signal list" where
  "sample_signals = [\<lparr>sg_handle_type = ''email'', sg_handle_value = ''a@x'', sg_source = None\<rparr>,
     \<lparr>sg_handle_type = ''email'', sg_handle_value = ''b@x'', sg_source = None\<rparr>]"

theorem resolution_never_merges_witness:
  "fst (resolve_signals ''bear'' (\<lambda>n. ''f'') (\<lambda>n. ''t'') ''person'' None sample_signals Inferred sample_memory) = sample_memory"
proof -
  have "snd (resolve_signals ''bear'' (\<lambda>n. ''f'') (\<lambda>n. ''t'') ''person'' None sample_signals Inferred sample_memory)
      = Inr (ConflictNeedsReview [''a'', ''b''])"
    by code_simp
  then obtain db' where "resolve_signals ''bear'' (\<lambda>n. ''f'') (\<lambda>n. ''t'') ''person'' None sample_signals Inferred sample_memory
      = (db', Inr (ConflictNeedsReview [''a'', ''b'']))"
    by (metis prod.collapse)
  from resolution_never_merges [OF sample_memory_ok(1) this] this show ?thesis by simp
qed

lemma attach_signal_run:
  assumes "memory_schema_ok db" and "fresh 0 \<notin> hn_id ` set (md_handles db)"
  shows "\<exists>db1. attach_signals bear fresh now 0 i [sig] db = (db1, Inr ())"
proof (cases "List.find (\<lambda>h. active_handle bear h \<and> hn_entity_id h = i \<and> hn_type h = sg_handle_type sig
    \<and> hn_value h = sg_handle_value sig) (md_handles db)")
  case None
  have "memory_schema_ok (db\<lparr>md_handles := md_handles db @ [h]\<rparr>)" if "hn_id h = fresh 0" for h
    using assms that by (simp add: memory_schema_ok_def)
  with None show ?thesis by (simp add: attach_handle_def bindM_def queryM_def returnM_def checked_writeM_def Let_def)
qed (simp add: attach_handle_def bindM_def queryM_def returnM_def)

text \<open>
  C40. A strong match decides alone: an entity that a strong handle finds is returned and raised to
  resolved or confirmed even when it had been rejected and whatever entity type was asked for, and
  from then on it can bear access.
\<close>

theorem strong_match_revives_rejected:
  assumes "memory_schema_ok db" and "entity_type_of t \<noteq> None" and "signal_strength sig = Strong"
    and "find_entity_by_handle bear (sg_handle_type sig) (sg_handle_value sig) db = Some e"
    and "er_resolution e = ResRejected" and "er_superseded_by e = None" and "fresh 0 \<notin> hn_id ` set (md_handles db)"
  shows "\<exists>db' e'. resolve_signals bear fresh now t name [sig] a db = (db', Inr (ResolvedTo e'))
    \<and> er_entity_id e' = er_entity_id e \<and> er_entity_type e' = er_entity_type e \<and> can_bear_access (er_resolution e')"
proof -
  let ?i = "er_entity_id e"
  obtain res trust where lv: "entry_levels a True = (res, trust)" and hi: "res \<ge> ResResolved"
    by (cases a) (auto simp: entry_levels_def less_eq_resolution_state_def)
  obtain db1 where at: "attach_signals bear fresh now 0 ?i [sig] db = (db1, Inr ())"
    using attach_signal_run [of db fresh, OF assms(1,7)] by blast
  have ok1: "memory_schema_ok db1" and ents: "md_entities db1 = md_entities db"
    using staysD [OF attach_signals_only assms(1), of bear fresh now 0 ?i "[sig]"] at by (simp_all add: only_handles_def)
  have row: "get_entity bear ?i db1 = Some e" using found_row [OF assms(4)] get_entity_cong [OF ents] by simp
  then obtain e0 where e0: "find_entity bear ?i db1 = Some e0" "entity_into_row e0 = e" by (auto simp: get_entity_def)
  let ?f = "\<lambda>r. r\<lparr>en_trust := entity_trust_str (raised_trust (er_trust e) trust), en_resolution := resolution_str (max ResRejected res)\<rparr>"
  let ?db2 = "db1\<lparr>md_entities := update_where (\<lambda>r. en_bear r = bear \<and> en_id r = ?i) ?f (md_entities db1)\<rparr>"
  have st: "set_resolution bear ?i (max (er_resolution e) res) (Some (raised_trust (er_trust e) trust)) db1 = (?db2, Inr ())"
    using schema_ok_entities [OF ok1, of ?f] assms(5) by (simp add: set_resolution_def update_entities_def checked_writeM_def)
  have find_map: "List.find P (map (\<lambda>r. if P r then f r else r) rs) = map_option f (List.find P rs)"
    if "\<And>r. P r \<Longrightarrow> P (f r)" for P f and rs :: "entity_rec list"
    using that by (induction rs) auto
  have get2: "get_entity bear ?i ?db2 = Some (entity_into_row (?f e0))"
    using e0 find_map [of "\<lambda>r. en_bear r = bear \<and> en_id r = ?i" ?f "md_entities db1"]
    by (simp add: get_entity_def find_entity_def update_where_def)
  have "er_superseded_by (entity_into_row (?f e0)) = None" using e0 assms(6) by auto
  then have live: "resolve_live_entity bear ?i ?db2 = Some (entity_into_row (?f e0))"
    using get2 by (simp add: resolve_live_entity_def MAX_HOPS_def eval_nat_numeral)
  have "strong_matches bear [sig] db = [e]" using assms(4) by (simp add: strong_matches_def add_match_def)
  then have run: "resolve_signals bear fresh now t name [sig] a db = (?db2, Inr (ResolvedTo (entity_into_row (?f e0))))"
    using assms(2,3) at st live lv
    by (auto simp: resolve_signals_branches resolve_matched_def bindM_def queryM_def returnM_def simp del: attach_signals.simps)
  have "er_entity_id (entity_into_row (?f e0)) = ?i" "er_entity_type (entity_into_row (?f e0)) = er_entity_type e"
    using e0(2) by (auto simp: entity_into_row_def)
  moreover have "max ResRejected res \<ge> ResResolved" using hi by (simp add: max.coboundedI2)
  then have "can_bear_access (er_resolution (entity_into_row (?f e0)))" by (simp add: can_bear_access_def entity_into_row_def)
  ultimately show ?thesis using run by blast
qed

definition rejected_memory :: memory_db where
  "rejected_memory = sample_memory\<lparr>md_entities := [sample_entity ''a'' ''rejected'' None]\<rparr>"

theorem strong_match_revives_rejected_witness:
  "\<exists>db' e'. resolve_signals ''bear'' (\<lambda>n. ''f'') (\<lambda>n. ''t'') ''artifact'' None [hd sample_signals] Inferred rejected_memory = (db', Inr (ResolvedTo e'))
    \<and> er_entity_id e' = ''a'' \<and> er_entity_type e' = ''person'' \<and> can_bear_access (er_resolution e')"
proof -
  let ?e = "entity_into_row (sample_entity ''a'' ''rejected'' None)"
  have "memory_schema_ok rejected_memory" "entity_type_of ''artifact'' \<noteq> None" "signal_strength (hd sample_signals) = Strong"
    "find_entity_by_handle ''bear'' (sg_handle_type (hd sample_signals)) (sg_handle_value (hd sample_signals)) rejected_memory = Some ?e"
    "er_resolution ?e = ResRejected" "er_superseded_by ?e = None" "''f'' \<notin> hn_id ` set (md_handles rejected_memory)"
    by code_simp+
  from strong_match_revives_rejected [OF this(1-6), of "\<lambda>n. ''f''", OF this(7)]
  show ?thesis by (simp add: entity_into_row_def sample_entity_def)
qed

end
