(* ===== verification/Memory_Conflict_Properties.thy ===== *)
theory Memory_Conflict_Properties
  imports Memory_Growth
begin

section \<open>Conflicts and their observations\<close>

text \<open>
  The conflict predicate on pairs (\<open>conflicting\<close>) and on the records of a bear (\<open>contradicting\<close>),
  that detection reports exactly these, and that a conflict is filed once.
\<close>

subsection \<open>Conflicts\<close>

fun ordered_pairs :: "'a list \<Rightarrow> ('a \<times> 'a) list" where
  "ordered_pairs [] = []"
| "ordered_pairs (a # bs) = map (Pair a) bs @ ordered_pairs bs"

lemma ordered_pairs_total: "a \<in> set cs \<Longrightarrow> b \<in> set cs \<Longrightarrow> a \<noteq> b \<Longrightarrow> (a, b) \<in> set (ordered_pairs cs) \<or> (b, a) \<in> set (ordered_pairs cs)"
  by (induction cs) auto

lemma ordered_pairs_in: "(a, b) \<in> set (ordered_pairs cs) \<Longrightarrow> a \<in> set cs \<and> b \<in> set cs"
  by (induction cs) auto

lemma set_map_filter: "set (List.map_filter f xs) = {y. \<exists>x \<in> set xs. f x = Some y}"
  by (induction xs) (auto simp: map_filter_simps split: option.split)

lemma detect_conflicts_iff:
  "c \<in> set (detect_conflicts cs) \<longleftrightarrow> (\<exists>a b. (a, b) \<in> set (ordered_pairs cs) \<and> is_live_head a \<and> pair_conflict a b = Some c)"
  by (induction cs) (auto simp: set_map_filter)

definition conflict_ids :: "memory_conflict \<Rightarrow> string set" where
  "conflict_ids c = {mc_memory_id_a c, mc_memory_id_b c}"

text \<open>When two candidates conflict, whichever comes first.\<close>

definition conflicting :: "conflict_candidate \<Rightarrow> conflict_candidate \<Rightarrow> bool" where
  "conflicting a b \<longleftrightarrow> cc_memory_id a \<noteq> cc_memory_id b \<and> is_live_head a \<and> is_live_head b \<and> windows_overlap a b
     \<and> \<not> in_supersession_chain a b
     \<and> ((cc_logical_path a = cc_logical_path b \<and> cc_logical_path a \<noteq> None \<and> cc_logical_path a \<noteq> Some [])
        \<or> set (cc_subject_entity_ids a) \<inter> set (cc_subject_entity_ids b) \<noteq> {})"

lemma conflicting_sym: "conflicting a b \<longleftrightarrow> conflicting b a"
  by (auto simp: conflicting_def windows_overlap_def in_supersession_chain_def split: option.splits)

lemma shared_dimension_iff:
  "shared_dimension a b \<noteq> None \<longleftrightarrow>
     ((cc_logical_path a = cc_logical_path b \<and> cc_logical_path a \<noteq> None \<and> cc_logical_path a \<noteq> Some [])
        \<or> set (cc_subject_entity_ids a) \<inter> set (cc_subject_entity_ids b) \<noteq> {})"
proof -
  have "shared_subject a b \<noteq> None \<longleftrightarrow> set (cc_subject_entity_ids a) \<inter> set (cc_subject_entity_ids b) \<noteq> {}"
    by (auto simp: shared_subject_def find_None_iff)
  then show ?thesis unfolding shared_dimension_def by (auto split: option.split)
qed

lemma pair_conflict_iff: "is_live_head a \<and> pair_conflict a b \<noteq> None \<longleftrightarrow> conflicting a b"
proof -
  have "pair_conflict a b \<noteq> None \<longleftrightarrow> cc_memory_id b \<noteq> cc_memory_id a \<and> is_live_head b \<and> shared_dimension a b \<noteq> None
      \<and> windows_overlap a b \<and> \<not> in_supersession_chain a b"
    by (cases "shared_dimension a b") (simp_all add: pair_conflict_def)
  then show ?thesis unfolding conflicting_def shared_dimension_iff by metis
qed

lemma new_conflict_ids:
  "x \<noteq> y \<Longrightarrow> conflict_ids (new_conflict x y reason) = {x, y} \<and> mc_memory_id_a (new_conflict x y reason) < mc_memory_id_b (new_conflict x y reason)"
proof (cases "x \<le> y")
  case True
  assume "x \<noteq> y"
  then show ?thesis using True by (simp add: new_conflict_def conflict_ids_def)
next
  case False
  then show ?thesis by (simp add: new_conflict_def conflict_ids_def doubleton_eq_iff)
qed

lemma pair_conflict_ids:
  assumes "pair_conflict a b = Some c"
  shows "conflict_ids c = {cc_memory_id a, cc_memory_id b} \<and> mc_memory_id_a c < mc_memory_id_b c"
proof -
  have n: "\<not> (cc_memory_id b = cc_memory_id a \<or> \<not> is_live_head b)"
    using assms unfolding pair_conflict_def by (metis option.distinct(1))
  show ?thesis
  proof (cases "shared_dimension a b")
    case None
    then show ?thesis using assms n by (simp add: pair_conflict_def)
  next
    case (Some reason)
    have "c = new_conflict (cc_memory_id a) (cc_memory_id b) reason"
    proof (cases "\<not> windows_overlap a b \<or> in_supersession_chain a b")
      case True
      then show ?thesis using assms n Some unfolding pair_conflict_def by simp
    next
      case False
      then have "pair_conflict a b = Some (new_conflict (cc_memory_id a) (cc_memory_id b) reason)"
        using n Some unfolding pair_conflict_def by simp
      then show ?thesis using assms by simp
    qed
    then show ?thesis using n new_conflict_ids by metis
  qed
qed

lemma detect_conflicts_pairs:
  assumes "distinct (map cc_memory_id cs)" and "a \<in> set cs" and "b \<in> set cs"
  shows "(\<exists>c \<in> set (detect_conflicts cs). conflict_ids c = {cc_memory_id a, cc_memory_id b}) \<longleftrightarrow> conflicting a b"
proof
  assume "\<exists>c \<in> set (detect_conflicts cs). conflict_ids c = {cc_memory_id a, cc_memory_id b}"
  then obtain c x y where c: "(x, y) \<in> set (ordered_pairs cs)" "is_live_head x" "pair_conflict x y = Some c"
    and ids: "conflict_ids c = {cc_memory_id a, cc_memory_id b}"
    by (auto simp: detect_conflicts_iff)
  have xy: "conflicting x y" using c(2,3) pair_conflict_iff [of x y] by simp
  have "{cc_memory_id x, cc_memory_id y} = {cc_memory_id a, cc_memory_id b}" using pair_conflict_ids [OF c(3)] ids by simp
  moreover have "inj_on cc_memory_id (set cs)" using assms(1) by (simp add: distinct_map)
  moreover have "x \<in> set cs" "y \<in> set cs" using ordered_pairs_in [OF c(1)] by auto
  ultimately have "(x = a \<and> y = b) \<or> (x = b \<and> y = a)" using assms(2,3) unfolding doubleton_eq_iff by (auto dest: inj_onD)
  then show "conflicting a b" using xy conflicting_sym [of b a] by auto
next
  assume ab: "conflicting a b"
  then have "a \<noteq> b" by (auto simp: conflicting_def)
  have hit: "\<exists>c \<in> set (detect_conflicts cs). conflict_ids c = {cc_memory_id x, cc_memory_id y}"
    if xy: "conflicting x y" "(x, y) \<in> set (ordered_pairs cs)" for x y
  proof -
    obtain c where c: "is_live_head x" "pair_conflict x y = Some c" using xy(1) pair_conflict_iff [of x y] by auto
    then have "c \<in> set (detect_conflicts cs)" using xy(2) detect_conflicts_iff by blast
    then show ?thesis using pair_conflict_ids [OF c(2)] by blast
  qed
  have ba: "conflicting b a" using ab by (simp only: conflicting_sym [of b a])
  from ordered_pairs_total [OF assms(2,3) \<open>a \<noteq> b\<close>]
  show "\<exists>c \<in> set (detect_conflicts cs). conflict_ids c = {cc_memory_id a, cc_memory_id b}"
    using hit [OF ab] hit [OF ba] unfolding insert_commute [of "cc_memory_id b"] by blast
qed

lemma foldl_push_new: "set (foldl push_new es xs) = set es \<union> set xs"
  by (induction xs arbitrary: es) (auto simp: push_new_def)

text \<open>
  The same on the records of a bear: both are current, share a path or a primary subject, and
  neither is among the other's predecessors.
\<close>

definition primary_subjects :: "string \<Rightarrow> memory_db \<Rightarrow> string \<Rightarrow> string set" where
  "primary_subjects bear db i = {ln_entity_id l | l. l \<in> set (md_relations db) \<and> active_link bear l
     \<and> ln_relation l = ''den.memory.relation.subject'' \<and> ln_src_memory_id l = i \<and> is_primary_link l}"

definition is_current :: "(string \<Rightarrow> int option) \<Rightarrow> memory_rec \<Rightarrow> bool" where
  "is_current parse_ts r \<longleftrightarrow> mr_invalid_at r = None \<and> parse_ts (effective_at r) \<noteq> None
     \<and> lifecycle_status (mr_metadata r) (mr_supersedes r) None \<notin> set [''superseded'', ''archived'']"

definition contradicting :: "(string \<Rightarrow> int option) \<Rightarrow> string \<Rightarrow> memory_db \<Rightarrow> memory_rec \<Rightarrow> memory_rec \<Rightarrow> bool" where
  "contradicting parse_ts bear db r s \<longleftrightarrow> mr_id r \<noteq> mr_id s \<and> is_current parse_ts r \<and> is_current parse_ts s
     \<and> ((mr_logical_path r = mr_logical_path s \<and> mr_logical_path r \<noteq> None \<and> mr_logical_path r \<noteq> Some [])
        \<or> primary_subjects bear db (mr_id r) \<inter> primary_subjects bear db (mr_id s) \<noteq> {})
     \<and> mr_id s \<notin> set (chain_walk bear db 32 (mr_id r)) \<and> mr_id r \<notin> set (chain_walk bear db 32 (mr_id s))"

definition candidate_of :: "(string \<Rightarrow> int option) \<Rightarrow> string \<Rightarrow> memory_db \<Rightarrow> string list \<Rightarrow> memory_rec \<Rightarrow> conflict_candidate" where
  "candidate_of parse_ts bear db ids r = \<lparr>cc_memory_id = mr_id r, cc_logical_path = mr_logical_path r,
     cc_effective_from = parse_ts (effective_at r), cc_invalid_at = Option.bind (mr_invalid_at r) parse_ts,
     cc_lifecycle_status = lifecycle_status (mr_metadata r) (mr_supersedes r) (mr_invalid_at r),
     cc_supersession_ancestors = supersession_ancestors bear db ids (mr_id r),
     cc_subject_entity_ids = primary_subject_entities bear db ids (mr_id r)\<rparr>"

lemma subject_relation_id: "subject_relation = ''den.memory.relation.subject''"
  by code_simp

lemma set_primary_subjects: "i \<in> set ids \<Longrightarrow> set (primary_subject_entities bear db ids i) = primary_subjects bear db i"
  by (auto simp: primary_subject_entities_def primary_subjects_def foldl_push_new subject_relation_id)

lemma conflicting_candidates:
  assumes "mr_id r \<in> set ids" and "mr_id s \<in> set ids"
  shows "conflicting (candidate_of parse_ts bear db ids r) (candidate_of parse_ts bear db ids s) \<longleftrightarrow> contradicting parse_ts bear db r s"
proof -
  have live: "is_live_head (candidate_of parse_ts bear db ids q) \<longleftrightarrow>
      mr_invalid_at q = None \<and> lifecycle_status (mr_metadata q) (mr_supersedes q) None \<notin> set [''superseded'', ''archived'']" for q
    by (cases "mr_invalid_at q") (simp_all add: is_live_head_def candidate_of_def lifecycle_status_def)
  have win: "windows_overlap (candidate_of parse_ts bear db ids r) (candidate_of parse_ts bear db ids s) \<longleftrightarrow>
      parse_ts (effective_at r) \<noteq> None \<and> parse_ts (effective_at s) \<noteq> None" if "mr_invalid_at r = None" "mr_invalid_at s = None"
    using that by (auto simp: windows_overlap_def candidate_of_def before_end_def split: option.split)
  have chain: "in_supersession_chain (candidate_of parse_ts bear db ids r) (candidate_of parse_ts bear db ids s) \<longleftrightarrow>
      mr_id s \<in> set (chain_walk bear db 32 (mr_id r)) \<or> mr_id r \<in> set (chain_walk bear db 32 (mr_id s))"
    using assms by (simp add: in_supersession_chain_def candidate_of_def supersession_ancestors_def SUPERSESSION_CHAIN_DEPTH_def)
  have subj: "set (cc_subject_entity_ids (candidate_of parse_ts bear db ids q)) = primary_subjects bear db (mr_id q)"
    if "mr_id q \<in> set ids" for q using set_primary_subjects [OF that] by (simp add: candidate_of_def)
  have path: "cc_logical_path (candidate_of parse_ts bear db ids q) = mr_logical_path q"
    "cc_memory_id (candidate_of parse_ts bear db ids q) = mr_id q" for q by (simp_all add: candidate_of_def)
  show ?thesis
    unfolding conflicting_def contradicting_def is_current_def live chain subj [OF assms(1)] subj [OF assms(2)] path
    using win by auto
qed

lemma conflict_candidates_alt:
  "conflict_candidates parse_ts bear db ids
     = (if ids = [] then [] else map (candidate_of parse_ts bear db ids) (filter (\<lambda>r. mr_bear r = bear \<and> mr_id r \<in> set ids) (md_records db)))"
  unfolding conflict_candidates_def candidate_of_def by simp

lemma distinct_candidates: "memory_schema_ok db \<Longrightarrow> distinct (map cc_memory_id (conflict_candidates parse_ts bear db ids))"
  by (auto simp: conflict_candidates_alt candidate_of_def memory_schema_ok_def comp_def intro: distinct_map_filter)

text \<open>
  C18. Conflict detection is exact: for two records of the bear among the retrieved ids, a conflict of
  the pair is reported if and only if both are current, they share a path or a primary subject, and
  neither is among the other's next 32 predecessors; which other ids were retrieved, and in which
  order, does not matter. A reported pair is in order.
\<close>

theorem conflicts_among_exact:
  assumes "memory_schema_ok db" and "r \<in> set (md_records db)" "mr_bear r = bear" "mr_id r \<in> set ids"
    and "s \<in> set (md_records db)" "mr_bear s = bear" "mr_id s \<in> set ids"
  shows "((\<exists>c \<in> set (memory_conflicts_among parse_ts bear db ids). conflict_ids c = {mr_id r, mr_id s})
      \<longleftrightarrow> contradicting parse_ts bear db r s)
    \<and> (\<forall>c \<in> set (memory_conflicts_among parse_ts bear db ids). mc_memory_id_a c < mc_memory_id_b c)"
proof -
  let ?cs = "conflict_candidates parse_ts bear db ids"
  have in_cs: "candidate_of parse_ts bear db ids q \<in> set ?cs" if "q \<in> set (md_records db)" "mr_bear q = bear" "mr_id q \<in> set ids" for q
    using that by (auto simp: conflict_candidates_alt)
  have ids: "cc_memory_id (candidate_of parse_ts bear db ids q) = mr_id q" for q by (simp add: candidate_of_def)
  have main: "(\<exists>c \<in> set (detect_conflicts ?cs). conflict_ids c = {mr_id r, mr_id s}) \<longleftrightarrow> contradicting parse_ts bear db r s"
    using detect_conflicts_pairs [OF distinct_candidates [OF assms(1)] in_cs [OF assms(2-4)] in_cs [OF assms(5-7)]]
    unfolding ids conflicting_candidates [OF assms(4,7)] .
  have order: "\<forall>c \<in> set (detect_conflicts ?cs). mc_memory_id_a c < mc_memory_id_b c"
    using pair_conflict_ids by (auto simp: detect_conflicts_iff)
  show ?thesis
  proof (cases "length ids < 2")
    case True
    then have "mr_id r = mr_id s" using assms(4,7) by (cases ids) auto
    then show ?thesis using True by (simp add: memory_conflicts_among_def contradicting_def)
  next
    case False
    then show ?thesis using main order by (simp add: memory_conflicts_among_def)
  qed
qed

theorem conflicts_among_exact_witness:
  "(\<exists>c \<in> set (memory_conflicts_among (\<lambda>s. Some 0) ''bear'' sample_memory [''m3'', ''m2'', ''m1'']). conflict_ids c = {''m1'', ''m3''})
   \<and> \<not> (\<exists>c \<in> set (memory_conflicts_among (\<lambda>s. Some 0) ''bear'' sample_memory [''m3'', ''m2'', ''m1'']). conflict_ids c = {''m1'', ''m2''})"
proof -
  let ?m1 = "sample_record ''m1'' 1 None" let ?m2 = "sample_record ''m2'' 2 (Some ''m1'')" let ?m3 = "sample_record ''m3'' 3 None"
  have recs: "?m1 \<in> set (md_records sample_memory)" "?m2 \<in> set (md_records sample_memory)" "?m3 \<in> set (md_records sample_memory)"
    by (simp_all add: sample_memory_def)
  have chains: "chain_walk ''bear'' sample_memory 32 ''m1'' = []" "chain_walk ''bear'' sample_memory 32 ''m2'' = [''m1'']"
    "chain_walk ''bear'' sample_memory 32 ''m3'' = []"
    by code_simp+
  have "is_current (\<lambda>s. Some 0) ?m1" "is_current (\<lambda>s. Some 0) ?m3" by code_simp+
  then have "contradicting (\<lambda>s. Some 0) ''bear'' sample_memory ?m1 ?m3" "\<not> contradicting (\<lambda>s. Some 0) ''bear'' sample_memory ?m1 ?m2"
    using chains by (simp_all add: contradicting_def sample_record_def)
  then show ?thesis
    using conflicts_among_exact [OF sample_memory_ok(1) recs(1) _ _ recs(3), of "''bear''" "[''m3'', ''m2'', ''m1'']" "\<lambda>s. Some 0"]
      conflicts_among_exact [OF sample_memory_ok(1) recs(1) _ _ recs(2), of "''bear''" "[''m3'', ''m2'', ''m1'']" "\<lambda>s. Some 0"]
    by (simp add: sample_record_def)
qed

subsection \<open>Observations of conflicts\<close>

lemma conflict_source_pending:
  "conflict_pending bear (pair_key c) \<lparr>ob_observation_id = i, ob_bear = bear, ob_sequence_no = n, ob_summary = su, ob_salience = sa,
     ob_source = conflict_source c, ob_logical_path = p, ob_status = memory_observation_status_str PendingReview, ob_proposal_id = None,
     ob_created_at = t, ob_reviewed_at = None\<rparr>"
  by (simp add: conflict_pending_def conflict_source_def jget_def)

lemma pending_after_recording:
  assumes "record_conflict_observation bear fresh now c db = (db1, Inr x)"
  shows "\<exists>o1 \<in> set (md_observations db1). conflict_pending bear (pair_key c) o1"
proof (cases "filter (conflict_pending bear (pair_key c)) (md_observations db) = []")
  case True
  then show ?thesis
    using assms conflict_source_pending
    by (auto simp: record_conflict_observation_def create_memory_observation_def next_sequence_def bindM_def queryM_def returnM_def
        checked_writeM_def split: if_splits)
next
  case False
  then have "db1 = db" using assms by (simp add: record_conflict_observation_def bindM_def queryM_def returnM_def)
  then show ?thesis using False by (auto simp: filter_empty_conv)
qed

lemma pending_kept: "observation_kept o1 o2 \<Longrightarrow> conflict_pending bear k o1 \<Longrightarrow> conflict_pending bear k o2"
proof -
  assume k: "observation_kept o1 o2" and p: "conflict_pending bear k o1"
  from k have e: "o2\<lparr>ob_status := [], ob_proposal_id := None\<rparr> = o1\<lparr>ob_status := [], ob_proposal_id := None\<rparr>"
    by (simp add: observation_kept_def)
  have "ob_bear o2 = ob_bear o1" "ob_source o2 = ob_source o1" "ob_reviewed_at o2 = ob_reviewed_at o1"
    using arg_cong [OF e, of ob_bear] arg_cong [OF e, of ob_source] arg_cong [OF e, of ob_reviewed_at] by simp_all
  moreover have "ob_status o1 \<in> set [''pending_review'', ''review_queued''] \<Longrightarrow> ob_status o2 \<in> set [''pending_review'', ''review_queued'']"
    using k by (simp add: observation_kept_def)
  ultimately show ?thesis using p unfolding conflict_pending_def by metis
qed

text \<open>
  A conflict is filed once: after a conflict has been recorded, whatever calls follow, recording
  a conflict of the same pair again, in either order and for whatever reason, adds nothing and
  changes nothing.
\<close>

theorem conflict_filed_once:
  assumes "memory_schema_ok db" and "record_conflict_observation bear fresh now c db = (db1, Inr x)"
    and "conflict_ids c' = conflict_ids c" and "mc_memory_id_a c < mc_memory_id_b c" and "mc_memory_id_a c' < mc_memory_id_b c'"
    and "db2 = run_ops (\<lambda>d (bear, call). fst (memory_call_op lower uuid bear call d)) db1 calls"
  shows "record_conflict_observation bear fresh' now' c' db2 = (db2, Inr None)"
proof -
  have key: "pair_key c' = pair_key c"
    using assms(3-5) by (auto simp: conflict_ids_def doubleton_eq_iff pair_key_def)
  have "memory_schema_ok db1" using staysD [OF grow_record_conflict assms(1), of bear fresh now c] assms(2) by simp
  then have "memory_kept (all_deleted_places calls) db1 db2" using calls_keep assms(6) by blast
  then have "grown observation_kept (md_observations db1) (md_observations db2)"
    by (simp add: memory_kept_def records_outside_def memory_grown_def)
  then obtain o2 where "o2 \<in> set (md_observations db2)" "conflict_pending bear (pair_key c) o2"
    using observations.grown_row pending_after_recording [OF assms(2)] pending_kept by meson
  then show ?thesis
    using key by (auto simp: record_conflict_observation_def bindM_def queryM_def returnM_def filter_empty_conv)
qed

definition sample_conflict :: memory_conflict where
  "sample_conflict = new_conflict ''m3'' ''m1'' (SharedLogicalPath ''core/x.md'')"

theorem conflict_filed_once_witness:
  "\<exists>db1 x. record_conflict_observation ''bear'' ''o1'' ''t'' sample_conflict sample_memory = (db1, Inr x)
     \<and> record_conflict_observation ''bear'' ''o2'' ''t'' (new_conflict ''m1'' ''m3'' (SharedSubjectEntity ''a'')) db1 = (db1, Inr None)"
proof -
  have "\<not> isl (snd (record_conflict_observation ''bear'' ''o1'' ''t'' sample_conflict sample_memory))" by code_simp
  then obtain db1 x where run: "record_conflict_observation ''bear'' ''o1'' ''t'' sample_conflict sample_memory = (db1, Inr x)"
    by (metis prod.collapse sum.collapse(2))
  have "conflict_ids (new_conflict ''m1'' ''m3'' (SharedSubjectEntity ''a'')) = conflict_ids sample_conflict"
    "mc_memory_id_a sample_conflict < mc_memory_id_b sample_conflict"
    "mc_memory_id_a (new_conflict ''m1'' ''m3'' (SharedSubjectEntity ''a'')) < mc_memory_id_b (new_conflict ''m1'' ''m3'' (SharedSubjectEntity ''a''))"
    by code_simp+
  from conflict_filed_once [OF sample_memory_ok(1) run this, of db1 "\<lambda>s. s" Some "[]"] run show ?thesis by simp
qed

end
