(* ===== verification/Memory_Expansion.thy ===== *)
theory Memory_Expansion
  imports Memory_Graph
begin

section \<open>The bounded expansion\<close>

text \<open>
  Distances over shared entities (\<open>within_hops\<close>, \<open>at_hop\<close>) and the invariant of the expansion's
  loop: it is a breadth-first search.
\<close>

subsection \<open>Expansion over shared entities\<close>

text \<open>The records within \<open>n\<close> hops of the seeds, a hop leading to a record that shares an entity; those at hop \<open>n\<close> exactly.\<close>

definition neighbours :: "string \<Rightarrow> memory_db \<Rightarrow> string set \<Rightarrow> string set" where
  "neighbours bear db ms = {m'. \<exists>m \<in> ms. \<exists>e. (m, e) \<in> set (descriptive_pairs bear db) \<and> (m', e) \<in> set (descriptive_pairs bear db)}"

primrec within_hops :: "string \<Rightarrow> memory_db \<Rightarrow> string set \<Rightarrow> nat \<Rightarrow> string set" where
  "within_hops bear db seeds 0 = seeds"
| "within_hops bear db seeds (Suc n) = within_hops bear db seeds n \<union> neighbours bear db (within_hops bear db seeds n)"

definition at_hop :: "string \<Rightarrow> memory_db \<Rightarrow> string set \<Rightarrow> nat \<Rightarrow> string set" where
  "at_hop bear db seeds h = (case h of 0 \<Rightarrow> {} | Suc k \<Rightarrow> within_hops bear db seeds (Suc k) - within_hops bear db seeds k)"

lemma neighbours_Un: "neighbours bear db (A \<union> B) = neighbours bear db A \<union> neighbours bear db B"
  by (auto simp: neighbours_def)

lemma candidates_are_neighbours:
  "set (record_ids_for_entities bear db (descriptive_entity_ids_for_records bear db ms)) = neighbours bear db (set ms)"
  by (auto simp: record_ids_for_entities_def descriptive_entity_ids_for_records_def neighbours_def image_iff filter_empty_conv) force+

lemma no_entities: "descriptive_entity_ids_for_records bear db ms = [] \<Longrightarrow> neighbours bear db (set ms) = {}"
  using candidates_are_neighbours [of bear db ms] by (simp add: record_ids_for_entities_def)

lemma within_fixed:
  assumes "within_hops bear db seeds (Suc k) = within_hops bear db seeds k" and "k \<le> j"
  shows "within_hops bear db seeds j = within_hops bear db seeds k"
  using assms(2)
proof (induction j rule: dec_induct)
  case (step j)
  then show ?case using assms(1) by simp
qed simp

lemma at_hop_beyond:
  "within_hops bear db seeds (Suc k) = within_hops bear db seeds k \<Longrightarrow> k < h \<Longrightarrow> at_hop bear db seeds h = {}"
  using within_fixed [of bear db seeds k h] within_fixed [of bear db seeds k "h - 1"]
  by (cases h) (auto simp: at_hop_def)

lemma visit_candidates_run:
  assumes "distinct ms" and "length out < limit"
  shows "visit_candidates limit hop ms (seen, out, nxt) =
    (let new = filter (\<lambda>m. m \<notin> set seen) ms; reached = map (\<lambda>m. \<lparr>gr_memory_id = m, gr_hop = hop\<rparr>) new in
     if length out + length new < limit then Inr (rev new @ seen, out @ reached, nxt @ new)
     else Inl (out @ take (limit - length out) reached))"
  using assms
proof (induction ms arbitrary: seen out nxt)
  case (Cons m ms)
  have same: "filter (\<lambda>x. x \<notin> set (m # seen)) ms = filter (\<lambda>x. x \<notin> set seen) ms"
    using Cons.prems(1) by (auto intro: filter_cong)
  show ?case
  proof (cases "m \<in> set seen \<or> limit \<le> Suc (length out)")
    case True
    then show ?thesis
    proof (cases "m \<in> set seen")
      case False
      then have "limit - length out = 1" using True Cons.prems(2) by simp
      then show ?thesis using False True Cons.prems(2) by (simp add: Let_def)
    qed (use Cons in simp)
  next
    case False
    then have "take (limit - length out) (x # xs) = x # take (limit - Suc (length out)) xs" for x :: graph_reach and xs
      by (simp add: take_Cons')
    then show ?thesis
      using False Cons.IH [of "out @ [\<lparr>gr_memory_id = m, gr_hop = hop\<rparr>]" "m # seen" "nxt @ [m]"] Cons.prems same
      by (simp add: Let_def)
  qed
qed simp

text \<open>What a list of reached records must satisfy, and when it is all of them up to a hop.\<close>

definition reached_ok :: "string \<Rightarrow> memory_db \<Rightarrow> string set \<Rightarrow> nat \<Rightarrow> graph_reach list \<Rightarrow> bool" where
  "reached_ok bear db seeds d out \<longleftrightarrow> distinct (map gr_memory_id out) \<and> sorted (map gr_hop out)
     \<and> (\<forall>g \<in> set out. gr_hop g \<le> d \<and> gr_memory_id g \<in> at_hop bear db seeds (gr_hop g))
     \<and> (\<forall>g \<in> set out. \<forall>h < gr_hop g. \<forall>m \<in> at_hop bear db seeds h. \<lparr>gr_memory_id = m, gr_hop = h\<rparr> \<in> set out)"

definition reached_all :: "string \<Rightarrow> memory_db \<Rightarrow> string set \<Rightarrow> nat \<Rightarrow> graph_reach list \<Rightarrow> bool" where
  "reached_all bear db seeds d out \<longleftrightarrow> (\<forall>h \<le> d. \<forall>m \<in> at_hop bear db seeds h. \<lparr>gr_memory_id = m, gr_hop = h\<rparr> \<in> set out)"

lemma at_hop_within: "m \<in> at_hop bear db seeds h \<Longrightarrow> m \<in> within_hops bear db seeds h"
  by (cases h) (auto simp: at_hop_def)

lemma within_mono: "i \<le> j \<Longrightarrow> within_hops bear db seeds i \<subseteq> within_hops bear db seeds j"
  by (induction j rule: dec_induct) auto

lemma reached_step:
  assumes "reached_ok bear db seeds k out" and "reached_all bear db seeds k out"
    and "distinct new" and "set new \<subseteq> at_hop bear db seeds (Suc k)"
  shows "reached_ok bear db seeds (Suc k) (out @ map (\<lambda>m. \<lparr>gr_memory_id = m, gr_hop = Suc k\<rparr>) new)"
proof -
  let ?r = "map (\<lambda>m. \<lparr>gr_memory_id = m, gr_hop = Suc k\<rparr>) new"
  have old: "gr_memory_id g \<in> within_hops bear db seeds k" "gr_hop g \<le> k" if "g \<in> set out" for g
    using that assms(1) at_hop_within within_mono unfolding reached_ok_def by blast+
  have "set (map gr_memory_id out) \<inter> set new = {}"
    using old(1) assms(4) by (auto simp: at_hop_def)
  then have "distinct (map gr_memory_id (out @ ?r))"
    using assms(1,3) by (auto simp: reached_ok_def comp_def)
  moreover have "sorted (map gr_hop (out @ ?r))"
    using assms(1) old(2) by (auto simp: reached_ok_def sorted_append comp_def le_SucI map_replicate_const)
  moreover have "\<forall>g \<in> set (out @ ?r). gr_hop g \<le> Suc k \<and> gr_memory_id g \<in> at_hop bear db seeds (gr_hop g)"
    using assms(1,4) by (auto simp: reached_ok_def)
  moreover have "\<forall>g \<in> set (out @ ?r). \<forall>h < gr_hop g. \<forall>m \<in> at_hop bear db seeds h. \<lparr>gr_memory_id = m, gr_hop = h\<rparr> \<in> set (out @ ?r)"
    using assms(1,2) by (auto simp: reached_ok_def reached_all_def less_Suc_eq_le)
  ultimately show ?thesis unfolding reached_ok_def by blast
qed

lemma reached_ok_mono: "reached_ok bear db seeds k out \<Longrightarrow> k \<le> d \<Longrightarrow> reached_ok bear db seeds d out"
  by (auto simp: reached_ok_def)

lemma reached_all_fixed:
  "reached_all bear db seeds k out \<Longrightarrow> within_hops bear db seeds (Suc k) = within_hops bear db seeds k \<Longrightarrow> reached_all bear db seeds d out"
  unfolding reached_all_def using at_hop_beyond by (metis empty_iff linorder_not_less)

lemma expand_hops_ok:
  assumes "reached_ok bear db seeds k out" and "reached_all bear db seeds k out" and "length out < limit"
    and "set seen = within_hops bear db seeds k"
    and "within_hops bear db seeds (Suc k) = within_hops bear db seeds k \<union> neighbours bear db (set frontier)"
  shows "reached_ok bear db seeds (k + n) (expand_hops bear db limit n (Suc k) seen frontier out)
    \<and> length (expand_hops bear db limit n (Suc k) seen frontier out) \<le> limit
    \<and> (length (expand_hops bear db limit n (Suc k) seen frontier out) < limit
        \<longrightarrow> reached_all bear db seeds (k + n) (expand_hops bear db limit n (Suc k) seen frontier out))"
  using assms
proof (induction n arbitrary: k out seen frontier)
  case 0
  then show ?case by simp
next
  case (Suc n)
  let ?es = "descriptive_entity_ids_for_records bear db frontier"
  let ?ms = "record_ids_for_entities bear db ?es"
  let ?new = "filter (\<lambda>m. m \<notin> set seen) ?ms"
  let ?r = "map (\<lambda>m. \<lparr>gr_memory_id = m, gr_hop = Suc k\<rparr>)"
  note out = Suc.prems(1,2,3) and seen = Suc.prems(4) and front = Suc.prems(5)
  have new: "set ?new = at_hop bear db seeds (Suc k)"
    using candidates_are_neighbours [of bear db frontier] front seen by (auto simp: at_hop_def)
  have dn: "distinct ?ms" "distinct ?new" by (simp_all add: record_ids_for_entities_def)
  show ?case
  proof (cases "?es = []")
    case True
    then have "within_hops bear db seeds (Suc k) = within_hops bear db seeds k" using front no_entities [OF True] by blast
    then have "reached_all bear db seeds d out" for d using reached_all_fixed [OF out(2)] by blast
    then show ?thesis using True out reached_ok_mono [OF out(1)] by simp
  next
    case False
    show ?thesis
    proof (cases "length out + length ?new < limit")
      case True
      let ?out = "out @ ?r ?new"
      have v: "visit_candidates limit (Suc k) ?ms (seen, out, []) = Inr (rev ?new @ seen, ?out, ?new)"
        using visit_candidates_run [OF dn(1) out(3), of "Suc k" seen "[]"] True by (simp add: Let_def)
      have ok: "reached_ok bear db seeds (Suc k) ?out" using reached_step [OF out(1,2) dn(2)] new by simp
      have all: "reached_all bear db seeds (Suc k) ?out"
        using out(2) new by (auto simp: reached_all_def le_Suc_eq image_iff)
      have seen': "set (rev ?new @ seen) = within_hops bear db seeds (Suc k)"
        using new seen within_mono [of k "Suc k"] by (auto simp: at_hop_def)
      show ?thesis
      proof (cases "?new = []")
        case True
        then have fixed: "within_hops bear db seeds (Suc k) = within_hops bear db seeds k"
          using new within_mono [of k "Suc k" bear db seeds] by (auto simp: at_hop_def)
        then have "reached_all bear db seeds d ?out" for d using reached_all_fixed [OF out(2) fixed] True by simp
        then show ?thesis using v True False out reached_ok_mono [OF out(1)] by simp
      next
        case more: False
        have front': "within_hops bear db seeds (Suc (Suc k)) = within_hops bear db seeds (Suc k) \<union> neighbours bear db (set ?new)"
        proof -
          have "within_hops bear db seeds (Suc k) = within_hops bear db seeds k \<union> set ?new"
            using seen' seen by auto
          then have "neighbours bear db (within_hops bear db seeds (Suc k))
              = neighbours bear db (within_hops bear db seeds k) \<union> neighbours bear db (set ?new)"
            by (simp only: neighbours_Un)
          then show ?thesis by auto
        qed
        have len: "length ?out < limit" using True by simp
        have e: "expand_hops bear db limit (Suc n) (Suc k) seen frontier out
            = expand_hops bear db limit n (Suc (Suc k)) (rev ?new @ seen) ?new ?out"
          using False more by (simp only: expand_hops.simps Let_def v sum.case prod.case if_False)
        have "k + Suc n = Suc k + n" by simp
        then show ?thesis unfolding e using Suc.IH [OF ok all len seen' front'] by metis
      qed
    next
      case False2: False
      let ?out = "out @ ?r (take (limit - length out) ?new)"
      have v: "visit_candidates limit (Suc k) ?ms (seen, out, []) = Inl ?out"
        using visit_candidates_run [OF dn(1) out(3), of "Suc k" seen "[]"] False2 by (simp add: Let_def take_map)
      have "reached_ok bear db seeds (Suc k) ?out"
        using reached_step [OF out(1,2), of "take (limit - length out) ?new"] dn(2) new set_take_subset by fastforce
      then have "reached_ok bear db seeds (k + Suc n) ?out" by (rule reached_ok_mono) simp
      moreover have "length ?out = limit" using False2 out(3) by simp
      ultimately show ?thesis using v False by simp
    qed
  qed
qed

text \<open>
  C22. The bounded expansion is a breadth-first search: it returns each record once, in order of its
  distance from the seeds, with exactly that distance, which is at most the depth; never more than
  the limit; everything nearer than a record it returns; and, when the limit is not reached,
  everything within the depth.
\<close>

theorem expansion_is_breadth_first:
  "reached_ok bear db (set seeds) max_depth (bounded_graph_expand bear db seeds max_depth limit)
   \<and> length (bounded_graph_expand bear db seeds max_depth limit) \<le> limit
   \<and> (length (bounded_graph_expand bear db seeds max_depth limit) = limit
      \<or> reached_all bear db (set seeds) max_depth (bounded_graph_expand bear db seeds max_depth limit))"
proof (cases "seeds = [] \<or> max_depth = 0 \<or> limit = 0")
  case True
  have "within_hops bear db {} n = {}" for n by (induction n) (auto simp: neighbours_def)
  then have "seeds = [] \<or> max_depth = 0 \<Longrightarrow> at_hop bear db (set seeds) h = {}" if "h \<le> max_depth" for h
    using that by (cases h) (auto simp: at_hop_def neighbours_def)
  then show ?thesis using True by (auto simp: bounded_graph_expand_def reached_ok_def reached_all_def)
next
  case False
  have "reached_ok bear db (set seeds) 0 []" "reached_all bear db (set seeds) 0 []"
    by (simp_all add: reached_ok_def reached_all_def at_hop_def)
  from expand_hops_ok [OF this, of limit seeds seeds max_depth] False
  show ?thesis by (auto simp: bounded_graph_expand_def)
qed

end
