(* ===== verification/Memory_Paths.thy ===== *)
theory Memory_Paths
  imports Memory_Growth
begin

section \<open>Heads and logical paths\<close>

text \<open>
  What superseding a record does to the head of its path and to every other record, and the round
  trip of logical paths.
\<close>

subsection \<open>Superseding a record\<close>

lemma hd_sort_key_unique:
  assumes "r \<in> set xs" and "\<And>x. x \<in> set xs \<Longrightarrow> x \<noteq> r \<Longrightarrow> f r < f x"
  shows "take 1 (sort_key f xs) = [r]"
proof (cases "sort_key f xs")
  case Nil
  then have "set xs = {}" by (metis set_empty set_sort)
  then show ?thesis using assms(1) by simp
next
  case (Cons y ys)
  have "sorted (map f (y # ys))" using sorted_sort_key [of f xs] Cons by simp
  moreover have "set (y # ys) = set xs" using set_sort [of f xs] Cons by metis
  ultimately have "f y \<le> f r" "y \<in> set xs" using assms(1) by auto
  then show ?thesis using assms(2) Cons by force
qed

text \<open>
  The database after a record has been appended that may replace another, and what the run of
  \<open>append_record_with_options\<close> says of the record (\<open>appended\<close>).
\<close>

definition replaced :: "string \<Rightarrow> string option \<Rightarrow> memory_rec \<Rightarrow> bool" where
  "replaced bear old q = (case old of None \<Rightarrow> False | Some i \<Rightarrow> own_record bear i q)"

definition ended :: "string \<Rightarrow> memory_rec \<Rightarrow> memory_rec" where
  "ended now q = q\<lparr>mr_invalid_at := (case mr_invalid_at q of None \<Rightarrow> Some now | Some t \<Rightarrow> Some t)\<rparr>"

definition appended_db :: "string \<Rightarrow> string \<Rightarrow> string option \<Rightarrow> memory_rec \<Rightarrow> memory_db \<Rightarrow> memory_db" where
  "appended_db bear now old r db = db\<lparr>md_next_sequence := md_next_sequence db + 1,
     md_records := update_where (replaced bear old) (ended now) (md_records db @ [r])\<rparr>"

definition appended :: "string \<Rightarrow> string \<Rightarrow> string option \<Rightarrow> memory_rec \<Rightarrow> memory_db \<Rightarrow> memory_db \<Rightarrow> bool" where
  "appended bear now old r db db' \<longleftrightarrow> db' = appended_db bear now old r db \<and> mr_bear r = bear \<and> mr_supersedes r = old
     \<and> mr_sequence_no r = md_next_sequence db \<and> (\<forall>q \<in> set (md_records db). mr_id q \<noteq> mr_id r)
     \<and> (\<forall>i. old = Some i \<longrightarrow> (\<exists>q \<in> set (md_records db). own_record bear i q))"

lemma record_into_row_new:
  "(record_into_row (new_record bear fresh now n logical kind prof agent content meta vis s old))\<lparr>mrr_scope_type := lmp_scope_type logical\<rparr>
     = record_into_row (new_record bear fresh now n logical kind prof agent content meta vis s old)"
proof -
  have "memory_scope_type_parse (memory_scope_type_str t) = Some t" for t by (cases t) (simp_all add: memory_scope_type_parse_def)
  then show ?thesis by (simp add: record_into_row_def new_record_def Let_def)
qed

lemma append_run:
  assumes "append_record_with_options bear fresh now logical kind prof agent content meta vis sal old db = (db', Inr row)"
  obtains s where "row = record_into_row (new_record bear fresh now (md_next_sequence db) logical kind prof agent content meta vis s old)"
    "appended bear now old (new_record bear fresh now (md_next_sequence db) logical kind prof agent content meta vis s old) db db'"
proof -
  obtain s where s: "normalize_salience sal = Inr s"
    using assms by (cases "normalize_salience sal") (simp_all add: append_record_with_options_def failM_def)
  let ?r = "new_record bear fresh now (md_next_sequence db) logical kind prof agent content meta vis s old"
  have ex: "\<exists>q \<in> set (md_records db). own_record bear i q" if i: "old = Some i" for i
    using assms s i
    by (auto simp: append_record_with_options_def ensure_record_exists_def bindM_def queryM_def failM_def filter_empty_conv split: if_splits)
  let ?d1 = "db\<lparr>md_next_sequence := md_next_sequence db + 1\<rparr>"
  let ?d2 = "?d1\<lparr>md_records := md_records db @ [?r]\<rparr>"
  have ok: "memory_schema_ok ?d1" "memory_schema_ok ?d2"
    using assms s
    by (auto simp: append_record_with_options_def ensure_record_exists_def next_sequence_def bindM_def queryM_def returnM_def failM_def
        checked_writeM_def Let_def split: if_splits option.splits)
  then have fresh: "\<forall>q \<in> set (md_records db). mr_id q \<noteq> fresh" by (auto simp: memory_schema_ok_def new_record_def)
  have "db' = appended_db bear now old ?r db \<and> row = (record_into_row ?r)\<lparr>mrr_scope_type := lmp_scope_type logical\<rparr>"
    using assms s ok
    by (auto simp: append_record_with_options_def ensure_record_exists_def next_sequence_def update_records_def bindM_def queryM_def failM_def
        returnM_def checked_writeM_def appended_db_def replaced_def [abs_def] ended_def [abs_def] update_where_none Let_def split: if_splits option.splits)
  moreover have "mr_bear ?r = bear" "mr_supersedes ?r = old" "mr_sequence_no ?r = md_next_sequence db" "mr_id ?r = fresh"
    by (simp_all add: new_record_def)
  ultimately show ?thesis using that [of s] ex fresh by (simp add: appended_def record_into_row_new)
qed

lemma find_own_unique:
  "memory_schema_ok db \<Longrightarrow> r \<in> set (md_records db) \<Longrightarrow> own_record bear i r \<Longrightarrow> List.find (own_record bear i) (md_records db) = Some r"
proof (cases "List.find (own_record bear i) (md_records db)")
  case None
  assume "r \<in> set (md_records db)" "own_record bear i r"
  then show ?thesis using None by (simp add: find_None_iff)
next
  case (Some q)
  assume "memory_schema_ok db" "r \<in> set (md_records db)" "own_record bear i r"
  then show ?thesis using own_record_unique [OF _ Some] Some by simp
qed

lemma find_update_where:
  assumes "\<And>r. P (f r) = P r"
  shows "List.find P (update_where g f rs) = map_option (\<lambda>r. if g r then f r else r) (List.find P rs)"
  using assms by (induction rs) (auto simp: update_where_def)

lemma not_replaced_new: "appended bear now old r db db' \<Longrightarrow> \<not> replaced bear old r"
  by (auto simp: appended_def replaced_def own_record_def split: option.splits)

lemma fetch_appended:
  "fetch_record_by_id bear i (appended_db bear now old r db) = map_option (\<lambda>q. record_into_row (if replaced bear old q then ended now q else q))
     (List.find (own_record bear i) (md_records db @ [r]))"
  by (simp add: fetch_record_by_id_def appended_db_def find_update_where own_record_def ended_def option.map_comp comp_def)

lemma fetch_new:
  assumes "appended bear now old r db db'"
  shows "fetch_record_by_id bear (mr_id r) db' = Some (record_into_row r)"
proof -
  have "List.find (own_record bear (mr_id r)) (md_records db) = None" "own_record bear (mr_id r) r"
    using assms by (auto simp: find_None_iff own_record_def appended_def)
  then show ?thesis using assms not_replaced_new [OF assms] by (simp add: appended_def fetch_appended find_append)
qed

lemma fetch_other:
  assumes "appended bear now old r db db'" and "old \<noteq> Some i" and "i \<noteq> mr_id r"
  shows "fetch_record_by_id bear i db' = fetch_record_by_id bear i db"
proof -
  have "\<not> own_record bear i r" using assms(3) by (simp add: own_record_def)
  moreover have "\<not> replaced bear old q" if "List.find (own_record bear i) (md_records db) = Some q" for q
    using that assms(2) by (auto simp: find_Some_iff own_record_def replaced_def split: option.splits)
  ultimately show ?thesis using assms(1)
    by (cases "List.find (own_record bear i) (md_records db)")
      (simp_all add: appended_def fetch_appended find_append fetch_record_by_id_def [of bear i db])
qed

lemma fetch_old:
  assumes "appended bear now (Some old) r db db'"
  shows "map_option mrr_lifecycle_status (fetch_record_by_id bear old db') = Some ''superseded''"
proof -
  obtain q where q: "List.find (own_record bear old) (md_records db) = Some q" "own_record bear old q"
    using assms by (cases "List.find (own_record bear old) (md_records db)") (auto simp: find_None_iff find_Some_iff appended_def)
  have "lifecycle_status (mr_metadata q) (mr_supersedes q) (mr_invalid_at (ended now q)) = ''superseded''"
    by (simp add: lifecycle_status_def ended_def split: option.split)
  then show ?thesis using q assms by (simp add: appended_def fetch_appended find_append record_into_row_def replaced_def ended_def Let_def)
qed

lemma set_appended:
  assumes "appended bear now old r db db'" and "q' \<in> set (md_records db')"
  obtains q where "q \<in> set (md_records db) \<union> {r}" "mr_id q' = mr_id q" "mr_bear q' = mr_bear q" "mr_sequence_no q' = mr_sequence_no q"
    "mr_supersedes q' = mr_supersedes q" "if replaced bear old q then mr_invalid_at q' \<noteq> None else q' = q"
  using assms by (force simp: appended_def appended_db_def set_update_where ended_def split: option.splits)

lemma old_unlisted:
  assumes "appended bear now (Some old) r db db'"
  shows "old \<notin> mrr_memory_id ` set (list_records_for_logical_path bear path n db')"
proof
  assume "old \<in> mrr_memory_id ` set (list_records_for_logical_path bear path n db')"
  then obtain q' where q': "q' \<in> set (md_records db')" "mr_bear q' = bear" "mr_id q' = old" "mr_invalid_at q' = None"
    unfolding list_records_for_logical_path_def records_where_def sql_limit_def by_sequence_desc_def
    by (auto simp: record_into_row_def Let_def split: if_splits dest!: in_set_takeD)
  from set_appended [OF assms q'(1)] q'(2-4) show False
    by (metis (full_types) own_record_def option.simps(5) replaced_def)
qed

text \<open>Sequence numbers are handed out in order, and nothing refers to a record that does not exist yet.\<close>

definition ready_for :: "string \<Rightarrow> memory_db \<Rightarrow> bool" where
  "ready_for fresh db \<longleftrightarrow> list_all (\<lambda>r. mr_sequence_no r < md_next_sequence db \<and> mr_supersedes r \<noteq> Some fresh) (md_records db)"

lemma head_new:
  assumes app: "appended bear now old r db db'" and ready: "ready_for (mr_id r) db"
    and r: "mr_logical_path r = Some path" "mr_visibility r = ''normal''"
  shows "head_record_for_logical_path bear path db' = Some (record_into_row r)"
proof -
  let ?p = "\<lambda>q. mr_bear q = bear \<and> mr_logical_path q = Some path \<and> mr_visibility q = ''normal'' \<and> is_head db' q"
  have new: "mr_bear r = bear" "mr_supersedes r = old" "mr_sequence_no r = md_next_sequence db" "\<forall>q \<in> set (md_records db). mr_id q \<noteq> mr_id r"
    using app by (simp_all add: appended_def)
  have in_db: "r \<in> set (md_records db')"
    using app not_replaced_new [OF app] by (simp add: appended_def appended_db_def update_where_def)
  have "old \<noteq> Some (mr_id r)" using app by (auto simp: appended_def own_record_def)
  then have "mr_supersedes n \<noteq> Some (mr_id r)" if "n \<in> set (md_records db')" for n
    using set_appended [OF app that] ready new(2) unfolding ready_for_def list_all_iff by (metis Un_iff singletonD)
  then have "r \<in> set (filter ?p (md_records db'))" using in_db r new(1) by (auto simp: is_head_def)
  moreover have "mr_sequence_no q' < mr_sequence_no r" if "q' \<in> set (md_records db')" "q' \<noteq> r" for q'
    using set_appended [OF app that(1)] ready new(3) not_replaced_new [OF app] that(2)
    unfolding ready_for_def list_all_iff by (metis Un_iff singletonD)
  ultimately have "take 1 (by_sequence_desc mr_sequence_no (filter ?p (md_records db'))) = [r]"
    unfolding by_sequence_desc_def by (intro hd_sort_key_unique) auto
  then show ?thesis unfolding head_record_for_logical_path_def records_where_def sql_limit_def by simp
qed



subsection \<open>Logical paths\<close>

text \<open>A segment of a path as the memory tools write them, and the paths made of such segments.\<close>

definition path_segment :: "string \<Rightarrow> bool" where
  "path_segment s \<longleftrightarrow> s \<noteq> [] \<and> list_all graphic s \<and> CHR ''/'' \<notin> set s \<and> \<not> suffix ''.md'' s"

definition well_formed_path :: "logical_memory_path \<Rightarrow> bool" where
  "well_formed_path p \<longleftrightarrow> path_segment (lmp_kind p) \<and>
     (case (lmp_scope_type p, lmp_scope_profile p, lmp_work_surface_ref p) of
        (ScopeShared, None, None) \<Rightarrow> lmp_kind p \<noteq> ''overview''
      | (ScopeShared, None, Some ws) \<Rightarrow> path_segment ws
      | (ScopeProfileLocal, Some profile, None) \<Rightarrow> path_segment profile \<and> profile \<noteq> ''core''
      | (ScopeProfileLocal, Some profile, Some ws) \<Rightarrow> path_segment profile \<and> profile \<noteq> ''core'' \<and> path_segment ws
      | _ \<Rightarrow> False)"

lemma trim_md_rev_id: "\<not> suffix ''.md'' s \<Longrightarrow> trim_md_rev (rev s) = rev s"
proof (cases "rev s" rule: trim_md_rev.cases)
  case (1 a b c t)
  assume n: "\<not> suffix ''.md'' s"
  have s: "s = rev t @ [c, b, a]" using 1 by (metis rev_rev_ident rev.simps append_Cons append_Nil append_assoc)
  have "[c, b, a] \<noteq> ''.md''" using n s by (auto simp: suffix_def)
  then show ?thesis using 1 by auto
qed simp_all

lemma trim_md_ext: "\<not> suffix ''.md'' s \<Longrightarrow> trim_md (s @ ''.md'') = s"
  by (simp add: trim_md_def trim_md_rev_id)

lemma split_segments_plain: "CHR ''/'' \<notin> set s \<Longrightarrow> split_segments cur (s @ CHR ''/'' # t) = (cur @ s) # split_segments [] t"
  by (induction s arbitrary: cur) auto

lemma split_segments_last: "CHR ''/'' \<notin> set s \<Longrightarrow> split_segments cur s = [cur @ s]"
  by (induction s arbitrary: cur) auto

lemma split_once_slash_plain: "CHR ''/'' \<notin> set s \<Longrightarrow> split_once_slash (s @ CHR ''/'' # t) = Some (s, t)"
  by (induction s) auto

lemma parse_surface:
  "path_segment ws \<Longrightarrow> path_segment kind \<Longrightarrow> parse_work_surface_path (ws @ CHR ''/'' # kind @ ''.md'') = (ws, kind)"
  by (simp add: parse_work_surface_path_def path_segment_def split_segments_plain split_segments_last trim_md_ext)

lemma no_slash_prefix: "CHR ''/'' \<in> set p \<Longrightarrow> CHR ''/'' \<notin> set s \<Longrightarrow> \<not> prefix p s"
  using set_mono_prefix by blast

lemma trim_core_id: "\<not> prefix ''core/'' s \<Longrightarrow> trim_core s = s"
  by (cases s rule: trim_core.cases) (auto simp: prefix_def)

lemma trim_path:
  assumes "list_all graphic t" and "t \<noteq> []" and "hd t \<noteq> CHR ''/''"
  shows "dropWhile (\<lambda>c. c = CHR ''/'') (trim t) = t"
  using assms trim_graphic [OF assms(1)] by (cases t) simp_all

lemma from_core:
  assumes "path_segment kind"
  shows "from_logical_path (''core/'' @ kind @ ''.md'') = shared_core kind"
proof -
  let ?t = "''core/'' @ kind @ ''.md''"
  have g: "list_all graphic ?t" using assms by (simp add: path_segment_def graphic_def)
  have t: "dropWhile (\<lambda>c. c = CHR ''/'') (trim ?t) = ?t" by (rule trim_path [OF g]) simp_all
  have ns: "CHR ''/'' \<notin> set (kind @ ''.md'')" using assms by (simp add: path_segment_def)
  have "\<not> prefix ''work_surfaces/'' (kind @ ''.md'')" "\<not> prefix ''core/'' (kind @ ''.md'')"
    using ns by (intro no_slash_prefix; simp)+
  then have "strip_prefix ''core/work_surfaces/'' ?t = None" "trim_core ?t = kind @ ''.md''"
    using trim_core_id by (auto simp: strip_prefix_def)
  then show ?thesis
    unfolding from_logical_path_def t Let_def using assms trim_md_ext by (simp add: path_segment_def)
qed

lemma from_core_surface:
  assumes "path_segment ws" and "path_segment kind"
  shows "from_logical_path (''core/work_surfaces/'' @ ws @ ''/'' @ kind @ ''.md'')
    = \<lparr>lmp_scope_type = ScopeShared, lmp_scope_profile = None, lmp_work_surface_ref = Some ws, lmp_kind = kind\<rparr>"
proof -
  let ?t = "''core/work_surfaces/'' @ ws @ ''/'' @ kind @ ''.md''"
  have g: "list_all graphic ?t" using assms by (simp add: path_segment_def graphic_def)
  have t: "dropWhile (\<lambda>c. c = CHR ''/'') (trim ?t) = ?t" by (rule trim_path [OF g]) simp_all
  have "strip_prefix ''core/work_surfaces/'' ?t = Some (ws @ ''/'' @ kind @ ''.md'')" by (simp add: strip_prefix_def)
  then show ?thesis
    unfolding from_logical_path_def t Let_def using parse_surface [OF assms] by simp
qed

lemma profile_prefix:
  assumes "path_segment profile" and "profile \<noteq> ''core''"
  shows "\<not> prefix ''core/'' (profile @ ''/'' @ t)" "strip_prefix ''core/work_surfaces/'' (profile @ ''/'' @ t) = None"
proof -
  have "split_once_slash (''core/'' @ u) = Some (''core'', u)" for u by simp
  moreover have "split_once_slash (profile @ ''/'' @ t) = Some (profile, t)" using assms(1) split_once_slash_plain by (simp add: path_segment_def)
  ultimately have n: "profile @ ''/'' @ t \<noteq> ''core/'' @ u" for u using assms(2) by (metis option.inject prod.inject)
  then show "\<not> prefix ''core/'' (profile @ ''/'' @ t)" unfolding prefix_def by blast
  show "strip_prefix ''core/work_surfaces/'' (profile @ ''/'' @ t) = None"
    using n [of "''work_surfaces/'' @ v" for v] unfolding strip_prefix_def prefix_def by auto
qed

lemma from_profile:
  assumes "path_segment profile" and "profile \<noteq> ''core''" and "list_all graphic rest"
  shows "from_logical_path (profile @ ''/'' @ rest) =
    (case strip_prefix ''work_surfaces/'' rest of
       Some rest2 \<Rightarrow> (case parse_work_surface_path rest2 of (ws, kind) \<Rightarrow>
         \<lparr>lmp_scope_type = ScopeProfileLocal, lmp_scope_profile = Some profile, lmp_work_surface_ref = Some ws, lmp_kind = kind\<rparr>)
     | None \<Rightarrow> profile_local profile (trim_md rest))"
proof -
  let ?t = "profile @ ''/'' @ rest"
  have g: "list_all graphic ?t" using assms by (simp add: path_segment_def graphic_def)
  obtain c u where c: "profile = c # u" "c \<noteq> CHR ''/''" using assms(1) by (cases profile) (auto simp: path_segment_def)
  have t: "dropWhile (\<lambda>c. c = CHR ''/'') (trim ?t) = ?t" using c by (intro trim_path [OF g]) simp_all
  have "split_once_slash ?t = Some (profile, rest)" using assms(1) split_once_slash_plain by (simp add: path_segment_def)
  then show ?thesis
    unfolding from_logical_path_def t Let_def using profile_prefix [OF assms(1,2), of rest] by simp
qed

text \<open>
  C31. Logical paths round-trip: a path of plain segments, shared or local to a profile other than
  core, with or without a work surface, is read back from its text. The exception is the shared
  overview, which is written under another file name and comes back with that name as its kind.
\<close>

theorem logical_path_round_trip:
  assumes "well_formed_path p"
  shows "from_logical_path (to_logical_path p) = p
    \<and> from_logical_path (to_logical_path (shared_core ''overview'')) = shared_core ''bear-overview''"
proof
  have k: "path_segment (lmp_kind p)" using assms by (simp add: well_formed_path_def)
  have eq: "p = \<lparr>lmp_scope_type = lmp_scope_type p, lmp_scope_profile = lmp_scope_profile p,
      lmp_work_surface_ref = lmp_work_surface_ref p, lmp_kind = lmp_kind p\<rparr>" by simp
  have ns: "strip_prefix ''work_surfaces/'' (lmp_kind p @ ''.md'') = None"
    using k no_slash_prefix [of "''work_surfaces/''" "lmp_kind p @ ''.md''"] by (simp add: strip_prefix_def path_segment_def)
  have gk: "list_all graphic (lmp_kind p @ ''.md'')" using k by (simp add: path_segment_def graphic_def)
  show "from_logical_path (to_logical_path p) = p"
  proof (cases "lmp_scope_type p")
    case ScopeShared
    then have "lmp_scope_profile p = None" using assms by (cases "lmp_scope_profile p") (simp_all add: well_formed_path_def)
    then show ?thesis
      using assms ScopeShared k from_core [OF k] from_core_surface [OF _ k]
      by (cases "lmp_work_surface_ref p") (simp_all add: well_formed_path_def to_logical_path_def shared_core_def)
  next
    case ScopeProfileLocal
    then obtain profile where pr: "lmp_scope_profile p = Some profile" "path_segment profile" "profile \<noteq> ''core''"
      using assms by (cases "lmp_scope_profile p"; cases "lmp_work_surface_ref p") (auto simp: well_formed_path_def)
    show ?thesis
    proof (cases "lmp_work_surface_ref p")
      case None
      have "to_logical_path p = profile @ ''/'' @ lmp_kind p @ ''.md''"
        using ScopeProfileLocal pr(1) None by (simp add: to_logical_path_def)
      then show ?thesis
        using from_profile [OF pr(2,3) gk] ns k trim_md_ext ScopeProfileLocal pr(1) None
        by (simp add: profile_local_def path_segment_def)
    next
      case (Some ws)
      then have ws: "path_segment ws" using assms ScopeProfileLocal pr(1) by (simp add: well_formed_path_def)
      let ?rest = "''work_surfaces/'' @ ws @ ''/'' @ lmp_kind p @ ''.md''"
      have g: "list_all graphic ?rest" using gk ws by (simp add: path_segment_def graphic_def)
      have "strip_prefix ''work_surfaces/'' ?rest = Some (ws @ ''/'' @ lmp_kind p @ ''.md'')" by (simp add: strip_prefix_def)
      moreover have "to_logical_path p = profile @ ''/'' @ ?rest"
        using ScopeProfileLocal pr(1) Some by (simp add: to_logical_path_def)
      ultimately show ?thesis
        using from_profile [OF pr(2,3) g] parse_surface [OF ws k] ScopeProfileLocal pr(1) Some by simp
    qed
  qed
  show "from_logical_path (to_logical_path (shared_core ''overview'')) = shared_core ''bear-overview''"
    by code_simp
qed

theorem logical_path_round_trip_witness:
  "from_logical_path (to_logical_path \<lparr>lmp_scope_type = ScopeProfileLocal, lmp_scope_profile = Some ''pair'',
      lmp_work_surface_ref = Some ''my-repo'', lmp_kind = ''architecture''\<rparr>)
    = \<lparr>lmp_scope_type = ScopeProfileLocal, lmp_scope_profile = Some ''pair'', lmp_work_surface_ref = Some ''my-repo'', lmp_kind = ''architecture''\<rparr>"
proof -
  have "well_formed_path \<lparr>lmp_scope_type = ScopeProfileLocal, lmp_scope_profile = Some ''pair'',
      lmp_work_surface_ref = Some ''my-repo'', lmp_kind = ''architecture''\<rparr>"
    by code_simp
  from logical_path_round_trip [OF this] show ?thesis by blast
qed

end
