(* ===== verification/Memory_Promotion.thy ===== *)
theory Memory_Promotion
  imports Memory_Paths
begin

section \<open>Promotions to the shared core\<close>

text \<open>
  The two ways a promotion succeeds (\<open>promotion_cases\<close>), what it installs and what it replaces, and the
  promotion to another spelling of a path.
\<close>

subsection \<open>Promotions\<close>

lemma head_of_records: "md_records db' = md_records db \<Longrightarrow> head_record_for_logical_path bear path db' = head_record_for_logical_path bear path db"
  by (simp add: head_record_for_logical_path_def records_where_def is_head_def)

lemma fetch_of_records: "md_records db' = md_records db \<Longrightarrow> fetch_record_by_id bear i db' = fetch_record_by_id bear i db"
  by (simp add: fetch_record_by_id_def)

lemma list_of_records:
  "md_records db' = md_records db \<Longrightarrow> list_records_for_logical_path bear path n db' = list_records_for_logical_path bear path n db"
  by (simp add: list_records_for_logical_path_def records_where_def)

lemma promotion_row:
  assumes "append_memory_promotion bear fresh now source target action notes db = (db', Inr p)"
  obtains pm where "p = fresh" "md_promotions db' = md_promotions db @ [pm]" "pm_source pm = source" "pm_target pm = target"
    "pm_action pm = action" "md_records db' = md_records db" "md_proposals db' = md_proposals db"
  using assms
  by (auto simp: append_memory_promotion_def next_sequence_def bindM_def returnM_def checked_writeM_def split: if_splits)

text \<open>The two ways a promotion succeeds: the head of the path already makes the claim, or a record is appended.\<close>

definition same_claim :: "(string \<Rightarrow> string) \<Rightarrow> string \<Rightarrow> memory_record_row \<Rightarrow> bool" where
  "same_claim lower content h \<longleftrightarrow> memory_claim_fingerprint lower (mrr_content_text h) = memory_claim_fingerprint lower content"

lemma promotion_cases:
  assumes "promote_to_shared_core_at_path lower bear fresh now source path kind content author sal db = (db', Inr out)"
  obtains (noop) h pm where "head_record_for_logical_path bear path db = Some h" "same_claim lower content h" "cpo_memory_id out = mrr_memory_id h"
      "md_records db' = md_records db" "md_promotions db' = md_promotions db @ [pm]" "pm_source pm = source"
      "pm_target pm = Some (mrr_memory_id h)" "pm_action pm = ''dedupe_core_noop''" "md_proposals db' = md_proposals db"
  | (written) r db1 pm where "\<forall>h. head_record_for_logical_path bear path db = Some h \<longrightarrow> \<not> same_claim lower content h"
      "appended bear (now 0) (map_option mrr_memory_id (head_record_for_logical_path bear path db)) r db db1"
      "md_records db' = md_records db1" "mr_id r = fresh 0" "mr_content_text r = content" "mr_visibility r = ''normal''"
      "mr_logical_path r = Some (to_logical_path (from_logical_path path))" "mr_metadata r = promotion_metadata source path"
      "mr_invalid_at r = None" "cpo_memory_id out = fresh 0" "md_promotions db' = md_promotions db @ [pm]" "pm_source pm = source"
      "pm_target pm = Some (fresh 0)"
      "pm_action pm = (if head_record_for_logical_path bear path db = None then ''promote_to_core'' else ''supersede_core'')"
      "md_proposals db' = md_proposals db"
proof (cases "filter_opt (same_claim lower content) (head_record_for_logical_path bear path db)")
  case (Some h)
  then have h: "head_record_for_logical_path bear path db = Some h" "same_claim lower content h"
    by (auto simp: filter_opt_def split: option.splits if_splits)
  obtain p where run: "append_memory_promotion bear (fresh 1) (now 1) source (Some (mrr_memory_id h)) ''dedupe_core_noop''
      (Some ''Candidate matched existing core head; no new memory record written.'') db = (db', Inr p)" and "cpo_memory_id out = mrr_memory_id h"
    using assms Some
    by (auto simp: promote_to_shared_core_at_path_def same_claim_def [abs_def] Let_def bindM_def queryM_def failM_def returnM_def
        split: if_splits prod.splits sum.splits)
  then show ?thesis using noop [OF h] promotion_row [OF run] by metis
next
  case None
  let ?old = "map_option mrr_memory_id (head_record_for_logical_path bear path db)"
  let ?logical = "from_logical_path path"
  obtain db1 row p where run: "append_record_with_options bear (fresh 0) (now 0) ?logical kind author None content
        (promotion_metadata source path) ''normal'' (unwrap_or sal ''normal'') ?old db = (db1, Inr row)"
      "append_memory_promotion bear (fresh 1) (now 1) source (Some (mrr_memory_id row)) (if ?old \<noteq> None then ''supersede_core'' else ''promote_to_core'')
        (map_option (\<lambda>i. ''Supersedes prior core memory record '' @ i) ?old) db1 = (db', Inr p)"
      and out: "cpo_memory_id out = mrr_memory_id row"
    using assms None unfolding promote_to_shared_core_at_path_def same_claim_def [abs_def]
    by (auto simp: Let_def bindM_def queryM_def failM_def returnM_def split: if_splits prod.splits sum.splits)
  let ?new = "\<lambda>s. new_record bear (fresh 0) (now 0) (md_next_sequence db) ?logical kind author None content
        (promotion_metadata source path) ''normal'' s ?old"
  obtain s where row: "row = record_into_row (?new s)" and app: "appended bear (now 0) ?old (?new s) db db1"
    by (rule append_run [OF run(1)])
  let ?r = "?new s"
  have r: "mr_id ?r = fresh 0" "mr_content_text ?r = content" "mr_visibility ?r = ''normal''"
      "mr_logical_path ?r = Some (to_logical_path ?logical)" "mr_metadata ?r = promotion_metadata source path" "mr_invalid_at ?r = None"
    by (simp_all add: new_record_def)
  have i: "mrr_memory_id row = fresh 0" using r(1) by (simp add: row record_into_row_def Let_def)
  have db1: "md_promotions db1 = md_promotions db" "md_proposals db1 = md_proposals db" using app by (simp_all add: appended_def appended_db_def)
  have "\<forall>h. head_record_for_logical_path bear path db = Some h \<longrightarrow> \<not> same_claim lower content h"
    using None by (auto simp: filter_opt_def split: option.splits if_splits)
  note written [OF this app _ r]
  moreover obtain pm where "md_records db' = md_records db1" "md_promotions db' = md_promotions db1 @ [pm]" "pm_source pm = source"
    "pm_target pm = Some (mrr_memory_id row)" "pm_action pm = (if ?old \<noteq> None then ''supersede_core'' else ''promote_to_core'')"
    "md_proposals db' = md_proposals db1"
    using promotion_row [OF run(2)] by metis
  ultimately show ?thesis using out i db1 by simp
qed

lemma row_of_new: "mrr_memory_id (record_into_row r) = mr_id r" "mrr_content_text (record_into_row r) = mr_content_text r"
  by (simp_all add: record_into_row_def Let_def)

text \<open>
  C25. A promotion installs the claim at its path: where the path is in the form that the service writes
  itself, the head of the path is afterwards the record the promotion names, and it makes the promoted
  claim. Exactly one promotion is logged. When the head made the claim already no record is written;
  otherwise the head has the promoted text, and the former head, if any, reads as superseded.
\<close>

theorem promotion_installs_claim:
  assumes "promote_to_shared_core_at_path lower bear fresh now source path kind content author sal db = (db', Inr out)"
    and "to_logical_path (from_logical_path path) = path" and "ready_for (fresh 0) db"
  shows "\<exists>h pm. head_record_for_logical_path bear path db' = Some h \<and> mrr_memory_id h = cpo_memory_id out \<and> same_claim lower content h
    \<and> md_promotions db' = md_promotions db @ [pm] \<and> pm_source pm = source \<and> pm_target pm = Some (cpo_memory_id out)
    \<and> (case filter_opt (same_claim lower content) (head_record_for_logical_path bear path db) of
         Some old \<Rightarrow> h = old \<and> md_records db' = md_records db \<and> pm_action pm = ''dedupe_core_noop''
       | None \<Rightarrow> mrr_content_text h = content
           \<and> (case head_record_for_logical_path bear path db of
                None \<Rightarrow> pm_action pm = ''promote_to_core''
              | Some old \<Rightarrow> pm_action pm = ''supersede_core''
                  \<and> map_option mrr_lifecycle_status (fetch_record_by_id bear (mrr_memory_id old) db') = Some ''superseded''))"
  using assms(1)
proof (cases rule: promotion_cases)
  case (noop h pm)
  then show ?thesis using head_of_records [OF noop(4)] by (simp add: filter_opt_def)
next
  case (written r db1 pm)
  have head: "head_record_for_logical_path bear path db' = Some (record_into_row r)"
    using head_new [OF written(2)] written(4,6,7) assms(2,3) head_of_records [OF written(3)] by simp
  have none: "filter_opt (same_claim lower content) (head_record_for_logical_path bear path db) = None"
    using written(1) by (simp add: filter_opt_def split: option.splits)
  have "map_option mrr_lifecycle_status (fetch_record_by_id bear (mrr_memory_id old) db') = Some ''superseded''"
    if "head_record_for_logical_path bear path db = Some old" for old
    using fetch_old written(2) that fetch_of_records [OF written(3)] by simp
  then show ?thesis
    using head none written(4,5,10-14) by (auto simp: row_of_new same_claim_def split: option.splits)
qed

theorem promotion_installs_claim_witness:
  "\<exists>db' out h. promote_to_shared_core_at_path (\<lambda>s. s) ''bear'' (\<lambda>n. if n = 0 then ''m4'' else ''p1'') (\<lambda>_. ''t'') ''m1'' ''core/x.md'' ''x'' ''new claim''
       ''curate'' None sample_memory = (db', Inr out)
     \<and> head_record_for_logical_path ''bear'' ''core/x.md'' db' = Some h \<and> mrr_memory_id h = cpo_memory_id out"
proof -
  let ?m = "promote_to_shared_core_at_path (\<lambda>s. s) ''bear'' (\<lambda>n. if n = 0 then ''m4'' else ''p1'') (\<lambda>_. ''t'') ''m1'' ''core/x.md'' ''x'' ''new claim''
       ''curate'' None sample_memory"
  have "\<not> isl (snd ?m)" by code_simp
  then obtain db' out where run: "?m = (db', Inr out)" by (metis prod.collapse sum.collapse(2))
  have "to_logical_path (from_logical_path ''core/x.md'') = ''core/x.md''" "ready_for ((\<lambda>n. if n = (0::nat) then ''m4'' else ''p1'') 0) sample_memory"
    by code_simp+
  from promotion_installs_claim [OF run this] run show ?thesis by blast
qed

lemma promotion_replaces:
  assumes "promote_to_shared_core_at_path lower bear fresh now source path kind content author sal db = (db1, Inr out)"
    and "to_logical_path (from_logical_path path) = path" and "ready_for (fresh 0) db"
    and "head_record_for_logical_path bear path db = Some old" and "\<not> same_claim lower content old" and "md_records db' = md_records db1"
  shows "map_option mrr_content_text (head_record_for_logical_path bear path db') = Some content"
    "map_option mrr_lifecycle_status (fetch_record_by_id bear (mrr_memory_id old) db') = Some ''superseded''"
    "mrr_memory_id old \<notin> mrr_memory_id ` set (list_records_for_logical_path bear p n db')"
proof -
  obtain r db2 where app: "appended bear (now 0) (Some (mrr_memory_id old)) r db db2"
    and r: "mr_id r = fresh 0" "mr_content_text r = content" "mr_visibility r = ''normal''" "mr_logical_path r = Some path"
    and "md_records db1 = md_records db2"
    using assms(1) by (cases rule: promotion_cases) (use assms(2,4,5) in auto)
  then have recs: "md_records db' = md_records db2" using assms(6) by simp
  show "map_option mrr_content_text (head_record_for_logical_path bear path db') = Some content"
    using head_new [OF app _ r(4,3)] r(1,2) assms(3) head_of_records [OF recs] by (simp add: row_of_new)
  show "map_option mrr_lifecycle_status (fetch_record_by_id bear (mrr_memory_id old) db') = Some ''superseded''"
    using fetch_old [OF app] fetch_of_records [OF recs] by simp
  show "mrr_memory_id old \<notin> mrr_memory_id ` set (list_records_for_logical_path bear p n db')"
    using old_unlisted [OF app] list_of_records [OF recs] by simp
qed

text \<open>
  C35. A promotion to another spelling of a path supersedes nothing: where the path is not as the service
  writes it and no record is stored under that spelling, the former head of the path that is written
  is neither compared nor replaced. Every record reads as before, and those listed for the path
  written stay listed beside the new one.
\<close>

theorem promotion_by_other_spelling:
  assumes "promote_to_shared_core_at_path lower bear fresh now source path kind content author sal db = (db', Inr out)"
    and "head_record_for_logical_path bear path db = None"
  shows "(\<forall>i. i \<noteq> cpo_memory_id out \<longrightarrow> fetch_record_by_id bear i db' = fetch_record_by_id bear i db)
    \<and> (\<exists>r. mrr_memory_id r = cpo_memory_id out \<and> mrr_content_text r = content
         \<and> set (list_records_for_logical_path bear (to_logical_path (from_logical_path path)) (-1) db')
             = insert r (set (list_records_for_logical_path bear (to_logical_path (from_logical_path path)) (-1) db)))"
  using assms(1)
proof (cases rule: promotion_cases)
  case (noop h pm)
  then show ?thesis using assms(2) by simp
next
  case (written r db1 pm)
  have app: "appended bear (now 0) None r db db1" using written(2) assms(2) by simp
  then have db1: "md_records db1 = md_records db @ [r]" "mr_bear r = bear"
    by (simp_all add: appended_def appended_db_def replaced_def [abs_def] update_where_none)
  have "listed_lifecycle (mr_metadata r)"
    by (simp add: written(8) promotion_metadata_def listed_lifecycle_def stored_lifecycle_def jget_def unwrap_or_def)
  then have "set (list_records_for_logical_path bear (to_logical_path (from_logical_path path)) (-1) db1)
      = insert (record_into_row r) (set (list_records_for_logical_path bear (to_logical_path (from_logical_path path)) (-1) db))"
    using written(7,9) db1 by (auto simp: list_records_for_logical_path_def records_where_def sql_limit_def by_sequence_desc_def)
  moreover have "fetch_record_by_id bear i db' = fetch_record_by_id bear i db" if "i \<noteq> cpo_memory_id out" for i
    using fetch_other [OF app] that written(4,10) fetch_of_records [OF written(3)] by simp
  ultimately show ?thesis using written(4,5,10) row_of_new list_of_records [OF written(3)] by metis
qed

theorem promotion_by_other_spelling_witness:
  "\<exists>db' out. promote_to_shared_core_at_path (\<lambda>s. s) ''bear'' (\<lambda>n. if n = 0 then ''m4'' else ''p1'') (\<lambda>_. ''t'') ''m1'' ''core/x'' ''x'' ''new claim''
       ''curate'' None sample_memory = (db', Inr out)
     \<and> mrr_memory_id ` set (list_records_for_logical_path ''bear'' ''core/x.md'' (-1) db')
         = insert ''m4'' (mrr_memory_id ` set (list_records_for_logical_path ''bear'' ''core/x.md'' (-1) sample_memory))
     \<and> ''m3'' \<in> mrr_memory_id ` set (list_records_for_logical_path ''bear'' ''core/x.md'' (-1) sample_memory)"
proof -
  let ?m = "promote_to_shared_core_at_path (\<lambda>s. s) ''bear'' (\<lambda>n. if n = 0 then ''m4'' else ''p1'') (\<lambda>_. ''t'') ''m1'' ''core/x'' ''x'' ''new claim''
       ''curate'' None sample_memory"
  have "\<not> isl (snd ?m) \<and> cpo_memory_id (projr (snd ?m)) = ''m4''" by code_simp
  then obtain db' out where run: "?m = (db', Inr out)" and "cpo_memory_id out = ''m4''"
    by (metis prod.collapse sum.collapse(2) sum.sel(2) snd_conv)
  have "head_record_for_logical_path ''bear'' ''core/x'' sample_memory = None"
    "to_logical_path (from_logical_path ''core/x'') = ''core/x.md''"
    "''m3'' \<in> mrr_memory_id ` set (list_records_for_logical_path ''bear'' ''core/x.md'' (-1) sample_memory)"
    by code_simp+
  with promotion_by_other_spelling [OF run this(1)] run \<open>cpo_memory_id out = ''m4''\<close> show ?thesis by fastforce
qed

end
