(* ===== verification/Memory_Curation_Properties.thy ===== *)
theory Memory_Curation_Properties
  imports Memory_Promotion
begin

section \<open>Proposals and their curation\<close>

text \<open>
  The frame of an autonomous run (\<open>curated\<close>): what it may promote; when a filed proposal asks for a human
  (\<open>human_reasons\<close>, \<open>marked\<close>, with the rows that a limited query returns characterised by
  \<open>rows_ahead\<close>); and what approvals and core updates replace.
\<close>

subsection \<open>What curation may promote\<close>

text \<open>
  A proposal a run may act on by itself: pending, readable, not asking for a human, of no risky
  sensitivity, and made for the core. \<open>i\<close> is its id as the run writes it.
\<close>

definition cleared_proposal :: "(string \<Rightarrow> string option) \<Rightarrow> string \<Rightarrow> string \<Rightarrow> proposal_rec \<Rightarrow> bool" where
  "cleared_proposal uuid bear i q \<longleftrightarrow> pr_bear q = bear \<and> pr_status q = ''pending''
     \<and> (case sqlite_proposal_to_row uuid bear (into_proposal q) StCurate of
          Inl _ \<Rightarrow> False
        | Inr p \<Rightarrow> mpw_id p = i \<and> \<not> mpw_requires_human p \<and> \<not> sensitivity_requires_human (mpw_sensitivity p)
            \<and> mpw_suggested_action p \<in> set [''promote_to_core'', ''summarize_into_core''] \<and> mpw_source_paths p \<noteq> [])"

definition same_text :: "memory_rec \<Rightarrow> memory_rec \<Rightarrow> bool" where
  "same_text r r' \<longleftrightarrow> mr_id r' = mr_id r \<and> mr_content_text r' = mr_content_text r \<and> mr_metadata r' = mr_metadata r"

text \<open>The frame of a run over the pending proposals \<open>Q\<close>: only what promotions from \<open>A\<close> write is new.\<close>

definition pending_within :: "proposal_rec set \<Rightarrow> memory_db \<Rightarrow> bool" where
  "pending_within Q db \<longleftrightarrow> (\<forall>q \<in> set (md_proposals db). pr_status q = ''pending'' \<longrightarrow> q \<in> Q)"

definition promoted_only :: "string set \<Rightarrow> memory_db \<Rightarrow> memory_db \<Rightarrow> bool" where
  "promoted_only A db db' \<longleftrightarrow>
     (\<forall>pm \<in> set (md_promotions db'). pm \<in> set (md_promotions db) \<or> pm_source pm \<in> A)
     \<and> (\<forall>r \<in> set (md_records db'). (\<exists>r0 \<in> set (md_records db). same_text r0 r) \<or> (\<exists>i \<in> A. \<exists>path. mr_metadata r = promotion_metadata i path))"

definition curated :: "proposal_rec set \<Rightarrow> string set \<Rightarrow> memory_db \<Rightarrow> memory_db \<Rightarrow> bool" where
  "curated Q A db db' \<longleftrightarrow> (pending_within Q db \<longrightarrow> pending_within Q db' \<and> promoted_only A db db')"

lemma promoted_only_trans: "promoted_only A db db' \<Longrightarrow> promoted_only A db' db'' \<Longrightarrow> promoted_only A db db''"
  unfolding promoted_only_def same_text_def by (intro conjI ballI) (blast, metis (full_types))

lemma promoted_only_same:
  "md_promotions db' = md_promotions db \<Longrightarrow> md_records db' = md_records db \<Longrightarrow> promoted_only A db db'"
  by (auto simp: promoted_only_def same_text_def)

interpretation curating: db_frame memory_schema_ok "curated Q A" for Q A
  by unfold_locales (auto simp: curated_def promoted_only_same intro: promoted_only_trans)

abbreviation curates :: "proposal_rec set \<Rightarrow> string set \<Rightarrow> 'a memory_op \<Rightarrow> bool" where
  "curates Q A m \<equiv> stays_in memory_schema_ok (curated Q A) m"

lemmas curate_flow = curating.stays_intros curating.stays_try curating.stays_catch

lemma curates_sequence: "curates Q A next_sequence"
  unfolding next_sequence_def by (rule curating.stays_write) (auto simp: curated_def pending_within_def promoted_only_same)

lemma curates_new_record:
  assumes "mr_metadata r = promotion_metadata i path" and "i \<in> A"
  shows "curates Q A (memory_write (\<lambda>db. (db\<lparr>md_records := md_records db @ [r]\<rparr>, ())))"
proof (rule curating.stays_write)
  fix db
  show "curated Q A db (fst (db\<lparr>md_records := md_records db @ [r]\<rparr>, ()))"
    using assms by (auto simp: curated_def pending_within_def promoted_only_def same_text_def)
qed

lemma curates_records:
  assumes "\<And>r. same_text r (f r)"
  shows "curates Q A (update_records g f)"
  unfolding update_records_def
proof (rule curating.stays_write)
  fix db
  show "curated Q A db (fst (db\<lparr>md_records := update_where g f (md_records db)\<rparr>, ()))"
    using assms by (auto simp: curated_def pending_within_def promoted_only_def set_update_where) (auto simp: same_text_def)
qed

lemma curates_append:
  assumes "i \<in> A"
  shows "curates Q A (append_record_with_options bear fresh now logical kind prof agent content (promotion_metadata i path) vis sal old)"
  unfolding append_record_with_options_def ensure_record_exists_def Let_def
  by (intro curate_flow curates_sequence curates_records curates_new_record [OF _ assms]) (simp_all add: same_text_def new_record_def)

lemma curates_promotion: "i \<in> A \<Longrightarrow> curates Q A (append_memory_promotion bear fresh now i target action notes)"
  unfolding append_memory_promotion_def
  by (intro curate_flow curates_sequence curating.stays_write)
    (auto simp: curated_def pending_within_def promoted_only_def same_text_def)

lemma curates_promote: "i \<in> A \<Longrightarrow> curates Q A (promote_to_shared_core_at_path lower bear fresh now i path kind content author sal)"
  unfolding promote_to_shared_core_at_path_def Let_def by (intro curate_flow curates_append curates_promotion) simp_all

lemma curates_resolve: "prs_status q \<noteq> ''pending'' \<Longrightarrow> curates Q A (resolve_proposal uuid bear now q)"
  unfolding resolve_proposal_def resolve_memory_proposal_def
  by (intro curate_flow curating.stays_write)
    (auto simp: curated_def pending_within_def set_update_where intro: promoted_only_same)

lemma stays_if_cond:
  "(c \<Longrightarrow> stays_in ok P m) \<Longrightarrow> (\<not> c \<Longrightarrow> stays_in ok P n) \<Longrightarrow> stays_in ok P (if c then m else n)"
  by simp

lemma resolution_status_settled: "resolution_status t \<noteq> ''pending''"
  by (cases t) simp_all

lemma curates_one:
  assumes "triage_label (decide_curate_triage p trigger) = ''promote_to_core'' \<Longrightarrow> mpw_id p \<in> A"
  shows "curates Q A (resolve_curate_proposal lower uuid bear fresh now p trigger)"
  unfolding resolve_curate_proposal_def Let_def
proof (rule stays_if_cond)
  assume "triage_label (decide_curate_triage p trigger) = ''promote_to_core''"
  from assms [OF this] show "curates Q A (catchM (bindM (apply_core_promotion lower uuid bear fresh now p (decide_curate_triage p trigger))
      (\<lambda>(path, _). returnM (approved_outcome p (triage_label (decide_curate_triage p trigger)) path))) (defer_after_error uuid bear (now 3) p))"
    unfolding apply_core_promotion_def defer_after_error_def Let_def by (intro curate_flow curates_promote curates_resolve) simp_all
qed (intro curate_flow curates_resolve, simp add: resolution_status_settled)

lemma promoted_if_cleared:
  "triage_label (decide_curate_triage p trigger) = ''promote_to_core'' \<Longrightarrow> \<not> mpw_requires_human p
     \<and> \<not> sensitivity_requires_human (mpw_sensitivity p) \<and> mpw_suggested_action p \<in> set [''promote_to_core'', ''summarize_into_core'']
     \<and> mpw_source_paths p \<noteq> []"
  by (simp add: decide_curate_triage_def decide_unspecified_def can_auto_promote_to_core_def split: if_splits)

lemma row_status: "sqlite_proposal_to_row uuid bear p st = Inr row \<Longrightarrow> mpw_status row = mp_status p"
  by (auto simp: sqlite_proposal_to_row_def row_of_members_def split: option.splits bool.splits if_splits)

lemma get_proposal_found:
  assumes "get_proposal uuid bear i db = (db', Inr (Some p))"
  obtains q where "q \<in> set (md_proposals db)" "pr_bear q = bear" "sqlite_proposal_to_row uuid bear (into_proposal q) StCurate = Inr p"
    "mpw_status p = pr_status q" "db' = db"
proof -
  obtain q where q: "List.find (own_proposal bear i) (md_proposals db) = Some q" "db' = db"
    and row: "sqlite_proposal_to_row uuid bear (into_proposal q) StCurate = Inr p"
    using assms
    by (auto simp: get_proposal_def get_memory_proposal_def bindM_def queryM_def returnM_def failM_def tryM_def split: option.splits sum.splits)
  then have "q \<in> set (md_proposals db)" "pr_bear q = bear" by (auto simp: find_Some_iff own_proposal_def)
  moreover have "mpw_status p = pr_status q" using row_status [OF row] by (simp add: into_proposal_def)
  ultimately show ?thesis using that row q(2) by blast
qed

lemma get_proposal_reads: "fst (get_proposal uuid bear i db) = db"
  by (simp add: get_proposal_def bindM_def queryM_def returnM_def failM_def tryM_def split: option.split sum.split)

lemma curates_fetch:
  assumes "grows (bindM (get_proposal uuid bear i) f)" and "curates Q A (f None)" and "\<And>p. mpw_status p \<noteq> ''pending'' \<Longrightarrow> curates Q A (f (Some p))"
    and "\<And>p q. q \<in> Q \<Longrightarrow> pr_bear q = bear \<Longrightarrow> pr_status q = ''pending'' \<Longrightarrow> sqlite_proposal_to_row uuid bear (into_proposal q) StCurate = Inr p
      \<Longrightarrow> curates Q A (f (Some p))"
  shows "curates Q A (bindM (get_proposal uuid bear i) f)"
proof (unfold stays_in_def, intro allI impI)
  fix db
  assume ok: "memory_schema_ok db"
  obtain r where get: "get_proposal uuid bear i db = (db, r)" using get_proposal_reads [of uuid bear i db] by (metis prod.collapse)
  have "curated Q A db (fst (bindM (get_proposal uuid bear i) f db))" if pend: "pending_within Q db"
  proof (cases r)
    case (Inl e)
    then show ?thesis using get by (simp add: bindM_def curating.frame_refl)
  next
    case (Inr found)
    have "curates Q A (f found)"
    proof (cases found)
      case (Some p)
      then obtain q where "q \<in> set (md_proposals db)" "pr_bear q = bear" "sqlite_proposal_to_row uuid bear (into_proposal q) StCurate = Inr p"
        "mpw_status p = pr_status q"
        using get_proposal_found get Inr by metis
      then have "curates Q A (f (Some p))"
        using assms(3) [of p] assms(4) [of q p] pend unfolding pending_within_def by metis
      then show ?thesis using Some by simp
    qed (simp add: assms(2))
    then have "curated Q A db (fst (f found db))" using ok by (simp add: stays_in_def)
    then show ?thesis using get Inr by (simp add: bindM_def)
  qed
  moreover have "memory_schema_ok (fst (bindM (get_proposal uuid bear i) f db))" using staysD [OF assms(1) ok] by blast
  ultimately show "memory_schema_ok (fst (bindM (get_proposal uuid bear i) f db)) \<and> curated Q A db (fst (bindM (get_proposal uuid bear i) f db))"
    unfolding curated_def by blast
qed

lemma curates_each:
  assumes "\<And>q i. q \<in> Q \<Longrightarrow> cleared_proposal uuid bear i q \<Longrightarrow> i \<in> A"
  shows "curates Q A (curate_each lower uuid bear fresh now n trigger ids)"
proof (induction ids arbitrary: n)
  case Nil
  show ?case by (simp add: curating.stays_return)
next
  case (Cons i ids)
  have one: "curates Q A (resolve_curate_proposal lower uuid bear (fresh n) (now n) p trigger)"
    if q: "q \<in> Q" "pr_bear q = bear" "pr_status q = ''pending''" "sqlite_proposal_to_row uuid bear (into_proposal q) StCurate = Inr p" for p q
  proof (rule curates_one)
    assume "triage_label (decide_curate_triage p trigger) = ''promote_to_core''"
    then have "cleared_proposal uuid bear (mpw_id p) q" using promoted_if_cleared q(2-4) by (simp add: cleared_proposal_def)
    then show "mpw_id p \<in> A" using assms q(1) by blast
  qed
  have step: "curates Q A (bindM m (\<lambda>outs. bindM (curate_each lower uuid bear fresh now (Suc n) trigger ids) (\<lambda>rest. returnM (outs @ rest))))"
    if "curates Q A m" for m
    by (intro curate_flow that Cons)
  have grow: "grows (curate_each lower uuid bear fresh now n trigger (i # ids))" by (rule grow_curate_each)
  have settled: "curates Q A (if mpw_status p \<noteq> ''pending'' then returnM []
      else bindM (resolve_curate_proposal lower uuid bear (fresh n) (now n) p trigger) (\<lambda>out. returnM [out]))"
    if "mpw_status p \<noteq> ''pending'' \<or> curates Q A (resolve_curate_proposal lower uuid bear (fresh n) (now n) p trigger)" for p
    using that by (auto intro: curating.stays_bind curating.stays_return)
  show ?case
    unfolding curate_each.simps
    by (rule curates_fetch [OF grow [unfolded curate_each.simps]]; rule step; unfold option.case)
      (rule curating.stays_return, rule settled, erule disjI1, rule settled, rule disjI2, erule (3) one)
qed

lemma curates_briefing: "curates Q A (build_curate_briefing uuid bear outs)"
proof (induction outs)
  case Nil
  show ?case by (simp add: curating.stays_return)
next
  case (Cons out outs)
  show ?case unfolding build_curate_briefing.simps get_proposal_def by (intro curate_flow Cons)
qed

text \<open>
  C11. An autonomous run promotes only what was cleared: whatever ids it is given, and whether it ends or
  fails, a promotion it logs and a text it adds to the memory come from a proposal of the bear that
  was pending before the run, asked for no human, had no risky sensitivity, named its sources and was
  made for the core. Every other record keeps its text.
\<close>

theorem curation_promotes_only_cleared:
  assumes "memory_schema_ok db"
    and "db' = fst (execute_memory_curate_proposals lower uuid bear fresh now trigger ids db)"
  shows "(\<forall>pm \<in> set (md_promotions db'). pm \<in> set (md_promotions db)
        \<or> (\<exists>q \<in> set (md_proposals db). cleared_proposal uuid bear (pm_source pm) q))
    \<and> (\<forall>r \<in> set (md_records db'). (\<exists>r0 \<in> set (md_records db). same_text r0 r)
        \<or> (\<exists>i path. mr_metadata r = promotion_metadata i path \<and> (\<exists>q \<in> set (md_proposals db). cleared_proposal uuid bear i q)))"
proof -
  let ?Q = "set (md_proposals db)"
  let ?A = "{i. \<exists>q \<in> ?Q. cleared_proposal uuid bear i q}"
  have "curates ?Q ?A (execute_memory_curate_proposals lower uuid bear fresh now trigger ids)"
    unfolding execute_memory_curate_proposals_def by (intro curate_flow curates_each curates_briefing) blast
  from staysD [OF this assms(1)] have "promoted_only ?A db db'" by (simp add: curated_def pending_within_def assms(2))
  then show ?thesis by (auto simp: promoted_only_def) blast
qed

subsection \<open>The first rows of a sorted table\<close>

text \<open>
  What \<open>ORDER BY ... LIMIT n\<close> returns, without sorting: the rows with fewer than \<open>n\<close> rows ahead of them.
\<close>

lemma sorted_three_parts:
  "sorted (map f ys) \<Longrightarrow> ys = filter (\<lambda>y. f y < k) ys @ filter (\<lambda>y. f y = k) ys @ filter (\<lambda>y. k < f y) ys"
  for f :: "'a \<Rightarrow> 'k::linorder"
proof (induction ys)
  case (Cons y ys)
  then have IH: "ys = filter (\<lambda>y. f y < k) ys @ filter (\<lambda>y. f y = k) ys @ filter (\<lambda>y. k < f y) ys" by simp
  have ge: "\<forall>z \<in> set ys. f y \<le> f z" using Cons.prems by simp
  consider "f y < k" | "f y = k" | "k < f y" by fastforce
  then show ?case
  proof cases
    case 1
    then have "f y \<noteq> k" "\<not> k < f y" by auto
    then show ?thesis using IH 1 by simp
  next
    case 2
    then have "filter (\<lambda>y. f y < k) ys = []" using ge by (auto simp: filter_empty_conv)
    then show ?thesis using IH 2 by simp
  next
    case 3
    then have "filter (\<lambda>y. f y < k) ys = []" "filter (\<lambda>y. f y = k) ys = []" using ge by (auto simp: filter_empty_conv)
    then show ?thesis using IH 3 by simp
  qed
qed simp

lemma nth_of_filter:
  "q < length (filter p xs) \<Longrightarrow> \<exists>i < length xs. xs ! i = filter p xs ! q \<and> p (xs ! i) \<and> length (filter p (take i xs)) = q"
proof (induction xs arbitrary: q)
  case (Cons x xs)
  show ?case
  proof (cases "p x")
    case True
    show ?thesis
    proof (cases q)
      case 0
      then show ?thesis using True by (intro exI [of _ 0]) simp
    next
      case (Suc r)
      then have "r < length (filter p xs)" using Cons.prems True by simp
      then obtain i where "i < length xs" "xs ! i = filter p xs ! r" "p (xs ! i)" "length (filter p (take i xs)) = r"
        using Cons.IH by blast
      then show ?thesis using True Suc by (intro exI [of _ "Suc i"]) simp
    qed
  next
    case False
    then have "q < length (filter p xs)" using Cons.prems by simp
    then obtain i where "i < length xs" "xs ! i = filter p xs ! q" "p (xs ! i)" "length (filter p (take i xs)) = q"
      using Cons.IH by blast
    then show ?thesis using False by (intro exI [of _ "Suc i"]) simp
  qed
qed simp

definition rows_ahead :: "('a \<Rightarrow> 'k::linorder) \<Rightarrow> 'a list \<Rightarrow> nat \<Rightarrow> nat" where
  "rows_ahead f xs i = length (filter (\<lambda>y. f y < f (xs ! i)) xs) + length (filter (\<lambda>y. f y = f (xs ! i)) (take i xs))"

lemma sort_parts:
  "sort_key f xs = filter (\<lambda>y. f y < k) (sort_key f xs) @ filter (\<lambda>y. f y = k) xs @ filter (\<lambda>y. k < f y) (sort_key f xs)"
  "length (filter (\<lambda>y. f y < k) (sort_key f xs)) = length (filter (\<lambda>y. f y < k) xs)"
proof -
  show "sort_key f xs = filter (\<lambda>y. f y < k) (sort_key f xs) @ filter (\<lambda>y. f y = k) xs @ filter (\<lambda>y. k < f y) (sort_key f xs)"
    using sorted_three_parts [of f "sort_key f xs" k] sort_key_stable [of f k xs] by simp
  show "length (filter (\<lambda>y. f y < k) (sort_key f xs)) = length (filter (\<lambda>y. f y < k) xs)"
    by (metis mset_filter mset_sort size_mset)
qed

lemma rank_of_row:
  assumes "i < length xs"
  shows "rows_ahead f xs i < length xs \<and> sort_key f xs ! rows_ahead f xs i = xs ! i"
proof -
  let ?k = "f (xs ! i)" let ?b = "length (filter (\<lambda>y. f y = ?k) (take i xs))"
  have "filter (\<lambda>y. f y = ?k) xs = filter (\<lambda>y. f y = ?k) (take i xs) @ xs ! i # filter (\<lambda>y. f y = ?k) (drop (Suc i) xs)"
    by (subst id_take_nth_drop [OF assms]) simp
  then have eq: "?b < length (filter (\<lambda>y. f y = ?k) xs)" "filter (\<lambda>y. f y = ?k) xs ! ?b = xs ! i" by simp_all
  have "rows_ahead f xs i < length (sort_key f xs)"
    using arg_cong [OF sort_parts(1) [of f xs ?k], of length] sort_parts(2) [of f ?k xs] eq(1) by (simp add: rows_ahead_def)
  moreover have "sort_key f xs ! rows_ahead f xs i = filter (\<lambda>y. f y = ?k) xs ! ?b"
    by (subst sort_parts(1) [of f xs ?k]) (simp add: rows_ahead_def sort_parts(2) nth_append eq(1))
  ultimately show ?thesis using eq(2) by simp
qed

lemma row_of_rank:
  assumes "p < length xs"
  shows "\<exists>i < length xs. rows_ahead f xs i = p \<and> xs ! i = sort_key f xs ! p"
proof -
  let ?k = "f (sort_key f xs ! p)" let ?a = "length (filter (\<lambda>y. f y < ?k) xs)"
  have p: "p < length (sort_key f xs)" using assms by simp
  have in_eq: "?a \<le> p \<and> p - ?a < length (filter (\<lambda>y. f y = ?k) xs)"
  proof -
    obtain L E G where parts: "L = filter (\<lambda>y. f y < ?k) (sort_key f xs)" "E = filter (\<lambda>y. f y = ?k) xs"
        "G = filter (\<lambda>y. ?k < f y) (sort_key f xs)" and s: "sort_key f xs = L @ E @ G"
      using sort_parts(1) [of f xs ?k] by blast
    have out: "sort_key f xs ! p \<notin> set L" "sort_key f xs ! p \<notin> set G" unfolding parts by simp_all
    have at: "sort_key f xs ! p = (L @ E @ G) ! p" and len: "p < length (L @ E @ G)" using p by (simp_all only: s)
    have "\<not> p < length L" using out(1) at by (auto simp: nth_append)
    moreover have "p < length L + length E"
    proof (rule ccontr)
      assume le: "\<not> p < length L + length E"
      then have "sort_key f xs ! p = G ! (p - length L - length E)" "p - length L - length E < length G"
        using at len by (auto simp: nth_append)
      then show False using out(2) nth_mem by metis
    qed
    ultimately show ?thesis using sort_parts(2) [of f ?k xs] unfolding parts by simp
  qed
  then obtain i where i: "i < length xs" "xs ! i = filter (\<lambda>y. f y = ?k) xs ! (p - ?a)" "f (xs ! i) = ?k"
      "length (filter (\<lambda>y. f y = ?k) (take i xs)) = p - ?a"
    using nth_of_filter [of "p - ?a" "\<lambda>y. f y = ?k" xs] by blast
  then have "rows_ahead f xs i = p" using in_eq by (simp add: rows_ahead_def)
  then show ?thesis using i(1) rank_of_row [OF i(1), of f] by metis
qed

lemma window_of_sorted:
  "x \<in> set (take n (sort_key f xs)) \<longleftrightarrow> (\<exists>i < length xs. xs ! i = x \<and> rows_ahead f xs i < n)"
proof
  assume "x \<in> set (take n (sort_key f xs))"
  then obtain p where "p < n" "p < length xs" "sort_key f xs ! p = x" by (auto simp: in_set_conv_nth)
  then show "\<exists>i < length xs. xs ! i = x \<and> rows_ahead f xs i < n" using row_of_rank [of p xs f] by metis
next
  assume "\<exists>i < length xs. xs ! i = x \<and> rows_ahead f xs i < n"
  then obtain i where "i < length xs" "xs ! i = x" "rows_ahead f xs i < n" by blast
  then show "x \<in> set (take n (sort_key f xs))" using rank_of_row [of i xs f] by (auto simp: in_set_conv_nth intro!: exI [of _ "rows_ahead f xs i"])
qed

subsection \<open>When a proposal asks for a human\<close>

text \<open>The claim a request makes, and the two reasons the memory itself gives.\<close>

definition requested_claim :: "(string \<Rightarrow> string) \<Rightarrow> proposal_request \<Rightarrow> string" where
  "requested_claim lower q = memory_claim_fingerprint lower (unwrap_or (prq_proposed_content q) (prq_summary q))"

definition other_claim_at_target :: "(string \<Rightarrow> string) \<Rightarrow> string \<Rightarrow> memory_db \<Rightarrow> proposal_request \<Rightarrow> bool" where
  "other_claim_at_target lower bear db q \<longleftrightarrow> requested_claim lower q \<noteq> []
     \<and> (case map_option trim (prq_target_ref q) of
          None \<Rightarrow> False
        | Some t \<Rightarrow> t \<noteq> [] \<and> (case head_record_for_logical_path bear t db of
            None \<Rightarrow> False
          | Some h \<Rightarrow> memory_claim_fingerprint lower (mrr_content_text h) \<notin> {[], requested_claim lower q}))"

text \<open>
  The active records of a bear, and how many of them are newer than the \<open>i\<close>-th: those with a larger
  sequence number, and those with the same one stored before it. Only the 100 newest are compared
  with a request.
\<close>

definition active_records :: "string \<Rightarrow> memory_db \<Rightarrow> memory_rec list" where
  "active_records bear db = filter (\<lambda>r. mr_bear r = bear \<and> mr_visibility r = ''normal'' \<and> mr_invalid_at r = None
     \<and> listed_lifecycle (mr_metadata r)) (md_records db)"

definition newer_count :: "memory_rec list \<Rightarrow> nat \<Rightarrow> nat" where
  "newer_count rs i = length (filter (\<lambda>r. mr_sequence_no r > mr_sequence_no (rs ! i)) rs)
     + length (filter (\<lambda>r. mr_sequence_no r = mr_sequence_no (rs ! i)) (take i rs))"

definition same_claim_elsewhere :: "(string \<Rightarrow> string) \<Rightarrow> string \<Rightarrow> memory_db \<Rightarrow> proposal_request \<Rightarrow> bool" where
  "same_claim_elsewhere lower bear db q \<longleftrightarrow> requested_claim lower q \<noteq> []
     \<and> (let rs = active_records bear db in \<exists>i \<in> set [0..<length rs]. newer_count rs i < 100
          \<and> mr_logical_path (rs ! i) \<noteq> Some (unwrap_or (map_option trim (prq_target_ref q)) [])
          \<and> memory_claim_fingerprint lower (mr_content_text (rs ! i)) = requested_claim lower q)"

lemma claim_found_iff:
  "active_record_with_claim_fingerprint lower bear db fp target \<noteq> None \<longleftrightarrow>
     (\<exists>i \<in> set [0..<length (active_records bear db)]. newer_count (active_records bear db) i < 100
        \<and> mr_logical_path (active_records bear db ! i) \<noteq> Some target
        \<and> memory_claim_fingerprint lower (mr_content_text (active_records bear db ! i)) = fp)"
proof -
  let ?rs = "active_records bear db"
  have newer: "rows_ahead (\<lambda>r. - mr_sequence_no r) ?rs i = newer_count ?rs i" for i
    by (simp add: rows_ahead_def newer_count_def)
  have "active_record_with_claim_fingerprint lower bear db fp target \<noteq> None \<longleftrightarrow>
      (\<exists>r \<in> set (take 100 (sort_key (\<lambda>r. - mr_sequence_no r) ?rs)). mr_logical_path r \<noteq> Some target
         \<and> memory_claim_fingerprint lower (mr_content_text r) = fp)"
    unfolding active_record_with_claim_fingerprint_def active_records_def sql_limit_def by_sequence_desc_def
    by (auto simp: find_None_iff)
  also have "\<dots> \<longleftrightarrow> (\<exists>i < length ?rs. newer_count ?rs i < 100 \<and> mr_logical_path (?rs ! i) \<noteq> Some target
        \<and> memory_claim_fingerprint lower (mr_content_text (?rs ! i)) = fp)"
    unfolding Bex_def window_of_sorted newer by blast
  finally show ?thesis by auto
qed

definition human_reasons :: "(string \<Rightarrow> string) \<Rightarrow> string \<Rightarrow> memory_db \<Rightarrow> proposal_request \<Rightarrow> bool" where
  "human_reasons lower bear db q \<longleftrightarrow> prq_requires_human q \<or> trim (prq_sensitivity q) \<in> set risky_sensitivities
     \<or> prq_suggested_action q = ''archive_index'' \<or> other_claim_at_target lower bear db q \<or> same_claim_elsewhere lower bear db q"

text \<open>A payload that has the members of the request but for the marks \<open>K\<close> and the flag, which is \<open>b\<close>.\<close>

definition request_members :: "proposal_request \<Rightarrow> (string \<times> json) list" where
  "request_members q = object_members (proposal_payload q)"

definition marked :: "proposal_request \<Rightarrow> string set \<Rightarrow> bool \<Rightarrow> json \<Rightarrow> bool" where
  "marked q K b v \<longleftrightarrow> (\<exists>m. v = JObj m \<and> map_of m ''requires_human'' = Some (JBool b)
     \<and> (\<forall>k. k \<notin> K \<longrightarrow> k \<noteq> ''requires_human'' \<longrightarrow> map_of m k = map_of (request_members q) k))"

lemma marked_request: "marked q {} (prq_requires_human q) (proposal_payload q)"
  by (simp add: marked_def request_members_def proposal_payload_def object_members_def)

lemma marked_review:
  assumes "marked q K b v" and "name \<noteq> ''requires_human''"
  shows "marked q (insert name K) True (with_review name mark v)"
  using assms by (auto simp: marked_def with_review_def ensure_object_payload_def object_members_def map_of_set_member)

lemma marked_more: "marked q K b v \<Longrightarrow> marked q (insert name K) b v"
  by (auto simp: marked_def)

lemma marked_text:
  assumes "marked q K b v" and "k \<notin> K" and "k \<noteq> ''requires_human''"
  shows "payload_text v k = text_field (request_members q) k" "jget v k = map_of (request_members q) k"
  using assms by (auto simp: marked_def payload_text_def text_field_def jget_def)

lemma request_texts:
  "text_field (request_members q) ''proposed_content'' = prq_proposed_content q"
  "text_field (request_members q) ''summary'' = Some (prq_summary q)"
  "text_field (request_members q) ''target_ref'' = prq_target_ref q"
  "map_of (request_members q) ''consolidation_review'' = None"
  by (simp_all add: text_field_def request_members_def proposal_payload_def object_members_def opt_json_def as_str_json_def split: option.split)

lemma marked_claim:
  assumes "marked q K b v" and "K \<inter> {''proposed_content'', ''summary''} = {}"
  shows "payload_claim_fingerprint lower v = (if requested_claim lower q = [] then None else Some (requested_claim lower q))"
  using assms marked_text(1) [OF assms(1)] request_texts(1,2)
  by (auto simp: payload_claim_fingerprint_def requested_claim_def unwrap_or_def or_else_def filter_opt_def split: option.splits)

lemma marked_freshness:
  assumes "marked q {} b v"
  shows "marked q {''freshness''} (b \<or> other_claim_at_target lower bear db q) (enrich_payload_with_freshness lower bear db v)"
proof -
  have more: "marked q {''freshness''} b v" using marked_more [OF assms] .
  have review: "marked q {''freshness''} True (with_review ''freshness'' mark v)" for mark using marked_review [OF assms] by simp
  show ?thesis
    unfolding enrich_payload_with_freshness_def other_claim_at_target_def
    using more review marked_claim [OF assms] marked_text(1) [OF assms, of "''target_ref''"] request_texts(3)
    by (auto simp: filter_opt_def Let_def split: option.split)
qed

lemma marked_consolidation:
  assumes "marked q {''freshness''} b v"
  shows "marked q {''consolidation_review'', ''freshness''} (b \<or> same_claim_elsewhere lower bear db q)
    (enrich_payload_with_consolidation_review lower bear db v)"
proof -
  have more: "marked q {''consolidation_review'', ''freshness''} b v" using marked_more [OF assms] .
  have review: "marked q {''consolidation_review'', ''freshness''} True (with_review ''consolidation_review'' mark v)" for mark
    using marked_review [OF assms] by simp
  show ?thesis
    unfolding enrich_payload_with_consolidation_review_def same_claim_elsewhere_def Let_def claim_found_iff [symmetric]
    using more review marked_claim [OF assms] marked_text(1) [OF assms, of "''target_ref''"] marked_text(2) [OF assms, of "''consolidation_review''"]
      request_texts(3,4)
    by (auto split: option.split)
qed

definition review_marks :: "string set" where
  "review_marks = set [''dedupe'', ''risk_review'', ''archive_lane'', ''consolidation_review'', ''freshness'']"

lemma marked_gated:
  "marked q {''risk_review'', ''archive_lane'', ''consolidation_review'', ''freshness''} (human_reasons lower bear db q)
     (enrich_payload_with_sensitivity_gate (enrich_payload_with_archive_lane (enrich_payload_with_consolidation_review lower bear db
       (enrich_payload_with_freshness lower bear db (proposal_payload q))) (prq_suggested_action q)) (prq_sensitivity q))"
proof -
  have archive: "marked q (insert ''archive_lane'' K) (b \<or> a = ''archive_index'') (enrich_payload_with_archive_lane v a)" if "marked q K b v" for K b v a
    using marked_more [OF that] marked_review [OF that] by (auto simp: enrich_payload_with_archive_lane_def)
  have gate: "marked q (insert ''risk_review'' K) (b \<or> trim s \<in> set risky_sensitivities) (enrich_payload_with_sensitivity_gate v s)"
    if "marked q K b v" for K b v s
    using marked_more [OF that] marked_review [OF that] by (auto simp: enrich_payload_with_sensitivity_gate_def)
  show ?thesis
    unfolding human_reasons_def
    using gate [OF archive [OF marked_consolidation [OF marked_freshness [OF marked_request]]]] by (simp add: disj_ac)
qed

lemma marked_enriched:
  "marked q review_marks (human_reasons lower bear db q)
     (enriched_payload lower bear db (prq_suggested_action q) (prq_sensitivity q) (proposal_payload q))"
proof -
  have "marked q (insert ''dedupe'' K) b (payload_with_dedupe_key lower v a s)" if "marked q K b v" for K b v a s
    using that marked_more [OF that]
    by (auto simp: payload_with_dedupe_key_def marked_def ensure_object_payload_def object_members_def map_of_set_member Let_def split: option.split)
  from this [OF marked_gated] show ?thesis unfolding enriched_payload_def review_marks_def by simp
qed

subsection \<open>Filing a proposal\<close>

lemma insert_proposal_run:
  assumes "insert_proposal bear fresh now action sens human payload db = (db', Inr p)"
  obtains r where "p = into_proposal r" "md_proposals db' = md_proposals db @ [r]" "pr_bear r = bear" "pr_status r = ''pending''"
    "pr_payload r = payload" "pr_requires_human r = human" "pr_id r = fresh" "md_records db' = md_records db"
  using assms by (auto simp: insert_proposal_def next_sequence_def bindM_def returnM_def checked_writeM_def Let_def split: if_splits)

lemma marked_row:
  assumes "marked q K b (pr_payload r)" and "sqlite_proposal_to_row uuid bear (into_proposal r) st = Inr row"
  shows "mpw_requires_human row = b" "mpw_status row = pr_status r"
proof -
  obtain m where "pr_payload r = JObj m" "map_of m ''requires_human'' = Some (JBool b)" using assms(1) by (auto simp: marked_def)
  then show "mpw_requires_human row = b" "mpw_status row = pr_status r"
    using assms(2)
    by (auto simp: sqlite_proposal_to_row_def payload_members_def into_proposal_def row_of_members_def human_field_def as_bool_json_def
        split: option.splits bool.splits)
qed

definition request_key :: "(string \<Rightarrow> string) \<Rightarrow> proposal_request \<Rightarrow> string option" where
  "request_key lower q = proposal_dedupe_key lower (proposal_payload q) (prq_suggested_action q) (prq_sensitivity q)"

lemma marked_key:
  assumes "marked q K b v" and "K \<subseteq> review_marks"
  shows "proposal_dedupe_key lower v a s = proposal_dedupe_key lower (proposal_payload q) a s"
proof -
  have base: "k \<in> {''refs'', ''source_refs'', ''target_ref'', ''proposed_content'', ''summary''} \<Longrightarrow> k \<notin> K \<and> k \<noteq> ''requires_human''" for k
    using assms(2) by (auto simp: review_marks_def)
  have "jget v k = jget (proposal_payload q) k" if "k \<in> {''refs'', ''source_refs'', ''target_ref'', ''proposed_content'', ''summary''}" for k
    using marked_text(2) [OF assms(1)] marked_text(2) [OF marked_request] base [OF that] by auto
  then show ?thesis by (simp add: proposal_dedupe_key_def payload_source_hash_def payload_claim_fingerprint_def payload_text_def)
qed

lemma stored_key_of_enriched:
  "stored_dedupe_key (enriched_payload lower bear db (prq_suggested_action q) (prq_sensitivity q) (proposal_payload q)) = request_key lower q"
proof -
  let ?v = "enrich_payload_with_sensitivity_gate (enrich_payload_with_archive_lane (enrich_payload_with_consolidation_review lower bear db
      (enrich_payload_with_freshness lower bear db (proposal_payload q))) (prq_suggested_action q)) (prq_sensitivity q)"
  obtain b where v: "marked q {''risk_review'', ''archive_lane'', ''consolidation_review'', ''freshness''} b ?v"
    using marked_gated by blast
  have key: "proposal_dedupe_key lower ?v (prq_suggested_action q) (prq_sensitivity q) = request_key lower q"
    unfolding request_key_def by (rule marked_key [OF v]) (auto simp: review_marks_def)
  have "jget ?v ''dedupe'' = None"
    using marked_text(2) [OF v, of "''dedupe''"] by (simp add: request_members_def proposal_payload_def object_members_def)
  then show ?thesis
    using key
    by (auto simp: enriched_payload_def payload_with_dedupe_key_def stored_dedupe_key_def jget_def map_of_set_member as_str_json_def Let_def
        split: option.split)
qed

lemma request_key_nonempty: "request_key lower q \<noteq> Some []"
  by (auto simp: request_key_def proposal_dedupe_key_def)

lemma request_key_exists: "requested_claim lower q \<noteq> [] \<Longrightarrow> request_key lower q \<noteq> None"
  using marked_claim [OF marked_request, of lower q]
  by (auto simp: request_key_def proposal_dedupe_key_def or_else_def split: option.split)

text \<open>The two ways a proposal is filed: a pending one has its key, or it is inserted.\<close>

lemma create_proposal_cases:
  assumes "create_proposal lower uuid bear fresh now q db = (db', Inr row)"
  obtains (pending) key r where "request_key lower q = Some key" "pending_proposal_for_dedupe_key bear key db = Some r" "db' = db"
      "sqlite_proposal_to_row uuid bear r (prq_source_profile q) = Inr row"
  | (filed) r where "\<forall>key. request_key lower q = Some key \<longrightarrow> pending_proposal_for_dedupe_key bear key db = None"
      "md_proposals db' = md_proposals db @ [r]" "pr_bear r = bear" "pr_status r = ''pending''" "pr_requires_human r = human_reasons lower bear db q"
      "pr_payload r = enriched_payload lower bear db (prq_suggested_action q) (prq_sensitivity q) (proposal_payload q)"
      "sqlite_proposal_to_row uuid bear (into_proposal r) (prq_source_profile q) = Inr row" "md_records db' = md_records db"
proof -
  let ?e = "enriched_payload lower bear db (prq_suggested_action q) (prq_sensitivity q) (proposal_payload q)"
  let ?human = "prq_requires_human q \<or> unwrap_or (Option.bind (jget ?e ''requires_human'') as_bool_json) False"
  have human: "?human = human_reasons lower bear db q"
    using marked_enriched [of q lower bear db] by (auto simp: marked_def jget_def unwrap_or_def as_bool_json_def human_reasons_def)
  obtain p where run: "create_memory_proposal lower bear fresh now (prq_suggested_action q) (prq_sensitivity q) (prq_requires_human q) (proposal_payload q) db
      = (db', Inr p)" and row: "sqlite_proposal_to_row uuid bear p (prq_source_profile q) = Inr row"
    using assms by (auto simp: create_proposal_def tryM_def returnM_def failM_def elim!: bindM_Inr split: sum.splits)
  have key: "filter_opt (\<lambda>k. k \<noteq> []) (stored_dedupe_key ?e) = request_key lower q"
    using stored_key_of_enriched [of lower bear db q] request_key_nonempty [of lower q]
    by (cases "request_key lower q") (auto simp: filter_opt_def)
  show ?thesis
  proof (cases "\<exists>key r. request_key lower q = Some key \<and> pending_proposal_for_dedupe_key bear key db = Some r")
    case True
    then obtain key r where r: "request_key lower q = Some key" "pending_proposal_for_dedupe_key bear key db = Some r" by blast
    then have "db' = db \<and> p = r"
      using run key by (simp add: create_memory_proposal_def bindM_def queryM_def returnM_def Let_def)
    then show ?thesis using pending [OF r] row by simp
  next
    case False
    then have none: "\<forall>key. request_key lower q = Some key \<longrightarrow> pending_proposal_for_dedupe_key bear key db = None" by auto
    then have "insert_proposal bear fresh now (prq_suggested_action q) (prq_sensitivity q) ?human ?e db = (db', Inr p)"
      using run key by (cases "request_key lower q") (simp_all add: create_memory_proposal_def bindM_def queryM_def Let_def)
    then obtain r where "p = into_proposal r" "md_proposals db' = md_proposals db @ [r]" "pr_bear r = bear" "pr_status r = ''pending''"
      "pr_payload r = ?e" "pr_requires_human r = ?human" "md_records db' = md_records db"
      by (rule insert_proposal_run)
    then show ?thesis using filed [OF none] human row by simp
  qed
qed

lemma no_first_row: "fetch_optional (sql_limit 1 (by_sequence_desc f rows)) = None \<longleftrightarrow> rows = []"
proof -
  have "fetch_optional xs = None \<longleftrightarrow> xs = []" for xs :: "'a list" by (cases xs) simp_all
  moreover have "sort_key g xs = [] \<longleftrightarrow> xs = []" for g :: "'a \<Rightarrow> int" and xs by (metis length_0_conv length_sort)
  ultimately show ?thesis by (simp add: sql_limit_def by_sequence_desc_def)
qed

text \<open>
  C12. A proposal asks for a human exactly when there is a reason: a request is answered with the pending
  proposal of the same key, and nothing is written; or one proposal is filed, pending, and it asks for a
  human, in its column and for the run that reads it, exactly when the request does, or its sensitivity
  is risky, or it is for the archive index, or the head of its target makes another claim, or one of
  the 100 newest active records of the bear makes the same claim at another path. An older active
  record with the same claim is not a reason.
\<close>

theorem proposal_asks_for_human:
  assumes "create_proposal lower uuid bear fresh now q db = (db', Inr row)"
  shows "(db' = db \<and> (\<exists>key r. request_key lower q = Some key \<and> pending_proposal_for_dedupe_key bear key db = Some r
        \<and> sqlite_proposal_to_row uuid bear r (prq_source_profile q) = Inr row))
    \<or> (\<exists>r. md_proposals db' = md_proposals db @ [r] \<and> pr_status r = ''pending'' \<and> mpw_status row = ''pending''
        \<and> pr_requires_human r = human_reasons lower bear db q \<and> mpw_requires_human row = human_reasons lower bear db q)"
  using assms
proof (cases rule: create_proposal_cases)
  case (filed r)
  have "marked q review_marks (human_reasons lower bear db q) (pr_payload r)" using marked_enriched filed(6) by simp
  from marked_row [OF this filed(7)] filed(4)
  have "mpw_requires_human row = human_reasons lower bear db q \<and> mpw_status row = ''pending''" by simp
  then show ?thesis using filed by blast
qed blast

definition sample_request :: "bool \<Rightarrow> string \<Rightarrow> proposal_request" where
  "sample_request human sens = \<lparr>prq_source_profile = StPair, prq_source_agent_id = None, prq_source_paths = [''pair/notes.md''], prq_source_refs = JObj [],
     prq_suggested_action = ''promote_to_core'', prq_target_ref = None, prq_title = ''T'', prq_summary = ''a durable lesson from pairing'',
     prq_rationale = [], prq_proposed_content = None, prq_proposed_patch = None, prq_refs = JObj [], prq_sensitivity = sens,
     prq_requires_human = human\<rparr>"

lemma sample_create:
  "\<not> isl (snd (create_proposal (\<lambda>s. s) Some ''bear'' ''p1'' ''t'' (sample_request False '' person'') sample_memory))"
  "length (md_proposals (fst (create_proposal (\<lambda>s. s) Some ''bear'' ''p1'' ''t'' (sample_request False '' person'') sample_memory))) = 1"
  "\<not> isl (snd (create_proposal (\<lambda>s. s) Some ''bear'' ''p1'' ''t'' (sample_request False ''normal'') sample_memory))"
  "length (md_proposals (fst (create_proposal (\<lambda>s. s) Some ''bear'' ''p1'' ''t'' (sample_request False ''normal'') sample_memory))) = 1"
  "human_reasons (\<lambda>s. s) ''bear'' sample_memory (sample_request False '' person'')"
  "\<not> human_reasons (\<lambda>s. s) ''bear'' sample_memory (sample_request False ''normal'')"
  "requested_claim (\<lambda>s. s) (sample_request False ''normal'') \<noteq> []"
  by code_simp+

theorem proposal_asks_for_human_witness:
  "\<exists>db' row. create_proposal (\<lambda>s. s) Some ''bear'' ''p1'' ''t'' (sample_request False '' person'') sample_memory = (db', Inr row)
     \<and> mpw_requires_human row"
proof -
  let ?m = "create_proposal (\<lambda>s. s) Some ''bear'' ''p1'' ''t'' (sample_request False '' person'') sample_memory"
  obtain db' row where run: "?m = (db', Inr row)" using sample_create(1) by (metis prod.collapse sum.collapse(2))
  then have "db' \<noteq> sample_memory" using sample_create(2) by (auto simp: sample_memory_def)
  then show ?thesis using proposal_asks_for_human [OF run] run sample_create(5) by blast
qed

text \<open>
  C36. A repeated request loses its flag: when a proposal was filed for which there was no reason to ask for
  a human, the same request made again with the flag set is answered with the filed one, which still
  does not ask for a human; nothing is written.
\<close>

theorem repeated_request_loses_flag:
  assumes "create_proposal lower uuid bear fresh now q db = (db', Inr row)" and "md_proposals db' \<noteq> md_proposals db"
    and "\<not> human_reasons lower bear db q" and "requested_claim lower q \<noteq> []"
  shows "create_proposal lower uuid bear fresh' now' (q\<lparr>prq_requires_human := True\<rparr>) db' = (db', Inr row) \<and> \<not> mpw_requires_human row"
  using assms(1)
proof (cases rule: create_proposal_cases)
  case (pending key r)
  then show ?thesis using assms(2) by simp
next
  case (filed r)
  have "marked q review_marks (human_reasons lower bear db q) (pr_payload r)" using marked_enriched filed(6) by simp
  from marked_row(1) [OF this filed(7)] assms(3) have flag: "\<not> mpw_requires_human row" by simp
  let ?q = "q\<lparr>prq_requires_human := True\<rparr>"
  obtain key where key: "request_key lower q = Some key" using request_key_exists [OF assms(4)] by blast
  have key': "request_key lower ?q = Some key"
    using key by (simp add: request_key_def proposal_dedupe_key_def payload_source_hash_def payload_claim_fingerprint_def payload_text_def
        proposal_payload_def jget_def)
  have "filter (\<lambda>p. pr_bear p = bear \<and> pr_status p = ''pending'' \<and> stored_dedupe_key (pr_payload p) = Some key) (md_proposals db) = []"
    using filed(1) key by (simp add: pending_proposal_for_dedupe_key_def no_first_row)
  moreover have "stored_dedupe_key (pr_payload r) = Some key" using filed(6) key stored_key_of_enriched by simp
  ultimately have "pending_proposal_for_dedupe_key bear key db' = Some (into_proposal r)"
    using filed(2-4) by (simp add: pending_proposal_for_dedupe_key_def sql_limit_def by_sequence_desc_def)
  then have "create_proposal lower uuid bear fresh' now' ?q db' = (db', Inr row)"
    using stored_key_of_enriched [of lower bear db' ?q] key' filed(7) request_key_nonempty [of lower ?q]
    by (simp add: create_proposal_def create_memory_proposal_def bindM_def queryM_def returnM_def filter_opt_def tryM_def Let_def)
  then show ?thesis using flag by blast
qed

theorem repeated_request_loses_flag_witness:
  "\<exists>db' row. create_proposal (\<lambda>s. s) Some ''bear'' ''p1'' ''t'' (sample_request False ''normal'') sample_memory = (db', Inr row)
     \<and> create_proposal (\<lambda>s. s) Some ''bear'' ''p2'' ''t'' (sample_request True ''normal'') db' = (db', Inr row) \<and> \<not> mpw_requires_human row"
proof -
  let ?m = "create_proposal (\<lambda>s. s) Some ''bear'' ''p1'' ''t'' (sample_request False ''normal'') sample_memory"
  obtain db' row where run: "?m = (db', Inr row)" using sample_create(3) by (metis prod.collapse sum.collapse(2))
  then have "md_proposals db' \<noteq> md_proposals sample_memory" using sample_create(4) by (auto simp: sample_memory_def)
  from repeated_request_loses_flag [OF run this sample_create(6,7), of "''p2''" "''t''"] run show ?thesis
    by (auto simp: sample_request_def)
qed

definition sample_curated :: memory_db where
  "sample_curated = fst (create_proposal (\<lambda>s. s) Some ''bear'' ''p2'' ''t'' (sample_request True ''normal'' \<lparr>prq_summary := ''another durable lesson''\<rparr>)
     (fst (create_proposal (\<lambda>s. s) Some ''bear'' ''p1'' ''t'' (sample_request False ''normal'') sample_memory)))"

theorem curation_promotes_only_cleared_witness:
  "\<exists>db'. db' = fst (execute_memory_curate_proposals (\<lambda>s. s) Some ''bear'' (\<lambda>n k. ''u'' @ show_nat n @ show_nat k) (\<lambda>_ _. ''t'') None [''p2'', ''p1'']
         sample_curated)
     \<and> map pm_source (md_promotions db') = [''p1'']
     \<and> (\<forall>pm \<in> set (md_promotions db'). \<exists>q \<in> set (md_proposals sample_curated). cleared_proposal Some ''bear'' (pm_source pm) q)"
proof -
  let ?m = "execute_memory_curate_proposals (\<lambda>s. s) Some ''bear'' (\<lambda>n k. ''u'' @ show_nat n @ show_nat k) (\<lambda>_ _. ''t'') None [''p2'', ''p1''] sample_curated"
  have "memory_schema_ok sample_curated" "md_promotions sample_curated = []" "map pm_source (md_promotions (fst ?m)) = [''p1'']"
    by code_simp+
  with curation_promotes_only_cleared [OF this(1) refl] show ?thesis by fastforce
qed

subsection \<open>What a promotion replaces\<close>

lemma resolve_keeps_records: "md_records (fst (resolve_proposal uuid bear now q db)) = md_records db"
proof -
  have "md_records (fst (resolve_memory_proposal bear now i status review db)) = md_records db" for i status review
    by (auto simp: resolve_memory_proposal_def bindM_def queryM_def failM_def returnM_def checked_writeM_def split: option.split)
  then show ?thesis
    unfolding resolve_proposal_def bindM_def tryM_def
    by (auto simp: failM_def returnM_def split: prod.split sum.split) (metis fst_conv)+
qed

lemma resolved_status:
  assumes "resolve_proposal uuid bear now q db = (db', Inr row)"
  shows "mpw_status row = prs_status q"
proof -
  obtain p where p: "resolve_memory_proposal bear now (prs_proposal_id q) (prs_status q) (review_payload q) db = (db', Inr p)"
    and row: "sqlite_proposal_to_row uuid bear p (prs_reviewer_profile q) = Inr row"
    using assms by (auto simp: resolve_proposal_def tryM_def returnM_def failM_def elim!: bindM_Inr split: sum.splits)
  have "mp_status p = prs_status q"
    using p by (auto simp: resolve_memory_proposal_def bindM_def queryM_def failM_def returnM_def checked_writeM_def get_memory_proposal_def
        into_proposal_def find_Some_iff update_where_def split: option.splits if_splits)
  then show ?thesis using row_status [OF row] by simp
qed

lemma approved_run:
  assumes "resolve_curate_proposal lower uuid bear fresh now p trigger db = (db', Inr out)" and "cuo_status out = ''approved''"
  obtains db1 promoted where "promote_to_shared_core_at_path lower bear fresh now (mpw_id p) (core_target_path p) (path_kind (core_target_path p))
      (promotion_body p) ''curate'' None db = (db1, Inr promoted)" "md_records db' = md_records db1"
proof (cases "triage_label (decide_curate_triage p trigger) = ''promote_to_core''")
  case True
  let ?t = "decide_curate_triage p trigger"
  have run: "catchM (bindM (apply_core_promotion lower uuid bear fresh now p ?t) (\<lambda>(path, _). returnM (approved_outcome p (triage_label ?t) path)))
      (defer_after_error uuid bear (now 3) p) db = (db', Inr out)"
    using assms(1) True by (simp add: resolve_curate_proposal_def Let_def)
  have "defer_after_error uuid bear (now 3) p e d \<noteq> (db', Inr out)" for e d
    using assms(2) by (auto simp: defer_after_error_def returnM_def elim!: bindM_Inr dest!: resolved_status)
  then have "bindM (apply_core_promotion lower uuid bear fresh now p ?t) (\<lambda>(path, _). returnM (approved_outcome p (triage_label ?t) path)) db = (db', Inr out)"
    using run by (auto simp: catchM_def split: prod.splits sum.splits store_error.splits)
  then obtain x where "apply_core_promotion lower uuid bear fresh now p ?t db = (db', Inr x)"
    by (auto simp: returnM_def elim!: bindM_Inr)
  then obtain db1 promoted q row where "promote_to_shared_core_at_path lower bear fresh now (mpw_id p) (core_target_path p) (path_kind (core_target_path p))
      (promotion_body p) (stance_as_str StCurate) None db = (db1, Inr promoted)" and "resolve_proposal uuid bear (now 2) q db1 = (db', Inr row)"
    by (auto simp: apply_core_promotion_def Let_def returnM_def elim!: bindM_Inr)
  then show ?thesis using that resolve_keeps_records by (metis fst_conv stance_as_str.simps(3))
next
  case False
  then obtain q row where "resolve_proposal uuid bear (now 0) q db = (db', Inr row)" "cuo_status out = mpw_status row"
      "prs_status q = resolution_status (decide_curate_triage p trigger)"
    using assms(1) by (auto simp: resolve_curate_proposal_def Let_def returnM_def elim!: bindM_Inr)
  moreover have "resolution_status (decide_curate_triage p trigger) \<noteq> ''approved''"
    using False by (cases "decide_curate_triage p trigger") simp_all
  ultimately show ?thesis using assms(2) resolved_status by metis
qed



text \<open>A bear whose knowledge is written down, and a row as the run reads it.\<close>

definition sample_knowledge :: memory_db where
  "sample_knowledge = fst (sqlite_write_at_path (\<lambda>s. s) ''bear'' ''m4'' ''t'' ''core/knowledge.md'' ''curate'' ''K'' ''all that is known'' JNull
     (fst (create_proposal (\<lambda>s. s) Some ''bear'' ''p1'' ''t'' (sample_request False ''normal'') sample_memory)))"

definition sample_row :: memory_proposal_row where
  "sample_row = (case sqlite_proposal_to_row Some ''bear'' (into_proposal (hd (md_proposals sample_knowledge))) StCurate of Inr p \<Rightarrow> p)"

definition sample_ids :: "nat \<Rightarrow> string" where
  "sample_ids n = (if n = 0 then ''u0'' else ''u1'')"

lemma sample_knowledge_ok:
  "ready_for (sample_ids 0) sample_knowledge"
  "head_record_for_logical_path ''bear'' ''core/knowledge.md'' sample_knowledge \<noteq> None"
  "\<not> same_claim (\<lambda>s. s) (promotion_body sample_row) (the (head_record_for_logical_path ''bear'' ''core/knowledge.md'' sample_knowledge))"
  "mpw_target_ref sample_row = None"
  by code_simp+

lemma sample_approved:
  "\<exists>db' out. resolve_curate_proposal (\<lambda>s. s) Some ''bear'' sample_ids (\<lambda>_. ''t'') sample_row None sample_knowledge = (db', Inr out)
     \<and> cuo_status out = ''approved''"
proof -
  let ?m = "resolve_curate_proposal (\<lambda>s. s) Some ''bear'' sample_ids (\<lambda>_. ''t'') sample_row None sample_knowledge"
  have "case snd ?m of Inl _ \<Rightarrow> False | Inr out \<Rightarrow> cuo_status out = ''approved''" by code_simp
  then show ?thesis by (cases ?m) (auto split: sum.splits)
qed



definition sample_update :: core_update_request where
  "sample_update = \<lparr>cur_reviewer_profile = StCurate, cur_binding_id = ''b'', cur_proposal_id = ''p1'', cur_target_path = ''core/knowledge.md'',
     cur_mode = ''append_section'', cur_body = Some ''one more section'', cur_review_notes = None\<rparr>"

lemma sample_update_ok:
  "cur_mode sample_update = ''append_section''" "cur_body sample_update = Some ''one more section''" "cur_target_path sample_update = ''core/knowledge.md''"
  "to_logical_path (from_logical_path (cur_target_path sample_update)) = cur_target_path sample_update"
  "\<not> same_claim (\<lambda>s. s) ''one more section'' (the (head_record_for_logical_path ''bear'' (cur_target_path sample_update) sample_knowledge))"
  "\<not> isl (snd (apply_core_update (\<lambda>s. s) Some ''bear'' sample_ids (\<lambda>_. ''t'') sample_update sample_knowledge))"
  by code_simp+


end
