(* ===== verification/Memory_Search.thy ===== *)
theory Memory_Search
  imports Memory_Tools
begin

section \<open>Keyword search\<close>

text \<open>
  Patterns as token lists: escaping makes every character literal, and a search is a substring search.
\<close>

subsection \<open>Patterns and substrings\<close>

lemma replace_char_simps [simp]:
  "replace_char c r [] = []" "replace_char c r (d # s) = (if d = c then r else [d]) @ replace_char c r s"
  by (simp_all add: replace_char_def)

lemma replace_char_append: "replace_char c r (s @ t) = replace_char c r s @ replace_char c r t"
  by (simp add: replace_char_def)

definition escaped_char :: "char \<Rightarrow> string" where
  "escaped_char c = (if c \<in> {backslash, CHR ''%'', CHR ''_''} then [backslash, c] else [c])"

lemma escape_like_Cons: "escape_like (c # s) = escaped_char c @ escape_like s"
  by (simp add: escape_like_def replace_char_append escaped_char_def backslash_def)

lemma tokens_escaped: "like_tokens (Some backslash) (escape_like q @ t) = map LitChar q @ like_tokens (Some backslash) t"
proof (induction q)
  case Nil
  show ?case by (simp add: escape_like_def)
next
  case (Cons c q)
  then show ?case by (simp add: escape_like_Cons escaped_char_def)
qed

lemma match_any: "like_match (AnySeq # p) s \<longleftrightarrow> (\<exists>a b. s = a @ b \<and> like_match p b)"
proof (induction s)
  case (Cons c s)
  have "(\<exists>a b. c # s = a @ b \<and> like_match p b) \<longleftrightarrow> like_match p (c # s) \<or> (\<exists>a b. s = a @ b \<and> like_match p b)"
    by (auto simp: Cons_eq_append_conv)
  then show ?case using Cons by simp
qed simp

lemma match_literal: "like_match (map LitChar q @ [AnySeq]) s \<longleftrightarrow> prefix (to_ascii_lowercase q) (to_ascii_lowercase s)"
proof (induction q arbitrary: s)
  case Nil
  show ?case by (simp add: match_any to_ascii_lowercase_def)
next
  case (Cons c q)
  then show ?case by (cases s) (auto simp: to_ascii_lowercase_def)
qed

lemma sublist_of_map: "sublist w (map f s) \<longleftrightarrow> (\<exists>a b. s = a @ b \<and> prefix w (map f b))"
proof
  assume "sublist w (map f s)"
  then obtain us vs where "map f s = us @ (w @ vs)" by (auto simp: sublist_def)
  then obtain a b where "s = a @ b" "map f b = w @ vs" unfolding map_eq_append_conv [of f s us] by metis
  then show "\<exists>a b. s = a @ b \<and> prefix w (map f b)" by (metis prefixI)
next
  assume "\<exists>a b. s = a @ b \<and> prefix w (map f b)"
  then obtain a b zs where "map f s = map f a @ w @ zs" by (auto simp: prefix_def)
  then show "sublist w (map f s)" unfolding sublist_def by blast
qed

lemma contains_match: "sql_like (Some backslash) (contains_pattern q) s \<longleftrightarrow> sublist (to_ascii_lowercase q) (to_ascii_lowercase s)"
proof -
  have "CHR ''%'' \<noteq> backslash" by (simp add: backslash_def)
  then have "like_tokens (Some backslash) (contains_pattern q) = AnySeq # map LitChar q @ [AnySeq]"
    by (simp add: contains_pattern_def tokens_escaped)
  then have "sql_like (Some backslash) (contains_pattern q) s \<longleftrightarrow> (\<exists>a b. s = a @ b \<and> prefix (to_ascii_lowercase q) (to_ascii_lowercase b))"
    by (simp add: sql_like_def match_any match_literal)
  also have "\<dots> \<longleftrightarrow> sublist (to_ascii_lowercase q) (to_ascii_lowercase s)"
    unfolding to_ascii_lowercase_def by (rule sublist_of_map [symmetric])
  finally show ?thesis .
qed

text \<open>
  C26. A keyword search is literal: the hits are, in order and up to the limit, the current heads in the
  role's reach that are valid and not archived and whose text contains the query, letters compared
  without regard to ASCII case; no character of the query acts as a wildcard.
\<close>

theorem keyword_search_is_literal:
  "jget (sqlite_memory_search bear role query limit db) ''hits'' = Some (JArr (map hit_json (records_where bear
     (\<lambda>r. mr_visibility r = ''normal'' \<and> mr_invalid_at r = None \<and> stored_lifecycle (mr_metadata r) \<noteq> Some ''archived''
        \<and> (mr_scope_type r = ''shared'' \<or> mr_scope_profile r = Some role) \<and> is_head db r
        \<and> sublist (to_ascii_lowercase query) (to_ascii_lowercase (mr_content_text r))) limit db)))"
proof -
  have "searched_record bear role query db = (\<lambda>r. mr_visibility r = ''normal'' \<and> mr_invalid_at r = None
      \<and> stored_lifecycle (mr_metadata r) \<noteq> Some ''archived'' \<and> (mr_scope_type r = ''shared'' \<or> mr_scope_profile r = Some role) \<and> is_head db r
      \<and> sublist (to_ascii_lowercase query) (to_ascii_lowercase (mr_content_text r)))"
  proof
    fix r :: memory_rec
    have "unwrap_or (stored_lifecycle (mr_metadata r)) ''active'' \<noteq> ''archived'' \<longleftrightarrow> stored_lifecycle (mr_metadata r) \<noteq> Some ''archived''"
      by (cases "stored_lifecycle (mr_metadata r)") (simp_all add: unwrap_or_def)
    then show "searched_record bear role query db r = (mr_visibility r = ''normal'' \<and> mr_invalid_at r = None
      \<and> stored_lifecycle (mr_metadata r) \<noteq> Some ''archived'' \<and> (mr_scope_type r = ''shared'' \<or> mr_scope_profile r = Some role) \<and> is_head db r
      \<and> sublist (to_ascii_lowercase query) (to_ascii_lowercase (mr_content_text r)))"
      unfolding searched_record_def contains_match by blast
  qed
  then show ?thesis by (simp add: sqlite_memory_search_def jget_def)
qed

end
