(* ===== verification/Spec2Isabelle.thy ===== *)
theory Spec2Isabelle
  imports Contract_Gaps Loop_Properties Ledger_Properties Transcript_Properties Conversation_Properties
    Turn_Controller_Properties Tool_Turn_Properties Client_Tool_Properties
    Memory_Resolution Memory_Conflict_Properties Memory_Expansion Memory_Curation_Properties Memory_Search
begin

text \<open>
  A verification development of the turn runtime of BEARS: the crate \<open>den-runtime\<close> of
  \<open>services/den\<close>, with the crates it rests on (\<open>den-core\<close>, \<open>den-protocol\<close>,
  \<open>bearwire-protocol\<close>, \<open>den-llm\<close>), the docket (\<open>den-docket\<close>), the in-memory side of the
  service layer (\<open>den-service\<close>) and the memory of a bear (\<open>den-memory\<close>).

  \<^bold>\<open>The program.\<close> A bear answers a request in a turn. The turn is a row of \<open>turn_runs\<close>; each
  call of the model is a row of \<open>turn_steps\<close>; whatever the turn waits for (the result of a
  tool that the client runs, a permission, an answer of a human) is a row of
  \<open>turn_obligations\<close>, with a lease that one client attempt can hold; the answers are rows of
  \<open>turn_obligation_results\<close>; what surfaces see is the append-only log \<open>bearwire_events\<close>. The
  coordinator settles an answer, and lets the model continue when nothing of the step is open.
  While the model runs tools, the turn budget counts calls, time, failures and repetitions
  and decides to stop or to warn, and the control profile decides when the model has to stop for
  a checkpoint. Before each call of the model the stored conversation is turned into a message
  list, repaired and, when it grows too long, compacted into a summary. A turn may work on a
  docket: a job with tasks and criteria, dispatched to workers through routing decisions, claims
  and attempts; the completion policy keeps a turn going while focused work is open. In the
  process that holds the client's connection, the turn controller follows the stream of one
  turn and hands out its terminal event, and the tool-turn coordinator passes results of the
  client's tools to the waiting calls; which tools there are, and which a session may use, is
  the client-tool catalogue. What a bear remembers is kept apart, in a database of its own:
  records under logical paths that supersede one another, the entities they are about, and links
  between the two, some of which restrict who may see a record. Texts reach the shared core of it
  through proposals, which a curation run or the curate stance resolves and promotes.

  \<^bold>\<open>Foundations.\<close>
  \<^item> \<open>Den_Prelude\<close>: machine words with saturating and checked arithmetic, results.
  \<^item> \<open>Rust_String\<close>: strings as byte lists, the white-space, case and character operations of
    \<open>str\<close>, JSON values.
  \<^item> \<open>Den_Interfaces\<close>: the locales for enums with a spelling, guarded updates, machines with an
    invariant or a frame, counting folds, saturating counters over a history, tallies.
  \<^item> \<open>Db_Effects\<close>: operations of a database client with constraints and transactions, and the
    locale \<open>db_frame\<close> for a relation that operations keep.
  \<^item> \<open>Den_Core\<close>: \<open>den-core/src/{profile,governance,agent_loop_control,error}.rs\<close>.

  \<^bold>\<open>Turn budget.\<close> \<open>Turn_Budget\<close> is \<open>agent_loop/budget.rs\<close> with the report structures of
  \<open>context_budget.rs\<close>. Counters are words of the width of the source, with its saturation, and
  the unchecked additions of the warning code may panic in the model: that they never do is a
  theorem. Prompt rendering, JSON parsing and the quoting of JSON strings are arguments. The
  theorems: a stop names a bound that is broken, no stop means every bound holds, the grace is
  spent once, the counters are the saturated sums, repeated batches are stopped, signatures
  do not depend on member order.

  \<^bold>\<open>Turn store.\<close> \<open>Turn_Schema\<close> has the rows, the enums with their stored spellings and the
  constraints of the migrations. \<open>Turn_Runs\<close> is \<open>turn_runs.rs\<close>, \<open>turn_steps.rs\<close>,
  \<open>turn_ids.rs\<close> and \<open>bearwire_events.rs\<close>; \<open>Turn_Obligations\<close> is \<open>turn_obligations.rs\<close>;
  \<open>Turn_Waits\<close> is \<open>turn_waits.rs\<close>; \<open>Obligation_Coordinator\<close> is
  \<open>client_obligation_coordinator.rs\<close>. An operation is a function from a database to a database
  and a result or an error: a write that breaks a constraint is refused, a failed transaction
  is rolled back, and an operation that runs several statements outside a transaction keeps
  what the first ones wrote. Clock readings, generated uuids, the digest of a result, the
  printed form of a uuid and the tool catalogue are arguments. Each operation runs alone: an
  interleaving of clients is a sequence of operations, and the coordinator works on row
  snapshots that may be stale, so what other clients do between its statements and its caller's
  reads is covered by the choice of the snapshot; interleaving inside one coordinator call is
  not modelled.

  \<^bold>\<open>Theorems on the store.\<close> \<open>Store_Frame\<close> states once, as locales, what an operation may touch
  and proves it of every operation. On it rest
  \<^item> \<open>Turn_Machine\<close>: an operation alphabet with every entry point of the store; terminal runs,
    settled obligations and held leases, results and events last under any sequence of
    operations (runs: other than parking);
  \<^item> \<open>Run_Closure\<close>: finishing a run is complete, atomic and happens once; transitions and
    continuation claims on every branch;
  \<^item> \<open>Result_Settlement\<close>: leases exclude other attempts and admit their holder, results are
    recorded once, late results change nothing, the model continues only past a closed barrier;
  \<^item> \<open>Turn_Queries\<close>: paged reading of the log is complete (its fuel is any number of pages at
    least the number of events, because each page but the last advances by at least one event),
    the reconciliation sweep, the blocking reason, decoding of rows;
  \<^item> \<open>Contract_Gaps\<close>: two behaviours that the state-machine inventory of the documents rules
    out and the code has.
  \<open>Store_Samples\<close> is the concrete database on which the theorems with hypotheses are applied.

  \<^bold>\<open>Models and loop control.\<close> \<open>Model_Registry\<close> is \<open>den-llm/src/model_registry.rs\<close> without the
  token calibration. \<open>Loop_Control\<close> is \<open>agent_loop/control.rs\<close>. \<open>Loop_Properties\<close>: handles resolve
  unambiguously, fallbacks are well founded, higher levels are tighter, the checkpoint triggers
  are those of the history of tool results, serialised next actions come back.

  \<^bold>\<open>Docket.\<close> \<open>Docket_Types\<close> and \<open>Docket_Model\<close> are \<open>den-docket/src/model.rs\<close>;
  \<open>Turn_Completion\<close> is \<open>runtime/turn_state.rs\<close> (less the JSON document for prompts) and
  \<open>runtime/completion_policy.rs\<close>. \<open>Docket_Recovery\<close> and \<open>Docket_Ledger\<close> are the routing, recovery,
  supervision, cursor and preflight modules of \<open>den-docket\<close>, less \<open>set_work_run_paused\<close>, on tables with the
  constraints of the migrations. \<open>Docket_Properties\<close> and \<open>Docket_Contracts\<close>: completion never
  abandons open work, the status report adds up, projections do not depend on row order, the
  exact conditions of validation, source references come back. \<open>Ledger_Frame\<close> proves the
  frame of every ledger operation, and \<open>Ledger_Properties\<close> from it: attempts settle once, claims
  exclude, routing is idempotent and sticky.

  \<^bold>\<open>Transcript and compaction.\<close> \<open>Transcript\<close> and \<open>Transcript_Chain\<close> are
  \<open>agent_loop/context.rs\<close> with the payloads of \<open>den-service/src/conversation/persistence.rs\<close> and
  the classification of \<open>agent_loop/tool_outcome.rs\<close>; \<open>Transcript_Properties\<close>: texts and calls are
  kept in order, a repaired chain follows the grammar of providers, pruning is bounded.
  \<open>Compaction_Groups\<close>, \<open>Compaction_Summary\<close>, \<open>Compaction_Job\<close> and \<open>Compaction_Lifecycle\<close> are
  \<open>runtime/compaction\<close> with its stores and \<open>agent_loop/overflow_retry.rs\<close>; \<open>Conversation_Records\<close> and
  \<open>Conversation_Tasks\<close> are the back-fill of missing tool results that loading a transcript starts
  (\<open>den-service/src/conversation/{message_types,events,persistence}.rs\<close>), with the started tasks as part of the state;
  \<open>Compaction_Selection\<close> and \<open>Compaction_Properties\<close>: groups partition the transcript, the decision
  equals its specification, the cutoff is exact, a job persists its artifact, summaries keep what
  they had; \<open>Conversation_Properties\<close>: over entry points and tasks a conversation keeps its messages and
  gains only incomplete results of calls it requested. The unlimited retry of a fresh artifact id is a
  partial function, so that its theorems show that it returns.

  \<^bold>\<open>Client tools and the live turn.\<close> \<open>Client_Tools\<close> and \<open>Client_Tool_Surface\<close> are
  \<open>den-core/src/client_tools.rs\<close> and \<open>den-core/src/tools/display.rs\<close>: session policies, names,
  descriptors, policies, schemas, and the display of a call. \<open>Turn_Controller\<close> is the state
  machine of \<open>den-service/src/turn_controller.rs\<close>; \<open>Tool_Turns\<close> is \<open>den-service/src/tool_turns.rs\<close> and
  the cancellation registry of \<open>turn_controller.rs\<close>. \<open>Client_Tool_Properties\<close>: tools that change
  something need write mode and approval, names resolve, displays hide sensitive arguments.
  \<open>Turn_Controller_Properties\<close>: one terminal event, never without settling what is open, and always
  reachable. \<open>Tool_Turn_Properties\<close>: each channel carries one answer, of its own call; what a
  delivery does on every branch; the cache of settled results is bounded.

  \<^bold>\<open>Memory.\<close> \<open>Memory_Entities\<close> is \<open>den-memory/src/{descriptors,entity,resolver}.rs\<close>,
  \<open>Memory_Graph\<close> is \<open>{relations,access}.rs\<close>, \<open>Memory_Records\<close> is \<open>{logical_path,records}.rs\<close> and
  \<open>Memory_Conflicts\<close> is \<open>{observations,conflicts}.rs\<close> with the joins of \<open>records.rs\<close>, \<open>Memory_Review\<close> is
  \<open>{promotions,proposals,harvest,reflection_outcomes}.rs\<close> and \<open>Memory_Tools\<close> is \<open>{tools,admin_inspect}.rs\<close>, all on the
  tables of \<open>schema.sql\<close>; \<open>Memory_Curation\<close> is \<open>den-runtime/src/memory/{curation,curate_executor}.rs\<close> with the core
  update of \<open>den/src/core/tools/memory_review.rs\<close>; \<open>Memory_Upkeep\<close> has the remaining writers: what opening a
  database runs (\<open>migrate.rs\<close>), the insertion of an imported record (\<open>import.rs\<close>) and the deletion form of
  \<open>den-web/src/bear/memory.rs\<close>. \<open>Memory_Merging\<close>: a merge redirects the loser and nothing else, moves access along,
  and makes a loop when it is undone the wrong way round; forward pointers are followed for at
  most 32 hops, as in the code, and the theorems say how long the chains may be. \<open>Memory_Access\<close>:
  the gate against its specification, and what a new relation does to it. \<open>Memory_Growth\<close>: no call
  takes anything away, but for the paths of a confirmed deletion. \<open>Memory_Resolution\<close>: resolving
  signals never merges, and reports when strong signals disagree.
  \<open>Memory_Conflict_Properties\<close>: detection is exact and files each conflict once. \<open>Memory_Expansion\<close>:
  the bounded expansion is a breadth-first search. \<open>Memory_Paths\<close>: heads after superseding, and the
  round trip of paths. \<open>Memory_Promotion\<close>: a promotion installs its claim at its path, and what another
  spelling of the path does. \<open>Memory_Curation_Properties\<close>: a run promotes only what was cleared for it,
  a proposal asks for a human exactly when there is a reason, and what approvals and core updates
  replace. \<open>Memory_Search\<close>: a keyword search is a substring search.

  \<^bold>\<open>Arguments of the model.\<close> What the code takes from outside its sources is an argument of the
  definitions: \<open>us\<close> and \<open>simple\<close> print a uuid and \<open>pu\<close> and \<open>uuid\<close> parse one, \<open>lower\<close> is Unicode
  lower-casing, \<open>show_json\<close>, \<open>show_pretty\<close> and \<open>to_vec\<close> print JSON, \<open>debug\<close> prints with \<open>{:?}\<close>,
  \<open>sha256\<close> and \<open>digest\<close> hash, \<open>parse_ts\<close> reads a time stamp, \<open>strict\<close> is an environment flag, \<open>generate\<close> is the call of a model,
  and clock readings and fresh uuids are given to each operation. A theorem that relies on a
  property of such an argument (\<open>uuid_text\<close>: printed uuids parse back and have no separators) has it
  as a hypothesis.

  \<^bold>\<open>Not modelled.\<close> Asynchronous orchestration (\<open>session_stream.rs\<close>, \<open>native_runtime/turn.rs\<close>),
  provider clients, web, OAuth and HTTP fronts (but for the deletion form of the memory page),
  prompts, the sandbox, the reading of git histories by imports, the conversion of databases of
  earlier versions, and the clients outside \<open>services/den\<close>. Within modelled parts: interleaving inside one call,
  poisoned locks, background tasks other than the back-fill of tool results, the texts that wrap database
  errors, foreign keys to \<open>bears\<close> and \<open>users\<close>, and the encoding of rows by \<open>serde\<close> and \<open>sqlx\<close>.

  \<^bold>\<open>Plan.\<close> What could follow: the storage of the docket (\<open>den-docket/src/{db,work_runs,dispatcher}.rs\<close>), the plan
  mode and web policy of the service, the summaries of \<open>tool_outcome.rs\<close>, the checkpoints of the
  loop, and the path containment of the sandbox.
\<close>

end
